(* ===== verification/Argus_Prelude.thy ===== *)
theory Argus_Prelude
  imports Main "HOL-Library.Word" "HOL-Library.Signed_Division"
begin

text \<open>
  Shared vocabulary of the development: the machine integers of the firmware, the status
  codes every operation returns, the C library character and string routines the sources
  call, and the generic lemmas on words and lists that the component theories use.

  Unsigned C integers are words of their width, so that their arithmetic wraps. Signed
  integers are mathematical integers; where the code could leave the 32-bit range, a bounds
  lemma of the component shows that it does not.
\<close>

unbundle bit_operations_syntax

section \<open>Machine integers and status codes\<close>

type_synonym u8 = "8 word"
type_synonym u16 = "16 word"
type_synonym u32 = "32 word"
type_synonym u64 = "64 word"

text \<open>
  \<open>esp_err_t\<close> is a C \<open>int\<close>. The named codes have their documented values; an
  operation of the platform may return any other code too.
\<close>

type_synonym esp_err = int

abbreviation (input) ESP_OK :: esp_err where
  "ESP_OK \<equiv> 0"

abbreviation (input) ESP_FAIL :: esp_err where
  "ESP_FAIL \<equiv> -1"

abbreviation (input) ESP_ERR_NO_MEM :: esp_err where
  "ESP_ERR_NO_MEM \<equiv> 257"

abbreviation (input) ESP_ERR_INVALID_ARG :: esp_err where
  "ESP_ERR_INVALID_ARG \<equiv> 258"

abbreviation (input) ESP_ERR_INVALID_STATE :: esp_err where
  "ESP_ERR_INVALID_STATE \<equiv> 259"

abbreviation (input) ESP_ERR_INVALID_SIZE :: esp_err where
  "ESP_ERR_INVALID_SIZE \<equiv> 260"

abbreviation (input) ESP_ERR_NOT_FOUND :: esp_err where
  "ESP_ERR_NOT_FOUND \<equiv> 261"

abbreviation (input) ESP_ERR_NOT_SUPPORTED :: esp_err where
  "ESP_ERR_NOT_SUPPORTED \<equiv> 262"

abbreviation (input) ESP_ERR_TIMEOUT :: esp_err where
  "ESP_ERR_TIMEOUT \<equiv> 263"

abbreviation (input) ESP_ERR_INVALID_CRC :: esp_err where
  "ESP_ERR_INVALID_CRC \<equiv> 265"

abbreviation (input) ESP_ERR_NVS_NOT_FOUND :: esp_err where
  "ESP_ERR_NVS_NOT_FOUND \<equiv> 4354"

abbreviation (input) INT32_MAX :: int where
  "INT32_MAX \<equiv> 2147483647"

abbreviation (input) INT32_MIN :: int where
  "INT32_MIN \<equiv> -2147483648"

text \<open>The widening and narrowing casts between the unsigned widths.\<close>

abbreviation u64_of_u32 :: "u32 \<Rightarrow> u64" where
  "u64_of_u32 \<equiv> ucast"

abbreviation u32_of_u64 :: "u64 \<Rightarrow> u32" where
  "u32_of_u64 \<equiv> ucast"

definition in_int32 :: "int \<Rightarrow> bool" where
  "in_int32 x \<longleftrightarrow> INT32_MIN \<le> x \<and> x \<le> INT32_MAX"

section \<open>Characters and strings of the C library\<close>

text \<open>
  The classification functions in the \<open>C\<close> locale, on characters read as bytes. A
  C string is the list of its characters before the terminating zero.
\<close>

definition c_isspace :: "char \<Rightarrow> bool" where
  "c_isspace c \<longleftrightarrow> (let k = of_char c :: nat in k = 32 \<or> (9 \<le> k \<and> k \<le> 13))"

definition c_isdigit :: "char \<Rightarrow> bool" where
  "c_isdigit c \<longleftrightarrow> (let k = of_char c :: nat in 48 \<le> k \<and> k \<le> 57)"

definition c_digit_value :: "char \<Rightarrow> nat" where
  "c_digit_value c = (of_char c :: nat) - 48"

definition c_tolower :: "char \<Rightarrow> char" where
  "c_tolower c = (let k = of_char c :: nat in if 65 \<le> k \<and> k \<le> 90 then char_of (k + 32) else c)"

text \<open>The same classes on bytes, for the fixed-size buffers of the stored records.\<close>

definition b_isalnum :: "u8 \<Rightarrow> bool" where
  "b_isalnum b \<longleftrightarrow> (48 \<le> b \<and> b \<le> 57) \<or> (65 \<le> b \<and> b \<le> 90) \<or> (97 \<le> b \<and> b \<le> 122)"

definition b_isprint :: "u8 \<Rightarrow> bool" where
  "b_isprint b \<longleftrightarrow> 32 \<le> b \<and> b \<le> 126"

text \<open>
  \<open>strlen\<close> and \<open>strnlen\<close> on a fixed-size buffer: the bytes before the first zero. A
  buffer with no zero byte has the length of the buffer.
\<close>

definition cstr :: "u8 list \<Rightarrow> u8 list" where
  "cstr buf = takeWhile (\<lambda>b. b \<noteq> 0) buf"

definition c_strlen :: "u8 list \<Rightarrow> nat" where
  "c_strlen buf = length (cstr buf)"

lemma c_strlen_le [simp]: "c_strlen buf \<le> length buf"
  by (simp add: c_strlen_def cstr_def length_takeWhile_le)

section \<open>Generic lemmas\<close>

named_theorems step_defs \<open>definitions of atomic operations, unfolded by the preservation lemmas\<close>

lemma split_first_step:
  assumes "xs \<noteq> []"
  obtains y ys where "xs = y # ys"
  using assms by (cases xs) auto

lemma unat_u64_of_u32 [simp]: "unat (u64_of_u32 w) = unat w"
proof -
  have "take_bit 64 (unat w) = unat w"
    using unsigned_less [of w, where 'a = nat] by (simp add: take_bit_nat_eq_self_iff)
  then show ?thesis by (simp add: unsigned_ucast_eq)
qed

lemma unat_lt_2p: "unat (w :: 'a::len word) < 2 ^ LENGTH('a)"
  by (fact unsigned_less)

lemma unat_lt_u32 [simp]: "unat (w :: u32) < 4294967296"
  using unat_lt_2p [of w] by simp

lemma unat_lt_u64 [simp]: "unat (w :: u64) < 18446744073709551616"
  using unat_lt_2p [of w] by simp

lemma unat_add_no_wrap:
  fixes a b :: "'a::len word"
  assumes "unat a + unat b < 2 ^ LENGTH('a)"
  shows "unat (a + b) = unat a + unat b"
  using assms by (simp add: unat_word_ariths)

lemma unat_mult_no_wrap:
  fixes a b :: "'a::len word"
  assumes "unat a * unat b < 2 ^ LENGTH('a)"
  shows "unat (a * b) = unat a * unat b"
  using assms by (simp add: unat_word_ariths)

text \<open>The index of one of two slots.\<close>

lemma slot_index_cases: "i \<le> 1 \<longleftrightarrow> i = 0 \<or> i = 1" for i :: u8
  by (auto simp: word_le_nat_alt le_Suc_eq word_unat_eq_iff)

lemma slot_xor: "i \<le> 1 \<Longrightarrow> i XOR 1 = (if i = 0 then 1 else 0)" for i :: u8
  by (auto simp: slot_index_cases)

text \<open>A read that returns the stored cell, and reports an absent one as such.\<close>

definition cell_read :: "'a option \<Rightarrow> 'a \<Rightarrow> esp_err \<times> 'a \<Rightarrow> bool" where
  "cell_read stored out r =
     (case stored of Some x \<Rightarrow> r = (ESP_OK, x) | None \<Rightarrow> r = (ESP_ERR_NVS_NOT_FOUND, out))"

lemma cell_read_result:
  "cell_read stored out (e, x) \<Longrightarrow> e = ESP_OK \<or> e = ESP_ERR_NVS_NOT_FOUND"
  by (cases stored) (simp_all add: cell_read_def)

end
