(* ===== verification/Cmd_Parser.thy ===== *)
theory Cmd_Parser
  imports Argus_Prelude "HOL-Library.Sublist"
begin

text \<open>
  The payload parsers of the command path (\<open>argus_cmd_parser.c\<close>) and the normalised
  command envelope. A payload is a C string: the characters before its terminator, or
  \<open>None\<close> for a null pointer. A parser returns the status on failure (\<open>Inl\<close>) or the
  parsed value (\<open>Inr\<close>). The lemmas characterise exactly which payloads are accepted.
\<close>

section \<open>Envelope\<close>

datatype cmd_source =
    CMD_SRC_INTERNAL_SAFETY
  | CMD_SRC_CLI_DIAGNOSTIC
  | CMD_SRC_MQTT_SUPERVISORY
  | CMD_SRC_LOCAL_SERVICE_PORTAL

datatype cmd_type =
    CMD_TYPE_SET_TARGET
  | CMD_TYPE_START
  | CMD_TYPE_STOP_NORMAL
  | CMD_TYPE_UNLOCK
  | CMD_TYPE_ESTOP
  | CMD_TYPE_RESET_ESTOP
  | CMD_TYPE_RECOVER

record command_envelope =
  env_source :: cmd_source
  env_command_type :: cmd_type
  env_authority_generation :: u32
  env_target_rpm_milli :: int
  env_forward :: bool

section \<open>Parsers\<close>

text \<open>
  \<open>strtol\<close> in base 10 on a text that starts with a digit: the value of the longest
  prefix of digits, saturated at the 32-bit \<open>LONG_MAX\<close>, and the rest of the text.
\<close>

definition digits_value :: "string \<Rightarrow> nat" where
  "digits_value ds = fold (\<lambda>c v. 10 * v + c_digit_value c) ds 0"

definition c_strtol :: "string \<Rightarrow> int \<times> string" where
  "c_strtol s = (min INT32_MAX (int (digits_value (takeWhile c_isdigit s))), dropWhile c_isdigit s)"

definition argus_cmd_parser_speed_pct :: "string option \<Rightarrow> esp_err + int" where
  "argus_cmd_parser_speed_pct payload =
     (case payload of
        None \<Rightarrow> Inl ESP_ERR_INVALID_ARG
      | Some s \<Rightarrow>
          (let p = dropWhile c_isspace s in
           if p = [] then Inl ESP_ERR_INVALID_ARG
           else if \<not> c_isdigit (hd p) then Inl ESP_ERR_INVALID_ARG
           else
             (let (val, endptr) = c_strtol p
              in if dropWhile c_isspace endptr \<noteq> [] then Inl ESP_ERR_INVALID_ARG
                 else if val < 0 \<or> val > 100 then Inl ESP_ERR_INVALID_ARG
                 else Inr val)))"

text \<open>The word buffer holds 15 characters; a longer word leaves characters behind it.\<close>

definition argus_cmd_parser_bool :: "string option \<Rightarrow> esp_err + bool" where
  "argus_cmd_parser_bool payload =
     (case payload of
        None \<Rightarrow> Inl ESP_ERR_INVALID_ARG
      | Some s \<Rightarrow>
          (let p = dropWhile c_isspace s;
               raw = take 15 (takeWhile (\<lambda>c. \<not> c_isspace c) p);
               buf = map c_tolower raw;
               rest = dropWhile c_isspace (drop (length raw) p)
           in if rest \<noteq> [] \<or> raw = [] then Inl ESP_ERR_INVALID_ARG
              else if buf = ''true'' \<or> buf = ''1'' \<or> buf = ''on'' then Inr True
              else if buf = ''false'' \<or> buf = ''0'' \<or> buf = ''off'' then Inr False
              else Inl ESP_ERR_INVALID_ARG))"

definition argus_cmd_parser_validate_control_message :: "string option \<Rightarrow> bool \<Rightarrow> esp_err" where
  "argus_cmd_parser_validate_control_message topic is_retained =
     (case topic of
        None \<Rightarrow> ESP_OK
      | Some t \<Rightarrow>
          if is_retained \<and> (sublist ''/cmd/'' t \<or> sublist ''/cmd'' t \<or> sublist ''/control/'' t)
          then ESP_ERR_INVALID_STATE else ESP_OK)"

section \<open>Exact acceptance\<close>

definition blank :: "string \<Rightarrow> bool" where
  "blank s \<longleftrightarrow> (\<forall>c\<in>set s. c_isspace c)"

lemma digit_not_space: "c_isdigit c \<Longrightarrow> \<not> c_isspace c"
  by (auto simp: c_isdigit_def c_isspace_def Let_def)

lemma blank_dropWhile: "dropWhile c_isspace s = [] \<longleftrightarrow> blank s"
  by (simp add: blank_def)

text \<open>Leading blanks are skipped up to a text that does not start with one.\<close>

lemma dropWhile_blank_append:
  assumes "blank a" "b = [] \<or> \<not> P (hd b)" "\<And>c. c_isspace c \<Longrightarrow> P c"
  shows "dropWhile P (a @ b) = b"
proof -
  have "dropWhile P (a @ b) = dropWhile P b"
    using assms(1,3) by (simp add: blank_def dropWhile_append)
  then show ?thesis using assms(2) by (cases b) auto
qed

lemma takeWhile_word:
  assumes "\<forall>c\<in>set w. P c" "b = [] \<or> \<not> P (hd b)"
  shows "takeWhile P (w @ b) = w" and "dropWhile P (w @ b) = b"
  using assms by (cases b; simp add: takeWhile_append dropWhile_append)+

lemma speed_pct_shape:
  "argus_cmd_parser_speed_pct (Some s) = Inr v \<longleftrightarrow>
     (\<exists>a ds b. s = a @ ds @ b \<and> blank a \<and> blank b \<and> ds \<noteq> [] \<and> (\<forall>c\<in>set ds. c_isdigit c)
        \<and> v = int (digits_value ds) \<and> v \<le> 100)"
proof
  assume l: "argus_cmd_parser_speed_pct (Some s) = Inr v"
  let ?p = "dropWhile c_isspace s"
  let ?a = "takeWhile c_isspace s" and ?ds = "takeWhile c_isdigit ?p" and ?b = "dropWhile c_isdigit ?p"
  have "?p \<noteq> []" "c_isdigit (hd ?p)" "dropWhile c_isspace ?b = []" "v = int (digits_value ?ds)" "v \<le> 100"
    using l by (auto simp: argus_cmd_parser_speed_pct_def c_strtol_def Let_def split: if_splits)
  moreover from this(1,2) have "?ds \<noteq> []" by (cases ?p) auto
  moreover have "s = ?a @ ?ds @ ?b" by simp
  moreover have "blank ?a" "\<forall>c\<in>set ?ds. c_isdigit c"
    by (auto simp: blank_def dest: set_takeWhileD)
  ultimately show "\<exists>a ds b. s = a @ ds @ b \<and> blank a \<and> blank b \<and> ds \<noteq> [] \<and> (\<forall>c\<in>set ds. c_isdigit c)
        \<and> v = int (digits_value ds) \<and> v \<le> 100"
    unfolding blank_dropWhile by blast
next
  assume "\<exists>a ds b. s = a @ ds @ b \<and> blank a \<and> blank b \<and> ds \<noteq> [] \<and> (\<forall>c\<in>set ds. c_isdigit c)
        \<and> v = int (digits_value ds) \<and> v \<le> 100"
  then obtain a ds b where s: "s = a @ ds @ b" "blank a" "blank b" "ds \<noteq> []" "\<forall>c\<in>set ds. c_isdigit c"
    and v: "v = int (digits_value ds)" "v \<le> 100" by blast
  have hd: "c_isdigit (hd (ds @ b))" using s by (cases ds) auto
  then have p: "dropWhile c_isspace s = ds @ b"
    unfolding s(1) using s by (intro dropWhile_blank_append) (auto dest: digit_not_space)
  have "b = [] \<or> \<not> c_isdigit (hd b)"
    using s(3) digit_not_space by (cases b) (auto simp: blank_def)
  then have "takeWhile c_isdigit (ds @ b) = ds" "dropWhile c_isdigit (ds @ b) = b"
    using takeWhile_word s(5) by blast+
  then show "argus_cmd_parser_speed_pct (Some s) = Inr v"
    using p s hd v by (simp add: argus_cmd_parser_speed_pct_def c_strtol_def blank_def Let_def)
qed

text \<open>The words the boolean parser accepts, after lower-casing.\<close>

definition bool_words :: "bool \<Rightarrow> string list" where
  "bool_words v = (if v then [''true'', ''1'', ''on''] else [''false'', ''0'', ''off''])"

lemma bool_words_facts:
  assumes "w \<in> set (bool_words v)"
  shows "w \<noteq> []" and "length w < 15" and "w \<in> set (bool_words u) \<Longrightarrow> u = v"
  using assms by (cases v; cases u; auto simp: bool_words_def)+

abbreviation not_space :: "char \<Rightarrow> bool" where
  "not_space c \<equiv> \<not> c_isspace c"

lemma bool_eval:
  defines "p s \<equiv> dropWhile c_isspace s"
  defines "raw s \<equiv> take 15 (takeWhile not_space (p s))"
  shows "argus_cmd_parser_bool (Some s) = Inr v \<longleftrightarrow>
    blank (drop (length (raw s)) (p s)) \<and> map c_tolower (raw s) \<in> set (bool_words v)"
proof -
  have "raw s = [] \<Longrightarrow> map c_tolower (raw s) \<notin> set (bool_words v)"
    using bool_words_facts(1) by force
  moreover have "argus_cmd_parser_bool (Some s) =
      (if \<not> blank (drop (length (raw s)) (p s)) \<or> raw s = [] then Inl ESP_ERR_INVALID_ARG
       else if map c_tolower (raw s) \<in> set (bool_words True) then Inr True
       else if map c_tolower (raw s) \<in> set (bool_words False) then Inr False
       else Inl ESP_ERR_INVALID_ARG)"
    unfolding argus_cmd_parser_bool_def Let_def p_def raw_def option.case blank_dropWhile
    by (simp add: bool_words_def)
  ultimately show ?thesis
    using bool_words_facts(3) [of "map c_tolower (raw s)" True False] by (cases v) auto
qed

lemma parser_bool_shape:
  "argus_cmd_parser_bool (Some s) = Inr v \<longleftrightarrow>
     (\<exists>a x b. s = a @ x @ b \<and> blank a \<and> blank b \<and> (\<forall>c\<in>set x. not_space c)
        \<and> map c_tolower x \<in> set (bool_words v))"
proof
  let ?p = "dropWhile c_isspace s"
  let ?x = "takeWhile not_space ?p" and ?b = "dropWhile not_space ?p"
  assume "argus_cmd_parser_bool (Some s) = Inr v"
  then have b: "blank (drop (length (take 15 ?x)) ?p)" and w: "map c_tolower (take 15 ?x) \<in> set (bool_words v)"
    by (simp_all only: bool_eval)
  from bool_words_facts(2) [OF w] have "length (take 15 ?x) < 15" by simp
  then have x: "take 15 ?x = ?x" by simp
  have "s = takeWhile c_isspace s @ ?x @ ?b" by simp
  moreover have "blank (takeWhile c_isspace s)" "\<forall>c\<in>set ?x. not_space c"
    by (auto simp: blank_def dest: set_takeWhileD)
  moreover have "blank ?b" using b unfolding x by (simp add: dropWhile_eq_drop)
  ultimately show "\<exists>a x b. s = a @ x @ b \<and> blank a \<and> blank b \<and> (\<forall>c\<in>set x. not_space c)
        \<and> map c_tolower x \<in> set (bool_words v)"
    using w unfolding x by blast
next
  assume "\<exists>a x b. s = a @ x @ b \<and> blank a \<and> blank b \<and> (\<forall>c\<in>set x. not_space c)
        \<and> map c_tolower x \<in> set (bool_words v)"
  then obtain a x b where s: "s = a @ x @ b" "blank a" "blank b" "\<forall>c\<in>set x. not_space c"
    and w: "map c_tolower x \<in> set (bool_words v)" by blast
  have "x \<noteq> []" "length x < 15" using bool_words_facts [OF w] by auto
  then have "not_space (hd (x @ b))" using s(4) by (cases x) auto
  then have p: "dropWhile c_isspace s = x @ b"
    unfolding s(1) using s(2) by (intro dropWhile_blank_append) auto
  have "b = [] \<or> \<not> not_space (hd b)"
    using s(3) by (cases b) (auto simp: blank_def)
  then have "takeWhile not_space (x @ b) = x"
    by (rule takeWhile_word(1) [OF s(4)])
  with \<open>length x < 15\<close> have "take 15 (takeWhile not_space (dropWhile c_isspace s)) = x"
    by (simp add: p)
  then show "argus_cmd_parser_bool (Some s) = Inr v"
    using s(3) w by (simp only: bool_eval p) simp
qed

section \<open>Properties\<close>

text \<open>
  The speed parser accepts exactly the payloads that are a nonempty run of decimal
  digits between optional blanks whose value is at most 100, and returns that value; signs,
  embedded or trailing characters, and values that overflow the C integer are all rejected.
\<close>

theorem speed_pct_exact:
  "argus_cmd_parser_speed_pct (Some s) = Inr v \<longleftrightarrow>
     (\<exists>a ds b. s = a @ ds @ b \<and> blank a \<and> blank b \<and> ds \<noteq> [] \<and> list_all c_isdigit ds
        \<and> v = int (digits_value ds) \<and> v \<le> 100)"
  using speed_pct_shape [of s v] unfolding list_all_iff .

text \<open>
  The boolean parser accepts exactly the payloads that are one of the six words, in any
  letter case, between optional blanks, with the truth value of the word.
\<close>

theorem parser_bool_exact:
  "argus_cmd_parser_bool (Some s) = Inr v \<longleftrightarrow>
     (\<exists>a x b. s = a @ x @ b \<and> blank a \<and> blank b \<and> list_all not_space x
        \<and> map c_tolower x \<in> set (if v then [''true'', ''1'', ''on''] else [''false'', ''0'', ''off'']))"
  using parser_bool_shape [of s v] unfolding bool_words_def list_all_iff .

end
