(* ===== verification/Authority.thy ===== *)
theory Authority
  imports Cmd_Parser
begin

text \<open>
  The control authority manager (\<open>argus_authority_mgr.c\<close>): which channel may command the
  machine. The mode, its owner and a generation counter change together; a command carries
  the generation it was built under. The static instance and the caller-supplied core run
  the same transitions; the null checks on the core pointer and on output pointers have no
  counterpart here.
\<close>

section \<open>State\<close>

datatype control_authority =
    AUTHORITY_NONE
  | AUTHORITY_SUPERVISORY
  | AUTHORITY_SERVICE_TRANSITION
  | AUTHORITY_LOCAL_SERVICE

datatype authority_owner =
    AUTH_OWNER_NONE
  | AUTH_OWNER_MQTT
  | AUTH_OWNER_BROWSER
  | AUTH_OWNER_DIAGNOSTIC_CLI

record authority_snapshot =
  as_mode :: control_authority
  as_owner :: authority_owner
  as_generation :: u32

record authority_core =
  au_mode :: control_authority
  au_owner :: authority_owner
  au_generation :: u32
  au_last_error :: esp_err

record authority_mgr =
  am_core :: authority_core
  am_initialized :: bool

definition authority_boot :: authority_mgr where
  "authority_boot =
     \<lparr> am_core = \<lparr> au_mode = AUTHORITY_NONE, au_owner = AUTH_OWNER_NONE, au_generation = 1,
                    au_last_error = ESP_OK \<rparr>, am_initialized = False \<rparr>"

definition argus_authority_mgr_init :: "authority_mgr \<Rightarrow> esp_err \<times> authority_mgr" where
  "argus_authority_mgr_init a =
     (ESP_OK,
      if \<not> am_initialized a
      then \<lparr> am_core = \<lparr> au_mode = AUTHORITY_NONE, au_owner = AUTH_OWNER_NONE, au_generation = 1,
                         au_last_error = ESP_OK \<rparr>, am_initialized = True \<rparr>
      else a)"

definition argus_authority_mgr_get_snapshot ::
  "authority_mgr \<Rightarrow> (esp_err \<times> authority_snapshot) \<times> authority_mgr" where
  "argus_authority_mgr_get_snapshot a =
     (let a1 = (if \<not> am_initialized a then snd (argus_authority_mgr_init a) else a); c = am_core a1
      in ((ESP_OK, \<lparr> as_mode = au_mode c, as_owner = au_owner c, as_generation = au_generation c \<rparr>), a1))"

fun argus_authority_mgr_get_mode_name :: "control_authority \<Rightarrow> string" where
  "argus_authority_mgr_get_mode_name AUTHORITY_NONE = ''NONE''"
| "argus_authority_mgr_get_mode_name AUTHORITY_SUPERVISORY = ''SUPERVISORY''"
| "argus_authority_mgr_get_mode_name AUTHORITY_SERVICE_TRANSITION = ''SERVICE_TRANSITION''"
| "argus_authority_mgr_get_mode_name AUTHORITY_LOCAL_SERVICE = ''LOCAL_SERVICE''"

fun argus_authority_mgr_get_owner_name :: "authority_owner \<Rightarrow> string" where
  "argus_authority_mgr_get_owner_name AUTH_OWNER_NONE = ''NONE''"
| "argus_authority_mgr_get_owner_name AUTH_OWNER_MQTT = ''MQTT''"
| "argus_authority_mgr_get_owner_name AUTH_OWNER_BROWSER = ''BROWSER''"
| "argus_authority_mgr_get_owner_name AUTH_OWNER_DIAGNOSTIC_CLI = ''DIAGNOSTIC_CLI''"

section \<open>Transitions\<close>

fun argus_authority_validate_pair :: "control_authority \<Rightarrow> authority_owner \<Rightarrow> esp_err" where
  "argus_authority_validate_pair AUTHORITY_NONE owner =
     (if owner = AUTH_OWNER_NONE then ESP_OK else ESP_ERR_INVALID_ARG)"
| "argus_authority_validate_pair AUTHORITY_SUPERVISORY owner =
     (if owner = AUTH_OWNER_MQTT then ESP_OK else ESP_ERR_INVALID_ARG)"
| "argus_authority_validate_pair AUTHORITY_SERVICE_TRANSITION owner =
     (if owner = AUTH_OWNER_NONE then ESP_OK else ESP_ERR_INVALID_ARG)"
| "argus_authority_validate_pair AUTHORITY_LOCAL_SERVICE owner =
     (if owner = AUTH_OWNER_BROWSER \<or> owner = AUTH_OWNER_DIAGNOSTIC_CLI
      then ESP_OK else ESP_ERR_INVALID_ARG)"

definition argus_authority_mgr_set_mode ::
  "control_authority \<Rightarrow> authority_owner \<Rightarrow> authority_mgr \<Rightarrow> esp_err \<times> authority_mgr" where
  "argus_authority_mgr_set_mode new_mode new_owner a =
     (let a1 = (if \<not> am_initialized a then snd (argus_authority_mgr_init a) else a);
          pair_err = argus_authority_validate_pair new_mode new_owner;
          c = am_core a1
      in if pair_err \<noteq> ESP_OK then (pair_err, a1)
         else (ESP_OK, a1\<lparr> am_core := c\<lparr> au_mode := new_mode, au_owner := new_owner,
                                           au_generation := au_generation c + 1 \<rparr> \<rparr>))"

definition argus_authority_abort_service_transition :: "authority_mgr \<Rightarrow> authority_mgr" where
  "argus_authority_abort_service_transition a =
     snd (argus_authority_mgr_set_mode AUTHORITY_NONE AUTH_OWNER_NONE a)"

definition argus_authority_grant_local_service ::
  "authority_owner \<Rightarrow> authority_mgr \<Rightarrow> esp_err \<times> authority_mgr" where
  "argus_authority_grant_local_service requested_owner a =
     (if requested_owner \<noteq> AUTH_OWNER_BROWSER \<and> requested_owner \<noteq> AUTH_OWNER_DIAGNOSTIC_CLI
      then (ESP_ERR_INVALID_ARG, argus_authority_abort_service_transition a)
      else
        (let ((_, snap), a1) = argus_authority_mgr_get_snapshot a
         in if as_mode snap \<noteq> AUTHORITY_SERVICE_TRANSITION
            then (ESP_ERR_INVALID_STATE, argus_authority_abort_service_transition a1)
            else (ESP_OK, snd (argus_authority_mgr_set_mode AUTHORITY_LOCAL_SERVICE requested_owner a1))))"

text \<open>The production service operations bind the same three calls.\<close>

definition prod_prepare_transition :: "authority_mgr \<Rightarrow> esp_err \<times> authority_mgr" where
  "prod_prepare_transition a = argus_authority_mgr_set_mode AUTHORITY_SERVICE_TRANSITION AUTH_OWNER_NONE a"

definition prod_grant_local :: "authority_owner \<Rightarrow> authority_mgr \<Rightarrow> esp_err \<times> authority_mgr" where
  "prod_grant_local owner a = argus_authority_grant_local_service owner a"

definition prod_abort_transition :: "authority_mgr \<Rightarrow> authority_mgr" where
  "prod_abort_transition a = argus_authority_abort_service_transition a"

definition argus_authority_core_set_mode ::
  "control_authority \<Rightarrow> authority_owner \<Rightarrow> authority_core \<Rightarrow> esp_err \<times> authority_core" where
  "argus_authority_core_set_mode new_mode new_owner c =
     (let pair_err = argus_authority_validate_pair new_mode new_owner
      in if pair_err \<noteq> ESP_OK then (pair_err, c\<lparr> au_last_error := pair_err \<rparr>)
         else (ESP_OK, c\<lparr> au_mode := new_mode, au_owner := new_owner,
                          au_generation := au_generation c + 1, au_last_error := ESP_OK \<rparr>))"

definition argus_authority_core_prepare_service_transition :: "authority_core \<Rightarrow> esp_err \<times> authority_core" where
  "argus_authority_core_prepare_service_transition c =
     argus_authority_core_set_mode AUTHORITY_SERVICE_TRANSITION AUTH_OWNER_NONE c"

definition argus_authority_core_abort_service_transition :: "authority_core \<Rightarrow> authority_core" where
  "argus_authority_core_abort_service_transition c =
     snd (argus_authority_core_set_mode AUTHORITY_NONE AUTH_OWNER_NONE c)"

definition argus_authority_core_grant_local_service ::
  "authority_owner \<Rightarrow> authority_core \<Rightarrow> esp_err \<times> authority_core" where
  "argus_authority_core_grant_local_service requested_owner c =
     (if requested_owner \<noteq> AUTH_OWNER_BROWSER \<and> requested_owner \<noteq> AUTH_OWNER_DIAGNOSTIC_CLI
      then (ESP_ERR_INVALID_ARG, argus_authority_core_abort_service_transition c)
      else if au_mode c \<noteq> AUTHORITY_SERVICE_TRANSITION
      then (ESP_ERR_INVALID_STATE, argus_authority_core_abort_service_transition c)
      else argus_authority_core_set_mode AUTHORITY_LOCAL_SERVICE requested_owner c)"

definition argus_authority_validate_permission ::
  "authority_snapshot option \<Rightarrow> cmd_source \<Rightarrow> cmd_type \<Rightarrow> bool" where
  "argus_authority_validate_permission snap source cmd =
     (case snap of
        None \<Rightarrow> False
      | Some s \<Rightarrow>
          if source = CMD_SRC_INTERNAL_SAFETY \<or> cmd = CMD_TYPE_ESTOP then True
          else (case as_mode s of
                  AUTHORITY_NONE \<Rightarrow> False
                | AUTHORITY_SUPERVISORY \<Rightarrow>
                    source = CMD_SRC_MQTT_SUPERVISORY \<and> as_owner s = AUTH_OWNER_MQTT
                | AUTHORITY_SERVICE_TRANSITION \<Rightarrow> False
                | AUTHORITY_LOCAL_SERVICE \<Rightarrow>
                    source = CMD_SRC_LOCAL_SERVICE_PORTAL \<and> as_owner s = AUTH_OWNER_BROWSER
                    \<or> source = CMD_SRC_CLI_DIAGNOSTIC \<and> as_owner s = AUTH_OWNER_DIAGNOSTIC_CLI))"

section \<open>Invariant and exclusivity\<close>

definition authority_pair_ok :: "authority_core \<Rightarrow> bool" where
  "authority_pair_ok c \<longleftrightarrow> argus_authority_validate_pair (au_mode c) (au_owner c) = ESP_OK"

inductive authority_step :: "authority_mgr \<Rightarrow> authority_mgr \<Rightarrow> bool" where
  at_init: "authority_step a (snd (argus_authority_mgr_init a))"
| at_read: "authority_step a (snd (argus_authority_mgr_get_snapshot a))"
| at_set_mode: "authority_step a (snd (argus_authority_mgr_set_mode m ow a))"
| at_grant: "authority_step a (snd (argus_authority_grant_local_service ow a))"
| at_abort: "authority_step a (argus_authority_abort_service_transition a)"

lemmas authority_ops = argus_authority_mgr_init_def argus_authority_mgr_get_snapshot_def
  argus_authority_mgr_set_mode_def argus_authority_grant_local_service_def
  argus_authority_abort_service_transition_def

lemma validate_pair_cases:
  "argus_authority_validate_pair m ow = ESP_OK \<longleftrightarrow>
     (m, ow) \<in> {(AUTHORITY_NONE, AUTH_OWNER_NONE), (AUTHORITY_SUPERVISORY, AUTH_OWNER_MQTT),
                (AUTHORITY_SERVICE_TRANSITION, AUTH_OWNER_NONE),
                (AUTHORITY_LOCAL_SERVICE, AUTH_OWNER_BROWSER),
                (AUTHORITY_LOCAL_SERVICE, AUTH_OWNER_DIAGNOSTIC_CLI)}"
  by (cases m; cases ow) simp_all

lemma authority_step_pair:
  "authority_step a b \<Longrightarrow> authority_pair_ok (am_core a) \<Longrightarrow> authority_pair_ok (am_core b)"
  by (induction rule: authority_step.induct) (simp_all add: authority_ops authority_pair_ok_def Let_def)

lemma authority_reachable_pair:
  "authority_step\<^sup>*\<^sup>* authority_boot a \<Longrightarrow> authority_pair_ok (am_core a)"
  by (induction rule: rtranclp_induct)
    (auto simp: authority_boot_def authority_pair_ok_def dest: authority_step_pair)

text \<open>A change of mode or owner always moves the generation.\<close>

lemma authority_step_generation:
  assumes "authority_step a b" "am_initialized a"
  shows "am_initialized b \<and> (au_generation (am_core b) = au_generation (am_core a)
      \<longrightarrow> am_core b = am_core a)"
  using assms
  by (induction rule: authority_step.induct) (auto simp: authority_ops Let_def)

text \<open>A sequence of accepted mode changes, and the generation it leads to.\<close>

definition authority_changes :: "(control_authority \<times> authority_owner) list \<Rightarrow> authority_mgr \<Rightarrow> authority_mgr" where
  "authority_changes ps a = fold (\<lambda>(m, ow) a. snd (argus_authority_mgr_set_mode m ow a)) ps a"

lemma authority_changes_generation:
  assumes "am_initialized a" "\<forall>(m, ow)\<in>set ps. argus_authority_validate_pair m ow = ESP_OK"
  shows "am_initialized (authority_changes ps a)
    \<and> au_generation (am_core (authority_changes ps a)) = au_generation (am_core a) + of_nat (length ps)"
  using assms
proof (induction ps arbitrary: a)
  case (Cons p ps)
  obtain m ow where p: "p = (m, ow)" by (cases p)
  let ?a = "snd (argus_authority_mgr_set_mode m ow a)"
  have "am_initialized ?a" "au_generation (am_core ?a) = au_generation (am_core a) + 1"
    using Cons.prems p by (simp_all add: argus_authority_mgr_set_mode_def Let_def)
  then show ?case
    using Cons.IH [of ?a] Cons.prems by (simp add: authority_changes_def p)
qed (simp add: authority_changes_def)

section \<open>Properties\<close>

text \<open>
  Control is exclusive. In every authority state the manager can reach, the mode and
  owner are one of the five legal pairs, and at most one external source may issue motion
  commands: two permitted sources of ordinary commands are the same source.
\<close>

theorem authority_exclusive:
  assumes "authority_step\<^sup>*\<^sup>* authority_boot a"
    and "argus_authority_mgr_get_snapshot a = ((e, snap), a')"
    and "argus_authority_validate_permission (Some snap) s1 c1"
    and "argus_authority_validate_permission (Some snap) s2 c2"
    and "s1 \<noteq> CMD_SRC_INTERNAL_SAFETY" "s2 \<noteq> CMD_SRC_INTERNAL_SAFETY"
    and "c1 \<noteq> CMD_TYPE_ESTOP" "c2 \<noteq> CMD_TYPE_ESTOP"
  shows "s1 = s2 \<and> (as_mode snap, as_owner snap) \<in>
     {(AUTHORITY_SUPERVISORY, AUTH_OWNER_MQTT), (AUTHORITY_LOCAL_SERVICE, AUTH_OWNER_BROWSER),
      (AUTHORITY_LOCAL_SERVICE, AUTH_OWNER_DIAGNOSTIC_CLI)}"
proof -
  have "argus_authority_validate_pair (as_mode snap) (as_owner snap) = ESP_OK"
    using authority_reachable_pair [OF assms(1)] assms(2)
    by (auto simp: argus_authority_mgr_get_snapshot_def argus_authority_mgr_init_def
        authority_pair_ok_def Let_def split: if_splits)
  then show ?thesis
    using assms(3-) unfolding validate_pair_cases
    by (auto simp: argus_authority_validate_permission_def)
qed

definition authority_supervised :: authority_mgr where
  "authority_supervised = snd (argus_authority_mgr_set_mode AUTHORITY_SUPERVISORY AUTH_OWNER_MQTT authority_boot)"

theorem authority_exclusive_witness:
  "\<exists>snap. fst (argus_authority_mgr_get_snapshot authority_supervised) = (ESP_OK, snap)
     \<and> as_mode snap = AUTHORITY_SUPERVISORY \<and> as_owner snap = AUTH_OWNER_MQTT"
proof -
  let ?g = "argus_authority_mgr_get_snapshot authority_supervised"
  have r: "authority_step\<^sup>*\<^sup>* authority_boot authority_supervised"
    unfolding authority_supervised_def by (intro r_into_rtranclp at_set_mode)
  have e: "fst (fst ?g) = ESP_OK"
    by (simp add: argus_authority_mgr_get_snapshot_def Let_def)
  then have g: "?g = ((ESP_OK, snd (fst ?g)), snd ?g)"
    by (metis prod.collapse)
  have p: "argus_authority_validate_permission (Some (snd (fst ?g))) CMD_SRC_MQTT_SUPERVISORY CMD_TYPE_START"
    "as_mode (snd (fst ?g)) = AUTHORITY_SUPERVISORY"
    by (simp_all add: authority_supervised_def authority_ops authority_boot_def
        argus_authority_validate_permission_def Let_def)
  have "as_owner (snd (fst ?g)) = AUTH_OWNER_MQTT"
    using authority_exclusive [OF r g p(1) p(1)] p(2) by simp
  with p(2) show ?thesis
    by (intro exI [of _ "snd (fst ?g)"]) (simp add: prod_eq_iff e)
qed

text \<open>
  Local service is only granted out of a prepared transition, to the browser or the
  diagnostic console. Every other grant request drops control altogether (NONE/NONE) and is
  an error; an accepted grant and a refusal both move the generation, so commands built
  before them are stale.
\<close>

theorem grant_local_service_exact:
  assumes "am_initialized a"
  shows "let (err, b) = argus_authority_grant_local_service ow a; c = am_core a; d = am_core b in
    (if ow \<in> {AUTH_OWNER_BROWSER, AUTH_OWNER_DIAGNOSTIC_CLI} \<and> au_mode c = AUTHORITY_SERVICE_TRANSITION
     then err = ESP_OK \<and> au_mode d = AUTHORITY_LOCAL_SERVICE \<and> au_owner d = ow
     else err \<noteq> ESP_OK \<and> au_mode d = AUTHORITY_NONE \<and> au_owner d = AUTH_OWNER_NONE)
    \<and> au_generation d = au_generation c + 1"
  using assms by (cases ow) (simp_all add: authority_ops Let_def)

theorem grant_local_service_exact_witness:
  "fst (argus_authority_grant_local_service AUTH_OWNER_BROWSER
     (snd (prod_prepare_transition authority_supervised))) = ESP_OK"
  using grant_local_service_exact [of "snd (prod_prepare_transition authority_supervised)" AUTH_OWNER_BROWSER]
  by (simp add: prod_prepare_transition_def authority_supervised_def authority_boot_def
      argus_authority_mgr_set_mode_def argus_authority_mgr_init_def Let_def split_beta)

end
