(* ===== verification/Motion_Config.thy ===== *)
theory Motion_Config
  imports Argus_Prelude
begin

text \<open>
  The motor configuration (\<open>argus_config.h\<close>, \<open>argus_config.c\<close>) and the unit
  conversions (\<open>argus_conversions.c\<close>): steps per output revolution, milli-RPM to
  millihertz and back, and volumetric flow to milli-RPM. The lemmas bound the 64-bit
  arithmetic, give the rounding error of the speed/frequency round trip, and show that the
  flow conversion truncates and saturates as the code intends.
\<close>

section \<open>Configuration\<close>

record argus_config =
  cfg_motor_full_steps_per_rev :: u32
  cfg_microsteps :: u32
  cfg_gearbox_ratio_num :: u32
  cfg_gearbox_ratio_den :: u32
  cfg_min_output_milli_rpm :: int
  cfg_max_output_milli_rpm :: int
  cfg_min_step_pulse_width_us :: u32
  cfg_accel_milli_rpm_per_sec :: int
  cfg_decel_milli_rpm_per_sec :: int
  cfg_step_gpio :: int
  cfg_dir_gpio :: int
  cfg_en_gpio :: int
  cfg_enable_active_low :: bool
  cfg_step_active_low :: bool
  cfg_dir_inverted :: bool
  cfg_client_name :: string
  cfg_unit_id :: string

text \<open>
  \<open>argus_config_init\<close>: the compiled-in defaults, then the two identity strings from the
  legacy store when its namespace opens. \<open>open_err\<close> is the result of \<open>nvs_open\<close>;
  \<open>stored_client\<close> and \<open>stored_unit\<close> are what \<open>nvs_get_str\<close> finds (nothing when the
  key is missing or too long for the buffer, which leaves the default). The defaults of the
  two strings come from the build configuration.
\<close>

definition argus_config_defaults :: "string \<Rightarrow> string \<Rightarrow> argus_config" where
  "argus_config_defaults client unit =
     \<lparr> cfg_motor_full_steps_per_rev = 200,
       cfg_microsteps = 4,
       cfg_gearbox_ratio_num = 10,
       cfg_gearbox_ratio_den = 1,
       cfg_min_output_milli_rpm = 500,
       cfg_max_output_milli_rpm = 200000,
       cfg_min_step_pulse_width_us = 4,
       cfg_accel_milli_rpm_per_sec = 10000,
       cfg_decel_milli_rpm_per_sec = 10000,
       cfg_step_gpio = 3,
       cfg_dir_gpio = 4,
       cfg_en_gpio = 5,
       cfg_enable_active_low = True,
       cfg_step_active_low = True,
       cfg_dir_inverted = True,
       cfg_client_name = take 31 client,
       cfg_unit_id = take 31 unit \<rparr>"

definition argus_config_init ::
  "string \<Rightarrow> string \<Rightarrow> esp_err \<Rightarrow> string option \<Rightarrow> string option \<Rightarrow> esp_err \<times> argus_config" where
  "argus_config_init client unit open_err stored_client stored_unit =
     (let c = argus_config_defaults client unit;
          load = (\<lambda>dflt stored. case stored of None \<Rightarrow> dflt | Some s \<Rightarrow> s)
      in if open_err = ESP_OK
         then (ESP_OK, c\<lparr> cfg_client_name := load (cfg_client_name c) stored_client,
                          cfg_unit_id := load (cfg_unit_id c) stored_unit \<rparr>)
         else (ESP_OK, c))"

section \<open>Conversions\<close>

text \<open>A null configuration pointer is \<open>None\<close>.\<close>

definition argus_conversions_steps_per_rev :: "argus_config option \<Rightarrow> u64" where
  "argus_conversions_steps_per_rev cfg =
     (case cfg of
        None \<Rightarrow> 0
      | Some c \<Rightarrow>
          if cfg_gearbox_ratio_den c = 0 then 0
          else (let base = u64_of_u32 (cfg_motor_full_steps_per_rev c)
                             * u64_of_u32 (cfg_microsteps c)
                in (base * u64_of_u32 (cfg_gearbox_ratio_num c))
                     div u64_of_u32 (cfg_gearbox_ratio_den c)))"

definition argus_conversions_rpm_to_mhz :: "int \<Rightarrow> argus_config option \<Rightarrow> u64" where
  "argus_conversions_rpm_to_mhz milli_rpm cfg =
     (let spr = argus_conversions_steps_per_rev cfg
      in if spr = 0 then 0
         else (let abs_milli_rpm = (if milli_rpm < 0 then word_of_int (- milli_rpm)
                                    else word_of_int milli_rpm :: u64)
               in (abs_milli_rpm * spr) div 60))"

definition argus_conversions_mhz_to_rpm :: "u64 \<Rightarrow> bool \<Rightarrow> argus_config option \<Rightarrow> int" where
  "argus_conversions_mhz_to_rpm freq_mhz forward cfg =
     (let spr = argus_conversions_steps_per_rev cfg
      in if spr = 0 then 0
         else (let q = (freq_mhz * 60) div spr;
                   milli_rpm = (if uint q > INT32_MAX then INT32_MAX else uint q)
               in if forward then milli_rpm else - milli_rpm))"

definition argus_conversions_flow_to_rpm :: "int \<Rightarrow> int \<Rightarrow> int" where
  "argus_conversions_flow_to_rpm flow displacement =
     (if displacement \<le> 0 then 0
      else (let milli_rpm = (flow * 1000) sdiv displacement
            in if milli_rpm > INT32_MAX then INT32_MAX
               else if milli_rpm < INT32_MIN then INT32_MIN
               else milli_rpm))"

section \<open>Properties\<close>

text \<open>
  The unsigned product never wraps when the three factors stay below \<open>2 ^ 21\<close> each, and
  then the result is the natural-number quotient.
\<close>

lemma steps_per_rev_exact:
  assumes den: "cfg_gearbox_ratio_den c \<noteq> 0"
    and fit: "unat (cfg_motor_full_steps_per_rev c) * unat (cfg_microsteps c)
                * unat (cfg_gearbox_ratio_num c) < 2 ^ 64"
  shows "unat (argus_conversions_steps_per_rev (Some c)) =
           unat (cfg_motor_full_steps_per_rev c) * unat (cfg_microsteps c)
             * unat (cfg_gearbox_ratio_num c) div unat (cfg_gearbox_ratio_den c)"
proof -
  let ?m = "u64_of_u32 (cfg_motor_full_steps_per_rev c)"
  let ?u = "u64_of_u32 (cfg_microsteps c)"
  let ?g = "u64_of_u32 (cfg_gearbox_ratio_num c)"
  have "unat (cfg_motor_full_steps_per_rev c) * unat (cfg_microsteps c) < 2 ^ 32 * 2 ^ 32"
    by (rule mult_strict_mono') simp_all
  then have base: "unat (?m * ?u) = unat ?m * unat ?u"
    by (intro unat_mult_no_wrap) simp
  have "unat (?m * ?u * ?g) = unat (?m * ?u) * unat ?g"
    using fit by (intro unat_mult_no_wrap) (simp add: base)
  then show ?thesis
    using den base by (simp add: argus_conversions_steps_per_rev_def Let_def unat_div)
qed

lemma default_steps_per_rev [simp]:
  "argus_conversions_steps_per_rev (Some (argus_config_defaults client unit)) = 8000"
  by (simp add: argus_conversions_steps_per_rev_def argus_config_defaults_def)

lemma config_init_motor_fields:
  assumes "argus_config_init client unit e sc su = (err, c)"
  shows "err = ESP_OK"
    and "argus_conversions_steps_per_rev (Some c) = 8000"
    and "cfg_max_output_milli_rpm c = 200000"
    and "cfg_accel_milli_rpm_per_sec c = 10000"
    and "cfg_decel_milli_rpm_per_sec c = 10000"
    and "cfg_en_gpio c = 5"
  using assms
  by (auto simp: argus_config_init_def argus_config_defaults_def Let_def
      argus_conversions_steps_per_rev_def split: if_splits)

text \<open>The flow conversion stays in the 32-bit range and is zero without a displacement.\<close>

lemma flow_to_rpm_in_range: "in_int32 (argus_conversions_flow_to_rpm flow displacement)"
  by (simp add: argus_conversions_flow_to_rpm_def in_int32_def Let_def)

lemma flow_to_rpm_truncates:
  assumes "0 < displacement" and "0 \<le> flow" and "flow * 1000 div displacement \<le> INT32_MAX"
  shows "argus_conversions_flow_to_rpm flow displacement = flow * 1000 div displacement"
proof -
  have "(flow * 1000) sdiv displacement = flow * 1000 div displacement"
    using assms by (cases "flow = 0") (simp_all add: signed_divide_int_def sgn_mult)
  moreover have "0 \<le> flow * 1000 div displacement"
    using assms by (simp add: pos_imp_zdiv_nonneg_iff)
  ultimately show ?thesis
    using assms by (simp add: argus_conversions_flow_to_rpm_def)
qed

text \<open>
  Speed to frequency and back: the floor of the first division costs less than \<open>60/spr\<close>
  milli-RPM, so with at least 60 steps per revolution the round trip loses at most one
  milli-RPM and never gains any.
\<close>

lemma floor_round_trip:
  fixes r s :: nat
  assumes "60 \<le> s"
  shows "(r * s div 60) * 60 div s \<le> r" and "r \<le> (r * s div 60) * 60 div s + 1"
proof -
  have le: "(r * s div 60) * 60 \<le> r * s"
    by simp
  then show "(r * s div 60) * 60 div s \<le> r"
    using assms by (metis div_le_mono mult.commute nonzero_mult_div_cancel_left not_numeral_le_zero)
  have "r * s < (r * s div 60) * 60 + 60"
    using div_mult_mod_eq [of "r * s" 60] mod_less_divisor [of 60 "r * s"] by linarith
  then have "r * s \<le> (r * s div 60) * 60 + s"
    using assms by linarith
  then have "r * s div s \<le> ((r * s div 60) * 60 + s) div s"
    by (rule div_le_mono)
  then show "r \<le> (r * s div 60) * 60 div s + 1"
    using assms div_add_self2 [of s "(r * s div 60) * 60"] by simp
qed

lemma rpm_to_mhz_exact:
  assumes rpm: "0 \<le> rpm" "rpm \<le> 200000"
    and spr: "argus_conversions_steps_per_rev cfg = spr" "spr \<noteq> 0" "unat spr < 2 ^ 32"
  shows "unat (argus_conversions_rpm_to_mhz rpm cfg) = nat rpm * unat spr div 60"
proof -
  have u: "unat (word_of_int rpm :: u64) = nat rpm"
    using rpm by (simp add: unat_eq_nat_uint word_of_int_inverse uint_word_of_int take_bit_int_eq_self)
  have "nat rpm * unat spr \<le> 200000 * 2 ^ 32"
    by (rule mult_le_mono) (use rpm spr in simp_all)
  then have "unat (word_of_int rpm * spr :: u64) = nat rpm * unat spr"
    by (subst unat_mult_no_wrap) (simp_all add: u)
  then show ?thesis
    using rpm spr by (simp add: argus_conversions_rpm_to_mhz_def Let_def unat_div)
qed

text \<open>
  The speed/frequency round trip of the conversions, for every speed the controller
  accepts and every drive train with 60 to \<open>2 ^ 32\<close> steps per revolution: the
  reconstructed speed is never above the original, and at most one milli-RPM below it.
\<close>

lemma rpm_mhz_round_trip:
  assumes rpm: "0 \<le> rpm" "rpm \<le> 200000"
    and spr: "60 \<le> unat (argus_conversions_steps_per_rev cfg)"
      "unat (argus_conversions_steps_per_rev cfg) < 2 ^ 32"
  shows "argus_conversions_mhz_to_rpm (argus_conversions_rpm_to_mhz rpm cfg) True cfg \<in> {rpm - 1, rpm}"
proof -
  let ?s = "argus_conversions_steps_per_rev cfg"
  let ?f = "argus_conversions_rpm_to_mhz rpm cfg"
  have s0: "?s \<noteq> 0"
    using spr(1) by auto
  have f: "unat ?f = nat rpm * unat ?s div 60"
    using rpm_to_mhz_exact [OF rpm refl s0 spr(2)] .
  have "nat rpm * unat ?s \<le> 200000 * 2 ^ 32"
    by (rule mult_le_mono) (use rpm spr in simp_all)
  then have f60: "unat (?f * 60) = unat ?f * 60"
    by (subst unat_mult_no_wrap) (simp_all add: f)
  let ?q = "unat ?f * 60 div unat ?s"
  have q: "?q \<le> nat rpm" "nat rpm \<le> ?q + 1"
    using floor_round_trip [OF spr(1), of "nat rpm"] by (simp_all add: f)
  have "uint (?f * 60 div ?s) = int ?q"
    by (simp add: f60 unat_div uint_nat)
  then have "argus_conversions_mhz_to_rpm ?f True cfg = int ?q"
    using q(1) rpm s0 by (simp add: argus_conversions_mhz_to_rpm_def Let_def)
  then show ?thesis
    using q rpm by auto
qed

end
