(* ===== verification/Step_Gen.thy ===== *)
theory Step_Gen
  imports Motion_Config
begin

text \<open>
  The pulse engine (\<open>argus_step_gen.c\<close>): the timer interrupt that drives STEP, the
  rational-period rate setter, and the driver, direction and stop operations.

  The module's static variables are one record. The effects on the hardware (pin levels,
  timer calls, busy-wait and task delays) are appended to a log, oldest first, so that a
  pin's level is its last write and orderings can be stated. What the platform returns
  (mutex, timer and GPIO driver calls) is the argument \<open>hw_env\<close>. Each operation runs
  under the lifecycle mutex or the timing spinlock, and is one atomic step here.
\<close>

section \<open>State\<close>

datatype step_gen_error =
    STEP_GEN_ERROR_NONE
  | STEP_GEN_ERROR_INIT_FAILED
  | STEP_GEN_ERROR_TIMING_UPDATE_FAILED
  | STEP_GEN_ERROR_UNVERIFIED_ENABLE

record timing_settings =
  tm_integer :: u64
  tm_remainder :: u64
  tm_denominator :: u64
  tm_direction_forward :: bool
  tm_immediate_stop :: bool

definition timing_zero :: timing_settings where
  "timing_zero = \<lparr> tm_integer = 0, tm_remainder = 0, tm_denominator = 0,
                   tm_direction_forward = False, tm_immediate_stop = False \<rparr>"

datatype hw_event =
    Gpio_Set int int
  | Gpio_Config "int list"
  | Timer_New
  | Timer_Set_Alarm u64
  | Timer_Register_Callbacks
  | Timer_Enable
  | Timer_Start
  | Timer_Stop
  | Delay_Us nat
  | Task_Delay_Ms nat

text \<open>The platform's answers to the calls one operation makes.\<close>

record hw_env =
  he_mutex_create :: bool
  he_mutex_take :: bool
  he_gpio_config_step_dir :: esp_err
  he_gpio_config_en :: esp_err
  he_new_timer :: esp_err
  he_set_alarm :: esp_err
  he_register_callbacks :: esp_err
  he_timer_enable :: esp_err
  he_timer_start :: esp_err
  he_timer_stop :: esp_err
  he_raw_count_err :: esp_err
  he_raw_count :: u64

record step_gen =
  sg_timer :: bool
  sg_lifecycle_mutex :: bool
  sg_requested_rpm_milli :: int
  sg_generated_rpm_milli :: int
  sg_pending :: timing_settings
  sg_active :: timing_settings
  sg_rem_accumulator :: u64
  sg_next_step_ticks :: u64
  sg_step_count :: int
  sg_forward :: bool
  sg_running :: bool
  sg_driver_enabled :: bool
  sg_last_deassertion_ticks :: u64
  sg_error_state :: step_gen_error
  sg_step_gpio :: int
  sg_dir_gpio :: int
  sg_en_gpio :: int
  sg_step_active_level :: int
  sg_step_inactive_level :: int
  sg_dir_forward_level :: int
  sg_dir_reverse_level :: int
  sg_pin_asserted :: bool
  sg_log :: "hw_event list"

text \<open>The static initialisers; \<open>GPIO_NUM_NC\<close> is \<open>-1\<close>.\<close>

definition GPIO_NUM_NC :: int where
  "GPIO_NUM_NC = -1"

definition step_gen_boot :: step_gen where
  "step_gen_boot =
     \<lparr> sg_timer = False, sg_lifecycle_mutex = False,
       sg_requested_rpm_milli = 0, sg_generated_rpm_milli = 0,
       sg_pending = timing_zero, sg_active = timing_zero,
       sg_rem_accumulator = 0, sg_next_step_ticks = 0, sg_step_count = 0,
       sg_forward = True, sg_running = False, sg_driver_enabled = False,
       sg_last_deassertion_ticks = 0, sg_error_state = STEP_GEN_ERROR_NONE,
       sg_step_gpio = GPIO_NUM_NC, sg_dir_gpio = GPIO_NUM_NC, sg_en_gpio = GPIO_NUM_NC,
       sg_step_active_level = 0, sg_step_inactive_level = 1,
       sg_dir_forward_level = 0, sg_dir_reverse_level = 1,
       sg_pin_asserted = False, sg_log = [] \<rparr>"

definition hw :: "hw_event \<Rightarrow> step_gen \<Rightarrow> step_gen" where
  "hw e s = s\<lparr> sg_log := sg_log s @ [e] \<rparr>"

definition set_step_inactive :: "step_gen \<Rightarrow> step_gen" where
  "set_step_inactive s = hw (Gpio_Set (sg_step_gpio s) (sg_step_inactive_level s)) s"

definition set_step_active :: "step_gen \<Rightarrow> step_gen" where
  "set_step_active s = hw (Gpio_Set (sg_step_gpio s) (sg_step_active_level s)) s"

definition set_dir_level :: "bool \<Rightarrow> step_gen \<Rightarrow> step_gen" where
  "set_dir_level fwd s =
     hw (Gpio_Set (sg_dir_gpio s) (if fwd then sg_dir_forward_level s else sg_dir_reverse_level s)) s"

definition set_en_level :: "int \<Rightarrow> step_gen \<Rightarrow> step_gen" where
  "set_en_level lvl s = hw (Gpio_Set (sg_en_gpio s) lvl) s"

text \<open>The pending rate's three fields set to zero, as several operations do.\<close>

definition pending_zero_rate :: "step_gen \<Rightarrow> step_gen" where
  "pending_zero_rate s =
     s\<lparr> sg_pending := (sg_pending s)\<lparr> tm_integer := 0, tm_remainder := 0, tm_denominator := 0 \<rparr> \<rparr>"

section \<open>The timer interrupt\<close>

text \<open>The deassertion phase: STEP inactive, time stamp, pending direction applied.\<close>

definition isr_deassert_step :: "u64 \<Rightarrow> step_gen \<Rightarrow> step_gen" where
  "isr_deassert_step current_alarm s =
     (let s1 = (set_step_inactive s)\<lparr> sg_pin_asserted := False,
                                      sg_last_deassertion_ticks := current_alarm \<rparr>;
          fwd = tm_direction_forward (sg_pending s1)
      in if fwd \<noteq> sg_forward s1 then set_dir_level fwd (s1\<lparr> sg_forward := fwd \<rparr>) else s1)"

text \<open>Rate updates at the start of a step, in the timing critical section.\<close>

definition isr_accept_rate :: "step_gen \<Rightarrow> step_gen" where
  "isr_accept_rate s =
     (if tm_immediate_stop (sg_pending s) then
        s\<lparr> sg_active := (sg_active s)\<lparr> tm_integer := 0, tm_remainder := 0, tm_denominator := 0 \<rparr>,
           sg_generated_rpm_milli := 0,
           sg_pending := (sg_pending s)\<lparr> tm_immediate_stop := False \<rparr> \<rparr>
      else if tm_integer (sg_active s) \<noteq> tm_integer (sg_pending s)
            \<or> tm_remainder (sg_active s) \<noteq> tm_remainder (sg_pending s)
            \<or> tm_denominator (sg_active s) \<noteq> tm_denominator (sg_pending s) then
        s\<lparr> sg_active := sg_pending s,
           sg_generated_rpm_milli := sg_requested_rpm_milli s,
           sg_rem_accumulator := 0 \<rparr>
      else s)"

text \<open>Counting a generated step in the current direction.\<close>

definition count_step :: "step_gen \<Rightarrow> step_gen" where
  "count_step s = s\<lparr> sg_step_count := sg_step_count s + (if sg_forward s then 1 else -1) \<rparr>"

text \<open>The Bresenham accumulator: the next step interval in timer ticks.\<close>

definition isr_bresenham :: "step_gen \<Rightarrow> step_gen" where
  "isr_bresenham s =
     (let acc = sg_rem_accumulator s + tm_remainder (sg_active s)
      in if acc \<ge> tm_denominator (sg_active s)
         then s\<lparr> sg_rem_accumulator := acc - tm_denominator (sg_active s),
                 sg_next_step_ticks := tm_integer (sg_active s) + 1 \<rparr>
         else s\<lparr> sg_rem_accumulator := acc,
                 sg_next_step_ticks := tm_integer (sg_active s) \<rparr>)"

text \<open>
  Programming the next alarm, at least 30 ticks in the future when the counter can be
  read.
\<close>

definition isr_schedule_alarm :: "hw_env \<Rightarrow> u64 \<Rightarrow> step_gen \<Rightarrow> step_gen" where
  "isr_schedule_alarm h next_alarm s =
     (let now = he_raw_count h;
          next = (if he_raw_count_err h = ESP_OK \<and> next_alarm \<le> now + 30 then now + 30 else next_alarm)
      in hw (Timer_Set_Alarm next) s)"

definition low_duration :: "u64 \<Rightarrow> u64" where
  "low_duration ticks = (if ticks > 150 then ticks - 150 else 1)"

definition argus_timer_alarm_cb :: "hw_env \<Rightarrow> u64 \<Rightarrow> step_gen \<Rightarrow> step_gen" where
  "argus_timer_alarm_cb h current_alarm s =
     (if sg_pin_asserted s then
        (let s1 = isr_deassert_step current_alarm s
         in isr_schedule_alarm h (current_alarm + low_duration (sg_next_step_ticks s1)) s1)
      else if \<not> sg_running s \<or> \<not> sg_driver_enabled s then set_step_inactive s
      else
        (let s1 = isr_accept_rate s
         in if tm_integer (sg_active s1) = 0 then set_step_inactive s1
            else
              (let s2 = (set_step_active s1)\<lparr> sg_pin_asserted := True \<rparr>;
                   s3 = count_step (isr_bresenham s2)
               in isr_schedule_alarm h (current_alarm + 150) s3)))"

section \<open>Task-context operations\<close>

text \<open>\<open>argus_step_gen_init\<close>; a null configuration pointer is \<open>None\<close>.\<close>

definition init_fail :: "step_gen \<Rightarrow> esp_err \<times> step_gen" where
  "init_fail s = (ESP_FAIL, s\<lparr> sg_error_state := STEP_GEN_ERROR_INIT_FAILED \<rparr>)"

definition init_fail_safe :: "step_gen \<Rightarrow> esp_err \<times> step_gen" where
  "init_fail_safe s = init_fail (set_en_level 1 (set_step_inactive s))"

definition init_variables :: "argus_config \<Rightarrow> step_gen \<Rightarrow> step_gen" where
  "init_variables c s =
     s\<lparr> sg_step_gpio := cfg_step_gpio c, sg_dir_gpio := cfg_dir_gpio c,
        sg_en_gpio := cfg_en_gpio c,
        sg_step_active_level := (if cfg_step_active_low c then 0 else 1),
        sg_step_inactive_level := (if cfg_step_active_low c then 1 else 0),
        sg_dir_forward_level := (if cfg_dir_inverted c then 0 else 1),
        sg_dir_reverse_level := (if cfg_dir_inverted c then 1 else 0),
        sg_requested_rpm_milli := 0, sg_generated_rpm_milli := 0,
        sg_rem_accumulator := 0, sg_next_step_ticks := 0, sg_step_count := 0,
        sg_forward := True, sg_running := False, sg_driver_enabled := False,
        sg_last_deassertion_ticks := 0, sg_error_state := STEP_GEN_ERROR_NONE \<rparr>"

text \<open>From the creation of the timer to the end of \<open>argus_step_gen_init\<close>.\<close>

definition init_timer :: "hw_env \<Rightarrow> step_gen \<Rightarrow> esp_err \<times> step_gen" where
  "init_timer h s =
     (let s1 = hw Timer_New s in
      if he_new_timer h \<noteq> ESP_OK then init_fail_safe s1 else
      let s2 = hw (Timer_Set_Alarm 10000) (s1\<lparr> sg_timer := True \<rparr>) in
      if he_set_alarm h \<noteq> ESP_OK then init_fail_safe s2 else
      let s3 = hw Timer_Register_Callbacks s2 in
      if he_register_callbacks h \<noteq> ESP_OK then init_fail_safe s3 else
      let s4 = hw Timer_Enable s3 in
      if he_timer_enable h \<noteq> ESP_OK then init_fail_safe s4 else (ESP_OK, s4))"

definition argus_step_gen_init ::
  "hw_env \<Rightarrow> argus_config option \<Rightarrow> step_gen \<Rightarrow> esp_err \<times> step_gen" where
  "argus_step_gen_init h cfg s =
     (case cfg of
        None \<Rightarrow> (ESP_ERR_INVALID_ARG, s\<lparr> sg_error_state := STEP_GEN_ERROR_INIT_FAILED \<rparr>)
      | Some c \<Rightarrow>
          if \<not> sg_lifecycle_mutex s \<and> \<not> he_mutex_create h
          then (ESP_ERR_NO_MEM, s\<lparr> sg_error_state := STEP_GEN_ERROR_INIT_FAILED \<rparr>)
          else
            (let s1 = hw (Gpio_Config [cfg_step_gpio c, cfg_dir_gpio c])
                        (init_variables c (s\<lparr> sg_lifecycle_mutex := True \<rparr>)) in
             if he_gpio_config_step_dir h \<noteq> ESP_OK then init_fail s1 else
             let s2 = set_en_level 1 (set_dir_level True (set_step_inactive s1));
                 s3 = hw (Gpio_Config [cfg_en_gpio c]) s2 in
             if he_gpio_config_en h \<noteq> ESP_OK then init_fail_safe s3
             else init_timer h (s3\<lparr> sg_driver_enabled := False \<rparr>)))"

definition argus_step_gen_arm :: "hw_env \<Rightarrow> step_gen \<Rightarrow> esp_err \<times> step_gen" where
  "argus_step_gen_arm h s =
     (if \<not> sg_timer s then (ESP_ERR_INVALID_STATE, s)
      else if \<not> he_mutex_take h then (ESP_ERR_TIMEOUT, s)
      else
        (let p = \<lparr> tm_integer = 0, tm_remainder = 0, tm_denominator = 0,
                   tm_direction_forward = sg_forward s, tm_immediate_stop = False \<rparr>;
             s1 = hw Timer_Start (s\<lparr> sg_requested_rpm_milli := 0, sg_generated_rpm_milli := 0,
                    sg_running := False, sg_pending := p, sg_active := p \<rparr>)
         in if he_timer_start h = ESP_ERR_INVALID_STATE then (ESP_OK, s1)
            else if he_timer_start h \<noteq> ESP_OK
            then (he_timer_start h,
                  (set_step_inactive s1)\<lparr> sg_error_state := STEP_GEN_ERROR_TIMING_UPDATE_FAILED \<rparr>)
            else (ESP_OK, s1)))"

definition argus_step_gen_enable_driver :: "hw_env \<Rightarrow> step_gen \<Rightarrow> esp_err \<times> step_gen" where
  "argus_step_gen_enable_driver h s =
     (if sg_en_gpio s = GPIO_NUM_NC then (ESP_ERR_INVALID_STATE, s)
      else if \<not> he_mutex_take h then (ESP_ERR_TIMEOUT, s)
      else if \<not> sg_driver_enabled s
      then (ESP_OK, hw (Task_Delay_Ms 20) ((set_en_level 0 s)\<lparr> sg_driver_enabled := True \<rparr>))
      else (ESP_OK, s))"

text \<open>The stop sequence both \<open>disable_driver\<close> and \<open>stop_immediate\<close> run in the spinlock.\<close>

definition halt_timing :: "step_gen \<Rightarrow> step_gen" where
  "halt_timing s =
     (pending_zero_rate s)\<lparr> sg_running := False,
        sg_requested_rpm_milli := 0, sg_generated_rpm_milli := 0,
        sg_pending := (sg_pending (pending_zero_rate s))\<lparr> tm_immediate_stop := True \<rparr>,
        sg_active := timing_zero \<rparr>"

definition argus_step_gen_disable_driver :: "hw_env \<Rightarrow> step_gen \<Rightarrow> esp_err \<times> step_gen" where
  "argus_step_gen_disable_driver h s =
     (if sg_en_gpio s = GPIO_NUM_NC then (ESP_ERR_INVALID_STATE, s)
      else if \<not> he_mutex_take h then (ESP_ERR_TIMEOUT, s)
      else
        (let s1 = halt_timing s;
             s2 = (if sg_timer s1 then hw Timer_Stop s1 else s1)
         in (ESP_OK, (set_en_level 1 (set_step_inactive s2))
                       \<lparr> sg_driver_enabled := False, sg_error_state := STEP_GEN_ERROR_NONE \<rparr>)))"

definition argus_step_gen_is_driver_enabled :: "step_gen \<Rightarrow> bool" where
  "argus_step_gen_is_driver_enabled s = sg_driver_enabled s"

text \<open>
  \<open>argus_step_gen_set_direction\<close>. The hold delay depends on the time since the last
  deassertion; the 64-bit difference wraps.
\<close>

definition dir_hold_delay :: "hw_env \<Rightarrow> step_gen \<Rightarrow> step_gen" where
  "dir_hold_delay h s =
     (if \<not> sg_timer s then s
      else if he_raw_count_err h = ESP_OK
      then (if he_raw_count h - sg_last_deassertion_ticks s < 50 then hw (Delay_Us 5) s else s)
      else hw (Delay_Us 5) s)"

definition argus_step_gen_set_direction :: "hw_env \<Rightarrow> bool \<Rightarrow> step_gen \<Rightarrow> esp_err \<times> step_gen" where
  "argus_step_gen_set_direction h forward s =
     (if \<not> he_mutex_take h then (ESP_ERR_TIMEOUT, s)
      else if sg_running s \<and> tm_integer (sg_active s) > 0 then (ESP_ERR_INVALID_STATE, s)
      else
        (let s1 = dir_hold_delay h s;
             s2 = s1\<lparr> sg_pending := (sg_pending s1)\<lparr> tm_direction_forward := forward \<rparr>,
                      sg_forward := forward \<rparr>
         in (ESP_OK, hw (Delay_Us 5) (set_dir_level forward s2))))"

text \<open>
  \<open>argus_step_gen_set_rate_rpm_milli\<close>. The period of one step in 100 ns ticks is the
  rational \<open>600000000000 / (rpm_milli * steps_per_rev)\<close>.
\<close>

definition rate_num :: u64 where
  "rate_num = 600000000000"

definition rate_den :: "int \<Rightarrow> u32 \<Rightarrow> u64" where
  "rate_den rpm_milli steps_per_rev = word_of_int rpm_milli * u64_of_u32 steps_per_rev"

definition rate_error :: "step_gen \<Rightarrow> esp_err \<times> step_gen" where
  "rate_error s = (ESP_ERR_INVALID_ARG, s\<lparr> sg_error_state := STEP_GEN_ERROR_TIMING_UPDATE_FAILED \<rparr>)"

text \<open>Moving from zero speed while running: the first pulse.\<close>

definition kickstart :: "hw_env \<Rightarrow> int \<Rightarrow> step_gen \<Rightarrow> esp_err \<times> step_gen" where
  "kickstart h rpm_milli s =
     (let s1 = hw Timer_Start s in
      if he_timer_start h \<noteq> ESP_OK \<and> he_timer_start h \<noteq> ESP_ERR_INVALID_STATE
      then (he_timer_start h, s1\<lparr> sg_error_state := STEP_GEN_ERROR_TIMING_UPDATE_FAILED \<rparr>)
      else
        (let count = (if he_raw_count_err h = ESP_OK then he_raw_count h else 0);
             s2 = s1\<lparr> sg_active := sg_pending s1, sg_generated_rpm_milli := rpm_milli,
                      sg_rem_accumulator := 0, sg_forward := tm_direction_forward (sg_pending s1) \<rparr>;
             s3 = hw (Delay_Us 5) (set_dir_level (sg_forward s2) s2);
             s4 = (set_step_active s3)\<lparr> sg_next_step_ticks := tm_integer (sg_active s3) \<rparr>;
             s5 = hw (Timer_Set_Alarm (count + 150)) (count_step s4)
         in (ESP_OK, s5)))"

text \<open>
  The second half of the setter, once the driver is enabled: the period, its minimum of 300
  ticks (15 us active and 15 us inactive), the pending update and the kickstart.
\<close>

definition store_rate :: "int \<Rightarrow> u32 \<Rightarrow> step_gen \<Rightarrow> step_gen" where
  "store_rate rpm_milli steps_per_rev s =
     (let den = rate_den rpm_milli steps_per_rev
      in s\<lparr> sg_requested_rpm_milli := rpm_milli,
            sg_pending := (sg_pending s)\<lparr> tm_integer := rate_num div den,
              tm_remainder := rate_num mod den, tm_denominator := den,
              tm_immediate_stop := False \<rparr> \<rparr>)"

definition set_rate_enabled :: "hw_env \<Rightarrow> int \<Rightarrow> u32 \<Rightarrow> step_gen \<Rightarrow> esp_err \<times> step_gen" where
  "set_rate_enabled h rpm_milli steps_per_rev s =
     (if rate_num div rate_den rpm_milli steps_per_rev < 300 then rate_error s
      else
        (let s2 = store_rate rpm_milli steps_per_rev s;
             (kerr, s3) = (if sg_generated_rpm_milli s2 = 0 \<and> sg_running s2
                           then kickstart h rpm_milli s2 else (ESP_OK, s2))
         in if kerr \<noteq> ESP_OK then (kerr, s3)
            else (ESP_OK, s3\<lparr> sg_error_state := STEP_GEN_ERROR_NONE \<rparr>)))"

definition argus_step_gen_set_rate_rpm_milli ::
  "hw_env \<Rightarrow> int \<Rightarrow> u32 \<Rightarrow> step_gen \<Rightarrow> esp_err \<times> step_gen" where
  "argus_step_gen_set_rate_rpm_milli h rpm_milli steps_per_rev s =
     (if \<not> sg_timer s then (ESP_ERR_INVALID_STATE, s)
      else if rpm_milli = 0
      then (ESP_OK, set_step_inactive ((pending_zero_rate s)\<lparr> sg_requested_rpm_milli := 0 \<rparr>))
      else if steps_per_rev = 0 then rate_error s
      else if rpm_milli < 1 \<or> rpm_milli > 200000 then rate_error s
      else if \<not> sg_driver_enabled s
      then (case argus_step_gen_enable_driver h s of
              (err, s1) \<Rightarrow> if err \<noteq> ESP_OK then (err, s1)
                           else set_rate_enabled h rpm_milli steps_per_rev s1)
      else set_rate_enabled h rpm_milli steps_per_rev s)"

definition argus_step_gen_start :: "hw_env \<Rightarrow> step_gen \<Rightarrow> esp_err \<times> step_gen" where
  "argus_step_gen_start h s =
     (if \<not> sg_timer s then (ESP_ERR_INVALID_STATE, s)
      else if \<not> he_mutex_take h then (ESP_ERR_TIMEOUT, s)
      else (if he_timer_start h = ESP_ERR_INVALID_STATE then ESP_OK else he_timer_start h,
            hw Timer_Start (s\<lparr> sg_running := True \<rparr>)))"

definition argus_step_gen_stop_immediate :: "hw_env \<Rightarrow> step_gen \<Rightarrow> esp_err \<times> step_gen" where
  "argus_step_gen_stop_immediate h s =
     (if \<not> sg_timer s then (ESP_ERR_INVALID_STATE, s)
      else if \<not> he_mutex_take h then (ESP_ERR_TIMEOUT, s)
      else
        (let s1 = halt_timing s;
             err = (if sg_running s then he_timer_stop h else ESP_OK);
             s2 = (if sg_running s then hw Timer_Stop s1 else s1);
             s2' = (if err \<noteq> ESP_OK \<and> err \<noteq> ESP_ERR_INVALID_STATE
                    then s2\<lparr> sg_error_state := STEP_GEN_ERROR_TIMING_UPDATE_FAILED \<rparr> else s2);
             s3 = set_step_inactive s2';
             s4 = (if he_raw_count_err h = ESP_OK
                   then s3\<lparr> sg_last_deassertion_ticks := he_raw_count h \<rparr> else s3)
         in (err, s4\<lparr> sg_error_state := STEP_GEN_ERROR_NONE \<rparr>)))"

definition argus_step_gen_stop_profiled :: "step_gen \<Rightarrow> esp_err \<times> step_gen" where
  "argus_step_gen_stop_profiled s =
     (ESP_OK, (pending_zero_rate s)\<lparr> sg_requested_rpm_milli := 0,
                                     sg_error_state := STEP_GEN_ERROR_NONE \<rparr>)"

definition argus_step_gen_clear_error :: "step_gen \<Rightarrow> step_gen" where
  "argus_step_gen_clear_error s = s\<lparr> sg_error_state := STEP_GEN_ERROR_NONE \<rparr>"

definition argus_step_gen_reset_step_count :: "step_gen \<Rightarrow> step_gen" where
  "argus_step_gen_reset_step_count s = s\<lparr> sg_step_count := 0 \<rparr>"

record step_gen_snapshot =
  ss_requested_rpm_milli :: int
  ss_generated_rpm_milli :: int
  ss_generated_step_count :: int
  ss_driver_enabled :: bool
  ss_is_running :: bool
  ss_is_forward :: bool
  ss_error_state :: step_gen_error

definition argus_step_gen_get_snapshot :: "step_gen \<Rightarrow> step_gen_snapshot" where
  "argus_step_gen_get_snapshot s =
     \<lparr> ss_requested_rpm_milli = sg_requested_rpm_milli s,
       ss_generated_rpm_milli = sg_generated_rpm_milli s,
       ss_generated_step_count = sg_step_count s,
       ss_driver_enabled = sg_driver_enabled s,
       ss_is_running = sg_running s,
       ss_is_forward = sg_forward s,
       ss_error_state = sg_error_state s \<rparr>"

section \<open>Observing the hardware log\<close>

text \<open>The level a pin was last driven to, and the last programmed alarm.\<close>

fun gpio_level :: "hw_event list \<Rightarrow> int \<Rightarrow> int option" where
  "gpio_level [] p = None"
| "gpio_level (e # es) p =
     (case gpio_level es p of
        Some v \<Rightarrow> Some v
      | None \<Rightarrow> (case e of Gpio_Set q v \<Rightarrow> if q = p then Some v else None | _ \<Rightarrow> None))"

fun last_alarm :: "hw_event list \<Rightarrow> u64 option" where
  "last_alarm [] = None"
| "last_alarm (e # es) =
     (case last_alarm es of
        Some a \<Rightarrow> Some a
      | None \<Rightarrow> (case e of Timer_Set_Alarm a \<Rightarrow> Some a | _ \<Rightarrow> None))"

lemma gpio_level_append [simp]:
  "gpio_level (xs @ ys) p = (case gpio_level ys p of Some v \<Rightarrow> Some v | None \<Rightarrow> gpio_level xs p)"
  by (induction xs) (auto split: option.splits)

lemma last_alarm_append [simp]:
  "last_alarm (xs @ ys) = (case last_alarm ys of Some a \<Rightarrow> Some a | None \<Rightarrow> last_alarm xs)"
  by (induction xs) (auto split: option.splits)

text \<open>
  Edges of a pin: how often its level changes from \<open>from\<close> to \<open>to\<close> along the log, given
  the level before it.
\<close>

fun edges :: "int \<Rightarrow> int \<Rightarrow> int \<Rightarrow> int option \<Rightarrow> hw_event list \<Rightarrow> nat" where
  "edges p from to lvl [] = 0"
| "edges p from to lvl (Gpio_Set q v # es) =
     (if q = p then (if lvl = Some from \<and> v = to then 1 else 0) + edges p from to (Some v) es
      else edges p from to lvl es)"
| "edges p from to lvl (e # es) = edges p from to lvl es"

lemmas hw_defs [step_defs] =
  hw_def set_step_inactive_def set_step_active_def set_dir_level_def set_en_level_def
  pending_zero_rate_def

end
