(* ===== verification/Step_Gen_Inv.thy ===== *)
theory Step_Gen_Inv
  imports Step_Gen
begin

text \<open>
  The invariant of the pulse engine: the pins mirror the software state, STEP is at its
  active level only while the driver is enabled, and every stored period is a zero rate or
  a rational of at least 300 ticks. Every operation and the interrupt keep it, whatever the
  platform answers, so it holds in every state reachable from a successful initialisation.
\<close>

section \<open>The engine's invariant\<close>

text \<open>
  A timing setting is either a zero rate or a rational period of at least 300 ticks, with
  numerator 600000000000.
\<close>

definition timing_wf :: "timing_settings \<Rightarrow> bool" where
  "timing_wf t \<longleftrightarrow>
     (tm_integer t = 0 \<and> tm_remainder t = 0 \<and> tm_denominator t = 0)
     \<or> (300 \<le> unat (tm_integer t)
        \<and> unat (tm_integer t) * unat (tm_denominator t) + unat (tm_remainder t) = 600000000000
        \<and> unat (tm_remainder t) < unat (tm_denominator t))"

text \<open>The fixed wiring: three different pins, two different levels each for STEP and DIR.\<close>

definition wiring_ok :: "step_gen \<Rightarrow> bool" where
  "wiring_ok s \<longleftrightarrow> sg_timer s \<and> sg_en_gpio s \<noteq> GPIO_NUM_NC
     \<and> distinct [sg_step_gpio s, sg_dir_gpio s, sg_en_gpio s]
     \<and> sg_step_active_level s \<noteq> sg_step_inactive_level s"

definition pins_ok :: "step_gen \<Rightarrow> bool" where
  "pins_ok s \<longleftrightarrow>
     gpio_level (sg_log s) (sg_dir_gpio s)
       = Some (if sg_forward s then sg_dir_forward_level s else sg_dir_reverse_level s)
     \<and> gpio_level (sg_log s) (sg_en_gpio s) = Some (if sg_driver_enabled s then 0 else 1)
     \<and> (gpio_level (sg_log s) (sg_step_gpio s) = Some (sg_step_active_level s) \<longrightarrow> sg_driver_enabled s)"

definition timing_ok :: "step_gen \<Rightarrow> bool" where
  "timing_ok s \<longleftrightarrow> timing_wf (sg_pending s) \<and> timing_wf (sg_active s)
     \<and> (tm_integer (sg_active s) \<noteq> 0 \<longrightarrow>
          unat (sg_rem_accumulator s) < unat (tm_denominator (sg_active s)))"

definition step_gen_inv :: "step_gen \<Rightarrow> bool" where
  "step_gen_inv s \<longleftrightarrow> wiring_ok s \<and> pins_ok s \<and> timing_ok s"

lemmas inv_defs = step_gen_inv_def wiring_ok_def pins_ok_def timing_ok_def

lemma timing_wf_zero [simp]:
  "timing_wf timing_zero"
  "timing_wf (t\<lparr> tm_integer := 0, tm_remainder := 0, tm_denominator := 0 \<rparr>)"
  by (simp_all add: timing_wf_def timing_zero_def)

lemma timing_wf_flags [simp]:
  "timing_wf (t\<lparr> tm_direction_forward := d \<rparr>) = timing_wf t"
  "timing_wf (t\<lparr> tm_immediate_stop := b \<rparr>) = timing_wf t"
  by (simp_all add: timing_wf_def)

text \<open>A nonzero well-formed setting leaves room for every 64-bit sum the interrupt forms.\<close>

lemma timing_wf_bounds:
  assumes "timing_wf t" and "tm_integer t \<noteq> 0"
  shows "300 \<le> unat (tm_integer t)" and "unat (tm_integer t) \<le> 600000000000"
    and "0 < unat (tm_denominator t)" and "unat (tm_denominator t) \<le> 2000000000"
    and "unat (tm_remainder t) < unat (tm_denominator t)"
proof -
  let ?i = "unat (tm_integer t)" and ?d = "unat (tm_denominator t)" and ?r = "unat (tm_remainder t)"
  from assms have i: "300 \<le> ?i" and e: "?i * ?d + ?r = 600000000000" and r: "?r < ?d"
    by (auto simp: timing_wf_def)
  from i have "300 * ?d \<le> ?i * ?d" by (rule mult_le_mono1)
  with e show "?d \<le> 2000000000" by linarith
  from r have "?i * 1 \<le> ?i * ?d" by (intro mult_le_mono2) simp
  with e show "?i \<le> 600000000000" by linarith
  show "300 \<le> ?i" "0 < ?d" "?r < ?d" using i r by simp_all
qed


section \<open>Every operation keeps the invariant\<close>

lemma inv_set_step_inactive [intro]: "step_gen_inv s \<Longrightarrow> step_gen_inv (set_step_inactive s)"
  by (simp add: inv_defs hw_defs)

lemma inv_hw_other [intro]:
  "step_gen_inv s \<Longrightarrow> \<forall>q v. e \<noteq> Gpio_Set q v \<Longrightarrow> step_gen_inv (hw e s)"
  by (cases e) (simp_all add: inv_defs hw_def)

lemma inv_schedule [intro]: "step_gen_inv s \<Longrightarrow> step_gen_inv (isr_schedule_alarm h a s)"
  by (auto simp: isr_schedule_alarm_def Let_def)

lemma inv_deassert [intro]: "step_gen_inv s \<Longrightarrow> step_gen_inv (isr_deassert_step a s)"
  by (auto simp: isr_deassert_step_def inv_defs hw_defs Let_def)

lemma inv_accept_rate [intro]: "step_gen_inv s \<Longrightarrow> step_gen_inv (isr_accept_rate s)"
  using timing_wf_bounds(3) [of "sg_pending s"]
  by (auto simp: isr_accept_rate_def inv_defs)

lemma inv_count_step [intro]: "step_gen_inv s \<Longrightarrow> step_gen_inv (count_step s)"
  by (simp add: count_step_def inv_defs)

text \<open>The accumulator stays below the denominator, and the 64-bit sum does not wrap.\<close>

lemma bresenham_accumulator:
  assumes "timing_wf (sg_active s)" and "tm_integer (sg_active s) \<noteq> 0"
    and "unat (sg_rem_accumulator s) < unat (tm_denominator (sg_active s))"
  shows "unat (sg_rem_accumulator (isr_bresenham s))
           = (unat (sg_rem_accumulator s) + unat (tm_remainder (sg_active s)))
               mod unat (tm_denominator (sg_active s))"
    and "unat (sg_next_step_ticks (isr_bresenham s))
           = unat (tm_integer (sg_active s))
             + (unat (sg_rem_accumulator s) + unat (tm_remainder (sg_active s)))
               div unat (tm_denominator (sg_active s))"
proof -
  let ?a = "sg_rem_accumulator s" and ?r = "tm_remainder (sg_active s)"
  let ?d = "tm_denominator (sg_active s)" and ?i = "tm_integer (sg_active s)"
  note b = timing_wf_bounds [OF assms(1,2)]
  have sum: "unat (?a + ?r) = unat ?a + unat ?r"
    by (rule unat_add_no_wrap) (use b assms(3) in simp)
  have inc: "unat (?i + 1) = unat ?i + 1"
    by (subst unat_add_no_wrap) (use b in simp_all)
  show "unat (sg_rem_accumulator (isr_bresenham s)) = (unat ?a + unat ?r) mod unat ?d"
  proof (cases "?d \<le> ?a + ?r")
    case True
    then have ge: "unat ?d \<le> unat ?a + unat ?r"
      by (simp add: word_le_nat_alt sum)
    then have "(unat ?a + unat ?r) mod unat ?d = unat ?a + unat ?r - unat ?d"
      using b assms(3) by (simp add: mod_if)
    with True show ?thesis
      by (simp add: isr_bresenham_def Let_def unat_sub sum)
  next
    case False
    then show ?thesis
      by (simp add: isr_bresenham_def Let_def word_le_nat_alt sum)
  qed
  show "unat (sg_next_step_ticks (isr_bresenham s)) = unat ?i + (unat ?a + unat ?r) div unat ?d"
  proof (cases "?d \<le> ?a + ?r")
    case True
    then have "unat ?d \<le> unat ?a + unat ?r"
      by (simp add: word_le_nat_alt sum)
    then have "(unat ?a + unat ?r) div unat ?d = 1"
      using b assms(3) by (simp add: div_if)
    with True show ?thesis
      by (simp add: isr_bresenham_def Let_def inc)
  next
    case False
    then show ?thesis
      by (simp add: isr_bresenham_def Let_def word_le_nat_alt sum)
  qed
qed

lemma inv_bresenham [intro]:
  assumes "step_gen_inv s" and "tm_integer (sg_active s) \<noteq> 0"
  shows "step_gen_inv (isr_bresenham s)"
proof -
  from assms have "unat (sg_rem_accumulator (isr_bresenham s)) < unat (tm_denominator (sg_active s))"
    using timing_wf_bounds(3) [of "sg_active s"]
    by (simp add: bresenham_accumulator inv_defs)
  with assms(1) show ?thesis
    by (auto simp: inv_defs isr_bresenham_def Let_def split: if_splits)
qed

lemma inv_assert:
  assumes "step_gen_inv s" and "sg_driver_enabled s"
  shows "step_gen_inv ((set_step_active s)\<lparr> sg_pin_asserted := True \<rparr>)"
  using assms by (simp add: inv_defs hw_defs)

lemma accept_rate_driver [simp]: "sg_driver_enabled (isr_accept_rate s) = sg_driver_enabled s"
  by (simp add: isr_accept_rate_def)

lemma inv_isr:
  assumes "step_gen_inv s"
  shows "step_gen_inv (argus_timer_alarm_cb h a s)"
proof -
  have "step_gen_inv (count_step (isr_bresenham ((set_step_active (isr_accept_rate s))\<lparr> sg_pin_asserted := True \<rparr>)))"
    if "sg_driver_enabled s" "tm_integer (sg_active (isr_accept_rate s)) \<noteq> 0"
    using that assms by (intro inv_count_step inv_bresenham inv_assert inv_accept_rate)
      (simp_all add: hw_defs)
  with assms show ?thesis
    by (auto simp: argus_timer_alarm_cb_def Let_def)
qed

lemma inv_arm: "step_gen_inv s \<Longrightarrow> step_gen_inv (snd (argus_step_gen_arm h s))"
  by (simp add: argus_step_gen_arm_def inv_defs hw_defs timing_wf_def Let_def)

lemma inv_enable_driver: "step_gen_inv s \<Longrightarrow> step_gen_inv (snd (argus_step_gen_enable_driver h s))"
  by (auto simp: argus_step_gen_enable_driver_def inv_defs hw_defs)

lemma inv_disable_driver: "step_gen_inv s \<Longrightarrow> step_gen_inv (snd (argus_step_gen_disable_driver h s))"
  by (auto simp: argus_step_gen_disable_driver_def halt_timing_def inv_defs hw_defs timing_wf_def
      timing_zero_def Let_def)

lemma inv_set_direction: "step_gen_inv s \<Longrightarrow> step_gen_inv (snd (argus_step_gen_set_direction h f s))"
  by (auto simp: argus_step_gen_set_direction_def dir_hold_delay_def inv_defs hw_defs Let_def)

lemma inv_start: "step_gen_inv s \<Longrightarrow> step_gen_inv (snd (argus_step_gen_start h s))"
  by (auto simp: argus_step_gen_start_def inv_defs hw_defs)

lemma inv_stop_immediate: "step_gen_inv s \<Longrightarrow> step_gen_inv (snd (argus_step_gen_stop_immediate h s))"
  by (auto simp: argus_step_gen_stop_immediate_def halt_timing_def inv_defs hw_defs timing_wf_def
      timing_zero_def Let_def)

lemma inv_stop_profiled: "step_gen_inv s \<Longrightarrow> step_gen_inv (snd (argus_step_gen_stop_profiled s))"
  by (auto simp: argus_step_gen_stop_profiled_def inv_defs hw_defs timing_wf_def)

lemma inv_clear_error: "step_gen_inv s \<Longrightarrow> step_gen_inv (argus_step_gen_clear_error s)"
  by (simp add: argus_step_gen_clear_error_def inv_defs)

lemma inv_reset_step_count: "step_gen_inv s \<Longrightarrow> step_gen_inv (argus_step_gen_reset_step_count s)"
  by (simp add: argus_step_gen_reset_step_count_def inv_defs)

text \<open>
  The rate setter stores a well-formed period: the divisor does not wrap, and quotient and
  remainder recompose the numerator.
\<close>

lemma rate_den_exact:
  assumes "1 \<le> rpm" "rpm \<le> 200000"
  shows "unat (rate_den rpm spr) = nat rpm * unat spr"
proof -
  have r: "unat (word_of_int rpm :: u64) = nat rpm"
    using assms by (simp add: unat_eq_nat_uint uint_word_of_int take_bit_int_eq_self)
  have "nat rpm * unat spr \<le> 200000 * 4294967296"
    by (rule mult_le_mono) (use assms less_imp_le [OF unat_lt_u32] in simp_all)
  then show ?thesis
    unfolding rate_den_def by (subst unat_mult_no_wrap) (simp_all add: r)
qed

lemma rate_timing_wf:
  assumes rpm: "1 \<le> rpm" "rpm \<le> 200000" and "spr \<noteq> 0"
    and min: "\<not> rate_num div rate_den rpm spr < 300"
  shows "timing_wf (t\<lparr> tm_integer := rate_num div rate_den rpm spr,
                       tm_remainder := rate_num mod rate_den rpm spr,
                       tm_denominator := rate_den rpm spr \<rparr>)"
proof -
  have "0 < unat (rate_den rpm spr)"
    using rate_den_exact [OF rpm, of spr] assms(3) rpm by (simp add: unat_gt_0)
  moreover have "unat rate_num = 600000000000"
    by (simp add: rate_num_def)
  moreover have "300 \<le> unat (rate_num div rate_den rpm spr)"
    using min by (simp add: word_less_nat_alt)
  ultimately show ?thesis
    by (simp add: timing_wf_def unat_div unat_mod)
qed

lemma inv_kickstart:
  assumes "step_gen_inv s" and "sg_driver_enabled s"
  shows "step_gen_inv (snd (kickstart h rpm s))"
  using assms timing_wf_bounds(3) [of "sg_pending s"]
  by (auto simp: kickstart_def count_step_def inv_defs hw_defs Let_def)

lemma enable_driver_enables:
  assumes "argus_step_gen_enable_driver h s = (ESP_OK, s')"
  shows "sg_driver_enabled s'"
  using assms by (auto simp: argus_step_gen_enable_driver_def hw_defs split: if_splits)

lemma inv_store_rate:
  assumes "step_gen_inv s" "1 \<le> rpm" "rpm \<le> 200000" "spr \<noteq> 0"
    "\<not> rate_num div rate_den rpm spr < 300"
  shows "step_gen_inv (store_rate rpm spr s)"
  using assms(1) rate_timing_wf [OF assms(2-5), of "sg_pending s"]
  by (simp add: store_rate_def inv_defs Let_def)

lemma inv_error [simp]: "step_gen_inv (s\<lparr> sg_error_state := e \<rparr>) = step_gen_inv s"
  by (simp add: inv_defs)

lemma inv_set_rate_enabled:
  assumes "step_gen_inv s" "sg_driver_enabled s" "1 \<le> rpm" "rpm \<le> 200000" "spr \<noteq> 0"
  shows "step_gen_inv (snd (set_rate_enabled h rpm spr s))"
proof (cases "rate_num div rate_den rpm spr < 300")
  case True
  with assms show ?thesis by (simp add: set_rate_enabled_def rate_error_def)
next
  case False
  have st: "step_gen_inv (store_rate rpm spr s)"
    using assms False by (intro inv_store_rate)
  have en: "sg_driver_enabled (store_rate rpm spr s)"
    using assms(2) by (simp add: store_rate_def Let_def)
  show ?thesis
    using False st inv_kickstart [OF st en, of h rpm]
    by (auto simp: set_rate_enabled_def Let_def split: prod.split)
qed

lemma inv_set_rate:
  assumes "step_gen_inv s"
  shows "step_gen_inv (snd (argus_step_gen_set_rate_rpm_milli h rpm spr s))"
proof -
  have zero: "step_gen_inv (set_step_inactive ((pending_zero_rate s)\<lparr> sg_requested_rpm_milli := 0 \<rparr>))"
    using assms by (simp add: inv_defs hw_defs timing_wf_def)
  show ?thesis
    using assms zero inv_enable_driver [OF assms, of h] enable_driver_enables [of h s]
    by (auto simp: argus_step_gen_set_rate_rpm_milli_def rate_error_def
        intro: inv_set_rate_enabled split: prod.splits)
qed

section \<open>Reachable states\<close>

text \<open>
  One step of the engine: the interrupt at any alarm time or any task-context operation,
  with any answers of the platform.
\<close>

inductive sg_step :: "step_gen \<Rightarrow> step_gen \<Rightarrow> bool" where
  sg_isr: "sg_step s (argus_timer_alarm_cb h a s)"
| sg_arm: "sg_step s (snd (argus_step_gen_arm h s))"
| sg_enable: "sg_step s (snd (argus_step_gen_enable_driver h s))"
| sg_disable: "sg_step s (snd (argus_step_gen_disable_driver h s))"
| sg_set_direction: "sg_step s (snd (argus_step_gen_set_direction h f s))"
| sg_set_rate: "sg_step s (snd (argus_step_gen_set_rate_rpm_milli h rpm spr s))"
| sg_start: "sg_step s (snd (argus_step_gen_start h s))"
| sg_stop_immediate: "sg_step s (snd (argus_step_gen_stop_immediate h s))"
| sg_stop_profiled: "sg_step s (snd (argus_step_gen_stop_profiled s))"
| sg_clear_error: "sg_step s (argus_step_gen_clear_error s)"
| sg_reset_count: "sg_step s (argus_step_gen_reset_step_count s)"

definition pins_distinct :: "argus_config \<Rightarrow> bool" where
  "pins_distinct c \<longleftrightarrow> distinct [cfg_step_gpio c, cfg_dir_gpio c, cfg_en_gpio c]
     \<and> cfg_en_gpio c \<noteq> GPIO_NUM_NC"

inductive sg_reachable :: "argus_config \<Rightarrow> step_gen \<Rightarrow> bool" for c where
  sg_init: "argus_step_gen_init h (Some c) step_gen_boot = (ESP_OK, s) \<Longrightarrow> sg_reachable c s"
| sg_next: "sg_reachable c s \<Longrightarrow> sg_step s t \<Longrightarrow> sg_reachable c t"

lemmas inv_ops = inv_isr inv_arm inv_enable_driver inv_disable_driver inv_set_direction
  inv_set_rate inv_start inv_stop_immediate inv_stop_profiled inv_clear_error inv_reset_step_count

lemma sg_step_inv: "sg_step s t \<Longrightarrow> step_gen_inv s \<Longrightarrow> step_gen_inv t"
  by (induction rule: sg_step.induct) (simp_all add: inv_ops)

lemma init_inv:
  assumes "argus_step_gen_init h (Some c) step_gen_boot = (ESP_OK, s)" and "pins_distinct c"
  shows "step_gen_inv s"
  using assms
  by (auto simp: argus_step_gen_init_def init_timer_def init_fail_def init_fail_safe_def
      init_variables_def step_gen_boot_def pins_distinct_def inv_defs hw_defs timing_zero_def
      timing_wf_def Let_def split: if_splits)

lemma reachable_inv: "sg_reachable c s \<Longrightarrow> pins_distinct c \<Longrightarrow> step_gen_inv s"
  by (induction rule: sg_reachable.induct) (auto intro: init_inv sg_step_inv)

end
