(* ===== verification/Step_Gen_Timing.thy ===== *)
theory Step_Gen_Timing
  imports Step_Gen_Inv
begin

text \<open>
  The pulse train the interrupt produces. The interrupt is run from alarm to alarm: each
  call is handed the alarm time the previous one programmed. With timely service (the
  counter is read less than 120 ticks after the alarm), the \<open>n\<close>-th assertion happens
  exactly \<open>n\<close> rational periods after the first, rounded down to a tick, so the error never
  accumulates.
\<close>

section \<open>Running the interrupt from alarm to alarm\<close>

text \<open>The platform's answers may depend on the time of the interrupt.\<close>

definition isr_fire :: "(u64 \<Rightarrow> hw_env) \<Rightarrow> u64 \<times> step_gen \<Rightarrow> u64 \<times> step_gen" where
  "isr_fire h ts =
     (let s' = argus_timer_alarm_cb (h (fst ts)) (fst ts) (snd ts)
      in (case last_alarm (sg_log s') of Some a \<Rightarrow> a | None \<Rightarrow> fst ts, s'))"

text \<open>A pulse is two interrupts: assertion and deassertion.\<close>

definition isr_pulse :: "(u64 \<Rightarrow> hw_env) \<Rightarrow> u64 \<times> step_gen \<Rightarrow> u64 \<times> step_gen" where
  "isr_pulse h ts = isr_fire h (isr_fire h ts)"

definition timely :: "(u64 \<Rightarrow> hw_env) \<Rightarrow> bool" where
  "timely h \<longleftrightarrow> (\<forall>t. he_raw_count_err (h t) = ESP_OK \<longrightarrow> unat (he_raw_count (h t)) < unat t + 120)"

text \<open>The engine between two pulses of a constant rate.\<close>

definition steady :: "step_gen \<Rightarrow> bool" where
  "steady s \<longleftrightarrow> sg_running s \<and> sg_driver_enabled s \<and> \<not> sg_pin_asserted s
     \<and> \<not> tm_immediate_stop (sg_pending s)
     \<and> tm_integer (sg_pending s) = tm_integer (sg_active s)
     \<and> tm_remainder (sg_pending s) = tm_remainder (sg_active s)
     \<and> tm_denominator (sg_pending s) = tm_denominator (sg_active s)
     \<and> tm_direction_forward (sg_pending s) = sg_forward s
     \<and> timing_wf (sg_active s) \<and> tm_integer (sg_active s) \<noteq> 0
     \<and> unat (sg_rem_accumulator s) < unat (tm_denominator (sg_active s))"

lemma schedule_timely:
  assumes "timely h" and "unat t + 150 \<le> unat next" and "unat next + 150 < 2 ^ 64"
  shows "isr_schedule_alarm (h t) next s = hw (Timer_Set_Alarm next) s"
proof -
  have "unat (he_raw_count (h t) + 30) < unat next" if "he_raw_count_err (h t) = ESP_OK"
  proof -
    have lt: "unat (he_raw_count (h t)) < unat t + 120"
      using assms(1) that by (simp add: timely_def)
    then have "unat (he_raw_count (h t) + 30) = unat (he_raw_count (h t)) + 30"
      using assms(2,3) by (subst unat_add_no_wrap) simp_all
    with lt assms(2) show ?thesis by simp
  qed
  then show ?thesis
    by (auto simp: isr_schedule_alarm_def Let_def word_le_nat_alt)
qed

text \<open>The first interrupt of a pulse: assertion, with the deassertion 150 ticks later.\<close>

lemma fire_assert:
  assumes "steady s" and "timely h" and "unat t + 300 < 2 ^ 64"
  shows "isr_fire h (t, s) =
           (t + 150, hw (Timer_Set_Alarm (t + 150))
              (count_step (isr_bresenham ((set_step_active s)\<lparr> sg_pin_asserted := True \<rparr>))))"
proof -
  have t150: "unat (t + 150) = unat t + 150"
    using assms(3) by (subst unat_add_no_wrap) simp_all
  have acc: "isr_accept_rate s = s"
    using assms(1) by (simp add: steady_def isr_accept_rate_def)
  have "argus_timer_alarm_cb (h t) t s = hw (Timer_Set_Alarm (t + 150))
      (count_step (isr_bresenham ((set_step_active s)\<lparr> sg_pin_asserted := True \<rparr>)))"
    using assms t150
    by (simp add: argus_timer_alarm_cb_def acc steady_def Let_def schedule_timely)
  then show ?thesis
    by (simp add: isr_fire_def hw_def)
qed

lemma low_duration_exact:
  assumes "300 \<le> unat ticks"
  shows "unat (low_duration ticks) = unat ticks - 150" and "150 \<le> unat (low_duration ticks)"
proof -
  have "(150 :: u64) < ticks"
    using assms by (simp add: word_less_nat_alt)
  then show "unat (low_duration ticks) = unat ticks - 150"
    by (simp add: low_duration_def unat_sub order_less_imp_le)
  with assms show "150 \<le> unat (low_duration ticks)"
    by simp
qed

text \<open>The second interrupt: deassertion, with the next assertion after the rest of the period.\<close>

lemma fire_deassert:
  assumes "sg_pin_asserted s" and "tm_direction_forward (sg_pending s) = sg_forward s"
    and "timely h" and "300 \<le> unat (sg_next_step_ticks s)"
    and "unat t + unat (sg_next_step_ticks s) < 2 ^ 64"
  shows "isr_fire h (t, s) =
           (t + low_duration (sg_next_step_ticks s),
            hw (Timer_Set_Alarm (t + low_duration (sg_next_step_ticks s)))
              ((set_step_inactive s)\<lparr> sg_pin_asserted := False, sg_last_deassertion_ticks := t \<rparr>))"
proof -
  let ?n = "t + low_duration (sg_next_step_ticks s)"
  have "unat ?n = unat t + unat (low_duration (sg_next_step_ticks s))"
    using assms(4,5) by (intro unat_add_no_wrap) (simp add: low_duration_exact)
  then have n: "unat t + 150 \<le> unat ?n" "unat ?n + 150 < 2 ^ 64"
    using assms(4,5) low_duration_exact [OF assms(4)] by simp_all
  have "isr_deassert_step t s =
      (set_step_inactive s)\<lparr> sg_pin_asserted := False, sg_last_deassertion_ticks := t \<rparr>"
    using assms(2) by (simp add: isr_deassert_step_def hw_defs Let_def)
  then have "argus_timer_alarm_cb (h t) t s = hw (Timer_Set_Alarm ?n)
      ((set_step_inactive s)\<lparr> sg_pin_asserted := False, sg_last_deassertion_ticks := t \<rparr>)"
    using assms(1) n schedule_timely [OF assms(3) n]
    by (simp add: argus_timer_alarm_cb_def Let_def hw_defs)
  then show ?thesis
    by (simp add: isr_fire_def hw_def)
qed

section \<open>Exact spacing of the pulses\<close>

text \<open>
  What \<open>n\<close> pulses change: the alarm time, the accumulator and the step count. The
  numerator \<open>N\<close> is the period times the denominator.
\<close>

lemma pulse_step:
  assumes st: "steady s" and tm: "timely h"
    and fit: "unat t + unat (tm_integer (sg_active s)) + 300 < 2 ^ 64"
  obtains t' s' where "isr_pulse h (t, s) = (t', s')" and "steady s'"
    and "unat t' = unat t + (600000000000 + unat (sg_rem_accumulator s))
                              div unat (tm_denominator (sg_active s))"
    and "unat (sg_rem_accumulator s') = (600000000000 + unat (sg_rem_accumulator s))
                              mod unat (tm_denominator (sg_active s))"
    and "sg_active s' = sg_active s"
    and "sg_step_count s' = sg_step_count s + (if sg_forward s then 1 else -1)"
    and "sg_forward s' = sg_forward s"
proof -
  let ?d = "unat (tm_denominator (sg_active s))" and ?i = "unat (tm_integer (sg_active s))"
  let ?r = "unat (tm_remainder (sg_active s))" and ?a = "unat (sg_rem_accumulator s)"
  let ?s0 = "(set_step_active s)\<lparr> sg_pin_asserted := True \<rparr>"
  let ?s1 = "hw (Timer_Set_Alarm (t + 150)) (count_step (isr_bresenham ?s0))"
  from st have wf: "timing_wf (sg_active s)" "tm_integer (sg_active s) \<noteq> 0" and a: "?a < ?d"
    by (auto simp: steady_def)
  note b = timing_wf_bounds [OF wf]
  have N: "600000000000 = ?i * ?d + ?r"
    using wf by (auto simp: timing_wf_def)
  have proj: "sg_active ?s0 = sg_active s" "sg_rem_accumulator ?s0 = sg_rem_accumulator s"
    by (simp_all add: hw_defs)
  have bres: "unat (sg_rem_accumulator (isr_bresenham ?s0)) = (?a + ?r) mod ?d"
    "unat (sg_next_step_ticks (isr_bresenham ?s0)) = ?i + (?a + ?r) div ?d"
    using bresenham_accumulator [of ?s0, unfolded proj, OF wf a] by simp_all
  have le1: "(?a + ?r) div ?d \<le> 1"
    using less_mult_imp_div_less [of "?a + ?r" 2 ?d] a b(5) by simp
  have f1: "isr_fire h (t, s) = (t + 150, ?s1)"
    using st tm fit by (intro fire_assert) simp_all
  have t150: "unat (t + 150) = unat t + 150"
    using fit by (subst unat_add_no_wrap) simp_all
  have nst: "sg_next_step_ticks ?s1 = sg_next_step_ticks (isr_bresenham ?s0)"
    by (simp add: hw_def count_step_def)
  have s1: "sg_pin_asserted ?s1" "tm_direction_forward (sg_pending ?s1) = sg_forward ?s1"
    using st by (simp_all add: hw_defs count_step_def isr_bresenham_def steady_def Let_def)
  let ?t2 = "t + 150 + low_duration (sg_next_step_ticks ?s1)"
  let ?s2 = "hw (Timer_Set_Alarm ?t2)
      ((set_step_inactive ?s1)\<lparr> sg_pin_asserted := False, sg_last_deassertion_ticks := t + 150 \<rparr>)"
  have ge: "300 \<le> unat (sg_next_step_ticks ?s1)"
    using b(1) by (simp add: nst bres)
  have room: "unat (t + 150) + unat (sg_next_step_ticks ?s1) < 2 ^ 64"
    using fit le1 by (simp add: t150 nst bres)
  have f2: "isr_fire h (t + 150, ?s1) = (?t2, ?s2)"
    by (rule fire_deassert [OF s1 tm ge room])
  have t2: "unat ?t2 = unat t + (?i + (?a + ?r) div ?d)"
  proof -
    have "unat ?t2 = unat (t + 150) + unat (low_duration (sg_next_step_ticks ?s1))"
      using low_duration_exact [OF ge] room by (intro unat_add_no_wrap) simp
    then show ?thesis
      using low_duration_exact [OF ge] ge by (simp add: t150 nst bres)
  qed
  show thesis
  proof (rule that [of ?t2 ?s2])
    show "isr_pulse h (t, s) = (?t2, ?s2)"
      by (simp only: isr_pulse_def f1 f2)
    have acc: "sg_rem_accumulator ?s2 = sg_rem_accumulator (isr_bresenham ?s0)"
      by (simp add: hw_defs count_step_def)
    have e: "600000000000 + ?a = (?a + ?r) + ?i * ?d"
      using N by simp
    show "unat ?t2 = unat t + (600000000000 + ?a) div ?d"
      using b(3) by (simp add: t2 e)
    show racc: "unat (sg_rem_accumulator ?s2) = (600000000000 + ?a) mod ?d"
      by (simp add: acc bres e)
    show act: "sg_active ?s2 = sg_active s"
      by (simp add: hw_defs count_step_def isr_bresenham_def Let_def)
    show "sg_step_count ?s2 = sg_step_count s + (if sg_forward s then 1 else -1)"
      "sg_forward ?s2 = sg_forward s"
      by (simp_all add: hw_defs count_step_def isr_bresenham_def Let_def)
    have "unat (sg_rem_accumulator ?s2) < ?d"
      using b(3) by (simp only: racc) simp
    with st act show "steady ?s2"
      by (simp add: steady_def hw_defs count_step_def isr_bresenham_def Let_def split: if_splits)
  qed
qed

lemma div_split_sum:
  fixes x N d :: nat
  assumes "0 < d"
  shows "(x + N) div d = x div d + (N + x mod d) div d"
proof -
  have "x + N = (N + x mod d) + (x div d) * d"
    using div_mult_mod_eq [of x d] by linarith
  then show ?thesis
    using assms by (simp only: div_mult_self1 add.commute)
qed

text \<open>The train of \<open>n\<close> pulses, from any accumulator value.\<close>

definition train_ticks :: "step_gen \<Rightarrow> nat \<Rightarrow> nat" where
  "train_ticks s n = (n * 600000000000 + unat (sg_rem_accumulator s))
                       div unat (tm_denominator (sg_active s))"

lemma train_ticks_mono: "train_ticks s n \<le> train_ticks s (Suc n)"
  unfolding train_ticks_def by (rule div_le_mono) simp

lemma pulse_train:
  assumes st: "steady s" and tm: "timely h"
  shows "unat t + train_ticks s n + 600000000300 < 2 ^ 64 \<Longrightarrow>
         \<exists>t' s'. (isr_pulse h ^^ n) (t, s) = (t', s') \<and> unat t' = unat t + train_ticks s n
            \<and> steady s' \<and> sg_active s' = sg_active s \<and> sg_forward s' = sg_forward s
            \<and> unat (sg_rem_accumulator s') = (n * 600000000000 + unat (sg_rem_accumulator s))
                             mod unat (tm_denominator (sg_active s))
            \<and> sg_step_count s' = sg_step_count s + (if sg_forward s then int n else - int n)"
proof (induction n)
  case 0
  show ?case
    using st by (simp add: train_ticks_def steady_def)
next
  case (Suc n)
  let ?d = "unat (tm_denominator (sg_active s))"
  from Suc.prems train_ticks_mono [of s n] have "unat t + train_ticks s n + 600000000300 < 2 ^ 64"
    by linarith
  with Suc.IH obtain t1 s1 where IH: "(isr_pulse h ^^ n) (t, s) = (t1, s1)"
    "unat t1 = unat t + train_ticks s n" "steady s1" "sg_active s1 = sg_active s"
    "sg_forward s1 = sg_forward s"
    "unat (sg_rem_accumulator s1) = (n * 600000000000 + unat (sg_rem_accumulator s)) mod ?d"
    "sg_step_count s1 = sg_step_count s + (if sg_forward s then int n else - int n)"
    by blast
  from st have wf: "timing_wf (sg_active s)" "tm_integer (sg_active s) \<noteq> 0"
    by (auto simp: steady_def)
  note b = timing_wf_bounds [OF wf]
  have "unat t1 + unat (tm_integer (sg_active s1)) + 300 < 2 ^ 64"
    using Suc.prems train_ticks_mono [of s n] IH(2,4) b(2) by simp
  then obtain t2 s2 where P: "isr_pulse h (t1, s1) = (t2, s2)" "steady s2"
    "unat t2 = unat t1 + (600000000000 + unat (sg_rem_accumulator s1)) div ?d"
    "unat (sg_rem_accumulator s2) = (600000000000 + unat (sg_rem_accumulator s1)) mod ?d"
    "sg_active s2 = sg_active s1"
    "sg_step_count s2 = sg_step_count s1 + (if sg_forward s1 then 1 else -1)"
    "sg_forward s2 = sg_forward s1"
    using pulse_step [OF IH(3) tm] unfolding IH(4) by metis
  have "train_ticks s (Suc n) = train_ticks s n + (600000000000 + unat (sg_rem_accumulator s1)) div ?d"
    using div_split_sum [OF b(3), of "n * 600000000000 + unat (sg_rem_accumulator s)" 600000000000]
    by (simp add: train_ticks_def IH(6) ac_simps)
  then have t2: "unat t2 = unat t + train_ticks s (Suc n)"
    using P(3) IH(2) by simp
  have "(isr_pulse h ^^ Suc n) (t, s) = (t2, s2)"
    by (simp add: IH(1) P(1))
  with t2 P IH show ?case
    by (intro exI [of _ t2] exI [of _ s2]) (simp add: mod_add_right_eq ac_simps)
qed

end
