(* ===== verification/Step_Gen_Props.thy ===== *)
theory Step_Gen_Props
  imports Step_Gen_Timing
begin

text \<open>
  The properties of the pulse engine that the rest of the firmware relies on: pin safety in
  every reachable state, exact pulse spacing, the exact acceptance condition of the rate
  setter, the finality of the two stop operations, the order of the first pulse, and the
  count of the first pulse after a start from rest.
\<close>

section \<open>Auxiliary facts\<close>

text \<open>A platform on which every call succeeds, and the engine initialised on it.\<close>

definition hw_ok :: hw_env where
  "hw_ok = \<lparr> he_mutex_create = True, he_mutex_take = True, he_gpio_config_step_dir = ESP_OK,
     he_gpio_config_en = ESP_OK, he_new_timer = ESP_OK, he_set_alarm = ESP_OK,
     he_register_callbacks = ESP_OK, he_timer_enable = ESP_OK, he_timer_start = ESP_OK,
     he_timer_stop = ESP_OK, he_raw_count_err = ESP_OK, he_raw_count = 0 \<rparr>"

definition sg_booted :: step_gen where
  "sg_booted = snd (argus_step_gen_init hw_ok (Some (argus_config_defaults [] [])) step_gen_boot)"

lemma fst_init_ok:
  "argus_step_gen_init hw_ok (Some (argus_config_defaults [] [])) step_gen_boot = (ESP_OK, sg_booted)"
  unfolding sg_booted_def
  by (simp add: argus_step_gen_init_def init_timer_def hw_ok_def init_variables_def
      step_gen_boot_def hw_defs Let_def)

lemma default_pins [simp]: "pins_distinct (argus_config_defaults client unit)"
  by (simp add: pins_distinct_def argus_config_defaults_def GPIO_NUM_NC_def)

lemma booted_reachable: "sg_reachable (argus_config_defaults [] []) sg_booted"
  by (rule sg_init [OF fst_init_ok])

text \<open>The state after initialisation, evaluated.\<close>

lemma sg_booted_eval:
  "sg_booted = step_gen_boot
     \<lparr> sg_timer := True, sg_lifecycle_mutex := True, sg_step_gpio := 3, sg_dir_gpio := 4,
       sg_en_gpio := 5,
       sg_log := [Gpio_Config [3, 4], Gpio_Set 3 1, Gpio_Set 4 0, Gpio_Set 5 1, Gpio_Config [5],
                  Timer_New, Timer_Set_Alarm 10000, Timer_Register_Callbacks, Timer_Enable] \<rparr>"
  by (simp add: sg_booted_def argus_step_gen_init_def init_timer_def hw_ok_def init_variables_def
      argus_config_defaults_def step_gen_boot_def hw_defs Let_def)

text \<open>Halted: neither stop operation leaves anything the interrupt could turn into a step.\<close>

definition halted :: "step_gen \<Rightarrow> bool" where
  "halted s \<longleftrightarrow> \<not> sg_running s
     \<and> gpio_level (sg_log s) (sg_step_gpio s) = Some (sg_step_inactive_level s)"

lemma halted_isr:
  assumes "halted s" and "step_gen_inv s"
  shows "halted (argus_timer_alarm_cb h a s) \<and> sg_step_count (argus_timer_alarm_cb h a s) = sg_step_count s
     \<and> sg_step_gpio (argus_timer_alarm_cb h a s) = sg_step_gpio s
     \<and> sg_step_inactive_level (argus_timer_alarm_cb h a s) = sg_step_inactive_level s"
  using assms
  by (simp add: halted_def argus_timer_alarm_cb_def isr_deassert_step_def isr_schedule_alarm_def
      inv_defs hw_defs Let_def)

lemma halted_isr_run:
  assumes "halted s" and "step_gen_inv s"
  shows "halted (fold (\<lambda>(h, a). argus_timer_alarm_cb h a) irqs s)
     \<and> sg_step_count (fold (\<lambda>(h, a). argus_timer_alarm_cb h a) irqs s) = sg_step_count s
     \<and> sg_step_gpio (fold (\<lambda>(h, a). argus_timer_alarm_cb h a) irqs s) = sg_step_gpio s
     \<and> sg_step_inactive_level (fold (\<lambda>(h, a). argus_timer_alarm_cb h a) irqs s) = sg_step_inactive_level s"
  using assms
proof (induction irqs arbitrary: s)
  case (Cons x irqs)
  obtain h a where x: "x = (h, a)" by (cases x)
  note step = halted_isr [OF Cons.prems, of h a] inv_isr [OF Cons.prems(2), of h a]
  show ?case
    using Cons.IH [of "argus_timer_alarm_cb h a s"] step by (simp add: x)
qed simp

lemma stop_immediate_halts:
  assumes "sg_timer s" and "he_mutex_take h" and "s' = snd (argus_step_gen_stop_immediate h s)"
  shows "halted s'" and "sg_step_count s' = sg_step_count s"
    and "sg_step_gpio s' = sg_step_gpio s \<and> sg_step_inactive_level s' = sg_step_inactive_level s"
  using assms
  by (simp_all add: argus_step_gen_stop_immediate_def halted_def halt_timing_def hw_defs Let_def)

lemma disable_driver_halts:
  assumes "argus_step_gen_disable_driver h s = (ESP_OK, s')" and "step_gen_inv s"
  shows "halted s'" and "sg_step_count s' = sg_step_count s"
    and "sg_step_gpio s' = sg_step_gpio s \<and> sg_step_inactive_level s' = sg_step_inactive_level s"
  using assms
  by (auto simp: argus_step_gen_disable_driver_def halted_def halt_timing_def inv_defs hw_defs
      Let_def split: if_splits)

text \<open>The minimum period of 300 ticks is a bound of 2 GHz-ticks on the divisor.\<close>

lemma period_min_iff:
  assumes "1 \<le> rpm" "rpm \<le> 200000" "spr \<noteq> 0"
  shows "rate_num div rate_den rpm spr < 300 \<longleftrightarrow> 2000000000 < nat rpm * unat spr"
proof -
  let ?d = "nat rpm * unat spr"
  have d: "unat (rate_den rpm spr) = ?d" "0 < ?d"
    using rate_den_exact [OF assms(1,2), of spr] assms by (simp_all add: unat_gt_0)
  have "rate_num div rate_den rpm spr < 300 \<longleftrightarrow> 600000000000 div ?d < 300"
    by (simp add: word_less_nat_alt unat_div d(1) rate_num_def)
  also have "\<dots> \<longleftrightarrow> 600000000000 < 300 * ?d"
    using d(2) by (rule div_less_iff_less_mult)
  finally show ?thesis by simp
qed

text \<open>What the two phases of the interrupt append to the log, and count.\<close>

lemma isr_assert_log:
  assumes "sg_running s" "sg_driver_enabled s" "\<not> sg_pin_asserted s"
    "isr_accept_rate s = s" "tm_integer (sg_active s) \<noteq> 0"
  obtains x where "sg_log (argus_timer_alarm_cb h a s)
        = sg_log s @ [Gpio_Set (sg_step_gpio s) (sg_step_active_level s), Timer_Set_Alarm x]"
    and "sg_step_count (argus_timer_alarm_cb h a s) = sg_step_count s + (if sg_forward s then 1 else -1)"
    and "sg_pin_asserted (argus_timer_alarm_cb h a s)"
    and "tm_direction_forward (sg_pending (argus_timer_alarm_cb h a s)) = tm_direction_forward (sg_pending s)"
    and "sg_forward (argus_timer_alarm_cb h a s) = sg_forward s"
    and "sg_step_gpio (argus_timer_alarm_cb h a s) = sg_step_gpio s"
    and "sg_step_inactive_level (argus_timer_alarm_cb h a s) = sg_step_inactive_level s"
  using assms
  by (simp add: argus_timer_alarm_cb_def isr_bresenham_def isr_schedule_alarm_def count_step_def
      hw_defs Let_def)

lemma isr_deassert_log:
  assumes "sg_pin_asserted s" "tm_direction_forward (sg_pending s) = sg_forward s"
  obtains x where "sg_log (argus_timer_alarm_cb h a s)
        = sg_log s @ [Gpio_Set (sg_step_gpio s) (sg_step_inactive_level s), Timer_Set_Alarm x]"
    and "sg_step_count (argus_timer_alarm_cb h a s) = sg_step_count s"
  using assms
  by (simp add: argus_timer_alarm_cb_def isr_deassert_step_def isr_schedule_alarm_def hw_defs Let_def)

text \<open>A start from rest: the log, and a state in which the interrupt's assertion phase is next.\<close>

lemma kickstart_effect:
  assumes "sg_timer s" "sg_driver_enabled s" "sg_running s" "sg_generated_rpm_milli s = 0"
    and "he_timer_start h = ESP_OK"
    and rpm: "1 \<le> rpm" "rpm \<le> 200000" "spr \<noteq> 0" "nat rpm * unat spr \<le> 2000000000"
    and k: "k = snd (argus_step_gen_set_rate_rpm_milli h rpm spr s)"
  obtains v x where "sg_log k = sg_log s @ [Timer_Start, Gpio_Set (sg_dir_gpio s) v, Delay_Us 5,
        Gpio_Set (sg_step_gpio s) (sg_step_active_level s), Timer_Set_Alarm x]"
    and "sg_step_count k = sg_step_count s + (if tm_direction_forward (sg_pending s) then 1 else -1)"
    and "sg_running k" "sg_driver_enabled k" "sg_pin_asserted k = sg_pin_asserted s"
    and "isr_accept_rate k = k" "tm_integer (sg_active k) \<noteq> 0"
    and "sg_forward k = tm_direction_forward (sg_pending s)"
    and "tm_direction_forward (sg_pending k) = tm_direction_forward (sg_pending s)"
    and "sg_step_gpio k = sg_step_gpio s" "sg_step_active_level k = sg_step_active_level s"
    and "sg_step_inactive_level k = sg_step_inactive_level s"
proof -
  have min: "\<not> rate_num div rate_den rpm spr < 300"
    using period_min_iff [OF rpm(1-3)] rpm(4) by simp
  then have nz: "rate_num div rate_den rpm spr \<noteq> 0"
    by (auto simp: word_less_nat_alt)
  have "k = (snd (kickstart h rpm (store_rate rpm spr s)))\<lparr> sg_error_state := STEP_GEN_ERROR_NONE \<rparr>"
    using assms(1-5) rpm min unfolding k
    by (simp add: argus_step_gen_set_rate_rpm_milli_def set_rate_enabled_def kickstart_def
        store_rate_def Let_def)
  then show thesis
    using that assms(1-5) nz
    by (simp add: kickstart_def store_rate_def count_step_def hw_defs isr_accept_rate_def Let_def)
qed

text \<open>The rate setter on an enabled engine: accepted or rejected, with the stored period.\<close>

lemma set_rate_cases:
  assumes "sg_timer s" and "sg_driver_enabled s" and "rpm \<noteq> 0" and "he_timer_start h = ESP_OK"
  shows "if 1 \<le> rpm \<and> rpm \<le> 200000 \<and> spr \<noteq> 0 \<and> nat rpm * unat spr \<le> 2000000000
    then \<exists>s'. argus_step_gen_set_rate_rpm_milli h rpm spr s = (ESP_OK, s')
       \<and> sg_requested_rpm_milli s' = rpm \<and> sg_error_state s' = STEP_GEN_ERROR_NONE
       \<and> 300 \<le> unat (tm_integer (sg_pending s'))
       \<and> unat (tm_integer (sg_pending s')) * (nat rpm * unat spr) + unat (tm_remainder (sg_pending s'))
           = 600000000000
       \<and> unat (tm_remainder (sg_pending s')) < nat rpm * unat spr
       \<and> unat (tm_denominator (sg_pending s')) = nat rpm * unat spr
    else argus_step_gen_set_rate_rpm_milli h rpm spr s
           = (ESP_ERR_INVALID_ARG, s\<lparr> sg_error_state := STEP_GEN_ERROR_TIMING_UPDATE_FAILED \<rparr>)"
proof (cases "1 \<le> rpm \<and> rpm \<le> 200000 \<and> spr \<noteq> 0")
  case False
  then show ?thesis
    using assms by (auto simp: argus_step_gen_set_rate_rpm_milli_def rate_error_def)
next
  case True
  then have r: "1 \<le> rpm" "rpm \<le> 200000" "spr \<noteq> 0" by simp_all
  have d: "unat (rate_den rpm spr) = nat rpm * unat spr" "0 < nat rpm * unat spr"
    using rate_den_exact [OF r(1,2), of spr] r by (simp_all add: unat_gt_0)
  have acc: "\<exists>s'. set_rate_enabled h rpm spr s = (ESP_OK, s') \<and> sg_requested_rpm_milli s' = rpm
      \<and> sg_error_state s' = STEP_GEN_ERROR_NONE
      \<and> sg_pending s' = sg_pending (store_rate rpm spr s)" if "\<not> rate_num div rate_den rpm spr < 300"
    using that assms(4)
    by (simp add: set_rate_enabled_def kickstart_def store_rate_def count_step_def hw_defs Let_def)
  have num: "unat rate_num = 600000000000"
    by (simp add: rate_num_def)
  have "unat (rate_num div rate_den rpm spr) * (nat rpm * unat spr)
      + unat (rate_num mod rate_den rpm spr) = 600000000000"
    unfolding unat_div unat_mod d num by (rule div_mult_mod_eq)
  moreover have "unat (rate_num mod rate_den rpm spr) < nat rpm * unat spr"
    using d(2) unfolding unat_mod d(1) by (rule mod_less_divisor)
  moreover have "300 \<le> unat (rate_num div rate_den rpm spr) \<longleftrightarrow> nat rpm * unat spr \<le> 2000000000"
    using period_min_iff [OF r] by (simp add: word_less_nat_alt not_less [symmetric])
  ultimately show ?thesis
    using acc period_min_iff [OF r] assms r d(1)
    by (auto simp: argus_step_gen_set_rate_rpm_milli_def store_rate_def set_rate_enabled_def
        rate_error_def Let_def)
qed

section \<open>Properties\<close>

text \<open>
  C3: In every state the engine can reach after a successful initialisation, whatever the
  platform answers, the DIR and ENA pins carry the levels of the software state, and STEP is
  at its active level only while the driver is enabled with ENA low.
\<close>

theorem reachable_pins_safe:
  assumes "sg_reachable c s" and "pins_distinct c"
  shows "gpio_level (sg_log s) (sg_en_gpio s) = Some (if sg_driver_enabled s then 0 else 1)
    \<and> gpio_level (sg_log s) (sg_dir_gpio s)
        = Some (if sg_forward s then sg_dir_forward_level s else sg_dir_reverse_level s)
    \<and> (gpio_level (sg_log s) (sg_step_gpio s) = Some (sg_step_active_level s)
         \<longrightarrow> gpio_level (sg_log s) (sg_en_gpio s) = Some 0)"
  using reachable_inv [OF assms] by (auto simp: inv_defs)

theorem reachable_pins_safe_witness:
  "gpio_level (sg_log sg_booted) (sg_en_gpio sg_booted) = Some 1"
  using reachable_pins_safe [OF booted_reachable default_pins] by (simp add: sg_booted_eval step_gen_boot_def)

text \<open>
  C2: Pulse spacing is exact. From a steady state at a constant rate, with each interrupt
  served within 120 ticks of its alarm, the assertion after \<open>n\<close> pulses comes at
  \<open>(n * 600000000000 + accumulator) div denominator\<close> ticks after the first: the rounding
  error stays below one tick and never accumulates. The step counter has moved by exactly
  \<open>n\<close> in the direction of motion.
\<close>

theorem pulse_train_exact:
  assumes "steady s" and "timely h"
    and "unat t + (n * 600000000000 + unat (sg_rem_accumulator s))
           div unat (tm_denominator (sg_active s)) + 600000000300 < 2 ^ 64"
  shows "\<exists>t' s'. (isr_pulse h ^^ n) (t, s) = (t', s')
      \<and> unat t' = unat t + (n * 600000000000 + unat (sg_rem_accumulator s))
                             div unat (tm_denominator (sg_active s))
      \<and> sg_step_count s' = sg_step_count s + (if sg_forward s then int n else - int n)
      \<and> steady s'"
  using pulse_train [OF assms(1,2), of t n] assms(3) unfolding train_ticks_def by blast

definition sg_cruise :: step_gen where
  "sg_cruise = step_gen_boot
     \<lparr> sg_timer := True, sg_running := True, sg_driver_enabled := True,
       sg_pending := \<lparr> tm_integer = 375, tm_remainder = 0, tm_denominator = 1600000000,
                       tm_direction_forward = True, tm_immediate_stop = False \<rparr>,
       sg_active := \<lparr> tm_integer = 375, tm_remainder = 0, tm_denominator = 1600000000,
                      tm_direction_forward = True, tm_immediate_stop = False \<rparr> \<rparr>"

theorem pulse_train_exact_witness:
  "\<exists>t' s'. (isr_pulse (\<lambda>t. hw_ok) ^^ 8000) (1000, sg_cruise) = (t', s')
     \<and> unat t' = 1000 + 3000000 \<and> sg_step_count s' = 8000 \<and> steady s'"
proof -
  have "steady sg_cruise" and "timely (\<lambda>t. hw_ok)"
    by (simp_all add: steady_def sg_cruise_def step_gen_boot_def timing_wf_def timely_def hw_ok_def)
  from pulse_train_exact [OF this, of 1000 8000] show ?thesis
    by (simp add: sg_cruise_def step_gen_boot_def)
qed

text \<open>
  The rate setter accepts a nonzero rate exactly when it is between 1 and 200000
  milli-RPM, the steps per revolution are not zero, and \<open>rpm * steps_per_rev\<close> does not
  exceed 2000000000 (a period of 300 ticks); every other request is an invalid argument that
  changes nothing but the error state. An accepted request stores a period whose integer and
  remainder recompose the numerator exactly.
\<close>

theorem set_rate_exact:
  assumes "sg_timer s" and "sg_driver_enabled s" and "rpm \<noteq> 0" and "he_timer_start h = ESP_OK"
  shows "if 1 \<le> rpm \<and> rpm \<le> 200000 \<and> spr \<noteq> 0 \<and> nat rpm * unat spr \<le> 2000000000
    then \<exists>s'. argus_step_gen_set_rate_rpm_milli h rpm spr s = (ESP_OK, s')
       \<and> sg_requested_rpm_milli s' = rpm \<and> sg_error_state s' = STEP_GEN_ERROR_NONE
       \<and> 300 \<le> unat (tm_integer (sg_pending s'))
       \<and> unat (tm_integer (sg_pending s')) * (nat rpm * unat spr) + unat (tm_remainder (sg_pending s'))
           = 600000000000
       \<and> unat (tm_remainder (sg_pending s')) < nat rpm * unat spr
       \<and> unat (tm_denominator (sg_pending s')) = nat rpm * unat spr
    else argus_step_gen_set_rate_rpm_milli h rpm spr s
           = (ESP_ERR_INVALID_ARG, s\<lparr> sg_error_state := STEP_GEN_ERROR_TIMING_UPDATE_FAILED \<rparr>)"
  using assms by (rule set_rate_cases)

theorem set_rate_exact_witness:
  "\<exists>s'. argus_step_gen_set_rate_rpm_milli hw_ok 7000 8000 sg_cruise = (ESP_OK, s')
     \<and> unat (tm_integer (sg_pending s')) * (nat 7000 * unat (8000 :: u32))
         + unat (tm_remainder (sg_pending s')) = 600000000000"
  using set_rate_exact [of sg_cruise 7000 hw_ok 8000]
  by (auto simp: sg_cruise_def step_gen_boot_def hw_ok_def)

text \<open>
  A stop is final. After an immediate stop that took the mutex (whatever the timer
  driver returned), or a successful driver disable, no number of late timer interrupts
  asserts STEP or counts a step: the pin stays at its inactive level.
\<close>

theorem stop_is_final:
  assumes "sg_reachable c s" and "pins_distinct c" and "he_mutex_take h"
    and "s' = snd (argus_step_gen_stop_immediate h s) \<or> s' = snd (argus_step_gen_disable_driver h s)"
  shows "let r = fold (\<lambda>(h, a). argus_timer_alarm_cb h a) irqs s'
    in gpio_level (sg_log r) (sg_step_gpio s) = Some (sg_step_inactive_level s)
       \<and> sg_step_count r = sg_step_count s"
proof -
  note inv = reachable_inv [OF assms(1,2)]
  have ok: "argus_step_gen_disable_driver h s = (ESP_OK, snd (argus_step_gen_disable_driver h s))"
    using inv assms(3) by (simp add: argus_step_gen_disable_driver_def inv_defs Let_def)
  have "sg_timer s" using inv by (simp add: inv_defs)
  then have h: "halted s' \<and> sg_step_count s' = sg_step_count s \<and> sg_step_gpio s' = sg_step_gpio s
      \<and> sg_step_inactive_level s' = sg_step_inactive_level s"
    using assms(3,4) stop_immediate_halts [of s h s']
      disable_driver_halts [OF ok inv] by auto
  have "step_gen_inv s'"
    using assms(4) inv inv_stop_immediate inv_disable_driver by blast
  note run = halted_isr_run [OF conjunct1 [OF h] this, of irqs]
  from run h show ?thesis
    unfolding Let_def halted_def by metis
qed

theorem stop_is_final_witness:
  "gpio_level (sg_log (argus_timer_alarm_cb hw_ok 7
     (snd (argus_step_gen_stop_immediate hw_ok sg_booted)))) 3 = Some 1"
  using stop_is_final [OF booted_reachable default_pins, of hw_ok
      "snd (argus_step_gen_stop_immediate hw_ok sg_booted)" "[(hw_ok, 7)]"]
  by (simp add: hw_ok_def sg_booted_eval step_gen_boot_def Let_def)

text \<open>
  The first pulse after rest is ordered as the driver requires: when a running engine
  with a disabled driver is given a rate, ENA is driven low, 20 ms pass, DIR is driven to the
  commanded direction, 5 us pass, and only then is STEP asserted, with the alarm for the
  deassertion 150 ticks after the count that was read.
\<close>

theorem first_pulse_order:
  assumes "sg_timer s" and "sg_en_gpio s \<noteq> GPIO_NUM_NC" and "\<not> sg_driver_enabled s"
    and "sg_running s" and "sg_generated_rpm_milli s = 0"
    and "he_mutex_take h" and "he_timer_start h = ESP_OK" and "he_raw_count_err h = ESP_OK"
    and "1 \<le> rpm" and "rpm \<le> 200000" and "spr \<noteq> 0" and "nat rpm * unat spr \<le> 2000000000"
  shows "sg_log (snd (argus_step_gen_set_rate_rpm_milli h rpm spr s)) = sg_log s @
    [Gpio_Set (sg_en_gpio s) 0, Task_Delay_Ms 20, Timer_Start,
     Gpio_Set (sg_dir_gpio s) (if tm_direction_forward (sg_pending s) then sg_dir_forward_level s
                               else sg_dir_reverse_level s),
     Delay_Us 5, Gpio_Set (sg_step_gpio s) (sg_step_active_level s),
     Timer_Set_Alarm (he_raw_count h + 150)]"
  using assms period_min_iff [of rpm spr]
  by (simp add: argus_step_gen_set_rate_rpm_milli_def argus_step_gen_enable_driver_def
      set_rate_enabled_def kickstart_def store_rate_def count_step_def hw_defs Let_def)

theorem first_pulse_order_witness:
  "sg_log (snd (argus_step_gen_set_rate_rpm_milli hw_ok 500 8000 (snd (argus_step_gen_start hw_ok sg_booted))))
     = sg_log (snd (argus_step_gen_start hw_ok sg_booted)) @
       [Gpio_Set 5 0, Task_Delay_Ms 20, Timer_Start, Gpio_Set 4 1, Delay_Us 5, Gpio_Set 3 0,
        Timer_Set_Alarm 150]"
  using first_pulse_order [of "snd (argus_step_gen_start hw_ok sg_booted)" hw_ok 500 8000]
  by (simp add: argus_step_gen_start_def hw_ok_def sg_booted_eval step_gen_boot_def hw_def
      GPIO_NUM_NC_def timing_zero_def)

text \<open>
  The first pulse after a start from rest is counted twice. The rate setter asserts
  STEP and counts, but the interrupt's own phase flag is still clear, so the alarm meant to
  deassert the pin runs the assertion phase again. After the two interrupts that complete
  the first pulse, from any engine at rest with STEP inactive, the counter has moved by two
  while STEP saw a single transition to its active level.
\<close>

theorem kickstart_counts_twice:
  fixes s rpm spr h h1 h2 a1 a2
  defines "k \<equiv> snd (argus_step_gen_set_rate_rpm_milli h rpm spr s)"
  defines "r \<equiv> argus_timer_alarm_cb h2 a2 (argus_timer_alarm_cb h1 a1 k)"
  assumes inv: "step_gen_inv s" and "sg_driver_enabled s" and "sg_running s"
    and "\<not> sg_pin_asserted s" and "sg_generated_rpm_milli s = 0"
    and "gpio_level (sg_log s) (sg_step_gpio s) = Some (sg_step_inactive_level s)"
    and "he_timer_start h = ESP_OK"
    and rpm: "1 \<le> rpm" "rpm \<le> 200000" "spr \<noteq> 0" "nat rpm * unat spr \<le> 2000000000"
  shows "sg_step_count r = sg_step_count s + (if tm_direction_forward (sg_pending s) then 2 else -2)
    \<and> edges (sg_step_gpio s) (sg_step_inactive_level s) (sg_step_active_level s)
        (Some (sg_step_inactive_level s)) (drop (length (sg_log s)) (sg_log r)) = 1"
proof -
  have "sg_timer s" and lv: "sg_step_gpio s \<noteq> sg_dir_gpio s" "sg_step_active_level s \<noteq> sg_step_inactive_level s"
    using inv by (auto simp: inv_defs)
  then obtain v x where K: "sg_log k = sg_log s @ [Timer_Start, Gpio_Set (sg_dir_gpio s) v, Delay_Us 5,
        Gpio_Set (sg_step_gpio s) (sg_step_active_level s), Timer_Set_Alarm x]"
    "sg_step_count k = sg_step_count s + (if tm_direction_forward (sg_pending s) then 1 else -1)"
    "sg_running k" "sg_driver_enabled k" "sg_pin_asserted k = sg_pin_asserted s"
    "isr_accept_rate k = k" "tm_integer (sg_active k) \<noteq> 0"
    "sg_forward k = tm_direction_forward (sg_pending s)"
    "tm_direction_forward (sg_pending k) = tm_direction_forward (sg_pending s)"
    "sg_step_gpio k = sg_step_gpio s" "sg_step_active_level k = sg_step_active_level s"
    "sg_step_inactive_level k = sg_step_inactive_level s"
    using kickstart_effect [OF _ assms(4,5,7,9) rpm] unfolding k_def by metis
  let ?m = "argus_timer_alarm_cb h1 a1 k"
  obtain y where M: "sg_log ?m = sg_log k @ [Gpio_Set (sg_step_gpio k) (sg_step_active_level k), Timer_Set_Alarm y]"
    "sg_step_count ?m = sg_step_count k + (if sg_forward k then 1 else -1)" "sg_pin_asserted ?m"
    "tm_direction_forward (sg_pending ?m) = tm_direction_forward (sg_pending k)"
    "sg_forward ?m = sg_forward k" "sg_step_gpio ?m = sg_step_gpio k"
    "sg_step_inactive_level ?m = sg_step_inactive_level k"
    using isr_assert_log [OF K(3,4) _ K(6,7)] K(5) assms(6) by metis
  obtain z where "sg_log r = sg_log ?m @ [Gpio_Set (sg_step_gpio ?m) (sg_step_inactive_level ?m), Timer_Set_Alarm z]"
    "sg_step_count r = sg_step_count ?m"
    using isr_deassert_log [of ?m h2 a2] M(3,4,5) K(8,9) unfolding r_def by metis
  then show ?thesis
    using K M lv by simp
qed

definition sg_ready :: step_gen where
  "sg_ready = snd (argus_step_gen_start hw_ok (snd (argus_step_gen_enable_driver hw_ok sg_booted)))"

theorem kickstart_counts_twice_witness:
  "sg_step_count (argus_timer_alarm_cb hw_ok 300 (argus_timer_alarm_cb hw_ok 150
     (snd (argus_step_gen_set_rate_rpm_milli hw_ok 500 8000 sg_ready)))) = -2"
proof -
  have inv: "step_gen_inv sg_ready"
    unfolding sg_ready_def
    by (intro inv_start inv_enable_driver reachable_inv [OF booted_reachable default_pins])
  have ev: "sg_driver_enabled sg_ready" "sg_running sg_ready" "\<not> sg_pin_asserted sg_ready"
    "sg_generated_rpm_milli sg_ready = 0" "sg_step_count sg_ready = 0"
    "\<not> tm_direction_forward (sg_pending sg_ready)"
    "gpio_level (sg_log sg_ready) (sg_step_gpio sg_ready) = Some (sg_step_inactive_level sg_ready)"
    by (simp_all add: sg_ready_def argus_step_gen_start_def argus_step_gen_enable_driver_def
        sg_booted_eval step_gen_boot_def hw_ok_def hw_defs timing_zero_def GPIO_NUM_NC_def)
  have h: "he_timer_start hw_ok = ESP_OK"
    by (simp add: hw_ok_def)
  show ?thesis
    using kickstart_counts_twice [OF inv ev(1-4,7) h, of 500 8000 hw_ok 300 hw_ok 150] ev(5,6)
    by simp
qed

end
