(* ===== verification/Trajectory.thy ===== *)
theory Trajectory
  imports Step_Gen_Props
begin

text \<open>
  The ramp engine (\<open>argus_trajectory.c\<close>). Its static variables are a record that holds
  the pulse engine below it. An operation that makes several pulse-engine calls takes the
  platform's answers to each of them, indexed by the call's position. The trajectory mutex
  makes every operation atomic.
\<close>

section \<open>State and operations\<close>

type_synonym hw_answers = "nat \<Rightarrow> hw_env"

record trajectory =
  tr_cfg :: "argus_config option"
  tr_mutex :: bool
  tr_task_handle :: bool
  tr_target_rpm_milli :: int
  tr_applied_rpm_milli :: int
  tr_target_forward :: bool
  tr_current_forward :: bool
  tr_ramp_active :: bool
  tr_is_reversing :: bool
  tr_latched_error :: u32
  tr_accel_limit :: int
  tr_decel_limit :: int
  tr_update_interval_ms :: int
  tr_gen :: step_gen

definition trajectory_boot :: "step_gen \<Rightarrow> trajectory" where
  "trajectory_boot g =
     \<lparr> tr_cfg = None, tr_mutex = False, tr_task_handle = False, tr_target_rpm_milli = 0,
       tr_applied_rpm_milli = 0, tr_target_forward = True, tr_current_forward = True,
       tr_ramp_active = False, tr_is_reversing = False, tr_latched_error = 0,
       tr_accel_limit = 10000, tr_decel_limit = 10000, tr_update_interval_ms = 20, tr_gen = g \<rparr>"

definition clear_error_locked :: "trajectory \<Rightarrow> trajectory" where
  "clear_error_locked t = t\<lparr> tr_latched_error := 0, tr_gen := argus_step_gen_clear_error (tr_gen t) \<rparr>"

definition argus_trajectory_init :: "bool \<Rightarrow> argus_config option \<Rightarrow> trajectory \<Rightarrow> esp_err \<times> trajectory" where
  "argus_trajectory_init mutex_created cfg t =
     (case cfg of
        None \<Rightarrow> (ESP_ERR_INVALID_ARG, t)
      | Some c \<Rightarrow>
          (let t1 = t\<lparr> tr_cfg := cfg, tr_accel_limit := cfg_accel_milli_rpm_per_sec c,
                       tr_decel_limit := cfg_decel_milli_rpm_per_sec c, tr_update_interval_ms := 20 \<rparr>
           in if \<not> tr_mutex t \<and> \<not> mutex_created then (ESP_ERR_NO_MEM, t1)
              else (ESP_OK, t1\<lparr> tr_mutex := True, tr_target_rpm_milli := 0, tr_applied_rpm_milli := 0,
                     tr_target_forward := True, tr_current_forward := True,
                     tr_ramp_active := False, tr_is_reversing := False \<rparr>)))"

text \<open>
  The tick. \<open>ramp_delta\<close> is the speed change of one interval: 32-bit products and C
  division, at least 1.
\<close>

definition ramp_delta :: "int \<Rightarrow> int \<Rightarrow> int" where
  "ramp_delta limit interval_ms = (let d = (limit * interval_ms) sdiv 1000 in if d < 1 then 1 else d)"

text \<open>The direction switch at zero speed: calls 0 and 1 of the tick.\<close>

definition switch_direction :: "hw_answers \<Rightarrow> trajectory \<Rightarrow> trajectory" where
  "switch_direction h t =
     (let g1 = snd (argus_step_gen_stop_immediate (h 0) (tr_gen t));
          g2 = snd (argus_step_gen_set_direction (h 1) (tr_target_forward t) g1)
      in t\<lparr> tr_gen := g2, tr_current_forward := tr_target_forward t, tr_is_reversing := False \<rparr>)"

definition tick_reversal :: "hw_answers \<Rightarrow> int \<Rightarrow> trajectory \<Rightarrow> trajectory" where
  "tick_reversal h delta_decel t =
     (if tr_applied_rpm_milli t > 0 then
        (let applied = tr_applied_rpm_milli t - delta_decel;
             t1 = t\<lparr> tr_is_reversing := True, tr_ramp_active := True \<rparr>
         in if applied \<le> 0 then switch_direction h (t1\<lparr> tr_applied_rpm_milli := 0 \<rparr>)
            else t1\<lparr> tr_applied_rpm_milli := applied \<rparr>)
      else switch_direction h t)"

definition tick_ramp :: "int \<Rightarrow> int \<Rightarrow> trajectory \<Rightarrow> trajectory" where
  "tick_ramp delta_accel delta_decel t =
     (let target = tr_target_rpm_milli t; applied = tr_applied_rpm_milli t
      in if applied < target then
           (if applied + delta_accel \<ge> target
            then t\<lparr> tr_applied_rpm_milli := target, tr_ramp_active := False \<rparr>
            else t\<lparr> tr_applied_rpm_milli := applied + delta_accel, tr_ramp_active := True \<rparr>)
         else if applied > target then
           (if applied - delta_decel \<le> target
            then t\<lparr> tr_applied_rpm_milli := target, tr_ramp_active := False \<rparr>
            else t\<lparr> tr_applied_rpm_milli := applied - delta_decel, tr_ramp_active := True \<rparr>)
         else t\<lparr> tr_ramp_active := False \<rparr>)"

text \<open>Handing the speed to the pulse engine: calls 2 to 4 of the tick.\<close>

definition tick_apply :: "hw_answers \<Rightarrow> u32 \<Rightarrow> trajectory \<Rightarrow> trajectory" where
  "tick_apply h spr t =
     (if tr_applied_rpm_milli t > 0 then
        (let g1 = (if \<not> argus_step_gen_is_driver_enabled (tr_gen t)
                   then snd (argus_step_gen_enable_driver (h 2) (tr_gen t)) else tr_gen t);
             g2 = snd (argus_step_gen_start (h 3) g1);
             g3 = snd (argus_step_gen_set_rate_rpm_milli (h 4) (tr_applied_rpm_milli t) spr g2)
         in t\<lparr> tr_gen := g3 \<rparr>)
      else if tr_applied_rpm_milli t = 0 then
        (if sg_generated_rpm_milli (tr_gen t) > 0
         then t\<lparr> tr_gen := snd (argus_step_gen_stop_profiled (tr_gen t)) \<rparr> else t)
      else t)"

definition argus_trajectory_step_tick_20ms :: "hw_answers \<Rightarrow> trajectory \<Rightarrow> trajectory" where
  "argus_trajectory_step_tick_20ms h t =
     (if tr_cfg t = None then t
      else
        (let spr = u32_of_u64 (argus_conversions_steps_per_rev (tr_cfg t));
             delta_accel = ramp_delta (tr_accel_limit t) (tr_update_interval_ms t);
             delta_decel = ramp_delta (tr_decel_limit t) (tr_update_interval_ms t);
             t1 = (if tr_target_forward t \<noteq> tr_current_forward t \<or> tr_is_reversing t
                   then tick_reversal h delta_decel t
                   else tick_ramp delta_accel delta_decel t)
         in tick_apply h spr t1))"

text \<open>The task runs one tick per 20 ms period; the list holds the answers of each period.\<close>

definition argus_trajectory_task :: "hw_answers list \<Rightarrow> trajectory \<Rightarrow> trajectory" where
  "argus_trajectory_task hs t = fold argus_trajectory_step_tick_20ms hs t"

definition argus_trajectory_task_start :: "bool \<Rightarrow> trajectory \<Rightarrow> esp_err \<times> trajectory" where
  "argus_trajectory_task_start created t =
     (if tr_task_handle t then (ESP_OK, t)
      else if created then (ESP_OK, t\<lparr> tr_task_handle := True \<rparr>)
      else (ESP_ERR_NO_MEM, t))"

definition argus_trajectory_set_target_rpm_milli ::
  "hw_env \<Rightarrow> int \<Rightarrow> bool \<Rightarrow> trajectory \<Rightarrow> esp_err \<times> trajectory" where
  "argus_trajectory_set_target_rpm_milli h rpm_milli forward t =
     (case tr_cfg t of
        None \<Rightarrow> (ESP_ERR_INVALID_STATE, t)
      | Some c \<Rightarrow>
          (let r1 = (if rpm_milli < 0 then 0 else rpm_milli);
               r = (if r1 > cfg_max_output_milli_rpm c then cfg_max_output_milli_rpm c else r1);
               t1 = t\<lparr> tr_target_rpm_milli := r, tr_target_forward := forward \<rparr>;
               t2 = (if tr_target_forward t1 \<noteq> tr_current_forward t1 \<and> tr_applied_rpm_milli t1 > 0
                     then t1\<lparr> tr_is_reversing := True \<rparr> else t1)
           in (ESP_OK,
               if tr_applied_rpm_milli t2 = 0 \<and> r > 0 \<and> \<not> argus_step_gen_is_driver_enabled (tr_gen t2)
               then t2\<lparr> tr_gen := snd (argus_step_gen_enable_driver h (tr_gen t2)) \<rparr> else t2)))"

definition argus_trajectory_stop_normal :: "hw_env \<Rightarrow> trajectory \<Rightarrow> esp_err \<times> trajectory" where
  "argus_trajectory_stop_normal h t = argus_trajectory_set_target_rpm_milli h 0 (tr_target_forward t) t"

definition zero_motion :: "trajectory \<Rightarrow> trajectory" where
  "zero_motion t = t\<lparr> tr_target_rpm_milli := 0, tr_applied_rpm_milli := 0,
                      tr_ramp_active := False, tr_is_reversing := False \<rparr>"

definition argus_trajectory_stop_immediate :: "hw_env \<Rightarrow> trajectory \<Rightarrow> esp_err \<times> trajectory" where
  "argus_trajectory_stop_immediate h t =
     (ESP_OK, (zero_motion t)\<lparr> tr_gen := snd (argus_step_gen_stop_immediate h (tr_gen t)) \<rparr>)"

definition argus_trajectory_unlock :: "hw_env \<Rightarrow> trajectory \<Rightarrow> esp_err \<times> trajectory" where
  "argus_trajectory_unlock h t =
     (ESP_OK, (zero_motion t)\<lparr> tr_gen := snd (argus_step_gen_disable_driver h (tr_gen t)) \<rparr>)"

text \<open>
  \<open>argus_trajectory_recover\<close>: the mutex is released during the 500 ms wait, so the pulse
  engine's state after the wait is what \<open>during_wait\<close> makes of it.
\<close>

definition argus_trajectory_recover ::
  "hw_answers \<Rightarrow> (trajectory \<Rightarrow> trajectory) \<Rightarrow> trajectory \<Rightarrow> esp_err \<times> trajectory" where
  "argus_trajectory_recover h during_wait t =
     (let (err_stop, g1) = argus_step_gen_stop_immediate (h 0) (tr_gen t);
          (err_dis, g2) = argus_step_gen_disable_driver (h 1) g1;
          t1 = clear_error_locked ((zero_motion t)\<lparr> tr_gen := g2 \<rparr>)
      in if err_stop \<noteq> ESP_OK \<or> err_dis \<noteq> ESP_OK
         then (if err_stop \<noteq> ESP_OK then err_stop else err_dis, t1)
         else
           (let t2 = during_wait (t1\<lparr> tr_gen := hw (Task_Delay_Ms 500) (tr_gen t1) \<rparr>)
            in (if ss_error_state (argus_step_gen_get_snapshot (tr_gen t2)) \<noteq> STEP_GEN_ERROR_NONE
                then ESP_FAIL else ESP_OK, t2)))"

definition argus_trajectory_clear_error :: "trajectory \<Rightarrow> trajectory" where
  "argus_trajectory_clear_error t = clear_error_locked t"

definition argus_trajectory_enable_driver :: "hw_env \<Rightarrow> trajectory \<Rightarrow> esp_err \<times> trajectory" where
  "argus_trajectory_enable_driver h t =
     (case argus_step_gen_enable_driver h (tr_gen t) of (err, g) \<Rightarrow> (err, t\<lparr> tr_gen := g \<rparr>))"

definition argus_trajectory_is_reversing :: "trajectory \<Rightarrow> bool" where
  "argus_trajectory_is_reversing t \<longleftrightarrow> tr_is_reversing t
     \<or> (tr_target_forward t \<noteq> tr_current_forward t \<and> tr_applied_rpm_milli t > 0)"

record trajectory_snapshot =
  ts_target_rpm_milli :: int
  ts_applied_rpm_milli :: int
  ts_generated_rpm_milli :: int
  ts_target_forward :: bool
  ts_applied_forward :: bool
  ts_ramp_active :: bool
  ts_is_reversing :: bool
  ts_latched_error :: u32

text \<open>The error enumeration as the number the snapshot carries.\<close>

fun step_gen_error_code :: "step_gen_error \<Rightarrow> u32" where
  "step_gen_error_code STEP_GEN_ERROR_NONE = 0"
| "step_gen_error_code STEP_GEN_ERROR_INIT_FAILED = 1"
| "step_gen_error_code STEP_GEN_ERROR_TIMING_UPDATE_FAILED = 2"
| "step_gen_error_code STEP_GEN_ERROR_UNVERIFIED_ENABLE = 3"

definition argus_trajectory_get_snapshot :: "trajectory \<Rightarrow> trajectory_snapshot" where
  "argus_trajectory_get_snapshot t =
     (let step_snap = argus_step_gen_get_snapshot (tr_gen t)
      in \<lparr> ts_target_rpm_milli = tr_target_rpm_milli t,
           ts_applied_rpm_milli = tr_applied_rpm_milli t,
           ts_generated_rpm_milli = ss_generated_rpm_milli step_snap,
           ts_target_forward = tr_target_forward t,
           ts_applied_forward = tr_current_forward t,
           ts_ramp_active = tr_ramp_active t,
           ts_is_reversing = tr_is_reversing t,
           ts_latched_error = step_gen_error_code (ss_error_state step_snap) \<rparr>)"

end
