(* ===== verification/Trajectory_Props.thy ===== *)
theory Trajectory_Props
  imports Trajectory
begin

text \<open>
  The ramp engine's guarantees: the speeds stay within the configured range and the 32-bit
  arithmetic does not overflow; the closed form of the ramp, and so its convergence; a
  reversal passes through zero; and the pulse engine below it stays in step, with its
  invariant, its direction and a rate it accepts.
\<close>

section \<open>The speed profile\<close>

text \<open>The ramp's configuration: a nonnegative maximum and limits whose products fit.\<close>

definition traj_cfg_ok :: "trajectory \<Rightarrow> bool" where
  "traj_cfg_ok t \<longleftrightarrow> (case tr_cfg t of None \<Rightarrow> False
     | Some c \<Rightarrow> 0 \<le> cfg_max_output_milli_rpm c \<and> cfg_max_output_milli_rpm c \<le> 200000
         \<and> u32_of_u64 (argus_conversions_steps_per_rev (Some c)) \<noteq> 0
         \<and> unat (u32_of_u64 (argus_conversions_steps_per_rev (Some c))) \<le> 10000)
     \<and> 0 \<le> tr_accel_limit t \<and> tr_accel_limit t \<le> 10000000
     \<and> 0 \<le> tr_decel_limit t \<and> tr_decel_limit t \<le> 10000000
     \<and> tr_update_interval_ms t = 20"

definition max_rpm :: "trajectory \<Rightarrow> int" where
  "max_rpm t = (case tr_cfg t of None \<Rightarrow> 0 | Some c \<Rightarrow> cfg_max_output_milli_rpm c)"

definition speeds_ok :: "trajectory \<Rightarrow> bool" where
  "speeds_ok t \<longleftrightarrow> 0 \<le> tr_target_rpm_milli t \<and> tr_target_rpm_milli t \<le> max_rpm t
     \<and> 0 \<le> tr_applied_rpm_milli t \<and> tr_applied_rpm_milli t \<le> max_rpm t"

abbreviation accel_step :: "trajectory \<Rightarrow> int" where
  "accel_step t \<equiv> ramp_delta (tr_accel_limit t) (tr_update_interval_ms t)"

abbreviation decel_step :: "trajectory \<Rightarrow> int" where
  "decel_step t \<equiv> ramp_delta (tr_decel_limit t) (tr_update_interval_ms t)"

lemma ramp_delta_ge1: "1 \<le> ramp_delta l i"
  by (simp add: ramp_delta_def Let_def)

lemma steps_ge1: "1 \<le> accel_step t" "1 \<le> decel_step t"
  by (simp_all add: ramp_delta_ge1)

lemma ramp_delta_bound:
  assumes "0 \<le> l" "l \<le> 10000000"
  shows "ramp_delta l 20 \<le> 200000" and "in_int32 (l * 20)"
proof -
  have "(l * 20) sdiv 1000 = l * 20 div 1000"
    using assms by (cases "l = 0") (simp_all add: signed_divide_int_def sgn_mult)
  moreover have "l * 20 div 1000 \<le> 200000000 div 1000"
    using assms by (intro zdiv_mono1) simp_all
  ultimately show "ramp_delta l 20 \<le> 200000"
    by (simp add: ramp_delta_def Let_def)
  show "in_int32 (l * 20)"
    using assms by (simp add: in_int32_def)
qed

text \<open>The parts of the state a tick of the ramp does not touch.\<close>

lemma tick_frame [simp]:
  "tr_cfg (tick_apply h spr t) = tr_cfg t"
  "tr_target_rpm_milli (tick_apply h spr t) = tr_target_rpm_milli t"
  "tr_applied_rpm_milli (tick_apply h spr t) = tr_applied_rpm_milli t"
  "tr_target_forward (tick_apply h spr t) = tr_target_forward t"
  "tr_current_forward (tick_apply h spr t) = tr_current_forward t"
  "tr_is_reversing (tick_apply h spr t) = tr_is_reversing t"
  "tr_ramp_active (tick_apply h spr t) = tr_ramp_active t"
  "tr_accel_limit (tick_apply h spr t) = tr_accel_limit t"
  "tr_decel_limit (tick_apply h spr t) = tr_decel_limit t"
  "tr_update_interval_ms (tick_apply h spr t) = tr_update_interval_ms t"
  by (simp_all add: tick_apply_def Let_def)

lemma ramp_frame [simp]:
  "tr_cfg (tick_ramp a d t) = tr_cfg t"
  "tr_target_rpm_milli (tick_ramp a d t) = tr_target_rpm_milli t"
  "tr_target_forward (tick_ramp a d t) = tr_target_forward t"
  "tr_current_forward (tick_ramp a d t) = tr_current_forward t"
  "tr_is_reversing (tick_ramp a d t) = tr_is_reversing t"
  "tr_accel_limit (tick_ramp a d t) = tr_accel_limit t"
  "tr_decel_limit (tick_ramp a d t) = tr_decel_limit t"
  "tr_update_interval_ms (tick_ramp a d t) = tr_update_interval_ms t"
  "tr_gen (tick_ramp a d t) = tr_gen t"
  by (simp_all add: tick_ramp_def Let_def)

lemma reversal_frame [simp]:
  "tr_cfg (tick_reversal h d t) = tr_cfg t"
  "tr_target_rpm_milli (tick_reversal h d t) = tr_target_rpm_milli t"
  "tr_target_forward (tick_reversal h d t) = tr_target_forward t"
  "tr_accel_limit (tick_reversal h d t) = tr_accel_limit t"
  "tr_decel_limit (tick_reversal h d t) = tr_decel_limit t"
  "tr_update_interval_ms (tick_reversal h d t) = tr_update_interval_ms t"
  by (simp_all add: tick_reversal_def switch_direction_def Let_def)

lemma tick_static [simp]:
  "tr_cfg (argus_trajectory_step_tick_20ms h t) = tr_cfg t"
  "tr_target_rpm_milli (argus_trajectory_step_tick_20ms h t) = tr_target_rpm_milli t"
  "tr_target_forward (argus_trajectory_step_tick_20ms h t) = tr_target_forward t"
  "tr_accel_limit (argus_trajectory_step_tick_20ms h t) = tr_accel_limit t"
  "tr_decel_limit (argus_trajectory_step_tick_20ms h t) = tr_decel_limit t"
  "tr_update_interval_ms (argus_trajectory_step_tick_20ms h t) = tr_update_interval_ms t"
  by (simp_all add: argus_trajectory_step_tick_20ms_def Let_def)

text \<open>The speed and direction after a tick, whatever the platform answers.\<close>

definition reversal_pending :: "trajectory \<Rightarrow> bool" where
  "reversal_pending t \<longleftrightarrow> tr_target_forward t \<noteq> tr_current_forward t \<or> tr_is_reversing t"

lemma tick_applied:
  assumes "tr_cfg t \<noteq> None"
  shows "tr_applied_rpm_milli (argus_trajectory_step_tick_20ms h t) =
    (let a = tr_applied_rpm_milli t; g = tr_target_rpm_milli t in
     if reversal_pending t then (if 0 < a then max 0 (a - decel_step t) else a)
     else if a < g then min g (a + accel_step t) else max g (a - decel_step t))"
  using assms steps_ge1 [of t]
  by (auto simp: argus_trajectory_step_tick_20ms_def reversal_pending_def tick_reversal_def
      switch_direction_def tick_ramp_def Let_def max_def min_def)

lemma tick_direction:
  assumes "tr_cfg t \<noteq> None"
  shows "tr_current_forward (argus_trajectory_step_tick_20ms h t) =
      (if reversal_pending t \<and> tr_applied_rpm_milli t \<le> decel_step t \<or>
          reversal_pending t \<and> tr_applied_rpm_milli t \<le> 0
       then tr_target_forward t else tr_current_forward t)"
    and "reversal_pending (argus_trajectory_step_tick_20ms h t) \<longleftrightarrow>
      reversal_pending t \<and> 0 < tr_applied_rpm_milli t \<and> decel_step t < tr_applied_rpm_milli t"
  using assms
  by (auto simp: argus_trajectory_step_tick_20ms_def reversal_pending_def tick_reversal_def
      switch_direction_def Let_def)

text \<open>The ramp flag of a settled tick.\<close>

lemma tick_ramp_flag:
  assumes "tr_cfg t \<noteq> None" "\<not> reversal_pending t"
  shows "tr_ramp_active (argus_trajectory_step_tick_20ms h t) \<longleftrightarrow>
    tr_applied_rpm_milli (argus_trajectory_step_tick_20ms h t) \<noteq> tr_target_rpm_milli t"
  using assms
  by (auto simp: argus_trajectory_step_tick_20ms_def reversal_pending_def tick_ramp_def Let_def)

lemma tick_speeds_ok:
  assumes "speeds_ok t"
  shows "speeds_ok (argus_trajectory_step_tick_20ms h t)"
proof (cases "tr_cfg t = None")
  case False
  then show ?thesis
    using assms steps_ge1 [of t]
    by (auto simp: speeds_ok_def max_rpm_def tick_applied Let_def)
qed (use assms in \<open>simp add: argus_trajectory_step_tick_20ms_def\<close>)

section \<open>Closed form of the ramp\<close>

text \<open>One ramp step followed by a ramp of total \<open>U\<close> up or \<open>D\<close> down.\<close>

lemma ramp_compose:
  fixes a g u d U D :: int
  assumes "1 \<le> u" "1 \<le> d" "0 \<le> U" "0 \<le> D"
    and "a' = (if a < g then min g (a + u) else max g (a - d))"
  shows "(if a' \<le> g then min g (a' + U) else max g (a' - D))
           = (if a \<le> g then min g (a + (u + U)) else max g (a - (d + D)))"
  using assms by (auto simp: min_def max_def)

text \<open>\<open>n\<close> ticks towards a target in the current direction.\<close>

lemma ramp_closed_form:
  assumes "tr_cfg t \<noteq> None" "\<not> reversal_pending t"
  shows "tr_applied_rpm_milli (argus_trajectory_task hs t) =
      (let a = tr_applied_rpm_milli t; g = tr_target_rpm_milli t; n = int (length hs)
       in if a \<le> g then min g (a + n * accel_step t) else max g (a - n * decel_step t))
    \<and> \<not> reversal_pending (argus_trajectory_task hs t)"
  using assms
proof (induction hs arbitrary: t)
  case (Cons h hs)
  let ?t = "argus_trajectory_step_tick_20ms h t"
  have IH: "tr_applied_rpm_milli (argus_trajectory_task hs ?t) =
      (let a = tr_applied_rpm_milli ?t; g = tr_target_rpm_milli ?t; n = int (length hs)
       in if a \<le> g then min g (a + n * accel_step ?t) else max g (a - n * decel_step ?t))
    \<and> \<not> reversal_pending (argus_trajectory_task hs ?t)"
    using Cons.prems by (intro Cons.IH) (simp_all add: tick_direction)
  have up: "0 \<le> int (length hs) * accel_step t" and dn: "0 \<le> int (length hs) * decel_step t"
    using steps_ge1 [of t] by simp_all
  have task: "argus_trajectory_task (h # hs) t = argus_trajectory_task hs ?t"
    by (simp add: argus_trajectory_task_def)
  have "tr_applied_rpm_milli ?t = (if tr_applied_rpm_milli t < tr_target_rpm_milli t
      then min (tr_target_rpm_milli t) (tr_applied_rpm_milli t + accel_step t)
      else max (tr_target_rpm_milli t) (tr_applied_rpm_milli t - decel_step t))"
    using Cons.prems by (simp add: tick_applied Let_def)
  note comp = ramp_compose [OF steps_ge1 up dn this]
  have n: "int (length (h # hs)) * x = x + int (length hs) * x" for x
    by (simp add: algebra_simps)
  show ?case
    unfolding task Let_def n using IH comp by (simp only: Let_def tick_static) simp
qed (simp add: argus_trajectory_task_def Let_def)

text \<open>\<open>n\<close> ticks of a reversal that has not reached zero.\<close>

lemma reversal_closed_form:
  assumes "tr_cfg t \<noteq> None" "reversal_pending t" "int (length hs) * decel_step t < tr_applied_rpm_milli t"
  shows "tr_applied_rpm_milli (argus_trajectory_task hs t) = tr_applied_rpm_milli t - int (length hs) * decel_step t
    \<and> reversal_pending (argus_trajectory_task hs t)
    \<and> tr_current_forward (argus_trajectory_task hs t) = tr_current_forward t"
  using assms
proof (induction hs arbitrary: t)
  case (Cons h hs)
  let ?t = "argus_trajectory_step_tick_20ms h t"
  have ge: "0 \<le> int (length hs) * decel_step t"
    using steps_ge1 [of t] by simp
  with Cons.prems have lt: "decel_step t < tr_applied_rpm_milli t"
    by (simp add: algebra_simps)
  then have pos: "0 < tr_applied_rpm_milli t"
    using steps_ge1 [of t] by linarith
  have a: "tr_applied_rpm_milli ?t = tr_applied_rpm_milli t - decel_step t"
    using Cons.prems(1,2) lt pos by (simp add: tick_applied Let_def)
  have "tr_applied_rpm_milli (argus_trajectory_task hs ?t) = tr_applied_rpm_milli ?t - int (length hs) * decel_step ?t
    \<and> reversal_pending (argus_trajectory_task hs ?t)
    \<and> tr_current_forward (argus_trajectory_task hs ?t) = tr_current_forward ?t"
    using Cons.prems lt pos a by (intro Cons.IH) (simp_all add: tick_direction algebra_simps)
  then show ?case
    using Cons.prems lt pos by (simp add: argus_trajectory_task_def a tick_direction algebra_simps)
qed (simp add: argus_trajectory_task_def)

lemma task_append:
  "argus_trajectory_task (hs @ hs') t = argus_trajectory_task hs' (argus_trajectory_task hs t)"
  by (simp add: argus_trajectory_task_def)

lemma task_static [simp]:
  "tr_cfg (argus_trajectory_task hs t) = tr_cfg t"
  "tr_target_rpm_milli (argus_trajectory_task hs t) = tr_target_rpm_milli t"
  "tr_target_forward (argus_trajectory_task hs t) = tr_target_forward t"
  "tr_accel_limit (argus_trajectory_task hs t) = tr_accel_limit t"
  "tr_decel_limit (argus_trajectory_task hs t) = tr_decel_limit t"
  "tr_update_interval_ms (argus_trajectory_task hs t) = tr_update_interval_ms t"
  by (induction hs arbitrary: t) (simp_all add: argus_trajectory_task_def)

section \<open>The ramp engine and the pulse engine together\<close>

definition dir_synced :: "step_gen \<Rightarrow> bool \<Rightarrow> bool" where
  "dir_synced g fwd \<longleftrightarrow> sg_forward g = fwd \<and> tm_direction_forward (sg_pending g) = fwd"

definition traj_inv :: "trajectory \<Rightarrow> bool" where
  "traj_inv t \<longleftrightarrow> traj_cfg_ok t \<and> speeds_ok t \<and> step_gen_inv (tr_gen t)
     \<and> dir_synced (tr_gen t) (tr_current_forward t)"

text \<open>The mutexes are taken without a time limit, so taking them succeeds.\<close>

definition mutex_granted :: "hw_answers \<Rightarrow> bool" where
  "mutex_granted h \<longleftrightarrow> (\<forall>i. he_mutex_take (h i))"

lemma synced_ops:
  "dir_synced (snd (argus_step_gen_stop_immediate e g)) f = dir_synced g f"
  "dir_synced (snd (argus_step_gen_disable_driver e g)) f = dir_synced g f"
  "dir_synced (snd (argus_step_gen_enable_driver e g)) f = dir_synced g f"
  "dir_synced (snd (argus_step_gen_start e g)) f = dir_synced g f"
  "dir_synced (snd (argus_step_gen_stop_profiled g)) f = dir_synced g f"
  "dir_synced (argus_step_gen_clear_error g) f = dir_synced g f"
  "dir_synced (hw ev g) f = dir_synced g f"
  by (simp_all add: dir_synced_def argus_step_gen_stop_immediate_def argus_step_gen_disable_driver_def
      argus_step_gen_enable_driver_def argus_step_gen_start_def argus_step_gen_stop_profiled_def
      argus_step_gen_clear_error_def halt_timing_def hw_defs Let_def)

lemma synced_kickstart: "dir_synced g f \<Longrightarrow> dir_synced (snd (kickstart e r g)) f"
  by (simp add: dir_synced_def kickstart_def count_step_def hw_defs Let_def)

lemma synced_set_rate_enabled: "dir_synced g f \<Longrightarrow> dir_synced (snd (set_rate_enabled e r spr g)) f"
  using synced_kickstart [of "store_rate r spr g" f e r]
  by (auto simp: set_rate_enabled_def rate_error_def dir_synced_def store_rate_def Let_def
      split: prod.splits)

lemma synced_set_rate:
  assumes "dir_synced g f"
  shows "dir_synced (snd (argus_step_gen_set_rate_rpm_milli e r spr g)) f"
proof -
  have "dir_synced (snd (argus_step_gen_enable_driver e g)) f"
    using assms by (simp add: synced_ops)
  from synced_set_rate_enabled [OF this, of e r spr] synced_set_rate_enabled [OF assms, of e r spr] this
  show ?thesis
    using assms by (auto simp: argus_step_gen_set_rate_rpm_milli_def rate_error_def dir_synced_def
        hw_defs split: prod.splits)
qed

lemma synced_isr: "dir_synced g f \<Longrightarrow> dir_synced (argus_timer_alarm_cb e a g) f"
  by (auto simp: dir_synced_def argus_timer_alarm_cb_def isr_deassert_step_def isr_schedule_alarm_def
      isr_accept_rate_def isr_bresenham_def count_step_def hw_defs Let_def)

text \<open>After an immediate stop the direction setter cannot be rejected.\<close>

lemma switch_synced:
  assumes "sg_timer g" "he_mutex_take e0" "he_mutex_take e1"
  shows "dir_synced (snd (argus_step_gen_set_direction e1 f (snd (argus_step_gen_stop_immediate e0 g)))) f"
  using assms
  by (simp add: dir_synced_def argus_step_gen_set_direction_def argus_step_gen_stop_immediate_def
      dir_hold_delay_def halt_timing_def hw_defs Let_def)

lemma switch_direction_gen:
  assumes "step_gen_inv (tr_gen t)" "mutex_granted h"
  shows "step_gen_inv (tr_gen (switch_direction h t))
    \<and> dir_synced (tr_gen (switch_direction h t)) (tr_current_forward (switch_direction h t))"
proof
  show "step_gen_inv (tr_gen (switch_direction h t))"
    using assms(1) by (simp add: switch_direction_def Let_def inv_set_direction inv_stop_immediate)
  have "sg_timer (tr_gen t)"
    using assms(1) by (simp add: step_gen_inv_def wiring_ok_def)
  then show "dir_synced (tr_gen (switch_direction h t)) (tr_current_forward (switch_direction h t))"
    using assms(2) by (simp add: switch_direction_def Let_def mutex_granted_def switch_synced)
qed

lemma tick_apply_gen:
  assumes "step_gen_inv (tr_gen t)" "dir_synced (tr_gen t) f"
  shows "step_gen_inv (tr_gen (tick_apply h spr t)) \<and> dir_synced (tr_gen (tick_apply h spr t)) f"
  using assms
  by (simp add: tick_apply_def Let_def inv_ops synced_ops synced_set_rate)

lemma tick_gen:
  assumes "step_gen_inv (tr_gen t)" "dir_synced (tr_gen t) (tr_current_forward t)" "mutex_granted h"
  shows "step_gen_inv (tr_gen (argus_trajectory_step_tick_20ms h t))
    \<and> dir_synced (tr_gen (argus_trajectory_step_tick_20ms h t))
        (tr_current_forward (argus_trajectory_step_tick_20ms h t))"
proof -
  define t1 where "t1 = (if tr_target_forward t \<noteq> tr_current_forward t \<or> tr_is_reversing t
      then tick_reversal h (decel_step t) t else tick_ramp (accel_step t) (decel_step t) t)"
  have "step_gen_inv (tr_gen t1) \<and> dir_synced (tr_gen t1) (tr_current_forward t1)"
    using assms switch_direction_gen [of _ h]
    by (simp add: t1_def tick_reversal_def Let_def)
  note g = tick_apply_gen [OF conjunct1 [OF this] conjunct2 [OF this], of h
      "u32_of_u64 (argus_conversions_steps_per_rev (tr_cfg t))"]
  have "tr_cfg t \<noteq> None \<Longrightarrow> argus_trajectory_step_tick_20ms h t
      = tick_apply h (u32_of_u64 (argus_conversions_steps_per_rev (tr_cfg t))) t1"
    unfolding argus_trajectory_step_tick_20ms_def t1_def Let_def by auto
  then show ?thesis
    using g assms by (cases "tr_cfg t = None") (simp_all add: argus_trajectory_step_tick_20ms_def)
qed

lemma tick_inv:
  assumes "traj_inv t" "mutex_granted h"
  shows "traj_inv (argus_trajectory_step_tick_20ms h t)"
  using assms tick_gen [of t h] tick_speeds_ok [of t h]
  by (simp add: traj_inv_def traj_cfg_ok_def)

lemma task_inv:
  "traj_inv t \<Longrightarrow> \<forall>h\<in>set hs. mutex_granted h \<Longrightarrow> traj_inv (argus_trajectory_task hs t)"
  by (induction hs arbitrary: t) (simp_all add: argus_trajectory_task_def tick_inv)

lemma set_target_inv: "traj_inv t \<Longrightarrow> traj_inv (snd (argus_trajectory_set_target_rpm_milli h r f t))"
  by (auto simp: traj_inv_def traj_cfg_ok_def speeds_ok_def max_rpm_def synced_ops inv_ops
      argus_trajectory_set_target_rpm_milli_def Let_def split: option.splits)

lemma traj_gen_update:
  "traj_inv t \<Longrightarrow> step_gen_inv g \<Longrightarrow> dir_synced g (tr_current_forward t) \<Longrightarrow> traj_inv (t\<lparr> tr_gen := g \<rparr>)"
  by (simp add: traj_inv_def traj_cfg_ok_def speeds_ok_def max_rpm_def)

lemma zero_motion_inv: "traj_inv t \<Longrightarrow> traj_inv (zero_motion t)"
  by (auto simp: zero_motion_def traj_inv_def traj_cfg_ok_def speeds_ok_def max_rpm_def
      split: option.splits)

lemma zero_motion_frame [simp]:
  "tr_gen (zero_motion t) = tr_gen t" "tr_current_forward (zero_motion t) = tr_current_forward t"
  by (simp_all add: zero_motion_def)

lemma traj_invD: "traj_inv t \<Longrightarrow> step_gen_inv (tr_gen t)" "traj_inv t \<Longrightarrow> dir_synced (tr_gen t) (tr_current_forward t)"
  by (simp_all add: traj_inv_def)

lemma stop_ops_inv:
  assumes "traj_inv t"
  shows "traj_inv (snd (argus_trajectory_stop_immediate e t))"
    and "traj_inv (snd (argus_trajectory_unlock e t))"
    and "traj_inv (snd (argus_trajectory_enable_driver e t))"
  using assms traj_invD [OF assms]
  by (auto simp: argus_trajectory_stop_immediate_def argus_trajectory_unlock_def
      argus_trajectory_enable_driver_def split_beta
      intro!: traj_gen_update zero_motion_inv inv_stop_immediate inv_disable_driver inv_enable_driver
      simp: synced_ops)

lemma clear_error_inv: "traj_inv t \<Longrightarrow> traj_inv (clear_error_locked t)"
  using inv_clear_error [of "tr_gen t"]
  by (simp add: clear_error_locked_def traj_inv_def traj_cfg_ok_def speeds_ok_def max_rpm_def synced_ops)

lemma recover_inv:
  assumes "traj_inv t" "\<And>t'. traj_inv t' \<Longrightarrow> traj_inv (during_wait t')"
  shows "traj_inv (snd (argus_trajectory_recover h during_wait t))"
proof -
  let ?g1 = "snd (argus_step_gen_stop_immediate (h 0) (tr_gen t))"
  let ?g2 = "snd (argus_step_gen_disable_driver (h 1) ?g1)"
  let ?t1 = "clear_error_locked ((zero_motion t)\<lparr> tr_gen := ?g2 \<rparr>)"
  have t1: "traj_inv ?t1"
    using assms(1) traj_invD [OF assms(1)]
    by (intro clear_error_inv traj_gen_update zero_motion_inv inv_disable_driver inv_stop_immediate)
      (simp_all add: synced_ops)
  have "traj_inv (?t1\<lparr> tr_gen := hw (Task_Delay_Ms 500) (tr_gen ?t1) \<rparr>)"
    using t1 traj_invD [OF t1] by (intro traj_gen_update inv_hw_other) (simp_all add: synced_ops)
  from assms(2) [OF this] t1 show ?thesis
    by (simp add: argus_trajectory_recover_def split_beta Let_def)
qed

section \<open>Reachable states\<close>

text \<open>
  The start-up of the motion stack in \<open>app_main\<close>, and every operation of the ramp engine
  interleaved with the pulse interrupt. During the recovery wait the ramp task keeps ticking.
\<close>

inductive traj_step :: "trajectory \<Rightarrow> trajectory \<Rightarrow> bool" where
  tj_tick: "mutex_granted h \<Longrightarrow> traj_step t (argus_trajectory_step_tick_20ms h t)"
| tj_isr: "traj_step t (t\<lparr> tr_gen := argus_timer_alarm_cb e a (tr_gen t) \<rparr>)"
| tj_target: "traj_step t (snd (argus_trajectory_set_target_rpm_milli e r f t))"
| tj_stop: "traj_step t (snd (argus_trajectory_stop_normal e t))"
| tj_halt: "traj_step t (snd (argus_trajectory_stop_immediate e t))"
| tj_unlock: "traj_step t (snd (argus_trajectory_unlock e t))"
| tj_recover: "\<forall>h\<in>set hs. mutex_granted h \<Longrightarrow>
    traj_step t (snd (argus_trajectory_recover h (argus_trajectory_task hs) t))"
| tj_clear: "traj_step t (argus_trajectory_clear_error t)"
| tj_enable: "traj_step t (snd (argus_trajectory_enable_driver e t))"

inductive traj_reachable :: "argus_config \<Rightarrow> trajectory \<Rightarrow> bool" for c where
  tj_boot: "argus_step_gen_init e0 (Some c) step_gen_boot = (ESP_OK, g0) \<Longrightarrow>
    argus_trajectory_init m (Some c) (trajectory_boot g0) = (ESP_OK, t) \<Longrightarrow>
    argus_step_gen_arm e1 g0 = (ESP_OK, g1) \<Longrightarrow>
    argus_step_gen_start e2 g1 = (ESP_OK, g2) \<Longrightarrow> traj_reachable c (t\<lparr> tr_gen := g2 \<rparr>)"
| tj_next: "traj_reachable c t \<Longrightarrow> traj_step t t' \<Longrightarrow> traj_reachable c t'"

definition motion_config_ok :: "argus_config \<Rightarrow> bool" where
  "motion_config_ok c \<longleftrightarrow> pins_distinct c
     \<and> 0 \<le> cfg_max_output_milli_rpm c \<and> cfg_max_output_milli_rpm c \<le> 200000
     \<and> u32_of_u64 (argus_conversions_steps_per_rev (Some c)) \<noteq> 0
     \<and> unat (u32_of_u64 (argus_conversions_steps_per_rev (Some c))) \<le> 10000
     \<and> 0 \<le> cfg_accel_milli_rpm_per_sec c \<and> cfg_accel_milli_rpm_per_sec c \<le> 10000000
     \<and> 0 \<le> cfg_decel_milli_rpm_per_sec c \<and> cfg_decel_milli_rpm_per_sec c \<le> 10000000"

lemma traj_step_inv: "traj_step t t' \<Longrightarrow> traj_inv t \<Longrightarrow> traj_inv t'"
proof (induction rule: traj_step.induct)
  case (tj_isr t e a)
  then show ?case
    using traj_invD [OF tj_isr] by (intro traj_gen_update inv_isr synced_isr)
qed (auto intro: tick_inv set_target_inv stop_ops_inv recover_inv task_inv clear_error_inv
    simp: argus_trajectory_stop_normal_def argus_trajectory_clear_error_def)

lemma boot_inv:
  assumes "argus_step_gen_init e0 (Some c) step_gen_boot = (ESP_OK, g0)"
    and "argus_trajectory_init m (Some c) (trajectory_boot g0) = (ESP_OK, t)"
    and "argus_step_gen_arm e1 g0 = (ESP_OK, g1)" and "argus_step_gen_start e2 g1 = (ESP_OK, g2)"
    and "motion_config_ok c"
  shows "traj_inv (t\<lparr> tr_gen := g2 \<rparr>)"
proof -
  have g0: "step_gen_inv g0" "sg_forward g0"
    using assms(1,5) init_inv [OF assms(1)]
    by (auto simp: motion_config_ok_def argus_step_gen_init_def init_timer_def init_fail_def
        init_fail_safe_def init_variables_def hw_defs Let_def split: if_splits)
  then have "step_gen_inv g1" "dir_synced g1 True"
    using assms(3) inv_arm [OF g0(1), of e1]
    by (auto simp: argus_step_gen_arm_def dir_synced_def hw_defs Let_def split: if_splits)
  then have "step_gen_inv g2" "dir_synced g2 True"
    using assms(4) inv_start [of g1 e2] synced_ops(4) [of e2 g1] by simp_all
  then show ?thesis
    using assms(2,5)
    by (auto simp: argus_trajectory_init_def trajectory_boot_def traj_inv_def traj_cfg_ok_def
        speeds_ok_def max_rpm_def motion_config_ok_def Let_def split: if_splits)
qed

lemma traj_reachable_inv: "traj_reachable c t \<Longrightarrow> motion_config_ok c \<Longrightarrow> traj_inv t"
  by (induction rule: traj_reachable.induct) (auto intro: boot_inv traj_step_inv)

lemma default_motion_config_ok: "motion_config_ok (argus_config_defaults client unit)"
proof -
  have "u32_of_u64 8000 = 8000" by simp
  then show ?thesis
    by (simp add: motion_config_ok_def) (simp add: argus_config_defaults_def)
qed

section \<open>Auxiliary facts for the properties\<close>

definition traj_booted :: trajectory where
  "traj_booted =
     (snd (argus_trajectory_init True (Some (argus_config_defaults [] [])) (trajectory_boot sg_booted)))
       \<lparr> tr_gen := snd (argus_step_gen_start hw_ok (snd (argus_step_gen_arm hw_ok sg_booted))) \<rparr>"

lemma traj_booted_reachable: "traj_reachable (argus_config_defaults [] []) traj_booted"
proof -
  have timer: "sg_timer sg_booted"
    by (simp add: sg_booted_eval)
  have i: "argus_trajectory_init True (Some (argus_config_defaults [] [])) (trajectory_boot sg_booted)
      = (ESP_OK, snd (argus_trajectory_init True (Some (argus_config_defaults [] [])) (trajectory_boot sg_booted)))"
    by (simp add: argus_trajectory_init_def Let_def)
  have a: "argus_step_gen_arm hw_ok sg_booted = (ESP_OK, snd (argus_step_gen_arm hw_ok sg_booted))"
    using timer by (simp add: argus_step_gen_arm_def hw_ok_def Let_def)
  have st: "sg_timer g \<Longrightarrow> argus_step_gen_start hw_ok g = (ESP_OK, snd (argus_step_gen_start hw_ok g))" for g
    by (simp add: argus_step_gen_start_def hw_ok_def)
  have "sg_timer (snd (argus_step_gen_arm hw_ok sg_booted))"
    using timer by (simp add: argus_step_gen_arm_def hw_defs Let_def)
  then show ?thesis
    unfolding traj_booted_def by (intro tj_boot [OF fst_init_ok i a]) (rule st)
qed

lemma traj_booted_fields [simp]:
  "tr_target_rpm_milli traj_booted = 0" "tr_applied_rpm_milli traj_booted = 0"
  "tr_target_forward traj_booted" "tr_current_forward traj_booted" "\<not> tr_is_reversing traj_booted"
  "tr_cfg traj_booted = Some (argus_config_defaults [] [])"
  "tr_accel_limit traj_booted = 10000" "tr_decel_limit traj_booted = 10000"
  "tr_update_interval_ms traj_booted = 20"
  by (simp_all add: traj_booted_def argus_trajectory_init_def trajectory_boot_def
      argus_config_defaults_def Let_def)

lemma mutex_granted_ok [simp]: "mutex_granted (\<lambda>i. hw_ok)"
  by (simp add: mutex_granted_def hw_ok_def)

text \<open>A ramp at rest: nothing requested, nothing applied, pulses halted.\<close>

definition at_rest :: "trajectory \<Rightarrow> bool" where
  "at_rest t \<longleftrightarrow> tr_target_rpm_milli t = 0 \<and> tr_applied_rpm_milli t = 0 \<and> halted (tr_gen t)"

inductive quiet_step :: "trajectory \<Rightarrow> trajectory \<Rightarrow> bool" where
  q_tick: "mutex_granted h \<Longrightarrow> quiet_step t (argus_trajectory_step_tick_20ms h t)"
| q_isr: "quiet_step t (t\<lparr> tr_gen := argus_timer_alarm_cb e a (tr_gen t) \<rparr>)"

lemma halted_ops:
  assumes "halted g" "step_gen_inv g"
  shows "halted (snd (argus_step_gen_stop_immediate e g))
      \<and> sg_step_count (snd (argus_step_gen_stop_immediate e g)) = sg_step_count g"
    and "halted (snd (argus_step_gen_set_direction e f g))
      \<and> sg_step_count (snd (argus_step_gen_set_direction e f g)) = sg_step_count g"
    and "halted (snd (argus_step_gen_stop_profiled g))
      \<and> sg_step_count (snd (argus_step_gen_stop_profiled g)) = sg_step_count g"
  using assms
  by (simp_all add: halted_def argus_step_gen_stop_immediate_def argus_step_gen_set_direction_def
      argus_step_gen_stop_profiled_def dir_hold_delay_def halt_timing_def inv_defs hw_defs Let_def)

lemma tick_at_rest:
  assumes "at_rest t" "traj_inv t"
  shows "at_rest (argus_trajectory_step_tick_20ms h t)
    \<and> sg_step_count (tr_gen (argus_trajectory_step_tick_20ms h t)) = sg_step_count (tr_gen t)"
proof -
  have cfg: "tr_cfg t \<noteq> None"
    using assms(2) by (auto simp: traj_inv_def traj_cfg_ok_def split: option.splits)
  note g = assms [unfolded at_rest_def traj_inv_def]
  have a0: "tr_applied_rpm_milli (argus_trajectory_step_tick_20ms h t) = 0"
    using g cfg steps_ge1 [of t] by (simp add: tick_applied Let_def)
  let ?g1 = "snd (argus_step_gen_stop_immediate (h 0) (tr_gen t))"
  let ?g2 = "snd (argus_step_gen_set_direction (h 1) (tr_target_forward t) ?g1)"
  have i: "step_gen_inv (tr_gen t)" "halted (tr_gen t)"
    using g by auto
  note h1 = halted_ops(1) [OF i(2,1), of "h 0"]
  have i1: "step_gen_inv ?g1" by (rule inv_stop_immediate [OF i(1)])
  note h2 = halted_ops(2) [OF conjunct1 [OF h1] i1, of "h 1" "tr_target_forward t"]
  have i2: "step_gen_inv ?g2" by (rule inv_set_direction [OF i1])
  have "tr_gen (argus_trajectory_step_tick_20ms h t) \<in>
      {tr_gen t, snd (argus_step_gen_stop_profiled (tr_gen t)), ?g2, snd (argus_step_gen_stop_profiled ?g2)}"
    using g cfg
    by (auto simp: argus_trajectory_step_tick_20ms_def tick_apply_def tick_ramp_def tick_reversal_def
        switch_direction_def Let_def)
  then show ?thesis
    using a0 g h1 h2 halted_ops(3) [OF i(2,1)] halted_ops(3) [OF conjunct1 [OF h2] i2]
    by (auto simp: at_rest_def)
qed

lemma quiet_step_rest:
  assumes "quiet_step t t'" "at_rest t" "traj_inv t"
  shows "at_rest t' \<and> traj_inv t' \<and> sg_step_count (tr_gen t') = sg_step_count (tr_gen t)"
  using assms
proof (induction rule: quiet_step.induct)
  case (q_tick h t)
  then show ?case by (simp add: tick_at_rest tick_inv)
next
  case (q_isr t e a)
  then have "traj_inv (t\<lparr> tr_gen := argus_timer_alarm_cb e a (tr_gen t) \<rparr>)"
    by (intro traj_step_inv [OF tj_isr])
  with q_isr show ?case
    using halted_isr [of "tr_gen t" e a] by (simp add: at_rest_def traj_inv_def)
qed

lemma quiet_run_rest:
  assumes "quiet_step\<^sup>*\<^sup>* t t'" "at_rest t" "traj_inv t"
  shows "at_rest t' \<and> traj_inv t' \<and> sg_step_count (tr_gen t') = sg_step_count (tr_gen t)"
  using assms by (induction rule: rtranclp_induct) (auto dest: quiet_step_rest)

text \<open>The configuration never changes after start-up.\<close>

lemma traj_step_cfg: "traj_step t t' \<Longrightarrow> tr_cfg t' = tr_cfg t"
  by (induction rule: traj_step.induct)
    (simp_all add: argus_trajectory_set_target_rpm_milli_def argus_trajectory_stop_normal_def
      argus_trajectory_stop_immediate_def argus_trajectory_unlock_def argus_trajectory_recover_def
      argus_trajectory_clear_error_def argus_trajectory_enable_driver_def clear_error_locked_def
      zero_motion_def split_beta Let_def split: option.splits)

lemma traj_reachable_cfg: "traj_reachable c t \<Longrightarrow> tr_cfg t = Some c"
  by (induction rule: traj_reachable.induct)
    (auto simp: argus_trajectory_init_def traj_step_cfg Let_def split: if_splits)

text \<open>A tick is a profile step followed by handing the speed to a well-formed engine.\<close>

lemma tick_split:
  assumes "traj_inv t" "mutex_granted h" "tr_cfg t = Some c"
  obtains t1 where "argus_trajectory_step_tick_20ms h t
      = tick_apply h (u32_of_u64 (argus_conversions_steps_per_rev (Some c))) t1"
    and "step_gen_inv (tr_gen t1)"
proof -
  define t1 where "t1 = (if tr_target_forward t \<noteq> tr_current_forward t \<or> tr_is_reversing t
      then tick_reversal h (decel_step t) t else tick_ramp (accel_step t) (decel_step t) t)"
  have "step_gen_inv (tr_gen t1)"
    using traj_invD(1) [OF assms(1)] assms(2) switch_direction_gen [of _ h]
    by (simp add: t1_def tick_reversal_def Let_def)
  moreover have "argus_trajectory_step_tick_20ms h t
      = tick_apply h (u32_of_u64 (argus_conversions_steps_per_rev (Some c))) t1"
    unfolding argus_trajectory_step_tick_20ms_def t1_def Let_def using assms(3) by auto
  ultimately show thesis using that by blast
qed

lemma set_rate_keeps:
  assumes "sg_driver_enabled g"
  shows "sg_running (snd (argus_step_gen_set_rate_rpm_milli e r spr g)) = sg_running g
    \<and> sg_driver_enabled (snd (argus_step_gen_set_rate_rpm_milli e r spr g))"
  using assms
  by (simp add: argus_step_gen_set_rate_rpm_milli_def set_rate_enabled_def kickstart_def store_rate_def
      rate_error_def count_step_def hw_defs Let_def)

lemma tick_apply_engine:
  assumes "step_gen_inv (tr_gen t)" "he_mutex_take (h 2)" "he_mutex_take (h 3)"
    "he_timer_start (h 4) = ESP_OK"
    and r: "0 < tr_applied_rpm_milli t" "tr_applied_rpm_milli t \<le> 200000"
    and spr: "spr \<noteq> 0" "unat spr \<le> 10000"
  shows "let g = tr_gen (tick_apply h spr t) in sg_running g \<and> sg_driver_enabled g
    \<and> sg_error_state g = STEP_GEN_ERROR_NONE \<and> sg_requested_rpm_milli g = tr_applied_rpm_milli t
    \<and> unat (tm_integer (sg_pending g)) * (nat (tr_applied_rpm_milli t) * unat spr)
      + unat (tm_remainder (sg_pending g)) = 600000000000"
proof -
  let ?g1 = "if \<not> argus_step_gen_is_driver_enabled (tr_gen t)
      then snd (argus_step_gen_enable_driver (h 2) (tr_gen t)) else tr_gen t"
  let ?g2 = "snd (argus_step_gen_start (h 3) ?g1)"
  have g2: "sg_timer ?g2" "sg_driver_enabled ?g2" "sg_running ?g2"
    using assms(1-3)
    by (auto simp: argus_step_gen_is_driver_enabled_def argus_step_gen_enable_driver_def
        argus_step_gen_start_def inv_defs hw_defs)
  have "nat (tr_applied_rpm_milli t) * unat spr \<le> 200000 * 10000"
    using r spr by (intro mult_le_mono) simp_all
  then show ?thesis
    using set_rate_cases [OF g2(1,2) _ assms(4), of "tr_applied_rpm_milli t" spr]
      set_rate_keeps [OF g2(2), of "h 4" "tr_applied_rpm_milli t" spr] r spr g2(3)
    by (auto simp: tick_apply_def Let_def)
qed

section \<open>Properties\<close>

text \<open>
  C7: In every state the motion stack reaches after start-up, under any interleaving of
  ramp ticks, commands, recovery and pulse interrupts, the target and applied speeds are
  between zero and the configured maximum, the next tick's 32-bit sums do not overflow, and
  the DIR pin carries the direction the ramp engine believes it is moving in.
\<close>

theorem traj_reachable_safe:
  assumes "traj_reachable c t" and "motion_config_ok c"
  shows "0 \<le> tr_target_rpm_milli t \<and> tr_target_rpm_milli t \<le> max_rpm t
    \<and> 0 \<le> tr_applied_rpm_milli t \<and> tr_applied_rpm_milli t \<le> max_rpm t
    \<and> in_int32 (tr_accel_limit t * tr_update_interval_ms t)
    \<and> in_int32 (tr_applied_rpm_milli t + accel_step t)
    \<and> in_int32 (tr_applied_rpm_milli t - decel_step t)
    \<and> gpio_level (sg_log (tr_gen t)) (sg_dir_gpio (tr_gen t))
        = Some (if tr_current_forward t then sg_dir_forward_level (tr_gen t)
                else sg_dir_reverse_level (tr_gen t))"
proof -
  note inv = traj_reachable_inv [OF assms]
  then have m: "0 \<le> max_rpm t" "max_rpm t \<le> 200000" and i: "tr_update_interval_ms t = 20"
    and l: "0 \<le> tr_accel_limit t" "tr_accel_limit t \<le> 10000000" "0 \<le> tr_decel_limit t" "tr_decel_limit t \<le> 10000000"
    and s: "speeds_ok t"
    by (auto simp: traj_inv_def traj_cfg_ok_def max_rpm_def split: option.splits)
  have "1 \<le> accel_step t" "accel_step t \<le> 200000" "1 \<le> decel_step t" "decel_step t \<le> 200000"
    using ramp_delta_bound(1) l steps_ge1 [of t] by (simp_all add: i)
  with m s have "in_int32 (tr_applied_rpm_milli t + accel_step t)" "in_int32 (tr_applied_rpm_milli t - decel_step t)"
    by (auto simp: in_int32_def speeds_ok_def)
  moreover have "in_int32 (tr_accel_limit t * tr_update_interval_ms t)"
    using ramp_delta_bound(2) [OF l(1,2)] by (simp add: i)
  ultimately show ?thesis
    using inv s by (auto simp: speeds_ok_def traj_inv_def dir_synced_def step_gen_inv_def pins_ok_def)
qed

theorem traj_reachable_safe_witness:
  "gpio_level (sg_log (tr_gen traj_booted)) (sg_dir_gpio (tr_gen traj_booted))
     = Some (sg_dir_forward_level (tr_gen traj_booted))"
  using traj_reachable_safe [OF traj_booted_reachable default_motion_config_ok] by simp



text \<open>
  A reversal passes through zero. With the opposite direction commanded at speed \<open>a\<close>,
  the direction is kept while the speed falls by one deceleration step per period; it
  switches in the first period in which the speed is zero; and the following \<open>m\<close> periods
  accelerate from zero in the new direction.
\<close>

theorem reversal_through_zero:
  assumes "tr_cfg t \<noteq> None" and "0 < tr_applied_rpm_milli t" and "0 \<le> tr_target_rpm_milli t"
    and "tr_target_forward t \<noteq> tr_current_forward t"
    and "int (length hs) * decel_step t < tr_applied_rpm_milli t"
    and "tr_applied_rpm_milli t \<le> (int (length hs) + 1) * decel_step t"
  shows "tr_applied_rpm_milli (argus_trajectory_task hs t)
           = tr_applied_rpm_milli t - int (length hs) * decel_step t
     \<and> tr_current_forward (argus_trajectory_task hs t) = tr_current_forward t
     \<and> tr_applied_rpm_milli (argus_trajectory_task (hs @ [h]) t) = 0
     \<and> tr_current_forward (argus_trajectory_task (hs @ [h]) t) = tr_target_forward t
     \<and> tr_applied_rpm_milli (argus_trajectory_task (hs @ [h] @ hs') t)
         = min (tr_target_rpm_milli t) (int (length hs') * accel_step t)"
proof -
  have p: "reversal_pending t" using assms(4) by (simp add: reversal_pending_def)
  note fall = reversal_closed_form [OF assms(1) p assms(5)]
  let ?t = "argus_trajectory_task hs t" and ?z = "argus_trajectory_task (hs @ [h]) t"
  have z: "?z = argus_trajectory_step_tick_20ms h ?t"
    by (simp add: task_append) (simp add: argus_trajectory_task_def)
  have last: "0 < tr_applied_rpm_milli ?t" "tr_applied_rpm_milli ?t \<le> decel_step t"
    using fall assms(5,6) by (simp_all add: algebra_simps)
  have zero: "tr_applied_rpm_milli ?z = 0" "tr_current_forward ?z = tr_target_forward t"
    "\<not> reversal_pending ?z"
    using fall last assms(1) by (simp_all add: z tick_applied tick_direction Let_def)
  have "tr_applied_rpm_milli (argus_trajectory_task hs' ?z)
      = min (tr_target_rpm_milli t) (int (length hs') * accel_step t)"
    using ramp_closed_form [of ?z hs'] zero assms(1,3) by simp
  then show ?thesis
    using fall zero task_append [of "hs @ [h]" hs' t] by simp
qed

theorem reversal_through_zero_witness:
  "tr_applied_rpm_milli (argus_trajectory_task (replicate 3 (\<lambda>i. hw_ok))
     (traj_booted\<lparr> tr_applied_rpm_milli := 500, tr_target_rpm_milli := 900, tr_target_forward := False \<rparr>)) = 0"
  using reversal_through_zero [of "traj_booted\<lparr> tr_applied_rpm_milli := 500, tr_target_rpm_milli := 900,
      tr_target_forward := False \<rparr>" "replicate 2 (\<lambda>i. hw_ok)" "\<lambda>i. hw_ok"]
  by (simp add: ramp_delta_def signed_divide_int_def numeral_eq_Suc)

text \<open>
  Every speed the ramp hands down is one the pulse engine accepts. In a reachable
  state, when the platform's calls succeed, a tick that leaves a nonzero applied speed
  leaves the engine running with the driver enabled, no error, exactly that speed requested
  and the exact rational period of that speed pending.
\<close>

theorem tick_commands_engine:
  assumes "traj_reachable c t" and "motion_config_ok c" and "mutex_granted h"
    and "he_timer_start (h 4) = ESP_OK"
    and "t' = argus_trajectory_step_tick_20ms h t" and "0 < tr_applied_rpm_milli t'"
  shows "sg_running (tr_gen t') \<and> sg_driver_enabled (tr_gen t')
    \<and> sg_error_state (tr_gen t') = STEP_GEN_ERROR_NONE
    \<and> sg_requested_rpm_milli (tr_gen t') = tr_applied_rpm_milli t'
    \<and> unat (tm_integer (sg_pending (tr_gen t')))
        * (nat (tr_applied_rpm_milli t') * unat (u32_of_u64 (argus_conversions_steps_per_rev (Some c))))
      + unat (tm_remainder (sg_pending (tr_gen t'))) = 600000000000"
proof -
  note inv = traj_reachable_inv [OF assms(1,2)]
  have inv': "traj_inv t'" using tick_inv [OF inv assms(3)] assms(5) by simp
  have cfg: "tr_cfg t = Some c" by (rule traj_reachable_cfg [OF assms(1)])
  let ?spr = "u32_of_u64 (argus_conversions_steps_per_rev (Some c))"
  obtain t1 where t1: "t' = tick_apply h ?spr t1" "step_gen_inv (tr_gen t1)"
    using tick_split [OF inv assms(3) cfg] assms(5) by blast
  have "tr_cfg t' = Some c" using cfg assms(5) by simp
  then have r: "tr_applied_rpm_milli t' \<le> 200000" "?spr \<noteq> 0" "unat ?spr \<le> 10000"
    using inv' by (auto simp: traj_inv_def traj_cfg_ok_def speeds_ok_def max_rpm_def)
  show ?thesis
    using tick_apply_engine [of t1 h ?spr] t1 r assms(3,4,6)
    by (simp add: mutex_granted_def Let_def)
qed

theorem tick_commands_engine_witness:
  "sg_requested_rpm_milli (tr_gen (argus_trajectory_step_tick_20ms (\<lambda>i. hw_ok)
     (snd (argus_trajectory_set_target_rpm_milli hw_ok 1000 True traj_booted)))) = 200"
proof -
  let ?t = "snd (argus_trajectory_set_target_rpm_milli hw_ok 1000 True traj_booted)"
  have r: "traj_reachable (argus_config_defaults [] []) ?t"
    by (rule tj_next [OF traj_booted_reachable tj_target])
  have "tr_target_rpm_milli ?t = 1000" "tr_applied_rpm_milli ?t = 0" "\<not> reversal_pending ?t"
    "tr_cfg ?t \<noteq> None" "accel_step ?t = 200"
    by (simp_all add: argus_trajectory_set_target_rpm_milli_def Let_def reversal_pending_def
        ramp_delta_def signed_divide_int_def) (simp_all add: argus_config_defaults_def)
  then have a: "tr_applied_rpm_milli (argus_trajectory_step_tick_20ms (\<lambda>i. hw_ok) ?t) = 200"
    by (simp add: tick_applied Let_def)
  have "he_timer_start hw_ok = ESP_OK" by (simp add: hw_ok_def)
  from tick_commands_engine [OF r default_motion_config_ok mutex_granted_ok this refl] a
  show ?thesis by simp
qed

text \<open>
  An immediate stop or an unlock lasts. From a reachable state, after either, the pulse
  engine makes no step and keeps STEP inactive over any interleaving of ramp ticks and pulse
  interrupts that follows, until a new target is commanded; an unlock also leaves ENA
  released.
\<close>

theorem stop_stays_stopped:
  assumes "traj_reachable c t" and "motion_config_ok c" and "he_mutex_take e"
    and "t' = snd (argus_trajectory_stop_immediate e t) \<or> t' = snd (argus_trajectory_unlock e t)"
    and "quiet_step\<^sup>*\<^sup>* t' t''"
  shows "tr_applied_rpm_milli t'' = 0 \<and> sg_step_count (tr_gen t'') = sg_step_count (tr_gen t)
    \<and> gpio_level (sg_log (tr_gen t'')) (sg_step_gpio (tr_gen t''))
        = Some (sg_step_inactive_level (tr_gen t''))"
proof -
  note inv = traj_reachable_inv [OF assms(1,2)]
  note g = traj_invD(1) [OF inv]
  have timer: "sg_timer (tr_gen t)" using g by (simp add: inv_defs)
  have ok: "argus_step_gen_disable_driver e (tr_gen t)
      = (ESP_OK, snd (argus_step_gen_disable_driver e (tr_gen t)))"
    using g assms(3) by (simp add: argus_step_gen_disable_driver_def inv_defs Let_def)
  have "at_rest t' \<and> sg_step_count (tr_gen t') = sg_step_count (tr_gen t)"
    using assms(4) stop_immediate_halts [OF timer assms(3) refl] disable_driver_halts [OF ok g]
    by (auto simp: at_rest_def argus_trajectory_stop_immediate_def argus_trajectory_unlock_def
        zero_motion_def)
  moreover have "traj_inv t'"
    using assms(4) stop_ops_inv [OF inv] by auto
  ultimately show ?thesis
    using quiet_run_rest [OF assms(5)] by (auto simp: at_rest_def halted_def)
qed

theorem stop_stays_stopped_witness:
  "sg_step_count (tr_gen (argus_trajectory_step_tick_20ms (\<lambda>i. hw_ok)
      (snd (argus_trajectory_unlock hw_ok traj_booted)))) = sg_step_count (tr_gen traj_booted)"
proof -
  have "quiet_step\<^sup>*\<^sup>* (snd (argus_trajectory_unlock hw_ok traj_booted))
      (argus_trajectory_step_tick_20ms (\<lambda>i. hw_ok) (snd (argus_trajectory_unlock hw_ok traj_booted)))"
    by (intro r_into_rtranclp q_tick mutex_granted_ok)
  moreover have "he_mutex_take hw_ok" by (simp add: hw_ok_def)
  ultimately show ?thesis
    using stop_stays_stopped [OF traj_booted_reachable default_motion_config_ok] by blast
qed

text \<open>Ramp ticks and pulse interrupts at rest neither raise an engine error nor enable the driver.\<close>

lemma tick_at_rest_engine:
  assumes "at_rest t" "traj_inv t" "\<not> sg_driver_enabled (tr_gen t)" "sg_error_state (tr_gen t) = STEP_GEN_ERROR_NONE"
  shows "\<not> sg_driver_enabled (tr_gen (argus_trajectory_step_tick_20ms h t))
    \<and> sg_error_state (tr_gen (argus_trajectory_step_tick_20ms h t)) = STEP_GEN_ERROR_NONE"
proof -
  have cfg: "tr_cfg t \<noteq> None"
    using assms(2) by (auto simp: traj_inv_def traj_cfg_ok_def split: option.splits)
  let ?g2 = "snd (argus_step_gen_set_direction (h 1) (tr_target_forward t)
      (snd (argus_step_gen_stop_immediate (h 0) (tr_gen t))))"
  have "tr_gen (argus_trajectory_step_tick_20ms h t) \<in>
      {tr_gen t, snd (argus_step_gen_stop_profiled (tr_gen t)), ?g2, snd (argus_step_gen_stop_profiled ?g2)}"
    using assms(1) cfg
    by (auto simp: at_rest_def argus_trajectory_step_tick_20ms_def tick_apply_def tick_ramp_def
        tick_reversal_def switch_direction_def Let_def)
  moreover have "\<not> sg_driver_enabled ?g2 \<and> sg_error_state ?g2 = STEP_GEN_ERROR_NONE"
    using assms(1,3,4)
    by (simp add: at_rest_def halted_def argus_step_gen_set_direction_def argus_step_gen_stop_immediate_def
        dir_hold_delay_def halt_timing_def hw_defs Let_def)
  ultimately show ?thesis
    using assms(3,4) by (auto simp: argus_step_gen_stop_profiled_def pending_zero_rate_def)
qed

lemma quiet_run_released:
  assumes "quiet_step\<^sup>*\<^sup>* t t'" "at_rest t" "traj_inv t"
    "\<not> sg_driver_enabled (tr_gen t)" "sg_error_state (tr_gen t) = STEP_GEN_ERROR_NONE"
  shows "\<not> sg_driver_enabled (tr_gen t') \<and> sg_error_state (tr_gen t') = STEP_GEN_ERROR_NONE"
  using assms
proof (induction rule: rtranclp_induct)
  case (step u v)
  note rest = quiet_run_rest [OF step.hyps(1) step.prems(1,2)]
  from step.hyps(2) rest step.IH step.prems show ?case
    by (cases rule: quiet_step.cases)
      (auto simp: tick_at_rest_engine at_rest_def halted_def argus_timer_alarm_cb_def
        isr_deassert_step_def isr_schedule_alarm_def hw_defs Let_def)
qed simp

lemma rest_pins:
  "at_rest t \<Longrightarrow> traj_inv t \<Longrightarrow> \<not> sg_driver_enabled (tr_gen t) \<Longrightarrow>
     gpio_level (sg_log (tr_gen t)) (sg_step_gpio (tr_gen t)) = Some (sg_step_inactive_level (tr_gen t))
     \<and> gpio_level (sg_log (tr_gen t)) (sg_en_gpio (tr_gen t)) = Some 1"
  by (simp add: at_rest_def halted_def traj_inv_def inv_defs)

text \<open>The state recovery produces before its wait, and the state the wait begins in.\<close>

definition recovered :: "hw_answers \<Rightarrow> trajectory \<Rightarrow> trajectory" where
  "recovered h t = clear_error_locked ((zero_motion t)\<lparr> tr_gen :=
     snd (argus_step_gen_disable_driver (h 1) (snd (argus_step_gen_stop_immediate (h 0) (tr_gen t)))) \<rparr>)"

abbreviation wait_500 :: "trajectory \<Rightarrow> trajectory" where
  "wait_500 t \<equiv> t\<lparr> tr_gen := hw (Task_Delay_Ms 500) (tr_gen t) \<rparr>"

lemma recovered_inv: "traj_inv t \<Longrightarrow> traj_inv (recovered h t)"
  unfolding recovered_def using traj_invD [of t]
  by (intro clear_error_inv traj_gen_update zero_motion_inv inv_disable_driver inv_stop_immediate)
    (simp_all add: synced_ops)

lemma recovered_rest:
  assumes "traj_inv t" "mutex_granted h"
  shows "at_rest (recovered h t)" "\<not> sg_driver_enabled (tr_gen (recovered h t))"
    "sg_error_state (tr_gen (recovered h t)) = STEP_GEN_ERROR_NONE"
    "sg_step_count (tr_gen (recovered h t)) = sg_step_count (tr_gen t)"
  using traj_invD(1) [OF assms(1)] assms(2)
  by (simp_all add: recovered_def at_rest_def halted_def argus_step_gen_stop_immediate_def
      argus_step_gen_disable_driver_def argus_step_gen_clear_error_def clear_error_locked_def
      zero_motion_def halt_timing_def mutex_granted_def inv_defs hw_defs Let_def)

lemma wait_500_rest:
  "at_rest (wait_500 u) = at_rest u" "traj_inv u \<Longrightarrow> traj_inv (wait_500 u)"
  using traj_invD [of u]
  by (simp add: at_rest_def halted_def hw_def, intro traj_gen_update inv_hw_other)
    (simp_all add: synced_ops)

lemma recover_exact:
  assumes "traj_inv t" "mutex_granted h"
  shows "argus_trajectory_recover h during_wait t =
    (if sg_running (tr_gen t) \<and> he_timer_stop (h 0) \<noteq> ESP_OK then (he_timer_stop (h 0), recovered h t)
     else let t' = during_wait (wait_500 (recovered h t))
          in (if sg_error_state (tr_gen t') = STEP_GEN_ERROR_NONE then ESP_OK else ESP_FAIL, t'))"
proof -
  have "fst (argus_step_gen_stop_immediate (h 0) (tr_gen t)) =
      (if sg_running (tr_gen t) then he_timer_stop (h 0) else ESP_OK)"
    "fst (argus_step_gen_disable_driver (h 1) (snd (argus_step_gen_stop_immediate (h 0) (tr_gen t)))) = ESP_OK"
    using traj_invD(1) [OF assms(1)] assms(2)
    by (simp_all add: argus_step_gen_stop_immediate_def argus_step_gen_disable_driver_def
        halt_timing_def mutex_granted_def inv_defs hw_defs Let_def)
  then show ?thesis
    by (simp add: argus_trajectory_recover_def recovered_def argus_step_gen_get_snapshot_def Let_def split_beta)
qed

text \<open>
  C9: Recovery is fail-safe, whatever happens during its 500 ms wait. From a reachable state,
  whether or not the timer driver stops cleanly, recovery first brings the motor to rest
  without a further step: no speed requested or applied, STEP inactive, ENA released, driver
  disabled, engine error cleared. When the timer stop failed it returns that error in this
  very state. Otherwise it waits, with other tasks running, and then reports success exactly
  when the engine shows no error at the end of the wait, and ESP_FAIL when it shows one. If
  nothing but ramp ticks and pulse interrupts ran during the wait, it succeeds, no step was
  made and the motor is still at rest with STEP inactive and ENA released.
\<close>

theorem recover_fail_safe:
  assumes "traj_reachable c t" and "motion_config_ok c" and "mutex_granted h"
  shows "\<exists>u. at_rest u \<and> \<not> sg_driver_enabled (tr_gen u)
     \<and> sg_error_state (tr_gen u) = STEP_GEN_ERROR_NONE
     \<and> gpio_level (sg_log (tr_gen u)) (sg_step_gpio (tr_gen u)) = Some (sg_step_inactive_level (tr_gen u))
     \<and> gpio_level (sg_log (tr_gen u)) (sg_en_gpio (tr_gen u)) = Some 1
     \<and> sg_step_count (tr_gen u) = sg_step_count (tr_gen t)
     \<and> argus_trajectory_recover h during_wait t =
         (if sg_running (tr_gen t) \<and> he_timer_stop (h 0) \<noteq> ESP_OK then (he_timer_stop (h 0), u)
          else let t' = during_wait (wait_500 u)
               in (if sg_error_state (tr_gen t') = STEP_GEN_ERROR_NONE then ESP_OK else ESP_FAIL, t'))
     \<and> (\<forall>t'. during_wait (wait_500 u) = t' \<and> quiet_step\<^sup>*\<^sup>* (wait_500 u) t'
          \<and> (\<not> sg_running (tr_gen t) \<or> he_timer_stop (h 0) = ESP_OK)
        \<longrightarrow> argus_trajectory_recover h during_wait t = (ESP_OK, t') \<and> at_rest t'
          \<and> sg_step_count (tr_gen t') = sg_step_count (tr_gen t)
          \<and> gpio_level (sg_log (tr_gen t')) (sg_step_gpio (tr_gen t')) = Some (sg_step_inactive_level (tr_gen t'))
          \<and> gpio_level (sg_log (tr_gen t')) (sg_en_gpio (tr_gen t')) = Some 1)"
proof -
  note inv = traj_reachable_inv [OF assms(1,2)]
  let ?u = "recovered h t"
  note u = recovered_rest [OF inv assms(3)] recovered_inv [OF inv]
  note exact = recover_exact [OF inv assms(3)]
  have w: "at_rest (wait_500 ?u)" "traj_inv (wait_500 ?u)" "\<not> sg_driver_enabled (tr_gen (wait_500 ?u))"
    "sg_error_state (tr_gen (wait_500 ?u)) = STEP_GEN_ERROR_NONE"
    "sg_step_count (tr_gen (wait_500 ?u)) = sg_step_count (tr_gen t)"
    using u wait_500_rest by (simp_all add: hw_def)
  have quiet: "argus_trajectory_recover h during_wait t = (ESP_OK, t') \<and> at_rest t'
      \<and> sg_step_count (tr_gen t') = sg_step_count (tr_gen t)
      \<and> gpio_level (sg_log (tr_gen t')) (sg_step_gpio (tr_gen t')) = Some (sg_step_inactive_level (tr_gen t'))
      \<and> gpio_level (sg_log (tr_gen t')) (sg_en_gpio (tr_gen t')) = Some 1"
    if "during_wait (wait_500 ?u) = t'" "quiet_step\<^sup>*\<^sup>* (wait_500 ?u) t'"
      "\<not> sg_running (tr_gen t) \<or> he_timer_stop (h 0) = ESP_OK" for t'
  proof -
    note rest = quiet_run_rest [OF that(2) w(1,2)] and rel = quiet_run_released [OF that(2) w(1-4)]
    have "argus_trajectory_recover h during_wait t = (ESP_OK, t')"
      unfolding exact using that(1,3) rel by (auto simp: Let_def)
    then show ?thesis
      using rest rel w(5) rest_pins [of t'] by simp
  qed
  show ?thesis
    by (rule exI [of _ ?u], intro conjI u(1-4) exact conjunct1 [OF rest_pins [OF u(1,5,2)]]
        conjunct2 [OF rest_pins [OF u(1,5,2)]]) (use quiet in blast)
qed

theorem recover_fail_safe_witness:
  "gpio_level (sg_log (tr_gen (snd (argus_trajectory_recover (\<lambda>i. hw_ok)
        (argus_trajectory_step_tick_20ms (\<lambda>i. hw_ok)) traj_booted))))
     (sg_en_gpio (tr_gen (snd (argus_trajectory_recover (\<lambda>i. hw_ok)
        (argus_trajectory_step_tick_20ms (\<lambda>i. hw_ok)) traj_booted)))) = Some 1"
proof -
  have "quiet_step\<^sup>*\<^sup>* u (argus_trajectory_step_tick_20ms (\<lambda>i. hw_ok) u)" for u
    by (intro r_into_rtranclp q_tick mutex_granted_ok)
  moreover have "he_timer_stop hw_ok = ESP_OK" by (simp add: hw_ok_def)
  ultimately show ?thesis
    using recover_fail_safe [OF traj_booted_reachable default_motion_config_ok mutex_granted_ok,
        of "argus_trajectory_step_tick_20ms (\<lambda>i. hw_ok)"] by fastforce
qed

end
