(* ===== verification/State_Mgr.thy ===== *)
theory State_Mgr
  imports Trajectory_Props
begin

text \<open>
  The machine state manager (\<open>argus_state_mgr.c\<close>): the pure transition core over a table
  of motion operations, the production wrapper that runs it over the ramp engine, the
  periodic evaluator and the snapshot.

  The core and the world below it form the state \<open>state_core \<times> 'm\<close>. A motion operation maps
  that pair to a status and a new pair, so an operation may re-enter the core, as an
  emergency stop raised during a driver enable does. The table and its entries may be
  missing, as null pointers in the source. The core pointer itself is never null here: the
  production manager passes its own instance.
\<close>

section \<open>State\<close>

datatype machine_state =
    STATE_BOOTING
  | STATE_UNLOCKED
  | STATE_STARTING
  | STATE_RUNNING
  | STATE_DECELERATING
  | STATE_HOLDING
  | STATE_EMERGENCY_STOPPED
  | STATE_RECOVERING
  | STATE_FAULTED

record state_core =
  sc_machine_state :: machine_state
  sc_configured_target_rpm_milli :: int
  sc_trajectory_target_rpm_milli :: int
  sc_applied_rpm_milli :: int
  sc_generated_rpm_milli :: int
  sc_generated_step_count :: int
  sc_requested_forward :: bool
  sc_applied_forward :: bool
  sc_driver_enabled :: bool
  sc_ramp_active :: bool
  sc_estop_latched :: bool
  sc_estop_reset_destination :: machine_state
  sc_fault_code :: u32
  sc_command_generation :: u32
  sc_last_rejection_reason :: string

type_synonym 'm motion_call = "state_core \<times> 'm \<Rightarrow> esp_err \<times> state_core \<times> 'm"

record 'm motion_ops =
  op_enable_driver :: "'m motion_call option"
  op_disable_driver :: "'m motion_call option"
  op_set_direction :: "(bool \<Rightarrow> 'm motion_call) option"
  op_set_target_rate :: "(int \<Rightarrow> bool \<Rightarrow> 'm motion_call) option"
  op_stop_immediate :: "'m motion_call option"
  op_stop_normal :: "'m motion_call option"
  op_recover :: "'m motion_call option"
  op_get_error :: "('m \<Rightarrow> u32) option"

fun argus_state_mgr_get_state_name :: "machine_state \<Rightarrow> string" where
  "argus_state_mgr_get_state_name STATE_BOOTING = ''BOOTING''"
| "argus_state_mgr_get_state_name STATE_UNLOCKED = ''UNLOCKED''"
| "argus_state_mgr_get_state_name STATE_STARTING = ''STARTING''"
| "argus_state_mgr_get_state_name STATE_RUNNING = ''RUNNING''"
| "argus_state_mgr_get_state_name STATE_DECELERATING = ''DECELERATING''"
| "argus_state_mgr_get_state_name STATE_HOLDING = ''HOLDING''"
| "argus_state_mgr_get_state_name STATE_EMERGENCY_STOPPED = ''EMERGENCY_STOPPED''"
| "argus_state_mgr_get_state_name STATE_RECOVERING = ''RECOVERING''"
| "argus_state_mgr_get_state_name STATE_FAULTED = ''FAULTED''"

text \<open>The reason buffer holds 63 characters and a terminator.\<close>

definition set_core_rejection_reason :: "string \<Rightarrow> state_core \<Rightarrow> state_core" where
  "set_core_rejection_reason reason c = c\<lparr> sc_last_rejection_reason := take 63 reason \<rparr>"

definition reject :: "esp_err \<Rightarrow> string \<Rightarrow> state_core \<times> 'm \<Rightarrow> esp_err \<times> state_core \<times> 'm" where
  "reject e reason w = (e, set_core_rejection_reason reason (fst w), snd w)"

definition fault :: "esp_err \<Rightarrow> string \<Rightarrow> state_core \<times> 'm \<Rightarrow> esp_err \<times> state_core \<times> 'm" where
  "fault e reason w =
     reject e reason ((fst w)\<lparr> sc_machine_state := STATE_FAULTED, sc_fault_code := word_of_int e \<rparr>, snd w)"

text \<open>Calling an entry of the table: a missing table or entry is skipped with \<open>ESP_OK\<close>.\<close>

definition call_op ::
  "'m motion_ops option \<Rightarrow> ('m motion_ops \<Rightarrow> 'm motion_call option) \<Rightarrow> 'm motion_call" where
  "call_op ops sel w =
     (case ops of None \<Rightarrow> (ESP_OK, w)
      | Some t \<Rightarrow> (case sel t of None \<Rightarrow> (ESP_OK, w) | Some f \<Rightarrow> f w))"

definition core_error :: "'m motion_ops option \<Rightarrow> 'm \<Rightarrow> u32" where
  "core_error ops m =
     (case ops of None \<Rightarrow> 0
      | Some t \<Rightarrow> (case op_get_error t of None \<Rightarrow> 0 | Some f \<Rightarrow> f m))"

section \<open>Core transitions\<close>

text \<open>A null operations table selects the production table.\<close>

definition argus_state_core_init :: "'m motion_ops \<Rightarrow> 'm motion_ops option \<Rightarrow> state_core \<times> 'm motion_ops option" where
  "argus_state_core_init production ops =
     (\<lparr> sc_machine_state = STATE_UNLOCKED, sc_configured_target_rpm_milli = 0,
       sc_trajectory_target_rpm_milli = 0, sc_applied_rpm_milli = 0, sc_generated_rpm_milli = 0,
       sc_generated_step_count = 0, sc_requested_forward = True, sc_applied_forward = False,
       sc_driver_enabled = False, sc_ramp_active = False, sc_estop_latched = False,
       sc_estop_reset_destination = STATE_HOLDING, sc_fault_code = 0, sc_command_generation = 1,
       sc_last_rejection_reason = ''None'' \<rparr>,
      Some (case ops of None \<Rightarrow> production | Some table \<Rightarrow> table))"

definition argus_state_core_set_target ::
  "'m motion_ops option \<Rightarrow> int \<Rightarrow> bool \<Rightarrow> 'm motion_call" where
  "argus_state_core_set_target ops rpm_milli forward w =
     (let c = fst w; st = sc_machine_state c in
      if sc_estop_latched c \<or> st = STATE_EMERGENCY_STOPPED
      then reject ESP_ERR_INVALID_STATE ''Cannot set target while EMERGENCY_STOPPED'' w
      else if st = STATE_FAULTED
      then reject ESP_ERR_INVALID_STATE ''Cannot set target while FAULTED'' w
      else if st = STATE_DECELERATING
      then reject ESP_ERR_INVALID_STATE ''Cannot set target while DECELERATING'' w
      else if st = STATE_RECOVERING \<or> st = STATE_BOOTING
      then reject ESP_ERR_INVALID_STATE ''Cannot set target during BOOTING/RECOVERING'' w
      else if rpm_milli < 0 \<or> rpm_milli > 200000
      then reject ESP_ERR_INVALID_ARG ''Target RPM out of range [0, 200000]'' w
      else
        (let w1 = (c\<lparr> sc_configured_target_rpm_milli := rpm_milli, sc_requested_forward := forward \<rparr>, snd w)
         in if st = STATE_STARTING \<or> st = STATE_RUNNING
            then (case call_op ops (\<lambda>t. map_option (\<lambda>f. f rpm_milli forward) (op_set_target_rate t)) w1 of
                    (err, w2) \<Rightarrow> if err \<noteq> ESP_OK then fault err ''set_target_rate failed'' w2
                                 else (ESP_OK, w2))
            else (ESP_OK, w1)))"

text \<open>The revalidation after each lower-layer call of a start or a recovery.\<close>

definition preempted :: "u32 \<Rightarrow> state_core \<Rightarrow> bool" where
  "preempted entry_gen c \<longleftrightarrow> sc_command_generation c \<noteq> entry_gen \<or> sc_estop_latched c
     \<or> sc_machine_state c = STATE_EMERGENCY_STOPPED"

definition argus_state_core_start :: "'m motion_ops option \<Rightarrow> 'm motion_call" where
  "argus_state_core_start ops w =
     (let c = fst w; st = sc_machine_state c in
      if sc_estop_latched c \<or> st = STATE_EMERGENCY_STOPPED
      then reject ESP_ERR_INVALID_STATE ''Cannot start while EMERGENCY_STOPPED'' w
      else if st = STATE_FAULTED
      then reject ESP_ERR_INVALID_STATE ''Cannot start while FAULTED'' w
      else if st = STATE_DECELERATING
      then reject ESP_ERR_INVALID_STATE ''Cannot start while DECELERATING'' w
      else if st = STATE_STARTING \<or> st = STATE_RUNNING then (ESP_OK, w)
      else if sc_configured_target_rpm_milli c \<le> 0
      then reject ESP_ERR_INVALID_STATE ''Cannot start with zero setpoint'' w
      else
        (let entry_gen = sc_command_generation c;
             target = sc_configured_target_rpm_milli c;
             fwd = sc_requested_forward c;
             (err, w1) = call_op ops op_enable_driver (c\<lparr> sc_machine_state := STATE_STARTING \<rparr>, snd w)
         in if preempted entry_gen (fst w1)
            then reject ESP_ERR_INVALID_STATE ''Start aborted: E-stop latched during driver enable'' w1
            else
              (let (err2, w2) =
                     (if err = ESP_OK
                      then call_op ops (\<lambda>t. map_option (\<lambda>f. f target fwd) (op_set_target_rate t)) w1
                      else (err, w1))
               in if preempted entry_gen (fst w2)
                  then reject ESP_ERR_INVALID_STATE ''Start aborted: E-stop latched during rate set'' w2
                  else if err2 \<noteq> ESP_OK
                  then fault err2 ''Lower layer enable/rate call failed during start'' w2
                  else (ESP_OK, w2))))"

definition argus_state_core_stop_normal :: "'m motion_ops option \<Rightarrow> 'm motion_call" where
  "argus_state_core_stop_normal ops w =
     (let c = fst w; st = sc_machine_state c in
      if st = STATE_EMERGENCY_STOPPED \<or> st = STATE_FAULTED
      then reject ESP_ERR_INVALID_STATE ''Cannot stop_normal while EMERGENCY_STOPPED/FAULTED'' w
      else if st = STATE_UNLOCKED \<or> st = STATE_HOLDING \<or> st = STATE_DECELERATING then (ESP_OK, w)
      else
        (case call_op ops op_stop_normal (c\<lparr> sc_machine_state := STATE_DECELERATING \<rparr>, snd w) of
           (err, w1) \<Rightarrow> if err \<noteq> ESP_OK then fault err ''stop_normal lower-layer call failed'' w1
                        else (ESP_OK, w1)))"

definition argus_state_core_unlock :: "'m motion_ops option \<Rightarrow> 'm motion_call" where
  "argus_state_core_unlock ops w =
     (let c = fst w; st = sc_machine_state c in
      if st = STATE_STARTING \<or> st = STATE_RUNNING \<or> st = STATE_DECELERATING
      then reject ESP_ERR_INVALID_STATE ''Cannot unlock while motion is active/decelerating'' w
      else if st = STATE_EMERGENCY_STOPPED \<or> st = STATE_FAULTED
      then reject ESP_ERR_INVALID_STATE ''Cannot unlock while EMERGENCY_STOPPED/FAULTED'' w
      else if st = STATE_UNLOCKED then (ESP_OK, w)
      else call_op ops op_disable_driver (c\<lparr> sc_machine_state := STATE_UNLOCKED \<rparr>, snd w))"

definition argus_state_core_estop :: "'m motion_ops option \<Rightarrow> 'm motion_call" where
  "argus_state_core_estop ops w =
     (let c = fst w in
      if sc_machine_state c = STATE_EMERGENCY_STOPPED then (ESP_OK, w)
      else
        (let c1 = c\<lparr> sc_estop_reset_destination :=
                       (if sc_machine_state c = STATE_UNLOCKED then STATE_UNLOCKED else STATE_HOLDING),
                     sc_estop_latched := True,
                     sc_command_generation := sc_command_generation c + 1,
                     sc_machine_state := STATE_EMERGENCY_STOPPED \<rparr>
         in (ESP_OK, snd (call_op ops op_stop_immediate (c1, snd w)))))"

definition argus_state_core_reset_estop :: "'m motion_call" where
  "argus_state_core_reset_estop w =
     (let c = fst w in
      if sc_machine_state c \<noteq> STATE_EMERGENCY_STOPPED
      then reject ESP_ERR_INVALID_STATE ''Cannot reset E-stop when not in EMERGENCY_STOPPED state'' w
      else (ESP_OK, c\<lparr> sc_estop_latched := False,
                       sc_machine_state := sc_estop_reset_destination c \<rparr>, snd w))"

definition argus_state_core_recover :: "'m motion_ops option \<Rightarrow> 'm motion_call" where
  "argus_state_core_recover ops w =
     (let c = fst w; st = sc_machine_state c in
      if st = STATE_STARTING \<or> st = STATE_RUNNING \<or> st = STATE_DECELERATING
      then reject ESP_ERR_INVALID_STATE ''Cannot recover while motion active'' w
      else
        (let entry_gen = sc_command_generation c;
             (rec_err, w1) = call_op ops op_recover (c\<lparr> sc_machine_state := STATE_RECOVERING \<rparr>, snd w)
         in if preempted entry_gen (fst w1)
            then reject ESP_ERR_INVALID_STATE ''Recovery aborted: E-stop latched during recovery'' w1
            else
              (let err_val = core_error ops (snd w1)
               in if rec_err = ESP_OK \<and> err_val = 0
                  then (rec_err, (fst w1)\<lparr> sc_fault_code := 0, sc_machine_state := STATE_UNLOCKED \<rparr>, snd w1)
                  else (rec_err,
                        set_core_rejection_reason ''Recovery failed to clear lower-layer error''
                          ((fst w1)\<lparr> sc_machine_state := STATE_FAULTED,
                             sc_fault_code := (if err_val \<noteq> 0 then err_val else word_of_int rec_err) \<rparr>),
                        snd w1))))"

definition argus_state_core_evaluate_periodic ::
  "int \<Rightarrow> int \<Rightarrow> bool \<Rightarrow> u32 \<Rightarrow> state_core \<Rightarrow> state_core" where
  "argus_state_core_evaluate_periodic applied_rpm generated_rpm ramp_active latched_error c =
     (let c1 = (if latched_error \<noteq> 0 \<and> sc_machine_state c \<noteq> STATE_FAULTED
                    \<and> sc_machine_state c \<noteq> STATE_RECOVERING
                then c\<lparr> sc_fault_code := latched_error, sc_machine_state := STATE_FAULTED \<rparr> else c);
          c2 = (if sc_machine_state c1 = STATE_STARTING
                    \<and> applied_rpm = sc_configured_target_rpm_milli c1
                    \<and> generated_rpm = sc_configured_target_rpm_milli c1 \<and> \<not> ramp_active
                then c1\<lparr> sc_machine_state := STATE_RUNNING \<rparr> else c1)
      in if sc_machine_state c2 = STATE_DECELERATING \<and> applied_rpm = 0 \<and> generated_rpm = 0
         then c2\<lparr> sc_machine_state := STATE_HOLDING \<rparr> else c2)"

record state_snapshot =
  sn_machine_state :: machine_state
  sn_configured_target_rpm_milli :: int
  sn_trajectory_target_rpm_milli :: int
  sn_applied_rpm_milli :: int
  sn_generated_rpm_milli :: int
  sn_generated_step_count :: int
  sn_requested_forward :: bool
  sn_applied_forward :: bool
  sn_driver_enabled :: bool
  sn_ramp_active :: bool
  sn_estop_latched :: bool
  sn_fault_code :: u32
  sn_command_generation :: u32
  sn_feedback_available :: bool
  sn_last_rejection_reason :: string

definition argus_state_core_get_snapshot :: "state_core \<Rightarrow> state_snapshot" where
  "argus_state_core_get_snapshot c =
     \<lparr> sn_machine_state = sc_machine_state c,
       sn_configured_target_rpm_milli = sc_configured_target_rpm_milli c,
       sn_trajectory_target_rpm_milli = sc_trajectory_target_rpm_milli c,
       sn_applied_rpm_milli = sc_applied_rpm_milli c,
       sn_generated_rpm_milli = sc_generated_rpm_milli c,
       sn_generated_step_count = sc_generated_step_count c,
       sn_requested_forward = sc_requested_forward c,
       sn_applied_forward = sc_applied_forward c,
       sn_driver_enabled = sc_driver_enabled c,
       sn_ramp_active = sc_ramp_active c,
       sn_estop_latched = sc_estop_latched c,
       sn_fault_code = sc_fault_code c,
       sn_command_generation = sc_command_generation c,
       sn_feedback_available = False,
       sn_last_rejection_reason = sc_last_rejection_reason c \<rparr>"

section \<open>The production manager\<close>

text \<open>
  The production table binds the ramp engine. Its calls never touch the core: the state
  mutex is held across the whole transition.
\<close>

definition lift_motion :: "(trajectory \<Rightarrow> esp_err \<times> trajectory) \<Rightarrow> trajectory motion_call" where
  "lift_motion f w = (case f (snd w) of (err, t) \<Rightarrow> (err, fst w, t))"

definition prod_set_direction :: "hw_env \<Rightarrow> bool \<Rightarrow> trajectory \<Rightarrow> esp_err \<times> trajectory" where
  "prod_set_direction h fwd t =
     (case argus_step_gen_set_direction h fwd (tr_gen t) of (err, g) \<Rightarrow> (err, t\<lparr> tr_gen := g \<rparr>))"

definition prod_get_error :: "trajectory \<Rightarrow> u32" where
  "prod_get_error t = ts_latched_error (argus_trajectory_get_snapshot t)"

definition s_production_ops ::
  "hw_answers \<Rightarrow> (trajectory \<Rightarrow> trajectory) \<Rightarrow> trajectory motion_ops" where
  "s_production_ops h during_wait =
     \<lparr> op_enable_driver = Some (lift_motion (argus_trajectory_enable_driver (h 0))),
       op_disable_driver = Some (lift_motion (argus_trajectory_unlock (h 0))),
       op_set_direction = Some (\<lambda>fwd. lift_motion (prod_set_direction (h 0) fwd)),
       op_set_target_rate =
         Some (\<lambda>rpm fwd. lift_motion (argus_trajectory_set_target_rpm_milli (h 1) rpm fwd)),
       op_stop_immediate = Some (lift_motion (argus_trajectory_stop_immediate (h 0))),
       op_stop_normal = Some (lift_motion (argus_trajectory_stop_normal (h 0))),
       op_recover = Some (lift_motion (argus_trajectory_recover h during_wait)),
       op_get_error = Some prod_get_error \<rparr>"

text \<open>
  A command waits 100 ms for the command mutex: \<open>granted\<close> says whether it got it. The
  emergency stop does not take that mutex.
\<close>

definition with_command_mutex :: "bool \<Rightarrow> 'm motion_call \<Rightarrow> 'm motion_call" where
  "with_command_mutex granted f w = (if \<not> granted then (ESP_ERR_TIMEOUT, w) else f w)"

definition argus_state_mgr_set_target :: "bool \<Rightarrow> 'm motion_ops option \<Rightarrow> int \<Rightarrow> bool \<Rightarrow> 'm motion_call" where
  "argus_state_mgr_set_target granted ops rpm fwd =
     with_command_mutex granted (argus_state_core_set_target ops rpm fwd)"

definition argus_state_mgr_start :: "bool \<Rightarrow> 'm motion_ops option \<Rightarrow> 'm motion_call" where
  "argus_state_mgr_start granted ops = with_command_mutex granted (argus_state_core_start ops)"

definition argus_state_mgr_stop_normal :: "bool \<Rightarrow> 'm motion_ops option \<Rightarrow> 'm motion_call" where
  "argus_state_mgr_stop_normal granted ops = with_command_mutex granted (argus_state_core_stop_normal ops)"

definition argus_state_mgr_unlock :: "bool \<Rightarrow> 'm motion_ops option \<Rightarrow> 'm motion_call" where
  "argus_state_mgr_unlock granted ops = with_command_mutex granted (argus_state_core_unlock ops)"

definition argus_state_mgr_estop :: "'m motion_ops option \<Rightarrow> 'm motion_call" where
  "argus_state_mgr_estop ops = argus_state_core_estop ops"

definition argus_state_mgr_reset_estop :: "bool \<Rightarrow> 'm motion_call" where
  "argus_state_mgr_reset_estop granted = with_command_mutex granted argus_state_core_reset_estop"

definition argus_state_mgr_recover :: "bool \<Rightarrow> 'm motion_ops option \<Rightarrow> 'm motion_call" where
  "argus_state_mgr_recover granted ops = with_command_mutex granted (argus_state_core_recover ops)"

text \<open>One period of the evaluator task.\<close>

definition argus_state_mgr_task :: "bool \<Rightarrow> state_core \<times> trajectory \<Rightarrow> state_core \<times> trajectory" where
  "argus_state_mgr_task granted w =
     (if \<not> granted then w
      else
        (let snap = argus_trajectory_get_snapshot (snd w)
         in (argus_state_core_evaluate_periodic (ts_applied_rpm_milli snap) (ts_generated_rpm_milli snap)
               (ts_ramp_active snap) (ts_latched_error snap) (fst w), snd w)))"

text \<open>
  \<open>argus_state_mgr_init\<close>: the two mutexes and the evaluator task are created once; the
  flags say what exists before, and whether creation succeeds.
\<close>

definition argus_state_mgr_init ::
  "bool \<Rightarrow> bool \<Rightarrow> bool \<Rightarrow> bool \<Rightarrow> 'm motion_ops \<Rightarrow> 'm motion_ops option \<Rightarrow>
     state_core \<times> 'm motion_ops option \<Rightarrow> esp_err \<times> state_core \<times> 'm motion_ops option" where
  "argus_state_mgr_init have_command have_state command_created state_created production ops c =
     (if \<not> have_command \<and> \<not> command_created then (ESP_ERR_NO_MEM, c)
      else if \<not> have_state \<and> \<not> state_created then (ESP_ERR_NO_MEM, c)
      else (ESP_OK, argus_state_core_init production ops))"

definition argus_state_mgr_get_snapshot :: "state_core \<times> trajectory \<Rightarrow> state_snapshot" where
  "argus_state_mgr_get_snapshot w =
     (let traj_snap = argus_trajectory_get_snapshot (snd w);
          step_snap = argus_step_gen_get_snapshot (tr_gen (snd w));
          s = argus_state_core_get_snapshot (fst w)
      in s\<lparr> sn_trajectory_target_rpm_milli := ts_target_rpm_milli traj_snap,
            sn_applied_rpm_milli := ts_applied_rpm_milli traj_snap,
            sn_generated_rpm_milli := ss_generated_rpm_milli step_snap,
            sn_generated_step_count := ss_generated_step_count step_snap,
            sn_applied_forward := ts_applied_forward traj_snap,
            sn_driver_enabled := ss_driver_enabled step_snap,
            sn_ramp_active := ts_ramp_active traj_snap,
            sn_fault_code := (if sn_fault_code s = 0 \<and> ts_latched_error traj_snap \<noteq> 0
                              then ts_latched_error traj_snap else sn_fault_code s) \<rparr>)"

end
