(* ===== verification/State_Mgr_Props.thy ===== *)
theory State_Mgr_Props
  imports State_Mgr
begin

text \<open>
  The state manager against the contract of its motion layer. The contract is a locale: what
  every operation of the table does to the motion layer's invariant, its commanded target
  and its rest state, and what the background activity (ramp ticks and pulse interrupts)
  leaves alone. The manager's safety invariant is proved once from the contract, and the
  contract is discharged for the production table over the ramp engine.
\<close>

section \<open>The invariant of the manager\<close>

definition quiet_state :: "machine_state \<Rightarrow> bool" where
  "quiet_state st \<longleftrightarrow> st \<in> {STATE_UNLOCKED, STATE_HOLDING, STATE_DECELERATING,
     STATE_EMERGENCY_STOPPED, STATE_RECOVERING}"

definition mgr_inv :: "('m \<Rightarrow> bool) \<Rightarrow> ('m \<Rightarrow> int) \<Rightarrow> ('m \<Rightarrow> bool) \<Rightarrow> state_core \<times> 'm \<Rightarrow> bool" where
  "mgr_inv minv target rest w \<longleftrightarrow> minv (snd w)
     \<and> (sc_estop_latched (fst w) \<longrightarrow> rest (snd w))
     \<and> (sc_machine_state (fst w) = STATE_EMERGENCY_STOPPED \<longrightarrow> sc_estop_latched (fst w))
     \<and> (quiet_state (sc_machine_state (fst w)) \<longrightarrow> target (snd w) = 0)
     \<and> sc_estop_reset_destination (fst w) \<in> {STATE_UNLOCKED, STATE_HOLDING}
     \<and> 0 \<le> sc_configured_target_rpm_milli (fst w) \<and> sc_configured_target_rpm_milli (fst w) \<le> 200000"

text \<open>
  One step of the manager: a command with any outcome of its mutex, the evaluator with any
  readings, or background activity of the motion layer. \<open>OPS\<close> bounds the operation tables.
\<close>

inductive mgr_step ::
  "('m motion_ops \<Rightarrow> bool) \<Rightarrow> ('m \<Rightarrow> 'm \<Rightarrow> bool) \<Rightarrow> state_core \<times> 'm \<Rightarrow> state_core \<times> 'm \<Rightarrow> bool"
  for OPS bg where
  ms_set_target: "OPS ops \<Longrightarrow> mgr_step OPS bg w (snd (argus_state_mgr_set_target granted (Some ops) rpm fwd w))"
| ms_start: "OPS ops \<Longrightarrow> mgr_step OPS bg w (snd (argus_state_mgr_start granted (Some ops) w))"
| ms_stop: "OPS ops \<Longrightarrow> mgr_step OPS bg w (snd (argus_state_mgr_stop_normal granted (Some ops) w))"
| ms_unlock: "OPS ops \<Longrightarrow> mgr_step OPS bg w (snd (argus_state_mgr_unlock granted (Some ops) w))"
| ms_estop: "OPS ops \<Longrightarrow> mgr_step OPS bg w (snd (argus_state_mgr_estop (Some ops) w))"
| ms_reset: "mgr_step OPS bg w (snd (argus_state_mgr_reset_estop granted w))"
| ms_recover: "OPS ops \<Longrightarrow> mgr_step OPS bg w (snd (argus_state_mgr_recover granted (Some ops) w))"
| ms_evaluate: "mgr_step OPS bg w (argus_state_core_evaluate_periodic a g r e (fst w), snd w)"
| ms_background: "bg (snd w) m \<Longrightarrow> mgr_step OPS bg w (fst w, m)"

lemmas reject_defs = reject_def fault_def set_core_rejection_reason_def

section \<open>The contract of the motion layer\<close>

locale motion_contract =
  fixes OPS :: "'m motion_ops \<Rightarrow> bool" and bg :: "'m \<Rightarrow> 'm \<Rightarrow> bool"
    and minv :: "'m \<Rightarrow> bool" and target :: "'m \<Rightarrow> int" and rest :: "'m \<Rightarrow> bool"
  assumes enable_ok: "OPS ops \<Longrightarrow> minv m \<Longrightarrow>
      \<exists>e m'. call_op (Some ops) op_enable_driver (c, m) = (e, c, m') \<and> minv m' \<and> target m' = target m"
    and set_rate_ok: "OPS ops \<Longrightarrow> minv m \<Longrightarrow>
      \<exists>e m'. call_op (Some ops) (\<lambda>t. map_option (\<lambda>f. f r d) (op_set_target_rate t)) (c, m) = (e, c, m')
        \<and> minv m'"
    and stop_normal_ok: "OPS ops \<Longrightarrow> minv m \<Longrightarrow>
      \<exists>e m'. call_op (Some ops) op_stop_normal (c, m) = (e, c, m') \<and> minv m' \<and> target m' = 0
        \<and> (rest m \<longrightarrow> rest m')"
    and disable_ok: "OPS ops \<Longrightarrow> minv m \<Longrightarrow>
      \<exists>e m'. call_op (Some ops) op_disable_driver (c, m) = (e, c, m') \<and> minv m' \<and> rest m'"
    and stop_immediate_ok: "OPS ops \<Longrightarrow> minv m \<Longrightarrow>
      \<exists>e m'. call_op (Some ops) op_stop_immediate (c, m) = (e, c, m') \<and> minv m' \<and> rest m'"
    and recover_ok: "OPS ops \<Longrightarrow> minv m \<Longrightarrow>
      \<exists>e m'. call_op (Some ops) op_recover (c, m) = (e, c, m') \<and> minv m' \<and> rest m'"
    and rest_target: "rest m \<Longrightarrow> target m = 0"
    and background_ok: "bg m m' \<Longrightarrow> minv m \<Longrightarrow> minv m' \<and> target m' = target m \<and> (rest m \<longrightarrow> rest m')"
begin

abbreviation inv :: "state_core \<times> 'm \<Rightarrow> bool" where
  "inv \<equiv> mgr_inv minv target rest"

lemma set_target_keeps:
  assumes "inv w" "OPS ops"
  shows "inv (snd (argus_state_core_set_target (Some ops) rpm fwd w))"
proof -
  obtain c m where w: "w = (c, m)" by (cases w)
  let ?c = "c\<lparr> sc_configured_target_rpm_milli := rpm, sc_requested_forward := fwd \<rparr>"
  obtain e m' where "call_op (Some ops) (\<lambda>t. map_option (\<lambda>f. f rpm fwd) (op_set_target_rate t)) (?c, m)
      = (e, ?c, m')" "minv m'"
    using set_rate_ok [OF assms(2), of m rpm fwd ?c] assms(1) w by (auto simp: mgr_inv_def)
  then show ?thesis
    using assms(1) w
    by (auto simp: argus_state_core_set_target_def reject_defs mgr_inv_def quiet_state_def Let_def)
qed

lemma start_keeps:
  assumes "inv w" "OPS ops"
  shows "inv (snd (argus_state_core_start (Some ops) w))"
proof -
  obtain c m where w: "w = (c, m)" by (cases w)
  let ?c = "c\<lparr> sc_machine_state := STATE_STARTING \<rparr>"
  have m: "minv m" using assms(1) w by (simp add: mgr_inv_def)
  obtain e1 m1 where 1: "call_op (Some ops) op_enable_driver (?c, m) = (e1, ?c, m1)" "minv m1"
    using enable_ok [OF assms(2) m, of ?c] by blast
  let ?r = "sc_configured_target_rpm_milli c" and ?d = "sc_requested_forward c"
  obtain e2 m2 where 2: "call_op (Some ops) (\<lambda>t. map_option (\<lambda>f. f ?r ?d) (op_set_target_rate t)) (?c, m1)
      = (e2, ?c, m2)" "minv m2"
    using set_rate_ok [OF assms(2) 1(2), of ?r ?d ?c] by blast
  show ?thesis
    using assms(1) w 1 2
    by (auto simp: argus_state_core_start_def preempted_def reject_defs mgr_inv_def quiet_state_def Let_def)
qed

lemma stop_normal_keeps:
  assumes "inv w" "OPS ops"
  shows "inv (snd (argus_state_core_stop_normal (Some ops) w))"
proof -
  obtain c m where w: "w = (c, m)" by (cases w)
  let ?c = "c\<lparr> sc_machine_state := STATE_DECELERATING \<rparr>"
  obtain e m' where "call_op (Some ops) op_stop_normal (?c, m) = (e, ?c, m')" "minv m'" "target m' = 0"
    "rest m \<longrightarrow> rest m'"
    using stop_normal_ok [OF assms(2), of m ?c] assms(1) w by (auto simp: mgr_inv_def)
  then show ?thesis
    using assms(1) w
    by (auto simp: argus_state_core_stop_normal_def reject_defs mgr_inv_def quiet_state_def Let_def)
qed

lemma unlock_keeps:
  assumes "inv w" "OPS ops"
  shows "inv (snd (argus_state_core_unlock (Some ops) w))"
proof -
  obtain c m where w: "w = (c, m)" by (cases w)
  let ?c = "c\<lparr> sc_machine_state := STATE_UNLOCKED \<rparr>"
  obtain e m' where "call_op (Some ops) op_disable_driver (?c, m) = (e, ?c, m')" "minv m'" "rest m'"
    using disable_ok [OF assms(2), of m ?c] assms(1) w by (auto simp: mgr_inv_def)
  then show ?thesis
    using assms(1) w rest_target
    by (auto simp: argus_state_core_unlock_def reject_defs mgr_inv_def quiet_state_def Let_def)
qed

lemma estop_keeps:
  assumes "inv w" "OPS ops"
  shows "inv (snd (argus_state_core_estop (Some ops) w))"
    and "sc_estop_latched (fst (snd (argus_state_core_estop (Some ops) w)))"
    and "sc_machine_state (fst (snd (argus_state_core_estop (Some ops) w))) = STATE_EMERGENCY_STOPPED"
proof -
  obtain c m where w: "w = (c, m)" by (cases w)
  let ?c = "c\<lparr> sc_estop_reset_destination :=
                 (if sc_machine_state c = STATE_UNLOCKED then STATE_UNLOCKED else STATE_HOLDING),
               sc_estop_latched := True, sc_command_generation := sc_command_generation c + 1,
               sc_machine_state := STATE_EMERGENCY_STOPPED \<rparr>"
  obtain e m' where "call_op (Some ops) op_stop_immediate (?c, m) = (e, ?c, m')" "minv m'" "rest m'"
    using stop_immediate_ok [OF assms(2), of m ?c] assms(1) w by (auto simp: mgr_inv_def)
  then show "inv (snd (argus_state_core_estop (Some ops) w))"
    "sc_estop_latched (fst (snd (argus_state_core_estop (Some ops) w)))"
    "sc_machine_state (fst (snd (argus_state_core_estop (Some ops) w))) = STATE_EMERGENCY_STOPPED"
    using assms(1) w rest_target
    by (auto simp: argus_state_core_estop_def mgr_inv_def Let_def)
qed

lemma reset_keeps: "inv w \<Longrightarrow> inv (snd (argus_state_core_reset_estop w))"
  by (auto simp: argus_state_core_reset_estop_def reject_defs mgr_inv_def quiet_state_def Let_def)

lemma recover_keeps:
  assumes "inv w" "OPS ops"
  shows "inv (snd (argus_state_core_recover (Some ops) w))"
proof -
  obtain c m where w: "w = (c, m)" by (cases w)
  let ?c = "c\<lparr> sc_machine_state := STATE_RECOVERING \<rparr>"
  obtain e m' where "call_op (Some ops) op_recover (?c, m) = (e, ?c, m')" "minv m'" "rest m'"
    using recover_ok [OF assms(2), of m ?c] assms(1) w by (auto simp: mgr_inv_def)
  then show ?thesis
    using assms(1) w rest_target
    by (auto simp: argus_state_core_recover_def preempted_def reject_defs mgr_inv_def quiet_state_def Let_def)
qed

lemma evaluate_keeps: "inv w \<Longrightarrow> inv (argus_state_core_evaluate_periodic a g r e (fst w), snd w)"
  by (auto simp: argus_state_core_evaluate_periodic_def mgr_inv_def quiet_state_def Let_def)

lemmas command_keeps = set_target_keeps start_keeps stop_normal_keeps unlock_keeps estop_keeps(1)
  reset_keeps recover_keeps evaluate_keeps

lemma mgr_step_keeps:
  assumes "mgr_step OPS bg w w'" "inv w"
  shows "inv w'"
  using assms
proof (induction rule: mgr_step.induct)
  case (ms_background w m)
  then show ?case
    using background_ok [of "snd w" m] by (auto simp: mgr_inv_def)
qed (auto simp: argus_state_mgr_set_target_def argus_state_mgr_start_def argus_state_mgr_stop_normal_def
    argus_state_mgr_unlock_def argus_state_mgr_estop_def argus_state_mgr_reset_estop_def
    argus_state_mgr_recover_def with_command_mutex_def intro: command_keeps)

lemma mgr_run_keeps: "(mgr_step OPS bg)\<^sup>*\<^sup>* w w' \<Longrightarrow> inv w \<Longrightarrow> inv w'"
  by (induction rule: rtranclp_induct) (auto intro: mgr_step_keeps)

end

section \<open>The production table satisfies the contract\<close>

definition production_ops_ok :: "trajectory motion_ops \<Rightarrow> bool" where
  "production_ops_ok ops \<longleftrightarrow> (\<exists>h hs. mutex_granted h \<and> (\<forall>h'\<in>set hs. mutex_granted h')
     \<and> ops = s_production_ops h (argus_trajectory_task hs))"

lemma halt_ops_rest:
  assumes "traj_inv t" "he_mutex_take e"
  shows "at_rest (snd (argus_trajectory_stop_immediate e t))"
    and "at_rest (snd (argus_trajectory_unlock e t))"
proof -
  note g = traj_invD(1) [OF assms(1)]
  have timer: "sg_timer (tr_gen t)" using g by (simp add: inv_defs)
  have ok: "argus_step_gen_disable_driver e (tr_gen t)
      = (ESP_OK, snd (argus_step_gen_disable_driver e (tr_gen t)))"
    using g assms(2) by (simp add: argus_step_gen_disable_driver_def inv_defs Let_def)
  show "at_rest (snd (argus_trajectory_stop_immediate e t))"
    using stop_immediate_halts [OF timer assms(2) refl]
    by (simp add: at_rest_def argus_trajectory_stop_immediate_def zero_motion_def)
  show "at_rest (snd (argus_trajectory_unlock e t))"
    using disable_driver_halts [OF ok g]
    by (simp add: at_rest_def argus_trajectory_unlock_def zero_motion_def)
qed

lemma task_rest:
  "at_rest t \<Longrightarrow> traj_inv t \<Longrightarrow> \<forall>h\<in>set hs. mutex_granted h \<Longrightarrow> at_rest (argus_trajectory_task hs t)"
  by (induction hs arbitrary: t) (simp_all add: argus_trajectory_task_def tick_at_rest tick_inv)

lemma halted_frame [simp]:
  "halted (argus_step_gen_clear_error g) = halted g" "halted (hw (Task_Delay_Ms n) g) = halted g"
  by (simp_all add: halted_def argus_step_gen_clear_error_def hw_def)

lemma recover_rest:
  assumes "traj_inv t" "mutex_granted h" "\<forall>h'\<in>set hs. mutex_granted h'"
  shows "at_rest (snd (argus_trajectory_recover h (argus_trajectory_task hs) t))"
proof -
  let ?g1 = "snd (argus_step_gen_stop_immediate (h 0) (tr_gen t))"
  let ?g2 = "snd (argus_step_gen_disable_driver (h 1) ?g1)"
  let ?t1 = "clear_error_locked ((zero_motion t)\<lparr> tr_gen := ?g2 \<rparr>)"
  let ?t2 = "?t1\<lparr> tr_gen := hw (Task_Delay_Ms 500) (tr_gen ?t1) \<rparr>"
  have i1: "step_gen_inv ?g1" by (rule inv_stop_immediate [OF traj_invD(1) [OF assms(1)]])
  have "argus_step_gen_disable_driver (h 1) ?g1 = (ESP_OK, ?g2)"
    using i1 assms(2) by (simp add: argus_step_gen_disable_driver_def inv_defs mutex_granted_def Let_def)
  then have "halted ?g2" using disable_driver_halts i1 by blast
  then have r: "at_rest ?t1" "at_rest ?t2"
    by (simp_all add: at_rest_def clear_error_locked_def zero_motion_def)
  have t1: "traj_inv ?t1"
    using assms(1) i1 traj_invD [OF assms(1)]
    by (intro clear_error_inv traj_gen_update zero_motion_inv inv_disable_driver) (simp_all add: synced_ops)
  have "traj_inv ?t2"
    using t1 traj_invD [OF t1] by (intro traj_gen_update inv_hw_other) (simp_all add: synced_ops)
  with r task_rest [OF r(2) _ assms(3)] show ?thesis
    by (simp add: argus_trajectory_recover_def split_beta Let_def)
qed

lemma stop_normal_effect:
  assumes "traj_inv t"
  shows "tr_target_rpm_milli (snd (argus_trajectory_stop_normal e t)) = 0"
    and "at_rest t \<Longrightarrow> at_rest (snd (argus_trajectory_stop_normal e t))"
  using assms
  by (auto simp: argus_trajectory_stop_normal_def argus_trajectory_set_target_rpm_milli_def at_rest_def
      traj_inv_def traj_cfg_ok_def Let_def split: option.splits)

lemma enable_driver_target:
  "tr_target_rpm_milli (snd (argus_trajectory_enable_driver e t)) = tr_target_rpm_milli t"
  by (simp add: argus_trajectory_enable_driver_def split_beta)

lemma quiet_step_frame: "quiet_step t t' \<Longrightarrow> tr_target_rpm_milli t' = tr_target_rpm_milli t"
  by (induction rule: quiet_step.induct) simp_all

lemma quiet_step_inv: "quiet_step t t' \<Longrightarrow> traj_inv t \<Longrightarrow> traj_inv t'"
  by (induction rule: quiet_step.induct) (auto intro: tick_inv traj_step_inv [OF tj_isr])

lemma stop_normal_inv: "traj_inv t \<Longrightarrow> traj_inv (snd (argus_trajectory_stop_normal e t))"
  by (simp add: argus_trajectory_stop_normal_def set_target_inv)

lemma recover_task_inv:
  "traj_inv t \<Longrightarrow> \<forall>h'\<in>set hs. mutex_granted h' \<Longrightarrow>
     traj_inv (snd (argus_trajectory_recover h (argus_trajectory_task hs) t))"
  by (auto intro: recover_inv task_inv)

text \<open>The table's entries, evaluated: none of them touches the core.\<close>

lemma prod_calls:
  "call_op (Some (s_production_ops h wt)) op_enable_driver (c, m)
     = (fst (argus_trajectory_enable_driver (h 0) m), c, snd (argus_trajectory_enable_driver (h 0) m))"
  "call_op (Some (s_production_ops h wt)) (\<lambda>t. map_option (\<lambda>f. f r d) (op_set_target_rate t)) (c, m)
     = (fst (argus_trajectory_set_target_rpm_milli (h 1) r d m), c,
        snd (argus_trajectory_set_target_rpm_milli (h 1) r d m))"
  "call_op (Some (s_production_ops h wt)) op_stop_normal (c, m)
     = (fst (argus_trajectory_stop_normal (h 0) m), c, snd (argus_trajectory_stop_normal (h 0) m))"
  "call_op (Some (s_production_ops h wt)) op_disable_driver (c, m)
     = (fst (argus_trajectory_unlock (h 0) m), c, snd (argus_trajectory_unlock (h 0) m))"
  "call_op (Some (s_production_ops h wt)) op_stop_immediate (c, m)
     = (fst (argus_trajectory_stop_immediate (h 0) m), c, snd (argus_trajectory_stop_immediate (h 0) m))"
  "call_op (Some (s_production_ops h wt)) op_recover (c, m)
     = (fst (argus_trajectory_recover h wt m), c, snd (argus_trajectory_recover h wt m))"
  by (simp_all add: call_op_def s_production_ops_def lift_motion_def split_beta)

lemma mutex_grantedD: "mutex_granted h \<Longrightarrow> he_mutex_take (h i)"
  by (simp add: mutex_granted_def)

lemma production_opsE:
  assumes "production_ops_ok ops"
  obtains h hs where "mutex_granted h" "\<forall>h'\<in>set hs. mutex_granted h'"
    "ops = s_production_ops h (argus_trajectory_task hs)"
  using assms by (auto simp: production_ops_ok_def)

interpretation prod: motion_contract production_ops_ok quiet_step traj_inv tr_target_rpm_milli at_rest
proof
  fix ops :: "trajectory motion_ops" and m :: trajectory and c r d
  assume "production_ops_ok ops" and m: "traj_inv m"
  then obtain h hs where h: "mutex_granted h" "\<forall>h'\<in>set hs. mutex_granted h'"
    and ops: "ops = s_production_ops h (argus_trajectory_task hs)" by (elim production_opsE)
  show "\<exists>e m'. call_op (Some ops) op_enable_driver (c, m) = (e, c, m') \<and> traj_inv m'
      \<and> tr_target_rpm_milli m' = tr_target_rpm_milli m"
    using m by (simp add: ops prod_calls stop_ops_inv enable_driver_target)
  show "\<exists>e m'. call_op (Some ops) (\<lambda>t. map_option (\<lambda>f. f r d) (op_set_target_rate t)) (c, m) = (e, c, m')
      \<and> traj_inv m'"
    using m by (simp add: ops prod_calls set_target_inv)
  show "\<exists>e m'. call_op (Some ops) op_stop_normal (c, m) = (e, c, m') \<and> traj_inv m'
      \<and> tr_target_rpm_milli m' = 0 \<and> (at_rest m \<longrightarrow> at_rest m')"
    using m by (simp add: ops prod_calls stop_normal_inv stop_normal_effect)
  show "\<exists>e m'. call_op (Some ops) op_disable_driver (c, m) = (e, c, m') \<and> traj_inv m' \<and> at_rest m'"
    using m h by (simp add: ops prod_calls stop_ops_inv halt_ops_rest mutex_grantedD)
  show "\<exists>e m'. call_op (Some ops) op_stop_immediate (c, m) = (e, c, m') \<and> traj_inv m' \<and> at_rest m'"
    using m h by (simp add: ops prod_calls stop_ops_inv halt_ops_rest mutex_grantedD)
  show "\<exists>e m'. call_op (Some ops) op_recover (c, m) = (e, c, m') \<and> traj_inv m' \<and> at_rest m'"
    using m h by (simp add: ops prod_calls recover_task_inv recover_rest)
next
  fix m assume "at_rest m" then show "tr_target_rpm_milli m = 0" by (simp add: at_rest_def)
next
  fix m m' assume "quiet_step m m'" "traj_inv m"
  then show "traj_inv m' \<and> tr_target_rpm_milli m' = tr_target_rpm_milli m \<and> (at_rest m \<longrightarrow> at_rest m')"
    using quiet_step_rest [of m m'] by (auto dest: quiet_step_frame quiet_step_inv)
qed

section \<open>Properties\<close>

text \<open>The production system: the manager over the ramp engine, from start-up.\<close>

definition prod_step :: "state_core \<times> trajectory \<Rightarrow> state_core \<times> trajectory \<Rightarrow> bool" where
  "prod_step = mgr_step production_ops_ok quiet_step"

definition prod_reachable :: "argus_config \<Rightarrow> state_core \<times> trajectory \<Rightarrow> bool" where
  "prod_reachable cfg w \<longleftrightarrow> (\<exists>(production :: trajectory motion_ops) t. traj_reachable cfg t \<and> tr_target_rpm_milli t = 0
     \<and> prod_step\<^sup>*\<^sup>* (fst (argus_state_core_init production None), t) w)"

lemma prod_reachable_inv:
  assumes "prod_reachable cfg w" "motion_config_ok cfg"
  shows "mgr_inv traj_inv tr_target_rpm_milli at_rest w"
proof -
  obtain production :: "trajectory motion_ops" and t where t: "traj_reachable cfg t" "tr_target_rpm_milli t = 0"
    and run: "prod_step\<^sup>*\<^sup>* (fst (argus_state_core_init production None), t) w"
    using assms(1) by (auto simp: prod_reachable_def)
  have "mgr_inv traj_inv tr_target_rpm_milli at_rest (fst (argus_state_core_init production None), t)"
    using t traj_reachable_inv [OF t(1) assms(2)]
    by (simp add: mgr_inv_def argus_state_core_init_def)
  with run show ?thesis
    unfolding prod_step_def by (rule prod.mgr_run_keeps)
qed

lemma prod_boot_reachable:
  "prod_reachable (argus_config_defaults [] [])
     (fst (argus_state_core_init (s_production_ops h wt) None), traj_booted)"
  unfolding prod_reachable_def using traj_booted_reachable
  by (intro exI [of _ "s_production_ops h wt"] exI [of _ traj_booted]) simp

lemma ok_ops: "production_ops_ok (s_production_ops (\<lambda>i. hw_ok) (argus_trajectory_task []))"
  unfolding production_ops_ok_def by (rule exI [of _ "\<lambda>i. hw_ok"], rule exI [of _ "[]"]) simp

definition prod_estopped :: "state_core \<times> trajectory" where
  "prod_estopped = snd (argus_state_mgr_estop (Some (s_production_ops (\<lambda>i. hw_ok) (argus_trajectory_task [])))
     (fst (argus_state_core_init (s_production_ops (\<lambda>i. hw_ok) id) None), traj_booted))"

lemma prod_estopped_reachable: "prod_reachable (argus_config_defaults [] []) prod_estopped"
proof -
  let ?w = "(fst (argus_state_core_init (s_production_ops (\<lambda>i. hw_ok) id) None), traj_booted)"
  have "prod_step ?w prod_estopped"
    unfolding prod_step_def prod_estopped_def by (intro ms_estop ok_ops)
  then show ?thesis
    unfolding prod_reachable_def using traj_booted_reachable
    by (intro exI [of _ "s_production_ops (\<lambda>i. hw_ok) id"] exI [of _ traj_booted]) auto
qed

text \<open>
  C1: While the emergency stop is latched, the motor is not driven. In every reachable
  state of the production system, under any interleaving of commands, evaluator periods,
  ramp ticks and pulse interrupts, a latched emergency stop means that no speed is commanded
  or applied, the pulse engine is not running and the STEP pin is inactive; and the state
  EMERGENCY_STOPPED is never left latched off.
\<close>

theorem estop_latched_at_rest:
  assumes "prod_reachable cfg w" and "motion_config_ok cfg" and "sc_estop_latched (fst w)"
  shows "tr_target_rpm_milli (snd w) = 0 \<and> tr_applied_rpm_milli (snd w) = 0
    \<and> \<not> sg_running (tr_gen (snd w))
    \<and> gpio_level (sg_log (tr_gen (snd w))) (sg_step_gpio (tr_gen (snd w)))
        = Some (sg_step_inactive_level (tr_gen (snd w)))"
  using prod_reachable_inv [OF assms(1,2)] assms(3)
  by (simp add: mgr_inv_def at_rest_def halted_def)

theorem estop_latched_at_rest_witness:
  "tr_applied_rpm_milli (snd prod_estopped) = 0 \<and> \<not> sg_running (tr_gen (snd prod_estopped))"
proof -
  have "sc_estop_latched (fst prod_estopped)"
    by (simp add: prod_estopped_def argus_state_mgr_estop_def argus_state_core_estop_def prod_calls
        argus_state_core_init_def Let_def)
  then show ?thesis
    using estop_latched_at_rest [OF prod_estopped_reachable default_motion_config_ok] by simp
qed

text \<open>
  Motion needs a motion state. In every reachable state of the production system whose
  machine state is UNLOCKED, HOLDING, DECELERATING, EMERGENCY_STOPPED or RECOVERING, the speed
  commanded to the ramp engine is zero; only STARTING, RUNNING and FAULTED can have one.
\<close>

theorem idle_states_command_zero:
  assumes "prod_reachable cfg w" and "motion_config_ok cfg"
    and "sc_machine_state (fst w) \<in> {STATE_UNLOCKED, STATE_HOLDING, STATE_DECELERATING,
           STATE_EMERGENCY_STOPPED, STATE_RECOVERING}"
  shows "tr_target_rpm_milli (snd w) = 0"
  using prod_reachable_inv [OF assms(1,2)] assms(3) by (auto simp: mgr_inv_def quiet_state_def)

theorem idle_states_command_zero_witness:
  "tr_target_rpm_milli (snd (fst (argus_state_core_init (s_production_ops (\<lambda>i. hw_ok) id) None), traj_booted)) = 0"
  by (rule idle_states_command_zero [OF prod_boot_reachable default_motion_config_ok])
    (simp add: argus_state_core_init_def)

text \<open>
  An emergency stop preempts a start in flight. Whatever the operation table does, if
  the driver enable returns with the emergency stop latched or a newer command generation,
  the start is refused and no speed is commanded: the motion layer stays as the enable left it.
\<close>

theorem start_preempted:
  assumes "\<not> sc_estop_latched c" and "sc_machine_state c \<in> {STATE_UNLOCKED, STATE_HOLDING}"
    and "0 < sc_configured_target_rpm_milli c"
    and "op_enable_driver ops = Some f"
    and "f (c\<lparr> sc_machine_state := STATE_STARTING \<rparr>, m) = (err, c', m')"
    and "sc_estop_latched c' \<or> sc_command_generation c' \<noteq> sc_command_generation c"
  shows "argus_state_core_start (Some ops) (c, m)
    = (ESP_ERR_INVALID_STATE,
       c'\<lparr> sc_last_rejection_reason := ''Start aborted: E-stop latched during driver enable'' \<rparr>, m')"
  using assms
  by (auto simp: argus_state_core_start_def call_op_def preempted_def reject_defs Let_def)

definition preempting_ops :: "nat motion_ops" where
  "preempting_ops =
     \<lparr> op_enable_driver = Some (\<lambda>w. (ESP_OK, snd (argus_state_core_estop None w))),
       op_disable_driver = None, op_set_direction = None,
       op_set_target_rate = Some (\<lambda>r d w. (ESP_OK, fst w, nat r)),
       op_stop_immediate = None, op_stop_normal = None, op_recover = None, op_get_error = None \<rparr>"

theorem start_preempted_witness:
  "snd (snd (argus_state_core_start (Some preempting_ops)
     ((fst (argus_state_core_init preempting_ops None))\<lparr> sc_configured_target_rpm_milli := 500 \<rparr>, 0))) = 0"
proof -
  let ?c = "(fst (argus_state_core_init preempting_ops None))\<lparr> sc_configured_target_rpm_milli := 500 \<rparr>"
  let ?w = "snd (argus_state_core_estop None (?c\<lparr> sc_machine_state := STATE_STARTING \<rparr>, 0 :: nat))"
  have w: "?w = (fst ?w, 0)" "sc_estop_latched (fst ?w)"
    by (simp_all add: argus_state_core_estop_def call_op_def Let_def)
  have "argus_state_core_start (Some preempting_ops) (?c, 0) =
      (ESP_ERR_INVALID_STATE,
       (fst ?w)\<lparr> sc_last_rejection_reason := ''Start aborted: E-stop latched during driver enable'' \<rparr>, 0)"
    by (rule start_preempted [where f = "\<lambda>w. (ESP_OK, snd (argus_state_core_estop None w))"])
      (use w in \<open>simp_all add: argus_state_core_init_def preempting_ops_def\<close>)
  then show ?thesis by simp
qed

text \<open>
  A successful start commands exactly the configured target. In the production system,
  from a reachable state in which a start succeeds out of UNLOCKED or HOLDING, the machine is
  STARTING, the ramp engine's target is the configured target, and its commanded direction
  the requested one.
\<close>

theorem start_commands_target:
  assumes "prod_reachable cfg (c, t)" and "motion_config_ok cfg"
    and "max_rpm t = 200000"
    and "production_ops_ok ops" and "sc_machine_state c \<in> {STATE_UNLOCKED, STATE_HOLDING}"
    and "argus_state_mgr_start True (Some ops) (c, t) = (ESP_OK, c', t')"
  shows "sc_machine_state c' = STATE_STARTING
    \<and> tr_target_rpm_milli t' = sc_configured_target_rpm_milli c
    \<and> tr_target_forward t' = sc_requested_forward c \<and> 0 < tr_target_rpm_milli t'"
proof -
  note inv = prod_reachable_inv [OF assms(1,2)]
  obtain h hs where ops: "ops = s_production_ops h (argus_trajectory_task hs)"
    using assms(4) by (elim production_opsE)
  let ?c = "c\<lparr> sc_machine_state := STATE_STARTING \<rparr>"
  let ?t1 = "snd (argus_trajectory_enable_driver (h 0) t)"
  let ?r = "sc_configured_target_rpm_milli c" and ?d = "sc_requested_forward c"
  let ?t2 = "snd (argus_trajectory_set_target_rpm_milli (h 1) ?r ?d ?t1)"
  have r: "0 < ?r" "?r \<le> 200000" and res: "c' = ?c" "t' = ?t2"
    using assms(5,6) inv
    by (auto simp: argus_state_mgr_start_def with_command_mutex_def argus_state_core_start_def ops
        prod_calls preempted_def reject_defs mgr_inv_def Let_def split: if_splits prod.splits)
  have "max_rpm ?t1 = 200000" "tr_cfg t \<noteq> None" "tr_cfg ?t1 = tr_cfg t"
    using assms(3) by (auto simp: argus_trajectory_enable_driver_def max_rpm_def split_beta split: option.splits)
  then show ?thesis
    using r unfolding res
    by (auto simp: argus_trajectory_set_target_rpm_milli_def max_rpm_def Let_def split: option.splits)
qed

definition prod_armed :: "state_core \<times> trajectory" where
  "prod_armed = ((fst (argus_state_core_init (s_production_ops (\<lambda>i. hw_ok) id) None))
     \<lparr> sc_configured_target_rpm_milli := 500, sc_requested_forward := False \<rparr>, traj_booted)"

lemma prod_armed_reachable: "prod_reachable (argus_config_defaults [] []) prod_armed"
proof -
  let ?ops = "s_production_ops (\<lambda>i. hw_ok) (argus_trajectory_task [])"
  let ?w = "(fst (argus_state_core_init (s_production_ops (\<lambda>i. hw_ok) id) None), traj_booted)"
  have armed: "prod_armed = snd (argus_state_mgr_set_target True (Some ?ops) 500 False ?w)"
    by (simp add: prod_armed_def argus_state_mgr_set_target_def with_command_mutex_def
        argus_state_core_set_target_def argus_state_core_init_def Let_def)
  have "prod_step ?w prod_armed"
    unfolding prod_step_def armed by (intro ms_set_target ok_ops)
  then show ?thesis
    unfolding prod_reachable_def using traj_booted_reachable
    by (intro exI [of _ "s_production_ops (\<lambda>i. hw_ok) id"] exI [of _ traj_booted]) auto
qed

theorem start_commands_target_witness:
  "tr_target_rpm_milli (snd (snd (argus_state_mgr_start True
     (Some (s_production_ops (\<lambda>i. hw_ok) (argus_trajectory_task []))) prod_armed))) = 500"
proof -
  let ?ops = "s_production_ops (\<lambda>i. hw_ok) (argus_trajectory_task [])"
  let ?r = "argus_state_mgr_start True (Some ?ops) prod_armed"
  have g: "step_gen_inv (tr_gen traj_booted)"
    using traj_invD(1) traj_reachable_inv [OF traj_booted_reachable default_motion_config_ok] by blast
  have en: "fst (argus_trajectory_enable_driver hw_ok traj_booted) = ESP_OK"
    using g by (simp add: argus_trajectory_enable_driver_def argus_step_gen_enable_driver_def
        inv_defs hw_ok_def)
  have cfg: "tr_cfg (snd (argus_trajectory_enable_driver hw_ok traj_booted)) \<noteq> None"
    by (simp add: argus_trajectory_enable_driver_def split_beta)
  then have rate: "fst (argus_trajectory_set_target_rpm_milli hw_ok r d
      (snd (argus_trajectory_enable_driver hw_ok traj_booted))) = ESP_OK" for r d
    by (auto simp: argus_trajectory_set_target_rpm_milli_def Let_def)
  have "fst ?r = ESP_OK"
    using en rate
    by (simp add: prod_armed_def argus_state_mgr_start_def with_command_mutex_def
        argus_state_core_start_def prod_calls preempted_def argus_state_core_init_def Let_def split_beta)
  then have r: "argus_state_mgr_start True (Some ?ops) (fst prod_armed, snd prod_armed)
      = (ESP_OK, fst (snd ?r), snd (snd ?r))" by (metis prod.collapse)
  have "prod_reachable (argus_config_defaults [] []) (fst prod_armed, snd prod_armed)"
    using prod_armed_reachable by simp
  from start_commands_target [OF this default_motion_config_ok _ ok_ops _ r]
  show ?thesis
    by (simp add: prod_armed_def max_rpm_def argus_state_core_init_def) (simp add: argus_config_defaults_def)
qed

text \<open>
  A fault can be left without recovery. From FAULTED, with a motion layer that only
  touches itself, an emergency stop followed by its reset leads to HOLDING with the latch
  cleared and the old fault code still stored, from where a start is accepted again.
\<close>

theorem fault_escape:
  assumes "sc_machine_state c = STATE_FAULTED"
    and "op_stop_immediate ops = Some (\<lambda>w. (e, fst w, f (snd w)))"
    and "argus_state_core_estop (Some ops) (c, m) = (e1, w1)"
    and "argus_state_core_reset_estop w1 = (e2, c2, m2)"
  shows "e1 = ESP_OK \<and> e2 = ESP_OK \<and> sc_machine_state c2 = STATE_HOLDING
    \<and> \<not> sc_estop_latched c2 \<and> sc_fault_code c2 = sc_fault_code c \<and> m2 = f m"
  using assms
  by (auto simp: argus_state_core_estop_def argus_state_core_reset_estop_def call_op_def Let_def)

theorem fault_escape_witness:
  "\<exists>c2 m2. argus_state_core_reset_estop (snd (argus_state_core_estop
      (Some (preempting_ops\<lparr> op_stop_immediate := Some (\<lambda>w. (ESP_OK, fst w, 0)) \<rparr>))
      ((fst (argus_state_core_init preempting_ops None))
         \<lparr> sc_machine_state := STATE_FAULTED, sc_fault_code := 7 \<rparr>, 3))) = (ESP_OK, c2, m2)
    \<and> sc_machine_state c2 = STATE_HOLDING \<and> sc_fault_code c2 = 7"
proof -
  let ?ops = "preempting_ops\<lparr> op_stop_immediate := Some (\<lambda>w. (ESP_OK, fst w, 0)) \<rparr>"
  let ?c = "(fst (argus_state_core_init preempting_ops None))
      \<lparr> sc_machine_state := STATE_FAULTED, sc_fault_code := 7 \<rparr>"
  let ?e = "argus_state_core_estop (Some ?ops) (?c, 3 :: nat)"
  let ?r = "argus_state_core_reset_estop (snd ?e)"
  have "fst ?e = ESP_OK \<and> fst ?r = ESP_OK \<and> sc_machine_state (fst (snd ?r)) = STATE_HOLDING
      \<and> \<not> sc_estop_latched (fst (snd ?r)) \<and> sc_fault_code (fst (snd ?r)) = sc_fault_code ?c
      \<and> snd (snd ?r) = (\<lambda>_. 0) (3 :: nat)"
    by (rule fault_escape [where ops = ?ops and e = ESP_OK]) simp_all
  then show ?thesis
    by (intro exI [of _ "fst (snd ?r)"] exI [of _ "snd (snd ?r)"]) (simp add: prod_eq_iff)
qed

text \<open>
  Recovering from an emergency stop strands the machine. With the emergency stop
  latched, a recovery whose motion call leaves the core alone is refused, but the machine
  state is left at RECOVERING, where the emergency-stop reset is refused too.
\<close>

theorem recover_while_latched_strands:
  assumes "sc_machine_state c = STATE_EMERGENCY_STOPPED" and "sc_estop_latched c"
    and "op_recover ops = Some (\<lambda>w. (e, fst w, f (snd w)))"
    and "argus_state_core_recover (Some ops) (c, m) = (e1, c1, m1)"
  shows "e1 = ESP_ERR_INVALID_STATE \<and> sc_machine_state c1 = STATE_RECOVERING \<and> sc_estop_latched c1
    \<and> fst (argus_state_core_reset_estop (c1, m1)) = ESP_ERR_INVALID_STATE
    \<and> sc_machine_state (fst (snd (argus_state_core_reset_estop (c1, m1)))) = STATE_RECOVERING"
  using assms
  by (auto simp: argus_state_core_recover_def argus_state_core_reset_estop_def call_op_def
      preempted_def reject_defs Let_def)

theorem recover_while_latched_strands_witness:
  "sc_machine_state (fst (snd (argus_state_core_recover
      (Some (preempting_ops\<lparr> op_recover := Some (\<lambda>w. (ESP_OK, fst w, 0)) \<rparr>))
      ((fst (argus_state_core_init preempting_ops None))
         \<lparr> sc_machine_state := STATE_EMERGENCY_STOPPED, sc_estop_latched := True \<rparr>, 3)))) = STATE_RECOVERING"
proof -
  let ?ops = "preempting_ops\<lparr> op_recover := Some (\<lambda>w. (ESP_OK, fst w, 0)) \<rparr>"
  let ?c = "(fst (argus_state_core_init preempting_ops None))
      \<lparr> sc_machine_state := STATE_EMERGENCY_STOPPED, sc_estop_latched := True \<rparr>"
  let ?r = "argus_state_core_recover (Some ?ops) (?c, 3 :: nat)"
  show ?thesis
    using recover_while_latched_strands [of ?c ?ops ESP_OK "\<lambda>_. 0" 3 "fst ?r" "fst (snd ?r)" "snd (snd ?r)"]
    by simp
qed

end
