(* ===== verification/Cmd_Router.thy ===== *)
theory Cmd_Router
  imports Authority State_Mgr_Props
begin

text \<open>
  The command router (\<open>argus_cmd_router.c\<close>): every command passes the authority gate and
  then one state-manager operation, all under the dispatch mutex. The router's state is the
  authority manager and the machine; \<open>granted\<close> and \<open>ops\<close> are the arguments of the
  state-manager calls. The lazily created mutex has no other effect.
\<close>

section \<open>Dispatch\<close>

type_synonym 'm router = "authority_mgr \<times> (state_core \<times> 'm)"

definition argus_cmd_router_dispatch ::
  "bool \<Rightarrow> 'm motion_ops option \<Rightarrow> command_envelope option \<Rightarrow> 'm router \<Rightarrow> esp_err \<times> 'm router" where
  "argus_cmd_router_dispatch granted ops env r =
     (case env of
        None \<Rightarrow> (ESP_ERR_INVALID_ARG, r)
      | Some e \<Rightarrow>
          if env_source e = CMD_SRC_INTERNAL_SAFETY \<or> env_command_type e = CMD_TYPE_ESTOP
          then (case argus_state_mgr_estop ops (snd r) of (err, w) \<Rightarrow> (err, fst r, w))
          else
            (let ((err, snap), a) = argus_authority_mgr_get_snapshot (fst r)
             in if err \<noteq> ESP_OK then (err, a, snd r)
                else if env_authority_generation e \<noteq> as_generation snap
                then (ESP_ERR_INVALID_STATE, a, snd r)
                else if \<not> argus_authority_validate_permission (Some snap) (env_source e) (env_command_type e)
                then (ESP_ERR_INVALID_STATE, a, snd r)
                else
                  (let (res, w) =
                     (case env_command_type e of
                        CMD_TYPE_SET_TARGET \<Rightarrow>
                          argus_state_mgr_set_target granted ops (env_target_rpm_milli e) (env_forward e) (snd r)
                      | CMD_TYPE_START \<Rightarrow> argus_state_mgr_start granted ops (snd r)
                      | CMD_TYPE_STOP_NORMAL \<Rightarrow> argus_state_mgr_stop_normal granted ops (snd r)
                      | CMD_TYPE_UNLOCK \<Rightarrow> argus_state_mgr_unlock granted ops (snd r)
                      | CMD_TYPE_RESET_ESTOP \<Rightarrow> argus_state_mgr_reset_estop granted (snd r)
                      | CMD_TYPE_RECOVER \<Rightarrow> argus_state_mgr_recover granted ops (snd r)
                      | CMD_TYPE_ESTOP \<Rightarrow> (ESP_ERR_INVALID_ARG, snd r))
                   in (res, a, w))))"

definition argus_cmd_router_check_authority ::
  "command_envelope option \<Rightarrow> authority_mgr \<Rightarrow> esp_err \<times> authority_mgr" where
  "argus_cmd_router_check_authority env a =
     (case env of
        None \<Rightarrow> (ESP_ERR_INVALID_ARG, a)
      | Some e \<Rightarrow>
          if env_source e = CMD_SRC_INTERNAL_SAFETY \<or> env_command_type e = CMD_TYPE_ESTOP
          then (ESP_OK, a)
          else
            (let ((err, snap), a1) = argus_authority_mgr_get_snapshot a
             in if err \<noteq> ESP_OK then (err, a1)
                else if env_authority_generation e \<noteq> as_generation snap
                then (ESP_ERR_INVALID_STATE, a1)
                else if \<not> argus_authority_validate_permission (Some snap) (env_source e) (env_command_type e)
                then (ESP_ERR_INVALID_STATE, a1)
                else (ESP_OK, a1)))"

section \<open>Properties\<close>

text \<open>The state-manager call an authorised envelope stands for.\<close>

definition command_effect ::
  "bool \<Rightarrow> 'm motion_ops option \<Rightarrow> command_envelope \<Rightarrow> 'm motion_call" where
  "command_effect granted ops e w =
     (if env_source e = CMD_SRC_INTERNAL_SAFETY then argus_state_mgr_estop ops w
      else case env_command_type e of
        CMD_TYPE_SET_TARGET \<Rightarrow>
          argus_state_mgr_set_target granted ops (env_target_rpm_milli e) (env_forward e) w
      | CMD_TYPE_START \<Rightarrow> argus_state_mgr_start granted ops w
      | CMD_TYPE_STOP_NORMAL \<Rightarrow> argus_state_mgr_stop_normal granted ops w
      | CMD_TYPE_UNLOCK \<Rightarrow> argus_state_mgr_unlock granted ops w
      | CMD_TYPE_RESET_ESTOP \<Rightarrow> argus_state_mgr_reset_estop granted w
      | CMD_TYPE_RECOVER \<Rightarrow> argus_state_mgr_recover granted ops w
      | CMD_TYPE_ESTOP \<Rightarrow> argus_state_mgr_estop ops w)"

text \<open>
  The authority probe decides the dispatch: when it accepts the envelope the state-manager
  call of \<open>command_effect\<close> runs, otherwise the probe's error is returned with the machine
  untouched. An envelope of the internal safety source is always accepted and always runs the
  emergency stop, whatever command it names.
\<close>

lemma dispatch_equals_probe:
  "argus_cmd_router_dispatch granted ops (Some e) (a, w) =
     (case argus_cmd_router_check_authority (Some e) a of
        (err, a') \<Rightarrow>
          if err = ESP_OK
          then (fst (command_effect granted ops e w), a', snd (command_effect granted ops e w))
          else (err, a', w))"
  by (cases "env_command_type e")
    (simp_all add: argus_cmd_router_dispatch_def argus_cmd_router_check_authority_def
      command_effect_def argus_authority_mgr_get_snapshot_def Let_def split_beta)

text \<open>
  Who may move the machine: an envelope is a safety request when it asks for an emergency
  stop or comes from the internal safety source; the other envelopes are ordinary, and each
  authority state gives control to at most one source of them.
\<close>

definition safety_request :: "command_envelope \<Rightarrow> bool" where
  "safety_request e \<longleftrightarrow> env_source e = CMD_SRC_INTERNAL_SAFETY \<or> env_command_type e = CMD_TYPE_ESTOP"

definition controls :: "authority_core \<Rightarrow> cmd_source \<Rightarrow> bool" where
  "controls c s \<longleftrightarrow> (au_mode c, au_owner c, s) \<in>
     {(AUTHORITY_SUPERVISORY, AUTH_OWNER_MQTT, CMD_SRC_MQTT_SUPERVISORY),
      (AUTHORITY_LOCAL_SERVICE, AUTH_OWNER_BROWSER, CMD_SRC_LOCAL_SERVICE_PORTAL),
      (AUTHORITY_LOCAL_SERVICE, AUTH_OWNER_DIAGNOSTIC_CLI, CMD_SRC_CLI_DIAGNOSTIC)}"

lemma controls_unique: "controls c s \<Longrightarrow> controls c t \<Longrightarrow> s = t"
  by (auto simp: controls_def)

lemma snapshot_reads:
  "fst (fst (argus_authority_mgr_get_snapshot a)) = ESP_OK"
  "as_mode (snd (fst (argus_authority_mgr_get_snapshot a))) = au_mode (am_core (snd (argus_authority_mgr_get_snapshot a)))"
  "as_owner (snd (fst (argus_authority_mgr_get_snapshot a))) = au_owner (am_core (snd (argus_authority_mgr_get_snapshot a)))"
  "as_generation (snd (fst (argus_authority_mgr_get_snapshot a))) = au_generation (am_core (snd (argus_authority_mgr_get_snapshot a)))"
  by (simp_all add: argus_authority_mgr_get_snapshot_def Let_def)

lemma permission_controls:
  assumes "authority_pair_ok c" "as_mode snap = au_mode c" "as_owner snap = au_owner c" "\<not> safety_request e"
  shows "argus_authority_validate_permission (Some snap) (env_source e) (env_command_type e)
    \<longleftrightarrow> controls c (env_source e)"
  using assms unfolding authority_pair_ok_def validate_pair_cases
  by (auto simp: argus_authority_validate_permission_def controls_def safety_request_def)

lemma dispatch_ordinary:
  assumes "authority_step\<^sup>*\<^sup>* authority_boot a" "\<not> safety_request e"
    and "b = snd (argus_authority_mgr_get_snapshot a)"
  shows "argus_cmd_router_dispatch granted ops (Some e) (a, w) =
    (if env_authority_generation e = au_generation (am_core b) \<and> controls (am_core b) (env_source e)
     then (fst (command_effect granted ops e w), b, snd (command_effect granted ops e w))
     else (ESP_ERR_INVALID_STATE, b, w))"
proof -
  have "authority_step\<^sup>*\<^sup>* authority_boot b"
    using assms(1,3) at_read by (metis rtranclp.rtrancl_into_rtrancl)
  note perm = permission_controls [OF authority_reachable_pair [OF this] _ _ assms(2),
      of "snd (fst (argus_authority_mgr_get_snapshot a))"]
  have "argus_cmd_router_check_authority (Some e) a =
    (if env_authority_generation e = au_generation (am_core b) \<and> controls (am_core b) (env_source e)
     then (ESP_OK, b) else (ESP_ERR_INVALID_STATE, b))"
    using assms(2) perm [unfolded snapshot_reads assms(3), OF refl refl]
    unfolding argus_cmd_router_check_authority_def safety_request_def assms(3)
    by (simp add: split_beta Let_def snapshot_reads)
  then show ?thesis by (simp add: dispatch_equals_probe)
qed

text \<open>
  C4: The router gives the machine to one controller at a time, exactly. In every authority
  state the manager can reach, a safety request (an emergency stop, or any envelope of the
  internal safety source, whatever command it names) runs the emergency stop and nothing
  else. Every other envelope runs the state-manager operation of its command exactly when it
  carries the current generation and its source is the one that the current mode and owner
  put in control (MQTT, browser or diagnostic console); otherwise the answer is
  INVALID_STATE and the machine is untouched. So two such envelopes that both change the
  machine under one authority state, whatever the machine does in between, have the same
  source and the same generation.
\<close>

theorem dispatch_exclusive:
  assumes "authority_step\<^sup>*\<^sup>* authority_boot a"
  shows "let b = snd (argus_authority_mgr_get_snapshot a); c = am_core b in
    (\<forall>e w. argus_cmd_router_dispatch granted ops (Some e) (a, w) =
      (if safety_request e
       then (fst (argus_state_mgr_estop ops w), a, snd (argus_state_mgr_estop ops w))
       else if env_authority_generation e = au_generation c \<and> controls c (env_source e)
       then (fst (command_effect granted ops e w), b, snd (command_effect granted ops e w))
       else (ESP_ERR_INVALID_STATE, b, w)))
    \<and> (\<forall>e1 e2 w1 w2. \<not> safety_request e1 \<and> \<not> safety_request e2
         \<and> snd (snd (argus_cmd_router_dispatch granted ops (Some e1) (a, w1))) \<noteq> w1
         \<and> snd (snd (argus_cmd_router_dispatch granted ops (Some e2) (b, w2))) \<noteq> w2
       \<longrightarrow> env_source e1 = env_source e2
         \<and> env_authority_generation e1 = env_authority_generation e2)"
proof -
  let ?b = "snd (argus_authority_mgr_get_snapshot a)"
  have b: "authority_step\<^sup>*\<^sup>* authority_boot ?b"
    using assms at_read by (metis rtranclp.rtrancl_into_rtrancl)
  have again: "snd (argus_authority_mgr_get_snapshot ?b) = ?b"
    by (simp add: argus_authority_mgr_get_snapshot_def argus_authority_mgr_init_def Let_def)
  have safe: "argus_cmd_router_dispatch granted ops (Some e) (a, w)
      = (fst (argus_state_mgr_estop ops w), a, snd (argus_state_mgr_estop ops w))"
    if "safety_request e" for e w
    using that by (auto simp: argus_cmd_router_dispatch_def safety_request_def split_beta)
  note first = dispatch_ordinary [OF assms _ refl, of _ granted ops]
  note later = dispatch_ordinary [OF b _ again [symmetric], of _ granted ops]
  have unique: "env_source e1 = env_source e2 \<and> env_authority_generation e1 = env_authority_generation e2"
    if "\<not> safety_request e1" "\<not> safety_request e2"
      "snd (snd (argus_cmd_router_dispatch granted ops (Some e1) (a, w1))) \<noteq> w1"
      "snd (snd (argus_cmd_router_dispatch granted ops (Some e2) (?b, w2))) \<noteq> w2" for e1 e2 w1 w2
    using that(3,4) unfolding first [OF that(1)] later [OF that(2)]
    by (auto split: if_splits dest: controls_unique)
  have exact: "argus_cmd_router_dispatch granted ops (Some e) (a, w) =
      (if safety_request e
       then (fst (argus_state_mgr_estop ops w), a, snd (argus_state_mgr_estop ops w))
       else if env_authority_generation e = au_generation (am_core ?b) \<and> controls (am_core ?b) (env_source e)
       then (fst (command_effect granted ops e w), ?b, snd (command_effect granted ops e w))
       else (ESP_ERR_INVALID_STATE, ?b, w))" for e w
    by (cases "safety_request e") (simp_all only: safe first if_True if_False not_False_eq_True)
  show ?thesis
    unfolding Let_def by (rule conjI) (use exact in blast, use unique in blast)
qed

text \<open>
  C5: A stale ordinary command is refused. An envelope built under some state of the
  initialised authority manager, other than an emergency stop and from a source other than
  internal safety (those two always run the emergency stop), is rejected with the machine
  untouched after any nonempty sequence of fewer than 2^32 accepted authority changes,
  whatever modes and owners the sequence went through.
\<close>

theorem stale_generation_rejected:
  assumes "am_initialized a" and "env_authority_generation e = au_generation (am_core a)"
    and "env_source e \<noteq> CMD_SRC_INTERNAL_SAFETY" and "env_command_type e \<noteq> CMD_TYPE_ESTOP"
    and "\<forall>(m, ow)\<in>set ps. argus_authority_validate_pair m ow = ESP_OK"
    and "ps \<noteq> []" and "length ps < 2 ^ 32"
  shows "argus_cmd_router_dispatch granted ops (Some e) (authority_changes ps a, w)
    = (ESP_ERR_INVALID_STATE, authority_changes ps a, w)"
proof -
  note gen = authority_changes_generation [OF assms(1,5)]
  have "(of_nat (length ps) :: u32) \<noteq> 0"
  proof -
    have "unat (of_nat (length ps) :: u32) = length ps"
      using assms(7) by (simp add: unsigned_of_nat take_bit_nat_eq_self)
    then show ?thesis using assms(6) by (metis length_greater_0_conv less_irrefl unat_0)
  qed
  then show ?thesis
    using gen assms(2-4)
    by (simp add: argus_cmd_router_dispatch_def argus_authority_mgr_get_snapshot_def Let_def)
qed

definition start_env :: command_envelope where
  "start_env = \<lparr> env_source = CMD_SRC_MQTT_SUPERVISORY, env_command_type = CMD_TYPE_START,
                 env_authority_generation = 2, env_target_rpm_milli = 0, env_forward = True \<rparr>"

theorem dispatch_exclusive_witness:
  "fst (argus_cmd_router_dispatch True (Some preempting_ops)
      (Some (start_env\<lparr> env_source := CMD_SRC_CLI_DIAGNOSTIC \<rparr>))
      (authority_supervised, fst (argus_state_core_init preempting_ops None), 0)) = ESP_ERR_INVALID_STATE
   \<and> argus_cmd_router_dispatch True (Some preempting_ops) (Some start_env)
      (authority_supervised, fst (argus_state_core_init preempting_ops None), 0)
     = (fst (argus_state_mgr_start True (Some preempting_ops) (fst (argus_state_core_init preempting_ops None), 0)),
        authority_supervised,
        snd (argus_state_mgr_start True (Some preempting_ops) (fst (argus_state_core_init preempting_ops None), 0)))"
proof -
  have r: "authority_step\<^sup>*\<^sup>* authority_boot authority_supervised"
    unfolding authority_supervised_def by (intro r_into_rtranclp at_set_mode)
  have b: "snd (argus_authority_mgr_get_snapshot authority_supervised) = authority_supervised"
    "au_generation (am_core authority_supervised) = 2"
    "au_mode (am_core authority_supervised) = AUTHORITY_SUPERVISORY"
    "au_owner (am_core authority_supervised) = AUTH_OWNER_MQTT"
    by (simp_all add: authority_supervised_def authority_ops authority_boot_def Let_def)
  show ?thesis
    using dispatch_exclusive [OF r, of True "Some preempting_ops"]
    by (simp add: b Let_def start_env_def controls_def safety_request_def command_effect_def)
qed

theorem stale_generation_rejected_witness:
  "fst (argus_cmd_router_dispatch True (Some preempting_ops) (Some start_env)
     (authority_changes [(AUTHORITY_NONE, AUTH_OWNER_NONE), (AUTHORITY_SUPERVISORY, AUTH_OWNER_MQTT)]
        authority_supervised, fst (argus_state_core_init preempting_ops None), 0)) = ESP_ERR_INVALID_STATE"
  using stale_generation_rejected [of authority_supervised start_env
      "[(AUTHORITY_NONE, AUTH_OWNER_NONE), (AUTHORITY_SUPERVISORY, AUTH_OWNER_MQTT)]" True
      "Some preempting_ops" "(fst (argus_state_core_init preempting_ops None), 0)"]
  by (simp add: authority_supervised_def authority_boot_def argus_authority_mgr_set_mode_def
      argus_authority_mgr_init_def start_env_def Let_def)

text \<open>
  C6: An emergency stop is never refused. From any source, with any generation, in any
  authority state, dispatching it on the production machine leaves the machine
  EMERGENCY_STOPPED and latched with the motor at rest, when the machine state was reachable.
\<close>

theorem estop_never_refused:
  assumes "prod_reachable cfg w" and "motion_config_ok cfg" and "production_ops_ok ops"
    and "env_command_type e = CMD_TYPE_ESTOP"
    and "argus_cmd_router_dispatch granted (Some ops) (Some e) (a, w) = (err, a', w')"
  shows "err = ESP_OK \<and> sc_machine_state (fst w') = STATE_EMERGENCY_STOPPED
    \<and> sc_estop_latched (fst w') \<and> tr_applied_rpm_milli (snd w') = 0
    \<and> \<not> sg_running (tr_gen (snd w'))"
proof -
  note inv = prod_reachable_inv [OF assms(1,2)]
  have w': "w' = snd (argus_state_core_estop (Some ops) w)" "err = fst (argus_state_core_estop (Some ops) w)"
    using assms(4,5) by (auto simp: argus_cmd_router_dispatch_def argus_state_mgr_estop_def split: prod.splits)
  have "fst (argus_state_core_estop (Some ops) w) = ESP_OK"
    by (simp add: argus_state_core_estop_def Let_def)
  with prod.estop_keeps [OF inv assms(3)] show ?thesis
    unfolding w' by (simp add: mgr_inv_def at_rest_def halted_def)
qed

theorem estop_never_refused_witness:
  "sc_machine_state (fst (snd (snd (argus_cmd_router_dispatch False
      (Some (s_production_ops (\<lambda>i. hw_ok) (argus_trajectory_task [])))
      (Some (start_env\<lparr> env_command_type := CMD_TYPE_ESTOP \<rparr>)) (authority_boot, prod_armed)))))
     = STATE_EMERGENCY_STOPPED"
proof -
  let ?r = "argus_cmd_router_dispatch False
      (Some (s_production_ops (\<lambda>i. hw_ok) (argus_trajectory_task [])))
      (Some (start_env\<lparr> env_command_type := CMD_TYPE_ESTOP \<rparr>)) (authority_boot, prod_armed)"
  have "?r = (fst ?r, fst (snd ?r), snd (snd ?r))" by simp
  from estop_never_refused [OF prod_armed_reachable default_motion_config_ok ok_ops _ this]
  show ?thesis by simp
qed

end
