(* ===== verification/Authorization.thy ===== *)
theory Authorization
  imports Argus_Prelude
begin

text \<open>
  Capability checks for authenticated principals (\<open>argus_authorization.c\<close>, with the
  permission bits and levels of \<open>argus_security_store.h\<close>). Permission sets are 64-bit
  masks. Identifier and scope are the fixed 37-byte buffers of the record; two of them are
  equal as C strings when the bytes before the first zero agree.
\<close>

section \<open>Permissions and levels\<close>

type_synonym permission_set = u64

definition permission_bit :: "nat \<Rightarrow> permission_set" where
  "permission_bit n = push_bit n 1"

abbreviation "PERMISSION_VIEW_STATUS \<equiv> permission_bit 0"
abbreviation "PERMISSION_REQUEST_AUTHORITY \<equiv> permission_bit 1"
abbreviation "PERMISSION_MOTION \<equiv> permission_bit 2"
abbreviation "PERMISSION_SOFTWARE_ESTOP \<equiv> permission_bit 3"
abbreviation "PERMISSION_RESET_SOFTWARE_ESTOP \<equiv> permission_bit 4"
abbreviation "PERMISSION_ACK_ALARMS \<equiv> permission_bit 5"
abbreviation "PERMISSION_MANAGE_USERS \<equiv> permission_bit 6"
abbreviation "PERMISSION_MANAGE_ROLES \<equiv> permission_bit 7"
abbreviation "PERMISSION_MANAGE_CLIENT_ADMINS \<equiv> permission_bit 8"
abbreviation "PERMISSION_ENROLL_MACHINES \<equiv> permission_bit 9"
abbreviation "PERMISSION_REVOKE_MACHINES \<equiv> permission_bit 10"
abbreviation "PERMISSION_VIEW_AUDIT \<equiv> permission_bit 11"
abbreviation "PERMISSION_MODIFY_IDENTITY \<equiv> permission_bit 16"
abbreviation "PERMISSION_MODIFY_PROTECTED_CONFIG \<equiv> permission_bit 17"
abbreviation "PERMISSION_COMMISSION \<equiv> permission_bit 18"
abbreviation "PERMISSION_CALIBRATE \<equiv> permission_bit 19"
abbreviation "PERMISSION_MANAGE_FIRMWARE \<equiv> permission_bit 20"
abbreviation "PERMISSION_FULL_SECURITY_RESET \<equiv> permission_bit 22"

definition PERMISSION_DEFINED_MASK :: permission_set where
  "PERMISSION_DEFINED_MASK = push_bit 23 1 - 1"

datatype security_level =
    LEVEL_ARGUS_PERSONNEL
  | LEVEL_CLIENT_ADMIN
  | LEVEL_SUPERVISOR
  | LEVEL_OPERATOR
  | LEVEL_VIEWER
  | LEVEL_MACHINE
  | LEVEL_COUNT

text \<open>Levels are ordered as the enumeration numbers them: the most privileged is the least.\<close>

fun level_rank :: "security_level \<Rightarrow> nat" where
  "level_rank LEVEL_ARGUS_PERSONNEL = 0"
| "level_rank LEVEL_CLIENT_ADMIN = 1"
| "level_rank LEVEL_SUPERVISOR = 2"
| "level_rank LEVEL_OPERATOR = 3"
| "level_rank LEVEL_VIEWER = 4"
| "level_rank LEVEL_MACHINE = 5"
| "level_rank LEVEL_COUNT = 6"

lemma level_rank_inj: "level_rank a = level_rank b \<Longrightarrow> a = b"
  by (cases a; cases b) simp_all

instantiation security_level :: linorder
begin

definition less_eq_security_level :: "security_level \<Rightarrow> security_level \<Rightarrow> bool" where
  "less_eq_security_level a b \<longleftrightarrow> level_rank a \<le> level_rank b"

definition less_security_level :: "security_level \<Rightarrow> security_level \<Rightarrow> bool" where
  "less_security_level a b \<longleftrightarrow> level_rank a < level_rank b"

instance
  by standard (auto simp: less_eq_security_level_def less_security_level_def dest: level_rank_inj)

end

lemmas level_order = less_eq_security_level_def less_security_level_def

datatype principal_type = PRINCIPAL_NONE | PRINCIPAL_CONSOLE | PRINCIPAL_HUMAN | PRINCIPAL_MACHINE

record principal =
  pr_type :: principal_type
  pr_identifier :: "u8 list"
  pr_scope :: "u8 list"
  pr_level :: security_level
  pr_permissions :: permission_set
  pr_delegable_permissions :: permission_set
  pr_credential_version :: u32
  pr_security_epoch :: u32
  pr_principal_revision :: u32
  pr_protected_identity :: bool

datatype authorization_result =
    AUTHZ_ALLOW
  | AUTHZ_DENY_INVALID
  | AUTHZ_DENY_CAPABILITY
  | AUTHZ_DENY_SCOPE
  | AUTHZ_DENY_LEVEL
  | AUTHZ_DENY_DELEGATION
  | AUTHZ_DENY_PROTECTED

section \<open>Checks\<close>

definition OPERATIONAL :: permission_set where
  "OPERATIONAL = PERMISSION_VIEW_STATUS OR PERMISSION_REQUEST_AUTHORITY OR PERMISSION_MOTION
     OR PERMISSION_SOFTWARE_ESTOP OR PERMISSION_RESET_SOFTWARE_ESTOP OR PERMISSION_ACK_ALARMS"

fun argus_authorization_level_permissions :: "security_level \<Rightarrow> permission_set" where
  "argus_authorization_level_permissions LEVEL_ARGUS_PERSONNEL = PERMISSION_DEFINED_MASK"
| "argus_authorization_level_permissions LEVEL_CLIENT_ADMIN =
     OPERATIONAL OR PERMISSION_MANAGE_USERS OR PERMISSION_MANAGE_ROLES OR PERMISSION_ENROLL_MACHINES
       OR PERMISSION_REVOKE_MACHINES OR PERMISSION_VIEW_AUDIT"
| "argus_authorization_level_permissions LEVEL_SUPERVISOR = OPERATIONAL"
| "argus_authorization_level_permissions LEVEL_OPERATOR = OPERATIONAL"
| "argus_authorization_level_permissions LEVEL_VIEWER = PERMISSION_VIEW_STATUS"
| "argus_authorization_level_permissions LEVEL_MACHINE = 0"
| "argus_authorization_level_permissions LEVEL_COUNT = 0"

definition argus_authorization_level_delegable :: "security_level \<Rightarrow> permission_set" where
  "argus_authorization_level_delegable level =
     argus_authorization_level_permissions level AND
       NOT (PERMISSION_MANAGE_CLIENT_ADMINS OR PERMISSION_MODIFY_IDENTITY
            OR PERMISSION_MODIFY_PROTECTED_CONFIG OR PERMISSION_COMMISSION OR PERMISSION_CALIBRATE
            OR PERMISSION_MANAGE_FIRMWARE OR PERMISSION_FULL_SECURITY_RESET)"

definition argus_authorization_principal_valid :: "principal option \<Rightarrow> bool" where
  "argus_authorization_principal_valid who =
     (case who of
        None \<Rightarrow> False
      | Some p \<Rightarrow>
          (pr_type p = PRINCIPAL_CONSOLE \<or> pr_type p = PRINCIPAL_HUMAN)
          \<and> \<not> pr_level p > LEVEL_VIEWER
          \<and> cstr (pr_identifier p) \<noteq> [] \<and> cstr (pr_scope p) \<noteq> []
          \<and> pr_credential_version p \<noteq> 0 \<and> pr_security_epoch p \<noteq> 0 \<and> pr_principal_revision p \<noteq> 0
          \<and> pr_permissions p AND NOT PERMISSION_DEFINED_MASK = 0
          \<and> pr_delegable_permissions p AND NOT (pr_permissions p) = 0
          \<and> pr_delegable_permissions p AND PERMISSION_MANAGE_CLIENT_ADMINS = 0
          \<and> c_strlen (pr_identifier p) < length (pr_identifier p)
          \<and> c_strlen (pr_scope p) < length (pr_scope p))"

definition argus_authorization_require :: "principal option \<Rightarrow> permission_set \<Rightarrow> authorization_result" where
  "argus_authorization_require who required =
     (case who of
        None \<Rightarrow> AUTHZ_DENY_INVALID
      | Some p \<Rightarrow>
          if \<not> argus_authorization_principal_valid (Some p) \<or> required = 0
             \<or> required AND NOT PERMISSION_DEFINED_MASK \<noteq> 0
          then AUTHZ_DENY_INVALID
          else if pr_permissions p AND required = required then AUTHZ_ALLOW else AUTHZ_DENY_CAPABILITY)"

text \<open>The wildcard scope is the one-character string \<open>*\<close> (byte 42).\<close>

definition scope_contains :: "u8 list \<Rightarrow> u8 list \<Rightarrow> bool" where
  "scope_contains actor target \<longleftrightarrow> cstr actor = [42] \<or> cstr actor = cstr target"

definition argus_authorization_manage_target ::
  "principal option \<Rightarrow> security_level \<Rightarrow> u8 list option \<Rightarrow> bool \<Rightarrow> authorization_result" where
  "argus_authorization_manage_target actor target_level target_scope target_protected =
     (let capability = argus_authorization_require actor PERMISSION_MANAGE_USERS in
      if capability \<noteq> AUTHZ_ALLOW then capability
      else case (actor, target_scope) of
        (Some a, Some scope) \<Rightarrow>
          if target_level > LEVEL_VIEWER then AUTHZ_DENY_INVALID
          else if target_protected \<or> target_level = LEVEL_ARGUS_PERSONNEL
          then (if pr_level a = LEVEL_ARGUS_PERSONNEL then AUTHZ_ALLOW else AUTHZ_DENY_PROTECTED)
          else if \<not> scope_contains (pr_scope a) scope then AUTHZ_DENY_SCOPE
          else if target_level < pr_level a then AUTHZ_DENY_LEVEL
          else if target_level = LEVEL_CLIENT_ADMIN
                  \<and> pr_permissions a AND PERMISSION_MANAGE_CLIENT_ADMINS = 0
          then AUTHZ_DENY_CAPABILITY
          else if pr_level a > LEVEL_CLIENT_ADMIN \<and> target_level < LEVEL_OPERATOR
          then AUTHZ_DENY_LEVEL
          else AUTHZ_ALLOW
      | _ \<Rightarrow> AUTHZ_DENY_INVALID)"

definition argus_authorization_delegate ::
  "principal option \<Rightarrow> security_level \<Rightarrow> u8 list option \<Rightarrow> permission_set \<Rightarrow> authorization_result" where
  "argus_authorization_delegate actor target_level target_scope requested =
     (let target = argus_authorization_manage_target actor target_level target_scope False in
      if target \<noteq> AUTHZ_ALLOW then target
      else case actor of
        None \<Rightarrow> AUTHZ_DENY_INVALID
      | Some a \<Rightarrow>
          if requested = 0 \<or> requested AND NOT PERMISSION_DEFINED_MASK \<noteq> 0 then AUTHZ_DENY_INVALID
          else if requested AND NOT (pr_permissions a) \<noteq> 0
                  \<or> requested AND NOT (pr_delegable_permissions a) \<noteq> 0
                  \<or> requested AND PERMISSION_MANAGE_CLIENT_ADMINS \<noteq> 0
          then AUTHZ_DENY_DELEGATION
          else AUTHZ_ALLOW)"

section \<open>Permission sets as sets of bits\<close>

definition perm_subset :: "permission_set \<Rightarrow> permission_set \<Rightarrow> bool" where
  "perm_subset a b \<longleftrightarrow> a AND NOT b = 0"

lemma perm_subset_iff: "perm_subset a b \<longleftrightarrow> (\<forall>n<64. bit a n \<longrightarrow> bit b n)"
  unfolding perm_subset_def by (auto simp: bit_eq_iff bit_and_iff bit_not_iff)

lemma perm_subset_refl [simp]: "perm_subset a a"
  by (simp add: perm_subset_iff)

lemma perm_subset_trans: "perm_subset a b \<Longrightarrow> perm_subset b c \<Longrightarrow> perm_subset a c"
  by (auto simp: perm_subset_iff)

lemma delegate_allows:
  assumes "argus_authorization_delegate (Some a) level (Some scope) requested = AUTHZ_ALLOW"
  shows "perm_subset requested (pr_permissions a)" and "perm_subset requested (pr_delegable_permissions a)"
    and "requested AND PERMISSION_MANAGE_CLIENT_ADMINS = 0"
    and "pr_level a \<le> level" and "level \<le> LEVEL_VIEWER"
    and "level \<noteq> LEVEL_ARGUS_PERSONNEL \<Longrightarrow> scope_contains (pr_scope a) scope"
  using assms
  by (auto simp: argus_authorization_delegate_def argus_authorization_manage_target_def
      perm_subset_def Let_def not_less level_order split: if_splits)

section \<open>Properties\<close>

text \<open>
  One principal is created by delegation from another: its permissions are what the
  delegation requested, at the level and scope it named.
\<close>

definition delegated :: "principal \<Rightarrow> principal \<Rightarrow> bool" where
  "delegated a p \<longleftrightarrow> argus_authorization_delegate (Some a) (pr_level p) (Some (pr_scope p)) (pr_permissions p)
     = AUTHZ_ALLOW"

text \<open>
  Delegation never escalates. Along any chain of delegations, a principal never holds a
  permission its root does not hold, is never at a more privileged level than its root, never
  holds the right to manage client administrators, and, under a root that is not Argus
  personnel, stays within the root's scope.
\<close>

theorem delegation_no_escalation:
  assumes "delegated\<^sup>+\<^sup>+ root p"
  shows "pr_permissions p AND NOT (pr_permissions root) = 0 \<and> pr_level root \<le> pr_level p
    \<and> pr_permissions p AND PERMISSION_MANAGE_CLIENT_ADMINS = 0
    \<and> (pr_level root = LEVEL_ARGUS_PERSONNEL \<or> scope_contains (pr_scope root) (pr_scope p))"
proof -
  have top: "level = LEVEL_ARGUS_PERSONNEL" if "level \<le> LEVEL_ARGUS_PERSONNEL" for level
    using that by (cases level) (simp_all add: level_order)
  have "perm_subset (pr_permissions p) (pr_permissions root) \<and> pr_level root \<le> pr_level p
    \<and> pr_permissions p AND PERMISSION_MANAGE_CLIENT_ADMINS = 0
    \<and> (pr_level root = LEVEL_ARGUS_PERSONNEL \<or> scope_contains (pr_scope root) (pr_scope p))"
    using assms
  proof (induction rule: tranclp_induct)
    case (base y)
    note d = delegate_allows [OF base [unfolded delegated_def]]
    moreover have "pr_level root = LEVEL_ARGUS_PERSONNEL" if "pr_level y = LEVEL_ARGUS_PERSONNEL"
      using d(4) that top by simp
    ultimately show ?case by blast
  next
    case (step y z)
    note d = delegate_allows [OF step(2) [unfolded delegated_def]]
    have "scope_contains (pr_scope root) (pr_scope z)" if "pr_level root \<noteq> LEVEL_ARGUS_PERSONNEL"
    proof -
      have "pr_level root \<le> pr_level z" using step(3) d(4) by (auto intro: order_trans)
      then have "pr_level z \<noteq> LEVEL_ARGUS_PERSONNEL" using that top [of "pr_level root"] by auto
      with d(6) step(3) that show ?thesis by (auto simp: scope_contains_def)
    qed
    moreover have "pr_level root \<le> pr_level z" using step(3) d(4) by (auto intro: order_trans)
    moreover have "perm_subset (pr_permissions z) (pr_permissions root)"
      by (rule perm_subset_trans [OF d(1) conjunct1 [OF step(3)]])
    ultimately show ?case
      using d(3) by blast
  qed
  then show ?thesis by (simp add: perm_subset_def)
qed

definition root_principal :: principal where
  "root_principal = \<lparr> pr_type = PRINCIPAL_HUMAN, pr_identifier = [65, 0], pr_scope = [83, 0],
     pr_level = LEVEL_CLIENT_ADMIN, pr_permissions = PERMISSION_MANAGE_USERS OR PERMISSION_MOTION,
     pr_delegable_permissions = PERMISSION_MOTION, pr_credential_version = 1, pr_security_epoch = 1,
     pr_principal_revision = 1, pr_protected_identity = False \<rparr>"

definition operator_principal :: principal where
  "operator_principal = root_principal\<lparr> pr_level := LEVEL_OPERATOR, pr_permissions := PERMISSION_MOTION \<rparr>"

theorem delegation_no_escalation_witness:
  "delegated root_principal operator_principal
     \<and> pr_permissions operator_principal AND NOT (pr_permissions root_principal) = 0"
proof -
  have d: "delegated root_principal operator_principal"
    unfolding delegated_def argus_authorization_delegate_def argus_authorization_manage_target_def
      argus_authorization_require_def argus_authorization_principal_valid_def
    by (simp add: operator_principal_def root_principal_def permission_bit_def
        PERMISSION_DEFINED_MASK_def scope_contains_def cstr_def c_strlen_def level_order)
  then have "delegated\<^sup>+\<^sup>+ root_principal operator_principal" by (rule tranclp.r_into_trancl)
  from d delegation_no_escalation [OF this] show ?thesis by blast
qed

text \<open>
  Built-in levels are nested. For human levels, a less privileged level's permissions
  are contained in every more privileged level's, its delegable permissions in its own, and
  only Argus personnel hold the protected-configuration, firmware and reset permissions, which
  no level can delegate.
\<close>

theorem level_permissions_nested:
  assumes "l1 \<le> l2" and "l2 \<le> LEVEL_VIEWER"
  shows "argus_authorization_level_permissions l2 AND NOT (argus_authorization_level_permissions l1) = 0
    \<and> argus_authorization_level_delegable l2 AND NOT (argus_authorization_level_permissions l2) = 0
    \<and> argus_authorization_level_delegable l1 AND PERMISSION_FULL_SECURITY_RESET = 0
    \<and> (l2 \<noteq> LEVEL_ARGUS_PERSONNEL \<longrightarrow>
         argus_authorization_level_permissions l2 AND PERMISSION_MODIFY_PROTECTED_CONFIG = 0)"
  using assms
  by (cases l1; cases l2)
    (simp_all add: level_order OPERATIONAL_def PERMISSION_DEFINED_MASK_def permission_bit_def
      argus_authorization_level_delegable_def)

theorem level_permissions_nested_witness:
  "argus_authorization_level_permissions LEVEL_VIEWER
     AND NOT (argus_authorization_level_permissions LEVEL_CLIENT_ADMIN) = 0"
  using level_permissions_nested [of LEVEL_CLIENT_ADMIN LEVEL_VIEWER] by (simp add: level_order)

end
