(* ===== verification/Session.thy ===== *)
theory Session
  imports Authorization
begin

text \<open>
  The session table (\<open>argus_session_manager.c\<close>): eight records, at most two per
  principal, each holding the digests of its token and CSRF secret.

  SHA-256 and the random source are arguments: \<open>sha\<close> gives the digest of a byte string or
  \<open>None\<close> when the library call fails, and \<open>rnd k\<close> is the status and the bytes of the
  \<open>k\<close>-th request of a call. A token is a C string of bytes; a null table or output pointer
  has no counterpart.
\<close>

section \<open>State\<close>

abbreviation (input) SESSION_CAPACITY :: nat where "SESSION_CAPACITY \<equiv> 8"
abbreviation (input) SESSION_PER_PRINCIPAL :: nat where "SESSION_PER_PRINCIPAL \<equiv> 2"
abbreviation (input) SESSION_SECRET_BYTES :: nat where "SESSION_SECRET_BYTES \<equiv> 32"
abbreviation (input) SESSION_IDLE_US :: u64 where "SESSION_IDLE_US \<equiv> 900000000"
abbreviation (input) SESSION_ABSOLUTE_US :: u64 where "SESSION_ABSOLUTE_US \<equiv> 28800000000"
abbreviation (input) SESSION_REAUTH_US :: u64 where "SESSION_REAUTH_US \<equiv> 300000000"

record session_record =
  se_occupied :: bool
  se_token_digest :: "u8 list"
  se_csrf_digest :: "u8 list"
  se_csrf_secret :: "u8 list"
  se_principal :: principal
  se_created_us :: u64
  se_last_activity_us :: u64
  se_reauthenticated_us :: u64

type_synonym session_table = "session_record list"

record session_credentials =
  cr_token :: "u8 list"
  cr_csrf :: "u8 list"
  cr_principal :: principal
  cr_expires_us :: u64

definition principal_zero :: principal where
  "principal_zero = \<lparr> pr_type = PRINCIPAL_NONE, pr_identifier = replicate 37 0, pr_scope = replicate 37 0,
     pr_level = LEVEL_ARGUS_PERSONNEL, pr_permissions = 0, pr_delegable_permissions = 0,
     pr_credential_version = 0, pr_security_epoch = 0, pr_principal_revision = 0,
     pr_protected_identity = False \<rparr>"

text \<open>\<open>zero_record\<close> overwrites a record with zero bytes.\<close>

definition zero_record :: session_record where
  "zero_record = \<lparr> se_occupied = False, se_token_digest = replicate 32 0, se_csrf_digest = replicate 32 0,
     se_csrf_secret = replicate 65 0, se_principal = principal_zero, se_created_us = 0,
     se_last_activity_us = 0, se_reauthenticated_us = 0 \<rparr>"

section \<open>Encoding of secrets\<close>

definition hex_nibble :: "u8 \<Rightarrow> u8" where
  "hex_nibble c = (if 48 \<le> c \<and> c \<le> 57 then c - 48
                   else if 97 \<le> c \<and> c \<le> 102 then c - 97 + 10 else 255)"

fun hex_pairs :: "u8 list \<Rightarrow> u8 list option" where
  "hex_pairs [] = Some []"
| "hex_pairs [c] = None"
| "hex_pairs (hi # lo # rest) =
     (let a = hex_nibble hi; b = hex_nibble lo in
      if a = 255 \<or> b = 255 then None
      else map_option (\<lambda>bs. (push_bit 4 a OR b) # bs) (hex_pairs rest))"

definition hex_decode :: "u8 list option \<Rightarrow> nat \<Rightarrow> u8 list option" where
  "hex_decode hex len =
     (case hex of None \<Rightarrow> None
      | Some s \<Rightarrow> if length s \<noteq> len * 2 then None else hex_pairs s)"

definition hex_char :: "u8 \<Rightarrow> u8" where
  "hex_char n = (map (\<lambda>k. 48 + of_nat k) [0..<10] @ map (\<lambda>k. 97 + of_nat k) [0..<6]) ! unat n"

definition hex_encode :: "u8 list \<Rightarrow> u8 list" where
  "hex_encode bs = concat (map (\<lambda>b. [hex_char (drop_bit 4 b), hex_char (b AND 15)]) bs)"

definition digest_secret :: "(u8 list \<Rightarrow> u8 list option) \<Rightarrow> u8 list option \<Rightarrow> u8 list option" where
  "digest_secret sha secret =
     (case hex_decode secret SESSION_SECRET_BYTES of None \<Rightarrow> None | Some b \<Rightarrow> sha b)"

definition expired :: "u64 \<Rightarrow> session_record \<Rightarrow> bool" where
  "expired now_us r \<longleftrightarrow> now_us < se_created_us r \<or> now_us < se_last_activity_us r
     \<or> now_us - se_created_us r \<ge> SESSION_ABSOLUTE_US
     \<or> now_us - se_last_activity_us r \<ge> SESSION_IDLE_US"

section \<open>Operations\<close>

definition argus_session_table_init :: session_table where
  "argus_session_table_init = replicate SESSION_CAPACITY zero_record"

text \<open>Zeroing the occupied records that satisfy a condition, and how many there are.\<close>

definition zero_where :: "(session_record \<Rightarrow> bool) \<Rightarrow> session_table \<Rightarrow> session_table" where
  "zero_where P t = map (\<lambda>r. if se_occupied r \<and> P r then zero_record else r) t"

definition count_where :: "(session_record \<Rightarrow> bool) \<Rightarrow> session_table \<Rightarrow> nat" where
  "count_where P t = length (filter (\<lambda>r. se_occupied r \<and> P r) t)"

definition same_identifier :: "u8 list \<Rightarrow> session_record \<Rightarrow> bool" where
  "same_identifier ident r \<longleftrightarrow> cstr (pr_identifier (se_principal r)) = cstr ident"

text \<open>
  The draw of a fresh token: at most \<open>n\<close> attempts from request \<open>k\<close> on. The result is the
  status, whether the token is unique, the token and digest, and the next request.
\<close>

fun draw_token ::
  "(u8 list \<Rightarrow> u8 list option) \<Rightarrow> (nat \<Rightarrow> esp_err \<times> u8 list) \<Rightarrow> session_table \<Rightarrow> nat \<Rightarrow> nat \<Rightarrow>
     esp_err \<times> (u8 list \<times> u8 list) option \<times> nat" where
  "draw_token sha rnd t 0 k = (ESP_OK, None, k)"
| "draw_token sha rnd t (Suc n) k =
     (let (err, token) = rnd k in
      if err \<noteq> ESP_OK then (err, None, Suc k)
      else if list_all (\<lambda>b. b = 0) token then draw_token sha rnd t n (Suc k)
      else case sha token of
        None \<Rightarrow> draw_token sha rnd t n (Suc k)
      | Some d \<Rightarrow>
          if list_ex (\<lambda>r. se_occupied r \<and> se_token_digest r = d) t then draw_token sha rnd t n (Suc k)
          else (ESP_OK, Some (token, d), Suc k))"

definition argus_session_create ::
  "(u8 list \<Rightarrow> u8 list option) \<Rightarrow> session_table \<Rightarrow> principal option \<Rightarrow> u64 \<Rightarrow> (nat \<Rightarrow> esp_err \<times> u8 list) \<Rightarrow>
     (esp_err \<times> session_credentials option) \<times> session_table" where
  "argus_session_create sha t who now_us rnd =
     (case who of
        None \<Rightarrow> ((ESP_ERR_INVALID_ARG, None), t)
      | Some p \<Rightarrow>
          if \<not> argus_authorization_principal_valid (Some p) \<or> now_us = 0
          then ((ESP_ERR_INVALID_ARG, None), t)
          else
            (let t1 = zero_where (expired now_us) t in
             case find (\<lambda>i. \<not> se_occupied (t1 ! i)) [0..<length t1] of
               None \<Rightarrow> ((ESP_ERR_NO_MEM, None), t1)
             | Some index \<Rightarrow>
                 if count_where (same_identifier (pr_identifier p)) t1 \<ge> SESSION_PER_PRINCIPAL
                 then ((ESP_ERR_NO_MEM, None), t1)
                 else case draw_token sha rnd t1 4 0 of
                   (err, None, k) \<Rightarrow>
                     ((if err = ESP_OK then ESP_ERR_INVALID_STATE else err, None), t1)
                 | (_, Some (token, token_digest), k) \<Rightarrow>
                     (let (err, csrf) = rnd k in
                      if err \<noteq> ESP_OK \<or> list_all (\<lambda>b. b = 0) csrf
                      then ((if err = ESP_OK then ESP_ERR_INVALID_STATE else err, None), t1)
                      else
                        (let out = \<lparr> cr_token = hex_encode token, cr_csrf = hex_encode csrf,
                                     cr_principal = p, cr_expires_us = now_us + SESSION_IDLE_US \<rparr>;
                             next = \<lparr> se_occupied = True, se_token_digest = token_digest,
                                      se_csrf_digest = (case sha csrf of Some d \<Rightarrow> d | None \<Rightarrow> replicate 32 0),
                                      se_csrf_secret = cr_csrf out @ [0], se_principal = p,
                                      se_created_us = now_us, se_last_activity_us = now_us,
                                      se_reauthenticated_us = now_us \<rparr>
                         in ((ESP_OK, Some out), t1[index := next])))))"

definition argus_session_authenticate ::
  "(u8 list \<Rightarrow> u8 list option) \<Rightarrow> session_table \<Rightarrow> u8 list option \<Rightarrow> u64 \<Rightarrow>
     (esp_err \<times> (principal \<times> nat) option) \<times> session_table" where
  "argus_session_authenticate sha t token now_us =
     (if token = None \<or> now_us = 0 then ((ESP_ERR_INVALID_ARG, None), t)
      else case digest_secret sha token of
        None \<Rightarrow> ((ESP_ERR_NOT_FOUND, None), t)
      | Some digest \<Rightarrow>
          (let t1 = zero_where (expired now_us) t in
           case find (\<lambda>i. se_occupied (t1 ! i) \<and> se_token_digest (t1 ! i) = digest) (rev [0..<length t1]) of
             None \<Rightarrow> ((ESP_ERR_NOT_FOUND, None), t1)
           | Some i \<Rightarrow> ((ESP_OK, Some (se_principal (t1 ! i), i)),
                        t1[i := (t1 ! i)\<lparr> se_last_activity_us := now_us \<rparr>])))"

definition argus_session_csrf_valid ::
  "(u8 list \<Rightarrow> u8 list option) \<Rightarrow> session_table \<Rightarrow> nat \<Rightarrow> u8 list option \<Rightarrow> bool" where
  "argus_session_csrf_valid sha t index csrf =
     (if index \<ge> SESSION_CAPACITY \<or> \<not> se_occupied (t ! index) then False
      else case digest_secret sha csrf of
        None \<Rightarrow> False
      | Some digest \<Rightarrow> se_csrf_digest (t ! index) = digest)"

definition argus_session_get_csrf :: "session_table \<Rightarrow> nat \<Rightarrow> u8 list option" where
  "argus_session_get_csrf t index =
     (if index \<ge> SESSION_CAPACITY \<or> \<not> se_occupied (t ! index) then None
      else Some (take 65 (se_csrf_secret (t ! index))))"

definition argus_session_recently_reauthenticated :: "session_table \<Rightarrow> nat \<Rightarrow> u64 \<Rightarrow> bool" where
  "argus_session_recently_reauthenticated t index now_us \<longleftrightarrow>
     index < SESSION_CAPACITY \<and> se_occupied (t ! index)
     \<and> now_us \<ge> se_reauthenticated_us (t ! index)
     \<and> now_us - se_reauthenticated_us (t ! index) < SESSION_REAUTH_US"

definition argus_session_mark_reauthenticated :: "session_table \<Rightarrow> nat \<Rightarrow> u64 \<Rightarrow> session_table" where
  "argus_session_mark_reauthenticated t index now_us =
     (if index < SESSION_CAPACITY \<and> se_occupied (t ! index)
      then t[index := (t ! index)\<lparr> se_reauthenticated_us := now_us \<rparr>] else t)"

definition argus_session_revoke_principal :: "session_table \<Rightarrow> u8 list option \<Rightarrow> nat \<times> session_table" where
  "argus_session_revoke_principal t principal_id =
     (case principal_id of
        None \<Rightarrow> (0, t)
      | Some ident \<Rightarrow> (count_where (same_identifier ident) t, zero_where (same_identifier ident) t))"

definition argus_session_revoke_token ::
  "(u8 list \<Rightarrow> u8 list option) \<Rightarrow> session_table \<Rightarrow> u8 list option \<Rightarrow> bool \<times> session_table" where
  "argus_session_revoke_token sha t token =
     (case digest_secret sha token of
        None \<Rightarrow> (False, t)
      | Some digest \<Rightarrow>
          (case find (\<lambda>i. se_occupied (t ! i) \<and> se_token_digest (t ! i) = digest) [0..<length t] of
             None \<Rightarrow> (False, t)
           | Some i \<Rightarrow> (True, t[i := zero_record])))"

definition argus_session_revoke_epoch :: "session_table \<Rightarrow> u32 \<Rightarrow> nat \<times> session_table" where
  "argus_session_revoke_epoch t current_security_epoch =
     (if current_security_epoch = 0 then (0, t)
      else (let stale = (\<lambda>r. pr_security_epoch (se_principal r) \<noteq> current_security_epoch)
            in (count_where stale t, zero_where stale t)))"

definition argus_session_count :: "session_table \<Rightarrow> nat" where
  "argus_session_count t = length (filter se_occupied t)"

definition argus_session_revoke_all :: "session_table \<Rightarrow> nat \<times> session_table" where
  "argus_session_revoke_all t = (argus_session_count t, map (\<lambda>r. zero_record) t)"

section \<open>The production manager\<close>

text \<open>
  The static table behind a mutex that exists after initialisation. The clock and the random
  bytes of the hardware generator are arguments.
\<close>

record session_manager =
  sm_mutex :: bool
  sm_sessions :: session_table

definition production_random :: "(nat \<Rightarrow> u8 list) \<Rightarrow> nat \<Rightarrow> esp_err \<times> u8 list" where
  "production_random bytes k = (ESP_OK, bytes k)"

definition argus_session_manager_init :: "bool \<Rightarrow> session_manager \<Rightarrow> esp_err \<times> session_manager" where
  "argus_session_manager_init created m =
     (if sm_mutex m then (ESP_OK, m)
      else (if created then ESP_OK else ESP_ERR_NO_MEM,
            \<lparr> sm_mutex = created, sm_sessions = argus_session_table_init \<rparr>))"

definition argus_session_manager_create ::
  "(u8 list \<Rightarrow> u8 list option) \<Rightarrow> (nat \<Rightarrow> u8 list) \<Rightarrow> u64 \<Rightarrow> principal option \<Rightarrow> session_manager \<Rightarrow>
     (esp_err \<times> session_credentials option) \<times> session_manager" where
  "argus_session_manager_create sha bytes now who m =
     (if \<not> sm_mutex m then ((ESP_ERR_INVALID_STATE, None), m)
      else (case argus_session_create sha (sm_sessions m) who now (production_random bytes) of
              (res, t) \<Rightarrow> (res, m\<lparr> sm_sessions := t \<rparr>)))"

definition argus_session_manager_authenticate ::
  "(u8 list \<Rightarrow> u8 list option) \<Rightarrow> u64 \<Rightarrow> u8 list option \<Rightarrow> session_manager \<Rightarrow>
     (esp_err \<times> (principal \<times> nat) option) \<times> session_manager" where
  "argus_session_manager_authenticate sha now token m =
     (if \<not> sm_mutex m then ((ESP_ERR_INVALID_STATE, None), m)
      else (case argus_session_authenticate sha (sm_sessions m) token now of
              (res, t) \<Rightarrow> (res, m\<lparr> sm_sessions := t \<rparr>)))"

definition argus_session_manager_csrf_valid ::
  "(u8 list \<Rightarrow> u8 list option) \<Rightarrow> nat \<Rightarrow> u8 list option \<Rightarrow> session_manager \<Rightarrow> bool" where
  "argus_session_manager_csrf_valid sha index csrf m \<longleftrightarrow>
     sm_mutex m \<and> argus_session_csrf_valid sha (sm_sessions m) index csrf"

definition argus_session_manager_get_csrf :: "nat \<Rightarrow> session_manager \<Rightarrow> u8 list option" where
  "argus_session_manager_get_csrf index m =
     (if \<not> sm_mutex m then None else argus_session_get_csrf (sm_sessions m) index)"

definition argus_session_manager_recently_reauthenticated :: "u64 \<Rightarrow> nat \<Rightarrow> session_manager \<Rightarrow> bool" where
  "argus_session_manager_recently_reauthenticated now index m \<longleftrightarrow>
     sm_mutex m \<and> argus_session_recently_reauthenticated (sm_sessions m) index now"

definition argus_session_manager_mark_reauthenticated :: "u64 \<Rightarrow> nat \<Rightarrow> session_manager \<Rightarrow> session_manager" where
  "argus_session_manager_mark_reauthenticated now index m =
     (if \<not> sm_mutex m then m
      else m\<lparr> sm_sessions := argus_session_mark_reauthenticated (sm_sessions m) index now \<rparr>)"

definition argus_session_manager_revoke_token ::
  "(u8 list \<Rightarrow> u8 list option) \<Rightarrow> u8 list option \<Rightarrow> session_manager \<Rightarrow> bool \<times> session_manager" where
  "argus_session_manager_revoke_token sha token m =
     (if \<not> sm_mutex m then (False, m)
      else (case argus_session_revoke_token sha (sm_sessions m) token of
              (res, t) \<Rightarrow> (res, m\<lparr> sm_sessions := t \<rparr>)))"

definition argus_session_manager_revoke_principal :: "u8 list option \<Rightarrow> session_manager \<Rightarrow> nat \<times> session_manager" where
  "argus_session_manager_revoke_principal principal_id m =
     (if \<not> sm_mutex m then (0, m)
      else (case argus_session_revoke_principal (sm_sessions m) principal_id of
              (res, t) \<Rightarrow> (res, m\<lparr> sm_sessions := t \<rparr>)))"

definition argus_session_manager_revoke_epoch :: "u32 \<Rightarrow> session_manager \<Rightarrow> nat \<times> session_manager" where
  "argus_session_manager_revoke_epoch epoch m =
     (if \<not> sm_mutex m then (0, m)
      else (case argus_session_revoke_epoch (sm_sessions m) epoch of
              (res, t) \<Rightarrow> (res, m\<lparr> sm_sessions := t \<rparr>)))"

definition argus_session_manager_count :: "session_manager \<Rightarrow> nat" where
  "argus_session_manager_count m = (if \<not> sm_mutex m then 0 else argus_session_count (sm_sessions m))"

definition argus_session_manager_revoke_all :: "session_manager \<Rightarrow> nat \<times> session_manager" where
  "argus_session_manager_revoke_all m =
     (if \<not> sm_mutex m then (0, m)
      else (case argus_session_revoke_all (sm_sessions m) of (res, t) \<Rightarrow> (res, m\<lparr> sm_sessions := t \<rparr>)))"

end
