(* ===== verification/Session_Props.thy ===== *)
theory Session_Props
  imports Session
begin

text \<open>
  The session table's guarantees: secrets survive their hex encoding, the table never holds
  more than two sessions of a principal or two sessions with one token digest, a created
  session authenticates, authentication is sound, and revocation is final.
\<close>

section \<open>Hex encoding\<close>

lemma hex_char_nibble:
  assumes "unat n < 16"
  shows "hex_nibble (hex_char n) = n" and "n \<noteq> 255"
proof -
  have "unat n \<in> set [0..<16]" using assms by simp
  moreover have "n = of_nat (unat n)" by simp
  ultimately have "n \<in> set (map of_nat [0..<16])" by (metis image_eqI set_map)
  then show "hex_nibble (hex_char n) = n"
    by (auto simp: upt_rec hex_char_def hex_nibble_def)
  show "n \<noteq> 255" using assms by auto
qed

lemma nibbles_small: "unat (drop_bit 4 (b :: u8)) < 16" "unat (b AND 15 :: u8) < 16"
proof -
  have "unat b < 256" using unat_lt_2p [of b] by simp
  then show "unat (drop_bit 4 b) < 16"
    by (simp add: drop_bit_eq_div unat_div)
  have "b AND 15 = take_bit 4 b"
    by (simp add: take_bit_eq_mask mask_eq_exp_minus_1)
  then show "unat (b AND 15) < 16"
    by (simp add: take_bit_eq_mod unat_mod)
qed

lemma nibbles_join: "push_bit 4 (drop_bit 4 b) OR (b AND 15) = (b :: u8)"
proof -
  have "b AND 15 = take_bit 4 b"
    by (simp add: take_bit_eq_mask mask_eq_exp_minus_1)
  then show ?thesis
    by (simp add: bit_eq_iff bit_or_iff bit_push_bit_iff bit_drop_bit_eq bit_take_bit_iff) auto
qed

lemma hex_pairs_encode: "hex_pairs (hex_encode bs) = Some bs"
  by (induction bs)
    (simp_all add: hex_encode_def hex_char_nibble nibbles_small nibbles_join Let_def)

lemma hex_encode_length [simp]: "length (hex_encode bs) = 2 * length bs"
  by (induction bs) (simp_all add: hex_encode_def)

lemma digest_encoded: "length b = 32 \<Longrightarrow> digest_secret sha (Some (hex_encode b)) = sha b"
  by (simp add: digest_secret_def hex_decode_def hex_pairs_encode)

section \<open>The invariant of the table\<close>

definition session_inv :: "session_table \<Rightarrow> bool" where
  "session_inv t \<longleftrightarrow> length t = 8
     \<and> (\<forall>i<8. \<forall>j<8. se_occupied (t ! i) \<longrightarrow> se_occupied (t ! j)
          \<longrightarrow> se_token_digest (t ! i) = se_token_digest (t ! j) \<longrightarrow> i = j)
     \<and> (\<forall>ident. card {i. i < 8 \<and> se_occupied (t ! i) \<and> same_identifier ident (t ! i)} \<le> 2)"

lemma zero_not_occupied [simp]: "\<not> se_occupied zero_record"
  by (simp add: zero_record_def)

lemma zero_where_length [simp]: "length (zero_where P t) = length t"
  by (simp add: zero_where_def)

lemma zero_where_nth:
  "i < length t \<Longrightarrow> zero_where P t ! i = (if se_occupied (t ! i) \<and> P (t ! i) then zero_record else t ! i)"
  by (simp add: zero_where_def)

text \<open>Any change that only empties records keeps the invariant.\<close>

lemma session_inv_shrink:
  assumes "session_inv t" "length t' = 8"
    and sub: "\<And>i. i < 8 \<Longrightarrow> se_occupied (t' ! i) \<Longrightarrow>
      se_occupied (t ! i) \<and> se_token_digest (t' ! i) = se_token_digest (t ! i)
      \<and> se_principal (t' ! i) = se_principal (t ! i)"
  shows "session_inv t'"
proof -
  have "card {i. i < 8 \<and> se_occupied (t' ! i) \<and> same_identifier ident (t' ! i)} \<le> 2" for ident
  proof -
    have "{i. i < 8 \<and> se_occupied (t' ! i) \<and> same_identifier ident (t' ! i)}
        \<subseteq> {i. i < 8 \<and> se_occupied (t ! i) \<and> same_identifier ident (t ! i)}"
      using sub by (auto simp: same_identifier_def)
    then have "card {i. i < 8 \<and> se_occupied (t' ! i) \<and> same_identifier ident (t' ! i)}
        \<le> card {i. i < 8 \<and> se_occupied (t ! i) \<and> same_identifier ident (t ! i)}"
      by (intro card_mono) auto
    also have "\<dots> \<le> 2" using assms(1) by (simp add: session_inv_def)
    finally show ?thesis .
  qed
  then show ?thesis
    using assms by (auto simp: session_inv_def)
qed

lemma zero_where_inv: "session_inv t \<Longrightarrow> session_inv (zero_where P t)"
  by (rule session_inv_shrink) (auto simp: zero_where_nth session_inv_def split: if_splits)

lemma init_session_inv: "session_inv argus_session_table_init"
proof -
  have n: "\<not> se_occupied (argus_session_table_init ! i)" if "i < 8" for i
    using that by (simp add: argus_session_table_init_def)
  then have "{i. i < 8 \<and> se_occupied (argus_session_table_init ! i)
      \<and> same_identifier ident (argus_session_table_init ! i)} = {}" for ident
    by auto
  moreover have "length argus_session_table_init = 8"
    by (simp add: argus_session_table_init_def)
  ultimately show ?thesis
    using n by (simp only: session_inv_def) simp
qed

lemma find_first:
  assumes "find P xs = Some x"
  shows "P x" and "x \<in> set xs"
  using assms by (auto simp: find_Some_iff)

lemma count_where_card:
  "count_where P t = card {i. i < length t \<and> se_occupied (t ! i) \<and> P (t ! i)}"
  by (simp add: count_where_def length_filter_conv_card)

lemma draw_token_fresh:
  assumes "draw_token sha rnd t n k = (err, Some (token, d), k')"
  shows "err = ESP_OK" and "sha token = Some d" and "\<exists>j. rnd j = (ESP_OK, token)"
    and "\<not> list_ex (\<lambda>r. se_occupied r \<and> se_token_digest r = d) t"
  using assms
  by (induction sha rnd t n k rule: draw_token.induct)
    (auto simp: Let_def split: prod.splits if_splits option.splits)

text \<open>The shape of a successful creation.\<close>

lemma createE:
  assumes "argus_session_create sha t who now rnd = ((ESP_OK, Some out), t')"
  obtains p index token csrf d k j where "who = Some p"
    and "argus_authorization_principal_valid (Some p)" and "now \<noteq> 0"
    and "index < length t" and "\<not> se_occupied (zero_where (expired now) t ! index)"
    and "count_where (same_identifier (pr_identifier p)) (zero_where (expired now) t) < 2"
    and "sha token = Some d" and "rnd j = (ESP_OK, token)" and "rnd k = (ESP_OK, csrf)"
    and "\<not> list_ex (\<lambda>r. se_occupied r \<and> se_token_digest r = d) (zero_where (expired now) t)"
    and "out = \<lparr> cr_token = hex_encode token, cr_csrf = hex_encode csrf, cr_principal = p,
                cr_expires_us = now + 900000000 \<rparr>"
    and "t' = (zero_where (expired now) t)[index := \<lparr> se_occupied = True, se_token_digest = d,
        se_csrf_digest = (case sha csrf of Some d \<Rightarrow> d | None \<Rightarrow> replicate 32 0),
        se_csrf_secret = hex_encode csrf @ [0], se_principal = p, se_created_us = now,
        se_last_activity_us = now, se_reauthenticated_us = now \<rparr>]"
proof -
  let ?t = "zero_where (expired now) t"
  obtain p where p: "who = Some p" "argus_authorization_principal_valid (Some p)" "now \<noteq> 0"
    using assms by (auto simp: argus_session_create_def split: option.splits if_splits)
  obtain index where i: "find (\<lambda>i. \<not> se_occupied (?t ! i)) [0..<length ?t] = Some index"
    "\<not> count_where (same_identifier (pr_identifier p)) ?t \<ge> 2"
    using assms p by (auto simp: argus_session_create_def Let_def split: option.splits if_splits)
  obtain err token d k where dr: "draw_token sha rnd ?t 4 0 = (err, Some (token, d), k)"
    using assms p i by (auto simp: argus_session_create_def Let_def split: option.splits prod.splits if_splits)
  obtain csrf where c: "rnd k = (ESP_OK, csrf)" "\<not> list_all (\<lambda>b. b = 0) csrf"
    using assms p i dr by (auto simp: argus_session_create_def Let_def split: prod.splits if_splits)
  note fresh = draw_token_fresh [OF dr]
  obtain j where "rnd j = (ESP_OK, token)" using fresh(3) by blast
  then show thesis
    using that [OF p _ _ _ fresh(2) _ c(1) fresh(4), of index j] find_first [OF i(1)] i(2) assms p i dr c
    by (auto simp: argus_session_create_def Let_def)
qed

lemma create_inv:
  assumes "session_inv t"
  shows "session_inv (snd (argus_session_create sha t who now rnd))"
proof (cases "\<exists>out t'. argus_session_create sha t who now rnd = ((ESP_OK, Some out), t')")
  case False
  then have "snd (argus_session_create sha t who now rnd) \<in> {t, zero_where (expired now) t}"
    by (auto simp: argus_session_create_def Let_def split: option.splits prod.splits if_splits)
  then show ?thesis using assms zero_where_inv by auto
next
  case True
  then obtain out t' where c: "argus_session_create sha t who now rnd = ((ESP_OK, Some out), t')" by blast
  let ?t = "zero_where (expired now) t"
  obtain p index d r where i: "index < length t" "\<not> se_occupied (?t ! index)"
    and cnt: "count_where (same_identifier (pr_identifier p)) ?t < 2"
    and fresh: "\<not> list_ex (\<lambda>r. se_occupied r \<and> se_token_digest r = d) ?t"
    and r: "se_token_digest r = d" "se_principal r = p" and t': "t' = ?t[index := r]"
  proof (rule createE [OF c], goal_cases)
    case (1 p index token csrf d k j)
    show ?case by (rule 1(1) [OF 1(5,6,7,11) _ _ 1(13)]) simp_all
  qed
  have inv: "session_inv ?t" by (rule zero_where_inv [OF assms])
  then have len: "length ?t = 8" by (simp add: session_inv_def)
  have fr: "se_occupied (?t ! k) \<Longrightarrow> se_token_digest (?t ! k) \<noteq> d" if "k < 8" for k
    using fresh nth_mem [of k ?t] that len by (auto simp: list_ex_iff simp del: zero_where_length)
  have "card {k. k < 8 \<and> se_occupied (t' ! k) \<and> same_identifier ident (t' ! k)} \<le> 2" for ident
  proof (cases "same_identifier ident r")
    case True
    let ?old = "{k. k < 8 \<and> se_occupied (?t ! k) \<and> same_identifier (pr_identifier p) (?t ! k)}"
    have "{k. k < 8 \<and> se_occupied (t' ! k) \<and> same_identifier ident (t' ! k)} \<subseteq> insert index ?old"
      using True r len i by (auto simp: t' nth_list_update same_identifier_def)
    then have "card {k. k < 8 \<and> se_occupied (t' ! k) \<and> same_identifier ident (t' ! k)}
        \<le> card (insert index ?old)"
      by (intro card_mono) auto
    also have "\<dots> \<le> Suc (card ?old)" by (rule card_insert_le_m1) auto
    also have "\<dots> \<le> 2" using cnt len by (simp add: count_where_card)
    finally show ?thesis .
  next
    case False
    then have "{k. k < 8 \<and> se_occupied (t' ! k) \<and> same_identifier ident (t' ! k)}
        \<subseteq> {k. k < 8 \<and> se_occupied (?t ! k) \<and> same_identifier ident (?t ! k)}"
      using len i by (auto simp: t' nth_list_update split: if_splits)
    then have "card {k. k < 8 \<and> se_occupied (t' ! k) \<and> same_identifier ident (t' ! k)}
        \<le> card {k. k < 8 \<and> se_occupied (?t ! k) \<and> same_identifier ident (?t ! k)}"
      by (intro card_mono) auto
    also have "\<dots> \<le> 2" using inv by (simp add: session_inv_def)
    finally show ?thesis .
  qed
  moreover have "\<forall>k<8. \<forall>j<8. se_occupied (t' ! k) \<longrightarrow> se_occupied (t' ! j)
      \<longrightarrow> se_token_digest (t' ! k) = se_token_digest (t' ! j) \<longrightarrow> k = j"
  proof (intro allI impI)
    fix k j assume kj: "k < 8" "j < 8" "se_occupied (t' ! k)" "se_occupied (t' ! j)"
      "se_token_digest (t' ! k) = se_token_digest (t' ! j)"
    show "k = j"
      using kj inv fr [of k] fr [of j] len i r
      by (cases "k = index"; cases "j = index") (simp_all add: t' session_inv_def)
  qed
  ultimately show ?thesis
    using c len t' by (simp add: session_inv_def)
qed

lemma authenticateE:
  assumes "argus_session_authenticate sha t token now = ((ESP_OK, Some (p, i)), t')"
  obtains d where "digest_secret sha token = Some d" and "i < length t" and "se_occupied (t ! i)"
    and "\<not> expired now (t ! i)" and "se_token_digest (t ! i) = d" and "p = se_principal (t ! i)"
    and "t' = (zero_where (expired now) t)[i := (t ! i)\<lparr> se_last_activity_us := now \<rparr>]"
proof -
  let ?t = "zero_where (expired now) t"
  obtain d where d: "digest_secret sha token = Some d"
    and f: "find (\<lambda>i. se_occupied (?t ! i) \<and> se_token_digest (?t ! i) = d) (rev [0..<length ?t]) = Some i"
    and r: "p = se_principal (?t ! i)" "t' = ?t[i := (?t ! i)\<lparr> se_last_activity_us := now \<rparr>]"
    using assms by (auto simp: argus_session_authenticate_def Let_def split: option.splits if_splits)
  have i: "i < length t" "se_occupied (?t ! i)" "se_token_digest (?t ! i) = d"
    using find_first [OF f] by auto
  then have "?t ! i = t ! i" "\<not> expired now (t ! i)"
    by (auto simp: zero_where_nth split: if_splits)
  with that [OF d] i r show thesis by simp
qed

lemma authenticate_inv:
  assumes "session_inv t"
  shows "session_inv (snd (argus_session_authenticate sha t token now))"
proof -
  let ?t = "zero_where (expired now) t"
  have inv: "session_inv ?t" by (rule zero_where_inv [OF assms])
  have "session_inv (?t[i := (?t ! i)\<lparr> se_last_activity_us := now \<rparr>])" if "i < 8" for i
    by (rule session_inv_shrink [OF inv])
      (use inv that in \<open>auto simp: session_inv_def nth_list_update split: if_splits\<close>)
  moreover have "i < 8" if "find P (rev [0..<length ?t]) = Some i" for i P
    using find_first [OF that] inv by (auto simp: session_inv_def)
  ultimately show ?thesis
    using assms inv by (auto simp: argus_session_authenticate_def Let_def split: option.split)
qed

lemma revoke_token_inv:
  assumes "session_inv t"
  shows "session_inv (snd (argus_session_revoke_token sha t token))"
proof -
  have "session_inv (t[i := zero_record])" if "i < 8" for i
    by (rule session_inv_shrink [OF assms])
      (use assms that in \<open>auto simp: session_inv_def nth_list_update split: if_splits\<close>)
  moreover have "i < 8" if "find P [0..<length t] = Some i" for i P
    using find_first [OF that] assms by (auto simp: session_inv_def)
  ultimately show ?thesis
    using assms by (auto simp: argus_session_revoke_token_def split: option.split)
qed

lemma mark_inv: "session_inv t \<Longrightarrow> session_inv (argus_session_mark_reauthenticated t i now)"
  by (rule session_inv_shrink [where t = t])
    (auto simp: argus_session_mark_reauthenticated_def session_inv_def nth_list_update split: if_splits)

lemma revoke_all_inv: "session_inv t \<Longrightarrow> session_inv (snd (argus_session_revoke_all t))"
  by (rule session_inv_shrink [where t = t]) (auto simp: argus_session_revoke_all_def session_inv_def)

lemma revoke_inv:
  assumes "session_inv t"
  shows "session_inv (snd (argus_session_revoke_principal t ident))"
    and "session_inv (snd (argus_session_revoke_epoch t epoch))"
  using assms
  by (auto simp: argus_session_revoke_principal_def argus_session_revoke_epoch_def zero_where_inv Let_def
      split: option.split)

inductive session_step :: "(u8 list \<Rightarrow> u8 list option) \<Rightarrow> session_table \<Rightarrow> session_table \<Rightarrow> bool" for sha where
  ss_create: "session_step sha t (snd (argus_session_create sha t who now rnd))"
| ss_authenticate: "session_step sha t (snd (argus_session_authenticate sha t token now))"
| ss_mark: "session_step sha t (argus_session_mark_reauthenticated t i now)"
| ss_revoke_principal: "session_step sha t (snd (argus_session_revoke_principal t ident))"
| ss_revoke_token: "session_step sha t (snd (argus_session_revoke_token sha t token))"
| ss_revoke_epoch: "session_step sha t (snd (argus_session_revoke_epoch t epoch))"
| ss_revoke_all: "session_step sha t (snd (argus_session_revoke_all t))"

lemma session_step_inv: "session_step sha t t' \<Longrightarrow> session_inv t \<Longrightarrow> session_inv t'"
  by (induction rule: session_step.induct)
    (auto intro: create_inv authenticate_inv mark_inv revoke_inv revoke_token_inv revoke_all_inv)

lemma session_reachable_inv: "(session_step sha)\<^sup>*\<^sup>* argus_session_table_init t \<Longrightarrow> session_inv t"
  by (induction rule: rtranclp_induct) (auto intro: session_step_inv init_session_inv)

text \<open>The record a creation stores is the one its token finds.\<close>

lemma create_then_authenticate:
  assumes "(session_step sha)\<^sup>*\<^sup>* argus_session_table_init t"
    and "argus_session_create sha t (Some p) now rnd = ((ESP_OK, Some out), t')"
    and "\<forall>k. length (snd (rnd k)) = 32" and "\<forall>b. sha b \<noteq> None"
    and "now \<le> now'" and "unat now' - unat now < 900000000"
  shows "\<exists>i t''. argus_session_authenticate sha t' (Some (cr_token out)) now' = ((ESP_OK, Some (p, i)), t'')
    \<and> argus_session_csrf_valid sha t'' i (Some (cr_csrf out))"
proof -
  note inv = session_reachable_inv [OF assms(1)]
  have inv': "session_inv t'" using create_inv [OF inv, of sha "Some p" now rnd] assms(2) by simp
  let ?t = "zero_where (expired now) t"
  obtain index token csrf d c where i: "index < 8" and sha: "sha token = Some d" "sha csrf = Some c"
    and len: "length token = 32" "length csrf = 32" and now: "now \<noteq> 0"
    and out: "cr_token out = hex_encode token" "cr_csrf out = hex_encode csrf"
    and t': "t' = ?t[index := \<lparr> se_occupied = True, se_token_digest = d, se_csrf_digest = c,
        se_csrf_secret = hex_encode csrf @ [0], se_principal = p, se_created_us = now,
        se_last_activity_us = now, se_reauthenticated_us = now \<rparr>]"
  proof (rule createE [OF assms(2)], goal_cases)
    case (1 q index token csrf d k j)
    obtain c where "sha csrf = Some c" using assms(4) by auto
    moreover have "length token = 32" "length csrf = 32"
      using assms(3) [rule_format, of j] assms(3) [rule_format, of k] 1(9,10) by simp_all
    ultimately show ?case
      using 1 inv by (intro 1(1)) (auto simp: session_inv_def)
  qed
  let ?r = "t' ! index" and ?z = "zero_where (expired now') t'"
  have len': "length t' = 8" using inv' by (simp add: session_inv_def)
  have r: "se_occupied ?r" "se_token_digest ?r = d" "se_csrf_digest ?r = c" "se_principal ?r = p"
    "se_created_us ?r = now" "se_last_activity_us ?r = now"
    using i len' by (simp_all add: t')
  have diff: "unat (now' - now) = unat now' - unat now"
    using assms(5) by (rule unat_sub)
  have live: "\<not> expired now' ?r"
    using assms(5,6) r by (simp add: expired_def word_le_nat_alt diff not_less)
  then have z: "?z ! index = ?r" using i len' by (simp add: zero_where_nth)
  have uniq: "j = index" if "j < 8" "se_occupied (?z ! j)" "se_token_digest (?z ! j) = d" for j
  proof -
    have "se_occupied (t' ! j)" "se_token_digest (t' ! j) = d"
      using that len' by (auto simp: zero_where_nth split: if_splits)
    then show ?thesis using inv' i r that(1) by (auto simp: session_inv_def)
  qed
  have "find (\<lambda>j. se_occupied (?z ! j) \<and> se_token_digest (?z ! j) = d) (rev [0..<8]) = Some index"
  proof (cases "find (\<lambda>j. se_occupied (?z ! j) \<and> se_token_digest (?z ! j) = d) (rev [0..<8])")
    case None
    then have "\<forall>j\<in>set (rev [0..<8]). \<not> (se_occupied (?z ! j) \<and> se_token_digest (?z ! j) = d)"
      by (simp only: find_None_iff) blast
    from bspec [OF this, of index] i r z show ?thesis by simp
  next
    case (Some j)
    with uniq find_first [OF Some] show ?thesis by auto
  qed
  moreover have "now' \<noteq> 0" using assms(5) now by auto
  moreover have "digest_secret sha (Some (hex_encode token)) = Some d" "digest_secret sha (Some (hex_encode csrf)) = Some c"
    using len sha by (simp_all add: digest_encoded)
  ultimately show ?thesis
    using len' i r z
    by (simp add: argus_session_authenticate_def out Let_def argus_session_csrf_valid_def)
qed

text \<open>Steps that create no session only empty records.\<close>

inductive session_quiet :: "(u8 list \<Rightarrow> u8 list option) \<Rightarrow> session_table \<Rightarrow> session_table \<Rightarrow> bool" for sha where
  sq_authenticate: "session_quiet sha t (snd (argus_session_authenticate sha t token now))"
| sq_mark: "session_quiet sha t (argus_session_mark_reauthenticated t i now)"
| sq_revoke_principal: "session_quiet sha t (snd (argus_session_revoke_principal t ident))"
| sq_revoke_token: "session_quiet sha t (snd (argus_session_revoke_token sha t token))"
| sq_revoke_epoch: "session_quiet sha t (snd (argus_session_revoke_epoch t epoch))"
| sq_revoke_all: "session_quiet sha t (snd (argus_session_revoke_all t))"

definition no_session :: "(u8 list \<Rightarrow> principal \<Rightarrow> bool) \<Rightarrow> session_table \<Rightarrow> bool" where
  "no_session P t \<longleftrightarrow> (\<forall>r\<in>set t. se_occupied r \<longrightarrow> \<not> P (se_token_digest r) (se_principal r))"

lemma no_session_zero: "no_session P t \<Longrightarrow> no_session P (zero_where Q t)"
  by (auto simp: no_session_def zero_where_def)

lemma no_session_update:
  assumes "no_session P t" "se_occupied r \<longrightarrow> \<not> P (se_token_digest r) (se_principal r)"
  shows "no_session P (t[i := r])"
  using assms set_update_subset_insert [of t i r] by (auto simp: no_session_def)

lemma no_session_nth:
  assumes "no_session P t" "i < length t" "se_occupied (t ! i)"
  shows "\<not> P (se_token_digest (t ! i)) (se_principal (t ! i))"
  using assms by (simp add: no_session_def)

lemma session_quiet_keeps:
  assumes "session_quiet sha t t'" "no_session P t"
  shows "no_session P t'"
  using assms
proof (induction rule: session_quiet.induct)
  case (sq_authenticate t token now)
  let ?t = "zero_where (expired now) t"
  have z: "no_session P ?t" by (rule no_session_zero [OF sq_authenticate])
  have "no_session P (?t[i := (?t ! i)\<lparr> se_last_activity_us := now \<rparr>])"
    if "find Q (rev [0..<length ?t]) = Some i" for i Q
    using find_first [OF that] no_session_nth [OF z, of i] by (intro no_session_update [OF z]) auto
  then show ?case
    using z sq_authenticate by (auto simp: argus_session_authenticate_def Let_def split: option.split)
next
  case (sq_mark t i now)
  then show ?case
  proof (cases "i < length t")
    case True
    with sq_mark show ?thesis
      using no_session_nth [of P t i]
      by (auto simp: argus_session_mark_reauthenticated_def intro!: no_session_update)
  qed (simp add: argus_session_mark_reauthenticated_def not_less list_update_beyond)
next
  case (sq_revoke_token t token)
  then show ?case
    by (auto simp: argus_session_revoke_token_def intro!: no_session_update split: option.split)
qed (auto simp: argus_session_revoke_principal_def argus_session_revoke_epoch_def
    argus_session_revoke_all_def no_session_def zero_where_def Let_def split: option.split)

lemma session_quiet_run:
  "(session_quiet sha)\<^sup>*\<^sup>* t t' \<Longrightarrow> no_session P t \<Longrightarrow> no_session P t'"
  by (induction rule: rtranclp_induct) (auto intro: session_quiet_keeps)

lemma no_session_authenticate:
  assumes "no_session P t" "argus_session_authenticate sha t token now = ((e, Some (p, i)), t')"
    and "digest_secret sha token = Some d"
  shows "\<not> P d p"
proof -
  have "e = ESP_OK" using assms(2)
    by (auto simp: argus_session_authenticate_def Let_def split: option.splits if_splits)
  with assms(2) have "argus_session_authenticate sha t token now = ((ESP_OK, Some (p, i)), t')" by simp
  then obtain d' where "digest_secret sha token = Some d'" "i < length t" "se_occupied (t ! i)"
    "se_token_digest (t ! i) = d'" "p = se_principal (t ! i)" by (rule authenticateE)
  then show ?thesis using no_session_nth [OF assms(1), of i] assms(3) by simp
qed

section \<open>Properties\<close>

text \<open>
  A created session authenticates. When a creation succeeds on a reachable table with
  32-byte random secrets, presenting the returned token while the session is neither idle nor
  past its absolute limit yields exactly the principal it was created for, and the returned
  CSRF secret is valid for that session.
\<close>

theorem session_round_trip:
  assumes "(session_step sha)\<^sup>*\<^sup>* argus_session_table_init t"
    and "argus_session_create sha t (Some p) now rnd = ((ESP_OK, Some out), t')"
    and "\<forall>k. length (snd (rnd k)) = 32" and "\<forall>b. sha b \<noteq> None"
    and "now \<le> now'" and "unat now' - unat now < 900000000"
  shows "\<exists>i t''. argus_session_authenticate sha t' (Some (cr_token out)) now' = ((ESP_OK, Some (p, i)), t'')
    \<and> argus_session_csrf_valid sha t'' i (Some (cr_csrf out))"
  using assms by (rule create_then_authenticate)

definition demo_sha :: "u8 list \<Rightarrow> u8 list option" where
  "demo_sha b = Some (take 32 (b @ replicate 32 0))"

definition demo_rnd :: "nat \<Rightarrow> esp_err \<times> u8 list" where
  "demo_rnd k = (ESP_OK, replicate 32 (of_nat (k + 1)))"

lemma root_principal_valid: "argus_authorization_principal_valid (Some root_principal)"
  by (simp add: argus_authorization_principal_valid_def root_principal_def permission_bit_def
      PERMISSION_DEFINED_MASK_def cstr_def c_strlen_def level_order)

lemma demo_create:
  "\<exists>out t'. argus_session_create demo_sha argus_session_table_init (Some root_principal) 5 demo_rnd
     = ((ESP_OK, Some out), t')"
proof -
  have z: "zero_where (expired 5) argus_session_table_init = argus_session_table_init"
    by (simp add: zero_where_def argus_session_table_init_def)
  have f: "find (\<lambda>i. \<not> se_occupied (argus_session_table_init ! i)) [0..<length argus_session_table_init] = Some 0"
    by (simp add: argus_session_table_init_def upt_rec)
  have c: "count_where P argus_session_table_init = 0" for P
    by (simp add: count_where_def argus_session_table_init_def)
  have "draw_token demo_sha demo_rnd argus_session_table_init (Suc n) 0
      = (ESP_OK, Some (replicate 32 1, replicate 32 1), 1)" for n
    by (simp add: demo_rnd_def demo_sha_def argus_session_table_init_def list_ex_iff list_all_iff)
  from this [of 3] have d: "draw_token demo_sha demo_rnd argus_session_table_init 4 0
      = (ESP_OK, Some (replicate 32 1, replicate 32 1), 1)" by (simp add: numeral_eq_Suc)
  show ?thesis
    by (simp add: argus_session_create_def root_principal_valid z f c d Let_def demo_rnd_def list_all_iff)
qed

theorem session_round_trip_witness:
  "\<exists>out t' i t''. argus_session_create demo_sha argus_session_table_init (Some root_principal) 5 demo_rnd
      = ((ESP_OK, Some out), t')
     \<and> argus_session_authenticate demo_sha t' (Some (cr_token out)) 1000 = ((ESP_OK, Some (root_principal, i)), t'')"
proof -
  obtain out t' where c: "argus_session_create demo_sha argus_session_table_init (Some root_principal) 5 demo_rnd
      = ((ESP_OK, Some out), t')" using demo_create by blast
  have "\<exists>i t''. argus_session_authenticate demo_sha t' (Some (cr_token out)) 1000
        = ((ESP_OK, Some (root_principal, i)), t'')
      \<and> argus_session_csrf_valid demo_sha t'' i (Some (cr_csrf out))"
    by (rule session_round_trip [OF rtranclp.rtrancl_refl c]) (simp_all add: demo_rnd_def demo_sha_def)
  with c show ?thesis by blast
qed

text \<open>
  Authentication is sound, and the table is bounded. On every reachable table a token
  that authenticates names an occupied session whose stored digest is the token's, that was
  created no more than eight hours and last used no more than fifteen minutes before, and no
  other session has that digest; and no principal ever has more than two sessions.
\<close>

theorem session_authentication_sound:
  assumes "(session_step sha)\<^sup>*\<^sup>* argus_session_table_init t"
    and "argus_session_authenticate sha t token now = ((ESP_OK, Some (p, i)), t')"
  shows "i < 8 \<and> se_occupied (t ! i) \<and> p = se_principal (t ! i)
    \<and> digest_secret sha token = Some (se_token_digest (t ! i))
    \<and> unat now - unat (se_created_us (t ! i)) < 28800000000 \<and> se_created_us (t ! i) \<le> now
    \<and> unat now - unat (se_last_activity_us (t ! i)) < 900000000 \<and> se_last_activity_us (t ! i) \<le> now
    \<and> card {j. j < 8 \<and> se_occupied (t ! j) \<and> se_token_digest (t ! j) = se_token_digest (t ! i)} = 1
    \<and> card {j. j < 8 \<and> se_occupied (t ! j) \<and> same_identifier (pr_identifier p) (t ! j)} \<le> 2"
proof -
  note inv = session_reachable_inv [OF assms(1)]
  obtain d where a: "digest_secret sha token = Some d" "i < 8" "se_occupied (t ! i)"
    "\<not> expired now (t ! i)" "se_token_digest (t ! i) = d" "p = se_principal (t ! i)"
    by (rule authenticateE [OF assms(2)]) (use inv in \<open>auto simp: session_inv_def\<close>)
  have le: "se_created_us (t ! i) \<le> now" "se_last_activity_us (t ! i) \<le> now"
    using a(4) by (auto simp: expired_def not_less)
  have "unat now - unat (se_created_us (t ! i)) < 28800000000"
    "unat now - unat (se_last_activity_us (t ! i)) < 900000000"
    using a(4) unat_sub [OF le(1)] unat_sub [OF le(2)]
    by (simp_all add: expired_def not_le word_less_nat_alt)
  moreover have "{j. j < 8 \<and> se_occupied (t ! j) \<and> se_token_digest (t ! j) = se_token_digest (t ! i)} = {i}"
    using inv a by (auto simp: session_inv_def)
  ultimately show ?thesis
    using inv a le by (simp add: session_inv_def)
qed

theorem session_authentication_sound_witness:
  "\<exists>token t p i t'. argus_session_authenticate demo_sha t (Some token) 5 = ((ESP_OK, Some (p, i)), t')
     \<and> digest_secret demo_sha (Some token) = Some (se_token_digest (t ! i))"
proof -
  obtain out t where c: "argus_session_create demo_sha argus_session_table_init (Some root_principal) 5 demo_rnd
      = ((ESP_OK, Some out), t)" using demo_create by blast
  have r: "(session_step demo_sha)\<^sup>*\<^sup>* argus_session_table_init t"
    using ss_create [of demo_sha argus_session_table_init "Some root_principal" 5 demo_rnd] c by auto
  have "\<exists>i t'. argus_session_authenticate demo_sha t (Some (cr_token out)) 5 = ((ESP_OK, Some (root_principal, i)), t')
      \<and> argus_session_csrf_valid demo_sha t' i (Some (cr_csrf out))"
    by (rule create_then_authenticate [OF rtranclp.rtrancl_refl c]) (simp_all add: demo_rnd_def demo_sha_def)
  then obtain i t' where au: "argus_session_authenticate demo_sha t (Some (cr_token out)) 5
      = ((ESP_OK, Some (root_principal, i)), t')" by blast
  from session_authentication_sound [OF r au] au show ?thesis by blast
qed

text \<open>
  Revocation is final. Once a principal, or every principal of an older security epoch,
  is revoked, no sequence of authentications, reauthentications and further revocations makes
  any token authenticate as one of them again; only a new session creation can.
\<close>

theorem revocation_final:
  assumes "(session_quiet sha)\<^sup>*\<^sup>* (snd (argus_session_revoke_principal t (Some ident))) t1"
    and "epoch \<noteq> 0" and "(session_quiet sha)\<^sup>*\<^sup>* (snd (argus_session_revoke_epoch t epoch)) t2"
    and "argus_session_authenticate sha t1 token now = ((e1, Some (p1, i1)), u1)"
    and "argus_session_authenticate sha t2 token now = ((e2, Some (p2, i2)), u2)"
  shows "cstr (pr_identifier p1) \<noteq> cstr ident \<and> pr_security_epoch p2 = epoch"
proof -
  let ?P = "\<lambda>(d :: u8 list) p. cstr (pr_identifier p) = cstr ident"
  let ?E = "\<lambda>(d :: u8 list) p. pr_security_epoch p \<noteq> epoch"
  have dg: "\<exists>d. digest_secret sha token = Some d"
    using assms(4) by (auto simp: argus_session_authenticate_def split: option.splits if_splits)
  have "no_session ?P (snd (argus_session_revoke_principal t (Some ident)))"
    by (auto simp: argus_session_revoke_principal_def no_session_def zero_where_def same_identifier_def)
  from session_quiet_run [OF assms(1) this] dg have "\<not> ?P d p1" for d
    using no_session_authenticate [OF _ assms(4)] by blast
  moreover have "no_session ?E (snd (argus_session_revoke_epoch t epoch))"
    using assms(2) by (auto simp: argus_session_revoke_epoch_def no_session_def zero_where_def Let_def)
  from session_quiet_run [OF assms(3) this] dg have "\<not> ?E d p2" for d
    using no_session_authenticate [OF _ assms(5)] by blast
  ultimately show ?thesis by blast
qed

theorem revocation_final_witness:
  "\<exists>t token p i u. argus_session_authenticate demo_sha (snd (argus_session_revoke_principal t (Some [66]))) (Some token) 5
      = ((ESP_OK, Some (p, i)), u) \<and> cstr (pr_identifier p) \<noteq> cstr [66] \<and> pr_security_epoch p = 1"
proof -
  obtain out t where c: "argus_session_create demo_sha argus_session_table_init (Some root_principal) 5 demo_rnd
      = ((ESP_OK, Some out), t)" using demo_create by blast
  obtain i t' where au: "argus_session_authenticate demo_sha t (Some (cr_token out)) 5
      = ((ESP_OK, Some (root_principal, i)), t')"
    using create_then_authenticate [OF rtranclp.rtrancl_refl c, of 5] by (auto simp: demo_rnd_def demo_sha_def)
  have "se_principal r = root_principal" if "r \<in> set t" "se_occupied r" for r
  proof (rule createE [OF c], goal_cases)
    case (1 p index token csrf d k j)
    have "zero_where (expired 5) argus_session_table_init = replicate 8 zero_record"
      by (simp add: zero_where_def argus_session_table_init_def)
    with 1(1,12) that show ?case
      by (auto dest!: subsetD [OF set_update_subset_insert])
  qed
  then have same: "zero_where (same_identifier [66]) t = t"
    "zero_where (\<lambda>r. pr_security_epoch (se_principal r) \<noteq> 1) t = t"
    by (auto simp: zero_where_def same_identifier_def root_principal_def cstr_def intro!: map_idI)
  have "snd (argus_session_revoke_principal t (Some [66])) = t" "snd (argus_session_revoke_epoch t 1) = t"
    using same by (simp_all add: argus_session_revoke_principal_def argus_session_revoke_epoch_def Let_def)
  with au revocation_final [of demo_sha t "[66]" t 1 t "Some (cr_token out)" 5 ESP_OK root_principal i t'
      ESP_OK root_principal i t'] show ?thesis
    by (intro exI [of _ t] exI [of _ "cr_token out"] exI [of _ root_principal]) auto
qed

end
