(* ===== verification/Identity.thy ===== *)
theory Identity
  imports Argus_Prelude
begin

text \<open>
  Device identity (\<open>argus_identity.c\<close>): the hardware-derived fields composed at start-up,
  and the validators that the stored configuration relies on. Strings here are the fixed
  buffers of the source: \<open>snprintf\<close> and \<open>strlcpy\<close> truncate to the buffer and terminate it.
  A string literal is given as its characters.
\<close>

section \<open>State\<close>

definition str_bytes :: "string \<Rightarrow> u8 list" where
  "str_bytes s = map of_char s"

text \<open>Filling a buffer of \<open>n\<close> bytes with a C string, as \<open>snprintf\<close> does.\<close>

definition fill_buffer :: "nat \<Rightarrow> u8 list \<Rightarrow> u8 list" where
  "fill_buffer n s = (let t = take (n - 1) (cstr s) in t @ replicate (n - length t) 0)"

record identity =
  id_mac_uid :: "u8 list"
  id_client_id :: "u8 list"
  id_unit_id :: "u8 list"
  id_device_name :: "u8 list"
  id_device_model :: "u8 list"
  id_fw_version :: "u8 list"
  id_service_ssid :: "u8 list"

text \<open>The two upper-case hexadecimal digits of \<open>%02X\<close>.\<close>

definition hex_upper :: "u8 \<Rightarrow> u8" where
  "hex_upper n = (if n < 10 then 48 + n else 55 + n)"

definition hex2 :: "u8 \<Rightarrow> u8 list" where
  "hex2 b = [hex_upper (drop_bit 4 b), hex_upper (b AND 15)]"

text \<open>
  \<open>argus_identity_init\<close>: \<open>mac\<close> is what the eFuse read returns, \<open>None\<close> when it fails;
  \<open>version\<close> is the application descriptor's version, \<open>None\<close> when there is none.
\<close>

definition argus_identity_init :: "u8 list option \<Rightarrow> u8 list option \<Rightarrow> identity" where
  "argus_identity_init mac version =
     (let m = (case mac of Some m \<Rightarrow> m | None \<Rightarrow> [0xA1, 0xB2, 0xC3, 0xD4, 0xE5, 0xF6])
      in \<lparr> id_mac_uid = fill_buffer 33 (str_bytes ''ESP32S3-'' @ concat (map hex2 (take 6 m))),
           id_client_id = fill_buffer 33 (str_bytes ''default_client''),
           id_unit_id = fill_buffer 33 (str_bytes ''unit_01''),
           id_device_name = fill_buffer 65 (str_bytes ''Argus Peristaltic Pump V2''),
           id_device_model = fill_buffer 33 (str_bytes ''ARGUS-PUMP-V2''),
           id_fw_version = fill_buffer 65
             (case version of
                Some v \<Rightarrow> if cstr v \<noteq> [] then v else str_bytes ''v2-phase4d.4-dev''
              | None \<Rightarrow> str_bytes ''v2-phase4d.4-dev''),
           id_service_ssid = fill_buffer 33 (str_bytes ''Argus-Service-'' @ concat (map hex2 (drop 3 (take 6 m)))) \<rparr>)"

section \<open>Validators\<close>

definition id_char :: "u8 \<Rightarrow> bool" where
  "id_char c \<longleftrightarrow> b_isalnum c \<or> c = 45 \<or> c = 95"

definition argus_identity_validate_client_id :: "u8 list option \<Rightarrow> bool" where
  "argus_identity_validate_client_id s =
     (case s of None \<Rightarrow> False
      | Some b \<Rightarrow> 1 \<le> c_strlen b \<and> c_strlen b \<le> 32 \<and> list_all id_char (cstr b))"

definition argus_identity_validate_unit_id :: "u8 list option \<Rightarrow> bool" where
  "argus_identity_validate_unit_id s =
     (case s of None \<Rightarrow> False
      | Some b \<Rightarrow> 1 \<le> c_strlen b \<and> c_strlen b \<le> 32 \<and> list_all id_char (cstr b))"

definition argus_identity_validate_device_name :: "u8 list option \<Rightarrow> bool" where
  "argus_identity_validate_device_name s =
     (case s of None \<Rightarrow> False
      | Some b \<Rightarrow> 1 \<le> c_strlen b \<and> c_strlen b \<le> 64 \<and> list_all b_isprint (cstr b))"

section \<open>Buffers\<close>

lemma fill_buffer_length [simp]: "0 < n \<Longrightarrow> length (fill_buffer n s) = n"
  by (simp add: fill_buffer_def Let_def)

lemma cstr_append_zero:
  assumes "0 \<notin> set t" "0 < k"
  shows "cstr (t @ replicate k 0) = t"
proof -
  have "takeWhile (\<lambda>b. b \<noteq> 0) (t @ replicate k 0) = t @ takeWhile (\<lambda>b. b \<noteq> 0) (replicate k (0 :: u8))"
    using assms(1) by (intro takeWhile_append2) auto
  then show ?thesis
    using assms(2) by (cases k) (simp_all add: cstr_def)
qed

lemma cstr_no_zero: "0 \<notin> set (cstr s)"
  by (auto simp: cstr_def dest: set_takeWhileD)

text \<open>A filled buffer reads back as the string, truncated to its capacity.\<close>

lemma cstr_fill_buffer:
  assumes "0 < n"
  shows "cstr (fill_buffer n s) = take (n - 1) (cstr s)"
  unfolding fill_buffer_def Let_def
  by (rule cstr_append_zero) (use assms cstr_no_zero in_set_takeD in \<open>fastforce+\<close>)

end
