(* ===== verification/Crc32.thy ===== *)
theory Crc32
  imports Argus_Prelude
begin

text \<open>
  The reflected IEEE 802.3 CRC-32 that both stores compute bit by bit
  (\<open>calc_crc32_raw\<close> in \<open>argus_nvs_config.c\<close>, \<open>crc32_bytes\<close> in
  \<open>argus_security_store.c\<close>). The shift register is injective, so a change of one byte of a
  record always changes its CRC.
\<close>

definition crc_bit :: "u32 \<Rightarrow> u32" where
  "crc_bit crc = (if crc AND 1 \<noteq> 0 then drop_bit 1 crc XOR 0xEDB88320 else drop_bit 1 crc)"

definition crc_byte :: "u32 \<Rightarrow> u8 \<Rightarrow> u32" where
  "crc_byte crc b = (crc_bit ^^ 8) (crc XOR ucast b)"

definition calc_crc32_raw :: "u8 list \<Rightarrow> u32" where
  "calc_crc32_raw data = NOT (fold (\<lambda>b crc. crc_byte crc b) data 0xFFFFFFFF)"

section \<open>The register is injective\<close>

lemma xor_cancel_right: "a XOR c = b XOR c \<Longrightarrow> a = b" for a b c :: "'a::len word"
proof -
  assume "a XOR c = b XOR c"
  then have "(a XOR c) XOR c = (b XOR c) XOR c" by simp
  then show "a = b" by (simp add: xor.assoc)
qed

text \<open>Bit 31 of the next register is the bit shifted out, because the polynomial has it set.\<close>

lemma crc_bit_top: "bit (crc_bit c) 31 \<longleftrightarrow> bit c 0"
proof -
  have "bit (0xEDB88320 :: u32) 31" by simp
  moreover have "\<not> bit (drop_bit 1 c) 31" by (simp add: bit_drop_bit_eq bit_word_iff_drop_bit_and)
  moreover have "c AND 1 \<noteq> 0 \<longleftrightarrow> bit c 0" by (simp add: and_one_eq odd_iff_mod_2_eq_one bit_0)
  ultimately show ?thesis by (simp add: crc_bit_def bit_xor_iff)
qed

lemma crc_bit_inj: "crc_bit a = crc_bit b \<Longrightarrow> a = b"
proof -
  assume eq: "crc_bit a = crc_bit b"
  then have low: "bit a 0 = bit b 0" by (metis crc_bit_top)
  have and1: "c AND 1 \<noteq> 0 \<longleftrightarrow> bit c 0" for c :: u32
    by (simp add: and_one_eq odd_iff_mod_2_eq_one bit_0)
  have shift: "drop_bit 1 a = drop_bit 1 b"
  proof (cases "bit a 0")
    case True
    then have "drop_bit 1 a XOR 0xEDB88320 = drop_bit 1 b XOR 0xEDB88320"
      using eq low by (simp add: crc_bit_def and1)
    then show ?thesis by (rule xor_cancel_right)
  next
    case False
    then show ?thesis using eq low by (simp add: crc_bit_def and1)
  qed
  show "a = b"
  proof (rule bit_eqI)
    fix n
    show "bit a n = bit b n"
    proof (cases n)
      case 0
      then show ?thesis using low by simp
    next
      case (Suc m)
      have "bit (drop_bit 1 a) m = bit (drop_bit 1 b) m" using shift by simp
      then show ?thesis by (simp add: Suc bit_drop_bit_eq)
    qed
  qed
qed

lemma crc_bits_inj: "(crc_bit ^^ n) a = (crc_bit ^^ n) b \<Longrightarrow> a = b"
  by (induction n arbitrary: a b) (auto dest: crc_bit_inj)

lemma crc_byte_inj_register: "crc_byte a x = crc_byte b x \<Longrightarrow> a = b"
  unfolding crc_byte_def by (blast dest: crc_bits_inj xor_cancel_right)

lemma crc_byte_inj_byte:
  assumes "crc_byte c x = crc_byte c y"
  shows "x = y"
proof -
  have "c XOR ucast x = c XOR ucast y"
    using assms unfolding crc_byte_def by (rule crc_bits_inj)
  then have "ucast x XOR c = ucast y XOR c"
    by (simp only: xor.commute [of c])
  then have eq: "(ucast x :: u32) = ucast y"
    by (rule xor_cancel_right)
  show ?thesis
  proof (rule bit_word_eqI)
    fix n assume "n < LENGTH(8)"
    have "bit (ucast x :: u32) n = bit (ucast y :: u32) n" using eq by simp
    then show "bit x n = bit y n" using \<open>n < LENGTH(8)\<close> by (simp add: bit_ucast_iff)
  qed
qed

lemma crc_fold_inj:
  "fold (\<lambda>b crc. crc_byte crc b) data a = fold (\<lambda>b crc. crc_byte crc b) data b \<Longrightarrow> a = b"
  by (induction data arbitrary: a b) (auto dest: crc_byte_inj_register)

lemma crc_one_byte:
  assumes "calc_crc32_raw (xs @ x # ys) = calc_crc32_raw (xs @ y # ys)"
  shows "x = y"
proof -
  let ?c = "fold (\<lambda>b crc. crc_byte crc b) xs 0xFFFFFFFF"
  have "fold (\<lambda>b crc. crc_byte crc b) ys (crc_byte ?c x) = fold (\<lambda>b crc. crc_byte crc b) ys (crc_byte ?c y)"
    using assms by (simp add: calc_crc32_raw_def)
  then show ?thesis by (blast dest: crc_fold_inj crc_byte_inj_byte)
qed

end
