(* ===== verification/Nvs_Config.thy ===== *)
theory Nvs_Config
  imports Identity Crc32
begin

text \<open>
  The dual-slot configuration store (\<open>argus_nvs_config.c\<close>). A slot holds a payload with
  its schema, generation, CRC and marker; a selector names the slot to boot from; a
  provisioning high-water mark and a reset-pending marker live beside them.

  The core works on an injected driver whose calls may be missing and may fail. A call with
  an output parameter takes the parameter's initial value and returns its final one. The
  production driver is written over the platform's NVS interface, an argument. Payload
  strings are the fixed buffers of the packed structure.
\<close>

section \<open>Data\<close>

record config_payload =
  pl_client_id :: "u8 list"
  pl_unit_id :: "u8 list"
  pl_device_name :: "u8 list"
  pl_sta_ssid :: "u8 list"
  pl_sta_pass :: "u8 list"
  pl_provisioned_flags :: u8
  pl_authority_profile :: u8

record cfg_slot =
  sl_schema_version :: u16
  sl_config_generation :: u32
  sl_payload_length :: u16
  sl_crc32 :: u32
  sl_valid_marker :: u32
  sl_payload :: config_payload

definition payload_zero :: config_payload where
  "payload_zero = \<lparr> pl_client_id = replicate 33 0, pl_unit_id = replicate 33 0,
     pl_device_name = replicate 65 0, pl_sta_ssid = replicate 33 0, pl_sta_pass = replicate 64 0,
     pl_provisioned_flags = 0, pl_authority_profile = 0 \<rparr>"

definition slot_zero :: cfg_slot where
  "slot_zero = \<lparr> sl_schema_version = 0, sl_config_generation = 0, sl_payload_length = 0,
     sl_crc32 = 0, sl_valid_marker = 0, sl_payload = payload_zero \<rparr>"

text \<open>The packed bytes of a payload, and the sizes of the three schema versions.\<close>

definition payload_bytes :: "config_payload \<Rightarrow> u8 list" where
  "payload_bytes p = pl_client_id p @ pl_unit_id p @ pl_device_name p @ pl_sta_ssid p @ pl_sta_pass p
     @ [pl_provisioned_flags p, pl_authority_profile p]"

abbreviation (input) PAYLOAD_V1_SIZE :: nat where "PAYLOAD_V1_SIZE \<equiv> 228"
abbreviation (input) PAYLOAD_V2_SIZE :: nat where "PAYLOAD_V2_SIZE \<equiv> 229"
abbreviation (input) PAYLOAD_SIZE :: nat where "PAYLOAD_SIZE \<equiv> 230"
abbreviation (input) CONFIG_VALID_MARKER :: u32 where "CONFIG_VALID_MARKER \<equiv> 0xA5A55A5A"
abbreviation (input) PROVISIONED_IDENTITY :: u8 where "PROVISIONED_IDENTITY \<equiv> 1"
abbreviation (input) PROFILE_STANDALONE_HMI :: u8 where "PROFILE_STANDALONE_HMI \<equiv> 0"
abbreviation (input) PROFILE_MAX :: u8 where "PROFILE_MAX \<equiv> 1"

definition CONFIG_MASK_STRING :: "u8 list" where
  "CONFIG_MASK_STRING = replicate 8 42"

definition argus_nvs_config_gen_is_newer :: "u32 \<Rightarrow> u32 \<Rightarrow> bool" where
  "argus_nvs_config_gen_is_newer gen_a gen_b =
     (if gen_a = 0 then False else if gen_b = 0 then True else sint (gen_a - gen_b) > 0)"

definition argus_nvs_config_calc_crc32 :: "config_payload option \<Rightarrow> u32" where
  "argus_nvs_config_calc_crc32 payload =
     (case payload of None \<Rightarrow> 0 | Some p \<Rightarrow> calc_crc32_raw (take PAYLOAD_SIZE (payload_bytes p)))"

definition argus_nvs_config_validate :: "config_payload option \<Rightarrow> esp_err" where
  "argus_nvs_config_validate cfg =
     (case cfg of
        None \<Rightarrow> ESP_ERR_INVALID_ARG
      | Some c \<Rightarrow>
          if \<not> argus_identity_validate_client_id (Some (pl_client_id c)) then ESP_ERR_INVALID_ARG
          else if \<not> argus_identity_validate_unit_id (Some (pl_unit_id c)) then ESP_ERR_INVALID_ARG
          else if \<not> argus_identity_validate_device_name (Some (pl_device_name c)) then ESP_ERR_INVALID_ARG
          else if c_strlen (pl_sta_ssid c) > 32 then ESP_ERR_INVALID_ARG
          else if c_strlen (pl_sta_ssid c) > 0
                  \<and> (c_strlen (pl_sta_pass c) < 8 \<or> c_strlen (pl_sta_pass c) > 63)
          then ESP_ERR_INVALID_ARG
          else if pl_authority_profile c > PROFILE_MAX then ESP_ERR_INVALID_ARG
          else ESP_OK)"

text \<open>
  The slot check migrates older schemas in place: it returns the verdict and the slot as it
  leaves it.
\<close>

definition upgrade_slot :: "config_payload \<Rightarrow> cfg_slot \<Rightarrow> bool \<times> cfg_slot" where
  "upgrade_slot p slot =
     (argus_nvs_config_validate (Some p) = ESP_OK,
      slot\<lparr> sl_payload := p, sl_schema_version := 3, sl_payload_length := 230,
            sl_crc32 := calc_crc32_raw (take PAYLOAD_SIZE (payload_bytes p)) \<rparr>)"

definition is_slot_valid :: "cfg_slot \<Rightarrow> bool \<times> cfg_slot" where
  "is_slot_valid slot =
     (let p = sl_payload slot; bytes = payload_bytes p in
      if sl_valid_marker slot \<noteq> CONFIG_VALID_MARKER then (False, slot)
      else if sl_config_generation slot = 0 then (False, slot)
      else if sl_schema_version slot = 3 \<and> sl_payload_length slot = 230 then
        (calc_crc32_raw (take PAYLOAD_SIZE bytes) = sl_crc32 slot
           \<and> argus_nvs_config_validate (Some p) = ESP_OK, slot)
      else if sl_schema_version slot = 1 \<and> sl_payload_length slot = 228 then
        (if calc_crc32_raw (take PAYLOAD_V1_SIZE bytes) \<noteq> sl_crc32 slot then (False, slot)
         else upgrade_slot (p\<lparr> pl_provisioned_flags := 0,
                               pl_authority_profile := PROFILE_STANDALONE_HMI \<rparr>) slot)
      else if sl_schema_version slot = 2 \<and> sl_payload_length slot = 229 then
        (if calc_crc32_raw (take PAYLOAD_V2_SIZE bytes) \<noteq> sl_crc32 slot then (False, slot)
         else upgrade_slot (p\<lparr> pl_authority_profile := PROFILE_STANDALONE_HMI \<rparr>) slot)
      else (False, slot))"

section \<open>The injected driver and the core\<close>

record 's nvs_driver =
  nd_read_slot :: "(u8 \<Rightarrow> 's \<Rightarrow> cfg_slot \<Rightarrow> esp_err \<times> cfg_slot) option"
  nd_write_slot :: "(u8 \<Rightarrow> cfg_slot \<Rightarrow> 's \<Rightarrow> esp_err \<times> 's) option"
  nd_read_selector :: "('s \<Rightarrow> u8 \<Rightarrow> esp_err \<times> u8) option"
  nd_write_selector :: "(u8 \<Rightarrow> 's \<Rightarrow> esp_err \<times> 's) option"
  nd_read_reset_pending :: "('s \<Rightarrow> bool \<Rightarrow> esp_err \<times> bool) option"
  nd_write_reset_pending :: "(bool \<Rightarrow> 's \<Rightarrow> esp_err \<times> 's) option"
  nd_read_provisioned_hwm :: "('s \<Rightarrow> u8 \<Rightarrow> esp_err \<times> u8) option"
  nd_write_provisioned_hwm :: "(u8 \<Rightarrow> 's \<Rightarrow> esp_err \<times> 's) option"
  nd_erase_all :: "('s \<Rightarrow> esp_err \<times> 's) option"

record nvs_core =
  nc_active_config :: config_payload
  nc_active_generation :: u32
  nc_active_slot_index :: u8
  nc_has_valid_config :: bool
  nc_initialized :: bool

definition nvs_core_zero :: nvs_core where
  "nvs_core_zero = \<lparr> nc_active_config = payload_zero, nc_active_generation = 0,
     nc_active_slot_index = 0, nc_has_valid_config = False, nc_initialized = False \<rparr>"

definition load_slot :: "u8 \<Rightarrow> cfg_slot \<Rightarrow> nvs_core \<Rightarrow> nvs_core" where
  "load_slot index slot core =
     core\<lparr> nc_active_slot_index := index, nc_active_config := sl_payload slot,
           nc_active_generation := sl_config_generation slot, nc_has_valid_config := True \<rparr>"

text \<open>Phase 1: the selector decides between two valid slots, the generation without it.\<close>

definition select_slot :: "bool \<Rightarrow> bool \<Rightarrow> cfg_slot \<Rightarrow> cfg_slot \<Rightarrow> u8 \<Rightarrow> nvs_core \<Rightarrow> nvs_core" where
  "select_slot valid_a valid_b a b selector core =
     (if valid_a \<and> valid_b then
        (if selector = 0 then load_slot 0 a core
         else if selector = 1 then load_slot 1 b core
         else if argus_nvs_config_gen_is_newer (sl_config_generation b) (sl_config_generation a)
         then load_slot 1 b core else load_slot 0 a core)
      else if valid_a then load_slot 0 a core
      else if valid_b then load_slot 1 b core
      else core\<lparr> nc_active_config := payload_zero, nc_active_generation := 0,
                 nc_has_valid_config := False \<rparr>)"

text \<open>The high-water mark: unreadable means every bit locked.\<close>

definition read_hwm :: "'s nvs_driver \<Rightarrow> 's \<Rightarrow> u8" where
  "read_hwm driver s =
     (case nd_read_provisioned_hwm driver of
        None \<Rightarrow> 0
      | Some f \<Rightarrow> (case f s 0 of
          (err, flags) \<Rightarrow> if err \<noteq> ESP_OK \<and> err \<noteq> ESP_ERR_NVS_NOT_FOUND then 0xFF else flags))"

text \<open>Phase 2: the flags of the configuration in use only grow.\<close>

definition enforce_flags :: "bool \<Rightarrow> bool \<Rightarrow> cfg_slot \<Rightarrow> cfg_slot \<Rightarrow> u8 \<Rightarrow> nvs_core \<Rightarrow> nvs_core" where
  "enforce_flags valid_a valid_b a b hwm core =
     (if nc_has_valid_config core then
        (let m1 = (if valid_a then hwm OR pl_provisioned_flags (sl_payload a) else hwm);
             m2 = (if valid_b then m1 OR pl_provisioned_flags (sl_payload b) else m1);
             c = nc_active_config core
         in core\<lparr> nc_active_config := c\<lparr> pl_provisioned_flags := pl_provisioned_flags c OR m2 \<rparr> \<rparr>)
      else core)"

text \<open>Phase 3: recovery from a selector that was not activated, with a best-effort repair.\<close>

definition switch_slot :: "'s nvs_driver \<Rightarrow> u8 \<Rightarrow> cfg_slot \<Rightarrow> u8 \<Rightarrow> nvs_core \<Rightarrow> 's \<Rightarrow> nvs_core \<times> 's" where
  "switch_slot driver index slot hwm core s =
     (let p = sl_payload slot
      in (core\<lparr> nc_active_slot_index := index,
                nc_active_config := p\<lparr> pl_provisioned_flags := pl_provisioned_flags p OR hwm \<rparr>,
                nc_active_generation := sl_config_generation slot \<rparr>,
          case nd_write_selector driver of None \<Rightarrow> s | Some f \<Rightarrow> snd (f index s)))"

definition recover_selector ::
  "'s nvs_driver \<Rightarrow> bool \<Rightarrow> bool \<Rightarrow> cfg_slot \<Rightarrow> cfg_slot \<Rightarrow> u8 \<Rightarrow> nvs_core \<Rightarrow> 's \<Rightarrow> nvs_core \<times> 's" where
  "recover_selector driver valid_a valid_b a b hwm core s =
     (let prov = (\<lambda>slot. pl_provisioned_flags (sl_payload slot) AND PROVISIONED_IDENTITY \<noteq> 0) in
      if nc_has_valid_config core \<and> valid_a \<and> valid_b \<and> hwm AND PROVISIONED_IDENTITY \<noteq> 0 then
        (if nc_active_slot_index core = 0 \<and> \<not> prov a \<and> prov b then switch_slot driver 1 b hwm core s
         else if nc_active_slot_index core = 1 \<and> \<not> prov b \<and> prov a then switch_slot driver 0 a hwm core s
         else (core, s))
      else (core, s))"

definition argus_nvs_core_init :: "'s nvs_driver option \<Rightarrow> nvs_core \<Rightarrow> 's \<Rightarrow> esp_err \<times> nvs_core \<times> 's" where
  "argus_nvs_core_init driver core s =
     (case driver of
        None \<Rightarrow> (ESP_ERR_INVALID_ARG, core, s)
      | Some d \<Rightarrow>
          (case (nd_read_slot d, nd_read_selector d) of
             (Some read_slot, Some read_selector) \<Rightarrow>
               (let (err_a, raw_a) = read_slot 0 s slot_zero;
                    (ok_a, a) = (if err_a = ESP_OK then is_slot_valid raw_a else (False, raw_a));
                    (err_b, raw_b) = read_slot 1 s slot_zero;
                    (ok_b, b) = (if err_b = ESP_OK then is_slot_valid raw_b else (False, raw_b));
                    selector = snd (read_selector s 0xFF);
                    c1 = select_slot ok_a ok_b a b selector nvs_core_zero;
                    hwm = read_hwm d s;
                    c2 = enforce_flags ok_a ok_b a b hwm c1;
                    (c3, s3) = recover_selector d ok_a ok_b a b hwm c2 s
                in (ESP_OK, c3\<lparr> nc_initialized := True \<rparr>, s3))
           | _ \<Rightarrow> (ESP_ERR_INVALID_ARG, core, s)))"

definition argus_nvs_core_get :: "nvs_core \<Rightarrow> esp_err \<times> config_payload option" where
  "argus_nvs_core_get core =
     (if \<not> nc_has_valid_config core then (ESP_ERR_NOT_FOUND, None) else (ESP_OK, Some (nc_active_config core)))"

definition inactive_slot_of :: "nvs_core \<Rightarrow> esp_err \<Rightarrow> u8 \<Rightarrow> u8" where
  "inactive_slot_of core sel_read_err selector =
     (if sel_read_err = ESP_OK \<and> selector \<le> 1 then (if selector = 0 then 1 else 0)
      else (if nc_active_slot_index core = 0 then 1 else 0))"

definition make_slot :: "u32 \<Rightarrow> config_payload \<Rightarrow> cfg_slot" where
  "make_slot next_gen cfg =
     \<lparr> sl_schema_version = 3, sl_config_generation = next_gen, sl_payload_length = 230,
       sl_crc32 = argus_nvs_config_calc_crc32 (Some cfg), sl_valid_marker = CONFIG_VALID_MARKER,
       sl_payload = cfg \<rparr>"

text \<open>
  The commit: write the inactive slot, read it back, raise the high-water mark, activate
  the selector, verify. A status leaves with the store as the last call left it.
\<close>

definition commit_hwm :: "'s nvs_driver \<Rightarrow> config_payload \<Rightarrow> 's \<Rightarrow> esp_err \<times> 's" where
  "commit_hwm d cfg s =
     (if pl_provisioned_flags cfg AND PROVISIONED_IDENTITY \<noteq> 0
      then (case nd_write_provisioned_hwm d of
              None \<Rightarrow> (ESP_OK, s) | Some f \<Rightarrow> f (pl_provisioned_flags cfg) s)
      else (ESP_OK, s))"

definition argus_nvs_core_commit ::
  "'s nvs_driver option \<Rightarrow> config_payload option \<Rightarrow> nvs_core \<Rightarrow> 's \<Rightarrow> esp_err \<times> nvs_core \<times> 's" where
  "argus_nvs_core_commit driver in_cfg core s =
     (case (driver, in_cfg) of
        (Some d, Some cfg) \<Rightarrow>
          (case (nd_read_selector d, nd_write_slot d, nd_read_slot d, nd_write_selector d) of
             (Some read_selector, Some write_slot, Some read_slot, Some write_selector) \<Rightarrow>
               if cstr (pl_sta_pass cfg) = CONFIG_MASK_STRING then (ESP_ERR_INVALID_ARG, core, s)
               else if argus_nvs_config_validate (Some cfg) \<noteq> ESP_OK
               then (argus_nvs_config_validate (Some cfg), core, s)
               else
                 (let (sel_err, selector) = read_selector s 0xFF;
                      inactive = inactive_slot_of core sel_err selector;
                      next_gen = nc_active_generation core + 1;
                      (write_err, s1) = write_slot inactive (make_slot next_gen cfg) s
                  in if write_err \<noteq> ESP_OK then (write_err, core, s1)
                     else
                       (let (read_err, raw) = read_slot inactive s1 slot_zero;
                            (ok, verify) = is_slot_valid raw
                        in if read_err \<noteq> ESP_OK \<or> \<not> ok \<or> sl_payload verify \<noteq> cfg
                           then (ESP_ERR_INVALID_STATE, core, s1)
                           else
                             (let (hwm_err, s2) = commit_hwm d cfg s1
                              in if hwm_err \<noteq> ESP_OK then (hwm_err, core, s2)
                                 else
                                   (let (sel_err2, s3) = write_selector inactive s2
                                    in if sel_err2 \<noteq> ESP_OK then (sel_err2, core, s3)
                                       else
                                         (let (final_err, raw2) = read_slot inactive s3 slot_zero;
                                              (ok2, final) = is_slot_valid raw2
                                          in if final_err \<noteq> ESP_OK \<or> \<not> ok2
                                             then (ESP_ERR_INVALID_STATE, core, s3)
                                             else (ESP_OK, core\<lparr> nc_active_slot_index := inactive,
                                                     nc_active_generation := next_gen,
                                                     nc_active_config := sl_payload final,
                                                     nc_has_valid_config := True \<rparr>, s3))))))
           | _ \<Rightarrow> (ESP_ERR_INVALID_ARG, core, s))
      | _ \<Rightarrow> (ESP_ERR_INVALID_ARG, core, s))"

definition argus_nvs_core_recovery_check :: "'s nvs_driver option \<Rightarrow> 's \<Rightarrow> esp_err \<times> 's" where
  "argus_nvs_core_recovery_check drv s =
     (case drv of
        None \<Rightarrow> (ESP_ERR_INVALID_ARG, s)
      | Some d \<Rightarrow>
          (case (nd_read_reset_pending d, nd_erase_all d, nd_write_reset_pending d) of
             (Some read_pending, Some erase, Some write_pending) \<Rightarrow>
               (let (pend_err, pending) = read_pending s False in
                if pend_err \<noteq> ESP_OK then (pend_err, s)
                else if \<not> pending then (ESP_OK, s)
                else
                  (let (erase_err, s1) = erase s in
                   if erase_err \<noteq> ESP_OK then (erase_err, s1)
                   else write_pending False s1))
           | _ \<Rightarrow> (ESP_ERR_INVALID_ARG, s)))"

definition argus_nvs_core_factory_reset ::
  "'s nvs_driver option \<Rightarrow> nvs_core \<Rightarrow> 's \<Rightarrow> esp_err \<times> nvs_core \<times> 's" where
  "argus_nvs_core_factory_reset drv core s =
     (case drv of
        None \<Rightarrow> (ESP_ERR_INVALID_ARG, core, s)
      | Some d \<Rightarrow>
          (case (nd_write_reset_pending d, nd_erase_all d) of
             (Some write_pending, Some erase) \<Rightarrow>
               (let (pend_err, s1) = write_pending True s in
                if pend_err \<noteq> ESP_OK then (pend_err, core, s1)
                else
                  (let (erase_err, s2) = erase s1 in
                   if erase_err \<noteq> ESP_OK then (erase_err, core, s2)
                   else
                     (let (clear_err, s3) = write_pending False s2;
                          (core_err, core', s4) = argus_nvs_core_init (Some d) core s3
                      in if core_err \<noteq> ESP_OK then (core_err, core', s4) else (clear_err, core', s4))))
           | _ \<Rightarrow> (ESP_ERR_INVALID_ARG, core, s)))"

end
