(* ===== verification/Nvs_Manager.thy ===== *)
theory Nvs_Manager
  imports Nvs_Config
begin

text \<open>
  The production side of the configuration store (\<open>argus_nvs_config.c\<close>): the driver over
  the platform's NVS interface, the manager around the core, the commissioning checks, the
  read-only observation, and the device identity composed from the stored configuration.

  The NVS interface is an argument: a record of calls over an abstract flash state. Opening
  takes the namespace and whether it is opened for writing.
\<close>

section \<open>The production driver\<close>

record 'n nvs_api =
  nv_open :: "string \<Rightarrow> bool \<Rightarrow> 'n \<Rightarrow> esp_err \<times> 'n"
  nv_get_blob :: "string \<Rightarrow> string \<Rightarrow> 'n \<Rightarrow> cfg_slot \<Rightarrow> esp_err \<times> cfg_slot"
  nv_set_blob :: "string \<Rightarrow> string \<Rightarrow> cfg_slot \<Rightarrow> 'n \<Rightarrow> esp_err \<times> 'n"
  nv_get_u8 :: "string \<Rightarrow> string \<Rightarrow> 'n \<Rightarrow> u8 \<Rightarrow> esp_err \<times> u8"
  nv_set_u8 :: "string \<Rightarrow> string \<Rightarrow> u8 \<Rightarrow> 'n \<Rightarrow> esp_err \<times> 'n"
  nv_erase_all :: "string \<Rightarrow> 'n \<Rightarrow> esp_err \<times> 'n"
  nv_commit :: "string \<Rightarrow> 'n \<Rightarrow> esp_err \<times> 'n"

abbreviation (input) NS_CFG :: string where "NS_CFG \<equiv> ''argus_cfg''"
abbreviation (input) NS_SYS :: string where "NS_SYS \<equiv> ''argus_sys''"
abbreviation (input) NS_RST :: string where "NS_RST \<equiv> ''argus_rst''"
abbreviation (input) KEY_SELECTOR :: string where "KEY_SELECTOR \<equiv> ''active_slot''"
abbreviation (input) KEY_RESET_PEND :: string where "KEY_RESET_PEND \<equiv> ''rst_pend''"
abbreviation (input) KEY_PROV_HWM :: string where "KEY_PROV_HWM \<equiv> ''prov_hwm''"

definition slot_key :: "u8 \<Rightarrow> string" where
  "slot_key slot_index = (if slot_index = 0 then ''slot_a'' else ''slot_b'')"

text \<open>The open, set, commit, close sequence of the writing calls.\<close>

definition nvs_write :: "'n nvs_api \<Rightarrow> string \<Rightarrow> ('n \<Rightarrow> esp_err \<times> 'n) \<Rightarrow> 'n \<Rightarrow> esp_err \<times> 'n" where
  "nvs_write api ns set_value s =
     (case nv_open api ns True s of
        (err, s1) \<Rightarrow>
          if err \<noteq> ESP_OK then (err, s1)
          else (case set_value s1 of
                  (err2, s2) \<Rightarrow> if err2 = ESP_OK then nv_commit api ns s2 else (err2, s2)))"

definition prod_read_slot :: "'n nvs_api \<Rightarrow> u8 \<Rightarrow> 'n \<Rightarrow> cfg_slot \<Rightarrow> esp_err \<times> cfg_slot" where
  "prod_read_slot api slot_index s out =
     (let err = fst (nv_open api NS_CFG False s)
      in if err \<noteq> ESP_OK then (err, out) else nv_get_blob api NS_CFG (slot_key slot_index) s out)"

definition prod_write_slot :: "'n nvs_api \<Rightarrow> u8 \<Rightarrow> cfg_slot \<Rightarrow> 'n \<Rightarrow> esp_err \<times> 'n" where
  "prod_write_slot api slot_index slot s =
     nvs_write api NS_CFG (nv_set_blob api NS_CFG (slot_key slot_index) slot) s"

definition prod_read_selector :: "'n nvs_api \<Rightarrow> 'n \<Rightarrow> u8 \<Rightarrow> esp_err \<times> u8" where
  "prod_read_selector api s out =
     (let err = fst (nv_open api NS_CFG False s)
      in if err \<noteq> ESP_OK then (err, out) else nv_get_u8 api NS_CFG KEY_SELECTOR s out)"

definition prod_write_selector :: "'n nvs_api \<Rightarrow> u8 \<Rightarrow> 'n \<Rightarrow> esp_err \<times> 'n" where
  "prod_write_selector api selector s =
     nvs_write api NS_CFG (nv_set_u8 api NS_CFG KEY_SELECTOR selector) s"

definition prod_read_reset_pending :: "'n nvs_api \<Rightarrow> 'n \<Rightarrow> bool \<Rightarrow> esp_err \<times> bool" where
  "prod_read_reset_pending api s out =
     (let err = fst (nv_open api NS_RST False s)
      in if err = ESP_ERR_NVS_NOT_FOUND then (ESP_OK, False)
         else if err \<noteq> ESP_OK then (err, out)
         else (case nv_get_u8 api NS_RST KEY_RESET_PEND s 0 of
                 (err2, val) \<Rightarrow>
                   if err2 = ESP_ERR_NVS_NOT_FOUND then (ESP_OK, False)
                   else if err2 \<noteq> ESP_OK then (err2, out)
                   else (ESP_OK, val = 1)))"

definition prod_write_reset_pending :: "'n nvs_api \<Rightarrow> bool \<Rightarrow> 'n \<Rightarrow> esp_err \<times> 'n" where
  "prod_write_reset_pending api pending s =
     nvs_write api NS_RST (nv_set_u8 api NS_RST KEY_RESET_PEND (if pending then 1 else 0)) s"

definition prod_read_provisioned_hwm :: "'n nvs_api \<Rightarrow> 'n \<Rightarrow> u8 \<Rightarrow> esp_err \<times> u8" where
  "prod_read_provisioned_hwm api s out =
     (let err = fst (nv_open api NS_SYS False s)
      in if err = ESP_ERR_NVS_NOT_FOUND then (ESP_ERR_NVS_NOT_FOUND, 0)
         else if err \<noteq> ESP_OK then (err, out)
         else (case nv_get_u8 api NS_SYS KEY_PROV_HWM s out of
                 (err2, val) \<Rightarrow> (err2, if err2 = ESP_ERR_NVS_NOT_FOUND then 0 else val)))"

definition prod_write_provisioned_hwm :: "'n nvs_api \<Rightarrow> u8 \<Rightarrow> 'n \<Rightarrow> esp_err \<times> 'n" where
  "prod_write_provisioned_hwm api flags s =
     nvs_write api NS_SYS (nv_set_u8 api NS_SYS KEY_PROV_HWM flags) s"

definition argus_nvs_config_namespace_in_factory_reset_scope :: "string option \<Rightarrow> bool" where
  "argus_nvs_config_namespace_in_factory_reset_scope ns = (ns = Some NS_CFG \<or> ns = Some NS_SYS)"

text \<open>One round of the erase loop; the first error is kept and the loop goes on.\<close>

definition erase_namespace :: "'n nvs_api \<Rightarrow> string \<Rightarrow> esp_err \<times> 'n \<Rightarrow> esp_err \<times> 'n" where
  "erase_namespace api ns st =
     (let first = (\<lambda>e e'. if e = ESP_OK then e' else e); (first_err, s) = st in
      if \<not> argus_nvs_config_namespace_in_factory_reset_scope (Some ns)
      then (first first_err ESP_ERR_INVALID_STATE, s)
      else
        (let (open_err, s1) = nv_open api ns True s in
         if open_err = ESP_OK then
           (let (erase_err, s2) = nv_erase_all api ns s1;
                (commit_err, s3) = nv_commit api ns s2
            in (first (first first_err erase_err) commit_err, s3))
         else if open_err \<noteq> ESP_ERR_NVS_NOT_FOUND then (first first_err open_err, s1)
         else (first_err, s1)))"

definition prod_erase_all :: "'n nvs_api \<Rightarrow> 'n \<Rightarrow> esp_err \<times> 'n" where
  "prod_erase_all api s = erase_namespace api NS_SYS (erase_namespace api NS_CFG (ESP_OK, s))"

definition s_prod_driver :: "'n nvs_api \<Rightarrow> 'n nvs_driver" where
  "s_prod_driver api =
     \<lparr> nd_read_slot = Some (prod_read_slot api),
       nd_write_slot = Some (prod_write_slot api),
       nd_read_selector = Some (prod_read_selector api),
       nd_write_selector = Some (prod_write_selector api),
       nd_read_reset_pending = Some (prod_read_reset_pending api),
       nd_write_reset_pending = Some (prod_write_reset_pending api),
       nd_read_provisioned_hwm = Some (prod_read_provisioned_hwm api),
       nd_write_provisioned_hwm = Some (prod_write_provisioned_hwm api),
       nd_erase_all = Some (prod_erase_all api) \<rparr>"

section \<open>The manager\<close>

text \<open>
  The static core and its flag; \<open>drv\<close> is the driver in use. For the production driver the
  flash is initialised first: \<open>flash\<close> holds the results of the first initialisation, the
  erase and the second initialisation.
\<close>

record nvs_manager =
  nm_core :: nvs_core
  nm_initialized :: bool

abbreviation (input) ESP_ERR_NVS_NO_FREE_PAGES :: esp_err where "ESP_ERR_NVS_NO_FREE_PAGES \<equiv> 4365"
abbreviation (input) ESP_ERR_NVS_NEW_VERSION_FOUND :: esp_err where "ESP_ERR_NVS_NEW_VERSION_FOUND \<equiv> 4368"

definition flash_start :: "esp_err \<times> esp_err \<times> esp_err \<Rightarrow> esp_err" where
  "flash_start flash =
     (case flash of (init1, erase, init2) \<Rightarrow>
        if init1 = ESP_ERR_NVS_NO_FREE_PAGES \<or> init1 = ESP_ERR_NVS_NEW_VERSION_FOUND
        then (if erase \<noteq> ESP_OK then erase else init2) else init1)"

definition uncommissioned_defaults :: "nvs_core \<Rightarrow> nvs_core" where
  "uncommissioned_defaults core =
     (if \<not> nc_has_valid_config core
      then core\<lparr> nc_active_config := (nc_active_config core)
             \<lparr> pl_client_id := fill_buffer 33 (str_bytes ''default_client''),
               pl_unit_id := fill_buffer 33 (str_bytes ''unit_01''),
               pl_device_name := fill_buffer 65 (str_bytes ''Argus Peristaltic Pump V2'') \<rparr> \<rparr>
      else core)"

definition argus_nvs_config_init ::
  "(esp_err \<times> esp_err \<times> esp_err) option \<Rightarrow> 's nvs_driver \<Rightarrow> nvs_manager \<Rightarrow> 's \<Rightarrow>
     esp_err \<times> nvs_manager \<times> 's" where
  "argus_nvs_config_init flash drv m s =
     (let m0 = m\<lparr> nm_initialized := False \<rparr>;
          flash_err = (case flash of None \<Rightarrow> ESP_OK | Some f \<Rightarrow> flash_start f)
      in if flash_err \<noteq> ESP_OK then (flash_err, m0, s)
         else
           (let (recovery_err, s1) = argus_nvs_core_recovery_check (Some drv) s
            in if recovery_err \<noteq> ESP_OK then (recovery_err, m0, s1)
               else
                 (let (core_err, core, s2) = argus_nvs_core_init (Some drv) (nm_core m0) s1
                  in if core_err \<noteq> ESP_OK then (core_err, m0\<lparr> nm_core := core \<rparr>, s2)
                     else (ESP_OK, m0\<lparr> nm_core := uncommissioned_defaults core,
                                       nm_initialized := True \<rparr>, s2))))"

definition argus_nvs_config_get_effective ::
  "(esp_err \<times> esp_err \<times> esp_err) option \<Rightarrow> 's nvs_driver \<Rightarrow> nvs_manager \<Rightarrow> 's \<Rightarrow>
     (esp_err \<times> (config_payload \<times> bool) option) \<times> nvs_manager \<times> 's" where
  "argus_nvs_config_get_effective flash drv m s =
     (let (err, m1, s1) = (if \<not> nm_initialized m then argus_nvs_config_init flash drv m s else (ESP_OK, m, s))
      in if err \<noteq> ESP_OK \<and> err \<noteq> ESP_ERR_NVS_NOT_FOUND then ((err, None), m1, s1)
         else ((ESP_OK, Some (nc_active_config (nm_core m1), nc_has_valid_config (nm_core m1))), m1, s1))"

definition argus_nvs_config_get_uncommissioned_reason :: "config_payload option \<Rightarrow> string" where
  "argus_nvs_config_get_uncommissioned_reason cfg =
     (case cfg of
        None \<Rightarrow> ''Null payload pointer''
      | Some c \<Rightarrow>
          if \<not> argus_identity_validate_client_id (Some (pl_client_id c)) then ''Invalid Client ID''
          else if \<not> argus_identity_validate_unit_id (Some (pl_unit_id c)) then ''Invalid Unit ID''
          else if \<not> argus_identity_validate_device_name (Some (pl_device_name c)) then ''Invalid Device Name''
          else if c_strlen (pl_sta_ssid c) = 0 then ''STA SSID is empty''
          else if c_strlen (pl_sta_pass c) < 8 then ''STA Pass length < 8 chars''
          else if c_strlen (pl_sta_pass c) > 63 then ''STA Pass length > 63 chars''
          else ''Valid / Commissioned'')"

definition argus_nvs_config_is_commissioned :: "config_payload option \<Rightarrow> bool" where
  "argus_nvs_config_is_commissioned cfg =
     (case cfg of
        None \<Rightarrow> False
      | Some c \<Rightarrow> argus_nvs_config_validate (Some c) = ESP_OK
          \<and> c_strlen (pl_sta_ssid c) \<noteq> 0 \<and> \<not> c_strlen (pl_sta_pass c) < 8)"

definition argus_nvs_config_commit ::
  "'s nvs_driver \<Rightarrow> config_payload option \<Rightarrow> nvs_manager \<Rightarrow> 's \<Rightarrow> esp_err \<times> nvs_manager \<times> 's" where
  "argus_nvs_config_commit drv in_cfg m s =
     (case in_cfg of
        None \<Rightarrow> (ESP_ERR_INVALID_ARG, m, s)
      | Some cfg \<Rightarrow>
          if c_strlen (pl_sta_pass cfg) > 0 \<and> cstr (pl_sta_pass cfg) = CONFIG_MASK_STRING
          then (ESP_ERR_INVALID_ARG, m, s)
          else if argus_nvs_config_validate (Some cfg) \<noteq> ESP_OK
          then (argus_nvs_config_validate (Some cfg), m, s)
          else (case argus_nvs_core_commit (Some drv) (Some cfg) (nm_core m) s of
                  (err, core, s1) \<Rightarrow> (err, m\<lparr> nm_core := core \<rparr>, s1)))"

definition argus_nvs_config_factory_reset ::
  "'s nvs_driver \<Rightarrow> nvs_manager \<Rightarrow> 's \<Rightarrow> esp_err \<times> nvs_manager \<times> 's" where
  "argus_nvs_config_factory_reset drv m s =
     (case argus_nvs_core_factory_reset (Some drv) (nm_core m) s of
        (err, core, s1) \<Rightarrow> (err, m\<lparr> nm_core := uncommissioned_defaults core \<rparr>, s1))"

text \<open>The mask overwrites the start of the password buffer and leaves the bytes behind it.\<close>

definition argus_nvs_config_mask :: "config_payload \<Rightarrow> config_payload" where
  "argus_nvs_config_mask cfg =
     (if c_strlen (pl_sta_pass cfg) > 0
      then cfg\<lparr> pl_sta_pass := CONFIG_MASK_STRING @ [0] @ drop 9 (pl_sta_pass cfg) \<rparr> else cfg)"

section \<open>Observation\<close>

record nvs_observation =
  ob_selector_status :: esp_err
  ob_selector_present :: bool
  ob_selector :: u8
  ob_slot_a_status :: esp_err
  ob_slot_a_present :: bool
  ob_slot_a_valid :: bool
  ob_slot_a :: cfg_slot
  ob_slot_b_status :: esp_err
  ob_slot_b_present :: bool
  ob_slot_b_valid :: bool
  ob_slot_b :: cfg_slot

definition unexpected :: "esp_err \<Rightarrow> bool" where
  "unexpected e \<longleftrightarrow> e \<noteq> ESP_OK \<and> e \<noteq> ESP_ERR_NOT_FOUND \<and> e \<noteq> ESP_ERR_NVS_NOT_FOUND"

definition observe_slot ::
  "(u8 \<Rightarrow> 's \<Rightarrow> cfg_slot \<Rightarrow> esp_err \<times> cfg_slot) \<Rightarrow> u8 \<Rightarrow> 's \<Rightarrow> esp_err \<times> bool \<times> bool \<times> cfg_slot" where
  "observe_slot read_slot index s =
     (let (err, raw) = read_slot index s slot_zero;
          (ok, slot) = (if err = ESP_OK then is_slot_valid raw else (False, raw))
      in (err, err = ESP_OK, ok, slot))"

definition argus_nvs_core_get_observation_snapshot ::
  "(u8 \<Rightarrow> 's \<Rightarrow> cfg_slot \<Rightarrow> esp_err \<times> cfg_slot) \<Rightarrow> ('s \<Rightarrow> u8 \<Rightarrow> esp_err \<times> u8) \<Rightarrow> 's \<Rightarrow>
     esp_err \<times> nvs_observation" where
  "argus_nvs_core_get_observation_snapshot read_slot read_selector s =
     (let (sel_err, sel) = read_selector s 0;
          (a_err, a_present, a_ok, a) = observe_slot read_slot 0 s;
          (b_err, b_present, b_ok, b) = observe_slot read_slot 1 s
      in (if unexpected sel_err then sel_err else if unexpected a_err then a_err
          else if unexpected b_err then b_err else ESP_OK,
          \<lparr> ob_selector_status = sel_err, ob_selector_present = (sel_err = ESP_OK), ob_selector = sel,
            ob_slot_a_status = a_err, ob_slot_a_present = a_present, ob_slot_a_valid = a_ok, ob_slot_a = a,
            ob_slot_b_status = b_err, ob_slot_b_present = b_present, ob_slot_b_valid = b_ok,
            ob_slot_b = b \<rparr>))"

section \<open>Effective identity\<close>

definition argus_identity_compose_effective ::
  "identity \<Rightarrow> config_payload option \<Rightarrow> bool \<Rightarrow> identity" where
  "argus_identity_compose_effective hw_metadata cfg has_persisted =
     (case cfg of
        Some c \<Rightarrow>
          if has_persisted
          then hw_metadata\<lparr> id_client_id := fill_buffer 33 (pl_client_id c),
                            id_unit_id := fill_buffer 33 (pl_unit_id c),
                            id_device_name := fill_buffer 65 (pl_device_name c) \<rparr>
          else hw_metadata
      | None \<Rightarrow> hw_metadata)"

definition argus_identity_get ::
  "(esp_err \<times> esp_err \<times> esp_err) option \<Rightarrow> 's nvs_driver \<Rightarrow> u8 list option \<Rightarrow> u8 list option \<Rightarrow>
     identity option \<Rightarrow> nvs_manager \<Rightarrow> 's \<Rightarrow> (esp_err \<times> identity) \<times> identity option \<times> nvs_manager \<times> 's" where
  "argus_identity_get flash drv mac version ident m s =
     (let base = (case ident of Some i \<Rightarrow> i | None \<Rightarrow> argus_identity_init mac version);
          ((nvs_err, eff), m1, s1) = argus_nvs_config_get_effective flash drv m s
      in ((ESP_OK,
           if nvs_err = ESP_OK
           then (case eff of Some (cfg, has) \<Rightarrow> argus_identity_compose_effective base (Some cfg) has
                 | None \<Rightarrow> base)
           else base),
          Some base, m1, s1))"

end
