(* ===== verification/Nvs_Props.thy ===== *)
theory Nvs_Props
  imports Nvs_Manager
begin

text \<open>
  Correctness of the dual-slot configuration store. The driver's contract is the locale
  \<open>slot_driver\<close>, stated over a view of the durable cells; the documented behaviour of the
  platform's NVS calls is \<open>nvs_platform\<close>, and the production driver meets the first
  contract on every platform that meets the second. Writes may fail at any point, before or
  after they took effect, which covers every power loss between two calls.
\<close>

section \<open>Slots\<close>

text \<open>A slot that a commit builds is valid as it stands, unless its generation wrapped to 0.\<close>

lemma make_slot_valid:
  assumes "argus_nvs_config_validate (Some cfg) = ESP_OK"
  shows "is_slot_valid (make_slot g cfg) = (g \<noteq> 0, make_slot g cfg)"
  using assms by (simp add: is_slot_valid_def make_slot_def argus_nvs_config_calc_crc32_def Let_def)

lemma make_slot_payload [simp]: "sl_payload (make_slot g cfg) = cfg"
  by (simp add: make_slot_def)

abbreviation identity_locked :: "u8 \<Rightarrow> bool" where
  "identity_locked flags \<equiv> flags AND PROVISIONED_IDENTITY \<noteq> 0"

lemma identity_locked_or [simp]:
  "(a OR b) AND PROVISIONED_IDENTITY = 0 \<longleftrightarrow>
     a AND PROVISIONED_IDENTITY = 0 \<and> b AND PROVISIONED_IDENTITY = 0" for a b :: u8
  by (simp add: and_one_eq even_iff_mod_2_eq_zero [symmetric] even_or_iff)

lemma identity_locked_ff [simp]: "identity_locked 0xFF"
  by simp

text \<open>The CRC of the current schema covers every byte of the payload.\<close>

definition payload_wf :: "config_payload \<Rightarrow> bool" where
  "payload_wf p \<longleftrightarrow> length (pl_client_id p) = 33 \<and> length (pl_unit_id p) = 33 \<and> length (pl_device_name p) = 65
     \<and> length (pl_sta_ssid p) = 33 \<and> length (pl_sta_pass p) = 64"

lemma payload_bytes_length: "payload_wf p \<Longrightarrow> length (payload_bytes p) = PAYLOAD_SIZE"
  by (simp add: payload_wf_def payload_bytes_def)

lemma valid_crc:
  assumes "fst (is_slot_valid slot)" "sl_schema_version slot = 3" "payload_wf (sl_payload slot)"
  shows "calc_crc32_raw (payload_bytes (sl_payload slot)) = sl_crc32 slot"
  using assms by (auto simp: is_slot_valid_def Let_def payload_bytes_length split: if_splits)

lemma one_byte_split:
  assumes "i < length xs" "length ys = length xs" "\<And>j. j < length xs \<Longrightarrow> j \<noteq> i \<Longrightarrow> ys ! j = xs ! j"
  shows "ys = take i xs @ ys ! i # drop (Suc i) xs"
proof (rule nth_equalityI)
  fix j assume "j < length ys"
  then show "ys ! j = (take i xs @ ys ! i # drop (Suc i) xs) ! j"
    using assms by (cases "j = i") (auto simp: nth_append nth_Cons' less_Suc_eq)
qed (use assms in simp)

section \<open>The view of the durable cells\<close>

record nvs_view =
  vw_slot_a :: "cfg_slot option"
  vw_slot_b :: "cfg_slot option"
  vw_selector :: "u8 option"
  vw_hwm :: "u8 option"
  vw_pending :: bool

definition view_slot :: "nvs_view \<Rightarrow> u8 \<Rightarrow> cfg_slot option" where
  "view_slot v i = (if i = 0 then vw_slot_a v else vw_slot_b v)"

definition put_slot :: "u8 \<Rightarrow> cfg_slot option \<Rightarrow> nvs_view \<Rightarrow> nvs_view" where
  "put_slot i x v = (if i = 0 then v\<lparr> vw_slot_a := x \<rparr> else v\<lparr> vw_slot_b := x \<rparr>)"

definition erased :: "nvs_view \<Rightarrow> bool" where
  "erased v \<longleftrightarrow> vw_slot_a v = None \<and> vw_slot_b v = None \<and> vw_selector v = None \<and> vw_hwm v = None"

definition slot_bad :: "cfg_slot option \<Rightarrow> bool" where
  "slot_bad x = (case x of None \<Rightarrow> True | Some y \<Rightarrow> \<not> fst (is_slot_valid y))"

definition other :: "u8 \<Rightarrow> u8" where
  "other k = (if k = 0 then 1 else 0)"

lemma view_put_slot:
  "i \<le> 1 \<Longrightarrow> j \<le> 1 \<Longrightarrow> view_slot (put_slot i x v) j = (if i = j then x else view_slot v j)"
  by (auto simp: slot_index_cases view_slot_def put_slot_def)

lemma put_slot_other_cells [simp]:
  "vw_selector (put_slot i x v) = vw_selector v" "vw_hwm (put_slot i x v) = vw_hwm v"
  "vw_pending (put_slot i x v) = vw_pending v"
  by (simp_all add: put_slot_def)

lemma put_slot_same [simp]: "put_slot i (view_slot v i) v = v"
  by (simp add: put_slot_def view_slot_def)

lemma other_le [simp]: "other k \<le> 1" "other k \<noteq> k"
  by (auto simp: other_def)

section \<open>What a boot makes of a view\<close>

text \<open>
  The specification of start-up: the verdict on a cell, and the core that the three phases
  make of the cells. The repair write of the third phase does not influence the core.
\<close>

definition check_cell :: "cfg_slot option \<Rightarrow> bool \<times> cfg_slot" where
  "check_cell x = (case x of None \<Rightarrow> (False, slot_zero) | Some y \<Rightarrow> is_slot_valid y)"

definition no_driver :: "unit nvs_driver" where
  "no_driver = \<lparr> nd_read_slot = None, nd_write_slot = None, nd_read_selector = None,
     nd_write_selector = None, nd_read_reset_pending = None, nd_write_reset_pending = None,
     nd_read_provisioned_hwm = None, nd_write_provisioned_hwm = None, nd_erase_all = None \<rparr>"

definition boot_core :: "bool \<times> cfg_slot \<Rightarrow> bool \<times> cfg_slot \<Rightarrow> u8 \<Rightarrow> u8 \<Rightarrow> nvs_core" where
  "boot_core ca cb selector hwm =
     (case (ca, cb) of ((ok_a, a), (ok_b, b)) \<Rightarrow>
        let c1 = select_slot ok_a ok_b a b selector nvs_core_zero;
            c2 = enforce_flags ok_a ok_b a b hwm c1
        in (fst (recover_selector no_driver ok_a ok_b a b hwm c2 ()))\<lparr> nc_initialized := True \<rparr>)"

definition boot :: "nvs_view \<Rightarrow> nvs_core" where
  "boot v = boot_core (check_cell (vw_slot_a v)) (check_cell (vw_slot_b v))
     (case vw_selector v of None \<Rightarrow> 0xFF | Some k \<Rightarrow> k) (case vw_hwm v of None \<Rightarrow> 0 | Some h \<Rightarrow> h)"

lemma recover_selector_core:
  "fst (recover_selector d va vb a b hwm c s) = fst (recover_selector d' va vb a b hwm c s')"
  by (simp add: recover_selector_def switch_slot_def Let_def)

lemma recover_selector_store:
  "snd (recover_selector d va vb a b hwm c s) = s
   \<or> (nc_has_valid_config c \<and> (\<exists>f k. nd_write_selector d = Some f \<and> snd (recover_selector d va vb a b hwm c s) = snd (f k s)))"
  by (auto simp: recover_selector_def switch_slot_def Let_def split: option.splits)

text \<open>A start-up is \<open>boot_core\<close> on what its reads returned, plus at most one selector write.\<close>

definition read_cell :: "(u8 \<Rightarrow> 's \<Rightarrow> cfg_slot \<Rightarrow> esp_err \<times> cfg_slot) \<Rightarrow> u8 \<Rightarrow> 's \<Rightarrow> bool \<times> cfg_slot" where
  "read_cell rs i s =
     (case rs i s slot_zero of (e, raw) \<Rightarrow> if e = ESP_OK then is_slot_valid raw else (False, raw))"

lemma recover_selector_valid:
  "nc_has_valid_config (fst (recover_selector d va vb a b hwm c s)) = nc_has_valid_config c"
  by (simp add: recover_selector_def switch_slot_def Let_def)

lemma core_init_boot:
  assumes "nd_read_slot d = Some rs" "nd_read_selector d = Some rsel"
    and "argus_nvs_core_init (Some d) core s = (e, c, s')"
  shows "e = ESP_OK"
    and "c = boot_core (read_cell rs 0 s) (read_cell rs 1 s) (snd (rsel s 0xFF)) (read_hwm d s)"
    and "s' = s \<or> (nc_has_valid_config c \<and> (\<exists>f k. nd_write_selector d = Some f \<and> s' = snd (f k s)))"
proof -
  obtain ea ra where ra: "rs 0 s slot_zero = (ea, ra)" by fastforce
  obtain eb rb where rb: "rs 1 s slot_zero = (eb, rb)" by fastforce
  obtain va a where va: "read_cell rs 0 s = (va, a)" by fastforce
  obtain vb b where vb: "read_cell rs 1 s = (vb, b)" by fastforce
  let ?c2 = "enforce_flags va vb a b (read_hwm d s) (select_slot va vb a b (snd (rsel s 0xFF)) nvs_core_zero)"
  obtain c3 s3 where r: "recover_selector d va vb a b (read_hwm d s) ?c2 s = (c3, s3)" by fastforce
  have fin: "argus_nvs_core_init (Some d) core s = (ESP_OK, c3\<lparr> nc_initialized := True \<rparr>, s3)"
    using assms(1,2) ra rb va vb r by (simp add: argus_nvs_core_init_def read_cell_def Let_def)
  have c3: "c3 = fst (recover_selector no_driver va vb a b (read_hwm d s) ?c2 ())"
    using recover_selector_core r by (metis fst_conv)
  show "e = ESP_OK" using fin assms(3) by simp
  show "c = boot_core (read_cell rs 0 s) (read_cell rs 1 s) (snd (rsel s 0xFF)) (read_hwm d s)"
    using fin assms(3) va vb c3 by (simp add: boot_core_def Let_def)
  have "nc_has_valid_config c = nc_has_valid_config ?c2"
    using fin assms(3) r recover_selector_valid [of d va vb a b "read_hwm d s" ?c2 s] by auto
  then show "s' = s \<or> (nc_has_valid_config c \<and> (\<exists>f k. nd_write_selector d = Some f \<and> s' = snd (f k s)))"
    using recover_selector_store [of d va vb a b "read_hwm d s" ?c2 s] r fin assms(3) by auto
qed

text \<open>The identity lock of the core: its flags include every bit of the high-water mark.\<close>

lemma enforce_flags_locked:
  assumes "nc_has_valid_config c" "identity_locked hwm"
  shows "identity_locked (pl_provisioned_flags (nc_active_config (enforce_flags va vb a b hwm c)))"
  using assms by (simp add: enforce_flags_def Let_def)

lemma enforce_flags_valid [simp]:
  "nc_has_valid_config (enforce_flags va vb a b hwm c) = nc_has_valid_config c"
  by (simp add: enforce_flags_def Let_def)

lemma recover_selector_locked:
  assumes "identity_locked (pl_provisioned_flags (nc_active_config c))" "identity_locked hwm"
  shows "identity_locked (pl_provisioned_flags (nc_active_config (fst (recover_selector d va vb a b hwm c s))))"
  using assms by (simp add: recover_selector_def switch_slot_def Let_def)

lemma boot_core_locked:
  assumes "nc_has_valid_config (boot_core ca cb sel hwm)" and "identity_locked hwm"
  shows "identity_locked (pl_provisioned_flags (nc_active_config (boot_core ca cb sel hwm)))"
proof -
  obtain va a vb b where c: "ca = (va, a)" "cb = (vb, b)" by fastforce
  have "nc_has_valid_config (select_slot va vb a b sel nvs_core_zero)"
    using assms(1) by (simp add: c boot_core_def Let_def recover_selector_valid)
  then show ?thesis
    using assms(2) by (simp add: c boot_core_def Let_def recover_selector_locked enforce_flags_locked)
qed

lemma boot_core_none:
  assumes "\<not> fst ca" "\<not> fst cb"
  shows "\<not> nc_has_valid_config (boot_core ca cb sel hwm) \<and> nc_active_config (boot_core ca cb sel hwm) = payload_zero"
proof -
  obtain a b where "ca = (False, a)" "cb = (False, b)" using assms by (cases ca, cases cb) auto
  then show ?thesis
    by (simp add: boot_core_def select_slot_def enforce_flags_def recover_selector_def Let_def)
qed

text \<open>
  With a valid slot under the selector, a boot uses that slot, unless the high-water mark
  says that an identity was provisioned and only the other slot has one.
\<close>

definition same_settings :: "config_payload \<Rightarrow> config_payload \<Rightarrow> bool" where
  "same_settings p q \<longleftrightarrow> p\<lparr> pl_provisioned_flags := 0 \<rparr> = q\<lparr> pl_provisioned_flags := 0 \<rparr>"

lemma same_settings_refl [simp]: "same_settings p p"
  by (simp add: same_settings_def)

lemma same_settings_flags [simp]: "same_settings (p\<lparr> pl_provisioned_flags := f \<rparr>) p"
  by (simp add: same_settings_def)

definition slot_flags :: "cfg_slot \<Rightarrow> u8" where
  "slot_flags x = pl_provisioned_flags (sl_payload x)"

lemmas boot_phases = boot_def boot_core_def select_slot_def load_slot_def enforce_flags_def
  recover_selector_def switch_slot_def Let_def

lemma boot_selected:
  assumes "k \<le> 1" "vw_selector v = Some k" "check_cell (view_slot v k) = (True, x)"
    and "check_cell (view_slot v (other k)) = (ok, y)"
    and "\<not> (ok \<and> (\<exists>h. vw_hwm v = Some h \<and> identity_locked h) \<and> \<not> identity_locked (slot_flags x)
            \<and> identity_locked (slot_flags y))"
  shows "nc_has_valid_config (boot v) \<and> same_settings (nc_active_config (boot v)) (sl_payload x)
    \<and> nc_active_slot_index (boot v) = k \<and> nc_active_generation (boot v) = sl_config_generation x"
proof -
  have k: "k = 0 \<or> k = 1" using assms(1) by (simp add: slot_index_cases)
  then show ?thesis
  proof
    assume "k = 0"
    then show ?thesis
      using assms by (cases ok; cases "vw_hwm v") (auto simp add: view_slot_def other_def slot_flags_def boot_phases)
  next
    assume "k = 1"
    then show ?thesis
      using assms by (cases ok; cases "vw_hwm v") (auto simp add: view_slot_def other_def slot_flags_def boot_phases)
  qed
qed

lemma boot_switched:
  assumes "k \<le> 1" "vw_selector v = Some k" "check_cell (view_slot v k) = (True, x)"
    and "check_cell (view_slot v (other k)) = (True, y)"
    and "vw_hwm v = Some h" "identity_locked h" "\<not> identity_locked (slot_flags x)"
    and "identity_locked (slot_flags y)"
  shows "nc_has_valid_config (boot v) \<and> same_settings (nc_active_config (boot v)) (sl_payload y)"
proof -
  have k: "k = 0 \<or> k = 1" using assms(1) by (simp add: slot_index_cases)
  then show ?thesis
    using assms by (elim disjE) (simp_all add: view_slot_def other_def slot_flags_def boot_phases)
qed

section \<open>The driver contract\<close>

definition driver_of ::
  "(u8 \<Rightarrow> 's \<Rightarrow> cfg_slot \<Rightarrow> esp_err \<times> cfg_slot) \<Rightarrow> (u8 \<Rightarrow> cfg_slot \<Rightarrow> 's \<Rightarrow> esp_err \<times> 's) \<Rightarrow>
   ('s \<Rightarrow> u8 \<Rightarrow> esp_err \<times> u8) \<Rightarrow> (u8 \<Rightarrow> 's \<Rightarrow> esp_err \<times> 's) \<Rightarrow>
   ('s \<Rightarrow> bool \<Rightarrow> esp_err \<times> bool) \<Rightarrow> (bool \<Rightarrow> 's \<Rightarrow> esp_err \<times> 's) \<Rightarrow>
   ('s \<Rightarrow> u8 \<Rightarrow> esp_err \<times> u8) \<Rightarrow> (u8 \<Rightarrow> 's \<Rightarrow> esp_err \<times> 's) \<Rightarrow> ('s \<Rightarrow> esp_err \<times> 's) \<Rightarrow> 's nvs_driver" where
  "driver_of rs ws rsel wsel rp wp rh wh er =
     \<lparr> nd_read_slot = Some rs, nd_write_slot = Some ws, nd_read_selector = Some rsel,
       nd_write_selector = Some wsel, nd_read_reset_pending = Some rp, nd_write_reset_pending = Some wp,
       nd_read_provisioned_hwm = Some rh, nd_write_provisioned_hwm = Some wh, nd_erase_all = Some er \<rparr>"

lemma driver_of_sel [simp]:
  "nd_read_slot (driver_of rs ws rsel wsel rp wp rh wh er) = Some rs"
  "nd_write_slot (driver_of rs ws rsel wsel rp wp rh wh er) = Some ws"
  "nd_read_selector (driver_of rs ws rsel wsel rp wp rh wh er) = Some rsel"
  "nd_write_selector (driver_of rs ws rsel wsel rp wp rh wh er) = Some wsel"
  "nd_read_reset_pending (driver_of rs ws rsel wsel rp wp rh wh er) = Some rp"
  "nd_write_reset_pending (driver_of rs ws rsel wsel rp wp rh wh er) = Some wp"
  "nd_read_provisioned_hwm (driver_of rs ws rsel wsel rp wp rh wh er) = Some rh"
  "nd_write_provisioned_hwm (driver_of rs ws rsel wsel rp wp rh wh er) = Some wh"
  "nd_erase_all (driver_of rs ws rsel wsel rp wp rh wh er) = Some er"
  by (simp_all add: driver_of_def)

text \<open>
  What a commit can leave behind, as a relation on views: nothing but a replaced inactive
  slot, or the complete new slot with the mark and the selector raised or not.
\<close>

definition commit_outcome :: "u8 \<Rightarrow> u32 \<Rightarrow> config_payload \<Rightarrow> esp_err \<Rightarrow> nvs_view \<Rightarrow> nvs_view \<Rightarrow> bool" where
  "commit_outcome k g cfg err v v' \<longleftrightarrow>
     (err \<noteq> ESP_OK \<and> (\<exists>y. v' = put_slot (other k) y v
        \<and> (y = view_slot v (other k) \<or> y = Some (make_slot g cfg) \<or> slot_bad y)))
   \<or> (g \<noteq> 0 \<and> argus_nvs_config_validate (Some cfg) = ESP_OK
      \<and> (\<exists>h sel. v' = (put_slot (other k) (Some (make_slot g cfg)) v)\<lparr> vw_hwm := h, vw_selector := sel \<rparr>
           \<and> (h = vw_hwm v \<or> identity_locked (pl_provisioned_flags cfg) \<and> h = Some (pl_provisioned_flags cfg))
           \<and> (sel = vw_selector v \<or> sel = Some (other k))
           \<and> (err = ESP_OK \<longrightarrow> sel = Some (other k)
                \<and> (identity_locked (pl_provisioned_flags cfg) \<longrightarrow> h = Some (pl_provisioned_flags cfg)))))"

text \<open>
  The normal state of the store: the selector names a valid slot, and an identity that the
  mark records is in that slot. A commit in this state leaves a store that boots into the
  old or into the new settings, and a commit that reports success leaves the new ones, in
  the normal state again.
\<close>

definition hwm_locked :: "nvs_view \<Rightarrow> bool" where
  "hwm_locked v = (case vw_hwm v of None \<Rightarrow> False | Some h \<Rightarrow> identity_locked h)"

definition steady :: "nvs_view \<Rightarrow> u8 \<Rightarrow> cfg_slot \<Rightarrow> bool" where
  "steady v k x \<longleftrightarrow> k \<le> 1 \<and> vw_selector v = Some k \<and> check_cell (view_slot v k) = (True, x)
     \<and> (hwm_locked v \<longrightarrow> identity_locked (slot_flags x))"

lemma boot_two_slots:
  assumes "k \<le> 1" "vw_selector v = Some k" "check_cell (view_slot v k) = (True, x)"
    and "check_cell (view_slot v (other k)) = (True, y)"
  shows "nc_has_valid_config (boot v) \<and> (same_settings (nc_active_config (boot v)) (sl_payload x)
     \<or> same_settings (nc_active_config (boot v)) (sl_payload y))"
  using boot_selected [OF assms] boot_switched [OF assms] by blast

lemma boot_steady:
  assumes "steady v k x"
  shows "nc_has_valid_config (boot v) \<and> same_settings (nc_active_config (boot v)) (sl_payload x)
    \<and> nc_active_slot_index (boot v) = k \<and> nc_active_generation (boot v) = sl_config_generation x"
proof -
  obtain ok y where y: "check_cell (view_slot v (other k)) = (ok, y)" by fastforce
  show ?thesis
    using assms by (intro boot_selected [OF _ _ _ y]) (auto simp: steady_def hwm_locked_def)
qed

text \<open>The flags of a slot that is not selected count as well.\<close>

lemma boot_orphan_locked:
  assumes "steady v k x" "check_cell (view_slot v (other k)) = (True, y)" "identity_locked (slot_flags y)"
  shows "identity_locked (pl_provisioned_flags (nc_active_config (boot v)))"
proof -
  have "k = 0 \<or> k = 1" using assms(1) by (simp add: slot_index_cases steady_def)
  then show ?thesis
    using assms by (elim disjE; cases "vw_hwm v")
      (auto simp: steady_def hwm_locked_def view_slot_def other_def slot_flags_def boot_phases)
qed

lemma steady_other_slot:
  assumes "steady v k x"
  shows "steady (put_slot (other k) y v) k x"
  using assms by (simp add: steady_def view_put_slot hwm_locked_def)

lemma check_make_slot:
  assumes "argus_nvs_config_validate (Some cfg) = ESP_OK" "g \<noteq> 0"
  shows "check_cell (Some (make_slot g cfg)) = (True, make_slot g cfg)"
  using assms by (simp add: check_cell_def make_slot_valid)

lemma other_other: "k \<le> 1 \<Longrightarrow> other (other k) = k"
  by (auto simp: slot_index_cases other_def)

lemma view_slot_cells [simp]:
  "view_slot (v\<lparr> vw_hwm := h \<rparr>) i = view_slot v i" "view_slot (v\<lparr> vw_selector := s \<rparr>) i = view_slot v i"
  by (simp_all add: view_slot_def)

lemma outcome_boot:
  assumes st: "steady v k x" and out: "commit_outcome k g cfg err v v'"
  shows "nc_has_valid_config (boot v')
     \<and> (same_settings (nc_active_config (boot v')) (sl_payload x) \<or> same_settings (nc_active_config (boot v')) cfg)"
proof -
  have k: "k \<le> 1" "vw_selector v = Some k" "check_cell (view_slot v k) = (True, x)"
    using st by (auto simp: steady_def)
  consider (early) y where "v' = put_slot (other k) y v"
    | (late) h sel where "g \<noteq> 0" "argus_nvs_config_validate (Some cfg) = ESP_OK"
        "v' = (put_slot (other k) (Some (make_slot g cfg)) v)\<lparr> vw_hwm := h, vw_selector := sel \<rparr>"
        "sel = Some k \<or> sel = Some (other k)"
    using out k(2) unfolding commit_outcome_def by auto
  then show ?thesis
  proof cases
    case early
    then have "steady v' k x" using st by (simp add: steady_other_slot)
    then show ?thesis using boot_steady by blast
  next
    case late
    then have old: "check_cell (view_slot v' k) = (True, x)"
      and new: "check_cell (view_slot v' (other k)) = (True, make_slot g cfg)" and sel: "vw_selector v' = sel"
      using k by (simp_all add: view_put_slot check_make_slot)
    show ?thesis
      using late(4)
    proof
      assume "sel = Some k"
      then show ?thesis using boot_two_slots [OF k(1) _ old new] sel by simp
    next
      assume "sel = Some (other k)"
      then show ?thesis
        using boot_two_slots [OF other_le(1) _ new, of x] sel old k(1) by (auto simp: other_other)
    qed
  qed
qed

text \<open>
  A commit that reports success decides the next start-up: it has the new settings, except
  when the mark records an identity that the new settings do not carry; then the start-up
  returns to the old slot.
\<close>

lemma outcome_success_boot:
  assumes st: "steady v k x" and out: "commit_outcome k g cfg ESP_OK v v'"
  shows "same_settings (nc_active_config (boot v'))
    (if hwm_locked v \<and> \<not> identity_locked (pl_provisioned_flags cfg) then sl_payload x else cfg)"
proof -
  obtain h where h: "g \<noteq> 0" "argus_nvs_config_validate (Some cfg) = ESP_OK"
      "v' = (put_slot (other k) (Some (make_slot g cfg)) v)\<lparr> vw_hwm := h, vw_selector := Some (other k) \<rparr>"
      "h = vw_hwm v \<or> identity_locked (pl_provisioned_flags cfg)"
    using out unfolding commit_outcome_def by auto
  have k: "k \<le> 1" "check_cell (view_slot v k) = (True, x)" "hwm_locked v \<longrightarrow> identity_locked (slot_flags x)"
    using st by (auto simp: steady_def)
  have new: "check_cell (view_slot v' (other k)) = (True, make_slot g cfg)"
    and old: "check_cell (view_slot v' (other (other k))) = (True, x)"
    and sel: "vw_selector v' = Some (other k)" and mark: "vw_hwm v' = h"
    using h k by (simp_all add: view_put_slot check_make_slot other_other)
  show ?thesis
  proof (cases "hwm_locked v \<and> \<not> identity_locked (pl_provisioned_flags cfg)")
    case True
    then obtain m where "vw_hwm v' = Some m" "identity_locked m"
      using h(4) mark by (auto simp: hwm_locked_def split: option.splits)
    with True k(3) boot_switched [OF other_le(1) sel new old] show ?thesis by (simp add: slot_flags_def)
  next
    case False
    then have "\<not> (True \<and> (\<exists>m. vw_hwm v' = Some m \<and> identity_locked m)
        \<and> \<not> identity_locked (slot_flags (make_slot g cfg)) \<and> identity_locked (slot_flags x))"
      using h(4) mark by (auto simp: hwm_locked_def slot_flags_def)
    from boot_selected [OF other_le(1) sel new old this] False show ?thesis by auto
  qed
qed

lemma outcome_locked:
  assumes "commit_outcome k g cfg err v v'" "hwm_locked v"
  shows "hwm_locked v'"
  using assms unfolding commit_outcome_def by (auto simp: hwm_locked_def)

lemma outcome_pending:
  assumes "commit_outcome k g cfg err v v'"
  shows "vw_pending v' = vw_pending v"
  using assms unfolding commit_outcome_def by auto

locale slot_driver =
  fixes read_slot :: "u8 \<Rightarrow> 's \<Rightarrow> cfg_slot \<Rightarrow> esp_err \<times> cfg_slot"
    and write_slot :: "u8 \<Rightarrow> cfg_slot \<Rightarrow> 's \<Rightarrow> esp_err \<times> 's"
    and read_selector :: "'s \<Rightarrow> u8 \<Rightarrow> esp_err \<times> u8"
    and write_selector :: "u8 \<Rightarrow> 's \<Rightarrow> esp_err \<times> 's"
    and read_pending :: "'s \<Rightarrow> bool \<Rightarrow> esp_err \<times> bool"
    and write_pending :: "bool \<Rightarrow> 's \<Rightarrow> esp_err \<times> 's"
    and read_mark :: "'s \<Rightarrow> u8 \<Rightarrow> esp_err \<times> u8"
    and write_mark :: "u8 \<Rightarrow> 's \<Rightarrow> esp_err \<times> 's"
    and erase :: "'s \<Rightarrow> esp_err \<times> 's"
    and view :: "'s \<Rightarrow> nvs_view"
  assumes read_slot_stored: "\<And>i s out x. read_slot i s out = (ESP_OK, x) \<Longrightarrow> view_slot (view s) i = Some x"
    and write_slot_cell: "\<And>i x s e s'. write_slot i x s = (e, s') \<Longrightarrow>
          \<exists>y. view s' = put_slot i y (view s)
            \<and> (y = Some x \<or> e \<noteq> ESP_OK \<and> (y = view_slot (view s) i \<or> slot_bad y))"
    and read_selector_stored: "\<And>s out k. read_selector s out = (ESP_OK, k) \<Longrightarrow> vw_selector (view s) = Some k"
    and write_selector_cell: "\<And>k s e s'. write_selector k s = (e, s') \<Longrightarrow>
          view s' = (view s)\<lparr> vw_selector := Some k \<rparr> \<or> e \<noteq> ESP_OK \<and> view s' = view s"
    and read_pending_stored: "\<And>s out p. read_pending s out = (ESP_OK, p) \<Longrightarrow> p = vw_pending (view s)"
    and write_pending_cell: "\<And>p s e s'. write_pending p s = (e, s') \<Longrightarrow>
          view s' = (view s)\<lparr> vw_pending := p \<rparr> \<or> e \<noteq> ESP_OK \<and> view s' = view s"
    and read_mark_stored: "\<And>s out e h. read_mark s out = (e, h) \<Longrightarrow> e = ESP_OK \<or> e = ESP_ERR_NVS_NOT_FOUND \<Longrightarrow>
          vw_hwm (view s) = (if e = ESP_OK then Some h else None)"
    and write_mark_cell: "\<And>h s e s'. write_mark h s = (e, s') \<Longrightarrow>
          view s' = (view s)\<lparr> vw_hwm := Some h \<rparr> \<or> e \<noteq> ESP_OK \<and> view s' = view s"
    and erase_pending: "\<And>s e s'. erase s = (e, s') \<Longrightarrow> vw_pending (view s') = vw_pending (view s)"
    and erase_cells: "\<And>s s'. erase s = (ESP_OK, s') \<Longrightarrow> erased (view s')"
begin

abbreviation drv :: "'s nvs_driver" where
  "drv \<equiv> driver_of read_slot write_slot read_selector write_selector read_pending write_pending
     read_mark write_mark erase"

lemma inactive_other:
  assumes "vw_selector (view s) = None \<or> vw_selector (view s) = Some k" "nc_active_slot_index core = k"
    and "read_selector s 0xFF = (e, sel)"
  shows "inactive_slot_of core e sel = other k"
  using assms read_selector_stored [of s "0xFF" sel]
  by (cases "e = ESP_OK") (auto simp: inactive_slot_of_def other_def)

lemma commit_hwm_cell:
  assumes "commit_hwm drv cfg s = (e, s')"
  shows "\<exists>h. view s' = (view s)\<lparr> vw_hwm := h \<rparr>
     \<and> (h = vw_hwm (view s) \<or> identity_locked (pl_provisioned_flags cfg) \<and> h = Some (pl_provisioned_flags cfg))
     \<and> (e = ESP_OK \<longrightarrow> identity_locked (pl_provisioned_flags cfg) \<longrightarrow> h = Some (pl_provisioned_flags cfg))"
proof (cases "identity_locked (pl_provisioned_flags cfg)")
  case True
  then have w: "write_mark (pl_provisioned_flags cfg) s = (e, s')"
    using assms by (simp add: commit_hwm_def)
  show ?thesis
    using write_mark_cell [OF w] True
    by (elim disjE) (auto intro: exI [of _ "vw_hwm (view s)"])
next
  case False
  then have "s' = s" using assms by (simp add: commit_hwm_def)
  then show ?thesis using False by auto
qed

lemma core_commit_outcome:
  assumes sel: "read_selector s 0xFF = (e0, sel)" and ins: "inactive_slot_of core e0 sel = other k"
    and run: "argus_nvs_core_commit (Some drv) (Some cfg) core s = (err, core', s')"
  shows "commit_outcome k (nc_active_generation core + 1) cfg err (view s) (view s')"
proof (cases "cstr (pl_sta_pass cfg) = CONFIG_MASK_STRING \<or> argus_nvs_config_validate (Some cfg) \<noteq> ESP_OK")
  case True
  then have "s' = s \<and> err \<noteq> ESP_OK" using run by (auto simp: argus_nvs_core_commit_def split: if_splits)
  then show ?thesis by (auto simp: commit_outcome_def intro!: exI [of _ "view_slot (view s) (other k)"])
next
  case ok: False
  let ?g = "nc_active_generation core + 1"
  let ?new = "make_slot ?g cfg"
  obtain e1 s1 where w: "write_slot (other k) ?new s = (e1, s1)" by fastforce
  obtain y where y: "view s1 = put_slot (other k) y (view s)"
      "y = Some ?new \<or> e1 \<noteq> ESP_OK \<and> (y = view_slot (view s) (other k) \<or> slot_bad y)"
    using write_slot_cell [OF w] by blast
  obtain e2 raw where r: "read_slot (other k) s1 slot_zero = (e2, raw)" by fastforce
  obtain e3 s2 where h: "commit_hwm drv cfg s1 = (e3, s2)" by fastforce
  obtain e4 s3 where ws: "write_selector (other k) s2 = (e4, s3)" by fastforce
  show ?thesis
  proof (cases "e1 = ESP_OK \<and> e2 = ESP_OK \<and> fst (is_slot_valid raw)")
    case False
    then have "s' = s1 \<and> err \<noteq> ESP_OK"
      using run ok sel ins w r
      by (auto simp: argus_nvs_core_commit_def Let_def split: if_splits prod.splits)
    then show ?thesis using y by (auto simp: commit_outcome_def)
  next
    case True
    then have raw: "raw = ?new" and y_new: "y = Some ?new"
      using read_slot_stored [of "other k" s1 slot_zero raw] r y by (auto simp: view_put_slot)
    then have g: "?g \<noteq> 0" and iv: "is_slot_valid raw = (True, ?new)"
      using True ok make_slot_valid [of cfg ?g] by simp_all
    obtain h' where h': "view s2 = (view s1)\<lparr> vw_hwm := h' \<rparr>"
        "h' = vw_hwm (view s1) \<or> identity_locked (pl_provisioned_flags cfg) \<and> h' = Some (pl_provisioned_flags cfg)"
        "e3 = ESP_OK \<longrightarrow> identity_locked (pl_provisioned_flags cfg) \<longrightarrow> h' = Some (pl_provisioned_flags cfg)"
      using commit_hwm_cell [OF h] by blast
    have "(s' = s2 \<and> err \<noteq> ESP_OK) \<or> (s' = s3 \<and> (err = ESP_OK \<longrightarrow> e3 = ESP_OK \<and> e4 = ESP_OK))"
      using run ok sel ins w r h ws iv True
      by (auto simp: argus_nvs_core_commit_def Let_def split: if_splits prod.splits)
    then show ?thesis
    proof (elim disjE conjE)
      assume "s' = s2" "err \<noteq> ESP_OK"
      then have "view s' = (put_slot (other k) (Some ?new) (view s))\<lparr> vw_hwm := h', vw_selector := vw_selector (view s) \<rparr>"
        using h' y y_new by (simp add: put_slot_def)
      then show ?thesis using g ok h' y \<open>err \<noteq> ESP_OK\<close> unfolding commit_outcome_def by auto
    next
      assume s3: "s' = s3" "err = ESP_OK \<longrightarrow> e3 = ESP_OK \<and> e4 = ESP_OK"
      have "\<exists>sel'. view s3 = (view s2)\<lparr> vw_selector := sel' \<rparr>
          \<and> (sel' = vw_selector (view s2) \<or> sel' = Some (other k)) \<and> (e4 = ESP_OK \<longrightarrow> sel' = Some (other k))"
        using write_selector_cell [OF ws] by (elim disjE) (auto intro: exI [of _ "vw_selector (view s2)"])
      then obtain sel' where sel': "view s3 = (view s2)\<lparr> vw_selector := sel' \<rparr>"
          "sel' = vw_selector (view s2) \<or> sel' = Some (other k)" "e4 = ESP_OK \<longrightarrow> sel' = Some (other k)"
        by blast
      then have "view s' = (put_slot (other k) (Some ?new) (view s))\<lparr> vw_hwm := h', vw_selector := sel' \<rparr>"
        using h' y y_new s3 by simp
      then show ?thesis using g ok h' sel' s3 y unfolding commit_outcome_def by auto
    qed
  qed
qed

lemma commit_outcome_any:
  assumes "argus_nvs_core_commit (Some drv) (Some cfg) core s = (err, core', s')"
  shows "\<exists>k. commit_outcome k (nc_active_generation core + 1) cfg err (view s) (view s')"
proof -
  obtain e0 sel where sel: "read_selector s 0xFF = (e0, sel)" by fastforce
  have "inactive_slot_of core e0 sel \<le> 1" by (simp add: inactive_slot_of_def)
  then have "inactive_slot_of core e0 sel = other (other (inactive_slot_of core e0 sel))"
    by (simp add: other_other)
  then show ?thesis using core_commit_outcome [OF sel _ assms] by blast
qed

lemma commit_outcome_steady:
  assumes "steady (view s) k x" "nc_active_slot_index core = k"
    and "argus_nvs_core_commit (Some drv) (Some cfg) core s = (err, core', s')"
  shows "commit_outcome k (nc_active_generation core + 1) cfg err (view s) (view s')"
proof -
  obtain e0 sel where sel: "read_selector s 0xFF = (e0, sel)" by fastforce
  show ?thesis
    using assms by (intro core_commit_outcome [OF sel inactive_other [OF _ _ sel]]) (auto simp: steady_def)
qed

lemma commit_keeps_lock:
  assumes "argus_nvs_core_commit (Some drv) (Some cfg) core s = (err, core', s')"
    and "hwm_locked (view s)" "\<not> vw_pending (view s)"
  shows "hwm_locked (view s') \<and> \<not> vw_pending (view s')"
  using commit_outcome_any [OF assms(1)] assms(2,3) outcome_locked outcome_pending by blast

lemma commit_sets_lock:
  assumes "argus_nvs_core_commit (Some drv) (Some cfg) core s = (ESP_OK, core', s')"
    and "identity_locked (pl_provisioned_flags cfg)"
  shows "hwm_locked (view s')"
  using commit_outcome_any [OF assms(1)] assms(2) by (auto simp: commit_outcome_def hwm_locked_def)

text \<open>Start-up refines \<open>boot\<close> when its reads return the cells.\<close>

lemma init_boot:
  assumes "\<And>i out. i \<le> 1 \<Longrightarrow> cell_read (view_slot (view s) i) out (read_slot i s out)"
    and "\<And>out. cell_read (vw_selector (view s)) out (read_selector s out)"
    and "cell_read (vw_hwm (view s)) 0 (read_mark s 0)"
    and "argus_nvs_core_init (Some drv) core s = (e, c, s')"
  shows "e = ESP_OK \<and> c = boot (view s)"
proof -
  have cell: "read_cell read_slot i s = check_cell (view_slot (view s) i)" if "i \<le> 1" for i
    using assms(1) [OF that, of slot_zero]
    by (auto simp: read_cell_def check_cell_def cell_read_def split: option.splits)
  have sel: "snd (read_selector s 0xFF) = (case vw_selector (view s) of None \<Rightarrow> 0xFF | Some k \<Rightarrow> k)"
    using assms(2) [of "0xFF"] by (auto simp: cell_read_def split: option.splits)
  have mark: "read_hwm drv s = (case vw_hwm (view s) of None \<Rightarrow> 0 | Some h \<Rightarrow> h)"
    using assms(3) by (auto simp: read_hwm_def cell_read_def split: option.splits)
  show ?thesis
    using core_init_boot(1,2) [OF _ _ assms(4)] cell [of 0] cell [of 1]
    by (simp add: boot_def sel mark view_slot_def)
qed

lemma init_other_cells:
  assumes "argus_nvs_core_init (Some drv) core s = (e, c, s')"
  shows "vw_hwm (view s') = vw_hwm (view s) \<and> vw_pending (view s') = vw_pending (view s)"
proof -
  consider "s' = s" | k where "s' = snd (write_selector k s)"
    using core_init_boot(3) [OF driver_of_sel(1) driver_of_sel(3) assms] by auto
  then show ?thesis
  proof cases
    case 2
    then have w: "write_selector k s = (fst (write_selector k s), s')" by simp
    show ?thesis using write_selector_cell [OF w] by auto
  qed simp
qed

lemma init_locked:
  assumes "hwm_locked (view s)" "argus_nvs_core_init (Some drv) core s = (e, c, s')" "nc_has_valid_config c"
  shows "identity_locked (pl_provisioned_flags (nc_active_config c))"
proof -
  obtain e' h where m: "read_mark s 0 = (e', h)" by fastforce
  have "identity_locked (read_hwm drv s)"
    using read_mark_stored [OF m] assms(1) m by (auto simp: read_hwm_def hwm_locked_def)
  then show ?thesis
    using core_init_boot(2) [OF _ _ assms(2)] assms(3) boot_core_locked by simp
qed

lemma erased_init:
  assumes "erased (view s)" "argus_nvs_core_init (Some drv) core s = (e, c, s')"
  shows "e = ESP_OK \<and> \<not> nc_has_valid_config c \<and> nc_active_config c = payload_zero \<and> s' = s"
proof -
  have "\<not> fst (read_cell read_slot i s)" for i
  proof -
    obtain e' raw where r: "read_slot i s slot_zero = (e', raw)" by fastforce
    have "e' \<noteq> ESP_OK"
      using read_slot_stored [of i s slot_zero raw] r assms(1) by (auto simp: erased_def view_slot_def split: if_splits)
    then show ?thesis using r by (simp add: read_cell_def)
  qed
  then show ?thesis
    using core_init_boot [OF driver_of_sel(1) driver_of_sel(3) assms(2)] boot_core_none by auto
qed

text \<open>
  Factory reset. Once the marker is durable the store is pending or erased, whatever fails
  afterwards; and a boot of such a store that comes up is a boot of an erased store.
\<close>

lemma erase_write_pending:
  assumes "write_pending p s = (e, s')" "erased (view s)"
  shows "erased (view s')"
  using write_pending_cell [OF assms(1)] assms(2) by (elim disjE) (auto simp: erased_def)

lemma recovery_result:
  assumes "vw_pending (view s) \<or> erased (view s)"
    and run: "argus_nvs_core_recovery_check (Some drv) s = (e, s')"
  shows "(vw_pending (view s') \<or> erased (view s')) \<and> (e = ESP_OK \<longrightarrow> erased (view s') \<and> \<not> vw_pending (view s'))"
proof -
  obtain e1 p where r: "read_pending s False = (e1, p)" by fastforce
  obtain e2 s2 where er: "erase s = (e2, s2)" by fastforce
  obtain e3 s3 where w: "write_pending False s2 = (e3, s3)" by fastforce
  have res: "(e, s') = (if e1 \<noteq> ESP_OK then (e1, s) else if \<not> p then (ESP_OK, s)
                        else if e2 \<noteq> ESP_OK then (e2, s2) else (e3, s3))"
    using run r er w by (auto simp: argus_nvs_core_recovery_check_def)
  have p: "e1 = ESP_OK \<Longrightarrow> p = vw_pending (view s)" using read_pending_stored r by blast
  have s2: "vw_pending (view s2) = vw_pending (view s)" "e2 = ESP_OK \<Longrightarrow> erased (view s2)"
    using erase_pending [OF er] erase_cells er by auto
  have s3: "e2 = ESP_OK \<Longrightarrow> erased (view s3)" "e3 = ESP_OK \<Longrightarrow> \<not> vw_pending (view s3)"
    using erase_write_pending [OF w] s2 write_pending_cell [OF w] by auto
  show ?thesis using res p s2 s3 assms(1) by (auto split: if_splits)
qed

lemma recovery_idle:
  assumes "\<not> vw_pending (view s)" "argus_nvs_core_recovery_check (Some drv) s = (e, s')"
  shows "s' = s"
  using assms read_pending_stored [of s False True]
  by (auto simp: argus_nvs_core_recovery_check_def split: if_splits prod.splits)

lemma config_init_keeps_lock:
  assumes "hwm_locked (view s)" "\<not> vw_pending (view s)"
    and "argus_nvs_config_init flash drv m s = (e, m', s')"
  shows "hwm_locked (view s') \<and> \<not> vw_pending (view s')"
proof -
  obtain e1 s1 where r: "argus_nvs_core_recovery_check (Some drv) s = (e1, s1)" by fastforce
  then have s1: "s1 = s" using recovery_idle assms(2) by blast
  obtain e2 c s2 where i: "argus_nvs_core_init (Some drv) (nm_core m) s = (e2, c, s2)"
    by (metis prod_cases3)
  have "s' = s \<or> s' = s2"
    using assms(3) r s1 i by (auto simp: argus_nvs_config_init_def Let_def split: if_splits)
  then show ?thesis using init_other_cells [OF i] assms(1,2) by (auto simp: hwm_locked_def)
qed

lemma config_init_erased:
  assumes "vw_pending (view s) \<or> erased (view s)"
    and "argus_nvs_config_init flash drv m s = (e, m', s')"
  shows "(vw_pending (view s') \<or> erased (view s'))
    \<and> (nm_initialized m' \<longrightarrow> e = ESP_OK \<and> erased (view s') \<and> \<not> vw_pending (view s')
         \<and> \<not> nc_has_valid_config (nm_core m')
         \<and> cstr (pl_client_id (nc_active_config (nm_core m'))) = str_bytes ''default_client'')"
proof -
  obtain e1 s1 where r: "argus_nvs_core_recovery_check (Some drv) s = (e1, s1)" by fastforce
  note rec = recovery_result [OF assms(1) r]
  obtain e2 c s2 where i: "argus_nvs_core_init (Some drv) (nm_core m) s1 = (e2, c, s2)"
    by (metis prod_cases3)
  have name: "cstr (fill_buffer 33 (str_bytes ''default_client'')) = str_bytes ''default_client''"
    by (simp add: cstr_fill_buffer) (simp add: str_bytes_def cstr_def)
  let ?flash = "case flash of None \<Rightarrow> ESP_OK | Some f \<Rightarrow> flash_start f"
  show ?thesis
  proof (cases "?flash = ESP_OK \<and> e1 = ESP_OK")
    case True
    then have c: "e2 = ESP_OK" "\<not> nc_has_valid_config c" "s2 = s1"
      using erased_init [OF _ i] rec by auto
    then have "(e, m', s') = (ESP_OK, m\<lparr> nm_core := uncommissioned_defaults c, nm_initialized := True \<rparr>, s1)"
      using assms(2) True r i by (auto simp: argus_nvs_config_init_def Let_def)
    then show ?thesis
      using rec c True name by (simp add: uncommissioned_defaults_def)
  next
    case False
    then have "\<not> nm_initialized m' \<and> (s' = s \<or> s' = s1)"
      using assms(2) r by (auto simp: argus_nvs_config_init_def Let_def split: if_splits)
    then show ?thesis using rec assms(1) by auto
  qed
qed

lemma factory_reset_result:
  assumes "argus_nvs_core_factory_reset (Some drv) core s = (e, core', s')"
  shows "(view s' = view s \<or> vw_pending (view s') \<or> erased (view s'))
    \<and> (e = ESP_OK \<longrightarrow> erased (view s') \<and> \<not> vw_pending (view s') \<and> \<not> nc_has_valid_config core')"
proof -
  obtain e1 s1 where w1: "write_pending True s = (e1, s1)" by fastforce
  obtain e2 s2 where er: "erase s1 = (e2, s2)" by fastforce
  obtain e3 s3 where w3: "write_pending False s2 = (e3, s3)" by fastforce
  obtain e4 c s4 where i: "argus_nvs_core_init (Some drv) core s3 = (e4, c, s4)" by (metis prod_cases3)
  have res: "(e, core', s') = (if e1 \<noteq> ESP_OK then (e1, core, s1) else if e2 \<noteq> ESP_OK then (e2, core, s2)
                               else if e4 \<noteq> ESP_OK then (e4, c, s4) else (e3, c, s4))"
    using assms w1 er w3 i by (auto simp: argus_nvs_core_factory_reset_def)
  have s1: "view s1 = view s \<or> vw_pending (view s1)" "e1 = ESP_OK \<Longrightarrow> vw_pending (view s1)"
    using write_pending_cell [OF w1] by auto
  have s2: "vw_pending (view s2) = vw_pending (view s1)" using erase_pending [OF er] .
  have s3: "e2 = ESP_OK \<Longrightarrow> erased (view s3)"
    using erase_cells er erase_write_pending [OF w3] by blast
  have s3': "e3 = ESP_OK \<Longrightarrow> \<not> vw_pending (view s3)" using write_pending_cell [OF w3] by auto
  have s4: "e2 = ESP_OK \<Longrightarrow> e4 = ESP_OK \<and> \<not> nc_has_valid_config c \<and> s4 = s3"
    using erased_init [OF _ i] s3 by blast
  show ?thesis using res s1 s2 s3 s3' s4 by (auto split: if_splits)
qed

end

end
