(* ===== verification/Nvs_Platform.thy ===== *)
theory Nvs_Platform
  imports Nvs_Props
begin

text \<open>
  The platform's NVS interface as a contract, the production driver's conformance to
  \<open>slot_driver\<close> on every such platform, and the properties of the configuration store in
  terms of the production driver. A small in-memory flash shows that the contract can be
  met, with a key whose writes can be made to fail.
\<close>

section \<open>The platform contract\<close>

text \<open>
  \<open>blobs\<close> and \<open>octets\<close> are the stored entries. As ESP-IDF documents, a call that reports
  success has done its work; a setter that reports an error may have stored the value or
  not; an absent namespace or key is reported as not found; reads and opens store nothing.
\<close>

locale nvs_platform =
  fixes api :: "'n nvs_api"
    and blobs :: "'n \<Rightarrow> string \<Rightarrow> string \<Rightarrow> cfg_slot option"
    and octets :: "'n \<Rightarrow> string \<Rightarrow> string \<Rightarrow> u8 option"
  assumes open_keeps: "\<And>ns w s e s'. nv_open api ns w s = (e, s') \<Longrightarrow> blobs s' = blobs s \<and> octets s' = octets s"
    and open_absent: "\<And>ns w s k. fst (nv_open api ns w s) = ESP_ERR_NVS_NOT_FOUND \<Longrightarrow>
          blobs s ns k = None \<and> octets s ns k = None"
    and get_blob_stored: "\<And>ns k s out x. nv_get_blob api ns k s out = (ESP_OK, x) \<Longrightarrow> blobs s ns k = Some x"
    and get_u8_stored: "\<And>ns k s out x. nv_get_u8 api ns k s out = (ESP_OK, x) \<Longrightarrow> octets s ns k = Some x"
    and get_u8_absent: "\<And>ns k s out x. nv_get_u8 api ns k s out = (ESP_ERR_NVS_NOT_FOUND, x) \<Longrightarrow> octets s ns k = None"
    and set_blob_stored: "\<And>ns k x s e s'. nv_set_blob api ns k x s = (e, s') \<Longrightarrow> octets s' = octets s
          \<and> (blobs s' = (blobs s)(ns := (blobs s ns)(k \<mapsto> x)) \<or> e \<noteq> ESP_OK \<and> blobs s' = blobs s)"
    and set_u8_stored: "\<And>ns k x s e s'. nv_set_u8 api ns k x s = (e, s') \<Longrightarrow> blobs s' = blobs s
          \<and> (octets s' = (octets s)(ns := (octets s ns)(k \<mapsto> x)) \<or> e \<noteq> ESP_OK \<and> octets s' = octets s)"
    and erase_all_cells: "\<And>ns s e s'. nv_erase_all api ns s = (e, s') \<Longrightarrow>
          (\<forall>ns'. ns' \<noteq> ns \<longrightarrow> blobs s' ns' = blobs s ns' \<and> octets s' ns' = octets s ns')
          \<and> (e = ESP_OK \<longrightarrow> blobs s' ns = Map.empty \<and> octets s' ns = Map.empty)"
    and commit_keeps: "\<And>ns s e s'. nv_commit api ns s = (e, s') \<Longrightarrow> blobs s' = blobs s \<and> octets s' = octets s"

definition prod_view ::
  "('n \<Rightarrow> string \<Rightarrow> string \<Rightarrow> cfg_slot option) \<Rightarrow> ('n \<Rightarrow> string \<Rightarrow> string \<Rightarrow> u8 option) \<Rightarrow> 'n \<Rightarrow> nvs_view" where
  "prod_view blobs octets s =
     \<lparr> vw_slot_a = blobs s NS_CFG ''slot_a'', vw_slot_b = blobs s NS_CFG ''slot_b'',
       vw_selector = octets s NS_CFG KEY_SELECTOR, vw_hwm = octets s NS_SYS KEY_PROV_HWM,
       vw_pending = (octets s NS_RST KEY_RESET_PEND = Some 1) \<rparr>"

text \<open>A flash that answers every read with the stored entry.\<close>

definition nvs_readable ::
  "'n nvs_api \<Rightarrow> ('n \<Rightarrow> string \<Rightarrow> string \<Rightarrow> cfg_slot option) \<Rightarrow> ('n \<Rightarrow> string \<Rightarrow> string \<Rightarrow> u8 option) \<Rightarrow> 'n \<Rightarrow> bool" where
  "nvs_readable api blobs octets s \<longleftrightarrow>
     (\<forall>ns. fst (nv_open api ns False s) = ESP_ERR_NVS_NOT_FOUND
        \<or> (fst (nv_open api ns False s) = ESP_OK
           \<and> (\<forall>k out. cell_read (blobs s ns k) out (nv_get_blob api ns k s out))
           \<and> (\<forall>k out. cell_read (octets s ns k) out (nv_get_u8 api ns k s out))))"

lemma s_prod_driver_of:
  "s_prod_driver api = driver_of (prod_read_slot api) (prod_write_slot api) (prod_read_selector api)
     (prod_write_selector api) (prod_read_reset_pending api) (prod_write_reset_pending api)
     (prod_read_provisioned_hwm api) (prod_write_provisioned_hwm api) (prod_erase_all api)"
  by (simp add: s_prod_driver_def driver_of_def)

context nvs_platform
begin

lemma write_u8_result:
  assumes "nvs_write api ns (nv_set_u8 api ns k x) s = (e, s')"
  shows "blobs s' = blobs s \<and> (octets s' = (octets s)(ns := (octets s ns)(k \<mapsto> x)) \<or> e \<noteq> ESP_OK \<and> octets s' = octets s)"
proof -
  obtain e1 s1 where o: "nv_open api ns True s = (e1, s1)" by fastforce
  obtain e2 s2 where w: "nv_set_u8 api ns k x s1 = (e2, s2)" by fastforce
  obtain e3 s3 where c: "nv_commit api ns s2 = (e3, s3)" by fastforce
  show ?thesis
    using assms open_keeps [OF o] set_u8_stored [OF w] commit_keeps [OF c] o w c
    by (auto simp: nvs_write_def split: if_splits)
qed

lemma write_blob_result:
  assumes "nvs_write api ns (nv_set_blob api ns k x) s = (e, s')"
  shows "octets s' = octets s \<and> (blobs s' = (blobs s)(ns := (blobs s ns)(k \<mapsto> x)) \<or> e \<noteq> ESP_OK \<and> blobs s' = blobs s)"
proof -
  obtain e1 s1 where o: "nv_open api ns True s = (e1, s1)" by fastforce
  obtain e2 s2 where w: "nv_set_blob api ns k x s1 = (e2, s2)" by fastforce
  obtain e3 s3 where c: "nv_commit api ns s2 = (e3, s3)" by fastforce
  show ?thesis
    using assms open_keeps [OF o] set_blob_stored [OF w] commit_keeps [OF c] o w c
    by (auto simp: nvs_write_def split: if_splits)
qed

lemma erase_namespace_result:
  assumes "erase_namespace api ns (e0, s) = (e, s')" and "ns = NS_CFG \<or> ns = NS_SYS"
  shows "(\<forall>ns'. ns' \<noteq> ns \<longrightarrow> blobs s' ns' = blobs s ns' \<and> octets s' ns' = octets s ns')
    \<and> (e = ESP_OK \<longrightarrow> e0 = ESP_OK \<and> blobs s' ns = Map.empty \<and> octets s' ns = Map.empty)"
proof -
  obtain e1 s1 where o: "nv_open api ns True s = (e1, s1)" by fastforce
  obtain e2 s2 where w: "nv_erase_all api ns s1 = (e2, s2)" by fastforce
  obtain e3 s3 where c: "nv_commit api ns s2 = (e3, s3)" by fastforce
  have scope: "argus_nvs_config_namespace_in_factory_reset_scope (Some ns)"
    using assms(2) by (auto simp: argus_nvs_config_namespace_in_factory_reset_scope_def)
  have absent: "e1 = ESP_ERR_NVS_NOT_FOUND \<Longrightarrow> blobs s ns = Map.empty \<and> octets s ns = Map.empty"
    using open_absent [of ns True s] o by auto
  show ?thesis
    using assms(1) scope open_keeps [OF o] erase_all_cells [OF w] commit_keeps [OF c] o w c absent
    by (auto simp: erase_namespace_def Let_def split: if_splits)
qed

lemma prod_erase_all_result:
  assumes "prod_erase_all api s = (e, s')"
  shows "octets s' NS_RST = octets s NS_RST" and "e = ESP_OK \<Longrightarrow> erased (prod_view blobs octets s')"
proof -
  obtain e1 s1 where a: "erase_namespace api NS_CFG (ESP_OK, s) = (e1, s1)" by fastforce
  have b: "erase_namespace api NS_SYS (e1, s1) = (e, s')" using assms a by (simp add: prod_erase_all_def)
  show "octets s' NS_RST = octets s NS_RST" "e = ESP_OK \<Longrightarrow> erased (prod_view blobs octets s')"
    using erase_namespace_result [OF a] erase_namespace_result [OF b]
    by (auto simp: erased_def prod_view_def)
qed

end

section \<open>The production driver meets the driver contract\<close>

lemma prod_view_slot:
  "view_slot (prod_view blobs octets s) i = blobs s NS_CFG (slot_key i)"
  by (simp add: view_slot_def prod_view_def slot_key_def)

context nvs_platform
begin

lemma prod_read_slot_stored:
  assumes "prod_read_slot api i s out = (ESP_OK, x)"
  shows "view_slot (prod_view blobs octets s) i = Some x"
  using assms get_blob_stored by (simp add: prod_read_slot_def prod_view_slot Let_def split: if_splits)

lemma prod_write_slot_cell:
  assumes "prod_write_slot api i x s = (e, s')"
  shows "\<exists>y. prod_view blobs octets s' = put_slot i y (prod_view blobs octets s)
     \<and> (y = Some x \<or> e \<noteq> ESP_OK \<and> (y = view_slot (prod_view blobs octets s) i \<or> slot_bad y))"
proof -
  have w: "octets s' = octets s
     \<and> (blobs s' = (blobs s)(NS_CFG := (blobs s NS_CFG)(slot_key i \<mapsto> x)) \<or> e \<noteq> ESP_OK \<and> blobs s' = blobs s)"
    using write_blob_result assms by (simp add: prod_write_slot_def)
  then show ?thesis
  proof (elim conjE disjE)
    assume "octets s' = octets s" "blobs s' = (blobs s)(NS_CFG := (blobs s NS_CFG)(slot_key i \<mapsto> x))"
    then have "prod_view blobs octets s' = put_slot i (Some x) (prod_view blobs octets s)"
      by (simp add: prod_view_def put_slot_def slot_key_def)
    then show ?thesis by blast
  next
    assume "octets s' = octets s" "blobs s' = blobs s" "e \<noteq> ESP_OK"
    then have "prod_view blobs octets s' = put_slot i (view_slot (prod_view blobs octets s) i) (prod_view blobs octets s)"
      unfolding put_slot_same by (simp add: prod_view_def)
    then show ?thesis using \<open>e \<noteq> ESP_OK\<close> by blast
  qed
qed

lemma prod_write_selector_cell:
  assumes "prod_write_selector api k s = (e, s')"
  shows "prod_view blobs octets s' = (prod_view blobs octets s)\<lparr> vw_selector := Some k \<rparr>
     \<or> e \<noteq> ESP_OK \<and> prod_view blobs octets s' = prod_view blobs octets s"
  using write_u8_result [of NS_CFG KEY_SELECTOR k s e s'] assms
  by (auto simp: prod_write_selector_def prod_view_def)

lemma prod_write_pending_cell:
  assumes "prod_write_reset_pending api p s = (e, s')"
  shows "prod_view blobs octets s' = (prod_view blobs octets s)\<lparr> vw_pending := p \<rparr>
     \<or> e \<noteq> ESP_OK \<and> prod_view blobs octets s' = prod_view blobs octets s"
  using write_u8_result [of NS_RST KEY_RESET_PEND "if p then 1 else 0" s e s'] assms
  by (cases p) (auto simp: prod_write_reset_pending_def prod_view_def)

lemma prod_write_mark_cell:
  assumes "prod_write_provisioned_hwm api h s = (e, s')"
  shows "prod_view blobs octets s' = (prod_view blobs octets s)\<lparr> vw_hwm := Some h \<rparr>
     \<or> e \<noteq> ESP_OK \<and> prod_view blobs octets s' = prod_view blobs octets s"
  using write_u8_result [of NS_SYS KEY_PROV_HWM h s e s'] assms
  by (auto simp: prod_write_provisioned_hwm_def prod_view_def)

lemma prod_read_pending_stored:
  assumes "prod_read_reset_pending api s out = (ESP_OK, p)"
  shows "p = vw_pending (prod_view blobs octets s)"
proof -
  obtain e x where g: "nv_get_u8 api NS_RST KEY_RESET_PEND s 0 = (e, x)" by fastforce
  show ?thesis
    using assms g open_absent [of NS_RST False s KEY_RESET_PEND] get_u8_stored [of NS_RST KEY_RESET_PEND s 0 x]
      get_u8_absent [of NS_RST KEY_RESET_PEND s 0 x]
    by (auto simp: prod_read_reset_pending_def prod_view_def Let_def split: if_splits)
qed

lemma prod_read_mark_stored:
  assumes "prod_read_provisioned_hwm api s out = (e, h)" "e = ESP_OK \<or> e = ESP_ERR_NVS_NOT_FOUND"
  shows "vw_hwm (prod_view blobs octets s) = (if e = ESP_OK then Some h else None)"
proof -
  obtain e' x where g: "nv_get_u8 api NS_SYS KEY_PROV_HWM s out = (e', x)" by fastforce
  show ?thesis
    using assms g open_absent [of NS_SYS False s KEY_PROV_HWM] get_u8_stored [of NS_SYS KEY_PROV_HWM s out x]
      get_u8_absent [of NS_SYS KEY_PROV_HWM s out x]
    by (auto simp: prod_read_provisioned_hwm_def prod_view_def Let_def split: if_splits)
qed

end

sublocale nvs_platform \<subseteq> production: slot_driver
  "prod_read_slot api" "prod_write_slot api" "prod_read_selector api" "prod_write_selector api"
  "prod_read_reset_pending api" "prod_write_reset_pending api" "prod_read_provisioned_hwm api"
  "prod_write_provisioned_hwm api" "prod_erase_all api" "prod_view blobs octets"
proof
  fix s out k
  show "prod_read_selector api s out = (ESP_OK, k) \<Longrightarrow> vw_selector (prod_view blobs octets s) = Some k"
    using get_u8_stored by (simp add: prod_read_selector_def prod_view_def Let_def split: if_splits)
next
  fix s e s'
  assume "prod_erase_all api s = (e, s')"
  then show "vw_pending (prod_view blobs octets s') = vw_pending (prod_view blobs octets s)"
    using prod_erase_all_result(1) by (simp add: prod_view_def)
qed ((erule (1) prod_read_mark_stored | erule prod_read_slot_stored prod_write_slot_cell prod_write_selector_cell
    prod_write_pending_cell prod_write_mark_cell prod_read_pending_stored | erule prod_erase_all_result(2) [OF _ refl])+)

section \<open>The manager on a conforming platform\<close>

text \<open>The operations of a running device that write the store, factory reset apart.\<close>

inductive store_step :: "'n nvs_api \<Rightarrow> 'n \<Rightarrow> 'n \<Rightarrow> bool" for api :: "'n nvs_api" where
  step_commit: "argus_nvs_config_commit (s_prod_driver api) in_cfg m s = (e, m', s') \<Longrightarrow> store_step api s s'"
| step_init: "argus_nvs_config_init flash (s_prod_driver api) m s = (e, m', s') \<Longrightarrow> store_step api s s'"

lemma config_commit_core:
  assumes "argus_nvs_config_commit drv (Some cfg) m s = (err, m', s')"
  shows "(err \<noteq> ESP_OK \<and> m' = m \<and> s' = s)
    \<or> argus_nvs_core_commit (Some drv) (Some cfg) (nm_core m) s = (err, nm_core m', s')"
  using assms by (auto simp: argus_nvs_config_commit_def split: if_splits prod.splits)

context nvs_platform
begin

lemma manager_commit_outcome:
  assumes "steady (prod_view blobs octets s) k x" "nc_active_slot_index (nm_core m) = k"
    and "argus_nvs_config_commit (s_prod_driver api) (Some cfg) m s = (err, m', s')"
  shows "commit_outcome k (nc_active_generation (nm_core m) + 1) cfg err
           (prod_view blobs octets s) (prod_view blobs octets s')"
  using config_commit_core [OF assms(3)]
proof (elim disjE conjE)
  assume "err \<noteq> ESP_OK" "s' = s"
  then show ?thesis
    by (auto simp: commit_outcome_def intro!: exI [of _ "view_slot (prod_view blobs octets s) (other k)"])
next
  assume "argus_nvs_core_commit (Some (s_prod_driver api)) (Some cfg) (nm_core m) s = (err, nm_core m', s')"
  then show ?thesis
    using production.commit_outcome_steady [OF assms(1,2)] by (simp add: s_prod_driver_of)
qed

lemma readable_cell:
  assumes "nvs_readable api blobs octets s"
  shows "fst (nv_open api ns False s) = ESP_ERR_NVS_NOT_FOUND \<and> blobs s ns k = None \<and> octets s ns k = None
      \<or> fst (nv_open api ns False s) = ESP_OK \<and> cell_read (blobs s ns k) out (nv_get_blob api ns k s out)
         \<and> cell_read (octets s ns k) out' (nv_get_u8 api ns k s out')"
  using assms open_absent [of ns False s k] unfolding nvs_readable_def by metis

lemma readable_core_init:
  assumes "nvs_readable api blobs octets s"
    and "argus_nvs_core_init (Some (s_prod_driver api)) core s = (e, c, s')"
  shows "e = ESP_OK \<and> c = boot (prod_view blobs octets s)"
proof (rule production.init_boot)
  note r = readable_cell [OF assms(1)]
  show "cell_read (view_slot (prod_view blobs octets s) i) out (prod_read_slot api i s out)" for i out
    using r [of NS_CFG "slot_key i" out] by (auto simp: prod_view_slot prod_read_slot_def Let_def cell_read_def)
  show "cell_read (vw_selector (prod_view blobs octets s)) out (prod_read_selector api s out)" for out
    using r [of NS_CFG KEY_SELECTOR _ out] by (auto simp: prod_view_def prod_read_selector_def Let_def cell_read_def)
  show "cell_read (vw_hwm (prod_view blobs octets s)) 0 (prod_read_provisioned_hwm api s 0)"
    using r [of NS_SYS KEY_PROV_HWM _ 0]
    by (auto simp: prod_view_def prod_read_provisioned_hwm_def Let_def cell_read_def split: option.splits)
qed (use assms(2) in \<open>simp add: s_prod_driver_of\<close>)

lemma readable_recovery:
  assumes "nvs_readable api blobs octets s" "\<not> vw_pending (prod_view blobs octets s)"
  shows "argus_nvs_core_recovery_check (Some (s_prod_driver api)) s = (ESP_OK, s)"
proof -
  have "prod_read_reset_pending api s False = (ESP_OK, False)"
    using readable_cell [OF assms(1), of NS_RST KEY_RESET_PEND slot_zero 0] assms(2)
    by (auto simp: prod_read_reset_pending_def cell_read_def prod_view_def Let_def split: option.splits)
  then show ?thesis
    by (simp add: argus_nvs_core_recovery_check_def s_prod_driver_def)
qed

lemma readable_boot:
  assumes "nvs_readable api blobs octets s" "\<not> vw_pending (prod_view blobs octets s)"
    and "nc_has_valid_config (boot (prod_view blobs octets s))"
    and "argus_nvs_config_init (Some (ESP_OK, f1, f2)) (s_prod_driver api) m s = (e, m', s')"
  shows "e = ESP_OK \<and> nm_initialized m' \<and> nm_core m' = boot (prod_view blobs octets s)"
proof -
  obtain e2 c s2 where i: "argus_nvs_core_init (Some (s_prod_driver api)) (nm_core m) s = (e2, c, s2)"
    by (metis prod_cases3)
  have c: "e2 = ESP_OK" "c = boot (prod_view blobs octets s)" using readable_core_init [OF assms(1) i] by auto
  show ?thesis
    using assms(4) readable_recovery [OF assms(1,2)] i c assms(3)
    by (auto simp: argus_nvs_config_init_def flash_start_def uncommissioned_defaults_def Let_def)
qed

lemma core_commit_locks:
  assumes "argus_nvs_core_commit (Some (s_prod_driver api)) (Some cfg) core s = (ESP_OK, core', s')"
    and "identity_locked (pl_provisioned_flags cfg)" "\<not> vw_pending (prod_view blobs octets s)"
  shows "hwm_locked (prod_view blobs octets s') \<and> \<not> vw_pending (prod_view blobs octets s')"
  using production.commit_sets_lock [OF _ assms(2)] production.commit_outcome_any assms(1,3) outcome_pending
  unfolding s_prod_driver_of by blast

lemma core_init_locked:
  assumes "hwm_locked (prod_view blobs octets s)"
    and "argus_nvs_core_init (Some (s_prod_driver api)) core s = (e, c, s')" "nc_has_valid_config c"
  shows "identity_locked (pl_provisioned_flags (nc_active_config c))"
  using production.init_locked [OF assms(1) _ assms(3)] assms(2) by (simp add: s_prod_driver_of)

lemma reset_result:
  assumes "argus_nvs_core_factory_reset (Some (s_prod_driver api)) core s = (e, core', s')"
  shows "(prod_view blobs octets s' = prod_view blobs octets s \<or> vw_pending (prod_view blobs octets s')
        \<or> erased (prod_view blobs octets s'))
    \<and> (e = ESP_OK \<longrightarrow> erased (prod_view blobs octets s') \<and> \<not> nc_has_valid_config core')"
  using production.factory_reset_result [of core s e core' s'] assms by (simp add: s_prod_driver_of)

lemma restart_erased:
  assumes "vw_pending (prod_view blobs octets s) \<or> erased (prod_view blobs octets s)"
    and "argus_nvs_config_init flash (s_prod_driver api) m s = (e, m', s')"
  shows "(vw_pending (prod_view blobs octets s') \<or> erased (prod_view blobs octets s'))
    \<and> (nm_initialized m' \<longrightarrow> e = ESP_OK \<and> erased (prod_view blobs octets s') \<and> \<not> vw_pending (prod_view blobs octets s')
         \<and> \<not> nc_has_valid_config (nm_core m')
         \<and> cstr (pl_client_id (nc_active_config (nm_core m'))) = str_bytes ''default_client'')"
  using production.config_init_erased [OF assms(1)] assms(2) unfolding s_prod_driver_of by blast

lemma store_steps_keep_lock:
  assumes "(store_step api)\<^sup>*\<^sup>* s s'" "hwm_locked (prod_view blobs octets s)" "\<not> vw_pending (prod_view blobs octets s)"
  shows "hwm_locked (prod_view blobs octets s') \<and> \<not> vw_pending (prod_view blobs octets s')"
  using assms
proof (induction rule: rtranclp_induct)
  case (step s1 s2)
  then have ih: "hwm_locked (prod_view blobs octets s1)" "\<not> vw_pending (prod_view blobs octets s1)" by auto
  from step.hyps(2) show ?case
  proof cases
    case (step_commit in_cfg m e m')
    show ?thesis
    proof (cases in_cfg)
      case None
      then show ?thesis using step_commit ih by (simp add: argus_nvs_config_commit_def)
    next
      case (Some cfg)
      then show ?thesis
        using config_commit_core [of "s_prod_driver api" cfg m s1 e m' s2] step_commit ih
          production.commit_keeps_lock [of cfg "nm_core m" s1 e "nm_core m'" s2]
        by (auto simp: s_prod_driver_of)
    qed
  next
    case (step_init flash m e m')
    then show ?thesis
      using production.config_init_keeps_lock [OF ih] by (simp add: s_prod_driver_of)
  qed
qed simp

end

section \<open>An in-memory flash\<close>

text \<open>A flash of maps; the writes to one key can be made to fail.\<close>

record flash_cells =
  fc_blobs :: "string \<Rightarrow> string \<Rightarrow> cfg_slot option"
  fc_octets :: "string \<Rightarrow> string \<Rightarrow> u8 option"
  fc_broken :: "string option"

definition flash_api :: "flash_cells nvs_api" where
  "flash_api =
     \<lparr> nv_open = (\<lambda>ns w s. (ESP_OK, s)),
       nv_get_blob = (\<lambda>ns k s out. case fc_blobs s ns k of Some x \<Rightarrow> (ESP_OK, x) | None \<Rightarrow> (ESP_ERR_NVS_NOT_FOUND, out)),
       nv_set_blob = (\<lambda>ns k x s. if fc_broken s = Some k then (ESP_FAIL, s)
          else (ESP_OK, s\<lparr> fc_blobs := (fc_blobs s)(ns := (fc_blobs s ns)(k \<mapsto> x)) \<rparr>)),
       nv_get_u8 = (\<lambda>ns k s out. case fc_octets s ns k of Some x \<Rightarrow> (ESP_OK, x) | None \<Rightarrow> (ESP_ERR_NVS_NOT_FOUND, out)),
       nv_set_u8 = (\<lambda>ns k x s. if fc_broken s = Some k then (ESP_FAIL, s)
          else (ESP_OK, s\<lparr> fc_octets := (fc_octets s)(ns := (fc_octets s ns)(k \<mapsto> x)) \<rparr>)),
       nv_erase_all = (\<lambda>ns s. (ESP_OK, s\<lparr> fc_blobs := (fc_blobs s)(ns := Map.empty),
          fc_octets := (fc_octets s)(ns := Map.empty) \<rparr>)),
       nv_commit = (\<lambda>ns s. (ESP_OK, s)) \<rparr>"

interpretation flash: nvs_platform flash_api fc_blobs fc_octets
  by unfold_locales (auto simp: flash_api_def split: option.splits if_splits)

lemma flash_readable: "nvs_readable flash_api fc_blobs fc_octets s"
  by (simp add: nvs_readable_def flash_api_def cell_read_def split: option.splits)

text \<open>Two configurations, without and with a provisioned identity, and a flash that holds the first.\<close>

definition demo_cfg :: config_payload where
  "demo_cfg = payload_zero\<lparr> pl_client_id := fill_buffer 33 (str_bytes ''acme''),
     pl_unit_id := fill_buffer 33 (str_bytes ''u1''), pl_device_name := fill_buffer 65 (str_bytes ''Pump'') \<rparr>"

definition demo_provisioned :: config_payload where
  "demo_provisioned = demo_cfg\<lparr> pl_unit_id := fill_buffer 33 (str_bytes ''u2''), pl_provisioned_flags := 1 \<rparr>"

definition demo_flash :: "string option \<Rightarrow> flash_cells" where
  "demo_flash broken =
     \<lparr> fc_blobs = (\<lambda>ns k. if ns = NS_CFG \<and> k = ''slot_a'' then Some (make_slot 1 demo_cfg) else None),
       fc_octets = (\<lambda>ns k. if ns = NS_CFG \<and> k = KEY_SELECTOR then Some 0 else None), fc_broken = broken \<rparr>"

definition demo_manager :: nvs_manager where
  "demo_manager = \<lparr> nm_core = nvs_core_zero\<lparr> nc_active_config := demo_cfg, nc_active_generation := 1,
     nc_has_valid_config := True, nc_initialized := True \<rparr>, nm_initialized = True \<rparr>"

lemma demo_valid:
  "argus_nvs_config_validate (Some demo_cfg) = ESP_OK" "argus_nvs_config_validate (Some demo_provisioned) = ESP_OK"
  by code_simp+

lemma demo_steady: "steady (prod_view fc_blobs fc_octets (demo_flash broken)) 0 (make_slot 1 demo_cfg)"
  using check_make_slot [OF demo_valid(1), of 1]
  by (simp add: steady_def prod_view_def view_slot_def demo_flash_def hwm_locked_def)

text \<open>The production driver on this flash.\<close>

lemma flash_driver:
  "prod_read_slot flash_api i s out =
     (case fc_blobs s NS_CFG (slot_key i) of Some x \<Rightarrow> (ESP_OK, x) | None \<Rightarrow> (ESP_ERR_NVS_NOT_FOUND, out))"
  "prod_write_slot flash_api i x s = (if fc_broken s = Some (slot_key i) then (ESP_FAIL, s)
     else (ESP_OK, s\<lparr> fc_blobs := (fc_blobs s)(NS_CFG := (fc_blobs s NS_CFG)(slot_key i \<mapsto> x)) \<rparr>))"
  "prod_read_selector flash_api s w =
     (case fc_octets s NS_CFG KEY_SELECTOR of Some x \<Rightarrow> (ESP_OK, x) | None \<Rightarrow> (ESP_ERR_NVS_NOT_FOUND, w))"
  "prod_write_selector flash_api k s = (if fc_broken s = Some KEY_SELECTOR then (ESP_FAIL, s)
     else (ESP_OK, s\<lparr> fc_octets := (fc_octets s)(NS_CFG := (fc_octets s NS_CFG)(KEY_SELECTOR \<mapsto> k)) \<rparr>))"
  "prod_write_provisioned_hwm flash_api h s = (if fc_broken s = Some KEY_PROV_HWM then (ESP_FAIL, s)
     else (ESP_OK, s\<lparr> fc_octets := (fc_octets s)(NS_SYS := (fc_octets s NS_SYS)(KEY_PROV_HWM \<mapsto> h)) \<rparr>))"
  "prod_write_reset_pending flash_api p s = (if fc_broken s = Some KEY_RESET_PEND then (ESP_FAIL, s)
     else (ESP_OK, s\<lparr> fc_octets := (fc_octets s)(NS_RST := (fc_octets s NS_RST)(KEY_RESET_PEND \<mapsto> if p then 1 else 0)) \<rparr>))"
  "prod_erase_all flash_api s = (ESP_OK, s\<lparr> fc_blobs := (fc_blobs s)(NS_CFG := Map.empty, NS_SYS := Map.empty),
     fc_octets := (fc_octets s)(NS_CFG := Map.empty, NS_SYS := Map.empty) \<rparr>)"
  by (simp_all add: flash_api_def prod_read_slot_def prod_write_slot_def prod_read_selector_def
      prod_write_selector_def prod_write_provisioned_hwm_def prod_write_reset_pending_def nvs_write_def
      prod_erase_all_def erase_namespace_def argus_nvs_config_namespace_in_factory_reset_scope_def Let_def)

lemma demo_commit:
  "\<exists>m' s'. argus_nvs_config_commit (s_prod_driver flash_api) (Some demo_provisioned) demo_manager (demo_flash None)
     = (ESP_OK, m', s')"
proof -
  have pass: "cstr (pl_sta_pass demo_provisioned) \<noteq> CONFIG_MASK_STRING" by code_simp
  have prov: "pl_provisioned_flags demo_provisioned = 1" by (simp add: demo_provisioned_def)
  show ?thesis
    using demo_valid(2) pass prov
    by (simp add: argus_nvs_config_commit_def argus_nvs_core_commit_def s_prod_driver_def flash_driver demo_manager_def
        nvs_core_zero_def demo_flash_def inactive_slot_of_def slot_key_def make_slot_valid commit_hwm_def Let_def)
qed

lemma demo_reset:
  assumes "argus_nvs_config_factory_reset (s_prod_driver flash_api) m (demo_flash None) = (e, m', s')"
  shows "fc_blobs s' NS_CFG = Map.empty"
proof -
  obtain c where c: "argus_nvs_core_factory_reset (Some (s_prod_driver flash_api)) (nm_core m) (demo_flash None) = (e, c, s')"
    using assms by (auto simp: argus_nvs_config_factory_reset_def split: prod.splits)
  let ?s = "(demo_flash None)\<lparr> fc_blobs := (fc_blobs (demo_flash None))(NS_CFG := Map.empty, NS_SYS := Map.empty),
     fc_octets := (fc_octets (demo_flash None))(NS_CFG := Map.empty, NS_SYS := Map.empty, NS_RST := [KEY_RESET_PEND \<mapsto> 0]) \<rparr>"
  have "erased (prod_view fc_blobs fc_octets ?s)" by (simp add: erased_def prod_view_def)
  moreover obtain e' c' s4 where i: "argus_nvs_core_init (Some (s_prod_driver flash_api)) (nm_core m) ?s = (e', c', s4)"
    by (metis prod_cases3)
  ultimately have "s4 = ?s"
    using flash.production.erased_init by (simp add: s_prod_driver_of)
  moreover have "s' = s4"
    using c i by (simp add: argus_nvs_core_factory_reset_def s_prod_driver_def flash_driver demo_flash_def Let_def
        fun_upd_twist split: if_splits)
  ultimately show ?thesis by simp
qed

section \<open>Properties\<close>

text \<open>
  C27: A commit survives every failed write and every power loss. Take a platform that behaves
  as documented, a store whose selector names a valid slot which carries the identity if the
  high-water mark records one, no factory reset pending, and a store that can be read at the
  next start-up. Then whatever the commit returns and wherever it stopped, that start-up
  succeeds, has a valid configuration, and its settings are the ones from before or the new
  ones, never a mixture. After a reported success they are the new ones, with one exception:
  when the mark records a provisioned identity and the new settings do not carry the
  provisioned flag, the success is reported but the start-up returns to the old settings.
\<close>

theorem commit_power_safe:
  assumes platform: "nvs_platform api blobs octets"
    and st: "steady (prod_view blobs octets s) k x" and idle: "\<not> vw_pending (prod_view blobs octets s)"
    and active: "nc_active_slot_index (nm_core m) = k"
    and run: "argus_nvs_config_commit (s_prod_driver api) (Some cfg) m s = (err, m', s')"
    and readable: "nvs_readable api blobs octets s'"
    and restart: "argus_nvs_config_init (Some (ESP_OK, f1, f2)) (s_prod_driver api) m0 s' = (e, m2, s2)"
  shows "e = ESP_OK \<and> nm_initialized m2 \<and> nc_has_valid_config (nm_core m2)
    \<and> (same_settings (nc_active_config (nm_core m2)) (sl_payload x)
        \<or> same_settings (nc_active_config (nm_core m2)) cfg)
    \<and> (err = ESP_OK \<longrightarrow> same_settings (nc_active_config (nm_core m2))
        (if hwm_locked (prod_view blobs octets s) \<and> \<not> identity_locked (pl_provisioned_flags cfg)
         then sl_payload x else cfg))"
proof -
  note out = nvs_platform.manager_commit_outcome [OF platform st active run]
  have "nc_has_valid_config (boot (prod_view blobs octets s'))"
    using outcome_boot [OF st out] by blast
  then have up: "e = ESP_OK \<and> nm_initialized m2 \<and> nm_core m2 = boot (prod_view blobs octets s')"
    using nvs_platform.readable_boot [OF platform readable _ _ restart] outcome_pending [OF out] idle by blast
  have "same_settings (nc_active_config (nm_core m2))
      (if hwm_locked (prod_view blobs octets s) \<and> \<not> identity_locked (pl_provisioned_flags cfg) then sl_payload x else cfg)"
    if "err = ESP_OK"
    using outcome_success_boot [OF st out [unfolded that]] up by simp
  then show ?thesis using outcome_boot [OF st out] up by simp
qed

theorem commit_power_safe_witness:
  "\<exists>err m' s' e m2 s2.
     argus_nvs_config_commit (s_prod_driver flash_api) (Some demo_provisioned) demo_manager (demo_flash (Some KEY_SELECTOR)) = (err, m', s')
   \<and> argus_nvs_config_init (Some (ESP_OK, ESP_OK, ESP_OK)) (s_prod_driver flash_api) demo_manager s' = (e, m2, s2)
   \<and> nc_has_valid_config (nm_core m2)
   \<and> (same_settings (nc_active_config (nm_core m2)) demo_cfg \<or> same_settings (nc_active_config (nm_core m2)) demo_provisioned)"
proof -
  obtain err m' s' where run: "argus_nvs_config_commit (s_prod_driver flash_api) (Some demo_provisioned)
      demo_manager (demo_flash (Some KEY_SELECTOR)) = (err, m', s')" by (metis prod_cases3)
  obtain e m2 s2 where restart: "argus_nvs_config_init (Some (ESP_OK, ESP_OK, ESP_OK)) (s_prod_driver flash_api)
      demo_manager s' = (e, m2, s2)" by (metis prod_cases3)
  have "nc_active_slot_index (nm_core demo_manager) = 0" "\<not> vw_pending (prod_view fc_blobs fc_octets (demo_flash (Some KEY_SELECTOR)))"
    by (simp_all add: demo_manager_def nvs_core_zero_def demo_flash_def prod_view_def)
  then show ?thesis
    using commit_power_safe [OF flash.nvs_platform_axioms demo_steady _ _ run flash_readable restart] run restart
    by (metis make_slot_payload)
qed

text \<open>
  The identity lock is monotone. Once a commit of a provisioned configuration has
  reported success, and until a factory reset, every later start-up that finds a
  configuration has the identity locked: whatever is committed afterwards, whichever reads
  and writes fail in between, and also when the high-water mark itself cannot be read.
\<close>

theorem identity_lock_monotone:
  assumes platform: "nvs_platform api blobs octets"
    and idle: "\<not> vw_pending (prod_view blobs octets s)"
    and run: "argus_nvs_config_commit (s_prod_driver api) (Some cfg) m s = (ESP_OK, m', s1)"
    and prov: "identity_locked (pl_provisioned_flags cfg)"
    and later: "(store_step api)\<^sup>*\<^sup>* s1 s2"
    and restart: "argus_nvs_core_init (Some (s_prod_driver api)) core s2 = (e, core', s3)"
    and valid: "nc_has_valid_config core'"
  shows "identity_locked (pl_provisioned_flags (nc_active_config core'))"
proof -
  have "argus_nvs_core_commit (Some (s_prod_driver api)) (Some cfg) (nm_core m) s = (ESP_OK, nm_core m', s1)"
    using config_commit_core [OF run] by blast
  then have "hwm_locked (prod_view blobs octets s1) \<and> \<not> vw_pending (prod_view blobs octets s1)"
    using nvs_platform.core_commit_locks [OF platform _ prov idle] by blast
  then have "hwm_locked (prod_view blobs octets s2)"
    using nvs_platform.store_steps_keep_lock [OF platform later] by blast
  then show ?thesis
    using nvs_platform.core_init_locked [OF platform _ restart valid] by blast
qed

theorem identity_lock_monotone_witness:
  "\<exists>m' s1 e core' s3.
     argus_nvs_config_commit (s_prod_driver flash_api) (Some demo_provisioned) demo_manager (demo_flash None) = (ESP_OK, m', s1)
   \<and> argus_nvs_core_init (Some (s_prod_driver flash_api)) nvs_core_zero s1 = (e, core', s3)
   \<and> nc_has_valid_config core' \<and> identity_locked (pl_provisioned_flags (nc_active_config core'))"
proof -
  obtain m' s1 where run: "argus_nvs_config_commit (s_prod_driver flash_api) (Some demo_provisioned) demo_manager
      (demo_flash None) = (ESP_OK, m', s1)" using demo_commit by blast
  obtain e core' s3 where restart: "argus_nvs_core_init (Some (s_prod_driver flash_api)) nvs_core_zero s1 = (e, core', s3)"
    by (metis prod_cases3)
  have idle: "\<not> vw_pending (prod_view fc_blobs fc_octets (demo_flash None))"
    and prov: "identity_locked (pl_provisioned_flags demo_provisioned)"
    by (simp_all add: prod_view_def demo_flash_def demo_provisioned_def)
  have "nc_active_slot_index (nm_core demo_manager) = 0" by (simp add: demo_manager_def nvs_core_zero_def)
  then have "nc_has_valid_config core'"
    using outcome_boot [OF demo_steady flash.manager_commit_outcome [OF demo_steady _ run]]
      flash.readable_core_init [OF flash_readable restart] by simp
  then show ?thesis
    using identity_lock_monotone [OF flash.nvs_platform_axioms idle run prov rtranclp.rtrancl_refl restart] run restart
    by blast
qed

text \<open>
  An interrupted factory reset is completed. Once a factory reset has touched the store,
  whatever failed in it, a later start-up either does not come up, and leaves the reset
  pending or done, or comes up on an erased store with the reset marker cleared, no
  configuration and the default identity. A reset that reports success has erased the store.
\<close>

theorem interrupted_reset_completes:
  assumes platform: "nvs_platform api blobs octets"
    and run: "argus_nvs_config_factory_reset (s_prod_driver api) m s = (err, m1, s1)"
    and touched: "prod_view blobs octets s1 \<noteq> prod_view blobs octets s"
    and restart: "argus_nvs_config_init flash (s_prod_driver api) m2 s1 = (e, m3, s3)"
  shows "(vw_pending (prod_view blobs octets s3) \<or> erased (prod_view blobs octets s3))
    \<and> (err = ESP_OK \<longrightarrow> erased (prod_view blobs octets s1) \<and> \<not> nc_has_valid_config (nm_core m1))
    \<and> (nm_initialized m3 \<longrightarrow> e = ESP_OK \<and> erased (prod_view blobs octets s3)
         \<and> \<not> vw_pending (prod_view blobs octets s3) \<and> \<not> nc_has_valid_config (nm_core m3)
         \<and> cstr (pl_client_id (nc_active_config (nm_core m3))) = str_bytes ''default_client'')"
proof -
  obtain core where core: "argus_nvs_core_factory_reset (Some (s_prod_driver api)) (nm_core m) s = (err, core, s1)"
      "nm_core m1 = uncommissioned_defaults core"
    using run by (auto simp: argus_nvs_config_factory_reset_def split: prod.splits)
  note res = nvs_platform.reset_result [OF platform core(1)]
  have "\<not> nc_has_valid_config core \<Longrightarrow> \<not> nc_has_valid_config (nm_core m1)"
    using core(2) by (simp add: uncommissioned_defaults_def)
  moreover have "vw_pending (prod_view blobs octets s1) \<or> erased (prod_view blobs octets s1)"
    using res touched by blast
  ultimately show ?thesis
    using res nvs_platform.restart_erased [OF platform _ restart] by blast
qed

theorem interrupted_reset_completes_witness:
  "\<exists>err m1 s1 e m3 s3.
     argus_nvs_config_factory_reset (s_prod_driver flash_api) demo_manager (demo_flash None) = (err, m1, s1)
   \<and> argus_nvs_config_init None (s_prod_driver flash_api) demo_manager s1 = (e, m3, s3)
   \<and> prod_view fc_blobs fc_octets s1 \<noteq> prod_view fc_blobs fc_octets (demo_flash None)
   \<and> (vw_pending (prod_view fc_blobs fc_octets s3) \<or> erased (prod_view fc_blobs fc_octets s3))"
proof -
  obtain err m1 s1 where run: "argus_nvs_config_factory_reset (s_prod_driver flash_api) demo_manager (demo_flash None)
      = (err, m1, s1)" by (metis prod_cases3)
  obtain e m3 s3 where restart: "argus_nvs_config_init None (s_prod_driver flash_api) demo_manager s1 = (e, m3, s3)"
    by (metis prod_cases3)
  have "fc_blobs s1 NS_CFG ''slot_a'' = None"
    using demo_reset run by auto
  then have touched: "prod_view fc_blobs fc_octets s1 \<noteq> prod_view fc_blobs fc_octets (demo_flash None)"
    by (simp add: prod_view_def demo_flash_def)
  show ?thesis
    using interrupted_reset_completes [OF flash.nvs_platform_axioms run touched restart] run restart touched by blast
qed

text \<open>
  Corruption of a stored configuration is detected. When a slot of the current schema
  is accepted, a slot with the same header whose packed payload differs from it in exactly
  one byte, by any amount, is rejected.
\<close>

theorem slot_corruption_detected:
  assumes valid: "fst (is_slot_valid a)" "sl_schema_version a = 3"
    and header: "sl_schema_version b = sl_schema_version a" "sl_crc32 b = sl_crc32 a"
    and wf: "payload_wf (sl_payload a)" "payload_wf (sl_payload b)"
    and changed: "i < PAYLOAD_SIZE" "payload_bytes (sl_payload b) ! i \<noteq> payload_bytes (sl_payload a) ! i"
    and rest: "\<And>j. j < PAYLOAD_SIZE \<Longrightarrow> j \<noteq> i \<Longrightarrow>
        payload_bytes (sl_payload b) ! j = payload_bytes (sl_payload a) ! j"
  shows "\<not> fst (is_slot_valid b)"
proof
  assume "fst (is_slot_valid b)"
  let ?a = "payload_bytes (sl_payload a)" and ?b = "payload_bytes (sl_payload b)"
  have len: "length ?a = PAYLOAD_SIZE" "length ?b = PAYLOAD_SIZE"
    using wf by (simp_all add: payload_bytes_length)
  have "calc_crc32_raw ?b = calc_crc32_raw ?a"
    using valid_crc [OF valid wf(1)] valid_crc [OF \<open>fst (is_slot_valid b)\<close> _ wf(2)] valid(2) header by simp
  moreover have "?b = take i ?a @ ?b ! i # drop (Suc i) ?a"
    using one_byte_split [of i ?a ?b] len changed(1) rest by simp
  moreover have "?a = take i ?a @ ?a ! i # drop (Suc i) ?a"
    using len changed(1) by (simp add: id_take_nth_drop)
  ultimately have "?b ! i = ?a ! i"
    by (metis crc_one_byte)
  then show False using changed(2) by simp
qed

theorem slot_corruption_detected_witness:
  "fst (is_slot_valid (make_slot 1 demo_cfg))
   \<and> \<not> fst (is_slot_valid ((make_slot 1 demo_cfg)\<lparr> sl_payload := demo_cfg\<lparr> pl_provisioned_flags := 1 \<rparr> \<rparr>))"
proof -
  let ?x = "pl_client_id demo_cfg @ pl_unit_id demo_cfg @ pl_device_name demo_cfg @ pl_sta_ssid demo_cfg @ pl_sta_pass demo_cfg"
  let ?b = "demo_cfg\<lparr> pl_provisioned_flags := 1 \<rparr>"
  have wf: "payload_wf demo_cfg" by (simp add: payload_wf_def demo_cfg_def payload_zero_def)
  then have len: "length ?x = 228" by (simp add: payload_wf_def)
  have a: "payload_bytes demo_cfg = ?x @ [0, 0]" and b: "payload_bytes ?b = ?x @ [1, 0]"
    by (simp_all add: payload_bytes_def demo_cfg_def payload_zero_def)
  have diff: "payload_bytes ?b ! 228 \<noteq> payload_bytes demo_cfg ! 228"
    unfolding a b using len by (simp only: nth_append) simp
  have rest: "payload_bytes ?b ! j = payload_bytes demo_cfg ! j" if "j < 230" "j \<noteq> 228" for j
    unfolding a b using len that by (simp only: nth_append) (auto simp: nth_Cons')
  have valid: "fst (is_slot_valid (make_slot 1 demo_cfg))"
    using make_slot_valid [OF demo_valid(1), of 1] by simp
  have "payload_wf ?b" using wf by (simp add: payload_wf_def)
  then show ?thesis
    using slot_corruption_detected [of "make_slot 1 demo_cfg" "(make_slot 1 demo_cfg)\<lparr> sl_payload := ?b \<rparr>" 228]
      valid wf diff rest by (simp add: make_slot_def)
qed

text \<open>
  A provisioning that failed locks the old identity. When a commit of a provisioned
  configuration stops after the slot was written and before the high-water mark and the
  selector, the next start-up keeps the old settings and marks their identity as
  provisioned, although no provisioning took effect.
\<close>

theorem failed_provisioning_locks_old_identity:
  assumes platform: "nvs_platform api blobs octets"
    and st: "steady (prod_view blobs octets s) k x" and idle: "\<not> vw_pending (prod_view blobs octets s)"
    and old: "\<not> identity_locked (slot_flags x)"
    and cfg: "argus_nvs_config_validate (Some cfg) = ESP_OK" "identity_locked (pl_provisioned_flags cfg)"
    and gen: "nc_active_generation (nm_core m) + 1 \<noteq> 0"
    and active: "nc_active_slot_index (nm_core m) = k"
    and run: "argus_nvs_config_commit (s_prod_driver api) (Some cfg) m s = (err, m', s')"
    and stopped: "prod_view blobs octets s' = put_slot (other k) (Some (make_slot (nc_active_generation (nm_core m) + 1) cfg))
                    (prod_view blobs octets s)"
    and readable: "nvs_readable api blobs octets s'"
    and restart: "argus_nvs_config_init (Some (ESP_OK, f1, f2)) (s_prod_driver api) m0 s' = (e, m2, s2)"
  shows "err \<noteq> ESP_OK \<and> e = ESP_OK \<and> same_settings (nc_active_config (nm_core m2)) (sl_payload x)
    \<and> nc_active_slot_index (nm_core m2) = k
    \<and> identity_locked (pl_provisioned_flags (nc_active_config (nm_core m2)))"
proof -
  let ?v = "prod_view blobs octets s'" and ?new = "make_slot (nc_active_generation (nm_core m) + 1) cfg"
  have st': "steady ?v k x" using steady_other_slot [OF st] stopped by simp
  have new: "check_cell (view_slot ?v (other k)) = (True, ?new)"
    using stopped check_make_slot [OF cfg(1) gen] by (simp add: view_put_slot)
  have "identity_locked (slot_flags ?new)" using cfg(2) by (simp add: slot_flags_def)
  then have locked: "identity_locked (pl_provisioned_flags (nc_active_config (boot ?v)))"
    using boot_orphan_locked [OF st' new] by blast
  have up: "e = ESP_OK \<and> nm_core m2 = boot ?v"
    using nvs_platform.readable_boot [OF platform readable _ _ restart] boot_steady [OF st'] idle stopped by simp
  have "err \<noteq> ESP_OK"
  proof
    assume "err = ESP_OK"
    then have "vw_selector ?v = Some (other k)"
      using nvs_platform.manager_commit_outcome [OF platform st active run] unfolding commit_outcome_def by auto
    then show False using st' by (simp add: steady_def)
  qed
  then show ?thesis using up locked boot_steady [OF st'] by simp
qed

theorem failed_provisioning_locks_old_identity_witness:
  "\<exists>m' s' m2 s2.
     argus_nvs_config_commit (s_prod_driver flash_api) (Some demo_provisioned) demo_manager (demo_flash (Some KEY_PROV_HWM))
       = (ESP_FAIL, m', s')
   \<and> argus_nvs_config_init (Some (ESP_OK, ESP_OK, ESP_OK)) (s_prod_driver flash_api) demo_manager s' = (ESP_OK, m2, s2)
   \<and> same_settings (nc_active_config (nm_core m2)) demo_cfg
   \<and> identity_locked (pl_provisioned_flags (nc_active_config (nm_core m2)))"
proof -
  let ?s = "demo_flash (Some KEY_PROV_HWM)"
  let ?s' = "?s\<lparr> fc_blobs := (fc_blobs ?s)(NS_CFG := (fc_blobs ?s NS_CFG)(''slot_b'' \<mapsto> make_slot 2 demo_provisioned)) \<rparr>"
  have pass: "cstr (pl_sta_pass demo_provisioned) \<noteq> CONFIG_MASK_STRING" by code_simp
  have prov: "pl_provisioned_flags demo_provisioned = 1" by (simp add: demo_provisioned_def)
  have old: "\<not> identity_locked (slot_flags (make_slot 1 demo_cfg))"
    by (simp add: slot_flags_def demo_cfg_def payload_zero_def)
  have gen: "nc_active_generation (nm_core demo_manager) + 1 = 2" "nc_active_slot_index (nm_core demo_manager) = 0"
    by (simp_all add: demo_manager_def nvs_core_zero_def)
  have idle: "\<not> vw_pending (prod_view fc_blobs fc_octets ?s)"
    by (simp add: prod_view_def demo_flash_def)
  have run: "argus_nvs_config_commit (s_prod_driver flash_api) (Some demo_provisioned) demo_manager ?s
      = (ESP_FAIL, demo_manager, ?s')"
    using demo_valid(2) pass prov
    by (simp add: argus_nvs_config_commit_def argus_nvs_core_commit_def s_prod_driver_def flash_driver demo_manager_def
        nvs_core_zero_def demo_flash_def inactive_slot_of_def slot_key_def make_slot_valid commit_hwm_def Let_def)
  have stopped: "prod_view fc_blobs fc_octets ?s' = put_slot (other 0) (Some (make_slot 2 demo_provisioned))
      (prod_view fc_blobs fc_octets ?s)"
    by (simp add: prod_view_def put_slot_def other_def)
  obtain e m2 s2 where restart: "argus_nvs_config_init (Some (ESP_OK, ESP_OK, ESP_OK)) (s_prod_driver flash_api)
      demo_manager ?s' = (e, m2, s2)" by (metis prod_cases3)
  have "e = ESP_OK \<and> same_settings (nc_active_config (nm_core m2)) (sl_payload (make_slot 1 demo_cfg))
      \<and> identity_locked (pl_provisioned_flags (nc_active_config (nm_core m2)))"
    using failed_provisioning_locks_old_identity [OF flash.nvs_platform_axioms demo_steady idle old demo_valid(2) _ _ gen(2)
        run _ flash_readable restart] gen prov stopped by simp
  then show ?thesis using run restart by auto
qed

end
