(* ===== verification/Net_Types.thy ===== *)
theory Net_Types
  imports Authority
begin

text \<open>
  The network manager's types (\<open>argus_net_mgr.h\<close>) and its pure helpers
  (\<open>argus_net_mgr.c\<close>): the classification of disconnects, the retry decision, which
  station events count, the failure evidence and the retry countdown.

  The reason codes of a disconnect are enumerators of the Wi-Fi driver; the type below has
  one constructor for each code the source names and one for all others.
\<close>

section \<open>Types\<close>

datatype network_mode =
    MODE_BOOTSTRAP
  | MODE_UNCOMMISSIONED_AP
  | MODE_COMMISSIONED_STA
  | MODE_AP_DISCOVERABLE
  | MODE_SERVICE_TRANSITION
  | MODE_SERVICE_AP_ONLY
  | MODE_SECURITY_RECOVERY_TRANSITION
  | MODE_SECURITY_RECOVERY_AP_ONLY
  | MODE_NETWORK_FAULT

datatype sta_state =
    STA_DISABLED
  | STA_IDLE
  | STA_CONNECTING
  | STA_ASSOCIATED_WAITING_IP
  | STA_CONNECTED
  | STA_RETRY_WAIT
  | STA_ACTION_REQUIRED

datatype wifi_apply_state =
    APPLY_IDLE
  | APPLY_PREPARING
  | APPLY_WAITING_DISCONNECT
  | APPLY_APPLYING_CONFIG
  | APPLY_CONNECTING
  | APPLY_COMPLETE
  | APPLY_FAILED
  | APPLY_CANCELLED

datatype disconnect_category =
    CAT_NONE
  | CAT_AUTHENTICATION
  | CAT_AP_UNAVAILABLE
  | CAT_IP_TIMEOUT
  | CAT_UNKNOWN

datatype net_err =
    NET_ERR_NONE
  | NET_ERR_NVS_CORRUPT
  | NET_ERR_SLOT_CRC_FAILED
  | NET_ERR_UNSUPPORTED_SCHEMA
  | NET_ERR_COMMIT_FAILED
  | NET_ERR_READBACK_FAILED
  | NET_ERR_STA_CONNECT_TIMEOUT
  | NET_ERR_AP_START_FAILED
  | NET_ERR_STOP_TIMEOUT
  | NET_ERR_STA_SHUTDOWN_FAILED
  | NET_ERR_SERVICE_CRED_MISSING
  | NET_ERR_QUEUE_OVERFLOW
  | NET_ERR_AUTHORITY_VIOLATION
  | NET_ERR_OWNER_VIOLATION
  | NET_ERR_RESET_FAILED
  | NET_ERR_REBOOT_PREP_FAILED
  | NET_ERR_TIMER_COMMAND_FAILED
  | NET_ERR_WIFI_TRANSACTION_FAILED
  | NET_ERR_SECURITY_RECOVERY_FAILED

datatype net_event_type =
    EVT_SERVICE_REQUEST
  | EVT_SERVICE_EXIT
  | EVT_STA_ASSOCIATED
  | EVT_STA_CONNECTED
  | EVT_STA_DISCONNECTED
  | EVT_AP_CLIENT_CONNECTED
  | EVT_AP_CLIENT_DISCONNECTED
  | EVT_RESTART_REQUEST
  | EVT_FACTORY_RESET_REQUEST
  | EVT_MANUAL_RECONNECT_REQUEST
  | EVT_AUTO_RECONNECT_WAKEUP
  | EVT_APPLY_WIFI_CONFIG
  | EVT_APPLY_ACTIVE_AP_SECRET
  | EVT_STA_STOPPED
  | EVT_SECURITY_RECOVERY_REQUEST

datatype sta_lifecycle_event =
    EVENT_ASSOCIATED
  | EVENT_IP_ACQUIRED
  | EVENT_DISCONNECTED
  | EVENT_IP_TIMEOUT
  | EVENT_STOPPED

datatype sta_event_action =
    ACTION_IGNORE
  | ACTION_PROCESS
  | ACTION_CONFIRM_DISABLED

datatype svc_policy_result =
    POLICY_OK
  | POLICY_IDEMPOTENT
  | POLICY_REJECT_MODE
  | POLICY_REJECT_AUTHORITY
  | POLICY_TRANSITION_IN_PROGRESS

datatype service_cancel_failure =
    CANCEL_FAILURE_NONE
  | CANCEL_FAILURE_RETRY_TIMER
  | CANCEL_FAILURE_IP_TIMER

record entry_fingerprint =
  fp_mode :: network_mode
  fp_sta_state :: sta_state
  fp_apply_state :: wifi_apply_state
  fp_authority_mode :: control_authority
  fp_authority_owner :: authority_owner
  fp_authority_generation :: u32
  fp_timer_generation :: u32
  fp_transaction_generation :: u32
  fp_auto_retry_timer_generation :: u32
  fp_ip_timeout_timer_generation :: u32
  fp_consecutive_failures :: u32
  fp_last_disconnect_reason :: u8
  fp_last_disconnect_category :: disconnect_category
  fp_sta_connected :: bool
  fp_sta_ip_acquired :: bool
  fp_ap_started :: bool
  fp_mqtt_broker_running :: bool
  fp_mqtt_broker_stopped :: bool
  fp_mqtt_broker_observable :: bool
  fp_commissioned :: bool
  fp_wifi_transaction_active :: bool
  fp_auto_retry_timer_active :: bool
  fp_ip_timeout_timer_active :: bool

record net_snapshot =
  ns_mode :: network_mode
  ns_last_error :: net_err
  ns_sta_connected :: bool
  ns_sta_ip_acquired :: bool
  ns_ap_started :: bool
  ns_mqtt_broker_running :: bool
  ns_mqtt_broker_stopped :: bool
  ns_mqtt_broker_observable :: bool
  ns_commissioned :: bool
  ns_sta_state :: sta_state
  ns_last_disconnect_category :: disconnect_category
  ns_last_disconnect_reason :: u8
  ns_consecutive_failures :: u32
  ns_seconds_until_retry :: u32
  ns_action_required :: bool
  ns_manual_reconnect_permitted :: bool
  ns_sta_ip_address :: "u8 list"
  ns_apply_state :: wifi_apply_state
  ns_timer_generation :: u32
  ns_wifi_transaction_active :: bool
  ns_factory_reset_pending :: bool
  ns_transaction_generation :: u32
  ns_auto_retry_timer_active :: bool
  ns_auto_retry_timer_generation :: u32
  ns_ip_timeout_timer_active :: bool
  ns_ip_timeout_timer_generation :: u32
  ns_last_service_cancel_failure :: service_cancel_failure
  ns_last_service_cancel_error :: esp_err

record net_event =
  ev_type :: net_event_type
  ev_requested_owner :: authority_owner
  ev_disconnect_reason :: u8
  ev_timer_generation :: u32
  ev_transaction_generation :: u32
  ev_service_preflight_required :: bool
  ev_service_preflight :: "entry_fingerprint option"

text \<open>
  The fingerprint of a zeroed event is \<open>None\<close>: no code reads it while
  \<open>service_preflight_required\<close> is false.
\<close>

definition event_zero :: net_event where
  "event_zero = \<lparr> ev_type = EVT_SERVICE_REQUEST, ev_requested_owner = AUTH_OWNER_NONE,
     ev_disconnect_reason = 0, ev_timer_generation = 0, ev_transaction_generation = 0,
     ev_service_preflight_required = False, ev_service_preflight = None \<rparr>"

section \<open>Disconnects and retries\<close>

datatype wifi_reason =
    AUTH_EXPIRE | AUTH_LEAVE | NOT_AUTHED | ASSOC_NOT_AUTHED | MIC_FAILURE
  | FOURWAY_HANDSHAKE_TIMEOUT | GROUP_KEY_UPDATE_TIMEOUT | IE_IN_4WAY_DIFFERS
  | GROUP_CIPHER_INVALID | PAIRWISE_CIPHER_INVALID | AKMP_INVALID | UNSUPP_RSN_IE_VERSION
  | INVALID_RSN_IE_CAP | X802_1X_AUTH_FAILED | CIPHER_SUITE_REJECTED | INVALID_PMKID
  | AUTH_FAIL | HANDSHAKE_TIMEOUT | NO_AP_FOUND_W_COMPATIBLE_SECURITY
  | NO_AP_FOUND_IN_AUTHMODE_THRESHOLD
  | ASSOC_EXPIRE | ASSOC_TOOMANY | NOT_ASSOCED | ASSOC_LEAVE | BSS_TRANSITION_DISASSOC
  | BEACON_TIMEOUT | NO_AP_FOUND | ASSOC_FAIL | CONNECTION_FAIL | NO_AP_FOUND_IN_RSSI_THRESHOLD
  | REASON_OTHER

fun argus_net_classify_disconnect :: "wifi_reason \<Rightarrow> disconnect_category \<times> string" where
  "argus_net_classify_disconnect AUTH_EXPIRE = (CAT_AUTHENTICATION, ''AUTH_EXPIRE'')"
| "argus_net_classify_disconnect AUTH_LEAVE = (CAT_AUTHENTICATION, ''AUTH_LEAVE'')"
| "argus_net_classify_disconnect NOT_AUTHED = (CAT_AUTHENTICATION, ''NOT_AUTHED'')"
| "argus_net_classify_disconnect ASSOC_NOT_AUTHED = (CAT_AUTHENTICATION, ''ASSOC_NOT_AUTHED'')"
| "argus_net_classify_disconnect MIC_FAILURE = (CAT_AUTHENTICATION, ''MIC_FAILURE'')"
| "argus_net_classify_disconnect FOURWAY_HANDSHAKE_TIMEOUT = (CAT_AUTHENTICATION, ''4WAY_HANDSHAKE_TIMEOUT'')"
| "argus_net_classify_disconnect GROUP_KEY_UPDATE_TIMEOUT = (CAT_AUTHENTICATION, ''GROUP_KEY_UPDATE_TIMEOUT'')"
| "argus_net_classify_disconnect IE_IN_4WAY_DIFFERS = (CAT_AUTHENTICATION, ''IE_IN_4WAY_DIFFERS'')"
| "argus_net_classify_disconnect GROUP_CIPHER_INVALID = (CAT_AUTHENTICATION, ''GROUP_CIPHER_INVALID'')"
| "argus_net_classify_disconnect PAIRWISE_CIPHER_INVALID = (CAT_AUTHENTICATION, ''PAIRWISE_CIPHER_INVALID'')"
| "argus_net_classify_disconnect AKMP_INVALID = (CAT_AUTHENTICATION, ''AKMP_INVALID'')"
| "argus_net_classify_disconnect UNSUPP_RSN_IE_VERSION = (CAT_AUTHENTICATION, ''UNSUPP_RSN_IE_VERSION'')"
| "argus_net_classify_disconnect INVALID_RSN_IE_CAP = (CAT_AUTHENTICATION, ''INVALID_RSN_IE_CAP'')"
| "argus_net_classify_disconnect X802_1X_AUTH_FAILED = (CAT_AUTHENTICATION, ''802_1X_AUTH_FAILED'')"
| "argus_net_classify_disconnect CIPHER_SUITE_REJECTED = (CAT_AUTHENTICATION, ''CIPHER_SUITE_REJECTED'')"
| "argus_net_classify_disconnect INVALID_PMKID = (CAT_AUTHENTICATION, ''INVALID_PMKID'')"
| "argus_net_classify_disconnect AUTH_FAIL = (CAT_AUTHENTICATION, ''AUTH_FAIL'')"
| "argus_net_classify_disconnect HANDSHAKE_TIMEOUT = (CAT_AUTHENTICATION, ''HANDSHAKE_TIMEOUT'')"
| "argus_net_classify_disconnect NO_AP_FOUND_W_COMPATIBLE_SECURITY =
     (CAT_AUTHENTICATION, ''NO_AP_FOUND_W_COMPATIBLE_SECURITY'')"
| "argus_net_classify_disconnect NO_AP_FOUND_IN_AUTHMODE_THRESHOLD =
     (CAT_AUTHENTICATION, ''NO_AP_FOUND_IN_AUTHMODE_THRESHOLD'')"
| "argus_net_classify_disconnect ASSOC_EXPIRE = (CAT_AP_UNAVAILABLE, ''ASSOC_EXPIRE'')"
| "argus_net_classify_disconnect ASSOC_TOOMANY = (CAT_AP_UNAVAILABLE, ''ASSOC_TOOMANY'')"
| "argus_net_classify_disconnect NOT_ASSOCED = (CAT_AP_UNAVAILABLE, ''NOT_ASSOCED'')"
| "argus_net_classify_disconnect ASSOC_LEAVE = (CAT_AP_UNAVAILABLE, ''ASSOC_LEAVE'')"
| "argus_net_classify_disconnect BSS_TRANSITION_DISASSOC = (CAT_AP_UNAVAILABLE, ''BSS_TRANSITION_DISASSOC'')"
| "argus_net_classify_disconnect BEACON_TIMEOUT = (CAT_AP_UNAVAILABLE, ''BEACON_TIMEOUT'')"
| "argus_net_classify_disconnect NO_AP_FOUND = (CAT_AP_UNAVAILABLE, ''NO_AP_FOUND'')"
| "argus_net_classify_disconnect ASSOC_FAIL = (CAT_AP_UNAVAILABLE, ''ASSOC_FAIL'')"
| "argus_net_classify_disconnect CONNECTION_FAIL = (CAT_AP_UNAVAILABLE, ''CONNECTION_FAIL'')"
| "argus_net_classify_disconnect NO_AP_FOUND_IN_RSSI_THRESHOLD =
     (CAT_AP_UNAVAILABLE, ''NO_AP_FOUND_IN_RSSI_THRESHOLD'')"
| "argus_net_classify_disconnect REASON_OTHER = (CAT_UNKNOWN, ''UNKNOWN'')"

definition argus_net_evaluate_retry :: "disconnect_category \<Rightarrow> u32 \<Rightarrow> sta_state" where
  "argus_net_evaluate_retry cat auth_failures =
     (if cat = CAT_AUTHENTICATION \<and> auth_failures \<ge> 3 then STA_ACTION_REQUIRED else STA_RETRY_WAIT)"

definition argus_net_can_manual_reconnect :: "network_mode \<Rightarrow> sta_state \<Rightarrow> bool \<Rightarrow> bool" where
  "argus_net_can_manual_reconnect net_mode st has_valid_commissioned_config =
     (if \<not> has_valid_commissioned_config
         \<or> (net_mode \<noteq> MODE_COMMISSIONED_STA \<and> net_mode \<noteq> MODE_AP_DISCOVERABLE \<and> net_mode \<noteq> MODE_NETWORK_FAULT)
      then False else st = STA_ACTION_REQUIRED \<or> st = STA_RETRY_WAIT \<or> st = STA_IDLE)"

definition argus_net_event_post_status :: "bool \<Rightarrow> esp_err" where
  "argus_net_event_post_status queued = (if queued then ESP_OK else ESP_ERR_NO_MEM)"

definition argus_net_timer_generation_is_current :: "u32 \<Rightarrow> u32 \<Rightarrow> bool" where
  "argus_net_timer_generation_is_current event_generation active_generation =
     (event_generation = active_generation)"

definition argus_net_timer_command_status :: "bool \<Rightarrow> esp_err" where
  "argus_net_timer_command_status command_queued = (if command_queued then ESP_OK else ESP_FAIL)"

section \<open>Station events\<close>

definition argus_net_decide_sta_event ::
  "network_mode \<Rightarrow> sta_lifecycle_event \<Rightarrow> u32 \<Rightarrow> u32 \<Rightarrow> bool \<Rightarrow> bool \<Rightarrow> bool \<Rightarrow> sta_event_action" where
  "argus_net_decide_sta_event mode event event_generation active_transaction_generation
       sta_started sta_connected sta_ip_acquired =
     (let process = (\<lambda>b. if b then ACTION_PROCESS else ACTION_IGNORE) in
      if mode = MODE_SERVICE_AP_ONLY \<or> mode = MODE_SECURITY_RECOVERY_AP_ONLY then
        (if event = EVENT_DISCONNECTED \<or> event = EVENT_STOPPED then ACTION_CONFIRM_DISABLED else ACTION_IGNORE)
      else if mode = MODE_SERVICE_TRANSITION \<or> mode = MODE_SECURITY_RECOVERY_TRANSITION \<or> mode = MODE_BOOTSTRAP
      then ACTION_IGNORE
      else if mode \<noteq> MODE_UNCOMMISSIONED_AP \<and> mode \<noteq> MODE_COMMISSIONED_STA
              \<and> mode \<noteq> MODE_AP_DISCOVERABLE \<and> mode \<noteq> MODE_NETWORK_FAULT
      then ACTION_IGNORE
      else if event_generation \<noteq> active_transaction_generation
              \<and> (event_generation \<noteq> 0 \<or> active_transaction_generation \<noteq> 0)
      then ACTION_IGNORE
      else (case event of
              EVENT_ASSOCIATED \<Rightarrow> process (sta_started \<and> sta_connected)
            | EVENT_IP_ACQUIRED \<Rightarrow> process (sta_started \<and> sta_connected \<and> sta_ip_acquired)
            | EVENT_DISCONNECTED \<Rightarrow> process (sta_started \<and> \<not> sta_connected \<and> \<not> sta_ip_acquired)
            | EVENT_IP_TIMEOUT \<Rightarrow> process (sta_started \<and> \<not> sta_ip_acquired)
            | EVENT_STOPPED \<Rightarrow> process (\<not> sta_started \<and> \<not> sta_connected \<and> \<not> sta_ip_acquired)))"

record sta_flags =
  sf_state :: sta_state
  sf_started :: bool
  sf_connected :: bool
  sf_ip_acquired :: bool

definition argus_net_apply_sta_event_action ::
  "network_mode \<Rightarrow> sta_lifecycle_event \<Rightarrow> sta_event_action \<Rightarrow> sta_flags \<Rightarrow> sta_flags" where
  "argus_net_apply_sta_event_action mode event action f =
     (let service_mode = (mode = MODE_SERVICE_TRANSITION \<or> mode = MODE_SERVICE_AP_ONLY
            \<or> mode = MODE_SECURITY_RECOVERY_TRANSITION \<or> mode = MODE_SECURITY_RECOVERY_AP_ONLY);
          f1 = (if service_mode \<and> action \<noteq> ACTION_PROCESS
                then f\<lparr> sf_started := False, sf_connected := False, sf_ip_acquired := False \<rparr>
                else if action = ACTION_PROCESS \<and> event = EVENT_STOPPED
                then f\<lparr> sf_started := False, sf_connected := False, sf_ip_acquired := False \<rparr>
                else if action = ACTION_PROCESS \<and> (event = EVENT_DISCONNECTED \<or> event = EVENT_IP_TIMEOUT)
                then f\<lparr> sf_connected := False, sf_ip_acquired := False \<rparr>
                else f)
      in if (mode = MODE_SERVICE_AP_ONLY \<or> mode = MODE_SECURITY_RECOVERY_AP_ONLY)
            \<and> action = ACTION_CONFIRM_DISABLED
         then f1\<lparr> sf_state := STA_DISABLED \<rparr> else f1)"

section \<open>Failure evidence and countdown\<close>

record failure_evidence =
  fe_reason :: u8
  fe_category :: disconnect_category
  fe_consecutive_failures :: u32
  fe_authentication_streak :: u32

definition argus_net_failure_evidence_record :: "u8 \<Rightarrow> disconnect_category \<Rightarrow> failure_evidence \<Rightarrow> failure_evidence" where
  "argus_net_failure_evidence_record reason category e =
     e\<lparr> fe_reason := reason, fe_category := category,
        fe_consecutive_failures := fe_consecutive_failures e + 1,
        fe_authentication_streak :=
          (if category = CAT_AUTHENTICATION then fe_authentication_streak e + 1 else 0) \<rparr>"

definition argus_net_failure_evidence_clear :: failure_evidence where
  "argus_net_failure_evidence_clear = \<lparr> fe_reason = 0, fe_category = CAT_NONE,
     fe_consecutive_failures = 0, fe_authentication_streak = 0 \<rparr>"

definition argus_net_retry_countdown_seconds :: "u32 \<Rightarrow> u32" where
  "argus_net_retry_countdown_seconds remaining_ms =
     (if remaining_ms = 0 then 0 else (remaining_ms - 1) div 1000 + 1)"

definition argus_net_retry_remaining_ms ::
  "u32 \<Rightarrow> u32 \<Rightarrow> bool \<Rightarrow> u32 \<Rightarrow> u32 \<Rightarrow> sta_state \<Rightarrow> u32 \<Rightarrow> u32" where
  "argus_net_retry_remaining_ms current_tick expiry_tick timer_active timer_generation current_generation st
       tick_period_ms =
     (if \<not> timer_active \<or> timer_generation \<noteq> current_generation \<or> st \<noteq> STA_RETRY_WAIT \<or> tick_period_ms = 0
      then 0
      else
        (let modular_delta = expiry_tick - current_tick in
         if modular_delta = 0 \<or> modular_delta > 0xFFFFFFFF div 2 then 0
         else
           (let remaining_ms = ucast modular_delta * ucast tick_period_ms :: u64 in
            if remaining_ms > 0xFFFFFFFF then 0xFFFFFFFF else ucast remaining_ms)))"

section \<open>Names\<close>

fun argus_net_mgr_get_mode_name :: "network_mode \<Rightarrow> string" where
  "argus_net_mgr_get_mode_name MODE_BOOTSTRAP = ''BOOTSTRAP''"
| "argus_net_mgr_get_mode_name MODE_UNCOMMISSIONED_AP = ''UNCOMMISSIONED_AP''"
| "argus_net_mgr_get_mode_name MODE_COMMISSIONED_STA = ''COMMISSIONED_STA''"
| "argus_net_mgr_get_mode_name MODE_AP_DISCOVERABLE = ''AP_DISCOVERABLE''"
| "argus_net_mgr_get_mode_name MODE_SERVICE_TRANSITION = ''SERVICE_TRANSITION''"
| "argus_net_mgr_get_mode_name MODE_SERVICE_AP_ONLY = ''SERVICE_AP_ONLY''"
| "argus_net_mgr_get_mode_name MODE_SECURITY_RECOVERY_TRANSITION = ''SECURITY_RECOVERY_TRANSITION''"
| "argus_net_mgr_get_mode_name MODE_SECURITY_RECOVERY_AP_ONLY = ''SECURITY_RECOVERY_AP_ONLY''"
| "argus_net_mgr_get_mode_name MODE_NETWORK_FAULT = ''NETWORK_FAULT''"

section \<open>Lemmas\<close>

text \<open>
  The countdown rounds the remaining time up to whole seconds, and a stale timer, a passed
  expiry or another station state has no remaining time.
\<close>

lemma retry_countdown_ceiling:
  "unat (argus_net_retry_countdown_seconds ms) = (unat ms + 999) div 1000"
proof (cases "ms = 0")
  case True
  then show ?thesis by (simp add: argus_net_retry_countdown_seconds_def)
next
  case False
  then obtain n where n: "unat ms = Suc n" by (metis not0_implies_Suc unat_eq_zero)
  then have sub: "unat (ms - 1) = n" using False by (simp add: unat_minus_one)
  have "Suc n < 2 ^ 32" using unsigned_less [of ms, where ?'a = nat] n by simp
  then have "n div 1000 + 1 < 2 ^ 32" using div_le_dividend [of n 1000] by linarith
  then have "unat ((ms - 1) div 1000 + 1) = n div 1000 + 1"
    by (simp add: unat_word_ariths unat_div sub)
  then show ?thesis using False n by (simp add: argus_net_retry_countdown_seconds_def)
qed

text \<open>In a service mode no station event brings the station back.\<close>

lemma service_mode_sta_dead:
  assumes "mode = MODE_SERVICE_AP_ONLY \<or> mode = MODE_SERVICE_TRANSITION
      \<or> mode = MODE_SECURITY_RECOVERY_AP_ONLY \<or> mode = MODE_SECURITY_RECOVERY_TRANSITION"
  shows "\<not> sf_connected (argus_net_apply_sta_event_action mode event
           (argus_net_decide_sta_event mode event g a st c i) f)"
    and "\<not> sf_started (argus_net_apply_sta_event_action mode event
           (argus_net_decide_sta_event mode event g a st c i) f)"
  using assms
  by (auto simp: argus_net_apply_sta_event_action_def argus_net_decide_sta_event_def Let_def)

end
