(* ===== verification/Service_Policy.thy ===== *)
theory Service_Policy
  imports Net_Types
begin

text \<open>
  The policy of entering and leaving local service (\<open>argus_service_policy.c\<close>). A decision
  takes snapshots of the network and of the authority; an accepted request carries a
  fingerprint of both, which is compared again before anything is changed. Snapshots and
  the output event are given; the source's null checks on them have no counterpart.
\<close>

definition recovery_state_is_eligible :: "net_snapshot \<Rightarrow> bool" where
  "recovery_state_is_eligible net =
     (if ns_wifi_transaction_active net
      then ns_apply_state net = APPLY_PREPARING \<or> ns_apply_state net = APPLY_WAITING_DISCONNECT
           \<or> ns_apply_state net = APPLY_APPLYING_CONFIG \<or> ns_apply_state net = APPLY_CONNECTING
      else ns_sta_state net = STA_RETRY_WAIT \<or> ns_sta_state net = STA_ACTION_REQUIRED
           \<or> ns_sta_state net = STA_IDLE)"

definition capture_entry_fingerprint :: "net_snapshot \<Rightarrow> authority_snapshot \<Rightarrow> entry_fingerprint" where
  "capture_entry_fingerprint net auth =
     \<lparr> fp_mode = ns_mode net, fp_sta_state = ns_sta_state net, fp_apply_state = ns_apply_state net,
       fp_authority_mode = as_mode auth, fp_authority_owner = as_owner auth,
       fp_authority_generation = as_generation auth, fp_timer_generation = ns_timer_generation net,
       fp_transaction_generation = ns_transaction_generation net,
       fp_auto_retry_timer_generation = ns_auto_retry_timer_generation net,
       fp_ip_timeout_timer_generation = ns_ip_timeout_timer_generation net,
       fp_consecutive_failures = ns_consecutive_failures net,
       fp_last_disconnect_reason = ns_last_disconnect_reason net,
       fp_last_disconnect_category = ns_last_disconnect_category net,
       fp_sta_connected = ns_sta_connected net, fp_sta_ip_acquired = ns_sta_ip_acquired net,
       fp_ap_started = ns_ap_started net, fp_mqtt_broker_running = ns_mqtt_broker_running net,
       fp_mqtt_broker_stopped = ns_mqtt_broker_stopped net,
       fp_mqtt_broker_observable = ns_mqtt_broker_observable net, fp_commissioned = ns_commissioned net,
       fp_wifi_transaction_active = ns_wifi_transaction_active net,
       fp_auto_retry_timer_active = ns_auto_retry_timer_active net,
       fp_ip_timeout_timer_active = ns_ip_timeout_timer_active net \<rparr>"

definition argus_service_entry_fingerprint_matches ::
  "entry_fingerprint option \<Rightarrow> entry_fingerprint option \<Rightarrow> bool" where
  "argus_service_entry_fingerprint_matches expected actual =
     (case (expected, actual) of
        (Some e, Some a) \<Rightarrow>
          fp_mode e = fp_mode a
          \<and> fp_sta_state e = fp_sta_state a
          \<and> fp_apply_state e = fp_apply_state a
          \<and> fp_authority_mode e = fp_authority_mode a
          \<and> fp_authority_owner e = fp_authority_owner a
          \<and> fp_authority_generation e = fp_authority_generation a
          \<and> fp_timer_generation e = fp_timer_generation a
          \<and> fp_transaction_generation e = fp_transaction_generation a
          \<and> fp_auto_retry_timer_generation e = fp_auto_retry_timer_generation a
          \<and> fp_ip_timeout_timer_generation e = fp_ip_timeout_timer_generation a
          \<and> fp_consecutive_failures e = fp_consecutive_failures a
          \<and> fp_last_disconnect_reason e = fp_last_disconnect_reason a
          \<and> fp_last_disconnect_category e = fp_last_disconnect_category a
          \<and> fp_sta_connected e = fp_sta_connected a
          \<and> fp_sta_ip_acquired e = fp_sta_ip_acquired a
          \<and> fp_ap_started e = fp_ap_started a
          \<and> fp_mqtt_broker_running e = fp_mqtt_broker_running a
          \<and> fp_mqtt_broker_stopped e = fp_mqtt_broker_stopped a
          \<and> fp_mqtt_broker_observable e = fp_mqtt_broker_observable a
          \<and> fp_commissioned e = fp_commissioned a
          \<and> fp_wifi_transaction_active e = fp_wifi_transaction_active a
          \<and> fp_auto_retry_timer_active e = fp_auto_retry_timer_active a
          \<and> fp_ip_timeout_timer_active e = fp_ip_timeout_timer_active a
      | _ \<Rightarrow> False)"

text \<open>A decision returns its result and the event as it leaves it.\<close>

definition argus_service_policy_evaluate_entry_for_owner ::
  "net_snapshot \<Rightarrow> authority_snapshot \<Rightarrow> authority_owner \<Rightarrow> net_event \<Rightarrow> svc_policy_result \<times> net_event" where
  "argus_service_policy_evaluate_entry_for_owner net auth requested_owner evt =
     (let accept = (POLICY_OK, event_zero\<lparr> ev_type := EVT_SERVICE_REQUEST, ev_requested_owner := requested_owner,
            ev_service_preflight_required := True,
            ev_service_preflight := Some (capture_entry_fingerprint net auth) \<rparr>)
      in
      if requested_owner \<noteq> AUTH_OWNER_BROWSER \<and> requested_owner \<noteq> AUTH_OWNER_DIAGNOSTIC_CLI
      then (POLICY_REJECT_AUTHORITY, evt)
      else if ns_mode net = MODE_SERVICE_AP_ONLY \<and> as_mode auth = AUTHORITY_LOCAL_SERVICE
              \<and> as_owner auth = AUTH_OWNER_BROWSER
      then (POLICY_IDEMPOTENT, evt)
      else if ns_mode net = MODE_SERVICE_TRANSITION then (POLICY_TRANSITION_IN_PROGRESS, evt)
      else if \<not> ns_ap_started net then (POLICY_REJECT_MODE, evt)
      else if ns_mode net = MODE_AP_DISCOVERABLE then
        (let normal = (as_mode auth = AUTHORITY_SUPERVISORY \<and> as_owner auth = AUTH_OWNER_MQTT);
             recovery = (as_mode auth = AUTHORITY_NONE \<and> as_owner auth = AUTH_OWNER_NONE
               \<and> ns_commissioned net \<and> \<not> ns_sta_connected net \<and> \<not> ns_sta_ip_acquired net
               \<and> ns_mqtt_broker_observable net \<and> ns_mqtt_broker_stopped net
               \<and> \<not> ns_mqtt_broker_running net \<and> recovery_state_is_eligible net)
         in if \<not> normal \<and> \<not> recovery then (POLICY_REJECT_AUTHORITY, evt) else accept)
      else if ns_mode net = MODE_UNCOMMISSIONED_AP then
        (if as_mode auth \<noteq> AUTHORITY_NONE \<or> as_owner auth \<noteq> AUTH_OWNER_NONE
         then (POLICY_REJECT_AUTHORITY, evt) else accept)
      else (POLICY_REJECT_MODE, evt))"

definition argus_service_policy_evaluate_entry ::
  "net_snapshot \<Rightarrow> authority_snapshot \<Rightarrow> net_event \<Rightarrow> svc_policy_result \<times> net_event" where
  "argus_service_policy_evaluate_entry net auth evt =
     argus_service_policy_evaluate_entry_for_owner net auth AUTH_OWNER_BROWSER evt"

definition argus_service_policy_entry_permitted :: "net_snapshot \<Rightarrow> authority_snapshot \<Rightarrow> bool" where
  "argus_service_policy_entry_permitted net auth =
     (fst (argus_service_policy_evaluate_entry net auth event_zero) = POLICY_OK)"

definition argus_service_policy_evaluate_exit ::
  "net_snapshot \<Rightarrow> authority_snapshot \<Rightarrow> net_event \<Rightarrow> svc_policy_result \<times> net_event" where
  "argus_service_policy_evaluate_exit net auth evt =
     (if ns_mode net \<noteq> MODE_SERVICE_AP_ONLY then (POLICY_REJECT_MODE, evt)
      else if as_mode auth \<noteq> AUTHORITY_LOCAL_SERVICE \<or> as_owner auth \<noteq> AUTH_OWNER_BROWSER
      then (POLICY_REJECT_AUTHORITY, evt)
      else (POLICY_OK, event_zero\<lparr> ev_type := EVT_SERVICE_EXIT, ev_requested_owner := AUTH_OWNER_BROWSER \<rparr>))"

text \<open>
  The commit point of a service entry: the policy and the fingerprint decide whether the
  pending recovery is cancelled. \<open>cancel_recovery\<close> is the operation that does it.
\<close>

definition argus_net_service_commit_recovery ::
  "svc_policy_result \<Rightarrow> entry_fingerprint option \<Rightarrow> entry_fingerprint option \<Rightarrow>
     ('s \<Rightarrow> (esp_err \<times> service_cancel_failure) \<times> 's) option \<Rightarrow> 's \<Rightarrow> (esp_err \<times> service_cancel_failure) \<times> 's" where
  "argus_net_service_commit_recovery policy expected actual cancel_recovery s =
     (case (actual, cancel_recovery) of
        (Some a, Some cancel) \<Rightarrow>
          if policy \<noteq> POLICY_OK
             \<or> (expected \<noteq> None \<and> \<not> argus_service_entry_fingerprint_matches expected (Some a))
          then ((ESP_ERR_INVALID_STATE, CANCEL_FAILURE_NONE), s)
          else cancel s
      | _ \<Rightarrow> ((ESP_ERR_INVALID_ARG, CANCEL_FAILURE_NONE), s))"

section \<open>Properties\<close>

lemma fingerprint_matches_eq:
  "argus_service_entry_fingerprint_matches (Some e) (Some a) \<longleftrightarrow> e = a"
  unfolding argus_service_entry_fingerprint_matches_def
  by (cases e, cases a) auto

text \<open>
  The states in which nobody commands the machine over the network: the supervisor's normal
  operation, a commissioned controller that lost its network and whose broker is observed
  stopped, and a controller that was never commissioned.
\<close>

definition entry_situation :: "net_snapshot \<Rightarrow> authority_snapshot \<Rightarrow> bool" where
  "entry_situation net auth \<longleftrightarrow> ns_ap_started net
     \<and> (ns_mode net = MODE_AP_DISCOVERABLE \<and> as_mode auth = AUTHORITY_SUPERVISORY \<and> as_owner auth = AUTH_OWNER_MQTT
      \<or> ns_mode net = MODE_AP_DISCOVERABLE \<and> as_mode auth = AUTHORITY_NONE \<and> as_owner auth = AUTH_OWNER_NONE
        \<and> ns_commissioned net \<and> \<not> ns_sta_connected net \<and> \<not> ns_sta_ip_acquired net
        \<and> ns_mqtt_broker_observable net \<and> ns_mqtt_broker_stopped net \<and> \<not> ns_mqtt_broker_running net
        \<and> recovery_state_is_eligible net
      \<or> ns_mode net = MODE_UNCOMMISSIONED_AP \<and> as_mode auth = AUTHORITY_NONE \<and> as_owner auth = AUTH_OWNER_NONE)"

lemma entry_for_owner_ok:
  "fst (argus_service_policy_evaluate_entry_for_owner net auth owner evt) = POLICY_OK \<longleftrightarrow>
     (owner = AUTH_OWNER_BROWSER \<or> owner = AUTH_OWNER_DIAGNOSTIC_CLI) \<and> entry_situation net auth"
  by (auto simp: argus_service_policy_evaluate_entry_for_owner_def entry_situation_def Let_def)

lemma entry_for_owner_event:
  assumes "argus_service_policy_evaluate_entry_for_owner net auth owner evt = (POLICY_OK, evt')"
  shows "ev_service_preflight evt' = Some (capture_entry_fingerprint net auth)"
    and "ev_requested_owner evt' = owner" and "ev_service_preflight_required evt'"
  using assms by (auto simp: argus_service_policy_evaluate_entry_for_owner_def Let_def split: if_splits)

text \<open>
  The service-entry policy admits a request exactly in the three situations above and
  only for the two local owners, and what it admitted is committed only if nothing relevant
  changed: with the preflight of the accepted event as the expectation, the recovery is
  cancelled exactly when the situation still admits entry and every field of the new
  fingerprint equals the old one, the authority generation included; otherwise the state is
  left alone.
\<close>

theorem service_entry_policy_exact:
  assumes pre: "argus_service_policy_evaluate_entry_for_owner net auth owner evt = (POLICY_OK, evt')"
  shows "(owner = AUTH_OWNER_BROWSER \<or> owner = AUTH_OWNER_DIAGNOSTIC_CLI) \<and> entry_situation net auth
    \<and> argus_net_service_commit_recovery
        (fst (argus_service_policy_evaluate_entry_for_owner net' auth' owner evt))
        (ev_service_preflight evt') (Some (capture_entry_fingerprint net' auth')) (Some cancel) s
      = (if entry_situation net' auth' \<and> capture_entry_fingerprint net' auth' = capture_entry_fingerprint net auth
         then cancel s else ((ESP_ERR_INVALID_STATE, CANCEL_FAILURE_NONE), s))"
proof -
  have owner: "owner = AUTH_OWNER_BROWSER \<or> owner = AUTH_OWNER_DIAGNOSTIC_CLI" "entry_situation net auth"
    using entry_for_owner_ok [of net auth owner evt] pre by auto
  then show ?thesis
    using entry_for_owner_event [OF pre] entry_for_owner_ok [of net' auth' owner evt]
    by (auto simp: argus_net_service_commit_recovery_def fingerprint_matches_eq)
qed

definition demo_net :: net_snapshot where
  "demo_net = \<lparr> ns_mode = MODE_AP_DISCOVERABLE, ns_last_error = NET_ERR_NONE, ns_sta_connected = True,
     ns_sta_ip_acquired = True, ns_ap_started = True, ns_mqtt_broker_running = True,
     ns_mqtt_broker_stopped = False, ns_mqtt_broker_observable = True, ns_commissioned = True,
     ns_sta_state = STA_CONNECTED, ns_last_disconnect_category = CAT_NONE, ns_last_disconnect_reason = 0,
     ns_consecutive_failures = 0, ns_seconds_until_retry = 0, ns_action_required = False,
     ns_manual_reconnect_permitted = False, ns_sta_ip_address = [], ns_apply_state = APPLY_IDLE,
     ns_timer_generation = 3, ns_wifi_transaction_active = False, ns_factory_reset_pending = False,
     ns_transaction_generation = 0, ns_auto_retry_timer_active = False, ns_auto_retry_timer_generation = 3,
     ns_ip_timeout_timer_active = False, ns_ip_timeout_timer_generation = 3,
     ns_last_service_cancel_failure = CANCEL_FAILURE_NONE, ns_last_service_cancel_error = ESP_OK \<rparr>"

definition demo_auth :: authority_snapshot where
  "demo_auth = \<lparr> as_mode = AUTHORITY_SUPERVISORY, as_owner = AUTH_OWNER_MQTT, as_generation = 4 \<rparr>"

theorem service_entry_policy_exact_witness:
  "entry_situation demo_net demo_auth
   \<and> argus_net_service_commit_recovery
       (fst (argus_service_policy_evaluate_entry_for_owner demo_net (demo_auth\<lparr> as_generation := 5 \<rparr>) AUTH_OWNER_BROWSER event_zero))
       (ev_service_preflight (snd (argus_service_policy_evaluate_entry_for_owner demo_net demo_auth AUTH_OWNER_BROWSER event_zero)))
       (Some (capture_entry_fingerprint demo_net (demo_auth\<lparr> as_generation := 5 \<rparr>)))
       (Some (\<lambda>n. ((ESP_OK, CANCEL_FAILURE_NONE), Suc n))) 0 = ((ESP_ERR_INVALID_STATE, CANCEL_FAILURE_NONE), 0)"
proof -
  have pre: "argus_service_policy_evaluate_entry_for_owner demo_net demo_auth AUTH_OWNER_BROWSER event_zero
      = (POLICY_OK, snd (argus_service_policy_evaluate_entry_for_owner demo_net demo_auth AUTH_OWNER_BROWSER event_zero))"
    by (simp add: argus_service_policy_evaluate_entry_for_owner_def demo_net_def demo_auth_def)
  have "capture_entry_fingerprint demo_net (demo_auth\<lparr> as_generation := 5 \<rparr>) \<noteq> capture_entry_fingerprint demo_net demo_auth"
    by (simp add: capture_entry_fingerprint_def demo_auth_def)
  then show ?thesis
    using service_entry_policy_exact [OF pre, of demo_net "demo_auth\<lparr> as_generation := 5 \<rparr>"
        "\<lambda>n. ((ESP_OK, CANCEL_FAILURE_NONE), Suc n)" 0] by simp
qed

end
