(* ===== verification/Service_Entry.thy ===== *)
theory Service_Entry
  imports Service_Policy State_Mgr
begin

text \<open>
  The service-entry transition of the network manager (\<open>argus_net_mgr.c\<close>,
  \<open>argus_net_mgr_orchestrate_service_entry\<close>): authority is taken away from everybody, the
  machine is stopped, the network is isolated, every step is verified, and local authority
  is granted last, under the dispatch lock. Both tables of operations are arguments; an
  operation maps the state to a status and a new state and may be missing.
\<close>

section \<open>Operation tables\<close>

type_synonym 's svc_call = "'s \<Rightarrow> esp_err \<times> 's"

record 's authority_ops =
  ao_prepare_transition :: "'s svc_call option"
  ao_grant_local :: "(authority_owner \<Rightarrow> 's svc_call) option"
  ao_abort_transition :: "('s \<Rightarrow> 's) option"

record 's transition_ops =
  to_request_normal_stop :: "'s svc_call option"
  to_verify_stopped :: "'s svc_call option"
  to_stop_broker :: "'s svc_call option"
  to_verify_broker_stopped :: "'s svc_call option"
  to_disconnect_sta :: "'s svc_call option"
  to_verify_sta_disconnected :: "'s svc_call option"
  to_verify_sta_ip_released :: "'s svc_call option"
  to_set_wifi_ap_only :: "'s svc_call option"
  to_verify_ap_active :: "'s svc_call option"
  to_set_sta_disabled :: "'s svc_call option"
  to_verify_machine_safe :: "'s svc_call option"
  to_stop_http :: "'s svc_call option"
  to_start_http :: "'s svc_call option"
  to_unlock_net :: "'s svc_call option"
  to_lock_net :: "'s svc_call option"
  to_lock_dispatch :: "'s svc_call option"
  to_unlock_dispatch :: "'s svc_call option"
  to_revalidate_network :: "'s svc_call option"

section \<open>The transition\<close>

text \<open>The mandatory operations in the order they run, a sequence that ends at its first error, and an optional hook.\<close>

definition required_ops :: "'s transition_ops \<Rightarrow> 's svc_call option list" where
  "required_ops ops =
     [to_request_normal_stop ops, to_verify_stopped ops, to_stop_broker ops, to_verify_broker_stopped ops,
      to_disconnect_sta ops, to_verify_sta_disconnected ops, to_verify_sta_ip_released ops,
      to_set_wifi_ap_only ops, to_verify_ap_active ops, to_set_sta_disabled ops, to_verify_machine_safe ops]"

fun run_stages :: "'s svc_call list \<Rightarrow> 's svc_call" where
  "run_stages [] s = (ESP_OK, s)"
| "run_stages (f # fs) s = (case f s of (err, s1) \<Rightarrow> if err \<noteq> ESP_OK then (err, s1) else run_stages fs s1)"

definition hook :: "'s svc_call option \<Rightarrow> 's \<Rightarrow> 's" where
  "hook f s = (case f of None \<Rightarrow> s | Some g \<Rightarrow> snd (g s))"

definition abort_restore_http :: "'s transition_ops \<Rightarrow> esp_err \<Rightarrow> 's \<Rightarrow> 's" where
  "abort_restore_http ops http_stop_err s =
     (if http_stop_err = ESP_OK then hook (to_start_http ops) (hook (to_unlock_net ops) s)
      else hook (to_unlock_net ops) s)"

definition argus_net_mgr_orchestrate_service_entry ::
  "network_mode \<Rightarrow> authority_owner \<Rightarrow> 's authority_ops \<Rightarrow> 's transition_ops \<Rightarrow> 's \<Rightarrow>
     esp_err \<times> network_mode \<times> 's" where
  "argus_net_mgr_orchestrate_service_entry net_mode requested_owner auth_ops ops s =
     (case (ao_prepare_transition auth_ops, ao_grant_local auth_ops, ao_abort_transition auth_ops,
            those (required_ops ops)) of
        (Some prepare, Some grant, Some abort, Some stages) \<Rightarrow>
          if requested_owner \<noteq> AUTH_OWNER_BROWSER \<and> requested_owner \<noteq> AUTH_OWNER_DIAGNOSTIC_CLI
          then (ESP_ERR_INVALID_ARG, net_mode, s)
          else
            (let (prep_err, s1) = prepare s in
             if prep_err \<noteq> ESP_OK then (prep_err, MODE_NETWORK_FAULT, abort s1)
             else
               (let s3 = hook (to_unlock_net ops) (hook (to_unlock_dispatch ops) s1);
                    (http_stop_err, s4) = (case to_stop_http ops of Some f \<Rightarrow> f s3 | None \<Rightarrow> (ESP_OK, s3));
                    (op_err, s6) = run_stages stages (hook (to_lock_net ops) s4)
                in if op_err \<noteq> ESP_OK
                   then (op_err, MODE_NETWORK_FAULT, abort_restore_http ops http_stop_err (abort s6))
                   else
                     (let s7 = hook (to_lock_dispatch ops) s6;
                          (rev_err, s8) = (case to_revalidate_network ops of Some f \<Rightarrow> f s7 | None \<Rightarrow> (ESP_OK, s7))
                      in if rev_err \<noteq> ESP_OK
                         then (rev_err, MODE_NETWORK_FAULT,
                               abort_restore_http ops http_stop_err (hook (to_unlock_dispatch ops) (abort s8)))
                         else
                           (let (grant_err, s9) = grant requested_owner s8 in
                            if grant_err \<noteq> ESP_OK
                            then (grant_err, MODE_NETWORK_FAULT,
                                  abort_restore_http ops http_stop_err (hook (to_unlock_dispatch ops) (abort s9)))
                            else (ESP_OK, MODE_SERVICE_AP_ONLY,
                                  hook (to_start_http ops) (hook (to_unlock_net ops)
                                    (hook (to_unlock_dispatch ops) s9)))))))
      | _ \<Rightarrow> (ESP_ERR_INVALID_ARG, net_mode, s))"

section \<open>Production operations\<close>

text \<open>
  The checks of the machine read the state manager's snapshot. \<open>prod_verify_stopped\<close> polls
  every 50 ms for five seconds: \<open>snaps\<close> are the snapshots it reads.
\<close>

definition at_rest :: "state_snapshot \<Rightarrow> bool" where
  "at_rest snap \<longleftrightarrow> sn_machine_state snap = STATE_HOLDING \<or> sn_machine_state snap = STATE_UNLOCKED"

definition prod_request_normal_stop :: "state_snapshot \<Rightarrow> 's svc_call \<Rightarrow> 's svc_call" where
  "prod_request_normal_stop snap stop_normal s = (if at_rest snap then (ESP_OK, s) else stop_normal s)"

definition prod_verify_machine_safe :: "state_snapshot \<Rightarrow> esp_err" where
  "prod_verify_machine_safe snap =
     (if sn_estop_latched snap \<or> sn_machine_state snap = STATE_EMERGENCY_STOPPED
         \<or> sn_machine_state snap = STATE_FAULTED then ESP_ERR_INVALID_STATE
      else if sn_machine_state snap \<noteq> STATE_HOLDING \<and> sn_machine_state snap \<noteq> STATE_UNLOCKED
      then ESP_ERR_INVALID_STATE
      else ESP_OK)"

fun verify_stopped_polls :: "state_snapshot list \<Rightarrow> esp_err" where
  "verify_stopped_polls [] = ESP_ERR_TIMEOUT"
| "verify_stopped_polls (snap # snaps) =
     (if at_rest snap then ESP_OK
      else if sn_machine_state snap = STATE_EMERGENCY_STOPPED \<or> sn_machine_state snap = STATE_FAULTED
              \<or> sn_estop_latched snap then ESP_ERR_INVALID_STATE
      else verify_stopped_polls snaps)"

definition prod_verify_stopped :: "(nat \<Rightarrow> state_snapshot) \<Rightarrow> esp_err" where
  "prod_verify_stopped snaps = verify_stopped_polls (map snaps [0..<100])"

text \<open>What the final check reads: the Wi-Fi driver's mode, the lifecycle flags and the machine.\<close>

record grant_observation =
  go_wifi_err :: esp_err
  go_wifi_mode_is_ap :: bool
  go_ap_started :: bool
  go_sta_started :: bool
  go_sta_connected :: bool
  go_sta_ip_acquired :: bool
  go_machine :: state_snapshot

definition prod_revalidate_network :: "grant_observation \<Rightarrow> esp_err" where
  "prod_revalidate_network obs =
     (if go_wifi_err obs \<noteq> ESP_OK \<or> \<not> go_wifi_mode_is_ap obs \<or> \<not> go_ap_started obs \<or> go_sta_started obs
         \<or> go_sta_connected obs \<or> go_sta_ip_acquired obs then ESP_ERR_INVALID_STATE
      else
        (let m = go_machine obs in
         if sn_estop_latched m \<or> sn_machine_state m = STATE_EMERGENCY_STOPPED \<or> sn_machine_state m = STATE_FAULTED
            \<or> (sn_machine_state m \<noteq> STATE_HOLDING \<and> sn_machine_state m \<noteq> STATE_UNLOCKED)
         then ESP_ERR_INVALID_STATE else ESP_OK))"

text \<open>
  The state of the production binding: the authority manager, the two mutexes, and the
  rest of the world. A mutex is not recursive: taking a held one blocks for ever, and
  giving one that is not held is an error; both set \<open>sw_misuse\<close>.
\<close>

record 'w svc_world =
  sw_auth :: authority_mgr
  sw_net_held :: bool
  sw_dispatch_held :: bool
  sw_misuse :: bool
  sw_rest :: 'w

definition prod_unlock_net :: "'w svc_world svc_call" where
  "prod_unlock_net w = (ESP_OK, w\<lparr> sw_net_held := False, sw_misuse := sw_misuse w \<or> \<not> sw_net_held w \<rparr>)"

definition prod_lock_net :: "'w svc_world svc_call" where
  "prod_lock_net w = (ESP_OK, w\<lparr> sw_net_held := True, sw_misuse := sw_misuse w \<or> sw_net_held w \<rparr>)"

definition prod_lock_dispatch :: "'w svc_world svc_call" where
  "prod_lock_dispatch w = (ESP_OK, w\<lparr> sw_dispatch_held := True, sw_misuse := sw_misuse w \<or> sw_dispatch_held w \<rparr>)"

definition prod_unlock_dispatch :: "'w svc_world svc_call" where
  "prod_unlock_dispatch w =
     (ESP_OK, w\<lparr> sw_dispatch_held := False, sw_misuse := sw_misuse w \<or> \<not> sw_dispatch_held w \<rparr>)"

definition on_rest :: "'w svc_call \<Rightarrow> 'w svc_world svc_call" where
  "on_rest f w = (case f (sw_rest w) of (err, r) \<Rightarrow> (err, w\<lparr> sw_rest := r \<rparr>))"

definition argus_authority_get_production_service_ops :: "'w svc_world authority_ops" where
  "argus_authority_get_production_service_ops =
     \<lparr> ao_prepare_transition = Some (\<lambda>w. case prod_prepare_transition (sw_auth w) of
          (err, a) \<Rightarrow> (err, w\<lparr> sw_auth := a \<rparr>)),
       ao_grant_local = Some (\<lambda>owner w. case prod_grant_local owner (sw_auth w) of
          (err, a) \<Rightarrow> (err, w\<lparr> sw_auth := a \<rparr>)),
       ao_abort_transition = Some (\<lambda>w. w\<lparr> sw_auth := prod_abort_transition (sw_auth w) \<rparr>) \<rparr>"

text \<open>
  The production table: the eleven operations on the machine, the broker and the network,
  the HTTP server's two calls, and the observation of the final check are arguments.
\<close>

definition prod_transition_ops ::
  "'w svc_call list \<Rightarrow> 'w svc_call \<Rightarrow> 'w svc_call \<Rightarrow> ('w \<Rightarrow> grant_observation) \<Rightarrow> 'w svc_world transition_ops" where
  "prod_transition_ops stage stop_http start_http observe =
     \<lparr> to_request_normal_stop = Some (on_rest (stage ! 0)),
       to_verify_stopped = Some (on_rest (stage ! 1)),
       to_stop_broker = Some (on_rest (stage ! 2)),
       to_verify_broker_stopped = Some (on_rest (stage ! 3)),
       to_disconnect_sta = Some (on_rest (stage ! 4)),
       to_verify_sta_disconnected = Some (on_rest (stage ! 5)),
       to_verify_sta_ip_released = Some (on_rest (stage ! 6)),
       to_set_wifi_ap_only = Some (on_rest (stage ! 7)),
       to_verify_ap_active = Some (on_rest (stage ! 8)),
       to_set_sta_disabled = Some (on_rest (stage ! 9)),
       to_verify_machine_safe = Some (on_rest (stage ! 10)),
       to_stop_http = Some (on_rest stop_http),
       to_start_http = Some (on_rest start_http),
       to_unlock_net = Some prod_unlock_net,
       to_lock_net = Some prod_lock_net,
       to_lock_dispatch = Some prod_lock_dispatch,
       to_unlock_dispatch = Some prod_unlock_dispatch,
       to_revalidate_network = Some (on_rest (\<lambda>r. (prod_revalidate_network (observe r), r))) \<rparr>"

section \<open>Lemmas\<close>

lemma run_stages_on_rest:
  "run_stages (map on_rest fs) w =
     (fst (run_stages fs (sw_rest w)), w\<lparr> sw_rest := snd (run_stages fs (sw_rest w)) \<rparr>)"
  by (induction fs arbitrary: w) (auto simp: on_rest_def split: prod.splits)

lemma eleven_stages:
  assumes "length stage = 11"
  shows "those (required_ops (prod_transition_ops stage stop_http start_http observe)) = Some (map on_rest stage)"
proof -
  have "[stage ! 0, stage ! 1, stage ! 2, stage ! 3, stage ! 4, stage ! 5, stage ! 6, stage ! 7, stage ! 8,
      stage ! 9, stage ! 10] = map (\<lambda>i. stage ! i) [0..<11]"
    by (simp add: upt_rec eval_nat_numeral)
  also have "\<dots> = stage" using assms map_nth [of stage] by simp
  finally have "map on_rest stage = map on_rest [stage ! 0, stage ! 1, stage ! 2, stage ! 3, stage ! 4, stage ! 5,
      stage ! 6, stage ! 7, stage ! 8, stage ! 9, stage ! 10]" by simp
  then show ?thesis by (simp add: required_ops_def prod_transition_ops_def)
qed

lemma prod_hooks:
  "hook (to_unlock_net (prod_transition_ops stage stop_http start_http observe)) w
     = w\<lparr> sw_net_held := False, sw_misuse := sw_misuse w \<or> \<not> sw_net_held w \<rparr>"
  "hook (to_lock_net (prod_transition_ops stage stop_http start_http observe)) w
     = w\<lparr> sw_net_held := True, sw_misuse := sw_misuse w \<or> sw_net_held w \<rparr>"
  "hook (to_unlock_dispatch (prod_transition_ops stage stop_http start_http observe)) w
     = w\<lparr> sw_dispatch_held := False, sw_misuse := sw_misuse w \<or> \<not> sw_dispatch_held w \<rparr>"
  "hook (to_lock_dispatch (prod_transition_ops stage stop_http start_http observe)) w
     = w\<lparr> sw_dispatch_held := True, sw_misuse := sw_misuse w \<or> sw_dispatch_held w \<rparr>"
  "hook (to_start_http (prod_transition_ops stage stop_http start_http observe)) w
     = w\<lparr> sw_rest := snd (start_http (sw_rest w)) \<rparr>"
  "to_stop_http (prod_transition_ops stage stop_http start_http observe) = Some (on_rest stop_http)"
  "to_revalidate_network (prod_transition_ops stage stop_http start_http observe)
     = Some (on_rest (\<lambda>r. (prod_revalidate_network (observe r), r)))"
  by (simp_all add: prod_transition_ops_def hook_def prod_unlock_net_def prod_lock_net_def prod_lock_dispatch_def
      prod_unlock_dispatch_def on_rest_def split: prod.splits)

text \<open>The three authority calls of the production table.\<close>

definition authority_is :: "control_authority \<Rightarrow> authority_owner \<Rightarrow> u32 \<Rightarrow> authority_mgr \<Rightarrow> bool" where
  "authority_is mode owner gen a \<longleftrightarrow> am_initialized a \<and> au_mode (am_core a) = mode
     \<and> au_owner (am_core a) = owner \<and> au_generation (am_core a) = gen"

lemma set_mode_is:
  assumes "am_initialized a" "argus_authority_validate_pair mode owner = ESP_OK"
  shows "fst (argus_authority_mgr_set_mode mode owner a) = ESP_OK"
    and "authority_is mode owner (au_generation (am_core a) + 1) (snd (argus_authority_mgr_set_mode mode owner a))"
  using assms by (simp_all add: argus_authority_mgr_set_mode_def authority_is_def Let_def)

lemma grant_is:
  assumes "authority_is AUTHORITY_SERVICE_TRANSITION AUTH_OWNER_NONE g a"
    and "owner = AUTH_OWNER_BROWSER \<or> owner = AUTH_OWNER_DIAGNOSTIC_CLI"
  shows "fst (prod_grant_local owner a) = ESP_OK"
    and "authority_is AUTHORITY_LOCAL_SERVICE owner (g + 1) (snd (prod_grant_local owner a))"
proof -
  have init: "am_initialized a" "au_generation (am_core a) = g" using assms(1) by (simp_all add: authority_is_def)
  have pair: "argus_authority_validate_pair AUTHORITY_LOCAL_SERVICE owner = ESP_OK" using assms(2) by auto
  have "prod_grant_local owner a = (ESP_OK, snd (argus_authority_mgr_set_mode AUTHORITY_LOCAL_SERVICE owner a))"
    using assms by (auto simp: prod_grant_local_def argus_authority_grant_local_service_def
        argus_authority_mgr_get_snapshot_def authority_is_def Let_def)
  then show "fst (prod_grant_local owner a) = ESP_OK"
    and "authority_is AUTHORITY_LOCAL_SERVICE owner (g + 1) (snd (prod_grant_local owner a))"
    using set_mode_is(2) [OF init(1) pair] init(2) by simp_all
qed

lemma abort_is:
  assumes "am_initialized a"
  shows "authority_is AUTHORITY_NONE AUTH_OWNER_NONE (au_generation (am_core a) + 1) (prod_abort_transition a)"
  using set_mode_is(2) [OF assms, of AUTHORITY_NONE AUTH_OWNER_NONE]
  by (simp add: prod_abort_transition_def argus_authority_abort_service_transition_def)

lemma prepare_is:
  assumes "am_initialized a"
  shows "fst (prod_prepare_transition a) = ESP_OK"
    and "authority_is AUTHORITY_SERVICE_TRANSITION AUTH_OWNER_NONE (au_generation (am_core a) + 1)
           (snd (prod_prepare_transition a))"
  using set_mode_is [OF assms, of AUTHORITY_SERVICE_TRANSITION AUTH_OWNER_NONE]
  by (simp_all add: prod_prepare_transition_def)

text \<open>
  The whole transition on the production tables, started with both locks held: the two
  outcomes, and where the world ends up.
\<close>

lemma service_entry_result:
  assumes len: "length stage = 11" and owner: "owner = AUTH_OWNER_BROWSER \<or> owner = AUTH_OWNER_DIAGNOSTIC_CLI"
    and init: "am_initialized (sw_auth w)" and locks: "sw_net_held w" "sw_dispatch_held w" "\<not> sw_misuse w"
    and http: "stop_http (sw_rest w) = (hs, r0)" and stages: "run_stages stage r0 = (e, r1)"
    and a1: "a1 = snd (prod_prepare_transition (sw_auth w))"
    and err: "err = (if e \<noteq> ESP_OK then e else prod_revalidate_network (observe r1))"
  shows "argus_net_mgr_orchestrate_service_entry mode owner argus_authority_get_production_service_ops
      (prod_transition_ops stage stop_http start_http observe) w =
     (if err = ESP_OK
      then (ESP_OK, MODE_SERVICE_AP_ONLY,
            w\<lparr> sw_auth := snd (prod_grant_local owner a1), sw_net_held := False, sw_dispatch_held := False,
               sw_rest := snd (start_http r1) \<rparr>)
      else (err, MODE_NETWORK_FAULT,
            w\<lparr> sw_auth := prod_abort_transition a1, sw_net_held := False, sw_dispatch_held := False,
               sw_rest := (if hs = ESP_OK then snd (start_http r1) else r1) \<rparr>))"
proof -
  have prep: "prod_prepare_transition (sw_auth w) = (ESP_OK, a1)"
    using prepare_is(1) [OF init] a1 by (metis prod.collapse)
  have "authority_is AUTHORITY_SERVICE_TRANSITION AUTH_OWNER_NONE (au_generation (am_core (sw_auth w)) + 1) a1"
    using prepare_is(2) [OF init] a1 by simp
  then obtain a2 where grant: "prod_grant_local owner a1 = (ESP_OK, a2)"
    using grant_is(1) [OF _ owner] by (metis prod.collapse)
  obtain es rs where start: "start_http r1 = (es, rs)" by fastforce
  show ?thesis
    unfolding argus_net_mgr_orchestrate_service_entry_def
    using owner locks prep grant http stages start err
    by (elim disjE) (simp_all add: eleven_stages [OF len] run_stages_on_rest prod_hooks on_rest_def
        argus_authority_get_production_service_ops_def abort_restore_http_def Let_def)
qed

lemma revalidate_ok:
  "prod_revalidate_network obs = ESP_OK \<longleftrightarrow>
     go_wifi_err obs = ESP_OK \<and> go_wifi_mode_is_ap obs \<and> go_ap_started obs \<and> \<not> go_sta_started obs
     \<and> \<not> go_sta_connected obs \<and> \<not> go_sta_ip_acquired obs \<and> at_rest (go_machine obs)
     \<and> \<not> sn_estop_latched (go_machine obs)"
  by (auto simp: prod_revalidate_network_def at_rest_def Let_def)

text \<open>Polling for the stop: it reports rest exactly when a poll saw rest before an emergency, a fault or the time-out.\<close>

lemma verify_stopped_polls_ok:
  "verify_stopped_polls snaps = ESP_OK \<longleftrightarrow>
     (\<exists>i < length snaps. at_rest (snaps ! i)
        \<and> (\<forall>j < i. \<not> at_rest (snaps ! j) \<and> \<not> sn_estop_latched (snaps ! j)
              \<and> sn_machine_state (snaps ! j) \<noteq> STATE_EMERGENCY_STOPPED
              \<and> sn_machine_state (snaps ! j) \<noteq> STATE_FAULTED))"
proof (induction snaps)
  case (Cons snap snaps)
  show ?case
  proof (cases "at_rest snap")
    case True
    then show ?thesis by (auto intro: exI [of _ 0])
  next
    case False
    then show ?thesis
      unfolding length_Cons Ex_less_Suc2 All_less_Suc2 nth_Cons_0 nth_Cons_Suc verify_stopped_polls.simps
      using Cons.IH by simp
  qed
qed simp

section \<open>Properties\<close>

text \<open>
  C10: Local service is granted last and only to a machine at rest behind an isolated
  network. Started with both locks held, the transition reports success exactly when all
  eleven steps and the final check succeeded, in their order; then the owner that asked has
  local authority, and at the grant the access point was up, the station down, no emergency
  stop latched and the machine holding or unlocked. On every failure authority is NONE and
  the network in fault. Either way the generation has moved on twice, so that no command
  from before is still current.
\<close>

theorem service_entry_safe:
  assumes "length stage = 11" and "owner = AUTH_OWNER_BROWSER \<or> owner = AUTH_OWNER_DIAGNOSTIC_CLI"
    and "am_initialized (sw_auth w)" and "sw_net_held w" "sw_dispatch_held w" "\<not> sw_misuse w"
    and run: "argus_net_mgr_orchestrate_service_entry mode owner argus_authority_get_production_service_ops
      (prod_transition_ops stage stop_http start_http observe) w = (err, mode', w')"
    and stages: "run_stages stage (snd (stop_http (sw_rest w))) = (e, r1)"
  shows "(err = ESP_OK \<longleftrightarrow> e = ESP_OK \<and> prod_revalidate_network (observe r1) = ESP_OK)
    \<and> (err = ESP_OK \<longrightarrow> mode' = MODE_SERVICE_AP_ONLY
         \<and> authority_is AUTHORITY_LOCAL_SERVICE owner (au_generation (am_core (sw_auth w)) + 2) (sw_auth w')
         \<and> at_rest (go_machine (observe r1)) \<and> \<not> sn_estop_latched (go_machine (observe r1))
         \<and> go_ap_started (observe r1) \<and> \<not> go_sta_started (observe r1) \<and> \<not> go_sta_connected (observe r1)
         \<and> \<not> go_sta_ip_acquired (observe r1))
    \<and> (err \<noteq> ESP_OK \<longrightarrow> mode' = MODE_NETWORK_FAULT
         \<and> authority_is AUTHORITY_NONE AUTH_OWNER_NONE (au_generation (am_core (sw_auth w)) + 2) (sw_auth w'))"
proof -
  let ?a1 = "snd (prod_prepare_transition (sw_auth w))" and ?g = "au_generation (am_core (sw_auth w))"
  obtain hs where http: "stop_http (sw_rest w) = (hs, snd (stop_http (sw_rest w)))" by (metis prod.collapse)
  have prep: "authority_is AUTHORITY_SERVICE_TRANSITION AUTH_OWNER_NONE (?g + 1) ?a1"
    using prepare_is(2) assms(3) by blast
  have grant: "authority_is AUTHORITY_LOCAL_SERVICE owner (?g + 2) (snd (prod_grant_local owner ?a1))"
    using grant_is(2) [OF prep assms(2)] by (simp add: add.assoc)
  have abort: "authority_is AUTHORITY_NONE AUTH_OWNER_NONE (?g + 2) (prod_abort_transition ?a1)"
    using abort_is [of ?a1] prep by (simp add: authority_is_def add.assoc)
  show ?thesis
    using service_entry_result [where stop_http = stop_http and observe = observe and start_http = start_http and mode = mode,
        OF assms(1-6) http stages refl refl] run grant abort
      revalidate_ok [of "observe r1"] by (auto split: if_splits)
qed

text \<open>
  The transition keeps the lock discipline on every path: started with the network and
  the dispatch mutex held, it never takes a mutex it holds or gives one it does not hold,
  and it returns with both released, whatever the operations answer.
\<close>

theorem service_entry_releases_locks:
  assumes "length stage = 11" and "owner = AUTH_OWNER_BROWSER \<or> owner = AUTH_OWNER_DIAGNOSTIC_CLI"
    and "am_initialized (sw_auth w)" and "sw_net_held w" "sw_dispatch_held w" "\<not> sw_misuse w"
    and run: "argus_net_mgr_orchestrate_service_entry mode owner argus_authority_get_production_service_ops
      (prod_transition_ops stage stop_http start_http observe) w = (err, mode', w')"
  shows "\<not> sw_net_held w' \<and> \<not> sw_dispatch_held w' \<and> \<not> sw_misuse w'"
proof -
  obtain hs r0 where http: "stop_http (sw_rest w) = (hs, r0)" by fastforce
  obtain e r1 where stages: "run_stages stage r0 = (e, r1)" by fastforce
  show ?thesis
    using service_entry_result [where stop_http = stop_http and observe = observe and start_http = start_http and mode = mode,
        OF assms(1-6) http stages refl refl] run assms(6)
    by (auto split: if_splits)
qed

text \<open>A world in which every step succeeds, for the witnesses.\<close>

definition demo_world :: "nat svc_world" where
  "demo_world = \<lparr> sw_auth = \<lparr> am_core = \<lparr> au_mode = AUTHORITY_SUPERVISORY, au_owner = AUTH_OWNER_MQTT,
       au_generation = 7, au_last_error = ESP_OK \<rparr>, am_initialized = True \<rparr>,
     sw_net_held = True, sw_dispatch_held = True, sw_misuse = False, sw_rest = 0 \<rparr>"

definition demo_observe :: "nat \<Rightarrow> grant_observation" where
  "demo_observe n = \<lparr> go_wifi_err = ESP_OK, go_wifi_mode_is_ap = True, go_ap_started = True,
     go_sta_started = False, go_sta_connected = False, go_sta_ip_acquired = False,
     go_machine = (argus_state_core_get_snapshot (fst (argus_state_core_init (undefined :: unit motion_ops) None)))\<lparr> sn_machine_state := STATE_HOLDING,
       sn_estop_latched := False \<rparr> \<rparr>"

definition demo_stages :: "nat svc_call list" where
  "demo_stages = replicate 11 (\<lambda>n. (ESP_OK, Suc n))"

theorem service_entry_safe_witness:
  "\<exists>w'. argus_net_mgr_orchestrate_service_entry MODE_AP_DISCOVERABLE AUTH_OWNER_BROWSER
        argus_authority_get_production_service_ops
        (prod_transition_ops demo_stages (\<lambda>n. (ESP_OK, n)) (\<lambda>n. (ESP_OK, n)) demo_observe) demo_world
      = (ESP_OK, MODE_SERVICE_AP_ONLY, w')
    \<and> authority_is AUTHORITY_LOCAL_SERVICE AUTH_OWNER_BROWSER 9 (sw_auth w')"
proof -
  obtain err mode' w' where run: "argus_net_mgr_orchestrate_service_entry MODE_AP_DISCOVERABLE AUTH_OWNER_BROWSER
        argus_authority_get_production_service_ops
        (prod_transition_ops demo_stages (\<lambda>n. (ESP_OK, n)) (\<lambda>n. (ESP_OK, n)) demo_observe) demo_world
      = (err, mode', w')" by (metis prod_cases3)
  have stages: "run_stages demo_stages (snd ((\<lambda>n. (ESP_OK, n)) (sw_rest demo_world))) = (ESP_OK, 11)"
    by (simp add: demo_stages_def demo_world_def numeral_eq_Suc)
  have "prod_revalidate_network (demo_observe 11) = ESP_OK"
    by (simp add: revalidate_ok demo_observe_def at_rest_def)
  then show ?thesis
    using service_entry_safe [OF _ _ _ _ _ _ run stages] run
    by (simp add: demo_stages_def demo_world_def)
qed

theorem service_entry_releases_locks_witness:
  "\<not> sw_net_held (snd (snd (argus_net_mgr_orchestrate_service_entry MODE_AP_DISCOVERABLE AUTH_OWNER_BROWSER
        argus_authority_get_production_service_ops
        (prod_transition_ops demo_stages (\<lambda>n. (ESP_FAIL, n)) (\<lambda>n. (ESP_OK, n)) demo_observe) demo_world)))"
proof -
  obtain err mode' w' where run: "argus_net_mgr_orchestrate_service_entry MODE_AP_DISCOVERABLE AUTH_OWNER_BROWSER
        argus_authority_get_production_service_ops
        (prod_transition_ops demo_stages (\<lambda>n. (ESP_FAIL, n)) (\<lambda>n. (ESP_OK, n)) demo_observe) demo_world
      = (err, mode', w')" by (metis prod_cases3)
  show ?thesis
    using service_entry_releases_locks [OF _ _ _ _ _ _ run] run by (simp add: demo_stages_def demo_world_def)
qed

end
