(* ===== verification/Password.thy ===== *)
theory Password
  imports Argus_Prelude
begin

text \<open>
  Password verifiers (\<open>argus_password_verifier.c\<close>): PBKDF2 with HMAC-SHA-256 in one block,
  the stored record, creation and verification through the serialised worker.

  HMAC is an argument: \<open>hmac key message\<close> is the tag, or \<open>None\<close> when the library reports
  an error; the streaming calls of the source hash the concatenation of their inputs. A
  password is its bytes, or \<open>None\<close> for a null pointer. Overwriting secrets in memory and
  the cooperative delay have no counterpart.
\<close>

section \<open>Records\<close>

abbreviation (input) PASSWORD_SALT_SIZE :: nat where "PASSWORD_SALT_SIZE \<equiv> 16"
abbreviation (input) PASSWORD_VERIFIER_SIZE :: nat where "PASSWORD_VERIFIER_SIZE \<equiv> 32"
abbreviation (input) PASSWORD_INPUT_MAX :: nat where "PASSWORD_INPUT_MAX \<equiv> 128"
abbreviation (input) PASSWORD_ITERATIONS_MIN :: u32 where "PASSWORD_ITERATIONS_MIN \<equiv> 10000"
abbreviation (input) PASSWORD_ITERATIONS_MAX :: u32 where "PASSWORD_ITERATIONS_MAX \<equiv> 500000"
abbreviation (input) PASSWORD_ITERATIONS_DEFAULT :: u32 where "PASSWORD_ITERATIONS_DEFAULT \<equiv> 25000"

record password_verifier =
  pv_format_version :: u8
  pv_algorithm :: u8
  pv_salt_length :: u8
  pv_verifier_length :: u8
  pv_iterations :: u32
  pv_salt :: "u8 list"
  pv_verifier :: "u8 list"

definition verifier_zero :: password_verifier where
  "verifier_zero = \<lparr> pv_format_version = 0, pv_algorithm = 0, pv_salt_length = 0, pv_verifier_length = 0,
     pv_iterations = 0, pv_salt = replicate 16 0, pv_verifier = replicate 32 0 \<rparr>"

definition input_valid :: "u8 list option \<Rightarrow> bool" where
  "input_valid password =
     (case password of None \<Rightarrow> False | Some p \<Rightarrow> 0 < length p \<and> length p \<le> PASSWORD_INPUT_MAX)"

definition argus_password_verifier_record_valid :: "password_verifier option \<Rightarrow> bool" where
  "argus_password_verifier_record_valid r =
     (case r of
        None \<Rightarrow> False
      | Some v \<Rightarrow> pv_format_version v = 1 \<and> pv_algorithm v = 1 \<and> pv_salt_length v = 16
          \<and> pv_verifier_length v = 32 \<and> pv_iterations v \<ge> PASSWORD_ITERATIONS_MIN
          \<and> pv_iterations v \<le> PASSWORD_ITERATIONS_MAX)"

section \<open>Derivation\<close>

type_synonym hmac = "u8 list \<Rightarrow> u8 list \<Rightarrow> u8 list option"

definition xor_bytes :: "u8 list \<Rightarrow> u8 list \<Rightarrow> u8 list" where
  "xor_bytes a b = map2 (XOR) a b"

text \<open>The rounds after the first: \<open>n\<close> are left, with the last digest and the accumulator.\<close>

fun pbkdf2_rounds :: "(u8 list \<Rightarrow> u8 list option) \<Rightarrow> nat \<Rightarrow> u8 list \<Rightarrow> u8 list \<Rightarrow> u8 list option" where
  "pbkdf2_rounds prf 0 digest accumulator = Some accumulator"
| "pbkdf2_rounds prf (Suc n) digest accumulator =
     (case prf digest of
        None \<Rightarrow> None
      | Some d \<Rightarrow> pbkdf2_rounds prf n d (xor_bytes accumulator d))"

definition argus_password_pbkdf2 ::
  "hmac \<Rightarrow> u8 list option \<Rightarrow> u8 list option \<Rightarrow> u32 \<Rightarrow> esp_err \<times> u8 list option" where
  "argus_password_pbkdf2 hmac password salt iterations =
     (case (password, salt) of
        (Some p, Some s) \<Rightarrow>
          if p = [] \<or> s = [] \<or> iterations = 0 then (ESP_ERR_INVALID_ARG, None)
          else (case hmac p (s @ [0, 0, 0, 1]) of
                  None \<Rightarrow> (ESP_FAIL, None)
                | Some digest \<Rightarrow>
                    (case pbkdf2_rounds (hmac p) (unat iterations - 1) digest digest of
                       None \<Rightarrow> (ESP_FAIL, None)
                     | Some accumulator \<Rightarrow> (ESP_OK, Some accumulator)))
      | _ \<Rightarrow> (ESP_ERR_INVALID_ARG, None))"

text \<open>Creation: \<open>salt\<close> is what the random source fills in. A failed derivation leaves a zeroed record.\<close>

definition derive_record ::
  "hmac \<Rightarrow> u8 list \<Rightarrow> u8 list option \<Rightarrow> u32 \<Rightarrow> password_verifier \<Rightarrow> esp_err \<times> password_verifier" where
  "derive_record hmac salt password iterations r =
     (if \<not> input_valid password \<or> iterations < PASSWORD_ITERATIONS_MIN \<or> iterations > PASSWORD_ITERATIONS_MAX
      then (ESP_ERR_INVALID_ARG, r)
      else (case argus_password_pbkdf2 hmac password (Some salt) iterations of
              (err, out) \<Rightarrow>
                if err \<noteq> ESP_OK then (err, verifier_zero)
                else (ESP_OK, \<lparr> pv_format_version = 1, pv_algorithm = 1, pv_salt_length = 16,
                        pv_verifier_length = 32, pv_iterations = iterations, pv_salt = salt,
                        pv_verifier = (case out of Some v \<Rightarrow> v | None \<Rightarrow> replicate 32 0) \<rparr>)))"

definition verify_record ::
  "hmac \<Rightarrow> u8 list option \<Rightarrow> password_verifier option \<Rightarrow> bool \<Rightarrow> esp_err \<times> bool" where
  "verify_record hmac password r out_match =
     (case r of
        None \<Rightarrow> (ESP_ERR_INVALID_ARG, out_match)
      | Some v \<Rightarrow>
          if \<not> input_valid password \<or> \<not> argus_password_verifier_record_valid (Some v)
          then (ESP_ERR_INVALID_ARG, out_match)
          else (case argus_password_pbkdf2 hmac password (Some (take (unat (pv_salt_length v)) (pv_salt v)))
                       (pv_iterations v) of
                  (err, candidate) \<Rightarrow> (err, err = ESP_OK \<and> candidate = Some (pv_verifier v))))"

section \<open>The worker\<close>

text \<open>
  A submission: the worker must exist and not be the caller, the completion semaphore must
  be created, and one of two attempts must find room in the queue of one request. The
  worker then runs the request; requests never overlap.
\<close>

record kdf_queue =
  kq_ready :: bool
  kq_completion :: bool
  kq_room_now :: bool
  kq_room_in_time :: bool

definition submit :: "kdf_queue \<Rightarrow> (esp_err \<times> 'a) \<Rightarrow> 'a \<Rightarrow> esp_err \<times> 'a" where
  "submit q result unchanged =
     (if \<not> kq_ready q then (ESP_ERR_INVALID_STATE, unchanged)
      else if \<not> kq_completion q then (ESP_ERR_NO_MEM, unchanged)
      else if \<not> kq_room_now q \<and> \<not> kq_room_in_time q then (ESP_ERR_TIMEOUT, unchanged)
      else result)"

definition argus_password_verifier_create ::
  "kdf_queue \<Rightarrow> hmac \<Rightarrow> u8 list \<Rightarrow> u8 list option \<Rightarrow> u32 \<Rightarrow> password_verifier \<Rightarrow> esp_err \<times> password_verifier" where
  "argus_password_verifier_create q hmac salt password iterations out_record =
     submit q (derive_record hmac salt password iterations out_record) out_record"

definition argus_password_verifier_verify ::
  "kdf_queue \<Rightarrow> hmac \<Rightarrow> u8 list option \<Rightarrow> password_verifier option \<Rightarrow> bool \<Rightarrow> esp_err \<times> bool" where
  "argus_password_verifier_verify q hmac password r out_match =
     submit q (verify_record hmac password r out_match) out_match"

section \<open>The derivation is PBKDF2\<close>

text \<open>
  RFC 8018 for one block: the exclusive or of \<open>U 1\<close> to \<open>U c\<close>, where \<open>U 1\<close> is the tag of
  the salt with the block index and each later one is the tag of its predecessor.
\<close>

fun pbkdf2_U :: "(u8 list \<Rightarrow> u8 list option) \<Rightarrow> u8 list \<Rightarrow> nat \<Rightarrow> u8 list option" where
  "pbkdf2_U prf salt 0 = prf (salt @ [0, 0, 0, 1])"
| "pbkdf2_U prf salt (Suc k) = (case pbkdf2_U prf salt k of None \<Rightarrow> None | Some u \<Rightarrow> prf u)"

definition pbkdf2_block :: "(u8 list \<Rightarrow> u8 list option) \<Rightarrow> u8 list \<Rightarrow> nat \<Rightarrow> u8 list option" where
  "pbkdf2_block prf salt c =
     (case those (map (pbkdf2_U prf salt) [0..<c]) of
        None \<Rightarrow> None | Some us \<Rightarrow> Some (foldl xor_bytes (hd us) (tl us)))"

lemma pbkdf2_U_none:
  assumes "pbkdf2_U prf salt k = None"
  shows "k \<le> j \<Longrightarrow> pbkdf2_U prf salt j = None"
proof (induction j)
  case (Suc j)
  then show ?case using assms by (cases "k = Suc j") auto
qed (use assms in simp)

lemma those_snoc:
  "those (xs @ [x]) = (case those xs of None \<Rightarrow> None | Some ys \<Rightarrow> map_option (\<lambda>y. ys @ [y]) x)"
  by (induction xs) (auto simp: option.map_comp comp_def split: option.splits)

lemma those_None: "None \<in> set xs \<Longrightarrow> those xs = None"
  by (induction xs) (auto split: option.splits)

lemma those_length: "those xs = Some ys \<Longrightarrow> length ys = length xs"
  by (induction xs arbitrary: ys) (auto split: option.splits)

lemma pbkdf2_block_1: "pbkdf2_block prf salt (Suc 0) = pbkdf2_U prf salt 0"
  by (simp add: pbkdf2_block_def split: option.splits)

lemma pbkdf2_block_Suc:
  assumes "0 < c"
  shows "pbkdf2_block prf salt (Suc c) =
     (case (pbkdf2_block prf salt c, pbkdf2_U prf salt c) of
        (Some a, Some u) \<Rightarrow> Some (xor_bytes a u) | _ \<Rightarrow> None)"
proof (cases "those (map (pbkdf2_U prf salt) [0..<c])")
  case None
  then show ?thesis by (simp add: pbkdf2_block_def those_snoc)
next
  case (Some us)
  then have "us \<noteq> []" using assms those_length [OF Some] by auto
  then show ?thesis using Some
    by (cases us) (auto simp: pbkdf2_block_def those_snoc split: option.splits)
qed

lemma rounds_block:
  assumes "0 < c" "pbkdf2_U prf salt (c - 1) = Some d" "pbkdf2_block prf salt c = Some a"
  shows "pbkdf2_rounds prf n d a = pbkdf2_block prf salt (c + n)"
  using assms
proof (induction n arbitrary: c d a)
  case (Suc n)
  have U: "pbkdf2_U prf salt c = prf d"
    using Suc.prems by (cases c) auto
  show ?case
  proof (cases "prf d")
    case None
    have "pbkdf2_block prf salt (c + Suc n) = None"
    proof -
      have "c \<in> {0..<c + Suc n}" by simp
      then have "None \<in> set (map (pbkdf2_U prf salt) [0..<c + Suc n])"
        using U None by (force simp only: set_map set_upt)
      then have "those (map (pbkdf2_U prf salt) [0..<c + Suc n]) = None" by (rule those_None)
      then show ?thesis by (simp add: pbkdf2_block_def)
    qed
    then show ?thesis using None by simp
  next
    case (Some d')
    have "pbkdf2_block prf salt (Suc c) = Some (xor_bytes a d')"
      using pbkdf2_block_Suc [OF Suc.prems(1)] Suc.prems(3) U Some by simp
    then show ?thesis
      using Suc.IH [of "Suc c" d' "xor_bytes a d'"] U Some by simp
  qed
qed simp

lemma pbkdf2_unfold:
  "argus_password_pbkdf2 hmac (Some p) (Some salt) c =
     (if p = [] \<or> salt = [] \<or> c = 0 then (ESP_ERR_INVALID_ARG, None)
      else case pbkdf2_block (hmac p) salt (unat c) of
             None \<Rightarrow> (ESP_FAIL, None) | Some block \<Rightarrow> (ESP_OK, Some block))"
proof (cases "p = [] \<or> salt = [] \<or> c = 0")
  case False
  then have c: "0 < unat c" by (simp add: unat_gt_0)
  show ?thesis
  proof (cases "hmac p (salt @ [0, 0, 0, 1])")
    case None
    then have "None \<in> set (map (pbkdf2_U (hmac p) salt) [0..<unat c])" using c by force
    then have "pbkdf2_block (hmac p) salt (unat c) = None" by (simp add: pbkdf2_block_def those_None)
    then show ?thesis using False None by (simp add: argus_password_pbkdf2_def)
  next
    case (Some d)
    then have "pbkdf2_rounds (hmac p) (unat c - 1) d d = pbkdf2_block (hmac p) salt (1 + (unat c - 1))"
      by (intro rounds_block) (simp_all add: pbkdf2_block_1)
    then show ?thesis using False Some c by (simp add: argus_password_pbkdf2_def)
  qed
qed (simp add: argus_password_pbkdf2_def)

text \<open>
  C40: The password derivation is PBKDF2. For every HMAC, password, salt and iteration count,
  the loop over digests and accumulator returns the block that RFC 8018 defines as the
  exclusive or of all iterated tags, fails exactly when one of those tags cannot be
  computed, and rejects an empty password or salt and a zero count.
\<close>

theorem pbkdf2_matches_rfc:
  "argus_password_pbkdf2 hmac (Some p) (Some salt) c =
     (if p = [] \<or> salt = [] \<or> c = 0 then (ESP_ERR_INVALID_ARG, None)
      else case pbkdf2_block (hmac p) salt (unat c) of
             None \<Rightarrow> (ESP_FAIL, None) | Some block \<Rightarrow> (ESP_OK, Some block))"
  by (rule pbkdf2_unfold)

lemma derive_record_ok:
  assumes "derive_record hmac salt password n r = (ESP_OK, v)"
  shows "argus_password_verifier_record_valid (Some v)" and "input_valid password"
    and "argus_password_pbkdf2 hmac password (Some salt) n = (ESP_OK, Some (pv_verifier v))"
    and "pv_salt v = salt" and "pv_iterations v = n" and "pv_salt_length v = 16"
proof -
  obtain err out where d: "argus_password_pbkdf2 hmac password (Some salt) n = (err, out)" by fastforce
  have g: "input_valid password" "\<not> n < PASSWORD_ITERATIONS_MIN" "\<not> n > PASSWORD_ITERATIONS_MAX" "err = ESP_OK"
    using assms d by (auto simp: derive_record_def split: if_splits)
  then have "out \<noteq> None"
    using d by (auto simp: argus_password_pbkdf2_def split: option.splits if_splits) (metis option.distinct(1))
  then show "argus_password_verifier_record_valid (Some v)" "input_valid password"
    "argus_password_pbkdf2 hmac password (Some salt) n = (ESP_OK, Some (pv_verifier v))"
    "pv_salt v = salt" "pv_iterations v = n" "pv_salt_length v = 16"
    using assms d g by (auto simp: derive_record_def argus_password_verifier_record_valid_def not_less)
qed

text \<open>
  A created verifier accepts its password. When the worker creates a record for a
  password and later verifies against it, the same password matches, and any other password
  matches exactly when it derives the same block; a verification that reports an error
  never reports a match.
\<close>

theorem password_create_verify:
  assumes create: "argus_password_verifier_create q hmac salt (Some p) n r0 = (ESP_OK, v)"
    and worker: "kq_ready q" "kq_completion q" "kq_room_now q \<or> kq_room_in_time q"
    and salt: "length salt = PASSWORD_SALT_SIZE"
  shows "argus_password_verifier_verify q hmac (Some p) (Some v) False = (ESP_OK, True)
    \<and> snd (argus_password_verifier_verify q hmac (Some p') (Some v) False)
        = (input_valid (Some p') \<and> pbkdf2_block (hmac p') salt (unat n) = pbkdf2_block (hmac p) salt (unat n))"
proof -
  have "derive_record hmac salt (Some p) n r0 = (ESP_OK, v)"
    using create worker by (auto simp: argus_password_verifier_create_def submit_def)
  note d = derive_record_ok [OF this]
  have n: "n \<noteq> 0" "salt \<noteq> []" "p \<noteq> []"
    using d(1,2,5) salt by (auto simp: argus_password_verifier_record_valid_def input_valid_def)
  have block: "pbkdf2_block (hmac p) salt (unat n) = Some (pv_verifier v)"
    using d(3) n by (auto simp: pbkdf2_unfold split: option.splits)
  show ?thesis
    using worker d n block salt
    by (auto simp: argus_password_verifier_verify_def submit_def verify_record_def pbkdf2_unfold input_valid_def
        split: option.splits)
qed

text \<open>A witness with a tag function that is easy to evaluate and the smallest count.\<close>

definition demo_hmac :: hmac where
  "demo_hmac key msg = Some (replicate 32 (of_nat (length key)))"

definition demo_queue :: kdf_queue where
  "demo_queue = \<lparr> kq_ready = True, kq_completion = True, kq_room_now = True, kq_room_in_time = True \<rparr>"

lemma demo_rounds: "\<exists>a. pbkdf2_rounds (demo_hmac p) n d x = Some a"
  by (induction n arbitrary: d x) (simp_all add: demo_hmac_def)

theorem password_create_verify_witness:
  "\<exists>v. argus_password_verifier_create demo_queue demo_hmac (replicate 16 7) (Some [65, 66]) PASSWORD_ITERATIONS_MIN
        verifier_zero = (ESP_OK, v)
    \<and> argus_password_verifier_verify demo_queue demo_hmac (Some [65, 66]) (Some v) False = (ESP_OK, True)"
proof -
  let ?n = "unat PASSWORD_ITERATIONS_MIN - 1" and ?d = "replicate 32 (2 :: u8)"
  obtain a where a: "pbkdf2_rounds (demo_hmac [65, 66]) ?n ?d ?d = Some a" using demo_rounds by blast
  have "argus_password_pbkdf2 demo_hmac (Some [65, 66]) (Some (replicate 16 7)) PASSWORD_ITERATIONS_MIN = (ESP_OK, Some a)"
    using a by (simp add: argus_password_pbkdf2_def demo_hmac_def)
  then obtain v where create: "argus_password_verifier_create demo_queue demo_hmac (replicate 16 7) (Some [65, 66])
      PASSWORD_ITERATIONS_MIN verifier_zero = (ESP_OK, v)"
    by (simp add: argus_password_verifier_create_def submit_def demo_queue_def derive_record_def input_valid_def)
  show ?thesis
    using password_create_verify [OF create] create by (simp add: demo_queue_def)
qed

end
