(* ===== verification/Security_Store.thy ===== *)
theory Security_Store
  imports Authorization Crc32 Password Identity
begin

text \<open>
  The encrypted security manifest (\<open>argus_security_store.c\<close>): its records and their
  validation, the two-slot store core over an injected driver, the production driver over
  the platform's NVS calls (an argument), and the manager with its single writer task.

  Strings are the fixed buffers of the packed records. A level is stored as a byte.
  Overwriting secrets in memory has no counterpart. Null record pointers have none either.
\<close>

section \<open>Records\<close>

abbreviation (input) SECURITY_SCHEMA_VERSION :: u16 where "SECURITY_SCHEMA_VERSION \<equiv> 1"
abbreviation (input) SECURITY_RECORD_VERSION :: u8 where "SECURITY_RECORD_VERSION \<equiv> 1"
abbreviation (input) SECURITY_SLOT_MAGIC :: u32 where "SECURITY_SLOT_MAGIC \<equiv> 0x41524753"
abbreviation (input) SECURITY_VALID_MARKER :: u32 where "SECURITY_VALID_MARKER \<equiv> 0x53454355"
abbreviation (input) BUILTIN_ROLE_COUNT :: nat where "BUILTIN_ROLE_COUNT \<equiv> 6"

datatype store_state =
    STORE_MISSING
  | STORE_UNPROVISIONED
  | STORE_READY
  | STORE_CORRUPT
  | STORE_UNSUPPORTED_VERSION
  | STORE_UNAVAILABLE

text \<open>The migration and recovery states are bytes in the manifest.\<close>

abbreviation (input) MIGRATION_NOT_STARTED :: u8 where "MIGRATION_NOT_STARTED \<equiv> 0"
abbreviation (input) MIGRATION_COMPLETE :: u8 where "MIGRATION_COMPLETE \<equiv> 2"
abbreviation (input) MIGRATION_FAILED :: u8 where "MIGRATION_FAILED \<equiv> 4"
abbreviation (input) RECOVERY_INACTIVE :: u8 where "RECOVERY_INACTIVE \<equiv> 0"
abbreviation (input) RECOVERY_REQUESTED :: u8 where "RECOVERY_REQUESTED \<equiv> 1"

record role_record =
  rr_record_version :: u8
  rr_level :: u8
  rr_builtin :: u8
  rr_protected_role :: u8
  rr_identifier :: "u8 list"
  rr_permissions :: permission_set
  rr_delegable_permissions :: permission_set

record human_record =
  hr_record_version :: u8
  hr_level :: u8
  hr_enabled :: u8
  hr_protected_identity :: u8
  hr_identifier :: "u8 list"
  hr_login :: "u8 list"
  hr_display_name :: "u8 list"
  hr_scope :: "u8 list"
  hr_role_mask :: u16
  hr_direct_permissions :: permission_set
  hr_credential_version :: u32
  hr_record_security_epoch :: u32
  hr_revoked :: u8
  hr_reserved :: "u8 list"
  hr_verifier :: password_verifier

record machine_record =
  mr_record_version :: u8
  mr_enabled :: u8
  mr_client_type :: u8
  mr_allowed_transports :: u8
  mr_revoked :: u8
  mr_allowed_interfaces :: u8
  mr_role_mask :: u16
  mr_identifier :: "u8 list"
  mr_display_name :: "u8 list"
  mr_scope :: "u8 list"
  mr_topic_scope :: "u8 list"
  mr_api_scope :: "u8 list"
  mr_enrollment_actor :: "u8 list"
  mr_permissions :: permission_set
  mr_credential_version :: u32
  mr_record_security_epoch :: u32
  mr_principal_revision :: u32
  mr_verifier :: password_verifier

record ap_secret_record =
  ap_record_version :: u8
  ap_provisioned :: u8
  ap_length :: u8
  ap_reserved :: u8
  ap_credential_version :: u32
  ap_value :: "u8 list"

record security_payload =
  sp_schema_version :: u16
  sp_flags :: u16
  sp_security_epoch :: u32
  sp_role_count :: u8
  sp_human_count :: u8
  sp_machine_count :: u8
  sp_console_verifier_provisioned :: u8
  sp_console_credential_version :: u32
  sp_migration_state :: u8
  sp_recovery_state :: u8
  sp_reserved :: u16
  sp_builtin_roles :: "role_record list"
  sp_factory_ap :: ap_secret_record
  sp_active_ap :: ap_secret_record
  sp_console_verifier :: password_verifier

record security_slot =
  ss_magic :: u32
  ss_schema_version :: u16
  ss_payload_length :: u16
  ss_generation :: u32
  ss_crc32 :: u32
  ss_valid_marker :: u32
  ss_payload :: security_payload

text \<open>The packed little-endian bytes of the manifest, over which the CRC runs.\<close>

definition le_bytes :: "nat \<Rightarrow> 'a::len word \<Rightarrow> u8 list" where
  "le_bytes n w = map (\<lambda>i. ucast (drop_bit (8 * i) w)) [0..<n]"

definition role_bytes :: "role_record \<Rightarrow> u8 list" where
  "role_bytes r = [rr_record_version r, rr_level r, rr_builtin r, rr_protected_role r] @ rr_identifier r
     @ le_bytes 8 (rr_permissions r) @ le_bytes 8 (rr_delegable_permissions r)"

definition ap_bytes :: "ap_secret_record \<Rightarrow> u8 list" where
  "ap_bytes a = [ap_record_version a, ap_provisioned a, ap_length a, ap_reserved a]
     @ le_bytes 4 (ap_credential_version a) @ ap_value a"

definition verifier_bytes :: "password_verifier \<Rightarrow> u8 list" where
  "verifier_bytes v = [pv_format_version v, pv_algorithm v, pv_salt_length v, pv_verifier_length v]
     @ le_bytes 4 (pv_iterations v) @ pv_salt v @ pv_verifier v"

definition security_payload_bytes :: "security_payload \<Rightarrow> u8 list" where
  "security_payload_bytes p =
     le_bytes 2 (sp_schema_version p) @ le_bytes 2 (sp_flags p) @ le_bytes 4 (sp_security_epoch p)
     @ [sp_role_count p, sp_human_count p, sp_machine_count p, sp_console_verifier_provisioned p]
     @ le_bytes 4 (sp_console_credential_version p) @ [sp_migration_state p, sp_recovery_state p]
     @ le_bytes 2 (sp_reserved p) @ concat (map role_bytes (sp_builtin_roles p))
     @ ap_bytes (sp_factory_ap p) @ ap_bytes (sp_active_ap p) @ verifier_bytes (sp_console_verifier p)"

definition crc32_bytes :: "u8 list \<Rightarrow> u32" where
  "crc32_bytes data = NOT (fold (\<lambda>b crc. crc_byte crc b) data 0xFFFFFFFF)"

definition argus_security_payload_crc32 :: "security_payload \<Rightarrow> u32" where
  "argus_security_payload_crc32 p = crc32_bytes (security_payload_bytes p)"

section \<open>Validation\<close>

definition bounded_string_valid :: "u8 list \<Rightarrow> bool \<Rightarrow> bool" where
  "bounded_string_valid value allow_empty =
     (if length value = 0 then False
      else if c_strlen value = length value \<or> (\<not> allow_empty \<and> c_strlen value = 0) then False
      else list_all (\<lambda>c. b_isalnum c \<or> c = 95 \<or> c = 45) (cstr value))"

text \<open>
  The scan over a machine scope: \<open>prev\<close> is the byte before the rest and \<open>seg\<close> says whether
  the current segment has a character.
\<close>

fun scope_scan :: "u8 option \<Rightarrow> bool \<Rightarrow> u8 list \<Rightarrow> bool" where
  "scope_scan prev seg [] = seg"
| "scope_scan prev seg (c # rest) =
     (if b_isalnum c \<or> c = 95 \<or> c = 45 \<or> c = 46 then scope_scan (Some c) True rest
      else if c = 47 then (if \<not> seg \<or> rest = [] then False else scope_scan (Some c) False rest)
      else if c = 42 then rest = [] \<and> prev = Some 47
      else False)"

definition argus_security_machine_scope_valid :: "u8 list \<Rightarrow> bool" where
  "argus_security_machine_scope_valid value =
     (if length value = 0 then False
      else if c_strlen value = 0 \<or> c_strlen value \<ge> length value then False
      else if cstr value = [42] then True
      else scope_scan None False (cstr value))"

definition bounded_printable_valid :: "u8 list \<Rightarrow> bool \<Rightarrow> bool" where
  "bounded_printable_valid value allow_empty =
     (if length value = 0 then False
      else if c_strlen value = length value \<or> (\<not> allow_empty \<and> c_strlen value = 0) then False
      else list_all (\<lambda>c. \<not> (c < 0x20 \<or> c > 0x7e)) (cstr value))"

definition argus_security_role_record_valid :: "role_record \<Rightarrow> bool" where
  "argus_security_role_record_valid r =
     (if rr_record_version r \<noteq> SECURITY_RECORD_VERSION \<or> rr_level r \<ge> 6 \<or> rr_builtin r > 1
         \<or> rr_protected_role r > 1 \<or> \<not> bounded_string_valid (rr_identifier r) False
         \<or> rr_permissions r AND NOT PERMISSION_DEFINED_MASK \<noteq> 0
         \<or> rr_delegable_permissions r AND NOT (rr_permissions r) \<noteq> 0 then False
      else \<not> rr_delegable_permissions r AND PERMISSION_MANAGE_CLIENT_ADMINS \<noteq> 0)"

definition argus_security_human_record_valid :: "human_record \<Rightarrow> bool" where
  "argus_security_human_record_valid r \<longleftrightarrow>
     hr_record_version r = SECURITY_RECORD_VERSION \<and> hr_level r \<le> 4 \<and> hr_enabled r \<le> 1
     \<and> hr_protected_identity r \<le> 1 \<and> bounded_string_valid (hr_identifier r) False
     \<and> bounded_string_valid (hr_login r) False \<and> bounded_printable_valid (hr_display_name r) False
     \<and> bounded_string_valid (hr_scope r) False \<and> hr_role_mask r \<noteq> 0 \<and> hr_credential_version r \<noteq> 0
     \<and> hr_record_security_epoch r \<noteq> 0 \<and> hr_revoked r \<le> 1
     \<and> hr_reserved r ! 0 = 0 \<and> hr_reserved r ! 1 = 0 \<and> hr_reserved r ! 2 = 0
     \<and> \<not> (hr_enabled r \<noteq> 0 \<and> hr_revoked r \<noteq> 0)
     \<and> hr_direct_permissions r AND NOT PERMISSION_DEFINED_MASK = 0
     \<and> argus_password_verifier_record_valid (Some (hr_verifier r))"

definition argus_security_machine_record_valid :: "machine_record \<Rightarrow> bool" where
  "argus_security_machine_record_valid r \<longleftrightarrow>
     mr_record_version r = SECURITY_RECORD_VERSION \<and> mr_enabled r \<le> 1 \<and> mr_revoked r \<le> 1
     \<and> \<not> (mr_enabled r \<noteq> 0 \<and> mr_revoked r \<noteq> 0) \<and> mr_client_type r \<ge> 1 \<and> mr_client_type r \<le> 6
     \<and> mr_allowed_transports r \<noteq> 0 \<and> mr_allowed_transports r AND NOT 7 = 0
     \<and> mr_allowed_interfaces r \<noteq> 0 \<and> mr_allowed_interfaces r AND NOT 3 = 0
     \<and> bounded_string_valid (mr_identifier r) False \<and> bounded_printable_valid (mr_display_name r) False
     \<and> argus_security_machine_scope_valid (mr_scope r) \<and> bounded_printable_valid (mr_topic_scope r) True
     \<and> bounded_printable_valid (mr_api_scope r) True \<and> bounded_string_valid (mr_enrollment_actor r) False
     \<and> mr_permissions r AND NOT PERMISSION_DEFINED_MASK = 0 \<and> mr_credential_version r \<noteq> 0
     \<and> mr_record_security_epoch r \<noteq> 0 \<and> mr_principal_revision r \<noteq> 0
     \<and> argus_password_verifier_record_valid (Some (mr_verifier r))"

definition ap_secret_valid :: "ap_secret_record \<Rightarrow> bool" where
  "ap_secret_valid r =
     (if ap_record_version r \<noteq> SECURITY_RECORD_VERSION \<or> ap_provisioned r > 1 \<or> ap_reserved r \<noteq> 0 then False
      else if ap_provisioned r = 0 then ap_length r = 0 \<and> ap_credential_version r = 0
      else if ap_length r < 8 \<or> ap_length r > 63 \<or> ap_credential_version r = 0
              \<or> ap_value r ! unat (ap_length r) \<noteq> 0 then False
      else list_all (\<lambda>c. \<not> (c < 0x20 \<or> c > 0x7e)) (take (unat (ap_length r)) (ap_value r)))"

fun permissions_for_level :: "security_level \<Rightarrow> permission_set" where
  "permissions_for_level LEVEL_ARGUS_PERSONNEL = PERMISSION_DEFINED_MASK"
| "permissions_for_level LEVEL_CLIENT_ADMIN =
     (PERMISSION_VIEW_STATUS OR PERMISSION_REQUEST_AUTHORITY OR PERMISSION_MOTION OR PERMISSION_SOFTWARE_ESTOP
        OR PERMISSION_RESET_SOFTWARE_ESTOP OR PERMISSION_ACK_ALARMS)
     OR PERMISSION_MANAGE_USERS OR PERMISSION_MANAGE_ROLES OR PERMISSION_ENROLL_MACHINES
     OR PERMISSION_REVOKE_MACHINES OR PERMISSION_VIEW_AUDIT"
| "permissions_for_level LEVEL_SUPERVISOR =
     (PERMISSION_VIEW_STATUS OR PERMISSION_REQUEST_AUTHORITY OR PERMISSION_MOTION OR PERMISSION_SOFTWARE_ESTOP
        OR PERMISSION_RESET_SOFTWARE_ESTOP OR PERMISSION_ACK_ALARMS)"
| "permissions_for_level LEVEL_OPERATOR =
     (PERMISSION_VIEW_STATUS OR PERMISSION_REQUEST_AUTHORITY OR PERMISSION_MOTION OR PERMISSION_SOFTWARE_ESTOP
        OR PERMISSION_RESET_SOFTWARE_ESTOP OR PERMISSION_ACK_ALARMS)"
| "permissions_for_level LEVEL_VIEWER = PERMISSION_VIEW_STATUS"
| "permissions_for_level LEVEL_MACHINE = 0"
| "permissions_for_level LEVEL_COUNT = 0"

definition builtin_levels :: "(security_level \<times> string) list" where
  "builtin_levels =
     [(LEVEL_ARGUS_PERSONNEL, ''argus_personnel''), (LEVEL_CLIENT_ADMIN, ''client_admin''),
      (LEVEL_SUPERVISOR, ''supervisor''), (LEVEL_OPERATOR, ''operator''), (LEVEL_VIEWER, ''viewer''),
      (LEVEL_MACHINE, ''machine_identity'')]"

definition builtin_role :: "security_level \<times> string \<Rightarrow> role_record" where
  "builtin_role x =
     (let (level, name) = x; p = permissions_for_level level in
      \<lparr> rr_record_version = SECURITY_RECORD_VERSION, rr_level = of_nat (level_rank level), rr_builtin = 1,
        rr_protected_role = (if level = LEVEL_ARGUS_PERSONNEL then 1 else 0),
        rr_identifier = fill_buffer 37 (str_bytes name), rr_permissions = p,
        rr_delegable_permissions = p AND
          NOT (PERMISSION_MANAGE_CLIENT_ADMINS OR PERMISSION_MODIFY_IDENTITY
               OR PERMISSION_MODIFY_PROTECTED_CONFIG OR PERMISSION_COMMISSION OR PERMISSION_CALIBRATE
               OR PERMISSION_MANAGE_FIRMWARE OR PERMISSION_FULL_SECURITY_RESET) \<rparr>)"

definition ap_empty :: ap_secret_record where
  "ap_empty = \<lparr> ap_record_version = SECURITY_RECORD_VERSION, ap_provisioned = 0, ap_length = 0, ap_reserved = 0,
     ap_credential_version = 0, ap_value = replicate 64 0 \<rparr>"

definition argus_security_store_default_payload :: security_payload where
  "argus_security_store_default_payload =
     \<lparr> sp_schema_version = SECURITY_SCHEMA_VERSION, sp_flags = 0, sp_security_epoch = 1, sp_role_count = 6,
       sp_human_count = 0, sp_machine_count = 0, sp_console_verifier_provisioned = 0,
       sp_console_credential_version = 0, sp_migration_state = MIGRATION_NOT_STARTED,
       sp_recovery_state = RECOVERY_INACTIVE, sp_reserved = 0,
       sp_builtin_roles = map builtin_role builtin_levels, sp_factory_ap = ap_empty, sp_active_ap = ap_empty,
       sp_console_verifier = verifier_zero \<rparr>"

definition argus_security_payload_valid :: "security_payload \<Rightarrow> bool" where
  "argus_security_payload_valid p =
     (if sp_schema_version p \<noteq> SECURITY_SCHEMA_VERSION \<or> sp_flags p \<noteq> 0 \<or> sp_security_epoch p = 0
         \<or> sp_role_count p < 6 \<or> sp_role_count p > 16 \<or> sp_human_count p > 16 \<or> sp_machine_count p > 16
         \<or> sp_console_verifier_provisioned p > 1 \<or> sp_migration_state p > MIGRATION_FAILED
         \<or> sp_recovery_state p > RECOVERY_REQUESTED \<or> sp_reserved p \<noteq> 0
         \<or> \<not> ap_secret_valid (sp_factory_ap p) \<or> \<not> ap_secret_valid (sp_active_ap p) then False
      else if \<not> list_all (\<lambda>i. let r = sp_builtin_roles p ! i in
                  argus_security_role_record_valid r \<and> rr_level r = of_nat i \<and> rr_builtin r = 1)
                [0..<BUILTIN_ROLE_COUNT] then False
      else if sp_console_verifier_provisioned p \<noteq> 0
      then sp_console_credential_version p \<noteq> 0
           \<and> argus_password_verifier_record_valid (Some (sp_console_verifier p))
      else sp_console_credential_version p = 0)"

end
