(* ===== verification/Security_Manager.thy ===== *)
theory Security_Manager
  imports Security_Store
begin

text \<open>
  The two-slot core of the security manifest, the production driver and the manager around
  it (\<open>argus_security_store.c\<close>). A driver call may be missing and may fail; a call with an
  output parameter takes its initial value and returns the final one.
\<close>

section \<open>The store core\<close>

record 's security_driver =
  sd_read_slot :: "(u8 \<Rightarrow> 's \<Rightarrow> security_slot \<Rightarrow> esp_err \<times> security_slot) option"
  sd_write_slot :: "(u8 \<Rightarrow> security_slot \<Rightarrow> 's \<Rightarrow> esp_err \<times> 's) option"
  sd_read_selector :: "('s \<Rightarrow> u8 \<Rightarrow> esp_err \<times> u8) option"
  sd_write_selector :: "(u8 \<Rightarrow> 's \<Rightarrow> esp_err \<times> 's) option"

record security_core =
  sk_active :: security_payload
  sk_generation :: u32
  sk_active_slot :: u8
  sk_state :: store_state
  sk_redundancy_degraded :: bool

text \<open>The zeroed structures.\<close>

definition role_zero :: role_record where
  "role_zero = \<lparr> rr_record_version = 0, rr_level = 0, rr_builtin = 0, rr_protected_role = 0,
     rr_identifier = replicate 37 0, rr_permissions = 0, rr_delegable_permissions = 0 \<rparr>"

definition security_payload_zero :: security_payload where
  "security_payload_zero = \<lparr> sp_schema_version = 0, sp_flags = 0, sp_security_epoch = 0, sp_role_count = 0,
     sp_human_count = 0, sp_machine_count = 0, sp_console_verifier_provisioned = 0,
     sp_console_credential_version = 0, sp_migration_state = 0, sp_recovery_state = 0, sp_reserved = 0,
     sp_builtin_roles = replicate 6 role_zero, sp_factory_ap = ap_empty\<lparr> ap_record_version := 0 \<rparr>,
     sp_active_ap = ap_empty\<lparr> ap_record_version := 0 \<rparr>, sp_console_verifier = verifier_zero \<rparr>"

definition security_slot_zero :: security_slot where
  "security_slot_zero = \<lparr> ss_magic = 0, ss_schema_version = 0, ss_payload_length = 0, ss_generation = 0,
     ss_crc32 = 0, ss_valid_marker = 0, ss_payload = security_payload_zero \<rparr>"

definition security_core_zero :: security_core where
  "security_core_zero = \<lparr> sk_active = security_payload_zero, sk_generation = 0, sk_active_slot = 0,
     sk_state = STORE_MISSING, sk_redundancy_degraded = False \<rparr>"

definition slot_current_valid :: "security_slot \<Rightarrow> bool" where
  "slot_current_valid s \<longleftrightarrow> ss_magic s = SECURITY_SLOT_MAGIC \<and> ss_schema_version s = SECURITY_SCHEMA_VERSION
     \<and> ss_payload_length s = 562 \<and> ss_generation s \<noteq> 0 \<and> ss_valid_marker s = SECURITY_VALID_MARKER
     \<and> ss_crc32 s = argus_security_payload_crc32 (ss_payload s)
     \<and> argus_security_payload_valid (ss_payload s)"

definition slot_unsupported :: "security_slot \<Rightarrow> bool" where
  "slot_unsupported s \<longleftrightarrow> ss_magic s = SECURITY_SLOT_MAGIC \<and> ss_schema_version s \<noteq> SECURITY_SCHEMA_VERSION"

definition provisioned_state :: "security_payload \<Rightarrow> store_state" where
  "provisioned_state p =
     (if ap_provisioned (sp_factory_ap p) \<noteq> 0 \<and> ap_provisioned (sp_active_ap p) \<noteq> 0
      then STORE_READY else STORE_UNPROVISIONED)"

definition absent :: "esp_err \<Rightarrow> bool" where
  "absent e \<longleftrightarrow> e = ESP_ERR_NVS_NOT_FOUND \<or> e = ESP_ERR_NOT_FOUND"

definition choose_slot ::
  "bool \<Rightarrow> bool \<Rightarrow> security_slot \<Rightarrow> security_slot \<Rightarrow> u8 \<Rightarrow> security_core" where
  "choose_slot a_valid b_valid a b selector =
     (let chosen = (if (selector = 0 \<and> a_valid) \<or> (selector = 1 \<and> b_valid) then Some selector
                    else let fallback = selector XOR 1 in
                         if if fallback = 0 then a_valid else b_valid then Some fallback else None)
      in case chosen of
           None \<Rightarrow> security_core_zero\<lparr> sk_state := STORE_CORRUPT \<rparr>
         | Some k \<Rightarrow>
             (let selected = (if k = 0 then a else b) in
              \<lparr> sk_active = ss_payload selected, sk_generation = ss_generation selected, sk_active_slot = k,
                sk_state = provisioned_state (ss_payload selected),
                sk_redundancy_degraded = (\<not> (a_valid \<and> b_valid)) \<rparr>))"

definition argus_security_store_core_init ::
  "'s security_driver \<Rightarrow> security_core \<Rightarrow> 's \<Rightarrow> esp_err \<times> security_core" where
  "argus_security_store_core_init driver core s =
     (case (sd_read_slot driver, sd_write_slot driver, sd_read_selector driver, sd_write_selector driver) of
        (Some read_slot, Some _, Some read_selector, Some _) \<Rightarrow>
          (let (a_err, a) = read_slot 0 s security_slot_zero;
               (b_err, b) = read_slot 1 s security_slot_zero
           in if (\<not> absent a_err \<and> a_err \<noteq> ESP_OK) \<or> (\<not> absent b_err \<and> b_err \<noteq> ESP_OK)
              then (ESP_OK, security_core_zero\<lparr> sk_state := STORE_UNAVAILABLE \<rparr>)
              else
                (let a_valid = (a_err = ESP_OK \<and> slot_current_valid a);
                     b_valid = (b_err = ESP_OK \<and> slot_current_valid b)
                 in if \<not> a_valid \<and> \<not> b_valid
                    then (ESP_OK, security_core_zero
                            \<lparr> sk_active := argus_security_store_default_payload,
                              sk_state := (if absent a_err \<and> absent b_err then STORE_MISSING
                                 else if (a_err = ESP_OK \<and> slot_unsupported a) \<or> (b_err = ESP_OK \<and> slot_unsupported b)
                                 then STORE_UNSUPPORTED_VERSION else STORE_CORRUPT) \<rparr>)
                    else
                      (let (sel_err, selector) = read_selector s 0 in
                       if sel_err \<noteq> ESP_OK \<or> selector > 1
                       then (ESP_OK, security_core_zero
                               \<lparr> sk_state := (if absent sel_err \<or> sel_err = ESP_OK then STORE_CORRUPT
                                              else STORE_UNAVAILABLE) \<rparr>)
                       else (ESP_OK, choose_slot a_valid b_valid a b selector))))
      | _ \<Rightarrow> (ESP_ERR_INVALID_ARG, core))"

definition security_slot_of :: "u32 \<Rightarrow> security_payload \<Rightarrow> security_slot" where
  "security_slot_of next_generation p =
     \<lparr> ss_magic = SECURITY_SLOT_MAGIC, ss_schema_version = SECURITY_SCHEMA_VERSION, ss_payload_length = 562,
       ss_generation = next_generation, ss_crc32 = argus_security_payload_crc32 p,
       ss_valid_marker = SECURITY_VALID_MARKER, ss_payload = p \<rparr>"

definition next_generation_of :: "security_core \<Rightarrow> u32" where
  "next_generation_of core = (if sk_generation core + 1 = 0 then 1 else sk_generation core + 1)"

definition commit_target :: "security_core \<Rightarrow> u8" where
  "commit_target core = (if sk_generation core = 0 then 0 else sk_active_slot core XOR 1)"

text \<open>A missing driver call is never reached: initialisation checked the table.\<close>

definition argus_security_store_core_commit ::
  "'s security_driver \<Rightarrow> security_payload \<Rightarrow> security_core \<Rightarrow> 's \<Rightarrow> esp_err \<times> security_core \<times> 's" where
  "argus_security_store_core_commit driver payload core s =
     (if \<not> argus_security_payload_valid payload \<or> sk_state core = STORE_CORRUPT
         \<or> sk_state core = STORE_UNSUPPORTED_VERSION \<or> sk_state core = STORE_UNAVAILABLE
      then (ESP_ERR_INVALID_STATE, core, s)
      else
        (case (sd_read_slot driver, sd_write_slot driver, sd_write_selector driver) of
           (Some read_slot, Some write_slot, Some write_selector) \<Rightarrow>
             (let target = commit_target core;
                  slot = security_slot_of (next_generation_of core) payload;
                  (err, s1) = write_slot target slot s
              in if err \<noteq> ESP_OK then (err, core, s1)
                 else
                   (let (err2, readback) = read_slot target s1 security_slot_zero
                    in if err2 \<noteq> ESP_OK \<or> \<not> slot_current_valid readback \<or> readback \<noteq> slot
                       then (if err2 = ESP_OK then ESP_ERR_INVALID_CRC else err2, core, s1)
                       else
                         (let (err3, s2) = write_selector target s1
                          in if err3 \<noteq> ESP_OK then (err3, core, s2)
                             else (ESP_OK, \<lparr> sk_active = payload, sk_generation = next_generation_of core,
                                     sk_active_slot = target, sk_state = provisioned_state payload,
                                     sk_redundancy_degraded = (next_generation_of core < 2) \<rparr>, s2))))
         | _ \<Rightarrow> (ESP_ERR_INVALID_STATE, core, s)))"

section \<open>The production driver\<close>

text \<open>
  The NVS calls on the encrypted partition, over an abstract flash: opening the namespace,
  reading and writing an entry, and committing.
\<close>

record 'n security_nvs =
  sv_open :: "bool \<Rightarrow> 'n \<Rightarrow> esp_err \<times> 'n"
  sv_get_blob :: "string \<Rightarrow> 'n \<Rightarrow> security_slot \<Rightarrow> esp_err \<times> security_slot"
  sv_set_blob :: "string \<Rightarrow> security_slot \<Rightarrow> 'n \<Rightarrow> esp_err \<times> 'n"
  sv_get_u8 :: "string \<Rightarrow> 'n \<Rightarrow> u8 \<Rightarrow> esp_err \<times> u8"
  sv_set_u8 :: "string \<Rightarrow> u8 \<Rightarrow> 'n \<Rightarrow> esp_err \<times> 'n"
  sv_commit :: "'n \<Rightarrow> esp_err \<times> 'n"

definition manifest_key :: "u8 \<Rightarrow> string" where
  "manifest_key index = (if index = 0 then ''manifest_a'' else ''manifest_b'')"

abbreviation (input) MANIFEST_SELECTOR :: string where "MANIFEST_SELECTOR \<equiv> ''manifest_sel''"

definition sec_read_slot :: "'n security_nvs \<Rightarrow> u8 \<Rightarrow> 'n \<Rightarrow> security_slot \<Rightarrow> esp_err \<times> security_slot" where
  "sec_read_slot nvs index s out =
     (let err = fst (sv_open nvs False s) in
      if err \<noteq> ESP_OK then (err, out) else sv_get_blob nvs (manifest_key index) s out)"

definition sec_write_slot :: "'n security_nvs \<Rightarrow> u8 \<Rightarrow> security_slot \<Rightarrow> 'n \<Rightarrow> esp_err \<times> 'n" where
  "sec_write_slot nvs index slot s =
     (let (err, s1) = sv_open nvs True s in
      if err \<noteq> ESP_OK then (err, s1)
      else (let (err2, s2) = sv_set_blob nvs (manifest_key index) slot s1 in
            if err2 = ESP_OK then sv_commit nvs s2 else (err2, s2)))"

definition sec_read_selector :: "'n security_nvs \<Rightarrow> 'n \<Rightarrow> u8 \<Rightarrow> esp_err \<times> u8" where
  "sec_read_selector nvs s out =
     (let err = fst (sv_open nvs False s) in
      if err \<noteq> ESP_OK then (err, out) else sv_get_u8 nvs MANIFEST_SELECTOR s out)"

definition sec_write_selector :: "'n security_nvs \<Rightarrow> u8 \<Rightarrow> 'n \<Rightarrow> esp_err \<times> 'n" where
  "sec_write_selector nvs selector s =
     (let (err, s1) = sv_open nvs True s in
      if err \<noteq> ESP_OK then (err, s1)
      else (let (err2, s2) = sv_set_u8 nvs MANIFEST_SELECTOR selector s1 in
            if err2 = ESP_OK then sv_commit nvs s2 else (err2, s2)))"

definition sec_prod_driver :: "'n security_nvs \<Rightarrow> 'n security_driver" where
  "sec_prod_driver nvs =
     \<lparr> sd_read_slot = Some (sec_read_slot nvs), sd_write_slot = Some (sec_write_slot nvs),
       sd_read_selector = Some (sec_read_selector nvs), sd_write_selector = Some (sec_write_selector nvs) \<rparr>"

section \<open>The manager\<close>

text \<open>
  The writer's core, the published snapshot and the flag. A submission is served by the
  single writer task: \<open>queue_ok\<close> says whether the request found room in time.
\<close>

record security_manager =
  sm_writer_core :: security_core
  sm_snapshot :: security_core
  sm_initialized :: bool
  sm_encryption_enabled :: bool

text \<open>The encrypted partition: the results of its calls and whether the store partition is blank.\<close>

record partition_answers =
  pa_found :: bool
  pa_read_keys :: esp_err
  pa_store_blank :: bool
  pa_generate_keys :: esp_err
  pa_secure_init :: esp_err

abbreviation (input) ESP_ERR_NVS_KEYS_NOT_INITIALIZED :: esp_err where "ESP_ERR_NVS_KEYS_NOT_INITIALIZED \<equiv> 4374"

definition initialize_encrypted_partition :: "partition_answers \<Rightarrow> esp_err" where
  "initialize_encrypted_partition p =
     (if \<not> pa_found p then ESP_ERR_NOT_FOUND
      else if pa_read_keys p = ESP_ERR_NVS_KEYS_NOT_INITIALIZED \<and> \<not> pa_store_blank p then ESP_ERR_INVALID_STATE
      else (let err = (if pa_read_keys p = ESP_ERR_NVS_KEYS_NOT_INITIALIZED then pa_generate_keys p
                       else pa_read_keys p)
            in if err = ESP_OK then pa_secure_init p else err))"

text \<open>
  \<open>argus_security_store_init\<close>: \<open>resources\<close> are whether the mutex, the queue and the task
  could be created.
\<close>

definition argus_security_store_init ::
  "partition_answers \<Rightarrow> bool \<times> bool \<times> bool \<Rightarrow> 's security_driver \<Rightarrow> security_manager \<Rightarrow> 's \<Rightarrow>
     esp_err \<times> security_manager \<times> 's" where
  "argus_security_store_init p resources driver m s =
     (let (mutex, queue, task) = resources in
      if sm_initialized m then (ESP_OK, m, s)
      else if initialize_encrypted_partition p \<noteq> ESP_OK then (initialize_encrypted_partition p, m, s)
      else
        (let m1 = m\<lparr> sm_encryption_enabled := True \<rparr> in
         if \<not> mutex then (ESP_ERR_NO_MEM, m1, s)
         else
           (let (err, core) = argus_security_store_core_init driver (sm_writer_core m1) s;
                m2 = m1\<lparr> sm_writer_core := core \<rparr>
            in if err \<noteq> ESP_OK then (err, m2, s)
               else
                 (let (err2, core2, s2) =
                        (if sk_state core = STORE_MISSING
                         then argus_security_store_core_commit driver argus_security_store_default_payload core s
                         else if sk_state core = STORE_CORRUPT \<or> sk_state core = STORE_UNSUPPORTED_VERSION
                                 \<or> sk_state core = STORE_UNAVAILABLE
                         then (ESP_ERR_INVALID_STATE, core, s)
                         else (ESP_OK, core, s));
                      m3 = m2\<lparr> sm_writer_core := core2 \<rparr>
                  in if err2 \<noteq> ESP_OK then (err2, m3, s2)
                     else if \<not> queue \<or> \<not> task then (ESP_ERR_NO_MEM, m3\<lparr> sm_snapshot := core2 \<rparr>, s2)
                     else (ESP_OK, m3\<lparr> sm_snapshot := core2, sm_initialized := True \<rparr>, s2)))))"

definition writer_task ::
  "'s security_driver \<Rightarrow> security_payload \<Rightarrow> u32 \<Rightarrow> security_manager \<Rightarrow> 's \<Rightarrow> esp_err \<times> security_manager \<times> 's" where
  "writer_task driver payload expected_generation m s =
     (if expected_generation \<noteq> sk_generation (sm_writer_core m) then (ESP_ERR_INVALID_STATE, m, s)
      else (let (err, core, s1) = argus_security_store_core_commit driver payload (sm_writer_core m) s
            in (err, if err = ESP_OK then m\<lparr> sm_writer_core := core, sm_snapshot := core \<rparr>
                     else m\<lparr> sm_writer_core := core \<rparr>, s1)))"

definition submit_payload ::
  "bool \<Rightarrow> 's security_driver \<Rightarrow> security_payload \<Rightarrow> u32 \<Rightarrow> security_manager \<Rightarrow> 's \<Rightarrow>
     esp_err \<times> security_manager \<times> 's" where
  "submit_payload queue_ok driver payload expected_generation m s =
     (if \<not> queue_ok then (ESP_ERR_TIMEOUT, m, s) else writer_task driver payload expected_generation m s)"

definition snapshot_payload :: "security_manager \<Rightarrow> esp_err \<times> security_payload \<times> u32" where
  "snapshot_payload m =
     (if \<not> sm_initialized m then (ESP_ERR_INVALID_STATE, security_payload_zero, 0)
      else (ESP_OK, sk_active (sm_snapshot m), sk_generation (sm_snapshot m)))"

text \<open>
  An update: read the snapshot, let \<open>change\<close> reject it or produce the new manifest, and
  submit that under the snapshot's generation.
\<close>

definition update_payload ::
  "bool \<Rightarrow> 's security_driver \<Rightarrow> (security_payload \<Rightarrow> esp_err + security_payload) \<Rightarrow> security_manager \<Rightarrow> 's \<Rightarrow>
     esp_err \<times> security_manager \<times> 's" where
  "update_payload queue_ok driver change m s =
     (let (err, payload, generation) = snapshot_payload m in
      if err \<noteq> ESP_OK then (err, m, s)
      else (case change payload of
              Inl e \<Rightarrow> (e, m, s)
            | Inr p \<Rightarrow> submit_payload queue_ok driver p generation m s))"

definition ap_secret_of :: "u8 list \<Rightarrow> ap_secret_record \<Rightarrow> ap_secret_record" where
  "ap_secret_of secret r =
     r\<lparr> ap_record_version := SECURITY_RECORD_VERSION, ap_provisioned := 1, ap_length := of_nat (length secret),
        ap_credential_version := 1, ap_value := secret @ [0] @ drop (Suc (length secret)) (ap_value r) \<rparr>"

definition secret_length_ok :: "u8 list \<Rightarrow> bool" where
  "secret_length_ok secret \<longleftrightarrow> 8 \<le> length secret \<and> length secret \<le> 63"

definition argus_security_store_bootstrap_ap_secrets ::
  "bool \<Rightarrow> 's security_driver \<Rightarrow> u8 list option \<Rightarrow> security_manager \<Rightarrow> 's \<Rightarrow> esp_err \<times> security_manager \<times> 's" where
  "argus_security_store_bootstrap_ap_secrets queue_ok driver secret m s =
     (case secret of
        None \<Rightarrow> (ESP_ERR_INVALID_ARG, m, s)
      | Some sec \<Rightarrow>
          if \<not> secret_length_ok sec then (ESP_ERR_INVALID_ARG, m, s)
          else update_payload queue_ok driver
            (\<lambda>p. if ap_provisioned (sp_factory_ap p) \<noteq> 0 \<or> ap_provisioned (sp_active_ap p) \<noteq> 0
                 then Inl ESP_ERR_NOT_SUPPORTED
                 else Inr (p\<lparr> sp_factory_ap := ap_secret_of sec (sp_factory_ap p),
                              sp_active_ap := ap_secret_of sec (sp_active_ap p),
                              sp_security_epoch := sp_security_epoch p + 1 \<rparr>)) m s)"

definition argus_security_store_provision_initial ::
  "bool \<Rightarrow> 's security_driver \<Rightarrow> u8 list option \<Rightarrow> u8 list option \<Rightarrow> password_verifier option \<Rightarrow>
     security_manager \<Rightarrow> 's \<Rightarrow> esp_err \<times> security_manager \<times> 's" where
  "argus_security_store_provision_initial queue_ok driver factory_ap active_ap console_verifier m s =
     (case (factory_ap, active_ap, console_verifier) of
        (Some f, Some a, Some v) \<Rightarrow>
          if \<not> secret_length_ok f \<or> \<not> secret_length_ok a \<or> \<not> argus_password_verifier_record_valid (Some v)
          then (ESP_ERR_INVALID_ARG, m, s)
          else update_payload queue_ok driver
            (\<lambda>p. if ap_provisioned (sp_factory_ap p) \<noteq> 0 \<or> ap_provisioned (sp_active_ap p) \<noteq> 0
                    \<or> sp_console_verifier_provisioned p \<noteq> 0 then Inl ESP_ERR_NOT_SUPPORTED
                 else Inr (p\<lparr> sp_factory_ap := ap_secret_of f (sp_factory_ap p),
                              sp_active_ap := ap_secret_of a (sp_active_ap p),
                              sp_console_verifier := v, sp_console_verifier_provisioned := 1,
                              sp_console_credential_version := 1, sp_migration_state := MIGRATION_COMPLETE,
                              sp_security_epoch := sp_security_epoch p + 1 \<rparr>)) m s
      | _ \<Rightarrow> (ESP_ERR_INVALID_ARG, m, s))"

definition get_ap_secret :: "bool \<Rightarrow> nat \<Rightarrow> security_manager \<Rightarrow> esp_err \<times> u8 list option" where
  "get_ap_secret factory out_size m =
     (if \<not> sm_initialized m then (ESP_ERR_INVALID_ARG, None)
      else (let p = sk_active (sm_snapshot m); r = (if factory then sp_factory_ap p else sp_active_ap p) in
            if ap_provisioned r = 0 then (ESP_ERR_NOT_FOUND, None)
            else if out_size \<le> unat (ap_length r) then (ESP_ERR_INVALID_SIZE, None)
            else (ESP_OK, Some (take (unat (ap_length r)) (ap_value r)))))"

text \<open>
  The comparison of the current secret runs over the longer of both lengths and combines
  all differences; the length difference is taken as a byte.
\<close>

definition secret_mismatch :: "ap_secret_record \<Rightarrow> u8 list \<Rightarrow> u8" where
  "secret_mismatch r current =
     fold (\<lambda>i acc. acc OR
            ((if i < unat (ap_length r) then ap_value r ! i else 0) XOR (if i < length current then current ! i else 0)))
       [0..<max (unat (ap_length r)) (length current)]
       (ap_length r XOR of_nat (length current))"

definition argus_security_store_replace_active_ap_secret ::
  "bool \<Rightarrow> 's security_driver \<Rightarrow> u8 list option \<Rightarrow> u8 list option \<Rightarrow> security_manager \<Rightarrow> 's \<Rightarrow>
     esp_err \<times> security_manager \<times> 's" where
  "argus_security_store_replace_active_ap_secret queue_ok driver current replacement m s =
     (case (current, replacement) of
        (Some c, Some r) \<Rightarrow>
          if \<not> secret_length_ok c \<or> length r < 12 \<or> length r > 63 \<or> hd r = 0x20 \<or> last r = 0x20
             \<or> \<not> list_all (\<lambda>b. \<not> (b < 0x20 \<or> b > 0x7e)) r
          then (ESP_ERR_INVALID_ARG, m, s)
          else update_payload queue_ok driver
            (\<lambda>p. let a = sp_active_ap p; v = ap_credential_version a + 1; e = sp_security_epoch p + 1 in
                 if ap_provisioned a = 0 \<or> secret_mismatch a c \<noteq> 0 then Inl ESP_ERR_INVALID_STATE
                 else Inr (p\<lparr> sp_active_ap := a\<lparr> ap_value := r @ replicate (64 - length r) 0,
                                ap_length := of_nat (length r),
                                ap_credential_version := (if v = 0 then 1 else v) \<rparr>,
                              sp_security_epoch := (if e = 0 then 1 else e) \<rparr>)) m s
      | _ \<Rightarrow> (ESP_ERR_INVALID_ARG, m, s))"

definition argus_security_store_set_console_verifier ::
  "bool \<Rightarrow> 's security_driver \<Rightarrow> password_verifier option \<Rightarrow> bool \<Rightarrow> security_manager \<Rightarrow> 's \<Rightarrow>
     esp_err \<times> security_manager \<times> 's" where
  "argus_security_store_set_console_verifier queue_ok driver r allow_replace m s =
     (case r of
        None \<Rightarrow> (ESP_ERR_INVALID_ARG, m, s)
      | Some v \<Rightarrow>
          if \<not> argus_password_verifier_record_valid (Some v) then (ESP_ERR_INVALID_ARG, m, s)
          else update_payload queue_ok driver
            (\<lambda>p. let c = sp_console_credential_version p + 1 in
                 if sp_console_verifier_provisioned p \<noteq> 0 \<and> \<not> allow_replace then Inl ESP_ERR_NOT_SUPPORTED
                 else Inr (p\<lparr> sp_console_verifier := v, sp_console_verifier_provisioned := 1,
                              sp_console_credential_version := (if c = 0 then 1 else c),
                              sp_security_epoch := sp_security_epoch p + 1 \<rparr>)) m s)"

definition argus_security_store_get_console_verifier ::
  "security_manager \<Rightarrow> esp_err \<times> (password_verifier \<times> u32) option" where
  "argus_security_store_get_console_verifier m =
     (if \<not> sm_initialized m then (ESP_ERR_INVALID_ARG, None)
      else (let p = sk_active (sm_snapshot m) in
            if sp_console_verifier_provisioned p = 0 then (ESP_ERR_NOT_FOUND, None)
            else (ESP_OK, Some (sp_console_verifier p, sp_console_credential_version p))))"

definition update_state ::
  "bool \<Rightarrow> 's security_driver \<Rightarrow> u8 \<Rightarrow> u8 \<Rightarrow> bool \<Rightarrow> bool \<Rightarrow> security_manager \<Rightarrow> 's \<Rightarrow>
     esp_err \<times> security_manager \<times> 's" where
  "update_state queue_ok driver migration recovery change_migration change_recovery m s =
     update_payload queue_ok driver
       (\<lambda>p. if (\<not> change_migration \<or> sp_migration_state p = migration)
               \<and> (\<not> change_recovery \<or> sp_recovery_state p = recovery) then Inl ESP_OK
            else Inr (p\<lparr> sp_migration_state := (if change_migration then migration else sp_migration_state p),
                         sp_recovery_state := (if change_recovery then recovery else sp_recovery_state p),
                         sp_security_epoch := sp_security_epoch p + 1 \<rparr>)) m s"

definition argus_security_store_set_migration_state ::
  "bool \<Rightarrow> 's security_driver \<Rightarrow> u8 \<Rightarrow> security_manager \<Rightarrow> 's \<Rightarrow> esp_err \<times> security_manager \<times> 's" where
  "argus_security_store_set_migration_state queue_ok driver state m s =
     (if state > MIGRATION_FAILED then (ESP_ERR_INVALID_ARG, m, s)
      else update_state queue_ok driver state 0 True False m s)"

definition argus_security_store_set_recovery_state ::
  "bool \<Rightarrow> 's security_driver \<Rightarrow> u8 \<Rightarrow> security_manager \<Rightarrow> 's \<Rightarrow> esp_err \<times> security_manager \<times> 's" where
  "argus_security_store_set_recovery_state queue_ok driver state m s =
     (if state > RECOVERY_REQUESTED then (ESP_ERR_INVALID_ARG, m, s)
      else update_state queue_ok driver 0 state False True m s)"

definition argus_security_store_get_recovery_state :: "security_manager \<Rightarrow> u8" where
  "argus_security_store_get_recovery_state m =
     (if \<not> sm_initialized m then RECOVERY_INACTIVE else sp_recovery_state (sk_active (sm_snapshot m)))"

record store_status =
  st_state :: store_state
  st_schema_version :: u16
  st_generation :: u32
  st_security_epoch :: u32
  st_role_count :: u8
  st_human_count :: u8
  st_machine_count :: u8
  st_factory_ap_provisioned :: bool
  st_active_ap_provisioned :: bool
  st_console_verifier_provisioned :: bool
  st_migration_state :: u8
  st_recovery_state :: u8
  st_encryption_enabled :: bool
  st_key_physically_extractable :: bool
  st_redundancy_degraded :: bool

definition argus_security_store_get_status :: "security_manager \<Rightarrow> esp_err \<times> store_status option" where
  "argus_security_store_get_status m =
     (if \<not> sm_initialized m then (ESP_ERR_INVALID_STATE, None)
      else (let c = sm_snapshot m; p = sk_active c in
            (ESP_OK, Some \<lparr> st_state = sk_state c, st_schema_version = sp_schema_version p,
               st_generation = sk_generation c, st_security_epoch = sp_security_epoch p,
               st_role_count = sp_role_count p, st_human_count = sp_human_count p,
               st_machine_count = sp_machine_count p,
               st_factory_ap_provisioned = (ap_provisioned (sp_factory_ap p) \<noteq> 0),
               st_active_ap_provisioned = (ap_provisioned (sp_active_ap p) \<noteq> 0),
               st_console_verifier_provisioned = (sp_console_verifier_provisioned p \<noteq> 0),
               st_migration_state = sp_migration_state p, st_recovery_state = sp_recovery_state p,
               st_encryption_enabled = sm_encryption_enabled m, st_key_physically_extractable = True,
               st_redundancy_degraded = sk_redundancy_degraded c \<rparr>)))"

end
