(* ===== verification/Security_Props.thy ===== *)
theory Security_Props
  imports Security_Manager
begin

text \<open>
  Correctness of the security manifest's store. The driver's contract is the locale
  \<open>manifest_driver\<close>, stated over the stored slots and the stored selector; the documented
  behaviour of the NVS calls is \<open>secure_nvs\<close>, and the production driver meets the first on
  every platform that meets the second. A write that reports an error may have been done,
  not done, or have left anything in the entry it wrote, which covers every power loss
  during and between calls.
\<close>

section \<open>Slots and boots\<close>

abbreviation dead_states :: "store_state set" where
  "dead_states \<equiv> {STORE_CORRUPT, STORE_UNSUPPORTED_VERSION, STORE_UNAVAILABLE}"

lemma provisioned_state_live [simp]:
  "provisioned_state p \<noteq> STORE_MISSING" "provisioned_state p \<noteq> STORE_CORRUPT"
  "provisioned_state p \<noteq> STORE_UNSUPPORTED_VERSION" "provisioned_state p \<noteq> STORE_UNAVAILABLE"
  by (simp_all add: provisioned_state_def)

lemma next_generation_nonzero [simp]: "next_generation_of core \<noteq> 0"
  by (simp add: next_generation_of_def)

lemma security_slot_of_valid:
  assumes "argus_security_payload_valid p" "g \<noteq> 0"
  shows "slot_current_valid (security_slot_of g p)"
  using assms by (simp add: slot_current_valid_def security_slot_of_def)

lemma security_slot_of_fields [simp]:
  "ss_payload (security_slot_of g p) = p" "ss_generation (security_slot_of g p) = g"
  by (simp_all add: security_slot_of_def)

text \<open>
  A stored manifest that start-up accepts: the selector names a slot and some slot is valid.
  A core is anchored in the store when its slot holds exactly its manifest.
\<close>

definition valid_cell :: "security_slot option \<Rightarrow> bool" where
  "valid_cell x = (case x of None \<Rightarrow> False | Some y \<Rightarrow> slot_current_valid y)"

definition bootable :: "(u8 \<Rightarrow> security_slot option) \<Rightarrow> u8 option \<Rightarrow> bool" where
  "bootable slots selector \<longleftrightarrow> (selector = Some 0 \<or> selector = Some 1) \<and> (valid_cell (slots 0) \<or> valid_cell (slots 1))"

definition anchored :: "(u8 \<Rightarrow> security_slot option) \<Rightarrow> u8 option \<Rightarrow> security_core \<Rightarrow> bool" where
  "anchored slots selector core \<longleftrightarrow>
     (selector = Some 0 \<or> selector = Some 1) \<and> sk_active_slot core \<le> 1
     \<and> sk_state core = provisioned_state (sk_active core)
     \<and> (\<exists>x. slots (sk_active_slot core) = Some x \<and> slot_current_valid x
            \<and> ss_payload x = sk_active core \<and> ss_generation x = sk_generation core)"

lemma anchored_bootable: "anchored slots selector core \<Longrightarrow> bootable slots selector"
  by (auto simp: anchored_def bootable_def valid_cell_def slot_index_cases)

lemma anchored_valid:
  assumes "anchored slots selector core"
  shows "argus_security_payload_valid (sk_active core)" "sk_generation core \<noteq> 0"
  using assms by (auto simp: anchored_def slot_current_valid_def)

lemma anchored_live:
  assumes "anchored slots selector core"
  shows "sk_state core \<notin> dead_states" "sk_state core \<noteq> STORE_MISSING"
  using assms by (simp_all add: anchored_def)

text \<open>The manifest a boot takes from the cells: the selected slot, else the other one.\<close>

definition boot_slot :: "(u8 \<Rightarrow> security_slot option) \<Rightarrow> u8 option \<Rightarrow> security_slot option" where
  "boot_slot slots selector =
     (case selector of
        None \<Rightarrow> None
      | Some k \<Rightarrow> if k > 1 then None
                  else if valid_cell (slots k) then slots k
                  else if valid_cell (slots (k XOR 1)) then slots (k XOR 1) else None)"

lemma bootable_boot_slot:
  assumes "bootable slots selector"
  shows "\<exists>x. boot_slot slots selector = Some x \<and> slot_current_valid x"
  using assms by (auto simp: bootable_def boot_slot_def valid_cell_def split: option.splits)

section \<open>The driver contract\<close>

locale manifest_driver =
  fixes read_slot :: "u8 \<Rightarrow> 's \<Rightarrow> security_slot \<Rightarrow> esp_err \<times> security_slot"
    and write_slot :: "u8 \<Rightarrow> security_slot \<Rightarrow> 's \<Rightarrow> esp_err \<times> 's"
    and read_selector :: "'s \<Rightarrow> u8 \<Rightarrow> esp_err \<times> u8"
    and write_selector :: "u8 \<Rightarrow> 's \<Rightarrow> esp_err \<times> 's"
    and slots :: "'s \<Rightarrow> u8 \<Rightarrow> security_slot option"
    and selector :: "'s \<Rightarrow> u8 option"
  assumes read_slot_stored: "\<And>i s out x. read_slot i s out = (ESP_OK, x) \<Longrightarrow> slots s i = Some x"
    and read_slot_absent: "\<And>i s out e x. read_slot i s out = (e, x) \<Longrightarrow> absent e \<Longrightarrow> slots s i = None"
    and write_slot_stored: "\<And>i x s e s'. i \<le> 1 \<Longrightarrow> write_slot i x s = (e, s') \<Longrightarrow>
          selector s' = selector s \<and> slots s' (i XOR 1) = slots s (i XOR 1) \<and> (e = ESP_OK \<longrightarrow> slots s' i = Some x)"
    and read_selector_stored: "\<And>s out k. read_selector s out = (ESP_OK, k) \<Longrightarrow> selector s = Some k"
    and read_selector_absent: "\<And>s out e k. read_selector s out = (e, k) \<Longrightarrow> absent e \<Longrightarrow> selector s = None"
    and write_selector_stored: "\<And>k s e s'. write_selector k s = (e, s') \<Longrightarrow>
          slots s' = slots s \<and> (selector s' = Some k \<or> e \<noteq> ESP_OK \<and> selector s' = selector s)"
begin

definition drv :: "'s security_driver" where
  "drv = \<lparr> sd_read_slot = Some read_slot, sd_write_slot = Some write_slot,
           sd_read_selector = Some read_selector, sd_write_selector = Some write_selector \<rparr>"

lemma drv_sel [simp]:
  "sd_read_slot drv = Some read_slot" "sd_write_slot drv = Some write_slot"
  "sd_read_selector drv = Some read_selector" "sd_write_selector drv = Some write_selector"
  by (simp_all add: drv_def)

text \<open>What start-up makes of the store, whichever reads fail.\<close>

definition read_error :: "'s \<Rightarrow> bool" where
  "read_error s \<longleftrightarrow> (\<exists>i e x. read_slot i s security_slot_zero = (e, x) \<and> e \<noteq> ESP_OK \<and> \<not> absent e)
     \<or> (\<exists>e k. read_selector s 0 = (e, k) \<and> e \<noteq> ESP_OK \<and> \<not> absent e)"

lemma read_valid:
  assumes "read_slot i s security_slot_zero = (e, x)" "\<not> (\<not> absent e \<and> e \<noteq> ESP_OK)"
  shows "(e = ESP_OK \<and> slot_current_valid x) = valid_cell (slots s i)" "e = ESP_OK \<Longrightarrow> slots s i = Some x"
    and "absent e \<Longrightarrow> slots s i = None"
proof -
  show ok: "e = ESP_OK \<Longrightarrow> slots s i = Some x" and ab: "absent e \<Longrightarrow> slots s i = None"
    using read_slot_stored read_slot_absent assms(1) by auto
  show "(e = ESP_OK \<and> slot_current_valid x) = valid_cell (slots s i)"
    using ok ab assms(2) by (auto simp: valid_cell_def absent_def split: option.splits)
qed

lemma choose_slot_anchored:
  fixes a b k s
  defines "c \<equiv> choose_slot (valid_cell (slots s 0)) (valid_cell (slots s 1)) a b k"
  assumes k: "k = 0 \<or> k = 1" "selector s = Some k"
    and a: "valid_cell (slots s 0) \<Longrightarrow> slots s 0 = Some a" and b: "valid_cell (slots s 1) \<Longrightarrow> slots s 1 = Some b"
    and some: "valid_cell (slots s 0) \<or> valid_cell (slots s 1)"
  shows "anchored (slots s) (selector s) c \<and> boot_slot (slots s) (selector s) = slots s (sk_active_slot c)"
proof (cases "valid_cell (slots s 0)")
  case True
  then have "slot_current_valid a" "slots s 0 = Some a" using a by (simp_all add: valid_cell_def)
  then show ?thesis
    using True k b by (cases "valid_cell (slots s 1)")
      (auto simp: c_def choose_slot_def anchored_def boot_slot_def Let_def valid_cell_def)
next
  case False
  then have "slot_current_valid b" "slots s 1 = Some b" "valid_cell (slots s 1)"
    using b some by (simp_all add: valid_cell_def)
  then show ?thesis
    using False k unfolding c_def
    by (elim disjE) (simp_all add: choose_slot_def anchored_def boot_slot_def Let_def)
qed

lemma core_init_result:
  assumes "argus_security_store_core_init drv core s = (e, c)"
  shows "e = ESP_OK
    \<and> (anchored (slots s) (selector s) c \<and> boot_slot (slots s) (selector s) = slots s (sk_active_slot c)
       \<or> sk_state c = STORE_UNAVAILABLE \<and> read_error s
       \<or> sk_state c \<in> dead_states \<and> \<not> bootable (slots s) (selector s)
       \<or> sk_state c = STORE_MISSING \<and> sk_generation c = 0 \<and> slots s 0 = None \<and> slots s 1 = None)"
proof -
  obtain ea a where a: "read_slot 0 s security_slot_zero = (ea, a)" by fastforce
  obtain eb b where b: "read_slot 1 s security_slot_zero = (eb, b)" by fastforce
  obtain es k where k: "read_selector s 0 = (es, k)" by fastforce
  note init = assms [unfolded argus_security_store_core_init_def, simplified, unfolded a b k, simplified Let_def prod.case]
  consider (fail) "(\<not> absent ea \<and> ea \<noteq> ESP_OK) \<or> (\<not> absent eb \<and> eb \<noteq> ESP_OK)"
    | (read) "\<not> (\<not> absent ea \<and> ea \<noteq> ESP_OK)" "\<not> (\<not> absent eb \<and> eb \<noteq> ESP_OK)" by blast
  then show ?thesis
  proof cases
    case fail
    then have "read_error s" using a b unfolding read_error_def by blast
    then show ?thesis using init fail by auto
  next
    case read
    note ra = read_valid [OF a read(1)] and rb = read_valid [OF b read(2)]
    have nf: "\<not> ((\<not> absent ea \<and> ea \<noteq> ESP_OK) \<or> (\<not> absent eb \<and> eb \<noteq> ESP_OK))" using read by blast
    note init2 = init [unfolded if_not_P [OF nf] ra(1) rb(1)]
    show ?thesis
    proof (cases "valid_cell (slots s 0) \<or> valid_cell (slots s 1)")
      case False
      then have "\<not> bootable (slots s) (selector s)" by (simp add: bootable_def)
      then show ?thesis
        using init2 False ra(3) rb(3) by (cases "absent ea \<and> absent eb") (auto simp: security_core_zero_def split: if_splits)
    next
      case True
      show ?thesis
      proof (cases "es \<noteq> ESP_OK \<or> k > 1")
        case bad: True
        then have "selector s = None \<or> (\<exists>j. selector s = Some j \<and> j > 1) \<or> \<not> absent es \<and> es \<noteq> ESP_OK"
          using read_selector_stored [of s 0 k] read_selector_absent [OF k] k by auto
        moreover have "\<not> absent es \<and> es \<noteq> ESP_OK \<Longrightarrow> read_error s" using k unfolding read_error_def by blast
        ultimately have "sk_state c = STORE_UNAVAILABLE \<and> read_error s \<or> sk_state c \<in> dead_states \<and> \<not> bootable (slots s) (selector s)"
          using init2 True bad by (cases "absent es \<or> es = ESP_OK") (auto simp: bootable_def)
        then show ?thesis using init2 True bad by (auto split: if_splits)
      next
        case False
        then have "k = 0 \<or> k = 1" and sel: "selector s = Some k"
          using read_selector_stored [of s 0 k] k slot_index_cases [of k] by auto
        moreover have "valid_cell (slots s 0) \<Longrightarrow> slots s 0 = Some a" "valid_cell (slots s 1) \<Longrightarrow> slots s 1 = Some b"
          using ra(1,2) rb(1,2) by blast+
        ultimately show ?thesis
          using init2 True False choose_slot_anchored [of k s a b] by auto
      qed
    qed
  qed
qed

text \<open>What a commit leaves in the store.\<close>

lemma core_commit_result:
  assumes "argus_security_store_core_commit drv p core s = (e, c, s')" "sk_active_slot core \<le> 1"
  shows "(e \<noteq> ESP_OK \<longrightarrow> c = core
        \<and> slots s' (commit_target core XOR 1) = slots s (commit_target core XOR 1)
        \<and> (selector s' = selector s \<or> selector s' = Some (commit_target core)
            \<and> slots s' (commit_target core) = Some (security_slot_of (next_generation_of core) p)
            \<and> argus_security_payload_valid p))
    \<and> (e = ESP_OK \<longrightarrow> anchored (slots s') (selector s') c \<and> sk_active c = p
        \<and> sk_active_slot c = commit_target core \<and> selector s' = Some (commit_target core))"
proof (cases "\<not> argus_security_payload_valid p \<or> sk_state core = STORE_CORRUPT
         \<or> sk_state core = STORE_UNSUPPORTED_VERSION \<or> sk_state core = STORE_UNAVAILABLE")
  case True
  then show ?thesis using assms by (simp add: argus_security_store_core_commit_def)
next
  case False
  let ?t = "commit_target core" and ?x = "security_slot_of (next_generation_of core) p"
  obtain e1 s1 where w: "write_slot ?t ?x s = (e1, s1)" by fastforce
  obtain e2 y where r: "read_slot ?t s1 security_slot_zero = (e2, y)" by fastforce
  obtain e3 s3 where z: "write_selector ?t s1 = (e3, s3)" by fastforce
  have t: "?t \<le> 1" "?t = 0 \<or> ?t = 1"
    using assms(2) by (auto simp: commit_target_def slot_xor slot_index_cases)
  have x: "slot_current_valid ?x" using False by (simp add: security_slot_of_valid)
  note run = assms(1) [unfolded argus_security_store_core_commit_def if_not_P [OF False], simplified,
      unfolded Let_def w prod.case r z]
  show ?thesis
    using run write_slot_stored [OF t(1) w] write_selector_stored [OF z] False t(2) x
    by (auto simp: anchored_def split: if_splits)
qed

lemma commit_anchored:
  assumes "anchored (slots s) (selector s) core" "argus_security_store_core_commit drv p core s = (e, c, s')"
  shows "anchored (slots s') (selector s') c"
proof -
  have a: "sk_active_slot core \<le> 1" "sk_generation core \<noteq> 0" using assms(1) by (auto simp: anchored_def slot_current_valid_def)
  have "commit_target core XOR 1 = sk_active_slot core" "commit_target core = 0 \<or> commit_target core = 1"
    using a by (auto simp: commit_target_def slot_index_cases)
  then show ?thesis
    using core_commit_result [OF assms(2) a(1)] assms(1) by (cases "e = ESP_OK") (auto simp: anchored_def)
qed

text \<open>From a store whose selector names the core's slot, a commit leaves the old or the new manifest.\<close>

lemma commit_boot_slot:
  assumes anch: "anchored (slots s) (selector s) core" and sel: "selector s = Some (sk_active_slot core)"
    and run: "argus_security_store_core_commit drv p core s = (e, c, s')"
    and boot: "boot_slot (slots s') (selector s') = Some x"
  shows "(ss_payload x = sk_active core \<or> ss_payload x = p) \<and> (e = ESP_OK \<longrightarrow> ss_payload x = p)"
proof -
  have a: "sk_active_slot core \<le> 1" "sk_generation core \<noteq> 0" using anch by (auto simp: anchored_def slot_current_valid_def)
  have t: "commit_target core = sk_active_slot core XOR 1" "commit_target core XOR 1 = sk_active_slot core"
    using a by (auto simp: commit_target_def slot_index_cases)
  obtain y where y: "slots s (sk_active_slot core) = Some y" "slot_current_valid y" "ss_payload y = sk_active core"
    using anch by (auto simp: anchored_def)
  have new: "argus_security_payload_valid p \<Longrightarrow> slot_current_valid (security_slot_of (next_generation_of core) p)"
    by (simp add: security_slot_of_valid)
  show ?thesis
    using core_commit_result [OF run a(1)] boot y new sel a(1) unfolding t
    by (cases "e = ESP_OK") (auto simp: boot_slot_def valid_cell_def anchored_def slot_index_cases)
qed

end

section \<open>The platform contract\<close>

text \<open>
  \<open>blobs\<close> and \<open>octets\<close> are the stored entries of the namespace. As ESP-IDF documents, a
  call that reports success has done its work, an absent entry or namespace is reported as
  such, and reads and opens store nothing. A setter that reports an error may have stored
  anything under its own key, for an octet the old or the new value.
\<close>

locale secure_nvs =
  fixes api :: "'n security_nvs"
    and blobs :: "'n \<Rightarrow> string \<Rightarrow> security_slot option"
    and octets :: "'n \<Rightarrow> string \<Rightarrow> u8 option"
  assumes open_keeps: "\<And>w s e s'. sv_open api w s = (e, s') \<Longrightarrow> blobs s' = blobs s \<and> octets s' = octets s"
    and open_absent: "\<And>w s k. absent (fst (sv_open api w s)) \<Longrightarrow> blobs s k = None \<and> octets s k = None"
    and get_blob_stored: "\<And>k s out x. sv_get_blob api k s out = (ESP_OK, x) \<Longrightarrow> blobs s k = Some x"
    and get_blob_absent: "\<And>k s out e x. sv_get_blob api k s out = (e, x) \<Longrightarrow> absent e \<Longrightarrow> blobs s k = None"
    and get_u8_stored: "\<And>k s out x. sv_get_u8 api k s out = (ESP_OK, x) \<Longrightarrow> octets s k = Some x"
    and get_u8_absent: "\<And>k s out e x. sv_get_u8 api k s out = (e, x) \<Longrightarrow> absent e \<Longrightarrow> octets s k = None"
    and set_blob_stored: "\<And>k x s e s'. sv_set_blob api k x s = (e, s') \<Longrightarrow> octets s' = octets s
          \<and> (\<exists>y. blobs s' = (blobs s)(k := y) \<and> (e = ESP_OK \<longrightarrow> y = Some x))"
    and set_u8_stored: "\<And>k x s e s'. sv_set_u8 api k x s = (e, s') \<Longrightarrow> blobs s' = blobs s
          \<and> (octets s' = (octets s)(k \<mapsto> x) \<or> e \<noteq> ESP_OK \<and> octets s' = octets s)"
    and commit_keeps: "\<And>s e s'. sv_commit api s = (e, s') \<Longrightarrow> blobs s' = blobs s \<and> octets s' = octets s"

abbreviation stored_slots :: "('n \<Rightarrow> string \<Rightarrow> security_slot option) \<Rightarrow> 'n \<Rightarrow> u8 \<Rightarrow> security_slot option" where
  "stored_slots blobs s \<equiv> \<lambda>i. blobs s (manifest_key i)"

abbreviation stored_selector :: "('n \<Rightarrow> string \<Rightarrow> u8 option) \<Rightarrow> 'n \<Rightarrow> u8 option" where
  "stored_selector octets s \<equiv> octets s MANIFEST_SELECTOR"

context secure_nvs
begin

lemma write_slot_cell:
  assumes "sec_write_slot api i x s = (e, s')"
  shows "octets s' = octets s \<and> (\<exists>y. blobs s' = (blobs s)(manifest_key i := y) \<and> (e = ESP_OK \<longrightarrow> y = Some x))"
proof -
  obtain e1 s1 where o: "sv_open api True s = (e1, s1)" by fastforce
  obtain e2 s2 where w: "sv_set_blob api (manifest_key i) x s1 = (e2, s2)" by fastforce
  obtain e3 s3 where c: "sv_commit api s2 = (e3, s3)" by fastforce
  show ?thesis
    using assms open_keeps [OF o] set_blob_stored [OF w] commit_keeps [OF c] o w c
    by (auto simp: sec_write_slot_def split: if_splits intro: fun_upd_triv [symmetric])
qed

lemma write_selector_cell:
  assumes "sec_write_selector api k s = (e, s')"
  shows "blobs s' = blobs s
    \<and> (stored_selector octets s' = Some k \<or> e \<noteq> ESP_OK \<and> stored_selector octets s' = stored_selector octets s)"
proof -
  obtain e1 s1 where o: "sv_open api True s = (e1, s1)" by fastforce
  obtain e2 s2 where w: "sv_set_u8 api MANIFEST_SELECTOR k s1 = (e2, s2)" by fastforce
  obtain e3 s3 where c: "sv_commit api s2 = (e3, s3)" by fastforce
  show ?thesis
    using assms open_keeps [OF o] set_u8_stored [OF w] commit_keeps [OF c] o w c
    by (auto simp: sec_write_selector_def split: if_splits)
qed

end

sublocale secure_nvs \<subseteq> manifest: manifest_driver
  "sec_read_slot api" "sec_write_slot api" "sec_read_selector api" "sec_write_selector api"
  "stored_slots blobs" "stored_selector octets"
proof
  show "sec_read_slot api i s out = (ESP_OK, x) \<Longrightarrow> blobs s (manifest_key i) = Some x" for i s out x
    using get_blob_stored by (auto simp: sec_read_slot_def Let_def split: if_splits)
  show "sec_read_slot api i s out = (e, x) \<Longrightarrow> absent e \<Longrightarrow> blobs s (manifest_key i) = None" for i s out e x
    using get_blob_absent open_absent by (auto simp: sec_read_slot_def Let_def split: if_splits)
  show "sec_read_selector api s out = (ESP_OK, k) \<Longrightarrow> stored_selector octets s = Some k" for s out k
    using get_u8_stored by (auto simp: sec_read_selector_def Let_def split: if_splits)
  show "sec_read_selector api s out = (e, k) \<Longrightarrow> absent e \<Longrightarrow> stored_selector octets s = None" for s out e k
    using get_u8_absent open_absent by (auto simp: sec_read_selector_def Let_def split: if_splits)
  show "i \<le> 1 \<Longrightarrow> sec_write_slot api i x s = (e, s') \<Longrightarrow>
      stored_selector octets s' = stored_selector octets s \<and> blobs s' (manifest_key (i XOR 1)) = blobs s (manifest_key (i XOR 1))
      \<and> (e = ESP_OK \<longrightarrow> blobs s' (manifest_key i) = Some x)" for i x s e s'
    using write_slot_cell [of i x s e s'] by (auto simp: slot_index_cases manifest_key_def)
  show "sec_write_selector api k s = (e, s') \<Longrightarrow> stored_slots blobs s' = stored_slots blobs s
      \<and> (stored_selector octets s' = Some k \<or> e \<noteq> ESP_OK \<and> stored_selector octets s' = stored_selector octets s)" for k s e s'
    using write_selector_cell [of k s e s'] by simp
qed

end
