(* ===== verification/Security_Runs.thy ===== *)
theory Security_Runs
  imports Security_Props
begin

text \<open>
  Runs of the security store's manager on a platform that behaves as documented: every
  order of start-ups, power cycles and updates, with any call failing. The invariant is that
  a manager that serves requests is anchored in the store; the properties of the store
  follow from it.
\<close>

section \<open>Runs\<close>

definition security_manager_zero :: security_manager where
  "security_manager_zero = \<lparr> sm_writer_core = security_core_zero, sm_snapshot = security_core_zero,
     sm_initialized = False, sm_encryption_enabled = False \<rparr>"

inductive security_step ::
  "'n security_nvs \<Rightarrow> security_manager \<times> 'n \<Rightarrow> security_manager \<times> 'n \<Rightarrow> bool" for api :: "'n security_nvs" where
  power_cycle: "security_step api (m, s) (security_manager_zero, s)"
| start: "argus_security_store_init p res (sec_prod_driver api) m s = (e, m', s') \<Longrightarrow> security_step api (m, s) (m', s')"
| bootstrap: "argus_security_store_bootstrap_ap_secrets q (sec_prod_driver api) secret m s = (e, m', s') \<Longrightarrow>
    security_step api (m, s) (m', s')"
| provision: "argus_security_store_provision_initial q (sec_prod_driver api) f a v m s = (e, m', s') \<Longrightarrow>
    security_step api (m, s) (m', s')"
| replace: "argus_security_store_replace_active_ap_secret q (sec_prod_driver api) c r m s = (e, m', s') \<Longrightarrow>
    security_step api (m, s) (m', s')"
| set_console: "argus_security_store_set_console_verifier q (sec_prod_driver api) v' allow m s = (e, m', s') \<Longrightarrow>
    security_step api (m, s) (m', s')"
| set_migration: "argus_security_store_set_migration_state q (sec_prod_driver api) x m s = (e, m', s') \<Longrightarrow>
    security_step api (m, s) (m', s')"
| set_recovery: "argus_security_store_set_recovery_state q (sec_prod_driver api) x m s = (e, m', s') \<Longrightarrow>
    security_step api (m, s) (m', s')"

text \<open>Every update is refused without effect or is one request to the writer.\<close>

definition refused_or_written ::
  "'s security_driver \<Rightarrow> security_manager \<Rightarrow> 's \<Rightarrow> security_manager \<Rightarrow> 's \<Rightarrow> bool" where
  "refused_or_written driver m s m' s' \<longleftrightarrow>
     (m' = m \<and> s' = s)
   \<or> (sm_initialized m \<and> (\<exists>p e. writer_task driver p (sk_generation (sm_snapshot m)) m s = (e, m', s')))"

lemma refused: "refused_or_written driver m s m s"
  by (simp add: refused_or_written_def)

lemma update_payload_effect:
  assumes "update_payload q driver change m s = (e, m', s')"
  shows "refused_or_written driver m s m' s'"
  using assms
  by (auto simp: update_payload_def snapshot_payload_def submit_payload_def refused_or_written_def
      split: if_splits sum.splits)

lemma updates_effect:
  "argus_security_store_bootstrap_ap_secrets q driver secret m s = (e, m', s') \<Longrightarrow> refused_or_written driver m s m' s'"
  "argus_security_store_provision_initial q driver f a v m s = (e, m', s') \<Longrightarrow> refused_or_written driver m s m' s'"
  "argus_security_store_replace_active_ap_secret q driver c r m s = (e, m', s') \<Longrightarrow> refused_or_written driver m s m' s'"
  "argus_security_store_set_console_verifier q driver v' allow m s = (e, m', s') \<Longrightarrow> refused_or_written driver m s m' s'"
  "argus_security_store_set_migration_state q driver x m s = (e, m', s') \<Longrightarrow> refused_or_written driver m s m' s'"
  "argus_security_store_set_recovery_state q driver x m s = (e, m', s') \<Longrightarrow> refused_or_written driver m s m' s'"
  unfolding argus_security_store_bootstrap_ap_secrets_def argus_security_store_provision_initial_def
    argus_security_store_replace_active_ap_secret_def argus_security_store_set_console_verifier_def
    argus_security_store_set_migration_state_def argus_security_store_set_recovery_state_def update_state_def
  by (auto intro: update_payload_effect refused split: option.splits if_splits)

lemma step_cases:
  assumes "security_step api (m, s) (m', s')"
  obtains "m' = security_manager_zero" "s' = s"
    | p res e where "argus_security_store_init p res (sec_prod_driver api) m s = (e, m', s')"
    | "refused_or_written (sec_prod_driver api) m s m' s'"
  using assms by cases (blast intro: updates_effect)+

section \<open>The invariant\<close>

definition manager_sound ::
  "(u8 \<Rightarrow> security_slot option) \<Rightarrow> u8 option \<Rightarrow> security_manager \<Rightarrow> bool" where
  "manager_sound slots selector m \<longleftrightarrow>
     (sm_initialized m \<longrightarrow> anchored slots selector (sm_writer_core m) \<and> sm_snapshot m = sm_writer_core m)"

lemma manager_zero_sound [simp]: "manager_sound slots selector security_manager_zero"
  by (simp add: manager_sound_def security_manager_zero_def)

context manifest_driver
begin

lemma init_uninitialised:
  assumes "argus_security_store_init p res drv m s = (e, m', s')" "\<not> sm_initialized m"
  shows "(s' = s \<or> slots s 0 = None \<and> slots s 1 = None)
    \<and> (sm_initialized m' \<longrightarrow> e = ESP_OK \<and> anchored (slots s') (selector s') (sm_writer_core m')
         \<and> sm_snapshot m' = sm_writer_core m')"
proof -
  obtain mx q t where res: "res = (mx, q, t)" by (metis prod_cases3)
  obtain e1 c where i: "argus_security_store_core_init drv (sm_writer_core m) s = (e1, c)" by fastforce
  obtain e2 c2 s2 where k: "argus_security_store_core_commit drv argus_security_store_default_payload c s = (e2, c2, s2)"
    by (metis prod_cases3)
  have commit: "sk_active_slot c \<le> 1 \<Longrightarrow> e2 = ESP_OK \<Longrightarrow> anchored (slots s2) (selector s2) c2"
    using core_commit_result [OF k] by blast
  have slot0: "sk_state c = STORE_MISSING \<Longrightarrow> sk_active_slot c \<le> 1"
    using i by (auto simp: argus_security_store_core_init_def choose_slot_def security_core_zero_def Let_def
        split: if_splits prod.splits)
  consider (missing) "sk_state c = STORE_MISSING" | (dead) "sk_state c \<in> dead_states"
    | (live) "anchored (slots s) (selector s) c"
    using core_init_result [OF i] by blast
  then show ?thesis
  proof cases
    case missing
    then have "slots s 0 = None" "slots s 1 = None"
      using core_init_result [OF i] anchored_live by (auto 0 2)
    then show ?thesis
      using assms missing commit [OF slot0 [OF missing]] i k
      by (auto simp: argus_security_store_init_def res Let_def split: if_splits)
  next
    case dead
    then show ?thesis
      using assms i by (auto simp: argus_security_store_init_def res Let_def split: if_splits)
  next
    case live
    then show ?thesis
      using assms i anchored_live [OF live]
      by (auto simp: argus_security_store_init_def res Let_def split: if_splits)
  qed
qed

lemma init_sound:
  assumes "argus_security_store_init p res drv m s = (e, m', s')" "manager_sound (slots s) (selector s) m"
  shows "manager_sound (slots s') (selector s') m'"
proof (cases "sm_initialized m")
  case True
  then show ?thesis using assms by (auto simp: argus_security_store_init_def split: prod.splits)
next
  case False
  then show ?thesis using init_uninitialised [OF assms(1)] by (simp add: manager_sound_def)
qed

lemma writer_sound:
  assumes "refused_or_written drv m s m' s'" "manager_sound (slots s) (selector s) m"
  shows "manager_sound (slots s') (selector s') m'"
  using assms(1) unfolding refused_or_written_def
proof (elim disjE conjE exE)
  fix p e assume run: "writer_task drv p (sk_generation (sm_snapshot m)) m s = (e, m', s')" and "sm_initialized m"
  then have a: "anchored (slots s) (selector s) (sm_writer_core m)" "sm_snapshot m = sm_writer_core m"
    using assms(2) by (auto simp: manager_sound_def)
  obtain e2 c s2 where k: "argus_security_store_core_commit drv p (sm_writer_core m) s = (e2, c, s2)"
    by (metis prod_cases3)
  have "e2 \<noteq> ESP_OK \<Longrightarrow> c = sm_writer_core m"
    using core_commit_result [OF k] a(1) by (simp add: anchored_def)
  then show ?thesis
    using run k a commit_anchored [OF a(1) k]
    by (auto simp: writer_task_def manager_sound_def split: if_splits)
qed (use assms(2) in simp)

lemma written_uninitialised:
  assumes "refused_or_written drv m s m' s'" "\<not> sm_initialized m"
  shows "m' = m \<and> s' = s"
  using assms by (simp add: refused_or_written_def)

text \<open>Reads that are answered from the store do not make it unavailable.\<close>

lemma core_init_available:
  assumes "\<And>i out. cell_read (slots s i) out (read_slot i s out)"
    and "\<And>out. cell_read (selector s) out (read_selector s out)"
    and "argus_security_store_core_init drv core s = (e, c)" "bootable (slots s) (selector s)"
  shows "anchored (slots s) (selector s) c \<and> boot_slot (slots s) (selector s) = slots s (sk_active_slot c)"
proof -
  have "\<not> read_error s"
    using cell_read_result assms(1,2) unfolding read_error_def absent_def by metis
  moreover have "\<not> (slots s 0 = None \<and> slots s 1 = None)"
    using assms(4) by (auto simp: bootable_def valid_cell_def)
  ultimately show ?thesis
    using core_init_result [OF assms(3)] assms(4) by blast
qed

end

section \<open>On a conforming platform\<close>

text \<open>A flash that answers every read with the stored entry.\<close>

definition manifest_readable ::
  "'n security_nvs \<Rightarrow> ('n \<Rightarrow> string \<Rightarrow> security_slot option) \<Rightarrow> ('n \<Rightarrow> string \<Rightarrow> u8 option) \<Rightarrow> 'n \<Rightarrow> bool" where
  "manifest_readable api blobs octets s \<longleftrightarrow>
     fst (sv_open api False s) = ESP_OK
     \<and> (\<forall>k out. cell_read (blobs s k) out (sv_get_blob api k s out))
     \<and> (\<forall>k out. cell_read (octets s k) out (sv_get_u8 api k s out))"

definition partition_up :: partition_answers where
  "partition_up = \<lparr> pa_found = True, pa_read_keys = ESP_OK, pa_store_blank = False, pa_generate_keys = ESP_OK,
     pa_secure_init = ESP_OK \<rparr>"

context secure_nvs
begin

lemma prod_drv: "sec_prod_driver api = manifest.drv"
  by (simp add: sec_prod_driver_def manifest.drv_def)

abbreviation sound :: "security_manager \<Rightarrow> 'n \<Rightarrow> bool" where
  "sound m s \<equiv> manager_sound (stored_slots blobs s) (stored_selector octets s) m"

lemma step_sound:
  assumes "security_step api (m, s) (m', s')" "sound m s"
  shows "sound m' s'"
  using assms(1)
proof (cases rule: step_cases)
  case 1
  then show ?thesis by simp
next
  case 2
  then show ?thesis using manifest.init_sound assms(2) unfolding prod_drv by blast
next
  case 3
  then show ?thesis using manifest.writer_sound assms(2) unfolding prod_drv by blast
qed

lemma steps_sound:
  assumes "(security_step api)\<^sup>*\<^sup>* (m, s) (m', s')" "sound m s"
  shows "sound m' s'"
  using assms by (induction rule: rtranclp_induct2) (auto intro: step_sound)

text \<open>A store with a valid slot and no usable selector stays as it is, and the manager down.\<close>

definition stranded :: "security_manager \<Rightarrow> 'n \<Rightarrow> bool" where
  "stranded m s \<longleftrightarrow> \<not> sm_initialized m \<and> (blobs s (manifest_key 0) \<noteq> None \<or> blobs s (manifest_key 1) \<noteq> None)
     \<and> stored_selector octets s = None"

lemma step_stranded:
  assumes "security_step api (m, s) (m', s')" "stranded m s"
  shows "stranded m' s' \<and> s' = s"
  using assms(1)
proof (cases rule: step_cases)
  case 1
  then show ?thesis using assms(2) by (simp add: stranded_def security_manager_zero_def)
next
  case (2 p res e)
  then show ?thesis
    using manifest.init_uninitialised [of p res m s e m' s'] assms(2) unfolding prod_drv
    by (auto simp: stranded_def anchored_def)
next
  case 3
  then show ?thesis using manifest.written_uninitialised [of m s m' s'] assms(2) unfolding prod_drv
    by (auto simp: stranded_def)
qed

lemma steps_stranded:
  assumes "(security_step api)\<^sup>*\<^sup>* (m, s) (m', s')" "stranded m s"
  shows "stranded m' s' \<and> s' = s"
  using assms by (induction rule: rtranclp_induct2) (auto dest: step_stranded)

lemma readable_start:
  assumes "manifest_readable api blobs octets s" "bootable (stored_slots blobs s) (stored_selector octets s)"
    and "argus_security_store_init partition_up (True, True, True) (sec_prod_driver api) security_manager_zero s = (e, m, s')"
  shows "e = ESP_OK \<and> sm_initialized m \<and> s' = s \<and> anchored (stored_slots blobs s) (stored_selector octets s) (sm_snapshot m)
    \<and> boot_slot (stored_slots blobs s) (stored_selector octets s) = blobs s (manifest_key (sk_active_slot (sm_snapshot m)))"
proof -
  obtain e1 c where i: "argus_security_store_core_init (sec_prod_driver api) security_core_zero s = (e1, c)" by fastforce
  have "anchored (stored_slots blobs s) (stored_selector octets s) c
      \<and> boot_slot (stored_slots blobs s) (stored_selector octets s) = blobs s (manifest_key (sk_active_slot c))"
    using assms(1,2) i unfolding prod_drv
    by (intro manifest.core_init_available [of s security_core_zero e1])
      (auto simp: manifest_readable_def sec_read_slot_def sec_read_selector_def Let_def)
  moreover have "e1 = ESP_OK" using manifest.core_init_result i unfolding prod_drv by blast
  ultimately show ?thesis
    using assms(3) i anchored_live [of "stored_slots blobs s" "stored_selector octets s" c]
    by (auto simp: argus_security_store_init_def initialize_encrypted_partition_def partition_up_def
        security_manager_zero_def Let_def)
qed

lemma submit_boot:
  assumes up: "sm_initialized m" "sound m s"
    and sel: "stored_selector octets s = Some (sk_active_slot (sm_writer_core m))"
    and run: "submit_payload queue_ok (sec_prod_driver api) p g m s = (err, m', s')"
  shows "bootable (stored_slots blobs s') (stored_selector octets s')
    \<and> (\<forall>x. boot_slot (stored_slots blobs s') (stored_selector octets s') = Some x \<longrightarrow>
          (ss_payload x = sk_active (sm_snapshot m) \<or> ss_payload x = p) \<and> (err = ESP_OK \<longrightarrow> ss_payload x = p))"
proof (cases "queue_ok \<and> g = sk_generation (sm_writer_core m)")
  case True
  have a: "anchored (stored_slots blobs s) (stored_selector octets s) (sm_writer_core m)" "sm_snapshot m = sm_writer_core m"
    using up by (auto simp: manager_sound_def)
  obtain c where k: "argus_security_store_core_commit manifest.drv p (sm_writer_core m) s = (err, c, s')"
    using run True unfolding prod_drv by (auto simp: submit_payload_def writer_task_def split: prod.splits)
  show ?thesis
    using manifest.commit_anchored [OF a(1) k] manifest.commit_boot_slot [OF a(1) sel k] a(2) anchored_bootable by auto
next
  case False
  then have "err \<noteq> ESP_OK" "s' = s" using run by (auto simp: submit_payload_def writer_task_def split: if_splits)
  then show ?thesis
    using up sel by (auto simp: manager_sound_def boot_slot_def valid_cell_def bootable_def anchored_def slot_index_cases
        split: option.splits)
qed

end

section \<open>An in-memory flash\<close>

record manifest_cells =
  mc_blobs :: "string \<Rightarrow> security_slot option"
  mc_octets :: "string \<Rightarrow> u8 option"
  mc_broken :: "string option"

definition cells_api :: "manifest_cells security_nvs" where
  "cells_api =
     \<lparr> sv_open = (\<lambda>w s. (ESP_OK, s)),
       sv_get_blob = (\<lambda>k s out. case mc_blobs s k of Some x \<Rightarrow> (ESP_OK, x) | None \<Rightarrow> (ESP_ERR_NVS_NOT_FOUND, out)),
       sv_set_blob = (\<lambda>k x s. if mc_broken s = Some k then (ESP_FAIL, s)
          else (ESP_OK, s\<lparr> mc_blobs := (mc_blobs s)(k \<mapsto> x) \<rparr>)),
       sv_get_u8 = (\<lambda>k s out. case mc_octets s k of Some x \<Rightarrow> (ESP_OK, x) | None \<Rightarrow> (ESP_ERR_NVS_NOT_FOUND, out)),
       sv_set_u8 = (\<lambda>k x s. if mc_broken s = Some k then (ESP_FAIL, s)
          else (ESP_OK, s\<lparr> mc_octets := (mc_octets s)(k \<mapsto> x) \<rparr>)),
       sv_commit = (\<lambda>s. (ESP_OK, s)) \<rparr>"

interpretation cells: secure_nvs cells_api mc_blobs mc_octets
  by unfold_locales (auto simp: cells_api_def absent_def split: option.splits if_splits intro: fun_upd_triv [symmetric])

lemma cells_readable: "manifest_readable cells_api mc_blobs mc_octets s"
  by (simp add: manifest_readable_def cells_api_def cell_read_def split: option.splits)

lemma default_payload_valid: "argus_security_payload_valid argus_security_store_default_payload"
  by code_simp

definition default_core :: security_core where
  "default_core = \<lparr> sk_active = argus_security_store_default_payload, sk_generation = 1, sk_active_slot = 0,
     sk_state = STORE_UNPROVISIONED, sk_redundancy_degraded = True \<rparr>"

definition default_manager :: security_manager where
  "default_manager = \<lparr> sm_writer_core = default_core, sm_snapshot = default_core, sm_initialized = True,
     sm_encryption_enabled = True \<rparr>"

definition blank_cells :: "string option \<Rightarrow> manifest_cells" where
  "blank_cells broken = \<lparr> mc_blobs = Map.empty, mc_octets = Map.empty, mc_broken = broken \<rparr>"

definition default_cells :: "string option \<Rightarrow> manifest_cells" where
  "default_cells broken = \<lparr> mc_blobs = [manifest_key 0 \<mapsto> security_slot_of 1 argus_security_store_default_payload],
     mc_octets = [MANIFEST_SELECTOR \<mapsto> 0], mc_broken = broken \<rparr>"

lemma default_unprovisioned:
  "provisioned_state argus_security_store_default_payload = STORE_UNPROVISIONED"
  by (simp add: provisioned_state_def argus_security_store_default_payload_def ap_empty_def)

lemma default_sound:
  "manager_sound (stored_slots mc_blobs (default_cells b)) (stored_selector mc_octets (default_cells b)) default_manager"
  using default_payload_valid default_unprovisioned
  by (simp add: manager_sound_def default_manager_def anchored_def default_core_def default_cells_def
      security_slot_of_valid)

text \<open>The first start-up on this flash, with and without a failing selector write.\<close>

lemma cells_driver:
  "sec_read_slot cells_api i s out =
     (case mc_blobs s (manifest_key i) of Some x \<Rightarrow> (ESP_OK, x) | None \<Rightarrow> (ESP_ERR_NVS_NOT_FOUND, out))"
  "sec_write_slot cells_api i x s = (if mc_broken s = Some (manifest_key i) then (ESP_FAIL, s)
     else (ESP_OK, s\<lparr> mc_blobs := (mc_blobs s)(manifest_key i \<mapsto> x) \<rparr>))"
  "sec_write_selector cells_api k s = (if mc_broken s = Some MANIFEST_SELECTOR then (ESP_FAIL, s)
     else (ESP_OK, s\<lparr> mc_octets := (mc_octets s)(MANIFEST_SELECTOR \<mapsto> k) \<rparr>))"
  by (simp_all add: cells_api_def sec_read_slot_def sec_write_slot_def sec_write_selector_def Let_def)

lemma cells_first_start:
  "argus_security_store_init partition_up (True, True, True) (sec_prod_driver cells_api) security_manager_zero (blank_cells None)
     = (ESP_OK, default_manager, default_cells None)"
  "fst (argus_security_store_init partition_up (True, True, True) (sec_prod_driver cells_api) security_manager_zero
     (blank_cells (Some MANIFEST_SELECTOR))) = ESP_FAIL"
  "snd (snd (argus_security_store_init partition_up (True, True, True) (sec_prod_driver cells_api) security_manager_zero
     (blank_cells (Some MANIFEST_SELECTOR)))) = (default_cells (Some MANIFEST_SELECTOR))\<lparr> mc_octets := Map.empty \<rparr>"
  using default_payload_valid default_unprovisioned
    security_slot_of_valid [of argus_security_store_default_payload 1]
  by (simp_all add: argus_security_store_init_def initialize_encrypted_partition_def partition_up_def
      security_manager_zero_def security_core_zero_def argus_security_store_core_init_def sec_prod_driver_def
      cells_driver blank_cells_def absent_def argus_security_store_core_commit_def commit_target_def
      next_generation_of_def default_cells_def default_manager_def default_core_def manifest_key_def Let_def)

section \<open>Properties\<close>

text \<open>
  C29: An update of the security manifest survives every failed write and every power loss.
  On every platform that behaves as documented, when the manager serves the manifest that
  the selector names, then whatever the update returns and wherever it stopped, also inside
  a write that left garbage in the slot it was writing, the next start-up with a readable
  store succeeds, stores nothing, and serves the manifest from before or the new one; and
  when the update reported success it serves the new one.
\<close>

theorem security_update_power_safe:
  assumes platform: "secure_nvs api blobs octets"
    and up: "sm_initialized m" "manager_sound (stored_slots blobs s) (stored_selector octets s) m"
    and sel: "stored_selector octets s = Some (sk_active_slot (sm_writer_core m))"
    and run: "submit_payload queue_ok (sec_prod_driver api) p g m s = (err, m', s')"
    and readable: "manifest_readable api blobs octets s'"
    and restart: "argus_security_store_init partition_up (True, True, True) (sec_prod_driver api) security_manager_zero s'
                    = (e, m2, s2)"
  shows "e = ESP_OK \<and> sm_initialized m2 \<and> s2 = s' \<and> argus_security_payload_valid (sk_active (sm_snapshot m2))
    \<and> (sk_active (sm_snapshot m2) = sk_active (sm_snapshot m) \<or> sk_active (sm_snapshot m2) = p)
    \<and> (err = ESP_OK \<longrightarrow> sk_active (sm_snapshot m2) = p)"
proof -
  have boot: "bootable (stored_slots blobs s') (stored_selector octets s')"
    and x: "\<And>x. boot_slot (stored_slots blobs s') (stored_selector octets s') = Some x \<Longrightarrow>
      (ss_payload x = sk_active (sm_snapshot m) \<or> ss_payload x = p) \<and> (err = ESP_OK \<longrightarrow> ss_payload x = p)"
    using secure_nvs.submit_boot [OF platform up sel run] by auto
  have up2: "e = ESP_OK \<and> sm_initialized m2 \<and> s2 = s'"
    and a: "anchored (stored_slots blobs s') (stored_selector octets s') (sm_snapshot m2)"
    and b: "boot_slot (stored_slots blobs s') (stored_selector octets s') = blobs s' (manifest_key (sk_active_slot (sm_snapshot m2)))"
    using secure_nvs.readable_start [OF platform readable boot restart] by auto
  obtain y where y: "blobs s' (manifest_key (sk_active_slot (sm_snapshot m2))) = Some y"
      "ss_payload y = sk_active (sm_snapshot m2)"
    using a by (auto simp: anchored_def)
  show ?thesis using up2 anchored_valid(1) [OF a] x [of y] b y by simp
qed

text \<open>An update of the manifest that changes the migration state.\<close>

definition migrated_payload :: security_payload where
  "migrated_payload = argus_security_store_default_payload\<lparr> sp_migration_state := 1, sp_security_epoch := 2 \<rparr>"

theorem security_update_power_safe_witness:
  "\<exists>err m' s' e m2 s2.
     submit_payload True (sec_prod_driver cells_api) migrated_payload 1 default_manager (default_cells (Some MANIFEST_SELECTOR))
       = (err, m', s')
   \<and> argus_security_store_init partition_up (True, True, True) (sec_prod_driver cells_api) security_manager_zero s' = (e, m2, s2)
   \<and> e = ESP_OK \<and> argus_security_payload_valid (sk_active (sm_snapshot m2))"
proof -
  obtain err m' s' where run: "submit_payload True (sec_prod_driver cells_api) migrated_payload 1 default_manager
      (default_cells (Some MANIFEST_SELECTOR)) = (err, m', s')" by (metis prod_cases3)
  obtain e m2 s2 where restart: "argus_security_store_init partition_up (True, True, True) (sec_prod_driver cells_api)
      security_manager_zero s' = (e, m2, s2)" by (metis prod_cases3)
  have "sm_initialized default_manager"
      "stored_selector mc_octets (default_cells (Some MANIFEST_SELECTOR)) = Some (sk_active_slot (sm_writer_core default_manager))"
    by (simp_all add: default_manager_def default_core_def default_cells_def)
  then show ?thesis
    using security_update_power_safe [OF cells.secure_nvs_axioms _ default_sound _ run cells_readable restart] run restart
    by blast
qed

text \<open>
  The security store fails closed and recovers. Whatever the order of start-ups, power
  cycles and updates, and whichever calls fail, a manager that serves requests serves a
  manifest that is valid, is marked ready only when both access-point secrets are
  provisioned, and is exactly what its slot in the flash holds under a non-zero generation;
  and from then on a start-up with a readable store succeeds with a valid manifest.
\<close>

theorem security_runs_sound:
  assumes platform: "secure_nvs api blobs octets"
    and run: "(security_step api)\<^sup>*\<^sup>* (security_manager_zero, s0) (m, s)"
    and up: "sm_initialized m"
  shows "let c = sm_snapshot m; x = blobs s (manifest_key (sk_active_slot c)) in
      argus_security_payload_valid (sk_active c)
    \<and> (sk_state c = STORE_READY \<longleftrightarrow> ap_provisioned (sp_factory_ap (sk_active c)) \<noteq> 0
                                  \<and> ap_provisioned (sp_active_ap (sk_active c)) \<noteq> 0)
    \<and> map_option ss_payload x = Some (sk_active c) \<and> map_option ss_generation x = Some (sk_generation c)
    \<and> sk_generation c \<noteq> 0
    \<and> (\<forall>e m2 s2. manifest_readable api blobs octets s \<longrightarrow>
          argus_security_store_init partition_up (True, True, True) (sec_prod_driver api) security_manager_zero s = (e, m2, s2) \<longrightarrow>
          e = ESP_OK \<and> sm_initialized m2 \<and> argus_security_payload_valid (sk_active (sm_snapshot m2)))"
proof -
  have a: "anchored (stored_slots blobs s) (stored_selector octets s) (sm_snapshot m)"
    using secure_nvs.steps_sound [OF platform run manager_zero_sound] up by (simp add: manager_sound_def)
  note v = anchored_valid [OF a]
  have boot: "e = ESP_OK \<and> sm_initialized m2 \<and> argus_security_payload_valid (sk_active (sm_snapshot m2))"
    if "manifest_readable api blobs octets s"
      "argus_security_store_init partition_up (True, True, True) (sec_prod_driver api) security_manager_zero s = (e, m2, s2)"
    for e m2 s2
    using secure_nvs.readable_start [OF platform that(1) anchored_bootable [OF a] that(2)] anchored_valid(1) by blast
  show ?thesis
    using a v boot by (auto simp: anchored_def provisioned_state_def Let_def)
qed

theorem security_runs_sound_witness:
  "\<exists>s. (security_step cells_api)\<^sup>*\<^sup>* (security_manager_zero, blank_cells None) (default_manager, s)
     \<and> argus_security_payload_valid (sk_active (sm_snapshot default_manager)) \<and> sk_generation (sm_snapshot default_manager) \<noteq> 0"
proof -
  have run: "(security_step cells_api)\<^sup>*\<^sup>* (security_manager_zero, blank_cells None) (default_manager, default_cells None)"
    by (intro r_into_rtranclp security_step.start) (rule cells_first_start(1))
  have "sm_initialized default_manager" by (simp add: default_manager_def)
  then show ?thesis
    using security_runs_sound [OF cells.secure_nvs_axioms run] run by (auto simp: Let_def)
qed

text \<open>
  A first start-up that is interrupted strands the store. When the first start-up wrote
  the manifest into its slot and failed or lost power before the selector was stored, no
  later start-up and no operation ever brings the manager up again, and none changes the
  store: the missing selector is classified as corruption.
\<close>

theorem interrupted_first_start_strands:
  assumes platform: "secure_nvs api blobs octets"
    and first: "argus_security_store_init part res (sec_prod_driver api) security_manager_zero s0 = (err, m1, s1)"
    and interrupted: "blobs s1 (manifest_key 0) \<noteq> None" "stored_selector octets s1 = None"
    and later: "(security_step api)\<^sup>*\<^sup>* (security_manager_zero, s1) (m, s)"
  shows "\<not> sm_initialized m1 \<and> \<not> sm_initialized m \<and> s = s1"
proof -
  have "secure_nvs.stranded blobs octets security_manager_zero s1"
    using interrupted by (simp add: secure_nvs.stranded_def [OF platform] security_manager_zero_def)
  moreover have "manager_sound (stored_slots blobs s1) (stored_selector octets s1) m1"
    using secure_nvs.step_sound [OF platform security_step.start [OF first]] by simp
  ultimately show ?thesis
    using secure_nvs.steps_stranded [OF platform later] interrupted(2)
    by (auto simp: secure_nvs.stranded_def [OF platform] manager_sound_def anchored_def)
qed

theorem interrupted_first_start_strands_witness:
  "\<exists>m1 s1 m. argus_security_store_init partition_up (True, True, True) (sec_prod_driver cells_api) security_manager_zero
       (blank_cells (Some MANIFEST_SELECTOR)) = (ESP_FAIL, m1, s1)
   \<and> security_step cells_api (security_manager_zero, s1) (m, s1) \<and> \<not> sm_initialized m"
proof -
  obtain m1 s1 where first: "argus_security_store_init partition_up (True, True, True) (sec_prod_driver cells_api)
      security_manager_zero (blank_cells (Some MANIFEST_SELECTOR)) = (ESP_FAIL, m1, s1)"
    and s1: "s1 = (default_cells (Some MANIFEST_SELECTOR))\<lparr> mc_octets := Map.empty \<rparr>"
    using cells_first_start(2,3) by (metis prod.collapse)
  obtain e m s where again: "argus_security_store_init partition_up (True, True, True) (sec_prod_driver cells_api)
      security_manager_zero s1 = (e, m, s)" by (metis prod_cases3)
  note step = security_step.start [OF again]
  have "mc_blobs s1 (manifest_key 0) \<noteq> None" "stored_selector mc_octets s1 = None"
    by (simp_all add: s1 default_cells_def)
  then show ?thesis
    using interrupted_first_start_strands [OF cells.secure_nvs_axioms first _ _ r_into_rtranclp [of "security_step cells_api", OF step]] first step
    by blast
qed

end
