(* ===== verification/Mqtt_Wire.thy ===== *)
theory Mqtt_Wire
  imports Argus_Prelude
begin

text \<open>
  The wire level of the MQTT broker (\<open>argus_mqtt_broker.c\<close>): reading from a socket, the
  remaining-length field, the length-prefixed fields, the CONNECT packet, topic filters and
  the PUBLISH packet that the broker sends.

  A socket is the sequence of what its \<open>recv\<close> calls meet: bytes that have arrived, a
  timeout, or the end of the connection. Offsets into a packet stay below
  \<open>1024 + 2 + 65535\<close>, so they are natural numbers.
\<close>

section \<open>Reading from a socket\<close>

datatype recv_event =
    Chunk "u8 list"
  | Again
  | Closed
  | Failed

abbreviation (input) PARTIAL_READ_POLLS :: nat where "PARTIAL_READ_POLLS \<equiv> 8"
abbreviation (input) MAX_PACKET_LEN :: nat where "MAX_PACKET_LEN \<equiv> 1024"
abbreviation (input) TOPIC_CAP :: nat where "TOPIC_CAP \<equiv> 160"
abbreviation (input) PAYLOAD_CAP :: nat where "PAYLOAD_CAP \<equiv> 385"
abbreviation (input) CLIENT_ID_CAP :: nat where "CLIENT_ID_CAP \<equiv> 33"
abbreviation (input) USERNAME_CAP :: nat where "USERNAME_CAP \<equiv> 37"
abbreviation (input) PASSWORD_CAP :: nat where "PASSWORD_CAP \<equiv> 129"

text \<open>
  The bytes a call leaves behind stay in front of the queue. A queue that has run out is a
  silent peer: every further call times out.
\<close>

definition leave :: "u8 list \<Rightarrow> recv_event list \<Rightarrow> recv_event list" where
  "leave rest es = (if rest = [] then es else Chunk rest # es)"

fun argus_mqtt_read_exact ::
  "nat \<Rightarrow> nat \<Rightarrow> u8 list \<Rightarrow> recv_event list \<Rightarrow> int \<times> u8 list \<times> recv_event list" where
  "argus_mqtt_read_exact n idle_polls got [] = (if n = 0 then (int (length got), got, []) else (-1, got, []))"
| "argus_mqtt_read_exact n idle_polls got (e # es) =
     (if n = 0 then (int (length got), got, e # es)
      else case e of
        Again \<Rightarrow> if idle_polls + 1 > PARTIAL_READ_POLLS then (-1, got, es)
                 else argus_mqtt_read_exact n (idle_polls + 1) got es
      | Closed \<Rightarrow> (0, got, e # es)
      | Failed \<Rightarrow> (-1, got, e # es)
      | Chunk c \<Rightarrow>
          if c = [] then (0, got, e # es)
          else if length c < n then argus_mqtt_read_exact (n - length c) 0 (got @ c) es
          else (int (length got + n), got @ take n c, leave (drop n c) es))"

text \<open>\<open>i\<close> is the number of length bytes left to read.\<close>

fun decode_length ::
  "nat \<Rightarrow> u32 \<Rightarrow> u32 \<Rightarrow> recv_event list \<Rightarrow> int \<times> u32 option \<times> recv_event list" where
  "decode_length 0 multiplier v es = (-1, None, es)"
| "decode_length (Suc i) multiplier v es =
     (case argus_mqtt_read_exact 1 0 [] es of
        (got, bytes, es') \<Rightarrow>
          if got \<le> 0 then (got, None, es')
          else (let encoded = hd bytes; v' = v + ucast (encoded AND 127) * multiplier in
                if encoded AND 128 = 0 then (1, Some v', es')
                else decode_length i (multiplier * 128) v' es'))"

definition argus_mqtt_decode_remaining_length ::
  "recv_event list \<Rightarrow> int \<times> u32 option \<times> recv_event list" where
  "argus_mqtt_decode_remaining_length es = decode_length 4 1 0 es"

text \<open>\<open>room\<close> is the number of bytes that may still be written.\<close>

fun encode_length :: "nat \<Rightarrow> u32 \<Rightarrow> u8 list" where
  "encode_length 0 len = []"
| "encode_length (Suc room) len =
     (let encoded = ucast (len mod 128); len' = len div 128 in
      if len' > 0 then (encoded OR 128) # encode_length room len' else [encoded])"

definition argus_mqtt_encode_remaining_length :: "u32 \<Rightarrow> u8 list" where
  "argus_mqtt_encode_remaining_length len = encode_length 4 len"

section \<open>Fields of a packet\<close>

definition argus_mqtt_read_u16 :: "u8 list \<Rightarrow> nat \<Rightarrow> (u16 \<times> nat) option" where
  "argus_mqtt_read_u16 packet offset =
     (if offset + 2 > length packet then None
      else Some (push_bit 8 (ucast (packet ! offset)) OR ucast (packet ! (offset + 1)), offset + 2))"

definition argus_mqtt_read_string :: "u8 list \<Rightarrow> nat \<Rightarrow> nat \<Rightarrow> (u8 list \<times> nat) option" where
  "argus_mqtt_read_string packet offset out_len =
     (case argus_mqtt_read_u16 packet offset of
        None \<Rightarrow> None
      | Some (string_len, off) \<Rightarrow>
          if off + unat string_len > length packet \<or> out_len = 0 \<or> unat string_len \<ge> out_len then None
          else Some (take (unat string_len) (drop off packet), off + unat string_len))"

definition argus_mqtt_read_binary :: "u8 list \<Rightarrow> nat \<Rightarrow> nat \<Rightarrow> (u8 list \<times> nat) option" where
  "argus_mqtt_read_binary packet offset capacity =
     (if offset + 2 > length packet then None
      else
        (let field_length = 256 * unat (packet ! offset) + unat (packet ! (offset + 1)); off = offset + 2
         in if field_length \<ge> capacity \<or> off + field_length > length packet then None
            else Some (take field_length (drop off packet), off + field_length)))"

section \<open>CONNECT\<close>

datatype connect_parse_result =
    PARSE_OK
  | PARSE_MALFORMED
  | PARSE_PROTOCOL
  | PARSE_FLAGS
  | PARSE_CLIENT_ID
  | PARSE_CREDENTIALS
  | PARSE_TOO_LARGE

record connect_request =
  cr_client_id :: "u8 list"
  cr_username :: "u8 list"
  cr_password :: "u8 list"
  cr_keep_alive_s :: u16

definition request_zero :: connect_request where
  "request_zero = \<lparr> cr_client_id = [], cr_username = [], cr_password = [], cr_keep_alive_s = 0 \<rparr>"

definition MQTT_NAME :: "u8 list" where
  "MQTT_NAME = [77, 81, 84, 84]"

definition connect_flags_ok :: "u8 \<Rightarrow> bool" where
  "connect_flags_ok flags \<longleftrightarrow>
     \<not> (flags AND 0x01 \<noteq> 0 \<or> \<not> flags AND 0x02 \<noteq> 0 \<or> flags AND 0x04 \<noteq> 0 \<or> flags AND 0x20 \<noteq> 0
        \<or> drop_bit 3 flags AND 0x03 \<noteq> 0 \<or> \<not> flags AND 0x80 \<noteq> 0 \<or> \<not> flags AND 0x40 \<noteq> 0)"

text \<open>A field that must be present, not empty and free of zero bytes.\<close>

definition text_field :: "u8 list \<Rightarrow> nat \<Rightarrow> nat \<Rightarrow> (u8 list \<times> nat) option" where
  "text_field packet offset capacity =
     (case argus_mqtt_read_binary packet offset capacity of
        None \<Rightarrow> None
      | Some (field, off) \<Rightarrow> if length field = 0 \<or> 0 \<in> set field then None else Some (field, off))"

definition parse_protocol :: "u8 list \<Rightarrow> (u8 \<times> u16 \<times> nat) option" where
  "parse_protocol packet =
     (case argus_mqtt_read_binary packet 0 8 of
        None \<Rightarrow> None
      | Some (protocol, off) \<Rightarrow>
          if length protocol \<noteq> 4 \<or> protocol \<noteq> MQTT_NAME \<or> off + 4 > length packet \<or> packet ! off \<noteq> 4 then None
          else Some (packet ! (off + 1),
                     push_bit 8 (ucast (packet ! (off + 2))) OR ucast (packet ! (off + 3)), off + 4))"

definition argus_mqtt_broker_parse_connect ::
  "u8 list option \<Rightarrow> connect_request \<Rightarrow> connect_parse_result \<times> connect_request" where
  "argus_mqtt_broker_parse_connect in_packet out =
     (case in_packet of
        None \<Rightarrow> (PARSE_MALFORMED, out)
      | Some packet \<Rightarrow>
          if length packet = 0 \<or> length packet > MAX_PACKET_LEN then (PARSE_MALFORMED, out)
          else
            (case parse_protocol packet of
               None \<Rightarrow> (PARSE_PROTOCOL, request_zero)
             | Some (flags, keep_alive, off) \<Rightarrow>
                 (let out1 = request_zero\<lparr> cr_keep_alive_s := keep_alive \<rparr> in
                  if \<not> connect_flags_ok flags then (PARSE_FLAGS, out1)
                  else
                    (case text_field packet off CLIENT_ID_CAP of
                       None \<Rightarrow> (PARSE_CLIENT_ID, out1)
                     | Some (client_id, off2) \<Rightarrow>
                         (case text_field packet off2 USERNAME_CAP of
                            None \<Rightarrow> (PARSE_CREDENTIALS, request_zero)
                          | Some (username, off3) \<Rightarrow>
                              (case text_field packet off3 PASSWORD_CAP of
                                 None \<Rightarrow> (PARSE_CREDENTIALS, request_zero)
                               | Some (password, off4) \<Rightarrow>
                                   if off4 \<noteq> length packet then (PARSE_MALFORMED, request_zero)
                                   else (PARSE_OK, \<lparr> cr_client_id = client_id, cr_username = username,
                                           cr_password = password, cr_keep_alive_s = keep_alive \<rparr>)))))))"

section \<open>Topics\<close>

text \<open>Topics and filters are C strings: their bytes before the terminator.\<close>

abbreviation (input) B_SLASH :: u8 where "B_SLASH \<equiv> 47"
abbreviation (input) B_PLUS :: u8 where "B_PLUS \<equiv> 43"
abbreviation (input) B_HASH :: u8 where "B_HASH \<equiv> 35"

fun argus_mqtt_topic_matches :: "u8 list \<Rightarrow> u8 list \<Rightarrow> bool" where
  "argus_mqtt_topic_matches [] topic = (topic = [])"
| "argus_mqtt_topic_matches (f # fs) [] = (f = B_HASH \<and> fs = [])"
| "argus_mqtt_topic_matches (f # fs) (t # ts) =
     (if f = B_HASH then fs = []
      else if f = B_PLUS then argus_mqtt_topic_matches fs (dropWhile (\<lambda>c. c \<noteq> B_SLASH) (t # ts))
      else f = t \<and> argus_mqtt_topic_matches fs ts)"

text \<open>The packet that the broker sends to a subscriber; \<open>sent\<close> is what the socket call returns for it.\<close>

definition publish_packet :: "u8 list \<Rightarrow> u8 list \<Rightarrow> bool \<Rightarrow> u8 list" where
  "publish_packet topic payload retain =
     (let t = take (TOPIC_CAP - 1) (cstr topic); p = take (PAYLOAD_CAP - 1) (cstr payload)
      in [if retain then 0x31 else 0x30] @ argus_mqtt_encode_remaining_length (of_nat (2 + length t + length p))
         @ [of_nat (length t div 256), of_nat (length t mod 256)] @ t @ p)"

definition argus_mqtt_send_publish :: "(u8 list \<Rightarrow> int) \<Rightarrow> u8 list \<Rightarrow> u8 list \<Rightarrow> bool \<Rightarrow> esp_err" where
  "argus_mqtt_send_publish sent topic payload retain =
     (let t = take (TOPIC_CAP - 1) (cstr topic); p = take (PAYLOAD_CAP - 1) (cstr payload)
      in if 2 + length t + length p + 5 > MAX_PACKET_LEN then ESP_ERR_INVALID_SIZE
         else (let packet = publish_packet topic payload retain in
               if sent packet = int (length packet) then ESP_OK else ESP_FAIL))"

section \<open>One packet from the socket\<close>

text \<open>
  The reading part of the client task's loop: a bare \<open>recv\<close> for the fixed header, then the
  remaining length, then the body. \<open>Idle\<close> is the timeout on which the task checks whether the
  peer is alive, \<open>Broken\<close> every case in which it leaves the loop.
\<close>

datatype frame =
    Packet u8 "u8 list"
  | Idle
  | Broken

definition read_frame :: "recv_event list \<Rightarrow> frame \<times> recv_event list" where
  "read_frame es =
     (case es of
        [] \<Rightarrow> (Idle, [])
      | Again # rest \<Rightarrow> (Idle, rest)
      | Closed # _ \<Rightarrow> (Broken, es)
      | Failed # _ \<Rightarrow> (Broken, es)
      | Chunk [] # _ \<Rightarrow> (Broken, es)
      | Chunk (fixed_header # c) # rest \<Rightarrow>
          (case argus_mqtt_decode_remaining_length (leave c rest) of
             (got, remaining_len, es1) \<Rightarrow>
               (case remaining_len of
                  None \<Rightarrow> (Broken, es1)
                | Some n \<Rightarrow>
                    if got \<le> 0 \<or> unat n > MAX_PACKET_LEN then (Broken, es1)
                    else if unat n = 0 then (Packet fixed_header [], es1)
                    else (case argus_mqtt_read_exact (unat n) 0 [] es1 of
                            (got2, body, es2) \<Rightarrow>
                              if got2 \<le> 0 then (Broken, es2) else (Packet fixed_header body, es2)))))"

end
