(* ===== verification/Mqtt_Invalidation.thy ===== *)
theory Mqtt_Invalidation
  imports Argus_Prelude
begin

text \<open>
  The journal of machine invalidations (\<open>argus_mqtt_invalidation.c\<close>): a ring of the last 32
  invalidated identifiers under a 64-bit generation, which tells an authentication that is
  under way whether its machine was invalidated since it began. Identifiers are C strings,
  the lists of their bytes. Null pointers are \<open>None\<close>.
\<close>

section \<open>The journal\<close>

abbreviation (input) SECURITY_ID_MAX :: nat where "SECURITY_ID_MAX \<equiv> 36"
abbreviation (input) HISTORY_CAPACITY :: nat where "HISTORY_CAPACITY \<equiv> 32"

record invalidation_event =
  ie_generation :: u64
  ie_identifier :: "u8 list"

record invalidation_journal =
  ij_generation :: u64
  ij_events :: "invalidation_event list"

definition event_none :: invalidation_event where
  "event_none = \<lparr> ie_generation = 0, ie_identifier = [] \<rparr>"

definition identifier_valid :: "u8 list option \<Rightarrow> bool" where
  "identifier_valid identifier =
     (case identifier of
        None \<Rightarrow> False
      | Some s \<Rightarrow> (let len = min (c_strlen s) (SECURITY_ID_MAX + 1) in len > 0 \<and> len \<le> SECURITY_ID_MAX))"

definition argus_mqtt_invalidation_init :: invalidation_journal where
  "argus_mqtt_invalidation_init = \<lparr> ij_generation = 0, ij_events = replicate HISTORY_CAPACITY event_none \<rparr>"

definition argus_mqtt_invalidation_capture :: "invalidation_journal option \<Rightarrow> u64" where
  "argus_mqtt_invalidation_capture j = (case j of None \<Rightarrow> 0 | Some x \<Rightarrow> ij_generation x)"

definition event_index :: "u64 \<Rightarrow> nat" where
  "event_index g = unat ((g - 1) mod 32)"

definition argus_mqtt_invalidation_record ::
  "u8 list option \<Rightarrow> invalidation_journal \<Rightarrow> bool \<times> invalidation_journal" where
  "argus_mqtt_invalidation_record identifier j =
     (if \<not> identifier_valid identifier then (False, j)
      else
        (let s = the identifier;
             g = ij_generation j + 1;
             g' = (if g = 0 then 1 else g);
             events = (if g = 0 then replicate HISTORY_CAPACITY event_none else ij_events j)
         in (True, \<lparr> ij_generation = g',
                     ij_events = events[event_index g' := \<lparr> ie_generation = g', ie_identifier = take SECURITY_ID_MAX (cstr s) \<rparr>] \<rparr>)))"

text \<open>\<open>n\<close> generations after \<open>generation\<close> are left to look at.\<close>

fun scan_events :: "invalidation_journal \<Rightarrow> u8 list \<Rightarrow> nat \<Rightarrow> u64 \<Rightarrow> bool" where
  "scan_events j identifier 0 generation = False"
| "scan_events j identifier (Suc n) generation =
     (let event = ij_events j ! event_index generation in
      if ie_generation event \<noteq> generation then True
      else if ie_identifier event = identifier then True
      else scan_events j identifier n (generation + 1))"

definition argus_mqtt_invalidation_since ::
  "invalidation_journal option \<Rightarrow> u8 list option \<Rightarrow> u64 \<Rightarrow> bool" where
  "argus_mqtt_invalidation_since journal identifier captured_generation =
     (case journal of
        None \<Rightarrow> True
      | Some j \<Rightarrow>
          if \<not> identifier_valid identifier then True
          else
            (let current = ij_generation j in
             if current = captured_generation then False
             else if current < captured_generation \<or> current - captured_generation > 32 then True
             else scan_events j (cstr (the identifier)) (unat (current - captured_generation)) (captured_generation + 1)))"

section \<open>The journal remembers what it must\<close>

text \<open>The journal that results from recording a history of identifiers, oldest first.\<close>

definition journal_of :: "u8 list list \<Rightarrow> invalidation_journal \<Rightarrow> bool" where
  "journal_of history j \<longleftrightarrow>
     length history < 2 ^ 64 \<and> ij_generation j = of_nat (length history) \<and> length (ij_events j) = HISTORY_CAPACITY
     \<and> (\<forall>g. length history - 32 < g \<and> g \<le> length history \<longrightarrow>
          ij_events j ! ((g - 1) mod 32) = \<lparr> ie_generation = of_nat g, ie_identifier = history ! (g - 1) \<rparr>)"

lemma journal_init: "journal_of [] argus_mqtt_invalidation_init"
  by (simp add: journal_of_def argus_mqtt_invalidation_init_def)

lemma unat_small: "g < 2 ^ 64 \<Longrightarrow> unat (of_nat g :: u64) = g"
  by (simp add: unat_of_nat)

lemma event_index_of_nat:
  assumes "0 < g" "g < 2 ^ 64"
  shows "event_index (of_nat g) = (g - 1) mod 32"
proof -
  have "(of_nat g - 1 :: u64) = of_nat (g - 1)" using assms(1) by (simp add: of_nat_diff)
  then show ?thesis
    using assms unat_small [of "g - 1"] unfolding event_index_def by (simp only: unat_mod) simp
qed

lemma valid_identifier:
  assumes "identifier_valid (Some s)"
  shows "take SECURITY_ID_MAX (cstr s) = cstr s"
  using assms by (auto simp: identifier_valid_def c_strlen_def Let_def)

lemma journal_record:
  assumes "journal_of history j" "argus_mqtt_invalidation_record (Some s) j = (True, j')"
    and "length history + 1 < 2 ^ 64"
  shows "journal_of (history @ [cstr s]) j'"
proof -
  let ?n = "length history"
  have valid: "identifier_valid (Some s)"
    using assms(2) by (auto simp: argus_mqtt_invalidation_record_def Let_def split: if_splits)
  have g: "ij_generation j + 1 = of_nat (?n + 1)" "(of_nat (?n + 1) :: u64) \<noteq> 0"
    using assms(1,3) unat_small [of "?n + 1"] by (auto simp: journal_of_def)
  have j': "j' = \<lparr> ij_generation = of_nat (?n + 1), ij_events = (ij_events j)[?n mod 32 :=
      \<lparr> ie_generation = of_nat (?n + 1), ie_identifier = cstr s \<rparr>] \<rparr>"
    using assms(2) valid g event_index_of_nat [of "?n + 1"] assms(3) valid_identifier [OF valid]
    by (simp add: argus_mqtt_invalidation_record_def Let_def)
  have keep: "(ij_events j')! ((g - 1) mod 32) = \<lparr> ie_generation = of_nat g, ie_identifier = (history @ [cstr s]) ! (g - 1) \<rparr>"
    if "?n + 1 - 32 < g" "g \<le> ?n + 1" for g
  proof (cases "g = ?n + 1")
    case True
    then show ?thesis using assms(1) by (simp add: j' journal_of_def)
  next
    case False
    then have "g \<le> ?n" using that by simp
    moreover have "(g - 1) mod 32 \<noteq> ?n mod 32"
    proof
      assume "(g - 1) mod 32 = ?n mod 32"
      then have "32 dvd ?n - (g - 1)" using \<open>g \<le> ?n\<close> by (metis mod_eq_dvd_iff_nat le_diff_conv trans_le_add1)
      moreover have "0 < ?n - (g - 1)" "?n - (g - 1) < 32" using that \<open>g \<le> ?n\<close> False by linarith+
      ultimately show False using nat_dvd_not_less by blast
    qed
    moreover have "g - 1 < ?n" using that \<open>g \<le> ?n\<close> by linarith
    ultimately show ?thesis
      using assms(1) that by (simp add: j' journal_of_def nth_append)
  qed
  then show ?thesis using assms(1,3) by (auto simp: journal_of_def j')
qed

lemma scan_exact:
  assumes "journal_of history j" "length history - 32 \<le> g" "g + n = length history"
  shows "scan_events j identifier n (of_nat (g + 1)) \<longleftrightarrow> identifier \<in> set (drop g history)"
  using assms(2,3)
proof (induction n arbitrary: g)
  case (Suc n)
  have small: "g + 1 < 2 ^ 64" "g < length history" using Suc.prems assms(1) by (auto simp: journal_of_def)
  have e: "ij_events j ! event_index (of_nat (g + 1)) = \<lparr> ie_generation = of_nat (g + 1), ie_identifier = history ! g \<rparr>"
  proof -
    have "length history - 32 < g + 1 \<and> g + 1 \<le> length history" using Suc.prems by linarith
    then have "ij_events j ! (g mod 32) = \<lparr> ie_generation = of_nat (g + 1), ie_identifier = history ! g \<rparr>"
      using assms(1) unfolding journal_of_def by (metis diff_add_inverse2)
    then show ?thesis using event_index_of_nat [of "g + 1"] small(1) by simp
  qed
  have "drop g history = history ! g # drop (Suc g) history" using small(2) by (simp add: Cons_nth_drop_Suc)
  then show ?case
    using Suc.IH [of "Suc g"] Suc.prems e by (auto simp: Let_def add.commute)
qed simp

text \<open>
  The answer for a generation captured when the history had \<open>g\<close> entries: yes when the
  identifier was recorded since, and, for at most 32 records since then, only in that case.
\<close>

lemma since_exact:
  assumes "journal_of history j" "g \<le> length history" "identifier_valid (Some s)"
  shows "argus_mqtt_invalidation_since (Some j) (Some s) (of_nat g) \<longleftrightarrow>
     length history - g > 32 \<or> cstr s \<in> set (drop g history)"
proof -
  let ?n = "length history"
  have cur: "ij_generation j = of_nat ?n" and small: "?n < 2 ^ 64" using assms(1) by (auto simp: journal_of_def)
  have u: "unat (of_nat ?n :: u64) = ?n" "unat (of_nat g :: u64) = g" using small assms(2) unat_small by simp_all
  have diff: "unat (of_nat ?n - of_nat g :: u64) = ?n - g"
    using u assms(2) by (simp add: unat_sub word_le_nat_alt)
  have gt: "(of_nat ?n - of_nat g :: u64) > 32 \<longleftrightarrow> ?n - g > 32" using diff by (simp add: word_less_nat_alt)
  have lt: "\<not> (of_nat ?n :: u64) < of_nat g" using u assms(2) by (simp add: word_less_nat_alt)
  have eq: "(of_nat ?n :: u64) = of_nat g \<longleftrightarrow> ?n = g" using u by metis
  show ?thesis
  proof (cases "?n = g \<or> ?n - g > 32")
    case True
    then show ?thesis using assms(3) cur gt lt eq by (auto simp: argus_mqtt_invalidation_since_def Let_def)
  next
    case False
    then show ?thesis
      using assms(2,3) cur gt lt eq diff scan_exact [OF assms(1) _ le_add_diff_inverse [OF assms(2)], of "cstr s"]
      by (auto simp: argus_mqtt_invalidation_since_def Let_def add.commute)
  qed
qed

lemma since_invalid:
  "\<not> identifier_valid identifier \<Longrightarrow> argus_mqtt_invalidation_since j identifier g"
  by (simp add: argus_mqtt_invalidation_since_def split: option.splits)

end
