(* ===== verification/Mqtt_Broker.thy ===== *)
theory Mqtt_Broker
  imports Mqtt_Wire Mqtt_Invalidation Authorization
begin

text \<open>
  The state of the MQTT broker and its packet handlers (\<open>argus_mqtt_broker.c\<close>). Every
  section that runs under \<open>client_lock\<close> is one definition on the whole broker state. A
  handler takes the lock several times; what the other tasks do while it is free is the
  argument \<open>between\<close>, one state change per gap. The callbacks of the configuration are
  arguments too, and so is whether the platform's \<open>send\<close> accepted an acknowledgement.

  A client is named by its index in the table. Strings are the bytes before the terminator.
  A session slot of \<open>-1\<close> is \<open>None\<close>. The stack measurements of the client tasks and the
  overwriting of secrets have no counterpart.
\<close>

section \<open>State\<close>

abbreviation (input) MAX_CLIENTS :: nat where "MAX_CLIENTS \<equiv> 3"
abbreviation (input) MAX_PRECONNECT :: nat where "MAX_PRECONNECT \<equiv> 3"
abbreviation (input) MAX_PRECONNECT_UNPROVEN :: nat where "MAX_PRECONNECT_UNPROVEN \<equiv> 2"
abbreviation (input) MAX_PRECONNECT_PER_SOURCE :: nat where "MAX_PRECONNECT_PER_SOURCE \<equiv> 1"
abbreviation (input) MAX_CONNECTIONS :: nat where "MAX_CONNECTIONS \<equiv> 6"
abbreviation (input) MAX_SUBS_PER_CLIENT :: nat where "MAX_SUBS_PER_CLIENT \<equiv> 8"
abbreviation (input) MAX_RETAINED :: nat where "MAX_RETAINED \<equiv> 40"
abbreviation (input) ESP_ERR_NOT_ALLOWED :: esp_err where "ESP_ERR_NOT_ALLOWED \<equiv> 269"

record machine_principal =
  mp_identifier :: "u8 list"
  mp_scope :: "u8 list"
  mp_topic_scope :: "u8 list"
  mp_api_scope :: "u8 list"
  mp_permissions :: permission_set
  mp_allowed_transports :: u8
  mp_allowed_interfaces :: u8
  mp_client_type :: u8
  mp_credential_version :: u32
  mp_principal_revision :: u32
  mp_record_security_epoch :: u32
  mp_directory_generation :: u32

definition machine_principal_zero :: machine_principal where
  "machine_principal_zero = \<lparr> mp_identifier = [], mp_scope = [], mp_topic_scope = [], mp_api_scope = [],
     mp_permissions = 0, mp_allowed_transports = 0, mp_allowed_interfaces = 0, mp_client_type = 0,
     mp_credential_version = 0, mp_principal_revision = 0, mp_record_security_epoch = 0,
     mp_directory_generation = 0 \<rparr>"

record mqtt_client =
  cl_in_use :: bool
  cl_connected :: bool
  cl_security_invalidated :: bool
  cl_shutdown_claimed :: bool
  cl_sock :: int
  cl_connection_id :: u64
  cl_peer_key :: u32
  cl_receiving_interface :: u8
  cl_client_id :: "u8 list"
  cl_principal :: machine_principal
  cl_session_slot :: "nat option"
  cl_keep_alive_s :: u16
  cl_last_activity_us :: u64

definition client_zero :: mqtt_client where
  "client_zero = \<lparr> cl_in_use = False, cl_connected = False, cl_security_invalidated = False,
     cl_shutdown_claimed = False, cl_sock = 0, cl_connection_id = 0, cl_peer_key = 0,
     cl_receiving_interface = 0, cl_client_id = [], cl_principal = machine_principal_zero,
     cl_session_slot = None, cl_keep_alive_s = 0, cl_last_activity_us = 0 \<rparr>"

record mqtt_session =
  ms_in_use :: bool
  ms_subscriptions :: "u8 list list"

definition mqtt_session_zero :: mqtt_session where
  "mqtt_session_zero = \<lparr> ms_in_use = False, ms_subscriptions = [] \<rparr>"

record mqtt_retained =
  rt_in_use :: bool
  rt_topic :: "u8 list"
  rt_payload :: "u8 list"

definition retained_zero :: mqtt_retained where
  "retained_zero = \<lparr> rt_in_use = False, rt_topic = [], rt_payload = [] \<rparr>"

datatype broker_state =
    BROKER_STATE_STOPPED
  | BROKER_STATE_STARTING
  | BROKER_STATE_RUNNING
  | BROKER_STATE_STOPPING

record mqtt_broker =
  br_state :: broker_state
  br_startup_error :: esp_err
  br_listen_sock :: int
  br_server_task :: bool
  br_active_client_count :: int
  br_next_connection_id :: u64
  br_clients :: "mqtt_client list"
  br_sessions :: "mqtt_session list"
  br_retained :: "mqtt_retained list"
  br_invalidations :: invalidation_journal
  br_peak_pending :: u32
  br_peak_authenticated :: u32
  br_refused_preconnect_pool :: u32
  br_refused_preconnect_source :: u32
  br_refused_preconnect_reserved :: u32
  br_refused_session_pool :: u32

record client_info =
  ci_connection_id :: u64
  ci_client_id :: "u8 list"
  ci_receiving_interface :: u8
  ci_principal :: machine_principal

record broker_message =
  bm_connection_id :: u64
  bm_client_id :: "u8 list"
  bm_topic :: "u8 list"
  bm_payload :: "u8 list"
  bm_qos :: u8
  bm_retain :: bool
  bm_dup :: bool
  bm_policy_admitted :: bool
  bm_receiving_interface :: u8
  bm_principal :: machine_principal

text \<open>The result of the authentication callback; a failure carries no principal.\<close>

type_synonym auth_outcome = "machine_principal option"

text \<open>\<open>revalidate\<close> is called repeatedly in a handler and gets the number of the call.\<close>

record broker_callbacks =
  cb_authenticate :: "(u32 \<Rightarrow> connect_request \<Rightarrow> u8 \<Rightarrow> auth_outcome) option"
  cb_revalidate :: "(nat \<Rightarrow> client_info \<Rightarrow> esp_err) option"
  cb_subscribe_policy :: "(client_info \<Rightarrow> u8 list \<Rightarrow> esp_err) option"
  cb_publish_authorize :: "(broker_message \<Rightarrow> esp_err) option"
  cb_policy_check :: "(broker_message \<Rightarrow> esp_err) option"
  cb_on_message :: bool
  cb_on_client_event :: bool

definition c_strlcpy :: "nat \<Rightarrow> u8 list \<Rightarrow> u8 list" where
  "c_strlcpy cap s = take (cap - 1) (cstr s)"

definition the_client :: "mqtt_broker \<Rightarrow> nat \<Rightarrow> mqtt_client" where
  "the_client b i = br_clients b ! i"

definition put_client :: "nat \<Rightarrow> mqtt_client \<Rightarrow> mqtt_broker \<Rightarrow> mqtt_broker" where
  "put_client i c b = b\<lparr> br_clients := (br_clients b)[i := c] \<rparr>"

section \<open>Sections under the client lock\<close>

definition argus_mqtt_store_retained_locked ::
  "u8 list \<Rightarrow> u8 list \<Rightarrow> mqtt_broker \<Rightarrow> esp_err \<times> mqtt_broker" where
  "argus_mqtt_store_retained_locked topic payload b =
     (let slots = br_retained b;
          same = find (\<lambda>i. rt_in_use (slots ! i) \<and> rt_topic (slots ! i) = cstr topic) [0..<MAX_RETAINED];
          slot = (case same of Some i \<Rightarrow> Some i | None \<Rightarrow> find (\<lambda>i. \<not> rt_in_use (slots ! i)) [0..<MAX_RETAINED])
      in case slot of
           None \<Rightarrow> (ESP_ERR_NO_MEM, b)
         | Some i \<Rightarrow> (ESP_OK, b\<lparr> br_retained := slots[i := \<lparr> rt_in_use = True, rt_topic = c_strlcpy TOPIC_CAP topic,
                                                          rt_payload = c_strlcpy PAYLOAD_CAP payload \<rparr>] \<rparr>))"

definition subscribes :: "mqtt_broker \<Rightarrow> u8 list \<Rightarrow> mqtt_client \<Rightarrow> bool" where
  "subscribes b topic c \<longleftrightarrow>
     cl_in_use c \<and> cl_connected c \<and> \<not> cl_sock c < 0
     \<and> (case cl_session_slot c of
          None \<Rightarrow> False
        | Some k \<Rightarrow> list_ex (\<lambda>f. argus_mqtt_topic_matches f (cstr topic)) (ms_subscriptions (br_sessions b ! k)))"

definition argus_mqtt_collect_subscribers_locked :: "u8 list \<Rightarrow> nat \<Rightarrow> mqtt_broker \<Rightarrow> int list" where
  "argus_mqtt_collect_subscribers_locked topic capacity b =
     take capacity (map cl_sock (filter (subscribes b topic) (take MAX_CONNECTIONS (br_clients b))))"

definition argus_mqtt_duplicate_client_id_locked :: "nat \<Rightarrow> u8 list \<Rightarrow> mqtt_broker \<Rightarrow> bool" where
  "argus_mqtt_duplicate_client_id_locked requester client_id b =
     list_ex (\<lambda>i. i \<noteq> requester \<and> cl_in_use (the_client b i) \<and> cl_connected (the_client b i)
                 \<and> cl_client_id (the_client b i) = cstr client_id) [0..<MAX_CONNECTIONS]"

definition argus_mqtt_client_info_locked :: "mqtt_client \<Rightarrow> client_info" where
  "argus_mqtt_client_info_locked c =
     \<lparr> ci_connection_id = cl_connection_id c, ci_client_id = c_strlcpy CLIENT_ID_CAP (cl_client_id c),
       ci_receiving_interface = cl_receiving_interface c, ci_principal = cl_principal c \<rparr>"

definition argus_mqtt_client_admitted_locked :: "mqtt_client \<Rightarrow> u64 \<Rightarrow> bool" where
  "argus_mqtt_client_admitted_locked c expected_connection_id \<longleftrightarrow>
     cl_in_use c \<and> cl_connected c \<and> \<not> cl_security_invalidated c \<and> cl_connection_id c = expected_connection_id"

definition argus_mqtt_client_info_if_admitted :: "nat \<Rightarrow> mqtt_broker \<Rightarrow> client_info option" where
  "argus_mqtt_client_info_if_admitted i b =
     (let c = the_client b i in
      if argus_mqtt_client_admitted_locked c (cl_connection_id c) then Some (argus_mqtt_client_info_locked c) else None)"

definition argus_mqtt_bind_allowed_locked ::
  "invalidation_journal \<Rightarrow> mqtt_client \<Rightarrow> u64 \<Rightarrow> u8 list \<Rightarrow> u64 \<Rightarrow> bool \<Rightarrow> bool" where
  "argus_mqtt_bind_allowed_locked invalidations c expected_connection_id identifier
     captured_invalidation_generation duplicate_client_id \<longleftrightarrow>
     cl_in_use c \<and> \<not> cl_connected c \<and> \<not> cl_security_invalidated c \<and> cl_connection_id c = expected_connection_id
     \<and> \<not> duplicate_client_id
     \<and> \<not> argus_mqtt_invalidation_since (Some invalidations) (Some identifier) captured_invalidation_generation"

definition argus_mqtt_disconnect_matches_locked :: "mqtt_client \<Rightarrow> u8 list \<Rightarrow> bool" where
  "argus_mqtt_disconnect_matches_locked c identifier \<longleftrightarrow>
     cl_in_use c \<and> cl_connected c \<and> cl_sock c \<ge> 0 \<and> cstr (mp_identifier (cl_principal c)) = cstr identifier"

record disconnect_target =
  dt_slot :: nat
  dt_connection_id :: u64
  dt_socket_fd :: int

definition argus_mqtt_claim_disconnect_locked ::
  "nat \<Rightarrow> u8 list \<Rightarrow> mqtt_client \<Rightarrow> disconnect_target option \<times> mqtt_client" where
  "argus_mqtt_claim_disconnect_locked slot identifier c =
     (if \<not> argus_mqtt_disconnect_matches_locked c identifier then (None, c)
      else
        (let c1 = c\<lparr> cl_security_invalidated := True \<rparr> in
         if cl_shutdown_claimed c1 then (None, c1)
         else (Some \<lparr> dt_slot = slot, dt_connection_id = cl_connection_id c1, dt_socket_fd = cl_sock c1 \<rparr>,
               c1\<lparr> cl_shutdown_claimed := True \<rparr>)))"

definition argus_mqtt_release_disconnect_claim_locked ::
  "disconnect_target \<Rightarrow> mqtt_client \<Rightarrow> bool \<times> mqtt_client" where
  "argus_mqtt_release_disconnect_claim_locked target c =
     (if \<not> cl_shutdown_claimed c \<or> \<not> cl_in_use c \<or> cl_connection_id c \<noteq> dt_connection_id target
         \<or> cl_sock c \<noteq> dt_socket_fd target then (False, c)
      else (True, c\<lparr> cl_shutdown_claimed := False \<rparr>))"

definition argus_mqtt_client_close_allowed_locked :: "mqtt_client \<Rightarrow> bool" where
  "argus_mqtt_client_close_allowed_locked c \<longleftrightarrow> \<not> cl_shutdown_claimed c"

definition argus_mqtt_session_claim_locked :: "nat \<Rightarrow> mqtt_broker \<Rightarrow> bool \<times> mqtt_broker" where
  "argus_mqtt_session_claim_locked i b =
     (if cl_session_slot (the_client b i) \<noteq> None then (True, b)
      else (case find (\<lambda>k. \<not> ms_in_use (br_sessions b ! k)) [0..<MAX_CLIENTS] of
              None \<Rightarrow> (False, b)
            | Some k \<Rightarrow> (True, put_client i ((the_client b i)\<lparr> cl_session_slot := Some k \<rparr>)
                               (b\<lparr> br_sessions := (br_sessions b)[k := mqtt_session_zero\<lparr> ms_in_use := True \<rparr>] \<rparr>))))"

definition argus_mqtt_session_release_locked :: "nat \<Rightarrow> mqtt_broker \<Rightarrow> mqtt_broker" where
  "argus_mqtt_session_release_locked i b =
     (case cl_session_slot (the_client b i) of
        None \<Rightarrow> b
      | Some k \<Rightarrow> put_client i ((the_client b i)\<lparr> cl_session_slot := None \<rparr>)
                    (b\<lparr> br_sessions := (br_sessions b)[k := mqtt_session_zero] \<rparr>))"

definition pending_client :: "mqtt_client \<Rightarrow> bool" where
  "pending_client c \<longleftrightarrow> cl_in_use c \<and> \<not> cl_connected c"

definition argus_mqtt_occupancy_locked :: "mqtt_broker \<Rightarrow> nat \<times> nat" where
  "argus_mqtt_occupancy_locked b =
     (let cs = take MAX_CONNECTIONS (br_clients b) in
      (length (filter pending_client cs), length (filter (\<lambda>c. cl_in_use c \<and> cl_connected c) cs)))"

section \<open>CONNECT\<close>

text \<open>The two sections of a connection: what is captured before the callback, and the binding after it.\<close>

definition connect_begin :: "nat \<Rightarrow> mqtt_broker \<Rightarrow> u64 \<times> u64 \<times> bool" where
  "connect_begin i b =
     (let c = the_client b i in
      (cl_connection_id c, argus_mqtt_invalidation_capture (Some (br_invalidations b)),
       cl_in_use c \<and> \<not> cl_connected c \<and> \<not> cl_security_invalidated c))"

definition connect_bind ::
  "nat \<Rightarrow> u64 \<Rightarrow> u64 \<Rightarrow> connect_request \<Rightarrow> machine_principal \<Rightarrow> u64 \<Rightarrow> mqtt_broker \<Rightarrow> bool \<times> bool \<times> mqtt_broker" where
  "connect_bind i expected_connection_id captured request principl now b =
     (let duplicate = argus_mqtt_duplicate_client_id_locked i (cr_client_id request) b;
          bind_allowed = argus_mqtt_bind_allowed_locked (br_invalidations b) (the_client b i)
                           expected_connection_id (mp_identifier principl) captured duplicate
      in if \<not> bind_allowed then (False, False, b)
         else
           (let (capacity, b1) = argus_mqtt_session_claim_locked i b in
            if \<not> capacity then (True, False, b1)
            else
              (let b2 = put_client i ((the_client b1 i)
                          \<lparr> cl_client_id := c_strlcpy CLIENT_ID_CAP (cr_client_id request), cl_principal := principl,
                            cl_connected := True, cl_keep_alive_s := cr_keep_alive_s request,
                            cl_last_activity_us := now \<rparr>) b1;
                   authenticated = snd (argus_mqtt_occupancy_locked b2)
               in (True, True, if of_nat authenticated > br_peak_authenticated b2
                               then b2\<lparr> br_peak_authenticated := of_nat authenticated \<rparr> else b2))))"

definition connack :: "u8 \<Rightarrow> u8 list" where
  "connack code = [0x20, 0x02, 0x00, code]"

text \<open>The result is the status, the state and the acknowledgement sent, if any.\<close>

definition argus_mqtt_handle_connect ::
  "broker_callbacks \<Rightarrow> bool \<Rightarrow> u64 \<Rightarrow> (nat \<Rightarrow> mqtt_broker \<Rightarrow> mqtt_broker) \<Rightarrow> nat \<Rightarrow> u8 list \<Rightarrow> mqtt_broker \<Rightarrow>
     esp_err \<times> mqtt_broker \<times> u8 list option" where
  "argus_mqtt_handle_connect cb send_ok now between i packet b =
     (case argus_mqtt_broker_parse_connect (Some packet) request_zero of
        (parse, request) \<Rightarrow>
          if parse \<noteq> PARSE_OK
          then (ESP_ERR_INVALID_ARG, b, Some (connack (if parse = PARSE_PROTOCOL then 0x01 else 0x02)))
          else
            (case cb_authenticate cb of
               None \<Rightarrow> (ESP_ERR_INVALID_STATE, b, None)
             | Some authenticate \<Rightarrow>
                 (let (expected_id, captured, authentication_pending) = connect_begin i b in
                  if \<not> authentication_pending then (ESP_ERR_INVALID_STATE, b, None)
                  else
                    (case authenticate (cl_peer_key (the_client b i)) request (cl_receiving_interface (the_client b i)) of
                       None \<Rightarrow> (ESP_ERR_NOT_ALLOWED, between 0 b, Some (connack 0x04))
                     | Some principl \<Rightarrow>
                         (let (bind_allowed, capacity, b1) =
                                connect_bind i expected_id captured request principl now (between 0 b)
                          in if bind_allowed \<and> \<not> capacity
                             then (ESP_ERR_NO_MEM, b1\<lparr> br_refused_session_pool := br_refused_session_pool b1 + 1 \<rparr>,
                                   Some (connack 0x03))
                             else if \<not> bind_allowed then (ESP_ERR_INVALID_STATE, b1, Some (connack 0x02))
                             else if \<not> send_ok then (ESP_FAIL, b1, Some (connack 0x00))
                             else
                               (let b2 = between 1 b1 in
                                if \<not> argus_mqtt_client_admitted_locked (the_client b2 i) expected_id
                                then (ESP_ERR_NOT_ALLOWED, b2, Some (connack 0x00))
                                else (ESP_OK, b2, Some (connack 0x00))))))))"

section \<open>SUBSCRIBE\<close>

text \<open>The filters of the packet from an offset on; \<open>room\<close> is the number of filters that still fit.\<close>

fun parse_filters :: "u8 list \<Rightarrow> nat \<Rightarrow> nat \<Rightarrow> esp_err + u8 list list" where
  "parse_filters packet 0 offset = (if offset < length packet then Inl ESP_ERR_INVALID_ARG else Inr [])"
| "parse_filters packet (Suc room) offset =
     (if \<not> offset < length packet then Inr []
      else
        (case argus_mqtt_read_string packet offset TOPIC_CAP of
           None \<Rightarrow> Inl ESP_ERR_INVALID_ARG
         | Some (s, off) \<Rightarrow>
             if cstr s = [] \<or> off \<ge> length packet then Inl ESP_ERR_INVALID_ARG
             else if packet ! off > 1 then Inl ESP_ERR_NOT_SUPPORTED
             else (case parse_filters packet room (off + 1) of Inl e \<Rightarrow> Inl e | Inr fs \<Rightarrow> Inr (cstr s # fs))))"

definition u16_be :: "u16 \<Rightarrow> u8 list" where
  "u16_be w = [ucast (drop_bit 8 w), ucast w]"

definition suback :: "u16 \<Rightarrow> u8 \<Rightarrow> nat \<Rightarrow> u8 list" where
  "suback packet_id code count = [0x90, of_nat (2 + count)] @ u16_be packet_id @ replicate count code"

definition subscribe_commit :: "nat \<Rightarrow> u64 \<Rightarrow> u8 list list \<Rightarrow> mqtt_broker \<Rightarrow> bool \<times> mqtt_broker" where
  "subscribe_commit i connection_id filters b =
     (case cl_session_slot (the_client b i) of
        None \<Rightarrow> (False, b)
      | Some k \<Rightarrow>
          (let session = br_sessions b ! k in
           if argus_mqtt_client_admitted_locked (the_client b i) connection_id
              \<and> length (ms_subscriptions session) + length filters \<le> MAX_SUBS_PER_CLIENT
           then (True, b\<lparr> br_sessions := (br_sessions b)[k := session
                   \<lparr> ms_subscriptions := ms_subscriptions session @ map (c_strlcpy TOPIC_CAP) filters \<rparr>] \<rparr>)
           else (False, b)))"

text \<open>
  The retained messages for the new filters: for each filter every slot of the store, each
  lookup and each check of the admission in a section of its own. \<open>n\<close> numbers the gaps.
\<close>

fun deliver_retained ::
  "(nat \<Rightarrow> mqtt_broker \<Rightarrow> mqtt_broker) \<Rightarrow> nat \<Rightarrow> u64 \<Rightarrow> nat \<Rightarrow> (u8 list \<times> nat) list \<Rightarrow> mqtt_broker \<Rightarrow>
     (int \<times> u8 list) list \<Rightarrow> esp_err \<times> mqtt_broker \<times> (int \<times> u8 list) list" where
  "deliver_retained between i connection_id n [] b sent = (ESP_OK, b, sent)"
| "deliver_retained between i connection_id n ((f, r) # todo) b sent =
     (let b1 = between n b; copy = br_retained b1 ! r in
      if rt_in_use copy \<and> argus_mqtt_topic_matches f (rt_topic copy)
      then
        (let b2 = between (n + 1) b1 in
         case argus_mqtt_client_info_if_admitted i b2 of
           None \<Rightarrow> (ESP_ERR_NOT_ALLOWED, b2, sent)
         | Some current \<Rightarrow>
             if ci_connection_id current \<noteq> connection_id then (ESP_ERR_NOT_ALLOWED, b2, sent)
             else deliver_retained between i connection_id (n + 2) todo b2
                    (sent @ [(cl_sock (the_client b2 i), publish_packet (rt_topic copy) (rt_payload copy) True)]))
      else deliver_retained between i connection_id (n + 1) todo b1 sent)"

definition argus_mqtt_handle_subscribe ::
  "broker_callbacks \<Rightarrow> bool \<Rightarrow> bool \<Rightarrow> (nat \<Rightarrow> mqtt_broker \<Rightarrow> mqtt_broker) \<Rightarrow> nat \<Rightarrow> u8 list \<Rightarrow> mqtt_broker \<Rightarrow>
     esp_err \<times> mqtt_broker \<times> (int \<times> u8 list) list" where
  "argus_mqtt_handle_subscribe cb memory send_ok between i packet b =
     (if \<not> memory then (ESP_ERR_NO_MEM, b, [])
      else
        (case argus_mqtt_read_u16 packet 0 of
           None \<Rightarrow> (ESP_ERR_INVALID_ARG, b, [])
         | Some (packet_id, off) \<Rightarrow>
             (case parse_filters packet MAX_SUBS_PER_CLIENT off of
                Inl e \<Rightarrow> (e, b, [])
              | Inr filters \<Rightarrow>
                  if filters = [] then (ESP_ERR_INVALID_ARG, b, [])
                  else
                    (case argus_mqtt_client_info_if_admitted i b of
                       None \<Rightarrow> (ESP_ERR_NOT_ALLOWED, b, [])
                     | Some info \<Rightarrow>
                         (let allowed = (case cb_subscribe_policy cb of
                                           None \<Rightarrow> False
                                         | Some policy \<Rightarrow> list_all (\<lambda>f. policy info f = ESP_OK) filters);
                              b1 = between 0 b
                          in if \<not> allowed
                             then (ESP_OK, b1, [(cl_sock (the_client b1 i), suback packet_id 0x80 (length filters))])
                             else
                               (case argus_mqtt_client_info_if_admitted i b1 of
                                  None \<Rightarrow> (ESP_ERR_NOT_ALLOWED, b1, [])
                                | Some info1 \<Rightarrow>
                                    if (case cb_revalidate cb of None \<Rightarrow> True | Some rv \<Rightarrow> rv 0 info1 \<noteq> ESP_OK)
                                    then (ESP_ERR_NOT_ALLOWED, b1, [])
                                    else
                                      (let (capacity, b2) = subscribe_commit i (ci_connection_id info1) filters (between 1 b1);
                                           ack = (cl_sock (the_client b2 i), suback packet_id 0x00 (length filters))
                                       in if \<not> capacity then (ESP_ERR_NO_MEM, b2, [])
                                          else if \<not> send_ok then (ESP_FAIL, b2, [ack])
                                          else deliver_retained between i (ci_connection_id info1) 2
                                                 (List.product filters [0..<MAX_RETAINED]) b2 [ack])))))))"

section \<open>PUBLISH\<close>

definition message_of :: "client_info \<Rightarrow> u8 \<Rightarrow> u8 list \<Rightarrow> u8 list \<Rightarrow> broker_message" where
  "message_of info fixed_header topic payload =
     \<lparr> bm_connection_id = ci_connection_id info, bm_client_id = c_strlcpy CLIENT_ID_CAP (ci_client_id info),
       bm_topic = c_strlcpy TOPIC_CAP topic, bm_payload = payload, bm_qos = drop_bit 1 fixed_header AND 0x03,
       bm_retain = (fixed_header AND 0x01 \<noteq> 0), bm_dup = (fixed_header AND 0x08 \<noteq> 0), bm_policy_admitted = True,
       bm_receiving_interface = ci_receiving_interface info, bm_principal = ci_principal info \<rparr>"

definition still_admitted :: "nat \<Rightarrow> u64 \<Rightarrow> mqtt_broker \<Rightarrow> client_info option" where
  "still_admitted i connection_id b =
     (case argus_mqtt_client_info_if_admitted i b of
        None \<Rightarrow> None
      | Some info \<Rightarrow> if ci_connection_id info \<noteq> connection_id then None else Some info)"

definition revalidated :: "broker_callbacks \<Rightarrow> nat \<Rightarrow> client_info \<Rightarrow> bool" where
  "revalidated cb n info = (case cb_revalidate cb of None \<Rightarrow> False | Some rv \<Rightarrow> rv n info = ESP_OK)"

definition puback :: "u8 \<Rightarrow> u16 \<Rightarrow> int \<Rightarrow> (int \<times> u8 list) list" where
  "puback qos packet_id sock = (if qos = 1 then [(sock, [0x40, 0x02] @ u16_be packet_id)] else [])"

definition retain_commit :: "nat \<Rightarrow> u64 \<Rightarrow> u8 list \<Rightarrow> u8 list \<Rightarrow> mqtt_broker \<Rightarrow> esp_err \<times> mqtt_broker" where
  "retain_commit i connection_id topic payload b =
     (if argus_mqtt_client_admitted_locked (the_client b i) connection_id
      then argus_mqtt_store_retained_locked topic payload b else (ESP_ERR_NOT_ALLOWED, b))"

text \<open>The result has the message for the callback, when there is one.\<close>

definition publish_admitted ::
  "broker_callbacks \<Rightarrow> (nat \<Rightarrow> mqtt_broker \<Rightarrow> mqtt_broker) \<Rightarrow> nat \<Rightarrow> u16 \<Rightarrow> u8 list \<Rightarrow> u8 list \<Rightarrow> broker_message \<Rightarrow>
     mqtt_broker \<Rightarrow> esp_err \<times> mqtt_broker \<times> (int \<times> u8 list) list \<times> broker_message option" where
  "publish_admitted cb between i packet_id topic payload msg b =
     (let id = bm_connection_id msg;
          (retain_err, b1) = (if bm_retain msg then retain_commit i id topic payload (between 4 b) else (ESP_OK, b))
      in if retain_err \<noteq> ESP_OK then (retain_err, b1, [], None)
         else
           (let b2 = between 5 b1 in
            if \<not> argus_mqtt_client_admitted_locked (the_client b2 i) id then (ESP_ERR_NOT_ALLOWED, b2, [], None)
            else
              (let sockets = argus_mqtt_collect_subscribers_locked topic MAX_CLIENTS b2 in
               (ESP_OK, b2, map (\<lambda>s. (s, publish_packet topic payload (bm_retain msg))) sockets
                  @ puback (bm_qos msg) packet_id (cl_sock (the_client b2 i)),
                if cb_on_message cb then Some msg else None))))"

definition argus_mqtt_handle_publish ::
  "broker_callbacks \<Rightarrow> (nat \<Rightarrow> mqtt_broker \<Rightarrow> mqtt_broker) \<Rightarrow> nat \<Rightarrow> u8 \<Rightarrow> u8 list \<Rightarrow> mqtt_broker \<Rightarrow>
     esp_err \<times> mqtt_broker \<times> (int \<times> u8 list) list \<times> broker_message option" where
  "argus_mqtt_handle_publish cb between i fixed_header packet b =
     (let qos = drop_bit 1 fixed_header AND 0x03 in
      if qos > 1 then (ESP_ERR_NOT_SUPPORTED, b, [], None)
      else
        (case argus_mqtt_read_string packet 0 TOPIC_CAP of
           None \<Rightarrow> (ESP_ERR_INVALID_ARG, b, [], None)
         | Some (topic, off) \<Rightarrow>
             (case (if qos > 0 then argus_mqtt_read_u16 packet off else Some (0, off)) of
                None \<Rightarrow> (ESP_ERR_INVALID_ARG, b, [], None)
              | Some (packet_id, off2) \<Rightarrow>
                  (let payload = drop off2 packet in
                   if length payload \<ge> PAYLOAD_CAP then (ESP_ERR_INVALID_SIZE, b, [], None)
                   else
                     (case argus_mqtt_client_info_if_admitted i b of
                        None \<Rightarrow> (ESP_ERR_NOT_ALLOWED, b, [], None)
                      | Some info \<Rightarrow>
                          (let msg = message_of info fixed_header topic payload; id = bm_connection_id msg; b1 = between 0 b in
                           if \<not> revalidated cb 0 info \<or> still_admitted i id b1 = None
                           then (ESP_ERR_NOT_ALLOWED, b1, [], None)
                           else if (case cb_publish_authorize cb of None \<Rightarrow> True | Some f \<Rightarrow> f msg \<noteq> ESP_OK)
                           then (ESP_OK, b1, puback qos packet_id (cl_sock (the_client b1 i)), None)
                           else
                             (let b2 = between 1 b1 in
                              if still_admitted i id b2 = None then (ESP_ERR_NOT_ALLOWED, b2, [], None)
                              else if (case cb_policy_check cb of None \<Rightarrow> False | Some f \<Rightarrow> f msg \<noteq> ESP_OK)
                              then (ESP_OK, b2, puback qos packet_id (cl_sock (the_client b2 i)),
                                    if cb_on_message cb then Some (msg\<lparr> bm_policy_admitted := False \<rparr>) else None)
                              else
                                (let b3 = between 2 b2 in
                                 case still_admitted i id b3 of
                                   None \<Rightarrow> (ESP_ERR_NOT_ALLOWED, b3, [], None)
                                 | Some info3 \<Rightarrow>
                                     (let b4 = between 3 b3 in
                                      if \<not> revalidated cb 1 info3 \<or> still_admitted i id b4 = None
                                      then (ESP_ERR_NOT_ALLOWED, b4, [], None)
                                      else publish_admitted cb between i packet_id topic payload msg b4)))))))))"

end
