(* ===== verification/Mqtt_Lifecycle.thy ===== *)
theory Mqtt_Lifecycle
  imports Mqtt_Broker
begin

text \<open>
  Connections and the life cycle of the MQTT broker (\<open>argus_mqtt_broker.c\<close>): admission of a
  socket, the client task's loop, closing, invalidation of a machine, and starting,
  stopping and observing the broker. The server task and the event bits that the callers
  wait for appear as arguments that say what was signalled in time.
\<close>

section \<open>Admission\<close>

datatype preconnect_decision =
    PRECONNECT_ADMIT
  | PRECONNECT_REFUSE_POOL
  | PRECONNECT_REFUSE_RESERVED
  | PRECONNECT_REFUSE_SOURCE

definition argus_mqtt_broker_preconnect_decide :: "nat \<Rightarrow> nat \<Rightarrow> bool \<Rightarrow> preconnect_decision" where
  "argus_mqtt_broker_preconnect_decide pending pending_from_source source_proven =
     (if pending \<ge> MAX_PRECONNECT then PRECONNECT_REFUSE_POOL
      else if pending \<ge> MAX_PRECONNECT_UNPROVEN \<and> \<not> source_proven then PRECONNECT_REFUSE_RESERVED
      else if pending_from_source \<ge> MAX_PRECONNECT_PER_SOURCE then PRECONNECT_REFUSE_SOURCE
      else PRECONNECT_ADMIT)"

text \<open>\<open>proven\<close> is the machine service's answer about a source address.\<close>

definition argus_mqtt_preconnect_admit_locked :: "(u32 \<Rightarrow> bool) \<Rightarrow> u32 \<Rightarrow> mqtt_broker \<Rightarrow> bool \<times> mqtt_broker" where
  "argus_mqtt_preconnect_admit_locked source_is_proven peer_key b =
     (let waiting = filter pending_client (take MAX_CONNECTIONS (br_clients b));
          pending = length waiting;
          pending_from_source = length (filter (\<lambda>c. cl_peer_key c = peer_key) waiting);
          proven = (pending \<ge> MAX_PRECONNECT_UNPROVEN \<and> source_is_proven peer_key)
      in case argus_mqtt_broker_preconnect_decide pending pending_from_source proven of
           PRECONNECT_REFUSE_POOL \<Rightarrow> (False, b\<lparr> br_refused_preconnect_pool := br_refused_preconnect_pool b + 1 \<rparr>)
         | PRECONNECT_REFUSE_RESERVED \<Rightarrow> (False, b\<lparr> br_refused_preconnect_reserved := br_refused_preconnect_reserved b + 1 \<rparr>)
         | PRECONNECT_REFUSE_SOURCE \<Rightarrow> (False, b\<lparr> br_refused_preconnect_source := br_refused_preconnect_source b + 1 \<rparr>)
         | PRECONNECT_ADMIT \<Rightarrow> (True, if of_nat (pending + 1) > br_peak_pending b
                                      then b\<lparr> br_peak_pending := of_nat (pending + 1) \<rparr> else b))"

definition argus_mqtt_alloc_client_locked ::
  "(u32 \<Rightarrow> bool) \<Rightarrow> int \<Rightarrow> u32 \<Rightarrow> u8 \<Rightarrow> mqtt_broker \<Rightarrow> nat option \<times> mqtt_broker" where
  "argus_mqtt_alloc_client_locked source_is_proven sock peer_key receiving_interface b =
     (let (admitted, b1) = argus_mqtt_preconnect_admit_locked source_is_proven peer_key b in
      if \<not> admitted then (None, b1)
      else
        (case find (\<lambda>i. \<not> cl_in_use (the_client b1 i)) [0..<MAX_CONNECTIONS] of
           None \<Rightarrow> (None, b1)
         | Some i \<Rightarrow>
             (Some i, put_client i (client_zero\<lparr> cl_in_use := True, cl_session_slot := None, cl_sock := sock,
                         cl_connection_id := br_next_connection_id b1 + 1, cl_peer_key := peer_key,
                         cl_receiving_interface := receiving_interface \<rparr>)
                        (b1\<lparr> br_next_connection_id := br_next_connection_id b1 + 1 \<rparr>))))"

text \<open>The interface on which a socket arrived: an ambiguous or unknown one gives 0.\<close>

datatype net_iface = NET_IFACE_UNKNOWN | NET_IFACE_SOFTAP | NET_IFACE_STA | NET_IFACE_AMBIGUOUS

record iface_conflict =
  if_active :: bool
  if_observations :: u32
  if_first_us :: u64
  if_last_us :: u64
  if_last_log_us :: u64

definition iface_conflict_assert :: "u64 \<Rightarrow> iface_conflict \<Rightarrow> iface_conflict" where
  "iface_conflict_assert now x =
     (let x1 = (if if_active x then x else x\<lparr> if_active := True, if_first_us := now, if_last_log_us := 0 \<rparr>) in
      x1\<lparr> if_last_us := now, if_observations := if_observations x1 + 1 \<rparr>)"

definition argus_net_mgr_classify_interface ::
  "u64 \<Rightarrow> u32 \<Rightarrow> bool \<Rightarrow> u32 \<Rightarrow> bool \<Rightarrow> u32 \<Rightarrow> iface_conflict \<Rightarrow> net_iface \<times> iface_conflict" where
  "argus_net_mgr_classify_interface now local_addr ap_valid ap_addr sta_valid sta_addr x =
     (let x1 = (if ap_valid \<and> sta_valid \<and> ap_addr \<noteq> 0 \<and> sta_addr \<noteq> 0 \<and> ap_addr \<noteq> sta_addr
                then x\<lparr> if_active := False \<rparr> else x);
          matches_ap = (ap_valid \<and> ap_addr \<noteq> 0 \<and> local_addr = ap_addr);
          matches_sta = (sta_valid \<and> sta_addr \<noteq> 0 \<and> local_addr = sta_addr)
      in if local_addr = 0 then (NET_IFACE_UNKNOWN, x1)
         else if ap_valid \<and> sta_valid \<and> ap_addr = sta_addr \<and> ap_addr \<noteq> 0
         then (NET_IFACE_AMBIGUOUS, iface_conflict_assert now x1)
         else if matches_ap \<and> matches_sta then (NET_IFACE_AMBIGUOUS, iface_conflict_assert now x1)
         else if matches_ap then (NET_IFACE_SOFTAP, x1)
         else if matches_sta then (NET_IFACE_STA, x1)
         else (NET_IFACE_UNKNOWN, x1))"

abbreviation (input) MACHINE_INTERFACE_SOFTAP :: u8 where "MACHINE_INTERFACE_SOFTAP \<equiv> 1"
abbreviation (input) MACHINE_INTERFACE_STA :: u8 where "MACHINE_INTERFACE_STA \<equiv> 2"

text \<open>\<open>local\<close> is the socket's own IPv4 address, when the platform could tell it.\<close>

definition argus_mqtt_receiving_interface ::
  "u64 \<Rightarrow> u32 option \<Rightarrow> u32 option \<Rightarrow> u32 option \<Rightarrow> iface_conflict \<Rightarrow> u8 \<times> iface_conflict" where
  "argus_mqtt_receiving_interface now local ap sta x =
     (case local of
        None \<Rightarrow> (0, x)
      | Some addr \<Rightarrow>
          (case argus_net_mgr_classify_interface now addr (ap \<noteq> None) (case ap of None \<Rightarrow> 0 | Some a \<Rightarrow> a)
                  (sta \<noteq> None) (case sta of None \<Rightarrow> 0 | Some a \<Rightarrow> a) x of
             (iface, x1) \<Rightarrow> (case iface of NET_IFACE_SOFTAP \<Rightarrow> MACHINE_INTERFACE_SOFTAP
                                         | NET_IFACE_STA \<Rightarrow> MACHINE_INTERFACE_STA | _ \<Rightarrow> 0, x1)))"

text \<open>
  One accepted socket: the count is reserved before the record, and given back when there is
  no record or no task. \<open>between\<close> is what other tasks do before the failed task creation is
  undone. The first component says whether the socket is served.
\<close>

definition undo_accept :: "nat \<Rightarrow> mqtt_broker \<Rightarrow> mqtt_broker" where
  "undo_accept i b =
     argus_mqtt_session_release_locked i (put_client i ((the_client b i)\<lparr> cl_sock := -1, cl_in_use := False \<rparr>) b)"

definition accept_socket ::
  "(u32 \<Rightarrow> bool) \<Rightarrow> int \<Rightarrow> u32 \<Rightarrow> u8 \<Rightarrow> bool \<Rightarrow> (mqtt_broker \<Rightarrow> mqtt_broker) \<Rightarrow> mqtt_broker \<Rightarrow> bool \<times> mqtt_broker" where
  "accept_socket source_is_proven sock peer_key iface task_created between b =
     (let b1 = b\<lparr> br_active_client_count := br_active_client_count b + 1 \<rparr> in
      case argus_mqtt_alloc_client_locked source_is_proven sock peer_key iface b1 of
        (None, b2) \<Rightarrow> (False, b2\<lparr> br_active_client_count := br_active_client_count b2 - 1 \<rparr>)
      | (Some i, b2) \<Rightarrow>
          if task_created then (True, b2)
          else
            (let b4 = undo_accept i (between b2)
             in (False, b4\<lparr> br_active_client_count := br_active_client_count b4 - 1 \<rparr>)))"

section \<open>The client task\<close>

abbreviation (input) CONNECT_GRACE_US :: u64 where "CONNECT_GRACE_US \<equiv> 3000000"

text \<open>Whether a peer that has been silent up to now is reaped.\<close>

definition reap_idle :: "u64 \<Rightarrow> mqtt_client \<Rightarrow> bool" where
  "reap_idle now c =
     (let idle_us = now - cl_last_activity_us c in
      if \<not> cl_connected c then \<not> idle_us < CONNECT_GRACE_US
      else if cl_keep_alive_s c = 0 then False
      else \<not> idle_us < ucast (cl_keep_alive_s c) * 1500000)"

text \<open>The gate in front of the handlers: the status with which a packet is refused.\<close>

definition packet_gate :: "broker_callbacks \<Rightarrow> nat \<Rightarrow> u8 \<Rightarrow> mqtt_broker \<Rightarrow> esp_err" where
  "packet_gate cb i packet_type b =
     (let c = the_client b i in
      if \<not> cl_in_use c \<or> cl_security_invalidated c then ESP_ERR_NOT_ALLOWED
      else if \<not> cl_connected c \<and> packet_type \<noteq> 1 then ESP_ERR_INVALID_STATE
      else if cl_connected c \<and> packet_type = 1 then ESP_ERR_INVALID_STATE
      else if cl_connected c \<and> (packet_type = 3 \<or> packet_type = 8)
      then (case argus_mqtt_client_info_if_admitted i b of
              None \<Rightarrow> ESP_ERR_NOT_ALLOWED
            | Some info \<Rightarrow> if revalidated cb 2 info then ESP_OK else ESP_ERR_NOT_ALLOWED)
      else ESP_OK)"

datatype packet_result =
    Handled esp_err "(int \<times> u8 list) list" "broker_message option"
  | Disconnect

text \<open>
  One packet: the activity mark, the gate, the handler. The environment gives the callbacks,
  the clock, the outcome of allocation and \<open>send\<close>, and the interference in the gaps.
\<close>

record packet_env =
  pe_callbacks :: broker_callbacks
  pe_now :: u64
  pe_memory :: bool
  pe_send_ok :: bool
  pe_before :: "mqtt_broker \<Rightarrow> mqtt_broker"
  pe_between :: "nat \<Rightarrow> mqtt_broker \<Rightarrow> mqtt_broker"

definition mark_activity :: "u64 \<Rightarrow> nat \<Rightarrow> mqtt_broker \<Rightarrow> mqtt_broker" where
  "mark_activity now i b = put_client i ((the_client b i)\<lparr> cl_last_activity_us := now \<rparr>) b"

definition client_packet :: "packet_env \<Rightarrow> nat \<Rightarrow> u8 \<Rightarrow> u8 list \<Rightarrow> mqtt_broker \<Rightarrow> packet_result \<times> mqtt_broker" where
  "client_packet env i fixed_header body b =
     (let b1 = pe_before env (mark_activity (pe_now env) i b);
          packet_type = drop_bit 4 fixed_header;
          cb = pe_callbacks env;
          gate = packet_gate cb i packet_type b1
      in if gate \<noteq> ESP_OK then (Handled gate [] None, b1)
         else if packet_type = 1
         then (if fixed_header AND 0x0F = 0
               then (case argus_mqtt_handle_connect cb (pe_send_ok env) (pe_now env) (pe_between env) i body b1 of
                       (err, b2, ack) \<Rightarrow>
                         (Handled err (case ack of None \<Rightarrow> [] | Some a \<Rightarrow> [(cl_sock (the_client b2 i), a)]) None, b2))
               else (Handled ESP_ERR_INVALID_ARG [] None, b1))
         else if packet_type = 3
         then (case argus_mqtt_handle_publish cb (pe_between env) i fixed_header body b1 of
                 (err, b2, sent, msg) \<Rightarrow>
                   (Handled err sent
                      (case msg of
                         None \<Rightarrow> None
                       | Some m \<Rightarrow> if still_admitted i (bm_connection_id m) b2 = None then None else Some m), b2))
         else if packet_type = 8
         then (case argus_mqtt_handle_subscribe cb (pe_memory env) (pe_send_ok env) (pe_between env) i body b1 of
                 (err, b2, sent) \<Rightarrow> (Handled err sent None, b2))
         else if packet_type = 12 then (Handled ESP_OK [(cl_sock (the_client b1 i), [0xD0, 0x00])] None, b1)
         else if packet_type = 14 then (Disconnect, b1)
         else (Handled ESP_OK [] None, b1))"

text \<open>
  Closing, once no invalidation claims the socket: the record is cleared, the session slot
  given back and the count lowered. The result has the socket to close and the event.
\<close>

definition argus_mqtt_close_client ::
  "nat \<Rightarrow> mqtt_broker \<Rightarrow> ((int \<times> client_info option \<times> bool) \<times> mqtt_broker) option" where
  "argus_mqtt_close_client i b =
     (let c = the_client b i in
      if \<not> argus_mqtt_client_close_allowed_locked c then None
      else
        (let info = argus_mqtt_client_info_locked c;
             b1 = argus_mqtt_session_release_locked i
                    (put_client i (c\<lparr> cl_sock := -1, cl_connected := False, cl_security_invalidated := False,
                                     cl_shutdown_claimed := False, cl_in_use := False \<rparr>) b);
             b2 = put_client i ((the_client b1 i)\<lparr> cl_principal := machine_principal_zero \<rparr>) b1
         in Some ((cl_sock c, if cl_connected c then Some info else None, br_active_client_count b2 = 1),
                  b2\<lparr> br_active_client_count := br_active_client_count b2 - 1 \<rparr>)))"

section \<open>Invalidation of a machine\<close>

definition argus_mqtt_broker_fence_machine_authentication ::
  "u8 list option \<Rightarrow> mqtt_broker \<Rightarrow> esp_err \<times> mqtt_broker" where
  "argus_mqtt_broker_fence_machine_authentication identifier b =
     (case identifier of
        None \<Rightarrow> (ESP_ERR_INVALID_ARG, b)
      | Some s \<Rightarrow>
          if cstr s = [] then (ESP_ERR_INVALID_ARG, b)
          else
            (let (recorded, j) = argus_mqtt_invalidation_record (Some s) (br_invalidations b) in
             if \<not> recorded then (ESP_ERR_INVALID_ARG, b)
             else (ESP_OK, b\<lparr> br_invalidations := j,
                     br_clients := map (\<lambda>c. if argus_mqtt_disconnect_matches_locked c s
                                            then c\<lparr> cl_security_invalidated := True \<rparr> else c) (br_clients b) \<rparr>)))"

text \<open>The claiming section: the claimed targets in table order and whether any client matched.\<close>

definition claim_targets :: "u8 list \<Rightarrow> mqtt_broker \<Rightarrow> disconnect_target list \<times> bool \<times> mqtt_broker" where
  "claim_targets identifier b =
     (let matching = filter (\<lambda>i. argus_mqtt_disconnect_matches_locked (the_client b i) identifier) [0..<MAX_CONNECTIONS];
          claim = (\<lambda>i. argus_mqtt_claim_disconnect_locked i identifier
                         ((the_client b i)\<lparr> cl_security_invalidated := True \<rparr>))
      in (List.map_filter (\<lambda>i. fst (claim i)) matching, matching \<noteq> [],
          b\<lparr> br_clients := map (\<lambda>i. if i \<in> set matching then snd (claim i) else the_client b i)
                             [0..<length (br_clients b)] \<rparr>))"

definition release_target :: "disconnect_target \<Rightarrow> mqtt_broker \<Rightarrow> bool \<times> mqtt_broker" where
  "release_target t b =
     (case argus_mqtt_release_disconnect_claim_locked t (the_client b (dt_slot t)) of
        (released, c) \<Rightarrow> (released, put_client (dt_slot t) c b))"

text \<open>Shutting the claimed sockets down; \<open>shut\<close> is the result of each call, \<open>between\<close> the gap before each release.\<close>

fun shutdown_targets ::
  "(nat \<Rightarrow> bool) \<Rightarrow> (nat \<Rightarrow> mqtt_broker \<Rightarrow> mqtt_broker) \<Rightarrow> nat \<Rightarrow> disconnect_target list \<Rightarrow> bool \<times> mqtt_broker \<Rightarrow>
     bool \<times> mqtt_broker" where
  "shutdown_targets shut between n [] (failed, b) = (failed, b)"
| "shutdown_targets shut between n (t # ts) (failed, b) =
     (let (released, b1) = release_target t (between n b) in
      shutdown_targets shut between (n + 1) ts (failed \<or> \<not> shut n \<or> \<not> released, b1))"

definition argus_mqtt_broker_disconnect_machine ::
  "(nat \<Rightarrow> bool) \<Rightarrow> (nat \<Rightarrow> mqtt_broker \<Rightarrow> mqtt_broker) \<Rightarrow> u8 list option \<Rightarrow> mqtt_broker \<Rightarrow> esp_err \<times> mqtt_broker" where
  "argus_mqtt_broker_disconnect_machine shut between identifier b =
     (case argus_mqtt_broker_fence_machine_authentication identifier b of
        (fence, b1) \<Rightarrow>
          if fence \<noteq> ESP_OK then (fence, b1)
          else
            (let (targets, matched, b2) = claim_targets (the identifier) (between 0 b1);
                 (failed, b3) = shutdown_targets shut between 1 targets (False, b2)
             in (if failed then ESP_FAIL else if matched then ESP_OK else ESP_ERR_NOT_FOUND, b3)))"

section \<open>Life cycle\<close>

definition broker_zero :: mqtt_broker where
  "broker_zero = \<lparr> br_state = BROKER_STATE_STOPPED, br_startup_error = ESP_OK, br_listen_sock = 0, br_server_task = False,
     br_active_client_count = 0, br_next_connection_id = 0, br_clients = replicate MAX_CONNECTIONS client_zero,
     br_sessions = replicate MAX_CLIENTS mqtt_session_zero, br_retained = replicate MAX_RETAINED retained_zero,
     br_invalidations = argus_mqtt_invalidation_init, br_peak_pending = 0, br_peak_authenticated = 0,
     br_refused_preconnect_pool = 0, br_refused_preconnect_source = 0, br_refused_preconnect_reserved = 0,
     br_refused_session_pool = 0 \<rparr>"

text \<open>Initialisation; \<open>mutex\<close>, \<open>lock\<close> and \<open>events\<close> are whether the three objects could be created.\<close>

definition argus_mqtt_broker_init ::
  "bool \<Rightarrow> bool \<Rightarrow> bool \<Rightarrow> bool \<Rightarrow> mqtt_broker \<Rightarrow> esp_err \<times> bool \<times> mqtt_broker" where
  "argus_mqtt_broker_init initialised mutex lock events b =
     (if initialised then (ESP_ERR_INVALID_STATE, initialised, b)
      else if \<not> mutex \<or> \<not> lock \<or> \<not> events then (ESP_ERR_NO_MEM, False, b)
      else (ESP_OK, True, b\<lparr> br_state := BROKER_STATE_STOPPED, br_active_client_count := 0, br_next_connection_id := 0,
                             br_listen_sock := -1, br_server_task := False,
                             br_invalidations := argus_mqtt_invalidation_init \<rparr>))"

definition callbacks_complete :: "broker_callbacks \<Rightarrow> bool" where
  "callbacks_complete cb \<longleftrightarrow> cb_authenticate cb \<noteq> None \<and> cb_revalidate cb \<noteq> None \<and> cb_subscribe_policy cb \<noteq> None
     \<and> cb_publish_authorize cb \<noteq> None \<and> cb_policy_check cb \<noteq> None"

definition reset_runtime :: "mqtt_broker \<Rightarrow> mqtt_broker" where
  "reset_runtime b =
     b\<lparr> br_state := BROKER_STATE_STARTING, br_listen_sock := -1, br_startup_error := ESP_OK,
        br_active_client_count := 0, br_clients := replicate MAX_CONNECTIONS client_zero,
        br_sessions := replicate MAX_CLIENTS mqtt_session_zero, br_retained := replicate MAX_RETAINED retained_zero,
        br_peak_pending := 0, br_peak_authenticated := 0, br_refused_preconnect_pool := 0,
        br_refused_preconnect_source := 0, br_refused_preconnect_reserved := 0, br_refused_session_pool := 0,
        br_invalidations := argus_mqtt_invalidation_init \<rparr>"

text \<open>
  The start of the server task up to its accept loop: \<open>listener\<close> is the listening socket or
  the failure to get one. The result says whether it signalled that it runs.
\<close>

definition server_task_start :: "int option \<Rightarrow> mqtt_broker \<Rightarrow> bool \<times> mqtt_broker" where
  "server_task_start listener b =
     (case listener of
        None \<Rightarrow> (False, b\<lparr> br_startup_error := ESP_FAIL, br_server_task := False \<rparr>)
      | Some sock \<Rightarrow>
          if br_state b = BROKER_STATE_STARTING
          then (True, b\<lparr> br_listen_sock := sock, br_state := BROKER_STATE_RUNNING, br_startup_error := ESP_OK \<rparr>)
          else (False, b\<lparr> br_server_task := False \<rparr>))"

definition server_task_exit :: "mqtt_broker \<Rightarrow> mqtt_broker" where
  "server_task_exit b = b\<lparr> br_server_task := False \<rparr>"

text \<open>
  Starting: the request up to the creation of the server task, and the reaction to what the
  server task signalled within the first and the second period of two seconds. The gaps are
  what the server task and the others did meanwhile.
\<close>

datatype start_signal = Signal_Started | Signal_Stopped | Signal_None

definition argus_mqtt_broker_start ::
  "bool \<Rightarrow> broker_callbacks option \<Rightarrow> bool \<Rightarrow> start_signal \<Rightarrow> bool \<Rightarrow> (nat \<Rightarrow> mqtt_broker \<Rightarrow> mqtt_broker) \<Rightarrow>
     mqtt_broker \<Rightarrow> esp_err \<times> mqtt_broker" where
  "argus_mqtt_broker_start initialised config task_created signal stopped_later between b =
     (case config of
        None \<Rightarrow> (ESP_ERR_INVALID_ARG, b)
      | Some cb \<Rightarrow>
          if \<not> callbacks_complete cb then (ESP_ERR_INVALID_ARG, b)
          else if \<not> initialised then (ESP_ERR_INVALID_STATE, b)
          else if br_state b \<noteq> BROKER_STATE_STOPPED then (ESP_ERR_INVALID_STATE, b)
          else if br_server_task b then (ESP_ERR_INVALID_STATE, b)
          else
            (let b1 = reset_runtime b in
             if \<not> task_created then (ESP_ERR_NO_MEM, b1\<lparr> br_state := BROKER_STATE_STOPPED, br_server_task := False \<rparr>)
             else
               (let b2 = between 0 (b1\<lparr> br_server_task := True \<rparr>) in
                case signal of
                  Signal_Started \<Rightarrow> (ESP_OK, b2)
                | Signal_Stopped \<Rightarrow>
                    (if br_startup_error b2 \<noteq> ESP_OK then br_startup_error b2 else ESP_FAIL,
                     b2\<lparr> br_state := BROKER_STATE_STOPPED \<rparr>)
                | Signal_None \<Rightarrow>
                    (let b3 = between 1 (b2\<lparr> br_state := BROKER_STATE_STOPPING, br_listen_sock := -1 \<rparr>) in
                     (ESP_ERR_TIMEOUT, if stopped_later then b3\<lparr> br_state := BROKER_STATE_STOPPED \<rparr> else b3)))))"

definition argus_mqtt_broker_publish ::
  "u8 list option \<Rightarrow> u8 list option \<Rightarrow> bool \<Rightarrow> mqtt_broker \<Rightarrow> esp_err \<times> mqtt_broker \<times> (int \<times> u8 list) list" where
  "argus_mqtt_broker_publish in_topic in_payload retain b =
     (case (in_topic, in_payload) of
        (Some topic, Some payload) \<Rightarrow>
          if \<not> c_strlen topic < TOPIC_CAP \<or> \<not> c_strlen payload < PAYLOAD_CAP then (ESP_ERR_INVALID_SIZE, b, [])
          else if br_state b \<noteq> BROKER_STATE_RUNNING then (ESP_ERR_INVALID_STATE, b, [])
          else
            (let (retain_err, b1) = (if retain then argus_mqtt_store_retained_locked topic payload b else (ESP_OK, b)) in
             if retain_err \<noteq> ESP_OK then (retain_err, b1, [])
             else (ESP_OK, b1, map (\<lambda>s. (s, publish_packet topic payload retain))
                                 (argus_mqtt_collect_subscribers_locked topic MAX_CLIENTS b1)))
      | _ \<Rightarrow> (ESP_ERR_INVALID_ARG, b, []))"

record broker_capacity =
  bc_pending :: nat
  bc_authenticated :: nat
  bc_peak_pending :: u16
  bc_peak_authenticated :: u16
  bc_refused_pending_pool :: u32
  bc_refused_pending_source :: u32
  bc_refused_pending_reserved :: u32
  bc_refused_session_pool :: u32
  bc_retained_used :: nat

text \<open>The fixed limits and the sizes of the C structures are left out of the report.\<close>

definition argus_mqtt_broker_get_capacity :: "mqtt_broker \<Rightarrow> broker_capacity" where
  "argus_mqtt_broker_get_capacity b =
     (let (pending, authenticated) = argus_mqtt_occupancy_locked b in
      \<lparr> bc_pending = pending, bc_authenticated = authenticated, bc_peak_pending = ucast (br_peak_pending b),
        bc_peak_authenticated = ucast (br_peak_authenticated b),
        bc_refused_pending_pool = br_refused_preconnect_pool b,
        bc_refused_pending_source = br_refused_preconnect_source b,
        bc_refused_pending_reserved = br_refused_preconnect_reserved b,
        bc_refused_session_pool = br_refused_session_pool b,
        bc_retained_used = length (filter rt_in_use (br_retained b)) \<rparr>)"

definition argus_mqtt_broker_get_retained ::
  "u8 list option \<Rightarrow> nat \<Rightarrow> mqtt_broker \<Rightarrow> esp_err \<times> u8 list" where
  "argus_mqtt_broker_get_retained in_topic out_size b =
     (case in_topic of
        None \<Rightarrow> (ESP_ERR_INVALID_ARG, [])
      | Some topic \<Rightarrow>
          if out_size = 0 then (ESP_ERR_INVALID_ARG, [])
          else (case find (\<lambda>r. rt_in_use r \<and> rt_topic r = cstr topic) (take MAX_RETAINED (br_retained b)) of
                  None \<Rightarrow> (ESP_ERR_NOT_FOUND, [])
                | Some r \<Rightarrow> (ESP_OK, c_strlcpy out_size (rt_payload r))))"

record lifecycle_obs =
  lo_state :: broker_state
  lo_active_client_count :: int
  lo_has_server_task :: bool
  lo_has_listener :: bool

definition argus_mqtt_broker_get_lifecycle_obs :: "mqtt_broker \<Rightarrow> lifecycle_obs" where
  "argus_mqtt_broker_get_lifecycle_obs b =
     \<lparr> lo_state = br_state b, lo_active_client_count = br_active_client_count b,
       lo_has_server_task = br_server_task b, lo_has_listener = (br_listen_sock b \<ge> 0) \<rparr>"

definition argus_mqtt_broker_observation_is_stopped :: "lifecycle_obs \<Rightarrow> bool" where
  "argus_mqtt_broker_observation_is_stopped obs \<longleftrightarrow>
     lo_state obs = BROKER_STATE_STOPPED \<and> \<not> lo_has_server_task obs \<and> \<not> lo_has_listener obs
     \<and> lo_active_client_count obs = 0"

definition argus_mqtt_broker_observation_is_running :: "lifecycle_obs \<Rightarrow> bool" where
  "argus_mqtt_broker_observation_is_running obs \<longleftrightarrow>
     lo_state obs = BROKER_STATE_RUNNING \<and> lo_has_server_task obs \<and> lo_has_listener obs"

definition argus_mqtt_broker_is_running :: "bool \<Rightarrow> mqtt_broker \<Rightarrow> bool" where
  "argus_mqtt_broker_is_running initialised b \<longleftrightarrow>
     initialised \<and> argus_mqtt_broker_observation_is_running (argus_mqtt_broker_get_lifecycle_obs b)"

text \<open>
  Stopping. The sockets are retired in one section, once no invalidation claims any of them;
  \<open>between\<close> gives what happens in the gaps, of which number 1 ends with no claim left.
  \<open>server_exited\<close> and \<open>clients_exited\<close> are the signals within their two seconds.
\<close>

definition retire_sockets :: "mqtt_broker \<Rightarrow> int list \<times> mqtt_broker" where
  "retire_sockets b =
     (map cl_sock (filter (\<lambda>c. cl_in_use c \<and> cl_sock c \<ge> 0) (br_clients b)),
      b\<lparr> br_clients := map (\<lambda>c. if cl_in_use c \<and> cl_sock c \<ge> 0 then c\<lparr> cl_sock := -1 \<rparr> else c) (br_clients b) \<rparr>)"

definition argus_mqtt_broker_stop ::
  "bool \<Rightarrow> bool \<Rightarrow> bool \<Rightarrow> (nat \<Rightarrow> mqtt_broker \<Rightarrow> mqtt_broker) \<Rightarrow> mqtt_broker \<Rightarrow> esp_err \<times> mqtt_broker" where
  "argus_mqtt_broker_stop initialised server_exited clients_exited between b =
     (if \<not> initialised then (ESP_ERR_INVALID_STATE, b)
      else if argus_mqtt_broker_observation_is_stopped (argus_mqtt_broker_get_lifecycle_obs b) then (ESP_OK, b)
      else
        (let wait_for_server_task = br_server_task b;
             b1 = b\<lparr> br_state := BROKER_STATE_STOPPING, br_listen_sock := -1 \<rparr>;
             (sockets, b2) = retire_sockets (between 1 (between 0 b1));
             b3 = between 2 b2
         in if wait_for_server_task \<and> \<not> server_exited then (ESP_ERR_TIMEOUT, b3)
            else
              (let b4 = between 3 b3 in
               if br_active_client_count b3 > 0 \<and> \<not> clients_exited \<and> br_active_client_count b4 > 0
               then (ESP_ERR_TIMEOUT, b4)
               else if \<not> br_server_task b4 \<and> br_listen_sock b4 < 0 \<and> br_active_client_count b4 = 0
               then (ESP_OK, b4\<lparr> br_state := BROKER_STATE_STOPPED \<rparr>)
               else (ESP_ERR_TIMEOUT, b4))))"

text \<open>The convergence helpers over an operation table: \<open>observe\<close> and \<open>stop\<close> act on a context.\<close>

definition argus_mqtt_broker_request_stop_converged ::
  "('s \<Rightarrow> (esp_err \<times> lifecycle_obs) \<times> 's) option \<Rightarrow> ('s \<Rightarrow> esp_err \<times> 's) option \<Rightarrow> 's \<Rightarrow> esp_err \<times> 's" where
  "argus_mqtt_broker_request_stop_converged observe stop s =
     (case (observe, stop) of
        (Some f, Some g) \<Rightarrow>
          (let ((err, obs), s1) = f s in
           if err \<noteq> ESP_OK then (err, s1)
           else if argus_mqtt_broker_observation_is_stopped obs then (ESP_OK, s1)
           else g s1)
      | _ \<Rightarrow> (ESP_ERR_INVALID_ARG, s))"

fun observe_until ::
  "('s \<Rightarrow> (esp_err \<times> lifecycle_obs) \<times> 's) \<Rightarrow> (u32 \<Rightarrow> 's \<Rightarrow> 's) option \<Rightarrow> u32 \<Rightarrow> nat \<Rightarrow> 's \<Rightarrow> esp_err \<times> 's" where
  "observe_until f wait delay_ms 0 s = (ESP_ERR_TIMEOUT, s)"
| "observe_until f wait delay_ms (Suc n) s =
     (let ((err, obs), s1) = f s in
      if err \<noteq> ESP_OK then (err, s1)
      else if argus_mqtt_broker_observation_is_stopped obs then (ESP_OK, s1)
      else observe_until f wait delay_ms n
             (if n > 0 \<and> delay_ms > 0 then (case wait of Some w \<Rightarrow> w delay_ms s1 | None \<Rightarrow> s1) else s1))"

definition argus_mqtt_broker_verify_stopped_converged ::
  "('s \<Rightarrow> (esp_err \<times> lifecycle_obs) \<times> 's) option \<Rightarrow> (u32 \<Rightarrow> 's \<Rightarrow> 's) option \<Rightarrow> u32 \<Rightarrow> u32 \<Rightarrow> 's \<Rightarrow> esp_err \<times> 's" where
  "argus_mqtt_broker_verify_stopped_converged observe wait observation_attempts delay_ms s =
     (case observe of
        None \<Rightarrow> (ESP_ERR_INVALID_ARG, s)
      | Some f \<Rightarrow>
          if observation_attempts = 0 \<or> (observation_attempts > 1 \<and> delay_ms > 0 \<and> wait = None)
          then (ESP_ERR_INVALID_ARG, s)
          else observe_until f wait delay_ms (unat observation_attempts) s)"

end
