(* ===== verification/Mqtt_Wire_Props.thy ===== *)
theory Mqtt_Wire_Props
  imports Mqtt_Wire
begin

text \<open>
  Correctness of the wire level: one frame is read back under every way the network cuts the
  byte stream into pieces (the loop over a whole stream is in \<open>Mqtt_Client_Loop\<close>), the CONNECT
  parser accepts exactly the encodings of one packet shape, and topic filters match level by
  level.
\<close>

section \<open>The byte stream\<close>

text \<open>
  The bytes that arrive before the connection ends, and a stream that never pauses for more
  than the eight timeouts the reader tolerates.
\<close>

fun stream :: "recv_event list \<Rightarrow> u8 list" where
  "stream [] = []"
| "stream (Chunk c # es) = c @ stream es"
| "stream (Again # es) = stream es"
| "stream (Closed # es) = []"
| "stream (Failed # es) = []"

fun calm :: "nat \<Rightarrow> recv_event list \<Rightarrow> bool" where
  "calm idle [] = True"
| "calm idle (Chunk c # es) = (c \<noteq> [] \<and> calm 0 es)"
| "calm idle (Again # es) = (idle + 1 \<le> PARTIAL_READ_POLLS \<and> calm (idle + 1) es)"
| "calm idle (Closed # es) = True"
| "calm idle (Failed # es) = True"

lemma calm_mono: "calm k es \<Longrightarrow> j \<le> k \<Longrightarrow> calm j es"
  by (induction k es arbitrary: j rule: calm.induct) auto

lemma stream_leave [simp]: "stream (leave c es) = c @ stream es"
  by (simp add: leave_def)

lemma calm_leave: "calm 0 es \<Longrightarrow> calm k (leave c es) \<longleftrightarrow> c \<noteq> [] \<or> calm k es"
  by (simp add: leave_def)

lemma read_exact_stream:
  assumes "calm idle es" "n \<le> length (stream es)"
  shows "\<exists>es'. argus_mqtt_read_exact n idle got es = (int (length got + n), got @ take n (stream es), es')
    \<and> stream es' = drop n (stream es) \<and> calm 0 es'"
  using assms
proof (induction n idle got es rule: argus_mqtt_read_exact.induct)
  case (2 n idle got e es)
  show ?case
  proof (cases "n = 0")
    case True
    then show ?thesis using 2(3) calm_mono by fastforce
  next
    case False
    show ?thesis
    proof (cases e)
      case (Chunk c)
      show ?thesis
      proof (cases "length c < n")
        case True
        then show ?thesis using 2 Chunk False by auto
      next
        case le: False
        then show ?thesis using 2(3) Chunk False by (auto simp: calm_leave intro: calm_mono)
      qed
    qed (use 2 False in auto)
  qed
qed simp

section \<open>The remaining length\<close>

lemma length_byte:
  fixes len :: u32
  defines "b \<equiv> (ucast (len mod 128) :: u8)"
  shows "ucast (b AND 127) = len mod 128" "b AND 128 = 0"
    and "ucast ((b OR 128) AND 127) = len mod 128" "(b OR 128) AND 128 \<noteq> 0"
proof -
  have m: "len mod 128 = take_bit 7 len" by (simp add: take_bit_eq_mod)
  have c: "(127 :: u8) = mask 7" by (simp add: mask_eq_exp_minus_1)
  have h: "bit (128 :: u8) n \<longleftrightarrow> n = 7" for n
    using bit_push_bit_iff [of 7 "1 :: u8" n] by (auto simp: bit_simps)
  show low: "ucast (b AND 127) = len mod 128"
    unfolding b_def m c by (rule bit_word_eqI) (auto simp: bit_simps)
  have "(b OR 128) AND mask 7 = b AND mask 7" 
    by (rule bit_word_eqI) (auto simp: bit_or_iff bit_and_iff bit_mask_iff h simp del: bit_numeral_word_iff)
  then show "ucast ((b OR 128) AND 127) = len mod 128" using low unfolding c by (simp only:)
  show "b AND 128 = 0"
    unfolding b_def m by (rule bit_word_eqI) (auto simp: bit_simps h simp del: bit_numeral_word_iff)
  have "bit ((b OR 128) AND 128) 7" by (simp add: bit_or_iff bit_and_iff h)
  then show "(b OR 128) AND 128 \<noteq> 0" by auto
qed

lemma decode_encode:
  assumes "calm 0 es" "stream es = encode_length i len @ rest" "unat len < 128 ^ i" "0 < i"
  shows "\<exists>es'. decode_length i multiplier v es = (1, Some (v + len * multiplier), es') \<and> stream es' = rest \<and> calm 0 es'"
  using assms
proof (induction i arbitrary: multiplier v es len)
  case (Suc i)
  let ?b = "ucast (len mod 128) :: u8"
  have split: "len = len mod 128 + 128 * (len div 128)" by (metis add.commute mult.commute div_mult_mod_eq)
  obtain b where b: "stream es \<noteq> []" "hd (stream es) = b"
      "b = (if len div 128 > 0 then ?b OR 128 else ?b)"
    using Suc.prems(2) by (auto simp: Let_def)
  obtain es1 where r: "argus_mqtt_read_exact 1 0 [] es = (1, [b], es1)" "stream es1 = tl (stream es)" "calm 0 es1"
    using read_exact_stream [OF Suc.prems(1), of 1 "[]"] b by (cases "stream es") auto
  show ?case
  proof (cases "len div 128 > 0")
    case False
    then have "len div 128 = 0" by (simp add: word_gt_0)
    then have "len mod 128 = len" using split by (metis add.right_neutral mult_zero_right)
    then show ?thesis
      using r b(3) False Suc.prems(2) length_byte(1,2) [of len] by (simp add: Let_def)
  next
    case True
    have "unat (len div 128) < 128 ^ i" using Suc.prems(3) by (simp add: unat_div div_less_iff_less_mult)
    moreover have "stream es1 = encode_length i (len div 128) @ rest"
      using Suc.prems(2) r(2) True by (simp add: Let_def)
    moreover have "0 < i" using calculation(1) True by (cases i) (auto simp: word_gt_0 unat_eq_0)
    ultimately obtain es' where "decode_length i (multiplier * 128) (v + (len mod 128) * multiplier) es1
        = (1, Some (v + (len mod 128) * multiplier + len div 128 * (multiplier * 128)), es')"
        "stream es' = rest" "calm 0 es'"
      using Suc.IH [OF r(3)] by blast
    moreover have "v + (len mod 128) * multiplier + len div 128 * (multiplier * 128) = v + len * multiplier"
      by (subst (3) split) (simp add: algebra_simps)
    ultimately show ?thesis
      using r(1) b(3) True length_byte(3,4) [of len] by (simp add: Let_def)
  qed
qed simp

lemma decode_remaining_length:
  assumes "calm 0 es" "stream es = argus_mqtt_encode_remaining_length len @ rest" "unat len < 268435456"
  shows "\<exists>es'. argus_mqtt_decode_remaining_length es = (1, Some len, es') \<and> stream es' = rest \<and> calm 0 es'"
  using decode_encode [of es 4 len rest 1 0] assms
  by (simp add: argus_mqtt_decode_remaining_length_def argus_mqtt_encode_remaining_length_def)

section \<open>Framing\<close>

definition frame_bytes :: "u8 \<Rightarrow> u8 list \<Rightarrow> u8 list" where
  "frame_bytes fixed_header body =
     fixed_header # argus_mqtt_encode_remaining_length (of_nat (length body)) @ body"

lemma read_frame_chunk:
  assumes "es = Chunk c # rest" "calm 0 es" "stream es = frame_bytes h body @ later" "length body \<le> MAX_PACKET_LEN"
  shows "\<exists>es'. read_frame es = (Packet h body, es') \<and> stream es' = later \<and> calm 0 es'"
proof -
  obtain c' where c: "c = h # c'" using assms(1-3) by (cases c) (auto simp: frame_bytes_def)
  let ?n = "of_nat (length body) :: u32" and ?es = "leave c' rest"
  have n: "unat ?n = length body" using assms(4) by (simp add: unat_of_nat)
  have "calm 0 ?es" "stream ?es = argus_mqtt_encode_remaining_length ?n @ body @ later"
    using assms c by (auto simp: calm_leave frame_bytes_def)
  then obtain es1 where d: "argus_mqtt_decode_remaining_length ?es = (1, Some ?n, es1)" "stream es1 = body @ later" "calm 0 es1"
    using decode_remaining_length [of ?es ?n "body @ later"] n assms(4) by auto
  obtain es2 where "argus_mqtt_read_exact (length body) 0 [] es1 = (int (length body), body, es2)"
      "stream es2 = later" "calm 0 es2"
    using read_exact_stream [OF d(3), of "length body" "[]"] d(2) by auto
  then show ?thesis
    using d n assms(1,4) c by (cases "body = []") (auto simp: read_frame_def)
qed

lemma leading_timeouts:
  obtains j es' where "es = replicate j Again @ es'" "es' = [] \<or> hd es' \<noteq> Again"
proof -
  let ?a = "takeWhile (\<lambda>e. e = Again) es" and ?b = "dropWhile (\<lambda>e. e = Again) es"
  have "?a = replicate (length ?a) Again"
    by (induction es) simp_all
  moreover have "?b = [] \<or> hd ?b \<noteq> Again" using hd_dropWhile [of "\<lambda>e. e = Again" es] by blast
  ultimately show thesis using that takeWhile_dropWhile_id by metis
qed

lemma calm_drop_timeouts: "calm k (replicate j Again @ es) \<Longrightarrow> calm 0 es"
  by (induction j arbitrary: k) (auto intro: calm_mono)

lemma stream_timeouts [simp]: "stream (replicate j Again @ es) = stream es"
  by (induction j) simp_all

section \<open>CONNECT\<close>

text \<open>
  The encoding of a connection request: protocol level 4, the flags for a user name, a
  password and a clean session and nothing else, and three length-prefixed fields.
\<close>

definition field :: "u8 list \<Rightarrow> u8 list" where
  "field x = of_nat (length x div 256) # of_nat (length x mod 256) # x"

definition connect_bytes :: "connect_request \<Rightarrow> u8 list" where
  "connect_bytes r = field MQTT_NAME @ [4, 0xC2, ucast (drop_bit 8 (cr_keep_alive_s r)), ucast (cr_keep_alive_s r)]
     @ field (cr_client_id r) @ field (cr_username r) @ field (cr_password r)"

definition field_ok :: "nat \<Rightarrow> u8 list \<Rightarrow> bool" where
  "field_ok capacity x \<longleftrightarrow> 0 < length x \<and> length x < capacity \<and> 0 \<notin> set x"

lemma flags_all: "list_all (\<lambda>k. connect_flags_ok (of_nat k) \<longrightarrow> k = 0xC2) [0..<256]"
  by code_simp

lemma flags_exact: "connect_flags_ok flags \<longleftrightarrow> flags = 0xC2"
proof
  assume "connect_flags_ok flags"
  then have "connect_flags_ok (of_nat (unat flags))" by simp
  moreover have "unat flags < 256" using unat_lt_2p [of flags] by simp
  ultimately have "unat flags = 0xC2" using flags_all by (auto simp: list_all_iff)
  then have "of_nat (unat flags) = (0xC2 :: u8)" by simp
  then show "flags = 0xC2" by simp
qed (simp add: connect_flags_ok_def)

lemma read_binary_field:
  assumes "length x < capacity" "length x < 65536"
  shows "argus_mqtt_read_binary (p @ field x @ q) (length p) capacity = Some (x, length p + 2 + length x)"
proof -
  have "length x div 256 < 256" using assms(2) by (simp add: less_mult_imp_div_less)
  then have "unat (of_nat (length x div 256) :: u8) = length x div 256" "unat (of_nat (length x mod 256) :: u8) = length x mod 256"
    by (simp_all add: unat_of_nat)
  then show ?thesis
    using assms(1) by (simp add: argus_mqtt_read_binary_def field_def nth_append Let_def)
qed

lemma read_binary_inv:
  assumes "argus_mqtt_read_binary packet offset capacity = Some (x, off)"
  shows "length x < capacity \<and> off = offset + 2 + length x \<and> off \<le> length packet
    \<and> drop offset packet = field x @ drop off packet"
proof -
  let ?h = "packet ! offset" and ?l = "packet ! (offset + 1)"
  define n where "n = 256 * unat ?h + unat ?l"
  have b: "unat ?l < 256" "unat ?h < 256" using unat_lt_2p [of ?l] unat_lt_2p [of ?h] by simp_all
  have a: "offset + 2 + n \<le> length packet" "n < capacity" "x = take n (drop (offset + 2) packet)" "off = offset + 2 + n"
    using assms by (auto simp: argus_mqtt_read_binary_def n_def Let_def split: if_splits)
  then have len: "length x = n" by simp
  have "n div 256 = unat ?h" "n mod 256 = unat ?l" using b by (simp_all add: n_def)
  then have "field x = ?h # ?l # x" unfolding field_def len by simp
  moreover have "drop offset packet = ?h # ?l # drop (offset + 2) packet"
    using a(1) Cons_nth_drop_Suc [of offset packet] Cons_nth_drop_Suc [of "offset + 1" packet] by simp
  moreover have "drop (offset + 2) packet = x @ drop off packet"
    using a append_take_drop_id [of n "drop (offset + 2) packet"] by (simp add: add.commute)
  ultimately show ?thesis using a len by simp
qed

lemma text_field_field:
  assumes "field_ok capacity x" "length x < 65536"
  shows "text_field (p @ field x @ q) (length p) capacity = Some (x, length p + 2 + length x)"
  using assms read_binary_field [of x capacity p q] by (simp add: text_field_def field_ok_def)

lemma text_field_inv:
  assumes "text_field packet offset capacity = Some (x, off)"
  shows "field_ok capacity x \<and> off \<le> length packet \<and> drop offset packet = field x @ drop off packet"
  using assms read_binary_inv [of packet offset capacity x off]
  by (auto simp: text_field_def field_ok_def split: option.splits if_splits)

lemma u16_bytes: "push_bit 8 (ucast (ucast (drop_bit 8 w) :: u8)) OR ucast (ucast w :: u8) = w" for w :: u16
  by (rule bit_word_eqI) (auto simp: bit_simps)

lemma bytes_u16:
  "ucast (drop_bit 8 (push_bit 8 (ucast h) OR ucast l :: u16)) = h" "ucast (push_bit 8 (ucast h) OR ucast l :: u16) = l"
  for h l :: u8
  by (rule bit_word_eqI; auto simp: bit_simps dest: bit_imp_le_length)+

definition keep_alive_bytes :: "u16 \<Rightarrow> u8 list" where
  "keep_alive_bytes w = [ucast (drop_bit 8 w), ucast w]"

lemma field_length [simp]: "length (field x) = 2 + length x"
  by (simp add: field_def)

lemma fixed_lengths [simp]: "length MQTT_NAME = 4" "length (keep_alive_bytes w) = 2"
  by (simp_all add: MQTT_NAME_def keep_alive_bytes_def)

lemma parse_protocol_bytes:
  "parse_protocol (field MQTT_NAME @ [4, flags] @ keep_alive_bytes w @ q) = Some (flags, w, 10)"
  using read_binary_field [of MQTT_NAME 8 "[]" "[4, flags] @ keep_alive_bytes w @ q"]
  by (simp add: parse_protocol_def keep_alive_bytes_def MQTT_NAME_def nth_append u16_bytes)

lemma parse_protocol_inv:
  assumes "parse_protocol packet = Some (flags, w, off)"
  shows "off = 10 \<and> 10 \<le> length packet \<and> packet = field MQTT_NAME @ [4, flags] @ keep_alive_bytes w @ drop 10 packet"
proof -
  obtain protocol off1 where b': "argus_mqtt_read_binary packet 0 8 = Some (protocol, off1)"
    using assms by (cases "argus_mqtt_read_binary packet 0 8") (auto simp: parse_protocol_def)
  have "protocol = MQTT_NAME" and r: "off1 + 4 \<le> length packet"
      "packet ! off1 = 4" "flags = packet ! (off1 + 1)" "off = off1 + 4"
      "w = push_bit 8 (ucast (packet ! (off1 + 2))) OR ucast (packet ! (off1 + 3))"
    using assms b' by (simp_all add: parse_protocol_def split: if_splits)
  then have b: "argus_mqtt_read_binary packet 0 8 = Some (MQTT_NAME, off1)" using b' by simp
  have o: "off1 = 6" using read_binary_inv [OF b] by simp
  have n: "packet = field MQTT_NAME @ drop 6 packet"
    using read_binary_inv [OF b] unfolding o drop_0 by blast
  have "drop 6 packet = packet ! 6 # packet ! 7 # packet ! 8 # packet ! 9 # drop 10 packet"
    using r(1) o Cons_nth_drop_Suc [of 6 packet] Cons_nth_drop_Suc [of 7 packet] Cons_nth_drop_Suc [of 8 packet]
      Cons_nth_drop_Suc [of 9 packet] by simp
  moreover have "keep_alive_bytes w = [packet ! 8, packet ! 9]"
    unfolding r(5) o keep_alive_bytes_def by (simp only: bytes_u16) simp
  ultimately show ?thesis using r n unfolding o by simp
qed

lemma connect_bytes_fields:
  "connect_bytes r = (field MQTT_NAME @ [4, 0xC2] @ keep_alive_bytes (cr_keep_alive_s r))
     @ field (cr_client_id r) @ field (cr_username r) @ field (cr_password r)"
  by (simp add: connect_bytes_def keep_alive_bytes_def)

definition request_ok :: "connect_request \<Rightarrow> bool" where
  "request_ok r \<longleftrightarrow> field_ok CLIENT_ID_CAP (cr_client_id r) \<and> field_ok USERNAME_CAP (cr_username r)
     \<and> field_ok PASSWORD_CAP (cr_password r)"

lemma parse_connect_bytes:
  assumes "request_ok r"
  shows "argus_mqtt_broker_parse_connect (Some (connect_bytes r)) out = (PARSE_OK, r)"
proof -
  let ?pre = "field MQTT_NAME @ [4, 0xC2] @ keep_alive_bytes (cr_keep_alive_s r)"
  let ?c = "field (cr_client_id r)" and ?u = "field (cr_username r)" and ?w = "field (cr_password r)"
  have ok: "field_ok CLIENT_ID_CAP (cr_client_id r)" "field_ok USERNAME_CAP (cr_username r)" "field_ok PASSWORD_CAP (cr_password r)"
    using assms by (auto simp: request_ok_def)
  then have small: "length (cr_client_id r) < 65536" "length (cr_username r) < 65536" "length (cr_password r) < 65536"
    by (auto simp: field_ok_def)
  have pre: "length ?pre = 10" by (simp add: MQTT_NAME_def keep_alive_bytes_def)
  have size: "length (connect_bytes r) = 16 + length (cr_client_id r) + length (cr_username r) + length (cr_password r)"
    using pre by (simp add: connect_bytes_fields)
  have c: "text_field (connect_bytes r) 10 CLIENT_ID_CAP = Some (cr_client_id r, 12 + length (cr_client_id r))"
    using text_field_field [OF ok(1) small(1), of ?pre "?u @ ?w"] pre by (simp add: connect_bytes_fields)
  have u: "text_field (connect_bytes r) (12 + length (cr_client_id r)) USERNAME_CAP
      = Some (cr_username r, 14 + length (cr_client_id r) + length (cr_username r))"
    using text_field_field [OF ok(2) small(2), of "?pre @ ?c" ?w] pre by (simp add: connect_bytes_fields)
  have w: "text_field (connect_bytes r) (14 + length (cr_client_id r) + length (cr_username r)) PASSWORD_CAP
      = Some (cr_password r, length (connect_bytes r))"
    using text_field_field [OF ok(3) small(3), of "?pre @ ?c @ ?u" "[]"] size by (simp add: connect_bytes_fields add.assoc)
  have p: "parse_protocol (connect_bytes r) = Some (0xC2, cr_keep_alive_s r, 10)"
    using parse_protocol_bytes [of "0xC2" "cr_keep_alive_s r"] by (simp add: connect_bytes_fields)
  show ?thesis
    using size ok p c u w by (simp add: argus_mqtt_broker_parse_connect_def flags_exact field_ok_def)
qed

lemma parse_connect_inv:
  assumes "argus_mqtt_broker_parse_connect (Some packet) out = (PARSE_OK, r)"
  shows "packet = connect_bytes r \<and> request_ok r"
proof -
  obtain flags w off where p: "parse_protocol packet = Some (flags, w, off)" and fl: "connect_flags_ok flags"
    using assms by (auto simp: argus_mqtt_broker_parse_connect_def Let_def split: option.splits if_splits prod.splits)
  note q = parse_protocol_inv [OF p]
  obtain c off2 u off3 v where f: "text_field packet 10 CLIENT_ID_CAP = Some (c, off2)"
      "text_field packet off2 USERNAME_CAP = Some (u, off3)"
      "text_field packet off3 PASSWORD_CAP = Some (v, length packet)"
      "r = \<lparr> cr_client_id = c, cr_username = u, cr_password = v, cr_keep_alive_s = w \<rparr>"
    using assms p fl q
    by (auto simp: argus_mqtt_broker_parse_connect_def Let_def split: option.splits if_splits prod.splits)
  note i = text_field_inv [OF f(1)] text_field_inv [OF f(2)] text_field_inv [OF f(3)]
  have "drop 10 packet = field c @ field u @ field v" using i by simp
  then have "packet = connect_bytes r"
    using q fl f(4) by (simp add: connect_bytes_fields flags_exact)
  then show ?thesis using i f(4) by (simp add: request_ok_def)
qed

section \<open>Topics\<close>

text \<open>
  The levels of a topic or filter, and the matching of MQTT 3.1.1 on levels: \<open>+\<close> stands for
  one level and \<open>#\<close> for the rest. Unlike the standard, the code does not let a filter
  that ends in \<open>/#\<close> match its parent level, so the reference does not either.
\<close>

fun topic_levels :: "u8 list \<Rightarrow> u8 list list" where
  "topic_levels [] = [[]]"
| "topic_levels (c # cs) =
     (if c = B_SLASH then [] # topic_levels cs
      else case topic_levels cs of [] \<Rightarrow> [[c]] | l # ls \<Rightarrow> (c # l) # ls)"

fun levels_match :: "u8 list list \<Rightarrow> u8 list list \<Rightarrow> bool" where
  "levels_match [] ls = (ls = [])"
| "levels_match (f # fs) [] = False"
| "levels_match (f # fs) (l # ls) =
     (if f = [B_HASH] then True
      else (f = [B_PLUS] \<or> f = l) \<and> levels_match fs ls)"

text \<open>A filter in which wildcards are whole levels and \<open>#\<close> comes last.\<close>

fun filter_levels_ok :: "u8 list list \<Rightarrow> bool" where
  "filter_levels_ok [] = True"
| "filter_levels_ok (f # fs) \<longleftrightarrow>
     (f = [B_HASH] \<and> fs = [] \<or> f = [B_PLUS] \<or> B_HASH \<notin> set f \<and> B_PLUS \<notin> set f) \<and> filter_levels_ok fs"

fun join_levels :: "u8 list list \<Rightarrow> u8 list" where
  "join_levels [] = []"
| "join_levels [l] = l"
| "join_levels (l # ls) = l @ B_SLASH # join_levels ls"

lemma topic_levels_nonempty [simp]: "topic_levels cs \<noteq> []"
  by (induction cs) (auto split: list.splits)

lemma join_topic_levels: "join_levels (topic_levels cs) = cs"
proof (induction cs)
  case (Cons c cs)
  then show ?case by (cases "topic_levels cs"; cases "tl (topic_levels cs)") auto
qed simp

lemma topic_levels_no_slash: "l \<in> set (topic_levels cs) \<Longrightarrow> B_SLASH \<notin> set l"
  by (induction cs arbitrary: l) (auto split: if_splits list.splits)

text \<open>One level of a filter against one level of a topic.\<close>

lemma match_literal:
  assumes "B_HASH \<notin> set f" "B_PLUS \<notin> set f" "B_SLASH \<notin> set f" "B_SLASH \<notin> set l"
    and "t = [] \<or> hd t = B_SLASH" "g = [] \<or> hd g = B_SLASH"
  shows "argus_mqtt_topic_matches (f @ g) (l @ t) \<longleftrightarrow> f = l \<and> argus_mqtt_topic_matches g t"
  using assms
proof (induction f arbitrary: l)
  case Nil
  show ?case
  proof (cases l)
    case (Cons c l')
    then have "c \<noteq> B_SLASH" using Nil by auto
    then have "\<not> argus_mqtt_topic_matches g (c # l' @ t)" using Nil(6) by (cases g) auto
    then show ?thesis using Cons by simp
  qed simp
next
  case (Cons x f)
  show ?case
  proof (cases l)
    case Nil
    then show ?thesis using Cons.prems by (cases t) auto
  next
    case l: (Cons c l')
    then show ?thesis using Cons by auto
  qed
qed

lemma drop_level: "B_SLASH \<notin> set l \<Longrightarrow> t = [] \<or> hd t = B_SLASH \<Longrightarrow> dropWhile (\<lambda>c. c \<noteq> B_SLASH) (l @ t) = t"
  by (induction l) (auto simp: dropWhile_eq_self_iff)

definition level_tail :: "u8 list list \<Rightarrow> u8 list" where
  "level_tail ls = (if ls = [] then [] else B_SLASH # join_levels ls)"

lemma join_levels_Cons: "join_levels (l # ls) = l @ level_tail ls"
  by (cases ls) (simp_all add: level_tail_def)

lemma level_tail_hd: "level_tail ls = [] \<or> hd (level_tail ls) = B_SLASH"
  by (simp add: level_tail_def)

lemma match_tail:
  "argus_mqtt_topic_matches (level_tail fs) (level_tail ls) \<longleftrightarrow>
     (fs = [] \<and> ls = []) \<or> (fs \<noteq> [] \<and> ls \<noteq> [] \<and> argus_mqtt_topic_matches (join_levels fs) (join_levels ls))"
  by (auto simp: level_tail_def)

lemma match_levels:
  assumes "filter_levels_ok fs" "\<forall>f \<in> set fs. B_SLASH \<notin> set f" "\<forall>l \<in> set ls. B_SLASH \<notin> set l \<and> l \<noteq> []"
    and "fs \<noteq> []" "ls \<noteq> []"
  shows "argus_mqtt_topic_matches (join_levels fs) (join_levels ls) = levels_match fs ls"
  using assms
proof (induction fs ls rule: levels_match.induct)
  case (3 f fs l ls)
  have ih: "argus_mqtt_topic_matches (level_tail fs) (level_tail ls) = levels_match fs ls" if "f \<noteq> [B_HASH]"
    using 3 that unfolding match_tail by (cases fs; cases ls) auto
  obtain c l' where l: "l = c # l'" using 3 by (cases l) auto
  consider "f = [B_HASH]" "fs = []" | "f = [B_PLUS]" | "B_HASH \<notin> set f" "B_PLUS \<notin> set f" using 3(2) by auto
  then show ?case
  proof cases
    case 1
    then show ?thesis by (simp add: join_levels_Cons l level_tail_def)
  next
    case 2
    then show ?thesis
      using ih drop_level [of l "level_tail ls"] level_tail_hd 3(4) by (simp add: join_levels_Cons l)
  next
    case 3
    moreover have "f \<noteq> [B_HASH]" "f \<noteq> [B_PLUS]" using 3 by auto
    ultimately show ?thesis
      using ih match_literal [of f l "level_tail ls" "level_tail fs"] level_tail_hd "3.prems" by (simp add: join_levels_Cons)
  qed
qed simp_all

section \<open>Properties\<close>

text \<open>
  The CONNECT parser accepts exactly one packet shape. It accepts a packet if and only if
  the packet is the encoding of the request it returns: protocol MQTT level 4, user name,
  password and clean session set and every other flag clear, no trailing bytes, and a client
  identifier, a user name and a password that are not empty, contain no zero byte and fit
  their buffers. Every other packet is rejected, and no request is ever read back changed.
\<close>

theorem connect_parse_exact:
  "argus_mqtt_broker_parse_connect (Some packet) out = (PARSE_OK, r) \<longleftrightarrow> packet = connect_bytes r \<and> request_ok r"
  using parse_connect_bytes [of r out] parse_connect_inv [of packet out r] by blast

text \<open>
  Topic filters match level by level. For a filter whose wildcards are whole levels with
  \<open>#\<close> last, and a topic with no empty level, the character scan of the code decides exactly
  the level-wise matching: literal levels agree, \<open>+\<close> stands for one level and \<open>#\<close> for one or
  more.
\<close>

theorem topic_filter_levels:
  assumes "filter_levels_ok (topic_levels f)" "[] \<notin> set (topic_levels t)"
  shows "argus_mqtt_topic_matches f t = levels_match (topic_levels f) (topic_levels t)"
  using match_levels [of "topic_levels f" "topic_levels t"] assms topic_levels_no_slash
  by (metis join_topic_levels topic_levels_nonempty)

theorem topic_filter_levels_witness:
  "argus_mqtt_topic_matches [97, 47, 43, 47, 35] [97, 47, 98, 47, 99, 47, 100]
   \<and> \<not> argus_mqtt_topic_matches [97, 47, 43] [97, 47, 98, 47, 99]"
  using topic_filter_levels [of "[97, 47, 43, 47, 35]" "[97, 47, 98, 47, 99, 47, 100]"]
    topic_filter_levels [of "[97, 47, 43]" "[97, 47, 98, 47, 99]"] by simp

end
