(* ===== verification/Mqtt_Client_Loop.thy ===== *)
theory Mqtt_Client_Loop
  imports Mqtt_Lifecycle Mqtt_Wire_Props
begin

text \<open>
  The loop of one client task of the MQTT broker (\<open>argus_mqtt_client_task\<close> of
  \<open>argus_mqtt_broker.c\<close>): the bare \<open>recv\<close> with its liveness check, the frame, the gate and
  the handlers, and every way out of the loop. The clock, the callbacks and what the other
  tasks do in the gaps are arguments, one of each per round.
\<close>

section \<open>The loop\<close>

text \<open>
  The ways out: the liveness check gave the peer up, the socket or the framing failed, a
  packet was refused with a status, or the peer sent DISCONNECT.
\<close>

datatype loop_exit =
    Exit_Reaped
  | Exit_Lost
  | Exit_Refused esp_err
  | Exit_Disconnect

type_synonym handled_packet = "(u8 \<times> u8 list) \<times> packet_result"

text \<open>
  The first argument bounds the rounds; no exit means that the task is still in its loop after
  that many. The result also has the packets that were handed to the gate and the handlers,
  in order, with their results. Round \<open>k\<close> has the environment \<open>envs k\<close>; \<open>gap k\<close> is what other tasks
  do to the broker between the \<open>recv\<close> of the round and the next section under the lock.
\<close>

fun client_loop ::
  "nat \<Rightarrow> nat \<Rightarrow> (nat \<Rightarrow> packet_env) \<Rightarrow> (nat \<Rightarrow> mqtt_broker \<Rightarrow> mqtt_broker) \<Rightarrow> nat \<Rightarrow> recv_event list \<Rightarrow> mqtt_broker \<Rightarrow>
     loop_exit option \<times> handled_packet list \<times> mqtt_broker" where
  "client_loop 0 k envs gap i es b = (None, [], b)"
| "client_loop (Suc n) k envs gap i es b =
     (let b0 = gap k b; env = envs k in
      case read_frame es of
        (Idle, es') \<Rightarrow>
          if reap_idle (pe_now env) (the_client b0 i) then (Some Exit_Reaped, [], b0)
          else client_loop n (Suc k) envs gap i es' b0
      | (Broken, es') \<Rightarrow>
          (Some Exit_Lost, [], (case es of Chunk (_ # _) # _ \<Rightarrow> mark_activity (pe_now env) i b0 | _ \<Rightarrow> b0))
      | (Packet fixed_header body, es') \<Rightarrow>
          (case client_packet env i fixed_header body b0 of
             (Disconnect, b1) \<Rightarrow> (Some Exit_Disconnect, [((fixed_header, body), Disconnect)], b1)
           | (Handled err sent msg, b1) \<Rightarrow>
               if err \<noteq> ESP_OK then (Some (Exit_Refused err), [((fixed_header, body), Handled err sent msg)], b1)
               else (case client_loop n (Suc k) envs gap i es' b1 of
                       (exit, log, b2) \<Rightarrow> (exit, ((fixed_header, body), Handled err sent msg) # log, b2))))"

text \<open>The task starts the liveness clock of its client and enters the loop.\<close>

definition argus_mqtt_client_task ::
  "nat \<Rightarrow> u64 \<Rightarrow> (nat \<Rightarrow> packet_env) \<Rightarrow> (nat \<Rightarrow> mqtt_broker \<Rightarrow> mqtt_broker) \<Rightarrow> nat \<Rightarrow> recv_event list \<Rightarrow> mqtt_broker \<Rightarrow>
     loop_exit option \<times> handled_packet list \<times> mqtt_broker" where
  "argus_mqtt_client_task rounds started_us envs gap i es b =
     client_loop rounds 0 envs gap i es (mark_activity started_us i b)"

section \<open>The packets of a stream\<close>

text \<open>The packets of the log, and that a log stops at its first packet that is not accepted.\<close>

definition accepted :: "packet_result \<Rightarrow> bool" where
  "accepted r \<longleftrightarrow> (\<exists>sent msg. r = Handled ESP_OK sent msg)"

definition loop_ended_by :: "loop_exit option \<Rightarrow> handled_packet list \<Rightarrow> bool" where
  "loop_ended_by exit log \<longleftrightarrow>
     (case exit of
        Some Exit_Disconnect \<Rightarrow> log \<noteq> [] \<and> snd (last log) = Disconnect \<and> (\<forall>x \<in> set (butlast log). accepted (snd x))
      | Some (Exit_Refused err) \<Rightarrow> log \<noteq> [] \<and> err \<noteq> ESP_OK \<and> (\<exists>sent msg. snd (last log) = Handled err sent msg)
          \<and> (\<forall>x \<in> set (butlast log). accepted (snd x))
      | _ \<Rightarrow> (\<forall>x \<in> set log. accepted (snd x)))"

lemma loop_ended_Cons:
  "loop_ended_by exit log \<Longrightarrow> accepted r \<Longrightarrow> loop_ended_by exit ((p, r) # log)"
  by (auto simp: loop_ended_by_def split: option.splits loop_exit.splits)

lemma loop_ended:
  "client_loop m k envs gap i es b = (exit, log, b') \<Longrightarrow> loop_ended_by exit log"
proof (induction m arbitrary: k es b exit log b')
  case (Suc m)
  obtain f es' where f: "read_frame es = (f, es')" by fastforce
  show ?case
  proof (cases f)
    case (Packet h body)
    obtain r b1 where c: "client_packet (envs k) i h body (gap k b) = (r, b1)" by fastforce
    show ?thesis
    proof (cases "accepted r")
      case True
      then obtain sent msg where r: "r = Handled ESP_OK sent msg" by (auto simp: accepted_def)
      obtain x l b2 where l: "client_loop m (Suc k) envs gap i es' b1 = (x, l, b2)" by (metis prod_cases3)
      have "log = ((h, body), r) # l" "exit = x"
        using Suc.prems by (simp_all add: f Packet c r l)
      then show ?thesis using Suc.IH [OF l] True by (simp add: loop_ended_Cons)
    next
      case False
      then show ?thesis
        using Suc.prems by (cases r) (auto simp: f Packet c loop_ended_by_def accepted_def split: if_splits)
    qed
  next
    case Idle
    show ?thesis
    proof (cases "reap_idle (pe_now (envs k)) (the_client (gap k b) i)")
      case True
      then show ?thesis using Suc.prems by (auto simp: f Idle loop_ended_by_def)
    next
      case False
      then show ?thesis using Suc.prems by (intro Suc.IH) (simp add: f Idle)
    qed
  next
    case Broken
    then show ?thesis using Suc.prems by (auto simp: f loop_ended_by_def Let_def)
  qed
qed (simp add: loop_ended_by_def)

text \<open>What the loop makes of the packets that a peer sent.\<close>

definition delivers :: "(u8 \<times> u8 list) list \<Rightarrow> loop_exit option \<times> handled_packet list \<times> mqtt_broker \<Rightarrow> bool" where
  "delivers frames out \<longleftrightarrow> (\<exists>later. frames = map fst (fst (snd out)) @ later
     \<and> (later \<noteq> [] \<longrightarrow> fst out = Some Exit_Reaped \<or> fst out = Some Exit_Disconnect \<or> (\<exists>err. fst out = Some (Exit_Refused err))))"

lemma quiet_stream:
  assumes "calm idle es" "stream es = []"
  shows "fst (snd (client_loop m k envs gap i es b)) = []"
  using assms
proof (induction m arbitrary: idle k es b)
  case (Suc m)
  show ?case
  proof (cases es)
    case Nil
    then show ?thesis using Suc.IH [of 0 "[]"] by (simp add: read_frame_def Let_def)
  next
    case (Cons e rest)
    show ?thesis
    proof (cases e)
      case Again
      then show ?thesis using Suc.prems Suc.IH [of "idle + 1" rest] Cons by (simp add: read_frame_def Let_def)
    qed (use Suc.prems Cons in \<open>auto simp: read_frame_def Let_def\<close>)
  qed
qed simp

lemma idle_rounds:
  "(\<exists>b'. \<forall>n. client_loop (j + n) k envs gap i (replicate j Again @ es) b = (Some Exit_Reaped, [], b'))
   \<or> (\<exists>b'. \<forall>n. client_loop (j + n) k envs gap i (replicate j Again @ es) b = client_loop n (k + j) envs gap i es b')"
proof (induction j arbitrary: k b)
  case (Suc j)
  let ?b = "gap k b"
  show ?case
  proof (cases "reap_idle (pe_now (envs k)) (the_client ?b i)")
    case True
    then show ?thesis by (intro disjI1 exI [of _ ?b]) (simp add: read_frame_def Let_def)
  next
    case False
    then have "client_loop (Suc j + n) k envs gap i (replicate (Suc j) Again @ es) b
        = client_loop (j + n) (Suc k) envs gap i (replicate j Again @ es) ?b" for n
      by (simp add: read_frame_def Let_def)
    then show ?thesis using Suc.IH [of "Suc k" ?b] by simp
  qed
qed auto

lemma packet_round:
  assumes "read_frame es = (Packet h body, es')" "\<And>k b. \<exists>n. \<forall>m \<ge> n. delivers frames (client_loop m k envs gap i es' b)"
  shows "\<exists>n. \<forall>m \<ge> n. delivers ((h, body) # frames) (client_loop m k envs gap i es b)"
proof -
  obtain r b1 where c: "client_packet (envs k) i h body (gap k b) = (r, b1)" by fastforce
  obtain n where n: "\<And>m. m \<ge> n \<Longrightarrow> delivers frames (client_loop m (Suc k) envs gap i es' b1)" using assms(2) by blast
  have "delivers ((h, body) # frames) (client_loop m k envs gap i es b)" if m: "m \<ge> Suc n" for m
  proof -
    obtain m' where m': "m = Suc m'" "m' \<ge> n" using m by (cases m) auto
    obtain x l b2 where l: "client_loop m' (Suc k) envs gap i es' b1 = (x, l, b2)" by (metis prod_cases3)
    show ?thesis
    proof (cases "accepted r")
      case True
      then show ?thesis
        using n [OF m'(2)] by (auto simp: m'(1) assms(1) c l delivers_def accepted_def)
    next
      case False
      then show ?thesis by (cases r) (auto simp: m'(1) assms(1) c delivers_def accepted_def)
    qed
  qed
  then show ?thesis by blast
qed

lemma loop_delivers:
  assumes "calm 0 es" "stream es = concat (map (\<lambda>(h, b). frame_bytes h b) frames)"
    and "\<forall>(h, b) \<in> set frames. length b \<le> MAX_PACKET_LEN"
  shows "\<exists>n. \<forall>m \<ge> n. delivers frames (client_loop m k envs gap i es b)"
  using assms
proof (induction frames arbitrary: es k b)
  case Nil
  then show ?case by (auto simp: delivers_def quiet_stream)
next
  case (Cons f frames)
  obtain h body where f: "f = (h, body)" by fastforce
  obtain j es' where es: "es = replicate j Again @ es'" "es' = [] \<or> hd es' \<noteq> Again" by (rule leading_timeouts)
  have c: "calm 0 es'" and st: "stream es' = frame_bytes h body @ concat (map (\<lambda>(h, b). frame_bytes h b) frames)"
    using Cons.prems es(1) f calm_drop_timeouts by auto
  then obtain c' rest where "es' = Chunk c' # rest"
    using es(2) by (cases es'; cases "hd es'") (auto simp: frame_bytes_def)
  then obtain es2 where r: "read_frame es' = (Packet h body, es2)" "calm 0 es2"
      "stream es2 = concat (map (\<lambda>(h, b). frame_bytes h b) frames)"
    using read_frame_chunk [OF _ c st] Cons.prems(3) f by auto
  have later: "\<exists>n. \<forall>m \<ge> n. delivers frames (client_loop m k envs gap i es2 b)" for k b
    using Cons.IH [OF r(2,3)] Cons.prems(3) by simp
  from idle_rounds [of j k envs gap i es' b] show ?case
  proof (elim disjE exE)
    fix b' assume reaped: "\<forall>n. client_loop (j + n) k envs gap i (replicate j Again @ es') b = (Some Exit_Reaped, [], b')"
    have "delivers (f # frames) (client_loop m k envs gap i es b)" if "m \<ge> j" for m
      using reaped [rule_format, of "m - j"] that by (simp add: es(1) delivers_def)
    then show ?thesis by blast
  next
    fix b' assume skip: "\<forall>n. client_loop (j + n) k envs gap i (replicate j Again @ es') b
        = client_loop n (k + j) envs gap i es' b'"
    obtain n where n: "\<And>m. m \<ge> n \<Longrightarrow> delivers (f # frames) (client_loop m (k + j) envs gap i es' b')"
      using packet_round [OF r(1) later, of "k + j" b'] unfolding f by blast
    have "delivers (f # frames) (client_loop m k envs gap i es b)" if "m \<ge> j + n" for m
      using skip [rule_format, of "m - j"] n [of "m - j"] that by (simp add: es(1))
    then show ?thesis by blast
  qed
qed

section \<open>Properties\<close>

text \<open>
  C26: The client task receives the packets that were sent, in order, under every segmentation.
  A peer sends packets of at most 1024 bytes, each framed with the broker's own
  remaining-length encoding; the network cuts the stream into pieces in any way, also inside
  a length field, with at most eight timeouts in a row. Then after finitely many rounds the
  packets that the task has handed to its gate and handlers are a prefix of the packets sent,
  unchanged, whatever the callbacks and the other tasks did. It is the whole sequence unless
  the task left its loop earlier, and it leaves it early for three reasons only: the liveness
  check reaped a silent peer, the last packet of the prefix was refused with a status, or it
  was a DISCONNECT; every packet before that one was accepted. In particular the framing never
  breaks off such a stream.
\<close>

theorem client_task_receives:
  assumes "calm 0 es" "stream es = concat (map (\<lambda>(h, b). frame_bytes h b) frames)"
    and "\<forall>(h, b) \<in> set frames. length b \<le> MAX_PACKET_LEN"
  shows "\<exists>n. \<forall>m \<ge> n. \<exists>exit log b' later.
    argus_mqtt_client_task m started_us envs gap i es b = (exit, log, b') \<and> frames = map fst log @ later
    \<and> (later \<noteq> [] \<longrightarrow> exit = Some Exit_Reaped \<or> exit = Some Exit_Disconnect \<or> (\<exists>err. exit = Some (Exit_Refused err)))
    \<and> (case exit of
         Some Exit_Disconnect \<Rightarrow> log \<noteq> [] \<and> snd (last log) = Disconnect \<and> (\<forall>x \<in> set (butlast log). accepted (snd x))
       | Some (Exit_Refused err) \<Rightarrow> log \<noteq> [] \<and> err \<noteq> ESP_OK \<and> (\<exists>sent msg. snd (last log) = Handled err sent msg)
           \<and> (\<forall>x \<in> set (butlast log). accepted (snd x))
       | _ \<Rightarrow> (\<forall>x \<in> set log. accepted (snd x)))"
proof -
  obtain n where n: "\<And>m. m \<ge> n \<Longrightarrow> delivers frames (argus_mqtt_client_task m started_us envs gap i es b)"
    unfolding argus_mqtt_client_task_def using loop_delivers [OF assms] by blast
  show ?thesis
  proof (intro exI [of _ n] allI impI)
    fix m assume "m \<ge> n"
    obtain exit log b' where t: "argus_mqtt_client_task m started_us envs gap i es b = (exit, log, b')" by (metis prod_cases3)
    note ended = loop_ended [OF t [unfolded argus_mqtt_client_task_def], unfolded loop_ended_by_def]
    obtain later where later: "frames = map fst log @ later"
        "later \<noteq> [] \<longrightarrow> exit = Some Exit_Reaped \<or> exit = Some Exit_Disconnect \<or> (\<exists>err. exit = Some (Exit_Refused err))"
      using n [OF \<open>m \<ge> n\<close>] unfolding delivers_def t fst_conv snd_conv by blast
    show "\<exists>exit log b' later.
      argus_mqtt_client_task m started_us envs gap i es b = (exit, log, b') \<and> frames = map fst log @ later
      \<and> (later \<noteq> [] \<longrightarrow> exit = Some Exit_Reaped \<or> exit = Some Exit_Disconnect \<or> (\<exists>err. exit = Some (Exit_Refused err)))
      \<and> (case exit of
           Some Exit_Disconnect \<Rightarrow> log \<noteq> [] \<and> snd (last log) = Disconnect \<and> (\<forall>x \<in> set (butlast log). accepted (snd x))
         | Some (Exit_Refused err) \<Rightarrow> log \<noteq> [] \<and> err \<noteq> ESP_OK \<and> (\<exists>sent msg. snd (last log) = Handled err sent msg)
             \<and> (\<forall>x \<in> set (butlast log). accepted (snd x))
         | _ \<Rightarrow> (\<forall>x \<in> set log. accepted (snd x)))"
      by (intro exI [of _ exit] exI [of _ log] exI [of _ b'] exI [of _ later] conjI t later ended)
  qed
qed

text \<open>
  A connected client without a keep-alive time that sends two PINGs, cut into pieces, and then a
  DISCONNECT; nothing interferes.
\<close>

definition ping_env :: packet_env where
  "ping_env = \<lparr> pe_callbacks = \<lparr> cb_authenticate = None, cb_revalidate = None, cb_subscribe_policy = None,
       cb_publish_authorize = None, cb_policy_check = None, cb_on_message = False, cb_on_client_event = False \<rparr>,
     pe_now = 5, pe_memory = True, pe_send_ok = True, pe_before = (\<lambda>b. b), pe_between = (\<lambda>n b. b) \<rparr>"

definition ping_broker :: mqtt_broker where
  "ping_broker = put_client 0 (client_zero\<lparr> cl_in_use := True, cl_connected := True \<rparr>) broker_zero"

definition ping_stream :: "recv_event list" where
  "ping_stream = [Chunk [0xC0], Again, Chunk [0, 0xC0], Again, Again, Chunk [0], Again, Chunk [0xE0, 0]]"

theorem client_task_receives_witness:
  "(\<exists>n. \<forall>m \<ge> n. \<exists>later. [(0xC0, []), (0xC0, []), (0xE0, [])]
      = map fst (fst (snd (argus_mqtt_client_task m 1 (\<lambda>k. ping_env) (\<lambda>k b. b) 0 ping_stream ping_broker))) @ later)
   \<and> fst (argus_mqtt_client_task 6 1 (\<lambda>k. ping_env) (\<lambda>k b. b) 0 ping_stream ping_broker) = Some Exit_Disconnect
   \<and> map fst (fst (snd (argus_mqtt_client_task 6 1 (\<lambda>k. ping_env) (\<lambda>k b. b) 0 ping_stream ping_broker)))
      = [(0xC0, []), (0xC0, []), (0xE0, [])]"
proof -
  have "calm 0 ping_stream" by (simp add: ping_stream_def)
  moreover have "stream ping_stream = concat (map (\<lambda>(h, b). frame_bytes h b) [(0xC0, []), (0xC0, []), (0xE0, [])])"
    by code_simp
  ultimately obtain n where n: "\<forall>m \<ge> n. \<exists>exit log b' later.
      argus_mqtt_client_task m 1 (\<lambda>k. ping_env) (\<lambda>k b. b) 0 ping_stream ping_broker = (exit, log, b')
      \<and> [(0xC0, []), (0xC0, []), (0xE0, [])] = map fst log @ later"
    using client_task_receives [of ping_stream "[(0xC0, []), (0xC0, []), (0xE0, [])]" 1 "\<lambda>k. ping_env" "\<lambda>k b. b" 0 ping_broker]
    by (simp del: concat.simps list.map) blast
  then have "\<exists>n. \<forall>m \<ge> n. \<exists>later. [(0xC0, []), (0xC0, []), (0xE0, [])]
      = map fst (fst (snd (argus_mqtt_client_task m 1 (\<lambda>k. ping_env) (\<lambda>k b. b) 0 ping_stream ping_broker))) @ later"
    by (metis fst_conv snd_conv)
  moreover have "fst (argus_mqtt_client_task 6 1 (\<lambda>k. ping_env) (\<lambda>k b. b) 0 ping_stream ping_broker) = Some Exit_Disconnect"
    "map fst (fst (snd (argus_mqtt_client_task 6 1 (\<lambda>k. ping_env) (\<lambda>k b. b) 0 ping_stream ping_broker)))
      = [(0xC0, []), (0xC0, []), (0xE0, [])]"
    by code_simp+
  ultimately show ?thesis by blast
qed

end
