(* ===== verification/Mqtt_Broker_Props.thy ===== *)
theory Mqtt_Broker_Props
  imports Mqtt_Lifecycle Mqtt_Wire_Props
begin

text \<open>
  The broker under every interleaving of its tasks. A step of the relation is one section
  under the client lock, as the tasks of the server, of the clients and of an invalidation
  take it in any order; an authentication is two steps with anything between them. The
  invariants are the ownership of session slots and connection records, and that a
  connection never outlives an invalidation of its machine.
\<close>

section \<open>Interleavings\<close>

text \<open>
  Besides the broker: the authentications under way (the captured connection and
  generation), the identifiers invalidated since the start, and for each bound connection
  how many of them there were when its authentication began. There are fewer than \<open>2 ^ 64\<close>
  invalidations between two starts.
\<close>

record broker_world =
  bw_broker :: mqtt_broker
  bw_auth :: "nat \<Rightarrow> (u64 \<times> u64) option"
  bw_fences :: "u8 list list"
  bw_bound :: "nat \<Rightarrow> nat"

definition other_cells :: "mqtt_broker \<Rightarrow> mqtt_broker \<Rightarrow> bool" where
  "other_cells b b' \<longleftrightarrow> br_clients b' = br_clients b \<and> br_sessions b' = br_sessions b
     \<and> br_invalidations b' = br_invalidations b"

inductive broker_step :: "broker_world \<Rightarrow> broker_world \<Rightarrow> bool" where
  step_accept: "argus_mqtt_alloc_client_locked proven sock peer iface (bw_broker w) = (r, b) \<Longrightarrow>
    broker_step w (w\<lparr> bw_broker := b, bw_auth := (case r of None \<Rightarrow> bw_auth w | Some i \<Rightarrow> (bw_auth w)(i := None)) \<rparr>)"
| step_undo: "i < MAX_CONNECTIONS \<Longrightarrow> \<not> cl_connected (the_client (bw_broker w) i) \<Longrightarrow>
    broker_step w (w\<lparr> bw_broker := undo_accept i (bw_broker w) \<rparr>)"
| step_activity: "i < MAX_CONNECTIONS \<Longrightarrow> broker_step w (w\<lparr> bw_broker := mark_activity now i (bw_broker w) \<rparr>)"
| step_auth_begin: "i < MAX_CONNECTIONS \<Longrightarrow> connect_begin i (bw_broker w) = (conn, g, True) \<Longrightarrow>
    broker_step w (w\<lparr> bw_auth := (bw_auth w)(i \<mapsto> (conn, g)) \<rparr>)"
| step_auth_end: "broker_step w (w\<lparr> bw_auth := (bw_auth w)(i := None) \<rparr>)"
| step_bind: "i < MAX_CONNECTIONS \<Longrightarrow> bw_auth w i = Some (conn, g) \<Longrightarrow> request_ok req \<Longrightarrow>
    connect_bind i conn g req p now (bw_broker w) = (allowed, capacity, b) \<Longrightarrow>
    broker_step w (w\<lparr> bw_broker := b, bw_auth := (bw_auth w)(i := None),
      bw_bound := (if allowed \<and> capacity then (bw_bound w)(i := unat g) else bw_bound w) \<rparr>)"
| step_subscribe: "i < MAX_CONNECTIONS \<Longrightarrow> subscribe_commit i conn filters (bw_broker w) = (ok, b) \<Longrightarrow>
    broker_step w (w\<lparr> bw_broker := b \<rparr>)"
| step_retain: "i < MAX_CONNECTIONS \<Longrightarrow> retain_commit i conn topic payload (bw_broker w) = (e, b) \<Longrightarrow>
    broker_step w (w\<lparr> bw_broker := b \<rparr>)"
| step_publish: "argus_mqtt_store_retained_locked topic payload (bw_broker w) = (e, b) \<Longrightarrow>
    broker_step w (w\<lparr> bw_broker := b \<rparr>)"
| step_close: "i < MAX_CONNECTIONS \<Longrightarrow> argus_mqtt_close_client i (bw_broker w) = Some (x, b) \<Longrightarrow>
    broker_step w (w\<lparr> bw_broker := b, bw_auth := (bw_auth w)(i := None) \<rparr>)"
| step_fence: "length (bw_fences w) + 1 < 2 ^ 64 \<Longrightarrow> argus_mqtt_broker_fence_machine_authentication (Some s) (bw_broker w) = (ESP_OK, b) \<Longrightarrow>
    broker_step w (w\<lparr> bw_broker := b, bw_fences := bw_fences w @ [cstr s] \<rparr>)"
| step_claim: "claim_targets s (bw_broker w) = (ts, matched, b) \<Longrightarrow> broker_step w (w\<lparr> bw_broker := b \<rparr>)"
| step_release: "release_target t (bw_broker w) = (ok, b) \<Longrightarrow> broker_step w (w\<lparr> bw_broker := b \<rparr>)"
| step_retire: "retire_sockets (bw_broker w) = (socks, b) \<Longrightarrow> broker_step w (w\<lparr> bw_broker := b \<rparr>)"
| step_other: "other_cells (bw_broker w) b \<Longrightarrow> broker_step w (w\<lparr> bw_broker := b \<rparr>)"
| step_start: "\<forall>i < MAX_CONNECTIONS. \<not> cl_in_use (the_client (bw_broker w) i) \<and> bw_auth w i = None \<Longrightarrow>
    broker_step w \<lparr> bw_broker = reset_runtime (bw_broker w), bw_auth = (\<lambda>_. None), bw_fences = [], bw_bound = (\<lambda>_. 0) \<rparr>"

definition world_zero :: broker_world where
  "world_zero = \<lparr> bw_broker = reset_runtime broker_zero, bw_auth = (\<lambda>_. None), bw_fences = [], bw_bound = (\<lambda>_. 0) \<rparr>"

section \<open>Ownership of records and session slots\<close>

abbreviation slot_of :: "mqtt_broker \<Rightarrow> nat \<Rightarrow> nat option" where
  "slot_of b i \<equiv> cl_session_slot (the_client b i)"

abbreviation online :: "mqtt_broker \<Rightarrow> nat \<Rightarrow> bool" where
  "online b i \<equiv> cl_in_use (the_client b i) \<and> cl_connected (the_client b i)"

definition client_sound :: "mqtt_broker \<Rightarrow> nat \<Rightarrow> bool" where
  "client_sound b i \<longleftrightarrow>
     (cl_connected (the_client b i) \<longrightarrow> cl_in_use (the_client b i) \<and> slot_of b i \<noteq> None)
     \<and> (\<forall>k. slot_of b i = Some k \<longrightarrow> cl_connected (the_client b i) \<and> k < MAX_CLIENTS \<and> ms_in_use (br_sessions b ! k))"

definition pairs_sound :: "mqtt_broker \<Rightarrow> nat \<Rightarrow> nat \<Rightarrow> bool" where
  "pairs_sound b i j \<longleftrightarrow>
     (slot_of b i \<noteq> None \<longrightarrow> slot_of b i \<noteq> slot_of b j)
     \<and> (pending_client (the_client b i) \<and> pending_client (the_client b j) \<longrightarrow>
          cl_peer_key (the_client b i) \<noteq> cl_peer_key (the_client b j))
     \<and> (online b i \<and> online b j \<longrightarrow> cl_client_id (the_client b i) \<noteq> cl_client_id (the_client b j))"

definition pool_ok :: "mqtt_broker \<Rightarrow> bool" where
  "pool_ok b \<longleftrightarrow> length (br_clients b) = MAX_CONNECTIONS \<and> length (br_sessions b) = MAX_CLIENTS
     \<and> (\<forall>i < MAX_CONNECTIONS. client_sound b i)
     \<and> (\<forall>i < MAX_CONNECTIONS. \<forall>j < MAX_CONNECTIONS. i \<noteq> j \<longrightarrow> pairs_sound b i j)
     \<and> (\<forall>k < MAX_CLIENTS. ms_in_use (br_sessions b ! k) \<longrightarrow> (\<exists>i < MAX_CONNECTIONS. slot_of b i = Some k))
     \<and> length (filter pending_client (br_clients b)) \<le> MAX_PRECONNECT"

text \<open>What the invariant depends on.\<close>

definition pool_key :: "mqtt_client \<Rightarrow> bool \<times> bool \<times> nat option \<times> u32 \<times> u8 list" where
  "pool_key c = (cl_in_use c, cl_connected c, cl_session_slot c, cl_peer_key c, cl_client_id c)"

lemma pool_key_eq:
  "pool_key c = pool_key c' \<Longrightarrow> cl_in_use c = cl_in_use c' \<and> cl_connected c = cl_connected c'
     \<and> cl_session_slot c = cl_session_slot c' \<and> cl_peer_key c = cl_peer_key c' \<and> cl_client_id c = cl_client_id c'"
  by (simp add: pool_key_def)

lemma pool_cong:
  assumes "map pool_key (br_clients b') = map pool_key (br_clients b)" "map ms_in_use (br_sessions b') = map ms_in_use (br_sessions b)"
    and "pool_ok b"
  shows "pool_ok b'"
proof -
  have len: "length (br_clients b') = length (br_clients b)" "length (br_sessions b') = length (br_sessions b)"
    using assms(1,2) by (metis length_map)+
  have k: "pool_key (the_client b' i) = pool_key (the_client b i)" if "i < length (br_clients b)" for i
    using assms(1) that len unfolding the_client_def by (metis nth_map)
  have s: "ms_in_use (br_sessions b' ! i) = ms_in_use (br_sessions b ! i)" if "i < length (br_sessions b)" for i
    using assms(2) that len by (metis nth_map)
  have p: "length (filter pending_client cs) = length (filter (\<lambda>x. fst x \<and> \<not> fst (snd x)) (map pool_key cs))" for cs
    by (induction cs) (simp_all add: pending_client_def pool_key_def)
  have f: "length (filter pending_client (br_clients b')) = length (filter pending_client (br_clients b))"
    unfolding p assms(1) ..
  have e: "cl_in_use (the_client b' i) = cl_in_use (the_client b i) \<and> cl_connected (the_client b' i) = cl_connected (the_client b i)
      \<and> slot_of b' i = slot_of b i \<and> cl_peer_key (the_client b' i) = cl_peer_key (the_client b i)
      \<and> cl_client_id (the_client b' i) = cl_client_id (the_client b i)" if "i < MAX_CONNECTIONS" for i
    using pool_key_eq [OF k] that assms(3) by (simp add: pool_ok_def)
  have own: "\<exists>i < MAX_CONNECTIONS. slot_of b' i = Some k" if k: "k < MAX_CLIENTS" "ms_in_use (br_sessions b' ! k)" for k
  proof -
    have "ms_in_use (br_sessions b ! k)" using s k assms(3) by (simp add: pool_ok_def)
    then obtain i where "i < MAX_CONNECTIONS" "slot_of b i = Some k" using assms(3) k(1) unfolding pool_ok_def by blast
    then show ?thesis using e by auto
  qed
  show ?thesis
    unfolding pool_ok_def using assms(3) len f e s own
    by (simp add: pool_ok_def client_sound_def pairs_sound_def pending_client_def)
qed

lemma the_client_put [simp]:
  "the_client (put_client i c b) j = (if i = j \<and> j < length (br_clients b) then c else the_client b j)"
  by (cases "i < length (br_clients b)") (auto simp: the_client_def put_client_def nth_list_update list_update_beyond)

lemma put_client_cells [simp]:
  "br_sessions (put_client i c b) = br_sessions b" "length (br_clients (put_client i c b)) = length (br_clients b)"
  "br_invalidations (put_client i c b) = br_invalidations b" "br_clients (put_client i c b) = (br_clients b)[i := c]"
  by (simp_all add: put_client_def)

lemma the_client_update [simp]: "the_client (b\<lparr> br_sessions := x \<rparr>) i = the_client b i"
  by (simp add: the_client_def)

lemma map_update_same: "f c = f (xs ! i) \<Longrightarrow> map f (xs[i := c]) = map f xs"
  by (cases "i < length xs") (simp_all add: map_update list_update_beyond list_update_same_conv)

lemma pool_put_same:
  assumes "pool_ok b" "pool_key c = pool_key (the_client b i)"
  shows "pool_ok (put_client i c b)"
  using assms by (intro pool_cong [OF _ _ assms(1)]) (simp_all add: map_update_same the_client_def)

text \<open>Counting after a change of one record.\<close>

lemma count_update:
  assumes "i < length xs"
  shows "length (filter P (xs[i := c])) + (if P (xs ! i) then 1 else 0) = length (filter P xs) + (if P c then 1 else 0)"
  using assms
proof (induction xs arbitrary: i)
  case (Cons x xs)
  show ?case using Cons.IH [of "i - 1"] Cons.prems by (cases i) auto
qed simp

lemma pending_update:
  assumes "i < length (br_clients b)"
  shows "length (filter pending_client ((br_clients b)[i := c])) + (if pending_client (the_client b i) then 1 else 0)
     = length (filter pending_client (br_clients b)) + (if pending_client c then 1 else 0)"
  using count_update [OF assms, of pending_client c] by (simp add: the_client_def)

lemma online_bound:
  assumes "pool_ok b"
  shows "card {i. i < MAX_CONNECTIONS \<and> cl_connected (the_client b i)} \<le> MAX_CLIENTS"
proof -
  let ?S = "{i. i < MAX_CONNECTIONS \<and> cl_connected (the_client b i)}" and ?f = "\<lambda>i. the (slot_of b i)"
  have "?f ` ?S \<subseteq> {..<MAX_CLIENTS}"
    using assms by (auto simp: pool_ok_def client_sound_def)
  moreover have "inj_on ?f ?S"
    using assms unfolding pool_ok_def client_sound_def pairs_sound_def by (intro inj_onI) (metis mem_Collect_eq option.expand)
  ultimately show ?thesis using card_inj_on_le [of ?f ?S "{..<MAX_CLIENTS}"] by simp
qed

lemma occupancy_bounds:
  assumes "pool_ok b" "argus_mqtt_occupancy_locked b = (pending, authenticated)"
  shows "pending \<le> MAX_PRECONNECT" "authenticated \<le> MAX_CLIENTS"
    and "pending + authenticated = card {i. i < MAX_CONNECTIONS \<and> cl_in_use (the_client b i)}"
proof -
  have len: "length (br_clients b) = MAX_CONNECTIONS" using assms(1) by (simp add: pool_ok_def)
  then have p: "pending = card {i. i < MAX_CONNECTIONS \<and> pending_client (the_client b i)}"
    and a: "authenticated = card {i. i < MAX_CONNECTIONS \<and> online b i}"
    using assms(2) by (auto simp: argus_mqtt_occupancy_locked_def Let_def length_filter_conv_card the_client_def)
  show "pending \<le> MAX_PRECONNECT" using assms len by (auto simp: argus_mqtt_occupancy_locked_def pool_ok_def Let_def)
  have "authenticated \<le> card {i. i < MAX_CONNECTIONS \<and> cl_connected (the_client b i)}"
    unfolding a by (rule card_mono) auto
  then show "authenticated \<le> MAX_CLIENTS" using online_bound [OF assms(1)] by simp
  have "{i. i < MAX_CONNECTIONS \<and> cl_in_use (the_client b i)}
      = {i. i < MAX_CONNECTIONS \<and> pending_client (the_client b i)} \<union> {i. i < MAX_CONNECTIONS \<and> online b i}"
    by (auto simp: pending_client_def)
  then show "pending + authenticated = card {i. i < MAX_CONNECTIONS \<and> cl_in_use (the_client b i)}"
    unfolding p a by (subst card_Un_disjoint [symmetric]) (auto simp: pending_client_def)
qed

subsection \<open>Admission\<close>

lemma find_upt:
  "find P [0..<n] = Some i \<Longrightarrow> i < n \<and> P i" "find P [0..<n] = None \<Longrightarrow> j < n \<Longrightarrow> \<not> P j"
  by (auto simp: find_Some_iff find_None_iff)

lemma admit_result:
  assumes "argus_mqtt_preconnect_admit_locked proven peer b = (ok, b1)" "length (br_clients b) = MAX_CONNECTIONS"
  shows "other_cells b b1 \<and> (ok \<longrightarrow> length (filter pending_client (br_clients b)) < MAX_PRECONNECT
    \<and> (\<forall>i < MAX_CONNECTIONS. pending_client (the_client b i) \<longrightarrow> cl_peer_key (the_client b i) \<noteq> peer))"
proof -
  let ?w = "filter pending_client (br_clients b)"
  let ?d = "argus_mqtt_broker_preconnect_decide (length ?w) (length (filter (\<lambda>c. cl_peer_key c = peer) ?w))
      (length ?w \<ge> MAX_PRECONNECT_UNPROVEN \<and> proven peer)"
  have run: "ok \<longleftrightarrow> ?d = PRECONNECT_ADMIT" "other_cells b b1"
    using assms by (auto simp: argus_mqtt_preconnect_admit_locked_def Let_def other_cells_def split: preconnect_decision.splits if_splits)
  have adm: "length ?w < MAX_PRECONNECT \<and> filter (\<lambda>c. cl_peer_key c = peer) ?w = []" if "?d = PRECONNECT_ADMIT"
    using that by (auto simp: argus_mqtt_broker_preconnect_decide_def Suc_le_eq split: if_splits)
  have "cl_peer_key (the_client b i) \<noteq> peer" if "?d = PRECONNECT_ADMIT" "i < MAX_CONNECTIONS" "pending_client (the_client b i)" for i
  proof -
    have "the_client b i \<in> set ?w" using that(2,3) assms(2) by (simp add: the_client_def)
    then show ?thesis using adm [OF that(1)] unfolding filter_empty_conv by blast
  qed
  then show ?thesis using run adm by blast
qed

lemma other_cells_clients: "other_cells b b1 \<Longrightarrow> the_client b1 i = the_client b i"
  by (simp add: other_cells_def the_client_def)

lemma pool_other: "other_cells b b1 \<Longrightarrow> pool_ok b \<Longrightarrow> pool_ok b1"
  by (rule pool_cong) (simp_all add: other_cells_def)

lemma free_record:
  assumes "pool_ok b" "length (filter pending_client (br_clients b)) < MAX_PRECONNECT"
  shows "\<exists>i < MAX_CONNECTIONS. \<not> cl_in_use (the_client b i)"
proof (rule ccontr)
  assume "\<not> ?thesis"
  then have all: "{i. i < MAX_CONNECTIONS \<and> cl_in_use (the_client b i)} = {..<MAX_CONNECTIONS}" by auto
  obtain p a where o: "argus_mqtt_occupancy_locked b = (p, a)" by fastforce
  have "p = length (filter pending_client (br_clients b))"
    using o assms(1) by (simp add: argus_mqtt_occupancy_locked_def pool_ok_def Let_def)
  then show False using occupancy_bounds [OF assms(1) o] assms(2) all by simp
qed

lemma pool_new_pending:
  assumes b: "pool_ok b" "i < MAX_CONNECTIONS" "\<not> cl_in_use (the_client b i)"
    and n: "length (filter pending_client (br_clients b)) < MAX_PRECONNECT"
    and p: "\<forall>j < MAX_CONNECTIONS. pending_client (the_client b j) \<longrightarrow> cl_peer_key (the_client b j) \<noteq> cl_peer_key c"
    and c: "cl_in_use c" "\<not> cl_connected c" "cl_session_slot c = None"
  shows "pool_ok (put_client i c b)"
proof -
  have old: "\<not> cl_connected (the_client b i)" "slot_of b i = None"
    using b unfolding pool_ok_def client_sound_def by (auto dest: spec [of _ i])
  have "length (filter pending_client ((br_clients b)[i := c])) \<le> MAX_PRECONNECT"
    using pending_update [of i b c] b n by (simp add: pool_ok_def split: if_splits)
  moreover have "\<exists>j < MAX_CONNECTIONS. slot_of (put_client i c b) j = Some k" if k: "k < MAX_CLIENTS" "ms_in_use (br_sessions b ! k)" for k
  proof -
    obtain j where "j < MAX_CONNECTIONS" "slot_of b j = Some k" using b(1) k unfolding pool_ok_def by blast
    then show ?thesis using old(2) by (intro exI [of _ j]) auto
  qed
  moreover have "client_sound (put_client i c b) j" if "j < MAX_CONNECTIONS" for j
  proof -
    have "client_sound b j" using b(1) that by (simp add: pool_ok_def)
    then show ?thesis using c by (simp add: client_sound_def)
  qed
  moreover have "pairs_sound (put_client i c b) j k" if jk: "j < MAX_CONNECTIONS" "k < MAX_CONNECTIONS" "j \<noteq> k" for j k
  proof -
    have "pairs_sound b j k" using b(1) jk by (simp add: pool_ok_def)
    moreover have "pending_client (the_client b j) \<longrightarrow> cl_peer_key (the_client b j) \<noteq> cl_peer_key c"
        "pending_client (the_client b k) \<longrightarrow> cl_peer_key (the_client b k) \<noteq> cl_peer_key c" using p jk by auto
    ultimately show ?thesis using c jk(3) by (auto simp: pairs_sound_def)
  qed
  ultimately show ?thesis
    using b(1) by (simp add: pool_ok_def)
qed

lemma pool_alloc:
  assumes "pool_ok b" "argus_mqtt_alloc_client_locked proven sock peer iface b = (r, b')"
  shows "pool_ok b' \<and> (fst (argus_mqtt_preconnect_admit_locked proven peer b) \<longrightarrow> r \<noteq> None)
    \<and> (\<forall>i. r = Some i \<longrightarrow> i < MAX_CONNECTIONS \<and> \<not> cl_in_use (the_client b i))"
proof -
  obtain ok b1 where a: "argus_mqtt_preconnect_admit_locked proven peer b = (ok, b1)" by fastforce
  have len: "length (br_clients b) = MAX_CONNECTIONS" using assms(1) by (simp add: pool_ok_def)
  note adm = admit_result [OF a len]
  have same: "other_cells b b1" using adm by blast
  have ok1: "pool_ok b1" "\<And>i. the_client b1 i = the_client b i" "br_clients b1 = br_clients b"
    using pool_other [OF same assms(1)] other_cells_clients [OF same] same by (simp_all add: other_cells_def)
  show ?thesis
  proof (cases ok)
    case False
    then show ?thesis using assms(2) a ok1 by (auto simp: argus_mqtt_alloc_client_locked_def)
  next
    case True
    obtain i where i: "find (\<lambda>i. \<not> cl_in_use (the_client b1 i)) [0..<MAX_CONNECTIONS] = Some i"
      using free_record [OF assms(1)] adm True find_upt(2) [of "\<lambda>i. \<not> cl_in_use (the_client b1 i)" MAX_CONNECTIONS] ok1(2)
      by (metis (no_types, lifting) option.exhaust)
    have free: "i < MAX_CONNECTIONS" "\<not> cl_in_use (the_client b i)" using find_upt(1) [OF i] ok1(2) by auto
    let ?c = "client_zero\<lparr> cl_in_use := True, cl_session_slot := None, cl_sock := sock,
        cl_connection_id := br_next_connection_id b1 + 1, cl_peer_key := peer, cl_receiving_interface := iface \<rparr>"
    let ?b = "b1\<lparr> br_next_connection_id := br_next_connection_id b1 + 1 \<rparr>"
    have "pool_ok ?b" by (rule pool_other [OF _ ok1(1)]) (simp add: other_cells_def)
    moreover have "the_client ?b j = the_client b j" "br_clients ?b = br_clients b" for j
      using ok1(2,3) by (simp_all add: the_client_def)
    ultimately have "pool_ok (put_client i ?c ?b)"
      using free adm True by (intro pool_new_pending) (auto simp: client_zero_def)
    moreover have "argus_mqtt_alloc_client_locked proven sock peer iface b = (Some i, put_client i ?c ?b)"
      using a True i by (simp add: argus_mqtt_alloc_client_locked_def)
    ultimately show ?thesis using assms(2) free by simp
  qed
qed

subsection \<open>Leaving\<close>

text \<open>A record is given back together with the session slot it owns.\<close>

lemma pool_leave:
  assumes b: "pool_ok b" "i < MAX_CONNECTIONS"
    and c: "\<not> cl_in_use c" "\<not> cl_connected c" "cl_session_slot c = None"
    and clients: "br_clients b' = (br_clients b)[i := c]"
    and sessions: "br_sessions b' = (case slot_of b i of None \<Rightarrow> br_sessions b | Some k \<Rightarrow> (br_sessions b)[k := mqtt_session_zero])"
  shows "pool_ok b'"
proof -
  have len: "length (br_clients b) = MAX_CONNECTIONS" "length (br_sessions b) = MAX_CLIENTS" using b(1) by (auto simp: pool_ok_def)
  have at: "the_client b' j = (if j = i then c else the_client b j)" if "j < MAX_CONNECTIONS" for j
    using that len clients by (auto simp: the_client_def nth_list_update)
  have use: "ms_in_use (br_sessions b' ! k) \<longleftrightarrow> ms_in_use (br_sessions b ! k) \<and> slot_of b i \<noteq> Some k" if "k < MAX_CLIENTS" for k
  proof (cases "slot_of b i")
    case (Some x)
    then show ?thesis using that len by (cases "x = k") (simp_all add: sessions mqtt_session_zero_def)
  qed (simp add: sessions)
  have "client_sound b' j" if "j < MAX_CONNECTIONS" for j
  proof (cases "j = i")
    case True
    then show ?thesis using at [OF that] c by (simp add: client_sound_def)
  next
    case False
    have "client_sound b j" "pairs_sound b i j" using b that False by (simp_all add: pool_ok_def)
    then show ?thesis using at [OF that] False use by (auto simp: client_sound_def pairs_sound_def)
  qed
  moreover have "pairs_sound b' j k" if jk: "j < MAX_CONNECTIONS" "k < MAX_CONNECTIONS" "j \<noteq> k" for j k
  proof -
    have "pairs_sound b j k" using b(1) jk by (simp add: pool_ok_def)
    then show ?thesis using c at [OF jk(1)] at [OF jk(2)] by (auto simp: pairs_sound_def pending_client_def)
  qed
  moreover have "\<exists>j < MAX_CONNECTIONS. slot_of b' j = Some k" if k: "k < MAX_CLIENTS" "ms_in_use (br_sessions b' ! k)" for k
  proof -
    have "ms_in_use (br_sessions b ! k)" "slot_of b i \<noteq> Some k" using use k by auto
    moreover obtain j where "j < MAX_CONNECTIONS" "slot_of b j = Some k"
      using b(1) k(1) calculation(1) unfolding pool_ok_def by blast
    ultimately show ?thesis using at by (intro exI [of _ j]) auto
  qed
  moreover have "length (filter pending_client (br_clients b')) \<le> MAX_PRECONNECT"
    using pending_update [of i b c] b c len by (auto simp: clients pending_client_def pool_ok_def split: if_splits)
  moreover have "length (br_clients b') = MAX_CONNECTIONS" "length (br_sessions b') = MAX_CLIENTS"
    using clients sessions len by (auto split: option.splits)
  ultimately show ?thesis by (simp add: pool_ok_def)
qed

lemma release_cells:
  assumes "i < length (br_clients b)"
  shows "br_clients (argus_mqtt_session_release_locked i b) = (br_clients b)[i := (the_client b i)\<lparr> cl_session_slot := None \<rparr>]"
    and "br_sessions (argus_mqtt_session_release_locked i b)
       = (case slot_of b i of None \<Rightarrow> br_sessions b | Some k \<Rightarrow> (br_sessions b)[k := mqtt_session_zero])"
    and "br_invalidations (argus_mqtt_session_release_locked i b) = br_invalidations b"
proof -
  have same: "c\<lparr> cl_session_slot := None \<rparr> = c" if "cl_session_slot c = None" for c :: mqtt_client
    using that by (cases c) simp
  have "br_clients b = (br_clients b)[i := (the_client b i)\<lparr> cl_session_slot := None \<rparr>]" if "slot_of b i = None"
    using same [OF that] by (simp add: the_client_def)
  then show "br_clients (argus_mqtt_session_release_locked i b) = (br_clients b)[i := (the_client b i)\<lparr> cl_session_slot := None \<rparr>]"
    by (cases "slot_of b i") (simp_all add: argus_mqtt_session_release_locked_def)
  show "br_sessions (argus_mqtt_session_release_locked i b)
       = (case slot_of b i of None \<Rightarrow> br_sessions b | Some k \<Rightarrow> (br_sessions b)[k := mqtt_session_zero])"
       "br_invalidations (argus_mqtt_session_release_locked i b) = br_invalidations b"
    by (simp_all add: argus_mqtt_session_release_locked_def split: option.splits)
qed

lemma pool_undo:
  assumes "pool_ok b" "i < MAX_CONNECTIONS" "\<not> cl_connected (the_client b i)"
  shows "pool_ok (undo_accept i b)"
proof -
  have len: "i < length (br_clients b)" using assms by (simp add: pool_ok_def)
  show ?thesis
    using assms len release_cells [of i "put_client i ((the_client b i)\<lparr> cl_sock := -1, cl_in_use := False \<rparr>) b"]
    by (intro pool_leave [OF assms(1,2), where c = "(the_client b i)\<lparr> cl_sock := -1, cl_in_use := False, cl_session_slot := None \<rparr>"])
      (simp_all add: undo_accept_def split: option.splits)
qed

lemma close_cells:
  assumes "argus_mqtt_close_client i b = Some (x, b')" "i < length (br_clients b)"
  shows "br_clients b' = (br_clients b)[i := (the_client b i)\<lparr> cl_sock := -1, cl_connected := False,
       cl_security_invalidated := False, cl_shutdown_claimed := False, cl_in_use := False, cl_session_slot := None,
       cl_principal := machine_principal_zero \<rparr>]"
    and "br_sessions b' = (case slot_of b i of None \<Rightarrow> br_sessions b | Some k \<Rightarrow> (br_sessions b)[k := mqtt_session_zero])"
    and "br_invalidations b' = br_invalidations b"
proof -
  let ?b1 = "put_client i ((the_client b i)\<lparr> cl_sock := -1, cl_connected := False, cl_security_invalidated := False,
      cl_shutdown_claimed := False, cl_in_use := False \<rparr>) b"
  have r: "br_clients (argus_mqtt_session_release_locked i ?b1)
      = (br_clients b)[i := (the_client b i)\<lparr> cl_sock := -1, cl_connected := False, cl_security_invalidated := False,
      cl_shutdown_claimed := False, cl_in_use := False, cl_session_slot := None \<rparr>]"
    using release_cells(1) [of i ?b1] assms(2) by simp
  then have "the_client (argus_mqtt_session_release_locked i ?b1) i
      = (the_client b i)\<lparr> cl_sock := -1, cl_connected := False, cl_security_invalidated := False,
      cl_shutdown_claimed := False, cl_in_use := False, cl_session_slot := None \<rparr>"
    using assms(2) by (simp add: the_client_def)
  then show "br_clients b' = (br_clients b)[i := (the_client b i)\<lparr> cl_sock := -1, cl_connected := False,
       cl_security_invalidated := False, cl_shutdown_claimed := False, cl_in_use := False, cl_session_slot := None,
       cl_principal := machine_principal_zero \<rparr>]"
    using assms(1) r by (auto simp: argus_mqtt_close_client_def Let_def split: if_splits)
  show "br_sessions b' = (case slot_of b i of None \<Rightarrow> br_sessions b | Some k \<Rightarrow> (br_sessions b)[k := mqtt_session_zero])"
      "br_invalidations b' = br_invalidations b"
    using assms release_cells(2,3) [of i ?b1]
    by (auto simp: argus_mqtt_close_client_def Let_def split: if_splits option.splits)
qed

lemma pool_close:
  assumes "pool_ok b" "i < MAX_CONNECTIONS" "argus_mqtt_close_client i b = Some (x, b')"
  shows "pool_ok b'"
proof -
  have len: "i < length (br_clients b)" using assms by (simp add: pool_ok_def)
  show ?thesis
    by (rule pool_leave [OF assms(1,2) _ _ _ close_cells(1,2) [OF assms(3) len]]) simp_all
qed

subsection \<open>Binding\<close>

lemma bind_cells:
  assumes "connect_bind i conn g req p now b = (allowed, capacity, b')" "pool_ok b" "i < MAX_CONNECTIONS"
  shows "if allowed \<and> capacity
    then \<exists>k. k < MAX_CLIENTS \<and> \<not> ms_in_use (br_sessions b ! k)
       \<and> pending_client (the_client b i) \<and> \<not> cl_security_invalidated (the_client b i)
       \<and> \<not> argus_mqtt_duplicate_client_id_locked i (cr_client_id req) b
       \<and> \<not> argus_mqtt_invalidation_since (Some (br_invalidations b)) (Some (mp_identifier p)) g
       \<and> br_clients b' = (br_clients b)[i := (the_client b i)\<lparr> cl_session_slot := Some k,
             cl_client_id := c_strlcpy CLIENT_ID_CAP (cr_client_id req), cl_principal := p, cl_connected := True,
             cl_keep_alive_s := cr_keep_alive_s req, cl_last_activity_us := now \<rparr>]
       \<and> br_sessions b' = (br_sessions b)[k := mqtt_session_zero\<lparr> ms_in_use := True \<rparr>]
       \<and> br_invalidations b' = br_invalidations b
    else b' = b"
proof (cases "argus_mqtt_bind_allowed_locked (br_invalidations b) (the_client b i) conn (mp_identifier p) g
    (argus_mqtt_duplicate_client_id_locked i (cr_client_id req) b)")
  case False
  then show ?thesis using assms(1) by (auto simp: connect_bind_def Let_def)
next
  case True
  have len: "i < length (br_clients b)" using assms by (simp add: pool_ok_def)
  have slot: "slot_of b i = None"
    using True assms(2,3) by (cases "slot_of b i") (auto simp: argus_mqtt_bind_allowed_locked_def pool_ok_def client_sound_def)
  show ?thesis
  proof (cases "find (\<lambda>k. \<not> ms_in_use (br_sessions b ! k)) [0..<MAX_CLIENTS]")
    case None
    then show ?thesis using assms(1) True slot by (auto simp: connect_bind_def argus_mqtt_session_claim_locked_def Let_def)
  next
    case (Some k)
    let ?b1 = "put_client i ((the_client b i)\<lparr> cl_session_slot := Some k \<rparr>)
        (b\<lparr> br_sessions := (br_sessions b)[k := mqtt_session_zero\<lparr> ms_in_use := True \<rparr>] \<rparr>)"
    have claim: "argus_mqtt_session_claim_locked i b = (True, ?b1)"
      using Some slot by (simp add: argus_mqtt_session_claim_locked_def)
    have c1: "the_client ?b1 i = (the_client b i)\<lparr> cl_session_slot := Some k \<rparr>" using len by simp
    have k: "k < MAX_CLIENTS \<and> \<not> ms_in_use (br_sessions b ! k)" using find_upt(1) [OF Some] .
    show ?thesis
      using assms(1) True k len unfolding connect_bind_def claim
      by (auto simp: Let_def c1 argus_mqtt_bind_allowed_locked_def pending_client_def split: if_splits intro!: exI [of _ k])
  qed
qed

lemma pool_enter:
  assumes b: "pool_ok b" "i < MAX_CONNECTIONS" "pending_client (the_client b i)" "k < MAX_CLIENTS" "\<not> ms_in_use (br_sessions b ! k)"
    and c: "cl_in_use c" "cl_connected c" "cl_session_slot c = Some k"
    and unique: "\<forall>j < MAX_CONNECTIONS. j \<noteq> i \<and> online b j \<longrightarrow> cl_client_id (the_client b j) \<noteq> cl_client_id c"
    and clients: "br_clients b' = (br_clients b)[i := c]"
    and sessions: "br_sessions b' = (br_sessions b)[k := x]" "ms_in_use x"
  shows "pool_ok b'"
proof -
  have len: "length (br_clients b) = MAX_CONNECTIONS" "length (br_sessions b) = MAX_CLIENTS" using b(1) by (auto simp: pool_ok_def)
  have at: "the_client b' j = (if j = i then c else the_client b j)" if "j < MAX_CONNECTIONS" for j
    using that len clients by (auto simp: the_client_def nth_list_update)
  have use: "ms_in_use (br_sessions b' ! j) \<longleftrightarrow> ms_in_use (br_sessions b ! j) \<or> j = k" if "j < MAX_CLIENTS" for j
    using that len sessions b(4) by (cases "j = k") simp_all
  have free: "slot_of b j \<noteq> Some k" if "j < MAX_CONNECTIONS" for j
    using b(1,5) that by (auto simp: pool_ok_def client_sound_def)
  have "client_sound b' j" if "j < MAX_CONNECTIONS" for j
  proof -
    have "client_sound b j" using b(1) that by (simp add: pool_ok_def)
    then show ?thesis using at [OF that] c use b(4) by (auto simp: client_sound_def)
  qed
  moreover have "pairs_sound b' j l" if jl: "j < MAX_CONNECTIONS" "l < MAX_CONNECTIONS" "j \<noteq> l" for j l
  proof -
    have "pairs_sound b j l" using b(1) jl by (simp add: pool_ok_def)
    then show ?thesis
      using c at [OF jl(1)] at [OF jl(2)] free [OF jl(1)] free [OF jl(2)] unique jl
      by (auto simp: pairs_sound_def pending_client_def)
  qed
  moreover have "\<exists>j < MAX_CONNECTIONS. slot_of b' j = Some l" if l: "l < MAX_CLIENTS" "ms_in_use (br_sessions b' ! l)" for l
  proof (cases "l = k")
    case True
    then show ?thesis using at [OF b(2)] b(2) c(3) by (intro exI [of _ i]) simp
  next
    case False
    then obtain j where "j < MAX_CONNECTIONS" "slot_of b j = Some l"
      using b(1) l use unfolding pool_ok_def by blast
    moreover have "slot_of b i = None" using b(1-3) by (cases "slot_of b i") (auto simp: pool_ok_def client_sound_def pending_client_def)
    ultimately show ?thesis using at by (intro exI [of _ j]) auto
  qed
  moreover have "length (filter pending_client (br_clients b')) \<le> MAX_PRECONNECT"
    using pending_update [of i b c] b c len by (auto simp: clients pending_client_def pool_ok_def split: if_splits)
  moreover have "length (br_clients b') = MAX_CONNECTIONS" "length (br_sessions b') = MAX_CLIENTS"
    using clients sessions len by auto
  ultimately show ?thesis by (simp add: pool_ok_def)
qed

lemma request_id: "request_ok req \<Longrightarrow> c_strlcpy CLIENT_ID_CAP (cr_client_id req) = cr_client_id req \<and> cstr (cr_client_id req) = cr_client_id req"
proof -
  assume "request_ok req"
  then have id: "length (cr_client_id req) < 33" "0 \<notin> set (cr_client_id req)" by (simp_all add: request_ok_def field_ok_def)
  then have "cstr (cr_client_id req) = cr_client_id req" unfolding cstr_def takeWhile_eq_all_conv by auto
  then show ?thesis using id by (simp add: c_strlcpy_def)
qed

lemma pool_bind:
  assumes "pool_ok b" "i < MAX_CONNECTIONS" "request_ok req"
    and "connect_bind i conn g req p now b = (allowed, capacity, b')"
  shows "pool_ok b'"
proof (cases "allowed \<and> capacity")
  case True
  then obtain k where k: "k < MAX_CLIENTS" "\<not> ms_in_use (br_sessions b ! k)" "pending_client (the_client b i)"
      "\<not> argus_mqtt_duplicate_client_id_locked i (cr_client_id req) b"
      "br_clients b' = (br_clients b)[i := (the_client b i)\<lparr> cl_session_slot := Some k,
             cl_client_id := c_strlcpy CLIENT_ID_CAP (cr_client_id req), cl_principal := p, cl_connected := True,
             cl_keep_alive_s := cr_keep_alive_s req, cl_last_activity_us := now \<rparr>]"
      "br_sessions b' = (br_sessions b)[k := mqtt_session_zero\<lparr> ms_in_use := True \<rparr>]"
    using bind_cells [OF assms(4,1,2)] by auto
  show ?thesis
    using k(3,4) request_id [OF assms(3)]
    by (intro pool_enter [OF assms(1,2) k(3,1,2) _ _ _ _ k(5,6)])
      (auto simp: pending_client_def argus_mqtt_duplicate_client_id_locked_def list_ex_iff)
next
  case False
  then show ?thesis using bind_cells [OF assms(4,1,2)] assms(1) by auto
qed

subsection \<open>Sections that do not move records or slots\<close>

lemma pool_map:
  assumes "pool_ok b" "\<And>c. pool_key (f c) = pool_key c" "br_clients b' = map f (br_clients b)" "br_sessions b' = br_sessions b"
  shows "pool_ok b'"
  by (rule pool_cong [OF _ _ assms(1)]) (simp_all add: assms)

lemma claim_key: "pool_key (snd (argus_mqtt_claim_disconnect_locked i s c)) = pool_key c"
  by (simp add: argus_mqtt_claim_disconnect_locked_def pool_key_def Let_def)

lemma claim_cells:
  assumes "claim_targets s b = (ts, matched, b')" "length (br_clients b) = MAX_CONNECTIONS"
  shows "br_sessions b' = br_sessions b \<and> br_invalidations b' = br_invalidations b \<and> length (br_clients b') = MAX_CONNECTIONS
    \<and> (\<forall>i < MAX_CONNECTIONS. pool_key (the_client b' i) = pool_key (the_client b i)
         \<and> (the_client b' i = the_client b i \<or> cl_security_invalidated (the_client b' i)))"
proof -
  have "cl_security_invalidated (snd (argus_mqtt_claim_disconnect_locked i s (c\<lparr> cl_security_invalidated := True \<rparr>)))" for i c
    by (simp add: argus_mqtt_claim_disconnect_locked_def Let_def)
  moreover have "pool_key (c\<lparr> cl_security_invalidated := True \<rparr>) = pool_key c" for c by (simp add: pool_key_def)
  ultimately show ?thesis
    using assms by (auto simp: claim_targets_def Let_def the_client_def claim_key)
qed

lemma pool_keys:
  assumes "pool_ok b" "length (br_clients b') = MAX_CONNECTIONS" "br_sessions b' = br_sessions b"
    and "\<forall>i < MAX_CONNECTIONS. pool_key (the_client b' i) = pool_key (the_client b i)"
  shows "pool_ok b'"
proof (rule pool_cong [OF _ _ assms(1)])
  show "map pool_key (br_clients b') = map pool_key (br_clients b)"
    using assms by (intro nth_equalityI) (auto simp: pool_ok_def the_client_def)
qed (simp add: assms)

lemma store_retained_cells:
  "argus_mqtt_store_retained_locked topic payload b = (e, b') \<Longrightarrow> other_cells b b'"
  by (auto simp: argus_mqtt_store_retained_locked_def other_cells_def Let_def split: option.splits)

lemma retain_cells: "retain_commit i conn topic payload b = (e, b') \<Longrightarrow> other_cells b b'"
  by (auto simp: retain_commit_def other_cells_def dest: store_retained_cells [unfolded other_cells_def] split: if_splits)

lemma subscribe_cells:
  assumes "subscribe_commit i conn filters b = (ok, b')"
  shows "br_clients b' = br_clients b \<and> br_invalidations b' = br_invalidations b
    \<and> map ms_in_use (br_sessions b') = map ms_in_use (br_sessions b)"
  using assms
  by (auto simp: subscribe_commit_def Let_def map_update_same split: option.splits if_splits)

lemma pool_reset: "pool_ok (reset_runtime b)"
  by (auto simp: pool_ok_def reset_runtime_def client_sound_def pairs_sound_def the_client_def client_zero_def
      mqtt_session_zero_def pending_client_def nth_replicate)

section \<open>Connections and invalidations\<close>

text \<open>A connection that its packets still count for, and what the invariant says of it.\<close>

definition guarded :: "mqtt_client \<Rightarrow> bool" where
  "guarded c \<longleftrightarrow> cl_in_use c \<and> cl_connected c \<and> \<not> cl_security_invalidated c \<and> cl_sock c \<ge> 0"

definition unfenced :: "broker_world \<Rightarrow> nat \<Rightarrow> bool" where
  "unfenced w i \<longleftrightarrow> bw_bound w i \<le> length (bw_fences w)
     \<and> cstr (mp_identifier (cl_principal (the_client (bw_broker w) i))) \<notin> set (drop (bw_bound w i) (bw_fences w))"

definition world_ok :: "broker_world \<Rightarrow> bool" where
  "world_ok w \<longleftrightarrow> pool_ok (bw_broker w) \<and> journal_of (bw_fences w) (br_invalidations (bw_broker w))
     \<and> (\<forall>i conn g. bw_auth w i = Some (conn, g) \<longrightarrow> unat g \<le> length (bw_fences w))
     \<and> (\<forall>i < MAX_CONNECTIONS. guarded (the_client (bw_broker w) i) \<longrightarrow> unfenced w i)"

lemma reset_cells:
  "br_invalidations (reset_runtime b) = argus_mqtt_invalidation_init"
  "i < MAX_CONNECTIONS \<Longrightarrow> \<not> guarded (the_client (reset_runtime b) i)"
  by (simp_all add: reset_runtime_def the_client_def guarded_def client_zero_def nth_replicate)

lemma world_reset: "world_ok \<lparr> bw_broker = reset_runtime b, bw_auth = (\<lambda>_. None), bw_fences = [], bw_bound = (\<lambda>_. 0) \<rparr>"
  using reset_cells pool_reset journal_init by (simp add: world_ok_def)

text \<open>A section that adds no connection and no invalidation keeps the invariant.\<close>

definition quiet :: "mqtt_broker \<Rightarrow> mqtt_broker \<Rightarrow> bool" where
  "quiet b b' \<longleftrightarrow> pool_ok b' \<and> br_invalidations b' = br_invalidations b
     \<and> (\<forall>i < MAX_CONNECTIONS. guarded (the_client b' i) \<longrightarrow>
          guarded (the_client b i) \<and> cl_principal (the_client b' i) = cl_principal (the_client b i))"

lemma world_quiet:
  assumes "world_ok w" "quiet (bw_broker w) b" "\<And>i x. a i = Some x \<Longrightarrow> bw_auth w i = Some x"
  shows "world_ok (w\<lparr> bw_broker := b, bw_auth := a \<rparr>)"
  using assms unfolding world_ok_def unfenced_def quiet_def by fastforce

lemma quiet_clients:
  assumes "pool_ok b'" "br_invalidations b' = br_invalidations b" "\<And>i. the_client b' i = the_client b i"
  shows "quiet b b'"
  using assms by (simp add: quiet_def)

lemma quiet_other: "other_cells b b' \<Longrightarrow> pool_ok b \<Longrightarrow> quiet b b'"
  by (rule quiet_clients [OF pool_other]) (simp_all add: other_cells_def the_client_def)

lemma quiet_update:
  assumes "pool_ok b'" "br_invalidations b' = br_invalidations b" "br_clients b' = (br_clients b)[i := c]"
    and "guarded c \<Longrightarrow> guarded (the_client b i) \<and> cl_principal c = cl_principal (the_client b i)"
    and "i < length (br_clients b)"
  shows "quiet b b'"
proof -
  have "the_client b' j = (if j = i then c else the_client b j)" for j
    using assms(3,5) by (auto simp: the_client_def nth_list_update)
  then show ?thesis using assms by (auto simp: quiet_def)
qed

lemma quiet_alloc:
  assumes "pool_ok b" "argus_mqtt_alloc_client_locked proven sock peer iface b = (r, b')"
  shows "quiet b b'"
proof -
  have len: "length (br_clients b) = MAX_CONNECTIONS" using assms(1) by (simp add: pool_ok_def)
  obtain ok b1 where a: "argus_mqtt_preconnect_admit_locked proven peer b = (ok, b1)" by fastforce
  have same: "other_cells b b1" using admit_result [OF a len] by blast
  have pool: "pool_ok b'" using pool_alloc [OF assms] by blast
  show ?thesis
  proof (cases r)
    case None
    then have "b' = b1" using assms(2) a by (auto simp: argus_mqtt_alloc_client_locked_def split: if_splits option.splits)
    then show ?thesis using quiet_other [OF same assms(1)] by simp
  next
    case (Some i)
    then have i: "i < length (br_clients b)" using pool_alloc [OF assms] len by simp
    let ?c = "client_zero\<lparr> cl_in_use := True, cl_session_slot := None, cl_sock := sock,
        cl_connection_id := br_next_connection_id b1 + 1, cl_peer_key := peer, cl_receiving_interface := iface \<rparr>"
    have "b' = put_client i ?c (b1\<lparr> br_next_connection_id := br_next_connection_id b1 + 1 \<rparr>)"
      using assms(2) a Some by (auto simp: argus_mqtt_alloc_client_locked_def split: if_splits option.splits)
    then show ?thesis
      using same by (intro quiet_update [OF pool _ _ _ i, where c = ?c]) (auto simp: other_cells_def guarded_def client_zero_def)
  qed
qed

lemma quiet_undo:
  assumes "pool_ok b" "i < MAX_CONNECTIONS" "\<not> cl_connected (the_client b i)"
  shows "quiet b (undo_accept i b)"
proof -
  have len: "i < length (br_clients b)" using assms by (simp add: pool_ok_def)
  let ?b = "put_client i ((the_client b i)\<lparr> cl_sock := -1, cl_in_use := False \<rparr>) b"
  have "br_clients (undo_accept i b) = (br_clients b)[i := (the_client b i)\<lparr> cl_sock := -1, cl_in_use := False, cl_session_slot := None \<rparr>]"
    using release_cells(1) [of i ?b] len by (simp add: undo_accept_def)
  moreover have "br_invalidations (undo_accept i b) = br_invalidations b"
    using release_cells(3) [of i ?b] len by (simp add: undo_accept_def)
  ultimately show ?thesis by (intro quiet_update [OF pool_undo [OF assms] _ _ _ len]) (auto simp: guarded_def)
qed

lemma quiet_activity:
  assumes "pool_ok b" "i < MAX_CONNECTIONS"
  shows "quiet b (mark_activity now i b)"
proof -
  have "pool_ok (mark_activity now i b)"
    unfolding mark_activity_def by (rule pool_put_same [OF assms(1)]) (simp add: pool_key_def)
  then show ?thesis
    using assms by (intro quiet_update) (auto simp: mark_activity_def guarded_def pool_ok_def)
qed

lemma quiet_subscribe:
  assumes "pool_ok b" "subscribe_commit i conn filters b = (ok, b')"
  shows "quiet b b'"
proof -
  note c = subscribe_cells [OF assms(2)]
  have "pool_ok b'" by (rule pool_cong [OF _ _ assms(1)]) (use c in simp_all)
  then show ?thesis using c by (intro quiet_clients) (simp_all add: the_client_def)
qed

lemma quiet_close:
  assumes "pool_ok b" "i < MAX_CONNECTIONS" "argus_mqtt_close_client i b = Some (x, b')"
  shows "quiet b b'"
proof -
  have len: "i < length (br_clients b)" using assms by (simp add: pool_ok_def)
  note c = close_cells [OF assms(3) len]
  show ?thesis by (rule quiet_update [OF pool_close [OF assms] c(3) c(1) _ len]) (simp add: guarded_def)
qed

lemma quiet_claim:
  assumes "pool_ok b" "claim_targets s b = (ts, matched, b')"
  shows "quiet b b'"
proof -
  have len: "length (br_clients b) = MAX_CONNECTIONS" using assms(1) by (simp add: pool_ok_def)
  note c = claim_cells [OF assms(2) len]
  have "pool_ok b'" by (rule pool_keys [OF assms(1)]) (use c in simp_all)
  then show ?thesis using c by (auto simp: quiet_def guarded_def)
qed

lemma quiet_release:
  assumes "pool_ok b" "release_target t b = (ok, b')"
  shows "quiet b b'"
proof -
  let ?i = "dt_slot t"
  obtain r c where c: "argus_mqtt_release_disconnect_claim_locked t (the_client b ?i) = (r, c)" by fastforce
  have key: "pool_key c = pool_key (the_client b ?i)" "guarded c = guarded (the_client b ?i)"
      "cl_principal c = cl_principal (the_client b ?i)"
    using c by (auto simp: argus_mqtt_release_disconnect_claim_locked_def pool_key_def guarded_def split: if_splits)
  have b': "b' = put_client ?i c b" using assms(2) c by (simp add: release_target_def)
  have "pool_ok b'" unfolding b' by (rule pool_put_same [OF assms(1) key(1)])
  then show ?thesis using key by (auto simp: quiet_def b')
qed

lemma quiet_retire:
  assumes "pool_ok b" "retire_sockets b = (socks, b')"
  shows "quiet b b'"
proof -
  let ?f = "\<lambda>c. if cl_in_use c \<and> cl_sock c \<ge> 0 then c\<lparr> cl_sock := -1 \<rparr> else c"
  have b': "br_clients b' = map ?f (br_clients b)" "br_sessions b' = br_sessions b" "br_invalidations b' = br_invalidations b"
    using assms(2) by (auto simp: retire_sockets_def)
  have "pool_ok b'" by (rule pool_map [OF assms(1) _ b'(1,2)]) (simp add: pool_key_def)
  moreover have "the_client b' i = ?f (the_client b i)" if "i < MAX_CONNECTIONS" for i
    using that assms(1) b'(1) by (simp add: the_client_def pool_ok_def)
  ultimately show ?thesis using b'(3) by (auto simp: quiet_def guarded_def split: if_splits)
qed

lemma bind_unfenced:
  assumes w: "world_ok w" "i < MAX_CONNECTIONS" "request_ok req" "bw_auth w i = Some (conn, g)"
    and run: "connect_bind i conn g req p now (bw_broker w) = (allowed, capacity, b)"
  shows "world_ok (w\<lparr> bw_broker := b, bw_auth := (bw_auth w)(i := None),
      bw_bound := (if allowed \<and> capacity then (bw_bound w)(i := unat g) else bw_bound w) \<rparr>)"
proof (cases "allowed \<and> capacity")
  case False
  have ok: "pool_ok (bw_broker w)" using w(1) by (simp add: world_ok_def)
  have "b = bw_broker w" using bind_cells [OF run ok w(2)] False by auto
  then show ?thesis using w(1) False by (auto simp: world_ok_def unfenced_def)
next
  case True
  have ok: "pool_ok (bw_broker w)" and j: "journal_of (bw_fences w) (br_invalidations (bw_broker w))"
    and g: "unat g \<le> length (bw_fences w)"
    using w(1,4) by (auto simp: world_ok_def)
  have inv: "br_invalidations b = br_invalidations (bw_broker w)"
    and since: "\<not> argus_mqtt_invalidation_since (Some (br_invalidations (bw_broker w))) (Some (mp_identifier p)) g"
    and at: "\<And>k. k < MAX_CONNECTIONS \<Longrightarrow> cl_principal (the_client b k) = (if k = i then p else cl_principal (the_client (bw_broker w) k))
        \<and> (k \<noteq> i \<longrightarrow> the_client b k = the_client (bw_broker w) k)"
    using bind_cells [OF run ok w(2)] True ok by (auto simp: the_client_def pool_ok_def)
  have "identifier_valid (Some (mp_identifier p))" using since since_invalid by blast
  then have "cstr (mp_identifier p) \<notin> set (drop (unat g) (bw_fences w))"
    using since_exact [OF j g] since by simp
  then show ?thesis
    using w(1) True inv at g pool_bind [OF ok w(2,3) run] by (auto simp: world_ok_def unfenced_def)
qed

lemma fence_unfenced:
  assumes w: "world_ok w" "length (bw_fences w) + 1 < 2 ^ 64"
    and run: "argus_mqtt_broker_fence_machine_authentication (Some s) (bw_broker w) = (ESP_OK, b)"
  shows "world_ok (w\<lparr> bw_broker := b, bw_fences := bw_fences w @ [cstr s] \<rparr>)"
proof -
  let ?f = "\<lambda>c. if argus_mqtt_disconnect_matches_locked c s then c\<lparr> cl_security_invalidated := True \<rparr> else c"
  obtain j where j: "argus_mqtt_invalidation_record (Some s) (br_invalidations (bw_broker w)) = (True, j)"
      "br_invalidations b = j" "br_clients b = map ?f (br_clients (bw_broker w))" "br_sessions b = br_sessions (bw_broker w)"
    using run by (auto simp: argus_mqtt_broker_fence_machine_authentication_def split: if_splits prod.splits)
  have ok: "pool_ok (bw_broker w)" using w(1) by (simp add: world_ok_def)
  have jo: "journal_of (bw_fences w @ [cstr s]) (br_invalidations b)"
    using journal_record [OF _ j(1)] w j(2) by (simp add: world_ok_def)
  have pool: "pool_ok b" by (rule pool_map [OF ok _ j(3,4)]) (simp add: pool_key_def)
  have "unfenced (w\<lparr> bw_broker := b, bw_fences := bw_fences w @ [cstr s] \<rparr>) i"
    if i: "i < MAX_CONNECTIONS" "guarded (the_client b i)" for i
  proof -
    let ?c = "the_client (bw_broker w) i"
    have c: "the_client b i = ?f ?c" using i(1) ok j(3) by (simp add: the_client_def pool_ok_def)
    have "\<not> argus_mqtt_disconnect_matches_locked ?c s" using c i(2) by (auto simp: guarded_def split: if_splits)
    then have same: "the_client b i = ?c" "guarded ?c" using c i(2) by auto
    then have "cstr (mp_identifier (cl_principal ?c)) \<noteq> cstr s"
      using \<open>\<not> argus_mqtt_disconnect_matches_locked ?c s\<close> by (auto simp: guarded_def argus_mqtt_disconnect_matches_locked_def)
    then show ?thesis using w(1) i(1) same by (auto simp: world_ok_def unfenced_def)
  qed
  then show ?thesis using w(1) jo pool by (fastforce simp: world_ok_def)
qed

lemma step_world:
  assumes "broker_step w w'" "world_ok w"
  shows "world_ok w'"
proof -
  have pool: "pool_ok (bw_broker w)" and len: "length (br_clients (bw_broker w)) = MAX_CONNECTIONS"
    using assms(2) by (auto simp: world_ok_def pool_ok_def)
  have q: "world_ok (w\<lparr> bw_broker := b \<rparr>)" if "quiet (bw_broker w) b" for b
    using world_quiet [OF assms(2) that, of "bw_auth w"] by simp
  from assms(1) show ?thesis
  proof cases
    case (step_bind i conn g req p now allowed capacity b)
    then show ?thesis using bind_unfenced [OF assms(2)] by simp
  next
    case (step_fence s b)
    then show ?thesis using fence_unfenced [OF assms(2)] by simp
  next
    case step_start
    then show ?thesis using world_reset by simp
  next
    case (step_auth_begin i conn g)
    have "unat g = length (bw_fences w)"
      using step_auth_begin(3) assms(2) unat_small
      by (auto simp: connect_begin_def argus_mqtt_invalidation_capture_def world_ok_def journal_of_def Let_def)
    then show ?thesis using assms(2) step_auth_begin(1) by (auto simp: world_ok_def unfenced_def)
  next
    case (step_auth_end i)
    then show ?thesis using assms(2) by (auto simp: world_ok_def unfenced_def)
  next
    case (step_accept proven sock peer iface r b)
    have "world_ok (w\<lparr> bw_broker := b, bw_auth := (case r of None \<Rightarrow> bw_auth w | Some i \<Rightarrow> (bw_auth w)(i := None)) \<rparr>)"
      by (rule world_quiet [OF assms(2) quiet_alloc [OF pool step_accept(2)]]) (auto split: option.splits if_splits)
    then show ?thesis using step_accept(1) by simp
  next
    case (step_close i x b)
    have "world_ok (w\<lparr> bw_broker := b, bw_auth := (bw_auth w)(i := None) \<rparr>)"
      by (rule world_quiet [OF assms(2) quiet_close [OF pool step_close(2,3)]]) (auto split: if_splits)
    then show ?thesis using step_close(1) by simp
  qed (use pool q in \<open>auto intro: quiet_undo quiet_activity quiet_subscribe quiet_claim quiet_release quiet_retire quiet_other
         retain_cells store_retained_cells\<close>)
qed

lemma reachable_world: "broker_step\<^sup>*\<^sup>* world_zero w \<Longrightarrow> world_ok w"
  by (induction rule: rtranclp_induct) (auto intro: step_world simp: world_zero_def world_reset)

section \<open>Properties\<close>

text \<open>
  C20: The connection pools never overflow and never starve each other. In every state that
  the tasks of the broker can reach, in any order, at most three sockets wait for their
  CONNECT, at most one per source address, and at most three machines are connected; every
  connected machine owns a session slot of its own, and no two have the same client
  identifier. A socket that passes the admission check always finds a free record: the
  branch that reports a violated pool invariant is dead.
\<close>

theorem broker_pools_bounded:
  assumes "broker_step\<^sup>*\<^sup>* world_zero w"
  defines "b \<equiv> bw_broker w"
  shows "fst (argus_mqtt_occupancy_locked b) \<le> MAX_PRECONNECT \<and> snd (argus_mqtt_occupancy_locked b) \<le> MAX_CLIENTS
    \<and> (\<forall>i < MAX_CONNECTIONS. \<forall>j < MAX_CONNECTIONS. i \<noteq> j \<longrightarrow>
         (pending_client (the_client b i) \<and> pending_client (the_client b j) \<longrightarrow>
            cl_peer_key (the_client b i) \<noteq> cl_peer_key (the_client b j))
       \<and> (online b i \<and> online b j \<longrightarrow>
            slot_of b i \<noteq> slot_of b j \<and> cl_client_id (the_client b i) \<noteq> cl_client_id (the_client b j)))
    \<and> (\<forall>i < MAX_CONNECTIONS. online b i \<longrightarrow> (\<exists>k < MAX_CLIENTS. slot_of b i = Some k \<and> ms_in_use (br_sessions b ! k)))
    \<and> (fst (argus_mqtt_preconnect_admit_locked proven peer b) \<longrightarrow>
         fst (argus_mqtt_alloc_client_locked proven sock peer iface b) \<noteq> None)"
proof -
  have pool: "pool_ok b" using reachable_world [OF assms(1)] by (simp add: world_ok_def b_def)
  have "fst (argus_mqtt_preconnect_admit_locked proven peer b) \<longrightarrow> fst (argus_mqtt_alloc_client_locked proven sock peer iface b) \<noteq> None"
    using pool_alloc [OF pool, of proven sock peer iface] by (metis prod.collapse)
  moreover have "\<exists>k < MAX_CLIENTS. slot_of b i = Some k \<and> ms_in_use (br_sessions b ! k)"
    if "i < MAX_CONNECTIONS" "online b i" for i
    using pool that unfolding pool_ok_def client_sound_def by blast
  moreover have "pairs_sound b i j \<and> client_sound b i" if "i < MAX_CONNECTIONS" "j < MAX_CONNECTIONS" "i \<noteq> j" for i j
    using pool that unfolding pool_ok_def by blast
  ultimately show ?thesis
    using occupancy_bounds(1,2) [OF pool prod.collapse [symmetric]] unfolding pairs_sound_def client_sound_def by blast
qed

theorem broker_pools_bounded_witness:
  "broker_step\<^sup>*\<^sup>* world_zero world_zero
   \<and> fst (argus_mqtt_alloc_client_locked (\<lambda>_. False) 5 1 1 (bw_broker world_zero)) \<noteq> None"
proof -
  have "fst (argus_mqtt_preconnect_admit_locked (\<lambda>_. False) 1 (bw_broker world_zero))" by code_simp
  then show ?thesis using broker_pools_bounded [OF rtranclp.rtrancl_refl, of "\<lambda>_. False" 1 5 1] by blast
qed

text \<open>
  C19: An invalidated machine is cut off. In every state that the tasks can reach, in any
  order and with an authentication overlapping an invalidation in any way, a connection
  whose packets are still admitted and whose socket is open belongs to a machine that has
  not been invalidated since the verification of its credential began. So once an
  invalidation has returned, no connection of that machine that was bound, or was being
  verified, before it is admitted any more.
\<close>

theorem invalidated_machine_cut_off:
  assumes "broker_step\<^sup>*\<^sup>* world_zero w" "i < MAX_CONNECTIONS"
    and "argus_mqtt_client_admitted_locked (the_client (bw_broker w) i) conn"
    and "cl_sock (the_client (bw_broker w) i) \<ge> 0"
  shows "cstr (mp_identifier (cl_principal (the_client (bw_broker w) i))) \<notin> set (drop (bw_bound w i) (bw_fences w))"
  using reachable_world [OF assms(1)] assms(2-4)
  by (auto simp: world_ok_def unfenced_def guarded_def argus_mqtt_client_admitted_locked_def)

text \<open>A run that connects one machine.\<close>

definition demo_request :: connect_request where
  "demo_request = \<lparr> cr_client_id = [104], cr_username = [109], cr_password = [112], cr_keep_alive_s = 30 \<rparr>"

definition demo_machine :: machine_principal where
  "demo_machine = machine_principal_zero\<lparr> mp_identifier := [109] \<rparr>"

definition demo_accepted :: broker_world where
  "demo_accepted = world_zero\<lparr> bw_broker := snd (argus_mqtt_alloc_client_locked (\<lambda>_. False) 5 1 1 (bw_broker world_zero)),
     bw_auth := (\<lambda>_. None)(0 := None) \<rparr>"

definition demo_verifying :: broker_world where
  "demo_verifying = demo_accepted\<lparr> bw_auth := (bw_auth demo_accepted)(0 \<mapsto> (1, 0)) \<rparr>"

definition demo_bound :: broker_world where
  "demo_bound = demo_verifying\<lparr> bw_broker := snd (snd (connect_bind 0 1 0 demo_request demo_machine 0 (bw_broker demo_verifying))),
     bw_auth := (bw_auth demo_verifying)(0 := None), bw_bound := (bw_bound demo_verifying)(0 := unat (0 :: u64)) \<rparr>"

lemma demo_run: "broker_step\<^sup>*\<^sup>* world_zero demo_bound"
proof -
  let ?b0 = "bw_broker world_zero"
  have r: "fst (argus_mqtt_alloc_client_locked (\<lambda>_. False) 5 1 1 ?b0) = Some 0" by code_simp
  have "broker_step world_zero demo_accepted"
    using broker_step.step_accept [of "\<lambda>_. False" 5 1 1 world_zero "Some 0" "snd (argus_mqtt_alloc_client_locked (\<lambda>_. False) 5 1 1 ?b0)"] r
    by (simp add: demo_accepted_def world_zero_def prod_eq_iff)
  moreover have "broker_step demo_accepted demo_verifying"
  proof -
    have "connect_begin 0 (bw_broker demo_accepted) = (1, 0, True)" by code_simp
    then show ?thesis unfolding demo_verifying_def by (intro broker_step.step_auth_begin) simp_all
  qed
  moreover have "broker_step demo_verifying demo_bound"
  proof -
    let ?r = "connect_bind 0 1 0 demo_request demo_machine 0 (bw_broker demo_verifying)"
    have "fst ?r" "fst (snd ?r)" by code_simp+
    then have "?r = (True, True, snd (snd ?r))" by (metis prod.collapse)
    moreover have "request_ok demo_request" "bw_auth demo_verifying 0 = Some (1, 0)"
      by (simp_all add: request_ok_def demo_request_def field_ok_def demo_verifying_def)
    ultimately show ?thesis
      using broker_step.step_bind [of 0 demo_verifying 1 0 demo_request demo_machine 0 True True] by (simp add: demo_bound_def)
  qed
  ultimately show ?thesis by (meson converse_rtranclp_into_rtranclp rtranclp.rtrancl_refl)
qed

theorem invalidated_machine_cut_off_witness:
  "broker_step\<^sup>*\<^sup>* world_zero demo_bound
   \<and> argus_mqtt_client_admitted_locked (the_client (bw_broker demo_bound) 0) 1
   \<and> cstr (mp_identifier (cl_principal (the_client (bw_broker demo_bound) 0))) \<notin> set (drop (bw_bound demo_bound 0) (bw_fences demo_bound))"
proof -
  have "argus_mqtt_client_admitted_locked (the_client (bw_broker demo_bound) 0) 1"
      "cl_sock (the_client (bw_broker demo_bound) 0) \<ge> 0" by code_simp+
  then show ?thesis using invalidated_machine_cut_off [OF demo_run, of 0 1] demo_run by simp
qed

end
