(* ===== verification/Directory_Nvs.thy ===== *)
theory Directory_Nvs
  imports Security_Manager
begin

text \<open>
  Storage shared by the two directories (\<open>argus_machine_directory.c\<close> and
  \<open>argus_security_directory.c\<close>): two slots and a selector in a namespace of the encrypted
  partition. Both files have the same four access functions with their own keys and record
  types, so they are stated once, over the type of the slot.

  The locale \<open>slot_store\<close> is what the directories rely on; \<open>directory_nvs\<close> is the documented
  behaviour of the NVS calls, and the access functions implement the first on every
  instance of the second.
\<close>

section \<open>Access functions\<close>

record ('x, 'n) dir_nvs =
  dn_open :: "bool \<Rightarrow> 'n \<Rightarrow> esp_err \<times> 'n"
  dn_get_blob :: "string \<Rightarrow> 'n \<Rightarrow> 'x \<Rightarrow> esp_err \<times> 'x"
  dn_set_blob :: "string \<Rightarrow> 'x \<Rightarrow> 'n \<Rightarrow> esp_err \<times> 'n"
  dn_get_u8 :: "string \<Rightarrow> 'n \<Rightarrow> u8 \<Rightarrow> esp_err \<times> u8"
  dn_set_u8 :: "string \<Rightarrow> u8 \<Rightarrow> 'n \<Rightarrow> esp_err \<times> 'n"
  dn_commit :: "'n \<Rightarrow> esp_err \<times> 'n"

definition dir_read_slot ::
  "string \<Rightarrow> string \<Rightarrow> ('x, 'n) dir_nvs \<Rightarrow> u8 \<Rightarrow> 'n \<Rightarrow> 'x \<Rightarrow> esp_err \<times> 'x" where
  "dir_read_slot slot_a slot_b nvs index s out =
     (let err = fst (dn_open nvs False s) in
      if err \<noteq> ESP_OK then (err, out) else dn_get_blob nvs (if index = 0 then slot_a else slot_b) s out)"

definition dir_write_slot ::
  "string \<Rightarrow> string \<Rightarrow> ('x, 'n) dir_nvs \<Rightarrow> u8 \<Rightarrow> 'x \<Rightarrow> 'n \<Rightarrow> esp_err \<times> 'n" where
  "dir_write_slot slot_a slot_b nvs index slot s =
     (let (err, s1) = dn_open nvs True s in
      if err \<noteq> ESP_OK then (err, s1)
      else (let (err2, s2) = dn_set_blob nvs (if index = 0 then slot_a else slot_b) slot s1 in
            if err2 = ESP_OK then dn_commit nvs s2 else (err2, s2)))"

definition dir_read_selector :: "string \<Rightarrow> ('x, 'n) dir_nvs \<Rightarrow> 'n \<Rightarrow> u8 \<Rightarrow> esp_err \<times> u8" where
  "dir_read_selector sel nvs s out =
     (let err = fst (dn_open nvs False s) in
      if err \<noteq> ESP_OK then (err, out) else dn_get_u8 nvs sel s out)"

definition dir_write_selector :: "string \<Rightarrow> ('x, 'n) dir_nvs \<Rightarrow> u8 \<Rightarrow> 'n \<Rightarrow> esp_err \<times> 'n" where
  "dir_write_selector sel nvs selector s =
     (let (err, s1) = dn_open nvs True s in
      if err \<noteq> ESP_OK then (err, s1)
      else (let (err2, s2) = dn_set_u8 nvs sel selector s1 in
            if err2 = ESP_OK then dn_commit nvs s2 else (err2, s2)))"

text \<open>
  The storing part of both commits: write the slot, read it back and compare, and only then
  switch the selector.
\<close>

definition store_slot ::
  "(u8 \<Rightarrow> 'n \<Rightarrow> 'x \<Rightarrow> esp_err \<times> 'x) \<Rightarrow> (u8 \<Rightarrow> 'x \<Rightarrow> 'n \<Rightarrow> esp_err \<times> 'n) \<Rightarrow> (u8 \<Rightarrow> 'n \<Rightarrow> esp_err \<times> 'n) \<Rightarrow>
     ('x \<Rightarrow> bool) \<Rightarrow> 'x \<Rightarrow> u8 \<Rightarrow> 'x \<Rightarrow> 'n \<Rightarrow> esp_err \<times> 'n" where
  "store_slot read_slot write_slot write_selector valid zero target slot s =
     (let (err, s1) = write_slot target slot s in
      if err \<noteq> ESP_OK then (err, s1)
      else
        (let (err2, readback) = read_slot target s1 zero in
         if err2 \<noteq> ESP_OK then (err2, s1)
         else if \<not> valid readback \<or> readback \<noteq> slot then (ESP_ERR_INVALID_CRC, s1)
         else write_selector target s1))"

section \<open>The slot store contract\<close>

locale slot_store =
  fixes read_slot :: "u8 \<Rightarrow> 's \<Rightarrow> 'x \<Rightarrow> esp_err \<times> 'x"
    and write_slot :: "u8 \<Rightarrow> 'x \<Rightarrow> 's \<Rightarrow> esp_err \<times> 's"
    and read_selector :: "'s \<Rightarrow> u8 \<Rightarrow> esp_err \<times> u8"
    and write_selector :: "u8 \<Rightarrow> 's \<Rightarrow> esp_err \<times> 's"
    and slots :: "'s \<Rightarrow> u8 \<Rightarrow> 'x option"
    and selector :: "'s \<Rightarrow> u8 option"
  assumes read_slot_stored: "\<And>i s out x. read_slot i s out = (ESP_OK, x) \<Longrightarrow> slots s i = Some x"
    and read_slot_absent: "\<And>i s out e x. read_slot i s out = (e, x) \<Longrightarrow> absent e \<Longrightarrow> slots s i = None"
    and write_slot_stored: "\<And>i x s e s'. i \<le> 1 \<Longrightarrow> write_slot i x s = (e, s') \<Longrightarrow>
          selector s' = selector s \<and> slots s' (i XOR 1) = slots s (i XOR 1) \<and> (e = ESP_OK \<longrightarrow> slots s' i = Some x)"
    and read_selector_stored: "\<And>s out k. read_selector s out = (ESP_OK, k) \<Longrightarrow> selector s = Some k"
    and read_selector_absent: "\<And>s out e k. read_selector s out = (e, k) \<Longrightarrow> absent e \<Longrightarrow> selector s = None"
    and write_selector_stored: "\<And>k s e s'. write_selector k s = (e, s') \<Longrightarrow>
          slots s' = slots s \<and> (selector s' = Some k \<or> e \<noteq> ESP_OK \<and> selector s' = selector s)"
begin

lemma store_slot_result:
  assumes "store_slot read_slot write_slot write_selector valid zero target x s = (e, s')" "target \<le> 1"
  shows "slots s' (target XOR 1) = slots s (target XOR 1)
    \<and> (selector s' = selector s \<or> selector s' = Some target \<and> slots s' target = Some x \<and> valid x)
    \<and> (e = ESP_OK \<longrightarrow> selector s' = Some target \<and> slots s' target = Some x \<and> valid x)"
proof -
  obtain e1 s1 where w: "write_slot target x s = (e1, s1)" by fastforce
  obtain e2 y where r: "read_slot target s1 zero = (e2, y)" by fastforce
  obtain e3 s3 where z: "write_selector target s1 = (e3, s3)" by fastforce
  note run = assms(1) [unfolded store_slot_def Let_def w prod.case r z]
  show ?thesis
    using run write_slot_stored [OF assms(2) w] write_selector_stored [OF z] by (auto split: if_splits)
qed

end

section \<open>The platform contract\<close>

locale directory_nvs =
  fixes slot_a slot_b sel :: string
    and api :: "('x, 'n) dir_nvs"
    and blobs :: "'n \<Rightarrow> string \<Rightarrow> 'x option"
    and octets :: "'n \<Rightarrow> string \<Rightarrow> u8 option"
  assumes distinct_slots: "slot_a \<noteq> slot_b"
    and open_keeps: "\<And>w s e s'. dn_open api w s = (e, s') \<Longrightarrow> blobs s' = blobs s \<and> octets s' = octets s"
    and open_absent: "\<And>w s k. absent (fst (dn_open api w s)) \<Longrightarrow> blobs s k = None \<and> octets s k = None"
    and get_blob_stored: "\<And>k s out x. dn_get_blob api k s out = (ESP_OK, x) \<Longrightarrow> blobs s k = Some x"
    and get_blob_absent: "\<And>k s out e x. dn_get_blob api k s out = (e, x) \<Longrightarrow> absent e \<Longrightarrow> blobs s k = None"
    and get_u8_stored: "\<And>k s out x. dn_get_u8 api k s out = (ESP_OK, x) \<Longrightarrow> octets s k = Some x"
    and get_u8_absent: "\<And>k s out e x. dn_get_u8 api k s out = (e, x) \<Longrightarrow> absent e \<Longrightarrow> octets s k = None"
    and set_blob_stored: "\<And>k x s e s'. dn_set_blob api k x s = (e, s') \<Longrightarrow> octets s' = octets s
          \<and> (\<exists>y. blobs s' = (blobs s)(k := y) \<and> (e = ESP_OK \<longrightarrow> y = Some x))"
    and set_u8_stored: "\<And>k x s e s'. dn_set_u8 api k x s = (e, s') \<Longrightarrow> blobs s' = blobs s
          \<and> (octets s' = (octets s)(k \<mapsto> x) \<or> e \<noteq> ESP_OK \<and> octets s' = octets s)"
    and commit_keeps: "\<And>s e s'. dn_commit api s = (e, s') \<Longrightarrow> blobs s' = blobs s \<and> octets s' = octets s"

abbreviation dir_slots :: "string \<Rightarrow> string \<Rightarrow> ('n \<Rightarrow> string \<Rightarrow> 'x option) \<Rightarrow> 'n \<Rightarrow> u8 \<Rightarrow> 'x option" where
  "dir_slots slot_a slot_b blobs s \<equiv> \<lambda>i. blobs s (if i = 0 then slot_a else slot_b)"

context directory_nvs
begin

lemma write_slot_cell:
  assumes "dir_write_slot slot_a slot_b api i x s = (e, s')"
  shows "octets s' = octets s
    \<and> (\<exists>y. blobs s' = (blobs s)((if i = 0 then slot_a else slot_b) := y) \<and> (e = ESP_OK \<longrightarrow> y = Some x))"
proof -
  let ?k = "if i = 0 then slot_a else slot_b"
  obtain e1 s1 where o: "dn_open api True s = (e1, s1)" by fastforce
  obtain e2 s2 where w: "dn_set_blob api ?k x s1 = (e2, s2)" by fastforce
  obtain e3 s3 where c: "dn_commit api s2 = (e3, s3)" by fastforce
  note run = assms [unfolded dir_write_slot_def Let_def o prod.case w c]
  show ?thesis
    using run open_keeps [OF o] set_blob_stored [OF w] commit_keeps [OF c]
    by (auto split: if_split_asm intro: fun_upd_triv [symmetric] simp del: if_split)
qed

lemma write_selector_cell:
  assumes "dir_write_selector sel api k s = (e, s')"
  shows "blobs s' = blobs s \<and> (octets s' sel = Some k \<or> e \<noteq> ESP_OK \<and> octets s' sel = octets s sel)"
proof -
  obtain e1 s1 where o: "dn_open api True s = (e1, s1)" by fastforce
  obtain e2 s2 where w: "dn_set_u8 api sel k s1 = (e2, s2)" by fastforce
  obtain e3 s3 where c: "dn_commit api s2 = (e3, s3)" by fastforce
  show ?thesis
    using assms open_keeps [OF o] set_u8_stored [OF w] commit_keeps [OF c] o w c
    by (auto simp: dir_write_selector_def split: if_splits)
qed

end

sublocale directory_nvs \<subseteq> store: slot_store
  "dir_read_slot slot_a slot_b api" "dir_write_slot slot_a slot_b api"
  "dir_read_selector sel api" "dir_write_selector sel api"
  "dir_slots slot_a slot_b blobs" "\<lambda>s. octets s sel"
proof
  show "dir_read_slot slot_a slot_b api i s out = (ESP_OK, x) \<Longrightarrow> dir_slots slot_a slot_b blobs s i = Some x" for i s out x
    using get_blob_stored by (auto simp: dir_read_slot_def Let_def split: if_splits)
  show "dir_read_slot slot_a slot_b api i s out = (e, x) \<Longrightarrow> absent e \<Longrightarrow> dir_slots slot_a slot_b blobs s i = None"
    for i s out e x
    using get_blob_absent open_absent by (auto simp: dir_read_slot_def Let_def split: if_splits)
  show "dir_read_selector sel api s out = (ESP_OK, k) \<Longrightarrow> octets s sel = Some k" for s out k
    using get_u8_stored by (auto simp: dir_read_selector_def Let_def split: if_splits)
  show "dir_read_selector sel api s out = (e, k) \<Longrightarrow> absent e \<Longrightarrow> octets s sel = None" for s out e k
    using get_u8_absent open_absent by (auto simp: dir_read_selector_def Let_def split: if_splits)
  show "i \<le> 1 \<Longrightarrow> dir_write_slot slot_a slot_b api i x s = (e, s') \<Longrightarrow>
      octets s' sel = octets s sel \<and> dir_slots slot_a slot_b blobs s' (i XOR 1) = dir_slots slot_a slot_b blobs s (i XOR 1)
      \<and> (e = ESP_OK \<longrightarrow> dir_slots slot_a slot_b blobs s' i = Some x)" for i x s e s'
    using write_slot_cell [of i x s e s'] distinct_slots by (auto simp: slot_index_cases)
  show "dir_write_selector sel api k s = (e, s') \<Longrightarrow> dir_slots slot_a slot_b blobs s' = dir_slots slot_a slot_b blobs s
      \<and> (octets s' sel = Some k \<or> e \<noteq> ESP_OK \<and> octets s' sel = octets s sel)" for k s e s'
    using write_selector_cell [of k s e s'] by simp
qed

section \<open>An in-memory flash\<close>

text \<open>Writes to the key \<open>ec_broken\<close> fail.\<close>

record 'x entry_cells =
  ec_blobs :: "string \<Rightarrow> 'x option"
  ec_octets :: "string \<Rightarrow> u8 option"
  ec_broken :: "string option"

definition entry_api :: "('x, 'x entry_cells) dir_nvs" where
  "entry_api =
     \<lparr> dn_open = (\<lambda>w s. (ESP_OK, s)),
       dn_get_blob = (\<lambda>k s out. case ec_blobs s k of Some x \<Rightarrow> (ESP_OK, x) | None \<Rightarrow> (ESP_ERR_NVS_NOT_FOUND, out)),
       dn_set_blob = (\<lambda>k x s. if ec_broken s = Some k then (ESP_FAIL, s)
          else (ESP_OK, s\<lparr> ec_blobs := (ec_blobs s)(k \<mapsto> x) \<rparr>)),
       dn_get_u8 = (\<lambda>k s out. case ec_octets s k of Some x \<Rightarrow> (ESP_OK, x) | None \<Rightarrow> (ESP_ERR_NVS_NOT_FOUND, out)),
       dn_set_u8 = (\<lambda>k x s. if ec_broken s = Some k then (ESP_FAIL, s)
          else (ESP_OK, s\<lparr> ec_octets := (ec_octets s)(k \<mapsto> x) \<rparr>)),
       dn_commit = (\<lambda>s. (ESP_OK, s)) \<rparr>"

lemma entry_directory_nvs: "a \<noteq> b \<Longrightarrow> directory_nvs a b entry_api ec_blobs ec_octets"
  by unfold_locales (auto simp: entry_api_def absent_def split: option.splits if_splits intro: fun_upd_triv [symmetric])

lemma entry_access:
  "dir_read_slot a b entry_api i s out =
     (case ec_blobs s (if i = 0 then a else b) of Some x \<Rightarrow> (ESP_OK, x) | None \<Rightarrow> (ESP_ERR_NVS_NOT_FOUND, out))"
  "dir_write_slot a b entry_api i x s = (if ec_broken s = Some (if i = 0 then a else b) then (ESP_FAIL, s)
     else (ESP_OK, s\<lparr> ec_blobs := (ec_blobs s)((if i = 0 then a else b) \<mapsto> x) \<rparr>))"
  "dir_read_selector sel entry_api s k =
     (case ec_octets s sel of Some x \<Rightarrow> (ESP_OK, x) | None \<Rightarrow> (ESP_ERR_NVS_NOT_FOUND, k))"
  "dir_write_selector sel entry_api k s = (if ec_broken s = Some sel then (ESP_FAIL, s)
     else (ESP_OK, s\<lparr> ec_octets := (ec_octets s)(sel \<mapsto> k) \<rparr>))"
  by (simp_all add: entry_api_def dir_read_slot_def dir_write_slot_def dir_read_selector_def dir_write_selector_def Let_def)

end
