(* ===== verification/Machine_Directory.thy ===== *)
theory Machine_Directory
  imports Directory_Nvs
begin

text \<open>
  The directory of enrolled machines (\<open>argus_machine_directory.c\<close>): up to sixteen records in
  a two-slot store, served from a snapshot under a mutex and changed by a single writer task
  that accepts a new directory only under the generation it was read at.

  The pointers of the interface are never null here. Allocations, the queue and the task
  creation are arguments.
\<close>

section \<open>Data\<close>

abbreviation (input) MACHINE_DIRECTORY_SCHEMA_VERSION :: u16 where "MACHINE_DIRECTORY_SCHEMA_VERSION \<equiv> 1"
abbreviation (input) MACHINE_DIRECTORY_MAGIC :: u32 where "MACHINE_DIRECTORY_MAGIC \<equiv> 0x41524d34"
abbreviation (input) MACHINE_DIRECTORY_VALID :: u32 where "MACHINE_DIRECTORY_VALID \<equiv> 0x4d434c54"
abbreviation (input) SECURITY_MAX_MACHINES :: nat where "SECURITY_MAX_MACHINES \<equiv> 16"

record machine_payload =
  my_schema_version :: u16
  my_machine_count :: u8
  my_reserved :: u8
  my_machines :: "machine_record list"

record machine_slot =
  mz_magic :: u32
  mz_schema_version :: u16
  mz_payload_length :: u16
  mz_generation :: u32
  mz_crc32 :: u32
  mz_valid_marker :: u32
  mz_payload :: machine_payload

datatype directory_state =
    DIRECTORY_MISSING
  | DIRECTORY_READY
  | DIRECTORY_CORRUPT
  | DIRECTORY_UNSUPPORTED
  | DIRECTORY_UNAVAILABLE

record machine_directory =
  my_snapshot :: machine_payload
  my_generation :: u32
  my_state :: directory_state
  my_active_slot :: u8
  my_redundancy_degraded :: bool
  my_initialized :: bool

text \<open>Zeroed structures, and the static state before the first call.\<close>

definition machine_record_zero :: machine_record where
  "machine_record_zero = \<lparr> mr_record_version = 0, mr_enabled = 0, mr_client_type = 0, mr_allowed_transports = 0,
     mr_revoked = 0, mr_allowed_interfaces = 0, mr_role_mask = 0, mr_identifier = replicate 37 0,
     mr_display_name = replicate 49 0, mr_scope = replicate 37 0, mr_topic_scope = replicate 97 0,
     mr_api_scope = replicate 65 0, mr_enrollment_actor = replicate 37 0, mr_permissions = 0,
     mr_credential_version = 0, mr_record_security_epoch = 0, mr_principal_revision = 0,
     mr_verifier = verifier_zero \<rparr>"

definition machine_payload_zero :: machine_payload where
  "machine_payload_zero = \<lparr> my_schema_version = 0, my_machine_count = 0, my_reserved = 0,
     my_machines = replicate SECURITY_MAX_MACHINES machine_record_zero \<rparr>"

definition machine_slot_zero :: machine_slot where
  "machine_slot_zero = \<lparr> mz_magic = 0, mz_schema_version = 0, mz_payload_length = 0, mz_generation = 0,
     mz_crc32 = 0, mz_valid_marker = 0, mz_payload = machine_payload_zero \<rparr>"

definition machine_directory_zero :: machine_directory where
  "machine_directory_zero = \<lparr> my_snapshot = machine_payload_zero, my_generation = 0, my_state = DIRECTORY_MISSING,
     my_active_slot = 0, my_redundancy_degraded = False, my_initialized = False \<rparr>"

section \<open>Validation\<close>

text \<open>The bytes of the directory as they lie in memory: the records are packed.\<close>

definition machine_bytes :: "machine_record \<Rightarrow> u8 list" where
  "machine_bytes r =
     [mr_record_version r, mr_enabled r, mr_client_type r, mr_allowed_transports r, mr_revoked r,
      mr_allowed_interfaces r] @ le_bytes 2 (mr_role_mask r) @ mr_identifier r @ mr_display_name r @ mr_scope r
     @ mr_topic_scope r @ mr_api_scope r @ mr_enrollment_actor r @ le_bytes 8 (mr_permissions r)
     @ le_bytes 4 (mr_credential_version r) @ le_bytes 4 (mr_record_security_epoch r)
     @ le_bytes 4 (mr_principal_revision r) @ verifier_bytes (mr_verifier r)"

definition machine_payload_bytes :: "machine_payload \<Rightarrow> u8 list" where
  "machine_payload_bytes p =
     le_bytes 2 (my_schema_version p) @ [my_machine_count p, my_reserved p] @ concat (map machine_bytes (my_machines p))"

definition argus_machine_directory_crc32 :: "machine_payload \<Rightarrow> u32" where
  "argus_machine_directory_crc32 p = crc32_bytes (machine_payload_bytes p)"

definition argus_machine_directory_payload_valid :: "machine_payload \<Rightarrow> bool" where
  "argus_machine_directory_payload_valid p =
     (if my_schema_version p \<noteq> MACHINE_DIRECTORY_SCHEMA_VERSION
         \<or> unat (my_machine_count p) > SECURITY_MAX_MACHINES \<or> my_reserved p \<noteq> 0 then False
      else list_all
        (\<lambda>i. if i \<ge> unat (my_machine_count p) then my_machines p ! i = machine_record_zero
             else argus_security_machine_record_valid (my_machines p ! i)
               \<and> list_all (\<lambda>j. cstr (mr_identifier (my_machines p ! i)) \<noteq> cstr (mr_identifier (my_machines p ! j))) [0..<i])
        [0..<SECURITY_MAX_MACHINES])"

definition argus_machine_directory_slot_valid :: "machine_slot \<Rightarrow> bool" where
  "argus_machine_directory_slot_valid slot \<longleftrightarrow>
     mz_magic slot = MACHINE_DIRECTORY_MAGIC \<and> mz_schema_version slot = MACHINE_DIRECTORY_SCHEMA_VERSION
     \<and> mz_payload_length slot = 6500 \<and> mz_generation slot \<noteq> 0 \<and> mz_valid_marker slot = MACHINE_DIRECTORY_VALID
     \<and> mz_crc32 slot = argus_machine_directory_crc32 (mz_payload slot)
     \<and> argus_machine_directory_payload_valid (mz_payload slot)"

definition argus_machine_directory_commit_precondition :: "machine_payload \<Rightarrow> u32 \<Rightarrow> u32 \<Rightarrow> bool \<Rightarrow> bool" where
  "argus_machine_directory_commit_precondition payload expected_generation current_generation directory_ready \<longleftrightarrow>
     directory_ready \<and> argus_machine_directory_payload_valid payload \<and> expected_generation = current_generation"

section \<open>Start-up and commit\<close>

text \<open>
  The choice of a slot: an error, or the chosen slot, its index and whether the selector has
  to be repaired. A slot comes with the status of its read.
\<close>

definition slot_unsupported_version :: "machine_slot \<times> esp_err \<Rightarrow> bool" where
  "slot_unsupported_version x \<longleftrightarrow> snd x = ESP_OK \<and> mz_magic (fst x) = MACHINE_DIRECTORY_MAGIC
     \<and> mz_schema_version (fst x) \<noteq> MACHINE_DIRECTORY_SCHEMA_VERSION"

definition argus_machine_directory_select_for_test ::
  "machine_slot \<times> esp_err \<Rightarrow> machine_slot \<times> esp_err \<Rightarrow> u8 \<times> esp_err \<Rightarrow> esp_err + machine_slot \<times> u8 \<times> bool" where
  "argus_machine_directory_select_for_test a b sel =
     (let (slot_a, slot_a_status) = a; (slot_b, slot_b_status) = b; (selector, selector_status) = sel;
          a_missing = absent slot_a_status; b_missing = absent slot_b_status;
          a_valid = (slot_a_status = ESP_OK \<and> argus_machine_directory_slot_valid slot_a);
          b_valid = (slot_b_status = ESP_OK \<and> argus_machine_directory_slot_valid slot_b)
      in if a_missing \<and> b_missing then Inl ESP_ERR_NOT_FOUND
         else if (\<not> a_missing \<and> slot_a_status \<noteq> ESP_OK) \<or> (\<not> b_missing \<and> slot_b_status \<noteq> ESP_OK)
         then Inl ESP_ERR_INVALID_STATE
         else if \<not> a_valid \<and> \<not> b_valid
         then Inl (if slot_unsupported_version a \<or> slot_unsupported_version b then ESP_ERR_NOT_SUPPORTED
                   else ESP_ERR_INVALID_CRC)
         else
           (let selector_usable = (selector_status = ESP_OK \<and> selector \<le> 1
                  \<and> ((selector = 0 \<and> a_valid) \<or> (selector = 1 \<and> b_valid)));
                chosen = (if selector_usable then selector
                          else if a_valid \<and> b_valid then (if mz_generation slot_b > mz_generation slot_a then 1 else 0)
                          else if a_valid then 0 else 1)
            in Inr (if chosen = 0 then slot_a else slot_b, chosen, \<not> selector_usable)))"

abbreviation (input) MACHINE_SLOT_A :: string where "MACHINE_SLOT_A \<equiv> ''machines_a''"
abbreviation (input) MACHINE_SLOT_B :: string where "MACHINE_SLOT_B \<equiv> ''machines_b''"
abbreviation (input) MACHINE_SELECTOR :: string where "MACHINE_SELECTOR \<equiv> ''machines_sel''"

type_synonym 'n machine_nvs = "(machine_slot, 'n) dir_nvs"

abbreviation machine_read_slot :: "'n machine_nvs \<Rightarrow> u8 \<Rightarrow> 'n \<Rightarrow> machine_slot \<Rightarrow> esp_err \<times> machine_slot" where
  "machine_read_slot \<equiv> dir_read_slot MACHINE_SLOT_A MACHINE_SLOT_B"

abbreviation machine_write_slot :: "'n machine_nvs \<Rightarrow> u8 \<Rightarrow> machine_slot \<Rightarrow> 'n \<Rightarrow> esp_err \<times> 'n" where
  "machine_write_slot \<equiv> dir_write_slot MACHINE_SLOT_A MACHINE_SLOT_B"

abbreviation machine_read_selector :: "'n machine_nvs \<Rightarrow> 'n \<Rightarrow> u8 \<Rightarrow> esp_err \<times> u8" where
  "machine_read_selector \<equiv> dir_read_selector MACHINE_SELECTOR"

abbreviation machine_write_selector :: "'n machine_nvs \<Rightarrow> u8 \<Rightarrow> 'n \<Rightarrow> esp_err \<times> 'n" where
  "machine_write_selector \<equiv> dir_write_selector MACHINE_SELECTOR"

definition machine_slot_of :: "u32 \<Rightarrow> machine_payload \<Rightarrow> machine_slot" where
  "machine_slot_of generation payload =
     \<lparr> mz_magic = MACHINE_DIRECTORY_MAGIC, mz_schema_version = MACHINE_DIRECTORY_SCHEMA_VERSION,
       mz_payload_length = 6500, mz_generation = generation, mz_crc32 = argus_machine_directory_crc32 payload,
       mz_valid_marker = MACHINE_DIRECTORY_VALID, mz_payload = payload \<rparr>"

definition machine_next_generation :: "machine_directory \<Rightarrow> u32" where
  "machine_next_generation d = (let generation = my_generation d + 1 in if generation = 0 then 1 else generation)"

definition machine_commit_target :: "machine_directory \<Rightarrow> u8" where
  "machine_commit_target d = (if my_generation d = 0 then 0 else my_active_slot d XOR 1)"

definition machine_commit_locked ::
  "bool \<Rightarrow> 'n machine_nvs \<Rightarrow> machine_payload \<Rightarrow> u32 \<Rightarrow> machine_directory \<Rightarrow> 'n \<Rightarrow> esp_err \<times> machine_directory \<times> 'n" where
  "machine_commit_locked memory nvs payload expected_generation d s =
     (if \<not> argus_machine_directory_commit_precondition payload expected_generation (my_generation d)
             (my_state d = DIRECTORY_READY)
      then (ESP_ERR_INVALID_STATE, d, s)
      else if \<not> memory then (ESP_ERR_NO_MEM, d, s)
      else
        (let target = machine_commit_target d; generation = machine_next_generation d;
             (err, s1) = store_slot (machine_read_slot nvs) (machine_write_slot nvs) (machine_write_selector nvs)
                           argus_machine_directory_slot_valid machine_slot_zero target (machine_slot_of generation payload) s
         in (err, if err = ESP_OK
                  then d\<lparr> my_snapshot := payload, my_generation := generation, my_active_slot := target,
                          my_redundancy_degraded := False \<rparr>
                  else d, s1)))"

text \<open>What the platform gives the start-up besides the flash.\<close>

record directory_resources =
  dr_mutex :: bool
  dr_slot_memory :: bool
  dr_commit_memory :: bool
  dr_queue :: bool
  dr_task :: bool

definition argus_machine_directory_init ::
  "directory_resources \<Rightarrow> 'n machine_nvs \<Rightarrow> machine_directory \<Rightarrow> 'n \<Rightarrow> esp_err \<times> machine_directory \<times> 'n" where
  "argus_machine_directory_init res nvs d s =
     (if my_initialized d then (ESP_OK, d, s)
      else if \<not> dr_mutex res \<or> \<not> dr_slot_memory res then (ESP_ERR_NO_MEM, d, s)
      else
        (let (a_status, a) = machine_read_slot nvs 0 s machine_slot_zero;
             (b_status, b) = machine_read_slot nvs 1 s machine_slot_zero;
             (selector_status, selector) = machine_read_selector nvs s 0;
             (err, d1, s1) =
               (case argus_machine_directory_select_for_test (a, a_status) (b, b_status) (selector, selector_status) of
                  Inl e \<Rightarrow>
                    if e = ESP_ERR_NOT_FOUND
                    then (let payload = machine_payload_zero\<lparr> my_schema_version := MACHINE_DIRECTORY_SCHEMA_VERSION \<rparr>
                          in machine_commit_locked (dr_commit_memory res) nvs payload 0
                               (d\<lparr> my_snapshot := payload, my_generation := 0, my_state := DIRECTORY_READY \<rparr>) s)
                    else (e, d\<lparr> my_state := (if e = ESP_ERR_NOT_SUPPORTED then DIRECTORY_UNSUPPORTED
                                            else DIRECTORY_CORRUPT) \<rparr>, s)
                | Inr (slot, chosen, repair) \<Rightarrow>
                    (let d2 = d\<lparr> my_snapshot := mz_payload slot, my_generation := mz_generation slot,
                           my_active_slot := chosen, my_state := DIRECTORY_READY,
                           my_redundancy_degraded :=
                             (\<not> ((a_status = ESP_OK \<and> argus_machine_directory_slot_valid a)
                                 \<and> (b_status = ESP_OK \<and> argus_machine_directory_slot_valid b))) \<rparr>
                     in if repair then (let (e, s2) = machine_write_selector nvs chosen s in (e, d2, s2))
                        else (ESP_OK, d2, s)))
         in if err \<noteq> ESP_OK then (err, d1, s1)
            else if \<not> dr_queue res \<or> \<not> dr_task res then (ESP_ERR_NO_MEM, d1, s1)
            else (ESP_OK, d1\<lparr> my_initialized := True \<rparr>, s1)))"

section \<open>Operations\<close>

definition argus_machine_directory_get_snapshot :: "machine_directory \<Rightarrow> esp_err + machine_payload \<times> u32" where
  "argus_machine_directory_get_snapshot d =
     (if \<not> my_initialized d \<or> my_state d \<noteq> DIRECTORY_READY then Inl ESP_ERR_INVALID_STATE
      else Inr (my_snapshot d, my_generation d))"

record machine_directory_status =
  mt_state :: directory_state
  mt_schema_version :: u16
  mt_machine_count :: u8
  mt_generation :: u32
  mt_redundancy_degraded :: bool

text \<open>The measured stack of the writer is left out of the status.\<close>

definition argus_machine_directory_get_status :: "machine_directory \<Rightarrow> esp_err \<times> machine_directory_status" where
  "argus_machine_directory_get_status d =
     (if \<not> my_initialized d
      then (ESP_ERR_INVALID_STATE, \<lparr> mt_state = my_state d, mt_schema_version = 0, mt_machine_count = 0,
              mt_generation = 0, mt_redundancy_degraded = False \<rparr>)
      else (if my_state d = DIRECTORY_READY then ESP_OK else ESP_ERR_INVALID_STATE,
            \<lparr> mt_state = my_state d, mt_schema_version = my_schema_version (my_snapshot d),
              mt_machine_count = my_machine_count (my_snapshot d), mt_generation = my_generation d,
              mt_redundancy_degraded = my_redundancy_degraded d \<rparr>))"

text \<open>
  A submission to the writer task. \<open>by_writer\<close> says that the caller is the writer itself; the
  queue may have no room in time. The writer takes the mutex and runs the commit.
\<close>

record commit_env =
  ce_by_writer :: bool
  ce_request_memory :: bool
  ce_room :: bool
  ce_memory :: bool

definition argus_machine_directory_commit ::
  "commit_env \<Rightarrow> 'n machine_nvs \<Rightarrow> machine_payload \<Rightarrow> u32 \<Rightarrow> machine_directory \<Rightarrow> 'n \<Rightarrow>
     esp_err \<times> machine_directory \<times> 'n" where
  "argus_machine_directory_commit env nvs payload expected_generation d s =
     (if \<not> my_initialized d \<or> my_state d \<noteq> DIRECTORY_READY \<or> ce_by_writer env then (ESP_ERR_INVALID_STATE, d, s)
      else if \<not> ce_request_memory env then (ESP_ERR_NO_MEM, d, s)
      else if \<not> ce_room env then (ESP_ERR_TIMEOUT, d, s)
      else machine_commit_locked (ce_memory env) nvs payload expected_generation d s)"

text \<open>The first record with the identifier, and its index.\<close>

definition find_machine :: "u8 list \<Rightarrow> machine_payload \<Rightarrow> nat option" where
  "find_machine identifier p =
     find (\<lambda>i. cstr identifier = cstr (mr_identifier (my_machines p ! i))) [0..<unat (my_machine_count p)]"

definition argus_machine_directory_find ::
  "u8 list \<Rightarrow> machine_directory \<Rightarrow> esp_err + machine_record \<times> nat \<times> u32" where
  "argus_machine_directory_find identifier d =
     (if \<not> my_initialized d \<or> my_state d \<noteq> DIRECTORY_READY then Inl ESP_ERR_INVALID_ARG
      else case find_machine identifier (my_snapshot d) of
             None \<Rightarrow> Inl ESP_ERR_NOT_FOUND
           | Some i \<Rightarrow> Inr (my_machines (my_snapshot d) ! i, i, my_generation d))"

end
