(* ===== verification/Machine_Service.thy ===== *)
theory Machine_Service
  imports Machine_Directory Mqtt_Broker
begin

text \<open>
  The machine service (\<open>argus_machine_service.c\<close>): enrolment and administration of machine
  identities, the throttles in front of credential verification, authentication and
  revalidation.

  An administrative operation reads a snapshot of the directory, changes its copy and submits
  it under the snapshot's generation; what other tasks do between the two is the argument
  \<open>sx_between\<close>. Authentication takes its mutex twice, before and after the derivation. The
  random source, the derivation worker and the clock are arguments. Strings that are not
  fields of a record are the bytes before the terminator.
\<close>

section \<open>Scopes and requests\<close>

abbreviation "PERMISSION_MANAGE_NETWORK \<equiv> permission_bit 12"
abbreviation "PERMISSION_CHANGE_AP_SECRET \<equiv> permission_bit 13"
abbreviation "PERMISSION_MANAGE_CLIENT_NETWORK \<equiv> permission_bit 14"
abbreviation "PERMISSION_MANAGE_MQTT \<equiv> permission_bit 15"
abbreviation "PERMISSION_INVOKE_RECOVERY \<equiv> permission_bit 21"

definition bounded_text :: "u8 list \<Rightarrow> nat \<Rightarrow> bool \<Rightarrow> bool" where
  "bounded_text value capacity empty_ok =
     (if capacity = 0 then False
      else (let text = cstr (take capacity value) in
            if length text \<ge> capacity \<or> (\<not> empty_ok \<and> length text = 0) then False
            else list_all (\<lambda>c. \<not> (c < 0x20 \<or> c > 0x7e)) text))"

definition argus_machine_service_scope_contains :: "u8 list \<Rightarrow> u8 list \<Rightarrow> bool" where
  "argus_machine_service_scope_contains actor_scope target_scope =
     (let actor = cstr actor_scope; target = cstr target_scope; len = length actor in
      if actor = [42] then target \<noteq> []
      else if actor = target then True
      else len > 0 \<and> actor ! (len - 1) = 42 \<and> take (len - 1) actor = take (len - 1) target)"

definition argus_machine_service_topic_scope_contains :: "u8 list \<Rightarrow> u8 list \<Rightarrow> bool" where
  "argus_machine_service_topic_scope_contains semantic_scope topic =
     (if \<not> bounded_text semantic_scope 97 False \<or> \<not> bounded_text topic 160 False then False
      else (let scope = cstr semantic_scope; t = cstr topic in
            if scope = [42] then True
            else if take (length scope) t \<noteq> scope then False
            else length t = length scope \<or> t ! length scope = 47))"

record enrollment_request =
  er_display_name :: "u8 list"
  er_client_type :: int
  er_allowed_transports :: u8
  er_allowed_interfaces :: u8
  er_scope :: "u8 list"
  er_topic_scope :: "u8 list"
  er_api_scope :: "u8 list"
  er_permissions :: permission_set

definition enrollment_request_valid :: "enrollment_request option \<Rightarrow> bool" where
  "enrollment_request_valid request =
     (case request of
        None \<Rightarrow> False
      | Some r \<Rightarrow> bounded_text (er_display_name r) 49 False
          \<and> er_client_type r \<ge> 1 \<and> er_client_type r \<le> 6
          \<and> er_allowed_transports r \<noteq> 0 \<and> er_allowed_transports r AND NOT 7 = 0
          \<and> er_allowed_interfaces r \<noteq> 0 \<and> er_allowed_interfaces r AND NOT 3 = 0
          \<and> argus_security_machine_scope_valid (er_scope r)
          \<and> bounded_text (er_topic_scope r) 97 False
          \<and> 43 \<notin> set (cstr (er_topic_scope r)) \<and> 35 \<notin> set (cstr (er_topic_scope r))
          \<and> bounded_text (er_api_scope r) 65 True
          \<and> er_permissions r AND NOT PERMISSION_DEFINED_MASK = 0)"

text \<open>The permissions that no machine may hold.\<close>

definition MACHINE_CEILING :: permission_set where
  "MACHINE_CEILING =
     PERMISSION_MANAGE_USERS OR PERMISSION_MANAGE_ROLES OR PERMISSION_MANAGE_CLIENT_ADMINS
     OR PERMISSION_ENROLL_MACHINES OR PERMISSION_REVOKE_MACHINES OR PERMISSION_VIEW_AUDIT
     OR PERMISSION_MANAGE_NETWORK OR PERMISSION_CHANGE_AP_SECRET OR PERMISSION_MANAGE_CLIENT_NETWORK
     OR PERMISSION_MANAGE_MQTT OR PERMISSION_MODIFY_IDENTITY OR PERMISSION_MODIFY_PROTECTED_CONFIG
     OR PERMISSION_COMMISSION OR PERMISSION_CALIBRATE OR PERMISSION_MANAGE_FIRMWARE
     OR PERMISSION_INVOKE_RECOVERY OR PERMISSION_FULL_SECURITY_RESET"

definition actor_can_manage :: "principal option \<Rightarrow> permission_set \<Rightarrow> u8 list \<Rightarrow> permission_set \<Rightarrow> bool" where
  "actor_can_manage actor required scope requested \<longleftrightarrow>
     argus_authorization_principal_valid actor
     \<and> argus_authorization_require actor required = AUTHZ_ALLOW
     \<and> (case actor of
          None \<Rightarrow> False
        | Some a \<Rightarrow> argus_machine_service_scope_contains (pr_scope a) scope
            \<and> requested AND NOT (pr_delegable_permissions a) = 0)
     \<and> requested AND MACHINE_CEILING = 0"

definition argus_machine_service_enrollment_allowed :: "principal option \<Rightarrow> enrollment_request option \<Rightarrow> bool" where
  "argus_machine_service_enrollment_allowed actor request \<longleftrightarrow>
     enrollment_request_valid request
     \<and> (case request of
          None \<Rightarrow> False
        | Some r \<Rightarrow> actor_can_manage actor PERMISSION_ENROLL_MACHINES (er_scope r) (er_permissions r))"

section \<open>Credentials\<close>

definition hex_lower :: "u8 \<Rightarrow> u8" where
  "hex_lower n = (if n < 10 then 48 + n else 87 + n)"

definition random_identifier :: "u8 list \<Rightarrow> u8 list" where
  "random_identifier random =
     [109, 45] @ concat (map (\<lambda>b. [hex_lower (drop_bit 4 b), hex_lower (b AND 0x0f)]) random)"

definition b64_alphabet :: "u8 list" where
  "b64_alphabet = str_bytes ''ABCDEFGHIJKLMNOPQRSTUVWXYZabcdefghijklmnopqrstuvwxyz0123456789-_''"

definition b64_char :: "nat \<Rightarrow> u32 \<Rightarrow> u8" where
  "b64_char k value = b64_alphabet ! unat (drop_bit k value AND 0x3f)"

fun base64url_secret :: "u8 list \<Rightarrow> u8 list" where
  "base64url_secret (a # b # c # rest) =
     (let value = push_bit 16 (ucast a) OR push_bit 8 (ucast b) OR ucast c
      in [b64_char 18 value, b64_char 12 value, b64_char 6 value, b64_char 0 value] @ base64url_secret rest)"
| "base64url_secret [a, b] =
     (let value = push_bit 16 (ucast a) OR push_bit 8 (ucast b)
      in [b64_char 18 value, b64_char 12 value, b64_char 6 value])"
| "base64url_secret _ = []"

record credential_once =
  co_identifier :: "u8 list"
  co_secret :: "u8 list"
  co_credential_version :: u32
  co_principal_revision :: u32

definition credential_zero :: credential_once where
  "credential_zero = \<lparr> co_identifier = [], co_secret = [], co_credential_version = 0, co_principal_revision = 0 \<rparr>"

text \<open>The random bytes of an enrolment or rotation, and the derivation worker.\<close>

record credential_env =
  cg_queue :: kdf_queue
  cg_hmac :: hmac
  cg_salt :: "u8 list"
  cg_random :: "u8 list"
  cg_identifiers :: "nat \<Rightarrow> u8 list"

definition generate_credential :: "credential_env \<Rightarrow> esp_err + u8 list \<times> password_verifier" where
  "generate_credential cg =
     (let secret = base64url_secret (cg_random cg);
          (err, verifier) = argus_password_verifier_create (cg_queue cg) (cg_hmac cg) (cg_salt cg) (Some secret)
                              PASSWORD_ITERATIONS_DEFAULT verifier_zero
      in if err \<noteq> ESP_OK then Inl err else Inr (secret, verifier))"

section \<open>Administration\<close>

record 'n service_env =
  sx_memory :: bool
  sx_commit :: commit_env
  sx_nvs :: "'n machine_nvs"
  sx_between :: "machine_directory \<times> 'n \<Rightarrow> machine_directory \<times> 'n"

definition snapshot_alloc :: "'n service_env \<Rightarrow> machine_directory \<Rightarrow> esp_err + machine_payload \<times> u32" where
  "snapshot_alloc env d = (if \<not> sx_memory env then Inl ESP_ERR_NO_MEM else argus_machine_directory_get_snapshot d)"

definition commit_change ::
  "'n service_env \<Rightarrow> machine_payload \<Rightarrow> u32 \<Rightarrow> machine_directory \<Rightarrow> 'n \<Rightarrow> esp_err \<times> machine_directory \<times> 'n" where
  "commit_change env payload generation d s =
     (case sx_between env (d, s) of
        (d1, s1) \<Rightarrow> argus_machine_directory_commit (sx_commit env) (sx_nvs env) payload generation d1 s1)"

text \<open>A counter that skips zero when it wraps.\<close>

definition bump :: "u32 \<Rightarrow> u32" where
  "bump v = (if v + 1 = 0 then 1 else v + 1)"

definition unique_identifier :: "(nat \<Rightarrow> u8 list) \<Rightarrow> machine_payload \<Rightarrow> u8 list option" where
  "unique_identifier random p =
     find (\<lambda>identifier. list_all (\<lambda>r. cstr identifier \<noteq> cstr (mr_identifier r))
                          (take (unat (my_machine_count p)) (my_machines p)))
       (map (\<lambda>attempt. random_identifier (random attempt)) [0..<8])"

definition enrolled_record ::
  "u8 list \<Rightarrow> enrollment_request \<Rightarrow> u8 list \<Rightarrow> password_verifier \<Rightarrow> u32 \<Rightarrow> machine_record" where
  "enrolled_record actor_identifier r identifier verifier generation =
     \<lparr> mr_record_version = SECURITY_RECORD_VERSION, mr_enabled = 1, mr_client_type = word_of_int (er_client_type r),
       mr_allowed_transports = er_allowed_transports r, mr_revoked = 0,
       mr_allowed_interfaces = er_allowed_interfaces r, mr_role_mask = 0,
       mr_identifier = fill_buffer 37 identifier, mr_display_name = fill_buffer 49 (er_display_name r),
       mr_scope = fill_buffer 37 (er_scope r), mr_topic_scope = fill_buffer 97 (er_topic_scope r),
       mr_api_scope = fill_buffer 65 (er_api_scope r), mr_enrollment_actor = fill_buffer 37 actor_identifier,
       mr_permissions = er_permissions r, mr_credential_version = 1, mr_record_security_epoch = generation + 1,
       mr_principal_revision = 1, mr_verifier = verifier \<rparr>"

text \<open>The change of an enrolment on the copied directory: the new directory and the credential.\<close>

definition enroll_change ::
  "credential_env \<Rightarrow> u8 list \<Rightarrow> enrollment_request \<Rightarrow> machine_payload \<times> u32 \<Rightarrow> esp_err + machine_payload \<times> credential_once" where
  "enroll_change cg actor_identifier r snapshot =
     (let (p, generation) = snapshot; count = my_machine_count p in
      if unat count \<ge> SECURITY_MAX_MACHINES then Inl ESP_ERR_NO_MEM
      else (case unique_identifier (cg_identifiers cg) p of
              None \<Rightarrow> Inl ESP_ERR_INVALID_STATE
            | Some identifier \<Rightarrow>
                (case generate_credential cg of
                   Inl e \<Rightarrow> Inl e
                 | Inr (secret, verifier) \<Rightarrow>
                     (let rec = enrolled_record actor_identifier r identifier verifier generation in
                      Inr (p\<lparr> my_machines := (my_machines p)[unat count := rec], my_machine_count := count + 1 \<rparr>,
                           \<lparr> co_identifier = cstr (mr_identifier rec), co_secret = secret,
                             co_credential_version = 1, co_principal_revision = 1 \<rparr>)))))"

text \<open>\<open>up\<close> is the service's own initialisation flag; \<open>out\<close> is the caller's buffer before the call.\<close>

definition argus_machine_service_enroll ::
  "bool \<Rightarrow> 'n service_env \<Rightarrow> credential_env \<Rightarrow> principal option \<Rightarrow> enrollment_request option \<Rightarrow> credential_once \<Rightarrow>
     machine_directory \<Rightarrow> 'n \<Rightarrow> (esp_err \<times> credential_once) \<times> machine_directory \<times> 'n" where
  "argus_machine_service_enroll up env cg actor request out d s =
     (case (actor, request) of
        (Some a, Some r) \<Rightarrow>
          if \<not> up \<or> \<not> argus_machine_service_enrollment_allowed actor request then ((ESP_ERR_NOT_ALLOWED, out), d, s)
          else (case snapshot_alloc env d of
                  Inl e \<Rightarrow> ((e, credential_zero), d, s)
                | Inr (p, generation) \<Rightarrow>
                    (case enroll_change cg (pr_identifier a) r (p, generation) of
                       Inl e \<Rightarrow> ((e, credential_zero), d, s)
                     | Inr (p', credential) \<Rightarrow>
                         (case commit_change env p' generation d s of
                            (err, d', s') \<Rightarrow> ((err, if err = ESP_OK then credential else credential_zero), d', s'))))
      | _ \<Rightarrow> ((ESP_ERR_NOT_ALLOWED, out), d, s))"

text \<open>
  The target of a change: the actor needs the permission and a scope that contains the
  machine's. The result is the snapshot with the index of the record.
\<close>

definition mutable_target ::
  "bool \<Rightarrow> 'n service_env \<Rightarrow> principal option \<Rightarrow> u8 list \<Rightarrow> permission_set \<Rightarrow> machine_directory \<Rightarrow>
     esp_err + machine_payload \<times> u32 \<times> nat" where
  "mutable_target up env actor identifier required d =
     (case actor of
        None \<Rightarrow> Inl ESP_ERR_NOT_ALLOWED
      | Some a \<Rightarrow>
          if \<not> up \<or> \<not> argus_authorization_principal_valid actor
             \<or> argus_authorization_require actor required \<noteq> AUTHZ_ALLOW then Inl ESP_ERR_NOT_ALLOWED
          else (case snapshot_alloc env d of
                  Inl e \<Rightarrow> Inl e
                | Inr (p, generation) \<Rightarrow>
                    (case find_machine identifier p of
                       None \<Rightarrow> Inl ESP_ERR_NOT_FOUND
                     | Some i \<Rightarrow>
                         if \<not> argus_machine_service_scope_contains (pr_scope a) (mr_scope (my_machines p ! i))
                         then Inl ESP_ERR_NOT_ALLOWED else Inr (p, generation, i))))"

definition replace_machine :: "nat \<Rightarrow> machine_record \<Rightarrow> machine_payload \<Rightarrow> machine_payload" where
  "replace_machine i r p = p\<lparr> my_machines := (my_machines p)[i := r] \<rparr>"

text \<open>A change of a record marks it with the next generation and a new revision.\<close>

definition revised :: "u32 \<Rightarrow> machine_record \<Rightarrow> machine_record" where
  "revised generation r =
     r\<lparr> mr_principal_revision := bump (mr_principal_revision r), mr_record_security_epoch := generation + 1 \<rparr>"

definition argus_machine_service_rotate ::
  "bool \<Rightarrow> 'n service_env \<Rightarrow> credential_env \<Rightarrow> principal option \<Rightarrow> u8 list \<Rightarrow> machine_directory \<Rightarrow> 'n \<Rightarrow>
     (esp_err \<times> credential_once) \<times> machine_directory \<times> 'n" where
  "argus_machine_service_rotate up env cg actor identifier d s =
     (case mutable_target up env actor identifier PERMISSION_ENROLL_MACHINES d of
        Inl e \<Rightarrow> ((e, credential_zero), d, s)
      | Inr (p, generation, i) \<Rightarrow>
          (case generate_credential cg of
             Inl e \<Rightarrow> ((e, credential_zero), d, s)
           | Inr (secret, verifier) \<Rightarrow>
               (let r = my_machines p ! i;
                    r' = revised generation (r\<lparr> mr_verifier := verifier,
                           mr_credential_version := bump (mr_credential_version r) \<rparr>)
                in case commit_change env (replace_machine i r' p) generation d s of
                     (err, d', s') \<Rightarrow>
                       ((err, if err = ESP_OK
                              then \<lparr> co_identifier = cstr (mr_identifier r'), co_secret = secret,
                                     co_credential_version = mr_credential_version r',
                                     co_principal_revision = mr_principal_revision r' \<rparr>
                              else credential_zero), d', s'))))"

definition argus_machine_service_set_enabled ::
  "bool \<Rightarrow> 'n service_env \<Rightarrow> principal option \<Rightarrow> u8 list \<Rightarrow> bool \<Rightarrow> machine_directory \<Rightarrow> 'n \<Rightarrow>
     esp_err \<times> machine_directory \<times> 'n" where
  "argus_machine_service_set_enabled up env actor identifier enabled d s =
     (case mutable_target up env actor identifier PERMISSION_REVOKE_MACHINES d of
        Inl e \<Rightarrow> (e, d, s)
      | Inr (p, generation, i) \<Rightarrow>
          (let r = my_machines p ! i in
           if enabled \<and> mr_revoked r \<noteq> 0 then (ESP_ERR_INVALID_STATE, d, s)
           else commit_change env
                  (replace_machine i (revised generation (r\<lparr> mr_enabled := (if enabled then 1 else 0) \<rparr>)) p)
                  generation d s))"

definition argus_machine_service_set_permissions ::
  "bool \<Rightarrow> 'n service_env \<Rightarrow> principal option \<Rightarrow> u8 list \<Rightarrow> permission_set \<Rightarrow> machine_directory \<Rightarrow> 'n \<Rightarrow>
     (esp_err \<times> permission_set) \<times> machine_directory \<times> 'n" where
  "argus_machine_service_set_permissions up env actor identifier permissions d s =
     (if permissions AND NOT PERMISSION_DEFINED_MASK \<noteq> 0 then ((ESP_ERR_INVALID_ARG, 0), d, s)
      else (case mutable_target up env actor identifier PERMISSION_ENROLL_MACHINES d of
              Inl e \<Rightarrow> ((e, 0), d, s)
            | Inr (p, generation, i) \<Rightarrow>
                (let r = my_machines p ! i in
                 if \<not> actor_can_manage actor PERMISSION_ENROLL_MACHINES (mr_scope r) permissions
                 then ((ESP_ERR_NOT_ALLOWED, 0), d, s)
                 else if mr_revoked r \<noteq> 0 then ((ESP_ERR_INVALID_STATE, 0), d, s)
                 else (case commit_change env
                              (replace_machine i (revised generation (r\<lparr> mr_permissions := permissions \<rparr>)) p)
                              generation d s of
                         (err, w) \<Rightarrow> ((err, mr_permissions r), w)))))"

definition argus_machine_service_revoke ::
  "bool \<Rightarrow> 'n service_env \<Rightarrow> principal option \<Rightarrow> u8 list \<Rightarrow> machine_directory \<Rightarrow> 'n \<Rightarrow> esp_err \<times> machine_directory \<times> 'n" where
  "argus_machine_service_revoke up env actor identifier d s =
     (case mutable_target up env actor identifier PERMISSION_REVOKE_MACHINES d of
        Inl e \<Rightarrow> (e, d, s)
      | Inr (p, generation, i) \<Rightarrow>
          (let r = my_machines p ! i in
           commit_change env
             (replace_machine i (revised generation (r\<lparr> mr_enabled := 0, mr_revoked := 1,
                mr_credential_version := bump (mr_credential_version r) \<rparr>)) p)
             generation d s))"

text \<open>Deletion moves the last record into the gap.\<close>

definition remove_machine :: "nat \<Rightarrow> machine_payload \<Rightarrow> machine_payload" where
  "remove_machine i p =
     (let last = unat (my_machine_count p) - 1;
          machines = (my_machines p)[i := machine_record_zero]
      in p\<lparr> my_machines := (if i \<noteq> last then machines[i := my_machines p ! last, last := machine_record_zero]
                            else machines),
            my_machine_count := my_machine_count p - 1 \<rparr>)"

definition argus_machine_service_delete ::
  "bool \<Rightarrow> 'n service_env \<Rightarrow> principal option \<Rightarrow> u8 list \<Rightarrow> machine_directory \<Rightarrow> 'n \<Rightarrow> esp_err \<times> machine_directory \<times> 'n" where
  "argus_machine_service_delete up env actor identifier d s =
     (case mutable_target up env actor identifier PERMISSION_REVOKE_MACHINES d of
        Inl e \<Rightarrow> (e, d, s)
      | Inr (p, generation, i) \<Rightarrow>
          if mr_revoked (my_machines p ! i) = 0 then (ESP_ERR_INVALID_STATE, d, s)
          else commit_change env (remove_machine i p) generation d s)"

definition argus_machine_service_quarantine_undisclosed ::
  "bool \<Rightarrow> 'n service_env \<Rightarrow> u8 list \<Rightarrow> machine_directory \<Rightarrow> 'n \<Rightarrow> esp_err \<times> machine_directory \<times> 'n" where
  "argus_machine_service_quarantine_undisclosed up env identifier d s =
     (if \<not> up then (ESP_ERR_INVALID_ARG, d, s)
      else (case snapshot_alloc env d of
              Inl e \<Rightarrow> (e, d, s)
            | Inr (p, generation) \<Rightarrow>
                (case find_machine identifier p of
                   None \<Rightarrow> (ESP_ERR_NOT_FOUND, d, s)
                 | Some i \<Rightarrow> commit_change env
                      (replace_machine i (revised generation ((my_machines p ! i)\<lparr> mr_enabled := 0 \<rparr>)) p)
                      generation d s)))"

end
