(* ===== verification/Machine_Auth.thy ===== *)
theory Machine_Auth
  imports Machine_Service
begin

text \<open>
  Authentication of machines (\<open>argus_machine_service.c\<close>): the failure lockout per source, the
  global budget of key derivations with its share for proven sources, the verification, and
  the revalidation of a principal against the directory.

  Times are the 64-bit microsecond clock; a difference wraps as in the code.
\<close>

abbreviation (input) AUTH_BUCKETS :: nat where "AUTH_BUCKETS \<equiv> 8"
abbreviation (input) AUTH_FAILURE_LIMIT :: u8 where "AUTH_FAILURE_LIMIT \<equiv> 5"
abbreviation (input) AUTH_WINDOW_US :: u64 where "AUTH_WINDOW_US \<equiv> 60000000"
abbreviation (input) AUTH_COOLDOWN_US :: u64 where "AUTH_COOLDOWN_US \<equiv> 30000000"
abbreviation (input) KDF_ADMISSION_MAX :: nat where "KDF_ADMISSION_MAX \<equiv> 1"
abbreviation (input) KDF_GLOBAL_BURST :: u32 where "KDF_GLOBAL_BURST \<equiv> 8"
abbreviation (input) KDF_GLOBAL_WINDOW_US :: u64 where "KDF_GLOBAL_WINDOW_US \<equiv> 10000000"
abbreviation (input) PROVEN_SOURCES :: nat where "PROVEN_SOURCES \<equiv> 2"
abbreviation (input) PROVEN_TTL_US :: u64 where "PROVEN_TTL_US \<equiv> 600000000"
abbreviation (input) KDF_UNPROVEN_BURST :: u32 where "KDF_UNPROVEN_BURST \<equiv> 5"

section \<open>State\<close>

record auth_bucket =
  ab_peer_key :: u32
  ab_window_started_us :: u64
  ab_blocked_until_us :: u64
  ab_failures :: u8
  ab_in_use :: bool

record proven_source =
  ps_peer_key :: u32
  ps_last_success_us :: u64
  ps_in_use :: bool

record machine_auth =
  ma_initialized :: bool
  ma_buckets :: "auth_bucket list"
  ma_kdf_admitted :: nat
  ma_synthetic_verifier :: password_verifier
  ma_proven :: "proven_source list"
  ma_kdf_global_window_us :: u64
  ma_kdf_global_spent :: u32
  ma_kdf_global_refusals :: u32
  ma_kdf_window_refusals :: u32
  ma_throttle_refusals :: u32

definition bucket_zero :: auth_bucket where
  "bucket_zero = \<lparr> ab_peer_key = 0, ab_window_started_us = 0, ab_blocked_until_us = 0, ab_failures = 0,
     ab_in_use = False \<rparr>"

definition proven_zero :: proven_source where
  "proven_zero = \<lparr> ps_peer_key = 0, ps_last_success_us = 0, ps_in_use = False \<rparr>"

definition machine_auth_zero :: machine_auth where
  "machine_auth_zero = \<lparr> ma_initialized = False, ma_buckets = replicate AUTH_BUCKETS bucket_zero, ma_kdf_admitted = 0,
     ma_synthetic_verifier = verifier_zero, ma_proven = replicate PROVEN_SOURCES proven_zero,
     ma_kdf_global_window_us = 0, ma_kdf_global_spent = 0, ma_kdf_global_refusals = 0,
     ma_kdf_window_refusals = 0, ma_throttle_refusals = 0 \<rparr>"

text \<open>The record that an unknown identifier is verified against, from a fixed text.\<close>

definition argus_machine_service_init ::
  "bool \<Rightarrow> kdf_queue \<Rightarrow> hmac \<Rightarrow> u8 list \<Rightarrow> machine_auth \<Rightarrow> esp_err \<times> machine_auth" where
  "argus_machine_service_init mutex q hmac salt m =
     (if ma_initialized m then (ESP_OK, m)
      else if \<not> mutex then (ESP_ERR_NO_MEM, m)
      else (case argus_password_verifier_create q hmac salt
                   (Some (str_bytes ''argus-machine-unknown-principal-synthetic-verification''))
                   PASSWORD_ITERATIONS_DEFAULT (ma_synthetic_verifier m) of
              (err, verifier) \<Rightarrow>
                if err \<noteq> ESP_OK then (err, m\<lparr> ma_synthetic_verifier := verifier \<rparr>)
                else (ESP_OK, m\<lparr> ma_synthetic_verifier := verifier, ma_initialized := True \<rparr>)))"

section \<open>The lockout per source\<close>

text \<open>The index with the smallest key, the first one among equals.\<close>

definition oldest_index :: "('a \<Rightarrow> u64) \<Rightarrow> 'a list \<Rightarrow> nat" where
  "oldest_index key xs = fold (\<lambda>i best. if key (xs ! i) < key (xs ! best) then i else best) [0..<length xs] 0"

definition bucket_for :: "u32 \<Rightarrow> u64 \<Rightarrow> auth_bucket list \<Rightarrow> nat \<times> auth_bucket list" where
  "bucket_for peer_key now_us buckets =
     (case find (\<lambda>i. (ab_in_use (buckets ! i) \<and> ab_peer_key (buckets ! i) = peer_key) \<or> \<not> ab_in_use (buckets ! i))
             [0..<length buckets] of
        Some i \<Rightarrow> (i, buckets)
      | None \<Rightarrow> (let oldest = oldest_index ab_window_started_us buckets
                 in (oldest, buckets[oldest := bucket_zero\<lparr> ab_window_started_us := now_us \<rparr>])))"

definition seconds_ceil :: "u64 \<Rightarrow> u32" where
  "seconds_ceil us = ucast ((us + 999999) div 1000000)"

definition throttle_admit :: "u32 \<Rightarrow> u64 \<Rightarrow> auth_bucket list \<Rightarrow> u32 option \<times> auth_bucket list" where
  "throttle_admit peer_key now_us buckets =
     (let (i, bs) = bucket_for peer_key now_us buckets;
          b = (if \<not> ab_in_use (bs ! i)
               then (bs ! i)\<lparr> ab_in_use := True, ab_peer_key := peer_key, ab_window_started_us := now_us \<rparr>
               else bs ! i)
      in if ab_blocked_until_us b > now_us
         then (Some (seconds_ceil (ab_blocked_until_us b - now_us)), bs[i := b])
         else (None, bs[i := if now_us - ab_window_started_us b > AUTH_WINDOW_US
                             then b\<lparr> ab_window_started_us := now_us, ab_failures := 0 \<rparr> else b]))"

definition record_auth_result :: "u32 \<Rightarrow> u64 \<Rightarrow> bool \<Rightarrow> auth_bucket list \<Rightarrow> auth_bucket list" where
  "record_auth_result peer_key now_us success buckets =
     (let (i, bs) = bucket_for peer_key now_us buckets; b = bs ! i in
      if success then bs[i := bucket_zero]
      else if ab_failures b + 1 \<ge> AUTH_FAILURE_LIMIT
      then bs[i := b\<lparr> ab_blocked_until_us := now_us + AUTH_COOLDOWN_US, ab_failures := 0 \<rparr>]
      else bs[i := b\<lparr> ab_failures := ab_failures b + 1 \<rparr>])"

section \<open>Proven sources and the global budget\<close>

definition proven_entry_live :: "u64 \<Rightarrow> proven_source \<Rightarrow> bool" where
  "proven_entry_live now_us entry \<longleftrightarrow> ps_in_use entry \<and> now_us - ps_last_success_us entry < PROVEN_TTL_US"

definition source_is_proven_locked :: "u32 \<Rightarrow> u64 \<Rightarrow> machine_auth \<Rightarrow> bool" where
  "source_is_proven_locked peer_key now_us m =
     list_ex (\<lambda>e. ps_peer_key e = peer_key \<and> proven_entry_live now_us e) (ma_proven m)"

definition mark_source_proven_locked :: "u32 \<Rightarrow> u64 \<Rightarrow> machine_auth \<Rightarrow> machine_auth" where
  "mark_source_proven_locked peer_key now_us m =
     (let table = ma_proven m;
          target =
            (case find (\<lambda>i. ps_in_use (table ! i) \<and> ps_peer_key (table ! i) = peer_key) [0..<length table] of
               Some i \<Rightarrow> i
             | None \<Rightarrow>
                 (case find (\<lambda>i. \<not> proven_entry_live now_us (table ! i)) [0..<length table] of
                    Some i \<Rightarrow> i
                  | None \<Rightarrow> oldest_index ps_last_success_us table))
      in m\<lparr> ma_proven := table[target := \<lparr> ps_peer_key = peer_key, ps_last_success_us = now_us, ps_in_use = True \<rparr>] \<rparr>)"

text \<open>The result is the delay after a refusal, if there was one.\<close>

definition kdf_global_admit :: "u32 \<Rightarrow> u64 \<Rightarrow> machine_auth \<Rightarrow> u32 option \<times> machine_auth" where
  "kdf_global_admit peer_key now_us m =
     (let m1 = (if ma_kdf_global_window_us m = 0 \<or> now_us - ma_kdf_global_window_us m \<ge> KDF_GLOBAL_WINDOW_US
                then m\<lparr> ma_kdf_global_window_us := now_us, ma_kdf_global_spent := 0, ma_kdf_window_refusals := 0 \<rparr>
                else m);
          allowance = (if source_is_proven_locked peer_key now_us m1 then KDF_GLOBAL_BURST else KDF_UNPROVEN_BURST)
      in if ma_kdf_global_spent m1 \<ge> allowance
         then (Some (seconds_ceil (KDF_GLOBAL_WINDOW_US - (now_us - ma_kdf_global_window_us m1))),
               m1\<lparr> ma_kdf_global_refusals := ma_kdf_global_refusals m1 + 1,
                   ma_kdf_window_refusals := ma_kdf_window_refusals m1 + 1 \<rparr>)
         else (None, m1\<lparr> ma_kdf_global_spent := ma_kdf_global_spent m1 + 1 \<rparr>))"

definition argus_machine_service_source_is_proven :: "u64 \<Rightarrow> u32 \<Rightarrow> machine_auth \<Rightarrow> bool" where
  "argus_machine_service_source_is_proven now_us peer_key m = source_is_proven_locked peer_key now_us m"

record throttle_status =
  ts_window_spent :: u32
  ts_window_burst :: u32
  ts_unproven_burst :: u32
  ts_refusals :: u32
  ts_global_refusals :: u32
  ts_blocked_sources :: u32
  ts_throttle_active :: bool
  ts_seconds_until_clear :: u32
  ts_proven_sources :: u32

definition argus_machine_service_get_throttle_status :: "u64 \<Rightarrow> machine_auth \<Rightarrow> throttle_status" where
  "argus_machine_service_get_throttle_status now_us m =
     (let elapsed = (if ma_kdf_global_window_us m = 0 then KDF_GLOBAL_WINDOW_US else now_us - ma_kdf_global_window_us m);
          window_open = elapsed < KDF_GLOBAL_WINDOW_US;
          blocks = filter (\<lambda>b. ab_in_use b \<and> ab_blocked_until_us b > now_us) (ma_buckets m);
          longest_block_us = fold (\<lambda>b longest. max longest (ab_blocked_until_us b - now_us)) blocks 0;
          budget_refusing = (window_open \<and> ma_kdf_window_refusals m > 0);
          budget_clear_us = (if budget_refusing then KDF_GLOBAL_WINDOW_US - elapsed else 0)
      in \<lparr> ts_window_spent = (if window_open then ma_kdf_global_spent m else 0),
           ts_window_burst = KDF_GLOBAL_BURST, ts_unproven_burst = KDF_UNPROVEN_BURST,
           ts_refusals = ma_throttle_refusals m, ts_global_refusals = ma_kdf_global_refusals m,
           ts_blocked_sources = of_nat (length blocks),
           ts_throttle_active = (budget_refusing \<or> blocks \<noteq> []),
           ts_seconds_until_clear = seconds_ceil (max budget_clear_us longest_block_us),
           ts_proven_sources = of_nat (length (filter (proven_entry_live now_us) (ma_proven m))) \<rparr>)"

section \<open>Authentication\<close>

datatype machine_auth_result =
    AUTH_SUCCESS
  | AUTH_INVALID_CREDENTIALS
  | AUTH_THROTTLED
  | AUTH_BUSY
  | AUTH_DIRECTORY_UNAVAILABLE
  | AUTH_TRANSPORT_REJECTED
  | AUTH_INTERFACE_REJECTED
  | AUTH_CLIENT_ID_REJECTED
  | AUTH_INVALID_REQUEST

record machine_auth_outcome =
  mo_result :: machine_auth_result
  mo_principal :: machine_principal
  mo_kdf_invoked :: bool
  mo_retry_after_s :: u32

definition outcome_of :: "machine_auth_result \<Rightarrow> machine_auth_outcome" where
  "outcome_of r = \<lparr> mo_result = r, mo_principal = machine_principal_zero, mo_kdf_invoked = False, mo_retry_after_s = 0 \<rparr>"

definition principal_from_record :: "machine_record \<Rightarrow> u32 \<Rightarrow> machine_principal" where
  "principal_from_record r directory_generation =
     \<lparr> mp_identifier = c_strlcpy 37 (mr_identifier r), mp_scope = c_strlcpy 37 (mr_scope r),
       mp_topic_scope = c_strlcpy 97 (mr_topic_scope r), mp_api_scope = c_strlcpy 65 (mr_api_scope r),
       mp_permissions = mr_permissions r, mp_allowed_transports = mr_allowed_transports r,
       mp_allowed_interfaces = mr_allowed_interfaces r, mp_client_type = mr_client_type r,
       mp_credential_version = mr_credential_version r, mp_principal_revision = mr_principal_revision r,
       mp_record_security_epoch = mr_record_security_epoch r, mp_directory_generation = directory_generation \<rparr>"

text \<open>The section before the derivation: a refusal, or one derivation reserved.\<close>

definition auth_admit :: "u32 \<Rightarrow> u64 \<Rightarrow> machine_auth \<Rightarrow> machine_auth_outcome option \<times> machine_auth" where
  "auth_admit peer_key now_us m =
     (case throttle_admit peer_key now_us (ma_buckets m) of
        (Some retry, bs) \<Rightarrow>
          (Some ((outcome_of AUTH_THROTTLED)\<lparr> mo_retry_after_s := retry \<rparr>),
           m\<lparr> ma_buckets := bs, ma_throttle_refusals := ma_throttle_refusals m + 1 \<rparr>)
      | (None, bs) \<Rightarrow>
          (case kdf_global_admit peer_key now_us (m\<lparr> ma_buckets := bs \<rparr>) of
             (Some retry, m1) \<Rightarrow>
               (Some ((outcome_of AUTH_THROTTLED)\<lparr> mo_retry_after_s := retry \<rparr>),
                m1\<lparr> ma_throttle_refusals := ma_throttle_refusals m1 + 1 \<rparr>)
           | (None, m1) \<Rightarrow>
               if ma_kdf_admitted m1 \<ge> KDF_ADMISSION_MAX then (Some (outcome_of AUTH_BUSY), m1)
               else (None, m1\<lparr> ma_kdf_admitted := ma_kdf_admitted m1 + 1 \<rparr>)))"

text \<open>The verification without a lock. \<open>found\<close> is the answer of the directory.\<close>

definition auth_verify ::
  "kdf_queue \<Rightarrow> hmac \<Rightarrow> password_verifier \<Rightarrow> (esp_err + machine_record \<times> nat \<times> u32) \<Rightarrow> u8 list \<Rightarrow> u8 \<Rightarrow>
     machine_auth_outcome" where
  "auth_verify q hmac synthetic found password receiving_interface =
     (let verifier = (case found of Inr (r, _, _) \<Rightarrow> mr_verifier r | Inl _ \<Rightarrow> synthetic);
          (verify, is_match) = argus_password_verifier_verify q hmac (Some password) (Some verifier) False;
          outcome = (\<lambda>r. (outcome_of r)\<lparr> mo_kdf_invoked := True \<rparr>)
      in if verify \<noteq> ESP_OK
         then outcome (if verify = ESP_ERR_TIMEOUT then AUTH_BUSY else AUTH_DIRECTORY_UNAVAILABLE)
         else (case found of
                 Inl e \<Rightarrow> outcome (if e \<noteq> ESP_ERR_NOT_FOUND then AUTH_DIRECTORY_UNAVAILABLE else AUTH_INVALID_CREDENTIALS)
               | Inr (r, _, generation) \<Rightarrow>
                   if \<not> is_match \<or> mr_enabled r = 0 \<or> mr_revoked r \<noteq> 0 then outcome AUTH_INVALID_CREDENTIALS
                   else if mr_allowed_transports r AND 2 = 0 then outcome AUTH_TRANSPORT_REJECTED
                   else if mr_allowed_interfaces r AND receiving_interface = 0 then outcome AUTH_INTERFACE_REJECTED
                   else (outcome AUTH_SUCCESS)\<lparr> mo_principal := principal_from_record r generation \<rparr>))"

text \<open>The section after the derivation.\<close>

definition auth_finish :: "u32 \<Rightarrow> u64 \<Rightarrow> bool \<Rightarrow> machine_auth \<Rightarrow> machine_auth" where
  "auth_finish peer_key now_us succeeded m =
     (let m1 = m\<lparr> ma_kdf_admitted := ma_kdf_admitted m - 1,
                  ma_buckets := record_auth_result peer_key now_us succeeded (ma_buckets m) \<rparr>
      in if succeeded then mark_source_proven_locked peer_key now_us m1 else m1)"

definition auth_request_ok :: "u8 list \<Rightarrow> u8 list \<Rightarrow> u8 \<Rightarrow> machine_auth \<Rightarrow> bool" where
  "auth_request_ok username password receiving_interface m \<longleftrightarrow>
     ma_initialized m \<and> length username \<noteq> 0 \<and> length username \<le> 36 \<and> length password = 43
     \<and> (receiving_interface = 1 \<or> receiving_interface = 2)"

text \<open>
  The whole operation. The directory is read once, while no lock is held; \<open>between\<close> is what
  the other tasks do to the service's state during the derivation.
\<close>

definition argus_machine_service_authenticate ::
  "kdf_queue \<Rightarrow> hmac \<Rightarrow> u64 \<Rightarrow> machine_directory \<Rightarrow> (machine_auth \<Rightarrow> machine_auth) \<Rightarrow> u32 \<Rightarrow> u8 list \<Rightarrow> u8 list \<Rightarrow>
     u8 list \<Rightarrow> u8 \<Rightarrow> machine_auth \<Rightarrow> machine_auth_outcome \<times> machine_auth" where
  "argus_machine_service_authenticate q hmac now_us d between peer_key client_id username password receiving_interface m =
     (if \<not> auth_request_ok username password receiving_interface m then (outcome_of AUTH_INVALID_REQUEST, m)
      else if 0 \<in> set username \<or> 0 \<in> set password \<or> cstr client_id \<noteq> username
      then (outcome_of AUTH_CLIENT_ID_REJECTED, m)
      else (case auth_admit peer_key now_us m of
              (Some refusal, m1) \<Rightarrow> (refusal, m1)
            | (None, m1) \<Rightarrow>
                (let outcome = auth_verify q hmac (ma_synthetic_verifier m1) (argus_machine_directory_find username d)
                                 password receiving_interface
                 in (outcome, auth_finish peer_key now_us (mo_result outcome = AUTH_SUCCESS) (between m1)))))"

definition argus_machine_service_revalidate ::
  "machine_auth \<Rightarrow> machine_directory \<Rightarrow> machine_principal option \<Rightarrow> u8 \<Rightarrow> esp_err" where
  "argus_machine_service_revalidate m d who receiving_interface =
     (case who of
        None \<Rightarrow> ESP_ERR_INVALID_ARG
      | Some p \<Rightarrow>
          if \<not> ma_initialized m \<or> cstr (mp_identifier p) = [] then ESP_ERR_INVALID_ARG
          else (case argus_machine_directory_find (mp_identifier p) d of
                  Inl e \<Rightarrow> ESP_ERR_INVALID_STATE
                | Inr (current, _, _) \<Rightarrow>
                    if mr_enabled current \<noteq> 0 \<and> mr_revoked current = 0
                       \<and> mr_credential_version current = mp_credential_version p
                       \<and> mr_principal_revision current = mp_principal_revision p
                       \<and> mr_record_security_epoch current = mp_record_security_epoch p
                       \<and> mr_allowed_transports current AND 2 \<noteq> 0
                       \<and> mr_allowed_interfaces current AND receiving_interface \<noteq> 0
                       \<and> mr_permissions current = mp_permissions p
                       \<and> cstr (mr_scope current) = cstr (mp_scope p)
                       \<and> cstr (mr_topic_scope current) = cstr (mp_topic_scope p)
                    then ESP_OK else ESP_ERR_INVALID_STATE))"

definition argus_machine_service_kdf_admitted :: "machine_auth \<Rightarrow> nat" where
  "argus_machine_service_kdf_admitted m = (if \<not> ma_initialized m then 0 else ma_kdf_admitted m)"

end
