(* ===== verification/Machine_Directory_Props.thy ===== *)
theory Machine_Directory_Props
  imports Machine_Directory
begin

text \<open>
  Power safety of the machine directory. The abstract store is the pair of directory and
  generation that the next start-up would serve; a commit, whatever fails in it, leaves the
  old pair or installs the new one, and the start-up after it succeeds and serves that pair.
  The locale \<open>readable_nvs\<close> adds to the platform contract that stored entries can be read.
\<close>

section \<open>Reading platforms\<close>

locale readable_nvs = directory_nvs +
  assumes open_ok: "\<And>s. fst (dn_open api False s) = ESP_OK"
    and blob_readable: "\<And>k s out x. blobs s k = Some x \<Longrightarrow> dn_get_blob api k s out = (ESP_OK, x)"
    and blob_missing: "\<And>k s out. blobs s k = None \<Longrightarrow> absent (fst (dn_get_blob api k s out))"
    and octet_readable: "\<And>k s out x. octets s k = Some x \<Longrightarrow> dn_get_u8 api k s out = (ESP_OK, x)"
begin

lemma read_slot_Some: "dir_slots slot_a slot_b blobs s i = Some x \<Longrightarrow> dir_read_slot slot_a slot_b api i s out = (ESP_OK, x)"
  using blob_readable open_ok [of s] by (simp add: dir_read_slot_def)

lemma read_slot_None: "dir_slots slot_a slot_b blobs s i = None \<Longrightarrow> absent (fst (dir_read_slot slot_a slot_b api i s out))"
  using blob_missing open_ok [of s] by (simp add: dir_read_slot_def)

lemma read_selector_Some: "octets s sel = Some x \<Longrightarrow> dir_read_selector sel api s out = (ESP_OK, x)"
  using octet_readable open_ok [of s] by (simp add: dir_read_selector_def)

end

interpretation machine_cells: readable_nvs MACHINE_SLOT_A MACHINE_SLOT_B MACHINE_SELECTOR
  "entry_api :: (machine_slot, machine_slot entry_cells) dir_nvs" ec_blobs ec_octets
proof -
  have "directory_nvs MACHINE_SLOT_A MACHINE_SLOT_B (entry_api :: (machine_slot, machine_slot entry_cells) dir_nvs) ec_blobs ec_octets"
    by (rule entry_directory_nvs) simp
  then show "readable_nvs MACHINE_SLOT_A MACHINE_SLOT_B (entry_api :: (machine_slot, machine_slot entry_cells) dir_nvs) ec_blobs ec_octets"
    by (rule readable_nvs.intro, intro readable_nvs_axioms.intro) (simp_all add: entry_api_def absent_def split: option.splits)
qed

section \<open>The abstract store\<close>

text \<open>The slot that the selector names is valid: the directory and generation it holds.\<close>

definition stored :: "(u8 \<Rightarrow> machine_slot option) \<Rightarrow> u8 option \<Rightarrow> (machine_payload \<times> u32) option" where
  "stored slots selector =
     (case selector of
        None \<Rightarrow> None
      | Some k \<Rightarrow> if k > 1 then None
                 else (case slots k of
                         None \<Rightarrow> None
                       | Some slot \<Rightarrow> if argus_machine_directory_slot_valid slot
                                      then Some (mz_payload slot, mz_generation slot) else None))"

text \<open>The served directory is the stored one.\<close>

definition machine_anchored :: "(u8 \<Rightarrow> machine_slot option) \<Rightarrow> u8 option \<Rightarrow> machine_directory \<Rightarrow> bool" where
  "machine_anchored slots selector d \<longleftrightarrow> my_state d = DIRECTORY_READY \<and> selector = Some (my_active_slot d)
     \<and> stored slots selector = Some (my_snapshot d, my_generation d)"

lemma stored_Some:
  assumes "stored slots selector = Some (p, g)"
  obtains k slot where "selector = Some k" "k \<le> 1" "slots k = Some slot" "argus_machine_directory_slot_valid slot"
    "p = mz_payload slot" "g = mz_generation slot"
  using assms by (auto simp: stored_def not_less split: option.splits if_splits)

lemma select_by_selector:
  assumes "k \<le> 1" "absent a_status \<or> a_status = ESP_OK" "absent b_status \<or> b_status = ESP_OK"
    and "if k = 0 then a_status = ESP_OK \<and> argus_machine_directory_slot_valid a else b_status = ESP_OK \<and> argus_machine_directory_slot_valid b"
  shows "argus_machine_directory_select_for_test (a, a_status) (b, b_status) (k, ESP_OK)
    = Inr (if k = 0 then a else b, k, False)"
  using assms slot_index_cases [of k] by (auto simp: argus_machine_directory_select_for_test_def Let_def absent_def)

context readable_nvs
begin

lemma read_slot_status: "absent (fst (dir_read_slot slot_a slot_b api i s out)) \<or> fst (dir_read_slot slot_a slot_b api i s out) = ESP_OK"
  using read_slot_Some [of s i] read_slot_None [of s i] by (cases "dir_slots slot_a slot_b blobs s i") auto

lemmas store_result = store.store_slot_result

end

lemma init_serves_stored:
  assumes nvs: "readable_nvs MACHINE_SLOT_A MACHINE_SLOT_B api blobs octets"
    and res: "dr_mutex res" "dr_slot_memory res" "dr_queue res" "dr_task res" and d: "\<not> my_initialized d"
    and st: "stored (dir_slots MACHINE_SLOT_A MACHINE_SLOT_B blobs s) (octets s MACHINE_SELECTOR) = Some (p, g)"
  shows "\<exists>d'. argus_machine_directory_init res api d s = (ESP_OK, d', s)
    \<and> machine_anchored (dir_slots MACHINE_SLOT_A MACHINE_SLOT_B blobs s) (octets s MACHINE_SELECTOR) d'
    \<and> my_initialized d' \<and> my_snapshot d' = p \<and> my_generation d' = g"
proof -
  obtain k slot where k: "octets s MACHINE_SELECTOR = Some k" "k \<le> 1" "dir_slots MACHINE_SLOT_A MACHINE_SLOT_B blobs s k = Some slot"
      "argus_machine_directory_slot_valid slot" "p = mz_payload slot" "g = mz_generation slot"
    by (rule stored_Some [OF st])
  obtain a_status a where a: "machine_read_slot api 0 s machine_slot_zero = (a_status, a)" by fastforce
  obtain b_status b where b: "machine_read_slot api 1 s machine_slot_zero = (b_status, b)" by fastforce
  note status = readable_nvs.read_slot_status [OF nvs, of 0 s machine_slot_zero] readable_nvs.read_slot_status [OF nvs, of 1 s machine_slot_zero]
  have st2: "absent a_status \<or> a_status = ESP_OK" "absent b_status \<or> b_status = ESP_OK" using status a b by simp_all
  have chosen: "if k = 0 then a_status = ESP_OK \<and> a = slot else b_status = ESP_OK \<and> b = slot"
    using slot_index_cases [THEN iffD1, OF k(2)] a b
      readable_nvs.read_slot_Some [OF nvs, where s = s and i = k and x = slot and out = machine_slot_zero, OF k(3)]
    by (elim disjE) simp_all
  have sel: "machine_read_selector api s 0 = (ESP_OK, k)" using readable_nvs.read_selector_Some [OF nvs, where s = s and sel = MACHINE_SELECTOR and x = k] k(1) by simp
  have pick: "argus_machine_directory_select_for_test (a, a_status) (b, b_status) (k, ESP_OK) = Inr (slot, k, False)"
    using select_by_selector [OF k(2) st2, of a b] chosen k(4) by (simp split: if_splits)
  show ?thesis
    using d res k st by (simp add: argus_machine_directory_init_def a b sel pick Let_def machine_anchored_def)
qed

text \<open>
  C28: The machine directory survives a loss of power. Take a platform that keeps the documented
  contract and whose entries can be read, and a served directory that is the stored one (the
  selector names a valid slot with its payload and generation). Then a commit with any failures
  (each of its flash operations may fail, also by leaving a torn slot) leaves the stored pair of
  directory and generation as it was or replaces it by the new one, the latter when it reports
  success; a failed commit leaves the served directory; and the next start-up that gets its
  mutex, memory, queue and task succeeds, serves exactly the stored pair and writes nothing.
\<close>

theorem machine_directory_power_safe:
  fixes blobs :: "'n \<Rightarrow> string \<Rightarrow> machine_slot option" and octets :: "'n \<Rightarrow> string \<Rightarrow> u8 option"
  defines "disk s \<equiv> stored (dir_slots MACHINE_SLOT_A MACHINE_SLOT_B blobs s) (octets s MACHINE_SELECTOR)"
  assumes platform: "readable_nvs MACHINE_SLOT_A MACHINE_SLOT_B api blobs octets"
    and served: "machine_anchored (dir_slots MACHINE_SLOT_A MACHINE_SLOT_B blobs s) (octets s MACHINE_SELECTOR) d"
    and commit: "machine_commit_locked memory api payload expected d s = (e, d', s')"
    and res: "dr_mutex res" "dr_slot_memory res" "dr_queue res" "dr_task res"
  shows "(disk s' = disk s \<or> disk s' = Some (payload, machine_next_generation d))
    \<and> (e = ESP_OK \<longrightarrow> disk s' = Some (payload, machine_next_generation d)
         \<and> my_snapshot d' = payload \<and> my_generation d' = machine_next_generation d)
    \<and> (e \<noteq> ESP_OK \<longrightarrow> d' = d)
    \<and> (\<exists>d2. argus_machine_directory_init res api machine_directory_zero s' = (ESP_OK, d2, s')
         \<and> disk s' = Some (my_snapshot d2, my_generation d2))"
proof -
  let ?slots = "dir_slots MACHINE_SLOT_A MACHINE_SLOT_B blobs" and ?sel = "\<lambda>s. octets s MACHINE_SELECTOR"
  let ?t = "machine_commit_target d" and ?g = "machine_next_generation d"
  have disk: "disk s = Some (my_snapshot d, my_generation d)" using served unfolding disk_def machine_anchored_def by blast
  obtain k slot where k: "?sel s = Some k" "k \<le> 1" "?slots s k = Some slot" "argus_machine_directory_slot_valid slot"
      "my_snapshot d = mz_payload slot" "my_generation d = mz_generation slot"
    using disk unfolding disk_def by (rule stored_Some)
  have act: "my_active_slot d = k" using served k(1) by (simp add: machine_anchored_def)
  have "my_generation d \<noteq> 0" using k(4,6) by (simp add: argus_machine_directory_slot_valid_def)
  then have t: "?t = k XOR 1" "?t \<le> 1" "?t XOR 1 = k"
    using act slot_index_cases [THEN iffD1, OF k(2)] by (auto simp: machine_commit_target_def)
  have result: "(disk s' = disk s \<or> disk s' = Some (payload, ?g))
    \<and> (e = ESP_OK \<longrightarrow> disk s' = Some (payload, ?g) \<and> my_snapshot d' = payload \<and> my_generation d' = ?g)
    \<and> (e \<noteq> ESP_OK \<longrightarrow> d' = d)"
  proof (cases "argus_machine_directory_commit_precondition payload expected (my_generation d) (my_state d = DIRECTORY_READY) \<and> memory")
    case True
    obtain e1 s1 where st: "store_slot (machine_read_slot api) (machine_write_slot api) (machine_write_selector api)
        argus_machine_directory_slot_valid machine_slot_zero ?t (machine_slot_of ?g payload) s = (e1, s1)" by fastforce
    note r = readable_nvs.store_result [OF platform st t(2)]
    have same: "disk s1 = disk s" if "?sel s1 = ?sel s"
      using that r k t(3) by (simp add: disk_def stored_def not_less)
    have new: "disk s1 = Some (payload, ?g)"
      if "?sel s1 = Some ?t" "?slots s1 ?t = Some (machine_slot_of ?g payload)" "argus_machine_directory_slot_valid (machine_slot_of ?g payload)"
      using that t(2) by (simp add: disk_def stored_def machine_slot_of_def)
    show ?thesis using commit True st r same new by (auto simp: machine_commit_locked_def Let_def)
  next
    case False
    then show ?thesis using commit by (auto simp: machine_commit_locked_def split: if_splits)
  qed
  then obtain p g where "disk s' = Some (p, g)" using disk by auto
  with init_serves_stored [OF platform res, of machine_directory_zero s' p g] result show ?thesis
    by (auto simp: disk_def machine_directory_zero_def)
qed

text \<open>A directory of the first start-up, and the commit of its first change.\<close>

definition first_payload :: machine_payload where
  "first_payload = machine_payload_zero\<lparr> my_schema_version := 1 \<rparr>"

definition first_cells :: "machine_slot entry_cells" where
  "first_cells = \<lparr> ec_blobs = [MACHINE_SLOT_A \<mapsto> machine_slot_of 1 first_payload], ec_octets = [MACHINE_SELECTOR \<mapsto> 0],
     ec_broken = None \<rparr>"

definition first_directory :: machine_directory where
  "first_directory = machine_directory_zero\<lparr> my_snapshot := first_payload, my_generation := 1, my_state := DIRECTORY_READY,
     my_initialized := True \<rparr>"

definition full_resources :: directory_resources where
  "full_resources = \<lparr> dr_mutex = True, dr_slot_memory = True, dr_commit_memory = True, dr_queue = True, dr_task = True \<rparr>"

lemma first_payload_valid: "argus_machine_directory_payload_valid first_payload"
  by code_simp

lemma slot_of_valid: "g \<noteq> 0 \<Longrightarrow> argus_machine_directory_payload_valid p \<Longrightarrow> argus_machine_directory_slot_valid (machine_slot_of g p)"
  by (simp add: machine_slot_of_def argus_machine_directory_slot_valid_def)

theorem machine_directory_power_safe_witness:
  "\<exists>e d' s' d2. machine_commit_locked True entry_api first_payload 1 first_directory (first_cells\<lparr> ec_broken := Some MACHINE_SLOT_B \<rparr>) = (e, d', s')
    \<and> e \<noteq> ESP_OK \<and> argus_machine_directory_init full_resources entry_api machine_directory_zero s' = (ESP_OK, d2, s')
    \<and> my_generation d2 = 1"
proof -
  let ?s = "first_cells\<lparr> ec_broken := Some MACHINE_SLOT_B \<rparr>"
  have served: "machine_anchored (dir_slots MACHINE_SLOT_A MACHINE_SLOT_B ec_blobs ?s) (ec_octets ?s MACHINE_SELECTOR) first_directory"
    using slot_of_valid [OF _ first_payload_valid, of 1]
    by (simp add: machine_anchored_def stored_def first_cells_def first_directory_def machine_directory_zero_def machine_slot_of_def)
  have commit: "machine_commit_locked True entry_api first_payload 1 first_directory ?s = (ESP_FAIL, first_directory, ?s)"
    using first_payload_valid
    by (simp add: machine_commit_locked_def argus_machine_directory_commit_precondition_def store_slot_def entry_access Let_def
        first_directory_def machine_directory_zero_def machine_commit_target_def)
  have res: "dr_mutex full_resources" "dr_slot_memory full_resources" "dr_queue full_resources" "dr_task full_resources"
    by (simp_all add: full_resources_def)
  note r = machine_directory_power_safe [OF machine_cells.readable_nvs_axioms served commit res]
  then obtain d2 where d2: "argus_machine_directory_init full_resources entry_api machine_directory_zero ?s = (ESP_OK, d2, ?s)"
      "stored (dir_slots MACHINE_SLOT_A MACHINE_SLOT_B ec_blobs ?s) (ec_octets ?s MACHINE_SELECTOR) = Some (my_snapshot d2, my_generation d2)"
    by blast
  have "my_generation d2 = my_generation first_directory" using d2(2) served by (simp only: machine_anchored_def option.inject prod.inject)
  then have "my_generation d2 = 1" by (simp add: first_directory_def)
  then show ?thesis using commit d2(1) by auto
qed

end
