(* ===== verification/Machine_Service_Props.thy ===== *)
theory Machine_Service_Props
  imports Machine_Auth Machine_Directory_Props
begin

text \<open>
  Runs of the machine service: every order of administrative operations, also overlapping
  ones, with any failures of memory, queue and flash. The invariants are the ceiling on
  machine permissions and the ordering of record epochs by directory generations, from which
  it follows that a principal issued before a change of its machine is never accepted again.
\<close>

section \<open>The live records\<close>

definition live :: "machine_payload \<Rightarrow> machine_record list" where
  "live p = take (unat (my_machine_count p)) (my_machines p)"

text \<open>The sizes of the arrays.\<close>

definition record_shaped :: "machine_record \<Rightarrow> bool" where
  "record_shaped r \<longleftrightarrow> length (mr_identifier r) = 37 \<and> length (mr_scope r) = 37 \<and> length (mr_topic_scope r) = 97"

definition shaped :: "machine_payload \<Rightarrow> bool" where
  "shaped p \<longleftrightarrow> length (my_machines p) = SECURITY_MAX_MACHINES \<and> (\<forall>r \<in> set (my_machines p). record_shaped r)"

lemma record_shaped_zero: "record_shaped machine_record_zero"
  by (simp add: record_shaped_def machine_record_zero_def)

lemma shaped_nth: "shaped p \<Longrightarrow> i < 16 \<Longrightarrow> record_shaped (my_machines p ! i)"
  by (simp add: shaped_def)

lemma payload_valid_count:
  assumes "argus_machine_directory_payload_valid p"
  shows "unat (my_machine_count p) \<le> 16"
  using assms by (simp add: argus_machine_directory_payload_valid_def split: if_splits)

lemma payload_valid_record:
  assumes "argus_machine_directory_payload_valid p" "i < unat (my_machine_count p)"
  shows "argus_security_machine_record_valid (my_machines p ! i)"
proof -
  have "i \<in> set [0..<16]" using assms(2) payload_valid_count [OF assms(1)] by auto
  then show ?thesis
    using assms unfolding argus_machine_directory_payload_valid_def list_all_iff by (auto split: if_splits)
qed

lemma payload_valid_distinct:
  assumes "argus_machine_directory_payload_valid p" "i < unat (my_machine_count p)" "j < unat (my_machine_count p)" "i \<noteq> j"
  shows "cstr (mr_identifier (my_machines p ! i)) \<noteq> cstr (mr_identifier (my_machines p ! j))"
proof -
  have "cstr (mr_identifier (my_machines p ! a)) \<noteq> cstr (mr_identifier (my_machines p ! b))"
    if "a < unat (my_machine_count p)" "b < a" for a b
  proof -
    have "a \<in> set [0..<16]" "b \<in> set [0..<a]" using that payload_valid_count [OF assms(1)] by auto
    then show ?thesis
      using assms(1) that(1) unfolding argus_machine_directory_payload_valid_def list_all_iff by (auto split: if_splits)
  qed
  then show ?thesis using assms(2-4) by (metis linorder_neqE_nat)
qed

lemma find_machine_Some:
  assumes "find_machine identifier p = Some i"
  shows "i < unat (my_machine_count p)" "cstr (mr_identifier (my_machines p ! i)) = cstr identifier"
  using assms by (auto simp: find_machine_def find_Some_iff)

lemma find_machine_None:
  "find_machine identifier p = None \<longleftrightarrow>
     (\<forall>i < unat (my_machine_count p). cstr (mr_identifier (my_machines p ! i)) \<noteq> cstr identifier)"
  by (auto simp: find_machine_def find_None_iff)

lemma live_member:
  assumes "shaped p" "unat (my_machine_count p) \<le> 16"
  shows "r \<in> set (live p) \<longleftrightarrow> (\<exists>i < unat (my_machine_count p). r = my_machines p ! i)"
  using assms by (auto simp: live_def shaped_def in_set_conv_nth)

lemma live_replace [simp]: "live (replace_machine i r p) = (live p)[i := r]"
  by (simp add: live_def replace_machine_def take_update_swap)

lemma shaped_replace: "shaped p \<Longrightarrow> record_shaped r \<Longrightarrow> shaped (replace_machine i r p)"
  using set_update_subset_insert [of "my_machines p" i r] by (auto simp: shaped_def replace_machine_def)

lemma live_length:
  assumes "shaped p" "unat (my_machine_count p) \<le> 16"
  shows "length (live p) = unat (my_machine_count p)" "i < unat (my_machine_count p) \<Longrightarrow> live p ! i = my_machines p ! i"
  using assms by (auto simp: live_def shaped_def)

lemma count_pred:
  assumes "0 < unat (c :: u8)"
  shows "unat (c - 1) = unat c - 1"
  using assms by (metis One_nat_def Suc_leI unat_sub word_le_nat_alt unsigned_1)

lemma live_remove:
  assumes "shaped p" "unat (my_machine_count p) \<le> 16" "i < unat (my_machine_count p)"
  shows "set (live (remove_machine i p)) = (\<lambda>j. my_machines p ! j) ` ({..<unat (my_machine_count p)} - {i})"
    and "shaped (remove_machine i p)"
proof -
  let ?n = "unat (my_machine_count p)" and ?m = "my_machines p"
  let ?m' = "my_machines (remove_machine i p)"
  have len: "length ?m = 16" "length ?m' = 16"
    using assms(1) by (simp_all add: shaped_def remove_machine_def Let_def)
  have "record_shaped (?m ! (?n - 1))" using shaped_nth [OF assms(1)] assms(2,3) by simp
  then have "record_shaped r" if "r \<in> set ?m'" for r
    using that assms(1) record_shaped_zero
    by (auto simp: remove_machine_def Let_def shaped_def dest!: set_update_subset_insert [THEN subsetD] split: if_splits)
  with len show "shaped (remove_machine i p)" by (simp add: shaped_def)
  have c: "unat (my_machine_count (remove_machine i p)) = ?n - 1"
    using assms(3) count_pred [of "my_machine_count p"] by (simp add: remove_machine_def Let_def)
  have l: "live (remove_machine i p) = take (?n - 1) ?m'" by (simp add: live_def c)
  have nth: "?m' ! j = (if j = i then ?m ! (?n - 1) else ?m ! j)" if "j < ?n - 1" for j
    using that len assms(2,3) by (auto simp: remove_machine_def Let_def nth_list_update)
  have "set (take (?n - 1) ?m') = (\<lambda>j. ?m' ! j) ` {..<?n - 1}"
    using nth_image [of "?n - 1" ?m'] len assms(2) by (simp add: lessThan_atLeast0)
  also have "\<dots> = (\<lambda>j. ?m ! j) ` ({..<?n} - {i})"
  proof (cases "i = ?n - 1")
    case True
    then have "{..<?n} - {i} = {..<?n - 1}" using assms(3) by auto
    then show ?thesis using nth True by auto
  next
    case False
    then have i: "i < ?n - 1" using assms(3) by linarith
    have "{..<?n} - {i} = insert (?n - 1) ({..<?n - 1} - {i})" using i by auto
    moreover have "{..<?n - 1} = insert i ({..<?n - 1} - {i})" using i by auto
    moreover have "(\<lambda>j. ?m' ! j) ` ({..<?n - 1} - {i}) = (\<lambda>j. ?m ! j) ` ({..<?n - 1} - {i})" using nth by (intro image_cong) auto
    ultimately show ?thesis using nth [OF i] by (metis (no_types, lifting) image_insert)
  qed
  finally show "set (live (remove_machine i p)) = (\<lambda>j. my_machines p ! j) ` ({..<?n} - {i})" using l by simp
qed

section \<open>Operations and runs\<close>

datatype admin_op =
    Enroll credential_env "principal option" "enrollment_request option"
  | Rotate credential_env "principal option" "u8 list"
  | Set_Enabled "principal option" "u8 list" bool
  | Set_Permissions "principal option" "u8 list" permission_set
  | Revoke "principal option" "u8 list"
  | Delete "principal option" "u8 list"
  | Quarantine "u8 list"

fun run_admin :: "bool \<Rightarrow> 'n service_env \<Rightarrow> admin_op \<Rightarrow> machine_directory \<Rightarrow> 'n \<Rightarrow> esp_err \<times> machine_directory \<times> 'n" where
  "run_admin up env (Enroll cg actor request) d s =
     (case argus_machine_service_enroll up env cg actor request credential_zero d s of ((e, _), w) \<Rightarrow> (e, w))"
| "run_admin up env (Rotate cg actor identifier) d s =
     (case argus_machine_service_rotate up env cg actor identifier d s of ((e, _), w) \<Rightarrow> (e, w))"
| "run_admin up env (Set_Enabled actor identifier enabled) d s =
     argus_machine_service_set_enabled up env actor identifier enabled d s"
| "run_admin up env (Set_Permissions actor identifier permissions) d s =
     (case argus_machine_service_set_permissions up env actor identifier permissions d s of ((e, _), w) \<Rightarrow> (e, w))"
| "run_admin up env (Revoke actor identifier) d s = argus_machine_service_revoke up env actor identifier d s"
| "run_admin up env (Delete actor identifier) d s = argus_machine_service_delete up env actor identifier d s"
| "run_admin up env (Quarantine identifier) d s =
     argus_machine_service_quarantine_undisclosed up env identifier d s"

fun op_target :: "admin_op \<Rightarrow> u8 list option" where
  "op_target (Enroll _ _ _) = None"
| "op_target (Rotate _ _ identifier) = Some identifier"
| "op_target (Set_Enabled _ identifier _) = Some identifier"
| "op_target (Set_Permissions _ identifier _) = Some identifier"
| "op_target (Revoke _ identifier) = Some identifier"
| "op_target (Delete _ identifier) = Some identifier"
| "op_target (Quarantine identifier) = Some identifier"

text \<open>The record holds permissions that the actor of the operation was allowed to give it.\<close>

definition granted :: "admin_op \<Rightarrow> machine_record \<Rightarrow> bool" where
  "granted op r \<longleftrightarrow>
     (case op of
        Enroll _ actor request \<Rightarrow> (\<exists>q. request = Some q \<and> mr_scope r = fill_buffer 37 (er_scope q)
          \<and> mr_permissions r = er_permissions q \<and> argus_machine_service_enrollment_allowed actor request)
      | Set_Permissions actor identifier permissions \<Rightarrow> mr_permissions r = permissions
          \<and> cstr (mr_identifier r) = cstr identifier
          \<and> actor_can_manage actor PERMISSION_ENROLL_MACHINES (mr_scope r) permissions
      | _ \<Rightarrow> False)"

definition inherited :: "machine_payload \<Rightarrow> machine_record \<Rightarrow> bool" where
  "inherited p r \<longleftrightarrow> (\<exists>q \<in> set (live p). cstr (mr_identifier q) = cstr (mr_identifier r) \<and> mr_permissions q = mr_permissions r)"

lemma granted_ceiling: "granted op r \<Longrightarrow> mr_permissions r AND MACHINE_CEILING = 0"
  by (auto simp: granted_def argus_machine_service_enrollment_allowed_def actor_can_manage_def split: admin_op.splits)

text \<open>
  The actor of an operation that gives permissions, and the permissions it asks for.
\<close>

fun op_grant :: "admin_op \<Rightarrow> (principal \<times> permission_set) option" where
  "op_grant (Enroll _ (Some actor) (Some q)) = Some (actor, er_permissions q)"
| "op_grant (Set_Permissions (Some actor) _ permissions) = Some (actor, permissions)"
| "op_grant _ = None"

text \<open>The scope of an enrolment request is a text of the C type \<open>char[37]\<close>.\<close>

fun op_typed :: "admin_op \<Rightarrow> bool" where
  "op_typed (Enroll _ _ (Some q)) \<longleftrightarrow> length (er_scope q) = 37"
| "op_typed _ \<longleftrightarrow> True"

lemma scope_contains_buffer:
  assumes "argus_security_machine_scope_valid t" "length t = 37"
  shows "argus_machine_service_scope_contains a (fill_buffer 37 t) = argus_machine_service_scope_contains a t"
proof -
  have "length (cstr t) \<le> 36"
    using assms by (simp add: argus_security_machine_scope_valid_def c_strlen_def split: if_splits)
  then show ?thesis by (simp add: argus_machine_service_scope_contains_def cstr_fill_buffer)
qed

lemma granted_by_actor:
  assumes "granted op r" "op_typed op"
  shows "\<exists>actor. op_grant op = Some (actor, mr_permissions r)
    \<and> actor_can_manage (Some actor) PERMISSION_ENROLL_MACHINES (mr_scope r) (mr_permissions r)
    \<and> (\<forall>identifier. op_target op = Some identifier \<longrightarrow> cstr (mr_identifier r) = cstr identifier)"
proof (cases op)
  case (Enroll cg actor request)
  then obtain q a where "request = Some q" "actor = Some a" "mr_scope r = fill_buffer 37 (er_scope q)"
      "mr_permissions r = er_permissions q" "enrollment_request_valid (Some q)"
      "actor_can_manage (Some a) PERMISSION_ENROLL_MACHINES (er_scope q) (er_permissions q)" "length (er_scope q) = 37"
    using assms by (cases actor) (auto simp: granted_def argus_machine_service_enrollment_allowed_def actor_can_manage_def)
  then show ?thesis
    using Enroll scope_contains_buffer [of "er_scope q"]
    by (simp add: actor_can_manage_def enrollment_request_valid_def)
next
  case (Set_Permissions actor ident perms)
  then show ?thesis using assms by (cases actor) (auto simp: granted_def actor_can_manage_def)
qed (use assms in \<open>auto simp: granted_def\<close>)

text \<open>
  What an operation may do to the directory it read at generation \<open>g\<close>: every record it leaves
  was there before or carries the epoch \<open>g + 1\<close>; its permissions are those the machine had or
  are granted by the actor; and the records of the target, if any are left, carry the epoch \<open>g + 1\<close>.
\<close>

definition admin_change :: "admin_op \<Rightarrow> machine_payload \<Rightarrow> u32 \<Rightarrow> machine_payload \<Rightarrow> bool" where
  "admin_change op p g p' \<longleftrightarrow> shaped p'
     \<and> (\<forall>r \<in> set (live p'). r \<in> set (live p)
          \<or> mr_record_security_epoch r = g + 1 \<and> (granted op r \<or> inherited p r))
     \<and> (\<forall>identifier. op_target op = Some identifier \<longrightarrow>
          (\<forall>r \<in> set (live p'). cstr (mr_identifier r) = cstr identifier \<longrightarrow> mr_record_security_epoch r = g + 1))"

text \<open>Revising one record of a valid directory is such a change of its machine.\<close>

lemma revise_change:
  assumes p: "argus_machine_directory_payload_valid p" "shaped p" and i: "find_machine identifier p = Some i"
    and t: "op_target op = Some identifier" and r: "record_shaped r"
    and perms: "granted op r \<or> mr_permissions r = mr_permissions (my_machines p ! i)"
    and ident: "mr_identifier r = mr_identifier (my_machines p ! i)"
  shows "admin_change op p g (replace_machine i (revised g r) p)"
proof -
  note n = payload_valid_count [OF p(1)]
  have i': "i < unat (my_machine_count p)" "cstr (mr_identifier (my_machines p ! i)) = cstr identifier"
    using find_machine_Some [OF i] by simp_all
  have split: "x = revised g r \<or> (\<exists>j < unat (my_machine_count p). j \<noteq> i \<and> x = my_machines p ! j)"
    if "x \<in> set ((live p)[i := revised g r])" for x
    using that live_length [OF p(2) n] i'(1) by (auto simp: in_set_conv_nth nth_list_update split: if_splits)
  have rev: "mr_record_security_epoch (revised g r) = g + 1" by (simp add: revised_def)
  have old: "my_machines p ! i \<in> set (live p)" using live_member [OF p(2) n] i'(1) by auto
  have gi: "granted op (revised g r) \<or> inherited p (revised g r)"
    using perms old ident by (auto simp: granted_def inherited_def revised_def split: admin_op.splits)
  show ?thesis
    unfolding admin_change_def live_replace
  proof (intro conjI ballI allI impI)
    show "shaped (replace_machine i (revised g r) p)"
      using r by (intro shaped_replace p) (simp add: revised_def record_shaped_def)
    show "x \<in> set (live p) \<or> mr_record_security_epoch x = g + 1 \<and> (granted op x \<or> inherited p x)"
      if "x \<in> set ((live p)[i := revised g r])" for x
      using split [OF that] rev gi live_member [OF p(2) n] by metis
    show "mr_record_security_epoch x = g + 1"
      if "op_target op = Some ident" "x \<in> set ((live p)[i := revised g r])" "cstr (mr_identifier x) = cstr ident" for x ident
    proof -
      have "cstr (mr_identifier x) = cstr (mr_identifier (my_machines p ! i))" using that t i'(2) by simp
      then show ?thesis using split [OF that(2)] rev payload_valid_distinct [OF p(1) i'(1)] by metis
    qed
  qed
qed

lemma remove_change:
  assumes p: "argus_machine_directory_payload_valid p" "shaped p" and i: "find_machine identifier p = Some i"
    and t: "op_target op = Some identifier"
  shows "admin_change op p g (remove_machine i p)"
proof -
  note n = payload_valid_count [OF p(1)]
  have i': "i < unat (my_machine_count p)" "cstr (mr_identifier (my_machines p ! i)) = cstr identifier"
    using find_machine_Some [OF i] by simp_all
  note rm = live_remove [OF p(2) n i'(1)]
  have "x \<in> set (live p)" "cstr (mr_identifier x) \<noteq> cstr identifier" if "x \<in> set (live (remove_machine i p))" for x
    using that rm(1) live_member [OF p(2) n] payload_valid_distinct [OF p(1) _ i'(1)] i'(2) by auto
  then show ?thesis using rm(2) t unfolding admin_change_def by auto
qed

lemma enroll_change_change:
  assumes p: "argus_machine_directory_payload_valid p" "shaped p"
    and run: "enroll_change cg actor r (p, g) = Inr (p', credential)"
    and perms: "argus_machine_service_enrollment_allowed a (Some r)"
  shows "admin_change (Enroll cg a (Some r)) p g p'"
proof -
  let ?c = "my_machine_count p"
  obtain ident verifier where count: "unat ?c < 16"
      and p0: "p' = p\<lparr> my_machines := (my_machines p)[unat ?c := enrolled_record actor r ident verifier g],
                        my_machine_count := ?c + 1 \<rparr>"
    using run by (auto simp: enroll_change_def Let_def split: if_splits option.splits sum.splits)
  define x where "x = enrolled_record actor r ident verifier g"
  have x: "mr_record_security_epoch x = g + 1" "granted (Enroll cg a (Some r)) x"
    using perms by (simp_all add: x_def enrolled_record_def granted_def)
  note p' = p0 [folded x_def]
  have c1: "unat (?c + 1) = Suc (unat ?c)" using count by (simp add: unat_add_no_wrap)
  have "live p' = live p @ [x]"
    using p(2) count by (simp add: live_def p' c1 shaped_def take_Suc_conv_app_nth take_update_swap list_update_append)
  moreover have "record_shaped x" by (simp add: x_def enrolled_record_def record_shaped_def)
  then have "shaped p'"
    using p(2) shaped_replace [OF p(2), of x "unat ?c"] by (simp add: shaped_def p' replace_machine_def)
  ultimately show ?thesis using x by (auto simp: admin_change_def)
qed

text \<open>Every operation either leaves the directory alone or commits such a change.\<close>

lemma mutable_target_Inr:
  assumes "mutable_target up env actor identifier required d = Inr (p, g, i)"
  shows "argus_machine_directory_get_snapshot d = Inr (p, g)" "find_machine identifier p = Some i"
    and "\<exists>a. actor = Some a \<and> argus_authorization_require actor required = AUTHZ_ALLOW
           \<and> argus_machine_service_scope_contains (pr_scope a) (mr_scope (my_machines p ! i))"
  using assms by (auto simp: mutable_target_def snapshot_alloc_def split: option.splits if_splits sum.splits)

lemma get_snapshot_Inr:
  "argus_machine_directory_get_snapshot d = Inr (p, g) \<longleftrightarrow>
     my_initialized d \<and> my_state d = DIRECTORY_READY \<and> p = my_snapshot d \<and> g = my_generation d"
  by (auto simp: argus_machine_directory_get_snapshot_def)

definition sound_directory :: "machine_directory \<Rightarrow> bool" where
  "sound_directory d \<longleftrightarrow> my_initialized d \<and> my_state d = DIRECTORY_READY
     \<and> argus_machine_directory_payload_valid (my_snapshot d) \<and> shaped (my_snapshot d)
     \<and> (\<forall>r \<in> set (live (my_snapshot d)). unat (mr_record_security_epoch r) \<le> unat (my_generation d)
          \<and> mr_permissions r AND MACHINE_CEILING = 0)"

lemma mutable_target_cases:
  assumes "sound_directory d"
  obtains (fail) e where "mutable_target up env actor ident required d = Inl e" "e \<noteq> ESP_OK"
  | (target) i where "mutable_target up env actor ident required d = Inr (my_snapshot d, my_generation d, i)"
      "find_machine ident (my_snapshot d) = Some i"
proof -
  have snap: "argus_machine_directory_get_snapshot d = Inr (my_snapshot d, my_generation d)"
    using assms by (simp add: get_snapshot_Inr sound_directory_def)
  show ?thesis
  proof (cases "mutable_target up env actor ident required d")
    case (Inl e)
    then show ?thesis using fail [of e] snap
      by (auto simp: mutable_target_def snapshot_alloc_def split: option.splits if_splits)
  next
    case (Inr y)
    then show ?thesis using target mutable_target_Inr [of up env actor ident required d] snap by (cases y) auto
  qed
qed

lemma generate_credential_Inl: "generate_credential cg = Inl e \<Longrightarrow> e \<noteq> ESP_OK"
  by (auto simp: generate_credential_def Let_def split: prod.splits if_splits)

lemma enroll_change_Inl: "enroll_change cg actor r x = Inl e \<Longrightarrow> e \<noteq> ESP_OK"
  by (auto simp: enroll_change_def Let_def generate_credential_Inl split: prod.splits if_splits option.splits sum.splits)

lemma enrollment_allowed_parts:
  assumes "argus_machine_service_enrollment_allowed actor request"
  shows "\<exists>a r. actor = Some a \<and> request = Some r"
  using assms
  by (cases request; cases actor) (auto simp: argus_machine_service_enrollment_allowed_def actor_can_manage_def)

definition commits_change :: "'n service_env \<Rightarrow> admin_op \<Rightarrow> machine_directory \<Rightarrow> 'n \<Rightarrow> esp_err \<times> machine_directory \<times> 'n \<Rightarrow> bool" where
  "commits_change env op d s out \<longleftrightarrow> (fst out \<noteq> ESP_OK \<and> snd out = (d, s))
     \<or> (\<exists>p'. admin_change op (my_snapshot d) (my_generation d) p' \<and> commit_change env p' (my_generation d) d s = out)"

lemma commits_failure: "e \<noteq> ESP_OK \<Longrightarrow> commits_change env op d s (e, d, s)"
  by (simp add: commits_change_def)

lemma commits_commit:
  "admin_change op (my_snapshot d) (my_generation d) p' \<Longrightarrow>
     commits_change env op d s (commit_change env p' (my_generation d) d s)"
  by (auto simp: commits_change_def)

lemma enroll_commits:
  assumes d: "sound_directory d"
  shows "commits_change env (Enroll cg actor request) d s (run_admin up env (Enroll cg actor request) d s)"
proof -
  have p: "argus_machine_directory_payload_valid (my_snapshot d)" "shaped (my_snapshot d)" using d by (simp_all add: sound_directory_def)
  have snap: "argus_machine_directory_get_snapshot d = Inr (my_snapshot d, my_generation d)"
    using d by (simp add: get_snapshot_Inr sound_directory_def)
  consider (refused) "\<not> up \<or> \<not> argus_machine_service_enrollment_allowed actor request" | (memory) "\<not> sx_memory env"
    | (go) a r where "actor = Some a" "request = Some r" "up" "argus_machine_service_enrollment_allowed actor request"
        "sx_memory env"
    using enrollment_allowed_parts by blast
  then show ?thesis
  proof cases
    case refused
    then show ?thesis by (auto simp: argus_machine_service_enroll_def commits_failure split: option.split)
  next
    case memory
    then show ?thesis by (auto simp: argus_machine_service_enroll_def snapshot_alloc_def commits_failure split: option.split)
  next
    case go
    show ?thesis
    proof (cases "enroll_change cg (pr_identifier a) r (my_snapshot d, my_generation d)")
      case (Inl e)
      then show ?thesis
        using go enroll_change_Inl [OF Inl] by (simp add: argus_machine_service_enroll_def snapshot_alloc_def snap commits_failure)
    next
      case (Inr y)
      obtain p' credential where y: "y = (p', credential)" by fastforce
      have "run_admin up env (Enroll cg actor request) d s = commit_change env p' (my_generation d) d s"
        using go Inr y by (simp add: argus_machine_service_enroll_def snapshot_alloc_def snap split: prod.split)
      then show ?thesis
        using go(2) commits_commit [OF enroll_change_change [OF p Inr [unfolded y] go(4) [unfolded go(2)]]] by simp
    qed
  qed
qed

lemma run_admin_commits:
  assumes d: "sound_directory d"
  shows "commits_change env op d s (run_admin up env op d s)"
proof -
  have p: "argus_machine_directory_payload_valid (my_snapshot d)" "shaped (my_snapshot d)" using d by (simp_all add: sound_directory_def)
  have snap: "argus_machine_directory_get_snapshot d = Inr (my_snapshot d, my_generation d)"
    using d by (simp add: get_snapshot_Inr sound_directory_def)
  have rs: "record_shaped (my_machines (my_snapshot d) ! i)" if "find_machine ident (my_snapshot d) = Some i" for ident i
    using shaped_nth [OF p(2)] find_machine_Some(1) [OF that] payload_valid_count [OF p(1)] by simp
  note revise = commits_commit [OF revise_change [OF p]] and remove = commits_commit [OF remove_change [OF p]]
  show ?thesis
  proof (cases op)
    case (Enroll cg actor request)
    then show ?thesis using enroll_commits [OF d] by metis
  next
    case (Rotate cg actor ident)
    from d show ?thesis
    proof (cases rule: mutable_target_cases [where up = up and env = env and actor = actor and ident = ident and required = PERMISSION_ENROLL_MACHINES])
      case (target i)
      show ?thesis
      proof (cases "generate_credential cg")
        case (Inl e)
        then show ?thesis
          using Rotate target generate_credential_Inl [OF Inl] by (simp add: argus_machine_service_rotate_def commits_failure)
      next
        case (Inr y)
        let ?r = "(my_machines (my_snapshot d) ! i)\<lparr> mr_verifier := snd y,
          mr_credential_version := bump (mr_credential_version (my_machines (my_snapshot d) ! i)) \<rparr>"
        have "run_admin up env op d s = commit_change env (replace_machine i (revised (my_generation d) ?r) (my_snapshot d)) (my_generation d) d s"
          using Rotate target Inr by (simp add: argus_machine_service_rotate_def Let_def split: prod.split)
        then show ?thesis using Rotate rs [OF target(2)] revise [OF target(2), of op ?r] by (simp add: record_shaped_def)
      qed
    qed (simp add: Rotate argus_machine_service_rotate_def commits_failure)
  next
    case (Set_Enabled actor ident enabled)
    from d show ?thesis
    proof (cases rule: mutable_target_cases [where up = up and env = env and actor = actor and ident = ident and required = PERMISSION_REVOKE_MACHINES])
      case (target i)
      have "commits_change env op d s (commit_change env (replace_machine i (revised (my_generation d)
          ((my_machines (my_snapshot d) ! i)\<lparr> mr_enabled := v \<rparr>)) (my_snapshot d)) (my_generation d) d s)" for v
        using Set_Enabled rs [OF target(2)] by (intro revise [OF target(2)]) (simp_all add: record_shaped_def)
      then show ?thesis using Set_Enabled target by (simp add: argus_machine_service_set_enabled_def Let_def commits_failure)
    qed (simp add: Set_Enabled argus_machine_service_set_enabled_def commits_failure)
  next
    case (Set_Permissions actor ident perms)
    from d show ?thesis
    proof (cases rule: mutable_target_cases [where up = up and env = env and actor = actor and ident = ident and required = PERMISSION_ENROLL_MACHINES])
      case (target i)
      let ?r = "my_machines (my_snapshot d) ! i"
      show ?thesis
      proof (cases "perms AND NOT PERMISSION_DEFINED_MASK \<noteq> 0 \<or> mr_revoked ?r \<noteq> 0
          \<or> \<not> actor_can_manage actor PERMISSION_ENROLL_MACHINES (mr_scope ?r) perms")
        case True
        then show ?thesis using Set_Permissions target
          by (auto simp: argus_machine_service_set_permissions_def Let_def commits_failure)
      next
        case False
        then have "run_admin up env op d s = commit_change env
            (replace_machine i (revised (my_generation d) (?r\<lparr> mr_permissions := perms \<rparr>)) (my_snapshot d)) (my_generation d) d s"
          using Set_Permissions target by (simp add: argus_machine_service_set_permissions_def Let_def split: prod.split)
        then show ?thesis
          using Set_Permissions False rs [OF target(2)] revise [OF target(2), of op "?r\<lparr> mr_permissions := perms \<rparr>"]
            find_machine_Some(2) [OF target(2)]
          by (auto simp: record_shaped_def granted_def)
      qed
    qed (simp add: Set_Permissions argus_machine_service_set_permissions_def commits_failure)
  next
    case (Revoke actor ident)
    from d show ?thesis
    proof (cases rule: mutable_target_cases [where up = up and env = env and actor = actor and ident = ident and required = PERMISSION_REVOKE_MACHINES])
      case (target i)
      then show ?thesis using Revoke rs [OF target(2)]
        by (auto simp: argus_machine_service_revoke_def Let_def record_shaped_def intro!: revise [OF target(2)])
    qed (simp add: Revoke argus_machine_service_revoke_def commits_failure)
  next
    case (Delete actor ident)
    from d show ?thesis
    proof (cases rule: mutable_target_cases [where up = up and env = env and actor = actor and ident = ident and required = PERMISSION_REVOKE_MACHINES])
      case (target i)
      then show ?thesis using Delete
        by (auto simp: argus_machine_service_delete_def commits_failure intro!: remove [OF target(2)])
    qed (simp add: Delete argus_machine_service_delete_def commits_failure)
  next
    case (Quarantine ident)
    then show ?thesis
      by (cases "find_machine ident (my_snapshot d)")
        (auto simp: argus_machine_service_quarantine_undisclosed_def snapshot_alloc_def snap commits_failure
          intro!: revise dest: rs simp: record_shaped_def)
  qed
qed

section \<open>Commits and histories\<close>

lemma directory_commit_result:
  assumes "argus_machine_directory_commit env nvs p g d s = (e, d', s')"
  shows "if e = ESP_OK
    then g = my_generation d \<and> my_initialized d \<and> my_state d = DIRECTORY_READY \<and> argus_machine_directory_payload_valid p
      \<and> my_snapshot d' = p \<and> my_generation d' = machine_next_generation d \<and> my_initialized d' \<and> my_state d' = DIRECTORY_READY
    else d' = d"
  using assms
  by (auto simp: argus_machine_directory_commit_def machine_commit_locked_def argus_machine_directory_commit_precondition_def
      Let_def split: if_splits prod.splits)

lemma run_admin_success:
  assumes d: "sound_directory d" and run: "run_admin up env op d s = (ESP_OK, d', s')"
    and w: "fst (sx_between env (d, s)) = w"
  shows "my_generation d = my_generation w" "my_generation d' = machine_next_generation w"
    and "admin_change op (my_snapshot d) (my_generation d) (my_snapshot d')"
    and "my_initialized d'" "my_state d' = DIRECTORY_READY" "argus_machine_directory_payload_valid (my_snapshot d')"
proof -
  obtain p' where c: "admin_change op (my_snapshot d) (my_generation d) p'" "commit_change env p' (my_generation d) d s = (ESP_OK, d', s')"
    using run_admin_commits [OF d, of env op s up] run by (auto simp: commits_change_def)
  obtain s1 where "sx_between env (d, s) = (w, s1)" using w by (metis prod.collapse)
  then have "argus_machine_directory_commit (sx_commit env) (sx_nvs env) p' (my_generation d) w s1 = (ESP_OK, d', s')"
    using c(2) by (simp add: commit_change_def)
  note r = directory_commit_result [OF this]
  show "my_generation d = my_generation w" "my_generation d' = machine_next_generation w"
    "admin_change op (my_snapshot d) (my_generation d) (my_snapshot d')"
    "my_initialized d'" "my_state d' = DIRECTORY_READY" "argus_machine_directory_payload_valid (my_snapshot d')"
    using r c(1) by auto
qed

lemma run_admin_failure:
  assumes d: "sound_directory d" and run: "run_admin up env op d s = (e, d', s')" "e \<noteq> ESP_OK"
  shows "d' = d \<or> d' = fst (sx_between env (d, s))"
proof -
  consider "d' = d" | p' where "commit_change env p' (my_generation d) d s = (e, d', s')"
    using run_admin_commits [OF d, of env op s up] run by (auto simp: commits_change_def)
  then show ?thesis
  proof cases
    case 2
    obtain w s1 where "sx_between env (d, s) = (w, s1)" by fastforce
    then show ?thesis using 2 run(2) directory_commit_result [of "sx_commit env" "sx_nvs env" p' "my_generation d" w s1]
      by (simp add: commit_change_def)
  qed simp
qed

text \<open>
  The directories in the order the writer installs them, latest first. An operation read its
  snapshot at any earlier moment and reaches the writer at the latest one; an operation that
  fails leaves the latest directory. Generations do not wrap within a history.
\<close>

inductive directory_history :: "'n machine_nvs \<Rightarrow> machine_directory \<Rightarrow> machine_directory list \<Rightarrow> bool" for nvs d0 where
  start: "directory_history nvs d0 [d0]"
| admin: "directory_history nvs d0 (w # ds) \<Longrightarrow> d \<in> set (w # ds) \<Longrightarrow> fst (sx_between env (d, s)) = w \<Longrightarrow> sx_nvs env = nvs \<Longrightarrow>
    my_generation w + 1 \<noteq> 0 \<Longrightarrow> run_admin up env op d s = (e, d', s') \<Longrightarrow>
    directory_history nvs d0 ((if e = ESP_OK then d' else w) # w # ds)"

inductive_cases directory_historyE: "directory_history nvs d0 (v # w # ds)"

definition serialised :: "machine_directory list \<Rightarrow> bool" where
  "serialised ds \<longleftrightarrow> (\<forall>d \<in> set ds. sound_directory d \<and> my_generation d \<le> my_generation (hd ds)
     \<and> (my_generation d = my_generation (hd ds) \<longrightarrow> d = hd ds))"

lemma unat_Suc_no_wrap: "(g :: u32) + 1 \<noteq> 0 \<Longrightarrow> unat (g + 1) = Suc (unat g)"
  by (metis Suc_eq_plus1 add.commute unatSuc)

lemma next_generation: "my_generation w + 1 \<noteq> 0 \<Longrightarrow> machine_next_generation w = my_generation w + 1"
  by (simp add: machine_next_generation_def)

lemma sound_after:
  assumes d: "sound_directory d" and run: "run_admin up env op d s = (ESP_OK, d', s')" "fst (sx_between env (d, s)) = d"
    and g: "my_generation d + 1 \<noteq> 0"
  shows "sound_directory d'" "my_generation d' = my_generation d + 1"
proof -
  note r = run_admin_success [OF d run]
  show g': "my_generation d' = my_generation d + 1" using r(2) next_generation [OF g] by simp
  have "unat (mr_record_security_epoch x) \<le> unat (my_generation d') \<and> mr_permissions x AND MACHINE_CEILING = 0"
    if "x \<in> set (live (my_snapshot d'))" for x
    using that r(3) d unat_Suc_no_wrap [OF g] granted_ceiling unfolding admin_change_def sound_directory_def g' inherited_def
    by (metis le_SucI order_refl)
  then show "sound_directory d'" using r by (simp add: sound_directory_def admin_change_def)
qed

lemma history_serialised:
  assumes "directory_history nvs d0 ds" "sound_directory d0"
  shows "serialised ds"
  using assms
proof induction
  case start
  then show ?case by (simp add: serialised_def)
next
  case (admin w ds d env s up op e d' s')
  show ?case
  proof (cases "e = ESP_OK")
    case True
    have d: "sound_directory d" using admin by (auto simp: serialised_def)
    have "d = w" using run_admin_success(1) [OF d admin(6) [unfolded True] admin(3)] admin(2,7,8) by (auto simp: serialised_def)
    note r = sound_after [of w, OF _ admin(6) [unfolded True this] admin(3) [unfolded this] admin(5)]
    have w: "sound_directory w" using admin by (simp add: serialised_def)
    have less: "my_generation x < my_generation d' \<and> my_generation x \<noteq> my_generation d'" if "x \<in> set (w # ds)" for x
    proof -
      have "my_generation x \<le> my_generation w" using admin(7,8) that by (auto simp: serialised_def)
      then show ?thesis using r(2) [OF w] unat_Suc_no_wrap [OF admin(5)] by (auto simp: word_less_nat_alt word_le_nat_alt)
    qed
    have "sound_directory x \<and> my_generation x \<le> my_generation d' \<and> (my_generation x = my_generation d' \<longrightarrow> x = d')"
      if "x \<in> set (d' # w # ds)" for x
      using that less [of x] r(1) [OF w] admin(7,8) by (auto simp: serialised_def less_imp_le)
    then show ?thesis using True by (auto simp: serialised_def)
  next
    case False
    then show ?thesis using admin(7,8) by (auto simp: serialised_def)
  qed
qed

text \<open>A successful operation replaces the very directory it read.\<close>

lemma admin_replaces_current:
  assumes h: "directory_history nvs d0 (w # ds)" "sound_directory d0" "d \<in> set (w # ds)"
    and run: "run_admin up env op d s = (ESP_OK, d', s')" "fst (sx_between env (d, s)) = w"
  shows "d = w" "sound_directory w"
proof -
  note inv = history_serialised [OF h(1,2)]
  have d: "sound_directory d" using inv h(3) by (auto simp: serialised_def)
  show "d = w" using run_admin_success(1) [OF d run] inv h(3) by (auto simp: serialised_def)
  show "sound_directory w" using inv by (simp add: serialised_def)
qed

section \<open>Principals after a change of their machine\<close>

text \<open>The records of an identifier are younger than the epoch \<open>e\<close>.\<close>

definition younger :: "u32 \<Rightarrow> u8 list \<Rightarrow> machine_directory \<Rightarrow> bool" where
  "younger e ident d \<longleftrightarrow> e \<le> my_generation d
     \<and> (\<forall>r \<in> set (live (my_snapshot d)). cstr (mr_identifier r) = cstr ident \<longrightarrow> mr_record_security_epoch r \<noteq> e)"

lemma younger_step:
  assumes "admin_change op (my_snapshot d) (my_generation d) (my_snapshot d')" "my_generation d' = my_generation d + 1"
    and "my_generation d + 1 \<noteq> 0" "e \<le> my_generation d"
    and "younger e ident d \<or> (\<exists>i. op_target op = Some i \<and> cstr i = cstr ident)"
  shows "younger e ident d'"
proof -
  have "e < my_generation d + 1"
    using assms(3,4) unat_Suc_no_wrap [OF assms(3)] by (simp add: word_less_nat_alt word_le_nat_alt)
  then show ?thesis using assms(1,2,5) unfolding younger_def admin_change_def by (metis less_imp_le order_less_irrefl)
qed

lemma history_tail: "directory_history nvs d0 (vs @ w # ds) \<Longrightarrow> directory_history nvs d0 (w # ds)"
  by (induction vs) (auto elim: directory_history.cases)

lemma history_younger:
  assumes "directory_history nvs d0 (vs @ d # ds)" "sound_directory d0" "younger e ident d" "v \<in> set (vs @ [d])"
  shows "younger e ident v"
  using assms(1,4)
proof (induction vs arbitrary: v)
  case Nil
  then show ?case using assms(3) by simp
next
  case (Cons x vs)
  obtain w ws where w: "vs @ d # ds = w # ws" by (cases vs) auto
  have tail: "directory_history nvs d0 (vs @ d # ds)" using history_tail [of nvs d0 "[x]"] Cons.prems(1) w by simp
  have yw: "younger e ident w" using Cons.IH [OF tail] w by (cases vs) auto
  show ?case
  proof (cases "v = x")
    case True
    have "directory_history nvs d0 (x # w # ws)" using Cons.prems(1) w by simp
    then obtain d env s up op err d' s' where step: "x = (if err = ESP_OK then d' else w)" "directory_history nvs d0 (w # ws)"
        "d \<in> set (w # ws)" "fst (sx_between env (d, s)) = w" "my_generation w + 1 \<noteq> 0" "run_admin up env op d s = (err, d', s')"
        "sx_nvs env = nvs"
      by (elim directory_historyE) auto
    show ?thesis
    proof (cases "err = ESP_OK")
      case ok: True
      note run = step(6) [unfolded ok]
      note c = admin_replaces_current [OF step(2) assms(2) step(3) run step(4)]
      note r = run_admin_success(2,3) [OF c(2) run [unfolded c(1)] step(4) [unfolded c(1)]] next_generation [OF step(5)]
      have "e \<le> my_generation w" using yw by (simp add: younger_def)
      then have "younger e ident d'" using younger_step [OF r(2) _ step(5) _ disjI1 [OF yw]] r(1,3) by simp
      then show ?thesis using step(1) ok True by simp
    qed (use step(1) True yw in simp)
  qed (use Cons tail in auto)
qed

lemma auth_verify_success:
  assumes "mo_result (auth_verify q hmac v found password iface) = AUTH_SUCCESS"
  shows "\<exists>r i g. found = Inr (r, i, g) \<and> mo_principal (auth_verify q hmac v found password iface) = principal_from_record r g
    \<and> mr_enabled r \<noteq> 0 \<and> mr_revoked r = 0 \<and> mr_allowed_transports r AND 2 \<noteq> 0 \<and> mr_allowed_interfaces r AND iface \<noteq> 0"
proof (cases found)
  case (Inl e)
  then show ?thesis using assms by (simp add: auth_verify_def outcome_of_def Let_def split: prod.splits if_splits)
next
  case (Inr x)
  then show ?thesis using assms by (cases x) (simp add: auth_verify_def outcome_of_def Let_def split: prod.splits if_splits)
qed

lemma auth_success_record:
  assumes "argus_machine_service_authenticate q hmac now d between peer cid username password iface m = (outcome, m')"
    and "mo_result outcome = AUTH_SUCCESS"
  shows "\<exists>i. my_initialized d \<and> my_state d = DIRECTORY_READY \<and> find_machine username (my_snapshot d) = Some i
    \<and> (let r = my_machines (my_snapshot d) ! i in mo_principal outcome = principal_from_record r (my_generation d)
       \<and> mr_enabled r \<noteq> 0 \<and> mr_revoked r = 0 \<and> mr_allowed_transports r AND 2 \<noteq> 0 \<and> mr_allowed_interfaces r AND iface \<noteq> 0
       \<and> ma_initialized m)"
proof -
  obtain o1 m1 where adm: "auth_admit peer now m = (o1, m1)" by fastforce
  have no: "mo_result x \<noteq> AUTH_SUCCESS" if "o1 = Some x" for x
    using adm that by (auto simp: auth_admit_def outcome_of_def split: prod.splits option.splits if_splits)
  have *: "(\<exists>v. auth_verify q hmac v (argus_machine_directory_find username d) password iface = outcome)
      \<and> auth_request_ok username password iface m"
  proof (cases o1)
    case None
    then show ?thesis using assms adm
      by (auto simp: argus_machine_service_authenticate_def outcome_of_def Let_def split: if_splits)
  next
    case (Some x)
    then show ?thesis using assms adm no [OF Some]
      by (auto simp: argus_machine_service_authenticate_def outcome_of_def split: if_splits)
  qed
  obtain v where v: "auth_verify q hmac v (argus_machine_directory_find username d) password iface = outcome" using * by blast
  obtain r i g where "argus_machine_directory_find username d = Inr (r, i, g)"
      "mo_principal outcome = principal_from_record r g" "mr_enabled r \<noteq> 0 \<and> mr_revoked r = 0"
      "mr_allowed_transports r AND 2 \<noteq> 0 \<and> mr_allowed_interfaces r AND iface \<noteq> 0"
    using auth_verify_success [of q hmac v "argus_machine_directory_find username d" password iface] assms(2) unfolding v by blast
  moreover have "ma_initialized m" using * by (simp add: auth_request_ok_def)
  ultimately show ?thesis by (cases "find_machine username (my_snapshot d)") (simp_all add: argus_machine_directory_find_def Let_def split: if_splits)
qed

lemma cstr_no_zero_id: "0 \<notin> set s \<Longrightarrow> cstr s = s"
  unfolding cstr_def by (rule takeWhile_eq_all_conv [THEN iffD2]) auto

lemma cstr_buffer:
  assumes "c_strlen v < length v" "length v = Suc n"
  shows "cstr (c_strlcpy (Suc n) v) = cstr v"
  using assms cstr_no_zero [of v] by (simp add: c_strlcpy_def c_strlen_def cstr_no_zero_id)

text \<open>What a principal keeps of a valid record.\<close>

lemma principal_fields:
  assumes "argus_security_machine_record_valid r" "record_shaped r"
  shows "cstr (mp_identifier (principal_from_record r g)) = cstr (mr_identifier r)"
    "cstr (mp_scope (principal_from_record r g)) = cstr (mr_scope r)"
    "cstr (mp_topic_scope (principal_from_record r g)) = cstr (mr_topic_scope r)"
    "cstr (mr_identifier r) \<noteq> []"
  using assms cstr_buffer [of "mr_identifier r" 36] cstr_buffer [of "mr_scope r" 36] cstr_buffer [of "mr_topic_scope r" 96]
    c_strlen_le [of "mr_identifier r"] c_strlen_le [of "mr_topic_scope r"]
  by (simp_all add: argus_security_machine_record_valid_def bounded_string_valid_def bounded_printable_valid_def
      argus_security_machine_scope_valid_def record_shaped_def principal_from_record_def c_strlen_def split: if_splits)

lemma revalidate_needs_epoch:
  assumes "argus_machine_service_revalidate m d (Some p) iface = ESP_OK" "sound_directory d"
  shows "\<exists>r \<in> set (live (my_snapshot d)). cstr (mr_identifier r) = cstr (mp_identifier p)
    \<and> mr_record_security_epoch r = mp_record_security_epoch p"
proof -
  obtain r i g where r: "argus_machine_directory_find (mp_identifier p) d = Inr (r, i, g)" "mr_record_security_epoch r = mp_record_security_epoch p"
    using assms(1) by (auto simp: argus_machine_service_revalidate_def split: if_splits sum.splits)
  then have i: "find_machine (mp_identifier p) (my_snapshot d) = Some i" "r = my_machines (my_snapshot d) ! i"
    by (auto simp: argus_machine_directory_find_def split: if_splits option.splits)
  have p: "shaped (my_snapshot d)" "unat (my_machine_count (my_snapshot d)) \<le> 16"
    using assms(2) payload_valid_count by (auto simp: sound_directory_def)
  show ?thesis using live_member [OF p] find_machine_Some [OF i(1)] i(2) r(2) by metis
qed

text \<open>
  C21: A principal that an authentication issued at any moment of a history is refused by the
  revalidation from the moment a successful operation on its machine was installed, in every
  later directory, whatever operations overlap; and it is accepted as long as the directory
  it was issued from is in place, on the interface it was issued for.
\<close>

theorem stale_principal_rejected:
  assumes "sound_directory d0" "directory_history nvs d0 (vs @ d' # w # ds)"
    and "a \<in> set (w # ds)"
    and "argus_machine_service_authenticate q hmac now a between peer cid username password iface m = (outcome, m1)"
    and "mo_result outcome = AUTH_SUCCESS"
    and "d \<in> set (w # ds)" "fst (sx_between env (d, s)) = w" "my_generation w + 1 \<noteq> 0"
    and "run_admin up env op d s = (ESP_OK, d', s')" "op_target op = Some target" "cstr target = cstr username"
  shows "(\<forall>v \<in> set (vs @ [d']). \<forall>m2 receiving.
            argus_machine_service_revalidate m2 v (Some (mo_principal outcome)) receiving \<noteq> ESP_OK)
    \<and> argus_machine_service_revalidate m a (Some (mo_principal outcome)) iface = ESP_OK"
proof -
  have h: "directory_history nvs d0 (d' # w # ds)" by (rule history_tail [OF assms(2)])
  have h': "directory_history nvs d0 (w # ds)" using history_tail [of nvs d0 "[d']"] h by simp
  have ser: "serialised (w # ds)" "serialised (vs @ d' # w # ds)"
    using history_serialised [OF h' assms(1)] history_serialised [OF assms(2,1)] by simp_all
  have a: "sound_directory a" "my_generation a \<le> my_generation w" using ser(1) assms(3) by (auto simp: serialised_def)
  obtain i where i: "my_initialized a" "my_state a = DIRECTORY_READY" "find_machine username (my_snapshot a) = Some i"
    and p: "let r = my_machines (my_snapshot a) ! i in mo_principal outcome = principal_from_record r (my_generation a)
       \<and> mr_enabled r \<noteq> 0 \<and> mr_revoked r = 0 \<and> mr_allowed_transports r AND 2 \<noteq> 0 \<and> mr_allowed_interfaces r AND iface \<noteq> 0
       \<and> ma_initialized m"
    using auth_success_record [OF assms(4,5)] by blast
  define r where "r = my_machines (my_snapshot a) ! i"
  have v: "argus_machine_directory_payload_valid (my_snapshot a)" "shaped (my_snapshot a)" using a(1) by (simp_all add: sound_directory_def)
  note n = payload_valid_count [OF v(1)] and f = find_machine_Some [OF i(3)]
  have rec: "argus_security_machine_record_valid r" "record_shaped r" "r \<in> set (live (my_snapshot a))"
    using payload_valid_record [OF v(1) f(1)] shaped_nth [OF v(2)] n f(1) live_member [OF v(2) n] by (auto simp: r_def)
  note fields = principal_fields [OF rec(1,2)]
  have ident: "cstr (mp_identifier (mo_principal outcome)) = cstr username" using p fields(1) f(2) by (simp add: r_def Let_def)
  have e: "mr_record_security_epoch r \<le> my_generation w"
    using a rec(3) by (auto simp: sound_directory_def word_le_nat_alt)
  note c = admin_replaces_current [OF h' assms(1,6,9,7)]
  note run = run_admin_success(2,3) [OF c(2) assms(9) [unfolded c(1)] assms(7) [unfolded c(1)]] next_generation [OF assms(8)]
  have "younger (mr_record_security_epoch r) (mp_identifier (mo_principal outcome)) d'"
    using younger_step [OF run(2) _ assms(8) e] run(1,3) assms(10,11) ident by auto
  note later = history_younger [OF assms(2,1) this]
  have "argus_machine_service_revalidate m2 x (Some (mo_principal outcome)) receiving \<noteq> ESP_OK"
    if "x \<in> set (vs @ [d'])" for x m2 receiving
    using later [OF that] revalidate_needs_epoch [of m2 x "mo_principal outcome" receiving] ser(2) that p
    by (auto simp: serialised_def younger_def r_def principal_from_record_def Let_def)
  moreover have "find_machine (mp_identifier (mo_principal outcome)) (my_snapshot a) = Some i"
    using i(3) ident by (simp add: find_machine_def)
  then have "argus_machine_service_revalidate m a (Some (mo_principal outcome)) iface = ESP_OK"
    using p i fields unfolding argus_machine_service_revalidate_def argus_machine_directory_find_def
    by (simp add: r_def Let_def) (simp add: principal_from_record_def)
  ultimately show ?thesis by blast
qed

section \<open>A directory with one machine\<close>

lemma commit_succeeds:
  assumes "argus_machine_directory_payload_valid p" "my_initialized d" "my_state d = DIRECTORY_READY" "ec_broken s = None"
    and "ce_request_memory env" "ce_room env" "ce_memory env" "\<not> ce_by_writer env"
  shows "fst (argus_machine_directory_commit env entry_api p (my_generation d) d s) = ESP_OK"
proof -
  have "machine_next_generation d \<noteq> 0" by (simp add: machine_next_generation_def Let_def)
  then show ?thesis
    using assms slot_of_valid [OF _ assms(1)]
    by (simp add: argus_machine_directory_commit_def machine_commit_locked_def argus_machine_directory_commit_precondition_def
        store_slot_def entry_access Let_def)
qed

definition flat_hmac :: hmac where
  "flat_hmac key msg = Some (replicate 32 0)"

lemma flat_rounds: "pbkdf2_rounds (flat_hmac k) n (replicate 32 0) (replicate 32 0) = Some (replicate 32 0)"
  by (induction n) (simp_all add: flat_hmac_def xor_bytes_def)

definition demo_secret :: "u8 list" where
  "demo_secret = replicate 43 65"

definition plant_machine :: machine_record where
  "plant_machine = machine_record_zero\<lparr> mr_record_version := 1, mr_enabled := 1, mr_client_type := 1, mr_allowed_transports := 2,
     mr_allowed_interfaces := 1, mr_identifier := fill_buffer 37 (str_bytes ''m-1''),
     mr_display_name := fill_buffer 49 (str_bytes ''Core''), mr_scope := fill_buffer 37 (str_bytes ''plant''),
     mr_topic_scope := fill_buffer 97 (str_bytes ''argus''), mr_enrollment_actor := fill_buffer 37 (str_bytes ''root''),
     mr_permissions := 1, mr_credential_version := 1, mr_record_security_epoch := 1, mr_principal_revision := 1,
     mr_verifier := \<lparr> pv_format_version = 1, pv_algorithm = 1, pv_salt_length = 16, pv_verifier_length = 32,
       pv_iterations = PASSWORD_ITERATIONS_MIN, pv_salt = replicate 16 7, pv_verifier = replicate 32 0 \<rparr> \<rparr>"

definition demo_directory :: machine_directory where
  "demo_directory = machine_directory_zero\<lparr> my_snapshot := machine_payload_zero\<lparr> my_schema_version := 1,
     my_machine_count := 1, my_machines := plant_machine # replicate 15 machine_record_zero \<rparr>,
     my_generation := 1, my_state := DIRECTORY_READY, my_initialized := True \<rparr>"

lemma plant_valid: "argus_machine_directory_payload_valid (my_snapshot demo_directory)"
  by code_simp

lemma demo_sound: "sound_directory demo_directory"
proof -
  have "live (my_snapshot demo_directory) = [plant_machine]" by (simp add: live_def demo_directory_def)
  moreover have "unat (mr_record_security_epoch plant_machine) \<le> unat (my_generation demo_directory)"
    "mr_permissions plant_machine AND MACHINE_CEILING = 0" "my_initialized demo_directory"
    "my_state demo_directory = DIRECTORY_READY"
    by code_simp+
  moreover have "shaped (my_snapshot demo_directory)"
    by (simp add: shaped_def demo_directory_def plant_machine_def record_shaped_def machine_record_zero_def)
  ultimately show ?thesis using plant_valid by (simp add: sound_directory_def)
qed

definition demo_cells :: "machine_slot entry_cells" where
  "demo_cells = \<lparr> ec_blobs = Map.empty, ec_octets = Map.empty, ec_broken = None \<rparr>"

definition demo_env :: "machine_slot entry_cells service_env" where
  "demo_env = \<lparr> sx_memory = True,
     sx_commit = \<lparr> ce_by_writer = False, ce_request_memory = True, ce_room = True, ce_memory = True \<rparr>,
     sx_nvs = entry_api, sx_between = (\<lambda>w. w) \<rparr>"

definition demo_quarantine :: "esp_err \<times> machine_directory \<times> machine_slot entry_cells" where
  "demo_quarantine = run_admin True demo_env (Quarantine (str_bytes ''m-1'')) demo_directory demo_cells"

lemma demo_quarantine_ok: "fst demo_quarantine = ESP_OK"
proof -
  let ?d = demo_directory
  define p where "p = replace_machine 0 (revised (my_generation ?d) (plant_machine\<lparr> mr_enabled := 0 \<rparr>)) (my_snapshot ?d)"
  have "argus_machine_directory_payload_valid p" unfolding p_def by code_simp
  moreover have "demo_quarantine = argus_machine_directory_commit (sx_commit demo_env) entry_api p (my_generation ?d) ?d demo_cells"
  proof -
    have "find_machine (str_bytes ''m-1'') (my_snapshot ?d) = Some 0" by code_simp
    then show ?thesis
      unfolding demo_quarantine_def p_def
      by (simp add: argus_machine_service_quarantine_undisclosed_def snapshot_alloc_def demo_env_def get_snapshot_Inr
          commit_change_def argus_machine_directory_get_snapshot_def Let_def) (simp add: demo_directory_def)
  qed
  ultimately show ?thesis
    using commit_succeeds [of p ?d demo_cells "sx_commit demo_env"]
    by (simp add: demo_env_def demo_cells_def) (simp add: demo_directory_def)
qed

definition plant_auth :: machine_auth where
  "plant_auth = machine_auth_zero\<lparr> ma_initialized := True \<rparr>"

definition demo_login :: "machine_auth_outcome \<times> machine_auth" where
  "demo_login = argus_machine_service_authenticate demo_queue flat_hmac 1 demo_directory (\<lambda>m. m) 7 (str_bytes ''m-1'')
     (str_bytes ''m-1'') demo_secret 1 plant_auth"

lemma demo_login_ok: "mo_result (fst demo_login) = AUTH_SUCCESS"
proof -
  have "fst (auth_admit 7 1 plant_auth) = None" by code_simp
  then obtain m1 where "auth_admit 7 1 plant_auth = (None, m1)" by (metis prod.collapse)
  moreover have "argus_machine_directory_find (str_bytes ''m-1'') demo_directory = Inr (plant_machine, 0, 1)" by code_simp
  moreover have "auth_request_ok (str_bytes ''m-1'') demo_secret 1 plant_auth" "0 \<notin> set (str_bytes ''m-1'')" "0 \<notin> set demo_secret"
    "cstr (str_bytes ''m-1'') = str_bytes ''m-1''" by code_simp+
  moreover have "argus_password_verifier_verify demo_queue flat_hmac (Some demo_secret) (Some (mr_verifier plant_machine)) False = (ESP_OK, True)"
    using flat_rounds [of demo_secret]
    by (simp add: argus_password_verifier_verify_def submit_def demo_queue_def verify_record_def argus_password_pbkdf2_def
        argus_password_verifier_record_valid_def input_valid_def demo_secret_def plant_machine_def flat_hmac_def)
  moreover have "mr_enabled plant_machine \<noteq> 0" "mr_revoked plant_machine = 0" "mr_allowed_transports plant_machine AND 2 \<noteq> 0"
    "mr_allowed_interfaces plant_machine AND 1 \<noteq> 0" by code_simp+
  ultimately show ?thesis
    by (simp add: demo_login_def argus_machine_service_authenticate_def auth_verify_def outcome_of_def Let_def)
qed

lemma demo_step:
  "run_admin True demo_env (Quarantine (str_bytes ''m-1'')) demo_directory demo_cells
     = (ESP_OK, fst (snd demo_quarantine), snd (snd demo_quarantine))"
  "fst (sx_between demo_env (demo_directory, demo_cells)) = demo_directory" "sx_nvs demo_env = entry_api"
  "my_generation demo_directory + 1 \<noteq> 0"
  using demo_quarantine_ok prod.collapse [of demo_quarantine] prod.collapse [of "snd demo_quarantine"]
  unfolding demo_quarantine_def [symmetric] by (simp_all add: demo_env_def demo_directory_def)

lemma demo_history: "directory_history entry_api demo_directory [fst (snd demo_quarantine), demo_directory]"
  using directory_history.admin [OF directory_history.start _ demo_step(2-4,1)] by simp

theorem stale_principal_rejected_witness:
  "mo_result (fst demo_login) = AUTH_SUCCESS
   \<and> argus_machine_service_revalidate plant_auth demo_directory (Some (mo_principal (fst demo_login))) 1 = ESP_OK
   \<and> argus_machine_service_revalidate plant_auth (fst (snd demo_quarantine)) (Some (mo_principal (fst demo_login))) 1 \<noteq> ESP_OK"
proof -
  have login: "argus_machine_service_authenticate demo_queue flat_hmac 1 demo_directory (\<lambda>m. m) 7 (str_bytes ''m-1'') (str_bytes ''m-1'')
      demo_secret 1 plant_auth = (fst demo_login, snd demo_login)" by (simp add: demo_login_def)
  show ?thesis
    using stale_principal_rejected [where vs = "[]" and ds = "[]", OF demo_sound _ _ login demo_login_ok _ demo_step(2,4,1)
        op_target.simps(7) refl, of entry_api] demo_history demo_login_ok
    by auto
qed

text \<open>A change of permissions that root makes on the demonstration directory.\<close>

definition root_actor :: principal where
  "root_actor = root_principal\<lparr> pr_scope := [42, 0],
     pr_permissions := PERMISSION_ENROLL_MACHINES OR PERMISSION_MOTION \<rparr>"

definition demo_grant :: admin_op where
  "demo_grant = Set_Permissions (Some root_actor) (str_bytes ''m-1'') PERMISSION_MOTION"

definition demo_granted :: "esp_err \<times> machine_directory \<times> machine_slot entry_cells" where
  "demo_granted = run_admin True demo_env demo_grant demo_directory demo_cells"

lemma demo_granted_ok: "fst demo_granted = ESP_OK"
proof -
  let ?d = demo_directory
  define p where "p = replace_machine 0 (revised (my_generation ?d) (plant_machine\<lparr> mr_permissions := PERMISSION_MOTION \<rparr>)) (my_snapshot ?d)"
  have "argus_machine_directory_payload_valid p" unfolding p_def by code_simp
  moreover have "demo_granted = argus_machine_directory_commit (sx_commit demo_env) entry_api p (my_generation ?d) ?d demo_cells"
  proof -
    have "find_machine (str_bytes ''m-1'') (my_snapshot ?d) = Some 0" by code_simp
    moreover have "my_machines (my_snapshot ?d) ! 0 = plant_machine" by (simp add: demo_directory_def)
    moreover have "actor_can_manage (Some root_actor) PERMISSION_ENROLL_MACHINES (mr_scope plant_machine) PERMISSION_MOTION"
      "PERMISSION_MOTION AND NOT PERMISSION_DEFINED_MASK = 0" "mr_revoked plant_machine = 0"
      by code_simp+
    ultimately show ?thesis
      unfolding demo_granted_def p_def demo_grant_def
      by (simp add: argus_machine_service_set_permissions_def mutable_target_def actor_can_manage_def snapshot_alloc_def
          demo_env_def get_snapshot_Inr commit_change_def argus_machine_directory_get_snapshot_def Let_def split_beta)
        (simp add: demo_directory_def)
  qed
  ultimately show ?thesis
    using commit_succeeds [of p ?d demo_cells "sx_commit demo_env"]
    by (simp add: demo_env_def demo_cells_def) (simp add: demo_directory_def)
qed

text \<open>
  C22: Administration never raises a machine above its grantor. In every history, an operation
  that succeeds replaces the very directory it read, and every record it leaves carries none
  of the permissions reserved for people, and either keeps the permissions its machine had,
  or is the record of the very machine the operation names (or enrols) with exactly the
  permissions the operation asks for; and then the actor of this operation is a valid
  principal, holds the enrolment permission, may delegate every one of these permissions and
  has a scope that contains the machine's. (A request's scope is a buffer of 37 bytes, its C
  type, and the generation counter is not at its last value.)
\<close>

theorem machine_permissions_contained:
  assumes "sound_directory d0" "directory_history nvs d0 (w # ds)" "d \<in> set (w # ds)"
    and "fst (sx_between env (d, s)) = w" "my_generation w + 1 \<noteq> 0" "run_admin up env op d s = (ESP_OK, d', s')"
    and "op_typed op"
  shows "d = w \<and> my_generation d' = my_generation w + 1
    \<and> (\<forall>r \<in> set (live (my_snapshot d')). mr_permissions r AND MACHINE_CEILING = 0
       \<and> (inherited (my_snapshot w) r
          \<or> (\<exists>actor. op_grant op = Some (actor, mr_permissions r)
               \<and> (\<forall>identifier. op_target op = Some identifier \<longrightarrow> cstr (mr_identifier r) = cstr identifier)
               \<and> argus_authorization_principal_valid (Some actor)
               \<and> argus_authorization_require (Some actor) PERMISSION_ENROLL_MACHINES = AUTHZ_ALLOW
               \<and> mr_permissions r AND NOT (pr_delegable_permissions actor) = 0
               \<and> argus_machine_service_scope_contains (pr_scope actor) (mr_scope r))))"
proof -
  note c = admin_replaces_current [OF assms(2,1,3,6,4)]
  note run = assms(6) [unfolded c(1)] assms(4) [unfolded c(1)]
  note after = sound_after [OF c(2) run assms(5)]
  have change: "admin_change op (my_snapshot w) (my_generation w) (my_snapshot d')" by (rule run_admin_success(3) [OF c(2) run])
  have "inherited (my_snapshot w) r \<or> granted op r" if "r \<in> set (live (my_snapshot d'))" for r
    using change that by (auto simp: admin_change_def inherited_def)
  moreover have "\<exists>actor. op_grant op = Some (actor, mr_permissions r)
      \<and> (\<forall>identifier. op_target op = Some identifier \<longrightarrow> cstr (mr_identifier r) = cstr identifier)
      \<and> argus_authorization_principal_valid (Some actor)
      \<and> argus_authorization_require (Some actor) PERMISSION_ENROLL_MACHINES = AUTHZ_ALLOW
      \<and> mr_permissions r AND NOT (pr_delegable_permissions actor) = 0
      \<and> argus_machine_service_scope_contains (pr_scope actor) (mr_scope r)" if "granted op r" for r
    using granted_by_actor [OF that assms(7)] by (auto simp: actor_can_manage_def)
  ultimately show ?thesis using c(1) after by (auto simp: sound_directory_def)
qed

theorem machine_permissions_contained_witness:
  "fst demo_granted = ESP_OK \<and> my_generation (fst (snd demo_granted)) = 2
   \<and> list_all (\<lambda>r. mr_permissions r AND MACHINE_CEILING = 0) (live (my_snapshot (fst (snd demo_granted))))"
proof -
  have run: "run_admin True demo_env demo_grant demo_directory demo_cells
      = (ESP_OK, fst (snd demo_granted), snd (snd demo_granted))"
    using demo_granted_ok prod.collapse [of demo_granted] prod.collapse [of "snd demo_granted"]
    unfolding demo_granted_def [symmetric] by simp
  have "op_typed demo_grant" "my_generation demo_directory = 1"
    by (simp_all add: demo_grant_def demo_directory_def)
  with machine_permissions_contained [OF demo_sound directory_history.start _ demo_step(2,4) run]
  show ?thesis by (simp add: list_all_iff demo_granted_ok)
qed

end
