(* ===== verification/Machine_Auth_Props.thy ===== *)
theory Machine_Auth_Props
  imports Machine_Auth
begin

text \<open>The budget of key derivations and the soundness of machine authentication.\<close>

section \<open>The budget of derivations\<close>

text \<open>
  A run of the budget: each call has its source, its time and the table of proven sources at
  that moment, which authentications change. The result lists the times of the admissions.
\<close>

type_synonym budget_call = "u32 \<times> u64 \<times> proven_source list"

fun budget_run :: "budget_call list \<Rightarrow> machine_auth \<Rightarrow> u64 list \<times> machine_auth" where
  "budget_run [] m = ([], m)"
| "budget_run ((peer, now, table) # calls) m =
     (case kdf_global_admit peer now (m\<lparr> ma_proven := table \<rparr>) of
        (refusal, m1) \<Rightarrow>
          (case budget_run calls m1 of (ts, m2) \<Rightarrow> (if refusal = None then now # ts else ts, m2)))"

abbreviation call_time :: "budget_call \<Rightarrow> u64" where
  "call_time c \<equiv> fst (snd c)"

definition window_open :: "machine_auth \<Rightarrow> u64 \<Rightarrow> bool" where
  "window_open m now \<longleftrightarrow> ma_kdf_global_window_us m \<noteq> 0 \<and> ma_kdf_global_window_us m \<le> now
     \<and> 1 \<le> unat (ma_kdf_global_spent m) \<and> unat (ma_kdf_global_spent m) \<le> 8"

lemma kdf_admit_fresh:
  assumes "ma_kdf_global_window_us m = 0 \<or> now - ma_kdf_global_window_us m \<ge> KDF_GLOBAL_WINDOW_US"
    and "kdf_global_admit peer now m = (r, m1)"
  shows "r = None \<and> ma_kdf_global_window_us m1 = now \<and> ma_kdf_global_spent m1 = 1"
  using assms by (auto simp: kdf_global_admit_def Let_def split: if_splits)

lemma kdf_admit_window:
  assumes "window_open m now" "kdf_global_admit peer now m = (r, m1)"
  shows "(unat now < unat (ma_kdf_global_window_us m) + 10000000 \<and> ma_kdf_global_window_us m1 = ma_kdf_global_window_us m
           \<and> (r = None \<and> unat (ma_kdf_global_spent m) < 8 \<and> unat (ma_kdf_global_spent m1) = Suc (unat (ma_kdf_global_spent m))
              \<or> r \<noteq> None \<and> ma_kdf_global_spent m1 = ma_kdf_global_spent m))
       \<or> (unat (ma_kdf_global_window_us m) + 10000000 \<le> unat now \<and> r = None
           \<and> ma_kdf_global_window_us m1 = now \<and> ma_kdf_global_spent m1 = 1)"
proof -
  let ?w = "ma_kdf_global_window_us m" and ?n = "ma_kdf_global_spent m"
  have w: "?w \<noteq> 0" "?w \<le> now" and n: "unat ?n \<le> 8" using assms(1) by (simp_all add: window_open_def)
  have d: "unat (now - ?w) = unat now - unat ?w" using w(2) by (simp add: unat_sub)
  show ?thesis
  proof (cases "now - ?w \<ge> KDF_GLOBAL_WINDOW_US")
    case True
    then have "10000000 \<le> unat now - unat ?w" using d by (simp add: word_le_nat_alt)
    then show ?thesis using kdf_admit_fresh [OF _ assms(2)] True by auto
  next
    case False
    then have "unat now - unat ?w < 10000000" using d by (simp add: word_le_nat_alt)
    then have in_window: "unat now < unat ?w + 10000000" by linarith
    show ?thesis
    proof (cases r)
      case None
      then have small: "unat ?n < 8" using assms(2) False w(1)
        by (auto simp: kdf_global_admit_def Let_def word_le_nat_alt split: if_splits)
      then have "unat (?n + 1) = Suc (unat ?n)" by (simp add: unat_add_no_wrap)
      then show ?thesis using assms(2) None False w(1) in_window small
        by (auto simp: kdf_global_admit_def Let_def split: if_splits)
    next
      case (Some x)
      then show ?thesis using assms(2) False w(1) in_window
        by (auto simp: kdf_global_admit_def Let_def split: if_splits)
    qed
  qed
qed

text \<open>Admissions in the half-open interval of one window length that starts at \<open>a\<close>.\<close>

definition admitted_in :: "nat \<Rightarrow> u64 list \<Rightarrow> nat" where
  "admitted_in a ts = length (filter (\<lambda>t. a \<le> unat t \<and> unat t < a + 10000000) ts)"

lemma admitted_in_simps [simp]:
  "admitted_in a [] = 0"
  "admitted_in a (t # ts) = (if a \<le> unat t \<and> unat t < a + 10000000 then 1 else 0) + admitted_in a ts"
  by (simp_all add: admitted_in_def)

abbreviation ordered_from :: "u64 \<Rightarrow> budget_call list \<Rightarrow> bool" where
  "ordered_from t calls \<equiv> sorted (t # map call_time calls)"

lemma budget_window_step:
  assumes "window_open m t" "ordered_from t (c # calls)" "kdf_global_admit (fst c) (call_time c) (m\<lparr> ma_proven := snd (snd c) \<rparr>) = (r, m1)"
  shows "window_open m1 (call_time c)" "ordered_from (call_time c) calls"
    and "window_open (m\<lparr> ma_proven := snd (snd c) \<rparr>) (call_time c)"
proof -
  have o: "t \<le> call_time c" "ordered_from (call_time c) calls" using assms(2) by auto
  show wo: "window_open (m\<lparr> ma_proven := snd (snd c) \<rparr>) (call_time c)"
    using assms(1) o(1) by (auto simp: window_open_def)
  show "ordered_from (call_time c) calls" by fact
  have nz: "call_time c \<noteq> 0" using wo by (auto simp: window_open_def)
  show "window_open m1 (call_time c)"
    using kdf_admit_window [OF wo assms(3)] wo nz by (auto simp: window_open_def)
qed

lemma budget_none_late:
  assumes "window_open m t" "ordered_from t calls" "\<forall>c \<in> set calls. a + 10000000 \<le> unat (call_time c)"
  shows "admitted_in a (fst (budget_run calls m)) = 0"
  using assms
proof (induction calls arbitrary: m t)
  case (Cons c calls)
  obtain r m1 where k: "kdf_global_admit (fst c) (call_time c) (m\<lparr> ma_proven := snd (snd c) \<rparr>) = (r, m1)" by fastforce
  note st = budget_window_step [OF Cons.prems(1,2) k]
  show ?case
    using Cons.IH [OF st(1,2)] Cons.prems(3) k by (cases c) (auto split: prod.splits)
qed simp

text \<open>The interval starts no later than the window: only this window counts.\<close>

lemma budget_same_window:
  assumes "window_open m t" "ordered_from t calls" "a \<le> unat (ma_kdf_global_window_us m)"
  shows "admitted_in a (fst (budget_run calls m)) \<le> 8 - unat (ma_kdf_global_spent m)"
  using assms
proof (induction calls arbitrary: m t)
  case (Cons c calls)
  obtain r m1 where k: "kdf_global_admit (fst c) (call_time c) (m\<lparr> ma_proven := snd (snd c) \<rparr>) = (r, m1)" by fastforce
  note st = budget_window_step [OF Cons.prems(1,2) k] and w = kdf_admit_window [OF budget_window_step(3) [OF Cons.prems(1,2) k] k, simplified]
  have run: "fst (budget_run (c # calls) m) = (if r = None then [call_time c] else []) @ fst (budget_run calls m1)"
    using k by (cases c) (auto split: prod.splits)
  show ?case
  proof (cases "unat (ma_kdf_global_window_us m) + 10000000 \<le> unat (call_time c)")
    case True
    then have late: "\<forall>c' \<in> set (c # calls). a + 10000000 \<le> unat (call_time c')"
      using Cons.prems(2,3) by (fastforce simp: word_le_nat_alt)
    show ?thesis using budget_none_late [OF Cons.prems(1,2) late] by simp
  next
    case False
    then have "a \<le> unat (ma_kdf_global_window_us m1)" using w Cons.prems(3) by auto
    from Cons.IH [OF st(1,2) this] show ?thesis using w False run by auto
  qed
qed simp

text \<open>The interval starts after the window, and every call lies in or after the interval.\<close>

lemma budget_next_window:
  assumes "window_open m t" "ordered_from t calls" "unat (ma_kdf_global_window_us m) < a"
    and "\<forall>c \<in> set calls. a \<le> unat (call_time c)"
  shows "admitted_in a (fst (budget_run calls m)) \<le> (8 - unat (ma_kdf_global_spent m)) + 8"
  using assms
proof (induction calls arbitrary: m t)
  case (Cons c calls)
  obtain r m1 where k: "kdf_global_admit (fst c) (call_time c) (m\<lparr> ma_proven := snd (snd c) \<rparr>) = (r, m1)" by fastforce
  note st = budget_window_step [OF Cons.prems(1,2) k] and w = kdf_admit_window [OF budget_window_step(3) [OF Cons.prems(1,2) k] k, simplified]
  have run: "fst (budget_run (c # calls) m) = (if r = None then [call_time c] else []) @ fst (budget_run calls m1)"
    using k by (cases c) (auto split: prod.splits)
  show ?case
  proof (cases "unat (ma_kdf_global_window_us m) + 10000000 \<le> unat (call_time c)")
    case True
    then have "a \<le> unat (ma_kdf_global_window_us m1)" "ma_kdf_global_spent m1 = 1" using w Cons.prems(4) by auto
    from budget_same_window [OF st(1,2) this(1)] this(2) show ?thesis using run by auto
  next
    case False
    then have "unat (ma_kdf_global_window_us m1) < a" using w Cons.prems(3) by auto
    from Cons.IH [OF st(1,2) this] Cons.prems(4) show ?thesis using w False run by auto
  qed
qed simp

lemma budget_any_window:
  assumes "window_open m t" "ordered_from t calls"
  shows "admitted_in a (fst (budget_run calls m)) \<le> 15"
  using assms
proof (induction calls arbitrary: m t)
  case (Cons c calls)
  obtain r m1 where k: "kdf_global_admit (fst c) (call_time c) (m\<lparr> ma_proven := snd (snd c) \<rparr>) = (r, m1)" by fastforce
  note st = budget_window_step [OF Cons.prems k]
  have n: "1 \<le> unat (ma_kdf_global_spent m)" using Cons.prems(1) by (simp add: window_open_def)
  consider "a \<le> unat (ma_kdf_global_window_us m)" | "unat (ma_kdf_global_window_us m) < a" "a \<le> unat (call_time c)"
    | "unat (call_time c) < a" by linarith
  then show ?case
  proof cases
    case 1
    from budget_same_window [OF Cons.prems this] show ?thesis by simp
  next
    case 2
    have "\<forall>c' \<in> set (c # calls). a \<le> unat (call_time c')"
      using Cons.prems(2) 2(2) by (fastforce simp: word_le_nat_alt)
    from budget_next_window [OF Cons.prems 2(1) this] show ?thesis using n by linarith
  next
    case 3
    then show ?thesis using Cons.IH [OF st(1,2)] k by (cases c) (auto split: prod.splits)
  qed
qed simp

lemma budget_first:
  assumes "ma_kdf_global_window_us m = 0" "call_time c \<noteq> 0" "sorted (map call_time (c # calls))"
  shows "admitted_in a (fst (budget_run (c # calls) m)) \<le> 15"
proof -
  obtain r m1 where k: "kdf_global_admit (fst c) (call_time c) (m\<lparr> ma_proven := snd (snd c) \<rparr>) = (r, m1)" by fastforce
  have f: "r = None" "ma_kdf_global_window_us m1 = call_time c" "ma_kdf_global_spent m1 = 1"
    using kdf_admit_fresh [OF _ k] assms(1) by auto
  have wo: "window_open m1 (call_time c)" using f assms(2) by (simp add: window_open_def)
  have o: "ordered_from (call_time c) calls" using assms(3) by simp
  have run: "fst (budget_run (c # calls) m) = call_time c # fst (budget_run calls m1)"
    using k f(1) by (cases c) (auto split: prod.splits)
  show ?thesis
  proof (cases "a \<le> unat (call_time c)")
    case True
    then show ?thesis using budget_same_window [OF wo o, of a] f(2,3) run by auto
  next
    case False
    then show ?thesis using budget_any_window [OF wo o, of a] run by simp
  qed
qed

text \<open>Sources that are not proven spend at most their share of a window.\<close>

lemma unproven_admit:
  assumes "\<not> source_is_proven_locked peer now m" "unat (ma_kdf_global_spent m) \<le> 5"
    and "kdf_global_admit peer now m = (r, m1)"
  shows "unat (ma_kdf_global_spent m1) \<le> 5"
proof -
  have p: "source_is_proven_locked peer now (m\<lparr> ma_kdf_global_window_us := a, ma_kdf_global_spent := b, ma_kdf_window_refusals := c \<rparr>)
      = source_is_proven_locked peer now m" for a b c
    by (simp add: source_is_proven_locked_def)
  have "unat (v + 1) \<le> 5" if "\<not> 5 \<le> v" for v :: u32
    using that unat_add_no_wrap [of v 1] by (simp add: word_le_nat_alt)
  then show ?thesis
    using assms p by (auto simp: kdf_global_admit_def Let_def split: if_splits)
qed

lemma unproven_run:
  assumes "unat (ma_kdf_global_spent m) \<le> 5"
    and "\<forall>(peer, now, table) \<in> set calls. \<not> source_is_proven_locked peer now (m\<lparr> ma_proven := table \<rparr>)"
  shows "unat (ma_kdf_global_spent (snd (budget_run calls m))) \<le> 5"
  using assms
proof (induction calls arbitrary: m)
  case (Cons c calls)
  obtain peer now table where c: "c = (peer, now, table)" by (metis prod_cases3)
  obtain r m1 where k: "kdf_global_admit peer now (m\<lparr> ma_proven := table \<rparr>) = (r, m1)" by fastforce
  have "unat (ma_kdf_global_spent m1) \<le> 5"
    using unproven_admit [OF _ _ k] Cons.prems c by simp
  moreover have "\<forall>(peer, now, table) \<in> set calls. \<not> source_is_proven_locked peer now (m1\<lparr> ma_proven := table \<rparr>)"
    using Cons.prems(2) by (auto simp: source_is_proven_locked_def)
  ultimately show ?case using Cons.IH [of m1] k c by (auto split: prod.splits)
qed simp

lemma proven_admitted:
  assumes "unat (ma_kdf_global_spent m) \<le> 5" "source_is_proven_locked peer now m"
  shows "fst (kdf_global_admit peer now m) = None"
proof -
  have p: "source_is_proven_locked peer now (m\<lparr> ma_kdf_global_window_us := a, ma_kdf_global_spent := b, ma_kdf_window_refusals := c \<rparr>)
      = source_is_proven_locked peer now m" for a b c
    by (simp add: source_is_proven_locked_def)
  have "\<not> 8 \<le> ma_kdf_global_spent m" using assms(1) by (simp add: word_le_nat_alt)
  then show ?thesis using assms(2) p by (simp add: kdf_global_admit_def Let_def)
qed

section \<open>Properties\<close>

text \<open>
  C23: Unauthenticated peers cannot buy unbounded key derivations. However many sources
  connect and however the table of proven sources changes meanwhile, in every interval of ten
  seconds at most 15 attempts get past the global budget (a window admits 8, and an interval
  can meet two windows, without the first admission of the earlier one). And a flood from
  sources that have not authenticated never uses up the whole budget: whatever such sources
  did, the next attempt of a proven source is admitted.
\<close>

theorem kdf_budget_bounded:
  assumes "ma_kdf_global_window_us m = 0" "unat (ma_kdf_global_spent m) \<le> 5"
    and "sorted (map call_time calls)" "\<forall>c \<in> set calls. call_time c \<noteq> 0"
  shows "length (filter (\<lambda>t. a \<le> unat t \<and> unat t < a + 10000000) (fst (budget_run calls m))) \<le> 15
    \<and> ((\<forall>(peer, now, table) \<in> set calls. \<not> source_is_proven_locked peer now (m\<lparr> ma_proven := table \<rparr>)) \<longrightarrow>
       (\<forall>peer now table. source_is_proven_locked peer now (m\<lparr> ma_proven := table \<rparr>) \<longrightarrow>
          fst (kdf_global_admit peer now ((snd (budget_run calls m))\<lparr> ma_proven := table \<rparr>)) = None))"
proof
  show "length (filter (\<lambda>t. a \<le> unat t \<and> unat t < a + 10000000) (fst (budget_run calls m))) \<le> 15"
    using budget_first [OF assms(1), of "hd calls" "tl calls" a] assms(3,4)
    by (cases calls) (simp_all add: admitted_in_def)
  show "(\<forall>(peer, now, table) \<in> set calls. \<not> source_is_proven_locked peer now (m\<lparr> ma_proven := table \<rparr>)) \<longrightarrow>
       (\<forall>peer now table. source_is_proven_locked peer now (m\<lparr> ma_proven := table \<rparr>) \<longrightarrow>
          fst (kdf_global_admit peer now ((snd (budget_run calls m))\<lparr> ma_proven := table \<rparr>)) = None)"
    using unproven_run [OF assms(2)] by (auto intro!: proven_admitted simp: source_is_proven_locked_def)
qed

text \<open>
  Two bursts around the end of a window: the eight attempts of the first window and the
  eight of the second are all admitted, fifteen of them within half a second.
\<close>

definition two_bursts :: "budget_call list" where
  "two_bursts =
     (let table = [\<lparr> ps_peer_key = 7, ps_last_success_us = 1, ps_in_use = True \<rparr>] in
      (7, 1, table) # replicate 7 (7, 9800000, table) @ replicate 8 (7, 10000001, table))"

theorem kdf_budget_bounded_witness:
  "length (filter (\<lambda>t. 9700000 \<le> unat t \<and> unat t < 9700000 + 10000000) (fst (budget_run two_bursts machine_auth_zero))) \<le> 15
   \<and> length (filter (\<lambda>t. 9700000 \<le> t) (fst (budget_run two_bursts machine_auth_zero))) = 15"
proof
  have "ma_kdf_global_window_us machine_auth_zero = 0" "unat (ma_kdf_global_spent machine_auth_zero) \<le> 5"
    by (simp_all add: machine_auth_zero_def)
  moreover have "sorted (map call_time two_bursts)" "\<forall>c \<in> set two_bursts. call_time c \<noteq> 0" by code_simp+
  ultimately show "length (filter (\<lambda>t. 9700000 \<le> unat t \<and> unat t < 9700000 + 10000000)
      (fst (budget_run two_bursts machine_auth_zero))) \<le> 15"
    using kdf_budget_bounded [of machine_auth_zero two_bursts 9700000] by blast
  show "length (filter (\<lambda>t. 9700000 \<le> t) (fst (budget_run two_bursts machine_auth_zero))) = 15" by code_simp
qed

end
