(* ===== verification/Mqtt_Contract.thy ===== *)
theory Mqtt_Contract
  imports Mqtt_Broker Identity
begin

text \<open>
  The wire contract of the controller's MQTT interface (\<open>argus_mqtt_contract.c\<close>), first part:
  the topic names below the root of the unit, the classification of a topic, and the strict
  decoders of heartbeats, commands and authority requests.

  A string is the list of its bytes before the terminator. A read position of a decoder is the
  rest of the payload. The leaf topics of the topic structure are addressed by the name of
  their field. Pointers are never null here.
\<close>

section \<open>Topics\<close>

datatype mqtt_action =
    ACTION_NONE
  | ACTION_SET_TARGET
  | ACTION_START
  | ACTION_STOP
  | ACTION_UNLOCK
  | ACTION_E_STOP
  | ACTION_RESET_E_STOP
  | ACTION_RECOVER
  | ACTION_HEARTBEAT
  | ACTION_REQUEST_AUTHORITY
  | ACTION_RELEASE_AUTHORITY

datatype topic_leaf =
    T_command_set_target
  | T_command_start
  | T_command_stop
  | T_command_unlock
  | T_command_e_stop
  | T_command_reset_e_stop
  | T_command_recover
  | T_heartbeat
  | T_command_request_authority
  | T_command_release_authority
  | T_event_authority_result
  | T_status_control_owner
  | T_status_authority_epoch
  | T_status_authority_profile
  | T_status_local_control
  | T_status_core_lease_status
  | T_status_authority_reason
  | T_metadata_device_name
  | T_metadata_model
  | T_metadata_firmware_version
  | T_metadata_hardware_uid
  | T_state_online
  | T_state_supervisor_link
  | T_state_mode
  | T_state_driver
  | T_state_direction
  | T_state_estop
  | T_state_fault
  | T_status_wifi
  | T_status_mqtt
  | T_status_network_mode
  | T_status_authority_mode
  | T_status_authority_owner
  | T_status_uptime_s
  | T_status_command_session
  | T_status_last_accepted_sequence
  | T_status_network_fault
  | T_status_network_fault_action
  | T_status_auth_throttle
  | T_telemetry_configured_target
  | T_telemetry_trajectory_target
  | T_telemetry_applied
  | T_telemetry_generated
  | T_telemetry_step_count
  | T_telemetry_feedback_available
  | T_command_result

primrec leaf_text :: "topic_leaf \<Rightarrow> string" where
  "leaf_text T_command_set_target = ''command/pump1/set_target_rpm_milli''"
| "leaf_text T_command_start = ''command/pump1/start''"
| "leaf_text T_command_stop = ''command/pump1/stop''"
| "leaf_text T_command_unlock = ''command/pump1/unlock''"
| "leaf_text T_command_e_stop = ''command/pump1/e_stop''"
| "leaf_text T_command_reset_e_stop = ''command/pump1/reset_e_stop''"
| "leaf_text T_command_recover = ''command/pump1/recover''"
| "leaf_text T_heartbeat = ''status/supervisor/heartbeat''"
| "leaf_text T_command_request_authority = ''command/core/request_authority''"
| "leaf_text T_command_release_authority = ''command/core/release_authority''"
| "leaf_text T_event_authority_result = ''event/core/authority_result''"
| "leaf_text T_status_control_owner = ''status/core/control_owner''"
| "leaf_text T_status_authority_epoch = ''status/core/authority_epoch''"
| "leaf_text T_status_authority_profile = ''status/core/authority_profile''"
| "leaf_text T_status_local_control = ''status/core/local_control_status''"
| "leaf_text T_status_core_lease_status = ''status/core/core_lease_status''"
| "leaf_text T_status_authority_reason = ''status/core/authority_reason''"
| "leaf_text T_metadata_device_name = ''metadata/core/device_name''"
| "leaf_text T_metadata_model = ''metadata/core/model''"
| "leaf_text T_metadata_firmware_version = ''metadata/core/firmware_version''"
| "leaf_text T_metadata_hardware_uid = ''metadata/core/hardware_uid''"
| "leaf_text T_state_online = ''state/core/online''"
| "leaf_text T_state_supervisor_link = ''state/supervisor/link''"
| "leaf_text T_state_mode = ''state/pump1/mode''"
| "leaf_text T_state_driver = ''state/pump1/driver''"
| "leaf_text T_state_direction = ''state/pump1/direction''"
| "leaf_text T_state_estop = ''state/pump1/estop''"
| "leaf_text T_state_fault = ''state/pump1/fault''"
| "leaf_text T_status_wifi = ''status/core/wifi''"
| "leaf_text T_status_mqtt = ''status/core/mqtt''"
| "leaf_text T_status_network_mode = ''status/core/network_mode''"
| "leaf_text T_status_authority_mode = ''status/core/authority_mode''"
| "leaf_text T_status_authority_owner = ''status/core/authority_owner''"
| "leaf_text T_status_uptime_s = ''status/core/uptime_s''"
| "leaf_text T_status_command_session = ''status/core/command_session''"
| "leaf_text T_status_last_accepted_sequence = ''status/core/last_accepted_sequence''"
| "leaf_text T_status_network_fault = ''status/core/network_fault''"
| "leaf_text T_status_network_fault_action = ''status/core/network_fault_action''"
| "leaf_text T_status_auth_throttle = ''status/core/auth_throttle''"
| "leaf_text T_telemetry_configured_target = ''telemetry/pump1/configured_target_rpm_milli''"
| "leaf_text T_telemetry_trajectory_target = ''telemetry/pump1/trajectory_target_rpm_milli''"
| "leaf_text T_telemetry_applied = ''telemetry/pump1/applied_rpm_milli''"
| "leaf_text T_telemetry_generated = ''telemetry/pump1/generated_rpm_milli''"
| "leaf_text T_telemetry_step_count = ''telemetry/pump1/generated_step_count''"
| "leaf_text T_telemetry_feedback_available = ''telemetry/pump1/feedback_available''"
| "leaf_text T_command_result = ''event/pump1/command_result''"

definition topic_leaves :: "topic_leaf list" where
  "topic_leaves =
     [T_command_set_target, T_command_start, T_command_stop, T_command_unlock, T_command_e_stop,
      T_command_reset_e_stop, T_command_recover, T_heartbeat, T_command_request_authority,
      T_command_release_authority, T_event_authority_result, T_status_control_owner, T_status_authority_epoch,
      T_status_authority_profile, T_status_local_control, T_status_core_lease_status,
      T_status_authority_reason, T_metadata_device_name, T_metadata_model, T_metadata_firmware_version,
      T_metadata_hardware_uid, T_state_online, T_state_supervisor_link, T_state_mode, T_state_driver,
      T_state_direction, T_state_estop, T_state_fault, T_status_wifi, T_status_mqtt, T_status_network_mode,
      T_status_authority_mode, T_status_authority_owner, T_status_uptime_s, T_status_command_session,
      T_status_last_accepted_sequence, T_status_network_fault, T_status_network_fault_action,
      T_status_auth_throttle, T_telemetry_configured_target, T_telemetry_trajectory_target,
      T_telemetry_applied, T_telemetry_generated, T_telemetry_step_count, T_telemetry_feedback_available,
      T_command_result]"

record mqtt_topics =
  tp_root :: "u8 list"
  tp_leaf :: "topic_leaf \<Rightarrow> u8 list"

definition make_topic :: "u8 list \<Rightarrow> string \<Rightarrow> u8 list option" where
  "make_topic root leaf =
     (let text = root @ [47] @ str_bytes leaf in if length text < TOPIC_CAP then Some text else None)"

definition argus_mqtt_topics_build :: "u8 list option \<Rightarrow> u8 list option \<Rightarrow> esp_err + mqtt_topics" where
  "argus_mqtt_topics_build client_id unit_id =
     (if \<not> argus_identity_validate_client_id client_id \<or> \<not> argus_identity_validate_unit_id unit_id
      then Inl ESP_ERR_INVALID_ARG
      else
        (let root = str_bytes ''argus/'' @ cstr (the client_id) @ [47] @ cstr (the unit_id) in
         if length root \<ge> 72 then Inl ESP_ERR_INVALID_SIZE
         else if list_ex (\<lambda>leaf. make_topic root (leaf_text leaf) = None) topic_leaves then Inl ESP_ERR_INVALID_SIZE
         else Inr \<lparr> tp_root = root, tp_leaf = (\<lambda>leaf. the (make_topic root (leaf_text leaf))) \<rparr>))"

text \<open>The comparisons of the classification, in their order.\<close>

definition action_topics :: "(topic_leaf \<times> mqtt_action) list" where
  "action_topics =
     [(T_command_set_target, ACTION_SET_TARGET), (T_command_start, ACTION_START), (T_command_stop, ACTION_STOP),
      (T_command_unlock, ACTION_UNLOCK), (T_command_e_stop, ACTION_E_STOP),
      (T_command_reset_e_stop, ACTION_RESET_E_STOP), (T_command_recover, ACTION_RECOVER),
      (T_heartbeat, ACTION_HEARTBEAT), (T_command_request_authority, ACTION_REQUEST_AUTHORITY),
      (T_command_release_authority, ACTION_RELEASE_AUTHORITY)]"

definition argus_mqtt_topics_classify :: "mqtt_topics \<Rightarrow> u8 list \<Rightarrow> mqtt_action" where
  "argus_mqtt_topics_classify topics topic =
     (case find (\<lambda>(leaf, action). topic = tp_leaf topics leaf) action_topics of
        None \<Rightarrow> ACTION_NONE
      | Some (leaf, action) \<Rightarrow> action)"

definition argus_mqtt_topics_external_publish_allowed :: "mqtt_topics \<Rightarrow> broker_message \<Rightarrow> bool" where
  "argus_mqtt_topics_external_publish_allowed topics message =
     (if bm_retain message \<or> length (bm_payload message) \<ge> PAYLOAD_CAP \<or> 0 \<in> set (bm_payload message) then False
      else argus_mqtt_topics_classify topics (bm_topic message) \<noteq> ACTION_NONE)"

primrec argus_mqtt_action_name :: "mqtt_action \<Rightarrow> string" where
  "argus_mqtt_action_name ACTION_NONE = ''unknown''"
| "argus_mqtt_action_name ACTION_SET_TARGET = ''set_target_rpm_milli''"
| "argus_mqtt_action_name ACTION_START = ''start''"
| "argus_mqtt_action_name ACTION_STOP = ''stop''"
| "argus_mqtt_action_name ACTION_UNLOCK = ''unlock''"
| "argus_mqtt_action_name ACTION_E_STOP = ''e_stop''"
| "argus_mqtt_action_name ACTION_RESET_E_STOP = ''reset_e_stop''"
| "argus_mqtt_action_name ACTION_RECOVER = ''recover''"
| "argus_mqtt_action_name ACTION_HEARTBEAT = ''heartbeat''"
| "argus_mqtt_action_name ACTION_REQUEST_AUTHORITY = ''request_authority''"
| "argus_mqtt_action_name ACTION_RELEASE_AUTHORITY = ''release_authority''"

section \<open>Tokens\<close>

definition is_ws :: "u8 \<Rightarrow> bool" where
  "is_ws c \<longleftrightarrow> c = 32 \<or> c = 9 \<or> c = 13 \<or> c = 10"

definition is_digit :: "u8 \<Rightarrow> bool" where
  "is_digit c \<longleftrightarrow> 48 \<le> c \<and> c \<le> 57"

definition skip_ws :: "u8 list \<Rightarrow> u8 list" where
  "skip_ws cursor = dropWhile is_ws cursor"

definition consume :: "u8 \<Rightarrow> u8 list \<Rightarrow> u8 list option" where
  "consume expected cursor =
     (case skip_ws cursor of [] \<Rightarrow> None | c # rest \<Rightarrow> if c \<noteq> expected then None else Some rest)"

text \<open>The loop over the bytes of a string; \<open>len\<close> is the number of bytes stored so far.\<close>

fun string_body :: "nat \<Rightarrow> nat \<Rightarrow> u8 list \<Rightarrow> (u8 list \<times> u8 list) option" where
  "string_body out_size len [] = None"
| "string_body out_size len (c # rest) =
     (if c = 34 then Some ([], rest)
      else if c < 0x20 \<or> c = 92 \<or> len + 1 \<ge> out_size then None
      else map_option (\<lambda>(s, r). (c # s, r)) (string_body out_size (len + 1) rest))"

definition parse_string :: "nat \<Rightarrow> u8 list \<Rightarrow> (u8 list \<times> u8 list) option" where
  "parse_string out_size cursor =
     (case skip_ws cursor of
        [] \<Rightarrow> None
      | c # rest \<Rightarrow> if c \<noteq> 34 \<or> out_size = 0 then None else string_body out_size 0 rest)"

text \<open>
  The loop over the digits. The value stays below \<open>2 ^ 32 * 10\<close>, so the 64-bit accumulator of
  the code does not wrap and a natural number is the same.
\<close>

fun u32_digits :: "nat \<Rightarrow> u8 list \<Rightarrow> (nat \<times> u8 list) option" where
  "u32_digits v [] = Some (v, [])"
| "u32_digits v (c # rest) =
     (if \<not> is_digit c then Some (v, c # rest)
      else if v * 10 + unat (c - 48) > 4294967295 then None
      else u32_digits (v * 10 + unat (c - 48)) rest)"

definition parse_u32 :: "u8 list \<Rightarrow> (u32 \<times> u8 list) option" where
  "parse_u32 cursor =
     (case skip_ws cursor of
        [] \<Rightarrow> None
      | c # tail \<Rightarrow>
          if \<not> is_digit c then None
          else (case u32_digits 0 (c # tail) of
                  None \<Rightarrow> None
                | Some (v, rest) \<Rightarrow>
                    if length (c # tail) - length rest > 1 \<and> c = 48 then None
                    else if rest \<noteq> [] \<and> (hd rest = 46 \<or> hd rest = 101 \<or> hd rest = 69) then None
                    else Some (of_nat v, rest)))"

definition parse_true :: "u8 list \<Rightarrow> u8 list option" where
  "parse_true cursor =
     (let c = skip_ws cursor in if take 4 c \<noteq> str_bytes ''true'' then None else Some (drop 4 c))"

definition valid_session :: "u8 list \<Rightarrow> bool" where
  "valid_session session \<longleftrightarrow> length session = 16 \<and> list_all (\<lambda>c. is_digit c \<or> (97 \<le> c \<and> c \<le> 102)) session"

definition valid_command_id :: "u8 list \<Rightarrow> bool" where
  "valid_command_id command_id \<longleftrightarrow> length command_id \<noteq> 0 \<and> length command_id \<le> 36
     \<and> list_all (\<lambda>c. b_isalnum c \<or> c = 45 \<or> c = 95 \<or> c = 46 \<or> c = 58) command_id"

definition valid_request_id :: "u8 list \<Rightarrow> bool" where
  "valid_request_id request_id \<longleftrightarrow> length request_id \<noteq> 0 \<and> length request_id \<le> 36
     \<and> list_all (\<lambda>c. b_isalnum c \<or> c = 46 \<or> c = 95 \<or> c = 45) request_id"

definition valid_intent :: "u8 list \<Rightarrow> bool" where
  "valid_intent intent \<longleftrightarrow> intent = str_bytes ''OPERATOR_INTENT'' \<or> intent = str_bytes ''SUPERVISORY_START''
     \<or> intent = str_bytes ''SERVICE'' \<or> intent = str_bytes ''FALLBACK''"

section \<open>The decoders\<close>

datatype decode_result =
    DECODE_OK
  | DECODE_INVALID_ARGUMENT
  | DECODE_MALFORMED
  | DECODE_UNKNOWN_FIELD
  | DECODE_DUPLICATE_FIELD
  | DECODE_MISSING_FIELD
  | DECODE_INVALID_VALUE
  | DECODE_TOO_LARGE
  | DECODE_SCHEMA_UNSUPPORTED
  | DECODE_INVALID_REQUEST_ID

definition validate_payload :: "u8 list \<Rightarrow> decode_result" where
  "validate_payload payload =
     (if length payload = 0 then DECODE_MALFORMED
      else if length payload \<ge> PAYLOAD_CAP then DECODE_TOO_LARGE
      else if 0 \<in> set payload then DECODE_MALFORMED
      else DECODE_OK)"

text \<open>
  The three decoders have the same loop over the members of an object and differ in the branch
  per key: which value is parsed, how it is checked, where it goes, its bit and the result for
  an invalid value.
\<close>

datatype value_kind = K_string nat | K_u32 | K_true

datatype json_value = V_string "u8 list" | V_u32 u32 | V_true

primrec parse_value :: "value_kind \<Rightarrow> u8 list \<Rightarrow> (json_value \<times> u8 list) option" where
  "parse_value (K_string out_size) cursor = map_option (\<lambda>(s, r). (V_string s, r)) (parse_string out_size cursor)"
| "parse_value K_u32 cursor = map_option (\<lambda>(v, r). (V_u32 v, r)) (parse_u32 cursor)"
| "parse_value K_true cursor = map_option (\<lambda>r. (V_true, r)) (parse_true cursor)"

record 'd field_spec =
  fs_bit :: u8
  fs_kind :: value_kind
  fs_check :: "json_value \<Rightarrow> bool"
  fs_store :: "json_value \<Rightarrow> 'd \<Rightarrow> 'd"
  fs_on_invalid :: decode_result

primrec the_string :: "json_value \<Rightarrow> u8 list" where
  "the_string (V_string s) = s"
| "the_string (V_u32 v) = []"
| "the_string V_true = []"

primrec the_u32 :: "json_value \<Rightarrow> u32" where
  "the_u32 (V_u32 v) = v"
| "the_u32 (V_string s) = 0"
| "the_u32 V_true = 0"

lemma skip_ws_length: "length (skip_ws cursor) \<le> length cursor"
  by (simp add: skip_ws_def length_dropWhile_le)

lemma string_body_length: "string_body n len cursor = Some (s, rest) \<Longrightarrow> length rest < length cursor"
  by (induction n len cursor arbitrary: s rule: string_body.induct) (auto split: if_splits)

lemma parse_string_length: "parse_string n cursor = Some (s, rest) \<Longrightarrow> length rest < length cursor"
  using skip_ws_length [of cursor] by (auto simp: parse_string_def split: list.splits if_splits dest!: string_body_length)

lemma consume_length: "consume c cursor = Some rest \<Longrightarrow> length rest < length cursor"
  using skip_ws_length [of cursor] by (auto simp: consume_def split: list.splits if_splits)

lemma u32_digits_length: "u32_digits v cursor = Some (w, rest) \<Longrightarrow> length rest \<le> length cursor"
  by (induction v cursor rule: u32_digits.induct) (auto split: if_splits)

lemma parse_u32_length: "parse_u32 cursor = Some (v, rest) \<Longrightarrow> length rest \<le> length cursor"
  using skip_ws_length [of cursor]
  by (auto simp: parse_u32_def split: list.splits if_splits option.splits dest!: u32_digits_length)

lemma parse_value_length: "parse_value k cursor = Some (v, rest) \<Longrightarrow> length rest \<le> length cursor"
  using skip_ws_length [of cursor]
  by (cases k) (auto simp: parse_true_def Let_def split: if_splits dest!: parse_string_length parse_u32_length)

text \<open>
  The loop. \<open>seen\<close> is the set of bits so far (\<open>fields\<close> in the code), \<open>after_comma\<close> says that a comma was just read;
  the result is the final set with the decoded structure and the rest after the brace.
\<close>

function decode_members ::
  "(u8 list \<Rightarrow> 'd field_spec option) \<Rightarrow> u8 \<Rightarrow> bool \<Rightarrow> 'd \<Rightarrow> u8 list \<Rightarrow> decode_result + u8 \<times> 'd \<times> u8 list" where
  "decode_members spec seen after_comma d cursor =
     (let c = skip_ws cursor in
      if c \<noteq> [] \<and> hd c = 125 then (if after_comma then Inl DECODE_MALFORMED else Inr (seen, d, tl c))
      else
        (case parse_string 24 c of
           None \<Rightarrow> Inl DECODE_MALFORMED
         | Some (key, c1) \<Rightarrow>
             (case consume 58 c1 of
                None \<Rightarrow> Inl DECODE_MALFORMED
              | Some c2 \<Rightarrow>
                  (case spec key of
                     None \<Rightarrow> Inl DECODE_UNKNOWN_FIELD
                   | Some f \<Rightarrow>
                       if seen AND fs_bit f \<noteq> 0 then Inl DECODE_DUPLICATE_FIELD
                       else (case parse_value (fs_kind f) c2 of
                               None \<Rightarrow> Inl (fs_on_invalid f)
                             | Some (v, c3) \<Rightarrow>
                                 if \<not> fs_check f v then Inl (fs_on_invalid f)
                                 else (let c4 = skip_ws c3 in
                                       if c4 \<noteq> [] \<and> hd c4 = 44
                                       then decode_members spec (seen OR fs_bit f) True (fs_store f v d) (tl c4)
                                       else if c4 \<noteq> [] \<and> hd c4 = 125
                                       then Inr (seen OR fs_bit f, fs_store f v d, tl c4)
                                       else Inl DECODE_MALFORMED))))))"
  by pat_completeness auto

termination decode_members
proof (relation "measure (\<lambda>(spec, seen, after_comma, d, cursor). length cursor)")
  fix spec :: "u8 list \<Rightarrow> 'd field_spec option" and seen after_comma and d :: 'd and f :: "'d field_spec" and cursor c x key c1 c2 y v c3 c4
  assume step: "c = skip_ws cursor" "parse_string 24 c = Some x" "(key, c1) = x" "consume 58 c1 = Some c2"
    "parse_value (fs_kind f) c2 = Some y" "(v, c3) = y" "c4 = skip_ws c3" "c4 \<noteq> [] \<and> hd c4 = 44"
  have "length (tl c4) < length cursor"
    using step skip_ws_length [of cursor] parse_string_length [of 24 c key c1] consume_length [of 58 c1 c2]
      parse_value_length [of "fs_kind f" c2 v c3] skip_ws_length [of c3] by simp
  then show "((spec, seen OR fs_bit f, True, fs_store f v d, tl c4), (spec, seen, after_comma, d, cursor))
      \<in> measure (\<lambda>(spec, seen, after_comma, d, cursor). length cursor)" by simp
qed simp

declare decode_members.simps [simp del]

text \<open>The whole object: the opening brace, the members, and nothing but white space after them.\<close>

definition decode_object :: "(u8 list \<Rightarrow> 'd field_spec option) \<Rightarrow> 'd \<Rightarrow> u8 list \<Rightarrow> decode_result + u8 \<times> 'd" where
  "decode_object spec zero payload =
     (if validate_payload payload \<noteq> DECODE_OK then Inl (validate_payload payload)
      else (case consume 123 payload of
              None \<Rightarrow> Inl DECODE_MALFORMED
            | Some cursor \<Rightarrow>
                (case decode_members spec 0 False zero cursor of
                   Inl e \<Rightarrow> Inl e
                 | Inr (seen, d, rest) \<Rightarrow> if skip_ws rest \<noteq> [] then Inl DECODE_MALFORMED else Inr (seen, d))))"

record mqtt_heartbeat =
  hb_session :: "u8 list"
  hb_counter :: u32

definition heartbeat_field :: "u8 list \<Rightarrow> mqtt_heartbeat field_spec option" where
  "heartbeat_field key =
     (if key = str_bytes ''session''
      then Some \<lparr> fs_bit = 1, fs_kind = K_string 17, fs_check = (\<lambda>v. valid_session (the_string v)),
             fs_store = (\<lambda>v d. d\<lparr> hb_session := the_string v \<rparr>), fs_on_invalid = DECODE_INVALID_VALUE \<rparr>
      else if key = str_bytes ''counter''
      then Some \<lparr> fs_bit = 2, fs_kind = K_u32, fs_check = (\<lambda>v. the_u32 v \<noteq> 0),
             fs_store = (\<lambda>v d. d\<lparr> hb_counter := the_u32 v \<rparr>), fs_on_invalid = DECODE_INVALID_VALUE \<rparr>
      else None)"

definition argus_mqtt_decode_heartbeat :: "u8 list \<Rightarrow> decode_result + mqtt_heartbeat" where
  "argus_mqtt_decode_heartbeat payload =
     (case decode_object heartbeat_field \<lparr> hb_session = [], hb_counter = 0 \<rparr> payload of
        Inl e \<Rightarrow> Inl e
      | Inr (seen, decoded) \<Rightarrow> if seen \<noteq> 3 then Inl DECODE_MISSING_FIELD else Inr decoded)"

record mqtt_command =
  mc_session :: "u8 list"
  mc_sequence :: u32
  mc_command_id :: "u8 list"
  mc_authority_epoch :: u32
  mc_action :: mqtt_action
  mc_target_rpm_milli :: int
  mc_forward :: bool

definition command_field :: "mqtt_action \<Rightarrow> int \<Rightarrow> u8 list \<Rightarrow> mqtt_command field_spec option" where
  "command_field action max_rpm_milli key =
     (if key = str_bytes ''session''
      then Some \<lparr> fs_bit = 1, fs_kind = K_string 17, fs_check = (\<lambda>v. valid_session (the_string v)),
             fs_store = (\<lambda>v d. d\<lparr> mc_session := the_string v \<rparr>), fs_on_invalid = DECODE_INVALID_VALUE \<rparr>
      else if key = str_bytes ''sequence''
      then Some \<lparr> fs_bit = 2, fs_kind = K_u32, fs_check = (\<lambda>v. the_u32 v \<noteq> 0),
             fs_store = (\<lambda>v d. d\<lparr> mc_sequence := the_u32 v \<rparr>), fs_on_invalid = DECODE_INVALID_VALUE \<rparr>
      else if key = str_bytes ''command_id''
      then Some \<lparr> fs_bit = 4, fs_kind = K_string 37, fs_check = (\<lambda>v. valid_command_id (the_string v)),
             fs_store = (\<lambda>v d. d\<lparr> mc_command_id := the_string v \<rparr>), fs_on_invalid = DECODE_INVALID_VALUE \<rparr>
      else if key = str_bytes ''value''
      then (if action = ACTION_SET_TARGET
            then Some \<lparr> fs_bit = 8, fs_kind = K_u32, fs_check = (\<lambda>v. uint (the_u32 v) \<le> max_rpm_milli),
                   fs_store = (\<lambda>v d. d\<lparr> mc_target_rpm_milli := sint (the_u32 v) \<rparr>), fs_on_invalid = DECODE_INVALID_VALUE \<rparr>
            else Some \<lparr> fs_bit = 8, fs_kind = K_true, fs_check = (\<lambda>v. True), fs_store = (\<lambda>v d. d),
                   fs_on_invalid = DECODE_INVALID_VALUE \<rparr>)
      else if key = str_bytes ''authority_epoch''
      then Some \<lparr> fs_bit = 16, fs_kind = K_u32, fs_check = (\<lambda>v. True),
             fs_store = (\<lambda>v d. d\<lparr> mc_authority_epoch := the_u32 v \<rparr>), fs_on_invalid = DECODE_INVALID_VALUE \<rparr>
      else None)"

definition command_zero :: "mqtt_action \<Rightarrow> mqtt_command" where
  "command_zero action = \<lparr> mc_session = [], mc_sequence = 0, mc_command_id = [], mc_authority_epoch = 0,
     mc_action = action, mc_target_rpm_milli = 0, mc_forward = True \<rparr>"

definition operational :: "mqtt_action \<Rightarrow> bool" where
  "operational action \<longleftrightarrow> action \<in> {ACTION_SET_TARGET, ACTION_START, ACTION_STOP, ACTION_UNLOCK, ACTION_E_STOP,
     ACTION_RESET_E_STOP, ACTION_RECOVER}"

definition argus_mqtt_decode_command :: "mqtt_action \<Rightarrow> int \<Rightarrow> u8 list \<Rightarrow> decode_result + mqtt_command" where
  "argus_mqtt_decode_command action max_rpm_milli payload =
     (if \<not> operational action \<or> max_rpm_milli < 0 then Inl DECODE_INVALID_ARGUMENT
      else (case decode_object (command_field action max_rpm_milli) (command_zero action) payload of
              Inl e \<Rightarrow> Inl e
            | Inr (seen, decoded) \<Rightarrow> if seen \<noteq> 31 then Inl DECODE_MISSING_FIELD else Inr decoded))"

record authority_request =
  aq_schema :: u32
  aq_request_id :: "u8 list"
  aq_session :: "u8 list"
  aq_authority_epoch :: u32
  aq_intent :: "u8 list"
  aq_has_intent :: bool

definition authority_field :: "u8 list \<Rightarrow> authority_request field_spec option" where
  "authority_field key =
     (if key = str_bytes ''schema''
      then Some \<lparr> fs_bit = 1, fs_kind = K_u32, fs_check = (\<lambda>v. the_u32 v = 1),
             fs_store = (\<lambda>v d. d\<lparr> aq_schema := the_u32 v \<rparr>), fs_on_invalid = DECODE_SCHEMA_UNSUPPORTED \<rparr>
      else if key = str_bytes ''request_id''
      then Some \<lparr> fs_bit = 2, fs_kind = K_string 37, fs_check = (\<lambda>v. valid_request_id (the_string v)),
             fs_store = (\<lambda>v d. d\<lparr> aq_request_id := the_string v \<rparr>), fs_on_invalid = DECODE_INVALID_REQUEST_ID \<rparr>
      else if key = str_bytes ''session''
      then Some \<lparr> fs_bit = 4, fs_kind = K_string 17, fs_check = (\<lambda>v. valid_session (the_string v)),
             fs_store = (\<lambda>v d. d\<lparr> aq_session := the_string v \<rparr>), fs_on_invalid = DECODE_INVALID_VALUE \<rparr>
      else if key = str_bytes ''authority_epoch''
      then Some \<lparr> fs_bit = 8, fs_kind = K_u32, fs_check = (\<lambda>v. True),
             fs_store = (\<lambda>v d. d\<lparr> aq_authority_epoch := the_u32 v \<rparr>), fs_on_invalid = DECODE_INVALID_VALUE \<rparr>
      else if key = str_bytes ''intent''
      then Some \<lparr> fs_bit = 16, fs_kind = K_string 25, fs_check = (\<lambda>v. valid_intent (the_string v)),
             fs_store = (\<lambda>v d. d\<lparr> aq_intent := the_string v, aq_has_intent := True \<rparr>),
             fs_on_invalid = DECODE_INVALID_VALUE \<rparr>
      else None)"

definition authority_request_zero :: authority_request where
  "authority_request_zero = \<lparr> aq_schema = 0, aq_request_id = [], aq_session = [], aq_authority_epoch = 0, aq_intent = [],
     aq_has_intent = False \<rparr>"

definition argus_mqtt_decode_authority_request :: "bool \<Rightarrow> u8 list \<Rightarrow> decode_result + authority_request" where
  "argus_mqtt_decode_authority_request is_release payload =
     (if length payload > 384 then Inl DECODE_TOO_LARGE
      else (case decode_object authority_field authority_request_zero payload of
              Inl e \<Rightarrow> Inl e
            | Inr (seen, decoded) \<Rightarrow>
                if seen AND 15 \<noteq> 15 then Inl DECODE_MISSING_FIELD
                else if is_release \<and> aq_authority_epoch decoded = 0 then Inl DECODE_INVALID_VALUE
                else Inr decoded))"

end
