(* ===== verification/Mqtt_Lease.thy ===== *)
theory Mqtt_Lease
  imports Mqtt_Contract Nvs_Config
begin

text \<open>
  The wire contract (\<open>argus_mqtt_contract.c\<close>), second part: the session core, that is the lease
  on the command authority with its epoch, the heartbeat guard, and the sequence numbers of
  the commands. All functions are pure; the runtime calls them under its mutex.

  An empty identifier and a null pointer behave alike in the code and are the empty list here.
  Times are milliseconds of the 64-bit clock and differences wrap as in the code.
\<close>

section \<open>State\<close>

datatype link_state = LINK_OFFLINE | LINK_ONLINE | LINK_STALE

datatype authority_result =
    AUTHORITY_GRANTED
  | AUTHORITY_ALREADY_HELD
  | AUTHORITY_DENIED_HELD
  | AUTHORITY_DENIED_PROFILE
  | AUTHORITY_DENIED_INVALID
  | AUTHORITY_TRANSFER_UNSUPPORTED_RUNNING
  | AUTHORITY_TRANSFER_EPOCH_REQUIRED
  | AUTHORITY_DENIED_WINDOW_OPEN

datatype sequence_result = SEQUENCE_FIRST | SEQUENCE_NEWER | SEQUENCE_DUPLICATE | SEQUENCE_CONFLICT | SEQUENCE_STALE

record session_core =
  lc_session :: "u8 list"
  lc_link :: link_state
  lc_lease_machine_id :: "u8 list"
  lc_lease_client_type :: u8
  lc_lease_connection_id :: u64
  lc_authority_epoch :: u32
  lc_heartbeat_connection_id :: u64
  lc_heartbeat_counter :: u32
  lc_last_heartbeat_ms :: u64
  lc_has_sequence :: bool
  lc_last_sequence :: u32
  lc_cached_action :: mqtt_action
  lc_cached_command_id :: "u8 list"
  lc_cached_payload :: "u8 list"
  lc_cached_result :: "u8 list"

abbreviation (input) HEARTBEAT_TIMEOUT_MS :: u64 where "HEARTBEAT_TIMEOUT_MS \<equiv> 6000"
abbreviation (input) CLIENT_HMI :: u8 where "CLIENT_HMI \<equiv> 1"
abbreviation (input) CLIENT_SERVICE_TOOL :: u8 where "CLIENT_SERVICE_TOOL \<equiv> 3"
abbreviation (input) CLIENT_ARGUS_COMMAND :: u8 where "CLIENT_ARGUS_COMMAND \<equiv> 5"
abbreviation (input) PROFILE_ARGUSCORE_PREFERRED :: u8 where "PROFILE_ARGUSCORE_PREFERRED \<equiv> 1"

primrec argus_mqtt_link_name :: "link_state \<Rightarrow> string" where
  "argus_mqtt_link_name LINK_ONLINE = ''ONLINE''"
| "argus_mqtt_link_name LINK_STALE = ''STALE''"
| "argus_mqtt_link_name LINK_OFFLINE = ''OFFLINE''"

definition argus_mqtt_session_core_init :: "u8 list \<Rightarrow> session_core" where
  "argus_mqtt_session_core_init session =
     \<lparr> lc_session = c_strlcpy 17 session, lc_link = LINK_OFFLINE, lc_lease_machine_id = [], lc_lease_client_type = 0,
       lc_lease_connection_id = 0, lc_authority_epoch = 0, lc_heartbeat_connection_id = 0, lc_heartbeat_counter = 0,
       lc_last_heartbeat_ms = 0, lc_has_sequence = False, lc_last_sequence = 0, lc_cached_action = ACTION_NONE,
       lc_cached_command_id = [], lc_cached_payload = [], lc_cached_result = [] \<rparr>"

text \<open>The eight lower-case digits of \<open>%08lx\<close>.\<close>

definition hex_digit :: "u32 \<Rightarrow> nat \<Rightarrow> u8" where
  "hex_digit v k = (let n = drop_bit (4 * k) v AND 0xf in if n < 10 then 48 + ucast n else 87 + ucast n)"

definition hex8 :: "u32 \<Rightarrow> u8 list" where
  "hex8 v = map (hex_digit v) [7, 6, 5, 4, 3, 2, 1, 0]"

definition argus_mqtt_session_format :: "u32 \<Rightarrow> u32 \<Rightarrow> nat \<Rightarrow> esp_err + u8 list" where
  "argus_mqtt_session_format high low out_size =
     (if out_size < 17 \<or> (high = 0 \<and> low = 0) then Inl ESP_ERR_INVALID_ARG
      else if length (hex8 high @ hex8 low) = 16 then Inr (hex8 high @ hex8 low) else Inl ESP_ERR_INVALID_SIZE)"

definition argus_mqtt_session_is_newer :: "u32 \<Rightarrow> u32 \<Rightarrow> bool" where
  "argus_mqtt_session_is_newer candidate reference =
     (let delta = candidate - reference in delta \<noteq> 0 \<and> delta < 0x80000000)"

section \<open>The lease\<close>

definition lease_held_by :: "session_core \<Rightarrow> u8 list \<Rightarrow> bool" where
  "lease_held_by core machine_id \<longleftrightarrow> machine_id \<noteq> [] \<and> lc_lease_machine_id core \<noteq> [] \<and> lc_lease_machine_id core = machine_id"

definition lease_record_holder :: "u8 list \<Rightarrow> u8 \<Rightarrow> session_core \<Rightarrow> session_core" where
  "lease_record_holder machine_id client_type core =
     (if machine_id \<noteq> []
      then core\<lparr> lc_lease_machine_id := c_strlcpy 37 machine_id, lc_lease_client_type := client_type \<rparr>
      else core\<lparr> lc_lease_machine_id := [], lc_lease_client_type := 0 \<rparr>)"

definition profile_permits :: "u8 \<Rightarrow> u8 \<Rightarrow> bool \<Rightarrow> bool" where
  "profile_permits authority_profile client_type core_window_open =
     (if authority_profile = PROFILE_STANDALONE_HMI
      then client_type = CLIENT_HMI \<or> client_type = CLIENT_SERVICE_TOOL
      else if client_type = CLIENT_ARGUS_COMMAND then True
      else if client_type = CLIENT_HMI \<or> client_type = CLIENT_SERVICE_TOOL then \<not> core_window_open
      else False)"

definition may_preempt :: "u8 \<Rightarrow> u8 \<Rightarrow> bool" where
  "may_preempt requester_type holder_type \<longleftrightarrow>
     requester_type = CLIENT_ARGUS_COMMAND \<and> (holder_type = CLIENT_HMI \<or> holder_type = CLIENT_SERVICE_TOOL)"

definition advance_epoch :: "session_core \<Rightarrow> session_core" where
  "advance_epoch core =
     core\<lparr> lc_authority_epoch := (if lc_authority_epoch core + 1 = 0 then 1 else lc_authority_epoch core + 1) \<rparr>"

definition lease_expired :: "u64 \<Rightarrow> session_core \<Rightarrow> bool" where
  "lease_expired now_ms core \<longleftrightarrow> now_ms - lc_last_heartbeat_ms core \<ge> HEARTBEAT_TIMEOUT_MS"

definition argus_mqtt_session_request_authority ::
  "u64 \<Rightarrow> u8 list \<Rightarrow> u8 \<Rightarrow> u8 \<Rightarrow> bool \<Rightarrow> u64 \<Rightarrow> session_core \<Rightarrow> authority_result \<times> session_core" where
  "argus_mqtt_session_request_authority connection_id machine_id client_type authority_profile core_window_open now_ms core =
     (if connection_id = 0 \<or> machine_id = [] \<or> authority_profile > PROFILE_MAX then (AUTHORITY_DENIED_INVALID, core)
      else if \<not> profile_permits authority_profile client_type core_window_open
      then (if core_window_open \<and> authority_profile = PROFILE_ARGUSCORE_PREFERRED
               \<and> (client_type = CLIENT_HMI \<or> client_type = CLIENT_SERVICE_TOOL)
            then AUTHORITY_DENIED_WINDOW_OPEN else AUTHORITY_DENIED_PROFILE, core)
      else
        (let held = (lc_lease_machine_id core \<noteq> [] \<and> \<not> lease_expired now_ms core) in
         if held \<and> lc_lease_machine_id core = machine_id
         then (AUTHORITY_ALREADY_HELD,
               (let core1 = core\<lparr> lc_lease_connection_id := connection_id \<rparr>;
                    core2 = (if lc_heartbeat_connection_id core1 \<noteq> connection_id
                             then core1\<lparr> lc_heartbeat_connection_id := connection_id, lc_heartbeat_counter := 0 \<rparr>
                             else core1)
                in core2\<lparr> lc_last_heartbeat_ms := now_ms, lc_link := LINK_ONLINE \<rparr>))
         else if held \<and> \<not> may_preempt client_type (lc_lease_client_type core) then (AUTHORITY_DENIED_HELD, core)
         else (AUTHORITY_GRANTED,
               advance_epoch ((lease_record_holder machine_id client_type core)
                 \<lparr> lc_lease_connection_id := connection_id, lc_heartbeat_connection_id := connection_id,
                   lc_heartbeat_counter := 0, lc_last_heartbeat_ms := now_ms, lc_link := LINK_ONLINE \<rparr>))))"

definition argus_mqtt_session_request_authority_with_state ::
  "u64 \<Rightarrow> u8 list \<Rightarrow> u8 \<Rightarrow> u8 \<Rightarrow> bool \<Rightarrow> bool \<Rightarrow> u32 \<Rightarrow> u64 \<Rightarrow> session_core \<Rightarrow> authority_result \<times> session_core" where
  "argus_mqtt_session_request_authority_with_state connection_id machine_id client_type authority_profile
       core_window_open machine_running supplied_epoch now_ms core =
     (let held_by_other = (lc_lease_machine_id core \<noteq> [] \<and> \<not> lease_expired now_ms core
            \<and> \<not> lease_held_by core machine_id);
          profile_would_permit = profile_permits authority_profile client_type core_window_open;
          would_transfer = (profile_would_permit \<and> held_by_other
            \<and> may_preempt client_type (lc_lease_client_type core))
      in if would_transfer \<and> supplied_epoch = 0 then (AUTHORITY_TRANSFER_EPOCH_REQUIRED, core)
         else if would_transfer \<and> machine_running then (AUTHORITY_TRANSFER_UNSUPPORTED_RUNNING, core)
         else argus_mqtt_session_request_authority connection_id machine_id client_type authority_profile
                core_window_open now_ms core)"

definition argus_mqtt_session_release_authority :: "u8 list \<Rightarrow> session_core \<Rightarrow> bool \<times> session_core" where
  "argus_mqtt_session_release_authority machine_id core =
     (if \<not> lease_held_by core machine_id then (False, core)
      else (True, advance_epoch ((lease_record_holder [] 0 core)
              \<lparr> lc_lease_connection_id := 0, lc_heartbeat_connection_id := 0, lc_heartbeat_counter := 0,
                lc_link := LINK_OFFLINE \<rparr>)))"

definition argus_mqtt_session_accept_heartbeat ::
  "u64 \<Rightarrow> u8 list \<Rightarrow> u8 \<Rightarrow> mqtt_heartbeat \<Rightarrow> u64 \<Rightarrow> session_core \<Rightarrow> esp_err \<times> session_core" where
  "argus_mqtt_session_accept_heartbeat connection_id machine_id client_type heartbeat now_ms core =
     (if connection_id = 0 \<or> lc_session core \<noteq> hb_session heartbeat then (ESP_ERR_INVALID_ARG, core)
      else if lc_lease_connection_id core \<noteq> 0 \<and> lc_lease_connection_id core \<noteq> connection_id
              \<and> lc_link core = LINK_ONLINE \<and> \<not> lease_held_by core machine_id
      then (ESP_ERR_INVALID_STATE, core)
      else if lc_heartbeat_connection_id core = connection_id \<and> lc_heartbeat_counter core \<noteq> 0
              \<and> \<not> argus_mqtt_session_is_newer (hb_counter heartbeat) (lc_heartbeat_counter core)
      then (ESP_ERR_INVALID_STATE, core)
      else (ESP_OK, (lease_record_holder machine_id client_type core)
              \<lparr> lc_lease_connection_id := connection_id, lc_heartbeat_connection_id := connection_id,
                lc_heartbeat_counter := hb_counter heartbeat, lc_last_heartbeat_ms := now_ms, lc_link := LINK_ONLINE \<rparr>))"

definition argus_mqtt_session_tick :: "u64 \<Rightarrow> session_core \<Rightarrow> bool \<times> session_core" where
  "argus_mqtt_session_tick now_ms core =
     (let lease_exists = (lc_lease_machine_id core \<noteq> [] \<or> lc_link core = LINK_ONLINE) in
      if \<not> lease_exists \<or> now_ms - lc_last_heartbeat_ms core < HEARTBEAT_TIMEOUT_MS then (False, core)
      else (True, advance_epoch (lease_record_holder [] 0
              (core\<lparr> lc_link := LINK_STALE, lc_lease_connection_id := 0 \<rparr>))))"

definition argus_mqtt_session_disconnect :: "u64 \<Rightarrow> session_core \<Rightarrow> bool \<times> session_core" where
  "argus_mqtt_session_disconnect connection_id core =
     (if connection_id = 0
         \<or> (lc_lease_connection_id core \<noteq> connection_id \<and> lc_heartbeat_connection_id core \<noteq> connection_id)
      then (False, core)
      else (True, core\<lparr> lc_lease_connection_id := 0, lc_heartbeat_connection_id := 0, lc_heartbeat_counter := 0,
              lc_link := LINK_OFFLINE \<rparr>))"

section \<open>Sequence numbers\<close>

definition argus_mqtt_session_check_sequence :: "session_core \<Rightarrow> mqtt_command \<Rightarrow> u8 list \<Rightarrow> sequence_result" where
  "argus_mqtt_session_check_sequence core command payload =
     (if \<not> lc_has_sequence core then SEQUENCE_FIRST
      else if mc_sequence command = lc_last_sequence core
      then (if mc_action command = lc_cached_action core \<and> mc_command_id command = lc_cached_command_id core
               \<and> payload = lc_cached_payload core
            then SEQUENCE_DUPLICATE else SEQUENCE_CONFLICT)
      else if argus_mqtt_session_is_newer (mc_sequence command) (lc_last_sequence core)
      then SEQUENCE_NEWER else SEQUENCE_STALE)"

definition argus_mqtt_session_commit_result :: "mqtt_command \<Rightarrow> u8 list \<Rightarrow> u8 list \<Rightarrow> session_core \<Rightarrow> session_core" where
  "argus_mqtt_session_commit_result command payload result_json core =
     core\<lparr> lc_has_sequence := True, lc_last_sequence := mc_sequence command, lc_cached_action := mc_action command,
            lc_cached_command_id := c_strlcpy 37 (mc_command_id command),
            lc_cached_payload := c_strlcpy PAYLOAD_CAP payload, lc_cached_result := c_strlcpy PAYLOAD_CAP result_json \<rparr>"

end
