(* ===== verification/Mqtt_Authority.thy ===== *)
theory Mqtt_Authority
  imports Mqtt_Lease Machine_Auth
begin

text \<open>
  Admission of commands and of authority requests (\<open>argus_mqtt_runtime.c\<close>), and the topic
  permissions of machines (\<open>argus_mqtt_security.c\<close>).

  The functions here are the pure part of the runtime: the caller holds the runtime's mutex
  and passes the session core and the duplicate cache. SHA-256 is an argument that may fail.
  Texts of the fixed vocabulary are strings; a text on the wire is the list of its bytes.
\<close>

section \<open>Topic permissions\<close>

definition approved_read_filter :: "mqtt_topics \<Rightarrow> u8 list \<Rightarrow> bool" where
  "approved_read_filter topics topic_filter =
     (let n = length (tp_root topics) in
      if take n topic_filter \<noteq> tp_root topics \<or> drop n topic_filter = [] \<or> topic_filter ! n \<noteq> 47 then False
      else
        (let leaf = drop (n + 1) topic_filter in
         case find (\<lambda>c. take (length c) leaf = c \<and> drop (length c) leaf \<noteq> [] \<and> leaf ! length c = 47)
                (map str_bytes [''metadata'', ''state'', ''status'', ''telemetry'', ''event'']) of
           None \<Rightarrow> False
         | Some c \<Rightarrow>
             (let remainder = drop (length c + 1) leaf in
              if remainder = [35] then True else 35 \<notin> set remainder \<and> 43 \<notin> set remainder \<and> remainder \<noteq> [])))"

definition argus_mqtt_security_subscription_allowed :: "mqtt_topics \<Rightarrow> machine_principal \<Rightarrow> u8 list \<Rightarrow> bool" where
  "argus_mqtt_security_subscription_allowed topics who topic_filter \<longleftrightarrow>
     mp_permissions who AND PERMISSION_VIEW_STATUS \<noteq> 0 \<and> approved_read_filter topics topic_filter
     \<and> argus_machine_service_topic_scope_contains (mp_topic_scope who) topic_filter"

primrec action_permission :: "mqtt_action \<Rightarrow> permission_set" where
  "action_permission ACTION_HEARTBEAT = PERMISSION_REQUEST_AUTHORITY"
| "action_permission ACTION_REQUEST_AUTHORITY = PERMISSION_REQUEST_AUTHORITY"
| "action_permission ACTION_RELEASE_AUTHORITY = PERMISSION_REQUEST_AUTHORITY"
| "action_permission ACTION_E_STOP = PERMISSION_SOFTWARE_ESTOP"
| "action_permission ACTION_RESET_E_STOP = PERMISSION_RESET_SOFTWARE_ESTOP"
| "action_permission ACTION_SET_TARGET = PERMISSION_MOTION"
| "action_permission ACTION_START = PERMISSION_MOTION"
| "action_permission ACTION_STOP = PERMISSION_MOTION"
| "action_permission ACTION_UNLOCK = PERMISSION_MOTION"
| "action_permission ACTION_RECOVER = PERMISSION_MOTION"
| "action_permission ACTION_NONE = 0"

definition argus_mqtt_security_required_permission :: "mqtt_topics \<Rightarrow> u8 list \<Rightarrow> permission_set" where
  "argus_mqtt_security_required_permission topics topic = action_permission (argus_mqtt_topics_classify topics topic)"

definition argus_mqtt_security_publish_allowed :: "mqtt_topics \<Rightarrow> machine_principal \<Rightarrow> u8 list \<Rightarrow> bool" where
  "argus_mqtt_security_publish_allowed topics who topic =
     (if \<not> argus_machine_service_topic_scope_contains (mp_topic_scope who) topic then False
      else (let required = argus_mqtt_security_required_permission topics topic
            in required \<noteq> 0 \<and> mp_permissions who AND required = required))"

section \<open>Commands\<close>

datatype command_admission = ADMIT_OK | ADMIT_SESSION_MISMATCH | ADMIT_NOT_HOLDER | ADMIT_STALE_EPOCH

definition argus_mqtt_command_admission_check ::
  "session_core \<Rightarrow> u8 list \<Rightarrow> u64 \<Rightarrow> mqtt_command \<Rightarrow> command_admission" where
  "argus_mqtt_command_admission_check core principal_identifier connection_id command =
     (if mc_session command \<noteq> lc_session core then ADMIT_SESSION_MISMATCH
      else if lc_link core \<noteq> LINK_ONLINE \<or> lc_lease_machine_id core = []
              \<or> lc_lease_machine_id core \<noteq> principal_identifier \<or> lc_lease_connection_id core \<noteq> connection_id
      then ADMIT_NOT_HOLDER
      else if mc_authority_epoch command \<noteq> lc_authority_epoch core then ADMIT_STALE_EPOCH
      else ADMIT_OK)"

section \<open>Result documents\<close>

fun dec_nat :: "nat \<Rightarrow> u8 list" where
  "dec_nat n = (if n < 10 then [48 + of_nat n] else dec_nat (n div 10) @ [48 + of_nat (n mod 10)])"

declare dec_nat.simps [simp del]

abbreviation tx :: "string \<Rightarrow> u8 list" where "tx \<equiv> str_bytes"

primrec decode_reason :: "decode_result \<Rightarrow> string" where
  "decode_reason DECODE_UNKNOWN_FIELD = ''unknown_field''"
| "decode_reason DECODE_DUPLICATE_FIELD = ''duplicate_field''"
| "decode_reason DECODE_MISSING_FIELD = ''missing_field''"
| "decode_reason DECODE_INVALID_VALUE = ''invalid_value''"
| "decode_reason DECODE_TOO_LARGE = ''payload_too_large''"
| "decode_reason DECODE_SCHEMA_UNSUPPORTED = ''schema_unsupported''"
| "decode_reason DECODE_INVALID_REQUEST_ID = ''invalid_request_id''"
| "decode_reason DECODE_OK = ''malformed_json''"
| "decode_reason DECODE_INVALID_ARGUMENT = ''malformed_json''"
| "decode_reason DECODE_MALFORMED = ''malformed_json''"

primrec authority_result_reason :: "authority_result \<Rightarrow> string" where
  "authority_result_reason AUTHORITY_GRANTED = ''granted''"
| "authority_result_reason AUTHORITY_ALREADY_HELD = ''already_held''"
| "authority_result_reason AUTHORITY_DENIED_HELD = ''denied_held_by_other''"
| "authority_result_reason AUTHORITY_DENIED_PROFILE = ''denied_by_profile''"
| "authority_result_reason AUTHORITY_TRANSFER_UNSUPPORTED_RUNNING = ''transfer_unsupported_running''"
| "authority_result_reason AUTHORITY_DENIED_WINDOW_OPEN = ''denied_window_open''"
| "authority_result_reason AUTHORITY_TRANSFER_EPOCH_REQUIRED = ''stale_epoch''"
| "authority_result_reason AUTHORITY_DENIED_INVALID = ''denied_invalid''"

text \<open>The status of the lease and of the local controls.\<close>

definition authority_status_from_core :: "session_core \<Rightarrow> u8 \<Rightarrow> bool \<Rightarrow> u64 \<Rightarrow> string \<times> string" where
  "authority_status_from_core core authority_profile core_window_open now_ms =
     (let owned = (lc_lease_machine_id core \<noteq> []);
          lease_status =
            (if \<not> owned then (if lc_link core = LINK_STALE then ''EXPIRED'' else ''NONE'')
             else if lc_link core \<noteq> LINK_ONLINE then ''EXPIRING''
             else if (now_ms - lc_last_heartbeat_ms core) * 2 \<ge> HEARTBEAT_TIMEOUT_MS then ''EXPIRING'' else ''ACTIVE'');
          local_status =
            (if owned \<and> lc_lease_client_type core = CLIENT_HMI then ''ACTIVE''
             else if owned then ''UNAVAILABLE''
             else if authority_profile = PROFILE_ARGUSCORE_PREFERRED \<and> core_window_open then ''WAITING''
             else ''AVAILABLE'')
      in (lease_status, local_status))"

definition owner_kind :: "session_core \<Rightarrow> string" where
  "owner_kind core =
     (if lc_lease_machine_id core = [] then ''NONE''
      else if lc_lease_client_type core = CLIENT_HMI then ''LOCAL_HMI''
      else if lc_lease_client_type core = CLIENT_ARGUS_COMMAND then ''ARGUSCORE''
      else if lc_lease_client_type core = CLIENT_SERVICE_TOOL then ''SERVICE_TOOL''
      else ''OTHER'')"

definition bounded_document :: "u8 list \<Rightarrow> u8 list" where
  "bounded_document text =
     (if length text \<ge> PAYLOAD_CAP then tx ''{\"outcome\":\"REJECTED\",\"reason\":\"result_overflow\"}'' else text)"

definition compose_authority_result_json ::
  "u8 list \<Rightarrow> u8 list \<Rightarrow> string \<Rightarrow> string \<Rightarrow> string \<Rightarrow> u32 \<Rightarrow> string \<Rightarrow> string \<Rightarrow> u8 list" where
  "compose_authority_result_json request_id session outcome reason owner epoch lease_status local_status =
     bounded_document
       (tx ''{\"schema\":1,\"request_id\":\"'' @ request_id @ tx ''\",\"session\":\"'' @ session
        @ tx ''\",\"outcome\":\"'' @ tx outcome @ tx ''\",\"reason\":\"'' @ tx reason
        @ tx ''\",\"control_owner\":\"'' @ tx owner @ tx ''\",\"authority_epoch\":'' @ dec_nat (unat epoch)
        @ tx '',\"core_lease_status\":\"'' @ tx lease_status @ tx ''\",\"local_control_status\":\"''
        @ tx local_status @ tx ''\"}'')"

section \<open>The duplicate cache\<close>

abbreviation (input) DUP_CACHE_SIZE :: nat where "DUP_CACHE_SIZE \<equiv> 16"

record auth_dup_entry =
  de_in_use :: bool
  de_ordinal :: u32
  de_session :: "u8 list"
  de_request_id :: "u8 list"
  de_release :: bool
  de_payload_hash :: "u8 list"
  de_payload_len :: nat
  de_outcome :: string
  de_reason :: string
  de_owner_kind :: string
  de_authority_epoch :: u32
  de_lease_status :: string
  de_local_status :: string

record dup_cache =
  dc_entries :: "auth_dup_entry list"
  dc_next :: nat
  dc_ordinal_next :: u32

definition auth_dup_zero :: auth_dup_entry where
  "auth_dup_zero = \<lparr> de_in_use = False, de_ordinal = 0, de_session = [], de_request_id = [], de_release = False,
     de_payload_hash = replicate 32 0, de_payload_len = 0, de_outcome = [], de_reason = [], de_owner_kind = [],
     de_authority_epoch = 0, de_lease_status = [], de_local_status = [] \<rparr>"

definition argus_mqtt_runtime_reset_duplicate_cache :: dup_cache where
  "argus_mqtt_runtime_reset_duplicate_cache =
     \<lparr> dc_entries = replicate DUP_CACHE_SIZE auth_dup_zero, dc_next = 0, dc_ordinal_next = 0 \<rparr>"

definition argus_mqtt_runtime_duplicate_admission_count :: "dup_cache \<Rightarrow> u32" where
  "argus_mqtt_runtime_duplicate_admission_count cache = dc_ordinal_next cache"

definition auth_dup_find :: "u8 list \<Rightarrow> u8 list \<Rightarrow> bool \<Rightarrow> dup_cache \<Rightarrow> auth_dup_entry option" where
  "auth_dup_find session request_id release cache =
     find (\<lambda>e. de_in_use e \<and> de_release e = release \<and> de_session e = session \<and> de_request_id e = request_id)
       (dc_entries cache)"

type_synonym sha256 = "u8 list \<Rightarrow> u8 list option"

definition auth_dup_hash :: "sha256 \<Rightarrow> u8 list \<Rightarrow> u8 list" where
  "auth_dup_hash sha payload = (case sha payload of None \<Rightarrow> replicate 32 0 | Some h \<Rightarrow> h)"

definition auth_dup_store ::
  "sha256 \<Rightarrow> u8 list \<Rightarrow> u8 list \<Rightarrow> bool \<Rightarrow> u8 list \<Rightarrow> string \<Rightarrow> string \<Rightarrow> string \<Rightarrow> u32 \<Rightarrow> string \<Rightarrow> string \<Rightarrow>
     dup_cache \<Rightarrow> dup_cache" where
  "auth_dup_store sha session request_id release payload outcome reason owner epoch lease_status local_status cache =
     \<lparr> dc_entries = (dc_entries cache)[dc_next cache :=
         \<lparr> de_in_use = True, de_ordinal = dc_ordinal_next cache, de_session = c_strlcpy 17 session,
           de_request_id = c_strlcpy 37 request_id, de_release = release, de_payload_hash = auth_dup_hash sha payload,
           de_payload_len = length payload, de_outcome = outcome, de_reason = reason, de_owner_kind = owner,
           de_authority_epoch = epoch, de_lease_status = lease_status, de_local_status = local_status \<rparr>],
       dc_next = (dc_next cache + 1) mod DUP_CACHE_SIZE, dc_ordinal_next = dc_ordinal_next cache + 1 \<rparr>"

definition auth_dup_replay :: "auth_dup_entry \<Rightarrow> u8 list" where
  "auth_dup_replay e =
     compose_authority_result_json (de_request_id e) (de_session e) (de_outcome e) (de_reason e) (de_owner_kind e)
       (de_authority_epoch e) (de_lease_status e) (de_local_status e)"

section \<open>Authority requests\<close>

datatype admit_stage =
    STAGE_RETAINED_REFUSED
  | STAGE_QOS_REFUSED
  | STAGE_DECODE_REJECTED
  | STAGE_SESSION_MISMATCH
  | STAGE_DUPLICATE_REPLAY
  | STAGE_DUPLICATE_CONFLICT
  | STAGE_RELEASE_STALE_EPOCH
  | STAGE_RELEASE_NOT_OWNER
  | STAGE_RELEASE_ACCEPTED
  | STAGE_REQUEST_STALE_EPOCH
  | STAGE_REQUEST_EVALUATED

text \<open>\<open>ao_published\<close> is the result document, if one is to be published.\<close>

record authority_outcome =
  ao_stage :: admit_stage
  ao_decode :: decode_result
  ao_request_result :: authority_result
  ao_published :: "u8 list option"
  ao_state_changed :: bool
  ao_link_online :: bool

definition outcome_at :: "admit_stage \<Rightarrow> authority_outcome" where
  "outcome_at stage = \<lparr> ao_stage = stage, ao_decode = DECODE_OK, ao_request_result = AUTHORITY_GRANTED,
     ao_published = None, ao_state_changed = False, ao_link_online = False \<rparr>"

text \<open>What the runtime knows of the installation at the time of a request.\<close>

record admission_context =
  ac_profile :: u8
  ac_window_open :: bool
  ac_running :: bool
  ac_now_ms :: u64

definition build_authority_result_json ::
  "u8 list \<Rightarrow> session_core \<Rightarrow> admission_context \<Rightarrow> string \<Rightarrow> string \<Rightarrow> u8 list" where
  "build_authority_result_json request_id core cx outcome reason =
     (let (lease_status, local_status) =
            authority_status_from_core core (ac_profile cx) (ac_window_open cx) (ac_now_ms cx)
      in compose_authority_result_json request_id (lc_session core) outcome reason (owner_kind core)
           (lc_authority_epoch core) lease_status local_status)"

text \<open>The decoded request is absent when the envelope or the decoding failed.\<close>

definition emit_authority_result ::
  "sha256 \<Rightarrow> authority_outcome \<Rightarrow> authority_request option \<Rightarrow> broker_message \<Rightarrow> session_core \<Rightarrow> admission_context \<Rightarrow>
     string \<Rightarrow> string \<Rightarrow> bool \<Rightarrow> bool \<Rightarrow> dup_cache \<Rightarrow> authority_outcome \<times> dup_cache" where
  "emit_authority_result sha out req message core cx outcome reason release to_cache cache =
     (let request_id = (case req of None \<Rightarrow> [] | Some q \<Rightarrow> aq_request_id q);
          (lease_status, local_status) =
            authority_status_from_core core (ac_profile cx) (ac_window_open cx) (ac_now_ms cx)
      in (out\<lparr> ao_published := Some (build_authority_result_json request_id core cx outcome reason) \<rparr>,
          case req of
            None \<Rightarrow> cache
          | Some q \<Rightarrow>
              if to_cache
              then auth_dup_store sha (aq_session q) (aq_request_id q) release (bm_payload message) outcome reason
                     (owner_kind core) (lc_authority_epoch core) lease_status local_status cache
              else cache))"

definition argus_mqtt_authority_admit ::
  "sha256 \<Rightarrow> broker_message \<Rightarrow> bool \<Rightarrow> admission_context \<Rightarrow> session_core \<Rightarrow> dup_cache \<Rightarrow>
     authority_outcome \<times> session_core \<times> dup_cache" where
  "argus_mqtt_authority_admit sha message release cx core cache =
     (if bm_retain message then (outcome_at STAGE_RETAINED_REFUSED, core, cache)
      else if bm_qos message \<noteq> 1
      then (case emit_authority_result sha (outcome_at STAGE_QOS_REFUSED) None message core cx ''REJECTED''
                   ''qos_1_required'' release False cache of (out, c) \<Rightarrow> (out, core, c))
      else (case argus_mqtt_decode_authority_request release (bm_payload message) of
              Inl e \<Rightarrow>
                (case emit_authority_result sha ((outcome_at STAGE_DECODE_REJECTED)\<lparr> ao_decode := e \<rparr>) None message core cx
                        ''REJECTED'' (decode_reason e) release False cache of (out, c) \<Rightarrow> (out, core, c))
            | Inr req \<Rightarrow>
                if aq_session req \<noteq> lc_session core
                then (case emit_authority_result sha (outcome_at STAGE_SESSION_MISMATCH) (Some req) message core cx
                             ''REJECTED'' ''session_mismatch'' release False cache of (out, c) \<Rightarrow> (out, core, c))
                else (case auth_dup_find (aq_session req) (aq_request_id req) release cache of
                        Some existing \<Rightarrow>
                          if de_payload_len existing = length (bm_payload message)
                             \<and> de_payload_hash existing = auth_dup_hash sha (bm_payload message)
                          then ((outcome_at STAGE_DUPLICATE_REPLAY)\<lparr> ao_published := Some (auth_dup_replay existing) \<rparr>,
                                core, cache)
                          else (case emit_authority_result sha (outcome_at STAGE_DUPLICATE_CONFLICT) (Some req) message
                                       core cx ''REJECTED'' ''duplicate_conflict'' release False cache of
                                  (out, c) \<Rightarrow> (out, core, c))
                      | None \<Rightarrow>
                          if release
                          then (if aq_authority_epoch req \<noteq> lc_authority_epoch core
                                then (case emit_authority_result sha (outcome_at STAGE_RELEASE_STALE_EPOCH) (Some req) message
                                             core cx ''REJECTED'' ''stale_epoch'' release True cache of
                                        (out, c) \<Rightarrow> (out, core, c))
                                else (let (released, core1) = argus_mqtt_session_release_authority
                                                                (mp_identifier (bm_principal message)) core;
                                          out = (outcome_at (if released then STAGE_RELEASE_ACCEPTED
                                                             else STAGE_RELEASE_NOT_OWNER))\<lparr> ao_state_changed := released \<rparr>
                                      in (case emit_authority_result sha out (Some req) message core1 cx
                                                 (if released then ''ACCEPTED'' else ''REJECTED'')
                                                 (if released then ''released'' else ''not_owner'') release True cache of
                                            (out, c) \<Rightarrow> (out, core1, c))))
                          else if aq_authority_epoch req \<noteq> 0 \<and> aq_authority_epoch req \<noteq> lc_authority_epoch core
                          then (case emit_authority_result sha (outcome_at STAGE_REQUEST_STALE_EPOCH) (Some req) message core cx
                                       ''REJECTED'' ''stale_epoch'' release True cache of (out, c) \<Rightarrow> (out, core, c))
                          else (let (result, core1) = argus_mqtt_session_request_authority_with_state
                                      (bm_connection_id message) (mp_identifier (bm_principal message))
                                      (mp_client_type (bm_principal message)) (ac_profile cx) (ac_window_open cx)
                                      (ac_running cx) (aq_authority_epoch req) (ac_now_ms cx) core;
                                    accepted = (result = AUTHORITY_GRANTED \<or> result = AUTHORITY_ALREADY_HELD);
                                    out = (outcome_at STAGE_REQUEST_EVALUATED)
                                      \<lparr> ao_request_result := result, ao_state_changed := accepted, ao_link_online := True \<rparr>
                                in (case emit_authority_result sha out (Some req) message core1 cx
                                           (if accepted then ''ACCEPTED'' else ''REJECTED'')
                                           (authority_result_reason result) release True cache of
                                      (out, c) \<Rightarrow> (out, core1, c))))))"

end
