(* ===== verification/Mqtt_Runtime.thy ===== *)
theory Mqtt_Runtime
  imports Mqtt_Authority Cmd_Router Nvs_Manager Net_Types
begin

text \<open>
  The MQTT runtime (\<open>argus_mqtt_runtime.c\<close>): the runtime task and its queue, the handlers of
  heartbeats, authority requests and commands, the callbacks of the broker, the start and the
  periodic tick.

  A handler takes the runtime's mutex for one section at a time. What other tasks (the broker's
  disconnect callback, the status task) do to the runtime between two sections is the argument
  \<open>other\<close>. What a handler publishes is a list of topic, payload and retain flag, in order.
  Readings of the clock, the commissioned profile and the snapshots of other components are
  arguments; a command goes through the model of the command router.
\<close>

section \<open>State\<close>

datatype runtime_event = EVENT_MESSAGE broker_message | EVENT_PUBLISH_BASELINE

record mqtt_runtime =
  ru_initialized :: bool
  ru_prepared :: bool
  ru_queue :: "runtime_event list"
  ru_identity :: identity
  ru_topics :: mqtt_topics
  ru_session :: session_core
  ru_dup :: dup_cache
  ru_authority_ready_ms :: u64
  ru_fallback_window_was_open :: bool
  ru_authority_reason :: string
  ru_last_network_fault :: string
  ru_last_auth_throttle :: string
  ru_last_policy_audit_us :: u64
  ru_last_auth_failure_audit_us :: u64

abbreviation (input) QUEUE_DEPTH :: nat where "QUEUE_DEPTH \<equiv> 12"
abbreviation (input) CORE_ACQUISITION_WINDOW_MS :: u64 where "CORE_ACQUISITION_WINDOW_MS \<equiv> 45000"

type_synonym publication = "u8 list \<times> u8 list \<times> bool"

definition publish_value :: "mqtt_runtime \<Rightarrow> topic_leaf \<Rightarrow> u8 list \<Rightarrow> bool \<Rightarrow> publication list" where
  "publish_value rt leaf payload retain = [(tp_leaf (ru_topics rt) leaf, payload, retain)]"

definition dec_int :: "int \<Rightarrow> u8 list" where
  "dec_int v = (if v < 0 then 45 # dec_nat (nat (- v)) else dec_nat (nat v))"

definition publish_number :: "mqtt_runtime \<Rightarrow> topic_leaf \<Rightarrow> int \<Rightarrow> publication list" where
  "publish_number rt leaf v = publish_value rt leaf (dec_int v) True"

definition set_authority_reason :: "string \<Rightarrow> mqtt_runtime \<Rightarrow> mqtt_runtime" where
  "set_authority_reason reason rt = rt\<lparr> ru_authority_reason := reason \<rparr>"

definition argus_mqtt_runtime_get_authority_reason :: "mqtt_runtime \<Rightarrow> string" where
  "argus_mqtt_runtime_get_authority_reason rt = ru_authority_reason rt"

section \<open>Reasons, profile and window\<close>

definition argus_mqtt_authority_reason_for_request :: "authority_result \<Rightarrow> bool \<Rightarrow> u8 \<Rightarrow> u8 \<Rightarrow> string option" where
  "argus_mqtt_authority_reason_for_request result was_online_before requester_client_type authority_profile =
     (if result = AUTHORITY_GRANTED
      then Some (if requester_client_type = CLIENT_ARGUS_COMMAND then ''CORE_ACQUISITION''
                 else if authority_profile = PROFILE_STANDALONE_HMI then ''STANDALONE_ACQUISITION''
                 else ''OPERATOR_TRANSFER'')
      else if result = AUTHORITY_ALREADY_HELD \<and> \<not> was_online_before then Some ''CORE_REACQUISITION''
      else None)"

definition argus_mqtt_authority_reason_for_release :: "bool \<Rightarrow> string option" where
  "argus_mqtt_authority_reason_for_release released = (if released then Some ''RELEASED'' else None)"

definition argus_mqtt_authority_reason_for_disconnect :: string where
  "argus_mqtt_authority_reason_for_disconnect = ''TRANSPORT_LOST''"

definition argus_mqtt_authority_reason_for_expiry :: string where
  "argus_mqtt_authority_reason_for_expiry = ''CORE_LEASE_EXPIRED''"

definition note_reason :: "string option \<Rightarrow> mqtt_runtime \<Rightarrow> mqtt_runtime" where
  "note_reason reason rt = (case reason of None \<Rightarrow> rt | Some r \<Rightarrow> set_authority_reason r rt)"

text \<open>\<open>effective\<close> is the answer of the configuration store: its status and the configuration.\<close>

definition commissioned_authority_profile :: "esp_err \<times> (config_payload \<times> bool) option \<Rightarrow> u8" where
  "commissioned_authority_profile effective =
     (case effective of
        (err, Some (cfg, _)) \<Rightarrow>
          if err \<noteq> ESP_OK then PROFILE_STANDALONE_HMI
          else if pl_authority_profile cfg > PROFILE_MAX then PROFILE_STANDALONE_HMI
          else pl_authority_profile cfg
      | (err, None) \<Rightarrow> PROFILE_STANDALONE_HMI)"

definition core_acquisition_window_open :: "u64 \<Rightarrow> mqtt_runtime \<Rightarrow> bool" where
  "core_acquisition_window_open now_ms rt =
     (if ru_authority_ready_ms rt = 0 then True
      else now_ms - ru_authority_ready_ms rt < CORE_ACQUISITION_WINDOW_MS)"

definition argus_mqtt_runtime_mark_authority_ready :: "u64 \<Rightarrow> mqtt_runtime \<Rightarrow> mqtt_runtime" where
  "argus_mqtt_runtime_mark_authority_ready now_ms rt =
     (let owned = (lc_lease_machine_id (ru_session rt) \<noteq> [] \<and> lc_link (ru_session rt) = LINK_ONLINE)
      in if \<not> owned then rt\<lparr> ru_authority_ready_ms := now_ms \<rparr> else rt)"

section \<open>Publications\<close>

definition publish_authority_state :: "u8 \<Rightarrow> u64 \<Rightarrow> u64 \<Rightarrow> mqtt_runtime \<Rightarrow> publication list" where
  "publish_authority_state profile now_window now_ms rt =
     (let snapshot = ru_session rt;
          (lease_status, local_status) =
            authority_status_from_core snapshot profile (core_acquisition_window_open now_window rt) now_ms
      in publish_value rt T_status_core_lease_status (tx lease_status) True
         @ publish_value rt T_status_authority_reason (tx (ru_authority_reason rt)) True
         @ publish_value rt T_status_authority_profile
             (tx (if profile = PROFILE_ARGUSCORE_PREFERRED then ''ARGUSCORE_PREFERRED'' else ''STANDALONE_HMI'')) True
         @ publish_value rt T_status_control_owner (tx (owner_kind snapshot)) True
         @ publish_number rt T_status_authority_epoch (uint (lc_authority_epoch snapshot))
         @ publish_value rt T_status_local_control (tx local_status) True)"

text \<open>
  A fault is published when it changes: \<open>cached\<close> is the text published last, empty at first.
  The result says what is published and the new cache.
\<close>

definition publish_on_change :: "mqtt_runtime \<Rightarrow> topic_leaf \<Rightarrow> string \<Rightarrow> string \<Rightarrow> publication list \<times> string" where
  "publish_on_change rt leaf payload cached =
     (if cached = payload \<and> cached \<noteq> [] then ([], cached) else (publish_value rt leaf (tx payload) True, payload))"

definition argus_net_mgr_interface_conflict_action :: string where
  "argus_net_mgr_interface_conflict_action =
     ''AP and station interfaces report the same IP address. AP-only access and SoftAP-scoped credentials '' @
     ''are refused until this is corrected. Change the plant DHCP scope or the controller SoftAP '' @
     ''subnet so they do not overlap, then reconnect.''"

definition publish_admission_conditions :: "bool \<Rightarrow> bool \<Rightarrow> mqtt_runtime \<Rightarrow> publication list \<times> mqtt_runtime" where
  "publish_admission_conditions conflict_active throttle_active rt =
     (let fault = (if conflict_active then ''AP_STA_ADDRESS_CONFLICT'' else ''NONE'');
          changed = (ru_last_network_fault rt \<noteq> fault);
          (p1, cache1) = publish_on_change rt T_status_network_fault fault (ru_last_network_fault rt);
          p2 = (if changed
                then publish_value rt T_status_network_fault_action
                       (if conflict_active then tx argus_net_mgr_interface_conflict_action else []) True
                else []);
          (p3, cache2) = publish_on_change rt T_status_auth_throttle (if throttle_active then ''ACTIVE'' else ''CLEAR'')
                           (ru_last_auth_throttle rt)
      in (p1 @ p2 @ p3, rt\<lparr> ru_last_network_fault := cache1, ru_last_auth_throttle := cache2 \<rparr>))"

text \<open>The snapshots that the other components give.\<close>

record observation =
  ob_state :: state_snapshot
  ob_authority :: authority_snapshot
  ob_network :: net_snapshot
  ob_broker_running :: bool
  ob_uptime_ms :: u64
  ob_conflict :: bool
  ob_throttle :: bool

definition publish_operational_snapshot :: "observation \<Rightarrow> mqtt_runtime \<Rightarrow> publication list \<times> mqtt_runtime" where
  "publish_operational_snapshot ob rt =
     (let state = ob_state ob; authority = ob_authority ob; network = ob_network ob; session = ru_session rt;
          (conditions, rt1) = publish_admission_conditions (ob_conflict ob) (ob_throttle ob) rt
      in (publish_value rt T_state_online (tx ''true'') True
          @ publish_value rt T_state_supervisor_link (tx (argus_mqtt_link_name (lc_link session))) True
          @ publish_value rt T_state_mode (tx (argus_state_mgr_get_state_name (sn_machine_state state))) True
          @ publish_value rt T_state_driver (tx (if sn_driver_enabled state then ''ENABLED'' else ''DISABLED'')) True
          @ publish_value rt T_state_direction (tx (if sn_applied_forward state then ''FORWARD'' else ''REVERSE'')) True
          @ publish_value rt T_state_estop (tx (if sn_estop_latched state then ''LATCHED'' else ''CLEAR'')) True
          @ publish_number rt T_state_fault (uint (sn_fault_code state))
          @ publish_value rt T_status_wifi
              (tx (if ns_sta_connected network \<and> ns_sta_ip_acquired network then ''CONNECTED'' else ''DISCONNECTED'')) True
          @ publish_value rt T_status_mqtt (tx (if ob_broker_running ob then ''RUNNING'' else ''STOPPED'')) True
          @ publish_value rt T_status_network_mode (tx (argus_net_mgr_get_mode_name (ns_mode network))) True
          @ publish_value rt T_status_authority_mode (tx (argus_authority_mgr_get_mode_name (as_mode authority))) True
          @ publish_value rt T_status_authority_owner (tx (argus_authority_mgr_get_owner_name (as_owner authority))) True
          @ publish_number rt T_status_uptime_s (uint (ob_uptime_ms ob div 1000))
          @ publish_number rt T_status_last_accepted_sequence
              (uint (if lc_has_sequence session then lc_last_sequence session else 0))
          @ publish_number rt T_telemetry_configured_target (sn_configured_target_rpm_milli state)
          @ publish_number rt T_telemetry_trajectory_target (sn_trajectory_target_rpm_milli state)
          @ publish_number rt T_telemetry_applied (sn_applied_rpm_milli state)
          @ publish_number rt T_telemetry_generated (sn_generated_rpm_milli state)
          @ publish_number rt T_telemetry_step_count (sn_generated_step_count state)
          @ publish_value rt T_telemetry_feedback_available (tx (if sn_feedback_available state then ''true'' else ''false'')) True
          @ conditions, rt1))"

definition publish_baseline :: "u8 \<Rightarrow> u64 \<Rightarrow> u64 \<Rightarrow> observation \<Rightarrow> mqtt_runtime \<Rightarrow> publication list \<times> mqtt_runtime" where
  "publish_baseline profile now_window now_ms ob rt =
     (let rt0 = rt\<lparr> ru_last_network_fault := [], ru_last_auth_throttle := [] \<rparr>;
          (operational_part, rt1) = publish_operational_snapshot ob rt0
      in (publish_value rt T_metadata_device_name (cstr (id_device_name (ru_identity rt))) True
          @ publish_value rt T_metadata_model (cstr (id_device_model (ru_identity rt))) True
          @ publish_value rt T_metadata_firmware_version (cstr (id_fw_version (ru_identity rt))) True
          @ publish_value rt T_metadata_hardware_uid (cstr (id_mac_uid (ru_identity rt))) True
          @ publish_value rt T_status_command_session (lc_session (ru_session rt)) True
          @ publish_authority_state profile now_window now_ms rt0 @ operational_part, rt1))"

definition build_result :: "mqtt_command \<Rightarrow> string \<Rightarrow> string \<Rightarrow> authority_snapshot \<Rightarrow> state_snapshot \<Rightarrow> u8 list" where
  "build_result command outcome reason authority state =
     bounded_document
       (tx ''{\"session\":\"'' @ mc_session command @ tx ''\",\"sequence\":'' @ dec_nat (unat (mc_sequence command))
        @ tx '',\"command_id\":\"'' @ mc_command_id command @ tx ''\",\"action\":\"''
        @ tx (argus_mqtt_action_name (mc_action command)) @ tx ''\",\"outcome\":\"'' @ tx outcome
        @ tx ''\",\"reason\":\"'' @ tx reason @ tx ''\",\"authority_generation\":'' @ dec_nat (unat (as_generation authority))
        @ tx '',\"command_generation\":'' @ dec_nat (unat (sn_command_generation state)) @ tx '',\"machine_state\":\"''
        @ tx (argus_state_mgr_get_state_name (sn_machine_state state)) @ tx ''\"}'')"

end
