(* ===== verification/Mqtt_Handlers.thy ===== *)
theory Mqtt_Handlers
  imports Mqtt_Runtime
begin

text \<open>
  The handlers of the runtime task (\<open>argus_mqtt_runtime.c\<close>). The environment of a handler gives
  the answers of the platform and of the other components: the readings of the clock and of
  the commissioned profile in their order, and what other tasks do between the sections.
\<close>

section \<open>The environment\<close>

record runtime_env =
  re_sha :: sha256
  re_clock :: "nat \<Rightarrow> u64"
  re_effective :: "nat \<Rightarrow> esp_err \<times> (config_payload \<times> bool) option"
  re_other :: "nat \<Rightarrow> mqtt_runtime \<Rightarrow> mqtt_runtime"
  re_router_other :: "nat \<Rightarrow> trajectory router \<Rightarrow> trajectory router"
  re_max_rpm_milli :: int
  re_granted :: bool
  re_ops :: "trajectory motion_ops option"
  re_observe :: "nat \<Rightarrow> observation"

abbreviation re_profile :: "runtime_env \<Rightarrow> nat \<Rightarrow> u8" where
  "re_profile env i \<equiv> commissioned_authority_profile (re_effective env i)"

section \<open>Heartbeats\<close>

text \<open>The section under the mutex: whether the sender holds the lease, whether the link was up, the status.\<close>

definition heartbeat_section ::
  "broker_message \<Rightarrow> mqtt_heartbeat \<Rightarrow> u64 \<Rightarrow> mqtt_runtime \<Rightarrow> (bool \<times> bool \<times> esp_err) \<times> mqtt_runtime" where
  "heartbeat_section message heartbeat now_ms rt =
     (let core = ru_session rt; who = bm_principal message;
          is_holder = (lc_lease_machine_id core \<noteq> [] \<and> lc_lease_machine_id core = mp_identifier who);
          was_online = (lc_link core = LINK_ONLINE)
      in if is_holder
         then (case argus_mqtt_session_accept_heartbeat (bm_connection_id message) (mp_identifier who)
                      (mp_client_type who) heartbeat now_ms core of
                 (err, core1) \<Rightarrow> ((True, was_online, err), rt\<lparr> ru_session := core1 \<rparr>))
         else ((False, was_online, ESP_ERR_INVALID_STATE), rt))"

definition handle_heartbeat :: "runtime_env \<Rightarrow> broker_message \<Rightarrow> mqtt_runtime \<Rightarrow> mqtt_runtime \<times> publication list" where
  "handle_heartbeat env message rt =
     (if \<not> bm_policy_admitted message then (rt, [])
      else (case argus_mqtt_decode_heartbeat (bm_payload message) of
              Inl e \<Rightarrow> (rt, [])
            | Inr heartbeat \<Rightarrow>
                (case heartbeat_section message heartbeat (re_clock env 0) rt of
                   ((is_holder, was_online, err), rt1) \<Rightarrow>
                     if \<not> is_holder \<or> err \<noteq> ESP_OK then (rt1, [])
                     else if was_online then (rt1, publish_value rt1 T_state_supervisor_link (tx ''ONLINE'') True)
                     else (let rt2 = set_authority_reason ''CORE_REACQUISITION'' (re_other env 0 rt1)
                           in (rt2, publish_value rt1 T_state_supervisor_link (tx ''ONLINE'') True
                                 @ publish_authority_state (re_profile env 0) (re_clock env 1) (re_clock env 2) rt2)))))"

section \<open>Authority requests\<close>

definition machine_running :: "machine_state \<Rightarrow> bool" where
  "machine_running s \<longleftrightarrow> s = STATE_STARTING \<or> s = STATE_RUNNING \<or> s = STATE_DECELERATING"

definition authority_section ::
  "sha256 \<Rightarrow> broker_message \<Rightarrow> bool \<Rightarrow> admission_context \<Rightarrow> mqtt_runtime \<Rightarrow> (bool \<times> authority_outcome) \<times> mqtt_runtime" where
  "authority_section sha message release cx rt =
     (case argus_mqtt_authority_admit sha message release cx (ru_session rt) (ru_dup rt) of
        (outcome, core, cache) \<Rightarrow>
          ((lc_link (ru_session rt) = LINK_ONLINE, outcome), rt\<lparr> ru_session := core, ru_dup := cache \<rparr>))"

definition stage_reason :: "authority_outcome \<Rightarrow> bool \<Rightarrow> u8 \<Rightarrow> u8 \<Rightarrow> string option" where
  "stage_reason outcome was_online_before client_type profile =
     (case ao_stage outcome of
        STAGE_RELEASE_ACCEPTED \<Rightarrow> argus_mqtt_authority_reason_for_release True
      | STAGE_RELEASE_NOT_OWNER \<Rightarrow> argus_mqtt_authority_reason_for_release False
      | STAGE_REQUEST_EVALUATED \<Rightarrow>
          argus_mqtt_authority_reason_for_request (ao_request_result outcome) was_online_before client_type profile
      | _ \<Rightarrow> None)"

definition handle_authority_request ::
  "runtime_env \<Rightarrow> broker_message \<Rightarrow> bool \<Rightarrow> mqtt_runtime \<Rightarrow> mqtt_runtime \<times> publication list" where
  "handle_authority_request env message release rt =
     (if \<not> bm_policy_admitted message then (rt, [])
      else if mp_permissions (bm_principal message) AND PERMISSION_REQUEST_AUTHORITY = 0 then (rt, [])
      else
        (let profile = re_profile env 0;
             cx = \<lparr> ac_profile = profile, ac_window_open = core_acquisition_window_open (re_clock env 0) rt,
                    ac_running = machine_running (sn_machine_state (ob_state (re_observe env 0))),
                    ac_now_ms = re_clock env 1 \<rparr>
         in case authority_section (re_sha env) message release cx (re_other env 0 rt) of
              ((was_online_before, outcome), rt1) \<Rightarrow>
                if ao_stage outcome = STAGE_RETAINED_REFUSED \<or> ao_stage outcome = STAGE_QOS_REFUSED then (rt1, [])
                else
                  (let rt2 = note_reason (stage_reason outcome was_online_before
                                            (mp_client_type (bm_principal message)) profile) (re_other env 1 rt1)
                   in (rt2, (case ao_published outcome of
                               None \<Rightarrow> []
                             | Some result_json \<Rightarrow> publish_value rt2 T_event_authority_result result_json False)
                        @ (if ao_state_changed outcome
                           then publish_value rt2 T_state_supervisor_link
                                  (tx (if ao_link_online outcome then ''ONLINE'' else ''OFFLINE'')) True
                                @ publish_authority_state (re_profile env 1) (re_clock env 2) (re_clock env 3) rt2
                           else [])))))"

section \<open>Commands\<close>

primrec command_type :: "mqtt_action \<Rightarrow> cmd_type" where
  "command_type ACTION_SET_TARGET = CMD_TYPE_SET_TARGET"
| "command_type ACTION_START = CMD_TYPE_START"
| "command_type ACTION_STOP = CMD_TYPE_STOP_NORMAL"
| "command_type ACTION_UNLOCK = CMD_TYPE_UNLOCK"
| "command_type ACTION_E_STOP = CMD_TYPE_ESTOP"
| "command_type ACTION_RESET_E_STOP = CMD_TYPE_RESET_ESTOP"
| "command_type ACTION_RECOVER = CMD_TYPE_RECOVER"
| "command_type ACTION_NONE = CMD_TYPE_STOP_NORMAL"
| "command_type ACTION_HEARTBEAT = CMD_TYPE_STOP_NORMAL"
| "command_type ACTION_REQUEST_AUTHORITY = CMD_TYPE_STOP_NORMAL"
| "command_type ACTION_RELEASE_AUTHORITY = CMD_TYPE_STOP_NORMAL"

text \<open>
  The part of the handler up to the router: dropped without an answer, refused with a reason,
  answered with the cached result of a duplicate, or let through.
\<close>

datatype command_verdict =
    VERDICT_DROP
  | VERDICT_REJECT mqtt_command string
  | VERDICT_REPLAY "u8 list"
  | VERDICT_DISPATCH mqtt_command

definition command_gate :: "int \<Rightarrow> broker_message \<Rightarrow> mqtt_action \<Rightarrow> mqtt_runtime \<Rightarrow> command_verdict" where
  "command_gate max_rpm_milli message action rt =
     (case argus_mqtt_decode_command action max_rpm_milli (bm_payload message) of
        Inl e \<Rightarrow> VERDICT_DROP
      | Inr command \<Rightarrow>
          if \<not> bm_policy_admitted message
          then VERDICT_REJECT command (if bm_retain message then ''retained_forbidden'' else ''topic_forbidden'')
          else if bm_qos message \<noteq> 1 then VERDICT_REJECT command ''qos_1_required''
          else (case argus_mqtt_command_admission_check (ru_session rt) (mp_identifier (bm_principal message))
                       (bm_connection_id message) command of
                  ADMIT_SESSION_MISMATCH \<Rightarrow> VERDICT_REJECT command ''session_mismatch''
                | ADMIT_NOT_HOLDER \<Rightarrow> VERDICT_REJECT command ''not_authority_holder''
                | ADMIT_STALE_EPOCH \<Rightarrow> VERDICT_REJECT command ''stale_epoch''
                | ADMIT_OK \<Rightarrow>
                    (case argus_mqtt_session_check_sequence (ru_session rt) command (bm_payload message) of
                       SEQUENCE_DUPLICATE \<Rightarrow> VERDICT_REPLAY (lc_cached_result (ru_session rt))
                     | SEQUENCE_CONFLICT \<Rightarrow> VERDICT_REJECT command ''sequence_conflict''
                     | SEQUENCE_STALE \<Rightarrow> VERDICT_REJECT command ''stale_sequence''
                     | SEQUENCE_FIRST \<Rightarrow> VERDICT_DISPATCH command
                     | SEQUENCE_NEWER \<Rightarrow> VERDICT_DISPATCH command)))"

text \<open>A result document over the current snapshots; reading them initialises the authority manager.\<close>

definition result_document :: "mqtt_command \<Rightarrow> string \<Rightarrow> string \<Rightarrow> trajectory router \<Rightarrow> u8 list \<times> trajectory router" where
  "result_document command outcome reason r =
     (case argus_authority_mgr_get_snapshot (fst r) of
        ((err, authority), a) \<Rightarrow>
          (build_result command outcome reason authority (argus_state_mgr_get_snapshot (snd r)), a, snd r))"

definition reject_decoded ::
  "mqtt_runtime \<Rightarrow> mqtt_command \<Rightarrow> string \<Rightarrow> trajectory router \<Rightarrow> publication list \<times> trajectory router" where
  "reject_decoded rt command reason r =
     (case result_document command ''REJECTED'' reason r of
        (text, r1) \<Rightarrow> (publish_value rt T_command_result text False, r1))"

definition envelope_for :: "mqtt_action \<Rightarrow> mqtt_command \<Rightarrow> u32 \<Rightarrow> command_envelope" where
  "envelope_for action command generation =
     \<lparr> env_source = CMD_SRC_MQTT_SUPERVISORY, env_command_type = command_type action,
       env_authority_generation = generation, env_target_rpm_milli = mc_target_rpm_milli command,
       env_forward = mc_forward command \<rparr>"

text \<open>The part after the gate: the snapshot of the authority, the probe, the dispatch, and the result.\<close>

definition dispatch_command ::
  "runtime_env \<Rightarrow> broker_message \<Rightarrow> mqtt_action \<Rightarrow> mqtt_command \<Rightarrow> mqtt_runtime \<Rightarrow> trajectory router \<Rightarrow>
     (mqtt_runtime \<times> publication list) \<times> trajectory router" where
  "dispatch_command env message action command rt r =
     (let r0 = re_router_other env 0 r;
          ((err, authority), a1) = argus_authority_mgr_get_snapshot (fst r0);
          r1 = (a1, snd r0)
      in if err \<noteq> ESP_OK
         then (case reject_decoded rt command ''authority_unavailable'' r1 of (ps, r2) \<Rightarrow> ((rt, ps), r2))
         else
           (let envelope = envelope_for action command (as_generation authority);
                r2 = re_router_other env 1 r1;
                (probe, a3) = argus_cmd_router_check_authority (Some envelope) (fst r2);
                r3 = (a3, snd r2)
            in if probe \<noteq> ESP_OK
               then (case reject_decoded rt command ''authority_rejected'' r3 of (ps, r4) \<Rightarrow> ((rt, ps), r4))
               else
                 (let (dispatch, r4) = argus_cmd_router_dispatch (re_granted env) (re_ops env) (Some envelope)
                                         (re_router_other env 2 r3);
                      (result, r5) = result_document command (if dispatch = ESP_OK then ''ACCEPTED'' else ''REJECTED'')
                                       (if dispatch = ESP_OK then ''accepted'' else ''state_rejected'')
                                       (re_router_other env 3 r4);
                      rt0 = re_other env 0 rt;
                      rt1 = rt0\<lparr> ru_session := argus_mqtt_session_commit_result command (bm_payload message) result
                                                 (ru_session rt0) \<rparr>;
                      (operational_part, rt2) = publish_operational_snapshot (re_observe env 0) rt1
                  in ((rt2, publish_value rt1 T_command_result result False @ operational_part), r5))))"

definition handle_command ::
  "runtime_env \<Rightarrow> broker_message \<Rightarrow> mqtt_action \<Rightarrow> mqtt_runtime \<Rightarrow> trajectory router \<Rightarrow>
     (mqtt_runtime \<times> publication list) \<times> trajectory router" where
  "handle_command env message action rt r =
     (case command_gate (re_max_rpm_milli env) message action rt of
        VERDICT_DROP \<Rightarrow> ((rt, []), r)
      | VERDICT_REJECT command reason \<Rightarrow> (case reject_decoded rt command reason r of (ps, r1) \<Rightarrow> ((rt, ps), r1))
      | VERDICT_REPLAY text \<Rightarrow> ((rt, publish_value rt T_command_result text False), r)
      | VERDICT_DISPATCH command \<Rightarrow> dispatch_command env message action command rt r)"

section \<open>The runtime task\<close>

definition handle_message ::
  "runtime_env \<Rightarrow> broker_message \<Rightarrow> mqtt_runtime \<Rightarrow> trajectory router \<Rightarrow> (mqtt_runtime \<times> publication list) \<times> trajectory router" where
  "handle_message env message rt r =
     (let action = argus_mqtt_topics_classify (ru_topics rt) (bm_topic message) in
      if action = ACTION_HEARTBEAT then (handle_heartbeat env message rt, r)
      else if action = ACTION_REQUEST_AUTHORITY then (handle_authority_request env message False rt, r)
      else if action = ACTION_RELEASE_AUTHORITY then (handle_authority_request env message True rt, r)
      else if action \<noteq> ACTION_NONE then handle_command env message action rt r
      else ((rt, []), r))"

text \<open>One round of the task: the head of the queue.\<close>

definition runtime_task ::
  "runtime_env \<Rightarrow> mqtt_runtime \<Rightarrow> trajectory router \<Rightarrow> (mqtt_runtime \<times> publication list) \<times> trajectory router" where
  "runtime_task env rt r =
     (case ru_queue rt of
        [] \<Rightarrow> ((rt, []), r)
      | EVENT_PUBLISH_BASELINE # queue \<Rightarrow>
          (case publish_baseline (re_profile env 0) (re_clock env 0) (re_clock env 1) (re_observe env 0)
                  (rt\<lparr> ru_queue := queue \<rparr>) of (ps, rt1) \<Rightarrow> ((rt1, ps), r))
      | EVENT_MESSAGE message # queue \<Rightarrow> handle_message env message (rt\<lparr> ru_queue := queue \<rparr>) r)"

section \<open>Callbacks of the broker\<close>

definition enqueue :: "runtime_event \<Rightarrow> mqtt_runtime \<Rightarrow> bool \<times> mqtt_runtime" where
  "enqueue event rt =
     (if length (ru_queue rt) < QUEUE_DEPTH then (True, rt\<lparr> ru_queue := ru_queue rt @ [event] \<rparr>) else (False, rt))"

definition broker_message_cb :: "broker_message \<Rightarrow> mqtt_runtime \<Rightarrow> mqtt_runtime" where
  "broker_message_cb message rt = snd (enqueue (EVENT_MESSAGE message) rt)"

definition broker_policy_cb :: "mqtt_runtime \<Rightarrow> broker_message \<Rightarrow> esp_err" where
  "broker_policy_cb rt message =
     (if argus_mqtt_topics_external_publish_allowed (ru_topics rt) message then ESP_OK else ESP_ERR_INVALID_STATE)"

datatype mqtt_audit_event =
    AUDIT_MQTT_AUTH_SUCCESS
  | AUDIT_MQTT_AUTH_THROTTLED
  | AUDIT_MQTT_AUTH_FAILURE
  | AUDIT_MQTT_POLICY_REJECTED

record mqtt_audit =
  aud_event :: mqtt_audit_event
  aud_success :: bool
  aud_machine :: bool
  aud_actor :: "u8 list"
  aud_action :: string
  aud_source :: string
  aud_reason :: string
  aud_epoch :: u32

abbreviation (input) AUDIT_INTERVAL_US :: u64 where "AUDIT_INTERVAL_US \<equiv> 60000000"

definition auth_audit_reason :: "machine_auth_result \<Rightarrow> string" where
  "auth_audit_reason result =
     (if result = AUTH_SUCCESS then ''authenticated''
      else if result = AUTH_TRANSPORT_REJECTED then ''transport_rejected''
      else if result = AUTH_INTERFACE_REJECTED then ''interface_rejected''
      else if result = AUTH_THROTTLED then ''throttled''
      else if result = AUTH_BUSY then ''kdf_busy''
      else ''invalid_credentials'')"

definition auth_audit :: "machine_auth_outcome \<Rightarrow> u8 \<Rightarrow> mqtt_audit" where
  "auth_audit outcome receiving_interface =
     (let ok = (mo_result outcome = AUTH_SUCCESS) in
      \<lparr> aud_event = (if ok then AUDIT_MQTT_AUTH_SUCCESS
                     else if mo_result outcome = AUTH_THROTTLED \<or> mo_result outcome = AUTH_BUSY
                     then AUDIT_MQTT_AUTH_THROTTLED else AUDIT_MQTT_AUTH_FAILURE),
        aud_success = ok, aud_machine = ok,
        aud_actor = (if ok then mp_identifier (mo_principal outcome) else tx ''anonymous''),
        aud_action = ''mqtt_connect'',
        aud_source = (if receiving_interface = 1 then ''SOFTAP'' else if receiving_interface = 2 then ''STA'' else ''UNKNOWN''),
        aud_reason = auth_audit_reason (mo_result outcome),
        aud_epoch = mp_record_security_epoch (mo_principal outcome) \<rparr>)"

definition broker_auth_cb ::
  "kdf_queue \<Rightarrow> hmac \<Rightarrow> u64 \<Rightarrow> machine_directory \<Rightarrow> (machine_auth \<Rightarrow> machine_auth) \<Rightarrow> u64 \<Rightarrow> u32 \<Rightarrow> connect_request \<Rightarrow> u8 \<Rightarrow>
     machine_auth \<Rightarrow> mqtt_runtime \<Rightarrow> (machine_auth_outcome \<times> mqtt_audit option) \<times> machine_auth \<times> mqtt_runtime" where
  "broker_auth_cb q hmac auth_us d between now_us peer_key request receiving_interface m rt =
     (case argus_machine_service_authenticate q hmac auth_us d between peer_key (cr_client_id request)
             (cr_username request) (cr_password request) receiving_interface m of
        (outcome, m1) \<Rightarrow>
          (let ok = (mo_result outcome = AUTH_SUCCESS);
               audit = (ok \<or> ru_last_auth_failure_audit_us rt = 0
                        \<or> now_us - ru_last_auth_failure_audit_us rt \<ge> AUDIT_INTERVAL_US)
           in ((outcome, if audit then Some (auth_audit outcome receiving_interface) else None), m1,
               if audit \<and> \<not> ok then rt\<lparr> ru_last_auth_failure_audit_us := now_us \<rparr> else rt)))"

definition broker_revalidate_cb :: "machine_auth \<Rightarrow> machine_directory \<Rightarrow> client_info \<Rightarrow> esp_err" where
  "broker_revalidate_cb m d client =
     argus_machine_service_revalidate m d (Some (ci_principal client)) (ci_receiving_interface client)"

definition policy_audit ::
  "u64 \<Rightarrow> machine_principal \<Rightarrow> string \<Rightarrow> string \<Rightarrow> mqtt_runtime \<Rightarrow> mqtt_audit option \<times> mqtt_runtime" where
  "policy_audit now_us who action reason rt =
     (if ru_last_policy_audit_us rt = 0 \<or> now_us - ru_last_policy_audit_us rt \<ge> AUDIT_INTERVAL_US
      then (Some \<lparr> aud_event = AUDIT_MQTT_POLICY_REJECTED, aud_success = False, aud_machine = True,
                   aud_actor = mp_identifier who, aud_action = action, aud_source = ''MQTT'', aud_reason = reason,
                   aud_epoch = mp_record_security_epoch who \<rparr>,
            rt\<lparr> ru_last_policy_audit_us := now_us \<rparr>)
      else (None, rt))"

definition broker_subscribe_policy_cb ::
  "u64 \<Rightarrow> client_info \<Rightarrow> u8 list \<Rightarrow> mqtt_runtime \<Rightarrow> (esp_err \<times> mqtt_audit option) \<times> mqtt_runtime" where
  "broker_subscribe_policy_cb now_us client topic_filter rt =
     (if mp_permissions (ci_principal client) AND PERMISSION_VIEW_STATUS = 0
         \<or> \<not> argus_mqtt_security_subscription_allowed (ru_topics rt) (ci_principal client) topic_filter
      then (case policy_audit now_us (ci_principal client) ''mqtt_subscribe'' ''subscription_denied'' rt of
              (audit, rt1) \<Rightarrow> ((ESP_ERR_NOT_ALLOWED, audit), rt1))
      else ((ESP_OK, None), rt))"

definition broker_publish_authorize_cb ::
  "u64 \<Rightarrow> broker_message \<Rightarrow> mqtt_runtime \<Rightarrow> (esp_err \<times> mqtt_audit option) \<times> mqtt_runtime" where
  "broker_publish_authorize_cb now_us message rt =
     (if argus_mqtt_security_publish_allowed (ru_topics rt) (bm_principal message) (bm_topic message)
      then ((ESP_OK, None), rt)
      else (case policy_audit now_us (bm_principal message) ''mqtt_publish'' ''capability_denied'' rt of
              (audit, rt1) \<Rightarrow> ((ESP_ERR_NOT_ALLOWED, audit), rt1)))"

text \<open>The end of a connection; the start of one only queues a publication.\<close>

definition disconnect_section :: "u64 \<Rightarrow> mqtt_runtime \<Rightarrow> (bool \<times> bool) \<times> mqtt_runtime" where
  "disconnect_section connection_id rt =
     (case argus_mqtt_session_disconnect connection_id (ru_session rt) of
        (changed, core) \<Rightarrow> ((changed, lc_lease_machine_id core \<noteq> []), rt\<lparr> ru_session := core \<rparr>))"

definition broker_client_cb ::
  "runtime_env \<Rightarrow> bool \<Rightarrow> client_info \<Rightarrow> mqtt_runtime \<Rightarrow> mqtt_runtime \<times> publication list" where
  "broker_client_cb env connected client rt =
     (if connected then (snd (enqueue EVENT_PUBLISH_BASELINE rt), [])
      else (case disconnect_section (ci_connection_id client) rt of
              ((changed, still_owned), rt1) \<Rightarrow>
                if \<not> changed then (rt1, [])
                else (let rt2 = (if still_owned
                                 then set_authority_reason argus_mqtt_authority_reason_for_disconnect (re_other env 0 rt1)
                                 else re_other env 0 rt1)
                      in (rt2, publish_value rt2 T_state_supervisor_link (tx ''OFFLINE'') True
                            @ publish_authority_state (re_profile env 0) (re_clock env 0) (re_clock env 1) rt2))))"

section \<open>Start and tick\<close>

definition argus_mqtt_runtime_init :: "bool \<Rightarrow> bool \<Rightarrow> mqtt_runtime \<Rightarrow> esp_err \<times> mqtt_runtime" where
  "argus_mqtt_runtime_init created task_created rt =
     (if ru_initialized rt then (ESP_ERR_INVALID_STATE, rt)
      else if \<not> created then (ESP_ERR_NO_MEM, rt)
      else if \<not> task_created then (ESP_ERR_NO_MEM, rt)
      else (ESP_OK, rt\<lparr> ru_initialized := True \<rparr>))"

text \<open>
  The draws of the random source until they are not both zero; \<open>i\<close> counts the rounds. The loop
  ends if the source gives such a pair.
\<close>

partial_function (option) draw_session :: "(nat \<Rightarrow> u32 \<times> u32) \<Rightarrow> nat \<Rightarrow> (u32 \<times> u32) option" where
  "draw_session random i =
     (if fst (random i) = 0 \<and> snd (random i) = 0 then draw_session random (i + 1) else Some (random i))"

text \<open>
  \<open>ident\<close> is the answer of the identity component. The topic builder refuses identifiers that are
  not valid before it touches the topics; a valid identifier has at most 32 characters, so the
  topics of valid identifiers always fit and the builder's size error, after which it would leave
  them partly written, does not occur.
\<close>

definition prepare_with ::
  "identity \<Rightarrow> u32 \<times> u32 \<Rightarrow> mqtt_runtime \<Rightarrow> esp_err \<times> mqtt_runtime" where
  "prepare_with ident random rt =
     (case argus_mqtt_session_format (fst random) (snd random) 17 of
        Inl e \<Rightarrow> (e, rt)
      | Inr session \<Rightarrow>
          (let rt1 = rt\<lparr> ru_queue := [], ru_identity := ident \<rparr>
           in case argus_mqtt_topics_build (Some (id_client_id ident)) (Some (id_unit_id ident)) of
                Inl e \<Rightarrow> (e, rt1\<lparr> ru_prepared := False \<rparr>)
              | Inr topics \<Rightarrow>
                  (ESP_OK, rt1\<lparr> ru_topics := topics, ru_session := argus_mqtt_session_core_init session,
                                ru_prepared := True, ru_dup := argus_mqtt_runtime_reset_duplicate_cache,
                                ru_authority_ready_ms := 0, ru_fallback_window_was_open := True \<rparr>)))"

definition argus_mqtt_runtime_prepare_start ::
  "bool \<Rightarrow> esp_err + identity \<Rightarrow> (nat \<Rightarrow> u32 \<times> u32) \<Rightarrow> mqtt_runtime \<Rightarrow> (esp_err \<times> mqtt_runtime) option" where
  "argus_mqtt_runtime_prepare_start broker_running ident random rt =
     (if \<not> ru_initialized rt \<or> broker_running then Some (ESP_ERR_INVALID_STATE, rt)
      else (case ident of
              Inl e \<Rightarrow> Some (e, rt)
            | Inr identity \<Rightarrow> map_option (\<lambda>drawn. prepare_with identity drawn rt) (draw_session random 0)))"

definition argus_mqtt_runtime_broker_started :: "u64 \<Rightarrow> bool \<Rightarrow> mqtt_runtime \<Rightarrow> esp_err \<times> mqtt_runtime" where
  "argus_mqtt_runtime_broker_started now_ms broker_running rt =
     (let rt1 = argus_mqtt_runtime_mark_authority_ready now_ms rt in
      if \<not> ru_prepared rt1 \<or> \<not> broker_running then (ESP_ERR_INVALID_STATE, rt1)
      else (case enqueue EVENT_PUBLISH_BASELINE rt1 of (sent, rt2) \<Rightarrow> (if sent then ESP_OK else ESP_ERR_NO_MEM, rt2)))"

definition tick_section :: "u64 \<Rightarrow> mqtt_runtime \<Rightarrow> bool \<times> mqtt_runtime" where
  "tick_section now_ms rt =
     (case argus_mqtt_session_tick now_ms (ru_session rt) of (stale, core) \<Rightarrow> (stale, rt\<lparr> ru_session := core \<rparr>))"

definition argus_mqtt_runtime_tick :: "runtime_env \<Rightarrow> bool \<Rightarrow> mqtt_runtime \<Rightarrow> mqtt_runtime \<times> publication list" where
  "argus_mqtt_runtime_tick env broker_running rt =
     (if \<not> ru_prepared rt \<or> \<not> broker_running then (rt, [])
      else
        (let (stale, rt1) = tick_section (re_clock env 0) rt;
             (rt2, p1) = (if stale
                          then (let rt' = set_authority_reason argus_mqtt_authority_reason_for_expiry (re_other env 0 rt1)
                                in (rt', publish_authority_state (re_profile env 0) (re_clock env 1) (re_clock env 2) rt'))
                          else (rt1, []));
             rt3 = re_other env 1 rt2;
             window_open_now = core_acquisition_window_open (re_clock env 3) rt3;
             rt4 = re_other env 2 rt3;
             unowned = (lc_lease_machine_id (ru_session rt4) = []);
             p2 = (if ru_fallback_window_was_open rt4 \<and> \<not> window_open_now \<and> unowned
                   then publish_authority_state (re_profile env 1) (re_clock env 4) (re_clock env 5) rt4 else []);
             rt5 = rt4\<lparr> ru_fallback_window_was_open := window_open_now \<rparr>;
             (p3, rt6) = publish_operational_snapshot (re_observe env 0) rt5
         in (rt6, p1 @ p2 @ p3)))"

definition argus_mqtt_runtime_get_session :: "nat \<Rightarrow> mqtt_runtime \<Rightarrow> esp_err + u8 list" where
  "argus_mqtt_runtime_get_session out_size rt =
     (if out_size < 17 \<or> \<not> ru_prepared rt then Inl ESP_ERR_INVALID_ARG
      else Inr (c_strlcpy out_size (lc_session (ru_session rt))))"

end
