(* ===== verification/Mqtt_Session_Props.thy ===== *)
theory Mqtt_Session_Props
  imports Mqtt_Handlers
begin

text \<open>
  The command authority in every interleaving of the runtime's tasks. The sections under the
  runtime's mutex are the steps of a relation on the runtime; the handlers, the callbacks and
  the tick are shown to be sequences of such steps. On the steps: ownership moves only by
  grant, release or expiry and always with a new epoch, an epoch is never reused (for fewer
  than \<open>2 ^ 32 - 1\<close> moves), and a healthy lease of the supervisor cannot be taken away.
\<close>

section \<open>Steps\<close>

text \<open>The number of moves of the epoch is counted: \<open>moved\<close> says whether a step is one.\<close>

inductive section_step :: "sha256 \<Rightarrow> bool \<Rightarrow> mqtt_runtime \<Rightarrow> mqtt_runtime \<Rightarrow> bool" for sha where
  heartbeat: "heartbeat_section message hb now rt = (x, rt') \<Longrightarrow> section_step sha False rt rt'"
| authority: "authority_section sha message release cx rt = ((was_online, out), rt') \<Longrightarrow>
    moved = (ao_stage out = STAGE_RELEASE_ACCEPTED
             \<or> ao_stage out = STAGE_REQUEST_EVALUATED \<and> ao_request_result out = AUTHORITY_GRANTED) \<Longrightarrow>
    section_step sha moved rt rt'"
| commit: "section_step sha False rt
    (rt\<lparr> ru_session := argus_mqtt_session_commit_result command payload result (ru_session rt) \<rparr>)"
| disconnect: "disconnect_section connection_id rt = (x, rt') \<Longrightarrow> section_step sha False rt rt'"
| tick: "tick_section now rt = (stale, rt') \<Longrightarrow> section_step sha stale rt rt'"
| other: "ru_session rt' = ru_session rt \<Longrightarrow> ru_dup rt' = ru_dup rt \<Longrightarrow> ru_topics rt' = ru_topics rt \<Longrightarrow>
    section_step sha False rt rt'"

inductive section_run :: "sha256 \<Rightarrow> mqtt_runtime \<Rightarrow> nat \<Rightarrow> mqtt_runtime \<Rightarrow> bool" for sha rt where
  nil: "section_run sha rt 0 rt"
| snoc: "section_run sha rt n rt1 \<Longrightarrow> section_step sha moved rt1 rt2 \<Longrightarrow>
    section_run sha rt (if moved then Suc n else n) rt2"

lemma run_step: "section_step sha moved rt rt' \<Longrightarrow> \<exists>n. section_run sha rt n rt'"
  using section_run.snoc [OF section_run.nil] by blast

lemma run_append: "section_run sha b m c \<Longrightarrow> section_run sha a n b \<Longrightarrow> section_run sha a (n + m) c"
proof (induction rule: section_run.induct)
  case (snoc m rt1 moved rt2)
  then show ?case using section_run.snoc [of sha a "n + m" rt1 moved rt2] by (cases moved) simp_all
qed simp

lemma run_trans: "\<exists>n. section_run sha a n b \<Longrightarrow> \<exists>n. section_run sha b n c \<Longrightarrow> \<exists>n. section_run sha a n c"
  using run_append by blast

section \<open>What a step does to the lease\<close>

definition next_epoch :: "u32 \<Rightarrow> u32" where
  "next_epoch e = (if e + 1 = 0 then 1 else e + 1)"

lemma advance_epoch_fields [simp]:
  "lc_authority_epoch (advance_epoch core) = next_epoch (lc_authority_epoch core)"
  "lc_lease_machine_id (advance_epoch core) = lc_lease_machine_id core"
  "lc_session (advance_epoch core) = lc_session core"
  by (simp_all add: advance_epoch_def next_epoch_def)

lemma record_holder_fields [simp]:
  "lc_authority_epoch (lease_record_holder i t core) = lc_authority_epoch core"
  "lc_session (lease_record_holder i t core) = lc_session core"
  "lc_lease_machine_id (lease_record_holder [] t core) = []"
  by (simp_all add: lease_record_holder_def)

text \<open>
  The effect of a step on the session core: either the holder and the epoch stay, or the
  epoch is the next one. The controller session never changes.
\<close>

definition lease_kept :: "session_core \<Rightarrow> session_core \<Rightarrow> bool" where
  "lease_kept c c' \<longleftrightarrow> lc_authority_epoch c' = lc_authority_epoch c \<and> lc_session c' = lc_session c
     \<and> (lc_lease_machine_id c' = lc_lease_machine_id c)"

lemma lease_kept_refl [simp]: "lease_kept c c"
  by (simp add: lease_kept_def)

lemma cstr_stored: "c_strlcpy 37 s = s \<Longrightarrow> c_strlcpy 37 (c_strlcpy 37 s) = c_strlcpy 37 s"
  by simp

lemma strlcpy_idem: "c_strlcpy n (c_strlcpy n s) = c_strlcpy n s"
proof -
  have "cstr (take k (cstr s)) = take k (cstr s)" for k
    by (simp add: cstr_def takeWhile_eq_all_conv) (metis in_set_takeD set_takeWhileD)
  then show ?thesis by (simp add: c_strlcpy_def)
qed

text \<open>Stored identifiers fit their buffer: the invariant that makes comparisons exact.\<close>

definition id_stored :: "session_core \<Rightarrow> bool" where
  "id_stored c \<longleftrightarrow> c_strlcpy 37 (lc_lease_machine_id c) = lc_lease_machine_id c"

lemma accept_heartbeat_kept:
  assumes "argus_mqtt_session_accept_heartbeat conn i t hb now c = (e, c')" "i = lc_lease_machine_id c" "i \<noteq> []" "id_stored c"
  shows "lease_kept c c'"
  using assms
  by (auto simp: argus_mqtt_session_accept_heartbeat_def lease_record_holder_def lease_kept_def id_stored_def split: if_splits)

lemma request_effect:
  assumes "argus_mqtt_session_request_authority conn i t profile window now c = (res, c')"
  shows "if res = AUTHORITY_GRANTED
    then lc_authority_epoch c' = next_epoch (lc_authority_epoch c) \<and> lc_session c' = lc_session c
      \<and> lc_lease_machine_id c' = c_strlcpy 37 i \<and> lc_lease_client_type c' = t \<and> i \<noteq> []
      \<and> profile_permits profile t window
      \<and> (lc_lease_machine_id c = [] \<or> lease_expired now c \<or> may_preempt t (lc_lease_client_type c))
    else lease_kept c c' \<and> (res \<noteq> AUTHORITY_ALREADY_HELD \<longrightarrow> c' = c)"
  using assms
  by (auto simp: argus_mqtt_session_request_authority_def lease_kept_def lease_record_holder_def advance_epoch_def next_epoch_def
      Let_def split: if_splits)

lemma request_with_state_effect:
  assumes "argus_mqtt_session_request_authority_with_state conn i t profile window running epoch now c = (res, c')"
  shows "if res = AUTHORITY_GRANTED
    then lc_authority_epoch c' = next_epoch (lc_authority_epoch c) \<and> lc_session c' = lc_session c
      \<and> lc_lease_machine_id c' = c_strlcpy 37 i \<and> lc_lease_client_type c' = t \<and> i \<noteq> []
      \<and> profile_permits profile t window
      \<and> (lc_lease_machine_id c = [] \<or> lease_expired now c
         \<or> may_preempt t (lc_lease_client_type c) \<and> (lease_held_by c i \<or> epoch \<noteq> 0 \<and> \<not> running))
    else lease_kept c c' \<and> (res \<noteq> AUTHORITY_ALREADY_HELD \<longrightarrow> c' = c)"
proof (cases "argus_mqtt_session_request_authority conn i t profile window now c = (res, c')")
  case True
  note r = request_effect [OF True]
  show ?thesis
  proof (cases "res = AUTHORITY_GRANTED")
    case g: True
    then show ?thesis using r assms True
      by (auto simp: argus_mqtt_session_request_authority_with_state_def Let_def split: if_splits)
  next
    case False
    then show ?thesis using r by simp
  qed
next
  case False
  then show ?thesis using assms
    by (auto simp: argus_mqtt_session_request_authority_with_state_def Let_def split: if_splits)
qed

lemma release_effect:
  assumes "argus_mqtt_session_release_authority i c = (res, c')"
  shows "if res then lc_authority_epoch c' = next_epoch (lc_authority_epoch c) \<and> lc_session c' = lc_session c
      \<and> lc_lease_machine_id c' = [] \<and> lease_held_by c i
    else c' = c"
  using assms by (auto simp: argus_mqtt_session_release_authority_def split: if_splits)

lemma tick_effect:
  assumes "argus_mqtt_session_tick now c = (res, c')"
  shows "if res then lc_authority_epoch c' = next_epoch (lc_authority_epoch c) \<and> lc_session c' = lc_session c
      \<and> lc_lease_machine_id c' = [] \<and> lease_expired now c
    else c' = c"
  using assms by (auto simp: argus_mqtt_session_tick_def lease_expired_def not_less split: if_splits)

lemma disconnect_effect:
  assumes "argus_mqtt_session_disconnect conn c = (res, c')"
  shows "lease_kept c c'" "lc_last_heartbeat_ms c' = lc_last_heartbeat_ms c" "lc_lease_client_type c' = lc_lease_client_type c"
  using assms by (auto simp: argus_mqtt_session_disconnect_def lease_kept_def split: if_splits)

section \<open>Admission of a request\<close>

lemma emit_fields [simp]:
  "fst (emit_authority_result sha out req message core cx outcome reason release to_cache cache)
     = out\<lparr> ao_published := Some (build_authority_result_json (case req of None \<Rightarrow> [] | Some q \<Rightarrow> aq_request_id q)
                                 core cx outcome reason) \<rparr>"
  by (simp add: emit_authority_result_def case_prod_beta Let_def)

lemma outcome_at_fields [simp]: "ao_stage (outcome_at s) = s" "ao_request_result (outcome_at s) = AUTHORITY_GRANTED"
  by (simp_all add: outcome_at_def)

text \<open>What an admitted request did: one of the two operations of the session core, or nothing.\<close>

lemma admit_effect:
  assumes run: "argus_mqtt_authority_admit sha message release cx c cache = (out, c', cache')"
  shows "(ao_stage out = STAGE_RELEASE_ACCEPTED \<and> release
        \<and> argus_mqtt_session_release_authority (mp_identifier (bm_principal message)) c = (True, c'))
    \<or> (ao_stage out = STAGE_REQUEST_EVALUATED \<and> \<not> release
        \<and> (\<exists>req. argus_mqtt_decode_authority_request release (bm_payload message) = Inr req
             \<and> aq_session req = lc_session c \<and> (aq_authority_epoch req = 0 \<or> aq_authority_epoch req = lc_authority_epoch c)
             \<and> argus_mqtt_session_request_authority_with_state (bm_connection_id message)
                 (mp_identifier (bm_principal message)) (mp_client_type (bm_principal message)) (ac_profile cx)
                 (ac_window_open cx) (ac_running cx) (aq_authority_epoch req) (ac_now_ms cx) c
               = (ao_request_result out, c')))
    \<or> (ao_stage out \<notin> {STAGE_RELEASE_ACCEPTED, STAGE_REQUEST_EVALUATED} \<and> c' = c)"
proof (cases "bm_retain message \<or> bm_qos message \<noteq> 1")
  case True
  then show ?thesis using run
    by (cases "bm_retain message") (auto simp: argus_mqtt_authority_admit_def case_prod_beta)
next
  case env: False
  show ?thesis
  proof (cases "argus_mqtt_decode_authority_request release (bm_payload message)")
    case (Inl e)
    then show ?thesis using run env by (auto simp: argus_mqtt_authority_admit_def case_prod_beta)
  next
    case (Inr req)
    note open1 = run env Inr
    show ?thesis
    proof (cases "aq_session req \<noteq> lc_session c \<or> auth_dup_find (aq_session req) (aq_request_id req) release cache \<noteq> None")
      case True
      then show ?thesis using open1
        by (auto simp: argus_mqtt_authority_admit_def case_prod_beta split: if_splits)
    next
      case fresh: False
      show ?thesis
      proof (cases release)
        case True
        obtain res c1 where rel: "argus_mqtt_session_release_authority (mp_identifier (bm_principal message)) c = (res, c1)" by fastforce
        show ?thesis using open1 fresh True rel release_effect [OF rel]
          by (auto simp: argus_mqtt_authority_admit_def case_prod_beta Let_def split: if_splits)
      next
        case False
        obtain res c1 where req: "argus_mqtt_session_request_authority_with_state (bm_connection_id message)
                 (mp_identifier (bm_principal message)) (mp_client_type (bm_principal message)) (ac_profile cx)
                 (ac_window_open cx) (ac_running cx) (aq_authority_epoch req) (ac_now_ms cx) c = (res, c1)" by fastforce
        show ?thesis using open1 fresh False req
          by (auto simp: argus_mqtt_authority_admit_def case_prod_beta Let_def split: if_splits)
      qed
    qed
  qed
qed

text \<open>The moves of the lease: to whom, and why it was possible.\<close>

definition lease_moved :: "session_core \<Rightarrow> session_core \<Rightarrow> bool" where
  "lease_moved c c' \<longleftrightarrow> lc_authority_epoch c' = next_epoch (lc_authority_epoch c) \<and> lc_session c' = lc_session c"

lemma step_effect:
  assumes "section_step sha moved rt rt'" "id_stored (ru_session rt)"
  shows "if moved then lease_moved (ru_session rt) (ru_session rt') else lease_kept (ru_session rt) (ru_session rt')"
    and "id_stored (ru_session rt')"
proof -
  have "(if moved then lease_moved (ru_session rt) (ru_session rt') else lease_kept (ru_session rt) (ru_session rt'))
      \<and> id_stored (ru_session rt')"
    using assms
  proof cases
    case (heartbeat message hb now x)
    obtain e c' where h: "argus_mqtt_session_accept_heartbeat (bm_connection_id message) (mp_identifier (bm_principal message))
        (mp_client_type (bm_principal message)) hb now (ru_session rt) = (e, c')" by fastforce
    show ?thesis
    proof (cases "lc_lease_machine_id (ru_session rt) \<noteq> [] \<and> lc_lease_machine_id (ru_session rt) = mp_identifier (bm_principal message)")
      case True
      then show ?thesis using heartbeat h accept_heartbeat_kept [OF h _ _ assms(2)] assms(2)
        by (auto simp: heartbeat_section_def id_stored_def lease_kept_def)
    next
      case False
      then show ?thesis using heartbeat assms(2) by (auto simp: heartbeat_section_def Let_def)
    qed
  next
    case (authority message release cx was_online out)
    obtain c' cache' where a: "argus_mqtt_authority_admit sha message release cx (ru_session rt) (ru_dup rt) = (out, c', cache')"
        "rt' = rt\<lparr> ru_session := c', ru_dup := cache' \<rparr>"
      using authority by (auto simp: authority_section_def split: prod.splits)
    consider (release) "ao_stage out = STAGE_RELEASE_ACCEPTED"
        "argus_mqtt_session_release_authority (mp_identifier (bm_principal message)) (ru_session rt) = (True, c')"
      | (request) ep where "ao_stage out = STAGE_REQUEST_EVALUATED"
          "argus_mqtt_session_request_authority_with_state (bm_connection_id message)
             (mp_identifier (bm_principal message)) (mp_client_type (bm_principal message)) (ac_profile cx)
             (ac_window_open cx) (ac_running cx) ep (ac_now_ms cx) (ru_session rt) = (ao_request_result out, c')"
      | (none) "ao_stage out \<notin> {STAGE_RELEASE_ACCEPTED, STAGE_REQUEST_EVALUATED}" "c' = ru_session rt"
      using admit_effect [OF a(1)] by blast
    then show ?thesis
    proof cases
      case release
      then show ?thesis using authority a(2) release_effect [OF release(2)] by (simp add: lease_moved_def id_stored_def c_strlcpy_def cstr_def)
    next
      case request
      then show ?thesis using authority a(2) request_with_state_effect [OF request(2)] assms(2)
        by (auto simp: lease_moved_def id_stored_def strlcpy_idem lease_kept_def split: if_splits)
    next
      case none
      then show ?thesis using authority a(2) assms(2) by auto
    qed
  next
    case (commit command payload result)
    then show ?thesis using assms(2) by (simp add: argus_mqtt_session_commit_result_def lease_kept_def id_stored_def)
  next
    case (disconnect connection_id x)
    obtain res c' where d: "argus_mqtt_session_disconnect connection_id (ru_session rt) = (res, c')" by fastforce
    then show ?thesis using disconnect assms(2) disconnect_effect [OF d]
      by (auto simp: disconnect_section_def id_stored_def lease_kept_def)
  next
    case (tick now)
    obtain res c' where t: "argus_mqtt_session_tick now (ru_session rt) = (res, c')" by fastforce
    then show ?thesis using tick assms(2) tick_effect [OF t]
      by (auto simp: tick_section_def id_stored_def lease_moved_def c_strlcpy_def cstr_def split: if_splits)
  next
    case other
    then show ?thesis using assms(2) by simp
  qed
  then show "if moved then lease_moved (ru_session rt) (ru_session rt') else lease_kept (ru_session rt) (ru_session rt')"
    "id_stored (ru_session rt')" by simp_all
qed

section \<open>Runs\<close>

lemma run_effect:
  assumes "section_run sha rt n rt'" "id_stored (ru_session rt)"
  shows "lc_authority_epoch (ru_session rt') = (next_epoch ^^ n) (lc_authority_epoch (ru_session rt))"
    and "lc_session (ru_session rt') = lc_session (ru_session rt)" and "id_stored (ru_session rt')"
proof -
  have "lc_authority_epoch (ru_session rt') = (next_epoch ^^ n) (lc_authority_epoch (ru_session rt))
      \<and> lc_session (ru_session rt') = lc_session (ru_session rt) \<and> id_stored (ru_session rt')"
    using assms
  proof induction
    case (snoc n rt1 moved rt2)
    then show ?case using step_effect [OF snoc(2)] by (cases moved) (auto simp: lease_moved_def lease_kept_def)
  qed simp
  then show "lc_authority_epoch (ru_session rt') = (next_epoch ^^ n) (lc_authority_epoch (ru_session rt))"
    "lc_session (ru_session rt') = lc_session (ru_session rt)" "id_stored (ru_session rt')" by simp_all
qed

lemma next_epoch_unat: "unat (next_epoch e) = unat e mod 4294967295 + 1"
proof (cases "e + 1 = 0")
  case True
  then have "e = - 1" by (metis add_eq_0_iff2)
  then show ?thesis by (simp add: next_epoch_def unsigned_minus_1_eq_mask mask_eq_exp_minus_1)
next
  case False
  then have u: "unat (e + 1) = Suc (unat e)" by (metis Suc_eq_plus1 add.commute unatSuc)
  have "unat (e + 1) < 4294967296" using unat_lt_u32 [of "e + 1"] by simp
  then show ?thesis using False u by (simp add: next_epoch_def)
qed

lemma next_epoch_funpow: "unat ((next_epoch ^^ Suc n) e) = (unat e + n) mod 4294967295 + 1"
  by (induction n) (simp_all add: next_epoch_unat mod_Suc_eq mod_add_left_eq)

lemma next_epoch_fresh:
  assumes "0 < n" "n < 4294967295"
  shows "(next_epoch ^^ n) e \<noteq> e"
proof
  assume eq: "(next_epoch ^^ n) e = e"
  obtain k where k: "n = Suc k" using assms(1) gr0_implies_Suc by blast
  have u: "unat e = (unat e + k) mod 4294967295 + 1" using next_epoch_funpow [of k e] eq k by simp
  define x where "x = unat e - 1"
  have "(unat e + k) mod 4294967295 < 4294967295" by simp
  then have x: "unat e = x + 1" "x < 4294967295" using u by (auto simp: x_def)
  then have m: "(x + n) mod 4294967295 = x" using u k by simp
  show False
  proof (cases "x + n < 4294967295")
    case True
    then show False using m assms(1) by simp
  next
    case False
    then have "(x + n) mod 4294967295 = x + n - 4294967295" using x(2) assms(2) by (simp add: le_mod_geq)
    then show False using m assms False by simp
  qed
qed

section \<open>Handlers are runs\<close>

text \<open>An environment whose interference is itself made of steps.\<close>

definition steps_env :: "runtime_env \<Rightarrow> bool" where
  "steps_env env \<longleftrightarrow> (\<forall>i rt. \<exists>n. section_run (re_sha env) rt n (re_other env i rt))"

abbreviation runs_to :: "runtime_env \<Rightarrow> mqtt_runtime \<Rightarrow> mqtt_runtime \<Rightarrow> bool" where
  "runs_to env rt rt' \<equiv> \<exists>n. section_run (re_sha env) rt n rt'"

lemma runs_refl: "runs_to env rt rt"
  using section_run.nil by blast

lemma runs_other: "steps_env env \<Longrightarrow> runs_to env rt rt1 \<Longrightarrow> runs_to env rt (re_other env i rt1)"
  using run_trans unfolding steps_env_def by blast

lemma runs_same:
  "runs_to env rt rt1 \<Longrightarrow> ru_session rt2 = ru_session rt1 \<Longrightarrow> ru_dup rt2 = ru_dup rt1 \<Longrightarrow> ru_topics rt2 = ru_topics rt1 \<Longrightarrow>
     runs_to env rt rt2"
  using run_trans run_step [OF section_step.other] by blast

lemma note_reason_same [simp]:
  "ru_session (note_reason x rt) = ru_session rt" "ru_dup (note_reason x rt) = ru_dup rt" "ru_topics (note_reason x rt) = ru_topics rt"
  "ru_session (set_authority_reason s rt) = ru_session rt" "ru_dup (set_authority_reason s rt) = ru_dup rt"
  "ru_topics (set_authority_reason s rt) = ru_topics rt"
  by (simp_all add: note_reason_def set_authority_reason_def split: option.split)

lemma operational_same [simp]:
  "ru_session (snd (publish_operational_snapshot ob rt)) = ru_session rt"
  "ru_dup (snd (publish_operational_snapshot ob rt)) = ru_dup rt"
  "ru_topics (snd (publish_operational_snapshot ob rt)) = ru_topics rt"
  by (simp_all add: publish_operational_snapshot_def publish_admission_conditions_def Let_def case_prod_beta)

lemma heartbeat_runs: "steps_env env \<Longrightarrow> runs_to env rt (fst (handle_heartbeat env message rt))"
proof (cases "bm_policy_admitted message \<and> (\<exists>hb. argus_mqtt_decode_heartbeat (bm_payload message) = Inr hb)")
  case True
  then obtain hb where hb: "argus_mqtt_decode_heartbeat (bm_payload message) = Inr hb" by blast
  obtain x y z rt1 where h: "heartbeat_section message hb (re_clock env 0) rt = ((x, y, z), rt1)" by (metis prod_cases3 surj_pair)
  assume env: "steps_env env"
  have "runs_to env rt rt1" using run_step [OF section_step.heartbeat [OF h]] by blast
  note r1 = this
  have "runs_to env rt (set_authority_reason ''CORE_REACQUISITION'' (re_other env 0 rt1))"
    by (rule runs_same [OF runs_other [OF env r1]]) simp_all
  then show ?thesis using True hb h r1 by (cases "x \<and> z = ESP_OK"; cases y) (simp_all add: handle_heartbeat_def Let_def)
next
  case False
  then show ?thesis using runs_refl by (auto simp: handle_heartbeat_def split: sum.split)
qed

lemma authority_runs: "steps_env env \<Longrightarrow> runs_to env rt (fst (handle_authority_request env message release rt))"
proof (cases "\<not> bm_policy_admitted message \<or> mp_permissions (bm_principal message) AND PERMISSION_REQUEST_AUTHORITY = 0")
  case True
  then show ?thesis using runs_refl by (auto simp: handle_authority_request_def)
next
  case False
  assume env: "steps_env env"
  define cx where "cx = \<lparr> ac_profile = re_profile env 0, ac_window_open = core_acquisition_window_open (re_clock env 0) rt,
     ac_running = machine_running (sn_machine_state (ob_state (re_observe env 0))), ac_now_ms = re_clock env 1 \<rparr>"
  obtain w out rt1 where a: "authority_section (re_sha env) message release cx (re_other env 0 rt) = ((w, out), rt1)"
    by (metis surj_pair)
  have r1: "runs_to env rt rt1"
    using run_trans [OF runs_other [OF env runs_refl] run_step [OF section_step.authority [OF a refl]]] by blast
  have "fst (handle_authority_request env message release rt) = rt1
      \<or> (\<exists>x. fst (handle_authority_request env message release rt) = note_reason x (re_other env 1 rt1))"
    using False a by (auto simp: handle_authority_request_def Let_def cx_def)
  then show ?thesis using r1 runs_same [OF runs_other [OF env r1]] by (metis note_reason_same(1-3))
qed

lemma command_runs: "steps_env env \<Longrightarrow> runs_to env rt (fst (fst (handle_command env message action rt r)))"
proof -
  assume env: "steps_env env"
  have "fst (fst (dispatch_command env message action command rt r)) = rt
     \<or> (\<exists>result. fst (fst (dispatch_command env message action command rt r)) = snd (publish_operational_snapshot (re_observe env 0)
          ((re_other env 0 rt)\<lparr> ru_session := argus_mqtt_session_commit_result command (bm_payload message) result
             (ru_session (re_other env 0 rt)) \<rparr>)))" for command
    by (auto simp: dispatch_command_def Let_def case_prod_beta)
  moreover have "runs_to env rt (snd (publish_operational_snapshot (re_observe env 0)
          ((re_other env 0 rt)\<lparr> ru_session := argus_mqtt_session_commit_result command (bm_payload message) result
             (ru_session (re_other env 0 rt)) \<rparr>)))" for command result
    using run_trans [OF runs_other [OF env runs_refl] run_step [OF section_step.commit]] by (rule runs_same) simp_all
  ultimately have "runs_to env rt (fst (fst (dispatch_command env message action command rt r)))" for command
    using runs_refl by metis
  then show ?thesis using runs_refl
    by (auto simp: handle_command_def case_prod_beta split: command_verdict.split)
qed

lemma tick_runs: "steps_env env \<Longrightarrow> runs_to env rt (fst (argus_mqtt_runtime_tick env running rt))"
proof -
  assume env: "steps_env env"
  obtain stale rt1 where t: "tick_section (re_clock env 0) rt = (stale, rt1)" by fastforce
  have r1: "runs_to env rt rt1" using run_step [OF section_step.tick [OF t]] by blast
  define rt2 where "rt2 = (if stale then set_authority_reason argus_mqtt_authority_reason_for_expiry (re_other env 0 rt1) else rt1)"
  have r2: "runs_to env rt rt2"
    unfolding rt2_def using r1 runs_same [OF runs_other [OF env r1]] by simp
  show ?thesis
  proof (cases "ru_prepared rt \<and> running")
    case True
    have "\<exists>rt5. fst (argus_mqtt_runtime_tick env running rt) = snd (publish_operational_snapshot (re_observe env 0) rt5)
        \<and> ru_session rt5 = ru_session (re_other env 2 (re_other env 1 rt2)) \<and> ru_dup rt5 = ru_dup (re_other env 2 (re_other env 1 rt2))
        \<and> ru_topics rt5 = ru_topics (re_other env 2 (re_other env 1 rt2))"
      using True t by (auto simp: argus_mqtt_runtime_tick_def Let_def rt2_def case_prod_beta)
    then show ?thesis using runs_same [OF runs_other [OF env runs_other [OF env r2]]] by (metis operational_same(1-3))
  next
    case False
    then show ?thesis using runs_refl by (auto simp: argus_mqtt_runtime_tick_def)
  qed
qed

lemma client_event_runs: "steps_env env \<Longrightarrow> runs_to env rt (fst (broker_client_cb env connected client rt))"
proof -
  assume env: "steps_env env"
  obtain x y rt1 where d: "disconnect_section (ci_connection_id client) rt = ((x, y), rt1)" by (metis surj_pair)
  have r1: "runs_to env rt rt1" using run_step [OF section_step.disconnect [OF d]] by blast
  have "runs_to env rt (snd (enqueue EVENT_PUBLISH_BASELINE rt))"
    by (rule runs_same [OF runs_refl]) (simp_all add: enqueue_def)
  then show ?thesis using d r1 runs_other [OF env r1] runs_same [OF runs_other [OF env r1]]
    by (auto simp: broker_client_cb_def Let_def)
qed

end
