(* ===== verification/Mqtt_Decode_Props.thy ===== *)
theory Mqtt_Decode_Props
  imports Mqtt_Authority
begin

text \<open>
  The strict decoders of the wire contract. What they accept is well-formed, whatever the bytes
  of the payload were; and every well-formed value written in the plain form, with the members
  in their order and no white space, is decoded to itself.
\<close>

section \<open>What is accepted\<close>

text \<open>A read value has the kind of its member.\<close>

primrec of_kind :: "value_kind \<Rightarrow> json_value \<Rightarrow> bool" where
  "of_kind (K_string n) v \<longleftrightarrow> (\<exists>s. v = V_string s)"
| "of_kind K_u32 v \<longleftrightarrow> (\<exists>w. v = V_u32 w)"
| "of_kind K_true v \<longleftrightarrow> v = V_true"

lemma parse_value_kind: "parse_value k cursor = Some (v, rest) \<Longrightarrow> of_kind k v"
  by (cases k) auto

lemma decode_members_invariant:
  assumes "decode_members spec seen after_comma d cursor = Inr (seen', d', rest)" "I seen d"
    and "\<And>key f v s d. spec key = Some f \<Longrightarrow> of_kind (fs_kind f) v \<Longrightarrow> fs_check f v \<Longrightarrow> I s d \<Longrightarrow>
           I (s OR fs_bit f) (fs_store f v d)"
  shows "I seen' d'"
  using assms
proof (induction spec seen after_comma d cursor rule: decode_members.induct)
  case (1 spec seen after_comma d cursor)
  define c where "c = skip_ws cursor"
  show ?case
  proof (cases "c \<noteq> [] \<and> hd c = 125")
    case True
    then show ?thesis using "1.prems"(1,2) by (auto simp: decode_members.simps [of spec] c_def Let_def split: if_splits)
  next
    case body: False
    obtain key c1 where key: "parse_string 24 c = Some (key, c1)"
      using body "1.prems"(1) by (cases "parse_string 24 c") (auto simp: decode_members.simps [of spec] c_def Let_def)
    obtain c2 where colon: "consume 58 c1 = Some c2"
      using body key "1.prems"(1) by (cases "consume 58 c1") (auto simp: decode_members.simps [of spec] c_def Let_def)
    obtain f where f: "spec key = Some f"
      using body key colon "1.prems"(1) by (cases "spec key") (auto simp: decode_members.simps [of spec] c_def Let_def)
    have fresh: "seen AND fs_bit f = 0"
      using body key colon f "1.prems"(1)
      by (cases "seen AND fs_bit f = 0") (auto simp: decode_members.simps [of spec] c_def Let_def)
    obtain v c3 where v: "parse_value (fs_kind f) c2 = Some (v, c3)"
      using body key colon f fresh "1.prems"(1)
      by (cases "parse_value (fs_kind f) c2") (auto simp: decode_members.simps [of spec] c_def Let_def)
    have check: "fs_check f v"
      using body key colon f fresh v "1.prems"(1)
      by (cases "fs_check f v") (auto simp: decode_members.simps [of spec] c_def Let_def)
    have step: "I (seen OR fs_bit f) (fs_store f v d)"
      using "1.prems"(3) [OF f parse_value_kind [OF v] check "1.prems"(2)] .
    define c4 where "c4 = skip_ws c3"
    show ?thesis
    proof (cases "c4 \<noteq> [] \<and> hd c4 = 44")
      case True
      then have "decode_members spec (seen OR fs_bit f) True (fs_store f v d) (tl c4) = Inr (seen', d', rest)"
        using body key colon f fresh v check "1.prems"(1)
        by (auto simp: decode_members.simps [of spec seen] c_def c4_def Let_def split: if_splits)
      then show ?thesis
        using "1.IH" [OF c_def _ key refl colon f _ v refl _ c4_def True] body fresh check step "1.prems"(3) by blast
    next
      case False
      then show ?thesis using body key colon f fresh v check "1.prems"(1) step
        by (auto simp: decode_members.simps [of spec] c_def c4_def Let_def split: if_splits)
    qed
  qed
qed

lemma decode_object_invariant:
  assumes "decode_object spec zero payload = Inr (seen, d)" "I 0 zero"
    and "\<And>key f v s d. spec key = Some f \<Longrightarrow> of_kind (fs_kind f) v \<Longrightarrow> fs_check f v \<Longrightarrow> I s d \<Longrightarrow>
           I (s OR fs_bit f) (fs_store f v d)"
  shows "I seen d"
proof -
  obtain cursor rest where "decode_members spec 0 False zero cursor = Inr (seen, d, rest)"
    using assms(1) by (auto simp: decode_object_def split: if_splits option.splits sum.splits)
  then show ?thesis using decode_members_invariant assms(2,3) by metis
qed

definition wf_heartbeat :: "mqtt_heartbeat \<Rightarrow> bool" where
  "wf_heartbeat h \<longleftrightarrow> valid_session (hb_session h) \<and> hb_counter h \<noteq> 0"

definition wf_command :: "mqtt_action \<Rightarrow> int \<Rightarrow> mqtt_command \<Rightarrow> bool" where
  "wf_command action cap c \<longleftrightarrow>
     operational action \<and> mc_action c = action \<and> valid_session (mc_session c) \<and> mc_sequence c \<noteq> 0
     \<and> valid_command_id (mc_command_id c) \<and> mc_forward c
     \<and> 0 \<le> mc_target_rpm_milli c \<and> mc_target_rpm_milli c \<le> cap
     \<and> (action \<noteq> ACTION_SET_TARGET \<longrightarrow> mc_target_rpm_milli c = 0)"

definition wf_authority_request :: "bool \<Rightarrow> authority_request \<Rightarrow> bool" where
  "wf_authority_request release q \<longleftrightarrow>
     aq_schema q = 1 \<and> valid_request_id (aq_request_id q) \<and> valid_session (aq_session q)
     \<and> (if aq_has_intent q then valid_intent (aq_intent q) else aq_intent q = [])
     \<and> (release \<longrightarrow> aq_authority_epoch q \<noteq> 0)"

lemma heartbeat_wf:
  assumes "argus_mqtt_decode_heartbeat payload = Inr h"
  shows "wf_heartbeat h"
proof -
  define I where "I = (\<lambda>s :: u8. \<lambda>h :: mqtt_heartbeat. (bit s 0 \<longrightarrow> valid_session (hb_session h)) \<and> (bit s 1 \<longrightarrow> hb_counter h \<noteq> 0))"
  have o: "decode_object heartbeat_field \<lparr> hb_session = [], hb_counter = 0 \<rparr> payload = Inr (3, h)"
    using assms by (auto simp: argus_mqtt_decode_heartbeat_def split: sum.splits if_splits)
  have "I 3 h"
    by (rule decode_object_invariant [OF o, of I]; auto simp: I_def heartbeat_field_def bit_simps split: if_splits)
  then show ?thesis by (simp add: I_def wf_heartbeat_def)
qed

lemma command_wf:
  assumes "argus_mqtt_decode_command action cap payload = Inr c" "cap < 2 ^ 31"
  shows "wf_command action cap c"
proof -
  have o: "decode_object (command_field action cap) (command_zero action) payload = Inr (31, c)"
    and op: "operational action" "0 \<le> cap"
    using assms(1) by (auto simp: argus_mqtt_decode_command_def split: sum.splits if_splits)
  have small: "sint w = uint w" if "uint w \<le> cap" for w :: u32
    unfolding sint_uint by (rule signed_take_bit_int_eq_self) (use that assms(2) order_trans [OF _ uint_ge_0 [of w]] in simp_all)
  note inv = decode_object_invariant [OF o]
  note defs = command_field_def command_zero_def bit_simps
  have "bit (31 :: u8) 0 \<longrightarrow> valid_session (mc_session c)"
    by (rule inv [where I = "\<lambda>s c. bit s 0 \<longrightarrow> valid_session (mc_session c)"]; auto simp: defs split: if_splits)
  moreover have "bit (31 :: u8) 1 \<longrightarrow> mc_sequence c \<noteq> 0"
    by (rule inv [where I = "\<lambda>s c. bit s 1 \<longrightarrow> mc_sequence c \<noteq> 0"]; auto simp: defs split: if_splits)
  moreover have "bit (31 :: u8) 2 \<longrightarrow> valid_command_id (mc_command_id c)"
    by (rule inv [where I = "\<lambda>s c. bit s 2 \<longrightarrow> valid_command_id (mc_command_id c)"]; auto simp: defs split: if_splits)
  moreover have "mc_action c = action \<and> mc_forward c"
    by (rule inv [where I = "\<lambda>s c. mc_action c = action \<and> mc_forward c"]; auto simp: defs split: if_splits)
  moreover have "0 \<le> mc_target_rpm_milli c \<and> mc_target_rpm_milli c \<le> cap"
    by (rule inv [where I = "\<lambda>s c. 0 \<le> mc_target_rpm_milli c \<and> mc_target_rpm_milli c \<le> cap"];
        use op small in \<open>auto simp: defs split: if_splits\<close>)
  moreover have "action \<noteq> ACTION_SET_TARGET \<longrightarrow> mc_target_rpm_milli c = 0"
    by (rule inv [where I = "\<lambda>s c. action \<noteq> ACTION_SET_TARGET \<longrightarrow> mc_target_rpm_milli c = 0"]; auto simp: defs split: if_splits)
  ultimately show ?thesis using op by (simp add: wf_command_def)
qed

lemma authority_request_wf:
  assumes "argus_mqtt_decode_authority_request release payload = Inr q"
  shows "wf_authority_request release q"
proof -
  obtain s where o: "decode_object authority_field authority_request_zero payload = Inr (s, q)" and s: "s AND 15 = 15"
    and r: "release \<longrightarrow> aq_authority_epoch q \<noteq> 0"
    using assms by (auto simp: argus_mqtt_decode_authority_request_def split: sum.splits if_splits)
  have b: "bit s k" if "bit (15 :: u8) k" for k
    using that s by (metis bit_and_iff)
  have "bit s 0" "bit s 1" "bit s 2" by (rule b; simp)+
  note inv = decode_object_invariant [OF o]
  note defs = authority_field_def authority_request_zero_def bit_simps
  have "bit s 0 \<longrightarrow> aq_schema q = 1"
    by (rule inv [where I = "\<lambda>s q. bit s 0 \<longrightarrow> aq_schema q = 1"]; auto simp: defs split: if_splits)
  moreover have "bit s 1 \<longrightarrow> valid_request_id (aq_request_id q)"
    by (rule inv [where I = "\<lambda>s q. bit s 1 \<longrightarrow> valid_request_id (aq_request_id q)"]; auto simp: defs split: if_splits)
  moreover have "bit s 2 \<longrightarrow> valid_session (aq_session q)"
    by (rule inv [where I = "\<lambda>s q. bit s 2 \<longrightarrow> valid_session (aq_session q)"]; auto simp: defs split: if_splits)
  moreover have "if aq_has_intent q then valid_intent (aq_intent q) else aq_intent q = []"
    by (rule inv [where I = "\<lambda>s q. if aq_has_intent q then valid_intent (aq_intent q) else aq_intent q = []"];
        auto simp: defs split: if_splits)
  ultimately show ?thesis using r \<open>bit s 0\<close> \<open>bit s 1\<close> \<open>bit s 2\<close> by (simp add: wf_authority_request_def)
qed

section \<open>The plain form\<close>

definition plain_char :: "u8 \<Rightarrow> bool" where
  "plain_char c \<longleftrightarrow> 0x20 \<le> c \<and> c \<noteq> 34 \<and> c \<noteq> 92"

definition quoted :: "u8 list \<Rightarrow> u8 list" where
  "quoted s = 34 # s @ [34]"

definition member :: "string \<Rightarrow> u8 list \<Rightarrow> u8 list" where
  "member key value = quoted (str_bytes key) @ 58 # value"

fun members :: "u8 list list \<Rightarrow> u8 list" where
  "members [] = []"
| "members [m] = m"
| "members (m # ms) = m @ 44 # members ms"

definition object :: "u8 list list \<Rightarrow> u8 list" where
  "object ms = 123 # members ms @ [125]"

definition plain_heartbeat :: "mqtt_heartbeat \<Rightarrow> u8 list" where
  "plain_heartbeat h = object [member ''session'' (quoted (hb_session h)), member ''counter'' (dec_nat (unat (hb_counter h)))]"

definition plain_command :: "mqtt_command \<Rightarrow> u8 list" where
  "plain_command c = object
     [member ''session'' (quoted (mc_session c)), member ''sequence'' (dec_nat (unat (mc_sequence c))),
      member ''command_id'' (quoted (mc_command_id c)),
      member ''value'' (if mc_action c = ACTION_SET_TARGET then dec_nat (nat (mc_target_rpm_milli c)) else str_bytes ''true''),
      member ''authority_epoch'' (dec_nat (unat (mc_authority_epoch c)))]"

definition plain_authority_request :: "authority_request \<Rightarrow> u8 list" where
  "plain_authority_request q = object
     ([member ''schema'' (dec_nat (unat (aq_schema q))), member ''request_id'' (quoted (aq_request_id q)),
       member ''session'' (quoted (aq_session q)), member ''authority_epoch'' (dec_nat (unat (aq_authority_epoch q)))]
      @ (if aq_has_intent q then [member ''intent'' (quoted (aq_intent q))] else []))"

subsection \<open>Tokens\<close>

lemma skip_ws_head [simp]: "\<not> is_ws c \<Longrightarrow> skip_ws (c # rest) = c # rest"
  by (simp add: skip_ws_def)

lemma not_ws [simp]: "\<not> is_ws 34" "\<not> is_ws 58" "\<not> is_ws 44" "\<not> is_ws 125" "\<not> is_ws 123" "\<not> is_ws 116" "is_digit c \<Longrightarrow> \<not> is_ws c"
  by (auto simp: is_ws_def is_digit_def)

lemma string_body_plain:
  "list_all plain_char s \<Longrightarrow> len + length s < n \<Longrightarrow> string_body n len (s @ 34 # rest) = Some (s, rest)"
  by (induction s arbitrary: len) (auto simp: plain_char_def not_less)

lemma parse_string_quoted:
  "list_all plain_char s \<Longrightarrow> length s < n \<Longrightarrow> parse_string n (quoted s @ rest) = Some (s, rest)"
  by (simp add: parse_string_def quoted_def string_body_plain)

lemma digit_char: "k < 10 \<Longrightarrow> is_digit (48 + of_nat k) \<and> unat (48 + of_nat k - 48 :: u8) = k"
  for k :: nat
proof -
  assume k: "k < 10"
  then have "k \<in> {0, 1, 2, 3, 4, 5, 6, 7, 8, 9}" by auto
  then show ?thesis by (auto simp: is_digit_def)
qed

lemma u32_digits_dec:
  assumes "a * 10 ^ length (dec_nat n) + n \<le> 4294967295"
  shows "u32_digits a (dec_nat n @ rest) = u32_digits (a * 10 ^ length (dec_nat n) + n) rest"
  using assms
proof (induction n arbitrary: rest rule: dec_nat.induct)
  case (1 n)
  show ?case
  proof (cases "n < 10")
    case True
    then show ?thesis using "1.prems" digit_char [OF True] by (simp add: dec_nat.simps [of n])
  next
    case False
    define k where "k = length (dec_nat (n div 10))"
    have d: "dec_nat n = dec_nat (n div 10) @ [48 + of_nat (n mod 10)]" using False by (simp add: dec_nat.simps [of n])
    have sum: "(a * 10 ^ k + n div 10) * 10 + n mod 10 = a * 10 ^ length (dec_nat n) + n"
      by (simp add: d k_def algebra_simps)
    define x where "x = a * 10 ^ k + n div 10"
    have "x * 10 + n mod 10 \<le> 4294967295" unfolding x_def sum by (rule "1.prems")
    then have "x \<le> 4294967295" by linarith
    then have "a * 10 ^ k + n div 10 \<le> 4294967295" by (simp add: x_def)
    then show ?thesis using "1.IH" [OF False] digit_char [of "n mod 10"] sum "1.prems"
      by (simp add: d k_def ac_simps)
  qed
qed

lemma dec_nat_head: "dec_nat n \<noteq> [] \<and> is_digit (hd (dec_nat n)) \<and> (9 < n \<longrightarrow> hd (dec_nat n) \<noteq> 48)"
proof (induction n rule: dec_nat.induct)
  case (1 n)
  show ?case
  proof (cases "n < 10")
    case True
    then show ?thesis using digit_char by (simp add: dec_nat.simps [of n])
  next
    case False
    have "hd (dec_nat (n div 10)) \<noteq> 48"
    proof (cases "9 < n div 10")
      case small: False
      moreover have "n div 10 \<noteq> 0" using False by simp
      ultimately show ?thesis using digit_char [of "n div 10"] by (force simp: dec_nat.simps [of "n div 10"])
    qed (use "1.IH" [OF False] in simp)
    then show ?thesis using False "1.IH" by (simp add: dec_nat.simps [of n])
  qed
qed

lemma dec_nat_length: "n < 10 ^ Suc k \<Longrightarrow> length (dec_nat n) \<le> Suc k"
proof (induction k arbitrary: n)
  case (Suc k)
  then have "n div 10 < 10 ^ Suc k" by (simp add: less_mult_imp_div_less)
  then show ?case using Suc.IH [of "n div 10"] by (simp add: dec_nat.simps [of n])
qed (simp add: dec_nat.simps)

lemma dec_nat_digits: "list_all is_digit (dec_nat n)"
proof (induction n rule: dec_nat.induct)
  case (1 n)
  then show ?case using digit_char [of n] digit_char [of "n mod 10"] by (simp add: dec_nat.simps [of n])
qed

lemma parse_u32_dec:
  assumes "c = 44 \<or> c = 125"
  shows "parse_u32 (dec_nat (unat v) @ c # rest) = Some (v, c # rest)"
proof -
  obtain x xs where x: "dec_nat (unat v) = x # xs" using dec_nat_head [of "unat v"] by (cases "dec_nat (unat v)") auto
  have "unat v \<le> 4294967295" using unat_lt_u32 [of v] by linarith
  then have "u32_digits 0 (dec_nat (unat v) @ c # rest) = Some (unat v, c # rest)"
    using assms by (auto simp: u32_digits_dec is_digit_def)
  moreover have "is_digit x" and "xs \<noteq> [] \<longrightarrow> x \<noteq> 48"
    using dec_nat_head [of "unat v"] x by (auto simp: dec_nat.simps [of "unat v"] split: if_splits)
  ultimately show ?thesis using x assms by (auto simp: parse_u32_def)
qed

lemma parse_true_plain: "parse_true (str_bytes ''true'' @ rest) = Some rest"
  by (simp add: parse_true_def str_bytes_def)

subsection \<open>Members\<close>

lemma quoted_not_end: "skip_ws (quoted s @ rest) = quoted s @ rest" "hd (quoted s @ rest) \<noteq> 125"
  by (simp_all add: quoted_def)

lemma member_comma:
  assumes "list_all plain_char (str_bytes key)" "length key < 24" "spec (str_bytes key) = Some f" "seen AND fs_bit f = 0"
    and "parse_value (fs_kind f) (value @ 44 # rest) = Some (v, 44 # rest)" "fs_check f v"
  shows "decode_members spec seen after_comma d (member key value @ 44 # rest)
    = decode_members spec (seen OR fs_bit f) True (fs_store f v d) rest"
proof -
  have "parse_string 24 (quoted (str_bytes key) @ 58 # value @ 44 # rest) = Some (str_bytes key, 58 # value @ 44 # rest)"
    using parse_string_quoted [OF assms(1), of 24] assms(2) by (simp add: str_bytes_def)
  then show ?thesis using assms(3-6) quoted_not_end
    by (simp add: decode_members.simps [of spec seen] member_def consume_def Let_def)
qed

lemma member_last:
  assumes "list_all plain_char (str_bytes key)" "length key < 24" "spec (str_bytes key) = Some f" "seen AND fs_bit f = 0"
    and "parse_value (fs_kind f) (value @ 125 # rest) = Some (v, 125 # rest)" "fs_check f v"
  shows "decode_members spec seen after_comma d (member key value @ 125 # rest) = Inr (seen OR fs_bit f, fs_store f v d, rest)"
proof -
  have "parse_string 24 (quoted (str_bytes key) @ 58 # value @ 125 # rest) = Some (str_bytes key, 58 # value @ 125 # rest)"
    using parse_string_quoted [OF assms(1), of 24] assms(2) by (simp add: str_bytes_def)
  then show ?thesis using assms(3-6) quoted_not_end
    by (simp add: decode_members.simps [of spec seen] member_def consume_def Let_def)
qed

lemma value_quoted:
  "list_all plain_char s \<Longrightarrow> length s < n \<Longrightarrow> parse_value (K_string n) (quoted s @ rest) = Some (V_string s, rest)"
  by (simp add: parse_string_quoted)

lemma value_dec: "c = 44 \<or> c = 125 \<Longrightarrow> parse_value K_u32 (dec_nat (unat v) @ c # rest) = Some (V_u32 v, c # rest)"
  by (simp add: parse_u32_dec)

lemma value_true: "parse_value K_true (str_bytes ''true'' @ rest) = Some (V_true, rest)"
  by (simp add: parse_true_plain)

lemma alnum_plain: "b_isalnum c \<Longrightarrow> plain_char c"
  unfolding b_isalnum_def plain_char_def word_le_nat_alt by (auto simp: word_unat_eq_iff)

lemma digit_plain: "is_digit c \<or> 97 \<le> c \<and> c \<le> 102 \<Longrightarrow> plain_char c"
  unfolding is_digit_def plain_char_def word_le_nat_alt by (auto simp: word_unat_eq_iff)

lemma plain_texts:
  "valid_session s \<Longrightarrow> list_all plain_char s \<and> length s < 17"
  "valid_command_id s \<Longrightarrow> list_all plain_char s \<and> length s < 37"
  "valid_request_id s \<Longrightarrow> list_all plain_char s \<and> length s < 37"
proof -
  have "plain_char c" if "c = 45 \<or> c = 95 \<or> c = 46 \<or> c = 58" for c using that by (auto simp: plain_char_def)
  note marks = this
  show "valid_session s \<Longrightarrow> list_all plain_char s \<and> length s < 17"
    unfolding valid_session_def using digit_plain by (simp add: list_all_iff)
  show "valid_command_id s \<Longrightarrow> list_all plain_char s \<and> length s < 37"
    unfolding valid_command_id_def using alnum_plain marks by (fastforce simp: list_all_iff)
  show "valid_request_id s \<Longrightarrow> list_all plain_char s \<and> length s < 37"
    unfolding valid_request_id_def using alnum_plain marks by (fastforce simp: list_all_iff)
qed

lemma plain_intent: "valid_intent s \<Longrightarrow> list_all plain_char s \<and> length s < 25"
  unfolding valid_intent_def by (elim disjE) (simp_all add: str_bytes_def plain_char_def)

lemma plain_keys:
  "list_all plain_char (str_bytes ''session'')" "list_all plain_char (str_bytes ''counter'')"
  "list_all plain_char (str_bytes ''sequence'')" "list_all plain_char (str_bytes ''command_id'')"
  "list_all plain_char (str_bytes ''value'')" "list_all plain_char (str_bytes ''authority_epoch'')"
  "list_all plain_char (str_bytes ''schema'')" "list_all plain_char (str_bytes ''request_id'')"
  "list_all plain_char (str_bytes ''intent'')"
  by (simp_all add: str_bytes_def plain_char_def)

lemma of_char_u8 [simp]: "(of_char a :: u8) = of_char b \<longleftrightarrow> a = b"
proof -
  have "unat (of_char c :: u8) = of_char c" for c
  proof -
    have "(of_char c :: nat) < 256" using nat_of_char_less_256 .
    then have "unat (of_nat (of_char c) :: u8) = of_char c" by (simp add: unat_of_nat)
    then show ?thesis by (simp add: of_nat_of_char)
  qed
  then show ?thesis using of_char_eq_iff by metis
qed

lemma str_bytes_eq [simp]: "str_bytes s = str_bytes t \<longleftrightarrow> s = t"
  by (simp add: str_bytes_def inj_map_eq_map inj_def)

lemma decode_object_plain:
  assumes "length (object ms) < PAYLOAD_CAP" "0 \<notin> set (object ms)"
    and "decode_members spec 0 False zero (members ms @ [125]) = Inr (seen, d, [])"
  shows "decode_object spec zero (object ms) = Inr (seen, d)"
  using assms by (simp add: decode_object_def validate_payload_def object_def consume_def skip_ws_def)

text \<open>The members with the specification looked up, for rewriting.\<close>

lemma string_comma:
  assumes "spec (str_bytes key) \<noteq> None" "fs_kind (the (spec (str_bytes key))) = K_string n"
    and "list_all plain_char (str_bytes key)" "length key < 24" "list_all plain_char s" "length s < n"
    and "fs_check (the (spec (str_bytes key))) (V_string s)" "seen AND fs_bit (the (spec (str_bytes key))) = 0"
  shows "decode_members spec seen after_comma d (member key (quoted s) @ 44 # rest)
    = decode_members spec (seen OR fs_bit (the (spec (str_bytes key)))) True (fs_store (the (spec (str_bytes key))) (V_string s) d) rest"
  using assms by (intro member_comma) (auto simp: parse_string_quoted)

lemma string_last:
  assumes "spec (str_bytes key) \<noteq> None" "fs_kind (the (spec (str_bytes key))) = K_string n"
    and "list_all plain_char (str_bytes key)" "length key < 24" "list_all plain_char s" "length s < n"
    and "fs_check (the (spec (str_bytes key))) (V_string s)" "seen AND fs_bit (the (spec (str_bytes key))) = 0"
  shows "decode_members spec seen after_comma d (member key (quoted s) @ 125 # rest)
    = Inr (seen OR fs_bit (the (spec (str_bytes key))), fs_store (the (spec (str_bytes key))) (V_string s) d, rest)"
  using assms by (intro member_last) (auto simp: parse_string_quoted)

lemma number_comma:
  assumes "spec (str_bytes key) \<noteq> None" "fs_kind (the (spec (str_bytes key))) = K_u32"
    and "list_all plain_char (str_bytes key)" "length key < 24"
    and "fs_check (the (spec (str_bytes key))) (V_u32 v)" "seen AND fs_bit (the (spec (str_bytes key))) = 0"
  shows "decode_members spec seen after_comma d (member key (dec_nat (unat v)) @ 44 # rest)
    = decode_members spec (seen OR fs_bit (the (spec (str_bytes key)))) True (fs_store (the (spec (str_bytes key))) (V_u32 v) d) rest"
  using assms by (intro member_comma) (auto simp: parse_u32_dec)

lemma number_last:
  assumes "spec (str_bytes key) \<noteq> None" "fs_kind (the (spec (str_bytes key))) = K_u32"
    and "list_all plain_char (str_bytes key)" "length key < 24"
    and "fs_check (the (spec (str_bytes key))) (V_u32 v)" "seen AND fs_bit (the (spec (str_bytes key))) = 0"
  shows "decode_members spec seen after_comma d (member key (dec_nat (unat v)) @ 125 # rest)
    = Inr (seen OR fs_bit (the (spec (str_bytes key))), fs_store (the (spec (str_bytes key))) (V_u32 v) d, rest)"
  using assms by (intro member_last) (auto simp: parse_u32_dec)

lemma true_comma:
  assumes "spec (str_bytes key) \<noteq> None" "fs_kind (the (spec (str_bytes key))) = K_true"
    and "list_all plain_char (str_bytes key)" "length key < 24"
    and "fs_check (the (spec (str_bytes key))) V_true" "seen AND fs_bit (the (spec (str_bytes key))) = 0"
  shows "decode_members spec seen after_comma d (member key (str_bytes ''true'') @ 44 # rest)
    = decode_members spec (seen OR fs_bit (the (spec (str_bytes key)))) True (fs_store (the (spec (str_bytes key))) V_true d) rest"
  using assms by (intro member_comma) (auto simp: parse_true_plain)

lemmas plain_members = string_comma string_last number_comma number_last true_comma plain_keys

text \<open>The bytes of the plain form: none is zero, and the sum of the lengths.\<close>

lemma members_set: "set (members ms) \<subseteq> insert 44 (\<Union>m\<in>set ms. set m)"
  by (induction ms rule: members.induct) auto

lemma members_length: "length (members ms) \<le> sum_list (map (\<lambda>m. Suc (length m)) ms)"
  by (induction ms rule: members.induct) auto

lemma plain_nonzero: "list_all plain_char s \<Longrightarrow> 0 \<notin> set s"
  by (auto simp: list_all_iff plain_char_def)

lemma dec_nonzero: "0 \<notin> set (dec_nat n)"
  using dec_nat_digits [of n] by (auto simp: list_all_iff is_digit_def)

lemma member_nonzero: "list_all plain_char (str_bytes key) \<Longrightarrow> 0 \<notin> set v \<Longrightarrow> 0 \<notin> set (member key v)"
  using plain_nonzero [of "str_bytes key"] by (simp add: member_def quoted_def)

lemma quoted_nonzero: "list_all plain_char s \<Longrightarrow> 0 \<notin> set (quoted s)"
  using plain_nonzero [of s] by (simp add: quoted_def)

lemma dec_u32_length: "length (dec_nat (unat (v :: u32))) \<le> 10"
  using dec_nat_length [of "unat v" 9] unat_lt_u32 [of v] by (simp del: unat_lt_u32)

lemma member_length: "length (member key v) = length key + length v + 3" "length (quoted s) = length s + 2"
  by (simp_all add: member_def quoted_def str_bytes_def)

lemma object_valid:
  assumes "\<forall>m\<in>set ms. 0 \<notin> set m" "sum_list (map (\<lambda>m. Suc (length m)) ms) + 2 < PAYLOAD_CAP"
  shows "length (object ms) < PAYLOAD_CAP" "0 \<notin> set (object ms)"
  using assms members_set [of ms] members_length [of ms] by (auto simp: object_def)

lemma heartbeat_plain:
  assumes "wf_heartbeat h"
  shows "argus_mqtt_decode_heartbeat (plain_heartbeat h) = Inr h"
proof -
  have s: "list_all plain_char (hb_session h)" "length (hb_session h) < 17" using assms plain_texts by (auto simp: wf_heartbeat_def)
  define ms where "ms = [member ''session'' (quoted (hb_session h)), member ''counter'' (dec_nat (unat (hb_counter h)))]"
  have "decode_members heartbeat_field 0 False \<lparr> hb_session = [], hb_counter = 0 \<rparr> (members ms @ [125]) = Inr (3, h, [])"
    using assms s by (simp add: plain_members heartbeat_field_def wf_heartbeat_def ms_def)
  moreover have "\<forall>m\<in>set ms. 0 \<notin> set m"
    using s by (simp add: ms_def member_nonzero quoted_nonzero dec_nonzero plain_keys)
  moreover have "sum_list (map (\<lambda>m. Suc (length m)) ms) + 2 < PAYLOAD_CAP"
    using s(2) dec_u32_length [of "hb_counter h"] by (simp only: ms_def member_length list.map sum_list.Cons sum_list.Nil list.size)
  ultimately have "decode_object heartbeat_field \<lparr> hb_session = [], hb_counter = 0 \<rparr> (object ms) = Inr (3, h)"
    by (intro decode_object_plain object_valid)
  then show ?thesis by (simp add: argus_mqtt_decode_heartbeat_def plain_heartbeat_def ms_def)
qed

lemma command_plain:
  assumes "wf_command action cap c" "cap < 2 ^ 31"
  shows "argus_mqtt_decode_command action cap (plain_command c) = Inr c"
proof -
  have c: "operational action" "mc_action c = action" "valid_session (mc_session c)" "mc_sequence c \<noteq> 0"
    "valid_command_id (mc_command_id c)" "mc_forward c" "0 \<le> mc_target_rpm_milli c" "mc_target_rpm_milli c \<le> cap"
    "action \<noteq> ACTION_SET_TARGET \<longrightarrow> mc_target_rpm_milli c = 0"
    using assms(1) by (auto simp: wf_command_def)
  have s: "list_all plain_char (mc_session c)" "length (mc_session c) < 17"
    "list_all plain_char (mc_command_id c)" "length (mc_command_id c) < 37" using c plain_texts by auto
  define w :: u32 where "w = of_int (mc_target_rpm_milli c)"
  have w: "uint w = mc_target_rpm_milli c" using c(7,8) assms(2) by (simp add: w_def uint_word_of_int)
  have sw: "sint w = mc_target_rpm_milli c"
    unfolding sint_uint w by (rule signed_take_bit_int_eq_self) (use c(7,8) assms(2) in simp_all)
  have wn: "nat (mc_target_rpm_milli c) = unat w" using w by (simp flip: w)
  define val where "val = (if action = ACTION_SET_TARGET then dec_nat (unat w) else str_bytes ''true'')"
  define ms where "ms = [member ''session'' (quoted (mc_session c)), member ''sequence'' (dec_nat (unat (mc_sequence c))),
      member ''command_id'' (quoted (mc_command_id c)), member ''value'' val,
      member ''authority_epoch'' (dec_nat (unat (mc_authority_epoch c)))]"
  have "decode_members (command_field action cap) 0 False (command_zero action) (members ms @ [125]) = Inr (31, c, [])"
  proof (cases "action = ACTION_SET_TARGET")
    case True
    then show ?thesis using c s w sw by (simp add: plain_members command_field_def command_zero_def ms_def val_def)
  next
    case False
    then show ?thesis using c s by (simp add: plain_members command_field_def command_zero_def ms_def val_def)
  qed
  moreover have "0 \<notin> set val" "length val \<le> 10"
    using dec_nonzero dec_u32_length [of w] by (simp_all add: val_def str_bytes_def)
  note v = this
  moreover have "\<forall>m\<in>set ms. 0 \<notin> set m"
    using s v(1) by (simp add: ms_def member_nonzero quoted_nonzero dec_nonzero plain_keys)
  moreover have "sum_list (map (\<lambda>m. Suc (length m)) ms) + 2 < PAYLOAD_CAP"
    using s(2,4) v(2) dec_u32_length [of "mc_sequence c"] dec_u32_length [of "mc_authority_epoch c"]
    by (simp only: ms_def member_length list.map sum_list.Cons sum_list.Nil list.size)
  ultimately have "decode_object (command_field action cap) (command_zero action) (object ms) = Inr (31, c)"
    by (intro decode_object_plain object_valid)
  moreover have "object ms = plain_command c" by (simp only: plain_command_def ms_def val_def wn c(2))
  ultimately show ?thesis using c by (simp add: argus_mqtt_decode_command_def)
qed

lemma authority_request_plain:
  assumes "wf_authority_request release q"
  shows "argus_mqtt_decode_authority_request release (plain_authority_request q) = Inr q"
proof -
  have q: "aq_schema q = 1" "valid_request_id (aq_request_id q)" "valid_session (aq_session q)"
    "if aq_has_intent q then valid_intent (aq_intent q) else aq_intent q = []" "release \<longrightarrow> aq_authority_epoch q \<noteq> 0"
    using assms by (auto simp: wf_authority_request_def)
  have s: "list_all plain_char (aq_session q)" "length (aq_session q) < 17"
    "list_all plain_char (aq_request_id q)" "length (aq_request_id q) < 37" using q plain_texts by auto
  define ms where "ms = [member ''schema'' (dec_nat (unat (aq_schema q))), member ''request_id'' (quoted (aq_request_id q)),
       member ''session'' (quoted (aq_session q)), member ''authority_epoch'' (dec_nat (unat (aq_authority_epoch q)))]
      @ (if aq_has_intent q then [member ''intent'' (quoted (aq_intent q))] else [])"
  have i: "aq_has_intent q \<longrightarrow> list_all plain_char (aq_intent q) \<and> length (aq_intent q) < 25"
    using q(4) plain_intent by auto
  have "decode_members authority_field 0 False authority_request_zero (members ms @ [125])
      = Inr (if aq_has_intent q then 31 else 15, q, [])"
  proof (cases "aq_has_intent q")
    case True
    then show ?thesis using q s i by (simp add: plain_members number_comma [where v = 1, simplified] authority_field_def authority_request_zero_def ms_def)
  next
    case False
    then show ?thesis using q s by (simp add: plain_members number_comma [where v = 1, simplified] authority_field_def authority_request_zero_def ms_def)
  qed
  moreover have "\<forall>m\<in>set ms. 0 \<notin> set m"
    using s i by (simp add: ms_def member_nonzero quoted_nonzero dec_nonzero plain_keys)
  moreover have total: "sum_list (map (\<lambda>m. Suc (length m)) ms) + 2 \<le> 384"
  proof (cases "aq_has_intent q")
    case True
    then have "length (aq_intent q) < 25" using i by blast
    then show ?thesis using s(2,4) True dec_u32_length [of "aq_schema q"] dec_u32_length [of "aq_authority_epoch q"]
      by (simp only: ms_def member_length list.map sum_list.Cons sum_list.Nil list.size if_True append.simps)
  next
    case False
    then show ?thesis using s(2,4) dec_u32_length [of "aq_schema q"] dec_u32_length [of "aq_authority_epoch q"]
      by (simp only: ms_def member_length list.map sum_list.Cons sum_list.Nil list.size if_False append.simps)
  qed
  ultimately have "decode_object authority_field authority_request_zero (object ms) = Inr (if aq_has_intent q then 31 else 15, q)"
    by (intro decode_object_plain object_valid; simp)
  moreover have "length (object ms) \<le> 384"
    using members_length [of ms] total by (simp add: object_def)
  moreover have "object ms = plain_authority_request q" by (simp only: plain_authority_request_def ms_def)
  ultimately show ?thesis using q(5) by (simp add: argus_mqtt_decode_authority_request_def)
qed

section \<open>Properties\<close>

text \<open>
  C17: What a decoder accepts is well-formed. Whatever the bytes of the payload were, a decoded
  heartbeat names a session of sixteen lower-case hexadecimal digits and a counter other than
  zero; a decoded command is one of the operational actions, names such a session, has a
  sequence number other than zero, a valid command identifier, forward direction and a target
  between zero and the configured limit (zero for every action but the one that sets it); and a
  decoded authority request has schema one, a valid request identifier and session, an intent of
  the vocabulary or none, and for a release an epoch other than zero.
\<close>

theorem decoded_values_wellformed:
  assumes "cap < 2 ^ 31"
  shows "(\<forall>h. argus_mqtt_decode_heartbeat payload = Inr h \<longrightarrow> wf_heartbeat h)
    \<and> (\<forall>c. argus_mqtt_decode_command action cap payload = Inr c \<longrightarrow> wf_command action cap c)
    \<and> (\<forall>q. argus_mqtt_decode_authority_request release payload = Inr q \<longrightarrow> wf_authority_request release q)"
  using heartbeat_wf command_wf [OF _ assms] authority_request_wf by blast

text \<open>
  C18: The plain form is decoded to itself. Every well-formed heartbeat, command and authority
  request, written as a JSON object with its members in order and without white space, fits the
  payload buffer and is decoded to exactly the value that was written; so the decoders refuse no
  legitimate message, up to the largest 32-bit sequence number, epoch and counter.
\<close>

theorem wire_roundtrip:
  assumes "wf_heartbeat h" "wf_command action cap c" "cap < 2 ^ 31" "wf_authority_request release q"
  shows "argus_mqtt_decode_heartbeat (plain_heartbeat h) = Inr h
    \<and> argus_mqtt_decode_command action cap (plain_command c) = Inr c
    \<and> argus_mqtt_decode_authority_request release (plain_authority_request q) = Inr q"
  using heartbeat_plain [OF assms(1)] command_plain [OF assms(2,3)] authority_request_plain [OF assms(4)] by blast

definition sample_session :: "u8 list" where
  "sample_session = str_bytes ''0123456789abcdef''"

definition sample_heartbeat :: mqtt_heartbeat where
  "sample_heartbeat = \<lparr> hb_session = sample_session, hb_counter = 0xffffffff \<rparr>"

definition sample_command :: mqtt_command where
  "sample_command = \<lparr> mc_session = sample_session, mc_sequence = 7, mc_command_id = str_bytes ''c-7'', mc_authority_epoch = 1,
     mc_action = ACTION_SET_TARGET, mc_target_rpm_milli = 250000, mc_forward = True \<rparr>"

definition sample_request :: authority_request where
  "sample_request = \<lparr> aq_schema = 1, aq_request_id = str_bytes ''req-1'', aq_session = sample_session, aq_authority_epoch = 0,
     aq_intent = [], aq_has_intent = False \<rparr>"

lemma sample_session_valid: "valid_session sample_session"
  by (simp add: valid_session_def sample_session_def str_bytes_def is_digit_def)

lemma samples_wf:
  "wf_heartbeat sample_heartbeat" "wf_command ACTION_SET_TARGET 600000 sample_command" "wf_authority_request False sample_request"
  using sample_session_valid
  by (simp_all add: wf_heartbeat_def sample_heartbeat_def wf_command_def sample_command_def operational_def valid_command_id_def
      wf_authority_request_def sample_request_def valid_request_id_def str_bytes_def b_isalnum_def)

theorem decoded_values_wellformed_witness:
  "argus_mqtt_decode_command ACTION_SET_TARGET 600000 (plain_command sample_command) = Inr sample_command
   \<and> wf_command ACTION_SET_TARGET 600000 sample_command"
  using decoded_values_wellformed [of 600000 "plain_command sample_command" ACTION_SET_TARGET False]
    command_plain [OF samples_wf(2)] by simp

theorem wire_roundtrip_witness:
  "argus_mqtt_decode_heartbeat (plain_heartbeat sample_heartbeat) = Inr sample_heartbeat
   \<and> argus_mqtt_decode_command ACTION_SET_TARGET 600000 (plain_command sample_command) = Inr sample_command
   \<and> argus_mqtt_decode_authority_request False (plain_authority_request sample_request) = Inr sample_request"
  using wire_roundtrip [OF samples_wf(1,2) _ samples_wf(3)] by simp

end
