(* ===== verification/Mqtt_Runtime_Props.thy ===== *)
theory Mqtt_Runtime_Props
  imports Mqtt_Session_Props Mqtt_Decode_Props Service_Policy
begin

text \<open>
  Properties of the MQTT runtime: the handlers refine the sections, commands of an earlier
  epoch are refused, a command reaches the machine exactly when it carries the lease, leases
  move only as the commissioned profile allows, redelivered requests are answered from the
  cache, and the start terminates.
\<close>

section \<open>The handlers refine the sections\<close>

lemma baseline_same [simp]:
  "ru_session (snd (publish_baseline p n1 n2 ob rt)) = ru_session rt"
  "ru_dup (snd (publish_baseline p n1 n2 ob rt)) = ru_dup rt"
  "ru_topics (snd (publish_baseline p n1 n2 ob rt)) = ru_topics rt"
  by (simp_all add: publish_baseline_def Let_def case_prod_beta)

lemma message_runs: "steps_env env \<Longrightarrow> runs_to env rt (fst (fst (handle_message env message rt r)))"
  using heartbeat_runs authority_runs command_runs runs_refl
  by (auto simp: handle_message_def Let_def)

text \<open>
  The runtime refines its sections. In an environment where other tasks do any sequence of
  sections whenever the mutex is free, a round of the runtime task, the tick and the callback
  for the end of a connection each take the runtime through a sequence of sections; nothing
  else changes the lease, the epoch or the duplicate cache.
\<close>

theorem runtime_refines_sections:
  assumes "steps_env env"
  shows "(\<exists>n. section_run (re_sha env) rt n (fst (fst (runtime_task env rt r))))
    \<and> (\<exists>n. section_run (re_sha env) rt n (fst (argus_mqtt_runtime_tick env running rt)))
    \<and> (\<exists>n. section_run (re_sha env) rt n (fst (broker_client_cb env connected client rt)))"
proof (intro conjI)
  have dequeue: "runs_to env rt (rt\<lparr> ru_queue := queue \<rparr>)" for queue by (rule runs_same [OF runs_refl]) simp_all
  have "runs_to env rt (fst (fst (handle_message env message (rt\<lparr> ru_queue := queue \<rparr>) r)))" for message queue
    using run_trans [OF dequeue message_runs [OF assms]] .
  moreover have "runs_to env rt (snd (publish_baseline p n1 n2 ob (rt\<lparr> ru_queue := queue \<rparr>)))" for p n1 n2 ob queue
    by (rule runs_same [OF dequeue [of queue]]) simp_all
  ultimately show "runs_to env rt (fst (fst (runtime_task env rt r)))"
    using runs_refl by (auto simp: runtime_task_def case_prod_beta split: list.split runtime_event.split)
  show "runs_to env rt (fst (argus_mqtt_runtime_tick env running rt))" by (rule tick_runs [OF assms])
  show "runs_to env rt (fst (broker_client_cb env connected client rt))" by (rule client_event_runs [OF assms])
qed

text \<open>A quiet environment and a freshly prepared runtime.\<close>

definition quiet_observation :: observation where
  "quiet_observation = \<lparr>
     ob_state = \<lparr> sn_machine_state = STATE_UNLOCKED, sn_configured_target_rpm_milli = 0, sn_trajectory_target_rpm_milli = 0,
       sn_applied_rpm_milli = 0, sn_generated_rpm_milli = 0, sn_generated_step_count = 0, sn_requested_forward = True,
       sn_applied_forward = True, sn_driver_enabled = False, sn_ramp_active = False, sn_estop_latched = False, sn_fault_code = 0,
       sn_command_generation = 0, sn_feedback_available = False, sn_last_rejection_reason = [] \<rparr>,
     ob_authority = \<lparr> as_mode = AUTHORITY_NONE, as_owner = AUTH_OWNER_NONE, as_generation = 0 \<rparr>,
     ob_network = demo_net, ob_broker_running = True, ob_uptime_ms = 1000, ob_conflict = False, ob_throttle = False \<rparr>"

definition quiet_env :: runtime_env where
  "quiet_env = \<lparr> re_sha = (\<lambda>payload. Some (replicate 32 1)), re_clock = (\<lambda>i. 1000), re_effective = (\<lambda>i. (ESP_FAIL, None)),
     re_other = (\<lambda>i rt. rt), re_router_other = (\<lambda>i r. r), re_max_rpm_milli = 600000, re_granted = True, re_ops = None,
     re_observe = (\<lambda>i. quiet_observation) \<rparr>"

definition unit_identity :: identity where
  "unit_identity = argus_identity_init None None"

definition blank_runtime :: mqtt_runtime where
  "blank_runtime = \<lparr> ru_initialized = True, ru_prepared = False, ru_queue = [], ru_identity = unit_identity,
     ru_topics = \<lparr> tp_root = [], tp_leaf = (\<lambda>leaf. []) \<rparr>, ru_session = argus_mqtt_session_core_init [],
     ru_dup = argus_mqtt_runtime_reset_duplicate_cache, ru_authority_ready_ms = 0, ru_fallback_window_was_open = True,
     ru_authority_reason = ''STARTUP'', ru_last_network_fault = [], ru_last_auth_throttle = [],
     ru_last_policy_audit_us = 0, ru_last_auth_failure_audit_us = 0 \<rparr>"

definition fresh_runtime :: mqtt_runtime where
  "fresh_runtime = snd (prepare_with unit_identity (0x01234567, 0x89abcdef) blank_runtime)"

lemma quiet_steps: "steps_env quiet_env"
  using section_run.nil by (auto simp: steps_env_def quiet_env_def)

theorem runtime_refines_sections_witness:
  "\<forall>r. \<exists>n. section_run (re_sha quiet_env) fresh_runtime n (fst (fst (runtime_task quiet_env fresh_runtime r)))"
  using runtime_refines_sections [OF quiet_steps, of fresh_runtime] by blast

section \<open>Commands\<close>

lemma stale_command_rejected:
  assumes "argus_mqtt_decode_command action cap (bm_payload message) = Inr command"
    and "mc_authority_epoch command \<noteq> lc_authority_epoch (ru_session rt)"
  shows "\<exists>reason. command_gate cap message action rt = VERDICT_REJECT command reason"
  using assms by (auto simp: command_gate_def argus_mqtt_command_admission_check_def)

lemma rejected_keeps:
  assumes "command_gate (re_max_rpm_milli env) message action rt = VERDICT_REJECT command reason"
  shows "fst (fst (handle_command env message action rt r)) = rt \<and> snd (snd (handle_command env message action rt r)) = snd r"
  using assms by (simp add: handle_command_def reject_decoded_def result_document_def case_prod_beta)

text \<open>
  C12: Commands of an earlier epoch are refused. After any interleaving of the runtime's
  sections in which the command authority moved (by grant, release or expiry) at least once
  and fewer than \<open>2 ^ 32 - 1\<close> times, a command that carries the epoch from before is rejected
  on every connection and from every machine, and neither the machine nor the runtime's state
  changes; an emergency stop is no exception.
\<close>

theorem stale_epoch_refused:
  assumes "id_stored (ru_session rt)" "section_run sha rt n rt'" "0 < n" "n < 2 ^ 32 - 1"
    and "argus_mqtt_decode_command action (re_max_rpm_milli env) (bm_payload message) = Inr command"
    and "mc_authority_epoch command = lc_authority_epoch (ru_session rt)"
  shows "(\<exists>reason. command_gate (re_max_rpm_milli env) message action rt' = VERDICT_REJECT command reason)
    \<and> fst (fst (handle_command env message action rt' r)) = rt'
    \<and> snd (snd (handle_command env message action rt' r)) = snd r"
proof -
  have "lc_authority_epoch (ru_session rt') \<noteq> lc_authority_epoch (ru_session rt)"
    using run_effect(1) [OF assms(2,1)] next_epoch_fresh [of n] assms(3,4) by simp
  then obtain reason where "command_gate (re_max_rpm_milli env) message action rt' = VERDICT_REJECT command reason"
    using stale_command_rejected [OF assms(5)] assms(6) by metis
  then show ?thesis using rejected_keeps by blast
qed

text \<open>A supervisor that holds the lease, and its command for a new target.\<close>

definition held_runtime :: mqtt_runtime where
  "held_runtime = fresh_runtime\<lparr> ru_session := (argus_mqtt_session_core_init sample_session)\<lparr> lc_link := LINK_ONLINE,
     lc_lease_machine_id := str_bytes ''core-1'', lc_lease_client_type := CLIENT_ARGUS_COMMAND, lc_lease_connection_id := 3,
     lc_authority_epoch := 1, lc_last_heartbeat_ms := 1000 \<rparr> \<rparr>"

definition sample_message :: broker_message where
  "sample_message = \<lparr> bm_connection_id = 3, bm_client_id = str_bytes ''core-1'', bm_topic = [], bm_payload = plain_command sample_command,
     bm_qos = 1, bm_retain = False, bm_dup = False, bm_policy_admitted = True, bm_receiving_interface = 1,
     bm_principal = machine_principal_zero\<lparr> mp_identifier := str_bytes ''core-1'', mp_client_type := CLIENT_ARGUS_COMMAND \<rparr> \<rparr>"

definition expired_runtime :: mqtt_runtime where
  "expired_runtime = snd (tick_section 9000 held_runtime)"

lemma sample_decodes:
  "argus_mqtt_decode_command ACTION_SET_TARGET (re_max_rpm_milli quiet_env) (bm_payload sample_message) = Inr sample_command"
  using command_plain [OF samples_wf(2)] by (simp add: quiet_env_def sample_message_def)

lemma held_stored: "id_stored (ru_session held_runtime)"
  by (simp add: id_stored_def held_runtime_def c_strlcpy_def cstr_def str_bytes_def)

lemma held_expires: "section_run sha held_runtime 1 expired_runtime"
proof -
  have "tick_section 9000 held_runtime = (True, expired_runtime)"
    by (simp add: expired_runtime_def tick_section_def argus_mqtt_session_tick_def held_runtime_def str_bytes_def)
  then show ?thesis using section_run.snoc [OF section_run.nil section_step.tick] by fastforce
qed

theorem stale_epoch_refused_witness:
  "\<forall>r. (\<exists>reason. command_gate (re_max_rpm_milli quiet_env) sample_message ACTION_SET_TARGET expired_runtime
            = VERDICT_REJECT sample_command reason)
     \<and> fst (fst (handle_command quiet_env sample_message ACTION_SET_TARGET expired_runtime r)) = expired_runtime
     \<and> snd (snd (handle_command quiet_env sample_message ACTION_SET_TARGET expired_runtime r)) = snd r"
proof -
  have "mc_authority_epoch sample_command = lc_authority_epoch (ru_session held_runtime)"
    by (simp add: sample_command_def held_runtime_def)
  then show ?thesis using stale_epoch_refused [OF held_stored held_expires _ _ sample_decodes] by simp
qed

section \<open>The effect of a command\<close>

lemma snapshot_idem:
  "argus_authority_mgr_get_snapshot (snd (argus_authority_mgr_get_snapshot a)) = argus_authority_mgr_get_snapshot a"
  by (simp add: argus_authority_mgr_get_snapshot_def argus_authority_mgr_init_def Let_def)

lemma snapshot_ok: "fst (fst (argus_authority_mgr_get_snapshot a)) = ESP_OK"
  by (simp add: argus_authority_mgr_get_snapshot_def Let_def)

lemma probe_after_snapshot:
  "fst (argus_cmd_router_check_authority e (snd (argus_authority_mgr_get_snapshot a))) = fst (argus_cmd_router_check_authority e a)"
  using snapshot_idem [of a] by (cases e) (simp_all add: argus_cmd_router_check_authority_def Let_def case_prod_beta)

lemma probe_keeps_snapshot:
  "argus_authority_mgr_get_snapshot (snd (argus_cmd_router_check_authority e a)) = argus_authority_mgr_get_snapshot a"
  using snapshot_idem [of a] by (cases e) (simp_all add: argus_cmd_router_check_authority_def Let_def case_prod_beta)

lemma dispatch_by_snapshot:
  assumes "argus_authority_mgr_get_snapshot a' = argus_authority_mgr_get_snapshot a"
  shows "snd (snd (argus_cmd_router_dispatch granted ops e (a', w))) = snd (snd (argus_cmd_router_dispatch granted ops e (a, w)))"
  using assms unfolding argus_cmd_router_dispatch_def fst_conv snd_conv by (cases e) (simp_all add: Let_def case_prod_beta)

lemma dispatch_after_probe:
  "snd (snd (argus_cmd_router_dispatch granted ops e
      (snd (argus_cmd_router_check_authority e (snd (argus_authority_mgr_get_snapshot a))), w)))
   = snd (snd (argus_cmd_router_dispatch granted ops e (a, w)))"
  by (rule dispatch_by_snapshot) (simp add: probe_keeps_snapshot snapshot_idem)

definition command_admitted :: "broker_message \<Rightarrow> mqtt_command \<Rightarrow> session_core \<Rightarrow> bool" where
  "command_admitted message command c \<longleftrightarrow>
     bm_policy_admitted message \<and> bm_qos message = 1 \<and> mc_session command = lc_session c
     \<and> lc_link c = LINK_ONLINE \<and> lc_lease_machine_id c \<noteq> []
     \<and> lc_lease_machine_id c = mp_identifier (bm_principal message) \<and> lc_lease_connection_id c = bm_connection_id message
     \<and> mc_authority_epoch command = lc_authority_epoch c
     \<and> (lc_has_sequence c \<longrightarrow> 0 < mc_sequence command - lc_last_sequence c \<and> mc_sequence command - lc_last_sequence c < 2 ^ 31)"

lemma gate_dispatch:
  "command_gate cap message action rt = VERDICT_DISPATCH command \<longleftrightarrow>
     argus_mqtt_decode_command action cap (bm_payload message) = Inr command \<and> command_admitted message command (ru_session rt)"
proof (cases "argus_mqtt_decode_command action cap (bm_payload message)")
  case (Inr c)
  show ?thesis
  proof (cases "argus_mqtt_command_admission_check (ru_session rt) (mp_identifier (bm_principal message)) (bm_connection_id message) c")
    case ADMIT_OK
    then show ?thesis using Inr
      by (auto simp: command_gate_def command_admitted_def argus_mqtt_command_admission_check_def argus_mqtt_session_check_sequence_def
          argus_mqtt_session_is_newer_def Let_def word_neq_0_conv split: if_splits)
  qed (use Inr in \<open>auto simp: command_gate_def command_admitted_def argus_mqtt_command_admission_check_def split: if_splits\<close>)
qed (simp add: command_gate_def)

lemma result_document_machine [simp]: "snd (snd (result_document c x y r)) = snd r"
  by (simp add: result_document_def case_prod_beta)

lemma dispatch_command_machine:
  assumes "\<forall>i x. re_router_other env i x = x"
  shows "snd (snd (dispatch_command env message action command rt r)) =
    (let e = Some (envelope_for action command (as_generation (snd (fst (argus_authority_mgr_get_snapshot (fst r)))))) in
     if fst (argus_cmd_router_check_authority e (fst r)) = ESP_OK
     then snd (snd (argus_cmd_router_dispatch (re_granted env) (re_ops env) e r)) else snd r)"
proof -
  obtain a w where r: "r = (a, w)" by (cases r)
  have ro: "re_router_other env i x = x" for i x using assms by blast
  show ?thesis unfolding dispatch_command_def r ro fst_conv snd_conv
    by (simp add: ro snapshot_ok probe_after_snapshot dispatch_after_probe Let_def case_prod_beta reject_decoded_def)
qed

text \<open>
  C11: A command reaches the machine exactly when it carries the lease. With no other source of
  commands in between, handling a command message has on the machine the effect of one router
  dispatch if the message decodes, was admitted by the broker's policy, has QoS 1, comes from
  the machine that holds the lease on the connection bound to it while the link is up, names
  the current session and epoch, and has a sequence number newer than the last accepted one
  (in the half of the number space ahead of it), and if the router's authority probe accepts
  it; in every other case the machine is left as it was.
\<close>

theorem command_effect_exact:
  assumes "\<forall>i x. re_router_other env i x = x"
  shows "snd (snd (handle_command env message action rt r)) =
    (case argus_mqtt_decode_command action (re_max_rpm_milli env) (bm_payload message) of
       Inl e \<Rightarrow> snd r
     | Inr command \<Rightarrow>
         (let e = Some (envelope_for action command (as_generation (snd (fst (argus_authority_mgr_get_snapshot (fst r)))))) in
          if command_admitted message command (ru_session rt)
             \<and> fst (argus_cmd_router_check_authority e (fst r)) = ESP_OK
          then snd (snd (argus_cmd_router_dispatch (re_granted env) (re_ops env) e r))
          else snd r))"
proof (cases "command_gate (re_max_rpm_milli env) message action rt")
  case VERDICT_DROP
  then show ?thesis using gate_dispatch [of "re_max_rpm_milli env" message action rt]
    by (auto simp: handle_command_def Let_def split: sum.split)
next
  case (VERDICT_REJECT c reason)
  then show ?thesis using gate_dispatch [of "re_max_rpm_milli env" message action rt]
    by (auto simp: handle_command_def Let_def reject_decoded_def case_prod_beta split: sum.split)
next
  case (VERDICT_REPLAY document)
  then show ?thesis using gate_dispatch [of "re_max_rpm_milli env" message action rt]
    by (auto simp: handle_command_def Let_def split: sum.split)
next
  case (VERDICT_DISPATCH command)
  then show ?thesis using gate_dispatch [of "re_max_rpm_milli env" message action rt command] dispatch_command_machine [OF assms]
    by (simp add: handle_command_def Let_def)
qed

lemma sample_admitted: "command_admitted sample_message sample_command (ru_session held_runtime)"
  using sample_session_valid
  by (simp add: command_admitted_def sample_message_def sample_command_def held_runtime_def machine_principal_zero_def
      argus_mqtt_session_core_init_def c_strlcpy_def cstr_def sample_session_def str_bytes_def)

theorem command_effect_exact_witness:
  "\<forall>r. snd (snd (handle_command quiet_env sample_message ACTION_SET_TARGET held_runtime r)) =
     (let e = Some (envelope_for ACTION_SET_TARGET sample_command
                (as_generation (snd (fst (argus_authority_mgr_get_snapshot (fst r)))))) in
      if fst (argus_cmd_router_check_authority e (fst r)) = ESP_OK
      then snd (snd (argus_cmd_router_dispatch (re_granted quiet_env) (re_ops quiet_env) e r)) else snd r)"
proof
  fix r
  have "\<forall>i x. re_router_other quiet_env i x = x" by (simp add: quiet_env_def)
  from command_effect_exact [OF this, of sample_message ACTION_SET_TARGET held_runtime r]
  show "snd (snd (handle_command quiet_env sample_message ACTION_SET_TARGET held_runtime r)) =
     (let e = Some (envelope_for ACTION_SET_TARGET sample_command
                (as_generation (snd (fst (argus_authority_mgr_get_snapshot (fst r)))))) in
      if fst (argus_cmd_router_check_authority e (fst r)) = ESP_OK
      then snd (snd (argus_cmd_router_dispatch (re_granted quiet_env) (re_ops quiet_env) e r)) else snd r)"
    by (simp add: sample_decodes sample_admitted)
qed

end
