(* ===== verification/Mqtt_Authority_Props.thy ===== *)
theory Mqtt_Authority_Props
  imports Mqtt_Runtime_Props
begin

text \<open>
  Properties of the lease on the command authority: how it moves, what the supervisor is
  protected from, the answers to redelivered requests, and the start of the runtime.
\<close>

section \<open>How the lease moves\<close>

lemma granted_not_held:
  assumes "argus_mqtt_session_request_authority conn i t profile window now c = (AUTHORITY_GRANTED, c')"
  shows "lease_expired now c \<or> \<not> lease_held_by c i"
  using assms by (auto simp: argus_mqtt_session_request_authority_def lease_held_by_def Let_def split: if_splits)

lemma granted_with_state:
  assumes "argus_mqtt_session_request_authority_with_state conn i t profile window running epoch now c = (AUTHORITY_GRANTED, c')"
  shows "argus_mqtt_session_request_authority conn i t profile window now c = (AUTHORITY_GRANTED, c')"
  using assms by (auto simp: argus_mqtt_session_request_authority_with_state_def Let_def split: if_splits)

lemma grant_justified:
  assumes "argus_mqtt_session_request_authority_with_state conn i t profile window running epoch now c = (AUTHORITY_GRANTED, c')"
  shows "profile_permits profile t window \<and> lc_lease_machine_id c' = c_strlcpy 37 i \<and> lc_lease_client_type c' = t
    \<and> lc_authority_epoch c' = next_epoch (lc_authority_epoch c)
    \<and> (lc_lease_machine_id c = [] \<or> lease_expired now c
       \<or> may_preempt t (lc_lease_client_type c) \<and> epoch \<noteq> 0 \<and> \<not> running)"
  using request_with_state_effect [OF assms] granted_not_held [OF granted_with_state [OF assms]] by auto

text \<open>
  C14: How the lease moves. Handling one authority request either keeps the holder and the epoch,
  or it advances the epoch and is one of two things: the release of the lease by the machine
  that holds it; or a grant to the sender, whose client type the commissioned profile permits,
  when nobody holds the lease, or the holder has been silent for six seconds, or the supervisor
  takes it over from a panel or service tool while the machine does not run and with the current
  epoch in its request.
\<close>

theorem authority_moves_justified:
  "let c = ru_session rt; c' = ru_session (snd (authority_section sha message release cx rt)); who = bm_principal message in
    lease_kept c c'
    \<or> (lc_authority_epoch c' = next_epoch (lc_authority_epoch c) \<and> bm_qos message = 1 \<and> \<not> bm_retain message
       \<and> (release \<and> lease_held_by c (mp_identifier who) \<and> lc_lease_machine_id c' = []
          \<or> \<not> release \<and> lc_lease_machine_id c' = c_strlcpy 37 (mp_identifier who) \<and> lc_lease_client_type c' = mp_client_type who
            \<and> profile_permits (ac_profile cx) (mp_client_type who) (ac_window_open cx)
            \<and> (lc_lease_machine_id c = [] \<or> lease_expired (ac_now_ms cx) c
               \<or> may_preempt (mp_client_type who) (lc_lease_client_type c) \<and> \<not> ac_running cx
                 \<and> (\<exists>req. argus_mqtt_decode_authority_request False (bm_payload message) = Inr req
                      \<and> aq_authority_epoch req = lc_authority_epoch c))))"
proof -
  obtain out c' cache' where a: "argus_mqtt_authority_admit sha message release cx (ru_session rt) (ru_dup rt) = (out, c', cache')"
    using prod_cases3 by blast
  then have after: "ru_session (snd (authority_section sha message release cx rt)) = c'" by (simp add: authority_section_def)
  have wire: "bm_qos message = 1 \<and> \<not> bm_retain message" if "ao_stage out \<in> {STAGE_RELEASE_ACCEPTED, STAGE_REQUEST_EVALUATED}"
    using a that by (auto simp: argus_mqtt_authority_admit_def case_prod_beta split: if_splits)
  consider (release) "ao_stage out = STAGE_RELEASE_ACCEPTED" release
      "argus_mqtt_session_release_authority (mp_identifier (bm_principal message)) (ru_session rt) = (True, c')"
    | (request) req where "ao_stage out = STAGE_REQUEST_EVALUATED" "\<not> release"
        "argus_mqtt_decode_authority_request False (bm_payload message) = Inr req"
        "aq_authority_epoch req = 0 \<or> aq_authority_epoch req = lc_authority_epoch (ru_session rt)"
        "argus_mqtt_session_request_authority_with_state (bm_connection_id message)
           (mp_identifier (bm_principal message)) (mp_client_type (bm_principal message)) (ac_profile cx)
           (ac_window_open cx) (ac_running cx) (aq_authority_epoch req) (ac_now_ms cx) (ru_session rt) = (ao_request_result out, c')"
    | (none) "c' = ru_session rt"
    using admit_effect [OF a] by auto
  then show ?thesis
  proof cases
    case release
    then show ?thesis using wire after release_effect [OF release(3)] by (simp add: Let_def)
  next
    case request
    show ?thesis
    proof (cases "ao_request_result out = AUTHORITY_GRANTED")
      case True
      then show ?thesis using wire after request grant_justified [of "bm_connection_id message"] by (simp add: Let_def) metis
    next
      case False
      then show ?thesis using after request_with_state_effect [OF request(5)] by (simp add: Let_def)
    qed
  next
    case none
    then show ?thesis using after by (simp add: Let_def)
  qed
qed

section \<open>The supervisor is protected\<close>

lemma supervisor_request_refused:
  assumes "lc_lease_machine_id c \<noteq> []" "lc_lease_client_type c = CLIENT_ARGUS_COMMAND" "\<not> lease_expired now c"
    and "i \<noteq> lc_lease_machine_id c"
  shows "snd (argus_mqtt_session_request_authority_with_state conn i t profile window running epoch now c) = c"
  using assms
  by (simp add: argus_mqtt_session_request_authority_with_state_def argus_mqtt_session_request_authority_def may_preempt_def Let_def)

text \<open>
  C13: The supervisor's lease is protected. While the supervisor holds the lease and has been heard
  in the last six seconds, no request, release or heartbeat of any other machine changes the
  session core, under any profile and whatever the acquisition window; the tick does not
  change it; and the end of a connection, the supervisor's own included, leaves the holder, the
  epoch, the client type and the time of the last heartbeat as they are.
\<close>

theorem supervisor_lease_protected:
  assumes "lc_lease_machine_id (ru_session rt) \<noteq> []" "lc_lease_client_type (ru_session rt) = CLIENT_ARGUS_COMMAND"
    and "\<not> lease_expired now (ru_session rt)"
    and "mp_identifier (bm_principal message) \<noteq> lc_lease_machine_id (ru_session rt)" "ac_now_ms cx = now"
  shows "ru_session (snd (authority_section sha message release cx rt)) = ru_session rt
    \<and> snd (heartbeat_section message hb now rt) = rt
    \<and> snd (tick_section now rt) = rt
    \<and> (let c' = ru_session (snd (disconnect_section connection_id rt)) in
       lease_kept (ru_session rt) c' \<and> lc_lease_client_type c' = lc_lease_client_type (ru_session rt)
       \<and> lc_last_heartbeat_ms c' = lc_last_heartbeat_ms (ru_session rt))"
proof (intro conjI)
  obtain out c' cache' where a: "argus_mqtt_authority_admit sha message release cx (ru_session rt) (ru_dup rt) = (out, c', cache')"
    using prod_cases3 by blast
  have "c' = ru_session rt"
    using admit_effect [OF a] release_effect [of _ "ru_session rt" True c'] supervisor_request_refused [OF assms(1-4)] assms(4,5)
    by (auto simp: lease_held_by_def; metis snd_conv)
  then show "ru_session (snd (authority_section sha message release cx rt)) = ru_session rt"
    using a by (simp add: authority_section_def)
  show "snd (heartbeat_section message hb now rt) = rt"
    using assms(4) by (simp add: heartbeat_section_def Let_def)
  show "snd (tick_section now rt) = rt"
    using assms(3) by (simp add: tick_section_def argus_mqtt_session_tick_def lease_expired_def not_le)
  obtain x c'' where d: "argus_mqtt_session_disconnect connection_id (ru_session rt) = (x, c'')" by fastforce
  then show "let c' = ru_session (snd (disconnect_section connection_id rt)) in
       lease_kept (ru_session rt) c' \<and> lc_lease_client_type c' = lc_lease_client_type (ru_session rt)
       \<and> lc_last_heartbeat_ms c' = lc_last_heartbeat_ms (ru_session rt)"
    using disconnect_effect [OF d] by (simp add: disconnect_section_def)
qed

definition panel_message :: broker_message where
  "panel_message = sample_message\<lparr> bm_connection_id := 4, bm_payload := plain_authority_request sample_request,
     bm_principal := machine_principal_zero\<lparr> mp_identifier := str_bytes ''hmi-1'', mp_client_type := CLIENT_HMI \<rparr> \<rparr>"

definition sample_context :: admission_context where
  "sample_context = \<lparr> ac_profile = PROFILE_ARGUSCORE_PREFERRED, ac_window_open = False, ac_running = False, ac_now_ms = 5000 \<rparr>"

theorem supervisor_lease_protected_witness:
  "\<forall>sha release. ru_session (snd (authority_section sha panel_message release sample_context held_runtime)) = ru_session held_runtime"
proof (intro allI)
  fix sha release
  have "lc_lease_machine_id (ru_session held_runtime) \<noteq> []" "lc_lease_client_type (ru_session held_runtime) = CLIENT_ARGUS_COMMAND"
    "\<not> lease_expired 5000 (ru_session held_runtime)"
    "mp_identifier (bm_principal panel_message) \<noteq> lc_lease_machine_id (ru_session held_runtime)" "ac_now_ms sample_context = 5000"
    by (simp_all add: held_runtime_def lease_expired_def panel_message_def sample_context_def str_bytes_def)
  from supervisor_lease_protected [OF this]
  show "ru_session (snd (authority_section sha panel_message release sample_context held_runtime)) = ru_session held_runtime" by blast
qed

section \<open>The start\<close>

lemma draw_session_stops:
  "\<exists>k. fst (random (i + k)) \<noteq> 0 \<or> snd (random (i + k)) \<noteq> 0 \<Longrightarrow>
     \<exists>k. draw_session random i = Some (random (i + k)) \<and> (fst (random (i + k)) \<noteq> 0 \<or> snd (random (i + k)) \<noteq> 0)"
proof -
  assume "\<exists>k. fst (random (i + k)) \<noteq> 0 \<or> snd (random (i + k)) \<noteq> 0"
  then obtain k where "fst (random (i + k)) \<noteq> 0 \<or> snd (random (i + k)) \<noteq> 0" by blast
  then show ?thesis
  proof (induction k arbitrary: i)
    case 0
    then show ?case by (intro exI [of _ 0]) (auto simp: draw_session.simps [of random i])
  next
    case (Suc k)
    show ?case
    proof (cases "fst (random i) = 0 \<and> snd (random i) = 0")
      case True
      obtain j where "draw_session random (i + 1) = Some (random (i + 1 + j))"
          "fst (random (i + 1 + j)) \<noteq> 0 \<or> snd (random (i + 1 + j)) \<noteq> 0"
        using Suc.IH [of "i + 1"] Suc.prems by auto
      then show ?thesis using True by (intro exI [of _ "Suc j"]) (simp add: draw_session.simps [of random i])
    next
      case False
      then show ?thesis by (intro exI [of _ 0]) (auto simp: draw_session.simps [of random i])
    qed
  qed
qed

lemma hex_digit_valid: "is_digit (hex_digit v k) \<or> 97 \<le> hex_digit v k \<and> hex_digit v k \<le> 102"
proof -
  define n where "n = drop_bit (4 * k) v AND 0xf"
  define m where "m = unat n"
  have "n \<le> 0xf" by (simp add: n_def word_and_le1)
  then have "m \<le> 15" by (simp add: word_le_nat_alt m_def)
  then have "m \<in> {0, 1, 2, 3, 4, 5, 6, 7, 8, 9, 10, 11, 12, 13, 14, 15}" by (simp only: insert_iff empty_iff) presburger
  moreover have "n = of_nat m" by (simp add: m_def)
  ultimately show ?thesis unfolding hex_digit_def n_def [symmetric] Let_def by (auto simp: is_digit_def)
qed

lemma hex8_session: "valid_session (hex8 a @ hex8 b)"
  using hex_digit_valid by (simp add: valid_session_def hex8_def)

lemma session_stored: "valid_session s \<Longrightarrow> c_strlcpy 17 s = s"
proof -
  assume s: "valid_session s"
  then have "0 \<notin> set s" using plain_texts(1) plain_nonzero by blast
  then have "cstr s = s" by (auto simp: cstr_def takeWhile_eq_all_conv)
  then show ?thesis using s by (simp add: c_strlcpy_def valid_session_def)
qed

lemma session_format_ok:
  "high \<noteq> 0 \<or> low \<noteq> 0 \<Longrightarrow> argus_mqtt_session_format high low 17 = Inr (hex8 high @ hex8 low)"
  by (auto simp: argus_mqtt_session_format_def hex8_def)

text \<open>Valid identifiers always give topics that fit their buffers.\<close>

lemma leaf_lengths: "length (leaf_text leaf) \<le> 50"
  by (cases leaf) simp_all

lemma topics_build_ok:
  assumes "argus_identity_validate_client_id (Some client)" "argus_identity_validate_unit_id (Some unit)"
  shows "\<exists>topics. argus_mqtt_topics_build (Some client) (Some unit) = Inr topics"
proof -
  define root where "root = str_bytes ''argus/'' @ cstr client @ [47] @ cstr unit"
  have "length root < 72"
    using assms by (auto simp: root_def str_bytes_def argus_identity_validate_client_id_def argus_identity_validate_unit_id_def c_strlen_def)
  moreover have "make_topic root (leaf_text leaf) \<noteq> None" for leaf
    using \<open>length root < 72\<close> leaf_lengths [of leaf] by (simp add: make_topic_def str_bytes_def)
  ultimately show ?thesis using assms by (simp add: argus_mqtt_topics_build_def root_def Let_def list_ex_iff)
qed

text \<open>
  C16: The start terminates. If the random source ever gives a pair that is not zero, the start of
  the runtime returns; and when the identifiers of the unit are valid it succeeds
  with a session of sixteen hexadecimal digits that the decoders accept, no holder, no link,
  epoch zero, no sequence number, an empty queue and an empty duplicate cache.
\<close>

theorem runtime_start_terminates:
  assumes "fst (random k) \<noteq> 0 \<or> snd (random k) \<noteq> 0" "ru_initialized rt"
    and "argus_identity_validate_client_id (Some (id_client_id ident))" "argus_identity_validate_unit_id (Some (id_unit_id ident))"
  shows "\<exists>rt'. argus_mqtt_runtime_prepare_start False (Inr ident) random rt = Some (ESP_OK, rt')
    \<and> ru_prepared rt' \<and> valid_session (lc_session (ru_session rt')) \<and> lc_lease_machine_id (ru_session rt') = []
    \<and> lc_link (ru_session rt') = LINK_OFFLINE \<and> lc_authority_epoch (ru_session rt') = 0
    \<and> \<not> lc_has_sequence (ru_session rt') \<and> ru_queue rt' = []
    \<and> argus_mqtt_topics_build (Some (id_client_id ident)) (Some (id_unit_id ident)) = Inr (ru_topics rt')
    \<and> ru_dup rt' = argus_mqtt_runtime_reset_duplicate_cache"
proof -
  obtain j where j: "draw_session random 0 = Some (random j)" "fst (random j) \<noteq> 0 \<or> snd (random j) \<noteq> 0"
    using draw_session_stops [of random 0] assms(1) by auto
  have "valid_session (c_strlcpy 17 (hex8 (fst (random j)) @ hex8 (snd (random j))))"
    using hex8_session session_stored by simp
  moreover obtain topics where "argus_mqtt_topics_build (Some (id_client_id ident)) (Some (id_unit_id ident)) = Inr topics"
    using topics_build_ok [OF assms(3,4)] by blast
  ultimately show ?thesis using assms(2) j session_format_ok [OF j(2)]
    by (simp add: argus_mqtt_runtime_prepare_start_def prepare_with_def argus_mqtt_session_core_init_def Let_def)
qed

theorem runtime_start_terminates_witness:
  "\<exists>rt'. argus_mqtt_runtime_prepare_start False (Inr unit_identity) (\<lambda>i. (0, of_nat i)) blank_runtime = Some (ESP_OK, rt')
     \<and> ru_prepared rt' \<and> valid_session (lc_session (ru_session rt'))"
proof -
  have "argus_identity_validate_client_id (Some (id_client_id unit_identity))" "argus_identity_validate_unit_id (Some (id_unit_id unit_identity))"
    by (simp_all add: unit_identity_def argus_identity_init_def Let_def argus_identity_validate_client_id_def
        argus_identity_validate_unit_id_def c_strlen_def cstr_fill_buffer)
      (simp_all add: str_bytes_def cstr_def id_char_def b_isalnum_def)
  moreover have "ru_initialized blank_runtime" by (simp add: blank_runtime_def)
  moreover have "fst ((\<lambda>i. (0, of_nat i :: u32)) 1) \<noteq> (0 :: u32) \<or> snd ((\<lambda>i. (0 :: u32, of_nat i :: u32)) 1) \<noteq> 0" by simp
  ultimately show ?thesis using runtime_start_terminates [of "\<lambda>i. (0, of_nat i)" 1 blank_runtime unit_identity] by auto
qed

end
