(* ===== verification/Mqtt_Redelivery_Props.thy ===== *)
theory Mqtt_Redelivery_Props
  imports Mqtt_Authority_Props
begin

text \<open>
  Redelivered authority requests. The duplicate cache is a ring of sixteen answers; an answered
  request is remembered until sixteen further requests have been answered, whatever the other
  tasks do in between, and its redelivery is answered with the same document and changes nothing.
\<close>

section \<open>The ring\<close>

definition cache_ok :: "dup_cache \<Rightarrow> bool" where
  "cache_ok cache \<longleftrightarrow> length (dc_entries cache) = DUP_CACHE_SIZE \<and> dc_next cache < DUP_CACHE_SIZE"

type_synonym request_key = "u8 list \<times> u8 list \<times> bool"

definition entry_matches :: "request_key \<Rightarrow> auth_dup_entry \<Rightarrow> bool" where
  "entry_matches key e \<longleftrightarrow> (case key of (session, request_id, release) \<Rightarrow>
     de_in_use e \<and> de_release e = release \<and> de_session e = session \<and> de_request_id e = request_id)"

lemma find_matches: "auth_dup_find s i r cache = find (entry_matches (s, i, r)) (dc_entries cache)"
  by (simp add: auth_dup_find_def entry_matches_def [abs_def])

text \<open>The entry is in its slot, \<open>k\<close> answers ago, and the only one for its request.\<close>

definition remembered :: "request_key \<Rightarrow> auth_dup_entry \<Rightarrow> nat \<Rightarrow> dup_cache \<Rightarrow> bool" where
  "remembered key e k cache \<longleftrightarrow> cache_ok cache \<and> k < DUP_CACHE_SIZE \<and> entry_matches key e
     \<and> (let p = (dc_next cache + (15 - k)) mod DUP_CACHE_SIZE in
        dc_entries cache ! p = e \<and> (\<forall>i < DUP_CACHE_SIZE. i \<noteq> p \<longrightarrow> \<not> entry_matches key (dc_entries cache ! i)))"

lemma remembered_found:
  assumes "remembered (s, i, r) e k cache"
  shows "auth_dup_find s i r cache = Some e"
proof -
  define p where "p = (dc_next cache + (15 - k)) mod DUP_CACHE_SIZE"
  have p: "p < length (dc_entries cache)" "dc_entries cache ! p = e" "entry_matches (s, i, r) e"
    and only: "\<forall>j < p. \<not> entry_matches (s, i, r) (dc_entries cache ! j)"
    using assms by (auto simp: remembered_def cache_ok_def p_def Let_def)
  then show ?thesis unfolding find_matches find_Some_iff by blast
qed

lemma store_ok: "cache_ok cache \<Longrightarrow> cache_ok (auth_dup_store sha s i r payload oc re ow ep l1 l2 cache)"
  by (simp add: cache_ok_def auth_dup_store_def)

lemma store_changes: "auth_dup_store sha s i r payload oc re ow ep l1 l2 cache \<noteq> cache"
proof
  assume "auth_dup_store sha s i r payload oc re ow ep l1 l2 cache = cache"
  then have "dc_ordinal_next cache + 1 = dc_ordinal_next cache" by (metis auth_dup_store_def dup_cache.select_convs(3))
  then show False by simp
qed

text \<open>The entry a store writes.\<close>

definition entry_of :: "sha256 \<Rightarrow> u8 list \<Rightarrow> u8 list \<Rightarrow> bool \<Rightarrow> u8 list \<Rightarrow> string \<Rightarrow> string \<Rightarrow> string \<Rightarrow> u32 \<Rightarrow> string \<Rightarrow> string \<Rightarrow> u32 \<Rightarrow>
     auth_dup_entry" where
  "entry_of sha session request_id release payload outcome reason owner epoch lease_status local_status ordinal =
     \<lparr> de_in_use = True, de_ordinal = ordinal, de_session = session, de_request_id = request_id, de_release = release,
       de_payload_hash = auth_dup_hash sha payload, de_payload_len = length payload, de_outcome = outcome, de_reason = reason,
       de_owner_kind = owner, de_authority_epoch = epoch, de_lease_status = lease_status, de_local_status = local_status \<rparr>"

lemma store_entries:
  assumes "c_strlcpy 17 s = s" "c_strlcpy 37 i = i"
  shows "dc_entries (auth_dup_store sha s i r payload oc re ow ep l1 l2 cache)
    = (dc_entries cache)[dc_next cache := entry_of sha s i r payload oc re ow ep l1 l2 (dc_ordinal_next cache)]"
    "dc_next (auth_dup_store sha s i r payload oc re ow ep l1 l2 cache) = (dc_next cache + 1) mod DUP_CACHE_SIZE"
  using assms by (simp_all add: auth_dup_store_def entry_of_def)

lemma ring_back: "n < 16 \<Longrightarrow> ((n + 1) mod 16 + 15) mod 16 = n" for n :: nat
  by (simp add: mod_add_left_eq)

lemma store_remembers:
  assumes "cache_ok cache" "auth_dup_find s i r cache = None" "c_strlcpy 17 s = s" "c_strlcpy 37 i = i"
  shows "remembered (s, i, r) (entry_of sha s i r payload oc re ow ep l1 l2 (dc_ordinal_next cache)) 0
    (auth_dup_store sha s i r payload oc re ow ep l1 l2 cache)"
proof -
  have "\<not> entry_matches (s, i, r) (dc_entries cache ! j)" if "j < 16" for j
    using assms(1,2) that by (auto simp: find_matches find_None_iff cache_ok_def)
  then show ?thesis using assms ring_back [of "dc_next cache"] store_ok [OF assms(1)]
    by (auto simp: remembered_def store_entries entry_matches_def entry_of_def cache_ok_def Let_def)
qed

lemma ring_older:
  fixes n :: nat
  assumes "n < 16" "k < 15"
  shows "((n + 1) mod 16 + (15 - Suc k)) mod 16 = (n + (15 - k)) mod 16" "(n + (15 - k)) mod 16 \<noteq> n"
proof -
  have "n + 1 + (15 - Suc k) = n + (15 - k)" using assms by simp
  then show "((n + 1) mod 16 + (15 - Suc k)) mod 16 = (n + (15 - k)) mod 16" by (metis mod_add_left_eq)
  show "(n + (15 - k)) mod 16 \<noteq> n"
  proof (cases "n + (15 - k) < 16")
    case False
    then have "(n + (15 - k)) mod 16 = n + (15 - k) - 16" using assms by (simp add: le_mod_geq)
    then show ?thesis using False assms by linarith
  qed (use assms in simp)
qed

lemma store_keeps:
  assumes "remembered key e k cache" "key \<noteq> (s, i, r)" "Suc k < 16" "c_strlcpy 17 s = s" "c_strlcpy 37 i = i"
  shows "remembered key e (Suc k) (auth_dup_store sha s i r payload oc re ow ep l1 l2 cache)"
proof -
  define p where "p = (dc_next cache + (15 - k)) mod 16"
  have ok: "cache_ok cache" "entry_matches key e" "dc_entries cache ! p = e" "p < 16"
    and only: "\<And>j. j < 16 \<Longrightarrow> j \<noteq> p \<Longrightarrow> \<not> entry_matches key (dc_entries cache ! j)"
    using assms(1) by (auto simp: remembered_def p_def Let_def)
  have n: "dc_next cache < 16" "length (dc_entries cache) = 16" using ok(1) by (auto simp: cache_ok_def)
  have older: "((dc_next cache + 1) mod 16 + (15 - Suc k)) mod 16 = p" "p \<noteq> dc_next cache"
    using ring_older [OF n(1)] assms(3) by (auto simp: p_def)
  have "\<not> entry_matches key (entry_of sha s i r payload oc re ow ep l1 l2 (dc_ordinal_next cache))"
    using assms(2) by (cases key) (auto simp: entry_matches_def entry_of_def)
  then show ?thesis
    unfolding remembered_def store_entries [OF assms(4,5)] older Let_def
    using store_ok [OF ok(1)] assms(3) ok(2,3) older(2) only n by (auto simp: nth_list_update)
qed

section \<open>Answers\<close>

text \<open>The stages at which a request is answered for good: the document is stored.\<close>

definition answered :: "admit_stage \<Rightarrow> bool" where
  "answered stage \<longleftrightarrow> stage \<in> {STAGE_RELEASE_STALE_EPOCH, STAGE_RELEASE_NOT_OWNER, STAGE_RELEASE_ACCEPTED,
     STAGE_REQUEST_STALE_EPOCH, STAGE_REQUEST_EVALUATED}"

lemma emit_cached:
  assumes "emit_authority_result sha out (Some req) message core cx outcome reason release True cache = (out', cache')"
  shows "\<exists>ow ep l1 l2. cache' = auth_dup_store sha (aq_session req) (aq_request_id req) release (bm_payload message)
       outcome reason ow ep l1 l2 cache
    \<and> ao_published out' = Some (compose_authority_result_json (aq_request_id req) (lc_session core) outcome reason ow ep l1 l2)"
proof -
  obtain l1 l2 where "authority_status_from_core core (ac_profile cx) (ac_window_open cx) (ac_now_ms cx) = (l1, l2)" by fastforce
  then show ?thesis using assms
    by (intro exI [of _ "owner_kind core"] exI [of _ "lc_authority_epoch core"] exI [of _ l1] exI [of _ l2])
      (auto simp: emit_authority_result_def build_authority_result_json_def Let_def)
qed

lemma emit_uncached:
  "snd (emit_authority_result sha out req message core cx outcome reason release False cache) = cache"
  by (simp add: emit_authority_result_def Let_def case_prod_beta split: option.split)

definition stored_answer :: "sha256 \<Rightarrow> broker_message \<Rightarrow> bool \<Rightarrow> authority_outcome \<Rightarrow> u8 list \<Rightarrow> authority_request \<Rightarrow> dup_cache \<Rightarrow> dup_cache \<Rightarrow> bool" where
  "stored_answer sha message release out session req cache cache' \<longleftrightarrow>
     (\<exists>oc re ow ep l1 l2. cache' = auth_dup_store sha (aq_session req) (aq_request_id req) release (bm_payload message)
          oc re ow ep l1 l2 cache
        \<and> ao_published out = Some (compose_authority_result_json (aq_request_id req) session oc re ow ep l1 l2))"

lemma emit_stored:
  assumes "emit_authority_result sha out (Some req) message core cx outcome reason release True cache = (out', cache')"
  shows "stored_answer sha message release out' (lc_session core) req cache cache'"
  using emit_cached [OF assms] unfolding stored_answer_def by blast

lemma release_session: "lc_session (snd (argus_mqtt_session_release_authority i c)) = lc_session c"
  by (simp add: argus_mqtt_session_release_authority_def)

lemma request_session:
  "lc_session (snd (argus_mqtt_session_request_authority_with_state conn i t profile window running epoch now c)) = lc_session c"
  by (simp add: argus_mqtt_session_request_authority_with_state_def argus_mqtt_session_request_authority_def Let_def)

text \<open>A request that is new and of this session is answered with its document stored.\<close>

lemma admit_emits:
  assumes run: "argus_mqtt_authority_admit sha message release cx c cache = (out, c', cache')"
    and "\<not> (bm_retain message \<or> bm_qos message \<noteq> 1)" "argus_mqtt_decode_authority_request release (bm_payload message) = Inr req"
    and "\<not> (aq_session req \<noteq> lc_session c \<or> auth_dup_find (aq_session req) (aq_request_id req) release cache \<noteq> None)"
  shows "\<exists>out0 core oc re. emit_authority_result sha out0 (Some req) message core cx oc re release True cache = (out, cache')
    \<and> lc_session core = lc_session c \<and> answered (ao_stage out0)"
proof (cases release)
  case True
  obtain res c1 where rel: "argus_mqtt_session_release_authority (mp_identifier (bm_principal message)) c = (res, c1)" by fastforce
  have s: "lc_session c1 = lc_session c" using release_session [of "mp_identifier (bm_principal message)" c] rel by simp
  show ?thesis
  proof (cases "aq_authority_epoch req = lc_authority_epoch c")
    case eq: True
    have "emit_authority_result sha ((outcome_at (if res then STAGE_RELEASE_ACCEPTED else STAGE_RELEASE_NOT_OWNER))
        \<lparr> ao_state_changed := res \<rparr>) (Some req) message c1 cx (if res then ''ACCEPTED'' else ''REJECTED'')
        (if res then ''released'' else ''not_owner'') release True cache = (out, cache')"
      using assms True eq rel by (auto simp: argus_mqtt_authority_admit_def Let_def split: prod.splits)
    moreover have "answered (ao_stage ((outcome_at (if res then STAGE_RELEASE_ACCEPTED else STAGE_RELEASE_NOT_OWNER))
        \<lparr> ao_state_changed := res \<rparr>))" by (simp add: answered_def)
    ultimately show ?thesis using s by blast
  next
    case False
    have "emit_authority_result sha (outcome_at STAGE_RELEASE_STALE_EPOCH) (Some req) message c cx ''REJECTED'' ''stale_epoch''
        release True cache = (out, cache')"
      using assms True False by (auto simp: argus_mqtt_authority_admit_def split: prod.splits)
    moreover have "answered (ao_stage (outcome_at STAGE_RELEASE_STALE_EPOCH))" by (simp add: answered_def)
    ultimately show ?thesis by blast
  qed
next
  case request: False
  show ?thesis
  proof (cases "aq_authority_epoch req \<noteq> 0 \<and> aq_authority_epoch req \<noteq> lc_authority_epoch c")
    case True
    have "emit_authority_result sha (outcome_at STAGE_REQUEST_STALE_EPOCH) (Some req) message c cx ''REJECTED'' ''stale_epoch''
        release True cache = (out, cache')"
      using assms request True by (auto simp: argus_mqtt_authority_admit_def split: prod.splits)
    moreover have "answered (ao_stage (outcome_at STAGE_REQUEST_STALE_EPOCH))" by (simp add: answered_def)
    ultimately show ?thesis by blast
  next
    case False
    obtain res c1 where req: "argus_mqtt_session_request_authority_with_state (bm_connection_id message)
             (mp_identifier (bm_principal message)) (mp_client_type (bm_principal message)) (ac_profile cx)
             (ac_window_open cx) (ac_running cx) (aq_authority_epoch req) (ac_now_ms cx) c = (res, c1)" by fastforce
    have s: "lc_session c1 = lc_session c" using request_session req by (metis snd_conv)
    define out0 where "out0 = (outcome_at STAGE_REQUEST_EVALUATED)\<lparr> ao_request_result := res,
        ao_state_changed := res = AUTHORITY_GRANTED \<or> res = AUTHORITY_ALREADY_HELD, ao_link_online := True \<rparr>"
    have "emit_authority_result sha out0 (Some req) message c1 cx
        (if res = AUTHORITY_GRANTED \<or> res = AUTHORITY_ALREADY_HELD then ''ACCEPTED'' else ''REJECTED'')
        (authority_result_reason res) release True cache = (out, cache')"
      using assms request False req unfolding out0_def by (auto simp: argus_mqtt_authority_admit_def Let_def split: prod.splits)
    moreover have "answered (ao_stage out0)" by (simp add: answered_def out0_def)
    ultimately show ?thesis using s by blast
  qed
qed

lemma admit_cache:
  assumes run: "argus_mqtt_authority_admit sha message release cx c cache = (out, c', cache')"
  shows "if answered (ao_stage out)
    then \<exists>req. argus_mqtt_decode_authority_request release (bm_payload message) = Inr req \<and> aq_session req = lc_session c
      \<and> auth_dup_find (aq_session req) (aq_request_id req) release cache = None
      \<and> stored_answer sha message release out (lc_session c) req cache cache'
    else cache' = cache"
proof (cases "bm_retain message \<or> bm_qos message \<noteq> 1")
  case True
  then show ?thesis using run
    by (cases "bm_retain message") (auto simp: argus_mqtt_authority_admit_def case_prod_beta answered_def emit_uncached)
next
  case wire: False
  show ?thesis
  proof (cases "argus_mqtt_decode_authority_request release (bm_payload message)")
    case (Inl e)
    then show ?thesis using run wire
      by (auto simp: argus_mqtt_authority_admit_def case_prod_beta answered_def emit_uncached)
  next
    case (Inr req)
    note open1 = run wire Inr
    show ?thesis
    proof (cases "aq_session req \<noteq> lc_session c \<or> auth_dup_find (aq_session req) (aq_request_id req) release cache \<noteq> None")
      case True
      then show ?thesis using open1
        by (auto simp: argus_mqtt_authority_admit_def case_prod_beta answered_def emit_uncached split: if_splits)
    next
      case fresh: False
      have "\<exists>out0 core oc re. emit_authority_result sha out0 (Some req) message core cx oc re release True cache = (out, cache')
          \<and> lc_session core = lc_session c \<and> answered (ao_stage out0)"
        using open1 fresh admit_emits by blast
      then obtain out0 core oc re where e: "emit_authority_result sha out0 (Some req) message core cx oc re release True cache = (out, cache')"
        "lc_session core = lc_session c" "answered (ao_stage out0)" by blast
      have "ao_stage out = ao_stage out0"
        using emit_fields [of sha out0 "Some req" message core cx oc re release True cache] e(1) by simp
      then show ?thesis using emit_stored [OF e(1)] e Inr fresh by auto
    qed
  qed
qed

section \<open>Runs\<close>

text \<open>A run of sections that counts the requests answered for good.\<close>

inductive cache_run :: "sha256 \<Rightarrow> mqtt_runtime \<Rightarrow> nat \<Rightarrow> mqtt_runtime \<Rightarrow> bool" for sha rt where
  nil: "cache_run sha rt 0 rt"
| snoc: "cache_run sha rt k rt1 \<Longrightarrow> section_step sha moved rt1 rt2 \<Longrightarrow>
    cache_run sha rt (if ru_dup rt2 = ru_dup rt1 then k else Suc k) rt2"

lemma request_id_stored: "valid_request_id i \<Longrightarrow> c_strlcpy 37 i = i"
proof -
  assume i: "valid_request_id i"
  then have "0 \<notin> set i" using plain_texts(3) plain_nonzero by blast
  then have "cstr i = i" by (auto simp: cstr_def takeWhile_eq_all_conv)
  then show ?thesis using i by (simp add: c_strlcpy_def valid_request_id_def)
qed

lemma request_stored:
  assumes "argus_mqtt_decode_authority_request release payload = Inr req"
  shows "c_strlcpy 17 (aq_session req) = aq_session req" "c_strlcpy 37 (aq_request_id req) = aq_request_id req"
  using authority_request_wf [OF assms] session_stored request_id_stored by (auto simp: wf_authority_request_def)

lemma step_remembers:
  assumes "section_step sha moved rt rt'" "remembered (s, i, r) e k (ru_dup rt)"
    and "k' = (if ru_dup rt' = ru_dup rt then k else Suc k)" "k' < 16"
  shows "remembered (s, i, r) e k' (ru_dup rt')"
  using assms(1)
proof cases
  case (authority message release cx was_online out)
  obtain c' cache' where a: "argus_mqtt_authority_admit sha message release cx (ru_session rt) (ru_dup rt) = (out, c', cache')"
      "rt' = rt\<lparr> ru_session := c', ru_dup := cache' \<rparr>"
    using authority by (auto simp: authority_section_def split: prod.splits)
  show ?thesis
  proof (cases "answered (ao_stage out)")
    case True
    then obtain req where req: "argus_mqtt_decode_authority_request release (bm_payload message) = Inr req"
        "auth_dup_find (aq_session req) (aq_request_id req) release (ru_dup rt) = None"
        "stored_answer sha message release out (lc_session (ru_session rt)) req (ru_dup rt) cache'"
      using admit_cache [OF a(1)] by auto
    then have "(s, i, r) \<noteq> (aq_session req, aq_request_id req, release)"
      using remembered_found [OF assms(2)] by (metis Pair_inject option.distinct(1))
    then show ?thesis using req(3) a(2) store_changes assms(3,4) store_keeps [OF assms(2) _ _ request_stored [OF req(1)]]
      by (auto simp: stored_answer_def)
  next
    case False
    then show ?thesis using admit_cache [OF a(1)] a(2) assms(2,3) by simp
  qed
qed (use assms in \<open>auto simp: heartbeat_section_def disconnect_section_def tick_section_def Let_def split: prod.splits if_splits\<close>)

lemma run_remembers:
  assumes "cache_run sha rt k rt'" "remembered (s, i, r) e 0 (ru_dup rt)" "id_stored (ru_session rt)" "k < 16"
  shows "remembered (s, i, r) e k (ru_dup rt') \<and> lc_session (ru_session rt') = lc_session (ru_session rt) \<and> id_stored (ru_session rt')"
  using assms
proof induction
  case (snoc k rt1 moved rt2)
  have "k < 16" using snoc.prems(3) by (simp split: if_splits)
  then have ih: "remembered (s, i, r) e k (ru_dup rt1)" "lc_session (ru_session rt1) = lc_session (ru_session rt)" "id_stored (ru_session rt1)"
    using snoc by simp_all
  show ?case using step_remembers [OF snoc(2) ih(1) refl snoc.prems(3)] step_effect [OF snoc(2) ih(3)] ih(2)
    by (cases moved) (auto simp: lease_moved_def lease_kept_def)
qed simp

text \<open>
  C15: Redelivered requests are answered again and do nothing. Once an authority request has been
  answered (granted, denied, released or refused for its epoch), and until sixteen further
  requests have been answered, in any interleaving of the runtime's sections, a message with the
  same payload is answered with the very same document, whatever the state of the lease has
  become, and neither the lease nor the cache changes.
\<close>

theorem authority_redelivery_idempotent:
  assumes "authority_section sha message release cx rt = ((was_online, out), rt1)" "answered (ao_stage out)"
    and "cache_run sha rt1 k rt2" "k < 16"
    and "cache_ok (ru_dup rt)" "id_stored (ru_session rt)"
    and "bm_payload again = bm_payload message" "bm_qos again = 1" "\<not> bm_retain again"
  shows "\<exists>online. authority_section sha again release cx' rt2
    = ((online, (outcome_at STAGE_DUPLICATE_REPLAY)\<lparr> ao_published := ao_published out \<rparr>), rt2)"
proof -
  obtain c' cache' where a: "argus_mqtt_authority_admit sha message release cx (ru_session rt) (ru_dup rt) = (out, c', cache')"
      "rt1 = rt\<lparr> ru_session := c', ru_dup := cache' \<rparr>"
    using assms(1) by (auto simp: authority_section_def split: prod.splits)
  then obtain req where req: "argus_mqtt_decode_authority_request release (bm_payload message) = Inr req"
      "aq_session req = lc_session (ru_session rt)"
      "auth_dup_find (aq_session req) (aq_request_id req) release (ru_dup rt) = None"
      "stored_answer sha message release out (lc_session (ru_session rt)) req (ru_dup rt) cache'"
    using admit_cache [OF a(1)] assms(2) by auto
  then obtain oc re ow ep l1 l2 where st: "cache' = auth_dup_store sha (aq_session req) (aq_request_id req) release (bm_payload message)
          oc re ow ep l1 l2 (ru_dup rt)"
      "ao_published out = Some (compose_authority_result_json (aq_request_id req) (aq_session req) oc re ow ep l1 l2)"
    by (auto simp: stored_answer_def)
  define e where "e = entry_of sha (aq_session req) (aq_request_id req) release (bm_payload message) oc re ow ep l1 l2 (dc_ordinal_next (ru_dup rt))"
  have "remembered (aq_session req, aq_request_id req, release) e 0 (ru_dup rt1)"
    using store_remembers [OF assms(5) req(3) request_stored [OF req(1)]] a(2) st(1) by (simp add: e_def)
  moreover obtain moved where step: "section_step sha moved rt rt1" using section_step.authority [OF assms(1) refl] by blast
  then have "id_stored (ru_session rt1)" "lc_session (ru_session rt1) = lc_session (ru_session rt)"
    using step_effect [OF step assms(6)] by (cases moved; auto simp: lease_moved_def lease_kept_def)+
  ultimately have "auth_dup_find (aq_session req) (aq_request_id req) release (ru_dup rt2) = Some e"
      "lc_session (ru_session rt2) = aq_session req"
    using run_remembers [OF assms(3) _ _ assms(4)] remembered_found req(2) by metis+
  moreover have "auth_dup_replay e = the (ao_published out)" "de_payload_len e = length (bm_payload message)"
      "de_payload_hash e = auth_dup_hash sha (bm_payload message)"
    by (simp_all add: e_def entry_of_def auth_dup_replay_def st(2))
  ultimately have "argus_mqtt_authority_admit sha again release cx' (ru_session rt2) (ru_dup rt2)
      = ((outcome_at STAGE_DUPLICATE_REPLAY)\<lparr> ao_published := ao_published out \<rparr>, ru_session rt2, ru_dup rt2)"
    using req(1) assms(7-9) st(2) by (simp add: argus_mqtt_authority_admit_def)
  then show ?thesis by (simp add: authority_section_def)
qed

definition idle_runtime :: mqtt_runtime where
  "idle_runtime = blank_runtime\<lparr> ru_session := argus_mqtt_session_core_init sample_session \<rparr>"

definition fixed_sha :: sha256 where
  "fixed_sha payload = Some (replicate 32 7)"

lemma panel_decodes: "argus_mqtt_decode_authority_request False (bm_payload panel_message) = Inr sample_request"
  using authority_request_plain [OF samples_wf(3)] by (simp add: panel_message_def)

lemma reset_ok: "cache_ok argus_mqtt_runtime_reset_duplicate_cache"
  by (simp add: cache_ok_def argus_mqtt_runtime_reset_duplicate_cache_def)

lemma reset_empty: "auth_dup_find s i r argus_mqtt_runtime_reset_duplicate_cache = None"
  by (simp add: auth_dup_find_def argus_mqtt_runtime_reset_duplicate_cache_def find_None_iff auth_dup_zero_def)

lemma panel_answered:
  "answered (ao_stage (snd (fst (authority_section fixed_sha panel_message False sample_context idle_runtime))))"
proof -
  obtain out c' cache' where a: "argus_mqtt_authority_admit fixed_sha panel_message False sample_context (ru_session idle_runtime)
      (ru_dup idle_runtime) = (out, c', cache')" using prod_cases3 by blast
  have "aq_session sample_request = lc_session (ru_session idle_runtime)"
    using session_stored [OF sample_session_valid]
    by (simp add: sample_request_def idle_runtime_def argus_mqtt_session_core_init_def)
  moreover have "\<not> (bm_retain panel_message \<or> bm_qos panel_message \<noteq> 1)" by (simp add: panel_message_def sample_message_def)
  ultimately obtain out0 core oc re where e: "emit_authority_result fixed_sha out0 (Some sample_request) panel_message core sample_context
      oc re False True (ru_dup idle_runtime) = (out, cache')" "answered (ao_stage out0)"
    using admit_emits [OF a _ panel_decodes] reset_empty by (auto simp: idle_runtime_def blank_runtime_def)
  then have "ao_stage out = ao_stage out0"
    using emit_fields [of fixed_sha out0 "Some sample_request" panel_message core sample_context oc re False True "ru_dup idle_runtime"] by simp
  then show ?thesis using e(2) a by (simp add: authority_section_def)
qed

theorem authority_redelivery_idempotent_witness:
  "\<exists>online. authority_section fixed_sha panel_message False sample_context
       (snd (authority_section fixed_sha panel_message False sample_context idle_runtime))
     = ((online, (outcome_at STAGE_DUPLICATE_REPLAY)\<lparr> ao_published :=
           ao_published (snd (fst (authority_section fixed_sha panel_message False sample_context idle_runtime))) \<rparr>),
        snd (authority_section fixed_sha panel_message False sample_context idle_runtime))"
proof -
  define x where "x = authority_section fixed_sha panel_message False sample_context idle_runtime"
  have "x = ((fst (fst x), snd (fst x)), snd x)" by simp
  moreover have "cache_ok (ru_dup idle_runtime)" "id_stored (ru_session idle_runtime)"
    using reset_ok by (simp_all add: idle_runtime_def blank_runtime_def id_stored_def argus_mqtt_session_core_init_def c_strlcpy_def cstr_def)
  ultimately show ?thesis
    using authority_redelivery_idempotent [of fixed_sha panel_message False sample_context idle_runtime "fst (fst x)" "snd (fst x)" "snd x" 0 "snd x"
        panel_message sample_context] panel_answered cache_run.nil
    by (simp add: x_def panel_message_def sample_message_def)
qed

section \<open>Refused without an answer\<close>

text \<open>
  A request with the wrong quality of service is refused in silence. The admission composes a
  result document that says \<open>qos_1_required\<close>, and the handler publishes nothing: it returns for that stage
  before the publication. The state does not change, apart from what other tasks do meanwhile.
\<close>

theorem qos_refusal_unanswered:
  assumes "bm_policy_admitted message" "\<not> bm_retain message" "bm_qos message \<noteq> 1"
  shows "ao_published (fst (argus_mqtt_authority_admit (re_sha env) message release cx core cache)) \<noteq> None
    \<and> snd (handle_authority_request env message release rt) = []
    \<and> fst (handle_authority_request env message release rt) \<in> {rt, re_other env 0 rt}"
  using assms
  by (auto simp: argus_mqtt_authority_admit_def handle_authority_request_def authority_section_def case_prod_beta Let_def emit_uncached)

theorem qos_refusal_unanswered_witness:
  "snd (handle_authority_request quiet_env (panel_message\<lparr> bm_qos := 0 \<rparr>) False held_runtime) = []"
  using qos_refusal_unanswered [of "panel_message\<lparr> bm_qos := 0 \<rparr>" quiet_env False sample_context "ru_session held_runtime"
      "ru_dup held_runtime" held_runtime]
  by (simp add: panel_message_def sample_message_def)

end
