(* ===== verification/Audit_Log.thy ===== *)
theory Audit_Log
  imports Directory_Nvs Identity
begin

text \<open>
  The security audit log (\<open>argus_security_audit.c\<close>): a ring of 255 records on 256 slots of the
  NVS partition, with one spare slot that the next record is written to before the metadata
  that makes it visible.

  Texts are the buffers of the record, filled up with zero bytes. The NVS calls are an argument;
  a blob is a record or the metadata, and a blob of the other kind is one of another length.
  The task that writes the log is a round on the queue; a request that waits for its completion
  is a run of the queue up to that request. The hooks for tests are left out.
\<close>

section \<open>State\<close>

abbreviation (input) AUDIT_CAPACITY :: nat where "AUDIT_CAPACITY \<equiv> 255"
abbreviation (input) AUDIT_PHYSICAL_SLOTS :: nat where "AUDIT_PHYSICAL_SLOTS \<equiv> 256"
abbreviation (input) AUDIT_QUEUE_LENGTH :: nat where "AUDIT_QUEUE_LENGTH \<equiv> 8"
abbreviation (input) AUDIT_PAGE_MAX :: nat where "AUDIT_PAGE_MAX \<equiv> 16"
abbreviation (input) AUDIT_SCHEMA :: u16 where "AUDIT_SCHEMA \<equiv> 1"
abbreviation (input) AUDIT_META_KEY :: string where "AUDIT_META_KEY \<equiv> ''meta''"
abbreviation (input) ESP_ERR_INVALID_VERSION :: esp_err where "ESP_ERR_INVALID_VERSION \<equiv> 266"
abbreviation (input) OUTCOME_SUCCESS :: u8 where "OUTCOME_SUCCESS \<equiv> 1"
abbreviation (input) OUTCOME_FAILED :: u8 where "OUTCOME_FAILED \<equiv> 3"
abbreviation (input) OUTCOME_PREPARED :: u8 where "OUTCOME_PREPARED \<equiv> 4"

record audit_record =
  ar_schema_version :: u16
  ar_event_type :: u16
  ar_outcome :: u8
  ar_principal_type :: u8
  ar_lifecycle_id :: u16
  ar_sequence :: u64
  ar_boot_id :: u64
  ar_uptime_us :: u64
  ar_security_epoch :: u32
  ar_actor :: "u8 list"
  ar_target :: "u8 list"
  ar_source :: "u8 list"
  ar_reason :: "u8 list"
  ar_crc32 :: u32

record audit_meta =
  am_schema_version :: u16
  am_reserved :: u16
  am_count :: u32
  am_oldest_slot :: u32
  am_spare_slot :: u32
  am_overwritten :: u32
  am_next_sequence :: u64
  am_crc32 :: u32

record audit_request =
  au_record :: audit_record
  au_required :: bool

text \<open>The static variables; \<open>at_ready\<close> says that the mutex exists, \<open>at_task\<close> that the task runs.\<close>

record audit_state =
  at_meta :: audit_meta
  at_boot_id :: u64
  at_ready :: bool
  at_queue :: "audit_request list"
  at_task :: bool
  at_available :: bool
  at_degraded :: bool

datatype audit_blob = Blob_record audit_record | Blob_meta audit_meta

definition audit_meta_zero :: audit_meta where
  "audit_meta_zero = \<lparr> am_schema_version = 0, am_reserved = 0, am_count = 0, am_oldest_slot = 0, am_spare_slot = 0,
     am_overwritten = 0, am_next_sequence = 0, am_crc32 = 0 \<rparr>"

definition audit_record_zero :: audit_record where
  "audit_record_zero = \<lparr> ar_schema_version = 0, ar_event_type = 0, ar_outcome = 0, ar_principal_type = 0, ar_lifecycle_id = 0,
     ar_sequence = 0, ar_boot_id = 0, ar_uptime_us = 0, ar_security_epoch = 0, ar_actor = replicate 37 0,
     ar_target = replicate 37 0, ar_source = replicate 16 0, ar_reason = replicate 37 0, ar_crc32 = 0 \<rparr>"

definition audit_state_zero :: audit_state where
  "audit_state_zero = \<lparr> at_meta = audit_meta_zero, at_boot_id = 0, at_ready = False, at_queue = [], at_task = False,
     at_available = False, at_degraded = False \<rparr>"

section \<open>Checksums and keys\<close>

text \<open>The bytes of the structures as they lie in memory, with their padding.\<close>

definition meta_bytes :: "audit_meta \<Rightarrow> u8 list" where
  "meta_bytes m =
     le_bytes 2 (am_schema_version m) @ le_bytes 2 (am_reserved m) @ le_bytes 4 (am_count m)
     @ le_bytes 4 (am_oldest_slot m) @ le_bytes 4 (am_spare_slot m) @ le_bytes 4 (am_overwritten m) @ replicate 4 0
     @ le_bytes 8 (am_next_sequence m) @ le_bytes 4 (am_crc32 m) @ replicate 4 0"

definition record_bytes :: "audit_record \<Rightarrow> u8 list" where
  "record_bytes r =
     le_bytes 2 (ar_schema_version r) @ le_bytes 2 (ar_event_type r) @ [ar_outcome r, ar_principal_type r]
     @ le_bytes 2 (ar_lifecycle_id r) @ le_bytes 8 (ar_sequence r) @ le_bytes 8 (ar_boot_id r)
     @ le_bytes 8 (ar_uptime_us r) @ le_bytes 4 (ar_security_epoch r) @ ar_actor r @ ar_target r @ ar_source r
     @ ar_reason r @ [0] @ le_bytes 4 (ar_crc32 r)"

definition meta_crc :: "audit_meta \<Rightarrow> u32" where
  "meta_crc m = calc_crc32_raw (meta_bytes (m\<lparr> am_crc32 := 0 \<rparr>))"

definition record_crc :: "audit_record \<Rightarrow> u32" where
  "record_crc r = calc_crc32_raw (record_bytes (r\<lparr> ar_crc32 := 0 \<rparr>))"

definition safe_text :: "u8 list \<Rightarrow> nat \<Rightarrow> bool" where
  "safe_text value capacity \<longleftrightarrow> c_strlen value < capacity \<and> list_all (\<lambda>c. 0x20 \<le> c \<and> c \<le> 0x7e) (cstr value)"

text \<open>The letter \<open>e\<close> and the eight hexadecimal digits of the slot.\<close>

definition nibble_char :: "u32 \<Rightarrow> char" where
  "nibble_char n = ''0123456789abcdef'' ! unat n"

definition record_key :: "u32 \<Rightarrow> string" where
  "record_key slot = CHR ''e'' # map (\<lambda>k. nibble_char (drop_bit (4 * k) slot AND 0xf)) [7, 6, 5, 4, 3, 2, 1, 0]"

section \<open>Writing\<close>

definition write_record_and_meta ::
  "(audit_blob, 'n) dir_nvs \<Rightarrow> u32 \<Rightarrow> audit_record \<Rightarrow> audit_meta \<Rightarrow> 'n \<Rightarrow> esp_err \<times> 'n" where
  "write_record_and_meta nvs slot r next_meta s =
     (let (err, s1) = dn_open nvs True s in
      if err \<noteq> ESP_OK then (err, s1)
      else
        (let (err2, s2) = dn_set_blob nvs (record_key slot) (Blob_record r) s1;
             (err3, s3) = (if err2 = ESP_OK then dn_commit nvs s2 else (err2, s2));
             (err4, s4) = (if err3 = ESP_OK then dn_set_blob nvs AUDIT_META_KEY (Blob_meta next_meta) s3 else (err3, s3))
         in if err4 = ESP_OK then dn_commit nvs s4 else (err4, s4)))"

text \<open>The record with the fields that the writer adds.\<close>

definition fold_sequence :: "u64 \<Rightarrow> u16" where
  "fold_sequence q = ucast (q XOR drop_bit 16 q XOR drop_bit 32 q XOR drop_bit 48 q)"

definition stamp_record :: "u64 \<Rightarrow> audit_state \<Rightarrow> audit_record \<Rightarrow> audit_record" where
  "stamp_record uptime_us a r =
     (let r1 = r\<lparr> ar_schema_version := AUDIT_SCHEMA, ar_sequence := am_next_sequence (at_meta a) \<rparr>;
          r2 = (if ar_outcome r1 = OUTCOME_PREPARED \<and> ar_lifecycle_id r1 = 0
                then r1\<lparr> ar_lifecycle_id := (let folded = fold_sequence (ar_sequence r1) in if folded = 0 then 1 else folded) \<rparr>
                else r1);
          r3 = r2\<lparr> ar_boot_id := at_boot_id a, ar_uptime_us := uptime_us \<rparr>
      in r3\<lparr> ar_crc32 := record_crc r3 \<rparr>)"

definition next_audit_meta :: "audit_meta \<Rightarrow> audit_meta" where
  "next_audit_meta m =
     (let target = am_spare_slot m;
          m1 = (if unat (am_count m) < AUDIT_CAPACITY
                then m\<lparr> am_count := am_count m + 1, am_spare_slot := (target + 1) mod 256 \<rparr>
                else m\<lparr> am_oldest_slot := (am_oldest_slot m + 1) mod 256, am_spare_slot := am_oldest_slot m,
                        am_overwritten := am_overwritten m + 1 \<rparr>);
          m2 = m1\<lparr> am_next_sequence := (if am_next_sequence m1 + 1 = 0 then 1 else am_next_sequence m1 + 1) \<rparr>
      in m2\<lparr> am_crc32 := meta_crc m2 \<rparr>)"

definition append_locked ::
  "(audit_blob, 'n) dir_nvs \<Rightarrow> u64 \<Rightarrow> audit_record \<Rightarrow> audit_state \<Rightarrow> 'n \<Rightarrow> (esp_err \<times> audit_record) \<times> audit_state \<times> 'n" where
  "append_locked nvs uptime_us r a s =
     (let r1 = stamp_record uptime_us a r;
          m1 = next_audit_meta (at_meta a);
          (err, s1) = write_record_and_meta nvs (am_spare_slot (at_meta a)) r1 m1 s
      in ((err, r1), if err = ESP_OK then a\<lparr> at_meta := m1 \<rparr> else a, s1))"

text \<open>One request handled by the task, and the requests of the queue in their order; the result is that of the last.\<close>

definition handle_request ::
  "(audit_blob, 'n) dir_nvs \<Rightarrow> u64 \<Rightarrow> audit_request \<Rightarrow> audit_state \<Rightarrow> 'n \<Rightarrow> (esp_err \<times> audit_record) \<times> audit_state \<times> 'n" where
  "handle_request nvs uptime_us request a s =
     (if at_available a then append_locked nvs uptime_us (au_record request) a s
      else ((ESP_ERR_INVALID_STATE, au_record request), a, s))"

definition audit_task :: "(audit_blob, 'n) dir_nvs \<Rightarrow> u64 \<Rightarrow> audit_state \<Rightarrow> 'n \<Rightarrow> audit_state \<times> 'n" where
  "audit_task nvs uptime_us a s =
     (case at_queue a of
        [] \<Rightarrow> (a, s)
      | request # rest \<Rightarrow> snd (handle_request nvs uptime_us request (a\<lparr> at_queue := rest \<rparr>) s))"

fun drain ::
  "(audit_blob, 'n) dir_nvs \<Rightarrow> (nat \<Rightarrow> u64) \<Rightarrow> audit_request list \<Rightarrow> audit_request \<Rightarrow> audit_state \<Rightarrow> 'n \<Rightarrow>
     (esp_err \<times> audit_record) \<times> audit_state \<times> 'n" where
  "drain nvs uptime [] request a s = handle_request nvs (uptime 0) request a s"
| "drain nvs uptime (pending # rest) request a s =
     (case handle_request nvs (uptime 0) pending a s of
        (x, a1, s1) \<Rightarrow> drain nvs (\<lambda>i. uptime (Suc i)) rest request a1 s1)"

record audit_entry =
  en_type :: u16
  en_outcome :: u8
  en_principal_type :: u8
  en_lifecycle_id :: u16
  en_actor :: "u8 list"
  en_target :: "u8 list"
  en_source :: "u8 list"
  en_reason :: "u8 list"
  en_security_epoch :: u32

definition entry_acceptable :: "audit_entry \<Rightarrow> bool" where
  "entry_acceptable x \<longleftrightarrow> 1 \<le> en_type x \<and> en_type x \<le> 22 \<and> 1 \<le> en_outcome x \<and> en_outcome x \<le> 4
     \<and> safe_text (en_actor x) 37 \<and> safe_text (en_target x) 37 \<and> safe_text (en_source x) 16 \<and> safe_text (en_reason x) 37"

definition fresh_record :: "audit_entry \<Rightarrow> audit_record" where
  "fresh_record x = audit_record_zero\<lparr> ar_event_type := en_type x, ar_outcome := en_outcome x,
     ar_principal_type := en_principal_type x, ar_lifecycle_id := en_lifecycle_id x,
     ar_security_epoch := en_security_epoch x, ar_actor := fill_buffer 37 (en_actor x),
     ar_target := fill_buffer 37 (en_target x), ar_source := fill_buffer 16 (en_source x),
     ar_reason := fill_buffer 37 (en_reason x) \<rparr>"

text \<open>\<open>memory\<close> and \<open>semaphore\<close> are the answers of the allocations.\<close>

definition append_record ::
  "bool \<Rightarrow> bool \<Rightarrow> (audit_blob, 'n) dir_nvs \<Rightarrow> (nat \<Rightarrow> u64) \<Rightarrow> audit_entry \<Rightarrow> bool \<Rightarrow> audit_state \<Rightarrow> 'n \<Rightarrow>
     (esp_err \<times> audit_record) \<times> audit_state \<times> 'n" where
  "append_record memory semaphore nvs uptime x required a s =
     (let request = \<lparr> au_record = fresh_record x, au_required = required \<rparr> in
      if \<not> at_available a \<or> \<not> entry_acceptable x then ((ESP_ERR_INVALID_ARG, audit_record_zero), a, s)
      else if \<not> memory then ((ESP_ERR_NO_MEM, audit_record_zero), a, s)
      else if required \<and> \<not> semaphore then ((ESP_ERR_NO_MEM, audit_record_zero), a, s)
      else if length (at_queue a) \<ge> AUDIT_QUEUE_LENGTH then ((ESP_ERR_NO_MEM, audit_record_zero), a, s)
      else if \<not> required then ((ESP_OK, audit_record_zero), a\<lparr> at_queue := at_queue a @ [request] \<rparr>, s)
      else drain nvs uptime (at_queue a) request (a\<lparr> at_queue := [] \<rparr>) s)"

section \<open>Reading\<close>

definition read_slot_locked ::
  "(audit_blob, 'n) dir_nvs \<Rightarrow> u32 \<Rightarrow> audit_state \<Rightarrow> 'n \<Rightarrow> esp_err \<times> audit_record" where
  "read_slot_locked nvs offset_from_oldest a s =
     (let slot = (am_oldest_slot (at_meta a) + offset_from_oldest) mod 256;
          err = fst (dn_open nvs False s)
      in if err \<noteq> ESP_OK then (err, audit_record_zero)
         else (case dn_get_blob nvs (record_key slot) s (Blob_record audit_record_zero) of
                 (err2, Blob_meta m) \<Rightarrow> (if err2 = ESP_OK then ESP_ERR_INVALID_SIZE else err2, audit_record_zero)
               | (err2, Blob_record r) \<Rightarrow>
                   (if err2 \<noteq> ESP_OK then err2
                    else if ar_schema_version r \<noteq> AUDIT_SCHEMA then ESP_ERR_INVALID_VERSION
                    else if ar_crc32 r \<noteq> record_crc r then ESP_ERR_INVALID_CRC
                    else ESP_OK, r)))"

definition argus_security_audit_read ::
  "(audit_blob, 'n) dir_nvs \<Rightarrow> u32 \<Rightarrow> audit_state \<Rightarrow> 'n \<Rightarrow> esp_err \<times> audit_record" where
  "argus_security_audit_read nvs offset_from_oldest a s =
     (if \<not> at_ready a then (ESP_ERR_INVALID_ARG, audit_record_zero)
      else if \<not> at_available a \<or> offset_from_oldest \<ge> am_count (at_meta a) then (ESP_ERR_NOT_FOUND, audit_record_zero)
      else read_slot_locked nvs offset_from_oldest a s)"

record audit_page =
  pg_records :: "audit_record list"
  pg_next_before :: u64
  pg_has_more :: bool
  pg_corruption_gap :: bool

text \<open>The loop from the newest record down; the argument counts the records left.\<close>

fun page_records ::
  "(audit_blob, 'n) dir_nvs \<Rightarrow> u64 \<Rightarrow> nat \<Rightarrow> audit_state \<Rightarrow> 'n \<Rightarrow> nat \<Rightarrow> audit_page \<Rightarrow> audit_page" where
  "page_records nvs boundary limit a s 0 p = p"
| "page_records nvs boundary limit a s (Suc offset) p =
     (case read_slot_locked nvs (of_nat offset) a s of
        (err, r) \<Rightarrow>
          if err \<noteq> ESP_OK then page_records nvs boundary limit a s offset (p\<lparr> pg_corruption_gap := True \<rparr>)
          else if ar_sequence r \<ge> boundary then page_records nvs boundary limit a s offset p
          else if length (pg_records p) < limit
          then page_records nvs boundary limit a s offset
                 (p\<lparr> pg_records := pg_records p @ [r], pg_next_before := ar_sequence r \<rparr>)
          else p\<lparr> pg_has_more := True \<rparr>)"

definition argus_security_audit_read_page ::
  "(audit_blob, 'n) dir_nvs \<Rightarrow> u64 \<Rightarrow> nat \<Rightarrow> audit_state \<Rightarrow> 'n \<Rightarrow> esp_err + audit_page" where
  "argus_security_audit_read_page nvs before_sequence limit a s =
     (let m = at_meta a in
      if \<not> at_ready a \<or> limit = 0 \<or> limit > AUDIT_PAGE_MAX then Inl ESP_ERR_INVALID_ARG
      else if \<not> at_available a \<or> (before_sequence \<noteq> 0 \<and> before_sequence > am_next_sequence m)
      then Inl (if before_sequence > am_next_sequence m then ESP_ERR_INVALID_ARG else ESP_ERR_INVALID_STATE)
      else
        (let p = page_records nvs (if before_sequence = 0 then am_next_sequence m else before_sequence) limit a s
                   (unat (am_count m))
                   \<lparr> pg_records = [], pg_next_before = 0, pg_has_more = False, pg_corruption_gap = False \<rparr>
         in Inr (if pg_has_more p then p else p\<lparr> pg_next_before := 0 \<rparr>)))"

record audit_status =
  as_next_sequence :: u64
  as_count :: u32
  as_overwritten :: u32
  as_available :: bool
  as_finalization_degraded :: bool

definition argus_security_audit_get_status :: "audit_state \<Rightarrow> esp_err + audit_status" where
  "argus_security_audit_get_status a =
     (if \<not> at_ready a then Inl ESP_ERR_INVALID_ARG
      else Inr \<lparr> as_next_sequence = am_next_sequence (at_meta a), as_count = am_count (at_meta a),
                 as_overwritten = am_overwritten (at_meta a), as_available = at_available a,
                 as_finalization_degraded = at_degraded a \<rparr>)"

section \<open>Privileged mutations\<close>

text \<open>A mutation is announced by a prepared record and concluded by a record with the same life cycle.\<close>

record audit_mutation =
  mu_event_type :: u16
  mu_principal_type :: u8
  mu_lifecycle_id :: u16
  mu_security_epoch :: u32
  mu_actor :: "u8 list"
  mu_target :: "u8 list"
  mu_source :: "u8 list"
  mu_action :: "u8 list"

text \<open>The reason of the record: the text \<open>"%s_..."\<close> if it fits.\<close>

definition reason_text :: "u8 list \<Rightarrow> string \<Rightarrow> u8 list option" where
  "reason_text action suffix =
     (let text = cstr action @ str_bytes suffix in if length text \<ge> 37 then None else Some text)"

definition argus_security_audit_mutation_begin ::
  "bool \<Rightarrow> bool \<Rightarrow> (audit_blob, 'n) dir_nvs \<Rightarrow> (nat \<Rightarrow> u64) \<Rightarrow> u16 \<Rightarrow> u8 \<Rightarrow> u8 list \<Rightarrow> u8 list \<Rightarrow> u8 list \<Rightarrow> u8 list \<Rightarrow> u32 \<Rightarrow>
     audit_state \<Rightarrow> 'n \<Rightarrow> (esp_err + audit_mutation) \<times> audit_state \<times> 'n" where
  "argus_security_audit_mutation_begin memory semaphore nvs uptime type principal_type actor target source action security_epoch a s =
     (if \<not> safe_text action 21 \<or> cstr action = [] \<or> at_degraded a then (Inl ESP_ERR_INVALID_STATE, a, s)
      else (case reason_text action ''_prepared'' of
              None \<Rightarrow> (Inl ESP_ERR_INVALID_ARG, a, s)
            | Some reason \<Rightarrow>
                (case append_record memory semaphore nvs uptime
                        \<lparr> en_type = type, en_outcome = OUTCOME_PREPARED, en_principal_type = principal_type, en_lifecycle_id = 0,
                          en_actor = actor, en_target = target, en_source = source, en_reason = reason,
                          en_security_epoch = security_epoch \<rparr> True a s of
                   ((err, written), a1, s1) \<Rightarrow>
                     if err \<noteq> ESP_OK then (Inl err, a1, s1)
                     else (Inr \<lparr> mu_event_type = type, mu_principal_type = principal_type,
                                 mu_lifecycle_id = ar_lifecycle_id written, mu_security_epoch = security_epoch,
                                 mu_actor = fill_buffer 37 actor, mu_target = fill_buffer 37 target,
                                 mu_source = fill_buffer 16 source, mu_action = fill_buffer 21 action \<rparr>, a1, s1))))"

definition argus_security_audit_mutation_finish ::
  "bool \<Rightarrow> bool \<Rightarrow> (audit_blob, 'n) dir_nvs \<Rightarrow> (nat \<Rightarrow> u64) \<Rightarrow> audit_mutation \<Rightarrow> bool \<Rightarrow> audit_state \<Rightarrow> 'n \<Rightarrow> esp_err \<times> audit_state \<times> 'n" where
  "argus_security_audit_mutation_finish memory semaphore nvs uptime mutation succeeded a s =
     (if mu_lifecycle_id mutation = 0 then (ESP_ERR_INVALID_ARG, a, s)
      else (case reason_text (mu_action mutation) (if succeeded then ''_succeeded'' else ''_failed'') of
              None \<Rightarrow> (ESP_ERR_INVALID_ARG, a, s)
            | Some reason \<Rightarrow>
                (case append_record memory semaphore nvs uptime
                        \<lparr> en_type = mu_event_type mutation, en_outcome = (if succeeded then OUTCOME_SUCCESS else OUTCOME_FAILED),
                          en_principal_type = mu_principal_type mutation, en_lifecycle_id = mu_lifecycle_id mutation,
                          en_actor = mu_actor mutation, en_target = mu_target mutation, en_source = mu_source mutation,
                          en_reason = reason, en_security_epoch = mu_security_epoch mutation \<rparr> True a s of
                   ((err, written), a1, s1) \<Rightarrow>
                     (err, if err \<noteq> ESP_OK then a1\<lparr> at_degraded := True \<rparr> else a1, s1))))"

section \<open>Start-up\<close>

definition meta_acceptable :: "audit_meta \<Rightarrow> bool" where
  "meta_acceptable m \<longleftrightarrow> am_schema_version m = AUDIT_SCHEMA \<and> am_reserved m = 0 \<and> unat (am_count m) \<le> AUDIT_CAPACITY
     \<and> unat (am_oldest_slot m) < AUDIT_PHYSICAL_SLOTS \<and> unat (am_spare_slot m) < AUDIT_PHYSICAL_SLOTS
     \<and> am_next_sequence m \<noteq> 0 \<and> am_crc32 m = meta_crc m"

definition first_meta :: audit_meta where
  "first_meta = (let m = audit_meta_zero\<lparr> am_schema_version := AUDIT_SCHEMA, am_next_sequence := 1 \<rparr>
                 in m\<lparr> am_crc32 := meta_crc m \<rparr>)"

text \<open>The metadata that the start-up finds or creates.\<close>

definition load_meta :: "(audit_blob, 'n) dir_nvs \<Rightarrow> audit_meta \<Rightarrow> 'n \<Rightarrow> esp_err \<times> audit_meta \<times> 'n" where
  "load_meta nvs m s =
     (case dn_get_blob nvs AUDIT_META_KEY s (Blob_meta m) of
        (err, b) \<Rightarrow>
          if err = ESP_ERR_NVS_NOT_FOUND
          then (let (err2, s2) = dn_set_blob nvs AUDIT_META_KEY (Blob_meta first_meta) s;
                    (err3, s3) = (if err2 = ESP_OK then dn_commit nvs s2 else (err2, s2))
                in (err3, first_meta, s3))
          else if err \<noteq> ESP_OK then (err, m, s)
          else (case b of
                  Blob_record r \<Rightarrow> (ESP_ERR_INVALID_CRC, m, s)
                | Blob_meta m1 \<Rightarrow> (if meta_acceptable m1 then ESP_OK else ESP_ERR_INVALID_CRC, m1, s)))"

text \<open>The draws of the boot identifier until one is not zero.\<close>

partial_function (option) draw_boot_id :: "(nat \<Rightarrow> u64) \<Rightarrow> nat \<Rightarrow> u64 option" where
  "draw_boot_id random i = (if random i = 0 then draw_boot_id random (i + 1) else Some (random i))"

record audit_resources =
  rs_partition :: esp_err
  rs_mutex :: bool
  rs_queue :: bool
  rs_task :: bool

definition argus_security_audit_init ::
  "audit_resources \<Rightarrow> (audit_blob, 'n) dir_nvs \<Rightarrow> (nat \<Rightarrow> u64) \<Rightarrow> audit_state \<Rightarrow> 'n \<Rightarrow> (esp_err \<times> audit_state \<times> 'n) option" where
  "argus_security_audit_init res nvs random a s =
     (if at_task a then Some (ESP_OK, a, s)
      else if rs_partition res \<noteq> ESP_OK then Some (rs_partition res, a, s)
      else if \<not> rs_mutex res then Some (ESP_ERR_NO_MEM, a\<lparr> at_ready := False \<rparr>, s)
      else
        (let a1 = a\<lparr> at_ready := True \<rparr>; (err, s1) = dn_open nvs True s in
         if err \<noteq> ESP_OK then Some (err, a1, s1)
         else
           (let (err2, m, s2) = load_meta nvs (at_meta a1) s1; a2 = a1\<lparr> at_meta := m \<rparr> in
            if err2 \<noteq> ESP_OK then Some (err2, a2, s2)
            else (case draw_boot_id random 0 of
                    None \<Rightarrow> None
                  | Some boot \<Rightarrow>
                      (let a3 = a2\<lparr> at_boot_id := boot \<rparr> in
                       if \<not> rs_queue res then Some (ESP_ERR_NO_MEM, a3, s2)
                       else if \<not> rs_task res then Some (ESP_ERR_NO_MEM, a3, s2)
                       else Some (ESP_OK, a3\<lparr> at_queue := [], at_task := True, at_available := True \<rparr>, s2))))))"

definition argus_security_audit_append ::
  "bool \<Rightarrow> bool \<Rightarrow> (audit_blob, 'n) dir_nvs \<Rightarrow> (nat \<Rightarrow> u64) \<Rightarrow> audit_entry \<Rightarrow> bool \<Rightarrow> audit_state \<Rightarrow> 'n \<Rightarrow> esp_err \<times> audit_state \<times> 'n" where
  "argus_security_audit_append memory semaphore nvs uptime x required a s =
     (case append_record memory semaphore nvs uptime (x\<lparr> en_lifecycle_id := 0 \<rparr>) required a s of
        ((err, written), a1, s1) \<Rightarrow> (err, a1, s1))"

end
