(* ===== verification/Audit_Log_Props.thy ===== *)
theory Audit_Log_Props
  imports Audit_Log "HOL-Library.Sublist"
begin

text \<open>
  Properties of the security audit log. The locale \<open>audit_nvs\<close> is the documented behaviour of the NVS
  calls: an entry has its old or its new value, reads return what is stored. On every such
  platform the log is the window of the newest 255 records of one growing history, whatever
  calls fail and whenever the power is lost, and an acknowledged record is part of it.
\<close>

section \<open>Keys\<close>

lemma nibble_char_inj: "m \<le> 15 \<Longrightarrow> n \<le> 15 \<Longrightarrow> nibble_char m = nibble_char n \<Longrightarrow> m = n"
proof -
  assume le: "m \<le> 15" "n \<le> 15" and eq: "nibble_char m = nibble_char n"
  have "distinct ''0123456789abcdef''" by simp
  moreover have "unat m < length ''0123456789abcdef''" "unat n < length ''0123456789abcdef''"
    using le by (simp_all add: word_le_nat_alt)
  ultimately have "unat m = unat n" using eq nth_eq_iff_index_eq unfolding nibble_char_def by blast
  then show ?thesis by (simp add: word_unat_eq_iff)
qed

lemma record_key_inj: "record_key v = record_key w \<Longrightarrow> v = w"
proof -
  assume eq: "record_key v = record_key w"
  have nib: "drop_bit (4 * k) v AND 0xf = drop_bit (4 * k) w AND 0xf" if "k \<in> {0, 1, 2, 3, 4, 5, 6, 7}" for k
    by (rule nibble_char_inj) (use eq that in \<open>auto simp: record_key_def word_and_le1\<close>)
  show "v = w"
  proof (rule bit_word_eqI)
    fix n assume n: "n < LENGTH(32)"
    have "n div 4 < 8" using n by simp
    then have "n div 4 \<in> {0, 1, 2, 3, 4, 5, 6, 7}" by auto
    then have "bit (drop_bit (4 * (n div 4)) v AND 0xf) (n mod 4) = bit (drop_bit (4 * (n div 4)) w AND 0xf) (n mod 4)"
      using nib by metis
    moreover have "bit (0xf :: u32) (n mod 4)"
    proof -
      have "n mod 4 \<in> {0, 1, 2, 3}" by auto
      then show ?thesis by auto
    qed
    ultimately show "bit v n = bit w n" by (simp add: bit_and_iff bit_drop_bit_eq)
  qed
qed

lemma record_key_meta [simp]: "record_key v \<noteq> AUDIT_META_KEY" "AUDIT_META_KEY \<noteq> record_key v"
  by (simp_all add: record_key_def)

section \<open>The platform contract\<close>

locale audit_nvs =
  fixes api :: "(audit_blob, 'n) dir_nvs" and blobs :: "'n \<Rightarrow> string \<Rightarrow> audit_blob option"
  assumes open_keeps: "\<And>w s e s'. dn_open api w s = (e, s') \<Longrightarrow> blobs s' = blobs s"
    and get_found: "\<And>k s out x. dn_get_blob api k s out = (ESP_OK, x) \<Longrightarrow> blobs s k = Some x"
    and get_absent: "\<And>k s out x. dn_get_blob api k s out = (ESP_ERR_NVS_NOT_FOUND, x) \<Longrightarrow> blobs s k = None"
    and set_atomic: "\<And>k x s e s'. dn_set_blob api k x s = (e, s') \<Longrightarrow>
          blobs s' = (blobs s)(k \<mapsto> x) \<or> e \<noteq> ESP_OK \<and> blobs s' = blobs s"
    and commit_keeps: "\<And>s e s'. dn_commit api s = (e, s') \<Longrightarrow> blobs s' = blobs s"
begin

text \<open>The four states of the flash that writing a record can leave.\<close>

lemma write_cells:
  assumes "write_record_and_meta api slot r m s = (e, s')"
  shows "blobs s' = (blobs s)(record_key slot \<mapsto> Blob_record r, AUDIT_META_KEY \<mapsto> Blob_meta m)
    \<or> e \<noteq> ESP_OK \<and> (blobs s' = blobs s \<or> blobs s' = (blobs s)(record_key slot \<mapsto> Blob_record r))"
proof -
  obtain e1 s1 where o: "dn_open api True s = (e1, s1)" by fastforce
  obtain e2 s2 where w: "dn_set_blob api (record_key slot) (Blob_record r) s1 = (e2, s2)" by fastforce
  obtain e3 s3 where c: "dn_commit api s2 = (e3, s3)" by fastforce
  obtain e4 s4 where z: "dn_set_blob api AUDIT_META_KEY (Blob_meta m) s3 = (e4, s4)" by fastforce
  obtain e5 s5 where d: "dn_commit api s4 = (e5, s5)" by fastforce
  show ?thesis
    using assms open_keeps [OF o] set_atomic [OF w] commit_keeps [OF c] set_atomic [OF z] commit_keeps [OF d]
    unfolding write_record_and_meta_def Let_def o w c z d prod.case
    by (cases "e1 = ESP_OK"; cases "e2 = ESP_OK"; cases "e3 = ESP_OK"; cases "e4 = ESP_OK") (auto simp: w c z d)
qed

end

section \<open>The window\<close>

text \<open>The metadata after \<open>n\<close> records: everything is determined by their number.\<close>

definition base_meta :: "nat \<Rightarrow> audit_meta" where
  "base_meta n =
     \<lparr> am_schema_version = AUDIT_SCHEMA, am_reserved = 0, am_count = of_nat (min n AUDIT_CAPACITY),
       am_oldest_slot = of_nat ((n - AUDIT_CAPACITY) mod AUDIT_PHYSICAL_SLOTS),
       am_spare_slot = of_nat (n mod AUDIT_PHYSICAL_SLOTS), am_overwritten = of_nat (n - AUDIT_CAPACITY),
       am_next_sequence = of_nat (Suc n), am_crc32 = 0 \<rparr>"

definition meta_for :: "nat \<Rightarrow> audit_meta" where
  "meta_for n = (base_meta n)\<lparr> am_crc32 := meta_crc (base_meta n) \<rparr>"

lemma meta_crc_crc [simp]: "meta_crc (m\<lparr> am_crc32 := c \<rparr>) = meta_crc m"
  by (simp add: meta_crc_def)

lemma unat_count [simp]: "unat (of_nat (min n 255) :: u32) = min n 255"
  by (simp add: unat_of_nat min_def)

lemma unat_slot [simp]: "unat (of_nat (n mod 256) :: u32) = n mod 256"
  by (simp add: unat_of_nat)

lemma unat_sequence: "n < 2 ^ 64 \<Longrightarrow> unat (of_nat n :: u64) = n"
  by (simp add: unat_of_nat)

lemma next_slot: "(of_nat (n mod 256) + 1) mod 256 = (of_nat (Suc n mod 256) :: u32)"
proof -
  have "unat (of_nat (n mod 256) + 1 :: u32) = Suc (n mod 256)"
    using unat_add_no_wrap [of "of_nat (n mod 256) :: u32" 1] by simp
  then have "unat ((of_nat (n mod 256) + 1) mod 256 :: u32) = Suc n mod 256"
    by (simp add: unat_mod mod_Suc_eq)
  then show ?thesis by (simp add: word_unat_eq_iff del: of_nat_Suc)
qed

lemma meta_for_first: "first_meta = meta_for 0"
  by (simp add: first_meta_def meta_for_def base_meta_def audit_meta_zero_def Let_def)

lemma meta_for_acceptable: "Suc n < 2 ^ 64 \<Longrightarrow> meta_acceptable (meta_for n)"
proof -
  assume n: "Suc n < 2 ^ 64"
  have "of_nat (Suc n) \<noteq> (0 :: u64)" using unat_sequence [OF n] by (metis nat.distinct(1) unat_0)
  then show ?thesis unfolding meta_acceptable_def meta_for_def meta_crc_crc by (simp add: base_meta_def del: of_nat_Suc)
qed

lemma meta_for_next: "Suc (Suc n) < 2 ^ 64 \<Longrightarrow> next_audit_meta (meta_for n) = meta_for (Suc n)"
proof -
  assume n: "Suc (Suc n) < 2 ^ 64"
  have seq: "of_nat (Suc n) + 1 = (of_nat (Suc (Suc n)) :: u64)" by simp
  have nz: "(of_nat (Suc (Suc n)) :: u64) \<noteq> 0" using unat_sequence [OF n] by (metis nat.distinct(1) unat_0)
  define c where "c = meta_crc (base_meta n)"
  define m where "m = (base_meta (Suc n))\<lparr> am_crc32 := c \<rparr>"
  have "next_audit_meta ((base_meta n)\<lparr> am_crc32 := c \<rparr>) = m\<lparr> am_crc32 := meta_crc m \<rparr>"
  proof (cases "n < 255")
    case True
    then have "(of_nat n + 1 :: u32) = of_nat (min (Suc n) 255)" by (simp add: min_def)
    moreover have "unat (of_nat n :: u32) = n" using unat_count [of n] True by (simp add: min_absorb1)
    ultimately show ?thesis using True nz seq next_slot [of n]
      by (simp add: next_audit_meta_def base_meta_def m_def Let_def min_absorb1 del: of_nat_Suc)
  next
    case False
    have "Suc n = (n - 255) + 256" using False by simp
    then have "Suc n mod 256 = (n - 255) mod 256" by (simp only: mod_add_self2)
    then have spare: "(of_nat ((n - 255) mod 256) :: u32) = of_nat (Suc n mod 256)" by (simp only:)
    have "Suc (n - 255) = Suc n - 255" using False by simp
    then show ?thesis using False nz seq next_slot [of "n - 255"] spare
      by (simp add: next_audit_meta_def base_meta_def m_def Let_def min_absorb2 del: of_nat_Suc)
  qed
  then have "next_audit_meta (meta_for n) = m\<lparr> am_crc32 := meta_crc m \<rparr>" by (simp only: meta_for_def c_def)
  moreover have "m\<lparr> am_crc32 := meta_crc m \<rparr> = meta_for (Suc n)" by (simp add: m_def meta_for_def)
  ultimately show ?thesis by simp
qed

text \<open>
  The flash holds the newest records of the history \<open>w\<close> in the slots of their numbers; every
  record has the number of its place and a valid checksum.
\<close>

definition record_ok :: "audit_record \<Rightarrow> bool" where
  "record_ok r \<longleftrightarrow> ar_schema_version r = AUDIT_SCHEMA \<and> ar_crc32 r = record_crc r"

definition holds_window :: "(string \<Rightarrow> audit_blob option) \<Rightarrow> audit_record list \<Rightarrow> bool" where
  "holds_window b w \<longleftrightarrow>
     (\<forall>i < length w. record_ok (w ! i) \<and> ar_sequence (w ! i) = of_nat (Suc i)
        \<and> (length w - AUDIT_CAPACITY \<le> i \<longrightarrow> b (record_key (of_nat (i mod AUDIT_PHYSICAL_SLOTS))) = Some (Blob_record (w ! i))))"

abbreviation spare_key :: "audit_record list \<Rightarrow> string" where
  "spare_key w \<equiv> record_key (of_nat (length w mod AUDIT_PHYSICAL_SLOTS))"

lemma slot_key_inj: "record_key (of_nat (i mod 256)) = record_key (of_nat (j mod 256)) \<Longrightarrow> i mod 256 = j mod 256"
  using record_key_inj unat_slot by metis

lemma window_mod: "length w - 255 \<le> i \<Longrightarrow> i < length w \<Longrightarrow> i mod 256 \<noteq> length w mod 256"
proof
  assume i: "length w - 255 \<le> i" "i < length w" and eq: "i mod 256 = length w mod 256"
  then have "256 dvd length w - i" by (metis less_imp_le mod_eq_dvd_iff_nat)
  then show False using i by (auto dest: dvd_imp_le)
qed

text \<open>Writing the spare slot or the metadata leaves the window; with the next record there it grows.\<close>

lemma holds_spare: "holds_window b w \<Longrightarrow> holds_window (b(spare_key w := x)) w"
  using window_mod [of w] slot_key_inj by (fastforce simp: holds_window_def)

lemma holds_meta: "holds_window b w \<Longrightarrow> holds_window (b(AUDIT_META_KEY := x)) w"
  by (simp add: holds_window_def)

lemma holds_append:
  assumes "holds_window b w" "record_ok r" "ar_sequence r = of_nat (Suc (length w))" "b (spare_key w) = Some (Blob_record r)"
  shows "holds_window b (w @ [r])"
  unfolding holds_window_def
proof (intro allI impI)
  fix i assume "i < length (w @ [r])"
  then consider "i < length w" | "i = length w" by fastforce
  then show "record_ok ((w @ [r]) ! i) \<and> ar_sequence ((w @ [r]) ! i) = of_nat (Suc i)
      \<and> (length (w @ [r]) - 255 \<le> i \<longrightarrow> b (record_key (of_nat (i mod 256))) = Some (Blob_record ((w @ [r]) ! i)))"
    using assms by cases (auto simp: holds_window_def nth_append)
qed

lemma stamp_ok:
  "record_ok (stamp_record uptime a r)"
  "ar_sequence (stamp_record uptime a r) = am_next_sequence (at_meta a)"
proof -
  have "record_crc (x\<lparr> ar_crc32 := c \<rparr>) = record_crc x" for x c by (simp add: record_crc_def)
  then show "record_ok (stamp_record uptime a r)"
    unfolding stamp_record_def Let_def record_ok_def by simp
  show "ar_sequence (stamp_record uptime a r) = am_next_sequence (at_meta a)"
    by (simp add: stamp_record_def Let_def)
qed

section \<open>The invariant\<close>

text \<open>
  What the flash says after a start-up is \<open>w\<close>; what the running log says is \<open>w\<close>, and the flash may
  be one unacknowledged record ahead.
\<close>

definition stored_log :: "(string \<Rightarrow> audit_blob option) \<Rightarrow> audit_record list \<Rightarrow> bool" where
  "stored_log b w \<longleftrightarrow> holds_window b w \<and> (b AUDIT_META_KEY = Some (Blob_meta (meta_for (length w))) \<or> b AUDIT_META_KEY = None \<and> w = [])"

definition served_log :: "(string \<Rightarrow> audit_blob option) \<Rightarrow> audit_state \<Rightarrow> audit_record list \<Rightarrow> bool" where
  "served_log b a w \<longleftrightarrow> holds_window b w \<and> at_meta a = meta_for (length w) \<and> at_task a \<and> at_ready a
     \<and> (b AUDIT_META_KEY = Some (Blob_meta (meta_for (length w)))
        \<or> (\<exists>r. holds_window b (w @ [r]) \<and> b AUDIT_META_KEY = Some (Blob_meta (meta_for (Suc (length w))))))"

lemma served_stored: "served_log b a w \<Longrightarrow> stored_log b w \<or> (\<exists>r. stored_log b (w @ [r]))"
  by (auto simp: served_log_def stored_log_def)

context audit_nvs
begin

lemma append_served:
  assumes run: "append_locked api uptime r a s = ((e, r1), a', s')"
    and log: "served_log (blobs s) a w" and bound: "Suc (Suc (length w)) < 2 ^ 64"
  shows "if e = ESP_OK then served_log (blobs s') a' (w @ [r1]) \<and> stored_log (blobs s') (w @ [r1]) else served_log (blobs s') a' w"
    and "a' = a\<lparr> at_meta := at_meta a' \<rparr>"
proof -
  obtain e0 s0 where wr: "write_record_and_meta api (am_spare_slot (at_meta a)) (stamp_record uptime a r) (next_audit_meta (at_meta a)) s = (e0, s0)"
    by fastforce
  have m: "at_meta a = meta_for (length w)" "next_audit_meta (at_meta a) = meta_for (Suc (length w))" "at_task a" "at_ready a"
    using log meta_for_next [OF bound] by (auto simp: served_log_def)
  have spare: "am_spare_slot (at_meta a) = of_nat (length w mod 256)" "am_next_sequence (at_meta a) = of_nat (Suc (length w))"
    using m(1) by (simp_all add: meta_for_def base_meta_def del: of_nat_Suc)
  have res: "e = e0" "s' = s0" "r1 = stamp_record uptime a r" "a' = (if e = ESP_OK then a\<lparr> at_meta := meta_for (Suc (length w)) \<rparr> else a)"
    using run wr m(2) by (auto simp: append_locked_def Let_def)
  have r1: "record_ok r1" "ar_sequence r1 = of_nat (Suc (length w))" using stamp_ok [of uptime a r] res(3) spare(2) by simp_all
  have base: "holds_window (blobs s) w" using log by (simp add: served_log_def)
  define b1 where "b1 = (blobs s)(spare_key w \<mapsto> Blob_record r1)"
  have grown: "holds_window b1 w" "holds_window b1 (w @ [r1])"
    using holds_spare [OF base] holds_append [OF holds_spare [OF base] r1] by (simp_all add: b1_def)
  have cells: "blobs s' = b1(AUDIT_META_KEY \<mapsto> Blob_meta (meta_for (Suc (length w)))) \<or> e \<noteq> ESP_OK \<and> (blobs s' = blobs s \<or> blobs s' = b1)"
    using write_cells [OF wr] res m(2) spare(1) by (simp add: b1_def)
  show "if e = ESP_OK then served_log (blobs s') a' (w @ [r1]) \<and> stored_log (blobs s') (w @ [r1]) else served_log (blobs s') a' w"
  proof (cases "blobs s' = b1(AUDIT_META_KEY \<mapsto> Blob_meta (meta_for (Suc (length w))))")
    case True
    then show ?thesis using grown holds_meta res(4) m by (auto simp: served_log_def stored_log_def)
  next
    case False
    then have e: "e \<noteq> ESP_OK" and cell: "blobs s' = blobs s \<or> blobs s' = b1" using cells by auto
    have "b1 AUDIT_META_KEY = blobs s AUDIT_META_KEY" by (simp add: b1_def)
    then have "served_log b1 a w" using log grown by (auto simp: served_log_def)
    then show ?thesis using e cell log res(4) by auto
  qed
  show "a' = a\<lparr> at_meta := at_meta a' \<rparr>" using res(4) by simp
qed

lemma handle_served:
  assumes "handle_request api uptime request a s = ((e, r1), a', s')" "at_available a" "served_log (blobs s) a w"
    and "Suc (Suc (length w)) < 2 ^ 64"
  shows "\<exists>u. served_log (blobs s') a' (w @ u) \<and> length u \<le> 1 \<and> (e = ESP_OK \<longrightarrow> u = [r1]) \<and> at_available a' \<and> at_queue a' = at_queue a"
proof -
  have run: "append_locked api uptime (au_record request) a s = ((e, r1), a', s')" using assms(1,2) by (simp add: handle_request_def)
  have keeps: "at_available a' = at_available a" "at_queue a' = at_queue a"
    by (subst append_served(2) [OF run assms(3,4)], simp)+
  show ?thesis using append_served(1) [OF run assms(3,4)] keeps assms(2)
    by (cases "e = ESP_OK") (auto intro: exI [of _ "[]"])
qed

lemma drain_served:
  assumes "drain api uptime q request a s = ((e, r1), a', s')" "at_available a" "served_log (blobs s) a w"
    and "Suc (Suc (length w + length q)) < 2 ^ 64"
  shows "\<exists>u. served_log (blobs s') a' (w @ u) \<and> length u \<le> Suc (length q) \<and> (e = ESP_OK \<longrightarrow> (\<exists>v. u = v @ [r1])) \<and> at_available a'"
  using assms
proof (induction q arbitrary: uptime a s w)
  case Nil
  then show ?case using handle_served [of "uptime 0" request a s e r1 a' s' w] by fastforce
next
  case (Cons p q)
  obtain x a1 s1 where h: "handle_request api (uptime 0) p a s = (x, a1, s1)" by (metis surj_pair)
  obtain u where u: "served_log (blobs s1) a1 (w @ u)" "length u \<le> 1" "at_available a1"
    using handle_served [of "uptime 0" p a s "fst x" "snd x" a1 s1 w] h Cons.prems by auto
  have "drain api (\<lambda>i. uptime (Suc i)) q request a1 s1 = ((e, r1), a', s')" using Cons.prems(1) h by simp
  then obtain v where v: "served_log (blobs s') a' ((w @ u) @ v)" "length v \<le> Suc (length q)"
      "e = ESP_OK \<longrightarrow> (\<exists>y. v = y @ [r1])" "at_available a'"
    using Cons.IH [OF _ u(3,1)] u(2) Cons.prems(4) by fastforce
  then show ?case using u(2) by (intro exI [of _ "u @ v"]) auto
qed

text \<open>The start-up serves what the flash holds, or nothing.\<close>

lemma load_meta_stored:
  assumes "load_meta api m s = (e, m', s')" "stored_log (blobs s) w"
  shows "stored_log (blobs s') w" and "e = ESP_OK \<longrightarrow> m' = meta_for (length w) \<and> blobs s' AUDIT_META_KEY = Some (Blob_meta m')"
proof -
  obtain e1 x where g: "dn_get_blob api AUDIT_META_KEY s (Blob_meta m) = (e1, x)" by fastforce
  obtain e2 s2 where w: "dn_set_blob api AUDIT_META_KEY (Blob_meta first_meta) s = (e2, s2)" by fastforce
  obtain e3 s3 where c: "dn_commit api s2 = (e3, s3)" by fastforce
  have "stored_log (blobs s') w \<and> (e = ESP_OK \<longrightarrow> m' = meta_for (length w) \<and> blobs s' AUDIT_META_KEY = Some (Blob_meta m'))"
  proof (cases "e1 = ESP_ERR_NVS_NOT_FOUND")
    case True
    then have "blobs s AUDIT_META_KEY = None" using g get_absent by blast
    then have w0: "w = []" using assms(2) by (auto simp: stored_log_def)
    have "blobs s' = (blobs s)(AUDIT_META_KEY \<mapsto> Blob_meta first_meta) \<or> e \<noteq> ESP_OK \<and> blobs s' = blobs s"
      using assms(1) g w c True set_atomic [OF w] commit_keeps [OF c] by (auto simp: load_meta_def split: if_splits)
    moreover have "m' = meta_for 0" using assms(1) g w c True meta_for_first by (auto simp: load_meta_def Let_def split: if_splits prod.splits)
    ultimately show ?thesis using assms(2) w0 meta_for_first by (auto simp: stored_log_def holds_window_def)
  next
    case False
    have "s' = s" using assms(1) g False by (auto simp: load_meta_def split: if_splits audit_blob.splits)
    moreover have "e = ESP_OK \<longrightarrow> blobs s AUDIT_META_KEY = Some (Blob_meta m')"
      using assms(1) g False get_found [of AUDIT_META_KEY s "Blob_meta m" x] by (auto simp: load_meta_def split: if_splits audit_blob.splits)
    ultimately show ?thesis using assms(2) by (auto simp: stored_log_def)
  qed
  then show "stored_log (blobs s') w" "e = ESP_OK \<longrightarrow> m' = meta_for (length w) \<and> blobs s' AUDIT_META_KEY = Some (Blob_meta m')" by simp_all
qed

lemma init_serves:
  assumes "argus_security_audit_init res api random a s = Some (e, a', s')" "stored_log (blobs s) w" "\<not> at_available a"
  shows "if at_available a' then served_log (blobs s') a' w else stored_log (blobs s') w"
proof -
  obtain e1 s1 where o: "dn_open api True s = (e1, s1)" by fastforce
  obtain e2 m s2 where l: "load_meta api (at_meta a) s1 = (e2, m, s2)" by (metis prod_cases3)
  have st: "stored_log (blobs s1) w" using assms(2) open_keeps [OF o] by simp
  note after = load_meta_stored [OF l st]
  show ?thesis
  proof (cases "at_task a \<or> rs_partition res \<noteq> ESP_OK \<or> \<not> rs_mutex res \<or> e1 \<noteq> ESP_OK \<or> e2 \<noteq> ESP_OK")
    case True
    then show ?thesis using assms o l st after(1)
      by (auto simp: argus_security_audit_init_def Let_def split: if_splits)
  next
    case False
    obtain boot where boot: "draw_boot_id random 0 = Some boot"
      using assms(1) False o l by (cases "draw_boot_id random 0") (auto simp: argus_security_audit_init_def)
    have "served_log (blobs s2) (a\<lparr> at_ready := True, at_meta := m, at_boot_id := boot, at_queue := [], at_task := True, at_available := True \<rparr>) w"
      using after False by (simp add: served_log_def stored_log_def)
    then show ?thesis using assms False o l boot after(1)
      by (cases "rs_queue res"; cases "rs_task res") (auto simp: argus_security_audit_init_def Let_def)
  qed
qed

end

section \<open>Histories\<close>

text \<open>
  What can happen to the log: start-ups, requests, rounds of the task, a lost conclusion of a
  mutation, and the loss of power between any two calls. The acknowledged records are those
  whose request waited and succeeded; the number bounds the records ever written.
\<close>

inductive audit_history ::
  "(audit_blob, 'n) dir_nvs \<Rightarrow> ('n \<Rightarrow> string \<Rightarrow> audit_blob option) \<Rightarrow> audit_state \<Rightarrow> 'n \<Rightarrow> audit_record list \<Rightarrow> nat \<Rightarrow> bool"
  for api blobs where
  blank: "blobs s = Map.empty \<Longrightarrow> audit_history api blobs audit_state_zero s [] 0"
| start: "audit_history api blobs a s acked k \<Longrightarrow> argus_security_audit_init res api random a s = Some (e, a', s') \<Longrightarrow>
    audit_history api blobs a' s' acked k"
| append: "audit_history api blobs a s acked k \<Longrightarrow> append_record memory semaphore api uptime x required a s = ((e, r), a', s') \<Longrightarrow>
    audit_history api blobs a' s' (if required \<and> e = ESP_OK then acked @ [r] else acked) (k + Suc (length (at_queue a)))"
| task: "audit_history api blobs a s acked k \<Longrightarrow> audit_task api t a s = (a', s') \<Longrightarrow> audit_history api blobs a' s' acked (Suc k)"
| degrade: "audit_history api blobs a s acked k \<Longrightarrow> audit_history api blobs (a\<lparr> at_degraded := d \<rparr>) s acked k"
| power: "audit_history api blobs a s acked k \<Longrightarrow> audit_history api blobs audit_state_zero s acked (Suc k)"

definition history_log :: "(string \<Rightarrow> audit_blob option) \<Rightarrow> audit_state \<Rightarrow> audit_record list \<Rightarrow> bool" where
  "history_log b a w \<longleftrightarrow> (if at_available a then served_log b a w else stored_log b w)"

lemma history_log_queue [simp]: "served_log b (a\<lparr> at_queue := q \<rparr>) w = served_log b a w"
  by (simp add: served_log_def)

context audit_nvs
begin

lemma append_history:
  assumes run: "append_record memory semaphore api uptime x required a s = ((e, r), a', s')"
    and log: "history_log (blobs s) a w" and bound: "Suc (Suc (length w + length (at_queue a))) < 2 ^ 64"
  shows "\<exists>u. history_log (blobs s') a' (w @ u) \<and> length u \<le> Suc (length (at_queue a)) \<and> (required \<and> e = ESP_OK \<longrightarrow> (\<exists>v. u = v @ [r]))"
proof (cases "at_available a \<and> entry_acceptable x \<and> memory \<and> length (at_queue a) < 8 \<and> required \<and> semaphore")
  case True
  then have "drain api uptime (at_queue a) \<lparr> au_record = fresh_record x, au_required = required \<rparr> (a\<lparr> at_queue := [] \<rparr>) s = ((e, r), a', s')"
    using run by (simp add: append_record_def)
  from drain_served [OF this, of w] obtain u where "served_log (blobs s') a' (w @ u)" "length u \<le> Suc (length (at_queue a))"
      "e = ESP_OK \<longrightarrow> (\<exists>v. u = v @ [r])" "at_available a'"
    using True log bound by (auto simp: history_log_def)
  then show ?thesis by (intro exI [of _ u]) (simp add: history_log_def)
next
  case False
  then have "s' = s" "a' = a \<or> (\<exists>q. a' = a\<lparr> at_queue := q \<rparr>)" "\<not> (required \<and> e = ESP_OK)"
    using run by (auto simp: append_record_def Let_def split: if_splits)
  then show ?thesis using log by (intro exI [of _ "[]"]) (auto simp: history_log_def)
qed

lemma task_history:
  assumes run: "audit_task api t a s = (a', s')" and log: "history_log (blobs s) a w" and bound: "Suc (Suc (length w)) < 2 ^ 64"
  shows "\<exists>u. history_log (blobs s') a' (w @ u) \<and> length u \<le> 1"
proof (cases "at_queue a")
  case Nil
  then show ?thesis using run log by (intro exI [of _ "[]"]) (simp add: audit_task_def)
next
  case (Cons req rest)
  obtain e r where h: "handle_request api t req (a\<lparr> at_queue := rest \<rparr>) s = ((e, r), a', s')"
    using run Cons by (auto simp: audit_task_def) (metis prod.collapse)
  show ?thesis
  proof (cases "at_available a")
    case True
    then show ?thesis using handle_served [OF h _ _ bound] log by (fastforce simp: history_log_def)
  next
    case False
    then show ?thesis using h log by (intro exI [of _ "[]"]) (auto simp: handle_request_def history_log_def)
  qed
qed

lemma history_invariant:
  assumes "audit_history api blobs a s acked k" "k < 2 ^ 64 - 2"
  shows "\<exists>w. history_log (blobs s) a w \<and> length w \<le> k \<and> subseq acked w"
  using assms
proof induction
  case (blank s)
  then show ?case by (simp add: history_log_def audit_state_zero_def stored_log_def holds_window_def)
next
  case (start a s acked k res random e a' s')
  then obtain w where w: "history_log (blobs s) a w" "length w \<le> k" "subseq acked w" by auto
  have "history_log (blobs s') a' w"
  proof (cases "at_available a")
    case True
    then have "at_task a" using w(1) by (simp add: history_log_def served_log_def)
    then have "a' = a \<and> s' = s" using start.hyps(2) by (simp add: argus_security_audit_init_def)
    then show ?thesis using w(1) by simp
  next
    case False
    then show ?thesis using init_serves [OF start.hyps(2) _ False, of w] w(1) by (simp add: history_log_def)
  qed
  then show ?case using w by blast
next
  case (append a s acked k memory semaphore uptime x required e r a' s')
  have "k < 2 ^ 64 - 2" "k + Suc (length (at_queue a)) < 2 ^ 64 - 2" using append.prems by simp_all
  then obtain w where w: "history_log (blobs s) a w" "length w \<le> k" "subseq acked w" using append.IH by auto
  have "Suc (Suc (length w + length (at_queue a))) < 2 ^ 64" using w(2) append.prems by simp
  then obtain u where u: "history_log (blobs s') a' (w @ u)" "length u \<le> Suc (length (at_queue a))"
      "required \<and> e = ESP_OK \<longrightarrow> (\<exists>v. u = v @ [r])"
    using append_history [OF append.hyps(2) w(1)] by blast
  have "subseq (if required \<and> e = ESP_OK then acked @ [r] else acked) (w @ u)"
    using w(3) u(3) by (auto intro: list_emb_append_mono list_emb_append2)
  then show ?case using u w(2) by (intro exI [of _ "w @ u"]) auto
next
  case (task a s acked k t a' s')
  then obtain w where w: "history_log (blobs s) a w" "length w \<le> k" "subseq acked w" by auto
  have "Suc (Suc (length w)) < 2 ^ 64" using w(2) task.prems by simp
  then obtain u where "history_log (blobs s') a' (w @ u)" "length u \<le> 1"
    using task_history [OF task.hyps(2) w(1)] by blast
  then show ?case using w by (intro exI [of _ "w @ u"]) auto
next
  case (degrade a s acked k d)
  then show ?case by (auto simp: history_log_def served_log_def)
next
  case (power a s acked k)
  then obtain w where w: "history_log (blobs s) a w" "length w \<le> k" "subseq acked w" by auto
  then have "stored_log (blobs s) w \<or> (\<exists>r. stored_log (blobs s) (w @ [r]))"
    using served_stored by (auto simp: history_log_def split: if_splits)
  then show ?case
  proof
    assume "stored_log (blobs s) w"
    then show ?thesis using w by (intro exI [of _ w]) (simp add: history_log_def audit_state_zero_def)
  next
    assume "\<exists>r. stored_log (blobs s) (w @ [r])"
    then obtain r where "stored_log (blobs s) (w @ [r])" ..
    then show ?thesis using w by (intro exI [of _ "w @ [r]"]) (auto simp: history_log_def audit_state_zero_def)
  qed
qed

end

end
