(* ===== verification/Audit_Reads.thy ===== *)
theory Audit_Reads
  imports Audit_Log_Props
begin

text \<open>
  What can be read from the audit log, on platforms whose stored entries can be read: the records
  and the pages, the durability of acknowledged records, and the life cycle of privileged
  mutations.
\<close>

section \<open>Reading platforms\<close>

locale readable_audit = audit_nvs +
  assumes open_reads: "\<And>s. fst (dn_open api False s) = ESP_OK"
    and stored_readable: "\<And>k s out x. blobs s k = Some x \<Longrightarrow> dn_get_blob api k s out = (ESP_OK, x)"

text \<open>The newest records of a history, oldest first.\<close>

definition newest :: "audit_record list \<Rightarrow> audit_record list" where
  "newest w = drop (length w - AUDIT_CAPACITY) w"

lemma newest_length [simp]: "length (newest w) = min (length w) 255"
  by (simp add: newest_def min_def)

lemma newest_nth: "i < length (newest w) \<Longrightarrow> newest w ! i = w ! (length w - 255 + i)"
  by (simp add: newest_def)

lemma slot_offset: "k < 256 \<Longrightarrow> (of_nat (n mod 256) + of_nat k) mod 256 = (of_nat ((n + k) mod 256) :: u32)"
proof -
  assume k: "k < 256"
  have "unat (of_nat (n mod 256) + of_nat k :: u32) = n mod 256 + k"
    using k unat_add_no_wrap [of "of_nat (n mod 256) :: u32" "of_nat k"] by (simp add: unat_of_nat)
  then have "unat ((of_nat (n mod 256) + of_nat k) mod 256 :: u32) = (n + k) mod 256"
    by (simp add: unat_mod mod_add_left_eq)
  then show ?thesis by (simp add: word_unat_eq_iff)
qed

context readable_audit
begin

lemma read_served:
  assumes "served_log (blobs s) a w" "k < length (newest w)"
  shows "read_slot_locked api (of_nat k) a s = (ESP_OK, newest w ! k)"
proof -
  define i where "i = length w - 255 + k"
  have i: "i < length w" "length w - 255 \<le> i" "k < 256" using assms(2) by (auto simp: i_def)
  have "at_meta a = meta_for (length w)" using assms(1) by (simp add: served_log_def)
  then have "(am_oldest_slot (at_meta a) + of_nat k) mod 256 = of_nat (i mod 256)"
    using slot_offset [OF i(3), of "length w - 255"] by (simp add: meta_for_def base_meta_def i_def)
  moreover have "blobs s (record_key (of_nat (i mod 256))) = Some (Blob_record (w ! i))" "record_ok (w ! i)"
    using assms(1) i by (auto simp: served_log_def holds_window_def)
  ultimately show ?thesis using open_reads [of s] stored_readable newest_nth [OF assms(2)]
    by (simp add: read_slot_locked_def Let_def record_ok_def i_def)
qed

end

text \<open>The log as a reader sees it, record by record.\<close>

definition audit_records :: "(audit_blob, 'n) dir_nvs \<Rightarrow> audit_state \<Rightarrow> 'n \<Rightarrow> audit_record list" where
  "audit_records api a s = map (\<lambda>i. snd (argus_security_audit_read api (of_nat i) a s)) [0..<unat (am_count (at_meta a))]"

lemma served_count: "served_log b a w \<Longrightarrow> unat (am_count (at_meta a)) = length (newest w)"
  by (simp add: served_log_def meta_for_def base_meta_def)

context readable_audit
begin

lemma read_exact:
  assumes "served_log (blobs s) a w" "at_available a"
  shows "argus_security_audit_read api off a s =
    (if unat off < length (newest w) then (ESP_OK, newest w ! unat off) else (ESP_ERR_NOT_FOUND, audit_record_zero))"
proof -
  have "at_ready a" using assms(1) by (simp add: served_log_def)
  moreover have "off \<ge> am_count (at_meta a) \<longleftrightarrow> \<not> unat off < length (newest w)"
    unfolding word_le_nat_alt served_count [OF assms(1)] by (rule not_less [symmetric])
  ultimately show ?thesis using assms read_served [OF assms(1), of "unat off"]
    by (simp add: argus_security_audit_read_def)
qed

lemma records_served:
  assumes "served_log (blobs s) a w" "at_available a"
  shows "audit_records api a s = newest w"
proof (rule nth_equalityI)
  show "length (audit_records api a s) = length (newest w)" using served_count [OF assms(1)] by (simp add: audit_records_def)
next
  fix i assume "i < length (audit_records api a s)"
  then have i: "i < length (newest w)" using served_count [OF assms(1)] by (simp add: audit_records_def)
  then have "unat (of_nat i :: u32) = i" by (simp add: unat_of_nat)
  then show "audit_records api a s ! i = newest w ! i"
    using i served_count [OF assms(1)] read_exact [OF assms, of "of_nat i"] by (simp add: audit_records_def)
qed

lemma page_served:
  assumes "served_log (blobs s) a w" "i \<le> length (newest w)" "length (pg_records p) \<le> limit"
  shows "page_records api boundary limit a s i p =
    (let found = filter (\<lambda>r. ar_sequence r < boundary) (rev (take i (newest w)));
         shown = take (limit - length (pg_records p)) found
     in p\<lparr> pg_records := pg_records p @ shown,
           pg_next_before := (if shown = [] then pg_next_before p else ar_sequence (last shown)),
           pg_has_more := pg_has_more p \<or> limit - length (pg_records p) < length found \<rparr>)"
  using assms(2,3)
proof (induction i arbitrary: p)
  case 0
  then show ?case by simp
next
  case (Suc i)
  then have i: "i < length (newest w)" by simp
  have r: "read_slot_locked api (of_nat i) a s = (ESP_OK, newest w ! i)" by (rule read_served [OF assms(1) i])
  have t: "rev (take (Suc i) (newest w)) = newest w ! i # rev (take i (newest w))" using i by (simp add: take_Suc_conv_app_nth)
  show ?case
  proof (cases "ar_sequence (newest w ! i) < boundary \<and> limit \<le> length (pg_records p)")
    case True
    then have "\<not> boundary \<le> ar_sequence (newest w ! i)" by (simp add: not_le)
    then show ?thesis using r t Suc.prems True by (simp add: Let_def)
  next
    case False
    then show ?thesis
      using r t Suc.prems i Suc.IH [of p] Suc.IH [of "p\<lparr> pg_records := pg_records p @ [newest w ! i], pg_next_before := ar_sequence (newest w ! i) \<rparr>"]
      by (cases "ar_sequence (newest w ! i) < boundary") (auto simp: Let_def not_le not_less take_Cons' Suc_diff_Suc diff_Suc split: nat.splits)
  qed
qed

end

section \<open>Start-up returns\<close>

lemma draw_boot_id_returns:
  assumes "random (i + n) \<noteq> 0"
  shows "\<exists>b. draw_boot_id random i = Some b \<and> b \<noteq> 0"
  using assms
proof (induction n arbitrary: i)
  case 0
  then show ?case by (subst draw_boot_id.simps) simp
next
  case (Suc n)
  then have "\<exists>b. draw_boot_id random (i + 1) = Some b \<and> b \<noteq> 0" by simp
  then show ?case by (subst draw_boot_id.simps) auto
qed

lemma audit_init_returns:
  assumes "random n \<noteq> 0"
  shows "\<exists>e a' s'. argus_security_audit_init res api random a s = Some (e, a', s')"
proof -
  obtain b where "draw_boot_id random 0 = Some b" using draw_boot_id_returns [of random 0 n] assms by auto
  then show ?thesis by (auto simp: argus_security_audit_init_def Let_def split: prod.splits)
qed

section \<open>Durability\<close>

text \<open>
  C24: The audit log is durable. In every history of start-ups, requests, rounds of the writer,
  failed flash operations and losses of power (with fewer than \<open>2 ^ 64 - 2\<close> records), the running
  log shows exactly the newest 255 records of one sequence, oldest first, numbered one, two,
  three and so on without gaps; every record whose request was acknowledged is in that
  sequence, in the order of the acknowledgements; and offsets beyond the records are refused.
\<close>

theorem audit_log_durable:
  assumes "readable_audit api blobs" "audit_history api blobs a s acked k" "k < 2 ^ 64 - 2" "at_available a"
  shows "\<exists>w. subseq acked w \<and> audit_records api a s = drop (length w - 255) w
    \<and> list_all2 (\<lambda>r n. ar_sequence r = of_nat n) w [1..<Suc (length w)]
    \<and> (\<forall>off. fst (argus_security_audit_read api off a s) = (if unat off < min (length w) 255 then ESP_OK else ESP_ERR_NOT_FOUND))"
proof -
  have nvs: "audit_nvs api blobs" using assms(1) by (rule readable_audit.axioms(1))
  obtain w where w: "served_log (blobs s) a w" "subseq acked w"
    using audit_nvs.history_invariant [OF nvs assms(2,3)] assms(4) by (auto simp: history_log_def)
  have "list_all2 (\<lambda>r n. ar_sequence r = of_nat n) w [1..<Suc (length w)]"
    using w(1) by (auto simp: list_all2_conv_all_nth served_log_def holds_window_def simp del: of_nat_Suc upt_Suc)
  moreover have "audit_records api a s = drop (length w - 255) w"
    using readable_audit.records_served [OF assms(1) w(1) assms(4)] by (simp add: newest_def)
  ultimately show ?thesis
    using w(2) readable_audit.read_exact [OF assms(1) w(1) assms(4)] by (intro exI [of _ w]) simp
qed

text \<open>The log on the in-memory flash.\<close>

interpretation cells: readable_audit "entry_api :: (audit_blob, audit_blob entry_cells) dir_nvs" ec_blobs
  by unfold_locales (auto simp: entry_api_def split: option.splits if_splits)

definition blank_cells :: "audit_blob entry_cells" where
  "blank_cells = \<lparr> ec_blobs = Map.empty, ec_octets = Map.empty, ec_broken = None \<rparr>"

definition all_resources :: audit_resources where
  "all_resources = \<lparr> rs_partition = ESP_OK, rs_mutex = True, rs_queue = True, rs_task = True \<rparr>"

definition started_log :: "audit_state \<times> audit_blob entry_cells" where
  "started_log = (audit_state_zero\<lparr> at_ready := True, at_meta := first_meta, at_boot_id := 7, at_queue := [], at_task := True,
      at_available := True \<rparr>,
     blank_cells\<lparr> ec_blobs := Map.empty(AUDIT_META_KEY \<mapsto> Blob_meta first_meta) \<rparr>)"

lemma started_init:
  "argus_security_audit_init all_resources entry_api (\<lambda>i. 7) audit_state_zero blank_cells = Some (ESP_OK, started_log)"
proof -
  have "draw_boot_id (\<lambda>i. 7) 0 = Some 7" by (simp add: draw_boot_id.simps)
  then show ?thesis
    by (simp add: argus_security_audit_init_def all_resources_def audit_state_zero_def entry_api_def load_meta_def blank_cells_def
        started_log_def Let_def)
qed

lemma started_history: "audit_history entry_api ec_blobs (fst started_log) (snd started_log) [] 0"
proof -
  have "audit_history entry_api ec_blobs audit_state_zero blank_cells [] 0"
    by (rule audit_history.blank) (simp add: blank_cells_def)
  then show ?thesis
    using audit_history.start [of entry_api ec_blobs audit_state_zero blank_cells "[]" 0 all_resources "\<lambda>i. 7" ESP_OK
        "fst started_log" "snd started_log"] started_init by simp
qed

definition demo_entry :: audit_entry where
  "demo_entry = \<lparr> en_type = 1, en_outcome = 1, en_principal_type = 1, en_lifecycle_id = 0, en_actor = str_bytes ''admin'',
     en_target = str_bytes ''self'', en_source = str_bytes ''HTTP'', en_reason = str_bytes ''login'', en_security_epoch = 3 \<rparr>"

lemma demo_entry_acceptable: "entry_acceptable demo_entry"
  by (simp add: entry_acceptable_def demo_entry_def safe_text_def c_strlen_def cstr_def str_bytes_def)

lemma demo_append:
  "\<exists>r a s. append_record True True entry_api (\<lambda>i. 5) demo_entry True (fst started_log) (snd started_log) = ((ESP_OK, r), a, s)
     \<and> at_available a"
  by (simp add: append_record_def demo_entry_acceptable started_log_def audit_state_zero_def handle_request_def append_locked_def
      write_record_and_meta_def entry_api_def blank_cells_def Let_def)

theorem audit_log_durable_witness:
  "\<exists>r a s w. append_record True True entry_api (\<lambda>i. 5) demo_entry True (fst started_log) (snd started_log) = ((ESP_OK, r), a, s)
     \<and> subseq [r] w \<and> audit_records entry_api a s = drop (length w - 255) w"
proof -
  obtain r a s where r: "append_record True True entry_api (\<lambda>i. 5) demo_entry True (fst started_log) (snd started_log) = ((ESP_OK, r), a, s)"
      "at_available a"
    using demo_append by blast
  have "audit_history entry_api ec_blobs a s [r] 1"
    using audit_history.append [OF started_history r(1)] by (simp add: started_log_def audit_state_zero_def)
  from audit_log_durable [OF cells.readable_audit_axioms this _ r(2)] show ?thesis using r(1) by auto
qed

section \<open>Pages\<close>

text \<open>
  Pages show the log exactly. A page of \<open>limit\<close> records before a given sequence number holds
  the newest records with smaller numbers, newest first; it says that there are more exactly
  when there are, and then names the number the next page starts from; and it reports no
  corruption. Without a given number the page starts from the newest record.
\<close>

theorem audit_pages_exact:
  assumes "readable_audit api blobs" "audit_history api blobs a s acked k" "k < 2 ^ 64 - 2" "at_available a"
    and "1 \<le> limit" "limit \<le> 16" "before \<le> am_next_sequence (at_meta a)"
  shows "let boundary = (if before = 0 then am_next_sequence (at_meta a) else before);
             older = rev (filter (\<lambda>r. ar_sequence r < boundary) (audit_records api a s));
             shown = take limit older
         in argus_security_audit_read_page api before limit a s =
              Inr \<lparr> pg_records = shown, pg_next_before = (if limit < length older then ar_sequence (last shown) else 0),
                    pg_has_more = limit < length older, pg_corruption_gap = False \<rparr>"
proof -
  have nvs: "audit_nvs api blobs" using assms(1) by (rule readable_audit.axioms(1))
  obtain w where w: "served_log (blobs s) a w"
    using audit_nvs.history_invariant [OF nvs assms(2,3)] assms(4) by (auto simp: history_log_def)
  have n: "unat (am_count (at_meta a)) = length (newest w)" "at_ready a"
    using served_count [OF w] w by (auto simp: served_log_def)
  have records: "audit_records api a s = newest w" by (rule readable_audit.records_served [OF assms(1) w assms(4)])
  define p0 where "p0 = \<lparr> pg_records = [], pg_next_before = 0, pg_has_more = False, pg_corruption_gap = False \<rparr>"
  define boundary where "boundary = (if before = 0 then am_next_sequence (at_meta a) else before)"
  define older where "older = rev (filter (\<lambda>r. ar_sequence r < boundary) (newest w))"
  have "page_records api boundary limit a s (length (newest w)) p0 =
      \<lparr> pg_records = take limit older, pg_next_before = (if take limit older = [] then 0 else ar_sequence (last (take limit older))),
        pg_has_more = limit < length older, pg_corruption_gap = False \<rparr>"
    using readable_audit.page_served [OF assms(1) w order_refl, of p0 limit boundary]
    by (simp add: p0_def older_def rev_filter Let_def)
  moreover have "argus_security_audit_read_page api before limit a s =
      (let p = page_records api boundary limit a s (length (newest w)) p0
       in Inr (if pg_has_more p then p else p\<lparr> pg_next_before := 0 \<rparr>))"
    unfolding argus_security_audit_read_page_def boundary_def p0_def Let_def n(1) using assms(4-7) n(2) by (auto simp: not_less)
  moreover have "limit < length older \<Longrightarrow> take limit older \<noteq> []" using assms(5) by auto
  ultimately show ?thesis unfolding Let_def records boundary_def [symmetric] older_def [symmetric] by auto
qed

theorem audit_pages_exact_witness:
  "argus_security_audit_read_page entry_api 0 16 (fst started_log) (snd started_log) =
     Inr \<lparr> pg_records = [], pg_next_before = 0, pg_has_more = False, pg_corruption_gap = False \<rparr>"
proof -
  have a: "at_available (fst started_log)" by (simp add: started_log_def)
  have "audit_records entry_api (fst started_log) (snd started_log) = []"
    by (simp add: audit_records_def started_log_def first_meta_def audit_meta_zero_def Let_def)
  then show ?thesis
    using audit_pages_exact [OF cells.readable_audit_axioms started_history _ a, of 16 0] by (simp add: Let_def)
qed

section \<open>Privileged mutations\<close>

lemma drain_degraded: "at_degraded (fst (snd (drain api uptime q request a s))) = at_degraded a"
proof (induction q arbitrary: uptime a s)
  case Nil
  then show ?case by (simp add: handle_request_def append_locked_def Let_def case_prod_beta)
next
  case (Cons p q)
  then show ?case by (simp add: handle_request_def append_locked_def Let_def case_prod_beta)
qed

lemma append_degraded: "at_degraded (fst (snd (append_record memory semaphore api uptime x required a s))) = at_degraded a"
  by (simp add: append_record_def Let_def drain_degraded)

lemma task_degraded: "at_degraded (fst (audit_task api t a s)) = at_degraded a"
  by (simp add: audit_task_def handle_request_def append_locked_def Let_def case_prod_beta split: list.split)

lemma stamp_lifecycle:
  "ar_lifecycle_id (stamp_record t a r) =
     (if ar_outcome r = OUTCOME_PREPARED \<and> ar_lifecycle_id r = 0
      then (let f = fold_sequence (am_next_sequence (at_meta a)) in if f = 0 then 1 else f) else ar_lifecycle_id r)"
  by (simp add: stamp_record_def Let_def)

lemma drain_written:
  "drain api uptime q request a s = ((ESP_OK, r), a', s') \<Longrightarrow> \<exists>t a0. r = stamp_record t a0 (au_record request)"
proof (induction q arbitrary: uptime a s)
  case Nil
  then show ?case by (auto simp: handle_request_def append_locked_def Let_def split: if_splits prod.splits)
next
  case (Cons p q)
  then show ?case by (auto split: prod.splits)
qed

text \<open>What happens between two start-ups.\<close>

inductive boot_run :: "(audit_blob, 'n) dir_nvs \<Rightarrow> audit_state \<times> 'n \<Rightarrow> audit_state \<times> 'n \<Rightarrow> bool" for api x where
  refl: "boot_run api x x"
| append: "boot_run api x (a, s) \<Longrightarrow> boot_run api x (snd (append_record memory semaphore api uptime e required a s))"
| task: "boot_run api x (a, s) \<Longrightarrow> boot_run api x (audit_task api t a s)"
| begin_mutation: "boot_run api x (a, s) \<Longrightarrow> boot_run api x
    (snd (argus_security_audit_mutation_begin memory semaphore api uptime type ptype actor target source action epoch a s))"
| finish_mutation: "boot_run api x (a, s) \<Longrightarrow> boot_run api x
    (snd (argus_security_audit_mutation_finish memory semaphore api uptime mu ok a s))"

lemma begin_degraded:
  "at_degraded (fst (snd (argus_security_audit_mutation_begin memory semaphore api uptime type ptype actor target source action epoch a s)))
    = at_degraded a"
  by (simp add: argus_security_audit_mutation_begin_def append_degraded case_prod_beta split: option.split)

lemma finish_degraded:
  "at_degraded a \<Longrightarrow> at_degraded (fst (snd (argus_security_audit_mutation_finish memory semaphore api uptime mu ok a s)))"
  by (simp add: argus_security_audit_mutation_finish_def append_degraded case_prod_beta split: option.split)

lemma run_degraded: "boot_run api x y \<Longrightarrow> at_degraded (fst x) \<Longrightarrow> at_degraded (fst y)"
  by (induction rule: boot_run.induct) (simp_all add: append_degraded task_degraded begin_degraded finish_degraded)

lemma append_required_written:
  assumes "append_record memory semaphore api uptime x True a s = ((ESP_OK, r), a', s')"
  shows "\<exists>t a0. r = stamp_record t a0 (fresh_record x)"
  using assms drain_written [of api uptime "at_queue a" "\<lparr> au_record = fresh_record x, au_required = True \<rparr>"]
  by (auto simp: append_record_def Let_def split: if_splits)

text \<open>
  C25: A privileged mutation is announced before it happens, and a lost conclusion blocks the next
  one. A mutation that may begin has a life cycle other than zero.
  If the record of its conclusion cannot be written, then in the whole rest of the run no
  further mutation may begin, whatever is appended in between: every attempt is refused and
  leaves log and flash as they are.
\<close>

theorem lost_conclusion_blocks_mutations:
  assumes "argus_security_audit_mutation_begin m1 m2 api up0 type ptype actor target source action epoch a s = (Inr mu, a1, s1)"
    and "argus_security_audit_mutation_finish m3 m4 api up1 mu succeeded a2 s2 = (e, a3, s3)" "e \<noteq> ESP_OK"
    and "boot_run api (a3, s3) (a4, s4)"
  shows "mu_lifecycle_id mu \<noteq> 0
    \<and> argus_security_audit_mutation_begin m5 m6 api up2 type' ptype' actor' target' source' action' epoch' a4 s4
      = (Inl ESP_ERR_INVALID_STATE, a4, s4)"
proof -
  obtain reason r where b: "reason_text action ''_prepared'' = Some reason"
      "append_record m1 m2 api up0 \<lparr> en_type = type, en_outcome = OUTCOME_PREPARED, en_principal_type = ptype, en_lifecycle_id = 0,
         en_actor = actor, en_target = target, en_source = source, en_reason = reason, en_security_epoch = epoch \<rparr> True a s
       = ((ESP_OK, r), a1, s1)" "mu_lifecycle_id mu = ar_lifecycle_id r" "mu_action mu = fill_buffer 21 action"
    using assms(1) by (auto simp: argus_security_audit_mutation_begin_def split: if_splits option.splits prod.splits)
  have id: "mu_lifecycle_id mu \<noteq> 0"
    using append_required_written [OF b(2)] b(3) by (auto simp: stamp_lifecycle fresh_record_def audit_record_zero_def Let_def split: if_splits)
  have short: "length (cstr action) \<le> 20"
    using assms(1) by (auto simp: argus_security_audit_mutation_begin_def safe_text_def c_strlen_def split: if_splits)
  then have "cstr (mu_action mu) = cstr action" using b(4) by (simp add: cstr_fill_buffer)
  then obtain reason' where "reason_text (mu_action mu) (if succeeded then ''_succeeded'' else ''_failed'') = Some reason'"
    using short by (cases succeeded) (auto simp: reason_text_def str_bytes_def)
  then have "at_degraded a3" using assms(2,3) id
    by (auto simp: argus_security_audit_mutation_finish_def split: prod.splits if_splits)
  then have "at_degraded a4" using run_degraded [OF assms(4)] by simp
  then show ?thesis using id by (simp add: argus_security_audit_mutation_begin_def)
qed

definition demo_mutation :: "(esp_err + audit_mutation) \<times> audit_state \<times> audit_blob entry_cells" where
  "demo_mutation = argus_security_audit_mutation_begin True True entry_api (\<lambda>i. 5) 14 2 (str_bytes ''admin'') (str_bytes ''m-1'')
     (str_bytes ''HTTP'') (str_bytes ''enroll'') 3 (fst started_log) (snd started_log)"

lemma demo_mutation_begins: "\<exists>mu a1 s1. demo_mutation = (Inr mu, a1, s1)"
proof -
  have "safe_text (str_bytes ''enroll'') 21" "cstr (str_bytes ''enroll'') = str_bytes ''enroll''" "safe_text (str_bytes ''admin'') 37"
    "safe_text (str_bytes ''m-1'') 37" "safe_text (str_bytes ''HTTP'') 16" "safe_text (str_bytes ''enroll'' @ str_bytes ''_prepared'') 37"
    by (simp_all add: safe_text_def c_strlen_def cstr_def str_bytes_def)
  then show ?thesis
    by (simp add: demo_mutation_def argus_security_audit_mutation_begin_def started_log_def audit_state_zero_def reason_text_def
        append_record_def entry_acceptable_def handle_request_def append_locked_def write_record_and_meta_def entry_api_def blank_cells_def Let_def)
      (simp add: str_bytes_def)
qed

theorem lost_conclusion_blocks_mutations_witness:
  "\<exists>mu a1 s1 e a3 s3. demo_mutation = (Inr mu, a1, s1) \<and> mu_lifecycle_id mu \<noteq> 0
     \<and> argus_security_audit_mutation_finish False True entry_api (\<lambda>i. 6) mu True a1 s1 = (e, a3, s3) \<and> e \<noteq> ESP_OK
     \<and> argus_security_audit_mutation_begin True True entry_api (\<lambda>i. 7) 14 2 [] [] [] [] 3 a3 s3 = (Inl ESP_ERR_INVALID_STATE, a3, s3)"
proof -
  obtain mu a1 s1 where b: "demo_mutation = (Inr mu, a1, s1)" using demo_mutation_begins by blast
  obtain e a3 s3 where f: "argus_security_audit_mutation_finish False True entry_api (\<lambda>i. 6) mu True a1 s1 = (e, a3, s3)"
    using prod_cases3 by blast
  then have "e \<noteq> ESP_OK"
    by (auto simp: argus_security_audit_mutation_finish_def append_record_def Let_def split: if_splits option.splits)
  then show ?thesis using lost_conclusion_blocks_mutations [OF b [unfolded demo_mutation_def] f _ boot_run.refl] b f by blast
qed

text \<open>The folded number of a life cycle repeats: two announcements in a row can share it.\<close>

lemma lifecycle_collision:
  "am_next_sequence (at_meta a) = 0x10000 \<Longrightarrow> am_next_sequence (at_meta a') = 0x10001 \<Longrightarrow>
   ar_outcome r = OUTCOME_PREPARED \<Longrightarrow> ar_lifecycle_id r = 0 \<Longrightarrow> ar_outcome r' = OUTCOME_PREPARED \<Longrightarrow> ar_lifecycle_id r' = 0 \<Longrightarrow>
   ar_lifecycle_id (stamp_record t a r) = 1 \<and> ar_lifecycle_id (stamp_record t' a' r') = 1"
  by (simp add: stamp_lifecycle fold_sequence_def Let_def)

end
