(* ===== verification/Human_Directory.thy ===== *)
theory Human_Directory
  imports Machine_Directory_Props
begin

text \<open>
  The directory of human accounts and custom roles (\<open>argus_security_directory.c\<close>): up to ten
  custom roles and sixteen accounts in a two-slot store of the same shape as the machine
  directory. Unlike that one it has no state of its own besides the snapshot, and its start-up
  fails closed whenever the selector does not name a valid slot.

  The pointers of the interface are never null here. Allocations, the queue and the task
  creation are arguments, as for the machine directory.
\<close>

section \<open>Data\<close>

abbreviation (input) HUMAN_DIRECTORY_MAGIC :: u32 where "HUMAN_DIRECTORY_MAGIC \<equiv> 0x41524433"
abbreviation (input) HUMAN_DIRECTORY_VALID :: u32 where "HUMAN_DIRECTORY_VALID \<equiv> 0x56414c44"
abbreviation (input) HUMAN_DIRECTORY_SCHEMA_VERSION :: u16 where "HUMAN_DIRECTORY_SCHEMA_VERSION \<equiv> 1"
abbreviation (input) CUSTOM_ROLE_CAPACITY :: nat where "CUSTOM_ROLE_CAPACITY \<equiv> 10"
abbreviation (input) SECURITY_MAX_HUMANS :: nat where "SECURITY_MAX_HUMANS \<equiv> 16"

record human_payload =
  hy_schema_version :: u16
  hy_flags :: u16
  hy_custom_role_count :: u8
  hy_human_count :: u8
  hy_reserved :: u16
  hy_custom_roles :: "role_record list"
  hy_humans :: "human_record list"

record human_slot =
  hz_magic :: u32
  hz_schema_version :: u16
  hz_payload_length :: u16
  hz_generation :: u32
  hz_crc32 :: u32
  hz_valid_marker :: u32
  hz_payload :: human_payload

record human_directory =
  hu_snapshot :: human_payload
  hu_generation :: u32
  hu_active_slot :: u8
  hu_initialized :: bool

definition role_record_zero :: role_record where
  "role_record_zero = \<lparr> rr_record_version = 0, rr_level = 0, rr_builtin = 0, rr_protected_role = 0,
     rr_identifier = replicate 37 0, rr_permissions = 0, rr_delegable_permissions = 0 \<rparr>"

definition human_record_zero :: human_record where
  "human_record_zero = \<lparr> hr_record_version = 0, hr_level = 0, hr_enabled = 0, hr_protected_identity = 0,
     hr_identifier = replicate 37 0, hr_login = replicate 33 0, hr_display_name = replicate 49 0,
     hr_scope = replicate 37 0, hr_role_mask = 0, hr_direct_permissions = 0, hr_credential_version = 0,
     hr_record_security_epoch = 0, hr_revoked = 0, hr_reserved = replicate 3 0, hr_verifier = verifier_zero \<rparr>"

definition human_payload_zero :: human_payload where
  "human_payload_zero = \<lparr> hy_schema_version = 0, hy_flags = 0, hy_custom_role_count = 0, hy_human_count = 0,
     hy_reserved = 0, hy_custom_roles = replicate CUSTOM_ROLE_CAPACITY role_record_zero,
     hy_humans = replicate SECURITY_MAX_HUMANS human_record_zero \<rparr>"

definition human_slot_zero :: human_slot where
  "human_slot_zero = \<lparr> hz_magic = 0, hz_schema_version = 0, hz_payload_length = 0, hz_generation = 0,
     hz_crc32 = 0, hz_valid_marker = 0, hz_payload = human_payload_zero \<rparr>"

definition human_directory_zero :: human_directory where
  "human_directory_zero = \<lparr> hu_snapshot = human_payload_zero, hu_generation = 0, hu_active_slot = 0,
     hu_initialized = False \<rparr>"

section \<open>Validation\<close>

text \<open>The bytes of the directory as they lie in memory: the records are packed, so there is no padding.\<close>

definition human_bytes :: "human_record \<Rightarrow> u8 list" where
  "human_bytes r =
     [hr_record_version r, hr_level r, hr_enabled r, hr_protected_identity r] @ hr_identifier r @ hr_login r
     @ hr_display_name r @ hr_scope r @ le_bytes 2 (hr_role_mask r) @ le_bytes 8 (hr_direct_permissions r)
     @ le_bytes 4 (hr_credential_version r) @ le_bytes 4 (hr_record_security_epoch r) @ [hr_revoked r]
     @ hr_reserved r @ verifier_bytes (hr_verifier r)"

definition human_payload_bytes :: "human_payload \<Rightarrow> u8 list" where
  "human_payload_bytes p =
     le_bytes 2 (hy_schema_version p) @ le_bytes 2 (hy_flags p) @ [hy_custom_role_count p, hy_human_count p]
     @ le_bytes 2 (hy_reserved p) @ concat (map role_bytes (hy_custom_roles p)) @ concat (map human_bytes (hy_humans p))"

definition argus_security_directory_crc32 :: "human_payload \<Rightarrow> u32" where
  "argus_security_directory_crc32 p = crc32_bytes (human_payload_bytes p)"

definition custom_role_acceptable :: "human_payload \<Rightarrow> nat \<Rightarrow> bool" where
  "custom_role_acceptable p i =
     (let role = hy_custom_roles p ! i in
      if i \<ge> unat (hy_custom_role_count p) then role = role_record_zero
      else argus_security_role_record_valid role \<and> rr_builtin role = 0 \<and> rr_level role \<noteq> 0
        \<and> rr_permissions role AND PERMISSION_MANAGE_CLIENT_ADMINS = 0
        \<and> list_all (\<lambda>j. cstr (rr_identifier role) \<noteq> cstr (rr_identifier (hy_custom_roles p ! j))) [0..<i])"

text \<open>The roles that the directory has, as a mask.\<close>

definition allowed_roles :: "human_payload \<Rightarrow> u16" where
  "allowed_roles p =
     (let role_count = BUILTIN_ROLE_COUNT + unat (hy_custom_role_count p)
      in if role_count \<ge> 16 then 0xFFFF else push_bit role_count 1 - 1)"

definition human_acceptable :: "human_payload \<Rightarrow> nat \<Rightarrow> bool" where
  "human_acceptable p i =
     (let human = hy_humans p ! i in
      if i \<ge> unat (hy_human_count p) then human = human_record_zero
      else argus_security_human_record_valid human \<and> hr_role_mask human AND NOT (allowed_roles p) = 0
        \<and> hr_role_mask human AND push_bit (unat (hr_level human)) 1 \<noteq> 0
        \<and> list_all (\<lambda>j. cstr (hr_identifier human) \<noteq> cstr (hr_identifier (hy_humans p ! j))
                      \<and> cstr (hr_login human) \<noteq> cstr (hr_login (hy_humans p ! j))) [0..<i])"

definition argus_security_directory_payload_valid :: "human_payload \<Rightarrow> bool" where
  "argus_security_directory_payload_valid p \<longleftrightarrow>
     hy_schema_version p = HUMAN_DIRECTORY_SCHEMA_VERSION \<and> hy_flags p = 0 \<and> hy_reserved p = 0
     \<and> unat (hy_custom_role_count p) \<le> CUSTOM_ROLE_CAPACITY \<and> unat (hy_human_count p) \<le> SECURITY_MAX_HUMANS
     \<and> list_all (custom_role_acceptable p) [0..<CUSTOM_ROLE_CAPACITY]
     \<and> list_all (human_acceptable p) [0..<SECURITY_MAX_HUMANS]"

definition human_slot_valid :: "human_slot \<Rightarrow> bool" where
  "human_slot_valid slot \<longleftrightarrow>
     hz_magic slot = HUMAN_DIRECTORY_MAGIC \<and> hz_schema_version slot = HUMAN_DIRECTORY_SCHEMA_VERSION
     \<and> hz_payload_length slot = 4386 \<and> hz_generation slot \<noteq> 0 \<and> hz_valid_marker slot = HUMAN_DIRECTORY_VALID
     \<and> hz_crc32 slot = argus_security_directory_crc32 (hz_payload slot)
     \<and> argus_security_directory_payload_valid (hz_payload slot)"

section \<open>Commit and start-up\<close>

abbreviation (input) HUMAN_SLOT_A :: string where "HUMAN_SLOT_A \<equiv> ''directory_a''"
abbreviation (input) HUMAN_SLOT_B :: string where "HUMAN_SLOT_B \<equiv> ''directory_b''"
abbreviation (input) HUMAN_SELECTOR :: string where "HUMAN_SELECTOR \<equiv> ''directory_sel''"

type_synonym 'n human_nvs = "(human_slot, 'n) dir_nvs"

abbreviation human_read_slot :: "'n human_nvs \<Rightarrow> u8 \<Rightarrow> 'n \<Rightarrow> human_slot \<Rightarrow> esp_err \<times> human_slot" where
  "human_read_slot \<equiv> dir_read_slot HUMAN_SLOT_A HUMAN_SLOT_B"

abbreviation human_write_slot :: "'n human_nvs \<Rightarrow> u8 \<Rightarrow> human_slot \<Rightarrow> 'n \<Rightarrow> esp_err \<times> 'n" where
  "human_write_slot \<equiv> dir_write_slot HUMAN_SLOT_A HUMAN_SLOT_B"

abbreviation human_read_selector :: "'n human_nvs \<Rightarrow> 'n \<Rightarrow> u8 \<Rightarrow> esp_err \<times> u8" where
  "human_read_selector \<equiv> dir_read_selector HUMAN_SELECTOR"

abbreviation human_write_selector :: "'n human_nvs \<Rightarrow> u8 \<Rightarrow> 'n \<Rightarrow> esp_err \<times> 'n" where
  "human_write_selector \<equiv> dir_write_selector HUMAN_SELECTOR"

definition human_slot_of :: "u32 \<Rightarrow> human_payload \<Rightarrow> human_slot" where
  "human_slot_of generation payload =
     \<lparr> hz_magic = HUMAN_DIRECTORY_MAGIC, hz_schema_version = HUMAN_DIRECTORY_SCHEMA_VERSION, hz_payload_length = 4386,
       hz_generation = generation, hz_crc32 = argus_security_directory_crc32 payload,
       hz_valid_marker = HUMAN_DIRECTORY_VALID, hz_payload = payload \<rparr>"

definition human_next_generation :: "human_directory \<Rightarrow> u32" where
  "human_next_generation d = (let generation = hu_generation d + 1 in if generation = 0 then 1 else generation)"

definition human_commit_target :: "human_directory \<Rightarrow> u8" where
  "human_commit_target d = (if hu_generation d = 0 then 0 else hu_active_slot d XOR 1)"

definition human_commit_locked ::
  "bool \<Rightarrow> 'n human_nvs \<Rightarrow> human_payload \<Rightarrow> u32 \<Rightarrow> human_directory \<Rightarrow> 'n \<Rightarrow> esp_err \<times> human_directory \<times> 'n" where
  "human_commit_locked memory nvs payload expected_generation d s =
     (if \<not> argus_security_directory_payload_valid payload \<or> expected_generation \<noteq> hu_generation d
      then (ESP_ERR_INVALID_STATE, d, s)
      else if \<not> memory then (ESP_ERR_NO_MEM, d, s)
      else
        (let target = human_commit_target d; generation = human_next_generation d;
             (err, s1) = store_slot (human_read_slot nvs) (human_write_slot nvs) (human_write_selector nvs)
                           human_slot_valid human_slot_zero target (human_slot_of generation payload) s
         in (err, if err = ESP_OK
                  then d\<lparr> hu_snapshot := payload, hu_generation := generation, hu_active_slot := target \<rparr>
                  else d, s1)))"

text \<open>The first start-up, on an empty partition, commits a directory without accounts.\<close>

definition human_first_commit ::
  "bool \<Rightarrow> 'n human_nvs \<Rightarrow> human_directory \<Rightarrow> 'n \<Rightarrow> esp_err \<times> human_directory \<times> 'n" where
  "human_first_commit memory nvs d s =
     (let payload = human_payload_zero\<lparr> hy_schema_version := HUMAN_DIRECTORY_SCHEMA_VERSION \<rparr>
      in human_commit_locked memory nvs payload 0 (d\<lparr> hu_snapshot := payload, hu_generation := 0 \<rparr>) s)"

definition argus_security_directory_init ::
  "directory_resources \<Rightarrow> 'n human_nvs \<Rightarrow> human_directory \<Rightarrow> 'n \<Rightarrow> esp_err \<times> human_directory \<times> 'n" where
  "argus_security_directory_init res nvs d s =
     (if hu_initialized d then (ESP_OK, d, s)
      else if \<not> dr_mutex res \<or> \<not> dr_slot_memory res then (ESP_ERR_NO_MEM, d, s)
      else
        (let (a_err, a) = human_read_slot nvs 0 s human_slot_zero;
             (b_err, b) = human_read_slot nvs 1 s human_slot_zero;
             a_missing = absent a_err; b_missing = absent b_err;
             a_valid = (a_err = ESP_OK \<and> human_slot_valid a);
             b_valid = (b_err = ESP_OK \<and> human_slot_valid b)
         in if (\<not> a_missing \<and> a_err \<noteq> ESP_OK) \<or> (\<not> b_missing \<and> b_err \<noteq> ESP_OK) then (ESP_ERR_INVALID_STATE, d, s)
            else if \<not> a_valid \<and> \<not> b_valid \<and> \<not> (a_missing \<and> b_missing) then (ESP_ERR_INVALID_STATE, d, s)
            else
              (let (err, d1, s1) =
                 (if a_missing \<and> b_missing then human_first_commit (dr_commit_memory res) nvs d s
                  else
                    (let (selector_err, selector) = human_read_selector nvs s 0 in
                     if selector_err \<noteq> ESP_OK \<or> selector > 1 \<or> (selector = 0 \<and> \<not> a_valid) \<or> (selector = 1 \<and> \<not> b_valid)
                     then (ESP_ERR_INVALID_STATE, d, s)
                     else (let selected = (if selector = 0 then a else b)
                           in (ESP_OK, d\<lparr> hu_snapshot := hz_payload selected, hu_generation := hz_generation selected,
                                          hu_active_slot := selector \<rparr>, s))))
               in if err \<noteq> ESP_OK then (err, d1, s1)
                  else if \<not> dr_queue res \<or> \<not> dr_task res then (ESP_ERR_NO_MEM, d1, s1)
                  else (ESP_OK, d1\<lparr> hu_initialized := True \<rparr>, s1))))"

section \<open>Operations\<close>

definition argus_security_directory_get_snapshot :: "human_directory \<Rightarrow> esp_err + human_payload \<times> u32" where
  "argus_security_directory_get_snapshot d =
     (if \<not> hu_initialized d then Inl ESP_ERR_INVALID_STATE else Inr (hu_snapshot d, hu_generation d))"

text \<open>A submission to the writer task, which takes the mutex and runs the commit.\<close>

definition argus_security_directory_commit ::
  "commit_env \<Rightarrow> 'n human_nvs \<Rightarrow> human_payload \<Rightarrow> u32 \<Rightarrow> human_directory \<Rightarrow> 'n \<Rightarrow> esp_err \<times> human_directory \<times> 'n" where
  "argus_security_directory_commit env nvs payload expected_generation d s =
     (if \<not> hu_initialized d \<or> ce_by_writer env then (ESP_ERR_INVALID_STATE, d, s)
      else if \<not> ce_request_memory env then (ESP_ERR_NO_MEM, d, s)
      else if \<not> ce_room env then (ESP_ERR_TIMEOUT, d, s)
      else human_commit_locked (ce_memory env) nvs payload expected_generation d s)"

definition argus_security_directory_find_login :: "u8 list \<Rightarrow> human_directory \<Rightarrow> esp_err + human_record" where
  "argus_security_directory_find_login canonical_login d =
     (let p = hu_snapshot d in
      if \<not> hu_initialized d then Inl ESP_ERR_INVALID_ARG
      else (case find (\<lambda>i. cstr (hr_login (hy_humans p ! i)) = cstr canonical_login) [0..<unat (hy_human_count p)] of
              None \<Rightarrow> Inl ESP_ERR_NOT_FOUND
            | Some i \<Rightarrow> Inr (hy_humans p ! i)))"

definition argus_security_directory_find_id :: "u8 list \<Rightarrow> human_directory \<Rightarrow> esp_err + human_record \<times> nat" where
  "argus_security_directory_find_id identifier d =
     (let p = hu_snapshot d in
      if \<not> hu_initialized d then Inl ESP_ERR_INVALID_ARG
      else (case find (\<lambda>i. cstr (hr_identifier (hy_humans p ! i)) = cstr identifier) [0..<unat (hy_human_count p)] of
              None \<Rightarrow> Inl ESP_ERR_NOT_FOUND
            | Some i \<Rightarrow> Inr (hy_humans p ! i, i)))"

end
