(* ===== verification/Human_Directory_Props.thy ===== *)
theory Human_Directory_Props
  imports Human_Directory
begin

text \<open>
  Power safety of the human directory. The abstract store is the slot that the selector names,
  if it is valid; what a commit does to it is stated once for every slot store. The start-up
  serves the abstract store and nothing else.
\<close>

section \<open>The selected slot\<close>

definition selected_slot :: "('x \<Rightarrow> bool) \<Rightarrow> (u8 \<Rightarrow> 'x option) \<Rightarrow> u8 option \<Rightarrow> 'x option" where
  "selected_slot valid slots selector =
     (case selector of
        None \<Rightarrow> None
      | Some k \<Rightarrow> if k > 1 then None
                 else (case slots k of None \<Rightarrow> None | Some x \<Rightarrow> if valid x then Some x else None))"

lemma selected_slot_Some:
  assumes "selected_slot valid slots selector = Some x"
  obtains k where "selector = Some k" "k \<le> 1" "slots k = Some x" "valid x"
  using assms by (auto simp: selected_slot_def not_less split: option.splits if_splits)

context slot_store
begin

text \<open>A commit into the other slot keeps the selected slot or replaces it.\<close>

lemma store_slot_selected:
  assumes run: "store_slot read_slot write_slot write_selector valid zero (k XOR 1) x s = (e, s')"
    and k: "selector s = Some k" "k \<le> 1" "slots s k = Some y" "valid y"
  shows "(selected_slot valid (slots s') (selector s') = Some y \<or> selected_slot valid (slots s') (selector s') = Some x)
    \<and> (e = ESP_OK \<longrightarrow> selected_slot valid (slots s') (selector s') = Some x \<and> selector s' = Some (k XOR 1))"
proof -
  have t: "k XOR 1 \<le> 1" "(k XOR 1) XOR 1 = k" "\<not> 1 < k" "\<not> 1 < k XOR 1" using slot_index_cases [THEN iffD1, OF k(2)] by auto
  note r = store_slot_result [OF run t(1), unfolded t(2)]
  then show ?thesis using k t(3,4) by (auto simp: selected_slot_def)
qed

end

context readable_nvs
begin

lemmas store_selected = store.store_slot_selected

end

interpretation human_cells: readable_nvs HUMAN_SLOT_A HUMAN_SLOT_B HUMAN_SELECTOR
  "entry_api :: (human_slot, human_slot entry_cells) dir_nvs" ec_blobs ec_octets
proof -
  have "directory_nvs HUMAN_SLOT_A HUMAN_SLOT_B (entry_api :: (human_slot, human_slot entry_cells) dir_nvs) ec_blobs ec_octets"
    by (rule entry_directory_nvs) simp
  then show "readable_nvs HUMAN_SLOT_A HUMAN_SLOT_B (entry_api :: (human_slot, human_slot entry_cells) dir_nvs) ec_blobs ec_octets"
    by (rule readable_nvs.intro, intro readable_nvs_axioms.intro) (simp_all add: entry_api_def absent_def split: option.splits)
qed

section \<open>Start-up\<close>

abbreviation human_disk :: "('n \<Rightarrow> string \<Rightarrow> human_slot option) \<Rightarrow> ('n \<Rightarrow> string \<Rightarrow> u8 option) \<Rightarrow> 'n \<Rightarrow> human_slot option" where
  "human_disk blobs octets s \<equiv>
     selected_slot human_slot_valid (dir_slots HUMAN_SLOT_A HUMAN_SLOT_B blobs s) (octets s HUMAN_SELECTOR)"

text \<open>The served directory is the one on the flash.\<close>

definition human_anchored :: "('n \<Rightarrow> string \<Rightarrow> human_slot option) \<Rightarrow> ('n \<Rightarrow> string \<Rightarrow> u8 option) \<Rightarrow> 'n \<Rightarrow> human_directory \<Rightarrow> bool" where
  "human_anchored blobs octets s d \<longleftrightarrow> octets s HUMAN_SELECTOR = Some (hu_active_slot d)
     \<and> map_option (\<lambda>x. (hz_payload x, hz_generation x)) (human_disk blobs octets s) = Some (hu_snapshot d, hu_generation d)"

text \<open>What the start-up reads, as a function of the two slots and the selector.\<close>

lemma human_reads:
  fixes blobs :: "'n \<Rightarrow> string \<Rightarrow> human_slot option" and octets :: "'n \<Rightarrow> string \<Rightarrow> u8 option"
  assumes nvs: "readable_nvs HUMAN_SLOT_A HUMAN_SLOT_B api blobs octets"
  obtains ea eb es a b k where
    "human_read_slot api 0 s human_slot_zero = (ea, a)" "human_read_slot api 1 s human_slot_zero = (eb, b)"
    "human_read_selector api s 0 = (es, k)"
    "absent ea \<and> blobs s HUMAN_SLOT_A = None \<or> ea = ESP_OK \<and> blobs s HUMAN_SLOT_A = Some a"
    "absent eb \<and> blobs s HUMAN_SLOT_B = None \<or> eb = ESP_OK \<and> blobs s HUMAN_SLOT_B = Some b"
    "es = ESP_OK \<longrightarrow> octets s HUMAN_SELECTOR = Some k" "octets s HUMAN_SELECTOR \<noteq> None \<longrightarrow> es = ESP_OK"
proof -
  obtain ea a where a: "human_read_slot api 0 s human_slot_zero = (ea, a)" by fastforce
  obtain eb b where b: "human_read_slot api 1 s human_slot_zero = (eb, b)" by fastforce
  obtain es k where k: "human_read_selector api s 0 = (es, k)" by fastforce
  have "absent ea \<and> blobs s HUMAN_SLOT_A = None \<or> ea = ESP_OK \<and> blobs s HUMAN_SLOT_A = Some a"
    using readable_nvs.read_slot_Some [OF nvs, of s 0 _ human_slot_zero] readable_nvs.read_slot_None [OF nvs, of s 0 human_slot_zero] a
    by (cases "blobs s HUMAN_SLOT_A") auto
  moreover have "absent eb \<and> blobs s HUMAN_SLOT_B = None \<or> eb = ESP_OK \<and> blobs s HUMAN_SLOT_B = Some b"
    using readable_nvs.read_slot_Some [OF nvs, of s 1 _ human_slot_zero] readable_nvs.read_slot_None [OF nvs, of s 1 human_slot_zero] b
    by (cases "blobs s HUMAN_SLOT_B") auto
  moreover have "octets s HUMAN_SELECTOR \<noteq> None \<longrightarrow> es = ESP_OK"
    using readable_nvs.read_selector_Some [OF nvs, of s HUMAN_SELECTOR _ 0] k by auto
  moreover have "es = ESP_OK \<longrightarrow> octets s HUMAN_SELECTOR = Some k"
    using slot_store.read_selector_stored k nvs readable_nvs.axioms(1) directory_nvs.get_u8_stored
    by (fastforce simp: dir_read_selector_def Let_def split: if_splits)
  ultimately show ?thesis using that a b k by blast
qed

lemma human_init_serves:
  fixes blobs :: "'n \<Rightarrow> string \<Rightarrow> human_slot option" and octets :: "'n \<Rightarrow> string \<Rightarrow> u8 option"
  assumes nvs: "readable_nvs HUMAN_SLOT_A HUMAN_SLOT_B api blobs octets" and d: "\<not> hu_initialized d"
    and some: "\<not> (blobs s HUMAN_SLOT_A = None \<and> blobs s HUMAN_SLOT_B = None)"
    and res: "dr_mutex res" "dr_slot_memory res" "dr_queue res" "dr_task res"
  shows "argus_security_directory_init res api d s =
    (case human_disk blobs octets s of
       None \<Rightarrow> (ESP_ERR_INVALID_STATE, d, s)
     | Some x \<Rightarrow> (ESP_OK, d\<lparr> hu_snapshot := hz_payload x, hu_generation := hz_generation x,
                            hu_active_slot := the (octets s HUMAN_SELECTOR), hu_initialized := True \<rparr>, s))"
proof -
  obtain ea eb es a b k where
    r: "human_read_slot api 0 s human_slot_zero = (ea, a)" "human_read_slot api 1 s human_slot_zero = (eb, b)"
       "human_read_selector api s 0 = (es, k)"
    and c: "absent ea \<and> blobs s HUMAN_SLOT_A = None \<or> ea = ESP_OK \<and> blobs s HUMAN_SLOT_A = Some a"
       "absent eb \<and> blobs s HUMAN_SLOT_B = None \<or> eb = ESP_OK \<and> blobs s HUMAN_SLOT_B = Some b"
       "es = ESP_OK \<longrightarrow> octets s HUMAN_SELECTOR = Some k" "octets s HUMAN_SELECTOR \<noteq> None \<longrightarrow> es = ESP_OK"
    by (rule human_reads [OF nvs])
  have ok: "\<not> absent ESP_OK" by (simp add: absent_def)
  have k: "k > 1 \<or> k = 0 \<or> k = 1" using slot_index_cases [of k] by (auto simp: not_less)
  have off: "es \<noteq> ESP_OK \<Longrightarrow> octets s HUMAN_SELECTOR = None" using c(4) by auto
  show ?thesis
    unfolding argus_security_directory_init_def r Let_def prod.case
    using c some d res k off ok
    by (cases "es = ESP_OK") (elim disjE; auto simp: selected_slot_def)+
qed

text \<open>
  Two ways to lose the directory for good: power lost between the first slot and the first
  selector, and a damaged slot under the selector beside a valid one.
\<close>

lemma human_stranded:
  assumes "readable_nvs HUMAN_SLOT_A HUMAN_SLOT_B api blobs octets" "\<not> hu_initialized d"
    and "blobs s HUMAN_SLOT_A = Some x" "octets s HUMAN_SELECTOR = None \<or> octets s HUMAN_SELECTOR = Some 0 \<and> \<not> human_slot_valid x"
    and "dr_mutex res" "dr_slot_memory res" "dr_queue res" "dr_task res"
  shows "argus_security_directory_init res api d s = (ESP_ERR_INVALID_STATE, d, s)"
  using human_init_serves [OF assms(1,2) _ assms(5-8), of s] assms(3,4) by (auto simp: selected_slot_def)

section \<open>Power safety\<close>

lemma human_commit_atomic:
  fixes blobs :: "'n \<Rightarrow> string \<Rightarrow> human_slot option" and octets :: "'n \<Rightarrow> string \<Rightarrow> u8 option"
  assumes platform: "readable_nvs HUMAN_SLOT_A HUMAN_SLOT_B api blobs octets"
    and served: "human_anchored blobs octets s d"
    and commit: "human_commit_locked memory api payload expected d s = (e, d', s')"
  shows "(human_disk blobs octets s' = human_disk blobs octets s
      \<or> human_disk blobs octets s' = Some (human_slot_of (human_next_generation d) payload))
    \<and> (e = ESP_OK \<longrightarrow> human_disk blobs octets s' = Some (human_slot_of (human_next_generation d) payload)
         \<and> human_anchored blobs octets s' d' \<and> hu_snapshot d' = payload \<and> hu_generation d' = human_next_generation d
         \<and> argus_security_directory_payload_valid payload)
    \<and> (e \<noteq> ESP_OK \<longrightarrow> d' = d)"
proof (cases "argus_security_directory_payload_valid payload \<and> expected = hu_generation d \<and> memory")
  case True
  let ?slots = "dir_slots HUMAN_SLOT_A HUMAN_SLOT_B blobs" and ?sel = "\<lambda>s. octets s HUMAN_SELECTOR"
  let ?x = "human_slot_of (human_next_generation d) payload"
  obtain y where y: "human_disk blobs octets s = Some y" "hu_generation d = hz_generation y"
    using served by (auto simp: human_anchored_def)
  obtain k where k: "?sel s = Some k" "k \<le> 1" "?slots s k = Some y" "human_slot_valid y" by (rule selected_slot_Some [OF y(1)])
  have "hu_generation d \<noteq> 0" using k(4) y(2) by (simp add: human_slot_valid_def)
  then have t: "human_commit_target d = k XOR 1" using served k(1) by (simp add: human_commit_target_def human_anchored_def)
  obtain e1 s1 where st: "store_slot (human_read_slot api) (human_write_slot api) (human_write_selector api)
      human_slot_valid human_slot_zero (k XOR 1) ?x s = (e1, s1)" by fastforce
  note r = readable_nvs.store_selected [OF platform, OF st, OF k]
  have run: "e = e1" "s' = s1" "d' = (if e1 = ESP_OK then d\<lparr> hu_snapshot := payload, hu_generation := human_next_generation d,
      hu_active_slot := k XOR 1 \<rparr> else d)"
    using commit True t st by (auto simp: human_commit_locked_def Let_def)
  then show ?thesis using r y(1) True by (auto simp: human_anchored_def human_slot_of_def)
next
  case False
  then show ?thesis using commit by (auto simp: human_commit_locked_def split: if_splits)
qed

text \<open>
  The human directory survives a loss of power and fails closed. On a platform that keeps the
  documented contract, from a directory that is the one on the flash, a commit with any
  failures (each of its flash operations may fail, also by leaving a torn slot) leaves the
  stored directory as it was or replaces it by the submitted one, which is then valid; it
  reports success only in the second case, and a failed one leaves the served directory. The
  next start-up succeeds, serves exactly the stored directory and writes nothing.
\<close>

theorem human_directory_power_safe:
  assumes "readable_nvs HUMAN_SLOT_A HUMAN_SLOT_B api blobs octets" "human_anchored blobs octets s d"
    and "human_commit_locked memory api payload expected d s = (e, d', s')"
    and "dr_mutex res" "dr_slot_memory res" "dr_queue res" "dr_task res"
  shows "(e = ESP_OK \<longrightarrow> hu_snapshot d' = payload \<and> hu_generation d' = human_next_generation d)
    \<and> (e \<noteq> ESP_OK \<longrightarrow> d' = d)
    \<and> (\<exists>d2. argus_security_directory_init res api human_directory_zero s' = (ESP_OK, d2, s') \<and> hu_initialized d2
         \<and> human_anchored blobs octets s' d2 \<and> argus_security_directory_payload_valid (hu_snapshot d2)
         \<and> ((hu_snapshot d2, hu_generation d2) = (payload, human_next_generation d)
            \<or> e \<noteq> ESP_OK \<and> (hu_snapshot d2, hu_generation d2) = (hu_snapshot d, hu_generation d)))"
proof -
  note atomic = human_commit_atomic [OF assms(1-3)]
  obtain y where y: "human_disk blobs octets s = Some y" "hz_payload y = hu_snapshot d" "hz_generation y = hu_generation d"
    using assms(2) by (auto simp: human_anchored_def)
  obtain x where x: "human_disk blobs octets s' = Some x"
      "x = human_slot_of (human_next_generation d) payload \<or> e \<noteq> ESP_OK \<and> x = y"
    using atomic y(1) by auto
  obtain k where k: "octets s' HUMAN_SELECTOR = Some k" "k \<le> 1" "dir_slots HUMAN_SLOT_A HUMAN_SLOT_B blobs s' k = Some x" "human_slot_valid x"
    by (rule selected_slot_Some [OF x(1)])
  have "\<not> (blobs s' HUMAN_SLOT_A = None \<and> blobs s' HUMAN_SLOT_B = None)" using k(3) by (auto split: if_splits)
  from human_init_serves [OF assms(1), of human_directory_zero s' res, OF _ this assms(4-7)]
  have "argus_security_directory_init res api human_directory_zero s' = (ESP_OK, human_directory_zero\<lparr> hu_snapshot := hz_payload x,
      hu_generation := hz_generation x, hu_active_slot := k, hu_initialized := True \<rparr>, s')"
    using x(1) k(1) by (simp add: human_directory_zero_def)
  moreover have "human_slot_valid x \<Longrightarrow> argus_security_directory_payload_valid (hz_payload x)" by (simp add: human_slot_valid_def)
  ultimately show ?thesis using atomic x y k by (auto simp: human_anchored_def human_slot_of_def)
qed

text \<open>The first directory, and a commit whose slot cannot be written.\<close>

definition first_humans :: human_payload where
  "first_humans = human_payload_zero\<lparr> hy_schema_version := 1 \<rparr>"

definition human_first_cells :: "human_slot entry_cells" where
  "human_first_cells = \<lparr> ec_blobs = [HUMAN_SLOT_A \<mapsto> human_slot_of 1 first_humans], ec_octets = [HUMAN_SELECTOR \<mapsto> 0],
     ec_broken = Some HUMAN_SLOT_B \<rparr>"

definition human_first_directory :: human_directory where
  "human_first_directory = human_directory_zero\<lparr> hu_snapshot := first_humans, hu_generation := 1, hu_initialized := True \<rparr>"

lemma first_humans_valid: "argus_security_directory_payload_valid first_humans"
  by code_simp

lemma human_slot_of_valid:
  "g \<noteq> 0 \<Longrightarrow> argus_security_directory_payload_valid p \<Longrightarrow> human_slot_valid (human_slot_of g p)"
  by (simp add: human_slot_of_def human_slot_valid_def)

lemma human_first_anchored: "human_anchored ec_blobs ec_octets human_first_cells human_first_directory"
  using human_slot_of_valid [OF _ first_humans_valid, of 1]
  by (simp add: human_anchored_def selected_slot_def human_first_cells_def human_first_directory_def human_directory_zero_def human_slot_of_def)

theorem human_directory_power_safe_witness:
  "\<exists>e d' s' d2. human_commit_locked True entry_api first_humans 1 human_first_directory human_first_cells = (e, d', s')
    \<and> e \<noteq> ESP_OK \<and> argus_security_directory_init full_resources entry_api human_directory_zero s' = (ESP_OK, d2, s')
    \<and> hu_snapshot d2 = first_humans"
proof -
  have commit: "human_commit_locked True entry_api first_humans 1 human_first_directory human_first_cells
      = (ESP_FAIL, human_first_directory, human_first_cells)"
    using first_humans_valid
    by (simp add: human_commit_locked_def store_slot_def entry_access Let_def human_first_directory_def human_directory_zero_def
        human_commit_target_def human_first_cells_def)
  have res: "dr_mutex full_resources" "dr_slot_memory full_resources" "dr_queue full_resources" "dr_task full_resources"
    by (simp_all add: full_resources_def)
  from human_directory_power_safe [OF human_cells.readable_nvs_axioms human_first_anchored commit res]
  obtain d2 where "argus_security_directory_init full_resources entry_api human_directory_zero human_first_cells = (ESP_OK, d2, human_first_cells)"
      "hu_snapshot d2 = first_humans \<or> hu_snapshot d2 = hu_snapshot human_first_directory" by auto
  then show ?thesis using commit by (auto simp: human_first_directory_def)
qed

end
