(* ===== verification/Auth_Service.thy ===== *)
theory Auth_Service
  imports Machine_Auth Human_Directory_Props Session
begin

text \<open>
  Logins of people (\<open>argus_auth_service.c\<close>): canonical login names, the throttle with its buckets
  per peer, per account and for the whole device, the reservation of one of two key
  derivations, the verification, and the principal built from the account and its roles.

  The operation holds its mutex in two sections, before and after the derivation; what other
  tasks do in between is an argument. Times are the 64-bit microsecond clock; a difference
  wraps as in the code. Pointers are not null; texts are C strings.
\<close>

section \<open>State\<close>

abbreviation (input) LOGIN_NAME_MAX :: nat where "LOGIN_NAME_MAX \<equiv> 32"
abbreviation (input) LOGIN_BUCKET_CAPACITY :: nat where "LOGIN_BUCKET_CAPACITY \<equiv> 8"
abbreviation (input) LOGIN_FAILURE_LIMIT :: u32 where "LOGIN_FAILURE_LIMIT \<equiv> 5"
abbreviation (input) LOGIN_WINDOW_US :: u64 where "LOGIN_WINDOW_US \<equiv> 60000000"
abbreviation (input) LOGIN_COOLDOWN_INITIAL_US :: u64 where "LOGIN_COOLDOWN_INITIAL_US \<equiv> 30000000"
abbreviation (input) LOGIN_COOLDOWN_MAX_US :: u64 where "LOGIN_COOLDOWN_MAX_US \<equiv> 300000000"
abbreviation (input) LOGIN_KDF_ADMISSION_MAX :: nat where "LOGIN_KDF_ADMISSION_MAX \<equiv> 2"

datatype login_result =
    LOGIN_SUCCESS
  | LOGIN_INVALID_CREDENTIALS
  | LOGIN_THROTTLED
  | LOGIN_BUSY
  | LOGIN_STORE_UNAVAILABLE
  | LOGIN_INVALID_REQUEST

record login_outcome =
  lo_result :: login_result
  lo_principal :: principal
  lo_retry_after_s :: u32
  lo_kdf_invoked :: bool

record throttle_bucket =
  tb_occupied :: bool
  tb_key :: u32
  tb_failures :: u32
  tb_cooldown_level :: u8
  tb_window_started_us :: u64
  tb_cooldown_until_us :: u64
  tb_last_seen_us :: u64

record login_service =
  lg_ready :: bool
  lg_peer_buckets :: "throttle_bucket list"
  lg_principal_buckets :: "throttle_bucket list"
  lg_global_bucket :: throttle_bucket
  lg_kdf_admitted :: u8
  lg_kdf_invocations :: u32
  lg_inflight_peers :: "u32 list"
  lg_inflight_principals :: "u32 list"

definition throttle_bucket_zero :: throttle_bucket where
  "throttle_bucket_zero = \<lparr> tb_occupied = False, tb_key = 0, tb_failures = 0, tb_cooldown_level = 0,
     tb_window_started_us = 0, tb_cooldown_until_us = 0, tb_last_seen_us = 0 \<rparr>"

definition login_service_zero :: login_service where
  "login_service_zero = \<lparr> lg_ready = False, lg_peer_buckets = replicate LOGIN_BUCKET_CAPACITY throttle_bucket_zero,
     lg_principal_buckets = replicate LOGIN_BUCKET_CAPACITY throttle_bucket_zero,
     lg_global_bucket = throttle_bucket_zero\<lparr> tb_occupied := True, tb_key := 1 \<rparr>,
     lg_kdf_admitted = 0, lg_kdf_invocations = 0, lg_inflight_peers = replicate LOGIN_KDF_ADMISSION_MAX 0,
     lg_inflight_principals = replicate LOGIN_KDF_ADMISSION_MAX 0 \<rparr>"

definition login_outcome_of :: "login_result \<Rightarrow> login_outcome" where
  "login_outcome_of r = \<lparr> lo_result = r, lo_principal = principal_zero, lo_retry_after_s = 0, lo_kdf_invoked = False \<rparr>"

text \<open>The record that an unknown login is verified against.\<close>

definition SYNTHETIC_VERIFIER :: password_verifier where
  "SYNTHETIC_VERIFIER =
     \<lparr> pv_format_version = 1, pv_algorithm = 1, pv_salt_length = 16, pv_verifier_length = 32,
       pv_iterations = PASSWORD_ITERATIONS_DEFAULT,
       pv_salt = [0x61, 0x72, 0x67, 0x75, 0x73, 0x2d, 0x34, 0x64, 0x33, 0x2d, 0x66, 0x61, 0x6b, 0x65, 0x21, 0x21],
       pv_verifier = [0xb3, 0xd6, 0xe7, 0x62, 0x80, 0xa7, 0x7e, 0x96, 0x4c, 0x34, 0x78, 0x08, 0x31, 0x4e, 0x6e, 0x79,
                      0x08, 0x0c, 0x18, 0xfc, 0x22, 0x8d, 0x78, 0xe2, 0x21, 0xd8, 0xf9, 0x4d, 0x08, 0xad, 0xea, 0x06] \<rparr>"

section \<open>Derivations in flight\<close>

definition duplicate_inflight_locked :: "u32 \<Rightarrow> u32 \<Rightarrow> login_service \<Rightarrow> bool" where
  "duplicate_inflight_locked peer_key principal_key g =
     list_ex (\<lambda>i. lg_inflight_peers g ! i = peer_key \<or> lg_inflight_principals g ! i = principal_key)
       [0..<LOGIN_KDF_ADMISSION_MAX]"

definition set_inflight :: "nat \<Rightarrow> u32 \<Rightarrow> u32 \<Rightarrow> login_service \<Rightarrow> login_service" where
  "set_inflight i peer_key principal_key g =
     g\<lparr> lg_inflight_peers := (lg_inflight_peers g)[i := peer_key],
        lg_inflight_principals := (lg_inflight_principals g)[i := principal_key] \<rparr>"

definition reserve_inflight_locked :: "u32 \<Rightarrow> u32 \<Rightarrow> login_service \<Rightarrow> bool \<times> login_service" where
  "reserve_inflight_locked peer_key principal_key g =
     (case find (\<lambda>i. lg_inflight_peers g ! i = 0 \<and> lg_inflight_principals g ! i = 0) [0..<LOGIN_KDF_ADMISSION_MAX] of
        None \<Rightarrow> (False, g)
      | Some i \<Rightarrow> (True, set_inflight i peer_key principal_key g))"

definition release_inflight_locked :: "u32 \<Rightarrow> u32 \<Rightarrow> login_service \<Rightarrow> login_service" where
  "release_inflight_locked peer_key principal_key g =
     (case find (\<lambda>i. lg_inflight_peers g ! i = peer_key \<and> lg_inflight_principals g ! i = principal_key)
             [0..<LOGIN_KDF_ADMISSION_MAX] of
        None \<Rightarrow> g
      | Some i \<Rightarrow> set_inflight i 0 0 g)"

section \<open>Names and passwords\<close>

definition b_tolower :: "u8 \<Rightarrow> u8" where
  "b_tolower c = (if 65 \<le> c \<and> c \<le> 90 then c + 32 else c)"

definition argus_auth_canonicalize_login :: "u8 list \<Rightarrow> u8 list option" where
  "argus_auth_canonicalize_login input =
     (let name = cstr input in
      if length name = 0 \<or> length name > LOGIN_NAME_MAX \<or> hd name = 32 \<or> last name = 32 then None
      else if list_ex (\<lambda>c. c < 0x21 \<or> c > 0x7e) name then None
      else Some (map b_tolower name))"

definition argus_auth_new_password_valid :: "u8 list \<Rightarrow> bool" where
  "argus_auth_new_password_valid password =
     (if length password < 12 \<or> length password > PASSWORD_INPUT_MAX then False
      else list_all (\<lambda>c. \<not> (c < 0x20 \<or> c > 0x7e)) password)"

definition hash_login :: "u8 list \<Rightarrow> u32" where
  "hash_login login =
     (let hash = fold (\<lambda>c h. (h XOR ucast c) * 16777619) login 2166136261 in if hash = 0 then 1 else hash)"

section \<open>The throttle\<close>

text \<open>The bucket of a key: its own, else the first free one, else the one seen longest ago.\<close>

definition login_bucket :: "u32 \<Rightarrow> u64 \<Rightarrow> throttle_bucket list \<Rightarrow> nat \<times> throttle_bucket list" where
  "login_bucket key now_us buckets =
     (case find (\<lambda>i. tb_occupied (buckets ! i) \<and> tb_key (buckets ! i) = key) [0..<LOGIN_BUCKET_CAPACITY] of
        Some i \<Rightarrow> (i, buckets[i := (buckets ! i)\<lparr> tb_last_seen_us := now_us \<rparr>])
      | None \<Rightarrow>
          (let index = (case find (\<lambda>i. \<not> tb_occupied (buckets ! i)) [0..<LOGIN_BUCKET_CAPACITY] of
                          Some i \<Rightarrow> i
                        | None \<Rightarrow> oldest_index tb_last_seen_us buckets)
           in (index, buckets[index := throttle_bucket_zero\<lparr> tb_occupied := True, tb_key := key, tb_last_seen_us := now_us \<rparr>])))"

definition cooldown_remaining :: "u64 \<Rightarrow> throttle_bucket \<Rightarrow> u64" where
  "cooldown_remaining now_us b = (if tb_cooldown_until_us b \<le> now_us then 0 else tb_cooldown_until_us b - now_us)"

definition preflight_locked :: "u32 \<Rightarrow> u32 \<Rightarrow> u64 \<Rightarrow> login_service \<Rightarrow> u32 \<times> login_service" where
  "preflight_locked peer_key principal_key now_us g =
     (let (i, peers) = login_bucket peer_key now_us (lg_peer_buckets g);
          (j, principals) = login_bucket principal_key now_us (lg_principal_buckets g);
          remaining = cooldown_remaining now_us (peers ! i);
          principal_remaining = cooldown_remaining now_us (principals ! j);
          remaining1 = (if principal_remaining > remaining then principal_remaining else remaining);
          global_remaining = cooldown_remaining now_us (lg_global_bucket g);
          remaining2 = (if global_remaining > remaining1 then global_remaining else remaining1)
      in (if remaining2 = 0 then 0 else seconds_ceil remaining2,
          g\<lparr> lg_peer_buckets := peers, lg_principal_buckets := principals \<rparr>))"

text \<open>The duration after the given number of doublings, stopped at the longest one.\<close>

fun cooldown_duration :: "nat \<Rightarrow> u64 \<Rightarrow> u64" where
  "cooldown_duration 0 duration = duration"
| "cooldown_duration (Suc n) duration =
     (if duration \<ge> LOGIN_COOLDOWN_MAX_US div 2 then LOGIN_COOLDOWN_MAX_US else cooldown_duration n (duration * 2))"

definition record_failure_bucket :: "u64 \<Rightarrow> throttle_bucket \<Rightarrow> throttle_bucket" where
  "record_failure_bucket now_us b =
     (if tb_window_started_us b = 0 \<or> now_us - tb_window_started_us b > LOGIN_WINDOW_US
      then b\<lparr> tb_window_started_us := now_us, tb_failures := 1 \<rparr>
      else
        (let b1 = b\<lparr> tb_failures := tb_failures b + 1 \<rparr> in
         if tb_failures b1 < LOGIN_FAILURE_LIMIT then b1
         else
           (let duration = cooldown_duration (unat (tb_cooldown_level b)) LOGIN_COOLDOWN_INITIAL_US;
                duration1 = (if duration > LOGIN_COOLDOWN_MAX_US then LOGIN_COOLDOWN_MAX_US else duration)
            in b1\<lparr> tb_cooldown_until_us := now_us + duration1,
                   tb_cooldown_level := (if tb_cooldown_level b < 4 then tb_cooldown_level b + 1 else tb_cooldown_level b),
                   tb_failures := 0, tb_window_started_us := now_us \<rparr>)))"

definition clear_failures :: "throttle_bucket \<Rightarrow> throttle_bucket" where
  "clear_failures b = b\<lparr> tb_failures := 0, tb_window_started_us := 0 \<rparr>"

definition record_result_locked :: "u32 \<Rightarrow> u32 \<Rightarrow> u64 \<Rightarrow> bool \<Rightarrow> login_service \<Rightarrow> login_service" where
  "record_result_locked peer_key principal_key now_us success g =
     (let (i, peers) = login_bucket peer_key now_us (lg_peer_buckets g);
          (j, principals) = login_bucket principal_key now_us (lg_principal_buckets g);
          change = (if success then clear_failures else record_failure_bucket now_us)
      in g\<lparr> lg_peer_buckets := peers[i := change (peers ! i)],
            lg_principal_buckets := principals[j := change (principals ! j)],
            lg_global_bucket := (if success then lg_global_bucket g else record_failure_bucket now_us (lg_global_bucket g)) \<rparr>)"

section \<open>Principals\<close>

definition security_level_of :: "nat \<Rightarrow> security_level" where
  "security_level_of n =
     (if n = 0 then LEVEL_ARGUS_PERSONNEL else if n = 1 then LEVEL_CLIENT_ADMIN else if n = 2 then LEVEL_SUPERVISOR
      else if n = 3 then LEVEL_OPERATOR else if n = 4 then LEVEL_VIEWER else if n = 5 then LEVEL_MACHINE else LEVEL_COUNT)"

text \<open>The permissions of one role bit, if the role exists.\<close>

definition role_permissions :: "human_payload \<Rightarrow> nat \<Rightarrow> (permission_set \<times> permission_set) option" where
  "role_permissions p n =
     (if n < BUILTIN_ROLE_COUNT
      then Some (argus_authorization_level_permissions (security_level_of n),
                 argus_authorization_level_delegable (security_level_of n))
      else (let index = n - BUILTIN_ROLE_COUNT in
            if index \<ge> unat (hy_custom_role_count p) then None
            else Some (rr_permissions (hy_custom_roles p ! index), rr_delegable_permissions (hy_custom_roles p ! index))))"

fun collect_roles :: "human_payload \<Rightarrow> u16 \<Rightarrow> nat list \<Rightarrow> permission_set \<Rightarrow> permission_set \<Rightarrow> (permission_set \<times> permission_set) option" where
  "collect_roles p role_mask [] permissions delegable = Some (permissions, delegable)"
| "collect_roles p role_mask (n # rest) permissions delegable =
     (if role_mask AND push_bit n 1 = 0 then collect_roles p role_mask rest permissions delegable
      else (case role_permissions p n of
              None \<Rightarrow> None
            | Some (a, b) \<Rightarrow> collect_roles p role_mask rest (permissions OR a) (delegable OR b)))"

definition build_human_principal :: "human_record \<Rightarrow> human_payload \<Rightarrow> u32 \<Rightarrow> bool \<times> principal" where
  "build_human_principal human p security_epoch =
     (if \<not> argus_security_human_record_valid human \<or> hr_enabled human = 0 \<or> hr_revoked human \<noteq> 0
      then (False, principal_zero)
      else (case collect_roles p (hr_role_mask human) [0..<16] (hr_direct_permissions human) 0 of
              None \<Rightarrow> (False, principal_zero)
            | Some (permissions, delegable) \<Rightarrow>
                (let permissions1 = permissions AND PERMISSION_DEFINED_MASK;
                     delegable1 = (delegable AND permissions1) AND NOT PERMISSION_MANAGE_CLIENT_ADMINS;
                     out = \<lparr> pr_type = PRINCIPAL_HUMAN, pr_identifier = fill_buffer 37 (hr_identifier human),
                       pr_scope = fill_buffer 37 (hr_scope human), pr_level = security_level_of (unat (hr_level human)),
                       pr_permissions = permissions1, pr_delegable_permissions = delegable1,
                       pr_credential_version = hr_credential_version human, pr_security_epoch = security_epoch,
                       pr_principal_revision = hr_record_security_epoch human,
                       pr_protected_identity = (hr_protected_identity human \<noteq> 0) \<rparr>
                 in (argus_authorization_principal_valid (Some out), out))))"

definition console_principal :: "u32 \<Rightarrow> u32 \<Rightarrow> principal" where
  "console_principal console_version security_epoch =
     \<lparr> pr_type = PRINCIPAL_CONSOLE, pr_identifier = fill_buffer 37 (str_bytes ''argus_console''),
       pr_scope = fill_buffer 37 (str_bytes ''*''), pr_level = LEVEL_ARGUS_PERSONNEL,
       pr_permissions = PERMISSION_DEFINED_MASK,
       pr_delegable_permissions = argus_authorization_level_delegable LEVEL_ARGUS_PERSONNEL,
       pr_credential_version = console_version, pr_security_epoch = security_epoch,
       pr_principal_revision = security_epoch, pr_protected_identity = True \<rparr>"

definition argus_auth_service_init :: "bool \<Rightarrow> login_service \<Rightarrow> esp_err \<times> login_service" where
  "argus_auth_service_init mutex g =
     (if lg_ready g then (ESP_OK, g)
      else if \<not> argus_password_verifier_record_valid (Some SYNTHETIC_VERIFIER) then (ESP_ERR_INVALID_STATE, g)
      else if \<not> mutex then (ESP_ERR_NO_MEM, g) else (ESP_OK, g\<lparr> lg_ready := True \<rparr>))"

section \<open>Authentication\<close>

text \<open>The section before the derivation: a refusal, or one derivation reserved.\<close>

definition login_admit :: "u32 \<Rightarrow> u32 \<Rightarrow> u64 \<Rightarrow> login_service \<Rightarrow> login_outcome option \<times> login_service" where
  "login_admit peer_key principal_key now_us g =
     (let (retry, g1) = preflight_locked peer_key principal_key now_us g in
      if retry \<noteq> 0 then (Some ((login_outcome_of LOGIN_THROTTLED)\<lparr> lo_retry_after_s := retry \<rparr>), g1)
      else if unat (lg_kdf_admitted g1) \<ge> LOGIN_KDF_ADMISSION_MAX \<or> duplicate_inflight_locked peer_key principal_key g1
      then (Some (login_outcome_of LOGIN_BUSY), g1)
      else (case reserve_inflight_locked peer_key principal_key g1 of
              (False, g2) \<Rightarrow> (Some (login_outcome_of LOGIN_BUSY), g2)
            | (True, g2) \<Rightarrow> (None, g2\<lparr> lg_kdf_admitted := lg_kdf_admitted g2 + 1 \<rparr>)))"

text \<open>What the lookup finds: the record to verify against and the principal of a success.\<close>

record login_subject =
  ls_verifier :: password_verifier
  ls_available :: bool
  ls_known :: bool
  ls_usable :: bool
  ls_principal :: "bool \<times> principal"

definition synthetic_subject :: login_subject where
  "synthetic_subject = \<lparr> ls_verifier = SYNTHETIC_VERIFIER, ls_available = False, ls_known = False, ls_usable = False,
     ls_principal = (False, principal_zero) \<rparr>"

text \<open>The security store is read twice and may change in between: \<open>m\<close> is its state at the first read, \<open>m'\<close> at the second.\<close>

definition lookup_console :: "security_manager \<Rightarrow> security_manager \<Rightarrow> login_subject" where
  "lookup_console m m' =
     (case argus_security_store_get_console_verifier m of
        (err, Some (verifier, console_version)) \<Rightarrow>
          if err \<noteq> ESP_OK then synthetic_subject
          else (case argus_security_store_get_status m' of
                  (err2, Some status) \<Rightarrow>
                    if err2 = ESP_OK
                    then \<lparr> ls_verifier = verifier, ls_available = True, ls_known = True, ls_usable = True,
                           ls_principal = (True, console_principal console_version (st_security_epoch status)) \<rparr>
                    else synthetic_subject\<lparr> ls_verifier := verifier \<rparr>
                | (err2, None) \<Rightarrow> synthetic_subject\<lparr> ls_verifier := verifier \<rparr>)
      | (err, None) \<Rightarrow> synthetic_subject)"

definition lookup_human :: "bool \<Rightarrow> human_directory \<Rightarrow> security_manager \<Rightarrow> u8 list \<Rightarrow> login_subject" where
  "lookup_human memory d m canonical =
     (if \<not> memory then synthetic_subject
      else case (argus_security_directory_get_snapshot d, argus_security_store_get_status m) of
        (Inr (p, generation), (err, Some status)) \<Rightarrow>
          if err \<noteq> ESP_OK then synthetic_subject
          else (case find (\<lambda>h. argus_security_human_record_valid h \<and> cstr (hr_login h) = canonical) (hy_humans p) of
                  None \<Rightarrow> synthetic_subject\<lparr> ls_available := True \<rparr>
                | Some h \<Rightarrow>
                    \<lparr> ls_verifier = hr_verifier h, ls_available = True, ls_known = True,
                      ls_usable = (hr_enabled h \<noteq> 0 \<and> hr_revoked h = 0),
                      ls_principal = build_human_principal h p (st_security_epoch status) \<rparr>)
      | _ \<Rightarrow> synthetic_subject)"

definition login_lookup ::
  "bool \<Rightarrow> human_directory \<Rightarrow> security_manager \<Rightarrow> security_manager \<Rightarrow> u8 list \<Rightarrow> login_subject" where
  "login_lookup memory d m m' canonical =
     (if canonical = str_bytes ''argus'' then lookup_console m m' else lookup_human memory d m' canonical)"

text \<open>The derivation: its status, corrected when the store could not be read, whether it ran, and the principal.\<close>

definition login_verify ::
  "kdf_queue \<Rightarrow> hmac \<Rightarrow> u8 list \<Rightarrow> login_subject \<Rightarrow> esp_err \<times> bool \<times> bool \<times> principal" where
  "login_verify q hmac password subject =
     (let (verify_err, is_match) = argus_password_verifier_verify q hmac (Some password) (Some (ls_verifier subject)) False;
          invoked = (verify_err \<noteq> ESP_ERR_TIMEOUT \<and> verify_err \<noteq> ESP_ERR_INVALID_STATE);
          verify_err1 = (if verify_err = ESP_OK \<and> \<not> ls_available subject then ESP_ERR_INVALID_STATE else verify_err);
          matched = (verify_err1 = ESP_OK \<and> is_match \<and> ls_known subject \<and> ls_usable subject);
          success = (matched \<and> fst (ls_principal subject))
      in (verify_err1, invoked, success, if matched then snd (ls_principal subject) else principal_zero))"

text \<open>The section after the derivation.\<close>

definition login_finish :: "u32 \<Rightarrow> u32 \<Rightarrow> u64 \<Rightarrow> esp_err \<Rightarrow> bool \<Rightarrow> bool \<Rightarrow> login_service \<Rightarrow> login_service" where
  "login_finish peer_key principal_key now_us verify_err invoked success g =
     (let g1 = release_inflight_locked peer_key principal_key (g\<lparr> lg_kdf_admitted := lg_kdf_admitted g - 1 \<rparr>);
          g2 = (if invoked then g1\<lparr> lg_kdf_invocations := lg_kdf_invocations g1 + 1 \<rparr> else g1)
      in if verify_err = ESP_OK then record_result_locked peer_key principal_key now_us success g2 else g2)"

definition login_answer :: "esp_err \<times> bool \<times> bool \<times> principal \<Rightarrow> login_outcome" where
  "login_answer v =
     (case v of (verify_err, invoked, success, who) \<Rightarrow>
        \<lparr> lo_result = (if success then LOGIN_SUCCESS else if verify_err = ESP_ERR_TIMEOUT then LOGIN_BUSY
                      else if verify_err = ESP_OK then LOGIN_INVALID_CREDENTIALS else LOGIN_STORE_UNAVAILABLE),
          lo_principal = who, lo_retry_after_s = 0, lo_kdf_invoked = invoked \<rparr>)"

text \<open>What the attempt reads and uses besides its own state.\<close>

record login_env =
  le_memory :: bool
  le_directory :: human_directory
  le_store :: security_manager
  le_store_status :: security_manager
  le_queue :: kdf_queue
  le_hmac :: hmac

definition argus_auth_service_authenticate ::
  "login_env \<Rightarrow> u64 \<Rightarrow> (login_service \<Rightarrow> login_service) \<Rightarrow> u32 \<Rightarrow> u8 list \<Rightarrow> u8 list \<Rightarrow> login_service \<Rightarrow>
     login_outcome \<times> login_service" where
  "argus_auth_service_authenticate env now_us between peer_key username password g =
     (case argus_auth_canonicalize_login username of
        None \<Rightarrow> (login_outcome_of LOGIN_INVALID_REQUEST, g)
      | Some canonical \<Rightarrow>
          if \<not> lg_ready g \<or> peer_key = 0 \<or> length password = 0 \<or> length password > PASSWORD_INPUT_MAX
          then (login_outcome_of LOGIN_INVALID_REQUEST, g)
          else
            (let principal_key = hash_login canonical in
             case login_admit peer_key principal_key now_us g of
               (Some refusal, g1) \<Rightarrow> (refusal, g1)
             | (None, g1) \<Rightarrow>
                 (let subject = login_lookup (le_memory env) (le_directory env) (le_store env) (le_store_status env) canonical;
                      v = login_verify (le_queue env) (le_hmac env) password subject
                  in (login_answer v,
                      login_finish peer_key principal_key now_us (fst v) (fst (snd v)) (fst (snd (snd v))) (between g1)))))"

section \<open>Counters and new verifiers\<close>

definition argus_auth_service_kdf_admitted :: "login_service \<Rightarrow> nat" where
  "argus_auth_service_kdf_admitted g = (if \<not> lg_ready g then 0 else unat (lg_kdf_admitted g))"

definition argus_auth_service_kdf_invocations :: "login_service \<Rightarrow> u32" where
  "argus_auth_service_kdf_invocations g = (if \<not> lg_ready g then 0 else lg_kdf_invocations g)"

definition verifier_admit :: "login_service \<Rightarrow> login_service option" where
  "verifier_admit g =
     (if unat (lg_kdf_admitted g) \<ge> LOGIN_KDF_ADMISSION_MAX then None
      else Some (g\<lparr> lg_kdf_admitted := lg_kdf_admitted g + 1 \<rparr>))"

definition verifier_finish :: "bool \<Rightarrow> login_service \<Rightarrow> login_service" where
  "verifier_finish invoked g =
     (let g1 = g\<lparr> lg_kdf_admitted := lg_kdf_admitted g - 1 \<rparr>
      in if invoked then g1\<lparr> lg_kdf_invocations := lg_kdf_invocations g1 + 1 \<rparr> else g1)"

definition argus_auth_service_create_verifier ::
  "kdf_queue \<Rightarrow> hmac \<Rightarrow> u8 list \<Rightarrow> (login_service \<Rightarrow> login_service) \<Rightarrow> u8 list \<Rightarrow> password_verifier \<Rightarrow> login_service \<Rightarrow>
     (esp_err \<times> password_verifier) \<times> login_service" where
  "argus_auth_service_create_verifier q hmac salt between password out g =
     (if \<not> lg_ready g \<or> \<not> argus_auth_new_password_valid password then ((ESP_ERR_INVALID_ARG, out), g)
      else (case verifier_admit g of
              None \<Rightarrow> ((ESP_ERR_NO_MEM, out), g)
            | Some g1 \<Rightarrow>
                (case argus_password_verifier_create q hmac salt (Some password) PASSWORD_ITERATIONS_DEFAULT out of
                   (err, record) \<Rightarrow>
                     ((err, record), verifier_finish (err \<noteq> ESP_ERR_TIMEOUT \<and> err \<noteq> ESP_ERR_INVALID_STATE) (between g1)))))"

end
