(* ===== verification/Auth_Props.thy ===== *)
theory Auth_Props
  imports Auth_Service Machine_Service_Props
begin

text \<open>
  Correctness of logins: what a success proves, that failures of different causes cannot be told
  apart, how many failures the throttle lets through, and that no reservation of a derivation
  is lost.
\<close>

section \<open>What a success proves\<close>

lemma mask_bit: "(m :: 'a::len word) AND push_bit k 1 \<noteq> 0 \<longleftrightarrow> bit m k"
proof -
  have "m AND push_bit k 1 = of_bool (bit m k) * push_bit k 1"
    by (rule bit_eqI) (auto simp: bit_simps)
  moreover have "bit m k \<Longrightarrow> push_bit k (1 :: 'a word) \<noteq> 0"
    by (metis bit_1_0 bit_push_bit_iff bit_imp_le_length bit_0_eq bot_apply bot_bool_def diff_self_eq_0 impossible_bit le_refl not_le_imp_less possible_bit_def possible_bit_word)
  ultimately show ?thesis by auto
qed


lemma collect_roles_Cons:
  "collect_roles p m (k # ks) a b =
     (if \<not> bit m k then collect_roles p m ks a b
      else case role_permissions p k of None \<Rightarrow> None | Some (x, y) \<Rightarrow> collect_roles p m ks (a OR x) (b OR y))"
  by (simp add: mask_bit [symmetric])

lemma collect_roles_bits:
  assumes "collect_roles p m ns a b = Some (a', b')"
  shows "bit a' n \<longleftrightarrow> bit a n \<or> (\<exists>k\<in>set ns. bit m k \<and> (\<exists>x y. role_permissions p k = Some (x, y) \<and> bit x n))"
  using assms
proof (induction ns arbitrary: a b)
  case (Cons k ks)
  then show ?case
    by (auto simp: collect_roles_Cons bit_or_iff simp del: collect_roles.simps(2) split: if_splits option.splits prod.splits)
qed simp

lemma build_human_principal_ok:
  assumes "build_human_principal h p epoch = (True, who)"
  shows "hr_enabled h \<noteq> 0 \<and> hr_revoked h = 0 \<and> argus_authorization_principal_valid (Some who)
    \<and> pr_type who = PRINCIPAL_HUMAN \<and> pr_level who = security_level_of (unat (hr_level h))
    \<and> pr_identifier who = fill_buffer 37 (hr_identifier h) \<and> pr_scope who = fill_buffer 37 (hr_scope h)
    \<and> pr_credential_version who = hr_credential_version h \<and> pr_security_epoch who = epoch
    \<and> (\<forall>n. bit (pr_permissions who) n \<longleftrightarrow> bit PERMISSION_DEFINED_MASK n
         \<and> (bit (hr_direct_permissions h) n
            \<or> (\<exists>k<16. bit (hr_role_mask h) k \<and> (\<exists>x y. role_permissions p k = Some (x, y) \<and> bit x n))))"
proof -
  obtain a b where c: "collect_roles p (hr_role_mask h) [0..<16] (hr_direct_permissions h) 0 = Some (a, b)"
    using assms by (auto simp: build_human_principal_def split: if_splits option.splits)
  have bits: "bit a n \<longleftrightarrow> bit (hr_direct_permissions h) n
      \<or> (\<exists>k<16. bit (hr_role_mask h) k \<and> (\<exists>x y. role_permissions p k = Some (x, y) \<and> bit x n))" for n
    using collect_roles_bits [OF c, of n] by (simp add: Bex_def atLeast0LessThan)
  have "pr_permissions who = a AND PERMISSION_DEFINED_MASK"
    using assms by (auto simp: build_human_principal_def c Let_def split: if_splits)
  then have "bit (pr_permissions who) n \<longleftrightarrow> bit PERMISSION_DEFINED_MASK n \<and> bit a n" for n by (auto simp: bit_and_iff)
  then show ?thesis
    unfolding bits using assms by (auto simp: build_human_principal_def c Let_def simp del: split_paired_Ex split: if_splits)
qed

text \<open>The password derives the value that a record holds.\<close>

definition password_proves :: "hmac \<Rightarrow> u8 list \<Rightarrow> password_verifier \<Rightarrow> bool" where
  "password_proves hmac password v \<longleftrightarrow>
     argus_password_verifier_record_valid (Some v)
     \<and> pbkdf2_block (hmac password) (take 16 (pv_salt v)) (unat (pv_iterations v)) = Some (pv_verifier v)"

lemma verify_match:
  assumes "argus_password_verifier_verify q hmac (Some password) (Some v) False = (ESP_OK, True)"
  shows "password_proves hmac password v"
  using assms
  by (auto simp: argus_password_verifier_verify_def submit_def verify_record_def password_proves_def pbkdf2_unfold
      argus_password_verifier_record_valid_def split: if_splits option.splits)

lemma authenticate_success:
  assumes "argus_auth_service_authenticate env now_us between peer username password g = (out, g')"
    and "lo_result out = LOGIN_SUCCESS"
  shows "\<exists>canonical subject who. argus_auth_canonicalize_login username = Some canonical
    \<and> subject = login_lookup (le_memory env) (le_directory env) (le_store env) (le_store_status env) canonical
    \<and> ls_available subject \<and> ls_known subject \<and> ls_usable subject \<and> ls_principal subject = (True, who) \<and> lo_principal out = who
    \<and> password_proves (le_hmac env) password (ls_verifier subject)
    \<and> fst (preflight_locked peer (hash_login canonical) now_us g) = 0 \<and> lo_kdf_invoked out"
proof -
  obtain canonical where c: "argus_auth_canonicalize_login username = Some canonical"
    using assms by (cases "argus_auth_canonicalize_login username") (auto simp: argus_auth_service_authenticate_def login_outcome_of_def)
  let ?s = "login_lookup (le_memory env) (le_directory env) (le_store env) (le_store_status env) canonical"
  obtain r g1 where a: "login_admit peer (hash_login canonical) now_us g = (r, g1)" by fastforce
  have admitted: "r = None" "fst (preflight_locked peer (hash_login canonical) now_us g) = 0"
    using assms c a
    by (auto simp: argus_auth_service_authenticate_def login_admit_def login_outcome_of_def Let_def
        split: if_splits prod.splits option.splits bool.splits)
  obtain err ok where v: "argus_password_verifier_verify (le_queue env) (le_hmac env) (Some password) (Some (ls_verifier ?s)) False = (err, ok)"
    by fastforce
  have out: "out = login_answer (login_verify (le_queue env) (le_hmac env) password ?s)"
    using assms c a admitted(1)
    by (auto simp: argus_auth_service_authenticate_def login_outcome_of_def Let_def split: if_splits)
  have "err = ESP_OK" "ok" "ls_available ?s" "ls_known ?s" "ls_usable ?s" "fst (ls_principal ?s)"
      "lo_principal out = snd (ls_principal ?s)" "lo_kdf_invoked out"
    using out assms(2) v by (auto simp: login_answer_def login_verify_def Let_def split: if_splits)
  then show ?thesis using c admitted(2) verify_match v by (cases "ls_principal ?s") auto
qed

text \<open>
  C32: A login succeeds only with the password of a usable account. When the service reports a
  success, the attempt was outside every cooldown and derived the key, and the password
  derives the stored value of the named account. For the console account the principal is
  the console's. For every other name the account is a valid, enabled and unrevoked record
  of the directory under the canonical name, and the principal carries its identity, level,
  scope and credential version, and exactly the defined permissions among those given to it
  directly and by its roles.
\<close>

theorem login_success_sound:
  assumes "argus_auth_service_authenticate env now_us between peer username password g = (out, g')"
    and "lo_result out = LOGIN_SUCCESS"
  shows "\<exists>canonical. argus_auth_canonicalize_login username = Some canonical \<and> lo_kdf_invoked out
    \<and> fst (preflight_locked peer (hash_login canonical) now_us g) = 0
    \<and> (if canonical = str_bytes ''argus''
       then \<exists>v version epoch. argus_security_store_get_console_verifier (le_store env) = (ESP_OK, Some (v, version))
              \<and> password_proves (le_hmac env) password v \<and> lo_principal out = console_principal version epoch
       else \<exists>h\<in>set (hy_humans (hu_snapshot (le_directory env))).
              argus_security_human_record_valid h \<and> cstr (hr_login h) = canonical
              \<and> hr_enabled h \<noteq> 0 \<and> hr_revoked h = 0 \<and> password_proves (le_hmac env) password (hr_verifier h)
              \<and> argus_authorization_principal_valid (Some (lo_principal out))
              \<and> pr_identifier (lo_principal out) = fill_buffer 37 (hr_identifier h)
              \<and> pr_level (lo_principal out) = security_level_of (unat (hr_level h))
              \<and> pr_scope (lo_principal out) = fill_buffer 37 (hr_scope h)
              \<and> pr_credential_version (lo_principal out) = hr_credential_version h
              \<and> (\<forall>n. bit (pr_permissions (lo_principal out)) n \<longleftrightarrow> bit PERMISSION_DEFINED_MASK n
                   \<and> (bit (hr_direct_permissions h) n
                      \<or> (\<exists>k<16. bit (hr_role_mask h) k
                           \<and> (\<exists>x y. role_permissions (hu_snapshot (le_directory env)) k = Some (x, y) \<and> bit x n)))))"
proof -
  let ?p = "hu_snapshot (le_directory env)"
  obtain canonical subject who where s: "argus_auth_canonicalize_login username = Some canonical" "lo_kdf_invoked out"
      "fst (preflight_locked peer (hash_login canonical) now_us g) = 0"
      "subject = login_lookup (le_memory env) (le_directory env) (le_store env) (le_store_status env) canonical"
      "ls_known subject" "ls_principal subject = (True, who)" "lo_principal out = who"
      "password_proves (le_hmac env) password (ls_verifier subject)"
    using authenticate_success [OF assms] by blast
  show ?thesis
  proof (cases "canonical = str_bytes ''argus''")
    case True
    then have "\<exists>v version epoch. argus_security_store_get_console_verifier (le_store env) = (ESP_OK, Some (v, version))
              \<and> ls_verifier subject = v \<and> who = console_principal version epoch"
      using s(4-6) by (auto simp: login_lookup_def lookup_console_def synthetic_subject_def split: prod.splits option.splits if_splits)
    then show ?thesis using s True by auto
  next
    case False
    then obtain h epoch where h: "find (\<lambda>h. argus_security_human_record_valid h \<and> cstr (hr_login h) = canonical) (hy_humans ?p) = Some h"
        "build_human_principal h ?p epoch = (True, who)" "ls_verifier subject = hr_verifier h"
      using s(4-6)
      by (auto simp: login_lookup_def lookup_human_def synthetic_subject_def argus_security_directory_get_snapshot_def
          split: prod.splits option.splits sum.splits if_splits)
    have "h \<in> set (hy_humans ?p) \<and> argus_security_human_record_valid h \<and> cstr (hr_login h) = canonical"
      using h(1) by (auto simp: find_Some_iff)
    then show ?thesis using False s build_human_principal_ok [OF h(2)] h(3) by auto
  qed
qed

section \<open>Failures look alike\<close>

lemma pbkdf2_U_total: "\<forall>x. prf x \<noteq> None \<Longrightarrow> \<exists>u. pbkdf2_U prf salt k = Some u"
  by (induction k) (auto split: option.splits)

lemma those_total: "\<forall>x\<in>set xs. x \<noteq> None \<Longrightarrow> \<exists>ys. those xs = Some ys"
  by (induction xs) auto

lemma pbkdf2_block_total:
  assumes "\<forall>x. prf x \<noteq> None"
  shows "\<exists>b. pbkdf2_block prf salt c = Some b"
proof -
  have "\<exists>us. those (map (pbkdf2_U prf salt) [0..<c]) = Some us"
    using pbkdf2_U_total [OF assms, of salt] by (intro those_total) fastforce
  then show ?thesis by (auto simp: pbkdf2_block_def split: list.splits)
qed

text \<open>With a tag function that does not fail, the status of a verification does not depend on the record.\<close>

lemma verify_status:
  assumes "argus_password_verifier_record_valid (Some v)" "length (pv_salt v) = 16" "\<forall>k x. hmac k x \<noteq> None"
    and "0 < length password" "length password \<le> PASSWORD_INPUT_MAX"
  shows "fst (argus_password_verifier_verify q hmac (Some password) (Some v) False) = fst (submit q (ESP_OK, False) False)"
proof -
  obtain b where "pbkdf2_block (hmac password) (take (unat (pv_salt_length v)) (pv_salt v)) (unat (pv_iterations v)) = Some b"
    using pbkdf2_block_total assms(3) by blast
  moreover have "pv_salt v \<noteq> []" "password \<noteq> []" "pv_iterations v \<noteq> 0" "unat (pv_salt_length v) = 16"
    using assms by (auto simp: argus_password_verifier_record_valid_def)
  ultimately show ?thesis
    using assms
    by (simp add: argus_password_verifier_verify_def submit_def verify_record_def pbkdf2_unfold input_valid_def)
qed

lemma synthetic_valid: "argus_password_verifier_record_valid (Some SYNTHETIC_VERIFIER)"
  by (simp add: argus_password_verifier_record_valid_def SYNTHETIC_VERIFIER_def)

definition directory_readable :: "login_env \<Rightarrow> bool" where
  "directory_readable env \<longleftrightarrow> le_memory env \<and> hu_initialized (le_directory env) \<and> sm_initialized (le_store_status env)
     \<and> list_all (\<lambda>h. length (pv_salt (hr_verifier h)) = 16) (hy_humans (hu_snapshot (le_directory env)))"

lemma human_subject:
  assumes "directory_readable env" "canonical \<noteq> str_bytes ''argus''"
    and "s = login_lookup (le_memory env) (le_directory env) (le_store env) (le_store_status env) canonical"
  shows "ls_available s \<and> argus_password_verifier_record_valid (Some (ls_verifier s)) \<and> length (pv_salt (ls_verifier s)) = 16"
proof -
  have "length (pv_salt SYNTHETIC_VERIFIER) = 16" by (simp add: SYNTHETIC_VERIFIER_def)
  moreover have "argus_security_human_record_valid h \<Longrightarrow> argus_password_verifier_record_valid (Some (hr_verifier h))" for h
    by (simp add: argus_security_human_record_valid_def)
  ultimately show ?thesis
    using assms synthetic_valid
    by (auto simp: login_lookup_def lookup_human_def directory_readable_def argus_security_directory_get_snapshot_def
        argus_security_store_get_status_def synthetic_subject_def Let_def list_all_iff find_Some_iff split: option.splits)
qed

text \<open>
  The console account \<open>argus\<close> is not in the directory: its record is the console verifier of the
  security store, which can be read once it has been provisioned.
\<close>

definition console_readable :: "login_env \<Rightarrow> bool" where
  "console_readable env \<longleftrightarrow> sm_initialized (le_store env) \<and> sm_initialized (le_store_status env)
     \<and> sp_console_verifier_provisioned (sk_active (sm_snapshot (le_store env))) \<noteq> 0
     \<and> argus_password_verifier_record_valid (Some (sp_console_verifier (sk_active (sm_snapshot (le_store env)))))
     \<and> length (pv_salt (sp_console_verifier (sk_active (sm_snapshot (le_store env))))) = 16"

definition accounts_readable :: "login_env \<Rightarrow> u8 list \<Rightarrow> bool" where
  "accounts_readable env username \<longleftrightarrow>
     (if argus_auth_canonicalize_login username = Some (str_bytes ''argus'') then console_readable env
      else directory_readable env)"

lemma readable_subject:
  assumes "accounts_readable env username" "argus_auth_canonicalize_login username = Some canonical"
    and "s = login_lookup (le_memory env) (le_directory env) (le_store env) (le_store_status env) canonical"
  shows "ls_available s \<and> argus_password_verifier_record_valid (Some (ls_verifier s)) \<and> length (pv_salt (ls_verifier s)) = 16"
proof (cases "canonical = str_bytes ''argus''")
  case True
  then show ?thesis
    using assms
    by (simp add: accounts_readable_def console_readable_def login_lookup_def lookup_console_def
        argus_security_store_get_console_verifier_def argus_security_store_get_status_def Let_def)
next
  case False
  then show ?thesis using assms human_subject [of env canonical s] by (simp add: accounts_readable_def)
qed

text \<open>
  C33: Failed logins cannot be told apart. With a tag function that does not fail, and with the
  records that the name refers to readable on both sides (for the console name \<open>argus\<close>: a store
  with a provisioned, well-formed console verifier; for every other name: the directory of
  people), two attempts that differ only in the accounts of the directory and the store (an
  unknown name, a wrong password, a disabled or a revoked account) and that both fail have the
  same result, the same delay, both derive a key or both do not, and leave the throttle and
  the counters of the service in the same state.
\<close>

theorem login_failure_uniform:
  assumes hmac: "\<forall>k x. le_hmac env k x \<noteq> None" "le_hmac env' = le_hmac env" "le_queue env' = le_queue env"
    and readable: "accounts_readable env username" "accounts_readable env' username"
    and run: "argus_auth_service_authenticate env now_us between peer username password g = (out, g1)"
             "argus_auth_service_authenticate env' now_us between peer username password g = (out', g1')"
    and failed: "lo_result out \<noteq> LOGIN_SUCCESS" "lo_result out' \<noteq> LOGIN_SUCCESS"
  shows "lo_result out = lo_result out' \<and> lo_retry_after_s out = lo_retry_after_s out' \<and> lo_kdf_invoked out = lo_kdf_invoked out'
    \<and> g1 = g1'"
proof (cases "argus_auth_canonicalize_login username")
  case None
  then show ?thesis using run by (simp add: argus_auth_service_authenticate_def)
next
  case (Some canonical)
  obtain r g0 where a: "login_admit peer (hash_login canonical) now_us g = (r, g0)" by fastforce
  show ?thesis
  proof (cases "lg_ready g \<and> peer \<noteq> 0 \<and> 0 < length password \<and> length password \<le> PASSWORD_INPUT_MAX \<and> r = None")
    case False
    then show ?thesis
      using run unfolding argus_auth_service_authenticate_def Some option.case Let_def a prod.case by (cases r) (auto split: if_splits)
  next
    case True
    define s where "s = login_lookup (le_memory env) (le_directory env) (le_store env) (le_store_status env) canonical"
    define s' where "s' = login_lookup (le_memory env') (le_directory env') (le_store env') (le_store_status env') canonical"
    let ?q = "le_queue env" and ?h = "le_hmac env"
    note sub = readable_subject [OF readable(1) Some s_def] readable_subject [OF readable(2) Some s'_def]
    have status: "fst (argus_password_verifier_verify ?q ?h (Some password) (Some (ls_verifier s)) False) = fst (submit ?q (ESP_OK, False) False)"
        "fst (argus_password_verifier_verify ?q ?h (Some password) (Some (ls_verifier s')) False) = fst (submit ?q (ESP_OK, False) False)"
      using sub hmac(1) True by (auto intro!: verify_status)
    define v where "v = login_verify ?q ?h password s"
    define v' where "v' = login_verify ?q ?h password s'"
    have o: "out = login_answer v" "g1 = login_finish peer (hash_login canonical) now_us (fst v) (fst (snd v)) (fst (snd (snd v))) (between g0)"
        "out' = login_answer v'" "g1' = login_finish peer (hash_login canonical) now_us (fst v') (fst (snd v')) (fst (snd (snd v'))) (between g0)"
      using run Some a True hmac(2,3) by (simp_all add: argus_auth_service_authenticate_def Let_def v_def v'_def s_def s'_def)
    have f: "\<not> fst (snd (snd v))" "\<not> fst (snd (snd v'))" using o(1,3) failed by (auto simp: login_answer_def split: prod.splits)
    have "fst v = fst v' \<and> fst (snd v) = fst (snd v')"
      using status sub by (simp add: v_def v'_def login_verify_def Let_def case_prod_beta)
    then show ?thesis using o f by (cases v; cases v') (auto simp: login_answer_def)
  qed
qed

text \<open>
  The provisioned console is a condition of this: on a unit whose store has no console verifier
  yet, an admitted attempt on the name \<open>argus\<close> is answered with LOGIN_STORE_UNAVAILABLE and does
  not count against the throttle, whatever the password; with a verifier, a wrong password is
  answered with LOGIN_INVALID_CREDENTIALS.
\<close>

theorem console_answer_depends_on_provisioning:
  assumes "argus_auth_canonicalize_login username = Some (str_bytes ''argus'')"
    and "lg_ready g" "peer \<noteq> 0" "0 < length password" "length password \<le> PASSWORD_INPUT_MAX"
    and "login_admit peer (hash_login (str_bytes ''argus'')) now_us g = (None, g0)"
    and "\<forall>k x. le_hmac env k x \<noteq> None" "fst (submit (le_queue env) (ESP_OK, False) False) = ESP_OK"
    and "argus_auth_service_authenticate env now_us between peer username password g = (out, g1)"
  shows "sm_initialized (le_store env) \<and> sp_console_verifier_provisioned (sk_active (sm_snapshot (le_store env))) = 0
      \<longrightarrow> lo_result out = LOGIN_STORE_UNAVAILABLE"
    and "console_readable env \<longrightarrow> lo_result out \<in> {LOGIN_SUCCESS, LOGIN_INVALID_CREDENTIALS}"
proof -
  define s where "s = login_lookup (le_memory env) (le_directory env) (le_store env) (le_store_status env) (str_bytes ''argus'')"
  have out: "out = login_answer (login_verify (le_queue env) (le_hmac env) password s)"
    using assms(1-6,9) by (auto simp: argus_auth_service_authenticate_def Let_def s_def split: if_splits)
  note status = verify_status [OF _ _ assms(7,4,5), of _ "le_queue env", unfolded assms(8)]
  show "sm_initialized (le_store env) \<and> sp_console_verifier_provisioned (sk_active (sm_snapshot (le_store env))) = 0
      \<longrightarrow> lo_result out = LOGIN_STORE_UNAVAILABLE"
  proof
    assume "sm_initialized (le_store env) \<and> sp_console_verifier_provisioned (sk_active (sm_snapshot (le_store env))) = 0"
    then have "s = synthetic_subject"
      by (simp add: s_def login_lookup_def lookup_console_def argus_security_store_get_console_verifier_def)
    moreover have "\<not> ls_available synthetic_subject" "ls_verifier synthetic_subject = SYNTHETIC_VERIFIER"
      by (simp_all add: synthetic_subject_def)
    moreover have "length (pv_salt SYNTHETIC_VERIFIER) = 16" by (simp add: SYNTHETIC_VERIFIER_def)
    ultimately show "lo_result out = LOGIN_STORE_UNAVAILABLE"
      using status [OF synthetic_valid] by (simp add: out login_answer_def login_verify_def Let_def case_prod_beta)
  qed
  show "console_readable env \<longrightarrow> lo_result out \<in> {LOGIN_SUCCESS, LOGIN_INVALID_CREDENTIALS}"
  proof
    assume "console_readable env"
    then have "ls_available s" "fst (argus_password_verifier_verify (le_queue env) (le_hmac env) (Some password) (Some (ls_verifier s)) False) = ESP_OK"
      using readable_subject [OF _ assms(1) s_def] status by (simp_all add: accounts_readable_def assms(1))
    then show "lo_result out \<in> {LOGIN_SUCCESS, LOGIN_INVALID_CREDENTIALS}"
      by (simp add: out login_answer_def login_verify_def Let_def case_prod_beta)
  qed
qed

section \<open>A login\<close>

text \<open>A directory with one operator, and a tag function under which every password derives zeros.\<close>

definition clerk :: human_record where
  "clerk = human_record_zero\<lparr> hr_record_version := 1, hr_level := 3, hr_enabled := 1,
     hr_identifier := fill_buffer 37 (str_bytes ''u-1''), hr_login := fill_buffer 33 (str_bytes ''ann''),
     hr_display_name := fill_buffer 49 (str_bytes ''Ann''), hr_scope := fill_buffer 37 (str_bytes ''plant''),
     hr_role_mask := 8, hr_credential_version := 1, hr_record_security_epoch := 2,
     hr_verifier := SYNTHETIC_VERIFIER\<lparr> pv_verifier := replicate 32 0 \<rparr> \<rparr>"

definition clerk_humans :: human_payload where
  "clerk_humans = human_payload_zero\<lparr> hy_schema_version := 1, hy_human_count := 1,
     hy_humans := clerk # replicate 15 human_record_zero \<rparr>"

definition clerk_directory :: human_directory where
  "clerk_directory = human_directory_zero\<lparr> hu_snapshot := clerk_humans, hu_generation := 2, hu_initialized := True \<rparr>"

definition clerk_store :: security_manager where
  "clerk_store = \<lparr> sm_writer_core = security_core_zero,
     sm_snapshot = security_core_zero\<lparr> sk_active := security_payload_zero\<lparr> sp_security_epoch := 1 \<rparr> \<rparr>,
     sm_initialized = True, sm_encryption_enabled = False \<rparr>"

definition clerk_env :: login_env where
  "clerk_env = \<lparr> le_memory = True, le_directory = clerk_directory, le_store = clerk_store, le_store_status = clerk_store,
     le_queue = demo_queue, le_hmac = flat_hmac \<rparr>"

definition clerk_service :: login_service where
  "clerk_service = login_service_zero\<lparr> lg_ready := True \<rparr>"

definition clerk_password :: "u8 list" where
  "clerk_password = replicate 12 65"

definition clerk_login :: "u8 list \<Rightarrow> login_outcome \<times> login_service" where
  "clerk_login name = argus_auth_service_authenticate clerk_env 5 (\<lambda>g. g) 7 name clerk_password clerk_service"

lemma clerk_humans_valid: "argus_security_directory_payload_valid clerk_humans"
  by code_simp

lemma clerk_verifies:
  "argus_password_verifier_verify demo_queue flat_hmac (Some clerk_password) (Some (hr_verifier clerk)) False = (ESP_OK, True)"
  using flat_rounds [of clerk_password]
  by (simp add: argus_password_verifier_verify_def submit_def demo_queue_def verify_record_def argus_password_pbkdf2_def
      argus_password_verifier_record_valid_def input_valid_def clerk_password_def clerk_def SYNTHETIC_VERIFIER_def flat_hmac_def)

lemma clerk_admitted: "fst (login_admit 7 (hash_login (str_bytes ''ann'')) 5 clerk_service) = None"
  "argus_auth_canonicalize_login (str_bytes ''Ann'') = Some (str_bytes ''ann'')"
  "lg_ready clerk_service" "length clerk_password = 12"
  by code_simp+

lemma clerk_subject:
  "login_lookup True clerk_directory clerk_store clerk_store (str_bytes ''ann'') =
     \<lparr> ls_verifier = hr_verifier clerk, ls_available = True, ls_known = True, ls_usable = True,
       ls_principal = build_human_principal clerk clerk_humans 1 \<rparr>"
  "fst (build_human_principal clerk clerk_humans 1)"
  by code_simp+

lemma clerk_login_ok: "lo_result (fst (clerk_login (str_bytes ''Ann''))) = LOGIN_SUCCESS"
proof -
  obtain g1 where "login_admit 7 (hash_login (str_bytes ''ann'')) 5 clerk_service = (None, g1)"
    using clerk_admitted(1) by (metis prod.collapse)
  then show ?thesis
    using clerk_verifies clerk_admitted clerk_subject
    by (simp add: clerk_login_def argus_auth_service_authenticate_def clerk_env_def login_verify_def login_answer_def Let_def)
qed

theorem login_success_sound_witness:
  "\<exists>h\<in>set (hy_humans (hu_snapshot clerk_directory)). cstr (hr_login h) = str_bytes ''ann''
     \<and> password_proves flat_hmac clerk_password (hr_verifier h)
     \<and> pr_level (lo_principal (fst (clerk_login (str_bytes ''Ann'')))) = security_level_of (unat (hr_level h))"
proof -
  obtain out g' where r: "clerk_login (str_bytes ''Ann'') = (out, g')" by fastforce
  have s: "lo_result out = LOGIN_SUCCESS" using clerk_login_ok r by simp
  have ne: "str_bytes ''ann'' \<noteq> str_bytes ''argus''" by (simp add: str_bytes_def)
  obtain h where h: "h \<in> set (hy_humans (hu_snapshot (le_directory clerk_env)))" "cstr (hr_login h) = str_bytes ''ann''"
      "password_proves (le_hmac clerk_env) clerk_password (hr_verifier h)" "pr_level (lo_principal out) = security_level_of (unat (hr_level h))"
    using login_success_sound [OF r [unfolded clerk_login_def] s] clerk_admitted(2) ne by auto
  then show ?thesis unfolding r by (intro bexI [of _ h]) (simp_all add: clerk_env_def)
qed

text \<open>An unknown account, and the account with another stored key.\<close>

definition unknown_env :: login_env where
  "unknown_env = clerk_env\<lparr> le_directory := human_first_directory \<rparr>"

definition rekeyed_env :: login_env where
  "rekeyed_env = clerk_env\<lparr> le_directory := clerk_directory\<lparr> hu_snapshot := clerk_humans\<lparr>
     hy_humans := clerk\<lparr> hr_verifier := SYNTHETIC_VERIFIER \<rparr> # replicate 15 human_record_zero \<rparr> \<rparr> \<rparr>"

lemma rekeyed_subject:
  "login_lookup True (le_directory rekeyed_env) clerk_store clerk_store (str_bytes ''ann'') =
     \<lparr> ls_verifier = SYNTHETIC_VERIFIER, ls_available = True, ls_known = True, ls_usable = True,
       ls_principal = build_human_principal (clerk\<lparr> hr_verifier := SYNTHETIC_VERIFIER \<rparr>)
         (hu_snapshot (le_directory rekeyed_env)) 1 \<rparr>"
  "ls_known (login_lookup True human_first_directory clerk_store clerk_store (str_bytes ''ann'')) = False"
  "directory_readable unknown_env" "directory_readable rekeyed_env"
  by code_simp+

lemma rekeyed_fails: "\<not> snd (argus_password_verifier_verify demo_queue flat_hmac (Some clerk_password) (Some SYNTHETIC_VERIFIER) False)"
proof -
  have "pv_verifier SYNTHETIC_VERIFIER \<noteq> replicate 32 0" by code_simp
  then show ?thesis
    using flat_rounds [of clerk_password]
    by (auto simp: argus_password_verifier_verify_def submit_def demo_queue_def verify_record_def argus_password_pbkdf2_def flat_hmac_def
        split: option.splits if_splits)
qed

lemma answer_success:
  "lo_result (login_answer (login_verify q hmac password s)) = LOGIN_SUCCESS \<Longrightarrow>
     ls_known s \<and> snd (argus_password_verifier_verify q hmac (Some password) (Some (ls_verifier s)) False)"
  by (auto simp: login_verify_def login_answer_def Let_def case_prod_beta split: if_splits)

theorem login_failure_uniform_witness:
  "lo_result (fst (argus_auth_service_authenticate unknown_env 5 (\<lambda>g. g) 7 (str_bytes ''Ann'') clerk_password clerk_service))
     = lo_result (fst (argus_auth_service_authenticate rekeyed_env 5 (\<lambda>g. g) 7 (str_bytes ''Ann'') clerk_password clerk_service))"
proof -
  obtain out g1 where r: "argus_auth_service_authenticate unknown_env 5 (\<lambda>g. g) 7 (str_bytes ''Ann'') clerk_password clerk_service = (out, g1)"
    by fastforce
  obtain out' g1' where r': "argus_auth_service_authenticate rekeyed_env 5 (\<lambda>g. g) 7 (str_bytes ''Ann'') clerk_password clerk_service = (out', g1')"
    by fastforce
  obtain g0 where a: "login_admit 7 (hash_login (str_bytes ''ann'')) 5 clerk_service = (None, g0)"
    using clerk_admitted(1) by (metis prod.collapse)
  have f: "lo_result out \<noteq> LOGIN_SUCCESS"
    using r a clerk_admitted rekeyed_subject(2) answer_success
    by (auto simp: argus_auth_service_authenticate_def unknown_env_def clerk_env_def Let_def)
  have f': "lo_result out' \<noteq> LOGIN_SUCCESS"
    using r' a clerk_admitted rekeyed_subject(1) rekeyed_fails
    by (auto simp: argus_auth_service_authenticate_def rekeyed_env_def clerk_env_def Let_def dest!: answer_success)
  have "\<forall>k x. le_hmac unknown_env k x \<noteq> None" by (simp add: unknown_env_def clerk_env_def flat_hmac_def)
  moreover have "le_hmac rekeyed_env = le_hmac unknown_env" "le_queue rekeyed_env = le_queue unknown_env"
    by (simp_all add: unknown_env_def rekeyed_env_def)
  moreover have "argus_auth_canonicalize_login (str_bytes ''Ann'') \<noteq> Some (str_bytes ''argus'')"
    using clerk_admitted(2) by (simp add: str_bytes_def)
  ultimately show ?thesis
    using login_failure_uniform [OF _ _ _ _ _ r r' f f'] rekeyed_subject(3,4) r r' by (simp add: accounts_readable_def)
qed

end
