(* ===== verification/Auth_Limits.thy ===== *)
theory Auth_Limits
  imports Auth_Props "HOL-Library.Multiset"
begin

text \<open>
  Limits of the login service. The throttle for the whole device is analysed with a potential:
  the number of failures that it still lets through before the end of a window of thirty
  seconds. The reservations of derivations are analysed over the sections that the service runs
  under its mutex, in any interleaving.
\<close>

section \<open>Buckets\<close>

text \<open>A bucket at the time \<open>t\<close> of the last attempt: fewer failures than the limit, a window that has begun, a bounded cooldown.\<close>

definition bucket_ok :: "nat \<Rightarrow> throttle_bucket \<Rightarrow> bool" where
  "bucket_ok t b \<longleftrightarrow> unat (tb_failures b) < 5 \<and> unat (tb_window_started_us b) \<le> t
     \<and> unat (tb_cooldown_until_us b) \<le> t + 300000000"

lemma bucket_ok_mono: "bucket_ok t b \<Longrightarrow> t \<le> t' \<Longrightarrow> bucket_ok t' b"
  by (auto simp: bucket_ok_def)

lemma bucket_ok_fresh: "bucket_ok t (throttle_bucket_zero\<lparr> tb_occupied := a, tb_key := k, tb_last_seen_us := l \<rparr>)"
  by (simp add: bucket_ok_def throttle_bucket_zero_def)

lemma bucket_ok_seen [simp]: "bucket_ok t (b\<lparr> tb_last_seen_us := l \<rparr>) = bucket_ok t b"
  by (simp add: bucket_ok_def)

lemma bucket_ok_clear: "bucket_ok t b \<Longrightarrow> bucket_ok t (clear_failures b)"
  by (simp add: bucket_ok_def clear_failures_def)

lemma cooldown_duration_bounds:
  "30000000 \<le> d \<Longrightarrow> d \<le> 300000000 \<Longrightarrow> 30000000 \<le> cooldown_duration n d \<and> cooldown_duration n d \<le> 300000000"
proof (induction n arbitrary: d)
  case (Suc n)
  show ?case
  proof (cases "d \<ge> LOGIN_COOLDOWN_MAX_US div 2")
    case False
    then have "d < 150000000" by simp
    then have "unat d < 150000000" by (simp add: word_less_nat_alt)
    moreover have "unat d \<ge> 30000000" using Suc.prems(1) by (simp add: word_le_nat_alt)
    ultimately have "unat (d * 2) = unat d * 2" by (simp add: unat_mult_lem [THEN iffD1])
    then have "30000000 \<le> d * 2 \<and> d * 2 \<le> 300000000"
      using \<open>unat d < 150000000\<close> \<open>unat d \<ge> 30000000\<close> by (simp add: word_le_nat_alt)
    then show ?thesis using Suc.IH [of "d * 2"] False by simp
  qed simp
qed simp

text \<open>The window and the cooldown of a bucket after a failure at \<open>now\<close>, as numbers.\<close>

lemma record_failure_result:
  assumes ok: "bucket_ok t b" and now: "t \<le> unat now" "unat now + 300000000 < 2 ^ 64"
  defines "b' \<equiv> record_failure_bucket now b"
  shows "bucket_ok (unat now) b'"
    and "tb_window_started_us b = 0 \<or> unat now > unat (tb_window_started_us b) + 60000000 \<Longrightarrow>
           tb_window_started_us b' = now \<and> tb_failures b' = 1 \<and> tb_cooldown_until_us b' = tb_cooldown_until_us b"
    and "tb_window_started_us b \<noteq> 0 \<Longrightarrow> unat now \<le> unat (tb_window_started_us b) + 60000000 \<Longrightarrow> unat (tb_failures b) < 4 \<Longrightarrow>
           tb_window_started_us b' = tb_window_started_us b \<and> unat (tb_failures b') = Suc (unat (tb_failures b))
           \<and> tb_cooldown_until_us b' = tb_cooldown_until_us b"
    and "tb_window_started_us b \<noteq> 0 \<Longrightarrow> unat now \<le> unat (tb_window_started_us b) + 60000000 \<Longrightarrow> unat (tb_failures b) = 4 \<Longrightarrow>
           unat (tb_cooldown_until_us b') \<ge> unat now + 30000000"
proof -
  have w: "unat (tb_window_started_us b) \<le> unat now" and f: "unat (tb_failures b) < 5" using ok now(1) by (auto simp: bucket_ok_def)
  have diff: "now - tb_window_started_us b > LOGIN_WINDOW_US \<longleftrightarrow> unat now > unat (tb_window_started_us b) + 60000000"
    using w by (auto simp: word_less_nat_alt unat_sub word_le_nat_alt)
  have suc: "unat (tb_failures b + 1) = Suc (unat (tb_failures b))"
    using f by (subst unat_add_lem [THEN iffD1]) simp_all
  let ?d = "cooldown_duration (unat (tb_cooldown_level b)) LOGIN_COOLDOWN_INITIAL_US"
  have d: "30000000 \<le> ?d" "?d \<le> 300000000" using cooldown_duration_bounds [of LOGIN_COOLDOWN_INITIAL_US] by simp_all
  then have ud: "30000000 \<le> unat ?d" "unat ?d \<le> 300000000" by (simp_all add: word_le_nat_alt)
  have sum: "unat (now + ?d) = unat now + unat ?d"
    using ud now(2) by (intro unat_add_lem [THEN iffD1]) simp
  have lim: "tb_failures b + 1 < LOGIN_FAILURE_LIMIT \<longleftrightarrow> unat (tb_failures b) < 4"
    using suc by (simp add: word_less_nat_alt)
  note def = b'_def record_failure_bucket_def Let_def diff
  show "bucket_ok (unat now) b'"
    using ok w f d ud sum suc lim now(1) by (auto simp: def bucket_ok_def not_less)
  show "tb_window_started_us b = 0 \<or> unat now > unat (tb_window_started_us b) + 60000000 \<Longrightarrow>
      tb_window_started_us b' = now \<and> tb_failures b' = 1 \<and> tb_cooldown_until_us b' = tb_cooldown_until_us b"
    by (simp add: def)
  show "tb_window_started_us b \<noteq> 0 \<Longrightarrow> unat now \<le> unat (tb_window_started_us b) + 60000000 \<Longrightarrow> unat (tb_failures b) < 4 \<Longrightarrow>
      tb_window_started_us b' = tb_window_started_us b \<and> unat (tb_failures b') = Suc (unat (tb_failures b))
      \<and> tb_cooldown_until_us b' = tb_cooldown_until_us b"
    using suc lim by (simp add: def)
  show "tb_window_started_us b \<noteq> 0 \<Longrightarrow> unat now \<le> unat (tb_window_started_us b) + 60000000 \<Longrightarrow> unat (tb_failures b) = 4 \<Longrightarrow>
      unat (tb_cooldown_until_us b') \<ge> unat now + 30000000"
    using lim d ud sum by (auto simp: def not_less)
qed

section \<open>The potential\<close>

definition potential :: "nat \<Rightarrow> throttle_bucket \<Rightarrow> nat" where
  "potential start b =
     (let finish = start + 30000000; w = unat (tb_window_started_us b); f = unat (tb_failures b)
      in if unat (tb_cooldown_until_us b) \<ge> finish then 0
         else if w = 0 then 5 else if w + 60000000 \<ge> finish then 5 - f else 9 - f)"

lemma potential_le: "potential start b \<le> 9"
  by (auto simp: potential_def Let_def)

lemma potential_failure:
  assumes "bucket_ok t b" "t \<le> unat now" "unat now + 300000000 < 2 ^ 64" "now \<noteq> 0"
    and "unat (tb_cooldown_until_us b) \<le> unat now" "start \<le> unat now" "unat now < start + 30000000"
  shows "Suc (potential start (record_failure_bucket now b)) \<le> potential start b"
proof -
  let ?b = "record_failure_bucket now b" and ?w = "unat (tb_window_started_us b)"
  note r = record_failure_result [OF assms(1-3)]
  have f: "unat (tb_failures b) < 5" using assms(1) by (simp add: bucket_ok_def)
  have w0: "?w = 0 \<longleftrightarrow> tb_window_started_us b = 0" by (simp add: unat_eq_0)
  consider (reset) "tb_window_started_us b = 0 \<or> unat now > ?w + 60000000"
    | (count) "tb_window_started_us b \<noteq> 0" "unat now \<le> ?w + 60000000" "unat (tb_failures b) < 4"
    | (limit) "tb_window_started_us b \<noteq> 0" "unat now \<le> ?w + 60000000" "unat (tb_failures b) = 4"
    using f by fastforce
  then show ?thesis
  proof cases
    case reset
    have "unat now \<noteq> 0" using assms(4) by (simp add: unat_eq_0)
    then show ?thesis using r(2) [OF reset] reset assms(5-7) f w0 by (auto simp: potential_def Let_def)
  next
    case count
    then show ?thesis using r(3) [OF count] assms(5-7) w0 by (auto simp: potential_def Let_def)
  next
    case limit
    then show ?thesis using r(4) [OF limit] assms(5-7) w0 by (auto simp: potential_def Let_def)
  qed
qed

section \<open>Tables of buckets\<close>

definition service_ok :: "nat \<Rightarrow> login_service \<Rightarrow> bool" where
  "service_ok t g \<longleftrightarrow> length (lg_peer_buckets g) = 8 \<and> length (lg_principal_buckets g) = 8
     \<and> list_all (bucket_ok t) (lg_peer_buckets g) \<and> list_all (bucket_ok t) (lg_principal_buckets g) \<and> bucket_ok t (lg_global_bucket g)"

lemma list_all_update: "list_all P xs \<Longrightarrow> P x \<Longrightarrow> list_all P (xs[i := x])"
  by (auto simp: list_all_iff dest: set_update_subset_insert [THEN subsetD])

lemma oldest_index_less:
  assumes "xs \<noteq> []"
  shows "oldest_index key xs < length xs"
proof -
  have "fold (\<lambda>i best. if key (xs ! i) < key (xs ! best) then i else best) is b < length xs"
    if "b < length xs" "set is \<subseteq> {..<length xs}" for "is" b
    using that by (induction "is" arbitrary: b) auto
  from this [of 0 "[0..<length xs]"] show ?thesis using assms by (simp add: oldest_index_def lessThan_atLeast0)
qed

lemma login_bucket_ok:
  assumes "login_bucket key now bs = (i, bs')" "length bs = 8" "list_all (bucket_ok t) bs"
  shows "i < 8 \<and> length bs' = 8 \<and> list_all (bucket_ok t) bs'"
proof (cases "find (\<lambda>i. tb_occupied (bs ! i) \<and> tb_key (bs ! i) = key) [0..<LOGIN_BUCKET_CAPACITY]")
  case None
  have "find P [0..<8] = Some j \<Longrightarrow> j < 8" for P and j :: nat by (auto simp: find_Some_iff)
  moreover have "oldest_index tb_last_seen_us bs < 8" using oldest_index_less [of bs tb_last_seen_us] assms(2) by fastforce
  ultimately show ?thesis
    using assms None
    by (auto simp: login_bucket_def Let_def intro!: list_all_update bucket_ok_fresh split: option.splits)
next
  case (Some j)
  then have "j < 8" by (auto simp: find_Some_iff)
  then have "bucket_ok t (bs ! j)" using assms(2,3) by (simp add: list_all_length)
  then show ?thesis using assms Some \<open>j < 8\<close> by (auto simp: login_bucket_def intro!: list_all_update)
qed

lemma preflight_ok:
  assumes "preflight_locked peer key now g = (retry, g')" "service_ok t g" "t \<le> unat now"
  shows "service_ok t g'" and "lg_global_bucket g' = lg_global_bucket g"
    and "retry = 0 \<Longrightarrow> unat (tb_cooldown_until_us (lg_global_bucket g)) \<le> unat now" and "unat retry \<le> 300"
proof -
  obtain i ps where i: "login_bucket peer now (lg_peer_buckets g) = (i, ps)" by fastforce
  obtain j qs where j: "login_bucket key now (lg_principal_buckets g) = (j, qs)" by fastforce
  have p: "i < 8" "length ps = 8" "list_all (bucket_ok t) ps" and q: "j < 8" "length qs = 8" "list_all (bucket_ok t) qs"
    using login_bucket_ok [OF i, of t] login_bucket_ok [OF j, of t] assms(2) by (auto simp: service_ok_def)
  have le: "unat (cooldown_remaining now b) \<le> 300000000" if "bucket_ok t b" for b
  proof (cases "tb_cooldown_until_us b \<le> now")
    case False
    then have "unat (tb_cooldown_until_us b - now) = unat (tb_cooldown_until_us b) - unat now" by (intro unat_sub) simp
    then show ?thesis using that assms(3) False by (auto simp: cooldown_remaining_def bucket_ok_def)
  qed (simp add: cooldown_remaining_def)
  define m where "m = (let r = cooldown_remaining now (ps ! i); r1 = (if cooldown_remaining now (qs ! j) > r then cooldown_remaining now (qs ! j) else r)
    in if cooldown_remaining now (lg_global_bucket g) > r1 then cooldown_remaining now (lg_global_bucket g) else r1)"
  have m: "unat m \<le> 300000000" "cooldown_remaining now (lg_global_bucket g) \<le> m"
    using le p q assms(2) by (auto simp: m_def Let_def list_all_length service_ok_def)
  have run: "retry = (if m = 0 then 0 else seconds_ceil m)" "g' = g\<lparr> lg_peer_buckets := ps, lg_principal_buckets := qs \<rparr>"
    using assms(1) i j by (auto simp: preflight_locked_def m_def Let_def)
  have sum: "unat (m + 999999) = unat m + 999999" using m(1) by (subst unat_add_lem [THEN iffD1]) simp_all
  have "unat ((m + 999999) div 1000000) = (unat m + 999999) div 1000000" using sum by (simp add: unat_div)
  moreover have "(unat m + 999999) div 1000000 \<le> 300" using m(1) by (simp add: div_le_mono [where n = 300999999, of "unat m + 999999" 1000000])
  ultimately have sec: "unat (seconds_ceil m) = (unat m + 999999) div 1000000"
    by (simp add: seconds_ceil_def unsigned_ucast_eq take_bit_nat_eq_self_iff)
  show "service_ok t g'" "lg_global_bucket g' = lg_global_bucket g" using run p q assms(2) by (auto simp: service_ok_def)
  show "unat retry \<le> 300" using run(1) sec \<open>(unat m + 999999) div 1000000 \<le> 300\<close> by simp
  show "unat (tb_cooldown_until_us (lg_global_bucket g)) \<le> unat now" if "retry = 0"
  proof -
    have "m = 0"
    proof (rule ccontr)
      assume "m \<noteq> 0"
      then have "0 < unat m" by (simp add: unat_gt_0)
      then have "0 < (unat m + 999999) div 1000000" by (simp add: div_greater_zero_iff)
      then show False using run(1) that sec \<open>m \<noteq> 0\<close> by simp
    qed
    then have "cooldown_remaining now (lg_global_bucket g) = 0" using m(2) by simp
    then show ?thesis by (auto simp: cooldown_remaining_def word_le_nat_alt [symmetric] split: if_splits)
  qed
qed

lemma record_result_ok:
  assumes "service_ok t g" "t \<le> unat now" "unat now + 300000000 < 2 ^ 64"
  shows "service_ok (unat now) (record_result_locked peer key now success g)"
    and "lg_global_bucket (record_result_locked peer key now success g)
      = (if success then lg_global_bucket g else record_failure_bucket now (lg_global_bucket g))"
proof -
  obtain i ps where i: "login_bucket peer now (lg_peer_buckets g) = (i, ps)" by fastforce
  obtain j qs where j: "login_bucket key now (lg_principal_buckets g) = (j, qs)" by fastforce
  have p: "i < 8" "length ps = 8" "list_all (bucket_ok t) ps" and q: "j < 8" "length qs = 8" "list_all (bucket_ok t) qs"
    using login_bucket_ok [OF i, of t] login_bucket_ok [OF j, of t] assms(1) by (auto simp: service_ok_def)
  have up: "list_all (bucket_ok t) xs \<Longrightarrow> list_all (bucket_ok (unat now)) xs" for xs
    using assms(2) bucket_ok_mono by (auto simp: list_all_iff)
  let ?c = "if success then clear_failures else record_failure_bucket now"
  have c: "bucket_ok (unat now) (?c b)" if "bucket_ok t b" for b
    using that record_failure_result(1) [OF that assms(2,3)] bucket_ok_clear bucket_ok_mono [OF that assms(2)] by auto
  have b: "bucket_ok t (ps ! i)" "bucket_ok t (qs ! j)" "bucket_ok t (lg_global_bucket g)"
    using p q assms(1) by (auto simp: list_all_length service_ok_def)
  have g: "bucket_ok (unat now) (if success then lg_global_bucket g else record_failure_bucket now (lg_global_bucket g))"
    using b(3) record_failure_result(1) [OF b(3) assms(2,3)] bucket_ok_mono [OF b(3) assms(2)] by simp
  have run: "record_result_locked peer key now success g = g\<lparr> lg_peer_buckets := ps[i := ?c (ps ! i)],
      lg_principal_buckets := qs[j := ?c (qs ! j)],
      lg_global_bucket := (if success then lg_global_bucket g else record_failure_bucket now (lg_global_bucket g)) \<rparr>"
    by (simp add: record_result_locked_def i j Let_def)
  show "service_ok (unat now) (record_result_locked peer key now success g)"
    unfolding run service_ok_def using list_all_update [OF up [OF p(3)] c [OF b(1)]] list_all_update [OF up [OF q(3)] c [OF b(2)]] p q g
    by simp
  show "lg_global_bucket (record_result_locked peer key now success g)
      = (if success then lg_global_bucket g else record_failure_bucket now (lg_global_bucket g))"
    unfolding run by simp
qed

section \<open>Runs of attempts\<close>

record login_attempt =
  tr_env :: login_env
  tr_now_us :: u64
  tr_peer :: u32
  tr_name :: "u8 list"
  tr_password :: "u8 list"

definition attempt :: "login_attempt \<Rightarrow> login_service \<Rightarrow> login_outcome \<times> login_service" where
  "attempt x g = argus_auth_service_authenticate (tr_env x) (tr_now_us x) (\<lambda>g. g) (tr_peer x) (tr_name x) (tr_password x) g"

fun login_run :: "login_service \<Rightarrow> login_attempt list \<Rightarrow> (u64 \<times> login_outcome) list" where
  "login_run g [] = []"
| "login_run g (x # xs) = (case attempt x g of (out, g') \<Rightarrow> (tr_now_us x, out) # login_run g' xs)"

definition times_ok :: "nat \<Rightarrow> login_attempt list \<Rightarrow> bool" where
  "times_ok t xs \<longleftrightarrow> sorted (t # map (\<lambda>x. unat (tr_now_us x)) xs)
     \<and> list_all (\<lambda>x. tr_now_us x \<noteq> 0 \<and> unat (tr_now_us x) + 300000000 < 2 ^ 64) xs"

definition failures_in :: "nat \<Rightarrow> (u64 \<times> login_outcome) list \<Rightarrow> nat" where
  "failures_in start log =
     length (filter (\<lambda>(now, out). lo_result out = LOGIN_INVALID_CREDENTIALS \<and> start \<le> unat now \<and> unat now < start + 30000000) log)"

lemma admit_ok:
  assumes "login_admit peer key now g = (r, g')" "service_ok t g" "t \<le> unat now"
  shows "service_ok t g'" "lg_global_bucket g' = lg_global_bucket g"
    and "r = None \<Longrightarrow> unat (tb_cooldown_until_us (lg_global_bucket g)) \<le> unat now"
    and "\<And>out. r = Some out \<Longrightarrow> (lo_result out = LOGIN_THROTTLED \<longrightarrow> 1 \<le> unat (lo_retry_after_s out) \<and> unat (lo_retry_after_s out) \<le> 300)
           \<and> lo_result out \<noteq> LOGIN_INVALID_CREDENTIALS"
proof -
  obtain retry g1 where p: "preflight_locked peer key now g = (retry, g1)" by fastforce
  note ok = preflight_ok [OF p assms(2,3)]
  have "service_ok t g' \<and> lg_global_bucket g' = lg_global_bucket g"
    using assms(1) p ok(1,2)
    by (auto simp: login_admit_def Let_def reserve_inflight_locked_def set_inflight_def service_ok_def split: if_splits option.splits)
  then show "service_ok t g'" "lg_global_bucket g' = lg_global_bucket g" by simp_all
  show "r = None \<Longrightarrow> unat (tb_cooldown_until_us (lg_global_bucket g)) \<le> unat now"
    using assms(1) p ok(3) by (auto simp: login_admit_def split: if_splits)
  show "(lo_result out = LOGIN_THROTTLED \<longrightarrow> 1 \<le> unat (lo_retry_after_s out) \<and> unat (lo_retry_after_s out) \<le> 300)
      \<and> lo_result out \<noteq> LOGIN_INVALID_CREDENTIALS" if "r = Some out" for out
    using assms(1) that p ok(4)
    by (auto simp: login_admit_def login_outcome_of_def Let_def unat_gt_0 Suc_le_eq reserve_inflight_locked_def split: if_splits option.splits)
qed

lemma attempt_ok:
  assumes "attempt x g = (out, g')" "service_ok t g" "t \<le> unat (tr_now_us x)" "unat (tr_now_us x) + 300000000 < 2 ^ 64"
  shows "service_ok (unat (tr_now_us x)) g'"
    and "if lo_result out = LOGIN_INVALID_CREDENTIALS
         then unat (tb_cooldown_until_us (lg_global_bucket g)) \<le> unat (tr_now_us x)
              \<and> lg_global_bucket g' = record_failure_bucket (tr_now_us x) (lg_global_bucket g)
         else lg_global_bucket g' = lg_global_bucket g"
    and "lo_result out = LOGIN_THROTTLED \<Longrightarrow> 1 \<le> unat (lo_retry_after_s out) \<and> unat (lo_retry_after_s out) \<le> 300"
proof -
  let ?now = "tr_now_us x"
  have up: "service_ok t g \<Longrightarrow> service_ok (unat ?now) g" for g
    using assms(3) bucket_ok_mono by (auto simp: service_ok_def list_all_iff)
  have all: "service_ok (unat ?now) g'
    \<and> (if lo_result out = LOGIN_INVALID_CREDENTIALS
       then unat (tb_cooldown_until_us (lg_global_bucket g)) \<le> unat ?now
            \<and> lg_global_bucket g' = record_failure_bucket ?now (lg_global_bucket g)
       else lg_global_bucket g' = lg_global_bucket g)
    \<and> (lo_result out = LOGIN_THROTTLED \<longrightarrow> 1 \<le> unat (lo_retry_after_s out) \<and> unat (lo_retry_after_s out) \<le> 300)"
  proof (cases "argus_auth_canonicalize_login (tr_name x)")
    case None
    then show ?thesis
      using assms(1) up [OF assms(2)] by (auto simp: attempt_def argus_auth_service_authenticate_def login_outcome_of_def)
  next
    case (Some canonical)
    let ?key = "hash_login canonical"
    obtain r g1 where a: "login_admit (tr_peer x) ?key ?now g = (r, g1)" by fastforce
    note ad = admit_ok [OF a assms(2,3)]
    note run = assms(1) [unfolded attempt_def argus_auth_service_authenticate_def Some option.case Let_def a prod.case]
    show ?thesis
    proof (cases "lg_ready g \<and> tr_peer x \<noteq> 0 \<and> length (tr_password x) \<noteq> 0 \<and> length (tr_password x) \<le> PASSWORD_INPUT_MAX \<and> r = None")
      case False
      then show ?thesis
        using run ad up assms(2) by (cases r) (auto simp: login_outcome_of_def split: if_splits)
    next
      case True
      define v where "v = login_verify (le_queue (tr_env x)) (le_hmac (tr_env x)) (tr_password x)
        (login_lookup (le_memory (tr_env x)) (le_directory (tr_env x)) (le_store (tr_env x)) (le_store_status (tr_env x)) canonical)"
      obtain err invoked success who where v: "v = (err, invoked, success, who)" by (cases v) auto
      have o: "out = login_answer v" "g' = login_finish (tr_peer x) ?key ?now err invoked success g1"
        using run True by (auto simp: v_def [symmetric] v)
      have s: "success \<Longrightarrow> err = ESP_OK" using v by (auto simp: v_def login_verify_def Let_def split: prod.splits if_splits)
      define g2 where "g2 = (let g3 = release_inflight_locked (tr_peer x) ?key (g1\<lparr> lg_kdf_admitted := lg_kdf_admitted g1 - 1 \<rparr>)
        in if invoked then g3\<lparr> lg_kdf_invocations := lg_kdf_invocations g3 + 1 \<rparr> else g3)"
      have g2: "service_ok t g2" "lg_global_bucket g2 = lg_global_bucket g"
        using ad(1,2) by (auto simp: g2_def Let_def release_inflight_locked_def set_inflight_def service_ok_def split: option.splits)
      have "g' = (if err = ESP_OK then record_result_locked (tr_peer x) ?key ?now success g2 else g2)"
        by (simp add: o(2) login_finish_def g2_def Let_def)
      then show ?thesis
        using record_result_ok [OF g2(1) assms(3,4)] g2 up [OF g2(1)] ad(3) True s
        by (auto simp: o(1) v login_answer_def)
    qed
  qed
  show "service_ok (unat ?now) g'" using all by blast
  show "if lo_result out = LOGIN_INVALID_CREDENTIALS
         then unat (tb_cooldown_until_us (lg_global_bucket g)) \<le> unat ?now
              \<and> lg_global_bucket g' = record_failure_bucket ?now (lg_global_bucket g)
         else lg_global_bucket g' = lg_global_bucket g" using all by blast
  show "lo_result out = LOGIN_THROTTLED \<Longrightarrow> 1 \<le> unat (lo_retry_after_s out) \<and> unat (lo_retry_after_s out) \<le> 300" using all by blast
qed

section \<open>The bound on failures\<close>

lemma times_ok_Cons:
  "times_ok t (x # xs) \<longleftrightarrow> t \<le> unat (tr_now_us x) \<and> times_ok (unat (tr_now_us x)) xs \<and> tr_now_us x \<noteq> 0
     \<and> unat (tr_now_us x) + 300000000 < 2 ^ 64"
  by (auto simp: times_ok_def)

lemma no_failures_after:
  "times_ok t xs \<Longrightarrow> start + 30000000 \<le> t \<Longrightarrow> failures_in start (login_run g xs) = 0"
proof (induction xs arbitrary: t g)
  case (Cons x xs)
  then have "failures_in start (login_run (snd (attempt x g)) xs) = 0" by (auto simp: times_ok_Cons)
  then show ?case using Cons.prems by (auto simp: failures_in_def times_ok_Cons split: prod.splits)
qed (simp add: failures_in_def)

lemma failures_potential:
  "times_ok t xs \<Longrightarrow> service_ok t g \<Longrightarrow> start \<le> t \<Longrightarrow> failures_in start (login_run g xs) \<le> potential start (lg_global_bucket g)"
proof (induction xs arbitrary: t g)
  case (Cons x xs)
  obtain out g' where a: "attempt x g = (out, g')" by fastforce
  have x: "t \<le> unat (tr_now_us x)" "times_ok (unat (tr_now_us x)) xs" "tr_now_us x \<noteq> 0" "unat (tr_now_us x) + 300000000 < 2 ^ 64"
    using Cons.prems(1) by (simp_all add: times_ok_Cons)
  note r = attempt_ok [OF a Cons.prems(2) x(1,4)]
  note IH = Cons.IH [OF x(2) r(1)]
  show ?case
  proof (cases "lo_result out = LOGIN_INVALID_CREDENTIALS")
    case True
    then have g: "unat (tb_cooldown_until_us (lg_global_bucket g)) \<le> unat (tr_now_us x)"
        "lg_global_bucket g' = record_failure_bucket (tr_now_us x) (lg_global_bucket g)" using r(2) by simp_all
    show ?thesis
    proof (cases "unat (tr_now_us x) < start + 30000000")
      case True
      have "Suc (potential start (lg_global_bucket g')) \<le> potential start (lg_global_bucket g)"
        unfolding g(2)
        by (rule potential_failure [OF _ x(1,4,3) g(1) _ True]) (use Cons.prems(2,3) x(1) in \<open>auto simp: service_ok_def\<close>)
      then show ?thesis using IH Cons.prems(3) x(1) a by (simp add: failures_in_def)
    next
      case False
      then have "failures_in start (login_run g' xs) = 0" using no_failures_after [OF x(2)] by simp
      then show ?thesis using False a by (simp add: failures_in_def)
    qed
  next
    case False
    then have "lg_global_bucket g' = lg_global_bucket g" using r(2) by simp
    then show ?thesis using IH Cons.prems(3) x(1) a False by (simp add: failures_in_def)
  qed
qed (simp add: failures_in_def)

lemma failures_nine: "times_ok t xs \<Longrightarrow> service_ok t g \<Longrightarrow> failures_in start (login_run g xs) \<le> 9"
proof (induction xs arbitrary: t g)
  case (Cons x xs)
  obtain out g' where a: "attempt x g = (out, g')" by fastforce
  have x: "t \<le> unat (tr_now_us x)" "times_ok (unat (tr_now_us x)) xs" "unat (tr_now_us x) + 300000000 < 2 ^ 64"
    using Cons.prems(1) by (simp_all add: times_ok_Cons)
  have up: "service_ok (unat (tr_now_us x)) g"
    using Cons.prems(2) x(1) bucket_ok_mono by (auto simp: service_ok_def list_all_iff)
  show ?case
  proof (cases "start \<le> unat (tr_now_us x)")
    case True
    have "times_ok (unat (tr_now_us x)) (x # xs)" using Cons.prems(1) by (simp add: times_ok_Cons)
    then show ?thesis using failures_potential [OF _ up True] potential_le order_trans by blast
  next
    case False
    then show ?thesis using Cons.IH [OF x(2) attempt_ok(1) [OF a Cons.prems(2) x(1,3)]] a by (simp add: failures_in_def)
  qed
qed (simp add: failures_in_def)

lemma retries_bounded:
  "times_ok t xs \<Longrightarrow> service_ok t g \<Longrightarrow>
     list_all (\<lambda>(now, out). lo_result out = LOGIN_THROTTLED \<longrightarrow> 1 \<le> unat (lo_retry_after_s out) \<and> unat (lo_retry_after_s out) \<le> 300)
       (login_run g xs)"
proof (induction xs arbitrary: t g)
  case (Cons x xs)
  obtain out g' where a: "attempt x g = (out, g')" by fastforce
  have x: "t \<le> unat (tr_now_us x)" "times_ok (unat (tr_now_us x)) xs" "unat (tr_now_us x) + 300000000 < 2 ^ 64"
    using Cons.prems(1) by (simp_all add: times_ok_Cons)
  note r = attempt_ok [OF a Cons.prems(2) x(1,3)]
  show ?case using Cons.IH [OF x(2) r(1)] r(3) a by simp
qed simp

lemma service_ok_zero: "service_ok t login_service_zero" "service_ok t (login_service_zero\<lparr> lg_ready := r \<rparr>)"
  by (simp_all add: service_ok_def login_service_zero_def bucket_ok_def throttle_bucket_zero_def list_all_iff)

text \<open>
  The clock reading matters: a failure recorded under a reading from before the window began (an
  attempt that overlaps the one that opened the window) wraps around and forgets the count.
\<close>

lemma stale_failure_forgets:
  assumes "unat (tb_window_started_us b) = unat now + Suc d" "d < 300000000"
  shows "tb_failures (record_failure_bucket now b) = 1"
proof -
  have "tb_window_started_us b = of_nat (unat now + Suc d)" unfolding assms(1) [symmetric] by simp
  also have "\<dots> = now + of_nat (Suc d)" unfolding of_nat_add by simp
  finally have "tb_window_started_us b = now + of_nat (Suc d)" .
  then have "now - tb_window_started_us b = - of_nat (Suc d)" by simp
  moreover have "uint (- of_nat (Suc d) :: u64) = (- int (Suc d)) mod 2 ^ 64"
    using uint_word_of_int [of "- int (Suc d)", where 'a = 64] by (simp del: of_nat_Suc uint_word_of_int add: of_int_minus)
  moreover have "(- int (Suc d)) mod 2 ^ 64 = 2 ^ 64 - int (Suc d)"
    using mod_add_self1 [of "2 ^ 64" "- int (Suc d)"] assms(2) by (simp add: mod_pos_pos_trivial)
  ultimately have "now - tb_window_started_us b > LOGIN_WINDOW_US" using assms(2) by (simp add: word_less_def)
  then show ?thesis by (simp add: record_failure_bucket_def Let_def)
qed

text \<open>
  C34: Guessing is slow. In every run of login attempts after the start-up, one after the other,
  for any peers, names and passwords and while the clock does not go back, at most nine
  attempts fail with wrong credentials in any thirty seconds on the whole device, and a
  refused attempt is told to wait between one second and five minutes.
\<close>

theorem login_failures_bounded:
  assumes "times_ok 0 xs" "argus_auth_service_init True login_service_zero = (e, g)"
  shows "failures_in start (login_run g xs) \<le> 9
    \<and> list_all (\<lambda>(now, out). lo_result out = LOGIN_THROTTLED \<longrightarrow> 1 \<le> unat (lo_retry_after_s out) \<and> unat (lo_retry_after_s out) \<le> 300)
        (login_run g xs)"
proof -
  have "service_ok 0 g" using assms(2) service_ok_zero by (auto simp: argus_auth_service_init_def split: if_splits)
  then show ?thesis using failures_nine retries_bounded assms(1) by blast
qed

definition wrong_attempts :: "login_attempt list" where
  "wrong_attempts = replicate 2 \<lparr> tr_env = rekeyed_env, tr_now_us = 5, tr_peer = 7, tr_name = str_bytes ''Ann'', tr_password = clerk_password \<rparr>"

theorem login_failures_bounded_witness: "failures_in 0 (login_run clerk_service wrong_attempts) \<le> 9"
proof -
  have "argus_auth_service_init True login_service_zero = (ESP_OK, clerk_service)"
    using synthetic_valid by (simp add: argus_auth_service_init_def clerk_service_def login_service_zero_def)
  moreover have "times_ok 0 wrong_attempts" by (simp add: times_ok_def wrong_attempts_def list_all_iff)
  ultimately show ?thesis using login_failures_bounded [of wrong_attempts ESP_OK clerk_service 0] by simp
qed

section \<open>Reservations\<close>

text \<open>
  The sections under the mutex, in any interleaving: \<open>ps\<close> are the logins between their two
  sections, with peer and account, and \<open>n\<close> counts the creations of verifiers in between.
\<close>

inductive login_sections :: "login_service \<Rightarrow> (u32 \<times> u32) list \<Rightarrow> nat \<Rightarrow> bool" where
  start: "login_sections (login_service_zero\<lparr> lg_ready := True \<rparr>) [] 0"
| admit: "login_sections g ps n \<Longrightarrow> peer \<noteq> 0 \<Longrightarrow> login_admit peer (hash_login login) now g = (None, g') \<Longrightarrow>
    login_sections g' ((peer, hash_login login) # ps) n"
| refuse: "login_sections g ps n \<Longrightarrow> peer \<noteq> 0 \<Longrightarrow> login_admit peer (hash_login login) now g = (Some out, g') \<Longrightarrow>
    login_sections g' ps n"
| finish: "login_sections g (ps1 @ (peer, key) # ps2) n \<Longrightarrow>
    login_sections (login_finish peer key now err invoked success g) (ps1 @ ps2) n"
| create: "login_sections g ps n \<Longrightarrow> verifier_admit g = Some g' \<Longrightarrow> login_sections g' ps (Suc n)"
| created: "login_sections g ps (Suc n) \<Longrightarrow> login_sections (verifier_finish invoked g) ps n"

text \<open>The two slots hold exactly the logins in between; a free slot is zero.\<close>

definition slots_hold :: "u32 list \<Rightarrow> u32 list \<Rightarrow> (u32 \<times> u32) list \<Rightarrow> bool" where
  "slots_hold as bs ps \<longleftrightarrow> length as = 2 \<and> length bs = 2 \<and> mset (filter (\<lambda>x. x \<noteq> (0, 0)) (zip as bs)) = mset ps
     \<and> list_all (\<lambda>x. fst x \<noteq> 0 \<and> snd x \<noteq> 0) ps \<and> distinct (map fst ps) \<and> distinct (map snd ps)"

definition sections_ok :: "login_service \<Rightarrow> (u32 \<times> u32) list \<Rightarrow> nat \<Rightarrow> bool" where
  "sections_ok g ps n \<longleftrightarrow> slots_hold (lg_inflight_peers g) (lg_inflight_principals g) ps
     \<and> unat (lg_kdf_admitted g) = length ps + n \<and> length ps + n \<le> 2"

lemma length2_cases: "length xs = 2 \<Longrightarrow> (\<And>a b. xs = [a, b] \<Longrightarrow> P) \<Longrightarrow> P"
  by (cases xs; cases "tl xs") auto

lemma slots_release:
  assumes "slots_hold as bs (ps1 @ (p, k) # ps2)"
  shows "\<exists>i. find (\<lambda>i. as ! i = p \<and> bs ! i = k) [0..<2] = Some i \<and> slots_hold (as[i := 0]) (bs[i := 0]) (ps1 @ ps2)"
proof -
  obtain a b where as: "as = [a, b]" using assms by (auto simp: slots_hold_def elim: length2_cases)
  obtain c d where bs: "bs = [c, d]" using assms by (auto simp: slots_hold_def elim: length2_cases)
  have nz: "p \<noteq> 0" "k \<noteq> 0" using assms by (auto simp: slots_hold_def)
  have ms: "mset (filter (\<lambda>x. x \<noteq> (0, 0)) [(a, c), (b, d)]) = add_mset (p, k) (mset (ps1 @ ps2))"
    using assms as bs by (simp add: slots_hold_def)
  have rest: "list_all (\<lambda>x. fst x \<noteq> 0 \<and> snd x \<noteq> 0) (ps1 @ ps2)" "distinct (map fst (ps1 @ ps2))" "distinct (map snd (ps1 @ ps2))"
    using assms by (auto simp: slots_hold_def)
  have upt: "[0..<2] = [0, 1 :: nat]" by (simp add: upt_rec)
  show ?thesis
  proof (cases "(a, c) = (p, k)")
    case True
    then have "mset (filter (\<lambda>x. x \<noteq> (0, 0)) [(0, 0), (b, d)]) = mset (ps1 @ ps2)" using ms nz by (auto split: if_splits)
    then have "slots_hold [0, b] [0, d] (ps1 @ ps2)" using rest by (simp add: slots_hold_def)
    then show ?thesis using True as bs by (intro exI [of _ 0]) (simp add: upt)
  next
    case False
    have "(p, k) \<in># mset (filter (\<lambda>x. x \<noteq> (0, 0)) [(a, c), (b, d)])" unfolding ms by simp
    then have bd: "(b, d) = (p, k)" using False by (auto split: if_splits)
    then have "mset (filter (\<lambda>x. x \<noteq> (0, 0)) [(a, c), (0, 0)]) = mset (ps1 @ ps2)" using ms nz by (auto split: if_splits)
    then have "slots_hold [a, 0] [c, 0] (ps1 @ ps2)" using rest by (simp add: slots_hold_def)
    then show ?thesis using False bd as bs by (intro exI [of _ 1]) (auto simp: upt)
  qed
qed

lemma slots_reserve:
  assumes "slots_hold as bs ps" "length ps < 2" "p \<noteq> 0" "k \<noteq> 0"
    and "\<not> list_ex (\<lambda>i. as ! i = p \<or> bs ! i = k) [0..<2]"
  shows "\<exists>i. find (\<lambda>i. as ! i = 0 \<and> bs ! i = 0) [0..<2] = Some i \<and> slots_hold (as[i := p]) (bs[i := k]) ((p, k) # ps)"
proof -
  obtain a b where as: "as = [a, b]" using assms(1) by (auto simp: slots_hold_def elim: length2_cases)
  obtain c d where bs: "bs = [c, d]" using assms(1) by (auto simp: slots_hold_def elim: length2_cases)
  have upt: "[0..<2] = [0, 1 :: nat]" by (simp add: upt_rec)
  have ms: "mset (filter (\<lambda>x. x \<noteq> (0, 0)) [(a, c), (b, d)]) = mset ps" using assms(1) as bs by (simp add: slots_hold_def)
  have "set ps = set (filter (\<lambda>x. x \<noteq> (0, 0)) [(a, c), (b, d)])" using ms by (metis set_mset_mset)
  then have sub: "set ps \<subseteq> {(a, c), (b, d)}" by auto
  have fresh: "a \<noteq> p" "b \<noteq> p" "c \<noteq> k" "d \<noteq> k" using assms(5) as bs by (auto simp: upt)
  have dist: "distinct (map fst ((p, k) # ps))" "distinct (map snd ((p, k) # ps))"
    using assms(1) sub fresh by (auto simp: slots_hold_def)
  have nz: "list_all (\<lambda>x. fst x \<noteq> 0 \<and> snd x \<noteq> 0) ((p, k) # ps)" using assms(1,3,4) by (simp add: slots_hold_def)
  have len: "length (filter (\<lambda>x. x \<noteq> (0, 0)) [(a, c), (b, d)]) < 2" using ms assms(2) by (metis size_mset)
  show ?thesis
  proof (cases "a = 0 \<and> c = 0")
    case True
    then have "slots_hold [p, b] [k, d] ((p, k) # ps)" using ms dist nz assms(3) by (simp add: slots_hold_def split: if_splits)
    then show ?thesis using True as bs by (intro exI [of _ 0]) (simp add: upt)
  next
    case False
    then have "b = 0 \<and> d = 0" using len by (auto split: if_splits)
    then have "slots_hold [a, p] [c, k] ((p, k) # ps)" using ms dist nz assms(3) False by (auto simp: slots_hold_def add_mset_commute split: if_splits)
    then show ?thesis using False \<open>b = 0 \<and> d = 0\<close> as bs by (intro exI [of _ 1]) (auto simp: upt)
  qed
qed

lemma hash_login_nonzero: "hash_login login \<noteq> 0"
  by (simp add: hash_login_def Let_def)

lemma preflight_frame:
  assumes "preflight_locked peer key now g = (retry, g')"
  shows "lg_inflight_peers g' = lg_inflight_peers g \<and> lg_inflight_principals g' = lg_inflight_principals g
    \<and> lg_kdf_admitted g' = lg_kdf_admitted g"
  using assms by (auto simp: preflight_locked_def Let_def split: prod.splits)

lemma result_frame:
  "lg_inflight_peers (record_result_locked peer key now success g) = lg_inflight_peers g"
  "lg_inflight_principals (record_result_locked peer key now success g) = lg_inflight_principals g"
  "lg_kdf_admitted (record_result_locked peer key now success g) = lg_kdf_admitted g"
  by (simp_all add: record_result_locked_def Let_def split: prod.splits)

lemma admitted_Suc: "unat (x :: u8) < 2 \<Longrightarrow> unat (x + 1) = Suc (unat x)"
  by (subst unat_add_lem [THEN iffD1]) simp_all

lemma admitted_pred: "unat (x :: u8) = Suc n \<Longrightarrow> unat (x - 1) = n"
  by (subst unat_minus_one) auto

text \<open>What the first section does when the throttle lets the attempt pass.\<close>

lemma admit_section:
  assumes ok: "sections_ok g ps n" and nz: "peer \<noteq> 0" "key \<noteq> 0" and a: "login_admit peer key now g = (r, g')"
  shows "case r of None \<Rightarrow> sections_ok g' ((peer, key) # ps) n | Some out \<Rightarrow> sections_ok g' ps n"
    and "fst (preflight_locked peer key now g) = 0 \<Longrightarrow> length ps + n < 2 \<Longrightarrow>
           list_all (\<lambda>x. fst x \<noteq> peer \<and> snd x \<noteq> key) ps \<Longrightarrow> r = None"
proof -
  obtain retry g1 where p: "preflight_locked peer key now g = (retry, g1)" by fastforce
  note f = preflight_frame [OF p]
  have ok1: "sections_ok g1 ps n" using ok f by (simp add: sections_ok_def)
  show "case r of None \<Rightarrow> sections_ok g' ((peer, key) # ps) n | Some out \<Rightarrow> sections_ok g' ps n"
  proof (cases "retry = 0 \<and> unat (lg_kdf_admitted g1) < 2 \<and> \<not> duplicate_inflight_locked peer key g1")
    case True
    have "length ps < 2" using True ok1 by (simp add: sections_ok_def)
    then obtain i where i: "find (\<lambda>i. lg_inflight_peers g1 ! i = 0 \<and> lg_inflight_principals g1 ! i = 0) [0..<2] = Some i"
        "slots_hold ((lg_inflight_peers g1)[i := peer]) ((lg_inflight_principals g1)[i := key]) ((peer, key) # ps)"
      using slots_reserve [of "lg_inflight_peers g1" "lg_inflight_principals g1" ps peer key] ok1 nz True
      by (auto simp: sections_ok_def duplicate_inflight_locked_def)
    then show ?thesis
      using a p True ok1 admitted_Suc [of "lg_kdf_admitted g1"]
      by (auto simp: login_admit_def reserve_inflight_locked_def set_inflight_def sections_ok_def Let_def)
  next
    case False
    then have "\<exists>out. r = Some out" "g' = g1" using a p by (auto simp: login_admit_def Let_def split: if_splits)
    then show ?thesis using ok1 by auto
  qed
  show "r = None" if "fst (preflight_locked peer key now g) = 0" "length ps + n < 2" "list_all (\<lambda>x. fst x \<noteq> peer \<and> snd x \<noteq> key) ps"
  proof -
    obtain u v where us: "lg_inflight_peers g1 = [u, v]" using ok1 by (auto simp: sections_ok_def slots_hold_def elim: length2_cases)
    obtain w x where ws: "lg_inflight_principals g1 = [w, x]" using ok1 by (auto simp: sections_ok_def slots_hold_def elim: length2_cases)
    have "mset (filter (\<lambda>x. x \<noteq> (0, 0)) [(u, w), (v, x)]) = mset ps" using ok1 us ws by (simp add: sections_ok_def slots_hold_def)
    then have eq: "set (filter (\<lambda>x. x \<noteq> (0, 0)) [(u, w), (v, x)]) = set ps" by (rule mset_eq_setD)
    have slot: "y = (0, 0) \<or> y \<in> set ps" if "y = (u, w) \<or> y = (v, x)" for y
      unfolding eq [symmetric] set_filter using that by (cases "y = (0, 0)") simp_all
    have free: "fst y \<noteq> peer \<and> snd y \<noteq> key" if "y = (u, w) \<or> y = (v, x)" for y
    proof (cases "y = (0, 0)")
      case False
      then have "y \<in> set ps" using slot [OF that] by simp
      then show ?thesis using \<open>list_all (\<lambda>x. fst x \<noteq> peer \<and> snd x \<noteq> key) ps\<close> by (simp add: list_all_iff)
    qed (use nz in simp)
    have "\<not> duplicate_inflight_locked peer key g1"
      using free [of "(u, w)"] free [of "(v, x)"] by (simp add: duplicate_inflight_locked_def upt_rec us ws)
    moreover have "unat (lg_kdf_admitted g1) < 2" "length ps < 2" using ok1 that(2) by (simp_all add: sections_ok_def)
    moreover obtain i where "find (\<lambda>i. lg_inflight_peers g1 ! i = 0 \<and> lg_inflight_principals g1 ! i = 0) [0..<2] = Some i"
      using slots_reserve [of "lg_inflight_peers g1" "lg_inflight_principals g1" ps peer key] ok1 nz calculation
      by (auto simp: sections_ok_def duplicate_inflight_locked_def)
    ultimately show ?thesis
      using a p that(1) by (simp add: login_admit_def reserve_inflight_locked_def Let_def)
  qed
qed

lemma sections_invariant: "login_sections g ps n \<Longrightarrow> sections_ok g ps n"
proof (induction rule: login_sections.induct)
  case start
  then show ?case by (simp add: sections_ok_def slots_hold_def login_service_zero_def numeral_2_eq_2)
next
  case (admit g ps n peer login now g')
  then show ?case using admit_section(1) [OF admit.IH admit.hyps(2) hash_login_nonzero admit.hyps(3)] by simp
next
  case (refuse g ps n peer login now out g')
  then show ?case using admit_section(1) [OF refuse.IH refuse.hyps(2) hash_login_nonzero refuse.hyps(3)] by simp
next
  case (finish g ps1 peer key ps2 n now err invoked success)
  obtain i where i: "find (\<lambda>i. lg_inflight_peers g ! i = peer \<and> lg_inflight_principals g ! i = key) [0..<2] = Some i"
      "slots_hold ((lg_inflight_peers g)[i := 0]) ((lg_inflight_principals g)[i := 0]) (ps1 @ ps2)"
    using slots_release [of "lg_inflight_peers g" "lg_inflight_principals g" ps1 peer key ps2] finish.IH
    unfolding sections_ok_def by blast
  then show ?case
    using finish.IH admitted_pred [of "lg_kdf_admitted g" "length ps1 + length ps2 + n"]
    by (auto simp: login_finish_def release_inflight_locked_def set_inflight_def sections_ok_def result_frame Let_def)
next
  case (create g ps n g')
  then show ?case using admitted_Suc [of "lg_kdf_admitted g"] by (auto simp: verifier_admit_def sections_ok_def split: if_splits)
next
  case (created g ps n invoked)
  then show ?case using admitted_pred [of "lg_kdf_admitted g" "length ps + n"] by (auto simp: verifier_finish_def sections_ok_def Let_def)
qed

text \<open>
  No reservation is lost. In every interleaving of logins and creations of verifiers the
  counter of admitted derivations is the number of operations in progress and never more than
  two, no two logins in progress share a peer or an account, and an attempt that the throttle
  lets pass is admitted whenever fewer than two operations are in progress and none of them
  is for its peer or its account.
\<close>

theorem login_slots_conserved:
  assumes "login_sections g ps n"
  shows "argus_auth_service_kdf_admitted (g\<lparr> lg_ready := True \<rparr>) = length ps + n \<and> length ps + n \<le> 2
    \<and> distinct (map fst ps) \<and> distinct (map snd ps)
    \<and> (peer \<noteq> 0 \<and> fst (preflight_locked peer (hash_login login) now g) = 0 \<and> length ps + n < 2
         \<and> list_all (\<lambda>x. fst x \<noteq> peer \<and> snd x \<noteq> hash_login login) ps
       \<longrightarrow> fst (login_admit peer (hash_login login) now g) = None)"
proof -
  note ok = sections_invariant [OF assms]
  obtain r g' where a: "login_admit peer (hash_login login) now g = (r, g')" by fastforce
  show ?thesis
    using ok admit_section(2) [OF ok _ hash_login_nonzero a]
    by (auto simp: a sections_ok_def slots_hold_def argus_auth_service_kdf_admitted_def)
qed

theorem login_slots_conserved_witness:
  "\<exists>g. login_sections g [(7, hash_login (str_bytes ''ann''))] 0 \<and> argus_auth_service_kdf_admitted (g\<lparr> lg_ready := True \<rparr>) = 1"
proof -
  obtain g where "login_admit 7 (hash_login (str_bytes ''ann'')) 5 clerk_service = (None, g)"
    using clerk_admitted(1) by (metis prod.collapse)
  then have "login_sections g [(7, hash_login (str_bytes ''ann''))] 0"
    using login_sections.admit [OF login_sections.start, of 7 "str_bytes ''ann''" 5 g] by (simp add: clerk_service_def)
  then show ?thesis using login_slots_conserved by fastforce
qed

end
