(* ===== verification/Security_Admin.thy ===== *)
theory Security_Admin
  imports Auth_Service
begin

text \<open>
  Administration of human accounts and custom roles (\<open>argus_security_admin.c\<close>). An operation reads a
  snapshot of the directory, checks the actor against the target, changes its copy, submits it
  under the snapshot's generation, and revokes the sessions of the account.

  What other tasks do between the snapshot and the commit is the argument \<open>ae_between\<close>, and
  between the commit and the revocation \<open>ae_after\<close>. The derivation worker and the random source
  are arguments. Texts are C strings; pointers are not null, except that the actor may be absent.
\<close>

section \<open>Permissions and authorization\<close>

text \<open>The permissions of an account; a role that does not exist counts as all permissions.\<close>

definition human_permissions :: "human_payload \<Rightarrow> human_record \<Rightarrow> permission_set" where
  "human_permissions p h =
     (case collect_roles p (hr_role_mask h) [0..<16] (hr_direct_permissions h) 0 of
        None \<Rightarrow> - 1
      | Some (permissions, delegable) \<Rightarrow> permissions)"

definition requested_permissions :: "security_level \<Rightarrow> permission_set \<Rightarrow> permission_set" where
  "requested_permissions level direct = argus_authorization_level_permissions level OR direct"

definition is_enabled_human_admin :: "human_payload \<Rightarrow> human_record \<Rightarrow> bool" where
  "is_enabled_human_admin p h \<longleftrightarrow> hr_enabled h \<noteq> 0 \<and> hr_revoked h = 0
     \<and> human_permissions p h AND PERMISSION_MANAGE_USERS \<noteq> 0"

definition argus_security_admin_removal_would_lock_out :: "human_payload \<Rightarrow> nat \<Rightarrow> bool" where
  "argus_security_admin_removal_would_lock_out p target_index =
     (let n = unat (hy_human_count p) in
      if target_index \<ge> n \<or> \<not> is_enabled_human_admin p (hy_humans p ! target_index) then False
      else length (filter (\<lambda>i. is_enabled_human_admin p (hy_humans p ! i)) [0..<n]) = 1)"

definition target_authorized ::
  "principal \<Rightarrow> security_level \<Rightarrow> u8 list \<Rightarrow> bool \<Rightarrow> permission_set \<Rightarrow> esp_err" where
  "target_authorized actor level scope protected_identity requested =
     (if argus_authorization_manage_target (Some actor) level (Some scope) protected_identity \<noteq> AUTHZ_ALLOW
      then ESP_ERR_NOT_ALLOWED
      else
        (let special = requested AND PERMISSION_MANAGE_CLIENT_ADMINS;
             rest = requested AND NOT PERMISSION_MANAGE_CLIENT_ADMINS
         in if rest \<noteq> 0 \<and> argus_authorization_delegate (Some actor) level (Some scope) rest \<noteq> AUTHZ_ALLOW
            then ESP_ERR_NOT_ALLOWED
            else if special \<noteq> 0 \<and> (pr_level actor \<noteq> LEVEL_ARGUS_PERSONNEL \<or> level \<noteq> LEVEL_CLIENT_ADMIN)
            then ESP_ERR_NOT_ALLOWED
            else ESP_OK))"

definition unique_human :: "human_payload \<Rightarrow> u8 list \<Rightarrow> u8 list \<Rightarrow> bool" where
  "unique_human p identifier login =
     list_all (\<lambda>h. cstr (hr_identifier h) \<noteq> cstr identifier \<and> cstr (hr_login h) \<noteq> cstr login)
       (take (unat (hy_human_count p)) (hy_humans p))"

section \<open>The state and its environment\<close>

record 'n admin_state =
  ad_directory :: human_directory
  ad_flash :: 'n
  ad_login :: login_service
  ad_sessions :: session_manager

record 'n admin_env =
  ae_memory :: bool
  ae_commit :: commit_env
  ae_nvs :: "'n human_nvs"
  ae_queue :: kdf_queue
  ae_hmac :: hmac
  ae_salt :: "u8 list"
  ae_deriving :: "login_service \<Rightarrow> login_service"
  ae_between :: "'n admin_state \<Rightarrow> 'n admin_state"
  ae_after :: "'n admin_state \<Rightarrow> 'n admin_state"

definition directory_snapshot_alloc :: "'n admin_env \<Rightarrow> 'n admin_state \<Rightarrow> esp_err + human_payload \<times> u32" where
  "directory_snapshot_alloc env st =
     (if \<not> ae_memory env then Inl ESP_ERR_NO_MEM else argus_security_directory_get_snapshot (ad_directory st))"

definition commit_humans :: "'n admin_env \<Rightarrow> human_payload \<Rightarrow> u32 \<Rightarrow> 'n admin_state \<Rightarrow> esp_err \<times> 'n admin_state" where
  "commit_humans env p generation st =
     (let st1 = ae_between env st in
      case argus_security_directory_commit (ae_commit env) (ae_nvs env) p generation (ad_directory st1) (ad_flash st1) of
        (err, d, s) \<Rightarrow> (err, st1\<lparr> ad_directory := d, ad_flash := s \<rparr>))"

text \<open>The commit and the revocation of the account's sessions after a success.\<close>

definition commit_and_revoke ::
  "'n admin_env \<Rightarrow> u8 list \<Rightarrow> human_payload \<Rightarrow> u32 \<Rightarrow> 'n admin_state \<Rightarrow> esp_err \<times> 'n admin_state" where
  "commit_and_revoke env identifier p generation st =
     (case commit_humans env p generation st of
        (err, st1) \<Rightarrow>
          if err \<noteq> ESP_OK then (err, st1)
          else (let st2 = ae_after env st1 in
                (ESP_OK, st2\<lparr> ad_sessions := snd (argus_session_manager_revoke_principal (Some identifier) (ad_sessions st2)) \<rparr>)))"

definition new_verifier :: "'n admin_env \<Rightarrow> u8 list \<Rightarrow> 'n admin_state \<Rightarrow> (esp_err \<times> password_verifier) \<times> 'n admin_state" where
  "new_verifier env password st =
     (case argus_auth_service_create_verifier (ae_queue env) (ae_hmac env) (ae_salt env) (ae_deriving env) password
             verifier_zero (ad_login st) of
        (r, g) \<Rightarrow> (r, st\<lparr> ad_login := g \<rparr>))"

section \<open>Changes of the directory\<close>

definition replace_human :: "nat \<Rightarrow> human_record \<Rightarrow> human_payload \<Rightarrow> human_payload" where
  "replace_human i h p = p\<lparr> hy_humans := (hy_humans p)[i := h] \<rparr>"

definition created_human ::
  "u8 list \<Rightarrow> u8 list \<Rightarrow> u8 list \<Rightarrow> u8 list \<Rightarrow> security_level \<Rightarrow> permission_set \<Rightarrow> u32 \<Rightarrow> password_verifier \<Rightarrow> human_record" where
  "created_human identifier login display_name scope level direct_permissions generation verifier =
     \<lparr> hr_record_version = SECURITY_RECORD_VERSION, hr_level = of_nat (level_rank level), hr_enabled = 1,
       hr_protected_identity = 0, hr_identifier = fill_buffer 37 identifier, hr_login = fill_buffer 33 login,
       hr_display_name = fill_buffer 49 display_name, hr_scope = fill_buffer 37 scope,
       hr_role_mask = push_bit (level_rank level) 1, hr_direct_permissions = direct_permissions,
       hr_credential_version = 1, hr_record_security_epoch = generation + 1, hr_revoked = 0,
       hr_reserved = replicate 3 0, hr_verifier = verifier \<rparr>"

definition add_human :: "human_record \<Rightarrow> human_payload \<Rightarrow> human_payload" where
  "add_human h p = p\<lparr> hy_humans := (hy_humans p)[unat (hy_human_count p) := h], hy_human_count := hy_human_count p + 1 \<rparr>"

text \<open>The loop that closes a gap at \<open>i\<close> in the first \<open>n\<close> entries of an array.\<close>

definition close_gap :: "nat \<Rightarrow> nat \<Rightarrow> 'a list \<Rightarrow> 'a list" where
  "close_gap i n xs = fold (\<lambda>j ys. ys[j - 1 := ys ! j]) [i + 1..<n] xs"

definition remove_human :: "nat \<Rightarrow> human_payload \<Rightarrow> human_payload" where
  "remove_human i p =
     (let n = unat (hy_human_count p); count = hy_human_count p - 1
      in p\<lparr> hy_humans := (close_gap i n (hy_humans p))[unat count := human_record_zero], hy_human_count := count \<rparr>)"

definition enabled_human :: "bool \<Rightarrow> human_record \<Rightarrow> human_record" where
  "enabled_human enabled h =
     h\<lparr> hr_enabled := (if enabled then 1 else 0), hr_revoked := (if enabled then 0 else 1),
        hr_record_security_epoch := bump (hr_record_security_epoch h) \<rparr>"

definition rekeyed_human :: "password_verifier \<Rightarrow> human_record \<Rightarrow> human_record" where
  "rekeyed_human verifier h =
     h\<lparr> hr_verifier := verifier, hr_credential_version := bump (hr_credential_version h),
        hr_record_security_epoch := bump (hr_record_security_epoch h) \<rparr>"

text \<open>A copy into an existing buffer keeps the bytes after the terminator.\<close>

definition strlcpy_over :: "u8 list \<Rightarrow> u8 list \<Rightarrow> u8 list" where
  "strlcpy_over buffer v = (let t = take (length buffer - 1) (cstr v) in t @ [0] @ drop (length t + 1) buffer)"

definition custom_role_permissions :: "human_payload \<Rightarrow> u16 \<Rightarrow> permission_set" where
  "custom_role_permissions p custom_role_mask =
     fold (\<lambda>i acc. if custom_role_mask AND push_bit i 1 \<noteq> 0 then acc OR rr_permissions (hy_custom_roles p ! i) else acc)
       [0..<unat (hy_custom_role_count p)] 0"

definition roled_human :: "u16 \<Rightarrow> human_record \<Rightarrow> human_record" where
  "roled_human custom_role_mask h =
     h\<lparr> hr_role_mask := push_bit (unat (hr_level h)) 1 OR push_bit BUILTIN_ROLE_COUNT custom_role_mask,
        hr_record_security_epoch := bump (hr_record_security_epoch h) \<rparr>"

definition created_role :: "u8 list \<Rightarrow> security_level \<Rightarrow> permission_set \<Rightarrow> permission_set \<Rightarrow> role_record" where
  "created_role identifier level permissions delegable_permissions =
     \<lparr> rr_record_version = SECURITY_RECORD_VERSION, rr_level = of_nat (level_rank level), rr_builtin = 0,
       rr_protected_role = 0, rr_identifier = fill_buffer 37 identifier, rr_permissions = permissions,
       rr_delegable_permissions = delegable_permissions \<rparr>"

definition add_role :: "role_record \<Rightarrow> human_payload \<Rightarrow> human_payload" where
  "add_role r p = p\<lparr> hy_custom_roles := (hy_custom_roles p)[unat (hy_custom_role_count p) := r],
                     hy_custom_role_count := hy_custom_role_count p + 1 \<rparr>"

text \<open>The mask of an account after the role at bit \<open>n\<close> is gone: the bits above move down.\<close>

definition shifted_mask :: "nat \<Rightarrow> u16 \<Rightarrow> u16" where
  "shifted_mask n m =
     (let role_bit = push_bit n 1; lower = role_bit - 1; below = m AND lower; above = m AND NOT (lower OR role_bit)
      in below OR drop_bit 1 above)"

definition remove_role :: "nat \<Rightarrow> human_payload \<Rightarrow> human_payload" where
  "remove_role i p =
     (let n = unat (hy_custom_role_count p); count = hy_custom_role_count p - 1; k = unat (hy_human_count p)
      in p\<lparr> hy_custom_roles := (close_gap i n (hy_custom_roles p))[unat count := role_record_zero],
            hy_custom_role_count := count,
            hy_humans := map (\<lambda>h. h\<lparr> hr_role_mask := shifted_mask (i + BUILTIN_ROLE_COUNT) (hr_role_mask h) \<rparr>)
                           (take k (hy_humans p)) @ drop k (hy_humans p) \<rparr>)"

section \<open>Operations\<close>

definition snapshot_target ::
  "'n admin_env \<Rightarrow> principal option \<Rightarrow> u8 list \<Rightarrow> 'n admin_state \<Rightarrow> esp_err + human_payload \<times> u32 \<times> nat" where
  "snapshot_target env actor identifier st =
     (case actor of
        None \<Rightarrow> Inl ESP_ERR_INVALID_ARG
      | Some a \<Rightarrow>
          if \<not> argus_authorization_principal_valid (Some a) then Inl ESP_ERR_INVALID_ARG
          else (case directory_snapshot_alloc env st of
                  Inl e \<Rightarrow> Inl e
                | Inr (p, generation) \<Rightarrow>
                    (case find (\<lambda>i. cstr (hr_identifier (hy_humans p ! i)) = cstr identifier) [0..<unat (hy_human_count p)] of
                       None \<Rightarrow> Inl ESP_ERR_NOT_FOUND
                     | Some i \<Rightarrow>
                         (let h = hy_humans p ! i;
                              err = target_authorized a (security_level_of (unat (hr_level h))) (hr_scope h)
                                      (hr_protected_identity h \<noteq> 0) (human_permissions p h)
                          in if err \<noteq> ESP_OK then Inl err else Inr (p, generation, i)))))"

definition argus_security_admin_create_human ::
  "'n admin_env \<Rightarrow> principal option \<Rightarrow> u8 list \<Rightarrow> u8 list \<Rightarrow> u8 list \<Rightarrow> u8 list \<Rightarrow> security_level \<Rightarrow> permission_set \<Rightarrow> u8 list \<Rightarrow>
     'n admin_state \<Rightarrow> esp_err \<times> 'n admin_state" where
  "argus_security_admin_create_human env actor identifier canonical_login display_name scope level direct_permissions password st =
     (case (actor, argus_auth_canonicalize_login canonical_login) of
        (Some a, Some normalized) \<Rightarrow>
          if \<not> argus_authorization_principal_valid (Some a) \<or> level > LEVEL_VIEWER \<or> \<not> argus_auth_new_password_valid password
          then (ESP_ERR_INVALID_ARG, st)
          else
            (let auth_err = target_authorized a level scope False (requested_permissions level direct_permissions) in
             if auth_err \<noteq> ESP_OK then (auth_err, st)
             else (case directory_snapshot_alloc env st of
                     Inl e \<Rightarrow> (e, st)
                   | Inr (p, generation) \<Rightarrow>
                       if unat (hy_human_count p) \<ge> SECURITY_MAX_HUMANS \<or> \<not> unique_human p identifier normalized
                       then (ESP_ERR_INVALID_STATE, st)
                       else (case new_verifier env password st of
                               ((err, verifier), st1) \<Rightarrow>
                                 if err \<noteq> ESP_OK then (err, st1)
                                 else commit_humans env
                                        (add_human (created_human identifier normalized display_name scope level direct_permissions
                                                      generation verifier) p)
                                        generation st1)))
      | _ \<Rightarrow> (ESP_ERR_INVALID_ARG, st))"

definition argus_security_admin_set_enabled ::
  "'n admin_env \<Rightarrow> principal option \<Rightarrow> u8 list \<Rightarrow> bool \<Rightarrow> 'n admin_state \<Rightarrow> esp_err \<times> 'n admin_state" where
  "argus_security_admin_set_enabled env actor identifier enabled st =
     (case snapshot_target env actor identifier st of
        Inl e \<Rightarrow> (e, st)
      | Inr (p, generation, i) \<Rightarrow>
          if \<not> enabled \<and> argus_security_admin_removal_would_lock_out p i then (ESP_ERR_INVALID_STATE, st)
          else commit_and_revoke env identifier (replace_human i (enabled_human enabled (hy_humans p ! i)) p) generation st)"

definition argus_security_admin_replace_password ::
  "'n admin_env \<Rightarrow> principal option \<Rightarrow> u8 list \<Rightarrow> u8 list \<Rightarrow> 'n admin_state \<Rightarrow> esp_err \<times> 'n admin_state" where
  "argus_security_admin_replace_password env actor identifier password st =
     (if \<not> argus_auth_new_password_valid password then (ESP_ERR_INVALID_ARG, st)
      else case snapshot_target env actor identifier st of
        Inl e \<Rightarrow> (e, st)
      | Inr (p, generation, i) \<Rightarrow>
          (case new_verifier env password st of
             ((err, verifier), st1) \<Rightarrow>
               if err \<noteq> ESP_OK then (err, st1)
               else commit_and_revoke env identifier (replace_human i (rekeyed_human verifier (hy_humans p ! i)) p) generation st1))"

definition argus_security_admin_replace_own_password ::
  "'n admin_env \<Rightarrow> principal option \<Rightarrow> u8 list \<Rightarrow> 'n admin_state \<Rightarrow> esp_err \<times> 'n admin_state" where
  "argus_security_admin_replace_own_password env actor password st =
     (case actor of
        None \<Rightarrow> (ESP_ERR_INVALID_ARG, st)
      | Some a \<Rightarrow>
          if \<not> argus_authorization_principal_valid (Some a) \<or> pr_type a \<noteq> PRINCIPAL_HUMAN
             \<or> \<not> argus_auth_new_password_valid password then (ESP_ERR_INVALID_ARG, st)
          else (case directory_snapshot_alloc env st of
                  Inl e \<Rightarrow> (e, st)
                | Inr (p, generation) \<Rightarrow>
                    (case find (\<lambda>i. cstr (hr_identifier (hy_humans p ! i)) = cstr (pr_identifier a))
                            [0..<unat (hy_human_count p)] of
                       None \<Rightarrow> (ESP_ERR_NOT_FOUND, st)
                     | Some i \<Rightarrow>
                         (case new_verifier env password st of
                            ((err, verifier), st1) \<Rightarrow>
                              if err \<noteq> ESP_OK then (err, st1)
                              else commit_and_revoke env (pr_identifier a)
                                     (replace_human i (rekeyed_human verifier (hy_humans p ! i)) p) generation st1))))"

definition argus_security_admin_update_display_name ::
  "'n admin_env \<Rightarrow> principal option \<Rightarrow> u8 list \<Rightarrow> u8 list \<Rightarrow> 'n admin_state \<Rightarrow> esp_err \<times> 'n admin_state" where
  "argus_security_admin_update_display_name env actor identifier display_name st =
     (if c_strlen display_name = 0 \<or> c_strlen display_name > 48 then (ESP_ERR_INVALID_ARG, st)
      else case snapshot_target env actor identifier st of
        Inl e \<Rightarrow> (e, st)
      | Inr (p, generation, i) \<Rightarrow>
          (let h = hy_humans p ! i
           in commit_humans env
                (replace_human i (h\<lparr> hr_display_name := strlcpy_over (hr_display_name h) display_name \<rparr>) p) generation st))"

definition argus_security_admin_assign_custom_roles ::
  "'n admin_env \<Rightarrow> principal option \<Rightarrow> u8 list \<Rightarrow> u16 \<Rightarrow> 'n admin_state \<Rightarrow> esp_err \<times> 'n admin_state" where
  "argus_security_admin_assign_custom_roles env actor identifier custom_role_mask st =
     (case snapshot_target env actor identifier st of
        Inl e \<Rightarrow> (e, st)
      | Inr (p, generation, i) \<Rightarrow>
          (let h = hy_humans p ! i; n = unat (hy_custom_role_count p);
               valid_mask = (if n = 0 then 0 else push_bit n 1 - 1);
               permissions = custom_role_permissions p custom_role_mask
           in if custom_role_mask AND NOT valid_mask \<noteq> 0 then (ESP_ERR_INVALID_ARG, st)
              else if permissions \<noteq> 0
                      \<and> argus_authorization_delegate actor (security_level_of (unat (hr_level h))) (Some (hr_scope h)) permissions
                        \<noteq> AUTHZ_ALLOW
              then (ESP_ERR_NOT_ALLOWED, st)
              else commit_and_revoke env identifier (replace_human i (roled_human custom_role_mask h) p) generation st))"

definition argus_security_admin_delete_human ::
  "'n admin_env \<Rightarrow> principal option \<Rightarrow> u8 list \<Rightarrow> 'n admin_state \<Rightarrow> esp_err \<times> 'n admin_state" where
  "argus_security_admin_delete_human env actor identifier st =
     (case snapshot_target env actor identifier st of
        Inl e \<Rightarrow> (e, st)
      | Inr (p, generation, i) \<Rightarrow>
          if argus_security_admin_removal_would_lock_out p i then (ESP_ERR_INVALID_STATE, st)
          else commit_and_revoke env identifier (remove_human i p) generation st)"

definition argus_security_admin_create_role ::
  "'n admin_env \<Rightarrow> principal option \<Rightarrow> u8 list \<Rightarrow> security_level \<Rightarrow> permission_set \<Rightarrow> permission_set \<Rightarrow> 'n admin_state \<Rightarrow>
     esp_err \<times> 'n admin_state" where
  "argus_security_admin_create_role env actor identifier level permissions delegable_permissions st =
     (case actor of
        None \<Rightarrow> (ESP_ERR_NOT_ALLOWED, st)
      | Some a \<Rightarrow>
          if \<not> argus_authorization_principal_valid (Some a)
             \<or> argus_authorization_require (Some a) PERMISSION_MANAGE_ROLES \<noteq> AUTHZ_ALLOW
             \<or> level < LEVEL_CLIENT_ADMIN \<or> level > LEVEL_VIEWER
             \<or> delegable_permissions AND NOT permissions \<noteq> 0
             \<or> argus_authorization_delegate (Some a) level (Some (pr_scope a)) permissions \<noteq> AUTHZ_ALLOW
             \<or> delegable_permissions AND NOT (pr_delegable_permissions a) \<noteq> 0
          then (ESP_ERR_NOT_ALLOWED, st)
          else (case directory_snapshot_alloc env st of
                  Inl e \<Rightarrow> (e, st)
                | Inr (p, generation) \<Rightarrow>
                    if unat (hy_custom_role_count p) \<ge> CUSTOM_ROLE_CAPACITY then (ESP_ERR_NO_MEM, st)
                    else if list_ex (\<lambda>r. cstr (rr_identifier r) = cstr identifier)
                              (take (unat (hy_custom_role_count p)) (hy_custom_roles p))
                    then (ESP_ERR_INVALID_STATE, st)
                    else commit_humans env (add_role (created_role identifier level permissions delegable_permissions) p) generation st))"

definition argus_security_admin_delete_role ::
  "'n admin_env \<Rightarrow> principal option \<Rightarrow> u8 list \<Rightarrow> 'n admin_state \<Rightarrow> esp_err \<times> 'n admin_state" where
  "argus_security_admin_delete_role env actor identifier st =
     (if \<not> argus_authorization_principal_valid actor
         \<or> argus_authorization_require actor PERMISSION_MANAGE_ROLES \<noteq> AUTHZ_ALLOW then (ESP_ERR_NOT_ALLOWED, st)
      else case directory_snapshot_alloc env st of
        Inl e \<Rightarrow> (e, st)
      | Inr (p, generation) \<Rightarrow>
          (case find (\<lambda>i. cstr (rr_identifier (hy_custom_roles p ! i)) = cstr identifier) [0..<unat (hy_custom_role_count p)] of
             None \<Rightarrow> (ESP_ERR_NOT_FOUND, st)
           | Some i \<Rightarrow>
               if list_ex (\<lambda>h. hr_role_mask h AND push_bit (i + BUILTIN_ROLE_COUNT) 1 \<noteq> 0)
                    (take (unat (hy_human_count p)) (hy_humans p))
               then (ESP_ERR_INVALID_STATE, st)
               else commit_humans env (remove_role i p) generation st))"

end
