(* ===== verification/Security_Admin_Props.thy ===== *)
theory Security_Admin_Props
  imports Security_Admin Auth_Props
begin

text \<open>
  Correctness of the administration of accounts: no operation gives an account a permission that
  neither it nor the actor had, none but the assignment of roles takes the last administrator
  away, and a change is applied to the very directory that it was computed from.
\<close>

section \<open>Directories\<close>

definition live_humans :: "human_payload \<Rightarrow> human_record list" where
  "live_humans p = take (unat (hy_human_count p)) (hy_humans p)"

definition humans_shaped :: "human_payload \<Rightarrow> bool" where
  "humans_shaped p \<longleftrightarrow> length (hy_humans p) = 16 \<and> length (hy_custom_roles p) = 10"

lemma payload_counts:
  "argus_security_directory_payload_valid p \<Longrightarrow> unat (hy_human_count p) \<le> 16 \<and> unat (hy_custom_role_count p) \<le> 10"
  by (simp add: argus_security_directory_payload_valid_def)

lemma live_nth:
  assumes "argus_security_directory_payload_valid p" "humans_shaped p"
  shows "length (live_humans p) = unat (hy_human_count p)"
    and "i < unat (hy_human_count p) \<Longrightarrow> live_humans p ! i = hy_humans p ! i"
  using payload_counts [OF assms(1)] assms(2) by (auto simp: live_humans_def humans_shaped_def)

lemma live_valid:
  assumes "argus_security_directory_payload_valid p" "i < unat (hy_human_count p)"
  shows "argus_security_human_record_valid (hy_humans p ! i)" "hr_role_mask (hy_humans p ! i) AND NOT (allowed_roles p) = 0"
    "bit (hr_role_mask (hy_humans p ! i)) (unat (hr_level (hy_humans p ! i)))"
proof -
  have "human_acceptable p i"
    using assms payload_counts [OF assms(1)] by (auto simp: argus_security_directory_payload_valid_def list_all_iff)
  then show "argus_security_human_record_valid (hy_humans p ! i)" "hr_role_mask (hy_humans p ! i) AND NOT (allowed_roles p) = 0"
    "bit (hr_role_mask (hy_humans p ! i)) (unat (hr_level (hy_humans p ! i)))"
    using assms(2) unfolding mask_bit [symmetric] by (simp_all add: human_acceptable_def Let_def)
qed

lemma allowed_bit:
  assumes "unat (hy_custom_role_count p) \<le> 10"
  shows "bit (allowed_roles p) k \<longleftrightarrow> k < 6 + unat (hy_custom_role_count p)"
proof -
  have "allowed_roles p = Bit_Operations.mask (6 + unat (hy_custom_role_count p))"
    using assms
    by (cases "unat (hy_custom_role_count p) = 10") (simp_all add: allowed_roles_def Let_def mask_eq_exp_minus_1 push_bit_of_1)
  then show ?thesis using assms by (auto simp: bit_mask_iff)
qed

lemma mask_within: "(m :: u16) AND NOT a = 0 \<Longrightarrow> bit m k \<Longrightarrow> bit a k"
  by (metis bit_and_iff bit_not_iff bit_imp_le_length bit_0_eq bot_apply bot_bool_def possible_bit_word)

lemma live_roles:
  assumes "argus_security_directory_payload_valid p" "i < unat (hy_human_count p)" "bit (hr_role_mask (hy_humans p ! i)) k"
  shows "k < 6 + unat (hy_custom_role_count p)" "k < 16"
  using mask_within [OF live_valid(2) [OF assms(1,2)] assms(3)] allowed_bit payload_counts [OF assms(1)] by auto

definition role_bit :: "human_payload \<Rightarrow> nat \<Rightarrow> nat \<Rightarrow> bool" where
  "role_bit p k n \<longleftrightarrow> (\<exists>x y. role_permissions p k = Some (x, y) \<and> bit x n)"

lemma collect_roles_Some:
  assumes "\<forall>k\<in>set ks. bit m k \<longrightarrow> role_permissions p k \<noteq> None"
  shows "\<exists>a' b'. collect_roles p m ks a b = Some (a', b')"
  using assms
proof (induction ks arbitrary: a b)
  case (Cons k ks)
  then show ?case by (auto simp: collect_roles_Cons simp del: collect_roles.simps(2))
qed simp

lemma human_permissions_bit:
  assumes "\<forall>k<16. bit (hr_role_mask h) k \<longrightarrow> k < 6 + unat (hy_custom_role_count p)" "n < 64"
  shows "bit (human_permissions p h) n \<longleftrightarrow> bit (hr_direct_permissions h) n \<or> (\<exists>k<16. bit (hr_role_mask h) k \<and> role_bit p k n)"
proof -
  have "\<forall>k\<in>set [0..<16]. bit (hr_role_mask h) k \<longrightarrow> role_permissions p k \<noteq> None"
    using assms(1) by (auto simp: role_permissions_def Let_def)
  then obtain a b where c: "collect_roles p (hr_role_mask h) [0..<16] (hr_direct_permissions h) 0 = Some (a, b)"
    using collect_roles_Some by blast
  show ?thesis
    using collect_roles_bits [OF c, of n] by (auto simp: human_permissions_def c role_bit_def Bex_def)
qed

lemma live_permissions_bit:
  assumes "argus_security_directory_payload_valid p" "i < unat (hy_human_count p)" "n < 64"
  shows "bit (human_permissions p (hy_humans p ! i)) n \<longleftrightarrow> bit (hr_direct_permissions (hy_humans p ! i)) n
    \<or> (\<exists>k. bit (hr_role_mask (hy_humans p ! i)) k \<and> role_bit p k n)"
proof -
  have "\<forall>k<16. bit (hr_role_mask (hy_humans p ! i)) k \<longrightarrow> k < 6 + unat (hy_custom_role_count p)"
    using live_roles [OF assms(1,2)] by blast
  from human_permissions_bit [OF this assms(3)] show ?thesis using live_roles [OF assms(1,2)] by blast
qed

section \<open>Arrays and masks\<close>

lemma close_gap_length [simp]: "length (close_gap i n xs) = length xs"
proof -
  have "length (fold (\<lambda>j ys. ys[j - 1 := ys ! j]) js ys) = length ys" for js and ys :: "'a list"
    by (induction js arbitrary: ys) simp_all
  then show ?thesis by (simp add: close_gap_def)
qed

lemma close_gap_nth:
  assumes "n \<le> length xs" "j < length xs"
  shows "close_gap i n xs ! j = (if i \<le> j \<and> Suc j < n then xs ! Suc j else xs ! j)"
proof -
  have "fold (\<lambda>j ys. ys[j - 1 := ys ! j]) [i + 1..<m] xs ! j = (if i \<le> j \<and> Suc j < m then xs ! Suc j else xs ! j)
      \<and> length (fold (\<lambda>j ys. ys[j - 1 := ys ! j]) [i + 1..<m] xs) = length xs" if "m \<le> n" "j < length xs" for m j
    using that
  proof (induction m arbitrary: j)
    case (Suc m)
    then show ?case
    proof (cases "i + 1 \<le> m")
      case True
      let ?f = "fold (\<lambda>j ys. ys[j - 1 := ys ! j]) [i + 1..<m] xs"
      have "length ?f = length xs" "?f ! j = (if i \<le> j \<and> Suc j < m then xs ! Suc j else xs ! j)" "?f ! m = xs ! m"
        using Suc.IH [of j] Suc.IH [of m] Suc.prems assms(1) by auto
      then show ?thesis using True Suc.prems assms(1) by (cases "Suc j = m") (auto simp: upt_Suc nth_list_update)
    qed (auto simp: upt_Suc)
  qed simp
  then show ?thesis using assms by (simp add: close_gap_def)
qed

lemma shifted_mask_bit: "n < 16 \<Longrightarrow> bit (shifted_mask n m) k \<longleftrightarrow> (if k < n then bit m k else bit m (Suc k))"
proof -
  assume n: "n < 16"
  have "push_bit n 1 - 1 = (Bit_Operations.mask n :: u16)" by (simp add: mask_eq_exp_minus_1 push_bit_of_1)
  then have "bit (shifted_mask n m) k \<longleftrightarrow> (bit m k \<and> k < n) \<or> (k \<ge> n \<and> bit m (Suc k))"
    using n bit_imp_le_length [of m k] bit_imp_le_length [of m "Suc k"]
    by (auto simp: shifted_mask_def Let_def bit_or_iff bit_and_iff bit_mask_iff bit_drop_bit_eq bit_not_iff bit_exp_iff not_less less_Suc_eq_le)
  then show ?thesis by auto
qed

section \<open>Changes\<close>

text \<open>Two accounts with the same rights.\<close>

definition same_rights :: "human_payload \<Rightarrow> human_record \<Rightarrow> human_payload \<Rightarrow> human_record \<Rightarrow> bool" where
  "same_rights p h p' h' \<longleftrightarrow> cstr (hr_identifier h') = cstr (hr_identifier h) \<and> hr_enabled h' = hr_enabled h
     \<and> hr_revoked h' = hr_revoked h \<and> human_permissions p' h' = human_permissions p h"

lemma permissions_eqI: "(\<And>n. n < 64 \<Longrightarrow> bit (a :: u64) n \<longleftrightarrow> bit b n) \<Longrightarrow> a = b"
  by (rule bit_word_eqI) simp

lemma role_permissions_roles:
  "hy_custom_roles p' = hy_custom_roles p \<Longrightarrow> hy_custom_role_count p' = hy_custom_role_count p \<Longrightarrow> role_permissions p' = role_permissions p"
  by (auto simp: role_permissions_def Let_def fun_eq_iff)

lemma human_permissions_roles:
  assumes "role_permissions p' = role_permissions p" "hr_role_mask h' = hr_role_mask h" "hr_direct_permissions h' = hr_direct_permissions h"
  shows "human_permissions p' h' = human_permissions p h"
proof -
  have "collect_roles p' m ks a b = collect_roles p m ks a b" for m ks a b
    by (induction ks arbitrary: a b) (auto simp: collect_roles_Cons assms(1) simp del: collect_roles.simps(2) split: option.splits)
  then show ?thesis by (simp add: human_permissions_def assms)
qed

lemma live_replace_human:
  "live_humans (replace_human i h p) = (live_humans p)[i := h]"
  by (simp add: live_humans_def replace_human_def take_update_swap)

lemma replace_roles [simp]: "role_permissions (replace_human i h p) = role_permissions p"
  by (rule role_permissions_roles) (simp_all add: replace_human_def)

lemma count_Suc: "unat (c :: u8) < 16 \<Longrightarrow> unat (c + 1) = Suc (unat c)"
  by (subst unat_add_lem [THEN iffD1]) simp_all

lemma count_pred8: "0 < unat (c :: u8) \<Longrightarrow> unat (c - 1) = unat c - 1"
  by (subst unat_minus_one) auto

lemma live_add:
  assumes "humans_shaped p" "unat (hy_human_count p) < 16"
  shows "live_humans (add_human h p) = live_humans p @ [h]"
  using assms count_Suc [of "hy_human_count p"]
  by (simp add: live_humans_def add_human_def humans_shaped_def take_Suc_conv_app_nth)

lemma live_remove_human:
  assumes "humans_shaped p" "argus_security_directory_payload_valid p" "i < unat (hy_human_count p)"
  shows "live_humans (remove_human i p) = take i (live_humans p) @ drop (Suc i) (live_humans p)"
proof -
  let ?n = "unat (hy_human_count p)"
  have n: "?n \<le> 16" "length (hy_humans p) = 16" using assms payload_counts by (auto simp: humans_shaped_def)
  have c: "unat (hy_human_count p - 1) = ?n - 1" using count_pred8 assms(3) by simp
  show ?thesis
  proof (rule nth_equalityI)
    show len: "length (live_humans (remove_human i p)) = length (take i (live_humans p) @ drop (Suc i) (live_humans p))"
      using n c assms(3) by (simp add: live_humans_def remove_human_def Let_def)
    fix j assume "j < length (live_humans (remove_human i p))"
    then have j: "j < ?n - 1" using n c by (simp add: live_humans_def remove_human_def Let_def)
    then show "live_humans (remove_human i p) ! j = (take i (live_humans p) @ drop (Suc i) (live_humans p)) ! j"
      using n c assms(3) by (auto simp: live_humans_def remove_human_def Let_def close_gap_nth nth_append)
  qed
qed

lemma same_rights_replace:
  assumes "cstr (hr_identifier h') = cstr (hr_identifier h)" "hr_enabled h' = hr_enabled h" "hr_revoked h' = hr_revoked h"
    and "hr_role_mask h' = hr_role_mask h" "hr_direct_permissions h' = hr_direct_permissions h"
  shows "same_rights p h (replace_human i x p) h'"
  using assms human_permissions_roles [OF replace_roles, of h' h i x p] by (simp add: same_rights_def)

lemma same_rights_refl_replace: "same_rights p h (replace_human i x p) h"
  by (rule same_rights_replace) simp_all

lemma same_rights_roles: "role_permissions p' = role_permissions p \<Longrightarrow> same_rights p h p' h"
  using human_permissions_roles [of p' p h h] by (simp add: same_rights_def)

text \<open>A new role changes no account: a valid account has no bit for a role that does not exist.\<close>

lemma same_rights_add_role:
  assumes "argus_security_directory_payload_valid p" "argus_security_directory_payload_valid (add_role r p)" "humans_shaped p"
    and "unat (hy_custom_role_count p) < 10" "i < unat (hy_human_count p)"
  shows "same_rights p (hy_humans p ! i) (add_role r p) (hy_humans p ! i)"
proof -
  have c: "unat (hy_custom_role_count (add_role r p)) = Suc (unat (hy_custom_role_count p))"
    using count_Suc [of "hy_custom_role_count p"] assms(4) by (simp add: add_role_def)
  have same: "role_bit (add_role r p) k n = role_bit p k n" if "k < 6 + unat (hy_custom_role_count p)" for k n
  proof -
    have "role_permissions (add_role r p) k = role_permissions p k"
      using that c by (auto simp: role_permissions_def Let_def) (simp_all add: add_role_def)
    then show ?thesis by (simp add: role_bit_def)
  qed
  have "human_permissions (add_role r p) (hy_humans p ! i) = human_permissions p (hy_humans p ! i)"
  proof (rule permissions_eqI)
    fix n :: nat assume n: "n < 64"
    have i': "i < unat (hy_human_count (add_role r p))" "hy_humans (add_role r p) = hy_humans p" using assms(5) by (simp_all add: add_role_def)
    show "bit (human_permissions (add_role r p) (hy_humans p ! i)) n = bit (human_permissions p (hy_humans p ! i)) n"
      using live_permissions_bit [OF assms(2) i'(1) n] live_permissions_bit [OF assms(1,5) n] same live_roles(1) [OF assms(1,5)]
      by (auto simp: i'(2))
  qed
  then show ?thesis by (simp add: same_rights_def)
qed

text \<open>The removal of a role that no account has changes no account: the masks follow the roles.\<close>

lemma same_rights_remove_role:
  assumes valid: "argus_security_directory_payload_valid p" "argus_security_directory_payload_valid (remove_role r p)" "humans_shaped p"
    and r: "r < unat (hy_custom_role_count p)" and i: "i < unat (hy_human_count p)"
    and unused: "\<not> bit (hr_role_mask (hy_humans p ! i)) (r + 6)"
  shows "same_rights p (hy_humans p ! i) (remove_role r p) (hy_humans (remove_role r p) ! i)"
proof -
  let ?h = "hy_humans p ! i" and ?p' = "remove_role r p"
  let ?h' = "hy_humans ?p' ! i"
  have lens: "length (hy_humans p) = 16" "length (hy_custom_roles p) = 10" "unat (hy_custom_role_count p) \<le> 10" "unat (hy_human_count p) \<le> 16"
    using valid(3) payload_counts [OF valid(1)] by (auto simp: humans_shaped_def)
  have h': "?h' = ?h\<lparr> hr_role_mask := shifted_mask (r + 6) (hr_role_mask ?h) \<rparr>"
    using i lens by (simp add: remove_role_def Let_def nth_append)
  have c: "unat (hy_custom_role_count ?p') = unat (hy_custom_role_count p) - 1" "hy_human_count ?p' = hy_human_count p"
    using r count_pred8 by (simp_all add: remove_role_def Let_def)
  have roles: "role_bit ?p' k n = role_bit p (if k < r + 6 then k else Suc k) n" if "k < 6 + unat (hy_custom_role_count ?p')" for k n
  proof (cases "k < 6")
    case True
    then show ?thesis by (simp add: role_bit_def role_permissions_def)
  next
    case False
    have k: "k - 6 < unat (hy_custom_role_count p) - 1" using that c False by simp
    then have "hy_custom_roles ?p' ! (k - 6) = hy_custom_roles p ! (if k - 6 < r then k - 6 else Suc (k - 6))"
      using lens c(1) r by (auto simp: remove_role_def Let_def close_gap_nth nth_list_update)
    moreover have "Suc k - 6 = Suc (k - 6)" using False by simp
    ultimately show ?thesis using False k c(1) that by (auto simp: role_bit_def role_permissions_def Let_def simp del: Suc_diff_eq_diff_pred)
  qed
  have "human_permissions ?p' ?h' = human_permissions p ?h"
  proof (rule permissions_eqI)
    fix n :: nat assume n: "n < 64"
    have i': "i < unat (hy_human_count ?p')" using i c(2) by simp
    have m: "bit (hr_role_mask ?h') k \<longleftrightarrow> bit (hr_role_mask ?h) (if k < r + 6 then k else Suc k)" for k
      using shifted_mask_bit [of "r + 6" "hr_role_mask ?h" k] r lens(3) by (simp add: h')
    have "(\<exists>k. bit (hr_role_mask ?h') k \<and> role_bit ?p' k n) \<longleftrightarrow> (\<exists>k. bit (hr_role_mask ?h) k \<and> role_bit p k n)"
    proof
      assume "\<exists>k. bit (hr_role_mask ?h') k \<and> role_bit ?p' k n"
      then obtain k where k: "bit (hr_role_mask ?h') k" "role_bit ?p' k n" by blast
      then have "role_bit p (if k < r + 6 then k else Suc k) n" using roles live_roles(1) [OF valid(2) i'] by blast
      then show "\<exists>k. bit (hr_role_mask ?h) k \<and> role_bit p k n" using k(1) m by blast
    next
      assume "\<exists>k. bit (hr_role_mask ?h) k \<and> role_bit p k n"
      then obtain k where k: "bit (hr_role_mask ?h) k" "role_bit p k n" by blast
      have ne: "k \<noteq> r + 6" using unused k(1) by auto
      define j where "j = (if k < r + 6 then k else k - 1)"
      have j: "(if j < r + 6 then j else Suc j) = k" using ne by (auto simp: j_def)
      have "k < 6 + unat (hy_custom_role_count p)" using live_roles(1) [OF valid(1) i k(1)] .
      then have "j < 6 + unat (hy_custom_role_count ?p')" using ne c(1) r by (auto simp: j_def)
      then have "role_bit ?p' j n" "bit (hr_role_mask ?h') j" using roles [of j n] m [of j] j k by simp_all
      then show "\<exists>k. bit (hr_role_mask ?h') k \<and> role_bit ?p' k n" by blast
    qed
    then show "bit (human_permissions ?p' ?h') n = bit (human_permissions p ?h) n"
      using live_permissions_bit [OF valid(2) i' n] live_permissions_bit [OF valid(1) i n] by (simp add: h')
  qed
  then show ?thesis by (simp add: same_rights_def h')
qed

end
