(* ===== verification/Admin_Safety.thy ===== *)
theory Admin_Safety
  imports Security_Admin_Props
begin

text \<open>
  What the administration of accounts guarantees as a whole: every successful operation applies a
  change to the directory it was computed from; no change gives an account an effective
  permission that it did not have and that the actor may not give; and every operation but the
  assignment of roles leaves an administrator.
\<close>

section \<open>The operations as data\<close>

datatype human_admin_op =
    CREATE_HUMAN "u8 list" "u8 list" "u8 list" "u8 list" security_level permission_set "u8 list"
  | SET_ENABLED "u8 list" bool
  | REPLACE_PASSWORD "u8 list" "u8 list"
  | REPLACE_OWN_PASSWORD "u8 list"
  | UPDATE_DISPLAY_NAME "u8 list" "u8 list"
  | ASSIGN_CUSTOM_ROLES "u8 list" u16
  | DELETE_HUMAN "u8 list"
  | CREATE_ROLE "u8 list" security_level permission_set permission_set
  | DELETE_ROLE "u8 list"

fun run_human_admin ::
  "'n admin_env \<Rightarrow> principal option \<Rightarrow> human_admin_op \<Rightarrow> 'n admin_state \<Rightarrow> esp_err \<times> 'n admin_state" where
  "run_human_admin env actor (CREATE_HUMAN u login name scope level direct password) st =
     argus_security_admin_create_human env actor u login name scope level direct password st"
| "run_human_admin env actor (SET_ENABLED u enabled) st = argus_security_admin_set_enabled env actor u enabled st"
| "run_human_admin env actor (REPLACE_PASSWORD u password) st = argus_security_admin_replace_password env actor u password st"
| "run_human_admin env actor (REPLACE_OWN_PASSWORD password) st = argus_security_admin_replace_own_password env actor password st"
| "run_human_admin env actor (UPDATE_DISPLAY_NAME u name) st = argus_security_admin_update_display_name env actor u name st"
| "run_human_admin env actor (ASSIGN_CUSTOM_ROLES u m) st = argus_security_admin_assign_custom_roles env actor u m st"
| "run_human_admin env actor (DELETE_HUMAN u) st = argus_security_admin_delete_human env actor u st"
| "run_human_admin env actor (CREATE_ROLE r level permissions delegable) st =
     argus_security_admin_create_role env actor r level permissions delegable st"
| "run_human_admin env actor (DELETE_ROLE r) st = argus_security_admin_delete_role env actor r st"

section \<open>The change behind a success\<close>

definition may_target :: "principal \<Rightarrow> human_payload \<Rightarrow> nat \<Rightarrow> bool" where
  "may_target a p i \<longleftrightarrow> i < unat (hy_human_count p)
     \<and> target_authorized a (security_level_of (unat (hr_level (hy_humans p ! i)))) (hr_scope (hy_humans p ! i))
         (hr_protected_identity (hy_humans p ! i) \<noteq> 0) (human_permissions p (hy_humans p ! i)) = ESP_OK"

definition roles_exist :: "human_payload \<Rightarrow> u16 \<Rightarrow> bool" where
  "roles_exist p m \<longleftrightarrow>
     m AND NOT (if unat (hy_custom_role_count p) = 0 then 0 else push_bit (unat (hy_custom_role_count p)) 1 - 1) = 0"

fun human_change :: "principal \<Rightarrow> human_admin_op \<Rightarrow> human_payload \<Rightarrow> human_payload \<Rightarrow> bool" where
  "human_change a (CREATE_HUMAN u login name scope level direct password) p p' \<longleftrightarrow>
     (\<exists>normalized generation v. target_authorized a level scope False (requested_permissions level direct) = ESP_OK
        \<and> level \<le> LEVEL_VIEWER \<and> unat (hy_human_count p) < SECURITY_MAX_HUMANS
        \<and> p' = add_human (created_human u normalized name scope level direct generation v) p)"
| "human_change a (SET_ENABLED u enabled) p p' \<longleftrightarrow>
     (\<exists>i. may_target a p i \<and> (enabled \<or> \<not> argus_security_admin_removal_would_lock_out p i)
        \<and> p' = replace_human i (enabled_human enabled (hy_humans p ! i)) p)"
| "human_change a (REPLACE_PASSWORD u password) p p' \<longleftrightarrow>
     (\<exists>i v. may_target a p i \<and> p' = replace_human i (rekeyed_human v (hy_humans p ! i)) p)"
| "human_change a (REPLACE_OWN_PASSWORD password) p p' \<longleftrightarrow>
     (\<exists>i v. i < unat (hy_human_count p) \<and> p' = replace_human i (rekeyed_human v (hy_humans p ! i)) p)"
| "human_change a (UPDATE_DISPLAY_NAME u name) p p' \<longleftrightarrow>
     (\<exists>i shown. may_target a p i \<and> p' = replace_human i ((hy_humans p ! i)\<lparr> hr_display_name := shown \<rparr>) p)"
| "human_change a (ASSIGN_CUSTOM_ROLES u m) p p' \<longleftrightarrow>
     (\<exists>i. may_target a p i \<and> roles_exist p m
        \<and> (custom_role_permissions p m = 0
           \<or> argus_authorization_delegate (Some a) (security_level_of (unat (hr_level (hy_humans p ! i))))
               (Some (hr_scope (hy_humans p ! i))) (custom_role_permissions p m) = AUTHZ_ALLOW)
        \<and> p' = replace_human i (roled_human m (hy_humans p ! i)) p)"
| "human_change a (DELETE_HUMAN u) p p' \<longleftrightarrow>
     (\<exists>i. may_target a p i \<and> \<not> argus_security_admin_removal_would_lock_out p i \<and> p' = remove_human i p)"
| "human_change a (CREATE_ROLE r level permissions delegable) p p' \<longleftrightarrow>
     unat (hy_custom_role_count p) < CUSTOM_ROLE_CAPACITY \<and> p' = add_role (created_role r level permissions delegable) p"
| "human_change a (DELETE_ROLE r) p p' \<longleftrightarrow>
     (\<exists>i<unat (hy_custom_role_count p).
        list_all (\<lambda>h. hr_role_mask h AND push_bit (i + BUILTIN_ROLE_COUNT) 1 = 0) (live_humans p) \<and> p' = remove_role i p)"

text \<open>The directory of a state after a commit of \<open>p'\<close> over the directory that the state served.\<close>

definition installed :: "'n admin_env \<Rightarrow> 'n admin_state \<Rightarrow> human_payload \<Rightarrow> 'n admin_state \<Rightarrow> bool" where
  "installed env st p' st' \<longleftrightarrow>
     (\<exists>before fin. ad_directory before = ad_directory st
        \<and> commit_humans env p' (hu_generation (ad_directory st)) before = (ESP_OK, fin)
        \<and> ad_directory st' \<in> {ad_directory fin, ad_directory (ae_after env fin)})"

lemma installed_commit:
  "commit_humans env p' (hu_generation (ad_directory st)) before = (ESP_OK, st') \<Longrightarrow> ad_directory before = ad_directory st \<Longrightarrow>
     installed env st p' st'"
  by (auto simp: installed_def)

lemma installed_revoke:
  assumes "commit_and_revoke env u p' (hu_generation (ad_directory st)) before = (ESP_OK, st')" "ad_directory before = ad_directory st"
  shows "installed env st p' st'"
  using assms unfolding commit_and_revoke_def installed_def
  by (cases "commit_humans env p' (hu_generation (ad_directory st)) before") (force simp: Let_def split: if_splits)

lemma new_verifier_directory: "new_verifier env password st = (r, st1) \<Longrightarrow> ad_directory st1 = ad_directory st"
  by (auto simp: new_verifier_def split: prod.splits)

lemma snapshot_read:
  "directory_snapshot_alloc env st = Inr (p, generation) \<longleftrightarrow>
     ae_memory env \<and> hu_initialized (ad_directory st) \<and> p = hu_snapshot (ad_directory st) \<and> generation = hu_generation (ad_directory st)"
  by (auto simp: directory_snapshot_alloc_def argus_security_directory_get_snapshot_def)

lemma read_errors [simp]: "directory_snapshot_alloc env st \<noteq> Inl ESP_OK" "snapshot_target env actor u st \<noteq> Inl ESP_OK"
proof -
  show r: "directory_snapshot_alloc env st \<noteq> Inl ESP_OK" for env :: "'n admin_env" and st
    by (simp add: directory_snapshot_alloc_def argus_security_directory_get_snapshot_def)
  show "snapshot_target env actor u st \<noteq> Inl ESP_OK"
    by (auto simp: snapshot_target_def Let_def r split: option.splits sum.splits)
qed

lemma find_index_Some: "find P [0..<n] = Some i \<Longrightarrow> i < n \<and> P i"
  by (auto simp: find_Some_iff)

lemma snapshot_target_Inr:
  assumes "snapshot_target env actor u st = Inr (p, generation, i)"
  shows "\<exists>a. actor = Some a \<and> p = hu_snapshot (ad_directory st) \<and> generation = hu_generation (ad_directory st) \<and> may_target a p i"
  using assms
  by (auto simp: snapshot_target_def snapshot_read may_target_def Let_def dest!: find_index_Some
      split: option.splits if_splits sum.splits)

definition changes :: "'n admin_env \<Rightarrow> principal option \<Rightarrow> human_admin_op \<Rightarrow> 'n admin_state \<Rightarrow> 'n admin_state \<Rightarrow> bool" where
  "changes env actor op st st' \<longleftrightarrow>
     (\<exists>a p'. actor = Some a \<and> installed env st p' st' \<and> human_change a op (hu_snapshot (ad_directory st)) p')"

lemma changesI:
  "actor = Some a \<Longrightarrow> installed env st p' st' \<Longrightarrow> human_change a op (hu_snapshot (ad_directory st)) p' \<Longrightarrow> changes env actor op st st'"
  by (auto simp: changes_def)

lemma create_human_changes:
  assumes "argus_security_admin_create_human env actor u login name scope level direct password st = (ESP_OK, st')"
  shows "changes env actor (CREATE_HUMAN u login name scope level direct password) st st'"
proof -
  obtain a normalized where a: "actor = Some a" "argus_auth_canonicalize_login login = Some normalized"
    using assms by (auto simp: argus_security_admin_create_human_def split: option.splits)
  have ok: "\<not> level > LEVEL_VIEWER" "target_authorized a level scope False (requested_permissions level direct) = ESP_OK"
    using assms a by (auto simp: argus_security_admin_create_human_def Let_def split: if_splits)
  obtain p generation where s: "directory_snapshot_alloc env st = Inr (p, generation)"
    using assms a ok by (auto simp: argus_security_admin_create_human_def Let_def split: if_splits sum.splits)
  obtain err v st1 where v: "new_verifier env password st = ((err, v), st1)" by (metis prod.exhaust)
  have c: "unat (hy_human_count p) < 16"
      "commit_humans env (add_human (created_human u normalized name scope level direct generation v) p) generation st1 = (ESP_OK, st')"
    using assms a ok s v by (auto simp: argus_security_admin_create_human_def Let_def not_le split: if_splits)
  show ?thesis
    using s c ok by (intro changesI [OF a(1) installed_commit [OF _ new_verifier_directory [OF v]]])
      (auto simp: snapshot_read not_less)
qed

lemma set_enabled_changes:
  assumes "argus_security_admin_set_enabled env actor u enabled st = (ESP_OK, st')"
  shows "changes env actor (SET_ENABLED u enabled) st st'"
proof -
  obtain p generation i where t: "snapshot_target env actor u st = Inr (p, generation, i)"
    using assms by (auto simp: argus_security_admin_set_enabled_def split: sum.splits)
  obtain a where a: "actor = Some a" "p = hu_snapshot (ad_directory st)" "generation = hu_generation (ad_directory st)" "may_target a p i"
    using snapshot_target_Inr [OF t] by auto
  have "enabled \<or> \<not> argus_security_admin_removal_would_lock_out p i"
      "commit_and_revoke env u (replace_human i (enabled_human enabled (hy_humans p ! i)) p) generation st = (ESP_OK, st')"
    using assms t by (auto simp: argus_security_admin_set_enabled_def split: if_splits)
  then show ?thesis using a by (intro changesI [OF a(1) installed_revoke]) auto
qed

lemma replace_password_changes:
  assumes "argus_security_admin_replace_password env actor u password st = (ESP_OK, st')"
  shows "changes env actor (REPLACE_PASSWORD u password) st st'"
proof -
  obtain p generation i where t: "snapshot_target env actor u st = Inr (p, generation, i)"
    using assms by (auto simp: argus_security_admin_replace_password_def split: sum.splits if_splits)
  obtain a where a: "actor = Some a" "p = hu_snapshot (ad_directory st)" "generation = hu_generation (ad_directory st)" "may_target a p i"
    using snapshot_target_Inr [OF t] by auto
  obtain err v st1 where v: "new_verifier env password st = ((err, v), st1)" by (metis prod.exhaust)
  have "commit_and_revoke env u (replace_human i (rekeyed_human v (hy_humans p ! i)) p) generation st1 = (ESP_OK, st')"
    using assms t v by (auto simp: argus_security_admin_replace_password_def split: if_splits)
  then show ?thesis using a by (intro changesI [OF a(1) installed_revoke [OF _ new_verifier_directory [OF v]]]) auto
qed

lemma replace_own_password_changes:
  assumes "argus_security_admin_replace_own_password env actor password st = (ESP_OK, st')"
  shows "changes env actor (REPLACE_OWN_PASSWORD password) st st'"
proof -
  obtain a where a: "actor = Some a"
    using assms by (auto simp: argus_security_admin_replace_own_password_def split: option.splits)
  obtain p generation where s: "directory_snapshot_alloc env st = Inr (p, generation)"
    using assms a by (auto simp: argus_security_admin_replace_own_password_def split: if_splits sum.splits)
  obtain i where i: "find (\<lambda>i. cstr (hr_identifier (hy_humans p ! i)) = cstr (pr_identifier a)) [0..<unat (hy_human_count p)] = Some i"
    using assms a s by (auto simp: argus_security_admin_replace_own_password_def split: if_splits option.splits)
  obtain err v st1 where v: "new_verifier env password st = ((err, v), st1)" by (metis prod.exhaust)
  have "commit_and_revoke env (pr_identifier a) (replace_human i (rekeyed_human v (hy_humans p ! i)) p) generation st1 = (ESP_OK, st')"
    using assms a s i v by (auto simp: argus_security_admin_replace_own_password_def split: if_splits)
  then show ?thesis
    using a s find_index_Some [OF i]
    by (intro changesI [OF a installed_revoke [OF _ new_verifier_directory [OF v]]]) (auto simp: snapshot_read)
qed

lemma update_display_name_changes:
  assumes "argus_security_admin_update_display_name env actor u name st = (ESP_OK, st')"
  shows "changes env actor (UPDATE_DISPLAY_NAME u name) st st'"
proof -
  obtain p generation i where t: "snapshot_target env actor u st = Inr (p, generation, i)"
    using assms by (auto simp: argus_security_admin_update_display_name_def split: sum.splits if_splits)
  obtain a where a: "actor = Some a" "p = hu_snapshot (ad_directory st)" "generation = hu_generation (ad_directory st)" "may_target a p i"
    using snapshot_target_Inr [OF t] by auto
  obtain shown where "commit_humans env (replace_human i ((hy_humans p ! i)\<lparr> hr_display_name := shown \<rparr>) p) generation st = (ESP_OK, st')"
    using assms t by (auto simp: argus_security_admin_update_display_name_def Let_def split: if_splits)
  then show ?thesis using a by (intro changesI [OF a(1) installed_commit]) auto
qed

lemma assign_custom_roles_changes:
  assumes "argus_security_admin_assign_custom_roles env actor u m st = (ESP_OK, st')"
  shows "changes env actor (ASSIGN_CUSTOM_ROLES u m) st st'"
proof -
  obtain p generation i where t: "snapshot_target env actor u st = Inr (p, generation, i)"
    using assms by (auto simp: argus_security_admin_assign_custom_roles_def split: sum.splits)
  obtain a where a: "actor = Some a" "p = hu_snapshot (ad_directory st)" "generation = hu_generation (ad_directory st)" "may_target a p i"
    using snapshot_target_Inr [OF t] by auto
  have "commit_and_revoke env u (replace_human i (roled_human m (hy_humans p ! i)) p) generation st = (ESP_OK, st')"
      "roles_exist p m" "custom_role_permissions p m = 0
        \<or> argus_authorization_delegate (Some a) (security_level_of (unat (hr_level (hy_humans p ! i))))
            (Some (hr_scope (hy_humans p ! i))) (custom_role_permissions p m) = AUTHZ_ALLOW"
    using assms t a(1) unfolding argus_security_admin_assign_custom_roles_def roles_exist_def Let_def by (auto split: if_splits)
  then show ?thesis using a by (intro changesI [OF a(1) installed_revoke]) auto
qed

lemma delete_human_changes:
  assumes "argus_security_admin_delete_human env actor u st = (ESP_OK, st')"
  shows "changes env actor (DELETE_HUMAN u) st st'"
proof -
  obtain p generation i where t: "snapshot_target env actor u st = Inr (p, generation, i)"
    using assms by (auto simp: argus_security_admin_delete_human_def split: sum.splits)
  obtain a where a: "actor = Some a" "p = hu_snapshot (ad_directory st)" "generation = hu_generation (ad_directory st)" "may_target a p i"
    using snapshot_target_Inr [OF t] by auto
  have "\<not> argus_security_admin_removal_would_lock_out p i"
      "commit_and_revoke env u (remove_human i p) generation st = (ESP_OK, st')"
    using assms t by (auto simp: argus_security_admin_delete_human_def split: if_splits)
  then show ?thesis using a by (intro changesI [OF a(1) installed_revoke]) auto
qed

lemma create_role_changes:
  assumes "argus_security_admin_create_role env actor r level permissions delegable st = (ESP_OK, st')"
  shows "changes env actor (CREATE_ROLE r level permissions delegable) st st'"
proof -
  obtain a where a: "actor = Some a"
    using assms by (auto simp: argus_security_admin_create_role_def split: option.splits)
  obtain p generation where s: "directory_snapshot_alloc env st = Inr (p, generation)"
    using assms a by (auto simp: argus_security_admin_create_role_def split: if_splits sum.splits)
  have "unat (hy_custom_role_count p) < 10"
      "commit_humans env (add_role (created_role r level permissions delegable) p) generation st = (ESP_OK, st')"
    using assms a s by (auto simp: argus_security_admin_create_role_def not_le split: if_splits)
  then show ?thesis using s by (intro changesI [OF a installed_commit]) (auto simp: snapshot_read)
qed

lemma delete_role_changes:
  assumes "argus_security_admin_delete_role env actor r st = (ESP_OK, st')"
  shows "changes env actor (DELETE_ROLE r) st st'"
proof -
  obtain a where a: "actor = Some a"
    using assms by (cases actor) (auto simp: argus_security_admin_delete_role_def argus_authorization_principal_valid_def)
  obtain p generation where s: "directory_snapshot_alloc env st = Inr (p, generation)"
    using assms by (auto simp: argus_security_admin_delete_role_def split: if_splits sum.splits)
  obtain i where i: "find (\<lambda>i. cstr (rr_identifier (hy_custom_roles p ! i)) = cstr r) [0..<unat (hy_custom_role_count p)] = Some i"
    using assms s by (auto simp: argus_security_admin_delete_role_def split: if_splits option.splits)
  have "list_all (\<lambda>h. hr_role_mask h AND push_bit (i + BUILTIN_ROLE_COUNT) 1 = 0) (live_humans p)"
      "commit_humans env (remove_role i p) generation st = (ESP_OK, st')"
    using assms s i by (auto simp: argus_security_admin_delete_role_def live_humans_def list_ex_iff list_all_iff split: if_splits)
  then show ?thesis
    using s find_index_Some [OF i] by (intro changesI [OF a installed_commit]) (auto simp: snapshot_read)
qed

lemmas admin_changes = create_human_changes set_enabled_changes replace_password_changes replace_own_password_changes
  update_display_name_changes assign_custom_roles_changes delete_human_changes create_role_changes delete_role_changes

lemma run_changes: "run_human_admin env actor op st = (ESP_OK, st') \<Longrightarrow> changes env actor op st st'"
  by (cases op) (simp_all add: admin_changes)

section \<open>No escalation\<close>

text \<open>What an account can do: nothing while it is disabled or revoked.\<close>

definition effective :: "human_payload \<Rightarrow> human_record \<Rightarrow> permission_set" where
  "effective p h = (if hr_enabled h \<noteq> 0 \<and> hr_revoked h = 0 then human_permissions p h else 0)"

definition may_give :: "principal \<Rightarrow> security_level \<Rightarrow> nat \<Rightarrow> bool" where
  "may_give a level n \<longleftrightarrow>
     (if n = 8 then pr_level a = LEVEL_ARGUS_PERSONNEL \<and> level = LEVEL_CLIENT_ADMIN
      else bit (pr_permissions a) n \<and> bit (pr_delegable_permissions a) n)"

definition account_kept :: "principal \<Rightarrow> human_payload \<Rightarrow> human_payload \<Rightarrow> human_record \<Rightarrow> bool" where
  "account_kept a p p' h' \<longleftrightarrow>
     list_all (\<lambda>n. bit (effective p' h') n \<longrightarrow>
       list_ex (\<lambda>h. cstr (hr_identifier h) = cstr (hr_identifier h') \<and> bit (effective p h) n) (live_humans p)
       \<or> may_give a (security_level_of (unat (hr_level h'))) n) [0..<64]"

definition no_escalation :: "principal \<Rightarrow> human_payload \<Rightarrow> human_payload \<Rightarrow> bool" where
  "no_escalation a p p' \<longleftrightarrow> list_all (account_kept a p p') (live_humans p')"

lemma effective_same: "same_rights p h p' h' \<Longrightarrow> effective p' h' = effective p h"
  by (simp add: same_rights_def effective_def)

lemma kept_same: "h \<in> set (live_humans p) \<Longrightarrow> same_rights p h p' h' \<Longrightarrow> account_kept a p p' h'"
  using effective_same [of p h p' h'] by (auto simp: account_kept_def list_all_iff list_ex_iff same_rights_def)

lemma kept_given:
  assumes "\<And>n. n < 64 \<Longrightarrow> bit (effective p' h') n \<Longrightarrow> may_give a (security_level_of (unat (hr_level h'))) n"
  shows "account_kept a p p' h'"
  using assms by (auto simp: account_kept_def list_all_iff)

lemma human_member:
  "argus_security_directory_payload_valid p \<Longrightarrow> humans_shaped p \<Longrightarrow> i < unat (hy_human_count p) \<Longrightarrow> hy_humans p ! i \<in> set (live_humans p)"
  by (metis live_nth nth_mem)

lemma live_index:
  assumes "h \<in> set (live_humans p)" "argus_security_directory_payload_valid p" "humans_shaped p"
  obtains i where "i < unat (hy_human_count p)" "h = hy_humans p ! i"
  using assms live_nth [of p] by (metis in_set_conv_nth)

lemma target_gives:
  assumes "target_authorized a level scope prot requested = ESP_OK" "bit requested n"
  shows "may_give a level n"
proof (cases "n = 8")
  case True
  then have "requested AND PERMISSION_MANAGE_CLIENT_ADMINS \<noteq> 0"
    using assms(2) mask_bit [of requested 8] by (simp add: permission_bit_def)
  then show ?thesis using assms(1) True by (auto simp: target_authorized_def may_give_def Let_def split: if_splits)
next
  case False
  let ?rest = "requested AND NOT PERMISSION_MANAGE_CLIENT_ADMINS"
  have n: "n < 64" using bit_imp_le_length [OF assms(2)] by simp
  then have "bit ?rest n"
    using assms(2) False unfolding permission_bit_def bit_and_iff bit_not_iff bit_push_bit_iff bit_1_iff by auto
  moreover from this have "?rest \<noteq> 0" by (metis bit_0_eq bot_apply bot_bool_def)
  ultimately show ?thesis
    using assms(1) n False delegate_allows(1,2) [of a level scope ?rest]
    by (auto simp: target_authorized_def may_give_def Let_def perm_subset_iff split: if_splits)
qed

lemma replaced_kept:
  assumes valid: "argus_security_directory_payload_valid p" and shaped: "humans_shaped p"
    and new: "account_kept a p (replace_human i h p) h"
  shows "no_escalation a p (replace_human i h p)"
proof -
  have "account_kept a p (replace_human i h p) h'" if "h' \<in> set (live_humans (replace_human i h p))" for h'
  proof -
    have "h' = h \<or> h' \<in> set (live_humans p)" using that set_update_subset_insert [of "live_humans p" i h] by (auto simp: live_replace_human)
    then show ?thesis using new kept_same [OF _ same_rights_refl_replace] by auto
  qed
  then show ?thesis by (simp add: no_escalation_def list_all_iff)
qed

lemma level_of_rank: "level \<le> LEVEL_VIEWER \<Longrightarrow> security_level_of (unat (of_nat (level_rank level) :: u8)) = level"
  by (cases level) (simp_all add: security_level_of_def level_order)

lemma rank_of_level: "level \<le> LEVEL_VIEWER \<Longrightarrow> security_level_of (level_rank level) = level \<and> level_rank level \<le> 4"
  by (cases level) (simp_all add: security_level_of_def level_order)

lemma created_permissions:
  assumes "level \<le> LEVEL_VIEWER" "n < 64"
  shows "bit (human_permissions p (created_human u login name scope level direct generation v)) n
    \<longleftrightarrow> bit (requested_permissions level direct) n"
proof -
  let ?h = "created_human u login name scope level direct generation v"
  have "hr_role_mask ?h = push_bit (level_rank level) 1" by (simp add: created_human_def)
  then have m: "bit (hr_role_mask ?h) k \<longleftrightarrow> k = level_rank level" for k
    using rank_of_level [OF assms(1)] by (simp only: bit_push_bit_iff bit_1_iff) auto
  have "bit (human_permissions p ?h) n \<longleftrightarrow> bit direct n \<or> role_bit p (level_rank level) n"
    using human_permissions_bit [of ?h p n] assms(2) rank_of_level [OF assms(1)] unfolding m by (auto simp: created_human_def)
  then show ?thesis
    using rank_of_level [OF assms(1)] by (auto simp: role_bit_def role_permissions_def requested_permissions_def bit_or_iff)
qed

lemma custom_role_permissions_bit:
  "bit (custom_role_permissions p m) n \<longleftrightarrow> (\<exists>j<unat (hy_custom_role_count p). bit m j \<and> bit (rr_permissions (hy_custom_roles p ! j)) n)"
proof -
  have "bit (fold (\<lambda>i acc. if m AND push_bit i 1 \<noteq> 0 then acc OR rr_permissions (hy_custom_roles p ! i) else acc) ks acc) n
    \<longleftrightarrow> bit acc n \<or> (\<exists>j\<in>set ks. bit m j \<and> bit (rr_permissions (hy_custom_roles p ! j)) n)" for ks acc
    unfolding mask_bit by (induction ks arbitrary: acc) (auto simp: bit_or_iff)
  then show ?thesis unfolding custom_role_permissions_def by (simp add: Bex_def atLeast0LessThan)
qed

lemma roles_exist_bit:
  assumes "roles_exist p m" "unat (hy_custom_role_count p) \<le> 10" "bit m j"
  shows "j < unat (hy_custom_role_count p)"
proof -
  have "(if unat (hy_custom_role_count p) = 0 then 0 else push_bit (unat (hy_custom_role_count p)) 1 - 1)
      = (Bit_Operations.mask (unat (hy_custom_role_count p)) :: u16)"
    by (simp add: mask_eq_exp_minus_1 push_bit_of_1)
  then have "bit (Bit_Operations.mask (unat (hy_custom_role_count p)) :: u16) j"
    using mask_within [OF _ assms(3)] assms(1) by (simp only: roles_exist_def)
  then show ?thesis by (simp add: bit_mask_iff)
qed

text \<open>An account after an assignment has its direct permissions, those of its level, and those of the roles.\<close>

lemma assigned_permissions:
  assumes valid: "argus_security_directory_payload_valid p" and i: "i < unat (hy_human_count p)"
    and m: "roles_exist p m" and n: "n < 64"
    and given: "bit (human_permissions p (roled_human m (hy_humans p ! i))) n"
  shows "bit (human_permissions p (hy_humans p ! i)) n \<or> bit (custom_role_permissions p m) n"
proof -
  let ?h = "hy_humans p ! i" and ?c = "unat (hy_custom_role_count p)"
  let ?l = "unat (hr_level ?h)"
  have c: "?c \<le> 10" using payload_counts [OF valid] by simp
  have l: "?l \<le> 4" using live_valid(1) [OF valid i] by (auto simp: argus_security_human_record_valid_def word_le_nat_alt)
  have "hr_role_mask (roled_human m ?h) = push_bit ?l 1 OR push_bit 6 m" by (simp add: roled_human_def)
  then have bits: "bit (hr_role_mask (roled_human m ?h)) k \<longleftrightarrow> k = ?l \<or> (6 \<le> k \<and> k < 16 \<and> bit m (k - 6))" for k
    using l by (simp only: bit_or_iff bit_push_bit_iff bit_1_iff) auto
  have "\<forall>k<16. bit (hr_role_mask (roled_human m ?h)) k \<longrightarrow> k < 6 + ?c"
    using roles_exist_bit [OF m c] l unfolding bits by fastforce
  from human_permissions_bit [OF this n] given
  consider "bit (hr_direct_permissions ?h) n" | "role_bit p ?l n" | k where "6 \<le> k" "bit m (k - 6)" "role_bit p k n"
    unfolding bits by (auto simp: roled_human_def)
  then show ?thesis
  proof cases
    case 3
    then have "k - 6 < ?c" "bit (rr_permissions (hy_custom_roles p ! (k - 6))) n"
      using roles_exist_bit [OF m c] by (auto simp: role_bit_def role_permissions_def Let_def split: if_splits)
    then show ?thesis using 3(2) by (auto simp: custom_role_permissions_bit)
  qed (use live_permissions_bit [OF valid i n] live_valid(3) [OF valid i] in auto)
qed

lemma created_kept:
  assumes "target_authorized a level scope False (requested_permissions level direct) = ESP_OK" "level \<le> LEVEL_VIEWER"
    and "h = created_human u login name scope level direct generation v"
  shows "account_kept a p (add_human h q) h"
proof (rule kept_given)
  fix n :: nat assume "n < 64" "bit (effective (add_human h q) h) n"
  then have "bit (requested_permissions level direct) n"
    using created_permissions [OF assms(2)] assms(3) by (auto simp: effective_def split: if_splits)
  moreover have "security_level_of (unat (hr_level h)) = level"
    using level_of_rank [OF assms(2)] assms(3) by (simp add: created_human_def)
  ultimately show "may_give a (security_level_of (unat (hr_level h))) n" using target_gives [OF assms(1)] by simp
qed

lemma enabled_kept:
  assumes "may_target a p i" "h = enabled_human e (hy_humans p ! i)"
  shows "account_kept a p (replace_human i h p) h"
proof (rule kept_given)
  fix n :: nat assume "bit (effective (replace_human i h p) h) n"
  moreover have "human_permissions (replace_human i h p) h = human_permissions p (hy_humans p ! i)"
    using assms(2) by (intro human_permissions_roles) (simp_all add: enabled_human_def)
  ultimately have "bit (human_permissions p (hy_humans p ! i)) n" by (auto simp: effective_def split: if_splits)
  then show "may_give a (security_level_of (unat (hr_level h))) n"
    using assms target_gives by (fastforce simp: may_target_def enabled_human_def)
qed

lemma assigned_kept:
  assumes valid: "argus_security_directory_payload_valid p" and t: "may_target a p i" and m: "roles_exist p m"
    and d: "custom_role_permissions p m = 0
      \<or> argus_authorization_delegate (Some a) (security_level_of (unat (hr_level (hy_humans p ! i))))
          (Some (hr_scope (hy_humans p ! i))) (custom_role_permissions p m) = AUTHZ_ALLOW"
    and h: "h = roled_human m (hy_humans p ! i)"
  shows "account_kept a p (replace_human i h p) h"
proof (rule kept_given)
  fix n :: nat assume n: "n < 64" and e: "bit (effective (replace_human i h p) h) n"
  have "human_permissions (replace_human i h p) h = human_permissions p h" by (rule human_permissions_roles) simp_all
  then have "bit (human_permissions p h) n" using e by (auto simp: effective_def split: if_splits)
  then consider "bit (human_permissions p (hy_humans p ! i)) n" | "bit (custom_role_permissions p m) n"
    using assigned_permissions [OF valid _ m n] t h by (auto simp: may_target_def)
  moreover have level: "hr_level h = hr_level (hy_humans p ! i)" by (simp add: h roled_human_def)
  ultimately show "may_give a (security_level_of (unat (hr_level h))) n"
  proof cases
    case 2
    then have a: "argus_authorization_delegate (Some a) (security_level_of (unat (hr_level (hy_humans p ! i))))
        (Some (hr_scope (hy_humans p ! i))) (custom_role_permissions p m) = AUTHZ_ALLOW" using d by auto
    note g = delegate_allows [OF a]
    have "n \<noteq> 8" using g(3) 2 mask_bit [of "custom_role_permissions p m" 8] by (auto simp: permission_bit_def)
    then show ?thesis using g(1,2) n 2 by (simp add: may_give_def perm_subset_iff)
  qed (use t target_gives in \<open>auto simp: may_target_def\<close>)
qed

lemma unchanged_kept:
  assumes "argus_security_directory_payload_valid p" "humans_shaped p" "i < unat (hy_human_count p)"
    and "cstr (hr_identifier h) = cstr (hr_identifier (hy_humans p ! i))" "hr_enabled h = hr_enabled (hy_humans p ! i)"
      "hr_revoked h = hr_revoked (hy_humans p ! i)" "hr_role_mask h = hr_role_mask (hy_humans p ! i)"
      "hr_direct_permissions h = hr_direct_permissions (hy_humans p ! i)"
  shows "no_escalation a p (replace_human i h p)"
  by (rule replaced_kept [OF assms(1,2)], rule kept_same [OF human_member [OF assms(1-3)]], rule same_rights_replace [OF assms(4-8)])

lemma change_no_escalation:
  assumes change: "human_change a op p p'"
    and valid: "argus_security_directory_payload_valid p" "humans_shaped p" "argus_security_directory_payload_valid p'"
  shows "no_escalation a p p'"
proof (cases op)
  case (CREATE_HUMAN u login name scope level direct password)
  then obtain normalized generation v where
    t: "target_authorized a level scope False (requested_permissions level direct) = ESP_OK" "level \<le> LEVEL_VIEWER"
    and n: "unat (hy_human_count p) < 16"
    and p': "p' = add_human (created_human u normalized name scope level direct generation v) p"
    using change by auto
  have "\<forall>h\<in>set (live_humans p). same_rights p h p' h" unfolding p' by (intro ballI same_rights_roles role_permissions_roles) (simp_all add: add_human_def)
  then show ?thesis
    using created_kept [OF t refl] kept_same unfolding p' no_escalation_def live_add [OF valid(2) n] by (auto simp: list_all_iff)
next
  case (SET_ENABLED u e)
  then show ?thesis using change by (auto intro!: replaced_kept [OF valid(1,2)] enabled_kept)
next
  case (REPLACE_PASSWORD u password)
  then show ?thesis
    using change unchanged_kept [OF valid(1,2)] by (auto simp: may_target_def rekeyed_human_def)
next
  case (REPLACE_OWN_PASSWORD password)
  then show ?thesis
    using change unchanged_kept [OF valid(1,2)] by (auto simp: rekeyed_human_def)
next
  case (UPDATE_DISPLAY_NAME u name)
  then show ?thesis
    using change unchanged_kept [OF valid(1,2)] by (auto simp: may_target_def)
next
  case (ASSIGN_CUSTOM_ROLES u m)
  then show ?thesis using change assigned_kept [OF valid(1) _ _ _ refl] by (auto intro!: replaced_kept [OF valid(1,2)])
next
  case (DELETE_HUMAN u)
  then obtain i where i: "i < unat (hy_human_count p)" "p' = remove_human i p" using change by (auto simp: may_target_def)
  have "same_rights p h p' h" for h
    unfolding i(2) by (intro same_rights_roles role_permissions_roles) (simp_all add: remove_human_def Let_def)
  moreover have "set (live_humans p') \<subseteq> set (live_humans p)"
    unfolding i(2) live_remove_human [OF valid(2,1) i(1)] using set_take_subset set_drop_subset by fastforce
  ultimately show ?thesis using kept_same by (fastforce simp: no_escalation_def list_all_iff)
next
  case (CREATE_ROLE r level permissions delegable)
  then have p': "unat (hy_custom_role_count p) < 10" "p' = add_role (created_role r level permissions delegable) p" using change by auto
  have "account_kept a p p' h" if "h \<in> set (live_humans p)" for h
    using that by (rule live_index [OF _ valid(1,2)])
      (use that kept_same same_rights_add_role valid p' in blast)
  moreover have "live_humans p' = live_humans p" by (simp add: p'(2) live_humans_def add_role_def)
  ultimately show ?thesis by (simp add: no_escalation_def list_all_iff)
next
  case (DELETE_ROLE r)
  then obtain i where i: "i < unat (hy_custom_role_count p)" "p' = remove_role i p"
      "list_all (\<lambda>h. hr_role_mask h AND push_bit (i + 6) 1 = 0) (live_humans p)" using change by auto
  have count: "hy_human_count p' = hy_human_count p" and shape: "humans_shaped p'"
    using valid(2) by (auto simp: i(2) remove_role_def humans_shaped_def Let_def)
  have "account_kept a p p' h" if h: "h \<in> set (live_humans p')" for h
  proof -
    obtain j where j: "j < unat (hy_human_count p)" "h = hy_humans p' ! j" using live_index [OF h valid(3) shape] count by metis
    have "\<not> bit (hr_role_mask (hy_humans p ! j)) (i + 6)"
      using i(3) human_member [OF valid(1,2) j(1)] mask_bit [of "hr_role_mask (hy_humans p ! j)" "i + 6"] by (simp add: list_all_iff)
    then have "same_rights p (hy_humans p ! j) p' h"
      using same_rights_remove_role [OF valid(1) _ valid(2) i(1) j(1)] valid(3) i(2) j(2) by simp
    then show ?thesis using kept_same human_member [OF valid(1,2) j(1)] by blast
  qed
  then show ?thesis by (simp add: no_escalation_def list_all_iff)
qed

section \<open>The directory after an operation\<close>

lemma change_shaped:
  assumes "human_change a op p p'" "humans_shaped p" "unat (hy_human_count p) \<le> 16"
  shows "humans_shaped p'"
  using assms
  by (cases op) (auto simp: humans_shaped_def add_human_def replace_human_def remove_human_def add_role_def remove_role_def Let_def)

lemma commit_humans_ok:
  assumes "commit_humans env p' generation before = (ESP_OK, fin)"
  shows "argus_security_directory_payload_valid p'" "hu_snapshot (ad_directory fin) = p'"
    "generation = hu_generation (ad_directory (ae_between env before))"
  using assms
  by (auto simp: commit_humans_def argus_security_directory_commit_def human_commit_locked_def Let_def split: prod.splits if_splits)

text \<open>What other tasks do before the commit either moves the generation on or keeps the directory.\<close>

definition generations_counted :: "'n admin_env \<Rightarrow> bool" where
  "generations_counted env \<longleftrightarrow>
     (\<forall>s. hu_generation (ad_directory (ae_between env s)) = hu_generation (ad_directory s)
          \<longrightarrow> hu_snapshot (ad_directory (ae_between env s)) = hu_snapshot (ad_directory s))"

text \<open>The facts that the claims share: a success is a change, applied to the directory that it was computed from.\<close>

lemma installed_over:
  assumes "installed env st p' st'" "generations_counted env"
  shows "\<exists>before fin. hu_snapshot (ad_directory (ae_between env before)) = hu_snapshot (ad_directory st)
    \<and> commit_humans env p' (hu_generation (ad_directory st)) before = (ESP_OK, fin) \<and> hu_snapshot (ad_directory fin) = p'
    \<and> ad_directory st' \<in> {ad_directory fin, ad_directory (ae_after env fin)}"
proof -
  obtain before fin where i: "ad_directory before = ad_directory st"
      "commit_humans env p' (hu_generation (ad_directory st)) before = (ESP_OK, fin)"
      "ad_directory st' \<in> {ad_directory fin, ad_directory (ae_after env fin)}"
    using assms(1) by (auto simp: installed_def)
  then have "hu_snapshot (ad_directory (ae_between env before)) = hu_snapshot (ad_directory st)"
    using commit_humans_ok(3) [OF i(2)] assms(2) unfolding generations_counted_def by metis
  then show ?thesis using i commit_humans_ok(2) [OF i(2)] by blast
qed

lemma installed_valid: "installed env st p' st' \<Longrightarrow> argus_security_directory_payload_valid p'"
  by (auto simp: installed_def dest: commit_humans_ok)

section \<open>Administrators\<close>

definition has_administrator :: "human_payload \<Rightarrow> bool" where
  "has_administrator p \<longleftrightarrow> list_ex (is_enabled_human_admin p) (live_humans p)"

lemma admin_same: "same_rights p h p' h' \<Longrightarrow> is_enabled_human_admin p' h' = is_enabled_human_admin p h"
  by (simp add: same_rights_def is_enabled_human_admin_def)

lemma has_administratorI: "h \<in> set (live_humans p) \<Longrightarrow> is_enabled_human_admin p h \<Longrightarrow> has_administrator p"
  by (auto simp: has_administrator_def list_ex_iff)

text \<open>An account whose removal is allowed is not the only administrator.\<close>

lemma other_administrator:
  assumes valid: "argus_security_directory_payload_valid p" "humans_shaped p" "has_administrator p"
    and ok: "\<not> argus_security_admin_removal_would_lock_out p i" "i < unat (hy_human_count p)"
  shows "\<exists>j<unat (hy_human_count p). j \<noteq> i \<and> is_enabled_human_admin p (hy_humans p ! j)"
proof -
  let ?n = "unat (hy_human_count p)" and ?A = "\<lambda>j. is_enabled_human_admin p (hy_humans p ! j)"
  obtain j where j: "j < ?n" "?A j" using valid(3) live_index [OF _ valid(1,2)] by (auto simp: has_administrator_def list_ex_iff)
  have "length (filter ?A [0..<?n]) = card {j. j < ?n \<and> ?A j}"
    using distinct_card [of "filter ?A [0..<?n]"] by (simp add: conj_commute)
  moreover have "{j. j < ?n \<and> ?A j} = {i}" if "\<forall>j<?n. j \<noteq> i \<longrightarrow> \<not> ?A j" using that j by auto
  ultimately have "argus_security_admin_removal_would_lock_out p i" if "\<forall>j<?n. j \<noteq> i \<longrightarrow> \<not> ?A j"
    using that j ok(2) by (auto simp: argus_security_admin_removal_would_lock_out_def Let_def not_le)
  then show ?thesis using ok(1) by auto
qed

lemma replaced_administrator:
  assumes valid: "argus_security_directory_payload_valid p" "humans_shaped p" "i < unat (hy_human_count p)"
    and some: "(\<exists>j<unat (hy_human_count p). j \<noteq> i \<and> is_enabled_human_admin p (hy_humans p ! j)) \<or> is_enabled_human_admin p h"
  shows "has_administrator (replace_human i h p)"
proof -
  have same: "is_enabled_human_admin (replace_human i h p) x = is_enabled_human_admin p x" for x
    by (rule admin_same [OF same_rights_refl_replace])
  have member: "(live_humans p)[i := h] ! j \<in> set (live_humans (replace_human i h p))" if "j < unat (hy_human_count p)" for j
    using that live_nth(1) [OF valid(1,2)] unfolding live_replace_human by (metis length_list_update nth_mem)
  from some show ?thesis
  proof
    assume "\<exists>j<unat (hy_human_count p). j \<noteq> i \<and> is_enabled_human_admin p (hy_humans p ! j)"
    then obtain j where j: "j < unat (hy_human_count p)" "j \<noteq> i" "is_enabled_human_admin p (hy_humans p ! j)" by blast
    then show ?thesis using member [OF j(1)] live_nth(2) [OF valid(1,2) j(1)] same by (auto intro: has_administratorI)
  next
    assume "is_enabled_human_admin p h"
    then show ?thesis
      using member [OF valid(3)] live_nth(1) [OF valid(1,2)] valid(3) same by (auto intro: has_administratorI)
  qed
qed

lemma administrator_index:
  assumes "has_administrator p" "argus_security_directory_payload_valid p" "humans_shaped p"
  obtains j where "j < unat (hy_human_count p)" "is_enabled_human_admin p (hy_humans p ! j)"
  using assms live_index [OF _ assms(2,3)] by (auto simp: has_administrator_def list_ex_iff)

lemma unchanged_administrator:
  assumes "argus_security_directory_payload_valid p" "humans_shaped p" "has_administrator p" "i < unat (hy_human_count p)"
    and "hr_enabled (hy_humans p ! i) \<noteq> 0 \<Longrightarrow> hr_enabled h \<noteq> 0" "hr_revoked (hy_humans p ! i) = 0 \<Longrightarrow> hr_revoked h = 0"
      "hr_role_mask h = hr_role_mask (hy_humans p ! i)" "hr_direct_permissions h = hr_direct_permissions (hy_humans p ! i)"
  shows "has_administrator (replace_human i h p)"
proof -
  obtain j where j: "j < unat (hy_human_count p)" "is_enabled_human_admin p (hy_humans p ! j)"
    by (rule administrator_index [OF assms(3,1,2)])
  have "is_enabled_human_admin p h" if "is_enabled_human_admin p (hy_humans p ! i)"
    using that assms(5,6) human_permissions_roles [OF refl assms(7,8), of p] by (auto simp: is_enabled_human_admin_def)
  then show ?thesis using j by (intro replaced_administrator [OF assms(1,2,4)]) metis
qed

end
