(* ===== verification/Admin_Lockout.thy ===== *)
theory Admin_Lockout
  imports Admin_Safety
begin

text \<open>
  The claims on the administration of accounts: no operation escalates, and none but the
  assignment of roles takes the last administrator away. The assignment can: an administrator
  whose right comes from a custom role may take that role off itself.
\<close>

section \<open>The claims\<close>

lemma kept_member:
  assumes "k < length xs" "k \<noteq> i" "x = xs ! k"
  shows "x \<in> set (take i xs @ drop (Suc i) xs)"
proof (cases "k < i")
  case True
  then show ?thesis using assms nth_mem [of k "take i xs"] by auto
next
  case False
  then have "drop (Suc i) xs ! (k - Suc i) = x" "k - Suc i < length (drop (Suc i) xs)" using assms by auto
  then have "x \<in> set (drop (Suc i) xs)" by (metis nth_mem)
  then show ?thesis by simp
qed

lemma change_keeps_administrator:
  assumes change: "human_change a op p p'" and op: "\<And>u m. op \<noteq> ASSIGN_CUSTOM_ROLES u m"
    and valid: "argus_security_directory_payload_valid p" "humans_shaped p" "argus_security_directory_payload_valid p'"
    and some: "has_administrator p"
  shows "has_administrator p'"
proof -
  obtain j where j: "j < unat (hy_human_count p)" "is_enabled_human_admin p (hy_humans p ! j)"
    by (rule administrator_index [OF some valid(1,2)])
  note member = human_member [OF valid(1,2)] and unchanged = unchanged_administrator [OF valid(1,2) some]
  show ?thesis
  proof (cases op)
    case (CREATE_HUMAN u login name scope level direct password)
    then obtain h where h: "unat (hy_human_count p) < 16" "p' = add_human h p" using change by auto
    have "same_rights p x p' x" for x unfolding h(2) by (intro same_rights_roles role_permissions_roles) (simp_all add: add_human_def)
    from admin_same [OF this] have "is_enabled_human_admin p' (hy_humans p ! j)" using j(2) by simp
    then show ?thesis
      using member [OF j(1)] live_add [OF valid(2) h(1), of h] h(2)
      by (intro has_administratorI [of "hy_humans p ! j"]) auto
  next
    case (SET_ENABLED u e)
    then obtain i where i: "i < unat (hy_human_count p)" "e \<or> \<not> argus_security_admin_removal_would_lock_out p i"
        "p' = replace_human i (enabled_human e (hy_humans p ! i)) p" using change by (auto simp: may_target_def)
    show ?thesis
    proof (cases e)
      case True
      then show ?thesis unfolding i(3) by (intro unchanged [OF i(1)]) (simp_all add: enabled_human_def)
    next
      case False
      then show ?thesis
        unfolding i(3) using other_administrator [OF valid(1,2) some _ i(1)] i(2) replaced_administrator [OF valid(1,2) i(1)] by blast
    qed
  next
    case (REPLACE_PASSWORD u password)
    then show ?thesis using change by (auto simp: may_target_def rekeyed_human_def intro!: unchanged)
  next
    case (REPLACE_OWN_PASSWORD password)
    then show ?thesis using change by (auto simp: rekeyed_human_def intro!: unchanged)
  next
    case (UPDATE_DISPLAY_NAME u name)
    then show ?thesis using change by (auto simp: may_target_def intro!: unchanged)
  next
    case (DELETE_HUMAN u)
    then obtain i where i: "i < unat (hy_human_count p)" "\<not> argus_security_admin_removal_would_lock_out p i" "p' = remove_human i p"
      using change by (auto simp: may_target_def)
    obtain k where k: "k < unat (hy_human_count p)" "k \<noteq> i" "is_enabled_human_admin p (hy_humans p ! k)"
      using other_administrator [OF valid(1,2) some i(2,1)] by blast
    have same: "same_rights p x p' x" for x
      unfolding i(3) by (intro same_rights_roles role_permissions_roles) (simp_all add: remove_human_def Let_def)
    have "hy_humans p ! k \<in> set (live_humans p')"
      using k(1,2) live_nth [OF valid(1,2)] unfolding i(3) live_remove_human [OF valid(2,1) i(1)]
      by (intro kept_member) auto
    then show ?thesis using k(3) admin_same [OF same] by (intro has_administratorI) auto
  next
    case (ASSIGN_CUSTOM_ROLES u m)
    then show ?thesis using op by simp
  next
    case (CREATE_ROLE r level permissions delegable)
    then have p': "unat (hy_custom_role_count p) < 10" "p' = add_role (created_role r level permissions delegable) p" using change by auto
    have "is_enabled_human_admin p' (hy_humans p ! j)"
      using admin_same [OF same_rights_add_role [OF valid(1) _ valid(2) p'(1) j(1)]] valid(3) p'(2) j(2) by simp
    then show ?thesis
      using member [OF j(1)] p'(2) by (intro has_administratorI [of "hy_humans p ! j"]) (simp_all add: live_humans_def add_role_def)
  next
    case (DELETE_ROLE r)
    then obtain i where i: "i < unat (hy_custom_role_count p)" "p' = remove_role i p"
        "list_all (\<lambda>h. hr_role_mask h AND push_bit (i + 6) 1 = 0) (live_humans p)" using change by auto
    have "\<not> bit (hr_role_mask (hy_humans p ! j)) (i + 6)"
      using i(3) member [OF j(1)] mask_bit [of "hr_role_mask (hy_humans p ! j)" "i + 6"] by (simp add: list_all_iff)
    then have "is_enabled_human_admin p' (hy_humans p' ! j)"
      using admin_same [OF same_rights_remove_role [OF valid(1) _ valid(2) i(1) j(1)]] valid(3) i(2) j(2) by simp
    moreover have "humans_shaped p'" "hy_human_count p' = hy_human_count p"
      using valid(2) by (auto simp: i(2) remove_role_def humans_shaped_def Let_def)
    ultimately show ?thesis using human_member [OF valid(3)] j(1) by (auto intro: has_administratorI)
  qed
qed

text \<open>
  C30: No administrative operation escalates. When an operation on accounts or roles succeeds, the
  directory that it installs is valid, it replaces exactly the directory that the operation
  read (whatever other tasks committed meanwhile), and every permission that an account can
  use in it is one that the account with the same identifier could use before, or one that the
  actor holds and may delegate; the right to manage client administrators is new only on a
  client administrator, and only when the actor is Argus personnel.
\<close>

theorem admin_no_escalation:
  assumes run: "run_human_admin env actor op st = (ESP_OK, st')"
    and valid: "argus_security_directory_payload_valid (hu_snapshot (ad_directory st))" "humans_shaped (hu_snapshot (ad_directory st))"
    and others: "generations_counted env"
  shows "\<exists>a before fin. actor = Some a \<and> hu_snapshot (ad_directory (ae_between env before)) = hu_snapshot (ad_directory st)
    \<and> commit_humans env (hu_snapshot (ad_directory fin)) (hu_generation (ad_directory st)) before = (ESP_OK, fin)
    \<and> ad_directory st' \<in> {ad_directory fin, ad_directory (ae_after env fin)}
    \<and> argus_security_directory_payload_valid (hu_snapshot (ad_directory fin)) \<and> humans_shaped (hu_snapshot (ad_directory fin))
    \<and> no_escalation a (hu_snapshot (ad_directory st)) (hu_snapshot (ad_directory fin))"
proof -
  obtain a p' where c: "actor = Some a" "installed env st p' st'" "human_change a op (hu_snapshot (ad_directory st)) p'"
    using run_changes [OF run] by (auto simp: changes_def)
  have v: "argus_security_directory_payload_valid p'" by (rule installed_valid [OF c(2)])
  have "humans_shaped p'" using change_shaped [OF c(3) valid(2)] payload_counts [OF valid(1)] by simp
  moreover have "no_escalation a (hu_snapshot (ad_directory st)) p'" by (rule change_no_escalation [OF c(3) valid v])
  ultimately show ?thesis using installed_over [OF c(2) others] c(1) v by blast
qed

text \<open>
  C31: The administration does not lock itself out. When an operation other than the assignment
  of custom roles succeeds on a directory that has an enabled account with the right to manage
  accounts, the directory that it installs has one too.
\<close>

theorem admin_keeps_administrator:
  assumes run: "run_human_admin env actor op st = (ESP_OK, st')" and op: "\<And>u m. op \<noteq> ASSIGN_CUSTOM_ROLES u m"
    and valid: "argus_security_directory_payload_valid (hu_snapshot (ad_directory st))" "humans_shaped (hu_snapshot (ad_directory st))"
    and others: "generations_counted env" and some: "has_administrator (hu_snapshot (ad_directory st))"
  shows "\<exists>before fin. hu_snapshot (ad_directory (ae_between env before)) = hu_snapshot (ad_directory st)
    \<and> commit_humans env (hu_snapshot (ad_directory fin)) (hu_generation (ad_directory st)) before = (ESP_OK, fin)
    \<and> ad_directory st' \<in> {ad_directory fin, ad_directory (ae_after env fin)}
    \<and> has_administrator (hu_snapshot (ad_directory fin))"
proof -
  obtain a p' where c: "installed env st p' st'" "human_change a op (hu_snapshot (ad_directory st)) p'"
    using run_changes [OF run] by (auto simp: changes_def)
  have "has_administrator p'" by (rule change_keeps_administrator [OF c(2) op valid installed_valid [OF c(1)] some])
  then show ?thesis using installed_over [OF c(1) others] by blast
qed

section \<open>The last administrator\<close>

text \<open>A directory whose only administrator is a viewer with a custom role, and who acts on itself.\<close>

definition steward_role :: role_record where
  "steward_role = created_role (str_bytes ''steward'') LEVEL_VIEWER 65 65"

definition warden :: human_record where
  "warden = clerk\<lparr> hr_level := 4, hr_role_mask := 80 \<rparr>"

definition warden_humans :: human_payload where
  "warden_humans = clerk_humans\<lparr> hy_custom_role_count := 1, hy_custom_roles := steward_role # replicate 9 role_record_zero,
     hy_humans := warden # replicate 15 human_record_zero \<rparr>"

definition warden_principal :: principal where
  "warden_principal = principal_zero\<lparr> pr_type := PRINCIPAL_HUMAN, pr_identifier := fill_buffer 37 (str_bytes ''u-1''),
     pr_scope := fill_buffer 37 (str_bytes ''plant''), pr_level := LEVEL_VIEWER, pr_permissions := 65,
     pr_delegable_permissions := 65, pr_credential_version := 1, pr_security_epoch := 1, pr_principal_revision := 1 \<rparr>"

definition warden_env :: "human_slot entry_cells admin_env" where
  "warden_env = \<lparr> ae_memory = True,
     ae_commit = \<lparr> ce_by_writer = False, ce_request_memory = True, ce_room = True, ce_memory = True \<rparr>, ae_nvs = entry_api,
     ae_queue = demo_queue, ae_hmac = flat_hmac, ae_salt = replicate 16 9, ae_deriving = (\<lambda>g. g), ae_between = (\<lambda>s. s),
     ae_after = (\<lambda>s. s) \<rparr>"

definition warden_state :: "human_slot entry_cells admin_state" where
  "warden_state = \<lparr> ad_directory = clerk_directory\<lparr> hu_snapshot := warden_humans \<rparr>,
     ad_flash = \<lparr> ec_blobs = (\<lambda>k. None), ec_octets = (\<lambda>k. None), ec_broken = None \<rparr>,
     ad_login = clerk_service, ad_sessions = \<lparr> sm_mutex = True, sm_sessions = argus_session_table_init \<rparr> \<rparr>"

definition stripped_humans :: human_payload where
  "stripped_humans = replace_human 0 (roled_human 0 warden) warden_humans"

definition renamed_humans :: human_payload where
  "renamed_humans = replace_human 0 (warden\<lparr> hr_display_name := strlcpy_over (hr_display_name warden) (str_bytes ''Bea'') \<rparr>) warden_humans"

lemma warden_valid:
  "argus_security_directory_payload_valid warden_humans" "argus_security_directory_payload_valid stripped_humans"
  "argus_security_directory_payload_valid renamed_humans" "humans_shaped warden_humans"
  "has_administrator warden_humans" "\<not> has_administrator stripped_humans"
  by code_simp+

lemma warden_target:
  "snapshot_target warden_env (Some warden_principal) (str_bytes ''u-1'') warden_state = Inr (warden_humans, 2, 0)"
  by code_simp

lemma warden_commit:
  assumes "argus_security_directory_payload_valid p"
  shows "\<exists>fin. commit_humans warden_env p 2 warden_state = (ESP_OK, fin) \<and> hu_snapshot (ad_directory fin) = p"
  using assms human_slot_of_valid [of 3 p]
  by (simp add: commit_humans_def argus_security_directory_commit_def human_commit_locked_def store_slot_def entry_access
      human_commit_target_def human_next_generation_def clerk_directory_def human_directory_zero_def warden_env_def warden_state_def Let_def)

text \<open>The account takes the role off itself; nobody can manage accounts any more.\<close>

lemma warden_strips:
  "\<exists>st'. run_human_admin warden_env (Some warden_principal) (ASSIGN_CUSTOM_ROLES (str_bytes ''u-1'') 0) warden_state = (ESP_OK, st')
    \<and> hu_snapshot (ad_directory st') = stripped_humans"
proof -
  obtain fin where f: "commit_humans warden_env stripped_humans 2 warden_state = (ESP_OK, fin)" "hu_snapshot (ad_directory fin) = stripped_humans"
    using warden_commit warden_valid(2) by blast
  have h: "hy_humans warden_humans ! 0 = warden" "custom_role_permissions warden_humans 0 = 0"
    by (simp_all add: warden_humans_def custom_role_permissions_def)
  then have "run_human_admin warden_env (Some warden_principal) (ASSIGN_CUSTOM_ROLES (str_bytes ''u-1'') 0) warden_state
      = commit_and_revoke warden_env (str_bytes ''u-1'') stripped_humans 2 warden_state"
    by (simp add: argus_security_admin_assign_custom_roles_def warden_target stripped_humans_def Let_def)
  then show ?thesis using f by (simp add: commit_and_revoke_def Let_def warden_env_def)
qed

lemma warden_renames:
  "\<exists>st'. run_human_admin warden_env (Some warden_principal) (UPDATE_DISPLAY_NAME (str_bytes ''u-1'') (str_bytes ''Bea'')) warden_state
     = (ESP_OK, st') \<and> hu_snapshot (ad_directory st') = renamed_humans"
proof -
  obtain fin where f: "commit_humans warden_env renamed_humans 2 warden_state = (ESP_OK, fin)" "hu_snapshot (ad_directory fin) = renamed_humans"
    using warden_commit warden_valid(3) by blast
  have h: "hy_humans warden_humans ! 0 = warden" by (simp add: warden_humans_def)
  have "c_strlen (str_bytes ''Bea'') = 3" by code_simp
  then have "run_human_admin warden_env (Some warden_principal) (UPDATE_DISPLAY_NAME (str_bytes ''u-1'') (str_bytes ''Bea'')) warden_state
      = commit_humans warden_env renamed_humans 2 warden_state"
    by (simp add: argus_security_admin_update_display_name_def warden_target renamed_humans_def h Let_def)
  then show ?thesis using f by simp
qed

lemma warden_quiet: "generations_counted warden_env" "ae_after warden_env s = s"
  by (simp_all add: generations_counted_def warden_env_def)

lemma warden_served: "hu_snapshot (ad_directory warden_state) = warden_humans"
  by (simp add: warden_state_def clerk_directory_def)

theorem admin_no_escalation_witness:
  "\<exists>st'. run_human_admin warden_env (Some warden_principal) (ASSIGN_CUSTOM_ROLES (str_bytes ''u-1'') 0) warden_state = (ESP_OK, st')
    \<and> no_escalation warden_principal warden_humans (hu_snapshot (ad_directory st')) \<and> \<not> has_administrator (hu_snapshot (ad_directory st'))"
proof -
  obtain st' where r: "run_human_admin warden_env (Some warden_principal) (ASSIGN_CUSTOM_ROLES (str_bytes ''u-1'') 0) warden_state = (ESP_OK, st')"
      "hu_snapshot (ad_directory st') = stripped_humans" using warden_strips by blast
  note w = warden_valid(1,4) [folded warden_served]
  show ?thesis
    using admin_no_escalation [OF r(1) w warden_quiet(1)] warden_quiet(2) warden_valid(6) r warden_served by auto
qed

theorem admin_keeps_administrator_witness:
  "\<exists>st'. run_human_admin warden_env (Some warden_principal) (UPDATE_DISPLAY_NAME (str_bytes ''u-1'') (str_bytes ''Bea'')) warden_state
     = (ESP_OK, st') \<and> has_administrator (hu_snapshot (ad_directory st'))"
proof -
  obtain st' where r: "run_human_admin warden_env (Some warden_principal) (UPDATE_DISPLAY_NAME (str_bytes ''u-1'') (str_bytes ''Bea''))
      warden_state = (ESP_OK, st')" using warden_renames by blast
  note w = warden_valid(1,4) [folded warden_served] and a = warden_valid(5) [folded warden_served]
  show ?thesis
    using admin_keeps_administrator [OF r _ w warden_quiet(1) a] warden_quiet(2) r by auto
qed

end
