(* ===== verification/Restart_Reset.thy ===== *)
theory Restart_Reset
  imports Service_Entry Identity
begin

text \<open>
  The two ways the device restarts itself on request: the restart sequence
  (\<open>argus_restart_mgr.c\<close>) and the factory reset (\<open>argus_factory_reset.c\<close>) with its request
  decoder, the reception of the request body, the admission policy and the sequence.

  Both sequences run over a table of operations; an operation maps the world to an answer and a
  new world. A table that lacks an entry is \<open>None\<close>. Request bodies are byte lists.
\<close>

section \<open>Restart\<close>

definition argus_restart_is_safe :: "state_snapshot option \<Rightarrow> bool" where
  "argus_restart_is_safe snap =
     (case snap of
        None \<Rightarrow> False
      | Some s \<Rightarrow>
          if sn_estop_latched s \<or> sn_machine_state s = STATE_EMERGENCY_STOPPED \<or> sn_machine_state s = STATE_FAULTED
          then False
          else sn_machine_state s = STATE_HOLDING \<or> sn_machine_state s = STATE_UNLOCKED)"

record 'w restart_ops =
  rp_get_state_snapshot :: "'w \<Rightarrow> state_snapshot \<times> 'w"
  rp_lock_dispatch :: "'w \<Rightarrow> 'w"
  rp_unlock_dispatch :: "'w \<Rightarrow> 'w"
  rp_revoke_authority :: "'w \<Rightarrow> esp_err \<times> 'w"
  rp_response_grace_delay :: "'w \<Rightarrow> 'w"
  rp_stop_http :: "'w \<Rightarrow> esp_err \<times> 'w"
  rp_reboot :: "'w \<Rightarrow> 'w"

record restart_result =
  rt_accepted :: bool
  rt_failed_at_step :: nat
  rt_dispatch_locked :: bool
  rt_authority_revoked :: bool
  rt_http_stopped :: bool
  rt_reboot_called :: bool

definition restart_result_zero :: restart_result where
  "restart_result_zero = \<lparr> rt_accepted = False, rt_failed_at_step = 0, rt_dispatch_locked = False,
     rt_authority_revoked = False, rt_http_stopped = False, rt_reboot_called = False \<rparr>"

abbreviation (input) RESTART_STEP_PREFLIGHT_SAFETY :: nat where "RESTART_STEP_PREFLIGHT_SAFETY \<equiv> 2"
abbreviation (input) RESTART_STEP_REVOKE_AUTHORITY :: nat where "RESTART_STEP_REVOKE_AUTHORITY \<equiv> 3"
abbreviation (input) RESTART_STEP_STOP_HTTP :: nat where "RESTART_STEP_STOP_HTTP \<equiv> 6"
abbreviation (input) RESTART_STEP_FINAL_SAFETY :: nat where "RESTART_STEP_FINAL_SAFETY \<equiv> 7"

definition argus_restart_execute :: "'w restart_ops option \<Rightarrow> 'w \<Rightarrow> restart_result \<times> 'w" where
  "argus_restart_execute table w =
     (case table of
        None \<Rightarrow> (restart_result_zero\<lparr> rt_failed_at_step := RESTART_STEP_PREFLIGHT_SAFETY \<rparr>, w)
      | Some ops \<Rightarrow>
          (let w1 = rp_lock_dispatch ops w; (snap, w2) = rp_get_state_snapshot ops w1 in
           if \<not> argus_restart_is_safe (Some snap)
           then (restart_result_zero\<lparr> rt_failed_at_step := RESTART_STEP_PREFLIGHT_SAFETY \<rparr>, rp_unlock_dispatch ops w2)
           else
             (let (err, w3) = rp_revoke_authority ops w2 in
              if err \<noteq> ESP_OK
              then (restart_result_zero\<lparr> rt_failed_at_step := RESTART_STEP_REVOKE_AUTHORITY \<rparr>, rp_unlock_dispatch ops w3)
              else
                (let w4 = rp_response_grace_delay ops (rp_unlock_dispatch ops w3);
                     result = restart_result_zero\<lparr> rt_authority_revoked := True \<rparr>;
                     (err2, w5) = rp_stop_http ops w4
                 in if err2 \<noteq> ESP_OK then (result\<lparr> rt_failed_at_step := RESTART_STEP_STOP_HTTP \<rparr>, w5)
                    else
                      (let result2 = result\<lparr> rt_http_stopped := True \<rparr>; (snap2, w6) = rp_get_state_snapshot ops w5 in
                       if \<not> argus_restart_is_safe (Some snap2)
                       then (result2\<lparr> rt_failed_at_step := RESTART_STEP_FINAL_SAFETY \<rparr>, w6)
                       else (result2\<lparr> rt_accepted := True, rt_reboot_called := True \<rparr>, rp_reboot ops w6))))))"

section \<open>The reset request\<close>

abbreviation (input) RESET_MAX_BODY_LEN :: nat where "RESET_MAX_BODY_LEN \<equiv> 96"
abbreviation (input) RESET_CONFIRMATION :: string where "RESET_CONFIRMATION \<equiv> ''FACTORY_RESET''"

datatype reset_decode_result =
    DECODE_OK
  | DECODE_INVALID_ARGUMENT
  | DECODE_EMPTY
  | DECODE_TOO_LARGE
  | DECODE_MALFORMED
  | DECODE_MISSING_CONFIRMATION
  | DECODE_DUPLICATE_FIELD
  | DECODE_UNKNOWN_FIELD
  | DECODE_WRONG_CONFIRMATION

definition reset_is_ws :: "u8 \<Rightarrow> bool" where
  "reset_is_ws ch \<longleftrightarrow> ch = 32 \<or> ch = 9 \<or> ch = 13 \<or> ch = 10"

definition reset_skip_ws :: "u8 list \<Rightarrow> u8 list" where
  "reset_skip_ws body = dropWhile reset_is_ws body"

text \<open>The scan after the opening quote: the text so far, and the rest of the body.\<close>

fun scan_string :: "nat \<Rightarrow> u8 list \<Rightarrow> u8 list \<Rightarrow> (u8 list \<times> u8 list) option" where
  "scan_string out_size out [] = None"
| "scan_string out_size out (ch # rest) =
     (if ch = 34 then Some (out, rest)
      else if ch < 0x20 \<or> ch > 0x7E \<or> ch = 92 \<or> length out + 1 \<ge> out_size then None
      else scan_string out_size (out @ [ch]) rest)"

definition parse_ascii_string :: "nat \<Rightarrow> u8 list \<Rightarrow> (u8 list \<times> u8 list) option" where
  "parse_ascii_string out_size body =
     (case body of
        [] \<Rightarrow> None
      | ch # rest \<Rightarrow> if ch \<noteq> 34 \<or> out_size = 0 then None else scan_string out_size [] rest)"

text \<open>One expected byte.\<close>

definition eat :: "u8 \<Rightarrow> u8 list \<Rightarrow> u8 list option" where
  "eat ch body = (case body of [] \<Rightarrow> None | c # rest \<Rightarrow> if c = ch then Some rest else None)"

text \<open>The part of the object after the confirmation: nothing more, or a second field, which is refused.\<close>

definition decode_tail :: "u8 list \<Rightarrow> reset_decode_result" where
  "decode_tail body =
     (case eat 44 body of
        Some rest \<Rightarrow>
          (case parse_ascii_string 16 (reset_skip_ws rest) of
             None \<Rightarrow> DECODE_MALFORMED
           | Some (second_key, _) \<Rightarrow>
               if second_key = str_bytes ''confirm'' then DECODE_DUPLICATE_FIELD else DECODE_UNKNOWN_FIELD)
      | None \<Rightarrow>
          (case eat 125 body of
             None \<Rightarrow> DECODE_MALFORMED
           | Some rest \<Rightarrow> if reset_skip_ws rest = [] then DECODE_OK else DECODE_MALFORMED))"

definition argus_factory_reset_decode :: "u8 list \<Rightarrow> reset_decode_result" where
  "argus_factory_reset_decode body =
     (if body = [] then DECODE_EMPTY
      else if length body > RESET_MAX_BODY_LEN then DECODE_TOO_LARGE
      else case eat 123 (reset_skip_ws body) of
        None \<Rightarrow> DECODE_MALFORMED
      | Some r1 \<Rightarrow>
          (let r2 = reset_skip_ws r1 in
           if eat 125 r2 \<noteq> None then DECODE_MISSING_CONFIRMATION
           else case parse_ascii_string 16 r2 of
             None \<Rightarrow> DECODE_MALFORMED
           | Some (key, r3) \<Rightarrow>
               if key \<noteq> str_bytes ''confirm'' then DECODE_UNKNOWN_FIELD
               else (case eat 58 (reset_skip_ws r3) of
                       None \<Rightarrow> DECODE_MALFORMED
                     | Some r4 \<Rightarrow>
                         (case parse_ascii_string 24 (reset_skip_ws r4) of
                            None \<Rightarrow> DECODE_MALFORMED
                          | Some (confirmation, r5) \<Rightarrow>
                              if confirmation \<noteq> str_bytes RESET_CONFIRMATION then DECODE_WRONG_CONFIRMATION
                              else decode_tail (reset_skip_ws r5)))))"

text \<open>A text of the expected letters in any case; the argument is a C string, and the rest of it is returned.\<close>

fun match_lower :: "u8 list \<Rightarrow> u8 list \<Rightarrow> u8 list option" where
  "match_lower [] value = Some value"
| "match_lower (e # es) [] = None"
| "match_lower (e # es) (c # cs) = (if (if 65 \<le> c \<and> c \<le> 90 then c + 32 else c) \<noteq> e then None else match_lower es cs)"

definition skip_blanks :: "u8 list \<Rightarrow> u8 list" where
  "skip_blanks value = dropWhile (\<lambda>c. c = 32 \<or> c = 9) value"

definition argus_factory_reset_content_type_valid :: "u8 list option \<Rightarrow> bool" where
  "argus_factory_reset_content_type_valid content_type =
     (case content_type of
        None \<Rightarrow> False
      | Some buf \<Rightarrow>
          (case match_lower (str_bytes ''application/json'') (cstr buf) of
             None \<Rightarrow> False
           | Some r1 \<Rightarrow>
               (let r2 = skip_blanks r1 in
                if r2 = [] then True
                else if hd r2 \<noteq> 59 then False
                else (case match_lower (str_bytes ''charset=utf-8'') (skip_blanks (tl r2)) of
                        None \<Rightarrow> False
                      | Some r3 \<Rightarrow> skip_blanks r3 = []))))"

section \<open>Reception of the body\<close>

datatype reset_receive_result =
    RECEIVE_OK
  | RECEIVE_INVALID_ARGUMENT
  | RECEIVE_EMPTY
  | RECEIVE_TOO_LARGE
  | RECEIVE_TRUNCATED
  | RECEIVE_TIMEOUT
  | RECEIVE_ERROR

text \<open>
  The \<open>i\<close>th call of the receiver is asked for at most the given number of bytes; it answers with
  the number it claims and with what the buffer holds from its position on. The bytes are
  reported only on success: on a failure the reported length is 0.
\<close>

function receive_loop ::
  "nat \<Rightarrow> (nat \<Rightarrow> nat \<Rightarrow> int \<times> (nat \<Rightarrow> u8)) \<Rightarrow> nat \<Rightarrow> u8 list \<Rightarrow> reset_receive_result \<times> u8 list" where
  "receive_loop content_len recv i received =
     (if length received \<ge> content_len then (RECEIVE_OK, received)
      else
        (let left = content_len - length received; (chunk, data) = recv i left in
         if chunk = - 1000 then (RECEIVE_TIMEOUT, [])
         else if chunk = 0 then (RECEIVE_TRUNCATED, [])
         else if chunk < 0 \<or> nat chunk > left then (RECEIVE_ERROR, [])
         else receive_loop content_len recv (Suc i) (received @ map data [0..<nat chunk])))"
  by pat_completeness auto

termination
  by (relation "measure (\<lambda>(content_len, recv, i, received). content_len - length received)") auto

definition argus_factory_reset_receive_body ::
  "nat \<Rightarrow> (nat \<Rightarrow> nat \<Rightarrow> int \<times> (nat \<Rightarrow> u8)) \<Rightarrow> nat \<Rightarrow> reset_receive_result \<times> u8 list" where
  "argus_factory_reset_receive_body content_len recv out_capacity =
     (if content_len = 0 then (RECEIVE_EMPTY, [])
      else if content_len > RESET_MAX_BODY_LEN then (RECEIVE_TOO_LARGE, [])
      else if content_len > out_capacity then (RECEIVE_INVALID_ARGUMENT, [])
      else receive_loop content_len recv 0 [])"

record receive_disposition =
  rd_continue_request :: bool
  rd_close_session :: bool
  rd_status_code :: nat
  rd_handler_result :: esp_err

definition argus_factory_reset_receive_disposition :: "reset_receive_result \<Rightarrow> receive_disposition" where
  "argus_factory_reset_receive_disposition result =
     (let out = \<lparr> rd_continue_request = False, rd_close_session = True, rd_status_code = 500, rd_handler_result = ESP_FAIL \<rparr>
      in case result of
           RECEIVE_OK \<Rightarrow> out\<lparr> rd_continue_request := True, rd_close_session := False, rd_status_code := 202, rd_handler_result := ESP_OK \<rparr>
         | RECEIVE_EMPTY \<Rightarrow> out\<lparr> rd_close_session := False, rd_status_code := 400, rd_handler_result := ESP_OK \<rparr>
         | RECEIVE_INVALID_ARGUMENT \<Rightarrow> out
         | _ \<Rightarrow> out\<lparr> rd_status_code := 400 \<rparr>)"

section \<open>The reset policy\<close>

datatype reset_policy_result =
    RESET_POLICY_OK
  | RESET_POLICY_WRONG_NETWORK
  | RESET_POLICY_WRONG_AUTHORITY
  | RESET_POLICY_LIFECYCLE_CONFLICT
  | RESET_POLICY_UNSAFE_MACHINE
  | RESET_POLICY_NETWORK_NOT_CONVERGED

definition state_is_stationary_safe :: "state_snapshot \<Rightarrow> bool" where
  "state_is_stationary_safe s \<longleftrightarrow> \<not> sn_estop_latched s \<and> sn_fault_code s = 0
     \<and> (sn_machine_state s = STATE_UNLOCKED \<or> sn_machine_state s = STATE_HOLDING)
     \<and> sn_applied_rpm_milli s = 0 \<and> sn_generated_rpm_milli s = 0 \<and> \<not> sn_ramp_active s"

definition service_network_is_converged :: "net_snapshot \<Rightarrow> bool" where
  "service_network_is_converged net \<longleftrightarrow> \<not> ns_sta_connected net \<and> \<not> ns_sta_ip_acquired net
     \<and> ns_sta_state net = STA_DISABLED \<and> ns_ap_started net \<and> \<not> ns_mqtt_broker_running net \<and> ns_mqtt_broker_stopped net"

definition argus_factory_reset_evaluate_policy ::
  "net_snapshot \<Rightarrow> authority_snapshot \<Rightarrow> state_snapshot \<Rightarrow> bool \<Rightarrow> reset_policy_result" where
  "argus_factory_reset_evaluate_policy net authority state lifecycle_conflict =
     (if lifecycle_conflict \<or> ns_wifi_transaction_active net then RESET_POLICY_LIFECYCLE_CONFLICT
      else if ns_mode net \<noteq> MODE_SERVICE_AP_ONLY then RESET_POLICY_WRONG_NETWORK
      else if as_mode authority \<noteq> AUTHORITY_LOCAL_SERVICE \<or> as_owner authority \<noteq> AUTH_OWNER_BROWSER
      then RESET_POLICY_WRONG_AUTHORITY
      else if \<not> state_is_stationary_safe state then RESET_POLICY_UNSAFE_MACHINE
      else if \<not> service_network_is_converged net then RESET_POLICY_NETWORK_NOT_CONVERGED
      else RESET_POLICY_OK)"

section \<open>The reset sequence\<close>

record 'w reset_ops =
  ro_lock_lifecycle :: "'w \<Rightarrow> esp_err \<times> 'w"
  ro_unlock_lifecycle :: "'w \<Rightarrow> 'w"
  ro_lock_dispatch :: "'w \<Rightarrow> 'w"
  ro_unlock_dispatch :: "'w \<Rightarrow> 'w"
  ro_get_network_snapshot :: "'w \<Rightarrow> (esp_err \<times> net_snapshot) \<times> 'w"
  ro_get_authority_snapshot :: "'w \<Rightarrow> (esp_err \<times> authority_snapshot) \<times> 'w"
  ro_get_state_snapshot :: "'w \<Rightarrow> state_snapshot \<times> 'w"
  ro_begin_transition :: "'w \<Rightarrow> esp_err \<times> 'w"
  ro_response_grace_delay :: "'w \<Rightarrow> 'w"
  ro_stop_http :: "'w \<Rightarrow> esp_err \<times> 'w"
  ro_revoke_authority :: "'w \<Rightarrow> esp_err \<times> 'w"
  ro_erase_configuration :: "'w \<Rightarrow> esp_err \<times> 'w"
  ro_reboot :: "'w \<Rightarrow> 'w"

record reset_outcome =
  re_accepted :: bool
  re_failed_at_step :: nat
  re_authority_revoked :: bool
  re_http_stopped :: bool
  re_configuration_erased :: bool
  re_reboot_called :: bool
  re_error :: esp_err

definition reset_result_of :: "nat \<Rightarrow> esp_err \<Rightarrow> reset_outcome" where
  "reset_result_of step err = \<lparr> re_accepted = False, re_failed_at_step = step, re_authority_revoked = False,
     re_http_stopped = False, re_configuration_erased = False, re_reboot_called = False, re_error = err \<rparr>"

abbreviation (input) RESET_STEP_LOCK_LIFECYCLE :: nat where "RESET_STEP_LOCK_LIFECYCLE \<equiv> 1"
abbreviation (input) RESET_STEP_PREFLIGHT :: nat where "RESET_STEP_PREFLIGHT \<equiv> 3"
abbreviation (input) RESET_STEP_BEGIN_TRANSITION :: nat where "RESET_STEP_BEGIN_TRANSITION \<equiv> 4"
abbreviation (input) RESET_STEP_STOP_HTTP :: nat where "RESET_STEP_STOP_HTTP \<equiv> 6"
abbreviation (input) RESET_STEP_FINAL_REVALIDATION :: nat where "RESET_STEP_FINAL_REVALIDATION \<equiv> 7"
abbreviation (input) RESET_STEP_REVOKE_AUTHORITY :: nat where "RESET_STEP_REVOKE_AUTHORITY \<equiv> 8"
abbreviation (input) RESET_STEP_ERASE_CONFIG :: nat where "RESET_STEP_ERASE_CONFIG \<equiv> 9"

text \<open>The three snapshots, read until the first error.\<close>

definition read_snapshots ::
  "'w reset_ops \<Rightarrow> 'w \<Rightarrow> (esp_err + net_snapshot \<times> authority_snapshot \<times> state_snapshot) \<times> 'w" where
  "read_snapshots ops w =
     (let ((err, net), w1) = ro_get_network_snapshot ops w in
      if err \<noteq> ESP_OK then (Inl err, w1)
      else (let ((err2, authority), w2) = ro_get_authority_snapshot ops w1 in
            if err2 \<noteq> ESP_OK then (Inl err2, w2)
            else (let (state, w3) = ro_get_state_snapshot ops w2 in (Inr (net, authority, state), w3))))"

definition unlock_both :: "'w reset_ops \<Rightarrow> 'w \<Rightarrow> 'w" where
  "unlock_both ops w = ro_unlock_lifecycle ops (ro_unlock_dispatch ops w)"

definition reset_transition_valid :: "net_snapshot \<Rightarrow> authority_snapshot \<Rightarrow> state_snapshot \<Rightarrow> bool" where
  "reset_transition_valid net authority state \<longleftrightarrow> ns_mode net = MODE_SERVICE_TRANSITION \<and> service_network_is_converged net
     \<and> as_mode authority = AUTHORITY_SERVICE_TRANSITION \<and> as_owner authority = AUTH_OWNER_NONE \<and> state_is_stationary_safe state"

text \<open>The first part, under both locks: an error, or the transition has begun.\<close>

definition reset_preflight :: "'w reset_ops \<Rightarrow> 'w \<Rightarrow> reset_outcome option \<times> 'w" where
  "reset_preflight ops w =
     (let (lock_err, w1) = ro_lock_lifecycle ops w in
      if lock_err \<noteq> ESP_OK then (Some (reset_result_of RESET_STEP_LOCK_LIFECYCLE lock_err), w1)
      else
        (case read_snapshots ops (ro_lock_dispatch ops w1) of
           (Inl err, w2) \<Rightarrow> (Some (reset_result_of RESET_STEP_PREFLIGHT err), unlock_both ops w2)
         | (Inr (net, authority, state), w2) \<Rightarrow>
             if argus_factory_reset_evaluate_policy net authority state False \<noteq> RESET_POLICY_OK
             then (Some (reset_result_of RESET_STEP_PREFLIGHT ESP_ERR_INVALID_STATE), unlock_both ops w2)
             else (let (err, w3) = ro_begin_transition ops w2; w4 = unlock_both ops w3
                   in if err \<noteq> ESP_OK then (Some (reset_result_of RESET_STEP_BEGIN_TRANSITION err), w4) else (None, w4))))"

text \<open>A failed stop of the server takes the authority away, if the lock can be had.\<close>

definition reset_stop_failed :: "'w reset_ops \<Rightarrow> esp_err \<Rightarrow> 'w \<Rightarrow> reset_outcome \<times> 'w" where
  "reset_stop_failed ops err w =
     (let (lock_err, w1) = ro_lock_lifecycle ops w; result = reset_result_of RESET_STEP_STOP_HTTP err in
      if lock_err \<noteq> ESP_OK then (result, w1)
      else (let (revoke_err, w2) = ro_revoke_authority ops (ro_lock_dispatch ops w1)
            in (result\<lparr> re_authority_revoked := (revoke_err = ESP_OK) \<rparr>, unlock_both ops w2)))"

text \<open>The final check and the revocation, under both locks.\<close>

definition reset_revalidate :: "'w reset_ops \<Rightarrow> 'w \<Rightarrow> reset_outcome option \<times> 'w" where
  "reset_revalidate ops w =
     (let (lock_err, w1) = ro_lock_lifecycle ops w; failed = (\<lambda>step err. (reset_result_of step err)\<lparr> re_http_stopped := True \<rparr>) in
      if lock_err \<noteq> ESP_OK then (Some (failed RESET_STEP_FINAL_REVALIDATION lock_err), w1)
      else
        (let (r, w2) = read_snapshots ops (ro_lock_dispatch ops w1);
             err = (case r of Inl e \<Rightarrow> e
                    | Inr (net, authority, state) \<Rightarrow>
                        if reset_transition_valid net authority state then ESP_OK else ESP_ERR_INVALID_STATE);
             (revoke_err, w3) = ro_revoke_authority ops w2; w4 = unlock_both ops w3
         in if err \<noteq> ESP_OK then (Some (failed RESET_STEP_FINAL_REVALIDATION err), w4)
            else if revoke_err \<noteq> ESP_OK then (Some (failed RESET_STEP_REVOKE_AUTHORITY revoke_err), w4)
            else (None, w4)))"

definition argus_factory_reset_execute :: "'w reset_ops option \<Rightarrow> 'w \<Rightarrow> reset_outcome \<times> 'w" where
  "argus_factory_reset_execute table w =
     (case table of
        None \<Rightarrow> (reset_result_of RESET_STEP_PREFLIGHT ESP_ERR_INVALID_ARG, w)
      | Some ops \<Rightarrow>
          (case reset_preflight ops w of
             (Some result, w1) \<Rightarrow> (result, w1)
           | (None, w1) \<Rightarrow>
               (let (http_err, w2) = ro_stop_http ops (ro_response_grace_delay ops w1) in
                if http_err \<noteq> ESP_OK then reset_stop_failed ops http_err w2
                else (case reset_revalidate ops w2 of
                        (Some result, w3) \<Rightarrow> (result, w3)
                      | (None, w3) \<Rightarrow>
                          (let (erase_err, w4) = ro_erase_configuration ops w3;
                               result = (reset_result_of RESET_STEP_ERASE_CONFIG erase_err)
                                 \<lparr> re_authority_revoked := True, re_http_stopped := True \<rparr>
                           in if erase_err \<noteq> ESP_OK then (result, w4)
                              else (result\<lparr> re_configuration_erased := True, re_accepted := True, re_reboot_called := True,
                                            re_failed_at_step := 0 \<rparr>, ro_reboot ops w4))))))"

end
