(* ===== verification/Call_Log.thy ===== *)
theory Call_Log
  imports Argus_Prelude
begin

text \<open>
  Tables of operations that also write down each call with its answer: the world of the table is
  paired with the list of the events so far.
\<close>

type_synonym ('w, 'e) logged = "'w \<times> 'e list"

definition log_call :: "('a \<Rightarrow> 'e) \<Rightarrow> ('w \<Rightarrow> 'a \<times> 'w) \<Rightarrow> ('w, 'e) logged \<Rightarrow> 'a \<times> ('w, 'e) logged" where
  "log_call event f s = (case f (fst s) of (a, w) \<Rightarrow> (a, (w, snd s @ [event a])))"

definition log_act :: "'e \<Rightarrow> ('w \<Rightarrow> 'w) \<Rightarrow> ('w, 'e) logged \<Rightarrow> ('w, 'e) logged" where
  "log_act event f s = (f (fst s), snd s @ [event])"

end
