(* ===== verification/Restart_Reset_Props.thy ===== *)
theory Restart_Reset_Props
  imports Restart_Reset Call_Log
begin

text \<open>
  Correctness of the restart and the factory reset: which request bodies are accepted, that the
  configuration is erased only at the end of the complete guarded sequence, and that the device
  restarts only after two safe readings of the machine.
\<close>

section \<open>The accepted requests\<close>

definition string_char :: "u8 \<Rightarrow> bool" where
  "string_char c \<longleftrightarrow> c \<noteq> 34 \<and> 0x20 \<le> c \<and> c \<le> 0x7E \<and> c \<noteq> 92"

lemma scan_string_Some:
  "scan_string cap out xs = Some (r, rest) \<longleftrightarrow>
     (\<exists>t. xs = t @ 34 # rest \<and> r = out @ t \<and> list_all string_char t \<and> (t = [] \<or> length out + length t < cap))"
proof (induction xs arbitrary: out)
  case (Cons c xs)
  show ?case
  proof (cases "c = 34")
    case True
    then show ?thesis by (auto simp: append_eq_Cons_conv string_char_def Cons_eq_append_conv)
  next
    case False
    have A: "(\<exists>t. c # xs = t @ 34 # rest \<and> r = out @ t \<and> list_all string_char t \<and> (t = [] \<or> length out + length t < cap))
      \<longleftrightarrow> string_char c \<and> length out + 1 < cap
        \<and> (\<exists>t. xs = t @ 34 # rest \<and> r = (out @ [c]) @ t \<and> list_all string_char t \<and> (t = [] \<or> length (out @ [c]) + length t < cap))"
      using False by (auto simp: Cons_eq_append_conv)
    have B: "scan_string cap out (c # xs) = (if string_char c \<and> length out + 1 < cap then scan_string cap (out @ [c]) xs else None)"
      using False by (auto simp: string_char_def not_le not_less dest: leD)
    show ?thesis unfolding A B Cons.IH [of "out @ [c]", symmetric] by auto
  qed
qed simp

lemma parse_ascii_string_Some:
  "parse_ascii_string cap xs = Some (r, rest) \<longleftrightarrow> xs = [34] @ r @ [34] @ rest \<and> list_all string_char r \<and> cap \<noteq> 0 \<and> (r = [] \<or> length r < cap)"
  by (auto simp: parse_ascii_string_def scan_string_Some split: list.splits if_splits)

lemma eat_Some: "eat c xs = Some rest \<longleftrightarrow> xs = c # rest"
  by (auto simp: eat_def split: list.splits if_splits)

lemma eat_None: "eat c xs = None \<longleftrightarrow> (\<forall>rest. xs \<noteq> c # rest)"
  by (auto simp: eat_def split: list.splits if_splits)

definition white :: "u8 list \<Rightarrow> bool" where
  "white w \<longleftrightarrow> list_all reset_is_ws w"

text \<open>White space before a byte that is none.\<close>

lemma reset_skip_ws_Cons: "\<not> reset_is_ws c \<Longrightarrow> reset_skip_ws xs = c # rest \<longleftrightarrow> (\<exists>w. white w \<and> xs = w @ c # rest)"
proof
  assume "reset_skip_ws xs = c # rest"
  then have "xs = takeWhile reset_is_ws xs @ c # rest" by (metis reset_skip_ws_def takeWhile_dropWhile_id)
  moreover have "white (takeWhile reset_is_ws xs)" by (auto simp: white_def list_all_iff dest: set_takeWhileD)
  ultimately show "\<exists>w. white w \<and> xs = w @ c # rest" by blast
qed (auto simp: reset_skip_ws_def white_def list_all_iff dropWhile_append)

lemma reset_skip_ws_Nil: "reset_skip_ws xs = [] \<longleftrightarrow> white xs"
  by (simp add: reset_skip_ws_def white_def list_all_iff)

lemma tokens_plain:
  "list_all string_char (str_bytes ''confirm'')" "list_all string_char (str_bytes RESET_CONFIRMATION)"
  "length (str_bytes ''confirm'') = 7" "length (str_bytes RESET_CONFIRMATION) = 13"
  "str_bytes ''confirm'' \<noteq> []" "str_bytes RESET_CONFIRMATION \<noteq> []"
  by (simp_all add: str_bytes_def string_char_def)

lemma tokens_not_ws: "\<not> reset_is_ws 123" "\<not> reset_is_ws 125" "\<not> reset_is_ws 34" "\<not> reset_is_ws 58" "\<not> reset_is_ws 44"
  by (simp_all add: reset_is_ws_def)

lemma decode_tail_ok: "decode_tail xs = DECODE_OK \<longleftrightarrow> (\<exists>w. white w \<and> xs = 125 # w)"
  by (auto simp: decode_tail_def eat_Some eat_None reset_skip_ws_Nil split: option.splits if_splits prod.splits)

lemma decode_steps:
  "argus_factory_reset_decode body = DECODE_OK \<longleftrightarrow>
     body \<noteq> [] \<and> length body \<le> 96
     \<and> (\<exists>r1 r3 r4 r5. reset_skip_ws body = 123 # r1 \<and> parse_ascii_string 16 (reset_skip_ws r1) = Some (str_bytes ''confirm'', r3)
          \<and> reset_skip_ws r3 = 58 # r4 \<and> parse_ascii_string 24 (reset_skip_ws r4) = Some (str_bytes RESET_CONFIRMATION, r5)
          \<and> decode_tail (reset_skip_ws r5) = DECODE_OK)"
proof -
  have "parse_ascii_string 16 xs = Some y \<Longrightarrow> eat 125 xs = None" for xs y
    by (auto simp: parse_ascii_string_def eat_def split: list.splits)
  then show ?thesis
    unfolding argus_factory_reset_decode_def Let_def eat_Some [symmetric]
    by (auto simp: not_less split: option.splits prod.splits if_splits)
qed

text \<open>
  C39: The reset decoder accepts exactly one request. A body is accepted if and only if it has at
  most 96 bytes and is the object with the single field confirm whose value is FACTORY_RESET,
  with white space only between the tokens and around the object: no other field, no repeated
  field, no escape sequence, no other value and no trailing byte.
\<close>

theorem reset_decode_exact:
  "argus_factory_reset_decode body = DECODE_OK \<longleftrightarrow>
     length body \<le> 96
     \<and> (\<exists>w1 w2 w3 w4 w5 w6. list_all white [w1, w2, w3, w4, w5, w6]
          \<and> body = w1 @ [123] @ w2 @ [34] @ str_bytes ''confirm'' @ [34] @ w3 @ [58] @ w4
                   @ [34] @ str_bytes ''FACTORY_RESET'' @ [34] @ w5 @ [125] @ w6)"
  (is "_ \<longleftrightarrow> ?accepted body")
proof
  assume "argus_factory_reset_decode body = DECODE_OK"
  then obtain r1 r3 r4 r5 where r: "length body \<le> 96" "reset_skip_ws body = 123 # r1"
      "parse_ascii_string 16 (reset_skip_ws r1) = Some (str_bytes ''confirm'', r3)" "reset_skip_ws r3 = 58 # r4"
      "parse_ascii_string 24 (reset_skip_ws r4) = Some (str_bytes RESET_CONFIRMATION, r5)" "decode_tail (reset_skip_ws r5) = DECODE_OK"
    unfolding decode_steps by blast
  obtain w1 where w1: "white w1" "body = w1 @ 123 # r1" using r(2) tokens_not_ws by (auto simp: reset_skip_ws_Cons)
  obtain w2 where w2: "white w2" "r1 = w2 @ 34 # str_bytes ''confirm'' @ 34 # r3"
    using r(3) tokens_not_ws by (auto simp: parse_ascii_string_Some reset_skip_ws_Cons)
  obtain w3 where w3: "white w3" "r3 = w3 @ 58 # r4" using r(4) tokens_not_ws by (auto simp: reset_skip_ws_Cons)
  obtain w4 where w4: "white w4" "r4 = w4 @ 34 # str_bytes ''FACTORY_RESET'' @ 34 # r5"
    using r(5) tokens_not_ws by (auto simp: parse_ascii_string_Some reset_skip_ws_Cons)
  obtain w5 w6 where w5: "white w5" "white w6" "r5 = w5 @ 125 # w6"
    using r(6) tokens_not_ws by (auto simp: decode_tail_ok reset_skip_ws_Cons)
  have "list_all white [w1, w2, w3, w4, w5, w6]" using w1 w2 w3 w4 w5 by simp
  moreover have "body = w1 @ [123] @ w2 @ [34] @ str_bytes ''confirm'' @ [34] @ w3 @ [58] @ w4
      @ [34] @ str_bytes ''FACTORY_RESET'' @ [34] @ w5 @ [125] @ w6"
    using w1 w2 w3 w4 w5 by simp
  ultimately show "?accepted body" using r(1) by blast
next
  assume "?accepted body"
  then obtain w1 w2 w3 w4 w5 w6 where w: "length body \<le> 96" "white w1" "white w2" "white w3" "white w4" "white w5" "white w6"
      "body = w1 @ 123 # w2 @ 34 # str_bytes ''confirm'' @ 34 # w3 @ 58 # w4 @ 34 # str_bytes ''FACTORY_RESET'' @ 34 # w5 @ 125 # w6"
    by auto
  have s: "white w \<Longrightarrow> \<not> reset_is_ws c \<Longrightarrow> reset_skip_ws (w @ c # rest) = c # rest" for w c rest using reset_skip_ws_Cons by blast
  define r5 where "r5 = w5 @ 125 # w6"
  define r4 where "r4 = w4 @ 34 # str_bytes ''FACTORY_RESET'' @ 34 # r5"
  define r3 where "r3 = w3 @ 58 # r4"
  define r1 where "r1 = w2 @ 34 # str_bytes ''confirm'' @ 34 # r3"
  have "reset_skip_ws body = 123 # r1" unfolding w(8) r1_def r3_def r4_def r5_def by (rule s [OF w(2) tokens_not_ws(1)])
  moreover have "parse_ascii_string 16 (reset_skip_ws r1) = Some (str_bytes ''confirm'', r3)"
    unfolding r1_def s [OF w(3) tokens_not_ws(3)] using tokens_plain by (simp add: parse_ascii_string_Some)
  moreover have "reset_skip_ws r3 = 58 # r4" unfolding r3_def by (rule s [OF w(4) tokens_not_ws(4)])
  moreover have "parse_ascii_string 24 (reset_skip_ws r4) = Some (str_bytes RESET_CONFIRMATION, r5)"
    unfolding r4_def s [OF w(5) tokens_not_ws(3)] using tokens_plain by (simp add: parse_ascii_string_Some)
  moreover have "decode_tail (reset_skip_ws r5) = DECODE_OK"
    unfolding r5_def s [OF w(6) tokens_not_ws(2)] using w(7) by (simp add: decode_tail_ok)
  moreover have "body \<noteq> []" by (simp add: w(8))
  ultimately show "argus_factory_reset_decode body = DECODE_OK" unfolding decode_steps using w(1) by blast
qed

section \<open>Logged sequences\<close>

datatype sequence_event =
    LIFECYCLE_LOCK esp_err
  | LIFECYCLE_UNLOCK
  | DISPATCH_LOCK
  | DISPATCH_UNLOCK
  | READ_NETWORK esp_err net_snapshot
  | READ_AUTHORITY esp_err authority_snapshot
  | READ_STATE state_snapshot
  | BEGIN_TRANSITION esp_err
  | GRACE_DELAY
  | STOP_HTTP esp_err
  | REVOKE_AUTHORITY esp_err
  | ERASE_CONFIGURATION esp_err
  | REBOOT

text \<open>A table of operations that also writes down each call with its answer.\<close>

definition logged_reset :: "'w reset_ops \<Rightarrow> ('w, sequence_event) logged reset_ops" where
  "logged_reset ops =
     \<lparr> ro_lock_lifecycle = log_call LIFECYCLE_LOCK (ro_lock_lifecycle ops),
       ro_unlock_lifecycle = log_act LIFECYCLE_UNLOCK (ro_unlock_lifecycle ops),
       ro_lock_dispatch = log_act DISPATCH_LOCK (ro_lock_dispatch ops),
       ro_unlock_dispatch = log_act DISPATCH_UNLOCK (ro_unlock_dispatch ops),
       ro_get_network_snapshot = log_call (\<lambda>(err, net). READ_NETWORK err net) (ro_get_network_snapshot ops),
       ro_get_authority_snapshot = log_call (\<lambda>(err, authority). READ_AUTHORITY err authority) (ro_get_authority_snapshot ops),
       ro_get_state_snapshot = log_call READ_STATE (ro_get_state_snapshot ops),
       ro_begin_transition = log_call BEGIN_TRANSITION (ro_begin_transition ops),
       ro_response_grace_delay = log_act GRACE_DELAY (ro_response_grace_delay ops),
       ro_stop_http = log_call STOP_HTTP (ro_stop_http ops),
       ro_revoke_authority = log_call REVOKE_AUTHORITY (ro_revoke_authority ops),
       ro_erase_configuration = log_call ERASE_CONFIGURATION (ro_erase_configuration ops),
       ro_reboot = log_act REBOOT (ro_reboot ops) \<rparr>"

definition logged_restart :: "'w restart_ops \<Rightarrow> ('w, sequence_event) logged restart_ops" where
  "logged_restart ops =
     \<lparr> rp_get_state_snapshot = log_call READ_STATE (rp_get_state_snapshot ops),
       rp_lock_dispatch = log_act DISPATCH_LOCK (rp_lock_dispatch ops),
       rp_unlock_dispatch = log_act DISPATCH_UNLOCK (rp_unlock_dispatch ops),
       rp_revoke_authority = log_call REVOKE_AUTHORITY (rp_revoke_authority ops),
       rp_response_grace_delay = log_act GRACE_DELAY (rp_response_grace_delay ops),
       rp_stop_http = log_call STOP_HTTP (rp_stop_http ops),
       rp_reboot = log_act REBOOT (rp_reboot ops) \<rparr>"

text \<open>
  The locks that a sequence holds: the dispatch lock is taken inside the lifecycle lock, the machine
  is read and the authority is changed under both, and the slow and final steps run under none.
\<close>

fun locks_after :: "sequence_event list \<Rightarrow> bool \<Rightarrow> bool \<Rightarrow> (bool \<times> bool) option" where
  "locks_after [] l d = Some (l, d)"
| "locks_after (LIFECYCLE_LOCK err # es) l d = (if l \<or> d then None else locks_after es (err = ESP_OK) d)"
| "locks_after (LIFECYCLE_UNLOCK # es) l d = (if \<not> l \<or> d then None else locks_after es False d)"
| "locks_after (DISPATCH_LOCK # es) l d = (if \<not> l \<or> d then None else locks_after es l True)"
| "locks_after (DISPATCH_UNLOCK # es) l d = (if \<not> d then None else locks_after es l False)"
| "locks_after (GRACE_DELAY # es) l d = (if l \<or> d then None else locks_after es l d)"
| "locks_after (STOP_HTTP err # es) l d = (if l \<or> d then None else locks_after es l d)"
| "locks_after (ERASE_CONFIGURATION err # es) l d = (if l \<or> d then None else locks_after es l d)"
| "locks_after (REBOOT # es) l d = (if l \<or> d then None else locks_after es l d)"
| "locks_after (e # es) l d = (if \<not> l \<or> \<not> d then None else locks_after es l d)"

fun final_event :: "sequence_event \<Rightarrow> bool" where
  "final_event (ERASE_CONFIGURATION err) = True"
| "final_event REBOOT = True"
| "final_event e = False"

lemma locks_append:
  "locks_after (xs @ ys) l d = (case locks_after xs l d of None \<Rightarrow> None | Some (l', d') \<Rightarrow> locks_after ys l' d')"
  by (induction xs l d rule: locks_after.induct) auto

text \<open>A part of the sequence that takes and gives back the locks, and neither erases nor restarts.\<close>

definition guarded_part :: "sequence_event list \<Rightarrow> bool" where
  "guarded_part es \<longleftrightarrow> locks_after es False False = Some (False, False) \<and> list_all (\<lambda>e. \<not> final_event e) es"

definition preflight_log :: "net_snapshot \<Rightarrow> authority_snapshot \<Rightarrow> state_snapshot \<Rightarrow> sequence_event list" where
  "preflight_log net authority state =
     [LIFECYCLE_LOCK ESP_OK, DISPATCH_LOCK, READ_NETWORK ESP_OK net, READ_AUTHORITY ESP_OK authority, READ_STATE state,
      BEGIN_TRANSITION ESP_OK, DISPATCH_UNLOCK, LIFECYCLE_UNLOCK]"

definition revalidate_log :: "net_snapshot \<Rightarrow> authority_snapshot \<Rightarrow> state_snapshot \<Rightarrow> sequence_event list" where
  "revalidate_log net authority state =
     [LIFECYCLE_LOCK ESP_OK, DISPATCH_LOCK, READ_NETWORK ESP_OK net, READ_AUTHORITY ESP_OK authority, READ_STATE state,
      REVOKE_AUTHORITY ESP_OK, DISPATCH_UNLOCK, LIFECYCLE_UNLOCK]"

lemmas logged_simps = logged_reset_def log_call_def log_act_def unlock_both_def read_snapshots_def Let_def

lemma preflight_logged:
  assumes "reset_preflight (logged_reset ops) (w, l) = (r, (w', l'))"
  shows "\<exists>es. l' = l @ es \<and> guarded_part es
    \<and> (case r of
         None \<Rightarrow> \<exists>net authority state. es = preflight_log net authority state
                  \<and> argus_factory_reset_evaluate_policy net authority state False = RESET_POLICY_OK
       | Some result \<Rightarrow> \<not> re_accepted result \<and> \<not> re_configuration_erased result \<and> \<not> re_http_stopped result
           \<and> \<not> re_authority_revoked result \<and> STOP_HTTP ESP_OK \<notin> set es)"
  using assms
  by (auto simp: reset_preflight_def logged_simps guarded_part_def preflight_log_def reset_result_of_def split: prod.splits if_splits)

lemma stop_failed_logged:
  assumes "reset_stop_failed (logged_reset ops) err (w, l) = (r, (w', l'))"
  shows "\<exists>es. l' = l @ es \<and> guarded_part es \<and> STOP_HTTP ESP_OK \<notin> set es
    \<and> \<not> re_accepted r \<and> \<not> re_configuration_erased r \<and> \<not> re_http_stopped r
    \<and> (re_authority_revoked r \<longleftrightarrow> REVOKE_AUTHORITY ESP_OK \<in> set es)"
  using assms
  by (auto simp: reset_stop_failed_def logged_simps guarded_part_def reset_result_of_def split: prod.splits if_splits)

lemma revalidate_logged:
  assumes "reset_revalidate (logged_reset ops) (w, l) = (r, (w', l'))"
  shows "\<exists>es. l' = l @ es \<and> guarded_part es
    \<and> (case r of
         None \<Rightarrow> \<exists>net authority state. es = revalidate_log net authority state \<and> reset_transition_valid net authority state
       | Some result \<Rightarrow> \<not> re_accepted result \<and> \<not> re_configuration_erased result \<and> re_http_stopped result
           \<and> \<not> re_authority_revoked result)"
  using assms
  by (auto simp: reset_revalidate_def logged_simps guarded_part_def revalidate_log_def reset_result_of_def split: prod.splits if_splits)

lemma guarded_append: "guarded_part xs \<Longrightarrow> guarded_part ys \<Longrightarrow> guarded_part (xs @ ys)"
  by (simp add: guarded_part_def locks_append)

lemma guarded_parts: "guarded_part [GRACE_DELAY, STOP_HTTP err]" "guarded_part (preflight_log net authority state)"
  "guarded_part (revalidate_log net authority state)"
  by (simp_all add: guarded_part_def preflight_log_def revalidate_log_def)

lemma guarded_facts:
  assumes "guarded_part es"
  shows "locks_after es False False = Some (False, False)" "\<not> list_ex final_event es" "REBOOT \<notin> set es"
    "ERASE_CONFIGURATION err \<notin> set es"
  using assms by (auto simp: guarded_part_def list_all_iff list_ex_iff)

text \<open>
  C37: Factory reset erases only at the end of the complete guarded sequence. Whatever the
  operations answer, in the sequence of calls that a reset makes: the configuration is erased or
  the device restarted only after, under both locks, the policy accepted the network, the
  authority and the machine and the transition began; the server stopped; and, under both locks
  again, the transition was found in place with the machine at rest and the authority was
  revoked. The restart follows exactly a successful erasure. On every path the locks are taken
  in order and given back, and the result reports what happened.
\<close>

theorem reset_erase_guarded:
  assumes "argus_factory_reset_execute (Some (logged_reset ops)) (w, []) = (r, (w', es))"
  shows "locks_after es False False = Some (False, False)
    \<and> (re_accepted r \<longleftrightarrow> REBOOT \<in> set es) \<and> (re_configuration_erased r \<longleftrightarrow> ERASE_CONFIGURATION ESP_OK \<in> set es)
    \<and> (re_http_stopped r \<longleftrightarrow> STOP_HTTP ESP_OK \<in> set es) \<and> (re_authority_revoked r \<longrightarrow> REVOKE_AUTHORITY ESP_OK \<in> set es)
    \<and> (list_ex final_event es \<longrightarrow>
         (\<exists>net authority state net' authority' state' err.
            es = preflight_log net authority state @ [GRACE_DELAY, STOP_HTTP ESP_OK] @ revalidate_log net' authority' state'
                 @ ERASE_CONFIGURATION err # (if err = ESP_OK then [REBOOT] else [])
            \<and> argus_factory_reset_evaluate_policy net authority state False = RESET_POLICY_OK
            \<and> reset_transition_valid net' authority' state'))"
proof -
  obtain r1 w1 es1 where p: "reset_preflight (logged_reset ops) (w, []) = (r1, (w1, es1))" by (metis prod.exhaust)
  note p' = preflight_logged [OF p]
  show ?thesis
  proof (cases r1)
    case (Some result)
    then have "r = result" "es = es1" using assms p by (auto simp: argus_factory_reset_execute_def)
    then show ?thesis using p' Some guarded_facts [of es1] by auto
  next
    case None
    then obtain net authority state where e1: "es1 = preflight_log net authority state"
        "argus_factory_reset_evaluate_policy net authority state False = RESET_POLICY_OK" using p' by auto
    obtain http w2 where h: "ro_stop_http ops (ro_response_grace_delay ops w1) = (http, w2)" by fastforce
    define es2 where "es2 = es1 @ [GRACE_DELAY, STOP_HTTP http]"
    have g2: "guarded_part es2" "STOP_HTTP ESP_OK \<in> set es2 \<longleftrightarrow> http = ESP_OK" "REVOKE_AUTHORITY ESP_OK \<notin> set es2"
      unfolding es2_def e1 using guarded_append [OF guarded_parts(2,1)] by (auto simp: preflight_log_def)
    have step: "ro_stop_http (logged_reset ops) (ro_response_grace_delay (logged_reset ops) (w1, es1)) = (http, (w2, es2))"
      using h by (simp add: logged_simps es2_def)
    note run = assms [unfolded argus_factory_reset_execute_def option.case p None prod.case Let_def step]
    show ?thesis
    proof (cases "http = ESP_OK")
      case False
      then obtain xs where "es = es2 @ xs" "guarded_part xs" "STOP_HTTP ESP_OK \<notin> set xs" "\<not> re_accepted r" "\<not> re_configuration_erased r"
          "\<not> re_http_stopped r" "re_authority_revoked r \<longleftrightarrow> REVOKE_AUTHORITY ESP_OK \<in> set xs"
        using stop_failed_logged [of ops http w2 es2 r w' es] run by auto
      then show ?thesis using g2 False guarded_facts [OF guarded_append [OF g2(1)], of xs] by auto
    next
      case True
      obtain r3 w3 es3 where v: "reset_revalidate (logged_reset ops) (w2, es2) = (r3, (w3, es3))" by (metis prod.exhaust)
      obtain xs where xs: "es3 = es2 @ xs" "guarded_part xs" and out: "case r3 of
           None \<Rightarrow> \<exists>net authority state. xs = revalidate_log net authority state \<and> reset_transition_valid net authority state
         | Some result \<Rightarrow> \<not> re_accepted result \<and> \<not> re_configuration_erased result \<and> re_http_stopped result
             \<and> \<not> re_authority_revoked result"
        using revalidate_logged [OF v] by blast
      note g3 = guarded_append [OF g2(1) xs(2)]
      show ?thesis
      proof (cases r3)
        case (Some result)
        then have "r = result" "es = es3" using run True v by auto
        then show ?thesis using xs(1) out Some g2 True guarded_facts [OF g3] by auto
      next
        case None
        then obtain net' authority' state' where x: "xs = revalidate_log net' authority' state'"
            "reset_transition_valid net' authority' state'" using out by auto
        obtain err w4 where e: "ro_erase_configuration ops w3 = (err, w4)" by fastforce
        have "ro_erase_configuration (logged_reset ops) (w3, es3) = (err, (w4, es3 @ [ERASE_CONFIGURATION err]))"
          using e by (simp add: logged_simps)
        moreover obtain w5 where "ro_reboot (logged_reset ops) (w4, es3 @ [ERASE_CONFIGURATION err])
            = (w5, es3 @ [ERASE_CONFIGURATION err] @ [REBOOT])"
          by (simp add: logged_reset_def log_act_def)
        ultimately have o: "es = es3 @ ERASE_CONFIGURATION err # (if err = ESP_OK then [REBOOT] else [])"
            "re_accepted r = (err = ESP_OK)" "re_configuration_erased r = (err = ESP_OK)" "re_http_stopped r" "re_authority_revoked r"
          using run True v None by (auto simp: reset_result_of_def split: if_splits)
        have "REVOKE_AUTHORITY ESP_OK \<in> set xs" by (simp add: x(1) revalidate_log_def)
        then have "re_accepted r = (REBOOT \<in> set es)" "re_configuration_erased r = (ERASE_CONFIGURATION ESP_OK \<in> set es)"
            "re_http_stopped r = (STOP_HTTP ESP_OK \<in> set es)" "re_authority_revoked r \<longrightarrow> REVOKE_AUTHORITY ESP_OK \<in> set es"
          using o xs(1) g2(2) True guarded_facts(3,4) [OF g3] by auto
        moreover have "es = preflight_log net authority state @ [GRACE_DELAY, STOP_HTTP ESP_OK] @ revalidate_log net' authority' state'
            @ ERASE_CONFIGURATION err # (if err = ESP_OK then [REBOOT] else [])"
          by (simp add: o(1) xs(1) es2_def e1(1) x(1) True)
        moreover have "locks_after es False False = Some (False, False)"
          unfolding o(1) xs(1) locks_append [of "es2 @ xs"] guarded_facts(1) [OF g3] by simp
        ultimately show ?thesis using e1(2) x(2) by blast
      qed
    qed
  qed
qed

section \<open>The restart\<close>

text \<open>The calls of a restart that goes through.\<close>

definition restart_log :: "state_snapshot \<Rightarrow> state_snapshot \<Rightarrow> sequence_event list" where
  "restart_log state state' = [DISPATCH_LOCK, READ_STATE state, REVOKE_AUTHORITY ESP_OK, DISPATCH_UNLOCK, GRACE_DELAY,
     STOP_HTTP ESP_OK, READ_STATE state', REBOOT]"

text \<open>
  The device restarts only at rest: after a safe reading of the machine under the dispatch lock, the
  revocation of the authority, the stop of the server and a second safe reading. The result says
  accepted exactly for a reboot, and a rejection leaves no dispatch lock behind.
\<close>

lemma restart_guarded:
  assumes "argus_restart_execute (Some (logged_restart ops)) (w, []) = (r, (w', es))"
  shows "(rt_accepted r \<longleftrightarrow> REBOOT \<in> set es) \<and> count_list es DISPATCH_LOCK = count_list es DISPATCH_UNLOCK
    \<and> (rt_authority_revoked r \<longleftrightarrow> REVOKE_AUTHORITY ESP_OK \<in> set es)
    \<and> (REBOOT \<in> set es \<longrightarrow> (\<exists>state state'. es = restart_log state state'
         \<and> argus_restart_is_safe (Some state) \<and> argus_restart_is_safe (Some state')))"
  using assms
  by (auto simp: argus_restart_execute_def logged_restart_def log_call_def log_act_def restart_log_def restart_result_zero_def Let_def
      split: prod.splits if_splits)

section \<open>A reset\<close>

text \<open>A table in which every operation succeeds; the world counts the calls that answer.\<close>

definition idle_net :: net_snapshot where
  "idle_net = demo_net\<lparr> ns_mode := MODE_SERVICE_AP_ONLY, ns_sta_connected := False, ns_sta_ip_acquired := False,
     ns_sta_state := STA_DISABLED, ns_mqtt_broker_running := False, ns_mqtt_broker_stopped := True \<rparr>"

definition idle_state :: state_snapshot where
  "idle_state = \<lparr> sn_machine_state = STATE_UNLOCKED, sn_configured_target_rpm_milli = 0, sn_trajectory_target_rpm_milli = 0,
     sn_applied_rpm_milli = 0, sn_generated_rpm_milli = 0, sn_generated_step_count = 0, sn_requested_forward = True,
     sn_applied_forward = True, sn_driver_enabled = False, sn_ramp_active = False, sn_estop_latched = False, sn_fault_code = 0,
     sn_command_generation = 1, sn_feedback_available = False, sn_last_rejection_reason = [] \<rparr>"

definition smooth_reset :: "bool reset_ops" where
  "smooth_reset =
     \<lparr> ro_lock_lifecycle = (\<lambda>b. (ESP_OK, b)), ro_unlock_lifecycle = (\<lambda>b. b), ro_lock_dispatch = (\<lambda>b. b), ro_unlock_dispatch = (\<lambda>b. b),
       ro_get_network_snapshot = (\<lambda>b. ((ESP_OK, if b then idle_net\<lparr> ns_mode := MODE_SERVICE_TRANSITION \<rparr> else idle_net), b)),
       ro_get_authority_snapshot = (\<lambda>b. ((ESP_OK, if b then \<lparr> as_mode = AUTHORITY_SERVICE_TRANSITION, as_owner = AUTH_OWNER_NONE,
          as_generation = 6 \<rparr> else \<lparr> as_mode = AUTHORITY_LOCAL_SERVICE, as_owner = AUTH_OWNER_BROWSER, as_generation = 5 \<rparr>), b)),
       ro_get_state_snapshot = (\<lambda>b. (idle_state, b)), ro_begin_transition = (\<lambda>b. (ESP_OK, True)), ro_response_grace_delay = (\<lambda>b. b),
       ro_stop_http = (\<lambda>b. (ESP_OK, b)), ro_revoke_authority = (\<lambda>b. (ESP_OK, b)), ro_erase_configuration = (\<lambda>b. (ESP_OK, b)),
       ro_reboot = (\<lambda>b. b) \<rparr>"

theorem reset_erase_guarded_witness:
  "\<exists>r w es. argus_factory_reset_execute (Some (logged_reset smooth_reset)) (False, []) = (r, (w, es))
     \<and> ERASE_CONFIGURATION ESP_OK \<in> set es \<and> re_accepted r"
proof -
  obtain r w es where run: "argus_factory_reset_execute (Some (logged_reset smooth_reset)) (False, []) = (r, (w, es))" by (metis prod.exhaust)
  have "re_accepted (fst (argus_factory_reset_execute (Some (logged_reset smooth_reset)) (False, [])))"
      "re_configuration_erased (fst (argus_factory_reset_execute (Some (logged_reset smooth_reset)) (False, [])))"
    by code_simp+
  then show ?thesis using reset_erase_guarded [OF run] run by simp
qed

end
