(* ===== verification/Browser_Command.thy ===== *)
theory Browser_Command
  imports Cmd_Router Service_Policy Identity
begin

text \<open>
  The browser command path: the strict decoder of the request body (\<open>argus_browser_command.c\<close>) and the
  endpoint that receives, admits and dispatches it (\<open>argus_browser_command_endpoint.c\<close>).

  The parser's position is the list of the bytes that are left. A parser of a value answers with an
  error or with the value and the rest. Pointers are not null, except that the table of operations
  and the body may be absent.
\<close>

section \<open>Types\<close>

abbreviation (input) BROWSER_COMMAND_MAX_BODY_LEN :: nat where "BROWSER_COMMAND_MAX_BODY_LEN \<equiv> 192"
abbreviation (input) BROWSER_COMMAND_MAX_TARGET_RPM_MILLI :: nat where "BROWSER_COMMAND_MAX_TARGET_RPM_MILLI \<equiv> 200000"

datatype browser_decode_result =
    BROWSER_DECODE_OK
  | BROWSER_DECODE_INVALID_ARGUMENT
  | BROWSER_DECODE_EMPTY_BODY
  | BROWSER_DECODE_BODY_TOO_LARGE
  | BROWSER_DECODE_TOP_LEVEL_NOT_OBJECT
  | BROWSER_DECODE_MALFORMED_JSON
  | BROWSER_DECODE_DUPLICATE_FIELD
  | BROWSER_DECODE_UNKNOWN_FIELD
  | BROWSER_DECODE_MISSING_FIELD
  | BROWSER_DECODE_INVALID_TYPE
  | BROWSER_DECODE_UNSUPPORTED_COMMAND
  | BROWSER_DECODE_VALUE_OUT_OF_RANGE
  | BROWSER_DECODE_UNEXPECTED_FIELD

text \<open>The command type of an invalid request is \<open>-1\<close> in the code and \<open>None\<close> here.\<close>

record browser_request =
  br_is_valid :: bool
  br_command_type :: "cmd_type option"
  br_target_rpm_milli :: int
  br_forward :: bool

definition invalid_request :: browser_request where
  "invalid_request = \<lparr> br_is_valid = False, br_command_type = None, br_target_rpm_milli = 0, br_forward = False \<rparr>"

datatype browser_field = FIELD_COMMAND | FIELD_TARGET_RPM_MILLI | FIELD_FORWARD

section \<open>Strings\<close>

definition is_json_whitespace :: "u8 \<Rightarrow> bool" where
  "is_json_whitespace ch \<longleftrightarrow> ch = 32 \<or> ch = 9 \<or> ch = 13 \<or> ch = 10"

definition skip_whitespace :: "u8 list \<Rightarrow> u8 list" where
  "skip_whitespace body = dropWhile is_json_whitespace body"

definition is_value_delimiter :: "u8 list \<Rightarrow> bool" where
  "is_value_delimiter body = (case body of [] \<Rightarrow> True | ch # _ \<Rightarrow> is_json_whitespace ch \<or> ch = 44 \<or> ch = 125)"

definition browser_hex_value :: "u8 \<Rightarrow> u32 option" where
  "browser_hex_value ch =
     (if 48 \<le> ch \<and> ch \<le> 57 then Some (ucast (ch - 48))
      else if 97 \<le> ch \<and> ch \<le> 102 then Some (ucast (ch - 97) + 10)
      else if 65 \<le> ch \<and> ch \<le> 70 then Some (ucast (ch - 65) + 10)
      else None)"

definition parse_hex_quad :: "u8 list \<Rightarrow> (u32 \<times> u8 list) option" where
  "parse_hex_quad body =
     (case body of
        a # b # c # d # rest \<Rightarrow>
          (case (browser_hex_value a, browser_hex_value b, browser_hex_value c, browser_hex_value d) of
             (Some p, Some q, Some r, Some s) \<Rightarrow>
               Some (push_bit 4 (push_bit 4 (push_bit 4 p OR q) OR r) OR s, rest)
           | _ \<Rightarrow> None)
      | _ \<Rightarrow> None)"

text \<open>The text so far and the capacity of the buffer; the terminator needs one byte.\<close>

definition append_byte :: "nat \<Rightarrow> u8 \<Rightarrow> u8 list \<Rightarrow> u8 list option" where
  "append_byte out_size b out = (if b = 0 \<or> length out + 1 \<ge> out_size then None else Some (out @ [b]))"

fun append_bytes :: "nat \<Rightarrow> u8 list \<Rightarrow> u8 list \<Rightarrow> u8 list option" where
  "append_bytes out_size [] out = Some out"
| "append_bytes out_size (b # bs) out =
     (case append_byte out_size b out of None \<Rightarrow> None | Some out' \<Rightarrow> append_bytes out_size bs out')"

definition append_codepoint :: "nat \<Rightarrow> u32 \<Rightarrow> u8 list \<Rightarrow> u8 list option" where
  "append_codepoint out_size cp out =
     (if cp = 0 \<or> cp > 0x10FFFF \<or> (0xD800 \<le> cp \<and> cp \<le> 0xDFFF) then None
      else if cp \<le> 0x7F then append_byte out_size (ucast cp) out
      else if cp \<le> 0x7FF
      then append_bytes out_size [ucast (0xC0 OR drop_bit 6 cp), ucast (0x80 OR (cp AND 0x3F))] out
      else if cp \<le> 0xFFFF
      then append_bytes out_size [ucast (0xE0 OR drop_bit 12 cp), ucast (0x80 OR (drop_bit 6 cp AND 0x3F)),
             ucast (0x80 OR (cp AND 0x3F))] out
      else append_bytes out_size [ucast (0xF0 OR drop_bit 18 cp), ucast (0x80 OR (drop_bit 12 cp AND 0x3F)),
             ucast (0x80 OR (drop_bit 6 cp AND 0x3F)), ucast (0x80 OR (cp AND 0x3F))] out)"

text \<open>The code point after \<open>\u\<close>: one quad, or two that are a surrogate pair.\<close>

definition parse_codepoint :: "u8 list \<Rightarrow> (u32 \<times> u8 list) option" where
  "parse_codepoint body =
     (case parse_hex_quad body of
        None \<Rightarrow> None
      | Some (cp, rest) \<Rightarrow>
          if 0xD800 \<le> cp \<and> cp \<le> 0xDBFF
          then (if length rest < 6 \<or> rest ! 0 \<noteq> 92 \<or> rest ! 1 \<noteq> 117 then None
                else (case parse_hex_quad (drop 2 rest) of
                        None \<Rightarrow> None
                      | Some (low, rest2) \<Rightarrow>
                          if low < 0xDC00 \<or> low > 0xDFFF then None
                          else Some (0x10000 + push_bit 10 (cp - 0xD800) + (low - 0xDC00), rest2)))
          else if 0xDC00 \<le> cp \<and> cp \<le> 0xDFFF then None
          else Some (cp, rest))"

text \<open>The part of an escape after the backslash.\<close>

definition parse_escape :: "nat \<Rightarrow> u8 list \<Rightarrow> u8 list \<Rightarrow> (u8 list \<times> u8 list) option" where
  "parse_escape out_size body out =
     (case body of
        [] \<Rightarrow> None
      | e # rest \<Rightarrow>
          (let plain = (\<lambda>b. map_option (\<lambda>out'. (out', rest)) (append_byte out_size b out)) in
           if e = 34 \<or> e = 92 \<or> e = 47 then plain e
           else if e = 98 then plain 8
           else if e = 102 then plain 12
           else if e = 110 then plain 10
           else if e = 114 then plain 13
           else if e = 116 then plain 9
           else if e = 117
           then (case parse_codepoint rest of
                   None \<Rightarrow> None
                 | Some (cp, rest2) \<Rightarrow> map_option (\<lambda>out'. (out', rest2)) (append_codepoint out_size cp out))
           else None))"

lemma parse_hex_quad_length: "parse_hex_quad body = Some (v, rest) \<Longrightarrow> length rest < length body"
  by (auto simp: parse_hex_quad_def split: list.splits option.splits)

lemma parse_codepoint_length: "parse_codepoint body = Some (v, rest) \<Longrightarrow> length rest < length body"
  by (auto simp: parse_codepoint_def split: option.splits if_splits dest!: parse_hex_quad_length)

lemma parse_escape_length: "parse_escape out_size body out = Some (out', rest) \<Longrightarrow> length rest < length body"
  by (auto simp: parse_escape_def Let_def split: list.splits option.splits if_splits dest!: parse_codepoint_length)

text \<open>The loop of the string parser, after the opening quote.\<close>

function scan_json_string :: "nat \<Rightarrow> u8 list \<Rightarrow> u8 list \<Rightarrow> (u8 list \<times> u8 list) option" where
  "scan_json_string out_size out body =
     (case body of
        [] \<Rightarrow> None
      | ch # rest \<Rightarrow>
          if ch = 34 then Some (out, rest)
          else if ch < 0x20 then None
          else if ch \<noteq> 92
          then (case append_byte out_size ch out of None \<Rightarrow> None | Some out' \<Rightarrow> scan_json_string out_size out' rest)
          else (case parse_escape out_size rest out of
                  None \<Rightarrow> None
                | Some (out', rest2) \<Rightarrow> scan_json_string out_size out' rest2))"
  by pat_completeness auto

termination
  by (relation "measure (\<lambda>(out_size, out, body). length body)") (auto dest!: parse_escape_length)

declare scan_json_string.simps [simp del]

definition parse_json_string :: "nat \<Rightarrow> u8 list \<Rightarrow> (u8 list \<times> u8 list) option" where
  "parse_json_string out_size body =
     (case body of
        [] \<Rightarrow> None
      | ch # rest \<Rightarrow> if ch \<noteq> 34 \<or> out_size = 0 then None else scan_json_string out_size [] rest)"

section \<open>Values\<close>

definition identify_field :: "u8 list \<Rightarrow> browser_field option" where
  "identify_field key =
     (if key = str_bytes ''command'' then Some FIELD_COMMAND
      else if key = str_bytes ''target_rpm_milli'' then Some FIELD_TARGET_RPM_MILLI
      else if key = str_bytes ''forward'' then Some FIELD_FORWARD
      else None)"

definition browser_mappings :: "(u8 list \<times> cmd_type) list" where
  "browser_mappings =
     [(str_bytes ''set_target'', CMD_TYPE_SET_TARGET), (str_bytes ''start'', CMD_TYPE_START),
      (str_bytes ''stop'', CMD_TYPE_STOP_NORMAL), (str_bytes ''unlock'', CMD_TYPE_UNLOCK),
      (str_bytes ''estop'', CMD_TYPE_ESTOP), (str_bytes ''reset_estop'', CMD_TYPE_RESET_ESTOP),
      (str_bytes ''recover'', CMD_TYPE_RECOVER)]"

definition map_command :: "u8 list \<Rightarrow> cmd_type option" where
  "map_command command = map_of browser_mappings command"

definition parse_command_value :: "u8 list \<Rightarrow> browser_decode_result + cmd_type \<times> u8 list" where
  "parse_command_value body =
     (case body of
        [] \<Rightarrow> Inl BROWSER_DECODE_MALFORMED_JSON
      | ch # _ \<Rightarrow>
          if ch \<noteq> 34 then Inl BROWSER_DECODE_INVALID_TYPE
          else (case parse_json_string 20 body of
                  None \<Rightarrow> Inl BROWSER_DECODE_MALFORMED_JSON
                | Some (command, rest) \<Rightarrow>
                    (case map_command command of
                       None \<Rightarrow> Inl BROWSER_DECODE_UNSUPPORTED_COMMAND
                     | Some t \<Rightarrow> Inr (t, rest))))"

definition browser_digit :: "u8 \<Rightarrow> bool" where
  "browser_digit ch \<longleftrightarrow> 48 \<le> ch \<and> ch \<le> 57"

text \<open>The digits of a number; \<open>None\<close> when a 64-bit value would overflow.\<close>

fun scan_digits :: "u64 \<Rightarrow> u8 list \<Rightarrow> (u64 \<times> u8 list) option" where
  "scan_digits v [] = Some (v, [])"
| "scan_digits v (ch # rest) =
     (if \<not> browser_digit ch then Some (v, ch # rest)
      else (let digit = ucast (ch - 48) in
            if v > (- 1 - digit) div 10 then None else scan_digits (v * 10 + digit) rest))"

definition parse_target_value :: "u8 list \<Rightarrow> browser_decode_result + int \<times> u8 list" where
  "parse_target_value body =
     (if body = [] then Inl BROWSER_DECODE_MALFORMED_JSON
      else
        (let negative = (hd body = 45); number = (if negative then tl body else body) in
         case number of
           [] \<Rightarrow> Inl BROWSER_DECODE_MALFORMED_JSON
         | ch # rest \<Rightarrow>
             if \<not> browser_digit ch then Inl BROWSER_DECODE_INVALID_TYPE
             else if ch = 48 \<and> rest \<noteq> [] \<and> browser_digit (hd rest) then Inl BROWSER_DECODE_MALFORMED_JSON
             else (case (if ch = 48 then Some (0, rest) else scan_digits 0 number) of
                     None \<Rightarrow> Inl BROWSER_DECODE_VALUE_OUT_OF_RANGE
                   | Some (v, rest2) \<Rightarrow>
                       if rest2 \<noteq> [] \<and> (hd rest2 = 46 \<or> hd rest2 = 101 \<or> hd rest2 = 69)
                       then Inl BROWSER_DECODE_INVALID_TYPE
                       else if \<not> is_value_delimiter rest2 then Inl BROWSER_DECODE_MALFORMED_JSON
                       else if negative \<or> unat v > BROWSER_COMMAND_MAX_TARGET_RPM_MILLI
                       then Inl BROWSER_DECODE_VALUE_OUT_OF_RANGE
                       else Inr (uint v, rest2))))"

definition parse_forward_value :: "u8 list \<Rightarrow> browser_decode_result + bool \<times> u8 list" where
  "parse_forward_value body =
     (if body = [] then Inl BROWSER_DECODE_MALFORMED_JSON
      else if take 4 body = str_bytes ''true''
      then (if is_value_delimiter (drop 4 body) then Inr (True, drop 4 body) else Inl BROWSER_DECODE_MALFORMED_JSON)
      else if take 5 body = str_bytes ''false''
      then (if is_value_delimiter (drop 5 body) then Inr (False, drop 5 body) else Inl BROWSER_DECODE_MALFORMED_JSON)
      else Inl BROWSER_DECODE_INVALID_TYPE)"

definition parse_field_value ::
  "browser_field \<Rightarrow> u8 list \<Rightarrow> browser_request \<Rightarrow> browser_decode_result + browser_request \<times> u8 list" where
  "parse_field_value field body candidate =
     (case field of
        FIELD_COMMAND \<Rightarrow>
          (case parse_command_value body of
             Inl e \<Rightarrow> Inl e | Inr (t, rest) \<Rightarrow> Inr (candidate\<lparr> br_command_type := Some t \<rparr>, rest))
      | FIELD_TARGET_RPM_MILLI \<Rightarrow>
          (case parse_target_value body of
             Inl e \<Rightarrow> Inl e | Inr (v, rest) \<Rightarrow> Inr (candidate\<lparr> br_target_rpm_milli := v \<rparr>, rest))
      | FIELD_FORWARD \<Rightarrow>
          (case parse_forward_value body of
             Inl e \<Rightarrow> Inl e | Inr (v, rest) \<Rightarrow> Inr (candidate\<lparr> br_forward := v \<rparr>, rest)))"

lemma skip_whitespace_length: "length (skip_whitespace body) \<le> length body"
  by (simp add: skip_whitespace_def length_dropWhile_le)

lemma scan_json_string_length: "scan_json_string out_size out body = Some (v, rest) \<Longrightarrow> length rest \<le> length body"
proof (induction out_size out body arbitrary: v rest rule: scan_json_string.induct)
  case (1 out_size out body)
  then show ?case
    by (subst (asm) (3) scan_json_string.simps)
      (fastforce split: list.splits if_splits option.splits dest: parse_escape_length)
qed

lemma parse_json_string_length: "parse_json_string out_size body = Some (v, rest) \<Longrightarrow> length rest < length body"
  by (auto simp: parse_json_string_def less_Suc_eq_le split: list.splits if_splits dest!: scan_json_string_length)

lemma scan_digits_length: "scan_digits v body = Some (w, rest) \<Longrightarrow> length rest \<le> length body"
  by (induction v body rule: scan_digits.induct) (auto simp: Let_def split: if_splits)

lemma parse_field_value_length: "parse_field_value field body c = Inr (c', rest) \<Longrightarrow> length rest \<le> length body"
  by (cases field; cases body)
    (auto simp: parse_field_value_def parse_command_value_def parse_target_value_def parse_forward_value_def Let_def
      split: sum.splits list.splits option.splits if_splits dest!: parse_json_string_length scan_digits_length)

section \<open>The decoder\<close>

text \<open>The loop over the fields, at the start of a key; the fields seen so far are the code's bit mask.\<close>

function decode_fields ::
  "browser_field list \<Rightarrow> browser_request \<Rightarrow> u8 list \<Rightarrow>
     browser_decode_result + browser_field list \<times> browser_request \<times> u8 list" where
  "decode_fields seen candidate body =
     (case parse_json_string 24 body of
        None \<Rightarrow> Inl BROWSER_DECODE_MALFORMED_JSON
      | Some (key, r1) \<Rightarrow>
          (case skip_whitespace r1 of
             [] \<Rightarrow> Inl BROWSER_DECODE_MALFORMED_JSON
           | colon # r2 \<Rightarrow>
               if colon \<noteq> 58 then Inl BROWSER_DECODE_MALFORMED_JSON
               else (case identify_field key of
                       None \<Rightarrow> Inl BROWSER_DECODE_UNKNOWN_FIELD
                     | Some field \<Rightarrow>
                         if field \<in> set seen then Inl BROWSER_DECODE_DUPLICATE_FIELD
                         else (case parse_field_value field (skip_whitespace r2) candidate of
                                 Inl e \<Rightarrow> Inl e
                               | Inr (candidate2, r3) \<Rightarrow>
                                   (case skip_whitespace r3 of
                                      [] \<Rightarrow> Inl BROWSER_DECODE_MALFORMED_JSON
                                    | ch # r4 \<Rightarrow>
                                        if ch = 125 then Inr (field # seen, candidate2, r4)
                                        else if ch \<noteq> 44 then Inl BROWSER_DECODE_MALFORMED_JSON
                                        else decode_fields (field # seen) candidate2 (skip_whitespace r4))))))"
  by pat_completeness auto

termination
proof (relation "measure (\<lambda>(seen, candidate, body). length body)")
  fix seen :: "browser_field list" and candidate body y key r1 colon r2 field x candidate2 r3 ch r4
  assume a: "parse_json_string 24 body = Some y" "(key, r1) = y" "skip_whitespace r1 = colon # r2"
    "parse_field_value field (skip_whitespace r2) candidate = Inr x" "(candidate2, r3) = x" "skip_whitespace r3 = ch # r4"
  have "length r1 < length body" using parse_json_string_length a(1,2) by metis
  moreover have "length r2 < length r1" using skip_whitespace_length [of r1] a(3) by simp
  moreover have "length r3 \<le> length (skip_whitespace r2)" using parse_field_value_length a(4,5) by metis
  moreover have "length r4 < length r3" using skip_whitespace_length [of r3] a(6) by simp
  ultimately show "((field # seen, candidate2, skip_whitespace r4), seen, candidate, body)
      \<in> measure (\<lambda>(seen, candidate, body). length body)"
    using skip_whitespace_length [of r2] skip_whitespace_length [of r4] by simp
qed simp

declare decode_fields.simps [simp del]

text \<open>The checks after the object.\<close>

definition finish_request ::
  "browser_field list \<times> browser_request \<times> u8 list \<Rightarrow> browser_decode_result \<times> browser_request" where
  "finish_request r =
     (case r of (seen, candidate, rest) \<Rightarrow>
        if skip_whitespace rest \<noteq> [] then (BROWSER_DECODE_MALFORMED_JSON, invalid_request)
        else if FIELD_COMMAND \<notin> set seen then (BROWSER_DECODE_MISSING_FIELD, invalid_request)
        else if br_command_type candidate = Some CMD_TYPE_SET_TARGET
                \<and> \<not> (FIELD_TARGET_RPM_MILLI \<in> set seen \<and> FIELD_FORWARD \<in> set seen)
        then (BROWSER_DECODE_MISSING_FIELD, invalid_request)
        else if br_command_type candidate \<noteq> Some CMD_TYPE_SET_TARGET
                \<and> (FIELD_TARGET_RPM_MILLI \<in> set seen \<or> FIELD_FORWARD \<in> set seen)
        then (BROWSER_DECODE_UNEXPECTED_FIELD, invalid_request)
        else (BROWSER_DECODE_OK, candidate\<lparr> br_is_valid := True \<rparr>))"

definition argus_browser_command_decode :: "u8 list \<Rightarrow> browser_decode_result \<times> browser_request" where
  "argus_browser_command_decode body =
     (if length body > BROWSER_COMMAND_MAX_BODY_LEN then (BROWSER_DECODE_BODY_TOO_LARGE, invalid_request)
      else case skip_whitespace body of
        [] \<Rightarrow> (BROWSER_DECODE_EMPTY_BODY, invalid_request)
      | brace # r1 \<Rightarrow>
          if brace \<noteq> 123 then (BROWSER_DECODE_TOP_LEVEL_NOT_OBJECT, invalid_request)
          else (case skip_whitespace r1 of
                  [] \<Rightarrow> (BROWSER_DECODE_MALFORMED_JSON, invalid_request)
                | ch # r2 \<Rightarrow>
                    if ch = 125 then finish_request ([], invalid_request, r2)
                    else (case decode_fields [] invalid_request (ch # r2) of
                            Inl e \<Rightarrow> (e, invalid_request)
                          | Inr r \<Rightarrow> finish_request r)))"

section \<open>The endpoint\<close>

datatype browser_receive_result =
    BODY_RECEIVE_OK
  | BODY_RECEIVE_INVALID_ARGUMENT
  | BODY_RECEIVE_EMPTY
  | BODY_RECEIVE_TOO_LARGE
  | BODY_RECEIVE_TRUNCATED
  | BODY_RECEIVE_TIMEOUT
  | BODY_RECEIVE_ERROR

datatype browser_endpoint_result =
    ENDPOINT_OK
  | ENDPOINT_UNAUTHORIZED
  | ENDPOINT_BAD_REQUEST
  | ENDPOINT_FORBIDDEN
  | ENDPOINT_CONFLICT
  | ENDPOINT_INTERNAL_ERROR

text \<open>
  The \<open>i\<close>th call of the receiver is asked for at most the given number of bytes; it answers with
  the number it claims and with what the buffer holds from its position on.
\<close>

function browser_receive_loop ::
  "nat \<Rightarrow> (nat \<Rightarrow> nat \<Rightarrow> int \<times> (nat \<Rightarrow> u8)) \<Rightarrow> nat \<Rightarrow> u8 list \<Rightarrow> browser_receive_result \<times> u8 list" where
  "browser_receive_loop content_len recv i received =
     (if length received \<ge> content_len then (BODY_RECEIVE_OK, received)
      else
        (let remaining = content_len - length received; (chunk, data) = recv i remaining in
         if chunk = - 1000 then (BODY_RECEIVE_TIMEOUT, [])
         else if chunk = 0 then (BODY_RECEIVE_TRUNCATED, [])
         else if chunk < 0 \<or> nat chunk > remaining then (BODY_RECEIVE_ERROR, [])
         else browser_receive_loop content_len recv (Suc i) (received @ map data [0..<nat chunk])))"
  by pat_completeness auto

termination
  by (relation "measure (\<lambda>(content_len, recv, i, received). content_len - length received)") auto

definition argus_browser_command_receive_body ::
  "nat \<Rightarrow> (nat \<Rightarrow> nat \<Rightarrow> int \<times> (nat \<Rightarrow> u8)) \<Rightarrow> nat \<Rightarrow> browser_receive_result \<times> u8 list" where
  "argus_browser_command_receive_body content_len recv out_capacity =
     (if content_len = 0 then (BODY_RECEIVE_EMPTY, [])
      else if content_len > BROWSER_COMMAND_MAX_BODY_LEN then (BODY_RECEIVE_TOO_LARGE, [])
      else if content_len > out_capacity then (BODY_RECEIVE_INVALID_ARGUMENT, [])
      else browser_receive_loop content_len recv 0 [])"

record browser_receive_disposition =
  bd_continue_request :: bool
  bd_close_session :: bool
  bd_response_result :: browser_endpoint_result
  bd_handler_result :: esp_err

definition argus_browser_command_receive_disposition :: "browser_receive_result \<Rightarrow> browser_receive_disposition" where
  "argus_browser_command_receive_disposition result =
     (let out = \<lparr> bd_continue_request = False, bd_close_session = True, bd_response_result = ENDPOINT_INTERNAL_ERROR,
                 bd_handler_result = ESP_FAIL \<rparr>
      in case result of
           BODY_RECEIVE_OK \<Rightarrow> out\<lparr> bd_continue_request := True, bd_close_session := False, bd_response_result := ENDPOINT_OK,
             bd_handler_result := ESP_OK \<rparr>
         | BODY_RECEIVE_EMPTY \<Rightarrow> out\<lparr> bd_close_session := False, bd_response_result := ENDPOINT_BAD_REQUEST,
             bd_handler_result := ESP_OK \<rparr>
         | BODY_RECEIVE_INVALID_ARGUMENT \<Rightarrow> out
         | _ \<Rightarrow> out\<lparr> bd_response_result := ENDPOINT_BAD_REQUEST \<rparr>)"

record 'w browser_ops =
  bo_get_network_snapshot :: "'w \<Rightarrow> (esp_err \<times> net_snapshot) \<times> 'w"
  bo_get_authority_snapshot :: "'w \<Rightarrow> (esp_err \<times> authority_snapshot) \<times> 'w"
  bo_dispatch :: "command_envelope \<Rightarrow> 'w \<Rightarrow> esp_err \<times> 'w"

record browser_outcome =
  bw_result :: browser_endpoint_result
  bw_decode_result :: browser_decode_result
  bw_operation_error :: esp_err
  bw_envelope :: "command_envelope option"

definition browser_outcome_reset :: browser_outcome where
  "browser_outcome_reset = \<lparr> bw_result = ENDPOINT_INTERNAL_ERROR, bw_decode_result = BROWSER_DECODE_INVALID_ARGUMENT,
     bw_operation_error = ESP_OK, bw_envelope = None \<rparr>"

definition browser_envelope :: "browser_request \<Rightarrow> cmd_type \<Rightarrow> authority_snapshot \<Rightarrow> command_envelope" where
  "browser_envelope request t authority =
     \<lparr> env_source = CMD_SRC_LOCAL_SERVICE_PORTAL, env_command_type = t, env_authority_generation = as_generation authority,
       env_target_rpm_milli = br_target_rpm_milli request, env_forward = br_forward request \<rparr>"

definition dispatch_result :: "esp_err \<Rightarrow> browser_endpoint_result" where
  "dispatch_result err =
     (if err = ESP_OK then ENDPOINT_OK
      else if err = ESP_ERR_INVALID_STATE \<or> err = ESP_ERR_INVALID_ARG then ENDPOINT_CONFLICT
      else ENDPOINT_INTERNAL_ERROR)"

definition argus_browser_command_endpoint_process ::
  "bool \<Rightarrow> u8 list option \<Rightarrow> 'w browser_ops option \<Rightarrow> 'w \<Rightarrow> browser_outcome \<times> 'w" where
  "argus_browser_command_endpoint_process authenticated body table w =
     (let out = browser_outcome_reset in
      if \<not> authenticated then (out\<lparr> bw_result := ENDPOINT_UNAUTHORIZED \<rparr>, w)
      else case (body, table) of
        (Some b, Some ops) \<Rightarrow>
          (let (decoded, request) = argus_browser_command_decode b; out1 = out\<lparr> bw_decode_result := decoded \<rparr> in
           case br_command_type request of
             None \<Rightarrow> (out1\<lparr> bw_result := ENDPOINT_BAD_REQUEST \<rparr>, w)
           | Some t \<Rightarrow>
               if decoded \<noteq> BROWSER_DECODE_OK \<or> \<not> br_is_valid request then (out1\<lparr> bw_result := ENDPOINT_BAD_REQUEST \<rparr>, w)
               else
                 (let ((err, net), w1) = bo_get_network_snapshot ops w in
                  if err \<noteq> ESP_OK then (out1\<lparr> bw_operation_error := err \<rparr>, w1)
                  else if ns_mode net \<noteq> MODE_SERVICE_AP_ONLY then (out1\<lparr> bw_result := ENDPOINT_FORBIDDEN \<rparr>, w1)
                  else
                    (let ((err2, authority), w2) = bo_get_authority_snapshot ops w1 in
                     if err2 \<noteq> ESP_OK then (out1\<lparr> bw_operation_error := err2 \<rparr>, w2)
                     else if as_mode authority \<noteq> AUTHORITY_LOCAL_SERVICE \<or> as_owner authority \<noteq> AUTH_OWNER_BROWSER
                     then (out1\<lparr> bw_result := ENDPOINT_FORBIDDEN \<rparr>, w2)
                     else
                       (let envelope = browser_envelope request t authority; (err3, w3) = bo_dispatch ops envelope w2
                        in (out1\<lparr> bw_envelope := Some envelope, bw_operation_error := err3,
                                  bw_result := dispatch_result err3 \<rparr>, w3)))))
      | _ \<Rightarrow> (out, w))"

record browser_response =
  rp_status_code :: nat
  rp_status_line :: string
  rp_json_body :: string
  rp_cache_control :: string

definition argus_browser_command_response_for :: "browser_endpoint_result \<Rightarrow> browser_response" where
  "argus_browser_command_response_for result =
     (let response = (\<lambda>code line body. \<lparr> rp_status_code = code, rp_status_line = line, rp_json_body = body,
                        rp_cache_control = ''no-store'' \<rparr>)
      in case result of
           ENDPOINT_OK \<Rightarrow> response 200 ''200 OK'' ''{\"ok\":true,\"status\":\"accepted\"}''
         | ENDPOINT_UNAUTHORIZED \<Rightarrow> response 401 ''401 Unauthorized'' ''{\"ok\":false,\"error\":\"unauthorized\"}''
         | ENDPOINT_BAD_REQUEST \<Rightarrow> response 400 ''400 Bad Request'' ''{\"ok\":false,\"error\":\"invalid_request\"}''
         | ENDPOINT_FORBIDDEN \<Rightarrow> response 403 ''403 Forbidden'' ''{\"ok\":false,\"error\":\"command_not_admitted\"}''
         | ENDPOINT_CONFLICT \<Rightarrow> response 409 ''409 Conflict'' ''{\"ok\":false,\"error\":\"command_conflict\"}''
         | ENDPOINT_INTERNAL_ERROR \<Rightarrow>
             response 500 ''500 Internal Server Error'' ''{\"ok\":false,\"error\":\"internal_error\"}'')"

end
