(* ===== verification/Browser_Props.thy ===== *)
theory Browser_Props
  imports Browser_Command Mqtt_Decode_Props Call_Log
begin

text \<open>
  Correctness of the browser command path: what the decoder accepts is a well-formed command,
  every command in its plain form is decoded to itself, and the endpoint dispatches at most one
  command, under the authority that it read.
\<close>

section \<open>What is accepted\<close>

text \<open>A candidate is described by the fields seen so far.\<close>

definition candidate_ok :: "browser_field list \<Rightarrow> browser_request \<Rightarrow> bool" where
  "candidate_ok seen c \<longleftrightarrow> 0 \<le> br_target_rpm_milli c \<and> br_target_rpm_milli c \<le> 200000 \<and> \<not> br_is_valid c
     \<and> (FIELD_COMMAND \<in> set seen \<longleftrightarrow> br_command_type c \<noteq> None)
     \<and> (FIELD_TARGET_RPM_MILLI \<notin> set seen \<longrightarrow> br_target_rpm_milli c = 0)
     \<and> (FIELD_FORWARD \<notin> set seen \<longrightarrow> \<not> br_forward c)"

lemma parse_target_value_range: "parse_target_value body = Inr (v, rest) \<Longrightarrow> 0 \<le> v \<and> v \<le> 200000"
  by (auto simp: parse_target_value_def Let_def not_less split: list.splits if_splits option.splits)
    (simp_all add: nat_le_eq_zle [symmetric] nat_uint_eq)

lemma parse_field_value_ok:
  assumes "parse_field_value field body c = Inr (c', rest)" "candidate_ok seen c"
  shows "candidate_ok (field # seen) c'"
  using assms
  by (cases field)
    (auto simp: parse_field_value_def candidate_ok_def split: sum.splits dest!: parse_target_value_range)

lemma decode_fields_ok:
  "decode_fields seen c body = Inr (seen', c', rest) \<Longrightarrow> candidate_ok seen c \<Longrightarrow> candidate_ok seen' c'"
proof (induction seen c body arbitrary: seen' c' rest rule: decode_fields.induct)
  case (1 seen c body)
  obtain key r1 r2 field c2 r3 ch r4 where s: "parse_json_string 24 body = Some (key, r1)" "skip_whitespace r1 = 58 # r2"
      "identify_field key = Some field" "field \<notin> set seen" "parse_field_value field (skip_whitespace r2) c = Inr (c2, r3)"
      "skip_whitespace r3 = ch # r4" and r: "decode_fields seen c body =
        (if ch = 125 then Inr (field # seen, c2, r4)
         else if ch \<noteq> 44 then Inl BROWSER_DECODE_MALFORMED_JSON
         else decode_fields (field # seen) c2 (skip_whitespace r4))"
    using "1.prems"(1) by (subst (asm) decode_fields.simps) (auto simp: decode_fields.simps [of seen c body] split: option.splits list.splits if_splits sum.splits)
  have ok: "candidate_ok (field # seen) c2" by (rule parse_field_value_ok [OF s(5) "1.prems"(2)])
  show ?case
  proof (cases "ch = 125")
    case True
    then show ?thesis using "1.prems"(1) r ok by auto
  next
    case False
    then have "ch = 44" "decode_fields (field # seen) c2 (skip_whitespace r4) = Inr (seen', c', rest)"
      using "1.prems"(1) r by (auto split: if_splits)
    then show ?thesis using "1.IH" [OF s(1) refl s(2) _ s(3,4,5) refl s(6) _ _ _ ok] by simp
  qed
qed

text \<open>The requests that may be dispatched.\<close>

definition request_wellformed :: "browser_request \<Rightarrow> bool" where
  "request_wellformed r \<longleftrightarrow> br_is_valid r
     \<and> (case br_command_type r of
          None \<Rightarrow> False
        | Some CMD_TYPE_SET_TARGET \<Rightarrow> 0 \<le> br_target_rpm_milli r \<and> br_target_rpm_milli r \<le> 200000
        | Some _ \<Rightarrow> br_target_rpm_milli r = 0 \<and> \<not> br_forward r)"

lemma finish_request_ok:
  assumes "candidate_ok seen c"
  shows "(fst (finish_request (seen, c, rest)) = BROWSER_DECODE_OK \<longrightarrow> request_wellformed (snd (finish_request (seen, c, rest))))
    \<and> (fst (finish_request (seen, c, rest)) \<noteq> BROWSER_DECODE_OK \<longrightarrow> snd (finish_request (seen, c, rest)) = invalid_request)"
  using assms by (auto simp: finish_request_def candidate_ok_def request_wellformed_def split: option.splits cmd_type.splits)

lemma parse_value_errors:
  "parse_command_value b \<noteq> Inl BROWSER_DECODE_OK" "parse_target_value b \<noteq> Inl BROWSER_DECODE_OK"
  "parse_forward_value b \<noteq> Inl BROWSER_DECODE_OK"
proof -
  show "parse_command_value b \<noteq> Inl BROWSER_DECODE_OK"
    by (simp add: parse_command_value_def split: list.split option.split prod.split)
  show "parse_forward_value b \<noteq> Inl BROWSER_DECODE_OK" by (simp add: parse_forward_value_def)
  show "parse_target_value b \<noteq> Inl BROWSER_DECODE_OK"
  proof
    assume "parse_target_value b = Inl BROWSER_DECODE_OK"
    then show False by (auto simp: parse_target_value_def Let_def split: list.splits if_splits option.splits)
  qed
qed

lemma decode_fields_error: "decode_fields seen c body \<noteq> Inl BROWSER_DECODE_OK"
proof (induction seen c body rule: decode_fields.induct)
  case (1 seen c body)
  have "parse_field_value field b c \<noteq> Inl BROWSER_DECODE_OK" for field b
    using parse_value_errors [of b] by (cases field) (auto simp: parse_field_value_def split: sum.split)
  note pf = this
  show ?case
  proof
    assume a: "decode_fields seen c body = Inl BROWSER_DECODE_OK"
    obtain key r1 r2 field c2 r3 r4 where "parse_json_string 24 body = Some (key, r1)" "skip_whitespace r1 = 58 # r2"
        "identify_field key = Some field" "field \<notin> set seen" "parse_field_value field (skip_whitespace r2) c = Inr (c2, r3)"
        "skip_whitespace r3 = 44 # r4" "decode_fields (field # seen) c2 (skip_whitespace r4) = Inl BROWSER_DECODE_OK"
      using a pf by (subst (asm) decode_fields.simps) (auto split: option.splits list.splits if_splits sum.splits)
    then show False using "1.IH" by auto
  qed
qed

text \<open>
  The decoder accepts only well-formed requests: whatever the bytes of the body, an accepted
  request names one of the seven commands, a new target lies between zero and two hundred
  revolutions, and every other command carries no target and no direction. A refused body leaves
  a request that cannot be dispatched.
\<close>

lemma browser_decode_wellformed:
  "(fst (argus_browser_command_decode body) = BROWSER_DECODE_OK \<longrightarrow> request_wellformed (snd (argus_browser_command_decode body)))
   \<and> (fst (argus_browser_command_decode body) \<noteq> BROWSER_DECODE_OK \<longrightarrow> snd (argus_browser_command_decode body) = invalid_request)"
proof -
  have start: "candidate_ok [] invalid_request" by (simp add: candidate_ok_def invalid_request_def)
  show ?thesis
    using finish_request_ok [OF start] decode_fields_ok [OF _ start] finish_request_ok decode_fields_error [of "[]" invalid_request]
    by (auto simp: argus_browser_command_decode_def split: list.splits sum.splits)
qed

section \<open>The plain form\<close>

definition json_plain :: "u8 \<Rightarrow> bool" where
  "json_plain c \<longleftrightarrow> 0x20 \<le> c \<and> c \<noteq> 34 \<and> c \<noteq> 92"

lemma scan_json_string_plain:
  "list_all json_plain s \<Longrightarrow> s = [] \<or> length out + length s < n \<Longrightarrow> scan_json_string n out (s @ 34 # rest) = Some (out @ s, rest)"
proof (induction s arbitrary: out)
  case Nil
  then show ?case by (subst scan_json_string.simps) simp
next
  case (Cons c s)
  then have c: "json_plain c" "\<not> c < 0x20" "c \<noteq> 0" by (auto simp: json_plain_def not_less)
  have "append_byte n c out = Some (out @ [c])" using Cons.prems(2) c(3) by (simp add: append_byte_def)
  then show ?case using Cons c by (subst scan_json_string.simps) (simp add: json_plain_def)
qed

lemma parse_json_string_quoted:
  "list_all json_plain s \<Longrightarrow> 0 < n \<Longrightarrow> s = [] \<or> length s < n \<Longrightarrow> parse_json_string n (quoted s @ rest) = Some (s, rest)"
  by (simp add: parse_json_string_def quoted_def scan_json_string_plain)

lemma browser_digit_iff: "browser_digit c = is_digit c"
  by (simp add: browser_digit_def is_digit_def)

lemma scan_digit:
  assumes "k < 10" "x \<le> 1000000000"
  shows "scan_digits (of_nat x) ((48 + of_nat k) # rest) = scan_digits (of_nat (x * 10 + k)) rest"
proof -
  have d: "is_digit (48 + of_nat k)" "(48 + of_nat k - 48 :: u8) = of_nat k" using digit_char [OF assms(1)] by simp_all
  have "k \<in> {0, 1, 2, 3, 4, 5, 6, 7, 8, 9}" using assms(1) by auto
  then have k: "(ucast (of_nat k :: u8) :: u64) = of_nat k" "unat (- 1 - of_nat k :: u64) = 2 ^ 64 - 1 - k"
    by (auto simp: unsigned_minus_1_eq_mask mask_eq_exp_minus_1)
  have "unat ((- 1 - of_nat k :: u64) div 10) = (2 ^ 64 - 1 - k) div 10" by (simp add: unat_div k(2))
  then have "\<not> (of_nat x :: u64) > (- 1 - of_nat k) div 10"
    using assms by (simp add: word_less_nat_alt unat_of_nat not_less)
  then show ?thesis using d k by (simp add: browser_digit_iff Let_def ac_simps)
qed

lemma scan_digits_dec:
  assumes "a * 10 ^ length (dec_nat n) + n \<le> 1000000000"
  shows "scan_digits (of_nat a) (dec_nat n @ rest) = scan_digits (of_nat (a * 10 ^ length (dec_nat n) + n)) rest"
  using assms
proof (induction n arbitrary: rest rule: dec_nat.induct)
  case (1 n)
  show ?case
  proof (cases "n < 10")
    case True
    then show ?thesis using "1.prems" scan_digit [OF True, of a] by (simp add: dec_nat.simps [of n])
  next
    case False
    define k where "k = length (dec_nat (n div 10))"
    have d: "dec_nat n = dec_nat (n div 10) @ [48 + of_nat (n mod 10)]" using False by (simp add: dec_nat.simps [of n])
    define x where "x = a * 10 ^ k + n div 10"
    have sum: "x * 10 + n mod 10 = a * 10 ^ length (dec_nat n) + n" by (simp add: x_def d k_def algebra_simps)
    have "x * 10 + n mod 10 \<le> 1000000000" unfolding sum by (rule "1.prems")
    then have x: "x \<le> 1000000000" by linarith
    have "scan_digits (of_nat a) (dec_nat n @ rest) = scan_digits (of_nat x) ((48 + of_nat (n mod 10)) # rest)"
      using "1.IH" [OF False] x unfolding d by (simp add: x_def k_def)
    also have "\<dots> = scan_digits (of_nat (x * 10 + n mod 10)) rest" by (rule scan_digit) (use x in simp_all)
    finally show ?thesis unfolding sum .
  qed
qed

lemma parse_target_value_dec:
  assumes "n \<le> 200000" "c = 44 \<or> c = 125"
  shows "parse_target_value (dec_nat n @ c # rest) = Inr (int n, c # rest)"
proof -
  obtain x xs where x: "dec_nat n = x # xs" using dec_nat_head [of n] by (cases "dec_nat n") auto
  have c: "\<not> browser_digit c" "is_value_delimiter (c # rest)" "c \<noteq> 46" "c \<noteq> 101" "c \<noteq> 69"
    using assms(2) by (auto simp: browser_digit_def is_value_delimiter_def)
  have head: "browser_digit x" "x \<noteq> 45" "xs = [] \<or> x \<noteq> 48"
    using dec_nat_head [of n] x by (auto simp: browser_digit_def is_digit_def dec_nat.simps [of n] split: if_splits)
  have u: "unat (of_nat n :: u64) = n" "uint (of_nat n :: u64) = int n"
    using assms(1) by (simp_all add: unat_of_nat uint_nat)
  have scan: "scan_digits 0 (dec_nat n @ c # rest) = Some (of_nat n, c # rest)"
    using scan_digits_dec [of 0 n "c # rest"] assms(1) c(1) by simp
  show ?thesis
  proof (cases "x = 48")
    case True
    then have "xs = []" using head(3) by simp
    then have "dec_nat n = [48]" using x True by simp
    then have "n = 0"
      using scan scan_digits_dec [of 0 n "c # rest"] c(1) u by (simp add: browser_digit_def)
    then show ?thesis using x True \<open>xs = []\<close> c by (simp add: parse_target_value_def browser_digit_def)
  next
    case False
    then show ?thesis
      using scan x head c u assms(1) unfolding x append_Cons by (simp add: parse_target_value_def)
  qed
qed

primrec command_name :: "cmd_type \<Rightarrow> u8 list" where
  "command_name CMD_TYPE_SET_TARGET = str_bytes ''set_target''"
| "command_name CMD_TYPE_START = str_bytes ''start''"
| "command_name CMD_TYPE_STOP_NORMAL = str_bytes ''stop''"
| "command_name CMD_TYPE_UNLOCK = str_bytes ''unlock''"
| "command_name CMD_TYPE_ESTOP = str_bytes ''estop''"
| "command_name CMD_TYPE_RESET_ESTOP = str_bytes ''reset_estop''"
| "command_name CMD_TYPE_RECOVER = str_bytes ''recover''"

definition json_member :: "string \<Rightarrow> u8 list \<Rightarrow> u8 list" where
  "json_member key v = quoted (str_bytes key) @ 58 # v"

definition print_request :: "browser_request \<Rightarrow> u8 list" where
  "print_request r =
     (case br_command_type r of
        None \<Rightarrow> []
      | Some t \<Rightarrow>
          123 # json_member ''command'' (quoted (command_name t))
          @ (if t = CMD_TYPE_SET_TARGET
             then 44 # json_member ''target_rpm_milli'' (dec_nat (nat (br_target_rpm_milli r)))
                  @ 44 # json_member ''forward'' (if br_forward r then str_bytes ''true'' else str_bytes ''false'')
             else [])
          @ [125])"

lemma command_name_plain: "list_all json_plain (command_name t) \<and> command_name t \<noteq> [] \<and> length (command_name t) < 20"
  by (cases t) (simp_all add: str_bytes_def json_plain_def)

lemma map_command_name: "map_command (command_name t) = Some t"
  by (cases t) (simp_all add: map_command_def browser_mappings_def str_bytes_def)

lemma skip_plain: "\<not> is_json_whitespace c \<Longrightarrow> skip_whitespace (c # rest) = c # rest"
  by (simp add: skip_whitespace_def)

lemma solid: "\<not> is_json_whitespace 34" "\<not> is_json_whitespace 58" "\<not> is_json_whitespace 44" "\<not> is_json_whitespace 125"
  "\<not> is_json_whitespace 123" "\<not> is_json_whitespace 116" "\<not> is_json_whitespace 102" "is_digit d \<Longrightarrow> \<not> is_json_whitespace d"
  by (auto simp: is_json_whitespace_def is_digit_def)

text \<open>One member of the object.\<close>

lemma decode_member:
  assumes key: "list_all json_plain (str_bytes key)" "length (str_bytes key) < 24" "identify_field (str_bytes key) = Some f" "f \<notin> set seen"
    and v: "v \<noteq> []" "\<not> is_json_whitespace (hd v)" "parse_field_value f (v @ sep # rest) c = Inr (c', sep # rest)"
    and sep: "sep = 44 \<or> sep = 125"
  shows "decode_fields seen c (json_member key v @ sep # rest)
    = (if sep = 125 then Inr (f # seen, c', rest) else decode_fields (f # seen) c' (skip_whitespace rest))"
proof -
  have p: "parse_json_string 24 (json_member key v @ sep # rest) = Some (str_bytes key, 58 # v @ sep # rest)"
    using parse_json_string_quoted [of "str_bytes key" 24 "58 # v @ sep # rest"] key(1,2) by (simp add: json_member_def)
  have "skip_whitespace (v @ sep # rest) = v @ sep # rest" using v(1,2) by (cases v) (simp_all add: skip_plain)
  moreover have "skip_whitespace (sep # rest) = sep # rest" using sep solid by (auto simp: skip_plain)
  ultimately show ?thesis
    using p key v sep solid(2) by (subst decode_fields.simps) (auto simp: skip_plain)
qed

lemma field_names:
  "list_all json_plain (str_bytes ''command'')" "length (str_bytes ''command'') < 24" "identify_field (str_bytes ''command'') = Some FIELD_COMMAND"
  "list_all json_plain (str_bytes ''target_rpm_milli'')" "length (str_bytes ''target_rpm_milli'') < 24"
  "identify_field (str_bytes ''target_rpm_milli'') = Some FIELD_TARGET_RPM_MILLI"
  "list_all json_plain (str_bytes ''forward'')" "length (str_bytes ''forward'') < 24" "identify_field (str_bytes ''forward'') = Some FIELD_FORWARD"
  by (simp_all add: str_bytes_def json_plain_def identify_field_def)

lemma command_value: "parse_field_value FIELD_COMMAND (quoted (command_name t) @ rest) c = Inr (c\<lparr> br_command_type := Some t \<rparr>, rest)"
  using parse_json_string_quoted [of "command_name t" 20 rest] command_name_plain [of t] map_command_name [of t]
  by (simp add: parse_field_value_def parse_command_value_def quoted_def)

lemma forward_value:
  "sep = 125 \<Longrightarrow> parse_field_value FIELD_FORWARD ((if b then str_bytes ''true'' else str_bytes ''false'') @ sep # rest) c
     = Inr (c\<lparr> br_forward := b \<rparr>, sep # rest)"
  by (auto simp: parse_field_value_def parse_forward_value_def is_value_delimiter_def str_bytes_def)

lemma target_value:
  assumes "0 \<le> v" "v \<le> 200000" "sep = 44"
  shows "parse_field_value FIELD_TARGET_RPM_MILLI (dec_nat (nat v) @ sep # rest) c = Inr (c\<lparr> br_target_rpm_milli := v \<rparr>, sep # rest)"
  using parse_target_value_dec [of "nat v" sep rest] assms by (simp add: parse_field_value_def)

lemma print_request_length: "request_wellformed r \<Longrightarrow> length (print_request r) \<le> 192"
proof -
  assume "request_wellformed r"
  note r = this
  then obtain t where t: "br_command_type r = Some t" by (auto simp: request_wellformed_def split: option.splits)
  have n: "t = CMD_TYPE_SET_TARGET \<longrightarrow> nat (br_target_rpm_milli r) < 10 ^ Suc 5" using r t by (auto simp: request_wellformed_def)
  have d: "t = CMD_TYPE_SET_TARGET \<longrightarrow> length (dec_nat (nat (br_target_rpm_milli r))) \<le> 6" using n dec_nat_length [of _ 5] by simp
  have "length (command_name t) < 20" using command_name_plain by blast
  then show ?thesis using t d by (auto simp: print_request_def json_member_def quoted_def str_bytes_def)
qed

text \<open>
  Every browser command survives the wire. For every well-formed request (each of the seven
  commands, each target from zero to two hundred revolutions, both directions) the decoder turns
  its plain form back into exactly that request.
\<close>

theorem browser_roundtrip:
  assumes "request_wellformed r"
  shows "argus_browser_command_decode (print_request r) = (BROWSER_DECODE_OK, r)"
proof -
  obtain t where t: "br_command_type r = Some t" using assms by (auto simp: request_wellformed_def split: option.splits)
  have quote: "quoted (command_name t) \<noteq> []" "hd (quoted (command_name t)) = 34" by (simp_all add: quoted_def)
  let ?c1 = "invalid_request\<lparr> br_command_type := Some t \<rparr>"
  define rest where "rest = (if t = CMD_TYPE_SET_TARGET
      then json_member ''target_rpm_milli'' (dec_nat (nat (br_target_rpm_milli r)))
           @ 44 # json_member ''forward'' (if br_forward r then str_bytes ''true'' else str_bytes ''false'') @ [125]
      else [])"
  have body: "print_request r = 123 # json_member ''command'' (quoted (command_name t)) @ (if t = CMD_TYPE_SET_TARGET then 44 else 125) # rest"
    by (simp add: print_request_def t rest_def)
  have first: "json_member ''command'' (quoted (command_name t)) @ xs = 34 # str_bytes ''command'' @ 34 # 58 # quoted (command_name t) @ xs" for xs
    by (simp add: json_member_def quoted_def)
  have start: "argus_browser_command_decode (print_request r)
      = (case decode_fields [] invalid_request (json_member ''command'' (quoted (command_name t)) @ (if t = CMD_TYPE_SET_TARGET then 44 else 125) # rest) of
           Inl e \<Rightarrow> (e, invalid_request) | Inr x \<Rightarrow> finish_request x)"
    using print_request_length [OF assms] solid unfolding argus_browser_command_decode_def body first by (simp add: skip_plain)
  show ?thesis
  proof (cases "t = CMD_TYPE_SET_TARGET")
    case False
    have "decode_fields [] invalid_request (json_member ''command'' (quoted (command_name t)) @ 125 # rest) = Inr ([FIELD_COMMAND], ?c1, rest)"
      using decode_member [where seen = "[]" and sep = 125 and rest = rest and c = invalid_request, OF field_names(1,2,3) _ quote(1) _ command_value] solid quote by simp
    moreover have "r = ?c1\<lparr> br_is_valid := True \<rparr>"
      using assms t False by (auto simp: request_wellformed_def invalid_request_def split: cmd_type.splits)
    ultimately show ?thesis
      using start False by (simp add: rest_def finish_request_def skip_whitespace_def)
  next
    case True
    let ?n = "nat (br_target_rpm_milli r)"
    have n: "0 \<le> br_target_rpm_milli r" "br_target_rpm_milli r \<le> 200000" using assms t True by (auto simp: request_wellformed_def)
    let ?c2 = "?c1\<lparr> br_target_rpm_milli := br_target_rpm_milli r \<rparr>" and ?fwd = "if br_forward r then str_bytes ''true'' else str_bytes ''false''"
    have "decode_fields [] invalid_request (json_member ''command'' (quoted (command_name t)) @ 44 # rest)
        = decode_fields [FIELD_COMMAND] ?c1 (skip_whitespace rest)"
      using decode_member [where seen = "[]" and sep = 44 and rest = rest and c = invalid_request, OF field_names(1,2,3) _ quote(1) _ command_value] solid quote by simp
    moreover have "skip_whitespace rest = rest" using True solid by (simp add: rest_def json_member_def quoted_def skip_plain)
    moreover have "decode_fields [FIELD_COMMAND] ?c1 rest = decode_fields [FIELD_TARGET_RPM_MILLI, FIELD_COMMAND] ?c2
        (skip_whitespace (json_member ''forward'' ?fwd @ [125]))"
      using decode_member [where seen = "[FIELD_COMMAND]" and sep = 44 and rest = "json_member ''forward'' ?fwd @ [125]" and c = ?c1,
            OF field_names(4,5,6) _ _ _ target_value [OF n]]
        dec_nat_head [of ?n] solid(8) True by (simp add: rest_def)
    moreover have "skip_whitespace (json_member ''forward'' ?fwd @ [125]) = json_member ''forward'' ?fwd @ [125]"
      using solid by (simp add: json_member_def quoted_def skip_plain)
    moreover have "decode_fields [FIELD_TARGET_RPM_MILLI, FIELD_COMMAND] ?c2 (json_member ''forward'' ?fwd @ [125])
        = Inr ([FIELD_FORWARD, FIELD_TARGET_RPM_MILLI, FIELD_COMMAND], ?c2\<lparr> br_forward := br_forward r \<rparr>, [])"
    proof -
      have "?fwd \<noteq> []" "\<not> is_json_whitespace (hd ?fwd)" by (auto simp: str_bytes_def is_json_whitespace_def)
      then show ?thesis
        using decode_member [where seen = "[FIELD_TARGET_RPM_MILLI, FIELD_COMMAND]" and sep = 125 and rest = "[]" and c = ?c2 and v = ?fwd,
            OF field_names(7,8,9) _ _ _ forward_value]
        by simp
    qed
    moreover have "r = ?c2\<lparr> br_forward := br_forward r, br_is_valid := True \<rparr>"
      using assms t by (simp add: request_wellformed_def invalid_request_def)
    ultimately show ?thesis using start True by (simp add: finish_request_def skip_whitespace_def)
  qed
qed

theorem browser_roundtrip_witness:
  "argus_browser_command_decode (print_request \<lparr> br_is_valid = True, br_command_type = Some CMD_TYPE_SET_TARGET,
     br_target_rpm_milli = 120000, br_forward = True \<rparr>)
   = (BROWSER_DECODE_OK, \<lparr> br_is_valid = True, br_command_type = Some CMD_TYPE_SET_TARGET, br_target_rpm_milli = 120000, br_forward = True \<rparr>)"
  by (rule browser_roundtrip) (simp add: request_wellformed_def)

section \<open>The endpoint\<close>

datatype browser_event =
    READ_NET esp_err net_snapshot
  | READ_AUTH esp_err authority_snapshot
  | DISPATCHED command_envelope esp_err

definition logged_browser :: "'w browser_ops \<Rightarrow> ('w, browser_event) logged browser_ops" where
  "logged_browser ops =
     \<lparr> bo_get_network_snapshot = log_call (\<lambda>(err, net). READ_NET err net) (bo_get_network_snapshot ops),
       bo_get_authority_snapshot = log_call (\<lambda>(err, a). READ_AUTH err a) (bo_get_authority_snapshot ops),
       bo_dispatch = (\<lambda>e. log_call (DISPATCHED e) (bo_dispatch ops e)) \<rparr>"

fun is_dispatched :: "browser_event \<Rightarrow> bool" where
  "is_dispatched (DISPATCHED e err) = True"
| "is_dispatched e = False"

text \<open>
  C36: A browser command is admitted before it is dispatched. Whatever the operations answer, the
  endpoint dispatches at most once, and only for an authenticated request whose body is a
  well-formed command, in the isolated service network, while the browser owns the local service
  authority; the envelope is that command under the authority generation that was read. The
  endpoint reports success exactly when the dispatch succeeded.
\<close>

theorem browser_dispatch_guarded:
  assumes "argus_browser_command_endpoint_process authenticated body (Some (logged_browser ops)) (w, []) = (out, (w', es))"
  shows "(bw_result out = ENDPOINT_OK \<longleftrightarrow> (\<exists>e. DISPATCHED e ESP_OK \<in> set es))
    \<and> (list_ex is_dispatched es \<longrightarrow>
         (\<exists>b r t net a err. authenticated \<and> body = Some b \<and> argus_browser_command_decode b = (BROWSER_DECODE_OK, r)
            \<and> request_wellformed r \<and> br_command_type r = Some t \<and> ns_mode net = MODE_SERVICE_AP_ONLY
            \<and> as_mode a = AUTHORITY_LOCAL_SERVICE \<and> as_owner a = AUTH_OWNER_BROWSER
            \<and> es = [READ_NET ESP_OK net, READ_AUTH ESP_OK a, DISPATCHED (browser_envelope r t a) err]))"
proof (cases "authenticated \<and> body \<noteq> None")
  case False
  then consider "\<not> authenticated" | "body = None" by blast
  then have "bw_result out \<noteq> ENDPOINT_OK \<and> es = []"
    using assms by cases (auto simp: argus_browser_command_endpoint_process_def browser_outcome_reset_def Let_def split: if_splits)
  then show ?thesis by simp
next
  case True
  then obtain b where b: "authenticated" "body = Some b" by auto
  obtain d r where dec: "argus_browser_command_decode b = (d, r)" by fastforce
  show ?thesis
  proof (cases "d = BROWSER_DECODE_OK")
    case False
    then have "br_command_type r = None" using browser_decode_wellformed [of b] dec by (simp add: invalid_request_def)
    then show ?thesis using assms b dec by (auto simp: argus_browser_command_endpoint_process_def browser_outcome_reset_def Let_def)
  next
    case ok: True
    then have r: "request_wellformed r" using browser_decode_wellformed [of b] dec by simp
    then obtain t where t: "br_command_type r = Some t" "br_is_valid r" by (auto simp: request_wellformed_def split: option.splits)
    show ?thesis
      using assms dec ok r t b
      by (auto simp: argus_browser_command_endpoint_process_def browser_outcome_reset_def logged_browser_def log_call_def Let_def
          dispatch_result_def split: prod.splits if_splits)
  qed
qed

definition open_browser :: "bool browser_ops" where
  "open_browser = \<lparr> bo_get_network_snapshot = (\<lambda>w. ((ESP_OK, demo_net\<lparr> ns_mode := MODE_SERVICE_AP_ONLY \<rparr>), w)),
     bo_get_authority_snapshot = (\<lambda>w. ((ESP_OK, \<lparr> as_mode = AUTHORITY_LOCAL_SERVICE, as_owner = AUTH_OWNER_BROWSER, as_generation = 9 \<rparr>), w)),
     bo_dispatch = (\<lambda>e w. (ESP_OK, True)) \<rparr>"

definition start_request :: browser_request where
  "start_request = \<lparr> br_is_valid = True, br_command_type = Some CMD_TYPE_START, br_target_rpm_milli = 0, br_forward = False \<rparr>"

theorem browser_dispatch_guarded_witness:
  "\<exists>out w es e. argus_browser_command_endpoint_process True (Some (print_request start_request)) (Some (logged_browser open_browser)) (False, [])
      = (out, (w, es)) \<and> w \<and> DISPATCHED e ESP_OK \<in> set es \<and> env_authority_generation e = 9"
proof -
  obtain out w es where run: "argus_browser_command_endpoint_process True (Some (print_request start_request))
      (Some (logged_browser open_browser)) (False, []) = (out, (w, es))" by (metis prod.exhaust)
  have dec: "argus_browser_command_decode (print_request start_request) = (BROWSER_DECODE_OK, start_request)"
    by code_simp
  have "bw_result out = ENDPOINT_OK" "w" "es = [READ_NET ESP_OK (demo_net\<lparr> ns_mode := MODE_SERVICE_AP_ONLY \<rparr>),
      READ_AUTH ESP_OK \<lparr> as_mode = AUTHORITY_LOCAL_SERVICE, as_owner = AUTH_OWNER_BROWSER, as_generation = 9 \<rparr>,
      DISPATCHED (browser_envelope start_request CMD_TYPE_START \<lparr> as_mode = AUTHORITY_LOCAL_SERVICE, as_owner = AUTH_OWNER_BROWSER,
        as_generation = 9 \<rparr>) ESP_OK]"
    using run dec
    by (auto simp: argus_browser_command_endpoint_process_def logged_browser_def log_call_def open_browser_def start_request_def
        browser_outcome_reset_def dispatch_result_def Let_def)
  then show ?thesis using browser_dispatch_guarded [OF run] run by (auto simp: browser_envelope_def)
qed

end
