(* ===== verification/Http_Security.thy ===== *)
theory Http_Security
  imports Mqtt_Lifecycle Session_Props Human_Directory Security_Manager Audit_Log
begin

text \<open>
  The checks that every request of the browser passes (\<open>argus_http_security.c\<close>): it arrived on the
  isolated access point, carries the cookie of a live session whose account is still current and
  has the capability, and a mutation has a JSON body, the device's own origin and the session's
  CSRF secret.

  A request gives the addresses of its socket and its headers; the HTTP server, the network
  interfaces, the conversion of an address to text, the clock and SHA-256 are arguments. The
  security store and the directory are read as they are at the time; what other tasks do to the
  sessions between two calls of the session manager is an argument. Entries for the audit are
  listed as they are submitted; the result of the submission is ignored by the code.
\<close>

section \<open>Types\<close>

abbreviation (input) COOKIE_HEADER_MAX :: nat where "COOKIE_HEADER_MAX \<equiv> 256"
abbreviation (input) HOST_HEADER_MAX :: nat where "HOST_HEADER_MAX \<equiv> 64"
abbreviation (input) ORIGIN_HEADER_MAX :: nat where "ORIGIN_HEADER_MAX \<equiv> 80"
abbreviation (input) SESSION_TOKEN_HEX_LEN :: nat where "SESSION_TOKEN_HEX_LEN \<equiv> 64"
abbreviation (input) STA_REJECTION_INTERVAL_US :: u64 where "STA_REJECTION_INTERVAL_US \<equiv> 60000000"

datatype http_access_result =
    HTTP_ACCESS_OK
  | HTTP_ACCESS_NOT_AP
  | HTTP_ACCESS_UNAUTHENTICATED
  | HTTP_ACCESS_FORBIDDEN
  | HTTP_ACCESS_CSRF
  | HTTP_ACCESS_ORIGIN
  | HTTP_ACCESS_CONTENT_TYPE
  | HTTP_ACCESS_INTERNAL

text \<open>The token is empty when the code's buffer starts with a zero byte.\<close>

record http_context =
  hc_principal :: principal
  hc_session_index :: nat
  hc_peer_key :: u32
  hc_session_token :: "u8 list"

definition http_context_zero :: http_context where
  "http_context_zero = \<lparr> hc_principal = principal_zero, hc_session_index = 0, hc_peer_key = 0, hc_session_token = [] \<rparr>"

text \<open>An IPv4 address is the word as it lies in memory; an IPv6 address is its sixteen bytes.\<close>

datatype socket_address = SOCKET_INET u32 | SOCKET_INET6 "u8 list" | SOCKET_OTHER

text \<open>The own and the peer address of the socket, unless the platform cannot tell them.\<close>

record http_request =
  hq_socket :: "(socket_address \<times> socket_address) option"
  hq_header_len :: "string \<Rightarrow> nat"
  hq_header_str :: "string \<Rightarrow> nat \<Rightarrow> esp_err \<times> u8 list"

text \<open>The address and network mask of the access point and the address of the station interface.\<close>

record interface_info =
  hi_ap :: "(u32 \<times> u32) option"
  hi_sta :: "u32 option"

record http_platform =
  hp_interfaces :: "nat \<Rightarrow> interface_info"
  hp_ntop :: "u32 \<Rightarrow> nat \<Rightarrow> u8 list option"
  hp_clock :: "nat \<Rightarrow> u64"
  hp_sha :: "u8 list \<Rightarrow> u8 list option"
  hp_status_store :: security_manager
  hp_verifier_store :: security_manager
  hp_directory :: human_directory
  hp_between :: "nat \<Rightarrow> session_manager \<Rightarrow> session_manager"

record http_state =
  hs_last_sta_rejection_audit_us :: u64
  hs_conflict :: iface_conflict
  hs_sessions :: session_manager
  hs_audit :: "audit_entry list"

section \<open>The socket\<close>

definition socket_address_ipv4 :: "socket_address \<Rightarrow> u32 option" where
  "socket_address_ipv4 address =
     (case address of
        SOCKET_INET a \<Rightarrow> Some a
      | SOCKET_INET6 b \<Rightarrow>
          if take 12 b \<noteq> replicate 10 0 @ [255, 255] then None
          else Some (ucast (b ! 12) OR push_bit 8 (ucast (b ! 13)) OR push_bit 16 (ucast (b ! 14)) OR push_bit 24 (ucast (b ! 15)))
      | SOCKET_OTHER \<Rightarrow> None)"

text \<open>The \<open>k\<close>th look at the interfaces during a request.\<close>

definition socket_is_softap ::
  "http_platform \<Rightarrow> nat \<Rightarrow> http_request \<Rightarrow> iface_conflict \<Rightarrow> (u32 \<times> u8 list) option \<times> iface_conflict" where
  "socket_is_softap plat k req x =
     (case hq_socket req of
        None \<Rightarrow> (None, x)
      | Some (local, peer) \<Rightarrow>
          (case (socket_address_ipv4 local, socket_address_ipv4 peer) of
             (Some local_addr, Some peer_addr) \<Rightarrow>
               (let info = hp_interfaces plat k;
                    (ip, netmask) = (case hi_ap info of None \<Rightarrow> (0, 0) | Some a \<Rightarrow> a);
                    (iface, x1) = argus_net_mgr_classify_interface (hp_clock plat k) local_addr (hi_ap info \<noteq> None) ip
                       (hi_sta info \<noteq> None) (case hi_sta info of None \<Rightarrow> 0 | Some a \<Rightarrow> a) x
                in if iface \<noteq> NET_IFACE_SOFTAP then (None, x1)
                   else if peer_addr AND netmask \<noteq> ip AND netmask \<or> peer_addr = ip \<or> peer_addr = 0 then (None, x1)
                   else case hp_ntop plat local_addr 16 of
                          None \<Rightarrow> (None, x1)
                        | Some printable \<Rightarrow> (Some (peer_addr, printable), x1))
           | _ \<Rightarrow> (None, x)))"

definition sta_rejection :: "u32 \<Rightarrow> audit_entry" where
  "sta_rejection epoch = \<lparr> en_type = 12, en_outcome = 2, en_principal_type = 0, en_lifecycle_id = 0,
     en_actor = str_bytes ''anonymous'', en_target = str_bytes ''human_route'', en_source = str_bytes ''NON_SOFTAP'',
     en_reason = str_bytes ''local_ap_required'', en_security_epoch = epoch \<rparr>"

definition argus_http_security_ap_only ::
  "http_platform \<Rightarrow> http_request \<Rightarrow> http_state \<Rightarrow> (http_access_result \<times> u32) \<times> http_state" where
  "argus_http_security_ap_only plat req s =
     (case socket_is_softap plat 0 req (hs_conflict s) of
        (Some (peer_key, local_ip), x) \<Rightarrow> ((HTTP_ACCESS_OK, peer_key), s\<lparr> hs_conflict := x \<rparr>)
      | (None, x) \<Rightarrow>
          (let now_us = hp_clock plat 2; last = hs_last_sta_rejection_audit_us s; s1 = s\<lparr> hs_conflict := x \<rparr> in
           ((HTTP_ACCESS_NOT_AP, 0),
            if last = 0 \<or> now_us - last \<ge> STA_REJECTION_INTERVAL_US
            then s1\<lparr> hs_audit := hs_audit s @ [sta_rejection (case argus_security_store_get_status (hp_status_store plat) of
                                                               (_, Some status) \<Rightarrow> st_security_epoch status | _ \<Rightarrow> 0)],
                     hs_last_sta_rejection_audit_us := now_us \<rparr>
            else s1)))"

section \<open>Headers\<close>

definition header_exact :: "http_request \<Rightarrow> string \<Rightarrow> nat \<Rightarrow> u8 list option" where
  "header_exact req name capacity =
     (let len = hq_header_len req name; (err, out) = hq_header_str req name capacity in
      if len > 0 \<and> len < capacity \<and> err = ESP_OK \<and> c_strlen out = len then Some (cstr out) else None)"

definition argus_http_security_json_content_type :: "http_request \<Rightarrow> bool" where
  "argus_http_security_json_content_type req \<longleftrightarrow> header_exact req ''Content-Type'' 48 = Some (str_bytes ''application/json'')"

definition expected_origin ::
  "http_platform \<Rightarrow> http_request \<Rightarrow> iface_conflict \<Rightarrow> u8 list option \<times> iface_conflict" where
  "expected_origin plat req x =
     (case socket_is_softap plat 1 req x of
        (None, x1) \<Rightarrow> (None, x1)
      | (Some (peer, local_ip), x1) \<Rightarrow>
          (let origin = str_bytes ''http://'' @ cstr local_ip in (if length origin < 32 then Some origin else None, x1)))"

definition argus_http_security_origin ::
  "http_platform \<Rightarrow> http_request \<Rightarrow> http_state \<Rightarrow> http_access_result \<times> http_state" where
  "argus_http_security_origin plat req s =
     (let (expected, x) = expected_origin plat req (hs_conflict s); s1 = s\<lparr> hs_conflict := x \<rparr> in
      case expected of
        None \<Rightarrow> (HTTP_ACCESS_ORIGIN, s1)
      | Some origin \<Rightarrow>
          (case (header_exact req ''Origin'' ORIGIN_HEADER_MAX, header_exact req ''Host'' HOST_HEADER_MAX) of
             (Some actual, Some host) \<Rightarrow>
               (if actual \<noteq> origin then (HTTP_ACCESS_ORIGIN, s1)
                else
                  (let expected_host = drop 7 origin; with_port = expected_host @ str_bytes '':80'' in
                   if host \<noteq> expected_host \<and> (length with_port \<ge> 32 \<or> host \<noteq> with_port)
                   then (HTTP_ACCESS_ORIGIN, s1) else (HTTP_ACCESS_OK, s1)))
           | _ \<Rightarrow> (HTTP_ACCESS_ORIGIN, s1)))"

text \<open>The loop over the cookies; \<open>found\<close> is the value of the session cookie, once it was found.\<close>

function scan_cookies :: "u8 list option \<Rightarrow> u8 list \<Rightarrow> u8 list option" where
  "scan_cookies found header =
     (if header = [] then found
      else
        (let cursor = dropWhile (\<lambda>c. c = 32 \<or> c = 59) header;
             cookie = takeWhile (\<lambda>c. c \<noteq> 59) cursor; rest = dropWhile (\<lambda>c. c \<noteq> 59) cursor;
             name = takeWhile (\<lambda>c. c \<noteq> 61) cookie; content = tl (dropWhile (\<lambda>c. c \<noteq> 61) cookie)
         in if 61 \<notin> set cookie then None
            else if name = str_bytes ''argus_session'' \<and> (found \<noteq> None \<or> length content \<noteq> SESSION_TOKEN_HEX_LEN) then None
            else
              (let found2 = (if name = str_bytes ''argus_session'' then Some content else found) in
               if rest = [] then found2 else scan_cookies found2 (tl rest))))"
  by pat_completeness auto

termination
proof (relation "measure (\<lambda>(found, header). length header)")
  fix found found2 :: "u8 list option" and header cursor rest :: "u8 list"
  assume a: "cursor = dropWhile (\<lambda>c. c = 32 \<or> c = 59) header" "rest = dropWhile (\<lambda>c. c \<noteq> 59) cursor" "rest \<noteq> []"
  have "length rest \<le> length cursor" "length cursor \<le> length header"
    unfolding a by (simp_all add: length_dropWhile_le)
  moreover have "length (tl rest) < length rest" using a(3) by (cases rest) auto
  ultimately show "((found2, tl rest), (found, header)) \<in> measure (\<lambda>(found, header). length header)" by simp
qed simp

declare scan_cookies.simps [simp del]

definition parse_cookie_header :: "u8 list \<Rightarrow> u8 list option" where
  "parse_cookie_header header = scan_cookies None (cstr header)"

definition argus_http_security_cookie :: "http_request \<Rightarrow> u8 list option" where
  "argus_http_security_cookie req =
     (case header_exact req ''Cookie'' COOKIE_HEADER_MAX of None \<Rightarrow> None | Some header \<Rightarrow> parse_cookie_header header)"

section \<open>The request\<close>

text \<open>Whether the account of the session still is what it was at the login.\<close>

definition principal_current :: "http_platform \<Rightarrow> principal \<Rightarrow> bool" where
  "principal_current plat p =
     (case pr_type p of
        PRINCIPAL_CONSOLE \<Rightarrow>
          (case (argus_security_store_get_status (hp_status_store plat),
                 argus_security_store_get_console_verifier (hp_verifier_store plat)) of
             ((status_err, Some status), (verifier_err, Some (verifier, version))) \<Rightarrow>
               status_err = ESP_OK \<and> verifier_err = ESP_OK \<and> version = pr_credential_version p
               \<and> st_security_epoch status = pr_security_epoch p \<and> st_security_epoch status = pr_principal_revision p
           | _ \<Rightarrow> False)
      | PRINCIPAL_HUMAN \<Rightarrow>
          (case (argus_security_directory_find_id (pr_identifier p) (hp_directory plat),
                 argus_security_store_get_status (hp_status_store plat)) of
             (Inr (human, i), (status_err, Some status)) \<Rightarrow>
               status_err = ESP_OK \<and> hr_enabled human \<noteq> 0 \<and> hr_revoked human = 0
               \<and> hr_credential_version human = pr_credential_version p
               \<and> hr_record_security_epoch human = pr_principal_revision p
               \<and> st_security_epoch status = pr_security_epoch p
           | _ \<Rightarrow> False)
      | _ \<Rightarrow> False)"

text \<open>
  The cookie, the session and its account. When the request carries a cookie and is refused, the
  session of the cookie is revoked.
\<close>

definition authenticate_request ::
  "http_platform \<Rightarrow> http_request \<Rightarrow> http_state \<Rightarrow> (u8 list \<times> principal \<times> nat) option \<times> http_state" where
  "authenticate_request plat req s =
     (case argus_http_security_cookie req of
        None \<Rightarrow> (None, s)
      | Some token \<Rightarrow>
          (case argus_session_manager_authenticate (hp_sha plat) (hp_clock plat 3) (Some token) (hs_sessions s) of
             ((err, who), m) \<Rightarrow>
               (case (if err = ESP_OK then who else None) of
                  Some (p, i) \<Rightarrow>
                    if principal_current plat p then (Some (token, p, i), s\<lparr> hs_sessions := m \<rparr>)
                    else (None, s\<lparr> hs_sessions :=
                            snd (argus_session_manager_revoke_token (hp_sha plat) (Some token) (hp_between plat 0 m)) \<rparr>)
                | None \<Rightarrow>
                    (None, s\<lparr> hs_sessions :=
                       snd (argus_session_manager_revoke_token (hp_sha plat) (Some token) (hp_between plat 0 m)) \<rparr>))))"

definition check_mutation ::
  "http_platform \<Rightarrow> http_request \<Rightarrow> nat \<Rightarrow> http_state \<Rightarrow> http_access_result \<times> http_state" where
  "check_mutation plat req index s =
     (if \<not> argus_http_security_json_content_type req then (HTTP_ACCESS_CONTENT_TYPE, s)
      else
        (let (result, s1) = argus_http_security_origin plat req s in
         if result \<noteq> HTTP_ACCESS_OK then (result, s1)
         else
           (case header_exact req ''X-Argus-CSRF'' (SESSION_TOKEN_HEX_LEN + 1) of
              None \<Rightarrow> (HTTP_ACCESS_CSRF, s1)
            | Some csrf \<Rightarrow>
                (let s2 = s1\<lparr> hs_sessions := hp_between plat 1 (hs_sessions s1) \<rparr> in
                 if argus_session_manager_csrf_valid (hp_sha plat) index (Some csrf) (hs_sessions s2)
                 then (HTTP_ACCESS_OK, s2) else (HTTP_ACCESS_CSRF, s2)))))"

definition argus_http_security_require ::
  "http_platform \<Rightarrow> http_request \<Rightarrow> permission_set \<Rightarrow> bool \<Rightarrow> http_state \<Rightarrow>
     (http_access_result \<times> http_context) \<times> http_state" where
  "argus_http_security_require plat req required mutation s =
     (let ((result, peer_key), s1) = argus_http_security_ap_only plat req s in
      if result \<noteq> HTTP_ACCESS_OK then ((result, http_context_zero), s1)
      else
        (case authenticate_request plat req s1 of
           (None, s2) \<Rightarrow> ((HTTP_ACCESS_UNAUTHENTICATED, http_context_zero), s2)
         | (Some (token, p, i), s2) \<Rightarrow>
             (let out = \<lparr> hc_principal = p, hc_session_index = i, hc_peer_key = peer_key, hc_session_token = token \<rparr> in
              if required \<noteq> 0 \<and> argus_authorization_require (Some p) required \<noteq> AUTHZ_ALLOW
              then ((HTTP_ACCESS_FORBIDDEN, out), s2)
              else if \<not> mutation then ((HTTP_ACCESS_OK, out), s2)
              else (case check_mutation plat req i s2 of (result2, s3) \<Rightarrow> ((result2, out), s3)))))"

text \<open>The status line and the body of a refusal.\<close>

definition argus_http_security_send_error :: "http_access_result \<Rightarrow> string \<times> string" where
  "argus_http_security_send_error result =
     (case result of
        HTTP_ACCESS_NOT_AP \<Rightarrow> (''403 Forbidden'', ''{\"ok\":false,\"error\":\"local_ap_required\"}'')
      | HTTP_ACCESS_UNAUTHENTICATED \<Rightarrow> (''401 Unauthorized'', ''{\"ok\":false,\"error\":\"authentication_required\"}'')
      | HTTP_ACCESS_FORBIDDEN \<Rightarrow> (''403 Forbidden'', ''{\"ok\":false,\"error\":\"forbidden\"}'')
      | HTTP_ACCESS_CSRF \<Rightarrow> (''403 Forbidden'', ''{\"ok\":false,\"error\":\"request_protection_failed\"}'')
      | HTTP_ACCESS_ORIGIN \<Rightarrow> (''403 Forbidden'', ''{\"ok\":false,\"error\":\"request_protection_failed\"}'')
      | HTTP_ACCESS_CONTENT_TYPE \<Rightarrow> (''415 Unsupported Media Type'', ''{\"ok\":false,\"error\":\"unsupported_media_type\"}'')
      | _ \<Rightarrow> (''500 Internal Server Error'', ''{\"ok\":false,\"error\":\"internal_error\"}''))"

end
