(* ===== verification/Http_Props.thy ===== *)
theory Http_Props
  imports Http_Security
begin

text \<open>
  Correctness of the request checks: what an accepted request proves, and that the session of a
  refused request is gone.
\<close>

section \<open>The access point\<close>

text \<open>
  The socket's own address is the access point's and not also the station's, and the peer is
  another host of the access point's network.
\<close>

definition on_access_point :: "http_platform \<Rightarrow> nat \<Rightarrow> http_request \<Rightarrow> u32 \<Rightarrow> bool" where
  "on_access_point plat k req peer_key \<longleftrightarrow>
     (\<exists>local peer ip netmask. hq_socket req = Some (local, peer) \<and> socket_address_ipv4 local = Some ip \<and> ip \<noteq> 0
        \<and> hi_ap (hp_interfaces plat k) = Some (ip, netmask) \<and> hi_sta (hp_interfaces plat k) \<noteq> Some ip
        \<and> socket_address_ipv4 peer = Some peer_key \<and> peer_key AND netmask = ip AND netmask
        \<and> peer_key \<noteq> ip \<and> peer_key \<noteq> 0)"

lemma classify_softap:
  assumes "argus_net_mgr_classify_interface now local_addr ap_valid ap_addr sta_valid sta_addr x = (NET_IFACE_SOFTAP, x1)"
  shows "ap_valid \<and> local_addr = ap_addr \<and> local_addr \<noteq> 0 \<and> \<not> (sta_valid \<and> sta_addr = local_addr)"
  using assms by (auto simp: argus_net_mgr_classify_interface_def Let_def split: if_splits)

lemma softap_sound:
  assumes "socket_is_softap plat k req x = (Some (peer_key, printable), x1)"
  shows "on_access_point plat k req peer_key
    \<and> (\<exists>local peer ip. hq_socket req = Some (local, peer) \<and> socket_address_ipv4 local = Some ip
         \<and> hp_ntop plat ip 16 = Some printable)"
proof -
  obtain local peer ip pk where s: "hq_socket req = Some (local, peer)" "socket_address_ipv4 local = Some ip"
      "socket_address_ipv4 peer = Some pk"
    using assms by (auto simp: socket_is_softap_def split: option.splits)
  let ?info = "hp_interfaces plat k"
  obtain ap mask where a: "(case hi_ap ?info of None \<Rightarrow> (0, 0) | Some a \<Rightarrow> a) = (ap, mask)" by fastforce
  obtain i x2 where c: "argus_net_mgr_classify_interface (hp_clock plat k) ip (hi_ap ?info \<noteq> None) ap
      (hi_sta ?info \<noteq> None) (case hi_sta ?info of None \<Rightarrow> 0 | Some a \<Rightarrow> a) x = (i, x2)" by fastforce
  have "socket_is_softap plat k req x =
      (if i \<noteq> NET_IFACE_SOFTAP then (None, x2)
       else if pk AND mask \<noteq> ap AND mask \<or> pk = ap \<or> pk = 0 then (None, x2)
       else case hp_ntop plat ip 16 of None \<Rightarrow> (None, x2) | Some printable \<Rightarrow> (Some (pk, printable), x2))"
    by (simp only: socket_is_softap_def s a c Let_def option.case prod.case)
  then have r: "i = NET_IFACE_SOFTAP" "pk AND mask = ap AND mask" "pk \<noteq> ap" "pk \<noteq> 0" "pk = peer_key" "hp_ntop plat ip 16 = Some printable"
    using assms by (auto split: if_splits option.splits)
  have "hi_ap ?info = Some (ap, mask)" "ip = ap" "ip \<noteq> 0" "hi_sta ?info \<noteq> Some ip"
    using classify_softap [OF c [unfolded r(1)]] a by auto
  then show ?thesis using s r by (auto simp: on_access_point_def)
qed

section \<open>Cookies\<close>

text \<open>The session cookie stands in the header as a whole item.\<close>

definition carries_cookie :: "u8 list \<Rightarrow> u8 list \<Rightarrow> bool" where
  "carries_cookie header token \<longleftrightarrow>
     (\<exists>before after. header = before @ str_bytes ''argus_session='' @ token @ after
        \<and> (before = [] \<or> last before = 32 \<or> last before = 59) \<and> (after = [] \<or> hd after = 59)
        \<and> length token = 64 \<and> 59 \<notin> set token)"

lemma cookie_name: "str_bytes ''argus_session='' = str_bytes ''argus_session'' @ [61]"
  by (simp add: str_bytes_def)

lemma cookie_item:
  assumes "61 \<in> set cookie" "takeWhile (\<lambda>c. c \<noteq> 61) cookie = str_bytes ''argus_session''"
  shows "cookie = str_bytes ''argus_session='' @ tl (dropWhile (\<lambda>c. c \<noteq> 61) cookie)"
proof -
  have d: "dropWhile (\<lambda>c. c \<noteq> 61) cookie \<noteq> []" using assms(1) by (auto simp: dropWhile_eq_Nil_conv)
  then have "hd (dropWhile (\<lambda>c. c \<noteq> 61) cookie) = 61" using hd_dropWhile [OF d] by simp
  then have "dropWhile (\<lambda>c. c \<noteq> 61) cookie = 61 # tl (dropWhile (\<lambda>c. c \<noteq> 61) cookie)" using d by (metis list.collapse)
  then show ?thesis using takeWhile_dropWhile_id [of "\<lambda>c. c \<noteq> 61" cookie] assms(2) by (simp add: cookie_name)
qed

lemma scan_cookies_sound:
  assumes "scan_cookies found header = Some token"
  shows "found = Some token \<or> carries_cookie header token"
  using assms
proof (induction found header rule: scan_cookies.induct)
  case (1 found header)
  define cursor where "cursor = dropWhile (\<lambda>c. c = 32 \<or> c = 59) header"
  define cookie where "cookie = takeWhile (\<lambda>c. c \<noteq> 59) cursor"
  define rest where "rest = dropWhile (\<lambda>c. c \<noteq> 59) cursor"
  define skipped where "skipped = takeWhile (\<lambda>c. c = 32 \<or> c = 59) header"
  define name where "name = takeWhile (\<lambda>c. c \<noteq> 61) cookie"
  define content where "content = tl (dropWhile (\<lambda>c. c \<noteq> 61) cookie)"
  define found2 where "found2 = (if name = str_bytes ''argus_session'' then Some content else found)"
  have split: "header = skipped @ cookie @ rest"
    unfolding skipped_def cookie_def rest_def cursor_def by simp
  have sk: "skipped = [] \<or> last skipped = 32 \<or> last skipped = 59"
    using last_in_set [of skipped] set_takeWhileD [of "last skipped" "\<lambda>c. c = 32 \<or> c = 59" header]
    by (auto simp: skipped_def)
  have rest_hd: "rest = [] \<or> hd rest = 59"
    using hd_dropWhile [of "\<lambda>c. c \<noteq> 59" cursor] by (auto simp: rest_def)
  have no59: "59 \<notin> set cookie" unfolding cookie_def by (auto dest: set_takeWhileD)
  show ?case
  proof (cases "header = []")
    case True
    then show ?thesis using "1.prems" by (simp add: scan_cookies.simps)
  next
    case False
    have eq: "scan_cookies found header =
        (if 61 \<notin> set cookie then None
         else if name = str_bytes ''argus_session'' \<and> (found \<noteq> None \<or> length content \<noteq> 64) then None
         else if rest = [] then found2 else scan_cookies found2 (tl rest))"
      unfolding scan_cookies.simps [of found header] Let_def found2_def name_def content_def rest_def cookie_def cursor_def
      using False by (simp only: if_False)
    have step: "61 \<in> set cookie" "name = str_bytes ''argus_session'' \<Longrightarrow> length content = 64"
        "\<not> (name = str_bytes ''argus_session'' \<and> (found \<noteq> None \<or> length content \<noteq> 64))"
        "(if rest = [] then found2 else scan_cookies found2 (tl rest)) = Some token"
      using "1.prems" unfolding eq by (simp_all split: if_splits)
    have item: "carries_cookie header content" if n: "name = str_bytes ''argus_session''"
    proof -
      have c: "cookie = str_bytes ''argus_session='' @ content"
        unfolding content_def by (rule cookie_item [OF step(1) n [unfolded name_def]])
      then have "59 \<notin> set content" using no59 by auto
      then show ?thesis using c split sk rest_hd step(2) [OF n] by (auto simp: carries_cookie_def)
    qed
    have here: "found2 = Some token \<Longrightarrow> found = Some token \<or> carries_cookie header token"
      using item by (auto simp: found2_def split: if_splits)
    have later: "carries_cookie header token" if r: "rest \<noteq> []" and c: "carries_cookie (tl rest) token"
    proof -
      obtain b a where ba: "tl rest = b @ str_bytes ''argus_session='' @ token @ a" "b = [] \<or> last b = 32 \<or> last b = 59"
          "a = [] \<or> hd a = 59" "length token = 64" "59 \<notin> set token" using c by (auto simp: carries_cookie_def)
      have "rest = 59 # tl rest" using r rest_hd by (metis list.collapse)
      then have "header = (skipped @ cookie @ 59 # b) @ str_bytes ''argus_session='' @ token @ a" using split ba(1) by simp
      moreover have "last (skipped @ cookie @ 59 # b) = 32 \<or> last (skipped @ cookie @ 59 # b) = 59" using ba(2) by auto
      ultimately show ?thesis using ba(3-5) unfolding carries_cookie_def by blast
    qed
    show ?thesis
    proof (cases "rest = []")
      case True
      then show ?thesis using step(4) here by simp
    next
      case r: False
      have "scan_cookies found2 (tl rest) = Some token" using step(4) r by simp
      then have "found2 = Some token \<or> carries_cookie (tl rest) token"
        using "1.IH" [OF False cursor_def cookie_def rest_def name_def content_def _ step(3) found2_def r] step(1) by blast
      then show ?thesis using here later [OF r] by blast
    qed
  qed
qed

lemma cookie_sound:
  "argus_http_security_cookie req = Some token \<Longrightarrow>
     \<exists>header. header_exact req ''Cookie'' 256 = Some header \<and> carries_cookie header token"
  by (auto simp: argus_http_security_cookie_def parse_cookie_header_def header_exact_def Let_def cstr_def
      split: option.splits prod.splits if_splits dest!: scan_cookies_sound)

section \<open>Sessions and accounts\<close>

text \<open>A live session with this token: occupied, within its absolute and its idle time.\<close>

definition live_session ::
  "(u8 list \<Rightarrow> u8 list option) \<Rightarrow> u64 \<Rightarrow> session_table \<Rightarrow> u8 list \<Rightarrow> principal \<Rightarrow> nat \<Rightarrow> bool" where
  "live_session sha now t token p i \<longleftrightarrow> i < 8 \<and> se_occupied (t ! i) \<and> se_principal (t ! i) = p
     \<and> digest_secret sha (Some token) = Some (se_token_digest (t ! i))
     \<and> unat now - unat (se_created_us (t ! i)) < 28800000000 \<and> unat now - unat (se_last_activity_us (t ! i)) < 900000000"

text \<open>The console or an enabled account, with the credential and revision of the login, in the current security epoch.\<close>

definition account_current :: "http_platform \<Rightarrow> principal \<Rightarrow> bool" where
  "account_current plat p \<longleftrightarrow>
     sp_security_epoch (sk_active (sm_snapshot (hp_status_store plat))) = pr_security_epoch p
     \<and> (pr_type p = PRINCIPAL_CONSOLE
          \<and> sp_console_credential_version (sk_active (sm_snapshot (hp_verifier_store plat))) = pr_credential_version p
        \<or> pr_type p = PRINCIPAL_HUMAN
          \<and> (\<exists>human i. argus_security_directory_find_id (pr_identifier p) (hp_directory plat) = Inr (human, i)
               \<and> hr_enabled human \<noteq> 0 \<and> hr_revoked human = 0 \<and> hr_credential_version human = pr_credential_version p
               \<and> hr_record_security_epoch human = pr_principal_revision p))"

lemma current_sound: "principal_current plat p \<Longrightarrow> account_current plat p"
  by (auto simp: principal_current_def account_current_def argus_security_store_get_status_def
      argus_security_store_get_console_verifier_def Let_def
      split: principal_type.splits option.splits sum.splits if_splits)

lemma authenticated_live:
  assumes "argus_session_manager_authenticate sha now (Some token) m = ((ESP_OK, Some (p, i)), m1)"
    and "session_inv (sm_sessions m)"
  shows "live_session sha now (sm_sessions m) token p i"
proof -
  obtain t' where a: "argus_session_authenticate sha (sm_sessions m) (Some token) now = ((ESP_OK, Some (p, i)), t')"
    using assms(1) by (auto simp: argus_session_manager_authenticate_def split: if_splits prod.splits)
  obtain d where d: "digest_secret sha (Some token) = Some d" "i < length (sm_sessions m)" "se_occupied (sm_sessions m ! i)"
      "\<not> expired now (sm_sessions m ! i)" "se_token_digest (sm_sessions m ! i) = d" "p = se_principal (sm_sessions m ! i)"
    by (rule authenticateE [OF a]) blast
  have le: "se_created_us (sm_sessions m ! i) \<le> now" "se_last_activity_us (sm_sessions m ! i) \<le> now"
    using d(4) by (auto simp: expired_def not_less)
  show ?thesis
    using d(4) unat_sub [OF le(1)] unat_sub [OF le(2)] d assms(2)
    by (simp add: live_session_def expired_def not_le word_less_nat_alt session_inv_def)
qed

lemma authenticate_request_sound:
  assumes "authenticate_request plat req s = (Some (token, p, i), s')" "session_inv (sm_sessions (hs_sessions s))"
  shows "argus_http_security_cookie req = Some token \<and> account_current plat p
    \<and> live_session (hp_sha plat) (hp_clock plat 3) (sm_sessions (hs_sessions s)) token p i"
proof -
  obtain err who m where a: "argus_http_security_cookie req = Some token"
      "argus_session_manager_authenticate (hp_sha plat) (hp_clock plat 3) (Some token) (hs_sessions s) = ((err, who), m)"
      "err = ESP_OK" "who = Some (p, i)" "principal_current plat p"
    using assms(1) by (auto simp: authenticate_request_def split: option.splits prod.splits if_splits)
  then show ?thesis using authenticated_live [of "hp_sha plat" "hp_clock plat 3" token "hs_sessions s" p i m] assms(2)
    by (simp add: current_sound)
qed

text \<open>A request that names the device's own page as its origin, and carries the CSRF secret.\<close>

definition protected_mutation :: "http_platform \<Rightarrow> http_request \<Rightarrow> nat \<Rightarrow> session_manager \<Rightarrow> bool" where
  "protected_mutation plat req index m \<longleftrightarrow>
     header_exact req ''Content-Type'' 48 = Some (str_bytes ''application/json'')
     \<and> (\<exists>peer local peer_addr ip printable csrf. hq_socket req = Some (local, peer) \<and> socket_address_ipv4 local = Some ip
          \<and> on_access_point plat 1 req peer_addr \<and> hp_ntop plat ip 16 = Some printable
          \<and> header_exact req ''Origin'' 80 = Some (str_bytes ''http://'' @ cstr printable)
          \<and> header_exact req ''Host'' 64 \<in> {Some (cstr printable), Some (cstr printable @ str_bytes '':80'')}
          \<and> header_exact req ''X-Argus-CSRF'' 65 = Some csrf
          \<and> argus_session_csrf_valid (hp_sha plat) (sm_sessions m) index (Some csrf))"

lemma check_mutation_sound:
  assumes "check_mutation plat req i s = (HTTP_ACCESS_OK, s')"
  shows "protected_mutation plat req i (hs_sessions s')"
proof -
  obtain s1 csrf where c: "argus_http_security_json_content_type req" "argus_http_security_origin plat req s = (HTTP_ACCESS_OK, s1)"
      "header_exact req ''X-Argus-CSRF'' (64 + 1) = Some csrf"
      "argus_session_manager_csrf_valid (hp_sha plat) i (Some csrf) (hs_sessions s')"
    using assms by (auto simp: check_mutation_def Let_def split: prod.splits option.splits if_splits)
  obtain origin x host where o: "expected_origin plat req (hs_conflict s) = (Some origin, x)"
      "header_exact req ''Origin'' 80 = Some origin" "header_exact req ''Host'' 64 = Some host"
      "host = drop 7 origin \<or> host = drop 7 origin @ str_bytes '':80''"
    using c(2) by (auto simp: argus_http_security_origin_def Let_def split: prod.splits option.splits if_splits)
  obtain peer_addr printable x2 where p: "socket_is_softap plat 1 req (hs_conflict s) = (Some (peer_addr, printable), x2)"
      "origin = str_bytes ''http://'' @ cstr printable"
    using o(1) by (auto simp: expected_origin_def Let_def split: prod.splits option.splits if_splits)
  have "drop 7 origin = cstr printable" unfolding p(2) by (simp add: str_bytes_def)
  then show ?thesis
    using c o p(2) softap_sound [OF p(1)]
    by (auto simp: protected_mutation_def argus_http_security_json_content_type_def argus_session_manager_csrf_valid_def)
qed

text \<open>
  C35: A request is served only with every proof. In every reachable session table an accepted
  request arrived on the isolated access point, carries in its cookie the token of a live
  session, whose account is enabled, unrevoked and unchanged since the login in the current
  security epoch, and holds every required permission; an accepted mutation also has a JSON body,
  names the device's own page as origin and host, and carries the CSRF secret of its session.
\<close>

theorem http_access_sound:
  assumes "argus_http_security_require plat req required mutation s = ((HTTP_ACCESS_OK, ctx), s')"
    and "(session_step (hp_sha plat))\<^sup>*\<^sup>* argus_session_table_init (sm_sessions (hs_sessions s))"
  shows "on_access_point plat 0 req (hc_peer_key ctx)
    \<and> (\<exists>header. header_exact req ''Cookie'' 256 = Some header \<and> carries_cookie header (hc_session_token ctx))
    \<and> live_session (hp_sha plat) (hp_clock plat 3) (sm_sessions (hs_sessions s)) (hc_session_token ctx)
        (hc_principal ctx) (hc_session_index ctx)
    \<and> account_current plat (hc_principal ctx) \<and> pr_permissions (hc_principal ctx) AND required = required
    \<and> (mutation \<longrightarrow> protected_mutation plat req (hc_session_index ctx) (hs_sessions s'))"
proof -
  obtain peer_key s1 token p i s2 where r: "argus_http_security_ap_only plat req s = ((HTTP_ACCESS_OK, peer_key), s1)"
      "authenticate_request plat req s1 = (Some (token, p, i), s2)"
      "ctx = \<lparr> hc_principal = p, hc_session_index = i, hc_peer_key = peer_key, hc_session_token = token \<rparr>"
      "required = 0 \<or> argus_authorization_require (Some p) required = AUTHZ_ALLOW"
      "mutation \<longrightarrow> check_mutation plat req i s2 = (HTTP_ACCESS_OK, s')"
    using assms(1) by (auto simp: argus_http_security_require_def Let_def split: prod.splits option.splits if_splits)
  obtain printable x where ap: "socket_is_softap plat 0 req (hs_conflict s) = (Some (peer_key, printable), x)"
      "hs_sessions s1 = hs_sessions s"
    using r(1) by (auto simp: argus_http_security_ap_only_def Let_def split: prod.splits option.splits if_splits)
  have "session_inv (sm_sessions (hs_sessions s1))" using session_reachable_inv [OF assms(2)] ap(2) by simp
  note a = authenticate_request_sound [OF r(2) this]
  have "pr_permissions p AND required = required"
    using r(4) by (auto simp: argus_authorization_require_def split: if_splits)
  then show ?thesis
    using a r(3,5) ap(2) softap_sound [OF ap(1)] check_mutation_sound [of plat req i s2 s'] cookie_sound [of req token] by auto
qed

lemma hex_encode_bytes: "c \<in> set (hex_encode bs) \<Longrightarrow> c \<noteq> 0 \<and> c \<noteq> 59 \<and> c \<noteq> 61"
proof -
  have "hex_char b \<noteq> 0 \<and> hex_char b \<noteq> 59 \<and> hex_char b \<noteq> 61" if "unat b < 16" for b
  proof -
    have "unat b \<in> set [0..<16]" "b = of_nat (unat b)" using that by simp_all
    then have "b \<in> set (map of_nat [0..<16])" by (metis image_eqI set_map)
    then show ?thesis by (auto simp: upt_rec hex_char_def)
  qed
  then show "c \<in> set (hex_encode bs) \<Longrightarrow> ?thesis" using nibbles_small by (auto simp: hex_encode_def)
qed

lemma plain_cookie:
  assumes "length token = 64" "59 \<notin> set token"
  shows "scan_cookies None (str_bytes ''argus_session='' @ token) = Some token"
proof -
  let ?h = "str_bytes ''argus_session='' @ token"
  have h: "dropWhile (\<lambda>c. c = 32 \<or> c = 59) ?h = ?h" "?h \<noteq> []" by (simp_all add: str_bytes_def)
  have n: "59 \<notin> set ?h" using assms(2) by (simp add: str_bytes_def)
  have w: "takeWhile (\<lambda>c. c \<noteq> 59) ?h = ?h" "dropWhile (\<lambda>c. c \<noteq> 59) ?h = []"
    using n by (auto simp: takeWhile_eq_all_conv dropWhile_eq_Nil_conv)
  have e: "takeWhile (\<lambda>c. c \<noteq> 61) ?h = str_bytes ''argus_session''" "tl (dropWhile (\<lambda>c. c \<noteq> 61) ?h) = token"
      "61 \<in> set ?h" by (simp_all add: str_bytes_def)
  show ?thesis unfolding scan_cookies.simps [of None] Let_def h(1) w e using assms(1) h(2) e(3) by simp
qed

definition demo_headers :: "u8 list \<Rightarrow> u8 list \<Rightarrow> string \<Rightarrow> u8 list" where
  "demo_headers token csrf name =
     (if name = ''Cookie'' then str_bytes ''argus_session='' @ token
      else if name = ''Content-Type'' then str_bytes ''application/json''
      else if name = ''Origin'' then str_bytes ''http://192.168.4.1''
      else if name = ''Host'' then str_bytes ''192.168.4.1''
      else if name = ''X-Argus-CSRF'' then csrf else [])"

definition demo_http_request :: "u8 list \<Rightarrow> u8 list \<Rightarrow> http_request" where
  "demo_http_request token csrf = \<lparr> hq_socket = Some (SOCKET_INET 0x0104A8C0, SOCKET_INET 0x0204A8C0),
     hq_header_len = (\<lambda>name. length (demo_headers token csrf name)),
     hq_header_str = (\<lambda>name capacity. (ESP_OK, demo_headers token csrf name @ [0])) \<rparr>"

definition demo_platform :: http_platform where
  "demo_platform = \<lparr> hp_interfaces = (\<lambda>k. \<lparr> hi_ap = Some (0x0104A8C0, 0x00FFFFFF), hi_sta = None \<rparr>),
     hp_ntop = (\<lambda>a n. Some (str_bytes ''192.168.4.1'' @ [0])), hp_clock = (\<lambda>k. 6), hp_sha = demo_sha,
     hp_status_store = \<lparr> sm_writer_core = security_core_zero,
        sm_snapshot = security_core_zero\<lparr> sk_active := security_payload_zero\<lparr> sp_security_epoch := 1 \<rparr> \<rparr>,
        sm_initialized = True, sm_encryption_enabled = True \<rparr>,
     hp_verifier_store = \<lparr> sm_writer_core = security_core_zero, sm_snapshot = security_core_zero,
        sm_initialized = True, sm_encryption_enabled = True \<rparr>,
     hp_directory = human_directory_zero\<lparr> hu_initialized := True, hu_snapshot := human_payload_zero\<lparr> hy_human_count := 1,
        hy_humans := [human_record_zero\<lparr> hr_identifier := [65, 0], hr_enabled := 1, hr_credential_version := 1,
          hr_record_security_epoch := 1 \<rparr>] \<rparr> \<rparr>,
     hp_between = (\<lambda>k m. m) \<rparr>"

definition demo_http_state :: "session_table \<Rightarrow> http_state" where
  "demo_http_state t = \<lparr> hs_last_sta_rejection_audit_us = 0,
     hs_conflict = \<lparr> if_active = False, if_observations = 0, if_first_us = 0, if_last_us = 0, if_last_log_us = 0 \<rparr>,
     hs_sessions = \<lparr> sm_mutex = True, sm_sessions = t \<rparr>, hs_audit = [] \<rparr>"

lemma demo_header:
  assumes "0 \<notin> set (demo_headers token csrf name)" "demo_headers token csrf name \<noteq> []"
    and "length (demo_headers token csrf name) < capacity"
  shows "header_exact (demo_http_request token csrf) name capacity = Some (demo_headers token csrf name)"
proof -
  have "cstr (demo_headers token csrf name @ [0]) = demo_headers token csrf name"
    using assms(1) by (auto simp: cstr_def takeWhile_append takeWhile_eq_all_conv)
  then show ?thesis using assms(2,3) by (simp add: header_exact_def demo_http_request_def c_strlen_def)
qed

lemma demo_softap: "\<exists>x'. socket_is_softap demo_platform k (demo_http_request token csrf) x
    = (Some (0x0204A8C0, str_bytes ''192.168.4.1'' @ [0]), x')"
  by (simp add: socket_is_softap_def demo_http_request_def demo_platform_def socket_address_ipv4_def
      argus_net_mgr_classify_interface_def Let_def)

lemma demo_principal_current: "principal_current demo_platform root_principal"
  by (simp add: principal_current_def root_principal_def argus_security_directory_find_id_def demo_platform_def
      argus_security_store_get_status_def Let_def cstr_def human_record_zero_def security_payload_zero_def security_core_zero_def)

lemma demo_authorized: "argus_authorization_require (Some root_principal) PERMISSION_MOTION = AUTHZ_ALLOW"
  unfolding argus_authorization_require_def argus_authorization_principal_valid_def
  by (simp add: root_principal_def permission_bit_def PERMISSION_DEFINED_MASK_def cstr_def c_strlen_def level_order)

theorem http_access_sound_witness:
  "\<exists>t token csrf ctx s'. argus_http_security_require demo_platform (demo_http_request token csrf) PERMISSION_MOTION True
      (demo_http_state t) = ((HTTP_ACCESS_OK, ctx), s')
    \<and> live_session demo_sha 6 t token (hc_principal ctx) (hc_session_index ctx) \<and> hc_session_token ctx = token"
proof -
  obtain out t where c: "argus_session_create demo_sha argus_session_table_init (Some root_principal) 5 demo_rnd
      = ((ESP_OK, Some out), t)" using demo_create by blast
  have reach: "(session_step demo_sha)\<^sup>*\<^sup>* argus_session_table_init t"
    using ss_create [of demo_sha argus_session_table_init "Some root_principal" 5 demo_rnd] c by auto
  obtain i t' where au: "argus_session_authenticate demo_sha t (Some (cr_token out)) 6 = ((ESP_OK, Some (root_principal, i)), t')"
      "argus_session_csrf_valid demo_sha t' i (Some (cr_csrf out))"
    using create_then_authenticate [OF rtranclp.rtrancl_refl c, of 6] by (auto simp: demo_rnd_def demo_sha_def)
  define token where "token = cr_token out"
  define csrf where "csrf = cr_csrf out"
  obtain a b where ab: "token = hex_encode a" "csrf = hex_encode b" "length token = 64" "length csrf = 64"
    by (rule createE [OF c]) (auto simp: token_def csrf_def demo_rnd_def)
  have set: "0 \<notin> set token" "59 \<notin> set token" "0 \<notin> set csrf" using hex_encode_bytes ab(1,2) by blast+
  let ?req = "demo_http_request token csrf"
  have hd: "header_exact ?req ''Cookie'' 256 = Some (str_bytes ''argus_session='' @ token)"
      "header_exact ?req ''Content-Type'' 48 = Some (str_bytes ''application/json'')"
      "header_exact ?req ''Origin'' 80 = Some (str_bytes ''http://192.168.4.1'')"
      "header_exact ?req ''Host'' 64 = Some (str_bytes ''192.168.4.1'')"
      "header_exact ?req ''X-Argus-CSRF'' 65 = Some csrf"
    using set ab(3,4) demo_header [of token csrf "''Cookie''" 256] demo_header [of token csrf "''Content-Type''" 48]
      demo_header [of token csrf "''Origin''" 80] demo_header [of token csrf "''Host''" 64]
      demo_header [of token csrf "''X-Argus-CSRF''" 65]
    by (simp_all add: demo_headers_def str_bytes_def) (cases csrf, simp_all)
  have cookie: "argus_http_security_cookie ?req = Some token"
  proof -
    have "cstr (str_bytes ''argus_session='' @ token) = str_bytes ''argus_session='' @ token"
      using set(1) by (auto simp: cstr_def takeWhile_eq_all_conv str_bytes_def)
    then show ?thesis
      using plain_cookie [OF ab(3) set(2)] by (simp add: argus_http_security_cookie_def hd(1) parse_cookie_header_def)
  qed
  obtain x where ap: "argus_http_security_ap_only demo_platform ?req (demo_http_state t)
      = ((HTTP_ACCESS_OK, 0x0204A8C0), (demo_http_state t)\<lparr> hs_conflict := x \<rparr>)"
    using demo_softap [of 0 token csrf "hs_conflict (demo_http_state t)"] by (auto simp: argus_http_security_ap_only_def)
  let ?s1 = "(demo_http_state t)\<lparr> hs_conflict := x \<rparr>"
  let ?s2 = "?s1\<lparr> hs_sessions := \<lparr> sm_mutex = True, sm_sessions = t' \<rparr> \<rparr>"
  have m: "hp_sha demo_platform = demo_sha" "hp_clock demo_platform k = 6" "hp_between demo_platform k m = m" for k m
    by (simp_all add: demo_platform_def)
  have auth: "authenticate_request demo_platform ?req ?s1 = (Some (token, root_principal, i), ?s2)"
    using cookie au(1) demo_principal_current m
    by (simp add: authenticate_request_def argus_session_manager_authenticate_def demo_http_state_def token_def)
  have origin: "\<exists>x'. argus_http_security_origin demo_platform ?req ?s2 = (HTTP_ACCESS_OK, ?s2\<lparr> hs_conflict := x' \<rparr>)"
    using demo_softap [of 1 token csrf x] hd(3,4)
    by (auto simp: argus_http_security_origin_def expected_origin_def Let_def str_bytes_def cstr_def demo_http_state_def)
  then obtain x' where "check_mutation demo_platform ?req i ?s2 = (HTTP_ACCESS_OK, ?s2\<lparr> hs_conflict := x' \<rparr>)"
    using hd(2,5) au(2) m
    by (auto simp: check_mutation_def argus_http_security_json_content_type_def argus_session_manager_csrf_valid_def csrf_def)
  then have run: "argus_http_security_require demo_platform ?req PERMISSION_MOTION True (demo_http_state t)
      = ((HTTP_ACCESS_OK, \<lparr> hc_principal = root_principal, hc_session_index = i, hc_peer_key = 0x0204A8C0, hc_session_token = token \<rparr>),
         ?s2\<lparr> hs_conflict := x' \<rparr>)"
    using ap auth demo_authorized by (simp add: argus_http_security_require_def)
  have live: "live_session demo_sha 6 t token root_principal i"
    using http_access_sound [OF run] reach m by (simp add: demo_http_state_def)
  show ?thesis by (intro exI conjI, rule run) (simp_all add: live)
qed

end
