(* ===== verification/Local_Recovery.thy ===== *)
theory Local_Recovery
  imports Security_Manager
begin

text \<open>
  The physical recovery button (\<open>argus_local_recovery.c\<close>): a detector of a long press and its
  release, the commit of the request, and the task that samples the pin every 20 ms.

  The security store is the model of \<open>argus_security_store.c\<close>; the post to the network task, the
  pin, and the creation of the task and of the pin's configuration are arguments.
\<close>

section \<open>The detector\<close>

abbreviation (input) RECOVERY_SAMPLE_MS :: u32 where "RECOVERY_SAMPLE_MS \<equiv> 20"
abbreviation (input) RECOVERY_DEBOUNCE_MS :: u32 where "RECOVERY_DEBOUNCE_MS \<equiv> 100"
abbreviation (input) RECOVERY_HOLD_MS :: u32 where "RECOVERY_HOLD_MS \<equiv> 10000"

datatype detector_result = DETECT_NONE | DETECT_QUALIFIED_RELEASE

record recovery_detector =
  rd_raw_high :: bool
  rd_stable_high :: bool
  rd_stable_initialized :: bool
  rd_startup_release_seen :: bool
  rd_hold_qualified :: bool
  rd_triggered :: bool
  rd_raw_stable_ms :: u32
  rd_held_ms :: u32

definition add_bounded :: "u32 \<Rightarrow> u32 \<Rightarrow> u32" where
  "add_bounded v increment = (if - 1 - v < increment then - 1 else v + increment)"

definition argus_recovery_detector_init :: "bool \<Rightarrow> recovery_detector" where
  "argus_recovery_detector_init initial_high = \<lparr> rd_raw_high = initial_high, rd_stable_high = initial_high,
     rd_stable_initialized = False, rd_startup_release_seen = False, rd_hold_qualified = False, rd_triggered = False,
     rd_raw_stable_ms = 0, rd_held_ms = 0 \<rparr>"

text \<open>The first part follows the raw level, the second acts on a level that is stable.\<close>

definition track_level :: "bool \<Rightarrow> u32 \<Rightarrow> recovery_detector \<Rightarrow> recovery_detector" where
  "track_level level_high elapsed_ms d =
     (if level_high \<noteq> rd_raw_high d then d\<lparr> rd_raw_high := level_high, rd_raw_stable_ms := elapsed_ms \<rparr>
      else d\<lparr> rd_raw_stable_ms := add_bounded (rd_raw_stable_ms d) elapsed_ms \<rparr>)"

definition stable_level :: "u32 \<Rightarrow> recovery_detector \<Rightarrow> detector_result \<times> recovery_detector" where
  "stable_level elapsed_ms d =
     (let changed = (\<not> rd_stable_initialized d \<or> rd_stable_high d \<noteq> rd_raw_high d);
          prior_high = rd_stable_high d;
          d1 = d\<lparr> rd_stable_high := rd_raw_high d, rd_stable_initialized := True \<rparr>
      in if rd_stable_high d1
         then (let d2 = d1\<lparr> rd_startup_release_seen := True, rd_held_ms := 0 \<rparr> in
               if changed \<and> \<not> prior_high \<and> rd_hold_qualified d2
               then (DETECT_QUALIFIED_RELEASE, d2\<lparr> rd_triggered := True \<rparr>)
               else (DETECT_NONE, d2\<lparr> rd_hold_qualified := False \<rparr>))
         else if \<not> rd_startup_release_seen d1
         then (DETECT_NONE, d1\<lparr> rd_held_ms := 0, rd_hold_qualified := False \<rparr>)
         else (let d2 = (if changed then d1\<lparr> rd_held_ms := 0 \<rparr> else d1);
                   d3 = d2\<lparr> rd_held_ms := add_bounded (rd_held_ms d2) elapsed_ms \<rparr>
               in (DETECT_NONE, if rd_held_ms d3 \<ge> RECOVERY_HOLD_MS then d3\<lparr> rd_hold_qualified := True \<rparr> else d3)))"

definition argus_recovery_detector_update ::
  "recovery_detector \<Rightarrow> bool \<Rightarrow> u32 \<Rightarrow> detector_result \<times> recovery_detector" where
  "argus_recovery_detector_update d level_high elapsed_ms =
     (if elapsed_ms = 0 \<or> rd_triggered d then (DETECT_NONE, d)
      else (let d1 = track_level level_high elapsed_ms d in
            if rd_raw_stable_ms d1 < RECOVERY_DEBOUNCE_MS then (DETECT_NONE, d1) else stable_level elapsed_ms d1))"

section \<open>The commit\<close>

record 'w recovery_ops =
  ry_persist_request :: "'w \<Rightarrow> esp_err \<times> 'w"
  ry_post_network_request :: "'w \<Rightarrow> esp_err \<times> 'w"

record recovery_commit =
  rk_accepted :: bool
  rk_persisted :: bool
  rk_network_posted :: bool
  rk_error :: esp_err

definition argus_local_recovery_commit :: "'w recovery_ops option \<Rightarrow> 'w \<Rightarrow> recovery_commit \<times> 'w" where
  "argus_local_recovery_commit table w =
     (let result = \<lparr> rk_accepted = False, rk_persisted = False, rk_network_posted = False, rk_error = ESP_OK \<rparr> in
      case table of
        None \<Rightarrow> (result\<lparr> rk_error := ESP_ERR_INVALID_ARG \<rparr>, w)
      | Some ops \<Rightarrow>
          (let (err, w1) = ry_persist_request ops w in
           if err \<noteq> ESP_OK then (result\<lparr> rk_error := err \<rparr>, w1)
           else
             (let (err2, w2) = ry_post_network_request ops w1; result1 = result\<lparr> rk_persisted := True, rk_error := err2 \<rparr> in
              if err2 \<noteq> ESP_OK then (result1, w2)
              else (result1\<lparr> rk_network_posted := True, rk_accepted := True \<rparr>, w2))))"

text \<open>The production operation on the store.\<close>

definition recovery_persist ::
  "bool \<Rightarrow> 's security_driver \<Rightarrow> security_manager \<times> 's \<Rightarrow> esp_err \<times> (security_manager \<times> 's)" where
  "recovery_persist queue_ok driver w =
     (case w of (m, s) \<Rightarrow>
        if argus_security_store_get_recovery_state m = RECOVERY_REQUESTED then (ESP_OK, w)
        else argus_security_store_set_recovery_state queue_ok driver RECOVERY_REQUESTED m s)"

section \<open>The task\<close>

record local_recovery =
  ly_detector :: recovery_detector
  ly_mutex :: bool
  ly_task :: bool
  ly_trigger_count :: u32

text \<open>One round of the task on one sample of the pin.\<close>

definition recovery_task_round :: "'w recovery_ops \<Rightarrow> bool \<Rightarrow> local_recovery \<Rightarrow> 'w \<Rightarrow> local_recovery \<times> 'w" where
  "recovery_task_round ops high r w =
     (let (found, d) = argus_recovery_detector_update (ly_detector r) high RECOVERY_SAMPLE_MS;
          r1 = r\<lparr> ly_detector := d \<rparr>
      in if found \<noteq> DETECT_QUALIFIED_RELEASE then (r1, w)
         else (case argus_local_recovery_commit (Some ops) w of
                 (result, w1) \<Rightarrow>
                   (if rk_accepted result then r1\<lparr> ly_trigger_count := ly_trigger_count r1 + 1 \<rparr> else r1, w1)))"

definition argus_local_recovery_init ::
  "esp_err \<Rightarrow> bool \<Rightarrow> bool \<Rightarrow> bool \<Rightarrow> local_recovery \<Rightarrow> esp_err \<times> local_recovery" where
  "argus_local_recovery_init configured mutex_created level_high task_created r =
     (if ly_task r then (ESP_OK, r)
      else if configured \<noteq> ESP_OK then (configured, r)
      else if \<not> mutex_created then (ESP_ERR_NO_MEM, r\<lparr> ly_mutex := False \<rparr>)
      else
        (let r1 = r\<lparr> ly_mutex := True, ly_detector := argus_recovery_detector_init level_high \<rparr> in
         if \<not> task_created then (ESP_ERR_NO_MEM, r1) else (ESP_OK, r1\<lparr> ly_task := True \<rparr>)))"

record recovery_status =
  rv_initialized :: bool
  rv_startup_release_seen :: bool
  rv_hold_qualified :: bool
  rv_triggered :: bool
  rv_held_ms :: u32
  rv_trigger_count :: u32

definition argus_local_recovery_get_status :: "local_recovery \<Rightarrow> esp_err + recovery_status" where
  "argus_local_recovery_get_status r =
     (if \<not> ly_mutex r then Inl ESP_ERR_INVALID_ARG
      else Inr \<lparr> rv_initialized = ly_task r, rv_startup_release_seen = rd_startup_release_seen (ly_detector r),
             rv_hold_qualified = rd_hold_qualified (ly_detector r), rv_triggered = rd_triggered (ly_detector r),
             rv_held_ms = rd_held_ms (ly_detector r), rv_trigger_count = ly_trigger_count r \<rparr>)"

section \<open>Detection\<close>

text \<open>The rounds of the task on a list of samples.\<close>

fun recovery_rounds :: "'w recovery_ops \<Rightarrow> bool list \<Rightarrow> local_recovery \<Rightarrow> 'w \<Rightarrow> local_recovery \<times> 'w" where
  "recovery_rounds ops [] r w = (r, w)"
| "recovery_rounds ops (high # samples) r w =
     (case recovery_task_round ops high r w of (r1, w1) \<Rightarrow> recovery_rounds ops samples r1 w1)"

definition detector_after :: "bool \<Rightarrow> bool list \<Rightarrow> recovery_detector" where
  "detector_after initial samples =
     foldl (\<lambda>d high. snd (argus_recovery_detector_update d high RECOVERY_SAMPLE_MS)) (argus_recovery_detector_init initial) samples"

lemma detector_after_Nil [simp]: "detector_after h [] = argus_recovery_detector_init h"
  by (simp add: detector_after_def)

lemma detector_after_snoc: "detector_after h (xs @ [x]) = snd (argus_recovery_detector_update (detector_after h xs) x 20)"
  by (simp add: detector_after_def)

text \<open>The number of equal samples at the end.\<close>

definition run_length :: "bool list \<Rightarrow> nat" where
  "run_length xs = (if xs = [] then 0 else length (takeWhile (\<lambda>x. x = last xs) (rev xs)))"

lemma run_length_snoc: "run_length (xs @ [x]) = (if xs \<noteq> [] \<and> last xs = x then Suc (run_length xs) else 1)"
  by (cases xs rule: rev_cases) (auto simp: run_length_def)

lemma run_length_suffix: "n \<le> run_length xs \<Longrightarrow> n > 0 \<Longrightarrow> \<exists>ys. xs = ys @ replicate n (last xs)"
proof (induction xs arbitrary: n rule: rev_induct)
  case (snoc x xs)
  show ?case
  proof (cases "n = 1")
    case False
    then have n: "xs \<noteq> []" "last xs = x" "n - 1 \<le> run_length xs" "n - 1 > 0"
      using snoc.prems by (auto simp: run_length_snoc split: if_splits)
    then obtain ys where "xs = ys @ replicate (n - 1) x" using snoc.IH [of "n - 1"] by auto
    then have "xs @ [x] = ys @ replicate (Suc (n - 1)) x" by (simp add: replicate_append_same)
    then show ?thesis using n(4) by (intro exI [of _ ys]) simp
  qed auto
qed (simp add: run_length_def)

lemma run_length_ge: "n > 0 \<Longrightarrow> n \<le> run_length (ys @ replicate n x)"
proof (induction n)
  case (Suc n)
  then show ?case
    by (cases "n = 0") (auto simp: run_length_snoc append_assoc [symmetric] replicate_append_same [symmetric]
        simp del: append_assoc replicate_append_same)
qed simp

text \<open>No stretch of samples in which the button was released long enough to be debounced.\<close>

definition no_release :: "bool list \<Rightarrow> bool" where
  "no_release xs \<longleftrightarrow> (\<forall>a b. xs \<noteq> a @ replicate 5 True @ b)"

lemma no_release_snoc:
  assumes "no_release hold" "x \<longrightarrow> run_length (p @ hold @ [x]) < 5"
  shows "no_release (hold @ [x])"
proof (unfold no_release_def, intro allI notI)
  fix a b assume e: "hold @ [x] = a @ replicate 5 True @ b"
  show False
  proof (cases b rule: rev_cases)
    case Nil
    have "x" using arg_cong [OF e, of last] Nil by simp
    moreover have "p @ hold @ [x] = (p @ a) @ replicate 5 True" using e Nil by simp
    ultimately show False using assms(2) run_length_ge [of 5 "p @ a" True] by simp
  next
    case (snoc b' y)
    then have "hold = a @ replicate 5 True @ b'" using e by (metis append_assoc butlast_snoc)
    then show False using assms(1) unfolding no_release_def by blast
  qed
qed

text \<open>What the detector knows of the samples: after a debounced release, the samples with the button held.\<close>

definition held_since :: "bool list \<Rightarrow> recovery_detector \<Rightarrow> bool" where
  "held_since xs d \<longleftrightarrow>
     (\<exists>p hold. xs = p @ replicate 5 True @ hold \<and> no_release hold \<and> unat (rd_held_ms d) \<le> 20 * count_list hold False
        \<and> (rd_hold_qualified d \<longrightarrow> 500 \<le> count_list hold False))"

definition detector_inv :: "bool \<Rightarrow> bool list \<Rightarrow> recovery_detector \<Rightarrow> bool" where
  "detector_inv h xs d \<longleftrightarrow> rd_raw_high d = (if xs = [] then h else last xs)
     \<and> (if rd_raw_stable_ms d < 100 then unat (rd_raw_stable_ms d) = 20 * run_length xs else 5 \<le> run_length xs)
     \<and> (rd_startup_release_seen d \<longrightarrow> held_since xs d) \<and> (rd_hold_qualified d \<longrightarrow> rd_startup_release_seen d)"

lemma unat_add_bounded: "unat (add_bounded v 20) = (if unat v \<le> 4294967275 then unat v + 20 else 4294967295)"
proof -
  have m: "unat (- 1 - v) = 4294967295 - unat v"
    by (subst unat_sub) (simp_all add: unsigned_minus_1_eq_mask mask_eq_exp_minus_1)
  show ?thesis
  proof (cases "unat v \<le> 4294967275")
    case True
    then have "\<not> - 1 - v < 20" by (simp add: word_less_nat_alt m)
    moreover have "unat (v + 20) = unat v + 20" using True by (intro trans [OF unat_add_no_wrap]) simp_all
    ultimately show ?thesis using True by (simp add: add_bounded_def)
  next
    case False
    then have "- 1 - v < 20" using unat_lt_u32 [of v] by (simp add: word_less_nat_alt m)
    then show ?thesis using False by (simp add: add_bounded_def unsigned_minus_1_eq_mask mask_eq_exp_minus_1)
  qed
qed

lemma track_level_inv:
  assumes "detector_inv h xs d"
  shows "rd_raw_high (track_level x 20 d) = x
    \<and> (if rd_raw_stable_ms (track_level x 20 d) < 100 then unat (rd_raw_stable_ms (track_level x 20 d)) = 20 * run_length (xs @ [x])
       else 5 \<le> run_length (xs @ [x]))"
proof (cases "x \<noteq> rd_raw_high d")
  case True
  then show ?thesis using assms by (auto simp: detector_inv_def track_level_def run_length_snoc split: if_splits)
next
  case eq: False
  have r: "run_length (xs @ [x]) = Suc (run_length xs)"
    using assms eq by (cases "xs = []") (auto simp: run_length_snoc detector_inv_def run_length_def)
  have st: "rd_raw_stable_ms (track_level x 20 d) = add_bounded (rd_raw_stable_ms d) 20" "rd_raw_high (track_level x 20 d) = x"
    using eq by (simp_all add: track_level_def)
  have old: "if rd_raw_stable_ms d < 100 then unat (rd_raw_stable_ms d) = 20 * run_length xs else 5 \<le> run_length xs"
    using assms by (simp add: detector_inv_def)
  show ?thesis
    unfolding st r using old unat_add_bounded [of "rd_raw_stable_ms d"] by (auto simp: word_less_nat_alt split: if_splits)
qed

lemma held_since_snoc:
  assumes "held_since xs d" "x \<longrightarrow> run_length (xs @ [x]) < 5"
    and "unat (rd_held_ms d') \<le> (if x then unat (rd_held_ms d) else unat (rd_held_ms d) + 20)"
    and "rd_hold_qualified d' \<longrightarrow> rd_hold_qualified d \<or> \<not> x \<and> 10000 \<le> unat (rd_held_ms d')"
  shows "held_since (xs @ [x]) d'"
proof -
  obtain p hold where p: "xs = p @ replicate 5 True @ hold" "no_release hold" "unat (rd_held_ms d) \<le> 20 * count_list hold False"
      "rd_hold_qualified d \<longrightarrow> 500 \<le> count_list hold False" using assms(1) by (auto simp: held_since_def)
  have "no_release (hold @ [x])"
    by (rule no_release_snoc [OF p(2), of x "p @ replicate 5 True"]) (use assms(2) p(1) in simp)
  moreover have "unat (rd_held_ms d') \<le> 20 * count_list (hold @ [x]) False" using assms(3) p(3) by (auto split: if_splits)
  ultimately show ?thesis using p(1,4) assms(4)
    unfolding held_since_def by (intro exI [of _ p] exI [of _ "hold @ [x]"]) auto
qed

lemma released_here:
  assumes "5 \<le> run_length (xs @ [True])"
  shows "\<exists>p. xs @ [True] = p @ replicate 5 True"
  using run_length_suffix [OF assms] by simp

lemma update_inv:
  assumes "detector_inv h xs d" "\<not> rd_triggered d"
    and "argus_recovery_detector_update d x 20 = (DETECT_NONE, d')"
  shows "detector_inv h (xs @ [x]) d' \<and> \<not> rd_triggered d'"
proof -
  let ?t = "track_level x 20 d"
  note track = track_level_inv [OF assms(1), of x]
  have keep: "rd_startup_release_seen ?t = rd_startup_release_seen d" "rd_hold_qualified ?t = rd_hold_qualified d"
      "rd_held_ms ?t = rd_held_ms d" "rd_triggered ?t = rd_triggered d"
    by (simp_all add: track_level_def)
  note inv = assms(1) [unfolded detector_inv_def]
  show ?thesis
  proof (cases "rd_raw_stable_ms ?t < 100")
    case True
    then have d': "d' = ?t" using assms(2,3) by (simp add: argus_recovery_detector_update_def Let_def)
    have "run_length (xs @ [x]) < 5" using track True by (auto simp: word_less_nat_alt)
    moreover have "held_since (xs @ [x]) ?t" if "held_since xs d" "run_length (xs @ [x]) < 5"
    proof -
      have "x \<longrightarrow> run_length (xs @ [x]) < 5" using that(2) by blast
      then show ?thesis by (rule held_since_snoc [OF that(1)]) (use keep in simp_all)
    qed
    ultimately have "rd_startup_release_seen d \<longrightarrow> held_since (xs @ [x]) ?t"
      using inv by blast
    then show ?thesis using track keep inv assms(2) unfolding d' detector_inv_def by auto
  next
    case False
    then have run: "5 \<le> run_length (xs @ [x])" and s: "stable_level 20 ?t = (DETECT_NONE, d')"
      using track assms(2,3) by (simp_all add: argus_recovery_detector_update_def Let_def)
    have raw: "rd_raw_high d' = x" "rd_raw_stable_ms d' = rd_raw_stable_ms ?t" "\<not> rd_triggered d'"
      using s track keep assms(2) by (auto simp: stable_level_def Let_def split: if_splits)
    have "(rd_startup_release_seen d' \<longrightarrow> held_since (xs @ [x]) d') \<and> (rd_hold_qualified d' \<longrightarrow> rd_startup_release_seen d')"
    proof (cases x)
      case True
      then have "rd_held_ms d' = 0" "\<not> rd_hold_qualified d'"
        using s track by (auto simp: stable_level_def Let_def split: if_splits)
      moreover have "\<exists>p. xs @ [x] = p @ replicate 5 True"
        using released_here [of xs] run unfolding eq_True [THEN iffD2, OF True] by blast
      then obtain p where "xs @ [x] = p @ replicate 5 True" by blast
      moreover have "no_release []" by (simp add: no_release_def)
      ultimately show ?thesis unfolding held_since_def by (intro conjI impI exI [of _ p] exI [of _ "[]"]) auto
    next
      case low: False
      show ?thesis
      proof (cases "rd_startup_release_seen d")
        case True
        then have "held_since xs d" using inv by simp
        moreover have "unat (rd_held_ms d') \<le> unat (rd_held_ms d) + 20"
            "rd_hold_qualified d' \<longrightarrow> rd_hold_qualified d \<or> 10000 \<le> unat (rd_held_ms d')" "rd_startup_release_seen d'"
          using s track low True keep unat_add_bounded [of 0] unat_add_bounded [of "rd_held_ms d"]
          by (auto simp: stable_level_def Let_def word_le_nat_alt split: if_splits)
        ultimately show ?thesis using held_since_snoc [of xs d x d'] low by simp
      next
        case False
        then show ?thesis using s track low keep by (auto simp: stable_level_def Let_def split: if_splits)
      qed
    qed
    then show ?thesis using raw run track False by (simp add: detector_inv_def)
  qed
qed

lemma detector_init_inv: "detector_inv h [] (argus_recovery_detector_init h)"
  by (simp add: detector_inv_def argus_recovery_detector_init_def run_length_def)

lemma triggered_stays:
  "rd_triggered d \<Longrightarrow> argus_recovery_detector_update d x n = (DETECT_NONE, d)"
  by (simp add: argus_recovery_detector_update_def)

lemma qualified_triggers:
  "argus_recovery_detector_update d x n = (DETECT_QUALIFIED_RELEASE, d') \<Longrightarrow>
     rd_triggered d' \<and> x \<and> \<not> rd_triggered d \<and> rd_hold_qualified d \<and> \<not> rd_raw_stable_ms (track_level x n d) < 100"
  by (auto simp: argus_recovery_detector_update_def stable_level_def track_level_def Let_def split: if_splits)

lemma detector_after_inv: "rd_triggered (detector_after h xs) \<or> detector_inv h xs (detector_after h xs)"
proof (induction xs rule: rev_induct)
  case (snoc x xs)
  obtain r d' where u: "argus_recovery_detector_update (detector_after h xs) x 20 = (r, d')" by fastforce
  have after: "detector_after h (xs @ [x]) = d'" by (simp add: detector_after_snoc u)
  show ?case
  proof (cases "rd_triggered (detector_after h xs)")
    case True
    then show ?thesis using u triggered_stays [OF True, of x 20] by (simp add: after)
  next
    case False
    then show ?thesis
      using snoc.IH u qualified_triggers [of "detector_after h xs" x 20 d'] update_inv [of h xs "detector_after h xs" x d']
      unfolding after by (cases r) blast+
  qed
qed (simp add: detector_init_inv)

section \<open>A press is long enough, and a long press is enough\<close>

text \<open>
  Samples that end in a debounced release, after the button was held for ten seconds without
  one, after a debounced release since the start.
\<close>

definition long_press :: "bool list \<Rightarrow> bool" where
  "long_press xs \<longleftrightarrow> (\<exists>p hold. xs = p @ replicate 5 True @ hold @ replicate 5 True \<and> no_release hold \<and> 500 \<le> count_list hold False)"

lemma append_end:
  assumes "a @ s = b @ t" "length s \<le> length t"
  shows "\<exists>u. t = u @ s"
  using assms by (auto simp: append_eq_append_conv2)

lemma triggered_long_press:
  assumes "detector_inv h xs d" "argus_recovery_detector_update d x 20 = (DETECT_QUALIFIED_RELEASE, d')"
  shows "long_press (xs @ [x])"
proof -
  have q: "x = True" "rd_hold_qualified d" "\<not> rd_raw_stable_ms (track_level x 20 d) < 100"
    using qualified_triggers [OF assms(2)] by blast+
  have run: "5 \<le> run_length (xs @ [True])" using track_level_inv [OF assms(1), of x] q by (simp split: if_splits)
  obtain p hold where p: "xs = p @ replicate 5 True @ hold" "no_release hold" "500 \<le> count_list hold False"
    using assms(1) q(2) by (auto simp: detector_inv_def held_since_def)
  obtain z where "xs @ [True] = z @ replicate 5 True" using released_here [OF run] by blast
  then have "xs @ [True] = (z @ replicate 4 True) @ [True]" by (simp add: numeral_eq_Suc)
  then have "z @ replicate 4 True = (p @ replicate 5 True) @ hold" using p(1) by (simp only: append_same_eq append_assoc) simp
  moreover have "length (replicate 4 True) \<le> length hold" using p(3) count_le_length [of hold False] by simp
  ultimately obtain u where u: "hold = u @ replicate 4 True" using append_end by blast
  have "no_release u" unfolding no_release_def
  proof (intro allI notI)
    fix a b assume "u = a @ replicate 5 True @ b"
    then have "hold = a @ replicate 5 True @ (b @ replicate 4 True)" using u by simp
    then show False using p(2) unfolding no_release_def by blast
  qed
  moreover have "count_list u False = count_list hold False" by (simp add: u numeral_eq_Suc)
  moreover have "xs @ [x] = p @ replicate 5 True @ u @ replicate 5 True" using p(1) u q(1) by (simp add: numeral_eq_Suc)
  ultimately show ?thesis unfolding long_press_def using p(3) by (intro exI [of _ p] exI [of _ u]) simp
qed

lemma recovery_rounds_snoc:
  "recovery_rounds ops (xs @ [x]) r w = (case recovery_rounds ops xs r w of (r1, w1) \<Rightarrow> recovery_task_round ops x r1 w1)"
  by (induction xs arbitrary: r w) (auto split: prod.splits)

lemma recovery_task_round_detector:
  "recovery_task_round ops x r w = (r', w') \<Longrightarrow> ly_detector r' = snd (argus_recovery_detector_update (ly_detector r) x 20)"
  by (auto simp: recovery_task_round_def Let_def split: prod.splits if_splits)

lemma recovery_rounds_inv:
  assumes "recovery_rounds ops xs r w = (r', w')" "ly_detector r = argus_recovery_detector_init h"
  shows "ly_detector r' = detector_after h xs
    \<and> (if rd_triggered (detector_after h xs) then w' = snd (argus_local_recovery_commit (Some ops) w) \<and> (\<exists>a b. xs = a @ b \<and> long_press a)
       else w' = w)"
  using assms
proof (induction xs arbitrary: r' w' rule: rev_induct)
  case Nil
  then show ?case by (simp add: argus_recovery_detector_init_def)
next
  case (snoc x xs)
  obtain r1 w1 where 1: "recovery_rounds ops xs r w = (r1, w1)" by fastforce
  then have 2: "recovery_task_round ops x r1 w1 = (r', w')" using snoc.prems(1) by (simp add: recovery_rounds_snoc)
  note ih = snoc.IH [OF 1 snoc.prems(2)]
  let ?d = "detector_after h xs"
  obtain f d' where u: "argus_recovery_detector_update ?d x 20 = (f, d')" by fastforce
  have det: "ly_detector r' = d'" "detector_after h (xs @ [x]) = d'"
    using recovery_task_round_detector [OF 2] ih u by (simp_all add: detector_after_snoc)
  have w: "w' = (if f = DETECT_QUALIFIED_RELEASE then snd (argus_local_recovery_commit (Some ops) w1) else w1)"
    using 2 ih u by (cases f) (auto simp: recovery_task_round_def Let_def split: prod.splits if_splits)
  show ?case
  proof (cases "rd_triggered ?d")
    case True
    then have f: "f = DETECT_NONE" "d' = ?d" using u triggered_stays [OF True, of x 20] by simp_all
    obtain a b where "xs = a @ b" "long_press a" using ih True by auto
    then have "\<exists>a b. xs @ [x] = a @ b \<and> long_press a" by (intro exI [of _ a] exI [of _ "b @ [x]"]) simp
    then show ?thesis using det w f ih True by simp
  next
    case False
    then have inv: "detector_inv h xs ?d" using detector_after_inv [of h xs] by blast
    show ?thesis
    proof (cases f)
      case DETECT_NONE
      then show ?thesis using det w ih False update_inv [OF inv False, of x d'] u by simp
    next
      case DETECT_QUALIFIED_RELEASE
      then have "long_press (xs @ [x])" "rd_triggered d'" using triggered_long_press [OF inv] qualified_triggers u by blast+
      then show ?thesis using det w ih False DETECT_QUALIFIED_RELEASE by (intro conjI) (auto intro: exI [of _ "xs @ [x]"])
    qed
  qed
qed

text \<open>The phases of a clean press.\<close>

definition released_state :: "recovery_detector \<Rightarrow> bool" where
  "released_state d \<longleftrightarrow> rd_raw_high d \<and> rd_stable_high d \<and> rd_stable_initialized d \<and> rd_startup_release_seen d
     \<and> \<not> rd_hold_qualified d \<and> \<not> rd_triggered d \<and> 100 \<le> unat (rd_raw_stable_ms d)"

definition pressed_state :: "nat \<Rightarrow> recovery_detector \<Rightarrow> bool" where
  "pressed_state k d \<longleftrightarrow> \<not> rd_raw_high d \<and> \<not> rd_stable_high d \<and> rd_stable_initialized d \<and> rd_startup_release_seen d
     \<and> \<not> rd_triggered d \<and> 100 \<le> unat (rd_raw_stable_ms d) \<and> (20 * k \<le> unat (rd_held_ms d) \<or> 10000 \<le> unat (rd_held_ms d))
     \<and> (10000 \<le> unat (rd_held_ms d) \<longrightarrow> rd_hold_qualified d)"

lemmas detector_step = argus_recovery_detector_update_def track_level_def stable_level_def Let_def word_less_nat_alt
  word_le_nat_alt unat_add_bounded

abbreviation (input) sample :: "recovery_detector \<Rightarrow> bool \<Rightarrow> recovery_detector" where
  "sample d x \<equiv> snd (argus_recovery_detector_update d x 20)"

lemma five_times: "foldl sample d (replicate 5 x) = sample (sample (sample (sample (sample d x) x) x) x) x"
  by (simp add: numeral_eq_Suc)

text \<open>Five high samples release the button or complete a press, whatever the detector has seen before.\<close>

definition rising_state :: "nat \<Rightarrow> recovery_detector \<Rightarrow> bool" where
  "rising_state j d \<longleftrightarrow> rd_triggered d \<or> rd_raw_high d \<and> 20 * j \<le> unat (rd_raw_stable_ms d)"

lemma rising_first: "rising_state 1 (sample d True)"
  by (auto simp: rising_state_def detector_step)

lemma rising_more: "rising_state j d \<Longrightarrow> j < 5 \<Longrightarrow> rising_state (Suc j) (sample d True)"
  by (auto simp: rising_state_def detector_step)

lemma rising_last: "rising_state 4 d \<Longrightarrow> rd_triggered (sample d True) \<or> released_state (sample d True)"
  by (auto simp: rising_state_def released_state_def detector_step)

lemma released_start:
  "rd_triggered (foldl sample d (replicate 5 True)) \<or> released_state (foldl sample d (replicate 5 True))"
  unfolding five_times
  using rising_more [OF rising_more [OF rising_more [OF rising_first [of d]]]]
  by (intro rising_last) (simp add: numeral_eq_Suc)

lemma triggered_run: "rd_triggered d \<Longrightarrow> foldl sample d xs = d"
  by (induction xs) (simp_all add: triggered_stays)

lemma released_more: "released_state d \<Longrightarrow> released_state (foldl sample d (replicate n True))"
  by (induction n arbitrary: d) (auto simp: released_state_def detector_step)

definition changing_state :: "bool \<Rightarrow> nat \<Rightarrow> recovery_detector \<Rightarrow> bool" where
  "changing_state x j d \<longleftrightarrow> rd_raw_high d = x \<and> rd_stable_high d = (\<not> x) \<and> rd_stable_initialized d \<and> rd_startup_release_seen d
     \<and> \<not> rd_triggered d \<and> unat (rd_raw_stable_ms d) = 20 * j"

lemma changing_more:
  "changing_state x j d \<Longrightarrow> j < 4 \<Longrightarrow> changing_state x (Suc j) (sample d x) \<and> rd_hold_qualified (sample d x) = rd_hold_qualified d"
  by (auto simp: changing_state_def detector_step)

lemma changing_four:
  assumes "changing_state x 1 d"
  shows "changing_state x 4 (sample (sample (sample d x) x) x)
    \<and> rd_hold_qualified (sample (sample (sample d x) x) x) = rd_hold_qualified d"
  using changing_more [of x 1 d] changing_more [of x 2 "sample d x"] changing_more [of x 3 "sample (sample d x) x"] assms
  by (simp add: numeral_eq_Suc)

lemma pressed_start: "released_state d \<Longrightarrow> pressed_state 1 (foldl sample d (replicate 5 False))"
proof -
  assume "released_state d"
  then have "changing_state False 1 (sample d False)" "\<not> rd_hold_qualified (sample d False)"
    by (auto simp: released_state_def detector_step changing_state_def)
  note this(1) changing_four [OF this(1)]
  then show ?thesis unfolding five_times by (auto simp: changing_state_def detector_step pressed_state_def)
qed

lemma pressed_more: "pressed_state k d \<Longrightarrow> pressed_state (k + n) (foldl sample d (replicate n False))"
proof (induction n arbitrary: d k)
  case (Suc n)
  have "pressed_state (Suc k) (sample d False)"
    using Suc.prems by (auto simp: pressed_state_def detector_step)
  from Suc.IH [OF this] show ?case by simp
qed simp

lemma press_triggers: "pressed_state 500 d \<Longrightarrow> rd_triggered (foldl sample d (replicate 5 True))"
proof -
  assume "pressed_state 500 d"
  then have c: "changing_state True 1 (sample d True)" and q: "rd_hold_qualified (sample d True)"
    by (auto simp: pressed_state_def detector_step changing_state_def)
  show ?thesis using changing_four [OF c] q unfolding five_times by (auto simp: changing_state_def detector_step)
qed

lemma clean_press_triggers:
  assumes "5 \<le> a" "504 \<le> b"
  shows "rd_triggered (detector_after h (earlier @ replicate a True @ replicate b False @ replicate 5 True))"
proof -
  obtain a' b' where ab: "a = 5 + a'" "b = 5 + b'" "500 \<le> 1 + b'"
    using that [of "a - 5" "b - 5"] assms by simp
  let ?d0 = "foldl sample (detector_after h earlier) (replicate 5 True)"
  let ?d1 = "foldl sample ?d0 (replicate a' True)"
  let ?d2 = "foldl sample ?d1 (replicate b False)"
  have d2: "detector_after h (earlier @ replicate a True @ replicate b False @ replicate 5 True)
      = foldl sample ?d2 (replicate 5 True)"
    by (simp only: detector_after_def ab(1) replicate_add foldl_append)
  show ?thesis
  proof (cases "rd_triggered ?d0")
    case True
    then show ?thesis unfolding d2 by (simp add: triggered_run)
  next
    case False
    then have "released_state ?d0" using released_start by blast
    from released_more [OF this] have "released_state ?d1" .
    from pressed_more [OF pressed_start [OF this], of b'] have "pressed_state (1 + b') ?d2"
      unfolding ab(2) replicate_add foldl_append .
    then have "pressed_state 500 ?d2" using ab(3) by (auto simp: pressed_state_def)
    then show ?thesis unfolding d2 by (rule press_triggers)
  qed
qed

lemma triggered_append: "rd_triggered (detector_after h xs) \<Longrightarrow> rd_triggered (detector_after h (xs @ ys))"
  by (induction ys rule: rev_induct)
    (simp_all add: detector_after_snoc triggered_stays append_assoc [symmetric] del: append_assoc)

text \<open>
  C38: Local recovery takes a deliberate press, once. From the start of the task on, whatever the
  samples of the pin, the recovery request is committed at most once, and only after the button
  was seen released, then held for ten seconds of samples without a debounced release, and then
  released for five samples. Conversely, whatever came before (short presses and bounces
  included), an unbroken press of at least 504 samples between a release of at least five
  samples and one of five leaves the request committed, by this press or by an earlier long
  one. After a commit, also a failed one, no press has any effect.
\<close>

theorem recovery_needs_long_press:
  assumes "recovery_rounds ops samples r w = (r', w')" "ly_detector r = argus_recovery_detector_init h"
  shows "(w' = w \<or> w' = snd (argus_local_recovery_commit (Some ops) w) \<and> (\<exists>a b. samples = a @ b \<and> long_press a))
    \<and> (\<forall>earlier m n rest. samples = earlier @ replicate m True @ replicate n False @ replicate 5 True @ rest
         \<longrightarrow> 5 \<le> m \<longrightarrow> 504 \<le> n \<longrightarrow> w' = snd (argus_local_recovery_commit (Some ops) w))"
proof -
  note inv = recovery_rounds_inv [OF assms]
  have "w' = snd (argus_local_recovery_commit (Some ops) w)"
    if "samples = earlier @ replicate m True @ replicate n False @ replicate 5 True @ rest" "5 \<le> m" "504 \<le> n"
    for earlier m n rest
  proof -
    have "rd_triggered (detector_after h samples)"
      using triggered_append [OF clean_press_triggers [OF that(2,3), of h earlier], of rest]
      unfolding that(1) append_assoc .
    then show ?thesis using inv by simp
  qed
  then show ?thesis using inv by (auto split: if_splits)
qed

text \<open>A table that counts its calls.\<close>

definition counting_ops :: "(nat \<times> nat) recovery_ops" where
  "counting_ops = \<lparr> ry_persist_request = (\<lambda>(p, q). (ESP_OK, (Suc p, q))), ry_post_network_request = (\<lambda>(p, q). (ESP_OK, (p, Suc q))) \<rparr>"

definition fresh_recovery :: local_recovery where
  "fresh_recovery = \<lparr> ly_detector = argus_recovery_detector_init False, ly_mutex = True, ly_task = True, ly_trigger_count = 0 \<rparr>"

text \<open>A short press first, then a long one.\<close>

definition two_presses :: "bool list" where
  "two_presses = (replicate 5 True @ replicate 20 False) @ replicate 5 True @ replicate 504 False @ replicate 5 True @ [False, True]"

theorem recovery_needs_long_press_witness:
  "snd (recovery_rounds counting_ops two_presses fresh_recovery (0, 0)) = (1, 1)
   \<and> snd (recovery_rounds counting_ops [False, True] fresh_recovery (0, 0)) = (0, 0)"
proof -
  obtain r1 w1 r2 w2 where run: "recovery_rounds counting_ops two_presses fresh_recovery (0, 0) = (r1, w1)"
      "recovery_rounds counting_ops [False, True] fresh_recovery (0, 0) = (r2, w2)" using prod.exhaust by metis
  have d: "ly_detector fresh_recovery = argus_recovery_detector_init False" by (simp add: fresh_recovery_def)
  have "\<forall>earlier m n rest. two_presses = earlier @ replicate m True @ replicate n False @ replicate 5 True @ rest
      \<longrightarrow> 5 \<le> m \<longrightarrow> 504 \<le> n \<longrightarrow> w1 = snd (argus_local_recovery_commit (Some counting_ops) (0, 0))"
    using recovery_needs_long_press [OF run(1) d] by (rule conjunct2)
  from this [rule_format, OF two_presses_def] have "w1 = (1, 1)"
    by (simp add: argus_local_recovery_commit_def counting_ops_def)
  moreover have "\<not> long_press a" if "[False, True] = a @ b" for a b
    using arg_cong [OF that, of length] by (auto simp: long_press_def)
  then have "w2 = (0, 0)" using recovery_needs_long_press [OF run(2) d] by blast
  ultimately show ?thesis using run by simp
qed

end
