(* ===== verification/Spec2Isabelle.thy ===== *)
theory Spec2Isabelle
  imports Cmd_Router Session_Props Nvs_Platform Service_Entry Security_Runs Mqtt_Client_Loop Mqtt_Broker_Props
    Machine_Service_Props Machine_Auth_Props Mqtt_Redelivery_Props Audit_Reads Auth_Limits Admin_Lockout
    Restart_Reset_Props Browser_Props Http_Props Local_Recovery
begin

text \<open>
  Verification library of the pump controller firmware (ESP32, C, under \<open>src/main\<close>).

  \<^bold>\<open>The program.\<close> The controller drives a peristaltic pump with a stepper motor. A pulse engine
  (\<open>argus_step_gen.c\<close>) produces STEP edges from a hardware timer; a ramp engine
  (\<open>argus_trajectory.c\<close>) moves the speed towards a target every 20 ms and calls the pulse
  engine; the machine state manager (\<open>argus_state_mgr.c\<close>) owns start, stop, emergency stop,
  fault and recovery and calls the ramp engine through a table of operations. Commands come
  from a browser, from a local panel over an embedded MQTT broker (\<open>argus_mqtt_broker.c\<close>) or
  from a console; a payload parser (\<open>argus_cmd_parser.c\<close>) and the command router
  (\<open>argus_cmd_router.c\<close>) let a command reach the state manager only if the authority manager
  (\<open>argus_authority_mgr.c\<close>) grants its source. The network manager (\<open>argus_net_mgr.c\<close>) moves
  the device into an isolated local service mode, under the policy of
  \<open>argus_service_policy.c\<close>. The configuration (\<open>argus_nvs_config.c\<close>) and the security manifest
  (\<open>argus_security_store.c\<close>) live in two-slot stores with a selector on the platform's NVS.
  On top of the broker, \<open>argus_mqtt_contract.c\<close> and \<open>argus_mqtt_runtime.c\<close> decode the messages, keep the
  lease on the command authority and hand commands to the router.
  Enrolled machines live in a directory of the same shape (\<open>argus_machine_directory.c\<close>), which
  \<open>argus_machine_service.c\<close> administers and authenticates the broker's clients against.
  Sessions, capability checks and password records are \<open>argus_session_manager.c\<close>,
  \<open>argus_authorization.c\<close> and \<open>argus_password_verifier.c\<close>.

  \<^bold>\<open>How the code is modelled.\<close> Static variables are records; unsigned integers are words of
  their width, so that they wrap; signed integers are integers with lemmas that bound them;
  an operation is a function from the state to a status and the new state, with one branch
  per early return. A function of the platform (timer, GPIO, NVS, sockets, random source,
  SHA-256, HMAC) is an argument. A mutex that a function holds from its first access to its
  last makes it one step; where the code releases a mutex and takes it again, the definition
  is split into sections, and the gaps are arguments or steps of a relation. Definitions keep
  the names of the code; helper definitions name a block of the function they belong to.

  \<^bold>\<open>Theories, in the order of the code.\<close>

  \<^item> \<open>Argus_Prelude\<close>: word types, status codes, C character and string routines, lemmas on
    lists, words and bytes shared by the components.

  \<^item> \<open>Motion_Config\<close> (\<open>argus_config.c\<close>, \<open>argus_conversions.c\<close>), \<open>Step_Gen\<close>, \<open>Step_Gen_Inv\<close>,
    \<open>Step_Gen_Timing\<close>, \<open>Step_Gen_Props\<close> (\<open>argus_step_gen.c\<close>). The pins always carry the levels
    of the software state and STEP is active only while the driver is enabled; at a constant
    rate the pulses have exactly the rational period, rounded to a tick; the rate setter
    accepts exactly the periods of at least 300 ticks; after a stop no late interrupt steps.
    The pulse train assumes timely interrupts (less than 120 ticks late) and a time base that
    does not wrap during the train; both are hypotheses of the theorem. Each operation of the
    pulse engine and each interrupt is one step: races between the interrupt on one core and the
    body of an operation on the other are outside the model, and so is the wrap-around of the
    64-bit step count, which is an unbounded integer.

  \<^item> \<open>Trajectory\<close>, \<open>Trajectory_Props\<close> (\<open>argus_trajectory.c\<close>). Speeds stay in the configured range,
    so the 32-bit arithmetic of the code does not overflow; the ramp converges and never
    overshoots; reversals pass through zero; what it commands the pulse engine accepts. A
    recovery is fail-safe whatever the other tasks do during its wait of 500 ms.

  \<^item> \<open>State_Mgr\<close>, \<open>State_Mgr_Props\<close> (\<open>argus_state_mgr.c\<close>). The pure core runs over a table of
    operations; locale \<open>motion_contract\<close> states what the table promises, and the interpretation
    discharges it for the production table over the ramp engine. While the emergency stop is
    latched the motor is at rest; a start that overlaps an emergency stop is refused.

  \<^item> \<open>Cmd_Parser\<close>, \<open>Authority\<close>, \<open>Cmd_Router\<close>. The parsers accept exactly their languages; at most
    one external source has authority; the router runs an ordinary command exactly when it has
    the current generation and comes from the source in control, and every safety request as an
    emergency stop; an ordinary command that was formed under an older authority generation is
    refused, as long as fewer than \<open>2 ^ 32\<close> changes lie between; dispatch and the probe decide
    alike; an emergency stop is never refused.

  \<^item> \<open>Authorization\<close>, \<open>Session\<close>, \<open>Session_Props\<close>, \<open>Password\<close>. Delegation never escalates; a
    session authenticates with its own token and no other, until it expires or is revoked;
    the cooperative derivation loop is PBKDF2 of RFC 8018 for one block. The token generator of
    the code retries at most four times; the bound is the code's own.

  \<^item> \<open>Identity\<close>, \<open>Crc32\<close>, \<open>Nvs_Config\<close>, \<open>Nvs_Manager\<close>, \<open>Nvs_Props\<close>, \<open>Nvs_Platform\<close>
    (\<open>argus_identity.c\<close>, \<open>argus_nvs_config.c\<close>). Locale \<open>slot_driver\<close> is the contract of the
    driver under the core, locale \<open>nvs_platform\<close> the documented behaviour of the NVS calls;
    the production driver is shown to implement the first on every instance of the second, and
    the second is interpreted on a concrete flash. A commit survives every failed write and
    every loss of power, and after a success the new settings are served, except when they drop
    a recorded identity: then the next start-up returns to the old ones; the identity lock is
    monotone; an interrupted factory reset is
    completed; a changed byte is detected by the checksum.

  \<^item> \<open>Security_Store\<close>, \<open>Security_Manager\<close>, \<open>Security_Props\<close>, \<open>Security_Runs\<close>
    (\<open>argus_security_store.c\<close>). The records and validators, the two-slot core, the writer task and
    all operations of the manager. Locales \<open>manifest_driver\<close> and \<open>secure_nvs\<close> with a sublocale
    between them; an update is atomic under every failure, and in every run of start-ups, power
    cycles and updates the manager serves a valid manifest that the flash holds.

  \<^item> \<open>Net_Types\<close>, \<open>Service_Policy\<close>, \<open>Service_Entry\<close> (\<open>argus_net_mgr.c\<close>, \<open>argus_service_policy.c\<close>).
    The policy as an exact table; the transition into local service with its production locks
    and checks: authority is granted last, to a machine at rest behind an isolated network, and
    every path releases both mutexes.

  \<^item> \<open>Mqtt_Wire\<close>, \<open>Mqtt_Wire_Props\<close>, \<open>Mqtt_Invalidation\<close>, \<open>Mqtt_Broker\<close>, \<open>Mqtt_Lifecycle\<close>,
    \<open>Mqtt_Client_Loop\<close>, \<open>Mqtt_Broker_Props\<close> (\<open>argus_mqtt_broker.c\<close>, \<open>argus_mqtt_invalidation.c\<close>). The
    client task hands its handlers the packets that were sent, in order, under every segmentation of
    the stream, until it reaps a silent peer, refuses a packet or is asked to disconnect; the CONNECT parser accepts exactly the encodings of well-formed
    requests; topic filters match level by level. The tasks of the broker are a step relation
    with one step per section under the client lock: the connection pools keep their bounds,
    and a connection never outlives an invalidation of its machine (for fewer than \<open>2 ^ 64\<close>
    invalidations, where the journal's generation would wrap).

  \<^item> \<open>Directory_Nvs\<close>, \<open>Machine_Directory\<close>, \<open>Machine_Directory_Props\<close> (\<open>argus_machine_directory.c\<close>). Locales
    \<open>slot_store\<close>, \<open>directory_nvs\<close> and \<open>readable_nvs\<close> are the two-slot store, the NVS calls and
    their readability; a commit is atomic under every failure, and the next start-up serves
    exactly what the flash holds.

  \<^item> \<open>Machine_Service\<close>, \<open>Machine_Service_Props\<close>, \<open>Machine_Auth\<close>, \<open>Machine_Auth_Props\<close>
    (\<open>argus_machine_service.c\<close>). Histories of overlapping administrative operations: a successful
    one replaces the very directory it read, machine permissions stay under their ceiling and
    are those its own actor asked for and may give within its scope, and a principal that was issued before a change of its
    machine is never accepted again (as long as the directory's generation does not wrap). The
    budget of key derivations is bounded in every window of ten seconds and keeps a share for
    proven sources.

  \<^item> \<open>Mqtt_Contract\<close>, \<open>Mqtt_Lease\<close> (\<open>argus_mqtt_contract.c\<close>), \<open>Mqtt_Authority\<close>
    (\<open>argus_mqtt_security.c\<close> and the pure part of \<open>argus_mqtt_runtime.c\<close>), \<open>Mqtt_Runtime\<close>, \<open>Mqtt_Handlers\<close>
    (\<open>argus_mqtt_runtime.c\<close>): the wire contract, the lease on the command authority with its epoch,
    the handlers, the callbacks of the broker, the start and the tick. \<open>Mqtt_Decode_Props\<close>: the decoders
    accept only well-formed values and decode the plain form of each to itself.
    \<open>Mqtt_Session_Props\<close>, \<open>Mqtt_Runtime_Props\<close>, \<open>Mqtt_Authority_Props\<close>, \<open>Mqtt_Redelivery_Props\<close>: the sections
    under the runtime's mutex are a step relation that the handlers refine; a command reaches the
    machine exactly when it carries the lease, never with an epoch from before a move of the
    lease (for fewer than \<open>2 ^ 32 - 1\<close> moves); the lease moves only by release, expiry or a grant the
    profile permits, and never away from a supervisor that was heard; redelivered requests get
    the same answer and do nothing; the start terminates.

  \<^item> \<open>Audit_Log\<close>, \<open>Audit_Log_Props\<close>, \<open>Audit_Reads\<close> (\<open>argus_security_audit.c\<close>). The ring of audit records with
    its writer task. Locales \<open>audit_nvs\<close> and \<open>readable_audit\<close>; in every history of start-ups, requests,
    failed writes and losses of power the log shows the newest 255 records without gaps and keeps
    every acknowledged one; pages show it exactly; a mutation whose conclusion was not recorded
    blocks the next.

  \<^item> \<open>Human_Directory\<close>, \<open>Human_Directory_Props\<close> (\<open>argus_security_directory.c\<close>). The accounts and custom roles, in
    the two-slot store of \<open>Directory_Nvs\<close>: a commit keeps the stored directory or replaces it, the next
    start-up serves exactly the selected slot; two ways to strand the directory are shown.

  \<^item> \<open>Auth_Service\<close>, \<open>Auth_Props\<close>, \<open>Auth_Limits\<close> (\<open>argus_auth_service.c\<close>). A login proves the password of a
    usable account; failures of different causes cannot be told apart while the records of the name can
    be read (an unprovisioned console is answered differently, which a lemma shows); successive attempts are
    throttled to nine failures in thirty seconds; in every interleaving of logins and creations of
    verifiers no reservation is lost. Overlapping attempts are outside of the throttle's bound: a lemma
    shows how a stale clock reading forgets failures.

  \<^item> \<open>Security_Admin\<close>, \<open>Security_Admin_Props\<close>, \<open>Admin_Safety\<close>, \<open>Admin_Lockout\<close> (\<open>argus_security_admin.c\<close>). The
    operations on accounts and roles. A success is a change of the very directory that was read (as
    long as the directory's generation does not come round in between); no change gives an account
    a permission that the actor could not give; every operation but the assignment of roles leaves
    an administrator.

  \<^item> \<open>Restart_Reset\<close>, \<open>Restart_Reset_Props\<close> (\<open>argus_restart_mgr.c\<close>, \<open>argus_factory_reset.c\<close>). The two sequences
    over tables of operations that may answer anything, with the log of their calls: the
    configuration is erased and the device restarted only at the end of the guarded sequence; the
    request decoder accepts exactly one object. \<open>Call_Log\<close> is the log of the calls to such a table.

  \<^item> \<open>Browser_Command\<close>, \<open>Browser_Props\<close> (\<open>argus_browser_command.c\<close>, \<open>argus_browser_command_endpoint.c\<close>).
    The decoder of a browser command and its endpoint: what is decoded is a well-formed command, each
    command is decoded from its plain form, and the endpoint dispatches at most one command, under
    the authority generation that it read.

  \<^item> \<open>Http_Security\<close>, \<open>Http_Props\<close> (\<open>argus_http_security.c\<close>). The checks of a browser request over the session
    manager, the directory, the security store and the classification of the interface: an accepted
    request arrived on the access point with the cookie of a live session of a current account that
    holds the required permissions, and a mutation also passed the origin and CSRF checks.

  \<^item> \<open>Local_Recovery\<close> (\<open>argus_local_recovery.c\<close>). The detector of the recovery button, the commit and the
    sampling task: the request is committed at most once, only after a deliberate press of ten
    seconds, and always after an unbroken one of 504 samples, whatever presses came before. The table of operations may answer anything.

  \<^bold>\<open>Loops and fuel.\<close> Loops of the code are structural recursion over the array or the byte
  list they walk, or over the attempt counter the code has (token draws, convergence polls,
  readback). The loop of a client task takes a number of rounds, and a result without an exit means
  that it is still running; the theorem about it says that from some number on every number of
  rounds gives all the packets or an early exit with its reason. The draws of a
  session identifier repeat until they are not zero: the loop is a partial function, and it is
  shown to return whenever the random source gives such a draw; so is the draw of the audit
  log's boot identifier.

  \<^bold>\<open>Not modelled.\<close> Logging, task creation and priorities, stack measurement, the application's
  start-up and diagnostic console (\<open>app_main.c\<close>) and the built-in test suites (\<open>argus_tests*.c\<close>), which
  are no part of the product's decisions. The Wi-Fi driver glue and the event task of the network
  manager, and the HTTP server's sockets, pages and route handlers (\<open>argus_http_server.c\<close>,
  \<open>argus_security_http.c\<close>, \<open>argus_http_route_inventory.c\<close>): they are input and output through the
  platform around the modelled checks and operations. The migration, transition and provisioning of
  credentials (\<open>argus_security_migration.c\<close>, \<open>argus_security_transition.c\<close>,
  \<open>argus_security_provisioning.c\<close>, \<open>argus_factory_credential.c\<close>) and the configuration overlay
  (\<open>argus_config_overlay.c\<close>) are own logic that this library leaves out; they only call the modelled
  stores. \<open>argus_json.c\<close> is called by tests only.
\<close>

end
